(* ===== verification/Prelude.thy ===== *)
theory Prelude
  imports Main "HOL-Library.AList"
begin

text \<open>
  The shared prelude of the development: the JavaScript values, strings and numbers the
  frontend computes with, the result type of code that may throw, the observable effects of
  an Angular component (requests, snack bars, dialogs, navigation, cookies), and the base
  record that every component state extends.

  JavaScript strings are \<open>string\<close> (lists of 8-bit code units); \<open>toLowerCase\<close> and
  \<open>toUpperCase\<close> act on the ASCII letters. Numbers are integers with \<open>None\<close> for
  \<open>NaN\<close> where the source can produce it. Objects are association lists in insertion
  order, which is the enumeration order of \<open>Object.keys\<close> and \<open>for .. in\<close> for the
  non-numeric keys the frontend uses.
\<close>

section \<open>Collections of facts\<close>

named_theorems trace_simps \<open>how an operation changes the effect trace\<close>
named_theorems frame_simps \<open>the fields an operation leaves alone\<close>

section \<open>JavaScript values\<close>

datatype js =
    JUndef
  | JNull
  | JBool bool
  | JNum int
  | JStr string
  | JArr "js list"
  | JObj "(string \<times> js) list"

datatype js_error = TypeError | SyntaxError | RangeError | URIError

fun truthy :: "js \<Rightarrow> bool" where
  "truthy JUndef = False"
| "truthy JNull = False"
| "truthy (JBool b) = b"
| "truthy (JNum n) = (n \<noteq> 0)"
| "truthy (JStr s) = (s \<noteq> [])"
| "truthy (JArr _) = True"
| "truthy (JObj _) = True"

section \<open>Strings and numbers\<close>

definition digit_char :: "nat \<Rightarrow> char" where
  "digit_char n = char_of (48 + n)"

definition is_digit :: "char \<Rightarrow> bool" where
  "is_digit c \<longleftrightarrow> 48 \<le> (of_char c :: nat) \<and> (of_char c :: nat) \<le> 57"

definition digit_val :: "char \<Rightarrow> nat" where
  "digit_val c = of_char c - 48"

definition is_lower :: "char \<Rightarrow> bool" where
  "is_lower c \<longleftrightarrow> 97 \<le> (of_char c :: nat) \<and> (of_char c :: nat) \<le> 122"

definition is_upper :: "char \<Rightarrow> bool" where
  "is_upper c \<longleftrightarrow> 65 \<le> (of_char c :: nat) \<and> (of_char c :: nat) \<le> 90"

definition lower_char :: "char \<Rightarrow> char" where
  "lower_char c = (if is_upper c then char_of ((of_char c :: nat) + 32) else c)"

definition upper_char :: "char \<Rightarrow> char" where
  "upper_char c = (if is_lower c then char_of ((of_char c :: nat) - 32) else c)"

definition toLowerCase :: "string \<Rightarrow> string" where
  "toLowerCase s = map lower_char s"

definition toUpperCase :: "string \<Rightarrow> string" where
  "toUpperCase s = map upper_char s"

definition is_space :: "char \<Rightarrow> bool" where
  "is_space c \<longleftrightarrow> (of_char c :: nat) \<in> {9, 10, 11, 12, 13, 32, 160}"

definition trim :: "string \<Rightarrow> string" where
  "trim s = rev (dropWhile is_space (rev (dropWhile is_space s)))"

text \<open>\<open>s.split(c)\<close> for a one-character separator: never the empty list.\<close>

fun js_split :: "char \<Rightarrow> string \<Rightarrow> string list" where
  "js_split c [] = [[]]"
| "js_split c (x # xs) =
     (if x = c then [] # js_split c xs
      else (case js_split c xs of [] \<Rightarrow> [[x]] | p # ps \<Rightarrow> (x # p) # ps))"

fun js_join :: "string \<Rightarrow> string list \<Rightarrow> string" where
  "js_join sep [] = []"
| "js_join sep [x] = x"
| "js_join sep (x # y # ys) = x @ sep @ js_join sep (y # ys)"

text \<open>\<open>s.startsWith(p)\<close>, \<open>s.indexOf(p)\<close> (\<open>None\<close> for -1) and \<open>s.includes(p)\<close>.\<close>

fun starts_with :: "string \<Rightarrow> string \<Rightarrow> bool" where
  "starts_with [] _ = True"
| "starts_with (_ # _) [] = False"
| "starts_with (p # ps) (x # xs) = (p = x \<and> starts_with ps xs)"

fun index_of :: "string \<Rightarrow> string \<Rightarrow> nat option" where
  "index_of p [] = (if p = [] then Some 0 else None)"
| "index_of p (x # xs) =
     (if starts_with p (x # xs) then Some 0 else map_option Suc (index_of p xs))"

definition str_includes :: "string \<Rightarrow> string \<Rightarrow> bool" where
  "str_includes s p \<longleftrightarrow> index_of p s \<noteq> None"

fun show_nat :: "nat \<Rightarrow> string" where
  "show_nat n = (if n < 10 then [digit_char n] else show_nat (n div 10) @ [digit_char (n mod 10)])"

declare show_nat.simps [simp del]

definition show_int :: "int \<Rightarrow> string" where
  "show_int i = (if i < 0 then ''-'' @ show_nat (nat (- i)) else show_nat (nat i))"

text \<open>The value of a string of decimal digits.\<close>

definition dec_value :: "string \<Rightarrow> nat" where
  "dec_value s = foldl (\<lambda>acc c. acc * 10 + digit_val c) 0 s"

text \<open>\<open>parseInt(s, 10)\<close>: leading white space, an optional sign, the longest run of digits;
  \<open>None\<close> is \<open>NaN\<close>.\<close>

definition parseInt10 :: "string \<Rightarrow> int option" where
  "parseInt10 s =
     (let t = dropWhile is_space s;
          neg = (t \<noteq> [] \<and> hd t = CHR ''-'');
          u = (if t \<noteq> [] \<and> (hd t = CHR ''-'' \<or> hd t = CHR ''+'') then tl t else t);
          ds = takeWhile is_digit u
      in if ds = [] then None
         else Some (if neg then - int (dec_value ds) else int (dec_value ds)))"

text \<open>String conversion as template literals and \<open>+\<close> perform it.\<close>

fun js_to_string :: "js \<Rightarrow> string"
  and js_elem_string :: "js \<Rightarrow> string" where
  "js_to_string JUndef = ''undefined''"
| "js_to_string JNull = ''null''"
| "js_to_string (JBool b) = (if b then ''true'' else ''false'')"
| "js_to_string (JNum n) = show_int n"
| "js_to_string (JStr s) = s"
| "js_to_string (JArr vs) = js_join '','' (map js_elem_string vs)"
| "js_to_string (JObj _) = ''[object Object]''"
| "js_elem_string JUndef = []"
| "js_elem_string JNull = []"
| "js_elem_string (JBool b) = (if b then ''true'' else ''false'')"
| "js_elem_string (JNum n) = show_int n"
| "js_elem_string (JStr s) = s"
| "js_elem_string (JArr vs) = js_join '','' (map js_elem_string vs)"
| "js_elem_string (JObj _) = ''[object Object]''"

text \<open>\<open>JSON.stringify\<close>: \<open>None\<close> is \<open>undefined\<close>, the result for \<open>undefined\<close>;
  inside an array \<open>undefined\<close> is written as \<open>null\<close>, inside an object the property
  is left out.\<close>

definition hex_digit :: "nat \<Rightarrow> char" where
  "hex_digit n = (if n < 10 then digit_char n else char_of (87 + n))"

definition json_escape :: "char \<Rightarrow> string" where
  "json_escape c =
     (let n = (of_char c :: nat) in
      if n = 34 then [CHR 0x5C, CHR 0x22]
      else if n = 92 then [CHR 0x5C, CHR 0x5C]
      else if n = 8 then [CHR 0x5C, CHR ''b'']
      else if n = 9 then [CHR 0x5C, CHR ''t'']
      else if n = 10 then [CHR 0x5C, CHR ''n'']
      else if n = 12 then [CHR 0x5C, CHR ''f'']
      else if n = 13 then [CHR 0x5C, CHR ''r'']
      else if n < 32 then CHR 0x5C # ''u00'' @ [hex_digit (n div 16), hex_digit (n mod 16)]
      else [c])"

definition json_quote :: "string \<Rightarrow> string" where
  "json_quote s = [CHR 0x22] @ concat (map json_escape s) @ [CHR 0x22]"

fun json_text :: "js \<Rightarrow> string" where
  "json_text JUndef = ''null''"
| "json_text JNull = ''null''"
| "json_text (JBool b) = (if b then ''true'' else ''false'')"
| "json_text (JNum n) = show_int n"
| "json_text (JStr s) = json_quote s"
| "json_text (JArr vs) = ''['' @ js_join '','' (map json_text vs) @ '']''"
| "json_text (JObj kvs) =
     ''{'' @ js_join '','' (map (\<lambda>kv. json_quote (fst kv) @ '':'' @ json_text (snd kv))
       (filter (\<lambda>kv. snd kv \<noteq> JUndef) kvs)) @ ''}''"

definition JSON_stringify :: "js \<Rightarrow> string option" where
  "JSON_stringify v = (if v = JUndef then None else Some (json_text v))"

section \<open>Arrays\<close>

text \<open>\<open>xs.findIndex(p)\<close>; \<open>None\<close> is -1.\<close>

fun find_index :: "('a \<Rightarrow> bool) \<Rightarrow> 'a list \<Rightarrow> nat option" where
  "find_index p [] = None"
| "find_index p (x # xs) = (if p x then Some 0 else map_option Suc (find_index p xs))"

text \<open>\<open>xs[i] = v\<close> for an index that \<open>findIndex\<close> returned. A write at -1 sets a
  property named \<open>-1\<close> and leaves the elements alone.\<close>

definition write_at :: "'a list \<Rightarrow> nat option \<Rightarrow> 'a \<Rightarrow> 'a list" where
  "write_at xs i v = (case i of None \<Rightarrow> xs | Some n \<Rightarrow> xs[n := v])"

text \<open>\<open>xs.splice(i, 1)\<close>. At -1 it removes the last element.\<close>

definition splice1 :: "'a list \<Rightarrow> nat option \<Rightarrow> 'a list" where
  "splice1 xs i = (case i of None \<Rightarrow> butlast xs | Some n \<Rightarrow> take n xs @ drop (Suc n) xs)"

section \<open>Properties\<close>

text \<open>The element of an array or string named by a property key: a canonical decimal index.\<close>

definition element_index :: "string \<Rightarrow> nat \<Rightarrow> nat option" where
  "element_index k n = find_index (\<lambda>j. j = k) (map show_nat [0..<n])"

text \<open>Property read on a value that is neither \<open>undefined\<close> nor \<open>null\<close>; data properties only, a
  method of the prototype is no value of the model.\<close>

fun js_get :: "js \<Rightarrow> string \<Rightarrow> js" where
  "js_get (JObj kvs) k = (case map_of kvs k of None \<Rightarrow> JUndef | Some v \<Rightarrow> v)"
| "js_get (JArr vs) k =
     (if k = ''length'' then JNum (int (length vs))
      else case element_index k (length vs) of None \<Rightarrow> JUndef | Some i \<Rightarrow> vs ! i)"
| "js_get (JStr s) k =
     (if k = ''length'' then JNum (int (length s))
      else case element_index k (length s) of None \<Rightarrow> JUndef | Some i \<Rightarrow> JStr [s ! i])"
| "js_get _ _ = JUndef"

text \<open>Property read as the language has it: reading a property of \<open>undefined\<close> or
  \<open>null\<close> throws.\<close>

fun js_index :: "js \<Rightarrow> string \<Rightarrow> js_error + js" where
  "js_index JUndef _ = Inl TypeError"
| "js_index JNull _ = Inl TypeError"
| "js_index v k = Inr (js_get v k)"

fun js_set :: "js \<Rightarrow> string \<Rightarrow> js \<Rightarrow> js" where
  "js_set (JObj kvs) k v = JObj (AList.update k v kvs)"
| "js_set w _ _ = w"

fun js_keys :: "js \<Rightarrow> string list" where
  "js_keys (JObj kvs) = map fst kvs"
| "js_keys (JArr vs) = map show_nat [0..<length vs]"
| "js_keys (JStr s) = map show_nat [0..<length s]"
| "js_keys _ = []"

section \<open>Effects and the base state\<close>

datatype http_method = GET | POST | PUT | DELETE

datatype effect =
    Http http_method string js
  | SnackOpen js string "int option" "string list"
  | SnackDismiss nat
  | DialogOpen string js
  | DialogClose js
  | Navigate string js
  | OpenTab string
  | SetCookie string string
  | SetTitle string
  | Console string
  | SaveFile string
  | ClickLink string string

fun is_snack :: "effect \<Rightarrow> bool" where
  "is_snack (SnackOpen _ _ _ _) = True"
| "is_snack _ = False"

fun is_http :: "effect \<Rightarrow> bool" where
  "is_http (Http _ _ _) = True"
| "is_http _ = False"

text \<open>The part of the state every component shares: the trace of effects so far and the
  snack bar reference that the root service \<open>MatSnackBarService\<close> keeps. A snack bar is
  named by the number of snack bars opened before it.\<close>

record world =
  trace :: "effect list"
  matSnackBarRef :: "nat option"

type_synonym 's run = "js_error + 's"

definition emit :: "effect \<Rightarrow> 'a world_scheme \<Rightarrow> 'a world_scheme" where
  "emit e w = w\<lparr>trace := trace w @ [e]\<rparr>"

definition http :: "http_method \<Rightarrow> string \<Rightarrow> js \<Rightarrow> 'a world_scheme \<Rightarrow> 'a world_scheme" where
  "http m url body = emit (Http m url body)"

definition snack_count :: "effect list \<Rightarrow> nat" where
  "snack_count es = length (filter is_snack es)"

text \<open>The requests sent so far.\<close>

definition sent :: "'a world_scheme \<Rightarrow> effect list" where
  "sent w = filter is_http (trace w)"

section \<open>Lemmas\<close>

lemma emit_trace [simp, trace_simps]: "trace (emit e w) = trace w @ [e]"
  by (simp add: emit_def)

lemma emit_ref [simp, frame_simps]: "matSnackBarRef (emit e w) = matSnackBarRef w"
  by (simp add: emit_def)

lemma emit_more [simp, frame_simps]: "world.more (emit e w) = world.more w"
  by (simp add: emit_def)

lemma http_trace [simp, trace_simps]: "trace (http m u b w) = trace w @ [Http m u b]"
  by (simp add: http_def)

lemma http_ref [simp, frame_simps]: "matSnackBarRef (http m u b w) = matSnackBarRef w"
  by (simp add: http_def)

lemma http_more [simp, frame_simps]: "world.more (http m u b w) = world.more w"
  by (simp add: http_def)

lemma sent_emit [simp]: "\<not> is_http e \<Longrightarrow> sent (emit e w) = sent w"
  by (simp add: sent_def)

lemma sent_http [simp]: "sent (http m u b w) = sent w @ [Http m u b]"
  by (simp add: sent_def)

lemma sent_cong: "trace w = trace w' \<Longrightarrow> sent w = sent w'"
  by (simp add: sent_def)

lemma snack_count_append [simp]: "snack_count (xs @ ys) = snack_count xs + snack_count ys"
  by (simp add: snack_count_def)

lemma snack_count_Nil [simp]: "snack_count [] = 0"
  by (simp add: snack_count_def)

lemma snack_count_Cons [simp]:
  "snack_count (e # es) = (if is_snack e then Suc (snack_count es) else snack_count es)"
  by (simp add: snack_count_def)

lemma js_split_nonempty [simp]: "js_split c s \<noteq> []"
  by (cases s) (auto split: list.splits)

lemma js_split_no_sep: "c \<notin> set s \<Longrightarrow> js_split c s = [s]"
  by (induction s) auto

lemma js_split_append_sep: "c \<notin> set p \<Longrightarrow> js_split c (p @ c # s) = p # js_split c s"
  by (induction p) auto

text \<open>Splitting what was joined with the separator gives the pieces back.\<close>

lemma js_split_join:
  "ps \<noteq> [] \<Longrightarrow> \<forall>p \<in> set ps. c \<notin> set p \<Longrightarrow> js_split c (js_join [c] ps) = ps"
  by (induction "[c]" ps rule: js_join.induct) (auto simp: js_split_no_sep js_split_append_sep)

lemma js_join_split: "js_join [c] (js_split c s) = s"
proof (induction s)
  case (Cons x xs)
  obtain p ps where "js_split c xs = p # ps"
    by (cases "js_split c xs") auto
  with Cons show ?case
    by (cases ps) auto
qed simp

lemma js_split_pieces: "p \<in> set (js_split c s) \<Longrightarrow> c \<notin> set p"
  by (induction s arbitrary: p) (auto split: list.splits if_splits)

lemma find_index_Some:
  "find_index p xs = Some i \<Longrightarrow> i < length xs \<and> p (xs ! i) \<and> (\<forall>j < i. \<not> p (xs ! j))"
proof (induction xs arbitrary: i)
  case (Cons x xs)
  show ?case
  proof (cases "p x")
    case True
    with Cons.prems show ?thesis by simp
  next
    case False
    with Cons.prems obtain k where "find_index p xs = Some k" "i = Suc k"
      by auto
    with Cons.IH [of k] False show ?thesis
      by (auto simp: less_Suc_eq_0_disj)
  qed
qed simp

lemma find_index_None: "find_index p xs = None \<longleftrightarrow> (\<forall>x \<in> set xs. \<not> p x)"
  by (induction xs) auto

lemma find_index_unique:
  assumes "i < length xs" "p (xs ! i)" "\<And>j. j < length xs \<Longrightarrow> j \<noteq> i \<Longrightarrow> \<not> p (xs ! j)"
  shows "find_index p xs = Some i"
proof (cases "find_index p xs")
  case None
  with assms(1,2) show ?thesis by (simp add: find_index_None)
next
  case (Some j)
  with assms(3) [of j] find_index_Some [OF Some] show ?thesis by auto
qed

lemma filter_key:
  assumes "distinct (map f xs)" "d < length xs"
  shows "filter (\<lambda>q. f q \<noteq> f (xs ! d)) xs = take d xs @ drop (Suc d) xs"
proof -
  have "xs = take d xs @ xs ! d # drop (Suc d) xs"
    using assms(2) by (rule id_take_nth_drop)
  with assms(1) have "\<forall>q \<in> set (take d xs) \<union> set (drop (Suc d) xs). f q \<noteq> f (xs ! d)"
    by (metis (no_types, lifting) Un_iff distinct_append distinct.simps(2) image_eqI list.simps(9) map_append
        not_distinct_conv_prefix set_map disjoint_iff list.set_intros(1))
  moreover have "filter P xs = filter P (take d xs) @ filter P [xs ! d] @ filter P (drop (Suc d) xs)" for P
    by (subst id_take_nth_drop [OF assms(2)]) (simp del: append_take_drop_id)
  ultimately show ?thesis by simp
qed

lemma length_write_at [simp]: "length (write_at xs i v) = length xs"
  by (simp add: write_at_def split: option.splits)

lemma set_write_at: "set (write_at xs i v) \<subseteq> insert v (set xs)"
  using set_update_subset_insert by (fastforce simp: write_at_def split: option.splits)

lemma starts_with_append: "starts_with p s \<longleftrightarrow> (\<exists>r. s = p @ r)"
  by (induction p s rule: starts_with.induct) auto

lemma index_of_Some_0: "index_of p s = Some 0 \<longleftrightarrow> starts_with p s"
  by (cases s; cases p) auto

text \<open>\<open>includes\<close> is the substring relation.\<close>

lemma str_includes_iff: "str_includes s p \<longleftrightarrow> (\<exists>a b. s = a @ p @ b)"
proof (induction s)
  case Nil
  show ?case by (simp add: str_includes_def)
next
  case (Cons x xs)
  have "str_includes (x # xs) p \<longleftrightarrow> starts_with p (x # xs) \<or> str_includes xs p"
    by (auto simp: str_includes_def)
  also have "\<dots> \<longleftrightarrow> (\<exists>r. x # xs = p @ r) \<or> (\<exists>a b. xs = a @ p @ b)"
    by (simp add: starts_with_append Cons.IH)
  also have "\<dots> \<longleftrightarrow> (\<exists>a b. x # xs = a @ p @ b)"
    by (metis append_Cons append_Nil list.exhaust list.inject)
  finally show ?case .
qed

lemma map_of_update [simp]: "map_of (AList.update k v kvs) k = Some v"
  by (simp add: update_conv')

lemma js_get_set_same [simp]: "js_get (js_set (JObj kvs) k v) k = v"
  by simp

lemma js_get_set_other: "k \<noteq> k' \<Longrightarrow> js_get (js_set w k v) k' = js_get w k'"
  by (cases w) (simp_all add: update_conv')

section \<open>Event-driven components\<close>

text \<open>A component handles one event at a time: a user action, the answer of a request, a closed
  dialog or a message of the web socket, in any order. The contract of such a component is a
  step function and an invariant that every step keeps; the invariant then holds after every
  sequence of events.\<close>

locale event_machine =
  fixes step :: "'e \<Rightarrow> 's \<Rightarrow> 's"
    and inv :: "'s \<Rightarrow> bool"
  assumes step_inv: "inv s \<Longrightarrow> inv (step e s)"
begin

lemma run_inv: "inv s \<Longrightarrow> inv (fold step es s)"
  by (induction es arbitrary: s) (simp_all add: step_inv)

lemma run_inv_prefix: "inv s \<Longrightarrow> inv (fold step (take n es) s)"
  by (rule run_inv)

end

end
