(* ===== verification/Patterns.thy ===== *)
theory Patterns
  imports Prelude
begin

text \<open>
  The regular expressions of \<open>constants/cvah.constants.ts\<close> and
  \<open>validators/add-node.validator.ts\<close>: a syntax of expressions, a matcher by
  derivatives that evaluates, the language an expression denotes, and the proof that the
  two agree. \<open>test_full\<close> is \<open>RegExp.test\<close> for a pattern anchored with
  \<open>^\<close> and \<open>$\<close>, \<open>test_search\<close> for a pattern without anchors.
\<close>

section \<open>Expressions and the matcher\<close>

datatype regex =
    RNone
  | REps
  | RCh "char \<Rightarrow> bool"
  | RAlt regex regex
  | RSeq regex regex
  | RStar regex

primrec nullable :: "regex \<Rightarrow> bool" where
  "nullable RNone = False"
| "nullable REps = True"
| "nullable (RCh p) = False"
| "nullable (RAlt r s) = (nullable r \<or> nullable s)"
| "nullable (RSeq r s) = (nullable r \<and> nullable s)"
| "nullable (RStar r) = True"

text \<open>Constructors that drop the empty expression, so that derivatives stay small.\<close>

fun mk_alt :: "regex \<Rightarrow> regex \<Rightarrow> regex" where
  "mk_alt RNone s = s"
| "mk_alt r RNone = r"
| "mk_alt r s = RAlt r s"

fun mk_seq :: "regex \<Rightarrow> regex \<Rightarrow> regex" where
  "mk_seq RNone s = RNone"
| "mk_seq REps s = s"
| "mk_seq r s = RSeq r s"

primrec deriv :: "char \<Rightarrow> regex \<Rightarrow> regex" where
  "deriv c RNone = RNone"
| "deriv c REps = RNone"
| "deriv c (RCh p) = (if p c then REps else RNone)"
| "deriv c (RAlt r s) = mk_alt (deriv c r) (deriv c s)"
| "deriv c (RSeq r s) =
     (if nullable r then mk_alt (mk_seq (deriv c r) s) (deriv c s) else mk_seq (deriv c r) s)"
| "deriv c (RStar r) = mk_seq (deriv c r) (RStar r)"

fun rmatch :: "regex \<Rightarrow> string \<Rightarrow> bool" where
  "rmatch r [] = nullable r"
| "rmatch r (c # cs) = rmatch (deriv c r) cs"

section \<open>The pattern syntax the sources use\<close>

definition rchar :: "char \<Rightarrow> regex" where
  "rchar c = RCh (\<lambda>x. x = c)"

definition rrange :: "nat \<Rightarrow> nat \<Rightarrow> regex" where
  "rrange lo hi = RCh (\<lambda>c. lo \<le> (of_char c :: nat) \<and> (of_char c :: nat) \<le> hi)"

definition rdigit :: regex where
  "rdigit = RCh is_digit"

definition ropt :: "regex \<Rightarrow> regex" where
  "ropt r = RAlt r REps"

fun rtimes :: "nat \<Rightarrow> regex \<Rightarrow> regex" where
  "rtimes 0 r = REps"
| "rtimes (Suc n) r = RSeq r (rtimes n r)"

fun rupto :: "nat \<Rightarrow> regex \<Rightarrow> regex" where
  "rupto 0 r = REps"
| "rupto (Suc n) r = ropt (RSeq r (rupto n r))"

definition rany :: regex where
  "rany = RStar (RCh (\<lambda>_. True))"

definition test_full :: "regex \<Rightarrow> string \<Rightarrow> bool" where
  "test_full r s = rmatch r s"

definition test_search :: "regex \<Rightarrow> string \<Rightarrow> bool" where
  "test_search r s = rmatch (RSeq rany (RSeq r rany)) s"

section \<open>The patterns\<close>

text \<open>\<open>IP_CONSTRAINT\<close>: \<open>(2[0-2][0-3])|(1\d\d)|([1-9]?\d)\<close>, two times
  \<open>\.((25[0-5])|(2[0-4]\d)|(1\d\d)|([1-9]?\d))\<close>, and a last octet with
  \<open>25[0-4]\<close>.\<close>

definition small_octets :: regex where
  "small_octets = RAlt (RSeq (rchar CHR ''1'') (RSeq rdigit rdigit)) (RSeq (ropt (rrange 49 57)) rdigit)"

definition octet_first :: regex where
  "octet_first = RAlt (RSeq (rchar CHR ''2'') (RSeq (rrange 48 50) (rrange 48 51))) small_octets"

definition octet_upto :: "nat \<Rightarrow> regex" where
  "octet_upto hi =
     RAlt (RSeq (rchar CHR ''2'') (RSeq (rchar CHR ''5'') (rrange 48 hi)))
      (RAlt (RSeq (rchar CHR ''2'') (RSeq (rrange 48 52) rdigit)) small_octets)"

definition IP_CONSTRAINT :: regex where
  "IP_CONSTRAINT =
     RSeq octet_first
      (RSeq (rtimes 2 (RSeq (rchar CHR ''.'') (octet_upto 53)))
        (RSeq (rchar CHR ''.'') (octet_upto 52)))"

text \<open>\<open>/^[a-z]([a-z0-9-.]){4,39}$/\<close>, the hostname pattern.\<close>

definition host_tail_char :: "char \<Rightarrow> bool" where
  "host_tail_char c \<longleftrightarrow> is_lower c \<or> is_digit c \<or> c = CHR ''-'' \<or> c = CHR ''.''"

definition HOSTNAME_PATTERN :: regex where
  "HOSTNAME_PATTERN = RSeq (RCh is_lower) (RSeq (rtimes 4 (RCh host_tail_char)) (rupto 35 (RCh host_tail_char)))"

text \<open>\<open>/^([0-9a-fA-F][0-9a-fA-F]:){5}([0-9a-fA-F][0-9a-fA-F])$/\<close>.\<close>

definition is_hex :: "char \<Rightarrow> bool" where
  "is_hex c \<longleftrightarrow> is_digit c \<or> (97 \<le> (of_char c :: nat) \<and> (of_char c :: nat) \<le> 102)
     \<or> (65 \<le> (of_char c :: nat) \<and> (of_char c :: nat) \<le> 70)"

definition MAC_PATTERN :: regex where
  "MAC_PATTERN =
     RSeq (rtimes 5 (RSeq (RCh is_hex) (RSeq (RCh is_hex) (rchar CHR '':''))))
       (RSeq (RCh is_hex) (RCh is_hex))"

text \<open>\<open>/([8-9])|([1-9][0-9]{1,})/\<close> and \<open>/([5-9][0-9])|([1-9][0-9]{2,})/\<close>, both without anchors.\<close>

definition MIN_8_PATTERN :: regex where
  "MIN_8_PATTERN = RAlt (rrange 56 57) (RSeq (rrange 49 57) (RSeq rdigit (RStar rdigit)))"

definition MIN_50_PATTERN :: regex where
  "MIN_50_PATTERN = RAlt (RSeq (rrange 53 57) rdigit) (RSeq (rrange 49 57) (RSeq rdigit (RSeq rdigit (RStar rdigit))))"

text \<open>\<open>^[a-zA-Z]{1,50}$\<close>.\<close>

definition SPACE_NAME_CONSTRAINT :: regex where
  "SPACE_NAME_CONSTRAINT = RSeq (RCh (\<lambda>c. is_lower c \<or> is_upper c)) (rupto 49 (RCh (\<lambda>c. is_lower c \<or> is_upper c)))"

section \<open>The language of an expression\<close>

inductive_set star_lang :: "string set \<Rightarrow> string set" for A where
  star_nil: "[] \<in> star_lang A"
| star_step: "u \<in> A \<Longrightarrow> v \<in> star_lang A \<Longrightarrow> u @ v \<in> star_lang A"

primrec rlang :: "regex \<Rightarrow> string set" where
  "rlang RNone = {}"
| "rlang REps = {[]}"
| "rlang (RCh p) = {[c] | c. p c}"
| "rlang (RAlt r s) = rlang r \<union> rlang s"
| "rlang (RSeq r s) = {u @ v | u v. u \<in> rlang r \<and> v \<in> rlang s}"
| "rlang (RStar r) = star_lang (rlang r)"

lemma nullable_iff: "nullable r \<longleftrightarrow> [] \<in> rlang r"
  by (induction r) (auto intro: star_nil)

lemma rlang_mk_alt [simp]: "rlang (mk_alt r s) = rlang r \<union> rlang s"
  by (induction r s rule: mk_alt.induct) auto

lemma rlang_mk_seq [simp]: "rlang (mk_seq r s) = rlang (RSeq r s)"
  by (induction r s rule: mk_seq.induct) auto

lemma star_lang_Cons_iff:
  "c # w \<in> star_lang A \<longleftrightarrow> (\<exists>u v. w = u @ v \<and> c # u \<in> A \<and> v \<in> star_lang A)"
proof
  assume "c # w \<in> star_lang A"
  then show "\<exists>u v. w = u @ v \<and> c # u \<in> A \<and> v \<in> star_lang A"
  proof (induction "c # w" arbitrary: w rule: star_lang.induct)
    case (star_step u v)
    then show ?case by (cases u) auto
  qed
next
  assume "\<exists>u v. w = u @ v \<and> c # u \<in> A \<and> v \<in> star_lang A"
  then obtain u v where "w = u @ v" "c # u \<in> A" "v \<in> star_lang A"
    by blast
  then show "c # w \<in> star_lang A"
    using star_step [of "c # u" A v] by simp
qed

lemma rlang_deriv: "w \<in> rlang (deriv c r) \<longleftrightarrow> c # w \<in> rlang r"
proof (induction r arbitrary: w)
  case (RSeq r s)
  have "c # w \<in> rlang (RSeq r s) \<longleftrightarrow>
      (\<exists>u v. w = u @ v \<and> c # u \<in> rlang r \<and> v \<in> rlang s) \<or> ([] \<in> rlang r \<and> c # w \<in> rlang s)"
    by (auto simp: Cons_eq_append_conv)
  then show ?case
    using RSeq by (auto simp: nullable_iff)
next
  case (RStar r)
  then show ?case by (auto simp: star_lang_Cons_iff)
qed auto

text \<open>The matcher decides membership in the language.\<close>

lemma rmatch_iff: "rmatch r s \<longleftrightarrow> s \<in> rlang r"
  by (induction s arbitrary: r) (simp_all add: nullable_iff rlang_deriv)

lemma rany_lang [simp]: "s \<in> rlang rany"
proof (induction s)
  case (Cons c s)
  then show ?case
    using star_step [of "[c]" "{[c] | c. True}" s] by (simp add: rany_def)
qed (simp add: rany_def star_nil)

lemma test_full_iff: "test_full r s \<longleftrightarrow> s \<in> rlang r"
  by (simp add: test_full_def rmatch_iff)

lemma test_search_iff: "test_search r s \<longleftrightarrow> (\<exists>a m b. s = a @ m @ b \<and> m \<in> rlang r)"
  by (auto simp: test_search_def rmatch_iff)

lemma rlang_ch_seq: "s \<in> rlang (RSeq (RCh p) r) \<longleftrightarrow> (\<exists>c t. s = c # t \<and> p c \<and> t \<in> rlang r)"
  by (simp only: rlang.simps mem_Collect_eq) (metis append_Cons append_Nil)

lemma rlang_rtimes: "s \<in> rlang (rtimes n (RCh p)) \<longleftrightarrow> length s = n \<and> list_all p s"
proof (induction n arbitrary: s)
  case (Suc n)
  then show ?case
    by (cases s) (simp_all add: rlang_ch_seq del: rlang.simps, blast)
qed auto

lemma rlang_rupto: "s \<in> rlang (rupto n (RCh p)) \<longleftrightarrow> length s \<le> n \<and> list_all p s"
proof (induction n arbitrary: s)
  case (Suc n)
  have "s \<in> rlang (rupto (Suc n) (RCh p)) \<longleftrightarrow> s = [] \<or> s \<in> rlang (RSeq (RCh p) (rupto n (RCh p)))"
    by (auto simp: ropt_def simp del: rlang.simps(5))
  with Suc show ?case
    by (cases s) (simp_all add: rlang_ch_seq del: rlang.simps, blast)
qed auto

lemma rlang_atoms [simp]:
  "s \<in> rlang (rchar c) \<longleftrightarrow> s = [c]"
  "s \<in> rlang (rrange lo hi) \<longleftrightarrow> (\<exists>c. s = [c] \<and> lo \<le> (of_char c :: nat) \<and> (of_char c :: nat) \<le> hi)"
  "s \<in> rlang rdigit \<longleftrightarrow> (\<exists>c. s = [c] \<and> is_digit c)"
  "s \<in> rlang (ropt r) \<longleftrightarrow> s \<in> rlang r \<or> s = []"
  by (auto simp: rchar_def rrange_def rdigit_def ropt_def)

section \<open>Decimal numerals\<close>

lemma of_char_digit [simp]: "n < 10 \<Longrightarrow> (of_char (digit_char n) :: nat) = 48 + n"
  by (simp add: digit_char_def)

lemma digit_range:
  assumes "k < 10"
  shows "48 \<le> (of_char c :: nat) \<and> (of_char c :: nat) \<le> 48 + k \<longleftrightarrow> (\<exists>n \<le> k. c = digit_char n)"
proof
  assume r: "48 \<le> (of_char c :: nat) \<and> (of_char c :: nat) \<le> 48 + k"
  then have "c = digit_char (of_char c - 48)"
    by (simp add: digit_char_def)
  moreover have "(of_char c :: nat) - 48 \<le> k"
    using r by linarith
  ultimately show "\<exists>n \<le> k. c = digit_char n"
    by blast
next
  assume "\<exists>n \<le> k. c = digit_char n"
  with assms show "48 \<le> (of_char c :: nat) \<and> (of_char c :: nat) \<le> 48 + k"
    by auto
qed

lemma is_digit_iff: "is_digit c \<longleftrightarrow> (\<exists>n \<le> 9. c = digit_char n)"
  using digit_range [of 9 c] by (simp add: is_digit_def)

lemma is_digit_digit_char [simp]: "n < 10 \<Longrightarrow> is_digit (digit_char n)"
  by (simp add: is_digit_def)

lemma digit_val_digit_char [simp]: "n < 10 \<Longrightarrow> digit_val (digit_char n) = n"
  by (simp add: digit_val_def)

lemma show_nat_1: "u < 10 \<Longrightarrow> show_nat u = [digit_char u]"
  by (simp add: show_nat.simps)

lemma show_nat_2: "0 < t \<Longrightarrow> t < 10 \<Longrightarrow> u < 10 \<Longrightarrow> show_nat (10 * t + u) = [digit_char t, digit_char u]"
  by (simp add: show_nat.simps [of "10 * t + u"] show_nat_1)

lemma show_nat_3:
  assumes "0 < h" "h < 10" "t < 10" "u < 10"
  shows "show_nat (100 * h + 10 * t + u) = [digit_char h, digit_char t, digit_char u]"
proof -
  have "show_nat (100 * h + 10 * t + u) = show_nat (10 * h + t) @ [digit_char u]"
  proof -
    have eq: "100 * h + 10 * t + u = u + 10 * (10 * h + t)"
      by simp
    show ?thesis
      unfolding eq show_nat.simps [of "u + 10 * (10 * h + t)"]
      using assms by (simp only: div_mult_self2 mod_mult_self2) simp
  qed
  with assms show ?thesis
    by (simp add: show_nat_2)
qed

lemma show_nat_digits: "c \<in> set (show_nat n) \<Longrightarrow> is_digit c"
  by (induction n rule: show_nat.induct) (subst (asm) show_nat.simps, auto split: if_splits)

lemma show_nat_nonempty [simp]: "show_nat n \<noteq> []"
  by (subst show_nat.simps) simp

lemma dec_value_snoc: "dec_value (s @ [c]) = dec_value s * 10 + digit_val c"
  by (simp add: dec_value_def)

lemma dec_value_show_nat [simp]: "dec_value (show_nat n) = n"
proof (induction n rule: show_nat.induct)
  case (1 n)
  then show ?case
    by (cases "n < 10") (simp_all add: show_nat.simps [of n] dec_value_snoc, simp add: dec_value_def)
qed

lemma show_nat_inject [simp]: "show_nat m = show_nat n \<longleftrightarrow> m = n"
  by (metis dec_value_show_nat)

section \<open>The octets\<close>

lemma rlang_3:
  "s \<in> rlang (RSeq (rchar a) (RSeq (rrange 48 (48 + i)) (rrange 48 (48 + j)))) \<longleftrightarrow>
     (\<exists>b c. s = [a, b, c] \<and> 48 \<le> (of_char b :: nat) \<and> (of_char b :: nat) \<le> 48 + i
        \<and> 48 \<le> (of_char c :: nat) \<and> (of_char c :: nat) \<le> 48 + j)"
  by (simp add: rchar_def rrange_def rlang_ch_seq del: rlang.simps(5)) auto

lemma rlang_three_digits:
  assumes "i < 10" "j < 10" "0 < h" "h < 10"
  shows "s \<in> rlang (RSeq (rchar (digit_char h)) (RSeq (rrange 48 (48 + i)) (rrange 48 (48 + j)))) \<longleftrightarrow>
     (\<exists>t \<le> i. \<exists>u \<le> j. s = show_nat (100 * h + 10 * t + u))"
  unfolding rlang_3 using assms digit_range [of i] digit_range [of j] show_nat_3 [of h]
  by (smt (verit, ccfv_threshold) le_less_trans)

lemma rdigit_range: "rdigit = rrange 48 (48 + 9)"
  by (auto simp: rdigit_def rrange_def is_digit_def fun_eq_iff)

lemma chr_digits: "CHR ''1'' = digit_char 1" "CHR ''2'' = digit_char 2" "CHR ''5'' = digit_char 5"
  by (simp_all add: digit_char_def char_of_def bit_simps)

lemma two_digit_octets:
  "s \<in> rlang (RSeq (ropt (rrange 49 57)) rdigit) \<longleftrightarrow> (\<exists>n < 100. s = show_nat n)"
proof
  assume "s \<in> rlang (RSeq (ropt (rrange 49 57)) rdigit)"
  then consider c where "s = [c]" "is_digit c"
    | b c where "s = [b, c]" "49 \<le> (of_char b :: nat)" "(of_char b :: nat) \<le> 57" "is_digit c"
    by (auto simp: append_eq_Cons_conv)
  then show "\<exists>n < 100. s = show_nat n"
  proof cases
    case 1
    then obtain u where "u \<le> 9" "s = [digit_char u]"
      by (auto simp: is_digit_iff)
    then show ?thesis
      using show_nat_1 [of u] by (intro exI [of _ u]) simp
  next
    case 2
    then obtain t where t: "t \<le> 9" "b = digit_char t"
      using digit_range [of 9 b] by auto
    moreover have "0 < t"
      using t 2(2) by (cases t) auto
    moreover obtain u where "u \<le> 9" "c = digit_char u"
      using 2(4) by (auto simp: is_digit_iff)
    ultimately have "s = show_nat (10 * t + u)" "10 * t + u < 100"
      using 2(1) show_nat_2 [of t u] by auto
    then show ?thesis by blast
  qed
next
  assume "\<exists>n < 100. s = show_nat n"
  then obtain n where n: "n < 100" "s = show_nat n" by blast
  show "s \<in> rlang (RSeq (ropt (rrange 49 57)) rdigit)"
  proof (cases "n < 10")
    case True
    with n have "s = [] @ [digit_char n]" "is_digit (digit_char n)"
      by (simp_all add: show_nat_1)
    then show ?thesis
      unfolding rlang.simps(5) mem_Collect_eq rlang_atoms by blast
  next
    case False
    then have "s = [digit_char (n div 10), digit_char (n mod 10)]"
      using n show_nat_2 [of "n div 10" "n mod 10"] by (simp add: div_greater_zero_iff)
    then have "s = [digit_char (n div 10)] @ [digit_char (n mod 10)]"
      by simp
    moreover have "49 \<le> (of_char (digit_char (n div 10)) :: nat)" "(of_char (digit_char (n div 10)) :: nat) \<le> 57"
      "is_digit (digit_char (n mod 10))"
      using n False by (simp_all add: div_greater_zero_iff Suc_le_eq)
    ultimately show ?thesis
      unfolding rlang.simps(5) mem_Collect_eq rlang_atoms by blast
  qed
qed

lemma digit_block:
  "(\<exists>t \<le> i. \<exists>u \<le> 9. P (a + 10 * t + u)) \<longleftrightarrow> (\<exists>n. a \<le> n \<and> n < a + 10 * Suc i \<and> P n)" for a i :: nat
proof
  assume "\<exists>n. a \<le> n \<and> n < a + 10 * Suc i \<and> P n"
  then obtain n where n: "a \<le> n" "n < a + 10 * Suc i" "P n" by blast
  have "(n - a) div 10 \<le> i" "(n - a) mod 10 \<le> 9" "n = a + 10 * ((n - a) div 10) + (n - a) mod 10"
    using n by auto
  with n(3) show "\<exists>t \<le> i. \<exists>u \<le> 9. P (a + 10 * t + u)"
    by metis
next
  assume "\<exists>t \<le> i. \<exists>u \<le> 9. P (a + 10 * t + u)"
  then obtain t u where "t \<le> i" "u \<le> 9" "P (a + 10 * t + u)" by blast
  then show "\<exists>n. a \<le> n \<and> n < a + 10 * Suc i \<and> P n"
    by (intro exI [of _ "a + 10 * t + u"]) simp
qed

lemma small_octets_lang: "s \<in> rlang small_octets \<longleftrightarrow> (\<exists>n < 200. s = show_nat n)"
proof -
  have "s \<in> rlang (RSeq (rchar CHR ''1'') (RSeq rdigit rdigit)) \<longleftrightarrow>
      (\<exists>t \<le> 9. \<exists>u \<le> 9. s = show_nat (100 + 10 * t + u))"
    using rlang_three_digits [of 9 9 1 s] by (simp add: rdigit_range chr_digits)
  then have "s \<in> rlang small_octets \<longleftrightarrow>
      (\<exists>n. 100 \<le> n \<and> n < 200 \<and> s = show_nat n) \<or> (\<exists>n < 100. s = show_nat n)"
    unfolding small_octets_def rlang.simps(4) Un_iff two_digit_octets
      digit_block [of 9 "\<lambda>n. s = show_nat n" 100] by simp
  moreover have "n < 200 \<longleftrightarrow> 100 \<le> n \<and> n < 200 \<or> n < 100" for n :: nat
    by linarith
  ultimately show ?thesis by auto
qed

lemma octet_upto_lang:
  assumes "k \<le> 5"
  shows "s \<in> rlang (octet_upto (48 + k)) \<longleftrightarrow> (\<exists>n \<le> 250 + k. s = show_nat n)"
proof -
  have a: "s \<in> rlang (RSeq (rchar CHR ''2'') (RSeq (rrange 48 52) rdigit)) \<longleftrightarrow>
      (\<exists>n. 200 \<le> n \<and> n < 250 \<and> s = show_nat n)"
    using rlang_three_digits [of 4 9 2 s] digit_block [of 4 "\<lambda>n. s = show_nat n" 200]
    by (simp add: rdigit_range chr_digits)
  have b: "s \<in> rlang (RSeq (rchar CHR ''2'') (RSeq (rchar CHR ''5'') (rrange 48 (48 + k)))) \<longleftrightarrow>
      (\<exists>n. 250 \<le> n \<and> n \<le> 250 + k \<and> s = show_nat n)"
  proof -
    have "s \<in> rlang (RSeq (rchar CHR ''2'') (RSeq (rchar CHR ''5'') (rrange 48 (48 + k)))) \<longleftrightarrow>
        (\<exists>u \<le> k. s = [digit_char 2, digit_char 5, digit_char u])"
      using assms digit_range [of k]
      by (simp add: rchar_def rrange_def rlang_ch_seq chr_digits del: rlang.simps(5)) auto
    also have "\<dots> \<longleftrightarrow> (\<exists>u \<le> k. s = show_nat (250 + u))"
      using assms show_nat_3 [of 2 5] by auto
    also have "\<dots> \<longleftrightarrow> (\<exists>n. 250 \<le> n \<and> n \<le> 250 + k \<and> s = show_nat n)"
      by (metis add_le_cancel_left le_add1 le_add_diff_inverse)
    finally show ?thesis .
  qed
  have "s \<in> rlang (octet_upto (48 + k)) \<longleftrightarrow> (\<exists>n. s = show_nat n \<and>
      (250 \<le> n \<and> n \<le> 250 + k \<or> 200 \<le> n \<and> n < 250 \<or> n < 200))"
    unfolding octet_upto_def rlang.simps(4) Un_iff a b small_octets_lang by blast
  moreover have "(250 \<le> n \<and> n \<le> 250 + k \<or> 200 \<le> n \<and> n < 250 \<or> n < 200) \<longleftrightarrow> n \<le> 250 + k" for n
    by linarith
  ultimately show ?thesis by auto
qed

lemma octet_first_lang:
  "s \<in> rlang octet_first \<longleftrightarrow> (\<exists>n. s = show_nat n \<and> (n < 200 \<or> 200 \<le> n \<and> n \<le> 223 \<and> n mod 10 \<le> 3))"
proof -
  have "(\<exists>t \<le> 2. \<exists>u \<le> 3. s = show_nat (200 + 10 * t + u)) \<longleftrightarrow>
      (\<exists>n. s = show_nat n \<and> 200 \<le> n \<and> n \<le> 223 \<and> n mod 10 \<le> 3)"
  proof
    assume "\<exists>n. s = show_nat n \<and> 200 \<le> n \<and> n \<le> 223 \<and> n mod 10 \<le> 3"
    then obtain n where n: "s = show_nat n" "200 \<le> n" "n \<le> 223" "n mod 10 \<le> 3" by blast
    define m where "m = n - 200"
    have m: "n = m + 10 * 20" "m \<le> 23"
      using n by (simp_all add: m_def)
    have "n mod 10 = m mod 10"
      unfolding m(1) by (rule mod_mult_self2)
    then have "m div 10 \<le> 2" "n = 200 + 10 * (m div 10) + n mod 10"
      using m by simp_all
    with n show "\<exists>t \<le> 2. \<exists>u \<le> 3. s = show_nat (200 + 10 * t + u)"
      by metis
  next
    assume "\<exists>t \<le> 2. \<exists>u \<le> 3. s = show_nat (200 + 10 * t + u)"
    then obtain t u where "t \<le> 2" "u \<le> 3" "s = show_nat (200 + 10 * t + u)" by blast
    moreover have "(u + 10 * (20 + t)) mod 10 = u mod 10"
      by (rule mod_mult_self2)
    ultimately show "\<exists>n. s = show_nat n \<and> 200 \<le> n \<and> n \<le> 223 \<and> n mod 10 \<le> 3"
      by (intro exI [of _ "200 + 10 * t + u"]) (simp add: algebra_simps)
  qed
  moreover have "s \<in> rlang (RSeq (rchar CHR ''2'') (RSeq (rrange 48 50) (rrange 48 51))) \<longleftrightarrow>
      (\<exists>t \<le> 2. \<exists>u \<le> 3. s = show_nat (200 + 10 * t + u))"
    using rlang_three_digits [of 2 3 2 s] by (simp add: chr_digits)
  ultimately show ?thesis
    unfolding octet_first_def rlang.simps(4) Un_iff small_octets_lang by blast
qed

section \<open>What the patterns accept\<close>

definition dotted :: "nat \<Rightarrow> nat \<Rightarrow> nat \<Rightarrow> nat \<Rightarrow> string" where
  "dotted a b c d = js_join ''.'' (map show_nat [a, b, c, d])"

lemma rlang_dot_seq: "s \<in> rlang (RSeq (rchar x) r) \<longleftrightarrow> (\<exists>t. s = x # t \<and> t \<in> rlang r)"
  by (simp add: rchar_def rlang_ch_seq del: rlang.simps(5))

lemma rlang_seq_iff: "s \<in> rlang (RSeq r q) \<longleftrightarrow> (\<exists>u v. s = u @ v \<and> u \<in> rlang r \<and> v \<in> rlang q)"
  by simp

lemma quad_lang:
  assumes 1: "\<And>s. s \<in> rlang r1 \<longleftrightarrow> (\<exists>n. P1 n \<and> s = show_nat n)"
    and 2: "\<And>s. s \<in> rlang r2 \<longleftrightarrow> (\<exists>n. P2 n \<and> s = show_nat n)"
    and 3: "\<And>s. s \<in> rlang r3 \<longleftrightarrow> (\<exists>n. P3 n \<and> s = show_nat n)"
  shows "s \<in> rlang (RSeq r1 (RSeq (rtimes 2 (RSeq (rchar CHR ''.'') r2)) (RSeq (rchar CHR ''.'') r3))) \<longleftrightarrow>
     (\<exists>a b c d. s = dotted a b c d \<and> P1 a \<and> P2 b \<and> P2 c \<and> P3 d)" (is "s \<in> rlang ?r \<longleftrightarrow> ?R")
proof -
  have dot: "u \<in> rlang (RSeq (RSeq (rchar CHR ''.'') r2) q) \<longleftrightarrow>
      (\<exists>b v. u = CHR ''.'' # show_nat b @ v \<and> P2 b \<and> v \<in> rlang q)" for u q
    unfolding rlang_seq_iff [of u] rlang_dot_seq 2 by (metis append_Cons)
  have two: "u \<in> rlang (rtimes 2 (RSeq (rchar CHR ''.'') r2)) \<longleftrightarrow>
      (\<exists>b c. u = CHR ''.'' # show_nat b @ CHR ''.'' # show_nat c \<and> P2 b \<and> P2 c)" for u
    unfolding numeral_2_eq_2 rtimes.simps dot rlang.simps(2) singleton_iff by (metis append_Nil2)
  have "s \<in> rlang ?r \<longleftrightarrow> (\<exists>a b c d. s = show_nat a @ (CHR ''.'' # show_nat b @ CHR ''.'' # show_nat c) @ CHR ''.'' # show_nat d
      \<and> P1 a \<and> P2 b \<and> P2 c \<and> P3 d)"
    unfolding rlang_seq_iff [of _ r1] rlang_seq_iff [of _ "rtimes _ _"] rlang_dot_seq 1 3 two
    by metis
  then show ?thesis
    by (simp add: dotted_def)
qed

text \<open>the pattern \<open>IP_CONSTRAINT\<close> accepts exactly the dotted quads of canonical decimal
  octets whose second and third octet are at most 255, whose last octet is at most 254, and
  whose first octet is below 200 or one of 200 to 203, 210 to 213 and 220 to 223. The first
  octets 204 to 209 and 214 to 219 are unicast addresses, and the pattern refuses them.\<close>

theorem IP_CONSTRAINT_language:
  "test_full IP_CONSTRAINT s \<longleftrightarrow>
     (\<exists>a b c d. s = dotted a b c d \<and> (a < 200 \<or> 200 \<le> a \<and> a \<le> 223 \<and> a mod 10 \<le> 3)
        \<and> b \<le> 255 \<and> c \<le> 255 \<and> d \<le> 254)"
  unfolding test_full_iff IP_CONSTRAINT_def
  by (rule quad_lang) (use octet_upto_lang [of 5] octet_upto_lang [of 4] in \<open>auto simp: octet_first_lang\<close>)

text \<open>the hostname pattern accepts exactly the strings of 5 to 40 characters that start with a
  lower-case letter and go on with lower-case letters, digits, minus signs and periods. The
  error message beside it says that a hostname may not end with a minus sign or a period; the
  pattern lets both through.\<close>

theorem HOSTNAME_PATTERN_language:
  "test_full HOSTNAME_PATTERN s \<longleftrightarrow>
     5 \<le> length s \<and> length s \<le> 40 \<and> is_lower (hd s) \<and> list_all host_tail_char (tl s)"
proof -
  have "test_full HOSTNAME_PATTERN s \<longleftrightarrow>
      (\<exists>c u v. s = c # u @ v \<and> is_lower c \<and> length u = 4 \<and> list_all host_tail_char u
         \<and> length v \<le> 35 \<and> list_all host_tail_char v)"
    unfolding test_full_iff HOSTNAME_PATTERN_def rlang_ch_seq rlang_seq_iff [of _ "rtimes _ _"]
      rlang_rtimes rlang_rupto by blast
  also have "\<dots> \<longleftrightarrow> 5 \<le> length s \<and> length s \<le> 40 \<and> is_lower (hd s) \<and> list_all host_tail_char (tl s)"
  proof
    assume r: "5 \<le> length s \<and> length s \<le> 40 \<and> is_lower (hd s) \<and> list_all host_tail_char (tl s)"
    then have "s = hd s # take 4 (tl s) @ drop 4 (tl s)"
      by (cases s) auto
    moreover have "list_all host_tail_char (take 4 (tl s))" "list_all host_tail_char (drop 4 (tl s))"
      using r by (auto simp: list_all_iff dest: in_set_takeD in_set_dropD)
    moreover have "length (take 4 (tl s)) = 4" "length (drop 4 (tl s)) \<le> 35"
      using r by auto
    ultimately show "\<exists>c u v. s = c # u @ v \<and> is_lower c \<and> length u = 4 \<and> list_all host_tail_char u
         \<and> length v \<le> 35 \<and> list_all host_tail_char v"
      using r by metis
  qed auto
  finally show ?thesis .
qed

lemma show_nat_head:
  "10 \<le> n \<Longrightarrow> \<exists>h cs. show_nat n = digit_char h # cs \<and> 0 < h \<and> h < 10 \<and> cs \<noteq> [] \<and> (100 \<le> n \<longrightarrow> 2 \<le> length cs)"
proof (induction n rule: show_nat.induct)
  case (1 n)
  then have step: "show_nat n = show_nat (n div 10) @ [digit_char (n mod 10)]"
    by (simp add: show_nat.simps [of n])
  show ?case
  proof (cases "n < 100")
    case True
    then have "show_nat (n div 10) = [digit_char (n div 10)]"
      by (simp add: show_nat_1)
    with step True 1(2) show ?thesis
      by (intro exI [of _ "n div 10"]) (simp add: div_greater_zero_iff)
  next
    case False
    then have "10 \<le> n div 10" "\<not> n < 10"
      by linarith+
    then obtain h cs where "show_nat (n div 10) = digit_char h # cs" "0 < h" "h < 10" "cs \<noteq> []"
      using 1(1) by blast
    with step show ?thesis
      by (cases cs) auto
  qed
qed

lemma digit_range_1: "h < 10 \<Longrightarrow> 0 < h \<Longrightarrow> 49 \<le> (of_char (digit_char h) :: nat) \<and> (of_char (digit_char h) :: nat) \<le> 57"
  by simp

lemma digits_star: "list_all is_digit s \<Longrightarrow> s \<in> rlang (RStar rdigit)"
proof (induction s)
  case (Cons c s)
  then show ?case
    using star_step [of "[c]" "rlang rdigit" s] by simp
qed (simp add: star_nil)

lemma rlang_range_seq:
  "s \<in> rlang (RSeq (rrange lo hi) r) \<longleftrightarrow>
     (\<exists>c t. s = c # t \<and> lo \<le> (of_char c :: nat) \<and> (of_char c :: nat) \<le> hi \<and> t \<in> rlang r)"
  "s \<in> rlang (RSeq rdigit r) \<longleftrightarrow> (\<exists>c t. s = c # t \<and> is_digit c \<and> t \<in> rlang r)"
  unfolding rrange_def rdigit_def rlang_ch_seq by blast+

lemma show_nat_all_digits: "list_all is_digit (show_nat n)"
  by (simp add: list_all_iff show_nat_digits)

text \<open>on the decimal numeral of a number the CPU and memory pattern accepts exactly the numbers
  of at least 8, the documented minimum, although the pattern has no anchors.\<close>

theorem MIN_8_PATTERN_numeral: "test_search MIN_8_PATTERN (show_nat n) \<longleftrightarrow> 8 \<le> n"
proof
  assume "8 \<le> n"
  have "show_nat n \<in> rlang MIN_8_PATTERN"
  proof (cases "n < 10")
    case True
    with \<open>8 \<le> n\<close> show ?thesis
      by (simp add: MIN_8_PATTERN_def show_nat_1)
  next
    case False
    then obtain h c cs where "show_nat n = digit_char h # c # cs" "0 < h" "h < 10"
      using show_nat_head [of n] by (auto simp: neq_Nil_conv)
    moreover from this have "is_digit c" "list_all is_digit cs"
      using show_nat_all_digits [of n] by simp_all
    ultimately show ?thesis
      unfolding MIN_8_PATTERN_def rlang.simps(4) Un_iff rlang_range_seq
      using digit_range_1 digits_star by blast
  qed
  then show "test_search MIN_8_PATTERN (show_nat n)"
    unfolding test_search_iff by (metis append_Nil append_Nil2)
next
  assume "test_search MIN_8_PATTERN (show_nat n)"
  then obtain a m b where m: "show_nat n = a @ m @ b" "m \<in> rlang MIN_8_PATTERN"
    unfolding test_search_iff by blast
  show "8 \<le> n"
  proof (rule ccontr)
    assume "\<not> 8 \<le> n"
    then have n: "n < 8" "show_nat n = [digit_char n]"
      by (simp_all add: show_nat_1)
    with m have "m = [] \<or> m = [digit_char n]"
      by (auto simp: Cons_eq_append_conv append_eq_Cons_conv)
    with m(2) n(1) show False
      unfolding MIN_8_PATTERN_def rlang.simps(4) Un_iff rlang_range_seq by auto
  qed
qed

lemma MIN_50_accepts:
  assumes "50 \<le> n"
  shows "test_search MIN_50_PATTERN (show_nat n)"
proof -
  have "show_nat n \<in> rlang MIN_50_PATTERN"
  proof (cases "n < 100")
    case True
    then have "show_nat n = [digit_char (n div 10), digit_char (n mod 10)]"
      using assms show_nat_2 [of "n div 10" "n mod 10"] by (simp add: div_greater_zero_iff)
    moreover have "53 \<le> 48 + n div 10" "n div 10 \<le> 9"
      using True assms by linarith+
    ultimately show ?thesis
      unfolding MIN_50_PATTERN_def rlang.simps(4) Un_iff rlang_range_seq by simp
  next
    case False
    then obtain h cs where h: "show_nat n = digit_char h # cs" "0 < h" "h < 10" "2 \<le> length cs"
      using show_nat_head [of n] by auto
    then obtain c d ds where "cs = c # d # ds"
      by (metis Suc_le_length_iff numeral_2_eq_2)
    moreover from this h(1) have "is_digit c" "is_digit d" "list_all is_digit ds"
      using show_nat_all_digits [of n] by simp_all
    ultimately show ?thesis
      using h unfolding MIN_50_PATTERN_def rlang.simps(4) Un_iff rlang_range_seq
      using digit_range_1 digits_star by blast
  qed
  then show "test_search MIN_50_PATTERN (show_nat n)"
    unfolding test_search_iff by (metis append_Nil append_Nil2)
qed

lemma MIN_50_rejects:
  assumes "test_search MIN_50_PATTERN (show_nat n)"
  shows "50 \<le> n"
proof -
  from assms obtain a m b where m: "show_nat n = a @ m @ b" "m \<in> rlang MIN_50_PATTERN"
    unfolding test_search_iff by blast
  then have m2: "2 \<le> length m" "length m = 2 \<Longrightarrow> 53 \<le> (of_char (hd m) :: nat)"
    unfolding MIN_50_PATTERN_def rlang.simps(4) Un_iff rlang_range_seq by auto
  show "50 \<le> n"
  proof (rule ccontr)
    assume "\<not> 50 \<le> n"
    show False
    proof (cases "n < 10")
      case True
      then have "length (show_nat n) = 1"
        by (simp add: show_nat_1)
      then have "length (a @ m @ b) = 1"
        by (simp only: m(1))
      with m2(1) show False by simp
    next
      case False
      then have s: "show_nat n = [digit_char (n div 10), digit_char (n mod 10)]" "n div 10 < 5"
        using \<open>\<not> 50 \<le> n\<close> show_nat_2 [of "n div 10" "n mod 10"] by (simp_all add: div_greater_zero_iff)
      then have "length (a @ m @ b) = 2"
        unfolding m(1) [symmetric] by simp
      with m2(1) have "length m = 2" "length a = 0"
        unfolding length_append by linarith+
      with m(1) s m2(2) show False
        by (cases m) auto
    qed
  qed
qed

text \<open>on the decimal numeral of a number the drive pattern accepts exactly the numbers of at
  least 50, the documented minimum.\<close>

theorem MIN_50_PATTERN_numeral: "test_search MIN_50_PATTERN (show_nat n) \<longleftrightarrow> 50 \<le> n"
  using MIN_50_accepts MIN_50_rejects by blast

end
