(* ===== verification/Data_Methods.thy ===== *)
theory Data_Methods
  imports Patterns "HOL-Library.Word"
begin

text \<open>
  \<open>classes/data-methods.class.ts\<close> and \<open>classes/object-utilities.class.ts\<close>: the IPv4
  subnet test with JavaScript's 32-bit bitwise operators, and the array and object helpers
  the components call. A bitwise operator converts its operands with \<open>ToInt32\<close>
  (\<open>NaN\<close> becomes 0) and works on \<open>32 word\<close>; \<open>+\<close> and \<open>**\<close> work on numbers
  and do not wrap.
\<close>

unbundle bit_operations_syntax

section \<open>Object utilities\<close>

definition notUndefNull :: "js \<Rightarrow> bool" where
  "notUndefNull data \<longleftrightarrow> data \<noteq> JUndef \<and> data \<noteq> JNull"

definition test_array_values_instanceof :: "'a list \<Rightarrow> ('a \<Rightarrow> bool) \<Rightarrow> bool" where
  "test_array_values_instanceof passed_array is_instance = list_all is_instance passed_array"

definition is_included_in_enum :: "(string \<times> string) list \<Rightarrow> string \<Rightarrow> bool" where
  "is_included_in_enum enum_variable v = List.member (map snd enum_variable) v"

definition return_object_key_value :: "js \<Rightarrow> string \<Rightarrow> js" where
  "return_object_key_value obj key =
     (if List.member (js_keys obj) key then js_get obj key else JNull)"

definition remove_duplicate_entries :: "'a list \<Rightarrow> 'a list" where
  "remove_duplicate_entries array =
     map snd (filter (\<lambda>(index, item). find_index (\<lambda>y. y = item) array = Some index) (enumerate 0 array))"

section \<open>IPv4 arithmetic\<close>

definition ToInt32 :: "int option \<Rightarrow> 32 word" where
  "ToInt32 n = (case n of None \<Rightarrow> 0 | Some i \<Rightarrow> word_of_int i)"

definition js_shl :: "int option \<Rightarrow> nat \<Rightarrow> int option" where
  "js_shl n k = Some (sint (push_bit k (ToInt32 n)))"

definition js_add :: "int option \<Rightarrow> int option \<Rightarrow> int option" where
  "js_add m n = (case (m, n) of (Some i, Some j) \<Rightarrow> Some (i + j) | _ \<Rightarrow> None)"

definition js_ushr0 :: "int option \<Rightarrow> int" where
  "js_ushr0 n = uint (ToInt32 n)"

definition ipv4_to_int :: "string \<Rightarrow> int" where
  "ipv4_to_int ip =
     js_ushr0 (foldl (\<lambda>int oct. js_add (js_shl int 8) (parseInt10 oct)) (Some 0) (js_split CHR ''.'' ip))"

text \<open>\<open>(n).toString(2)\<close> for a natural number.\<close>

fun show_binary :: "nat \<Rightarrow> string" where
  "show_binary n = (if n < 2 then [digit_char n] else show_binary (n div 2) @ [digit_char (n mod 2)])"

declare show_binary.simps [simp del]

text \<open>The integer part of \<open>Number(s)\<close>: white space around a decimal literal with an optional
  sign, fraction and exponent, or a hexadecimal, octal or binary literal; the empty string
  is 0. \<open>None\<close> stands for \<open>NaN\<close> and the infinities, all of which \<open>>>> 0\<close> turns
  into 0; the integer part is all that \<open>>>> 0\<close> reads.\<close>

fun digit_in_base :: "nat \<Rightarrow> char \<Rightarrow> nat option" where
  "digit_in_base base c =
     (let d = (if is_digit c then Some (digit_val c)
               else if is_lower c then Some (of_char c - 87)
               else if is_upper c then Some (of_char c - 55) else None)
      in case d of Some v \<Rightarrow> if v < base then Some v else None | None \<Rightarrow> None)"

definition base_value :: "nat \<Rightarrow> string \<Rightarrow> int option" where
  "base_value base s =
     (if s = [] \<or> List.member (map (digit_in_base base) s) None then None
      else Some (int (foldl (\<lambda>acc c. acc * base + the (digit_in_base base c)) 0 s)))"

definition exponent_of :: "string \<Rightarrow> int option" where
  "exponent_of s =
     (let body = (if s \<noteq> [] \<and> (hd s = CHR ''+'' \<or> hd s = CHR ''-'') then tl s else s)
      in if body = [] \<or> \<not> list_all is_digit body then None
         else Some (if hd s = CHR ''-'' then - int (dec_value body) else int (dec_value body)))"

definition unsigned_decimal :: "string \<Rightarrow> int option" where
  "unsigned_decimal s =
     (let ip = takeWhile is_digit s; r1 = dropWhile is_digit s;
          fp = (if r1 \<noteq> [] \<and> hd r1 = CHR ''.'' then takeWhile is_digit (tl r1) else []);
          r2 = (if r1 \<noteq> [] \<and> hd r1 = CHR ''.'' then dropWhile is_digit (tl r1) else r1);
          e = (if r2 = [] then Some 0
               else if hd r2 = CHR ''e'' \<or> hd r2 = CHR ''E'' then exponent_of (tl r2) else None)
      in if ip @ fp = [] then None
         else (case e of None \<Rightarrow> None
               | Some x \<Rightarrow>
                  let scale = x - int (length fp); m = int (dec_value (ip @ fp))
                  in Some (if 0 \<le> scale then m * 10 ^ nat scale else m div 10 ^ nat (- scale))))"

definition Number_int :: "string \<Rightarrow> int option" where
  "Number_int str =
     (let s = trim str in
      if s = [] then Some 0
      else if starts_with ''0x'' s \<or> starts_with ''0X'' s then base_value 16 (drop 2 s)
      else if starts_with ''0o'' s \<or> starts_with ''0O'' s then base_value 8 (drop 2 s)
      else if starts_with ''0b'' s \<or> starts_with ''0B'' s then base_value 2 (drop 2 s)
      else if hd s = CHR ''-'' then map_option uminus (unsigned_decimal (tl s))
      else if hd s = CHR ''+'' then unsigned_decimal (tl s)
      else unsigned_decimal s)"

definition netmask_to_cidr :: "string \<Rightarrow> int" where
  "netmask_to_cidr netmask =
     (let parts = map Number_int (js_split CHR ''.'' netmask);
          ret_val = js_join [] (map (\<lambda>part. show_binary (nat (js_ushr0 part))) parts)
      in int (length (js_split CHR ''1'' ret_val)) - 1)"

text \<open>\<open>~(2 ** (32 - bits) - 1)\<close>: for more than 32 bits the power is a fraction below 1, the
  difference lies strictly between -1 and 0, and \<open>ToInt32\<close> makes it 0.\<close>

definition subnet_mask :: "int \<Rightarrow> 32 word" where
  "subnet_mask bits = NOT (word_of_int (if bits \<le> 32 then 2 ^ nat (32 - bits) - 1 else 0))"

definition is_ipv4_in_subnet :: "string \<Rightarrow> string \<Rightarrow> string \<Rightarrow> bool" where
  "is_ipv4_in_subnet ip network_ip netmask =
     (let bits = netmask_to_cidr netmask; mask = subnet_mask bits
      in ToInt32 (Some (ipv4_to_int ip)) AND mask = ToInt32 (Some (ipv4_to_int network_ip)) AND mask)"

section \<open>Reference definitions\<close>

definition ipv4_value :: "nat \<Rightarrow> nat \<Rightarrow> nat \<Rightarrow> nat \<Rightarrow> nat" where
  "ipv4_value a b c d = a * 2 ^ 24 + b * 2 ^ 16 + c * 2 ^ 8 + d"

text \<open>The dotted netmask of a prefix length.\<close>

definition netmask_of :: "nat \<Rightarrow> string" where
  "netmask_of p =
     (let m = 2 ^ 32 - 2 ^ (32 - p)
      in dotted (m div 2 ^ 24) (m div 2 ^ 16 mod 256) (m div 2 ^ 8 mod 256) (m mod 256))"

section \<open>Properties of the helpers\<close>

lemma find_index_eq_Some:
  "find_index (\<lambda>y. y = x) xs = Some i \<longleftrightarrow> i < length xs \<and> xs ! i = x \<and> x \<notin> set (take i xs)"
proof (induction xs arbitrary: i)
  case (Cons a xs)
  then show ?case by (cases i) auto
qed simp

lemma remdups_rev_snoc:
  "rev (remdups (rev (xs @ [x]))) = (if x \<in> set xs then rev (remdups (rev xs)) else rev (remdups (rev xs)) @ [x])"
  by simp

lemma find_index_append:
  "find_index p (xs @ ys) = (case find_index p xs of Some i \<Rightarrow> Some i
     | None \<Rightarrow> map_option (\<lambda>i. i + length xs) (find_index p ys))"
  by (induction xs) (auto split: option.splits simp: option.map_comp comp_def option.map_ident)

text \<open>\<open>remove_duplicate_entries\<close> keeps the first occurrence of every element, in order.\<close>

theorem remove_duplicate_entries_first:
  "remove_duplicate_entries xs = rev (remdups (rev xs))"
proof (induction xs rule: rev_induct)
  case (snoc x xs)
  let ?keep = "\<lambda>ys (index, item). find_index (\<lambda>y. y = item) ys = Some index"
  have "filter (?keep (xs @ [x])) (enumerate 0 xs) = filter (?keep xs) (enumerate 0 xs)"
  proof (rule filter_cong [OF refl])
    fix z assume "z \<in> set (enumerate 0 xs)"
    then have "snd z \<in> set xs"
      by (auto simp: in_set_enumerate_eq) (metis nth_mem)
    then obtain i where "find_index (\<lambda>y. y = snd z) xs = Some i"
      using find_index_None [of "\<lambda>y. y = snd z" xs] by fastforce
    then show "?keep (xs @ [x]) z = ?keep xs z"
      by (cases z) (simp add: find_index_append)
  qed
  moreover have "?keep (xs @ [x]) (length xs, x) \<longleftrightarrow> x \<notin> set xs"
    by (auto simp: find_index_append find_index_None split: option.splits dest: find_index_Some)
  ultimately have "remove_duplicate_entries (xs @ [x]) =
      remove_duplicate_entries xs @ (if x \<in> set xs then [] else [x])"
    by (simp add: remove_duplicate_entries_def enumerate_append_eq)
  with snoc show ?case
    by (simp add: remdups_rev_snoc)
qed (simp add: remove_duplicate_entries_def)

section \<open>Properties of the IPv4 arithmetic\<close>

lemma space_not_digit: "is_digit c \<Longrightarrow> \<not> is_space c"
  by (auto simp: is_digit_def is_space_def)

lemma sign_not_digit: "\<not> is_digit CHR ''-''" "\<not> is_digit CHR ''+''" "\<not> is_digit CHR ''.''"
  by (simp_all add: is_digit_def)

lemma digits_hd:
  assumes "list_all is_digit s" "s \<noteq> []"
  shows "is_digit (hd s)"
  using assms by (cases s) auto

lemma dropWhile_space_digits: "list_all is_digit s \<Longrightarrow> dropWhile is_space s = s"
  by (cases s) (auto dest: space_not_digit)

lemma takeWhile_digits: "list_all is_digit s \<Longrightarrow> takeWhile is_digit s = s"
  by (simp add: list_all_iff takeWhile_eq_all_conv)

lemma dropWhile_digits: "list_all is_digit s \<Longrightarrow> dropWhile is_digit s = []"
  by (simp add: list_all_iff)

lemma parseInt10_show_nat [simp]: "parseInt10 (show_nat n) = Some (int n)"
proof -
  have "hd (show_nat n) \<noteq> CHR ''-''" "hd (show_nat n) \<noteq> CHR ''+''"
    using digits_hd [OF show_nat_all_digits [of n]] sign_not_digit by (auto simp: is_digit_def)
  then show ?thesis
    by (simp add: parseInt10_def Let_def dropWhile_space_digits takeWhile_digits show_nat_all_digits)
qed

lemma trim_digits: "list_all is_digit s \<Longrightarrow> trim s = s"
  by (simp add: trim_def dropWhile_space_digits list_all_iff)

lemma prefix_not_digits:
  assumes "list_all is_digit s" "\<not> is_digit c"
  shows "\<not> starts_with [d, c] s"
  using assms by (auto simp: starts_with_append)

lemma Number_int_show_nat [simp]: "Number_int (show_nat n) = Some (int n)"
proof -
  have d: "list_all is_digit (show_nat n)"
    by (rule show_nat_all_digits)
  have np: "\<not> starts_with [e, c] (show_nat n)"
    if "c \<in> {CHR ''x'', CHR ''X'', CHR ''o'', CHR ''O'', CHR ''b'', CHR ''B''}" for c e
    using that by (intro prefix_not_digits [OF d]) (auto simp: is_digit_def)
  have "hd (show_nat n) \<noteq> CHR ''-''" "hd (show_nat n) \<noteq> CHR ''+''"
    using digits_hd [OF d] sign_not_digit by (auto simp: is_digit_def)
  then show ?thesis
    by (simp add: Number_int_def Let_def trim_digits [OF d] np unsigned_decimal_def
        takeWhile_digits [OF d] dropWhile_digits [OF d])
qed

lemma dot_not_in_show_nat [simp]: "CHR ''.'' \<notin> set (show_nat n)"
  using show_nat_digits sign_not_digit by blast

lemma js_split_dotted: "js_split CHR ''.'' (dotted a b c d) = map show_nat [a, b, c, d]"
  unfolding dotted_def by (rule js_split_join) auto

lemma ToInt32_step: "ToInt32 (js_add (js_shl n 8) (Some i)) = push_bit 8 (ToInt32 n) + word_of_int i"
  by (simp add: ToInt32_def js_add_def js_shl_def)

lemma uint_small: "n < 2 ^ 32 \<Longrightarrow> uint (word_of_int (int n) :: 32 word) = int n"
  by (simp add: unsigned_of_nat take_bit_nat_eq_self)

lemma uint_quad:
  assumes "a < 256" "b < 256" "c < 256" "d < 256"
  shows "uint (word_of_int (int (ipv4_value a b c d)) :: 32 word) = int (ipv4_value a b c d)"
proof -
  have "ipv4_value a b c d < 2 ^ 32"
    using assms by (simp add: ipv4_value_def)
  then show ?thesis
    by (rule uint_small)
qed

lemma ipv4_to_int_dotted:
  assumes "a < 256" "b < 256" "c < 256" "d < 256"
  shows "ipv4_to_int (dotted a b c d) = int (ipv4_value a b c d)"
proof -
  have "push_bit 8 (push_bit 8 (push_bit 8 (word_of_int (int a)) + word_of_int (int b)) + word_of_int (int c))
      + word_of_int (int d) = (word_of_int (int (ipv4_value a b c d)) :: 32 word)"
    by (simp add: push_bit_eq_mult ipv4_value_def algebra_simps)
  then show ?thesis
    using uint_quad [OF assms]
    by (simp add: ipv4_to_int_def js_split_dotted js_ushr0_def ToInt32_step)
       (simp add: ToInt32_def)
qed

lemma length_split_count: "length (js_split c s) = Suc (count_list s c)"
  by (induction s) (auto split: list.splits)

text \<open>The number of one bits of a natural number, the reference for counting the characters of its
  binary numeral.\<close>

fun ones :: "nat \<Rightarrow> nat" where
  "ones n = (if n = 0 then 0 else n mod 2 + ones (n div 2))"

declare ones.simps [simp del]

lemma count_show_binary: "count_list (show_binary n) CHR ''1'' = ones n"
proof (induction n rule: show_binary.induct)
  case (1 n)
  have d: "digit_char k = CHR ''1'' \<longleftrightarrow> k = 1" if "k < 2" for k
    using that by (cases k) (simp_all add: digit_char_def char_of_def bit_simps)
  show ?case
  proof (cases "n < 2")
    case True
    then have "n = 0 \<or> n = 1" by auto
    then show ?thesis
      using d [of n] True by (auto simp: show_binary.simps [of n] ones.simps [of n] ones.simps [of 0])
  next
    case False
    then show ?thesis
      using 1 d [of "n mod 2"]
      by (simp add: show_binary.simps [of n] ones.simps [of n])
  qed
qed

lemma count_list_join: "count_list (js_join [] ss) c = sum_list (map (\<lambda>s. count_list s c) ss)"
  by (induction "[] :: string" ss rule: js_join.induct) auto

lemma netmask_to_cidr_ones:
  assumes "a < 256" "b < 256" "c < 256" "d < 256"
  shows "netmask_to_cidr (dotted a b c d) = int (ones a + ones b + ones c + ones d)"
proof -
  have "js_ushr0 (Some (int n)) = int n" if "n < 256" for n
    using that uint_small [of n] by (simp add: js_ushr0_def ToInt32_def)
  with assms show ?thesis
    by (simp add: netmask_to_cidr_def js_split_dotted length_split_count count_list_join count_show_binary)
qed

lemma and_not_mask_eq:
  "x AND NOT (mask k) = y AND NOT (mask k) \<longleftrightarrow> drop_bit k x = drop_bit k y" for x y :: "32 word"
proof
  assume eq: "x AND NOT (mask k) = y AND NOT (mask k)"
  show "drop_bit k x = drop_bit k y"
  proof (rule bit_word_eqI)
    fix n
    have "bit (x AND NOT (mask k)) (k + n) = bit (y AND NOT (mask k)) (k + n)"
      by (simp add: eq)
    then show "bit (drop_bit k x) n = bit (drop_bit k y) n"
      by (auto simp: bit_simps dest: bit_imp_le_length)
  qed
next
  assume eq: "drop_bit k x = drop_bit k y"
  show "x AND NOT (mask k) = y AND NOT (mask k)"
  proof (rule bit_word_eqI)
    fix n assume "n < LENGTH(32)"
    have "bit x n = bit y n" if "k \<le> n"
      using that arg_cong [OF eq, of "\<lambda>w. bit w (n - k)"] by (simp add: bit_simps)
    then show "bit (x AND NOT (mask k)) n = bit (y AND NOT (mask k)) n"
      by (auto simp: bit_simps)
  qed
qed

lemma drop_bit_eq_iff_div:
  "drop_bit k x = drop_bit k y \<longleftrightarrow> uint x div 2 ^ k = uint y div 2 ^ k" for x y :: "32 word"
proof -
  have "uint (drop_bit k w) = uint w div 2 ^ k" for w :: "32 word"
    using take_bit_int_eq_self [of "uint w" 32] uint_bounded [of w]
    by (simp only: unsigned_drop_bit_eq) (simp add: drop_bit_eq_div)
  then show ?thesis
    by (metis word_uint_eq_iff)
qed

lemma subnet_mask_prefix: "p \<le> 32 \<Longrightarrow> subnet_mask (int p) = NOT (mask (32 - p))"
  by (simp add: subnet_mask_def mask_eq_exp_minus_1 nat_diff_distrib)

lemma ones_numerals:
  "ones 0 = 0" "ones (Suc 0) = 1" "ones (numeral k) = numeral k mod 2 + ones (numeral k div 2)"
  by (simp_all add: ones.simps [of 0] ones.simps [of "Suc 0"] ones.simps [of "numeral k"])

lemma netmask_octets:
  assumes "p \<le> 32" "m = 2 ^ 32 - 2 ^ (32 - p)"
  shows "m div 2 ^ 24 < 256 \<and> ones (m div 2 ^ 24) + ones (m div 2 ^ 16 mod 256) + ones (m div 2 ^ 8 mod 256) + ones (m mod 256) = p"
proof -
  have all: "list_all (\<lambda>p. let m = 2 ^ 32 - 2 ^ (32 - p) in m div 2 ^ 24 < 256 \<and>
      ones (m div 2 ^ 24) + ones (m div 2 ^ 16 mod 256) + ones (m div 2 ^ 8 mod 256) + ones (m mod 256) = p)
      [0, 1, 2, 3, 4, 5, 6, 7, 8, 9, 10, 11, 12, 13, 14, 15, 16, 17, 18, 19, 20, 21, 22, 23, 24, 25, 26, 27, 28, 29, 30, 31, 32]"
    by (simp add: Let_def ones_numerals)
  have "p \<in> set [0..<33]"
    using assms by simp
  also have "[0..<33] = [0, 1, 2, 3, 4, 5, 6, 7, 8, 9, 10, 11, 12, 13, 14, 15, 16, 17, 18, 19, 20, 21, 22, 23, 24, 25, 26, 27, 28, 29, 30, 31, 32]"
    by code_simp
  finally show ?thesis
    using all assms(2) unfolding list_all_iff Let_def by blast
qed

lemma netmask_to_cidr_netmask_of:
  assumes "p \<le> 32"
  shows "netmask_to_cidr (netmask_of p) = int p"
  using netmask_octets [OF assms refl]
  by (simp add: netmask_of_def Let_def netmask_to_cidr_ones)

text \<open>C5: \<open>is_ipv4_in_subnet\<close> is the subnet test. For two dotted quads and the netmask of any
  prefix length from 0 to 32, it holds exactly when the two addresses agree on the prefix,
  that is, when dividing both by the size of the subnet gives the same number. The 32-bit
  shifts, the sign of \<open><<\<close> and the complement of \<open>2 ** 32 - 1\<close> for the empty prefix
  do not change that.\<close>

theorem is_ipv4_in_subnet_correct:
  assumes "a < 256" "b < 256" "c < 256" "d < 256"
    and "a' < 256" "b' < 256" "c' < 256" "d' < 256"
    and "p \<le> 32"
  shows "is_ipv4_in_subnet (dotted a b c d) (dotted a' b' c' d') (netmask_of p) \<longleftrightarrow>
     ipv4_value a b c d div 2 ^ (32 - p) = ipv4_value a' b' c' d' div 2 ^ (32 - p)"
proof -
  have "is_ipv4_in_subnet (dotted a b c d) (dotted a' b' c' d') (netmask_of p) \<longleftrightarrow>
     int (ipv4_value a b c d) div 2 ^ (32 - p) = int (ipv4_value a' b' c' d') div 2 ^ (32 - p)"
    using uint_quad [OF assms(1-4)] uint_quad [OF assms(5-8)]
    by (simp add: is_ipv4_in_subnet_def Let_def netmask_to_cidr_netmask_of subnet_mask_prefix assms
        ipv4_to_int_dotted ToInt32_def and_not_mask_eq drop_bit_eq_iff_div)
  also have "\<dots> \<longleftrightarrow> int (ipv4_value a b c d div 2 ^ (32 - p)) = int (ipv4_value a' b' c' d' div 2 ^ (32 - p))"
    by (simp add: zdiv_int)
  finally show ?thesis
    by simp
qed

theorem is_ipv4_in_subnet_correct_witness:
  "is_ipv4_in_subnet (dotted 10 40 12 7) (dotted 10 40 0 0) (netmask_of 20) \<longleftrightarrow>
     ipv4_value 10 40 12 7 div 2 ^ (32 - 20) = ipv4_value 10 40 0 0 div 2 ^ (32 - 20)"
  by (rule is_ipv4_in_subnet_correct) simp_all

end
