(* ===== verification/Api_Service.thy ===== *)
theory Api_Service
  imports Data_Methods
begin

text \<open>
  The two root services every component reports through, and the interceptor in front of them:
  \<open>services/mat-snackbar.service.ts\<close> (\<open>displaySnackBar\<close>, \<open>destroySnackBar\<close> and the
  three \<open>generate_return_..\<close> methods), \<open>services/abstract/api.service.ts\<close>
  (\<open>handleError\<close>, \<open>handleErrorAlt\<close>, \<open>handleErrorConsole\<close>) and
  \<open>interceptors/unauthorized.interceptor.ts\<close>.

  The snack bar library is outside the repository: opening a snack bar is the effect
  \<open>SnackOpen\<close>, and the reference it returns is the number of snack bars opened before.
\<close>

section \<open>MatSnackBarService\<close>

datatype snack_action = ReloadPage | RouteTo string

record snack_config =
  timeInMS :: "int option"
  actionLabel :: "string option"
  snack_action :: "snack_action option"
  panelClass :: "string option"

definition snack_config_of :: "int \<Rightarrow> string \<Rightarrow> snack_config" where
  "snack_config_of t l = \<lparr>timeInMS = Some t, actionLabel = Some l, snack_action = None, panelClass = None\<rparr>"

definition MAT_SNACKBAR_CONFIGURATION_3000_DUR :: snack_config where
  "MAT_SNACKBAR_CONFIGURATION_3000_DUR = snack_config_of 3000 ''Close''"

definition MAT_SNACKBAR_CONFIGURATION_60000_DUR :: snack_config where
  "MAT_SNACKBAR_CONFIGURATION_60000_DUR = snack_config_of 60000 ''Close''"

definition MAT_SNACKBAR_CONFIGURATION_60000_DUR_OK :: snack_config where
  "MAT_SNACKBAR_CONFIGURATION_60000_DUR_OK = snack_config_of 60000 ''OK''"

definition MAT_SNACKBAR_CONFIGURATION_60000_DUR_DISMISS :: snack_config where
  "MAT_SNACKBAR_CONFIGURATION_60000_DUR_DISMISS = snack_config_of 60000 ''Dismiss''"

definition destroySnackBar :: "'a world_scheme \<Rightarrow> 'a world_scheme" where
  "destroySnackBar w =
     (case matSnackBarRef w of None \<Rightarrow> w
      | Some n \<Rightarrow> (emit (SnackDismiss n) w)\<lparr>matSnackBarRef := None\<rparr>)"

definition displaySnackBar :: "js \<Rightarrow> snack_config option \<Rightarrow> 'a world_scheme \<Rightarrow> 'a world_scheme" where
  "displaySnackBar message config w =
     (let w' = destroySnackBar w in
      case config of
        None \<Rightarrow> emit (SnackOpen message ''Close'' None []) w'
      | Some c \<Rightarrow>
          let duration = (case timeInMS c of Some t \<Rightarrow> t | None \<Rightarrow> 3000);
              panel = (case panelClass c of Some p \<Rightarrow> [p] | None \<Rightarrow> [])
          in case (actionLabel c, snack_action c) of
               (Some l, Some _) \<Rightarrow>
                 (emit (SnackOpen message l (Some duration) panel) w')
                   \<lparr>matSnackBarRef := Some (snack_count (trace w'))\<rparr>
             | (Some l, None) \<Rightarrow> emit (SnackOpen message l (Some duration) panel) w'
             | (None, _) \<Rightarrow> emit (SnackOpen message ''Close'' (Some duration) panel) w')"

definition generate_return_success_snackbar_message :: "string \<Rightarrow> snack_config option \<Rightarrow> 'a world_scheme \<Rightarrow> 'a world_scheme" where
  "generate_return_success_snackbar_message m c = displaySnackBar (JStr (''Successfully '' @ m)) c"

definition generate_return_fail_snackbar_message :: "string \<Rightarrow> snack_config option \<Rightarrow> 'a world_scheme \<Rightarrow> 'a world_scheme" where
  "generate_return_fail_snackbar_message m c = displaySnackBar (JStr (''Failed '' @ m)) c"

definition generate_return_error_snackbar_message :: "string \<Rightarrow> snack_config option \<Rightarrow> 'a world_scheme \<Rightarrow> 'a world_scheme" where
  "generate_return_error_snackbar_message m c = displaySnackBar (JStr (''Error '' @ m)) c"

section \<open>ApiService\<close>

datatype err_body = ErrorEvent string string | Body js

record http_error =
  error_body :: err_body
  status :: js
  statusText :: js
  http_message :: "string option"

text \<open>What a failed request throws to its subscriber.\<close>

datatype api_error =
    ErrorMessageClass js
  | PostValidationClass js
  | ValidationErrorClass js js
  | HttpErrorResponse "http_error option"

fun body_truthy :: "err_body \<Rightarrow> bool" where
  "body_truthy (ErrorEvent _ _) = True"
| "body_truthy (Body v) = truthy v"

fun body_get :: "err_body \<Rightarrow> string \<Rightarrow> js" where
  "body_get (ErrorEvent t m) k = (if k = ''message'' then JStr m else JUndef)"
| "body_get (Body v) k = js_get v k"

fun body_present :: "err_body \<Rightarrow> bool" where
  "body_present (ErrorEvent _ _) = True"
| "body_present (Body v) = notUndefNull v"

text \<open>\<open>JSON.stringify\<close> of the body; the sources call it on backend bodies only.\<close>

fun body_json :: "err_body \<Rightarrow> js" where
  "body_json (ErrorEvent _ _) = JStr ''{}''"
| "body_json (Body v) = (case JSON_stringify v of None \<Rightarrow> JUndef | Some s \<Rightarrow> JStr s)"

fun body_value :: "err_body \<Rightarrow> js" where
  "body_value (ErrorEvent _ _) = JObj []"
| "body_value (Body v) = v"

definition environment_test :: bool where
  "environment_test = False"

definition console_error :: "string \<Rightarrow> 'a world_scheme \<Rightarrow> 'a world_scheme" where
  "console_error m w = (if environment_test then w else emit (Console m) w)"

definition handleErrorConsole :: "http_error \<Rightarrow> 'a world_scheme \<Rightarrow> 'a world_scheme" where
  "handleErrorConsole r w =
     (case error_body r of
        ErrorEvent t _ \<Rightarrow> console_error (''An error occurred: '' @ t) w
      | Body v \<Rightarrow>
          let has = (\<lambda>k. notUndefNull v \<and> notUndefNull (js_get v k));
              error_message =
                (if has ''error_message'' then js_get v ''error_message''
                 else if has ''post_validation'' then js_get v ''post_validation''
                 else if has ''status'' \<and> has ''messages'' then body_json (Body v)
                 else v)
          in console_error (''Backend returned code '' @ js_to_string (status r) @ '', error: '' @
               js_to_string error_message @ '', message: '' @
               (case http_message r of None \<Rightarrow> ''undefined'' | Some m \<Rightarrow> m)) w)"

definition handleError :: "string \<Rightarrow> http_error option \<Rightarrow> 'a world_scheme \<Rightarrow> 'a world_scheme \<times> api_error" where
  "handleError operation resp w =
     (case resp of
        None \<Rightarrow>
          (displaySnackBar (JStr (''An error has occurred: '' @ operation))
             (Some MAT_SNACKBAR_CONFIGURATION_60000_DUR_DISMISS) w, HttpErrorResponse None)
      | Some r \<Rightarrow>
          let w' = handleErrorConsole r w; b = error_body r;
              has = (\<lambda>k. body_truthy b \<and> truthy (body_get b k))
          in if has ''error_message'' then
               (displaySnackBar (body_get b ''error_message'') None w',
                ErrorMessageClass (body_get b ''error_message''))
             else if has ''post_validation'' then
               (displaySnackBar (body_get b ''post_validation'') None w',
                PostValidationClass (body_get b ''post_validation''))
             else if has ''status'' \<and> has ''messages'' then
               (displaySnackBar (body_json b) None w',
                ValidationErrorClass (body_get b ''status'') (body_get b ''messages''))
             else if has ''message'' then
               (displaySnackBar (body_get b ''message'') None w', HttpErrorResponse (Some r))
             else
               (displaySnackBar (JStr (''An error has occurred: '' @ js_to_string (status r) @ ''-'' @ js_to_string (statusText r)))
                  (Some MAT_SNACKBAR_CONFIGURATION_60000_DUR_DISMISS) w', HttpErrorResponse (Some r)))"

definition handleErrorAlt :: "string \<Rightarrow> http_error \<Rightarrow> 'a world_scheme \<Rightarrow> 'a world_scheme" where
  "handleErrorAlt operation r w =
     (let b = error_body r;
          has = (\<lambda>k. body_present b \<and> notUndefNull (body_get b k));
          show_it = (\<lambda>m. displaySnackBar m (Some MAT_SNACKBAR_CONFIGURATION_60000_DUR_DISMISS) w)
      in handleErrorConsole r
          (if has ''error_message'' then show_it (body_get b ''error_message'')
           else if has ''post_validation'' then show_it (body_get b ''post_validation'')
           else if has ''status'' \<and> has ''messages'' then show_it (body_json b)
           else (case http_message r of
                   Some m \<Rightarrow> show_it (JStr m)
                 | None \<Rightarrow> show_it (JStr (''An error has occurred: '' @ operation)))))"

section \<open>UnauthorizedInterceptor\<close>

definition RELOAD_CONFIGURATION :: snack_config where
  "RELOAD_CONFIGURATION =
     \<lparr>timeInMS = Some 10000, actionLabel = Some ''Reload Page'', snack_action = Some ReloadPage, panelClass = None\<rparr>"

definition FORBIDDEN_CONFIGURATION :: snack_config where
  "FORBIDDEN_CONFIGURATION =
     \<lparr>timeInMS = Some (-1), actionLabel = Some ''Dismiss'', snack_action = None, panelClass = None\<rparr>"

definition UNAUTHORIZED_MESSAGE :: string where
  "UNAUTHORIZED_MESSAGE = ''Unauthorized Request. Please reload the page to re-login''"

definition FORBIDDEN_MESSAGE :: string where
  "FORBIDDEN_MESSAGE = ''Forbidden. You do not have permissions for this request''"

definition intercept_error :: "http_error \<Rightarrow> 'a world_scheme \<Rightarrow> 'a world_scheme" where
  "intercept_error err w =
     (if status err = JNum 401 then displaySnackBar (JStr UNAUTHORIZED_MESSAGE) (Some RELOAD_CONFIGURATION) w
      else if status err = JNum 403 then displaySnackBar (JStr FORBIDDEN_MESSAGE) (Some FORBIDDEN_CONFIGURATION) w
      else w)"

text \<open>A service method pipes its request through \<open>catchError(handleError(..))\<close>, behind the
  interceptor's \<open>tap\<close>: what happens between a failed response and the subscriber's error
  callback.\<close>

definition request_failed :: "string \<Rightarrow> http_error \<Rightarrow> 'a world_scheme \<Rightarrow> 'a world_scheme \<times> api_error" where
  "request_failed operation err w = handleError operation (Some err) (intercept_error err w)"

text \<open>The error callback most subscribers share: the server's own message when the error is an
  \<open>ErrorMessageClass\<close>, a fixed text otherwise.\<close>

definition report_error_or_message :: "string \<Rightarrow> api_error \<Rightarrow> 'a world_scheme \<Rightarrow> 'a world_scheme" where
  "report_error_or_message m err =
     (case err of
        ErrorMessageClass v \<Rightarrow> displaySnackBar v (Some MAT_SNACKBAR_CONFIGURATION_60000_DUR)
      | _ \<Rightarrow> generate_return_error_snackbar_message m (Some MAT_SNACKBAR_CONFIGURATION_60000_DUR))"

definition report_error :: "string \<Rightarrow> 'a world_scheme \<Rightarrow> 'a world_scheme" where
  "report_error m = generate_return_error_snackbar_message m (Some MAT_SNACKBAR_CONFIGURATION_60000_DUR)"

section \<open>The snack bar invariant\<close>

fun dismissed :: "effect list \<Rightarrow> nat list" where
  "dismissed [] = []"
| "dismissed (SnackDismiss n # es) = n # dismissed es"
| "dismissed (_ # es) = dismissed es"

definition snack_ok :: "'a world_scheme \<Rightarrow> bool" where
  "snack_ok w \<longleftrightarrow>
     distinct (dismissed (trace w)) \<and>
     (\<forall>n \<in> set (dismissed (trace w)). n < snack_count (trace w)) \<and>
     (\<forall>n. matSnackBarRef w = Some n \<longrightarrow> n < snack_count (trace w) \<and> n \<notin> set (dismissed (trace w)))"

definition empty_world :: world where
  "empty_world = \<lparr>trace = [], matSnackBarRef = None\<rparr>"

lemma dismissed_append [simp]: "dismissed (xs @ ys) = dismissed xs @ dismissed ys"
  by (induction xs rule: dismissed.induct) auto

lemma snack_ok_ext: "trace w = trace w' \<Longrightarrow> matSnackBarRef w = matSnackBarRef w' \<Longrightarrow> snack_ok w = snack_ok w'"
  by (simp add: snack_ok_def)

lemma snack_ok_emit: "snack_ok w \<Longrightarrow> dismissed [e] = [] \<Longrightarrow> snack_ok (emit e w)"
  by (auto simp: snack_ok_def)

lemma snack_ok_http [intro, simp]: "snack_ok w \<Longrightarrow> snack_ok (http m u b w)"
  unfolding http_def by (rule snack_ok_emit) simp_all

lemma snack_ok_destroy [intro, simp]: "snack_ok w \<Longrightarrow> snack_ok (destroySnackBar w)"
  by (auto simp: snack_ok_def destroySnackBar_def split: option.splits)

lemma destroy_ref [simp]: "matSnackBarRef (destroySnackBar w) = None"
  by (simp add: destroySnackBar_def split: option.splits)

lemma destroy_trace [trace_simps]:
  "trace (destroySnackBar w) = trace w @ (case matSnackBarRef w of None \<Rightarrow> [] | Some n \<Rightarrow> [SnackDismiss n])"
  by (simp add: destroySnackBar_def split: option.splits)

lemma destroy_more [simp, frame_simps]: "world.more (destroySnackBar w) = world.more w"
  by (simp add: destroySnackBar_def split: option.splits)

lemma snack_ok_display [intro, simp]: "snack_ok w \<Longrightarrow> snack_ok (displaySnackBar m c w)"
proof -
  assume "snack_ok w"
  then have "snack_ok (destroySnackBar w)" by simp
  then show ?thesis
    by (auto simp: displaySnackBar_def Let_def snack_ok_def dest: less_SucI split: option.splits)
qed

lemma display_more [simp, frame_simps]: "world.more (displaySnackBar m c w) = world.more w"
  by (simp add: displaySnackBar_def Let_def split: option.splits)

lemma display_trace [trace_simps]:
  "\<exists>l d p. trace (displaySnackBar m c w) =
     trace w @ (case matSnackBarRef w of None \<Rightarrow> [] | Some n \<Rightarrow> [SnackDismiss n]) @ [SnackOpen m l d p]"
  by (auto simp: displaySnackBar_def Let_def destroy_trace split: option.splits)

lemma display_last: "\<exists>l d p. last (trace (displaySnackBar m c w)) = SnackOpen m l d p"
  using display_trace [of m c w] by auto

lemma display_opens_one: "snack_count (trace (displaySnackBar m c w)) = Suc (snack_count (trace w))"
  using display_trace [of m c w] by (auto split: option.splits)

lemmas snackbar_defs =
  generate_return_success_snackbar_message_def generate_return_fail_snackbar_message_def
  generate_return_error_snackbar_message_def report_error_def

lemma snack_ok_messages [intro, simp]:
  assumes "snack_ok w"
  shows "snack_ok (generate_return_success_snackbar_message m c w)"
    and "snack_ok (generate_return_fail_snackbar_message m c w)"
    and "snack_ok (generate_return_error_snackbar_message m c w)"
    and "snack_ok (report_error m w)"
    and "snack_ok (report_error_or_message m e w)"
  using assms by (simp_all add: snackbar_defs report_error_or_message_def split: api_error.splits)

lemma messages_more [simp, frame_simps]:
  "world.more (generate_return_success_snackbar_message m c w) = world.more w"
  "world.more (generate_return_fail_snackbar_message m c w) = world.more w"
  "world.more (generate_return_error_snackbar_message m c w) = world.more w"
  "world.more (report_error m w) = world.more w"
  "world.more (report_error_or_message m e w) = world.more w"
  by (simp_all add: snackbar_defs report_error_or_message_def split: api_error.splits)

lemma sent_display [simp]: "sent (displaySnackBar m c w) = sent w"
  using display_trace [of m c w] by (auto simp: sent_def split: option.splits)

lemma sent_messages [simp]:
  "sent (generate_return_success_snackbar_message m c w) = sent w"
  "sent (generate_return_fail_snackbar_message m c w) = sent w"
  "sent (generate_return_error_snackbar_message m c w) = sent w"
  "sent (report_error m w) = sent w"
  "sent (report_error_or_message m e w) = sent w"
  by (simp_all add: snackbar_defs report_error_or_message_def split: api_error.splits)

lemma report_opens_one:
  "snack_count (trace (report_error m w)) = Suc (snack_count (trace w))"
  "snack_count (trace (report_error_or_message m e w)) = Suc (snack_count (trace w))"
  by (simp_all add: snackbar_defs report_error_or_message_def display_opens_one split: api_error.splits)

lemma snack_ok_console [intro, simp]: "snack_ok w \<Longrightarrow> snack_ok (handleErrorConsole r w)"
  unfolding handleErrorConsole_def console_error_def Let_def
  by (auto intro!: snack_ok_emit split: err_body.splits)

lemma console_frame [simp, frame_simps]:
  "world.more (handleErrorConsole r w) = world.more w"
  "matSnackBarRef (handleErrorConsole r w) = matSnackBarRef w"
  "snack_count (trace (handleErrorConsole r w)) = snack_count (trace w)"
  by (simp_all add: handleErrorConsole_def console_error_def Let_def split: err_body.splits)

lemma sent_console [simp]: "sent (handleErrorConsole r w) = sent w"
  by (simp add: handleErrorConsole_def console_error_def Let_def split: err_body.splits)

lemma sent_handleError [simp]: "sent (fst (handleError op r w)) = sent w"
  by (simp add: handleError_def Let_def split: option.splits)

lemma handleError_frame [simp, frame_simps]:
  "world.more (fst (handleError op r w)) = world.more w"
  by (simp add: handleError_def Let_def split: option.splits)

lemma snack_ok_handleError [intro, simp]: "snack_ok w \<Longrightarrow> snack_ok (fst (handleError op r w))"
  by (simp add: handleError_def Let_def split: option.splits)

lemma snack_ok_handleErrorAlt [intro, simp]: "snack_ok w \<Longrightarrow> snack_ok (handleErrorAlt op r w)"
  by (auto simp: handleErrorAlt_def Let_def split: option.splits)

lemma snack_ok_intercept [intro, simp]: "snack_ok w \<Longrightarrow> snack_ok (intercept_error r w)"
  by (simp add: intercept_error_def)

lemma intercept_frame [simp, frame_simps]: "world.more (intercept_error r w) = world.more w"
  by (simp add: intercept_error_def)

lemma sent_request_failed [simp]: "sent (fst (request_failed op r w)) = sent w"
  by (simp add: request_failed_def intercept_error_def)

lemma snack_ok_request_failed [intro, simp]: "snack_ok w \<Longrightarrow> snack_ok (fst (request_failed op r w))"
  by (simp add: request_failed_def)

section \<open>What the services guarantee\<close>

lemma display_ref:
  "matSnackBarRef (displaySnackBar m c w) =
     (if \<exists>k. c = Some k \<and> actionLabel k \<noteq> None \<and> snack_action k \<noteq> None
      then Some (snack_count (trace w)) else None)"
  by (auto simp: displaySnackBar_def Let_def destroy_trace split: option.splits)

lemma body_get_truthy: "truthy (body_get b k) \<Longrightarrow> body_truthy b"
  by (cases b; cases "body_value b") (auto simp: element_index_def split: if_splits)

lemma handleError_thrown:
  "snd (handleError op (Some r) w) =
     (if truthy (body_get (error_body r) ''error_message'')
      then ErrorMessageClass (body_get (error_body r) ''error_message'')
      else if truthy (body_get (error_body r) ''post_validation'')
      then PostValidationClass (body_get (error_body r) ''post_validation'')
      else if truthy (body_get (error_body r) ''status'') \<and> truthy (body_get (error_body r) ''messages'')
      then ValidationErrorClass (body_get (error_body r) ''status'') (body_get (error_body r) ''messages'')
      else HttpErrorResponse (Some r))"
  by (auto simp: handleError_def Let_def dest: body_get_truthy)

lemma handleError_opens_one:
  "snack_count (trace (fst (handleError op r w))) = Suc (snack_count (trace w))"
  by (simp add: handleError_def Let_def display_opens_one split: option.splits)

lemma handleError_ref [simp]: "matSnackBarRef (fst (handleError op r w)) = None"
  by (simp add: handleError_def Let_def display_ref MAT_SNACKBAR_CONFIGURATION_60000_DUR_DISMISS_def
      snack_config_of_def split: option.splits)

lemma handleError_dismisses:
  "matSnackBarRef w = Some n \<Longrightarrow> SnackDismiss n \<in> set (trace (fst (handleError op (Some r) w)))"
  by (simp add: handleError_def Let_def displaySnackBar_def destroy_trace
      MAT_SNACKBAR_CONFIGURATION_60000_DUR_DISMISS_def snack_config_of_def)

text \<open>\<open>displaySnackBar\<close> opens exactly one snack bar with the given message, dismisses the
  snack bar it still refers to and no other, keeps the reference invariant (no snack bar is
  dismissed twice or before it was opened), touches nothing but the trace and the reference,
  and keeps a reference exactly when the configuration has both a label and an action.\<close>

theorem displaySnackBar_contract:
  assumes "snack_ok w"
  shows "snack_ok (displaySnackBar m c w) \<and>
    world.more (displaySnackBar m c w) = world.more w \<and>
    (\<exists>l d p. trace (displaySnackBar m c w) =
       trace w @ (case matSnackBarRef w of None \<Rightarrow> [] | Some n \<Rightarrow> [SnackDismiss n]) @ [SnackOpen m l d p]) \<and>
    matSnackBarRef (displaySnackBar m c w) =
      (if \<exists>k. c = Some k \<and> actionLabel k \<noteq> None \<and> snack_action k \<noteq> None
       then Some (snack_count (trace w)) else None)"
  using assms by (intro conjI display_trace display_ref) simp_all

theorem displaySnackBar_contract_witness:
  "snack_ok empty_world \<and>
   matSnackBarRef (displaySnackBar (JStr ''m'') (Some RELOAD_CONFIGURATION) empty_world) = Some 0"
proof -
  have ok: "snack_ok empty_world"
    by (simp add: snack_ok_def empty_world_def)
  show ?thesis
    using ok displaySnackBar_contract [OF ok, of "JStr ''m''" "Some RELOAD_CONFIGURATION"]
    by (simp add: RELOAD_CONFIGURATION_def empty_world_def)
qed

text \<open>\<open>handleError\<close> always shows exactly one snack bar, leaves the component state alone, and
  throws according to the first truthy key of the response body, in the order
  \<open>error_message\<close>, \<open>post_validation\<close>, \<open>status\<close> with \<open>messages\<close>; any other
  failure is thrown on as the response itself.\<close>

theorem handleError_contract:
  "world.more (fst (handleError op (Some r) w)) = world.more w \<and>
   snack_count (trace (fst (handleError op (Some r) w))) = Suc (snack_count (trace w)) \<and>
   snd (handleError op (Some r) w) =
     (if truthy (body_get (error_body r) ''error_message'')
      then ErrorMessageClass (body_get (error_body r) ''error_message'')
      else if truthy (body_get (error_body r) ''post_validation'')
      then PostValidationClass (body_get (error_body r) ''post_validation'')
      else if truthy (body_get (error_body r) ''status'') \<and> truthy (body_get (error_body r) ''messages'')
      then ValidationErrorClass (body_get (error_body r) ''status'') (body_get (error_body r) ''messages'')
      else HttpErrorResponse (Some r))"
  by (intro conjI handleError_frame handleError_opens_one handleError_thrown)

text \<open>C10: when a request is answered with 401, the interceptor opens the snack bar with the button
  that reloads the page, and the \<open>handleError\<close> of the same request dismisses it at once and
  opens another one in its place: the reference is gone and the button cannot be pressed.\<close>

theorem reload_prompt_dismissed:
  assumes "status r = JNum 401"
  shows "matSnackBarRef (intercept_error r w) = Some (snack_count (trace w)) \<and>
    matSnackBarRef (fst (request_failed op r w)) = None \<and>
    SnackDismiss (snack_count (trace w)) \<in> set (trace (fst (request_failed op r w))) \<and>
    snack_count (trace (fst (request_failed op r w))) = snack_count (trace w) + 2"
proof -
  have ref: "matSnackBarRef (intercept_error r w) = Some (snack_count (trace w))"
    using assms by (simp add: intercept_error_def display_ref RELOAD_CONFIGURATION_def)
  have "snack_count (trace (intercept_error r w)) = Suc (snack_count (trace w))"
    using assms by (simp add: intercept_error_def display_opens_one)
  then show ?thesis
    using ref handleError_dismisses [OF ref] by (simp add: request_failed_def handleError_opens_one)
qed

theorem reload_prompt_dismissed_witness:
  "matSnackBarRef (fst (request_failed ''get nodes''
     \<lparr>error_body = Body JNull, status = JNum 401, statusText = JStr ''Unauthorized'', http_message = Some ''m''\<rparr>
     empty_world)) = None"
  using reload_prompt_dismissed [of "\<lparr>error_body = Body JNull, status = JNum 401, statusText = JStr ''Unauthorized'',
     http_message = Some ''m''\<rparr>" empty_world "''get nodes''"] by simp

end
