(* ===== verification/Access_Control.thy ===== *)
theory Access_Control
  imports Api_Service "HOL-Library.Multiset"
begin

text \<open>
  Who may open which page: \<open>services/user.service.ts\<close>, the three route guards of
  \<open>guards/\<close>, the route table of \<open>modules/cvah-modules/app-routing.module.ts\<close>, the
  side navigation of \<open>top-navbar/classes/navbar-methods.class.ts\<close> with the sections of
  \<open>top-navbar/constants/navbar.constants.ts\<close>, and \<open>pipes/capitalize-first.pipe.ts\<close>.

  The router is outside the repository: a guard answers \<open>GuardTrue\<close> or starts a navigation of
  its own, which is the effect \<open>Navigate\<close>. The three guards share one contract, the locale
  \<open>role_guard\<close>.
\<close>

section \<open>UserService\<close>

record user =
  uid :: string
  givenName :: string
  surname :: string
  displayName :: string
  email :: string
  memberOf :: "string list"
  clientRoles :: "string list"
  user_roles :: "string list"
  controller_admin :: bool
  controller_maintainer :: bool
  operator :: bool
  realm_admin :: bool

text \<open>The service holds \<open>undefined\<close> until \<open>setUser\<close> was called.\<close>

record user_service =
  current_user :: "user option"

definition setUser :: "user \<Rightarrow> user_service \<Rightarrow> user_service" where
  "setUser u us = us\<lparr>current_user := Some u\<rparr>"

definition getUser :: "user_service \<Rightarrow> user option" where
  "getUser us = current_user us"

definition read_role :: "(user \<Rightarrow> bool) \<Rightarrow> user_service \<Rightarrow> js_error + bool" where
  "read_role r us = (case current_user us of None \<Rightarrow> Inl TypeError | Some u \<Rightarrow> Inr (r u))"

definition isControllerAdmin :: "user_service \<Rightarrow> js_error + bool" where
  "isControllerAdmin us = read_role controller_admin us"

definition isControllerMaintainer :: "user_service \<Rightarrow> js_error + bool" where
  "isControllerMaintainer us = read_role controller_maintainer us"

definition isOperator :: "user_service \<Rightarrow> js_error + bool" where
  "isOperator us = read_role operator us"

definition isRealmAdmin :: "user_service \<Rightarrow> js_error + bool" where
  "isRealmAdmin us = read_role realm_admin us"

definition getUserFromAPI :: "'a world_scheme \<Rightarrow> 'a world_scheme" where
  "getUserFromAPI = http GET ''/api/current_user'' JUndef"

section \<open>The guards\<close>

datatype guard_result = GuardTrue | GuardNavigation

definition unauthorized_route :: "string \<Rightarrow> effect" where
  "unauthorized_route url =
     Navigate ''/portal'' (JObj [(''action'', JStr ''unauthorized_route''), (''route_name'', JStr url)])"

definition ControllerAdminRequiredGuard :: "user_service \<Rightarrow> string \<Rightarrow> 'a world_scheme \<Rightarrow> js_error + 'a world_scheme \<times> guard_result" where
  "ControllerAdminRequiredGuard us url w =
     (case isControllerAdmin us of
        Inl e \<Rightarrow> Inl e
      | Inr b \<Rightarrow> Inr (if \<not> b then (emit (unauthorized_route url) w, GuardNavigation) else (w, GuardTrue)))"

definition ControllerMaintainerRequiredGuard :: "user_service \<Rightarrow> string \<Rightarrow> 'a world_scheme \<Rightarrow> js_error + 'a world_scheme \<times> guard_result" where
  "ControllerMaintainerRequiredGuard us url w =
     (case isControllerMaintainer us of
        Inl e \<Rightarrow> Inl e
      | Inr b \<Rightarrow> Inr (if \<not> b then (emit (unauthorized_route url) w, GuardNavigation) else (w, GuardTrue)))"

definition OperatorRequiredGuard :: "user_service \<Rightarrow> string \<Rightarrow> 'a world_scheme \<Rightarrow> js_error + 'a world_scheme \<times> guard_result" where
  "OperatorRequiredGuard us url w =
     (case isOperator us of
        Inl e \<Rightarrow> Inl e
      | Inr b \<Rightarrow> Inr (if \<not> b then (emit (unauthorized_route url) w, GuardNavigation) else (w, GuardTrue)))"

section \<open>The route table\<close>

datatype guard = AdminGuard | MaintainerGuard | OperatorGuard

fun canActivate :: "guard \<Rightarrow> user_service \<Rightarrow> string \<Rightarrow> 'a world_scheme \<Rightarrow> js_error + 'a world_scheme \<times> guard_result" where
  "canActivate AdminGuard = ControllerAdminRequiredGuard"
| "canActivate MaintainerGuard = ControllerMaintainerRequiredGuard"
| "canActivate OperatorGuard = OperatorRequiredGuard"

datatype route_target = RedirectTo string | PageComponent string

record route =
  route_path :: string
  route_target :: route_target
  route_guards :: "guard list"

definition page :: "string \<Rightarrow> string \<Rightarrow> guard list \<Rightarrow> route" where
  "page p c gs = \<lparr>route_path = p, route_target = PageComponent c, route_guards = gs\<rparr>"

definition routes :: "route list" where
  "routes =
     [\<lparr>route_path = [], route_target = RedirectTo ''/portal'', route_guards = []\<rparr>,
      page ''portal'' ''PortalComponent'' [],
      page ''support'' ''PmoSupportComponent'' [],
      page ''health'' ''HealthDashboardComponent'' [],
      page ''alerts'' ''SecurityAlertsComponent'' [],
      page ''settings'' ''SystemSettingsComponent'' [AdminGuard],
      page ''node-mng'' ''NodeManagementComponent'' [AdminGuard],
      page ''mip-mng'' ''MipManagementComponent'' [AdminGuard],
      page ''configmaps'' ''ConfigmapsComponent'' [OperatorGuard],
      page ''registry'' ''DockerRegistryComponent'' [],
      page ''windows_agent_deployer'' ''AgentBuilderChooserComponent'' [OperatorGuard],
      page ''rulesets'' ''PolicyManagementComponent'' [OperatorGuard],
      page ''pcaps'' ''PcapFormComponent'' [OperatorGuard],
      page ''catalog'' ''CatalogComponent'' [MaintainerGuard],
      page ''tools'' ''ToolsFormComponent'' [MaintainerGuard],
      page ''application/:id'' ''CatalogPageComponent'' [MaintainerGuard],
      page ''es_scale'' ''ElasticsearchScaleComponent'' [MaintainerGuard],
      page ''index_management'' ''ElasticsearchIndexManagementComponent'' [MaintainerGuard],
      page ''logingest'' ''ColdLogIngestComponent'' [OperatorGuard]]"

text \<open>A page opens when every guard of its route answers \<open>true\<close>; the first guard that does not
  ends the navigation. \<open>None\<close>: no route has the path.\<close>

fun run_guards :: "guard list \<Rightarrow> user_service \<Rightarrow> string \<Rightarrow> 'a world_scheme \<Rightarrow> js_error + 'a world_scheme \<times> guard_result" where
  "run_guards [] us url w = Inr (w, GuardTrue)"
| "run_guards (g # gs) us url w =
     (case canActivate g us url w of
        Inl e \<Rightarrow> Inl e
      | Inr (w', GuardTrue) \<Rightarrow> run_guards gs us url w'
      | Inr (w', GuardNavigation) \<Rightarrow> Inr (w', GuardNavigation))"

definition path_of_url :: "string \<Rightarrow> string" where
  "path_of_url url = (case url of [] \<Rightarrow> [] | c # cs \<Rightarrow> if c = CHR ''/'' then cs else url)"

definition navigate :: "user_service \<Rightarrow> string \<Rightarrow> 'a world_scheme \<Rightarrow> (js_error + 'a world_scheme \<times> guard_result) option" where
  "navigate us url w =
     (case find (\<lambda>r. route_path r = path_of_url url) routes of
        None \<Rightarrow> None
      | Some r \<Rightarrow> Some (run_guards (route_guards r) us url w))"

section \<open>The side navigation\<close>

record nav_link =
  nav_label :: string
  nav_url :: string
  nav_icon :: string
  isExternalLink :: bool
  nav_section :: string
  privs :: bool
  nav_target :: "string option"
  nav_kitStatus :: bool

record nav_group =
  group_id :: string
  group_label :: string
  group_children :: "nav_link list"

definition mk_group :: "string \<Rightarrow> string \<Rightarrow> nav_group" where
  "mk_group i l = \<lparr>group_id = i, group_label = l, group_children = []\<rparr>"

definition allSections :: "nav_group list" where
  "allSections =
     [mk_group ''general'' [],
      mk_group ''system_setup'' ''System Setup'',
      mk_group ''kubernetes'' ''Kubernetes'',
      mk_group ''policy_mgmt'' ''Policy Management'',
      mk_group ''Elastic'' ''Elastic'',
      mk_group ''tools'' ''Tools'',
      mk_group ''confluence'' ''Confluence'',
      mk_group ''support'' ''Support'']"

text \<open>\<open>encodeURI\<close> on code units below 256: the reserved, unreserved and \<open>#\<close> characters are kept, the
  others are written as the percent escapes of their UTF-8 bytes.\<close>

definition percent :: "nat \<Rightarrow> string" where
  "percent n =
     (let h = (\<lambda>d. if d < 10 then digit_char d else char_of (55 + d)) in CHR ''%'' # [h (n div 16), h (n mod 16)])"

definition uri_kept :: "char \<Rightarrow> bool" where
  "uri_kept c \<longleftrightarrow> is_digit c \<or> is_lower c \<or> is_upper c \<or>
     List.member (CHR 0x27 # '';,/?:@&=+$-_.!~*()#'') c"

definition encodeURI :: "string \<Rightarrow> string" where
  "encodeURI s = concat (map (\<lambda>c.
     if uri_kept c then [c]
     else let n = (of_char c :: nat) in
       if n < 128 then percent n else percent (192 + n div 64) @ percent (128 + n mod 64)) s)"

definition mk_link :: "string \<Rightarrow> string \<Rightarrow> string \<Rightarrow> bool \<Rightarrow> string \<Rightarrow> bool \<Rightarrow> string option \<Rightarrow> bool \<Rightarrow> nav_link" where
  "mk_link l u i e s p t k =
     \<lparr>nav_label = l, nav_url = u, nav_icon = i, isExternalLink = e, nav_section = s, privs = p,
      nav_target = t, nav_kitStatus = k\<rparr>"

definition space_link :: "string \<Rightarrow> string \<Rightarrow> nav_link" where
  "space_link host element =
     mk_link element (encodeURI (''http://'' @ host @ ''/docs/'' @ element)) ''book'' True ''confluence'' True
       (Some ''_blank'') False"

definition allLinks :: "string \<Rightarrow> user \<Rightarrow> string list \<Rightarrow> nav_link list" where
  "allLinks host u html_spaces =
     [mk_link (displayName u) (''https://'' @ host @ ''/auth/realms/CVAH-SSO/account'') ''account_circle'' True ''general'' True (Some ''_blank'') False,
      mk_link ''Logout'' (''https://'' @ host @ ''/Shibboleth.sso/Logout'') ''exit_to_app'' True ''general'' True (Some ''_self'') False,
      mk_link ''Portal'' ''/portal'' ''dashboard'' False ''general'' True None False,
      mk_link ''SSO Admin'' (''https://'' @ host @ ''/auth/admin/CVAH-SSO/console'') ''group'' True ''system_setup'' (realm_admin u) (Some ''_blank'') False,
      mk_link ''System Settings'' ''/settings'' ''layers'' False ''system_setup'' (controller_admin u) None False,
      mk_link ''Node Management'' ''/node-mng'' ''dns'' False ''system_setup'' (controller_admin u) None False,
      mk_link ''MIP Management'' ''/mip-mng'' ''laptop'' False ''system_setup'' (controller_admin u) None False,
      mk_link ''Remote Agents'' ''/windows_agent_deployer'' ''manage_search'' False ''system_setup'' (operator u) None True,
      mk_link ''Catalog'' ''/catalog'' ''apps'' False ''system_setup'' (controller_maintainer u) None True,
      mk_link ''Health'' ''/health'' ''local_hospital'' False ''kubernetes'' True None True,
      mk_link ''Configuration Maps'' ''/configmaps'' ''swap_calls'' False ''kubernetes'' (operator u) None True,
      mk_link ''Docker Registry'' ''/registry'' ''view_day'' False ''kubernetes'' True None False,
      mk_link ''Rule Set'' ''/rulesets'' ''swap_horiz'' False ''policy_mgmt'' (operator u) None True,
      mk_link ''Alerts'' ''/alerts'' ''warning'' False ''general'' (operator u) None True,
      mk_link ''Test PCAP Files'' ''pcaps'' ''security'' False ''policy_mgmt'' (operator u) None True,
      mk_link ''Tools'' ''/tools'' ''build'' False ''tools'' (controller_maintainer u) None False,
      mk_link ''API Docs'' ''/api/docs'' ''web'' True ''tools'' (controller_maintainer u) (Some ''_blank'') False,
      mk_link ''ES Scale'' ''/es_scale'' ''tune'' False ''Elastic'' (controller_maintainer u) None True,
      mk_link ''Index Management'' ''/index_management'' ''settings'' False ''Elastic'' (controller_maintainer u) None True,
      mk_link ''Cold Log Ingest'' ''/logingest'' ''cloud_download'' False ''Elastic'' (operator u) None True,
      mk_link ''PMO Support'' ''support'' ''contact_phone'' False ''support'' (operator u) None False]
     @ map (space_link host) html_spaces"

definition link_shown :: "bool \<Rightarrow> nav_link \<Rightarrow> bool" where
  "link_shown kitStatus l \<longleftrightarrow> privs l \<and> ((nav_kitStatus l \<and> kitStatus) \<or> \<not> nav_kitStatus l)"

definition getSideNavigationButtons :: "string \<Rightarrow> user_service \<Rightarrow> bool \<Rightarrow> string list \<Rightarrow> js_error + nav_group list" where
  "getSideNavigationButtons host us kitStatus html_spaces =
     (case getUser us of
        None \<Rightarrow> Inl TypeError
      | Some u \<Rightarrow>
          Inr (filter (\<lambda>g. group_children g \<noteq> [])
            (map (\<lambda>g. g\<lparr>group_children :=
                    filter (\<lambda>l. nav_section l = group_id g \<and> link_shown kitStatus l) (allLinks host u html_spaces)\<rparr>)
              allSections)))"

section \<open>The capitalize pipe\<close>

definition capitalize_transform :: "string option \<Rightarrow> string" where
  "capitalize_transform v =
     (case v of None \<Rightarrow> ''Not assigned'' | Some [] \<Rightarrow> [] | Some (c # cs) \<Rightarrow> upper_char c # cs)"

section \<open>The contract of a guard\<close>

text \<open>A guard over a role: it lets the user pass without an effect when the user has the role,
  and otherwise sends the user to the portal with the refused address. Before a user is set it
  throws.\<close>

locale role_guard =
  fixes has_role :: "user \<Rightarrow> bool"
    and activate :: "user_service \<Rightarrow> string \<Rightarrow> world \<Rightarrow> js_error + world \<times> guard_result"
  assumes no_user: "current_user us = None \<Longrightarrow> activate us url w = Inl TypeError"
    and allowed: "current_user us = Some u \<Longrightarrow> has_role u \<Longrightarrow> activate us url w = Inr (w, GuardTrue)"
    and refused: "current_user us = Some u \<Longrightarrow> \<not> has_role u \<Longrightarrow>
      activate us url w = Inr (emit (unauthorized_route url) w, GuardNavigation)"
begin

lemma passes_iff:
  assumes "current_user us = Some u"
  shows "(\<exists>w'. activate us url w = Inr (w', GuardTrue)) \<longleftrightarrow> has_role u"
  using assms by (cases "has_role u") (simp_all add: allowed refused)

lemma keeps_state: "activate us url w = Inr (w', r) \<Longrightarrow> matSnackBarRef w' = matSnackBarRef w"
  by (cases "current_user us"; cases "has_role (the (current_user us))") (auto simp: no_user allowed refused)

lemma one_redirect:
  assumes "current_user us = Some u" "\<not> has_role u" "activate us url w = Inr (w', r)"
  shows "trace w' = trace w @ [unauthorized_route url]"
  using assms by (auto simp: refused)

end

interpretation admin: role_guard controller_admin ControllerAdminRequiredGuard
  by unfold_locales (simp_all add: ControllerAdminRequiredGuard_def isControllerAdmin_def read_role_def)

interpretation maintainer: role_guard controller_maintainer ControllerMaintainerRequiredGuard
  by unfold_locales (simp_all add: ControllerMaintainerRequiredGuard_def isControllerMaintainer_def read_role_def)

interpretation oper: role_guard operator OperatorRequiredGuard
  by unfold_locales (simp_all add: OperatorRequiredGuard_def isOperator_def read_role_def)

fun guard_role :: "guard \<Rightarrow> user \<Rightarrow> bool" where
  "guard_role AdminGuard = controller_admin"
| "guard_role MaintainerGuard = controller_maintainer"
| "guard_role OperatorGuard = operator"

text \<open>The dispatcher over the guards is a guard again.\<close>

interpretation any: role_guard "guard_role g" "canActivate g" for g
proof (cases g)
  case AdminGuard
  then show "role_guard (guard_role g) (canActivate g)"
    using admin.role_guard_axioms by simp
next
  case MaintainerGuard
  then show "role_guard (guard_role g) (canActivate g)"
    using maintainer.role_guard_axioms by simp
next
  case OperatorGuard
  then show "role_guard (guard_role g) (canActivate g)"
    using oper.role_guard_axioms by simp
qed

lemma run_guards_true:
  "current_user us = Some u \<Longrightarrow> \<forall>g \<in> set gs. guard_role g u \<Longrightarrow> run_guards gs us url w = Inr (w, GuardTrue)"
  for w :: world
  by (induction gs) (simp_all add: any.allowed)

lemma run_guards_refused:
  "current_user us = Some u \<Longrightarrow> g \<in> set gs \<Longrightarrow> \<not> guard_role g u \<Longrightarrow>
   run_guards gs us url w = Inr (emit (unauthorized_route url) w, GuardNavigation)"
  for w :: world
proof (induction gs)
  case (Cons h gs)
  then show ?case
    by (cases "guard_role h u") (auto simp: any.allowed any.refused)
qed simp

text \<open>The privilege each page asks for, as the route table has it.\<close>

definition route_roles :: "string \<Rightarrow> guard list option" where
  "route_roles url = map_option route_guards (find (\<lambda>r. route_path r = path_of_url url) routes)"

lemma navigate_roles:
  assumes "current_user us = Some u" "route_roles url = Some gs"
  shows "navigate us url (w :: world) = Some (Inr
     (if \<forall>g \<in> set gs. guard_role g u then (w, GuardTrue)
      else (emit (unauthorized_route url) w, GuardNavigation)))"
proof -
  from assms(2) obtain r where "find (\<lambda>r. route_path r = path_of_url url) routes = Some r" "route_guards r = gs"
    by (auto simp: route_roles_def)
  then show ?thesis
    using assms(1) run_guards_true [of us u gs url w] run_guards_refused [of us u _ gs url w]
    by (auto simp: navigate_def)
qed

lemma route_roles_table:
  "route_roles ''/portal'' = Some []"
  "route_roles ''/settings'' = Some [AdminGuard]"
  "route_roles ''/node-mng'' = Some [AdminGuard]"
  "route_roles ''/mip-mng'' = Some [AdminGuard]"
  "route_roles ''/windows_agent_deployer'' = Some [OperatorGuard]"
  "route_roles ''/catalog'' = Some [MaintainerGuard]"
  "route_roles ''/health'' = Some []"
  "route_roles ''/configmaps'' = Some [OperatorGuard]"
  "route_roles ''/registry'' = Some []"
  "route_roles ''/rulesets'' = Some [OperatorGuard]"
  "route_roles ''/alerts'' = Some []"
  "route_roles ''pcaps'' = Some [OperatorGuard]"
  "route_roles ''/tools'' = Some [MaintainerGuard]"
  "route_roles ''/es_scale'' = Some [MaintainerGuard]"
  "route_roles ''/index_management'' = Some [MaintainerGuard]"
  "route_roles ''/logingest'' = Some [OperatorGuard]"
  "route_roles ''support'' = Some []"
  by (simp_all add: route_roles_def routes_def page_def path_of_url_def)

lemma mk_link_simps [simp]:
  "nav_url (mk_link l u i e s p t k) = u"
  "isExternalLink (mk_link l u i e s p t k) = e"
  "nav_section (mk_link l u i e s p t k) = s"
  "privs (mk_link l u i e s p t k) = p"
  "nav_kitStatus (mk_link l u i e s p t k) = k"
  by (simp_all add: mk_link_def)

text \<open>The privilege of an internal link and the guards of its route.\<close>

definition open_pages :: "string set" where
  "open_pages = {''/alerts'', ''support''}"

lemma internal_link_route:
  assumes "l \<in> set (allLinks host u spaces)" "\<not> isExternalLink l"
  shows "\<exists>gs. route_roles (nav_url l) = Some gs \<and>
     (privs l \<longrightarrow> (\<forall>g \<in> set gs. guard_role g u)) \<and>
     (if nav_url l \<in> open_pages then gs = [] else (\<forall>g \<in> set gs. guard_role g u) \<longrightarrow> privs l)"
proof -
  have "list_all (\<lambda>l. \<not> isExternalLink l \<longrightarrow> (\<exists>gs. route_roles (nav_url l) = Some gs \<and>
     (privs l \<longrightarrow> (\<forall>g \<in> set gs. guard_role g u)) \<and>
     (if nav_url l \<in> open_pages then gs = [] else (\<forall>g \<in> set gs. guard_role g u) \<longrightarrow> privs l)))
     (allLinks host u spaces)"
    by (simp add: allLinks_def route_roles_table list_all_iff space_link_def open_pages_def)
  with assms show ?thesis by (auto simp: list_all_iff)
qed

lemma mset_group_by:
  assumes "distinct ids" "\<forall>l \<in> set ls. P l \<longrightarrow> sec l \<in> set ids"
  shows "mset (concat (map (\<lambda>i. filter (\<lambda>l. sec l = i \<and> P l) ls) ids)) = mset (filter P ls)"
  using assms
proof (induction ids arbitrary: P)
  case (Cons i ids)
  have split: "mset (filter P ls) =
      mset (filter (\<lambda>l. sec l = i \<and> P l) ls) + mset (filter (\<lambda>l. sec l \<noteq> i \<and> P l) ls)"
    by (induction ls) auto
  have "filter (\<lambda>l. sec l = j \<and> P l) ls = filter (\<lambda>l. sec l = j \<and> (sec l \<noteq> i \<and> P l)) ls" if "j \<in> set ids" for j
    using Cons.prems(1) that by (intro filter_cong) auto
  then have eq: "map (\<lambda>j. filter (\<lambda>l. sec l = j \<and> P l) ls) ids =
      map (\<lambda>j. filter (\<lambda>l. sec l = j \<and> (sec l \<noteq> i \<and> P l)) ls) ids"
    by simp
  have "\<forall>l \<in> set ls. sec l \<noteq> i \<and> P l \<longrightarrow> sec l \<in> set ids"
    using Cons.prems(2) by auto
  then have "mset (concat (map (\<lambda>j. filter (\<lambda>l. sec l = j \<and> P l) ls) ids)) =
      mset (filter (\<lambda>l. sec l \<noteq> i \<and> P l) ls)"
    using Cons.IH [of "\<lambda>l. sec l \<noteq> i \<and> P l"] Cons.prems(1) by (simp only: eq) simp
  then show ?case
    using split by simp
qed (auto simp: filter_empty_conv)

lemma concat_filter_nonempty: "concat (filter (\<lambda>xs. xs \<noteq> []) xss) = concat xss"
  by (induction xss) auto

lemma link_sections: "l \<in> set (allLinks host u spaces) \<Longrightarrow> nav_section l \<in> set (map group_id allSections)"
proof -
  have "list_all (\<lambda>l. nav_section l \<in> set (map group_id allSections)) (allLinks host u spaces)"
    by (simp add: allLinks_def allSections_def mk_group_def space_link_def list_all_iff)
  then show "l \<in> set (allLinks host u spaces) \<Longrightarrow> nav_section l \<in> set (map group_id allSections)"
    by (auto simp: list_all_iff)
qed

lemma section_ids_distinct: "distinct (map group_id allSections)"
  by (simp add: allSections_def mk_group_def)

section \<open>What the user can reach\<close>

text \<open>C2: the side navigation and the route table agree. Every internal link leads to a route; a
  link the user has the privilege for opens its page without a redirect; a link the user lacks
  the privilege for sends the user to the portal, except for the alerts and the support page,
  whose routes carry no guard and which open for every user.\<close>

theorem navigation_agrees_with_routes:
  assumes "current_user us = Some u" "l \<in> set (allLinks host u spaces)" "\<not> isExternalLink l"
  shows "navigate us (nav_url l) (w :: world) =
    Some (Inr (if privs l \<or> nav_url l \<in> open_pages then (w, GuardTrue)
               else (emit (unauthorized_route (nav_url l)) w, GuardNavigation)))"
proof -
  obtain gs where gs: "route_roles (nav_url l) = Some gs"
    "privs l \<longrightarrow> (\<forall>g \<in> set gs. guard_role g u)"
    "if nav_url l \<in> open_pages then gs = [] else (\<forall>g \<in> set gs. guard_role g u) \<longrightarrow> privs l"
    using internal_link_route [OF assms(2,3)] by blast
  have "(\<forall>g \<in> set gs. guard_role g u) \<longleftrightarrow> privs l \<or> nav_url l \<in> open_pages"
    using gs(2,3) by (auto split: if_splits)
  then show ?thesis
    using navigate_roles [OF assms(1) gs(1), of w] by simp
qed

definition viewer :: user where
  "viewer = \<lparr>uid = ''v'', givenName = [], surname = [], displayName = ''V'', email = [], memberOf = [],
     clientRoles = [], user_roles = [], controller_admin = False, controller_maintainer = False,
     operator = False, realm_admin = False\<rparr>"

theorem navigation_agrees_with_routes_witness:
  "navigate \<lparr>current_user = Some viewer\<rparr> ''/settings'' empty_world =
     Some (Inr (emit (unauthorized_route ''/settings'') empty_world, GuardNavigation))"
proof -
  let ?l = "mk_link ''System Settings'' ''/settings'' ''layers'' False ''system_setup'' False None False"
  have "?l \<in> set (allLinks ''kit'' viewer [])"
    by (simp add: allLinks_def viewer_def)
  then show ?thesis
    using navigation_agrees_with_routes [of "\<lparr>current_user = Some viewer\<rparr>" viewer ?l "''kit''" "[]" empty_world]
    by (simp add: open_pages_def)
qed

text \<open>the side navigation shows every link the user may see exactly once (the links with the
  privilege, and of those that need a deployed kit only when there is one), grouped by section,
  and no section is empty.\<close>

theorem side_navigation_complete:
  assumes "current_user us = Some u"
  shows "\<exists>gs. getSideNavigationButtons host us kit spaces = Inr gs \<and>
    mset (concat (map group_children gs)) = mset (filter (link_shown kit) (allLinks host u spaces)) \<and>
    list_all (\<lambda>g. group_children g \<noteq> [] \<and> list_all (\<lambda>l. nav_section l = group_id g) (group_children g)) gs"
proof -
  let ?fill = "\<lambda>i. filter (\<lambda>l. nav_section l = i \<and> link_shown kit l) (allLinks host u spaces)"
  let ?gs = "filter (\<lambda>g. group_children g \<noteq> []) (map (\<lambda>g. g\<lparr>group_children := ?fill (group_id g)\<rparr>) allSections)"
  have "map group_children ?gs = filter (\<lambda>xs. xs \<noteq> []) (map ?fill (map group_id allSections))"
    by (simp add: filter_map o_def)
  then have "concat (map group_children ?gs) = concat (map ?fill (map group_id allSections))"
    by (simp only: concat_filter_nonempty)
  then have "mset (concat (map group_children ?gs)) = mset (filter (link_shown kit) (allLinks host u spaces))"
    using mset_group_by [OF section_ids_distinct, of "allLinks host u spaces" "link_shown kit" nav_section]
      link_sections by metis
  moreover have "getSideNavigationButtons host us kit spaces = Inr ?gs"
    using assms by (simp add: getSideNavigationButtons_def getUser_def)
  moreover have "list_all (\<lambda>g. group_children g \<noteq> [] \<and>
      list_all (\<lambda>l. nav_section l = group_id g) (group_children g)) ?gs"
    by (auto simp: list_all_iff)
  ultimately show ?thesis by blast
qed

theorem side_navigation_complete_witness:
  "\<exists>gs. getSideNavigationButtons ''kit'' \<lparr>current_user = Some viewer\<rparr> False [] = Inr gs \<and>
    mset (concat (map group_children gs)) = mset (filter (link_shown False) (allLinks ''kit'' viewer []))"
  using side_navigation_complete [of "\<lparr>current_user = Some viewer\<rparr>" viewer "''kit''" False "[]"] by auto

end
