(* ===== verification/Data_Classes.thy ===== *)
theory Data_Classes
  imports Data_Methods
begin

text \<open>
  The data classes of \<open>classes/\<close>. A class of the frontend is a constructor that reads an object
  of the backend and copies the listed properties, some of them only when present, some through
  another constructor. Objects are the values \<open>JObj\<close>, their properties in the order the
  constructor assigns them; reading a property of \<open>undefined\<close> or \<open>null\<close> throws.
\<close>

section \<open>Results\<close>

definition sbind :: "'e + 'a \<Rightarrow> ('a \<Rightarrow> 'e + 'b) \<Rightarrow> 'e + 'b" where
  "sbind r f = (case r of Inl e \<Rightarrow> Inl e | Inr x \<Rightarrow> f x)"

definition smap :: "('a \<Rightarrow> 'b) \<Rightarrow> 'e + 'a \<Rightarrow> 'e + 'b" where
  "smap f r = (case r of Inl e \<Rightarrow> Inl e | Inr x \<Rightarrow> Inr (f x))"

fun mapS :: "('a \<Rightarrow> 'e + 'b) \<Rightarrow> 'a list \<Rightarrow> 'e + 'b list" where
  "mapS f [] = Inr []"
| "mapS f (x # xs) = sbind (f x) (\<lambda>y. smap (\<lambda>ys. y # ys) (mapS f xs))"

text \<open>\<open>v.map(f)\<close>: only arrays have the method.\<close>

definition js_map :: "(js \<Rightarrow> js_error + js) \<Rightarrow> js \<Rightarrow> js_error + js" where
  "js_map f v = (case v of JArr vs \<Rightarrow> smap JArr (mapS f vs) | _ \<Rightarrow> Inl TypeError)"

definition js_map_list :: "(js \<Rightarrow> js_error + js) \<Rightarrow> js \<Rightarrow> js_error + js list" where
  "js_map_list f v = (case v of JArr vs \<Rightarrow> mapS f vs | _ \<Rightarrow> Inl TypeError)"

text \<open>The elements of a value that is an array.\<close>

fun arr_elems :: "js \<Rightarrow> js list" where
  "arr_elems (JArr vs) = vs"
| "arr_elems _ = []"

text \<open>\<open>Object.keys(v).length\<close>.\<close>

definition key_count :: "js \<Rightarrow> js_error + nat" where
  "key_count v = (if notUndefNull v then Inr (length (js_keys v)) else Inl TypeError)"

section \<open>Constructors\<close>

type_synonym builder = "js \<Rightarrow> js_error + (string \<times> js) list"

definition copy :: "string \<Rightarrow> builder" where
  "copy k v = Inr [(k, js_get v k)]"

definition copy_present :: "string \<Rightarrow> builder" where
  "copy_present k v = Inr (if notUndefNull (js_get v k) then [(k, js_get v k)] else [])"

definition nested :: "string \<Rightarrow> (js \<Rightarrow> js_error + js) \<Rightarrow> builder" where
  "nested k f v = smap (\<lambda>w. [(k, w)]) (f (js_get v k))"

definition map_or :: "string \<Rightarrow> (js \<Rightarrow> js_error + js) \<Rightarrow> js option \<Rightarrow> builder" where
  "map_or k f d v =
     (if notUndefNull (js_get v k) then nested k (js_map f) v
      else Inr (case d of None \<Rightarrow> [] | Some w \<Rightarrow> [(k, w)]))"

definition construct :: "builder list \<Rightarrow> js \<Rightarrow> js_error + js" where
  "construct bs v =
     (if \<not> notUndefNull v then Inl TypeError
      else smap (\<lambda>ps. JObj (concat ps)) (mapS (\<lambda>b. b v) bs))"

definition new_JobClass :: "js \<Rightarrow> js_error + js" where
  "new_JobClass = construct (map copy
     [''_id'', ''complete'', ''description'', ''error'', ''exec_type'', ''inprogress'',
      ''job_id'', ''message'', ''name'', ''node_id'', ''pending''])"

definition new_DisksClass :: "js \<Rightarrow> js_error + js" where
  "new_DisksClass = construct (map copy
     [''has_root'', ''name'', ''size_gb'', ''size_tb'', ''disk_rotation''])"

definition new_InterfacesClass :: "js \<Rightarrow> js_error + js" where
  "new_InterfacesClass = construct (map copy
     [''ip_address'', ''mac_address'', ''name'', ''speed''])"

definition new_DefaultIPV4SettingsClass :: "js \<Rightarrow> js_error + js" where
  "new_DefaultIPV4SettingsClass = construct (map copy
     [''address'', ''alias'', ''broadcast'', ''gateway'', ''interface'',
      ''macaddress'', ''mtu'', ''netmask'', ''network'', ''type''])"

definition new_KitStatusClass :: "js \<Rightarrow> js_error + js" where
  "new_KitStatusClass = construct (map copy
     [''esxi_settings_configured'', ''kit_settings_configured'',
      ''general_settings_configured'', ''control_plane_deployed'',
      ''base_kit_deployed'', ''ready_to_deploy'', ''jobs_running'',
      ''deploy_kit_running''])"

definition new_GenericJobAndKeyClass :: "js \<Rightarrow> js_error + js" where
  "new_GenericJobAndKeyClass = construct (map copy
     [''job_id'', ''redis_key''])"

definition new_SuccessMessageClass :: "js \<Rightarrow> js_error + js" where
  "new_SuccessMessageClass = construct (map copy
     [''success_message''])"

definition new_AppClass :: "js \<Rightarrow> js_error + js" where
  "new_AppClass = construct (map copy
     [''application'', ''deployment_name''])"

definition new_StatusClass :: "js \<Rightarrow> js_error + js" where
  "new_StatusClass = construct (map copy
     [''appVersion'', ''application'', ''deployment_name'', ''hostname'',
      ''node_type'', ''status''])"

definition new_SavedValueClass :: "js \<Rightarrow> js_error + js" where
  "new_SavedValueClass = construct (map copy
     [''application'', ''deployment_name'', ''values'', ''_id''])"

definition new_RuleClass :: "js \<Rightarrow> js_error + js" where
  "new_RuleClass = construct (map copy
     [''_id'', ''ruleName'', ''rule'', ''createdDate'', ''lastModifiedDate'',
      ''isEnabled'', ''byPassValidation'', ''rule_set_id''])"

definition new_RuleSyncClass :: "js \<Rightarrow> js_error + js" where
  "new_RuleSyncClass = construct (map copy
     [''job_id'', ''redis_key''])"

definition new_SensorStateClass :: "js \<Rightarrow> js_error + js" where
  "new_SensorStateClass = construct (map copy
     [''hostname'', ''state''])"

definition new_HostInfoClass :: "js \<Rightarrow> js_error + js" where
  "new_HostInfoClass = construct (map copy
     [''hostname'', ''mac'', ''management_ip''])"

definition new_BackgroundJobClass :: "js \<Rightarrow> js_error + js" where
  "new_BackgroundJobClass = construct (map copy
     [''job_id'', ''redis_key'', ''created_at'', ''enqueued_at'', ''started_at'',
      ''ended_at'', ''origin'', ''description'', ''timeout'', ''status'', ''ttl'',
      ''result_ttl'', ''queued_position'', ''meta'', ''worker_name''])"

definition new_IFACEStateClass :: "js \<Rightarrow> js_error + js" where
  "new_IFACEStateClass = construct (map copy
     [''name'', ''state'', ''link_up''])"

definition new_VMWareSettingsClass :: "js \<Rightarrow> js_error + js" where
  "new_VMWareSettingsClass = construct (map copy
     [''_id'', ''ip_address'', ''username'', ''password'', ''datastore'', ''vcenter'',
      ''folder'', ''datacenter'', ''portgroup'', ''cluster''])"

definition new_VMWareDataClass :: "js \<Rightarrow> js_error + js" where
  "new_VMWareDataClass = construct (map copy
     [''portgroups'', ''datacenters'', ''datastores'', ''folders'', ''clusters''])"

definition new_MipSettingsClass :: "js \<Rightarrow> js_error + js" where
  "new_MipSettingsClass = construct (map copy
     [''_id'', ''password'', ''user_password'', ''luks_password''])"

definition new_GeneralSettingsClass :: "js \<Rightarrow> js_error + js" where
  "new_GeneralSettingsClass = construct (map copy
     [''_id'', ''controller_interface'', ''netmask'', ''gateway'', ''domain'',
      ''job_id'', ''job_completed'', ''dhcp_range''])"

definition new_ControllerInfoClass :: "js \<Rightarrow> js_error + js" where
  "new_ControllerInfoClass = construct (map copy
     [''ip_address'', ''gateway'', ''netmask'', ''name'', ''cidrs'', ''dhcp_range'',
      ''cidr_ranges''])"

definition new_FormControlClass :: "js \<Rightarrow> js_error + js" where
  "new_FormControlClass = construct (map copy
     [''default_value'', ''dependent_app'', ''description'', ''error_message'',
      ''falseValue'', ''name'', ''regexp'', ''required'', ''trueValue'', ''type''])"

definition new_OwnerReferenceClass :: "js \<Rightarrow> js_error + js" where
  "new_OwnerReferenceClass = construct (map copy
     [''api_version'', ''block_owner_deletion'', ''controller'', ''kind'', ''name'',
      ''uid''])"

definition new_PCAPClass :: "js \<Rightarrow> js_error + js" where
  "new_PCAPClass = construct (map copy
     [''created_date'', ''sha256'', ''name'', ''size'', ''first_packet_date'',
      ''last_packet_date''])"

definition new_PortalLinkClass :: "js \<Rightarrow> js_error + js" where
  "new_PortalLinkClass = construct (map copy
     [''dns'', ''ip'', ''logins''])"

definition new_UserPortalLinkClass :: "js \<Rightarrow> js_error + js" where
  "new_UserPortalLinkClass = construct (map copy
     [''_id'', ''name'', ''url'', ''description''])"

definition new_KeyValueClass :: "js \<Rightarrow> js_error + js" where
  "new_KeyValueClass = construct (map copy
     [''key'', ''value''])"

definition new_KitTokenClass :: "js \<Rightarrow> js_error + js" where
  "new_KitTokenClass = construct (map copy
     [''kit_token_id'', ''ipaddress'', ''token'', ''elasticsearch_status'',
      ''kibana_status'', ''hostname''])"

definition new_IPSetFirstLastClass :: "js \<Rightarrow> js_error + js" where
  "new_IPSetFirstLastClass = construct (map copy
     [''first'', ''last''])"

definition new_ErrorMessageClass :: "js \<Rightarrow> js_error + js" where
  "new_ErrorMessageClass = construct (map copy
     [''error_message''])"

definition new_PostValidationClass :: "js \<Rightarrow> js_error + js" where
  "new_PostValidationClass = construct (map copy
     [''post_validation''])"

definition new_ValidationErrorClass :: "js \<Rightarrow> js_error + js" where
  "new_ValidationErrorClass = construct (map copy
     [''status'', ''messages''])"


definition new_DeviceFactsClass :: "js \<Rightarrow> js_error + js" where
  "new_DeviceFactsClass = construct
     ([copy ''cpus_available'', nested ''default_ipv4_settings'' new_DefaultIPV4SettingsClass]
      @ map copy [''hostname'', ''management_ip'', ''memory_available'', ''memory_gb'', ''memory_mb'',
          ''potential_monitor_interfaces'', ''product_name'']
      @ [map_or ''disks'' new_DisksClass (Some (JArr [])), map_or ''interfaces'' new_InterfacesClass (Some (JArr []))])"

definition device_facts :: builder where
  "device_facts v =
     sbind (key_count (js_get v ''deviceFacts'')) (\<lambda>n.
       if n > 0 then nested ''deviceFacts'' new_DeviceFactsClass v else Inr [])"

definition new_NodeClass :: "js \<Rightarrow> js_error + js" where
  "new_NodeClass = construct
     (map copy [''_id'', ''deployment_name'', ''deployment_type'', ''hostname'', ''ip_address'', ''is_remote'',
        ''mac_address'', ''node_type'', ''virtual_cpu'', ''virtual_data'', ''virtual_mem'', ''virtual_os'', ''vpn_status'']
      @ [map_or ''jobs'' new_JobClass None, device_facts])"

definition new_MIPClass :: "js \<Rightarrow> js_error + js" where
  "new_MIPClass = construct
     (map copy [''_id'', ''hostname'', ''ip_address'', ''mac_address''] @ [nested ''jobs'' (js_map new_JobClass)])"

definition new_KitFormClass :: "js \<Rightarrow> js_error + js" where
  "new_KitFormClass = construct
     (map copy [''complete'', ''kubernetes_services_cidr''] @ [map_or ''nodes'' new_NodeClass (Some (JArr []))])"

definition new_KitSettingsClass :: "js \<Rightarrow> js_error + js" where
  "new_KitSettingsClass = construct
     (map copy [''_id'', ''kubernetes_services_cidr'', ''password'', ''upstream_dns'', ''upstream_ntp'', ''job_id'', ''job_completed'']
      @ map copy_present [''is_gip'', ''controller_interface'', ''netmask'', ''gateway'', ''domain'', ''dhcp_range''])"

definition new_ChartClass :: "js \<Rightarrow> js_error + js" where
  "new_ChartClass = construct
     (map copy [''appVersion'', ''version'', ''application'', ''description'', ''pmoSupported'', ''isSensorApp'']
      @ [map_or ''nodes'' new_StatusClass (Some (JArr []))])"

definition new_ChartInfoClass :: "js \<Rightarrow> js_error + js" where
  "new_ChartInfoClass = construct
     ([copy ''appVersion'', copy ''description'', nested ''formControls'' (js_map new_FormControlClass)]
      @ map copy [''id'', ''node_affinity'', ''type'', ''version''] @ [copy_present ''devDependent''])"

definition new_RuleSetClass :: "js \<Rightarrow> js_error + js" where
  "new_RuleSetClass = construct
     (map copy [''_id'', ''appType'', ''clearance'', ''name'', ''state'', ''createdDate'', ''lastModifiedDate'', ''isEnabled'']
      @ [map_or ''rules'' new_RuleClass (Some (JArr [])), map_or ''sensors'' new_HostInfoClass (Some (JArr [])),
         map_or ''sensor_states'' new_SensorStateClass (Some (JArr []))])"

definition new_ConfigMapMetadataClass :: "js \<Rightarrow> js_error + js" where
  "new_ConfigMapMetadataClass = construct
     (map copy [''name'', ''namespace'', ''creation_timestamp'', ''uid'', ''resource_version'', ''annotations'',
        ''cluster_name'', ''deletion_grace_period_seconds'', ''deletion_timestamp'', ''finalizers'', ''generate_name'',
        ''generation'', ''initializers'', ''labels'', ''self_link'']
      @ [map_or ''owner_references'' new_OwnerReferenceClass (Some JNull)])"

definition new_ConfigMapClass :: "js \<Rightarrow> js_error + js" where
  "new_ConfigMapClass = construct
     ([copy ''data'', nested ''metadata'' new_ConfigMapMetadataClass] @ map copy [''kind'', ''api_version'', ''binary_data''])"

text \<open>\<open>NotificationDataClass\<close> converts every property of the object.\<close>

definition new_NotificationDataClass :: "js \<Rightarrow> js_error + js" where
  "new_NotificationDataClass v =
     (if \<not> notUndefNull v then Inl TypeError
      else smap (\<lambda>ps. JObj (concat ps)) (mapS (\<lambda>k. nested k new_StatusClass v) (js_keys v)))"

definition new_NotificationClass :: "js \<Rightarrow> js_error + js" where
  "new_NotificationClass = construct
     (map copy [''_id'', ''role'', ''message'', ''status'', ''exception'', ''timestamp'', ''displayTime'', ''action'', ''application'']
      @ [\<lambda>v. if notUndefNull (js_get v ''data'') then nested ''data'' new_NotificationDataClass v else Inr []])"

section \<open>Lemmas\<close>

text \<open>A property whose name does not start with a digit is no element of an array or string.\<close>

lemma element_index_name: "k = c # cs \<Longrightarrow> \<not> is_digit c \<Longrightarrow> element_index k n = None"
  by (auto simp: element_index_def find_index_None dest: show_nat_digits)
    (metis list.set_intros(1) show_nat_digits)

lemma js_get_str_name: "k = c # cs \<Longrightarrow> \<not> is_digit c \<Longrightarrow> k \<noteq> ''length'' \<Longrightarrow> js_get (JStr s) k = JUndef"
  using element_index_name [of k c cs "length s"] by simp

lemma sbind_simps [simp]: "sbind (Inl e) f = Inl e" "sbind (Inr x) f = f x"
  by (simp_all add: sbind_def)

lemma smap_simps [simp]: "smap f (Inl e) = Inl e" "smap f (Inr x) = Inr (f x)"
  by (simp_all add: smap_def)

lemma sbind_Inr_iff: "sbind r f = Inr y \<longleftrightarrow> (\<exists>x. r = Inr x \<and> f x = Inr y)"
  by (cases r) simp_all

lemma smap_Inr_iff: "smap f r = Inr y \<longleftrightarrow> (\<exists>x. r = Inr x \<and> y = f x)"
  by (cases r) auto

lemma mapS_Inr: "mapS f xs = Inr ys \<longleftrightarrow> list_all2 (\<lambda>x y. f x = Inr y) xs ys"
  by (induction xs arbitrary: ys) (auto simp: sbind_Inr_iff smap_Inr_iff list_all2_Cons1)

lemma mapS_length: "mapS f xs = Inr ys \<Longrightarrow> length ys = length xs"
  by (auto simp: mapS_Inr dest: list_all2_lengthD)

end
