(* ===== verification/Async.thy ===== *)
theory Async
  imports Api_Service Data_Classes
begin

text \<open>
  Asynchronous components. A method that calls a service or opens a dialog returns at once; the
  callback given to \<open>subscribe\<close> runs later, when the answer arrives, and other events may
  come in between. The state of a component therefore carries the requests that wait for an
  answer and the dialogs that are open, each with the values its callback captured. The answer of
  a request is \<open>Reply\<close> with the body, or \<open>Failure\<close>; \<open>subscribe\<close> runs the decoder of
  the service (a \<open>map\<close> in its \<open>pipe\<close>), the error handler of the service and the two
  callbacks in the order RxJS runs them.

  The locale \<open>async_component\<close> is the contract of a component: its handlers keep an
  invariant, whatever the order of events, answers and closed dialogs.
\<close>

section \<open>Waiting requests and open dialogs\<close>

record ('k, 'd) async = world +
  requests :: "'k list"
  dialogs :: "'d list"

datatype reply = Reply js | Failure http_error

definition request :: "http_method \<Rightarrow> string \<Rightarrow> js \<Rightarrow> 'k \<Rightarrow> ('k, 'd, 'a) async_scheme \<Rightarrow> ('k, 'd, 'a) async_scheme" where
  "request m url body k s = (http m url body s)\<lparr>requests := requests s @ [k]\<rparr>"

definition open_dialog :: "string \<Rightarrow> js \<Rightarrow> 'd \<Rightarrow> ('k, 'd, 'a) async_scheme \<Rightarrow> ('k, 'd, 'a) async_scheme" where
  "open_dialog name data d s = (emit (DialogOpen name data) s)\<lparr>dialogs := dialogs s @ [d]\<rparr>"

definition remove_nth :: "nat \<Rightarrow> 'a list \<Rightarrow> 'a list" where
  "remove_nth i xs = take i xs @ drop (Suc i) xs"

text \<open>An exception thrown by the decoder reaches \<open>handleError\<close> as the error object: it has no
  body and no status, and its message is abbreviated to the name of the error.\<close>

definition thrown_error :: "js_error \<Rightarrow> http_error" where
  "thrown_error e =
     \<lparr>error_body = Body JUndef, status = JUndef, statusText = JUndef,
      http_message = Some (case e of TypeError \<Rightarrow> ''TypeError'' | SyntaxError \<Rightarrow> ''SyntaxError'' |
        RangeError \<Rightarrow> ''RangeError'' | URIError \<Rightarrow> ''URIError'')\<rparr>"

definition subscribe ::
  "string \<Rightarrow> (js \<Rightarrow> js_error + 'r) \<Rightarrow> ('r \<Rightarrow> 'a world_scheme \<Rightarrow> 'a world_scheme) \<Rightarrow>
   (api_error \<Rightarrow> 'a world_scheme \<Rightarrow> 'a world_scheme) \<Rightarrow> reply \<Rightarrow> 'a world_scheme \<Rightarrow> 'a world_scheme"
where
  "subscribe operation decode next_cb error_cb r s =
     (case r of
        Reply v \<Rightarrow>
          (case decode v of
             Inr x \<Rightarrow> next_cb x s
           | Inl e \<Rightarrow> (let (s', err) = handleError operation (Some (thrown_error e)) s in error_cb err s'))
      | Failure f \<Rightarrow> (let (s', err) = request_failed operation f s in error_cb err s'))"

text \<open>A callback that throws before it changed anything leaves the state as it was.\<close>

definition settle :: "'s \<Rightarrow> js_error + 's \<Rightarrow> 's" where
  "settle s r = (case r of Inl _ \<Rightarrow> s | Inr s' \<Rightarrow> s')"

text \<open>A handler that may throw returns the error, if any, with the state it has reached.\<close>

type_synonym 's attempt = "js_error option \<times> 's"

definition and_then :: "'s attempt \<Rightarrow> ('s \<Rightarrow> 's attempt) \<Rightarrow> 's attempt" where
  "and_then m f = (case m of (None, s) \<Rightarrow> f s | (Some e, s) \<Rightarrow> (Some e, s))"

definition done_with :: "'s \<Rightarrow> 's attempt" where
  "done_with s = (None, s)"

definition attempt :: "'s \<Rightarrow> js_error + 's \<Rightarrow> 's attempt" where
  "attempt s r = (case r of Inl e \<Rightarrow> (Some e, s) | Inr s' \<Rightarrow> (None, s'))"

fun each :: "('x \<Rightarrow> 's \<Rightarrow> 's attempt) \<Rightarrow> 'x list \<Rightarrow> 's \<Rightarrow> 's attempt" where
  "each f [] s = done_with s"
| "each f (x # xs) s = and_then (f x s) (each f xs)"

datatype 'e event =
    Act 'e
  | Answer nat reply
  | Closed nat js

definition async_step ::
  "('e \<Rightarrow> ('k, 'd, 'a) async_scheme \<Rightarrow> ('k, 'd, 'a) async_scheme) \<Rightarrow>
   ('k \<Rightarrow> reply \<Rightarrow> ('k, 'd, 'a) async_scheme \<Rightarrow> ('k, 'd, 'a) async_scheme) \<Rightarrow>
   ('d \<Rightarrow> js \<Rightarrow> ('k, 'd, 'a) async_scheme \<Rightarrow> ('k, 'd, 'a) async_scheme) \<Rightarrow>
   'e event \<Rightarrow> ('k, 'd, 'a) async_scheme \<Rightarrow> ('k, 'd, 'a) async_scheme"
where
  "async_step act answer closed ev s =
     (case ev of
        Act e \<Rightarrow> act e s
      | Answer i r \<Rightarrow>
          if i < length (requests s)
          then answer (requests s ! i) r (s\<lparr>requests := remove_nth i (requests s)\<rparr>) else s
      | Closed i v \<Rightarrow>
          if i < length (dialogs s)
          then closed (dialogs s ! i) v (s\<lparr>dialogs := remove_nth i (dialogs s)\<rparr>) else s)"

section \<open>Lemmas\<close>

lemma and_then_simps [simp]:
  "and_then (None, s) f = f s" "and_then (Some e, s) f = (Some e, s)" "and_then (done_with s) f = f s"
  by (simp_all add: and_then_def done_with_def)

lemma snd_done [simp]: "snd (done_with s) = s"
  by (simp add: done_with_def)

lemma snd_and_then: "(\<And>s. P s \<Longrightarrow> P (snd (f s))) \<Longrightarrow> P (snd m) \<Longrightarrow> P (snd (and_then m f))"
  by (cases m; cases "fst m") (auto simp: and_then_def split: option.splits)

lemma snd_each:
  assumes "P s" "\<And>x t. x \<in> set xs \<Longrightarrow> P t \<Longrightarrow> P (snd (f x t))"
  shows "P (snd (each f xs s))"
  using assms
proof (induction xs arbitrary: s)
  case (Cons x xs)
  have "P (snd (f x s))" by (rule Cons.prems(2)) (simp_all add: Cons.prems(1))
  moreover have "P (snd (each f xs t))" if "P t" for t
    by (rule Cons.IH) (use that Cons.prems(2) in auto)
  ultimately show ?case by (simp add: snd_and_then [where P = P])
qed simp

lemma set_remove_nth: "set (remove_nth i xs) \<subseteq> set xs"
  by (auto simp: remove_nth_def dest: in_set_takeD in_set_dropD)

lemma distinct_remove_nth: "distinct xs \<Longrightarrow> distinct (remove_nth i xs)"
  unfolding remove_nth_def
  by (metis distinct_append distinct_drop distinct_take set_take_disj_set_drop_if_distinct le_SucI order_refl)

lemma remove_nth_0 [simp]: "remove_nth 0 (x # xs) = xs"
  by (simp add: remove_nth_def)

lemma request_trace [simp, trace_simps]: "trace (request m u b k s) = trace s @ [Http m u b]"
  by (simp add: request_def)

lemma request_ref [simp, frame_simps]: "matSnackBarRef (request m u b k s) = matSnackBarRef s"
  by (simp add: request_def)

lemma request_requests [simp]: "requests (request m u b k s) = requests s @ [k]"
  by (simp add: request_def)

lemma request_dialogs [simp]: "dialogs (request m u b k s) = dialogs s"
  by (simp add: request_def http_def emit_def)

lemma request_more [simp, frame_simps]: "async.more (request m u b k s) = async.more s"
  by (simp add: request_def http_def emit_def)

lemma sent_request [simp]: "sent (request m u b k s) = sent s @ [Http m u b]"
  by (simp add: sent_def)

lemma sent_open_dialog [simp]: "sent (open_dialog n v d s) = sent s"
  by (simp add: sent_def open_dialog_def)

lemma sent_updates [simp]:
  "sent (s\<lparr>requests := r\<rparr>) = sent s" "sent (s\<lparr>dialogs := d\<rparr>) = sent s" "sent (s\<lparr>async.more := m\<rparr>) = sent s"
  by (simp_all add: sent_def)

lemma open_dialog_trace [simp, trace_simps]: "trace (open_dialog n v d s) = trace s @ [DialogOpen n v]"
  by (simp add: open_dialog_def)

lemma open_dialog_ref [simp, frame_simps]: "matSnackBarRef (open_dialog n v d s) = matSnackBarRef s"
  by (simp add: open_dialog_def)

lemma open_dialog_dialogs [simp]: "dialogs (open_dialog n v d s) = dialogs s @ [d]"
  by (simp add: open_dialog_def)

lemma open_dialog_requests [simp]: "requests (open_dialog n v d s) = requests s"
  by (simp add: open_dialog_def emit_def)

lemma open_dialog_more [simp, frame_simps]: "async.more (open_dialog n v d s) = async.more s"
  by (simp add: open_dialog_def emit_def)

lemma snack_ok_request [intro, simp]: "snack_ok s \<Longrightarrow> snack_ok (request m u b k s)"
  by (simp add: snack_ok_def)

lemma snack_ok_open_dialog [intro, simp]: "snack_ok s \<Longrightarrow> snack_ok (open_dialog n v d s)"
  by (simp add: snack_ok_def)

lemma snack_ok_requests_update [simp]: "snack_ok (s\<lparr>requests := r\<rparr>) = snack_ok s"
  by (simp add: snack_ok_def)

lemma snack_ok_dialogs_update [simp]: "snack_ok (s\<lparr>dialogs := r\<rparr>) = snack_ok s"
  by (simp add: snack_ok_def)

lemma snack_ok_more_update [simp]: "snack_ok (s\<lparr>async.more := r\<rparr>) = snack_ok s"
  by (simp add: snack_ok_def)

lemma emit_async [simp, frame_simps]:
  "async.more (emit e s) = async.more s" "requests (emit e s) = requests s" "dialogs (emit e s) = dialogs s"
  by (simp_all add: emit_def)

lemma http_async [simp, frame_simps]:
  "async.more (http m u b s) = async.more s" "requests (http m u b s) = requests s" "dialogs (http m u b s) = dialogs s"
  by (simp_all add: http_def)

lemma display_async [simp, frame_simps]:
  "async.more (displaySnackBar m c s) = async.more s"
  "requests (displaySnackBar m c s) = requests s"
  "dialogs (displaySnackBar m c s) = dialogs s"
  by (simp_all add: displaySnackBar_def destroySnackBar_def Let_def split: option.splits)

lemma messages_async [simp, frame_simps]:
  "async.more (generate_return_success_snackbar_message m c s) = async.more s"
  "requests (generate_return_success_snackbar_message m c s) = requests s"
  "dialogs (generate_return_success_snackbar_message m c s) = dialogs s"
  "async.more (generate_return_error_snackbar_message m c s) = async.more s"
  "requests (generate_return_error_snackbar_message m c s) = requests s"
  "dialogs (generate_return_error_snackbar_message m c s) = dialogs s"
  "async.more (report_error m s) = async.more s"
  "requests (report_error m s) = requests s"
  "dialogs (report_error m s) = dialogs s"
  "async.more (report_error_or_message m e s) = async.more s"
  "requests (report_error_or_message m e s) = requests s"
  "dialogs (report_error_or_message m e s) = dialogs s"
  by (simp_all add: snackbar_defs report_error_or_message_def split: api_error.splits)

lemma console_async [simp, frame_simps]:
  "async.more (handleErrorConsole r s) = async.more s"
  "requests (handleErrorConsole r s) = requests s"
  "dialogs (handleErrorConsole r s) = dialogs s"
  by (simp_all add: handleErrorConsole_def console_error_def Let_def split: err_body.splits)

lemma handleError_async [simp, frame_simps]:
  "async.more (fst (handleError op r s)) = async.more s"
  "requests (fst (handleError op r s)) = requests s"
  "dialogs (fst (handleError op r s)) = dialogs s"
  by (simp_all add: handleError_def Let_def split: option.splits)

lemma request_failed_async [simp, frame_simps]:
  "async.more (fst (request_failed op r s)) = async.more s"
  "requests (fst (request_failed op r s)) = requests s"
  "dialogs (fst (request_failed op r s)) = dialogs s"
  by (simp_all add: request_failed_def intercept_error_def)

text \<open>The rule for an invariant of a component: a decoded answer is handled by \<open>next_cb\<close> on the
  state as it was, an error by \<open>error_cb\<close> on a state with the same component fields.\<close>

lemma subscribe_cases:
  obtains (success) x v where "r = Reply v" "decode v = Inr x" "subscribe op decode next_cb error_cb r s = next_cb x s"
  | (failure) s' err where "subscribe op decode next_cb error_cb r s = error_cb err s'"
      "world.more s' = world.more s" "snack_ok s \<Longrightarrow> snack_ok s'"
      "snack_count (trace s') \<ge> Suc (snack_count (trace s))" "sent s' = sent s"
proof (cases r)
  case (Reply v)
  show thesis
  proof (cases "decode v")
    case (Inl e)
    with Reply show thesis
      by (intro failure [of "snd (handleError op (Some (thrown_error e)) s)" "fst (handleError op (Some (thrown_error e)) s)"])
        (simp_all add: subscribe_def handleError_opens_one split: prod.splits)
  next
    case (Inr x)
    with Reply show thesis
      by (intro success [of v x]) (simp_all add: subscribe_def)
  qed
next
  case (Failure f)
  have "snack_count (trace (intercept_error f s)) \<ge> snack_count (trace s)"
    by (simp add: intercept_error_def display_opens_one)
  with Failure show thesis
    by (intro failure [of "snd (request_failed op f s)" "fst (request_failed op f s)"])
      (simp_all add: subscribe_def request_failed_def intercept_error_def handleError_opens_one split: prod.splits)
qed

lemma snack_ok_subscribe:
  assumes "snack_ok s" "\<And>x s. snack_ok s \<Longrightarrow> snack_ok (next_cb x s)" "\<And>e s. snack_ok s \<Longrightarrow> snack_ok (error_cb e s)"
  shows "snack_ok (subscribe op decode next_cb error_cb r s)"
  by (rule subscribe_cases [of r decode op next_cb error_cb s]) (use assms in auto)

section \<open>The contract of a component\<close>

locale async_component =
  fixes act :: "'e \<Rightarrow> ('k, 'd, 'a) async_scheme \<Rightarrow> ('k, 'd, 'a) async_scheme"
    and answer :: "'k \<Rightarrow> reply \<Rightarrow> ('k, 'd, 'a) async_scheme \<Rightarrow> ('k, 'd, 'a) async_scheme"
    and closed :: "'d \<Rightarrow> js \<Rightarrow> ('k, 'd, 'a) async_scheme \<Rightarrow> ('k, 'd, 'a) async_scheme"
    and inv :: "('k, 'd, 'a) async_scheme \<Rightarrow> bool"
  assumes act_inv: "inv s \<Longrightarrow> inv (act e s)"
    and answer_inv: "inv s \<Longrightarrow> i < length (requests s) \<Longrightarrow>
      inv (answer (requests s ! i) r (s\<lparr>requests := remove_nth i (requests s)\<rparr>))"
    and closed_inv: "inv s \<Longrightarrow> i < length (dialogs s) \<Longrightarrow>
      inv (closed (dialogs s ! i) v (s\<lparr>dialogs := remove_nth i (dialogs s)\<rparr>))"
begin

lemma step_inv: "inv s \<Longrightarrow> inv (async_step act answer closed ev s)"
  by (simp add: async_step_def act_inv answer_inv closed_inv split: event.split)

end

sublocale async_component \<subseteq> machine: event_machine "async_step act answer closed" inv
  by unfold_locales (rule step_inv)

end
