(* ===== verification/Backend.thy ===== *)
theory Backend
  imports Async
begin

text \<open>
  The services that talk to the backend: \<open>services/kit-settings.service.ts\<close>,
  \<open>services/catalog.service.ts\<close>, \<open>services/rules.service.ts\<close>,
  \<open>modules/policy-management/services/policy-management.service.ts\<close>, with the addresses of
  \<open>environments/environment.ts\<close>.

  A service method returns a cold observable, which is an \<open>endpoint\<close>: the request it sends when
  subscribed, the name under which \<open>handleError\<close> reports it, and the decoder in its \<open>pipe\<close>.
\<close>

section \<open>Endpoints\<close>

record 'r endpoint =
  ep_method :: http_method
  ep_url :: string
  ep_body :: js
  ep_operation :: string
  ep_decode :: "js \<Rightarrow> js_error + 'r"

definition endpoint :: "http_method \<Rightarrow> string \<Rightarrow> js \<Rightarrow> string \<Rightarrow> (js \<Rightarrow> js_error + 'r) \<Rightarrow> 'r endpoint" where
  "endpoint m u b n d = \<lparr>ep_method = m, ep_url = u, ep_body = b, ep_operation = n, ep_decode = d\<rparr>"

text \<open>Subscribing sends the request; \<open>k\<close> is the callback that waits. \<open>answered\<close> runs the decoder
  and the callbacks on the answer.\<close>

definition call :: "'r endpoint \<Rightarrow> 'k \<Rightarrow> ('k, 'd, 'a) async_scheme \<Rightarrow> ('k, 'd, 'a) async_scheme" where
  "call ep k = request (ep_method ep) (ep_url ep) (ep_body ep) k"

definition answered ::
  "'r endpoint \<Rightarrow> ('r \<Rightarrow> 'a world_scheme \<Rightarrow> 'a world_scheme) \<Rightarrow> (api_error \<Rightarrow> 'a world_scheme \<Rightarrow> 'a world_scheme) \<Rightarrow>
   reply \<Rightarrow> 'a world_scheme \<Rightarrow> 'a world_scheme"
where
  "answered ep = subscribe (ep_operation ep) (ep_decode ep)"

definition as_is :: "js \<Rightarrow> js_error + js" where
  "as_is = Inr"

definition HTTP_OPTIONS :: js where
  "HTTP_OPTIONS = JObj [(''headers'', JObj [(''Content-Type'', JStr ''application/json'')])]"

text \<open>\<open>${v}\<close> in an address.\<close>

abbreviation str :: "js \<Rightarrow> string" where
  "str \<equiv> js_to_string"

abbreviation nl :: string where "nl \<equiv> [CHR 0x0A]"
abbreviation CONFIRM_DIALOG_OPTION :: string where "CONFIRM_DIALOG_OPTION \<equiv> ''Confirm''"
abbreviation CANCEL_DIALOG_OPTION :: string where "CANCEL_DIALOG_OPTION \<equiv> ''Cancel''"

text \<open>A \<open>DialogFormControlConfigClass\<close>: the description of a field of a dialog. Of the validators only
  whether the field is required is kept.\<close>

definition control_config :: "string \<Rightarrow> js \<Rightarrow> js \<Rightarrow> bool \<Rightarrow> string \<Rightarrow> string list \<Rightarrow> js" where
  "control_config label tooltip state required_control control_type options =
     JObj [(''label'', JStr label), (''tooltip'', tooltip), (''formState'', state), (''required'', JBool required_control),
           (''controlType'', JStr control_type), (''options'', JArr (map JStr options)), (''isDisabled'', JBool False)]"

fun is_delete :: "effect \<Rightarrow> bool" where
  "is_delete (Http DELETE _ _) = True"
| "is_delete _ = False"

definition deletes :: "'a world_scheme \<Rightarrow> effect list" where
  "deletes s = filter is_delete (sent s)"

section \<open>KitSettingsService\<close>

definition get_used_ip_addresses :: "js \<Rightarrow> js \<Rightarrow> js endpoint" where
  "get_used_ip_addresses mng_ip netmask =
     endpoint GET (''/api/used-ip-addrs/'' @ str mng_ip @ ''/'' @ str netmask) JUndef ''get used ip addresses'' as_is"

definition getUnusedIPAddresses :: "js \<Rightarrow> js \<Rightarrow> js endpoint" where
  "getUnusedIPAddresses mng_ip netmask =
     endpoint GET (''/api/unused-ip-addrs/'' @ str mng_ip @ ''/'' @ str netmask) JUndef ''get unused ip addresses'' as_is"

definition get_controller_info :: "js endpoint" where
  "get_controller_info = endpoint GET ''/api/controller/info'' JUndef ''get controller info'' new_ControllerInfoClass"

definition get_vmware_settings :: "js endpoint" where
  "get_vmware_settings =
     endpoint GET ''/api/settings/esxi'' JUndef ''get vmware settings''
       (\<lambda>response. sbind (key_count response) (\<lambda>n. if n = 0 then Inr response else new_VMWareSettingsClass response))"

text \<open>\<open>delete\<close> of a property. The two methods below delete \<open>password_confirm\<close> from the object they are given; the
  model sends a copy without it and leaves the object of the caller, which reads only its other fields afterwards.\<close>

definition delete_key :: "string \<Rightarrow> js \<Rightarrow> js" where
  "delete_key k v = (case v of JObj kvs \<Rightarrow> JObj (AList.delete k kvs) | _ \<Rightarrow> v)"

definition save_vmware_settings :: "js \<Rightarrow> js endpoint" where
  "save_vmware_settings vmware_settings =
     endpoint POST ''/api/settings/esxi'' (delete_key ''password_confirm'' vmware_settings) ''get vmware settings'' as_is"

definition test_vmware_settings :: "js \<Rightarrow> js endpoint" where
  "test_vmware_settings vmware_settings =
     endpoint POST ''/api/settings/esxi/test'' (delete_key ''password_confirm'' vmware_settings) ''test vmware settings''
       new_VMWareDataClass"

text \<open>The decoders of the three settings call \<open>throwError\<close> without returning it, so a missing body
  decodes to \<open>undefined\<close>.\<close>

definition decode_settings :: "(js \<Rightarrow> js_error + js) \<Rightarrow> js \<Rightarrow> js_error + js" where
  "decode_settings f response = (if notUndefNull response then f response else Inr JUndef)"

definition get_kit_settings :: "js endpoint" where
  "get_kit_settings =
     endpoint GET ''/api/settings/kit'' JUndef ''get kit settings'' (decode_settings new_KitSettingsClass)"

definition update_kit_settings :: "js \<Rightarrow> js endpoint" where
  "update_kit_settings kit_settings =
     endpoint POST ''/api/settings/kit'' kit_settings ''update kit settings'' new_GenericJobAndKeyClass"

definition get_mip_settings :: "js endpoint" where
  "get_mip_settings =
     endpoint GET ''/api/settings/mip'' JUndef ''get mip settings'' (decode_settings new_MipSettingsClass)"

definition update_mip_settings :: "js \<Rightarrow> js endpoint" where
  "update_mip_settings mip_settings =
     endpoint POST ''/api/settings/mip'' mip_settings ''update mip settings'' new_SuccessMessageClass"

definition get_general_settings :: "js endpoint" where
  "get_general_settings =
     endpoint GET ''/api/settings/general'' JUndef ''get general settings'' (decode_settings new_GeneralSettingsClass)"

definition update_general_settings :: "js \<Rightarrow> js endpoint" where
  "update_general_settings general_settings =
     endpoint POST ''/api/settings/general'' general_settings ''refresh kit'' new_GenericJobAndKeyClass"

definition setup_control_plane :: "js endpoint" where
  "setup_control_plane = endpoint POST ''/api/kit/control-plane'' JNull ''refresh kit'' new_GenericJobAndKeyClass"

definition refresh_kit :: "js endpoint" where
  "refresh_kit = endpoint POST ''/api/kit/rebuild'' JNull ''refresh kit'' new_GenericJobAndKeyClass"

definition update_device_facts :: "js \<Rightarrow> js endpoint" where
  "update_device_facts node =
     endpoint PUT (''/api/kit/node/'' @ str node @ ''/update'') (JObj []) ''update device facts'' new_SuccessMessageClass"

definition add_node :: "js \<Rightarrow> js endpoint" where
  "add_node payload = endpoint POST ''/api/kit/node'' payload ''delete node'' new_GenericJobAndKeyClass"

definition get_nodes :: "js list endpoint" where
  "get_nodes = endpoint GET ''/api/kit/nodes'' JUndef ''get nodes'' (js_map_list new_NodeClass)"

definition delete_node :: "js \<Rightarrow> js endpoint" where
  "delete_node hostname =
     endpoint DELETE (''/api/kit/node/'' @ str hostname) JUndef ''delete node'' new_GenericJobAndKeyClass"

definition addMip :: "js \<Rightarrow> js endpoint" where
  "addMip payload = endpoint POST ''/api/kit/mip'' payload ''add mip'' new_GenericJobAndKeyClass"

definition deploy_kit :: "js endpoint" where
  "deploy_kit = endpoint GET ''/api/kit/deploy'' JUndef ''deploy kit'' new_GenericJobAndKeyClass"

definition get_kit_status :: "js endpoint" where
  "get_kit_status = endpoint GET ''/api/kit/status'' JUndef ''get kit status'' new_KitStatusClass"

definition get_open_vpn_certs :: "js \<Rightarrow> js endpoint" where
  "get_open_vpn_certs node_hostname =
     endpoint GET (''/api/kit/node/'' @ str node_hostname @ ''/generate-vpn'') JUndef '' get open vpn certs'' as_is"

section \<open>CatalogService\<close>

definition get_catalog_nodes :: "js list endpoint" where
  "get_catalog_nodes = endpoint GET ''/api/catalog/nodes'' JUndef ''get catalog nodes'' (js_map_list new_NodeClass)"

definition get_chart_info :: "js \<Rightarrow> js endpoint" where
  "get_chart_info path_value =
     endpoint GET (''/api/catalog/chart/'' @ str path_value @ ''/info'') JUndef ''get chart info'' new_ChartInfoClass"

definition get_chart_statuses :: "js \<Rightarrow> js list endpoint" where
  "get_chart_statuses path_value =
     endpoint GET (''/api/catalog/chart/'' @ str path_value @ ''/status'') JUndef ''get statuses'' (js_map_list new_StatusClass)"

definition get_saved_values :: "js \<Rightarrow> js list endpoint" where
  "get_saved_values path_value =
     endpoint GET (''/api/catalog/'' @ str path_value @ ''/saved-values'') JUndef ''get saved values'' (js_map_list new_SavedValueClass)"

definition get_installed_apps :: "js \<Rightarrow> js list endpoint" where
  "get_installed_apps path_value =
     endpoint GET (''/api/catalog/'' @ str path_value @ ''/apps'') JUndef ''get installed apps'' (js_map_list new_AppClass)"

definition get_all_application_statuses :: "js list endpoint" where
  "get_all_application_statuses =
     endpoint GET ''/api/catalog/charts/status'' JUndef ''get all application statuses'' (js_map_list new_ChartClass)"

definition generate_values_file :: "js \<Rightarrow> js endpoint" where
  "generate_values_file generate_file =
     endpoint POST ''/api/catalog/generate_values'' generate_file ''generate values file'' as_is"

definition catalog_install :: "js \<Rightarrow> js endpoint" where
  "catalog_install catalog_helm_action =
     endpoint POST ''/api/catalog/install'' catalog_helm_action ''catalog install'' new_GenericJobAndKeyClass"

definition catalog_reinstall :: "js \<Rightarrow> js endpoint" where
  "catalog_reinstall catalog_helm_action =
     endpoint POST ''/api/catalog/reinstall'' catalog_helm_action ''catalog reinstall'' new_GenericJobAndKeyClass"

definition catalog_uninstall :: "js \<Rightarrow> js endpoint" where
  "catalog_uninstall catalog_helm_action =
     endpoint POST ''/api/catalog/uninstall'' catalog_helm_action ''catalog uninstall'' new_GenericJobAndKeyClass"

definition get_configured_ifaces :: "js \<Rightarrow> js endpoint" where
  "get_configured_ifaces sensor_hostname =
     endpoint GET (''/api/catalog/configured-ifaces/'' @ str sensor_hostname) JUndef ''retrieving configured ifaces'' as_is"

section \<open>RulesService\<close>

definition get_rule_sets :: "js list endpoint" where
  "get_rule_sets = endpoint GET ''/api/policy/ruleset'' JUndef ''get rule sets'' (js_map_list new_RuleSetClass)"

definition create_rule_set :: "js \<Rightarrow> js endpoint" where
  "create_rule_set rule_set = endpoint POST ''/api/policy/ruleset'' rule_set ''create rule set'' new_RuleSetClass"

definition update_rule_set :: "js \<Rightarrow> js endpoint" where
  "update_rule_set rule_set = endpoint PUT ''/api/policy/ruleset'' rule_set ''update rule set'' new_RuleSetClass"

definition delete_rule_set :: "js \<Rightarrow> js endpoint" where
  "delete_rule_set rule_set_id =
     endpoint DELETE (''/api/policy/ruleset/'' @ str rule_set_id) JUndef ''delete rule set'' new_SuccessMessageClass"

definition sync_rule_sets :: "js endpoint" where
  "sync_rule_sets = endpoint GET ''/api/policy/rulesets/sync'' JUndef ''sync rule sets'' new_RuleSyncClass"

definition get_rules :: "js \<Rightarrow> js list endpoint" where
  "get_rules rule_set_id =
     endpoint GET (''/api/policy/rules/'' @ str rule_set_id) JUndef ''get rules'' (js_map_list new_RuleClass)"

definition create_rule :: "js \<Rightarrow> js endpoint" where
  "create_rule rule = endpoint POST ''/api/policy/rule'' rule ''create rule'' new_RuleClass"

definition update_rule :: "js \<Rightarrow> js endpoint" where
  "update_rule rule = endpoint PUT ''/api/policy/rule'' rule ''update rule'' new_RuleClass"

definition delete_rule :: "js \<Rightarrow> js endpoint" where
  "delete_rule rule_id =
     endpoint DELETE (''/api/policy/rule/'' @ str rule_id) JUndef ''delete rule'' new_SuccessMessageClass"

definition map_rule_list_or_rule :: "js \<Rightarrow> js_error + js" where
  "map_rule_list_or_rule response =
     (case response of JArr _ \<Rightarrow> js_map new_RuleClass response | _ \<Rightarrow> new_RuleClass response)"

definition upload_rule_file :: "js \<Rightarrow> js endpoint" where
  "upload_rule_file form_data =
     endpoint POST ''/api/policy/rule/upload'' form_data ''upload rule file'' map_rule_list_or_rule"

definition get_rule_content :: "js \<Rightarrow> js endpoint" where
  "get_rule_content rule_id =
     endpoint GET (''/api/policy/rule/'' @ str rule_id @ ''/content'') JUndef ''get rule content'' new_RuleClass"

definition validate_rule :: "js \<Rightarrow> js endpoint" where
  "validate_rule rule = endpoint POST ''/api/policy/rule/validate'' rule ''validate rule'' new_SuccessMessageClass"

definition test_rule_against_pcap :: "js \<Rightarrow> js endpoint" where
  "test_rule_against_pcap payload =
     endpoint POST ''/api/policy/pcap/rule/test'' payload ''test rule against pcap'' as_is"

text \<open>\<open>toggle_rule\<close> passes the HTTP options in the place of the body.\<close>

definition toggle_rule :: "js \<Rightarrow> js endpoint" where
  "toggle_rule rule_id =
     endpoint PUT (''/api/policy/rule/'' @ str rule_id @ ''/toggle'') HTTP_OPTIONS ''toggle rule'' new_RuleClass"

section \<open>Lemmas\<close>

lemma endpoint_simps [simp]:
  "ep_method (endpoint m u b n d) = m" "ep_url (endpoint m u b n d) = u" "ep_body (endpoint m u b n d) = b"
  "ep_operation (endpoint m u b n d) = n" "ep_decode (endpoint m u b n d) = d"
  by (simp_all add: endpoint_def)

lemma call_trace [simp, trace_simps]:
  "trace (call ep k s) = trace s @ [Http (ep_method ep) (ep_url ep) (ep_body ep)]"
  by (simp add: call_def)

lemma sent_call [simp]: "sent (call ep k s) = sent s @ [Http (ep_method ep) (ep_url ep) (ep_body ep)]"
  by (simp add: call_def)

lemma call_frame [simp, frame_simps]:
  "matSnackBarRef (call ep k s) = matSnackBarRef s"
  "requests (call ep k s) = requests s @ [k]"
  "dialogs (call ep k s) = dialogs s"
  "async.more (call ep k s) = async.more s"
  by (simp_all add: call_def)

lemma snack_ok_call [intro, simp]: "snack_ok s \<Longrightarrow> snack_ok (call ep k s)"
  by (simp add: call_def)

text \<open>An answer is handled by the success callback on the state as it was, or by the error callback
  on a state that differs in the trace and the snack bar reference only.\<close>

lemma answered_cases:
  obtains (success) x v where "r = Reply v" "ep_decode ep v = Inr x" "answered ep next_cb error_cb r s = next_cb x s"
  | (failure) s' err where "answered ep next_cb error_cb r s = error_cb err s'"
      "world.more s' = world.more s" "snack_ok s \<Longrightarrow> snack_ok s'"
      "snack_count (trace s') \<ge> Suc (snack_count (trace s))" "sent s' = sent s"
  by (rule subscribe_cases [of r "ep_decode ep" "ep_operation ep" next_cb error_cb s])
    (simp_all add: answered_def)

lemma answered_inv:
  assumes "P s" "\<And>x. P (next_cb x s)"
    "\<And>s'. world.more s' = world.more s \<Longrightarrow> (snack_ok s \<Longrightarrow> snack_ok s') \<Longrightarrow> sent s' = sent s \<Longrightarrow> P s'"
    "\<And>e s'. P s' \<Longrightarrow> P (error_cb e s')"
  shows "P (answered ep next_cb error_cb r s)"
  by (rule answered_cases [of r ep next_cb error_cb s]) (use assms in auto)

lemma sent_answered:
  assumes "\<And>x. sent (next_cb x s) = sent s" "\<And>e s. sent (error_cb e s) = sent s"
  shows "sent (answered ep next_cb error_cb r s) = sent s"
  by (rule answered_cases [of r ep next_cb error_cb s]) (use assms in simp_all)

lemma answered_failure:
  assumes "\<And>e t. world.more (error_cb e t) = world.more t" "\<And>e t. sent (error_cb e t) = sent t"
  shows "world.more (answered ep next_cb error_cb (Failure f) s) = world.more s"
    "sent (answered ep next_cb error_cb (Failure f) s) = sent s"
  by (rule answered_cases [of "Failure f" ep next_cb error_cb s]; use assms in simp)+

lemma world_more_async: "world.more s = world.more s' \<Longrightarrow> async.more s = async.more s'"
  for s s' :: "('k, 'd, 'a) async_scheme"
  by (cases s; cases s') simp

lemma deletes_frame [simp]:
  "deletes (displaySnackBar m c s) = deletes s"
  "deletes (report_error msg s) = deletes s"
  "deletes (report_error_or_message msg e s) = deletes s"
  "deletes (generate_return_success_snackbar_message msg c s) = deletes s"
  "\<not> is_http ef \<Longrightarrow> deletes (emit ef s) = deletes s"
  by (simp_all add: deletes_def)

lemma deletes_async [simp]:
  "deletes (call ep k t) = deletes t @ (if ep_method ep = DELETE then [Http DELETE (ep_url ep) (ep_body ep)] else [])"
  "deletes (open_dialog n v d t) = deletes t"
  "deletes (t\<lparr>requests := ks\<rparr>) = deletes t" "deletes (t\<lparr>dialogs := ds\<rparr>) = deletes t"
  for t :: "('k, 'd, 'a) async_scheme"
  by (cases "ep_method ep"; simp add: deletes_def)+

lemma deletes_answered:
  assumes "\<And>x. deletes (next_cb x s) = deletes s" "\<And>e s. deletes (error_cb e s) = deletes s"
  shows "deletes (answered ep next_cb error_cb r s) = deletes s"
  by (rule answered_cases [of r ep next_cb error_cb s]) (use assms in \<open>simp_all add: deletes_def\<close>)

lemma deletes_trace: "trace s = trace s' \<Longrightarrow> deletes s = deletes s'"
  by (simp add: deletes_def sent_def)

lemma world_more_requests: "world.more s = world.more s' \<Longrightarrow> requests s = requests s' \<and> dialogs s = dialogs s'"
  for s s' :: "('k, 'd, 'a) async_scheme"
  by (cases s; cases s') simp

lemma snack_ok_answered:
  assumes "snack_ok s" "\<And>x s. snack_ok s \<Longrightarrow> snack_ok (next_cb x s)" "\<And>e s. snack_ok s \<Longrightarrow> snack_ok (error_cb e s)"
  shows "snack_ok (answered ep next_cb error_cb r s)"
  unfolding answered_def using assms by (rule snack_ok_subscribe)

end
