(* ===== verification/Validators.thy ===== *)
theory Validators
  imports Data_Methods
begin

text \<open>
  \<open>validators/generic-validators.validator.ts\<close>, \<open>validators/add-node.validator.ts\<close>,
  \<open>validators/confirm-password.validator.ts\<close> and the validator tables of
  \<open>constants/cvah.constants.ts\<close> and
  \<open>modules/system-settings/validators/kit-settings.validator.ts\<close>.

  A form control is a tree with the parts of Angular's \<open>AbstractControl\<close> that the
  validators read: the value, whether it was touched, the status and the errors. A validator
  may throw (reading a property of \<open>null\<close>), so it returns \<open>js_error + verr option\<close>.
  \<open>===\<close> compares primitive values; two objects read from different places are different
  references.
\<close>

section \<open>Form controls\<close>

datatype ctl_status = VALID | INVALID | PENDING_STATUS | DISABLED

record ctl_info =
  ctl_value :: js
  ctl_touched :: bool
  ctl_stat :: ctl_status
  ctl_errors :: "(string \<times> js) list option"

datatype control =
    FormControl ctl_info
  | FormGroup ctl_info "(string \<times> control) list"
  | FormArray ctl_info "control list"

fun ctl_of :: "control \<Rightarrow> ctl_info" where
  "ctl_of (FormControl i) = i"
| "ctl_of (FormGroup i _) = i"
| "ctl_of (FormArray i _) = i"

text \<open>\<open>AbstractControl.get\<close> with a single name: \<open>null\<close> on a control without such a child.\<close>

fun ctl_get :: "control \<Rightarrow> string \<Rightarrow> control option" where
  "ctl_get (FormGroup _ cs) name = map_of cs name"
| "ctl_get _ _ = None"

section \<open>Reading values\<close>

fun is_primitive :: "js \<Rightarrow> bool" where
  "is_primitive (JArr _) = False"
| "is_primitive (JObj _) = False"
| "is_primitive _ = True"

definition strict_eq :: "js \<Rightarrow> js \<Rightarrow> bool" where
  "strict_eq v w \<longleftrightarrow> is_primitive v \<and> v = w"

lemma strict_eq_JStr [simp]: "strict_eq (JStr a) w = (JStr a = w)"
  by (simp add: strict_eq_def)

lemma strict_eq_imp_eq: "strict_eq v w \<Longrightarrow> v = w"
  by (simp add: strict_eq_def)

text \<open>\<open>v.length\<close>.\<close>

fun js_length :: "js \<Rightarrow> js_error + js" where
  "js_length JUndef = Inl TypeError"
| "js_length JNull = Inl TypeError"
| "js_length (JStr s) = Inr (JNum (int (length s)))"
| "js_length (JArr vs) = Inr (JNum (int (length vs)))"
| "js_length v = Inr (js_get v ''length'')"

text \<open>\<open>v > n\<close> and \<open>v < n\<close> for a length: \<open>undefined\<close> compares false with every number.\<close>

definition num_gt :: "js \<Rightarrow> int \<Rightarrow> bool" where
  "num_gt v n = (case v of JNum m \<Rightarrow> m > n | _ \<Rightarrow> False)"

definition num_lt :: "js \<Rightarrow> int \<Rightarrow> bool" where
  "num_lt v n = (case v of JNum m \<Rightarrow> m < n | _ \<Rightarrow> False)"

text \<open>What iterating a value yields; \<open>None\<close> is a value that is not iterable.\<close>

fun js_iterate :: "js \<Rightarrow> js list option" where
  "js_iterate (JStr s) = Some (map (\<lambda>c. JStr [c]) s)"
| "js_iterate (JArr vs) = Some vs"
| "js_iterate _ = None"

definition js_set_size :: "js list \<Rightarrow> nat" where
  "js_set_size vs = length (remdups (filter is_primitive vs)) + length (filter (\<lambda>v. \<not> is_primitive v) vs)"

section \<open>Validator objects\<close>

datatype emsg = Msg string | MsgFn "js \<Rightarrow> string"

record validator_object =
  validatorFn :: string
  vo_error_message :: emsg
  vo_pattern :: "(string \<Rightarrow> bool) option"
  vo_ip_range :: "(string \<times> string) list"
  vo_testRange :: bool

datatype js_array = NoArray | PlainArray "js list" | FormArrayValue "js list"

text \<open>The \<open>ops\<close> object: every property the validators read from it.\<close>

record validator_ops =
  uniqueArray :: js_array
  formControlName :: "string option"
  ops_index :: "nat option"
  parentControl :: "control option"
  parentFormGroup :: "control option"
  minRequiredArray :: js_array
  minRequireControl :: string
  minRequiredValue :: js
  minRequired :: int
  error_message_subject :: "string option"

datatype verr =
    PasswordError emsg string
  | PatternError js emsg
  | errorObject emsg control

fun verr_message :: "verr \<Rightarrow> emsg" where
  "verr_message (PasswordError _ m) = Msg m"
| "verr_message (PatternError _ m) = m"
| "verr_message (errorObject m _) = m"

type_synonym validation = "js_error + verr option"

text \<open>The constructor of \<open>errorObject\<close>.\<close>

definition new_errorObject :: "control \<Rightarrow> emsg \<Rightarrow> verr" where
  "new_errorObject control m = errorObject (case m of Msg t \<Rightarrow> Msg (if t = [] then ''Invalid Input'' else t) | MsgFn f \<Rightarrow> MsgFn f) control"

section \<open>The validators\<close>

fun consecutive_loop :: "js option \<Rightarrow> nat \<Rightarrow> js option list \<Rightarrow> bool" where
  "consecutive_loop c same [] = False"
| "consecutive_loop c same (x # xs) =
     (if c = x then consecutive_loop c (same + 1) xs
      else if same > 2 then True
      else consecutive_loop x 1 xs)"

text \<open>The loop runs to \<open>i <= password.length\<close>: the last element read is \<open>undefined\<close>.\<close>

definition consecutive :: "js list \<Rightarrow> bool" where
  "consecutive password =
     (case map Some password @ [None] of [] \<Rightarrow> False | c # rest \<Rightarrow> consecutive_loop c 1 rest)"

definition passwordValidator :: "validator_object \<Rightarrow> control \<Rightarrow> validator_ops option \<Rightarrow> validation" where
  "passwordValidator vo control ops =
     (let v = ctl_value (ctl_of control) in
      if \<not> truthy v then Inr None
      else
        let subject = (case Option.bind ops error_message_subject of Some s \<Rightarrow> s | None \<Rightarrow> ''The password'');
            fail = (\<lambda>m. Inr (Some (PasswordError (vo_error_message vo) (subject @ m))));
            test = (\<lambda>p. list_ex p (js_to_string v))
        in case js_length v of
             Inl e \<Rightarrow> Inl e
           | Inr n \<Rightarrow>
               if num_lt n 15 then fail '' must be at least 15 characters''
               else if \<not> test is_digit then fail '' must have at least 1 digit''
               else if \<not> test is_lower then fail '' must have at least 1 lowercase letter''
               else if \<not> test is_upper then fail '' must have at least 1 uppercase letter''
               else if \<not> test (\<lambda>c. \<not> is_digit c \<and> \<not> is_lower c \<and> \<not> is_upper c)
                    then fail '' must have at least 1 symbol''
               else case js_iterate v of
                      None \<Rightarrow> Inl TypeError
                    | Some cs \<Rightarrow>
                        if js_set_size cs < 8 then fail '' must have at least 8 unique characters.''
                        else if consecutive cs
                             then fail '' must not have 3 consecutive characters that are the same''
                        else Inr None)"

definition patternValidator :: "validator_object \<Rightarrow> control \<Rightarrow> validation" where
  "patternValidator vo control =
     (let v = ctl_value (ctl_of control);
          reject = Inr (Some (PatternError v (vo_error_message vo)))
      in if \<not> truthy v then Inr None
         else case js_length v of
                Inl e \<Rightarrow> Inl e
              | Inr n \<Rightarrow>
                  if num_gt n 0 then
                    (case vo_pattern vo of
                       None \<Rightarrow> Inl TypeError
                     | Some p \<Rightarrow> if p (js_to_string v) then Inr None else reject)
                  else Inr None)"

text \<open>\<open>Array.find\<close> with a callback that may throw: the value found, or \<open>undefined\<close>.\<close>

fun find_from :: "(js \<Rightarrow> nat \<Rightarrow> js_error + bool) \<Rightarrow> nat \<Rightarrow> js list \<Rightarrow> js_error + js" where
  "find_from p i [] = Inr JUndef"
| "find_from p i (v # vs) =
     (case p v i of Inl e \<Rightarrow> Inl e | Inr b \<Rightarrow> if b then Inr v else find_from p (Suc i) vs)"

definition unique_hit :: "js \<Rightarrow> nat option \<Rightarrow> (js \<Rightarrow> js_error + js) \<Rightarrow> js \<Rightarrow> nat \<Rightarrow> js_error + bool" where
  "unique_hit v index field obj i =
     (case js_length v of
        Inl e \<Rightarrow> Inl e
      | Inr n \<Rightarrow>
          if \<not> num_gt n 0 then Inr False
          else (case field obj of Inl e \<Rightarrow> Inl e
                | Inr w \<Rightarrow> Inr (strict_eq w v \<and> index \<noteq> Some i)))"

definition field_name :: "string option \<Rightarrow> string" where
  "field_name n = (case n of None \<Rightarrow> ''undefined'' | Some k \<Rightarrow> k)"

definition uniqueValidator :: "validator_object \<Rightarrow> control option \<Rightarrow> validator_ops option \<Rightarrow> validation" where
  "uniqueValidator vo control ops =
     (case control of
        None \<Rightarrow> Inr None
      | Some c \<Rightarrow>
          let v = ctl_value (ctl_of c) in
          if \<not> notUndefNull v then Inr None
          else case ops of
            None \<Rightarrow> Inl TypeError
          | Some o1 \<Rightarrow>
              let search = (case uniqueArray o1 of
                    NoArray \<Rightarrow> Inr JUndef
                  | PlainArray vs \<Rightarrow>
                      if formControlName o1 \<noteq> None \<and> formControlName o1 \<noteq> Some []
                      then find_from (unique_hit v (ops_index o1) (\<lambda>obj. js_index obj (field_name (formControlName o1)))) 0 vs
                      else find_from (unique_hit v (ops_index o1) Inr) 0 vs
                  | FormArrayValue vs \<Rightarrow>
                      find_from (unique_hit v (ops_index o1) (\<lambda>obj. js_index obj (field_name (formControlName o1)))) 0 vs)
              in case search of
                   Inl e \<Rightarrow> Inl e
                 | Inr found \<Rightarrow>
                     if truthy found then
                       (case vo_error_message vo of
                          Msg _ \<Rightarrow> Inl TypeError
                        | MsgFn f \<Rightarrow> Inr (Some (new_errorObject c (Msg (f v)))))
                     else Inr None)"

definition inputFieldMatch :: "validator_object \<Rightarrow> control \<Rightarrow> validator_ops option \<Rightarrow> validation" where
  "inputFieldMatch vo control ops =
     (case Option.bind ops parentControl of
        None \<Rightarrow> Inl TypeError
      | Some p \<Rightarrow>
          if ctl_stat (ctl_of p) \<noteq> VALID then
            Inr (Some (new_errorObject control (Msg ''Unable to validate when parent control invalid'')))
          else if strict_eq (ctl_value (ctl_of control)) (ctl_value (ctl_of p)) then Inr None
          else Inr (Some (new_errorObject control (vo_error_message vo))))"

text \<open>One callback of \<open>ip_range.map\<close>. Its state is the outer \<open>error\<close> and the labels of the
  controls not filled in; the error object for a bad address is only returned to \<open>map\<close> and
  lost.\<close>

definition ip_target :: "control \<Rightarrow> string \<Rightarrow> control option" where
  "ip_target fgroup name =
     (case ctl_get fgroup name of
        Some (FormArray i cs) \<Rightarrow> (case cs of [] \<Rightarrow> None | c # _ \<Rightarrow> Some c)
      | r \<Rightarrow> r)"

definition ip_range_step ::
  "validator_object \<Rightarrow> control \<Rightarrow> control \<Rightarrow> string \<times> string \<Rightarrow> verr option \<times> string list \<Rightarrow> js_error + verr option \<times> string list"
where
  "ip_range_step vo control fgroup ip st =
     (let v = ctl_value (ctl_of control); (error, unfilled) = st in
      case ip_target fgroup (snd ip) of
        None \<Rightarrow> Inl TypeError
      | Some fg \<Rightarrow>
          if ctl_stat (ctl_of fg) = INVALID then Inr (error, unfilled @ [fst ip])
          else if \<not> truthy v then Inr st
          else case js_length v of
                 Inl e \<Rightarrow> Inl e
               | Inr n \<Rightarrow>
                   if \<not> num_gt n 0 then Inr st
                   else if \<not> test_full IP_CONSTRAINT (js_to_string v) then Inr st
                   else (case (ctl_value (ctl_of fg), v) of
                           (JStr a, JStr b) \<Rightarrow>
                             let parsedIP = js_split CHR ''.'' a; parsedInput = js_split CHR ''.'' b in
                             if length parsedInput < 3 then Inr (Some (new_errorObject control (Msg ''Invalid Input'')), unfilled)
                             else if vo_testRange vo \<and> take 3 parsedInput \<noteq> take 3 parsedIP then
                               Inr (Some (new_errorObject control (Msg ''IP is not within the correct range'')), unfilled)
                             else Inr st
                         | _ \<Rightarrow> Inl TypeError))"

fun ip_range_loop ::
  "validator_object \<Rightarrow> control \<Rightarrow> control \<Rightarrow> (string \<times> string) list \<Rightarrow> verr option \<times> string list \<Rightarrow> js_error + verr option \<times> string list"
where
  "ip_range_loop vo control fgroup [] st = Inr st"
| "ip_range_loop vo control fgroup (ip # ips) st =
     (case ip_range_step vo control fgroup ip st of
        Inl e \<Rightarrow> Inl e
      | Inr st' \<Rightarrow> ip_range_loop vo control fgroup ips st')"

text \<open>The subnet test: \<open>findValue\<close> filters, and an array is always truthy, so the guard on
  \<open>ip_range\<close> never fails.\<close>

definition subnet_check :: "control \<Rightarrow> control \<Rightarrow> verr option \<Rightarrow> validation" where
  "subnet_check control fgroup error =
     (let v = ctl_value (ctl_of control) in
      case ctl_get fgroup ''controller_interface'' of
        None \<Rightarrow> Inl TypeError
      | Some ci \<Rightarrow>
          if ctl_value (ctl_of ci) \<noteq> JUndef \<and> test_full IP_CONSTRAINT (js_to_string v) then
            (case ctl_get fgroup ''netmask'' of
               None \<Rightarrow> Inl TypeError
             | Some nm \<Rightarrow>
                 (case (v, ctl_value (ctl_of ci), ctl_value (ctl_of nm)) of
                    (JStr ip, JStr net, JStr nmask) \<Rightarrow>
                      if is_ipv4_in_subnet ip net nmask then Inr error
                      else Inr (Some (new_errorObject control
                             (Msg (''The value '' @ ip @ '' is not in the correct subnet''))))
                  | _ \<Rightarrow> Inl TypeError))
          else Inr error)"

definition validateIPAddress :: "validator_object \<Rightarrow> control \<Rightarrow> validator_ops option \<Rightarrow> validation" where
  "validateIPAddress vo control ops =
     (if \<not> ctl_touched (ctl_of control) then Inr None
      else case Option.bind ops parentFormGroup of
        None \<Rightarrow> Inl TypeError
      | Some fgroup \<Rightarrow>
          (case ip_range_loop vo control fgroup (vo_ip_range vo) (None, []) of
             Inl e \<Rightarrow> Inl e
           | Inr (error, unfilled) \<Rightarrow>
               (case subnet_check control fgroup error of
                  Inl e \<Rightarrow> Inl e
                | Inr error' \<Rightarrow>
                    if unfilled \<noteq> [] then
                      Inr (Some (new_errorObject control (Msg (''Please fill out '' @ js_join '' & '' unfilled))))
                    else Inr error')))"

definition requiredField :: "validator_object \<Rightarrow> control \<Rightarrow> validation" where
  "requiredField vo control =
     (let v = ctl_value (ctl_of control);
          touched = ctl_touched (ctl_of control);
          missing = Inr (Some (new_errorObject control (vo_error_message vo)))
      in if touched then
           (case js_length v of Inl e \<Rightarrow> Inl e | Inr n \<Rightarrow> if num_gt n 0 then Inr None else missing)
         else if \<not> notUndefNull v then missing
         else (case js_length v of Inl e \<Rightarrow> Inl e | Inr n \<Rightarrow> if n = JNum 0 then missing else Inr None))"

fun index_all :: "string \<Rightarrow> js list \<Rightarrow> js_error + js list" where
  "index_all k [] = Inr []"
| "index_all k (v # vs) =
     (case js_index v k of Inl e \<Rightarrow> Inl e
      | Inr w \<Rightarrow> (case index_all k vs of Inl e \<Rightarrow> Inl e | Inr ws \<Rightarrow> Inr (w # ws)))"

definition min_find :: "validator_ops \<Rightarrow> js list \<Rightarrow> js_error + js" where
  "min_find ops vs =
     find_from (\<lambda>c i. case js_index c (minRequireControl ops) of
                   Inl e \<Rightarrow> Inl e | Inr w \<Rightarrow> Inr (w \<noteq> JUndef)) 0 vs"

definition min_count :: "validator_ops \<Rightarrow> string \<Rightarrow> js list \<Rightarrow> js_error + nat" where
  "min_count ops key vs =
     (case index_all key vs of
        Inl e \<Rightarrow> Inl e
      | Inr ws \<Rightarrow> Inr (length (filter (\<lambda>w. strict_eq w (minRequiredValue ops)) ws)))"

definition minInArray :: "validator_object \<Rightarrow> control \<Rightarrow> validator_ops option \<Rightarrow> validation" where
  "minInArray vo control ops =
     (case ops of
        None \<Rightarrow> Inl TypeError
      | Some o1 \<Rightarrow>
          let run = (\<lambda>key vs.
                case min_find o1 vs of
                  Inl e \<Rightarrow> Inl e
                | Inr found \<Rightarrow>
                    if \<not> truthy found then Inr None
                    else (case min_count o1 key vs of
                            Inl e \<Rightarrow> Inl e
                          | Inr n \<Rightarrow>
                              if int n < minRequired o1
                              then Inr (Some (new_errorObject control (vo_error_message vo))) else Inr None))
          in case minRequiredArray o1 of
               NoArray \<Rightarrow> Inl TypeError
             | FormArrayValue vs \<Rightarrow> run (minRequireControl o1) vs
             | PlainArray vs \<Rightarrow> run ''value'' vs)"

definition run_validator :: "validator_ops option \<Rightarrow> control \<Rightarrow> validator_object \<Rightarrow> validation" where
  "run_validator ops control vo =
     (if validatorFn vo = ''pattern'' then patternValidator vo control
      else if validatorFn vo = ''password'' then passwordValidator vo control ops
      else if validatorFn vo = ''unique'' then uniqueValidator vo (Some control) ops
      else if validatorFn vo = ''ip&subnet'' then validateIPAddress vo control ops
      else if validatorFn vo = ''required'' then requiredField vo control
      else if validatorFn vo = ''fieldMatch'' then inputFieldMatch vo control ops
      else if validatorFn vo = ''minInArray'' then minInArray vo control ops
      else Inr None)"

text \<open>\<open>map\<close> runs every validator, also after one has failed; the first error is returned.\<close>

fun run_all :: "validator_ops option \<Rightarrow> control \<Rightarrow> validator_object list \<Rightarrow> js_error + verr list" where
  "run_all ops control [] = Inr []"
| "run_all ops control (vo # vos) =
     (case run_validator ops control vo of
        Inl e \<Rightarrow> Inl e
      | Inr r \<Rightarrow>
          (case run_all ops control vos of
             Inl e \<Rightarrow> Inl e
           | Inr errs \<Rightarrow> Inr (case r of None \<Rightarrow> errs | Some e \<Rightarrow> e # errs)))"

definition validateFromArray :: "validator_object list \<Rightarrow> validator_ops option \<Rightarrow> control \<Rightarrow> validation" where
  "validateFromArray validatorArray ops control =
     (case run_all ops control validatorArray of
        Inl e \<Rightarrow> Inl e
      | Inr errors \<Rightarrow> Inr (case errors of [] \<Rightarrow> None | e # _ \<Rightarrow> Some e))"

section \<open>Collecting the errors of a form\<close>

record all_validation_error =
  control_name :: string
  error_name :: string
  error_value :: js

definition own_errors :: "string \<Rightarrow> control \<Rightarrow> all_validation_error list" where
  "own_errors key c =
     (case ctl_errors (ctl_of c) of
        None \<Rightarrow> []
      | Some es \<Rightarrow> map (\<lambda>(k, v). \<lparr>control_name = key, error_name = k, error_value = v\<rparr>) es)"

function (sequential) getFormValidationErrors :: "(string \<times> control) list \<Rightarrow> all_validation_error list"
  and collect_errors :: "(string \<times> control) list \<Rightarrow> all_validation_error list"
  and collect_array :: "control list \<Rightarrow> all_validation_error list" where
  "getFormValidationErrors controls = filter (\<lambda>e. is_primitive (error_value e)) (collect_errors controls)"
| "collect_errors [] = []"
| "collect_errors ((key, FormControl i) # cs) = own_errors key (FormControl i) @ collect_errors cs"
| "collect_errors ((key, FormGroup i ccs) # cs) =
     getFormValidationErrors ccs @ own_errors key (FormGroup i ccs) @ collect_errors cs"
| "collect_errors ((key, FormArray i xs) # cs) =
     collect_array xs @ own_errors key (FormArray i xs) @ collect_errors cs"
| "collect_array [] = []"
| "collect_array (FormGroup i ccs # xs) =
     getFormValidationErrors ccs @ collect_array xs"
| "collect_array (_ # xs) = collect_array xs"
  by pat_completeness auto

termination
  by (relation "measure (\<lambda>x. case x of Inl cs \<Rightarrow> 2 * size_list (size_prod (\<lambda>_. 0) size) cs + 1
      | Inr (Inl cs) \<Rightarrow> 2 * size_list (size_prod (\<lambda>_. 0) size) cs
      | Inr (Inr xs) \<Rightarrow> 2 * size_list size xs)") auto

section \<open>ConfirmPasswordValidator\<close>

definition optional_value :: "control option \<Rightarrow> js" where
  "optional_value c = (case c of None \<Rightarrow> JUndef | Some c' \<Rightarrow> ctl_value (ctl_of c'))"

text \<open>The error returned, and the control with its errors set.\<close>

definition confirm_password_match :: "string \<Rightarrow> string \<Rightarrow> control \<Rightarrow> (string \<times> js) list option \<times> control option" where
  "confirm_password_match name match_name controls =
     (let control = ctl_get controls name;
          match_control = ctl_get controls match_name;
          matching = [(''matching'', JBool True)]
      in if \<not> strict_eq (optional_value control) (optional_value match_control) then
           (Some matching, map_option (\<lambda>c. FormControl (ctl_of c\<lparr>ctl_errors := Some matching, ctl_stat := INVALID\<rparr>)) match_control)
         else (None, match_control))"

section \<open>The validator tables\<close>

definition vo_simple :: "string \<Rightarrow> string \<Rightarrow> validator_object" where
  "vo_simple fn m = \<lparr>validatorFn = fn, vo_error_message = Msg m, vo_pattern = None, vo_ip_range = [], vo_testRange = False\<rparr>"

definition vo_regex :: "(string \<Rightarrow> bool) \<Rightarrow> string \<Rightarrow> validator_object" where
  "vo_regex p m = (vo_simple ''pattern'' m)\<lparr>vo_pattern := Some p\<rparr>"

definition vo_unique :: "(js \<Rightarrow> string) \<Rightarrow> validator_object" where
  "vo_unique f = (vo_simple ''unique'' [])\<lparr>vo_error_message := MsgFn f\<rparr>"

definition VALID_IP_MESSAGE :: string where
  "VALID_IP_MESSAGE = ''You must enter a valid IP address.''"

definition addNodeValidators_hostname :: "validator_object list" where
  "addNodeValidators_hostname =
     [vo_unique (\<lambda>v. ''Duplicate hostnames found: '' @ js_to_string v @ ''. Node must have a unique hostname.''),
      vo_regex (test_full HOSTNAME_PATTERN)
        ''The Hostname must be alphanumeric between 5 and 40 characters. Special characters are not allowed except for the minus sign (-) and the period (.). The Hostname may not begin or end with either special character.'',
      vo_simple ''required'' ''Hostname is required'']"

definition addNodeValidators_ip_address :: "validator_object list" where
  "addNodeValidators_ip_address =
     [vo_unique (\<lambda>v. ''Used IP Address found: '' @ js_to_string v @ ''. Node must have a unique IP Address.''),
      vo_simple ''required'' ''IP Address is required.'',
      vo_regex (test_full IP_CONSTRAINT) VALID_IP_MESSAGE]"

definition addNodeValidators_mac_address :: "validator_object list" where
  "addNodeValidators_mac_address =
     [vo_unique (\<lambda>v. ''Duplicate MAC Address found: '' @ js_to_string v @ ''. Node must have a unique MAC Address.''),
      vo_simple ''required'' ''Mac Address is required'',
      vo_regex (test_full MAC_PATTERN) ''You must enter a valid MAC Address.'']"

definition addNodeValidators_virtual_cpu :: "validator_object list" where
  "addNodeValidators_virtual_cpu =
     [vo_simple ''required'' ''CPU is required'',
      vo_regex (test_search MIN_8_PATTERN)
        ''You must enter a valid number for CPU. A minimum of 8 cores is required for each node.'']"

definition addNodeValidators_virtual_mem :: "validator_object list" where
  "addNodeValidators_virtual_mem =
     [vo_simple ''required'' ''Memory is required'',
      vo_regex (test_search MIN_8_PATTERN)
        ''You must enter a valid number for memory. A minimum of 8 GB of RAM is required.'']"

definition addNodeValidators_virtual_os_drive :: "validator_object list" where
  "addNodeValidators_virtual_os_drive =
     [vo_simple ''required'' ''OS drive is required'',
      vo_regex (test_search MIN_50_PATTERN)
        ''You must enter a valid number for disk. A minimum of 50GB is required.'']"

definition addNodeValidators_virtual_data_drive :: "validator_object list" where
  "addNodeValidators_virtual_data_drive =
     [vo_simple ''required'' ''Data drive is required'',
      vo_regex (test_search MIN_50_PATTERN)
        ''You must enter a valid number for disk. A minimum of 50GB is required.'']"

definition COMMON_VALIDATORS_required :: "validator_object list" where
  "COMMON_VALIDATORS_required = [vo_simple ''required'' ''Required field'']"

definition COMMON_VALIDATORS_isValidIP :: "validator_object list" where
  "COMMON_VALIDATORS_isValidIP =
     [vo_simple ''required'' ''Required field'', vo_regex (test_full IP_CONSTRAINT) VALID_IP_MESSAGE]"

definition COMMON_VALIDATORS_root_password :: "validator_object list" where
  "COMMON_VALIDATORS_root_password =
     [vo_simple ''required'' ''Required field'',
      vo_simple ''password'' ''Root password did not meet the password requirements.'']"

definition COMMON_VALIDATORS_re_password :: "validator_object list" where
  "COMMON_VALIDATORS_re_password =
     [vo_simple ''required'' ''Required field'',
      vo_simple ''fieldMatch'' ''The passwords you entered do not match.  Please retype them carefully.'']"

definition COMMON_VALIDATORS_is_valid_space_name :: "validator_object list" where
  "COMMON_VALIDATORS_is_valid_space_name =
     [vo_simple ''required'' ''Required field'',
      vo_regex (test_full SPACE_NAME_CONSTRAINT)
        ''Please enter a valid space name of 1-50 uppercase and lowercase letters.'']"

section \<open>Lemmas\<close>

definition text_control :: "string \<Rightarrow> bool \<Rightarrow> control" where
  "text_control s t = FormControl \<lparr>ctl_value = JStr s, ctl_touched = t, ctl_stat = VALID, ctl_errors = None\<rparr>"

definition number_control :: "int \<Rightarrow> bool \<Rightarrow> control" where
  "number_control n t = FormControl \<lparr>ctl_value = JNum n, ctl_touched = t, ctl_stat = VALID, ctl_errors = None\<rparr>"

lemmas vo_defs = vo_simple_def vo_regex_def vo_unique_def

lemma run_validator_simps [simp]:
  "run_validator ops c (vo_simple ''required'' m) = requiredField (vo_simple ''required'' m) c"
  "run_validator ops c (vo_simple ''password'' m) = passwordValidator (vo_simple ''password'' m) c ops"
  "run_validator ops c (vo_simple ''fieldMatch'' m) = inputFieldMatch (vo_simple ''fieldMatch'' m) c ops"
  "run_validator ops c (vo_regex p m) = patternValidator (vo_regex p m) c"
  "run_validator ops c (vo_unique f) = uniqueValidator (vo_unique f) (Some c) ops"
  by (simp_all add: run_validator_def vo_defs)

lemma text_control_simps [simp]:
  "ctl_value (ctl_of (text_control s t)) = JStr s"
  "ctl_touched (ctl_of (text_control s t)) = t"
  "ctl_value (ctl_of (number_control n t)) = JNum n"
  "ctl_touched (ctl_of (number_control n t)) = t"
  by (simp_all add: text_control_def number_control_def)

lemma requiredField_text:
  "requiredField vo (text_control s t) =
     (if s = [] then Inr (Some (new_errorObject (text_control s t) (vo_error_message vo))) else Inr None)"
  by (simp add: requiredField_def num_gt_def notUndefNull_def Let_def)

lemma requiredField_number:
  "requiredField vo (number_control n t) =
     (if t then Inr (Some (new_errorObject (number_control n t) (vo_error_message vo))) else Inr None)"
  by (simp add: requiredField_def num_gt_def notUndefNull_def Let_def)

lemma patternValidator_text:
  "patternValidator (vo_regex p m) (text_control s t) =
     (if s = [] \<or> p s then Inr None else Inr (Some (PatternError (JStr s) (Msg m))))"
  by (simp add: patternValidator_def num_gt_def vo_defs Let_def)

lemma patternValidator_number: "patternValidator (vo_regex p m) (number_control n t) = Inr None"
  by (simp add: patternValidator_def num_gt_def vo_defs Let_def)

text \<open>The loop of \<open>consecutive\<close> finds a run of three: with \<open>same\<close> copies of \<open>c\<close> just read,
  it answers whether a run of at least three starts there or later.\<close>

fun has_triple :: "'a list \<Rightarrow> bool" where
  "has_triple (x # y # z # zs) = ((x = y \<and> y = z) \<or> has_triple (y # z # zs))"
| "has_triple _ = False"

lemma has_triple_iff: "has_triple xs \<longleftrightarrow> (\<exists>a d b. xs = a @ [d, d, d] @ b)"
proof (induction xs rule: has_triple.induct)
  case (1 x y z zs)
  have "(\<exists>a d b. x # y # z # zs = a @ [d, d, d] @ b) \<longleftrightarrow>
        (x = y \<and> y = z) \<or> (\<exists>a d b. y # z # zs = a @ [d, d, d] @ b)"
    by (simp only: Cons_eq_append_conv [of x]) auto
  with 1 show ?case by simp
qed (auto simp: Cons_eq_append_conv)

lemma has_triple_map: "inj f \<Longrightarrow> has_triple (map f xs) = has_triple xs"
  by (induction xs rule: has_triple.induct) (auto dest: injD)

lemma has_triple_replicate:
  assumes "c \<noteq> x"
  shows "has_triple (replicate (Suc n) c @ x # xs) \<longleftrightarrow> 2 \<le> n \<or> has_triple (x # xs)"
proof (cases n)
  case (Suc m)
  with assms show ?thesis by (cases m; cases xs) simp_all
qed (use assms in \<open>cases xs, simp_all\<close>)

lemma has_triple_replicate_only: "has_triple (replicate (Suc n) c) \<longleftrightarrow> 2 \<le> n"
proof (cases n)
  case (Suc m)
  then show ?thesis by (cases m) simp_all
qed simp

lemma consecutive_loop_iff:
  "None \<notin> set xs \<Longrightarrow> c \<noteq> None \<Longrightarrow>
   consecutive_loop c (Suc n) (xs @ [None]) \<longleftrightarrow> has_triple (replicate (Suc n) c @ xs)"
proof (induction xs arbitrary: c n)
  case Nil
  then show ?case using has_triple_replicate_only [of n c] by auto
next
  case (Cons x xs)
  show ?case
  proof (cases "c = x")
    case True
    then show ?thesis
      using Cons.IH [of c "Suc n"] Cons.prems by (simp add: replicate_app_Cons_same)
  next
    case False
    from Cons.prems have "x \<noteq> None" by (metis list.set_intros(1))
    then have "consecutive_loop x 1 (xs @ [None]) \<longleftrightarrow> has_triple (x # xs)"
      using Cons.IH [of x 0] Cons.prems(1) by simp
    then show ?thesis
      using False has_triple_replicate [OF False, of n xs] by auto
  qed
qed

lemma consecutive_iff: "consecutive cs \<longleftrightarrow> has_triple cs"
proof (cases cs)
  case (Cons x xs)
  then show ?thesis
    using consecutive_loop_iff [of "map Some xs" "Some x" 0] has_triple_map [of Some cs]
    by (auto simp: consecutive_def)
qed (simp add: consecutive_def)

lemma js_set_size_chars: "js_set_size (map (\<lambda>c. JStr [c]) s) = card (set s)"
proof -
  have "inj_on (\<lambda>c. JStr [c]) (set s)" by (simp add: inj_on_def)
  then show ?thesis
    by (simp add: js_set_size_def filter_map o_def length_remdups_card_conv card_image)
qed

lemma consecutive_chars: "consecutive (map (\<lambda>c. JStr [c]) s) \<longleftrightarrow> has_triple s"
  by (simp add: consecutive_iff has_triple_map inj_def)

lemma passwordValidator_text:
  "s \<noteq> [] \<Longrightarrow>
   passwordValidator vo (text_control s t) ops = Inr None \<longleftrightarrow>
     15 \<le> length s \<and> (\<exists>c \<in> set s. is_digit c) \<and> (\<exists>c \<in> set s. is_lower c) \<and> (\<exists>c \<in> set s. is_upper c) \<and>
     (\<exists>c \<in> set s. \<not> is_digit c \<and> \<not> is_lower c \<and> \<not> is_upper c) \<and> 8 \<le> card (set s) \<and> \<not> has_triple s"
  by (auto simp: passwordValidator_def Let_def num_lt_def list_ex_iff js_set_size_chars consecutive_chars)

lemma vo_simple_message [simp]: "vo_error_message (vo_simple fn m) = Msg m"
  by (simp add: vo_simple_def)

lemma passwordValidator_text_defined:
  "\<exists>r. passwordValidator vo (text_control s t) ops = Inr r"
  by (auto simp: passwordValidator_def Let_def)

section \<open>What the forms accept\<close>

text \<open>C16: the validation of a root password typed into the form never throws, whatever the text, and accepts it
  exactly when it has at least 15 characters, a digit, a lower case letter, an upper case letter and a symbol, at
  least 8 different characters and no character three times in a row.\<close>

theorem root_password_policy:
  "\<exists>r. validateFromArray COMMON_VALIDATORS_root_password ops (text_control s t) = Inr r \<and>
     (r = None \<longleftrightarrow>
       15 \<le> length s \<and> (\<exists>c. c \<in> set s \<and> is_digit c) \<and> (\<exists>c. c \<in> set s \<and> is_lower c) \<and>
       (\<exists>c. c \<in> set s \<and> is_upper c) \<and>
       (\<exists>c. c \<in> set s \<and> \<not> (is_digit c \<or> is_lower c \<or> is_upper c)) \<and>
       8 \<le> card (set s) \<and> (\<nexists>a d b. s = a @ [d, d, d] @ b))"
proof -
  obtain r where r: "passwordValidator (vo_simple ''password''
      ''Root password did not meet the password requirements.'') (text_control s t) ops = Inr r"
    using passwordValidator_text_defined by blast
  show ?thesis
  proof (cases "s = []")
    case True
    with r show ?thesis
      by (simp add: validateFromArray_def COMMON_VALIDATORS_root_password_def requiredField_text split: option.splits)
  next
    case False
    have "validateFromArray COMMON_VALIDATORS_root_password ops (text_control s t) = Inr r"
      using False r by (simp add: validateFromArray_def COMMON_VALIDATORS_root_password_def
          requiredField_text split: option.splits)
    with False r show ?thesis
      using passwordValidator_text [OF False, of "vo_simple ''password''
        ''Root password did not meet the password requirements.''" t ops]
      by (simp add: has_triple_iff Bex_def)
  qed
qed

text \<open>a numeric value of the CPU field (the form sets 16 or 8 as default) is accepted whatever it
  is while the field is untouched, and rejected as missing once the field was touched.\<close>

theorem virtual_cpu_number:
  "validateFromArray addNodeValidators_virtual_cpu ops (number_control n t) =
     (if t then Inr (Some (errorObject (Msg ''CPU is required'') (number_control n t))) else Inr None)"
  by (simp add: validateFromArray_def addNodeValidators_virtual_cpu_def requiredField_number
      patternValidator_number new_errorObject_def)

section \<open>The validators on texts\<close>

lemma required_str:
  "ctl_value (ctl_of c) = JStr t \<Longrightarrow>
   requiredField vo c = Inr (if t = [] then Some (new_errorObject c (vo_error_message vo)) else None)"
  by (simp add: requiredField_def num_gt_def notUndefNull_def Let_def)

lemma pattern_str:
  "ctl_value (ctl_of c) = JStr t \<Longrightarrow>
   patternValidator (vo_regex p m) c = Inr (if t = [] \<or> p t then None else Some (PatternError (JStr t) (Msg m)))"
  by (auto simp: patternValidator_def Let_def num_gt_def vo_regex_def)

end
