(* ===== verification/Node_Management.thy ===== *)
theory Node_Management
  imports Backend Validators
begin

text \<open>
  \<open>modules/node-mng/node-mng.component.ts\<close>: the node management page. Rows are objects with an
  identity, because a delete callback marks the row object it captured, which may no longer be in
  the table when the table was refreshed meanwhile. Each \<open>api_..\<close> method is the definition that
  sends the request and the definition with suffix \<open>answer\<close> that runs its callbacks.
\<close>

section \<open>State\<close>

abbreviation SERVER :: js where "SERVER \<equiv> JStr ''Server''"
abbreviation SENSOR :: js where "SENSOR \<equiv> JStr ''Sensor''"
abbreviation SERVICE :: js where "SERVICE \<equiv> JStr ''Service''"
abbreviation MIP :: js where "MIP \<equiv> JStr ''MIP''"
abbreviation MINIO :: js where "MINIO \<equiv> JStr ''MinIO''"
abbreviation CONTROL_PLANE :: js where "CONTROL_PLANE \<equiv> JStr ''Control-Plane''"
abbreviation VIRTUAL :: js where "VIRTUAL \<equiv> JStr ''Virtual''"
abbreviation BAREMETAL :: js where "BAREMETAL \<equiv> JStr ''Baremetal''"
abbreviation ISO :: js where "ISO \<equiv> JStr ''Iso''"

text \<open>An object with its identity.\<close>

record jsobj =
  obj_ref :: nat
  obj_val :: js

abbreviation fld :: "jsobj \<Rightarrow> string \<Rightarrow> js" where
  "fld ob k \<equiv> js_get (obj_val ob) k"

datatype nm_request =
    NM_Nodes | NM_KitStatus | NM_KitSettings
  | NM_DeviceFacts jsobj | NM_VpnCerts jsobj
  | NM_Deploy | NM_Refresh | NM_ControlPlane
  | NM_Delete jsobj | NM_Apps jsobj

datatype nm_dialog = NM_ConfirmRefresh | NM_ConfirmRedeploy | NM_ConfirmDelete jsobj

record nm_state = "(nm_request, nm_dialog) async" +
  setup_node_columns :: "string list"
  node_columns :: "string list"
  setup_nodes :: "jsobj list"
  nodes :: "jsobj list"
  iso_sensor_detected :: bool
  kit_status :: js
  kit_settings :: js
  next_ref :: nat

definition nm_constructor :: nm_state where
  "nm_constructor =
     \<lparr>trace = [SetTitle ''Node Management''], matSnackBarRef = None, requests = [], dialogs = [],
      setup_node_columns = [''hostname'', ''node_type'', ''state''],
      node_columns = [''hostname'', ''ip_address'', ''node_type'', ''deployment_type'', ''state'', ''actions''],
      setup_nodes = [], nodes = [], iso_sensor_detected = False, kit_status = JObj [], kit_settings = JUndef,
      next_ref = 0\<rparr>"

section \<open>Buttons and predicates\<close>

definition nm_flag :: "string \<Rightarrow> nm_state \<Rightarrow> js_error + bool" where
  "nm_flag k s = smap truthy (js_index (kit_status s) k)"

definition nm_disable_refresh_kit_button :: "nm_state \<Rightarrow> js_error + bool" where
  "nm_disable_refresh_kit_button s =
     sbind (nm_flag ''base_kit_deployed'' s) (\<lambda>deployed.
     sbind (nm_flag ''jobs_running'' s) (\<lambda>running.
       Inr (if \<not> deployed \<and> running then True else \<not> deployed)))"

definition nm_disable_setup_control_plane_button :: "nm_state \<Rightarrow> js_error + bool" where
  "nm_disable_setup_control_plane_button s =
     sbind (nm_flag ''control_plane_deployed'' s) (\<lambda>deployed.
     sbind (nm_flag ''esxi_settings_configured'' s) (\<lambda>esxi.
     sbind (nm_flag ''kit_settings_configured'' s) (\<lambda>kit.
     sbind (nm_flag ''jobs_running'' s) (\<lambda>running.
       Inr (\<not> ((\<not> deployed \<and> esxi \<and> kit) \<and> \<not> running))))))"

definition nm_disable_add_node_button :: "nm_state \<Rightarrow> js_error + js" where
  "nm_disable_add_node_button s = js_index (kit_status s) ''deploy_kit_running''"

definition nm_disable_deploy_kit_button :: "nm_state \<Rightarrow> js_error + bool" where
  "nm_disable_deploy_kit_button s =
     sbind (nm_flag ''jobs_running'' s) (\<lambda>running.
     sbind (nm_flag ''ready_to_deploy'' s) (\<lambda>ready.
       Inr (\<not> (\<not> running \<and> ready))))"

definition nm_can_refresh_device_facts :: "jsobj \<Rightarrow> js" where
  "nm_can_refresh_device_facts node = fld node ''isDeployed''"

definition nm_is_iso_button_group :: "jsobj \<Rightarrow> bool" where
  "nm_is_iso_button_group node \<longleftrightarrow> fld node ''node_type'' = SENSOR \<and> fld node ''deployment_type'' = ISO"

definition nm_is_iso_node_deployed :: "jsobj option \<Rightarrow> js" where
  "nm_is_iso_node_deployed node =
     (case node of
        None \<Rightarrow> JBool False
      | Some n \<Rightarrow> if notUndefNull (fld n ''isDeployed'') then fld n ''isDeployed'' else JBool False)"

definition nm_can_delete_node :: "jsobj \<Rightarrow> bool" where
  "nm_can_delete_node node \<longleftrightarrow>
     (fld node ''node_type'' = SENSOR \<or> fld node ''node_type'' = SERVICE \<or> fld node ''node_type'' = MINIO) \<or>
     (fld node ''node_type'' = SERVER \<and> \<not> truthy (fld node ''isDeployed''))"

definition nm_get_vpn_status :: "jsobj \<Rightarrow> bool" where
  "nm_get_vpn_status node =
     (if fld node ''node_type'' = SENSOR \<and> fld node ''deployment_type'' = ISO
      then notUndefNull (fld node ''vpn_status'') else False)"

section \<open>The tables\<close>

fun nm_apply_jobs :: "js list \<Rightarrow> js \<Rightarrow> js_error + js" where
  "nm_apply_jobs [] node = Inr node"
| "nm_apply_jobs (job # jobs) node =
     sbind (js_index job ''name'') (\<lambda>name.
       let node1 = (if name = JStr ''deploy'' then js_set node ''isDeployed'' (js_get job ''complete'') else node);
           node2 = (if name = JStr ''remove'' then js_set node1 ''isRemoving'' (JBool True) else node1)
       in nm_apply_jobs jobs node2)"

definition nm_read_node :: "js \<Rightarrow> js_error + js" where
  "nm_read_node node =
     sbind (js_index node ''jobs'') (\<lambda>jobs.
       if notUndefNull jobs
       then (case js_iterate jobs of None \<Rightarrow> Inl TypeError | Some js \<Rightarrow> nm_apply_jobs js node)
       else Inr node)"

definition new_objs :: "nat \<Rightarrow> js list \<Rightarrow> jsobj list" where
  "new_objs n vs = map (\<lambda>(i, v). \<lparr>obj_ref = i, obj_val = v\<rparr>) (enumerate n vs)"

definition nm_set_nodes :: "jsobj list \<Rightarrow> nm_state \<Rightarrow> nm_state" where
  "nm_set_nodes ns s = s\<lparr>nodes := ns\<rparr>"

definition nm_set_setup_nodes :: "jsobj list \<Rightarrow> nm_state \<Rightarrow> nm_state" where
  "nm_set_setup_nodes ns s = s\<lparr>setup_nodes := ns\<rparr>"

definition nm_set_iso_sensor_detected :: "bool \<Rightarrow> nm_state \<Rightarrow> nm_state" where
  "nm_set_iso_sensor_detected b s = s\<lparr>iso_sensor_detected := b\<rparr>"

definition nm_update_nodes_data :: "js list \<Rightarrow> nm_state \<Rightarrow> js_error + nm_state" where
  "nm_update_nodes_data vs s =
     smap (\<lambda>rows.
        let obs = new_objs (next_ref s) rows;
            is_setup = (\<lambda>ob. fld ob ''node_type'' = CONTROL_PLANE);
            setup = filter is_setup obs;
            new_nodes = filter (\<lambda>ob. \<not> is_setup ob) obs;
            shown = filter (\<lambda>ob. fld ob ''node_type'' \<noteq> CONTROL_PLANE)
                      (filter (\<lambda>ob. fld ob ''node_type'' \<noteq> MIP) new_nodes);
            iso = list_ex (\<lambda>ob. fld ob ''deployment_type'' = ISO) obs
        in nm_set_iso_sensor_detected iso (nm_set_setup_nodes setup (nm_set_nodes shown
             (s\<lparr>next_ref := next_ref s + length rows\<rparr>))))
      (mapS nm_read_node vs)"

section \<open>User actions\<close>

definition nm_open_node_info_dialog_window :: "jsobj \<Rightarrow> nm_state \<Rightarrow> nm_state" where
  "nm_open_node_info_dialog_window node = emit (DialogOpen ''NodeInfoDialogComponent'' (obj_val node))"

definition nm_open_add_node_dialog_window :: "nm_state \<Rightarrow> nm_state" where
  "nm_open_add_node_dialog_window s =
     emit (DialogOpen ''AddNodeDialogComponent''
       (JObj [(''kit_settings'', kit_settings s), (''nodes'', JArr (map obj_val (nodes s))),
              (''setup_nodes'', JArr (map obj_val (setup_nodes s)))])) s"

definition nm_download_iso :: "nm_state \<Rightarrow> nm_state" where
  "nm_download_iso = emit (ClickLink ''/assets/dip-virtual-sensor.iso'' ''dip-virtual-sensor.iso'')"

definition nm_open_job_server_std_out_console :: "js \<Rightarrow> nm_state \<Rightarrow> nm_state" where
  "nm_open_job_server_std_out_console job_id = emit (DialogOpen ''ServerStdoutComponent'' (JObj [(''job_id'', job_id)]))"

definition nm_api_get_nodes :: "nm_state \<Rightarrow> nm_state" where
  "nm_api_get_nodes = call get_nodes NM_Nodes"

definition nm_api_get_kit_status :: "nm_state \<Rightarrow> nm_state" where
  "nm_api_get_kit_status = call get_kit_status NM_KitStatus"

definition nm_api_get_kit_settings :: "nm_state \<Rightarrow> nm_state" where
  "nm_api_get_kit_settings = call get_kit_settings NM_KitSettings"

definition nm_api_update_device_facts :: "jsobj \<Rightarrow> nm_state \<Rightarrow> nm_state" where
  "nm_api_update_device_facts node = call (update_device_facts (fld node ''hostname'')) (NM_DeviceFacts node)"

definition nm_api_get_open_vpn_certs :: "jsobj \<Rightarrow> nm_state \<Rightarrow> nm_state" where
  "nm_api_get_open_vpn_certs node = call (get_open_vpn_certs (fld node ''hostname'')) (NM_VpnCerts node)"

definition nm_api_deploy_kit :: "nm_state \<Rightarrow> nm_state" where
  "nm_api_deploy_kit = call deploy_kit NM_Deploy"

definition nm_api_refresh_kit :: "nm_state \<Rightarrow> nm_state" where
  "nm_api_refresh_kit = call refresh_kit NM_Refresh"

definition nm_api_setup_control_plane :: "nm_state \<Rightarrow> nm_state" where
  "nm_api_setup_control_plane = call setup_control_plane NM_ControlPlane"

definition nm_api_delete_node :: "jsobj \<Rightarrow> nm_state \<Rightarrow> nm_state" where
  "nm_api_delete_node node = call (delete_node (fld node ''hostname'')) (NM_Delete node)"

definition nm_api_get_catalog_apps :: "jsobj \<Rightarrow> nm_state \<Rightarrow> nm_state" where
  "nm_api_get_catalog_apps node = call (get_installed_apps (fld node ''hostname'')) (NM_Apps node)"

definition nm_ngOnInit :: "nm_state \<Rightarrow> nm_state" where
  "nm_ngOnInit s = nm_api_get_kit_settings (nm_api_get_kit_status (nm_api_get_nodes s))"

definition nm_refresh_device_facts :: "jsobj \<Rightarrow> nm_state \<Rightarrow> nm_state" where
  "nm_refresh_device_facts node = nm_api_update_device_facts node"

definition nm_download_open_vpn_certs :: "jsobj \<Rightarrow> nm_state \<Rightarrow> nm_state" where
  "nm_download_open_vpn_certs node = nm_api_get_open_vpn_certs node"

definition nm_confirm_data :: "string \<Rightarrow> string \<Rightarrow> string option \<Rightarrow> js" where
  "nm_confirm_data title message double_confirm =
     JObj ([(''message'', JStr message), (''title'', JStr title), (''option1'', JStr CANCEL_DIALOG_OPTION),
            (''option2'', JStr CONFIRM_DIALOG_OPTION)]
       @ (case double_confirm of None \<Rightarrow> [] | Some d \<Rightarrow> [(''message_double_confirm'', JStr d)]))"

abbreviation indent14 :: string where "indent14 \<equiv> ''              ''"

definition MAT_DIALOG_CONFIG__REDEPLOY_KIT :: js where
  "MAT_DIALOG_CONFIG__REDEPLOY_KIT =
     nm_confirm_data ''Redeploy Kit Operation''
       (''This operation will destroy the cluster and rebuild it.  '' @ nl @ nl @ '' '' @ indent14 @
        ''The cluster will start fresh after this operation is completed. '' @ nl @ nl @ '' '' @ indent14 @
        ''Are you sure you want to do this? It so, please type REDEPLOY and then click Confirm to perform this operation'')
       (Some ''REDEPLOY'')"

definition MAT_DIALOG_CONFIG__REFRESH_KIT :: js where
  "MAT_DIALOG_CONFIG__REFRESH_KIT =
     nm_confirm_data ''Refresh Kit Operation''
       (''This operation will destroy the control plane nodes and rebuild them.  '' @ indent14 @
        ''The Kubernetes cluster will start fresh after this operation is completed. '' @ nl @ nl @ '' '' @ indent14 @
        ''**All sensors will be removed during this process.** '' @ nl @ nl @ '' '' @ indent14 @
        ''Are you sure you want to do this? It so, please type REFRESH and then click Confirm to perform this operation'')
       (Some ''REFRESH'')"

definition nm_redeploy_kit :: "nm_state \<Rightarrow> nm_state" where
  "nm_redeploy_kit = open_dialog ''ConfirmDialogComponent'' MAT_DIALOG_CONFIG__REDEPLOY_KIT NM_ConfirmRedeploy"

definition nm_redeploy_kit_closed :: "js \<Rightarrow> nm_state \<Rightarrow> nm_state" where
  "nm_redeploy_kit_closed response s = (if response = JStr CONFIRM_DIALOG_OPTION then nm_api_deploy_kit s else s)"

definition nm_deploy_kit :: "nm_state \<Rightarrow> nm_state" where
  "nm_deploy_kit s =
     settle s (smap (\<lambda>deployed. if deployed then nm_redeploy_kit s else nm_api_deploy_kit s) (nm_flag ''base_kit_deployed'' s))"

definition nm_setup_control_plane :: "nm_state \<Rightarrow> nm_state" where
  "nm_setup_control_plane = nm_api_setup_control_plane"

definition nm_delete_node :: "jsobj \<Rightarrow> nm_state \<Rightarrow> nm_state" where
  "nm_delete_node node = nm_api_get_catalog_apps node"

definition nm_refresh_kit :: "nm_state \<Rightarrow> nm_state" where
  "nm_refresh_kit = open_dialog ''ConfirmDialogComponent'' MAT_DIALOG_CONFIG__REFRESH_KIT NM_ConfirmRefresh"

definition nm_refresh_kit_closed :: "js \<Rightarrow> nm_state \<Rightarrow> nm_state" where
  "nm_refresh_kit_closed response s = (if response = JStr CONFIRM_DIALOG_OPTION then nm_api_refresh_kit s else s)"

definition nm_delete_message :: "jsobj \<Rightarrow> js list \<Rightarrow> js_error + string" where
  "nm_delete_message node apps =
     (let message = ''Are you sure you want delete '' @ str (fld node ''hostname'') @ ''?'' in
      if apps = [] then Inr message
      else smap (\<lambda>applications.
             message @ nl @ nl @ ''       The following applications will be uninstalled: '' @ nl @ '' '' @
             js_join '', '' (map js_elem_string applications))
           (mapS (\<lambda>app. js_index app ''application'') apps))"

definition nm_open_delete_node_dialog_window :: "jsobj \<Rightarrow> js list \<Rightarrow> nm_state \<Rightarrow> js_error + nm_state" where
  "nm_open_delete_node_dialog_window node apps s =
     smap (\<lambda>message.
       open_dialog ''ConfirmDialogComponent''
         (JObj [(''title'', JStr (''Delete '' @ str (fld node ''hostname'') @ ''?'')), (''message'', JStr message),
                (''option1'', JStr CANCEL_DIALOG_OPTION), (''option2'', JStr CONFIRM_DIALOG_OPTION)])
         (NM_ConfirmDelete node) s)
     (nm_delete_message node apps)"

definition nm_open_delete_node_dialog_closed :: "jsobj \<Rightarrow> js \<Rightarrow> nm_state \<Rightarrow> nm_state" where
  "nm_open_delete_node_dialog_closed node response s =
     (if response = JStr CONFIRM_DIALOG_OPTION then nm_api_delete_node node s else s)"

section \<open>Answers\<close>

definition nm_api_get_nodes_answer :: "reply \<Rightarrow> nm_state \<Rightarrow> nm_state" where
  "nm_api_get_nodes_answer =
     answered get_nodes (\<lambda>response s. settle s (nm_update_nodes_data response s))
       (report_error_or_message ''retrieving nodes'')"

definition nm_api_get_kit_status_answer :: "reply \<Rightarrow> nm_state \<Rightarrow> nm_state" where
  "nm_api_get_kit_status_answer =
     answered get_kit_status (\<lambda>response s. s\<lparr>kit_status := response\<rparr>)
       (report_error_or_message ''retrieving kit status'')"

definition nm_api_get_kit_settings_answer :: "reply \<Rightarrow> nm_state \<Rightarrow> nm_state" where
  "nm_api_get_kit_settings_answer =
     answered get_kit_settings (\<lambda>response s. s\<lparr>kit_settings := response\<rparr>)
       (report_error_or_message ''retrieving kit settings'')"

definition nm_api_update_device_facts_answer :: "jsobj \<Rightarrow> reply \<Rightarrow> nm_state \<Rightarrow> nm_state" where
  "nm_api_update_device_facts_answer node =
     answered (update_device_facts (fld node ''hostname''))
       (\<lambda>_. displaySnackBar (JStr (''Device facts job started for '' @ str (fld node ''hostname'') @
              ''  Check Notifications for results.'')) None)
       (report_error_or_message ''updating device facts'')"

definition nm_api_get_open_vpn_certs_answer :: "jsobj \<Rightarrow> reply \<Rightarrow> nm_state \<Rightarrow> nm_state" where
  "nm_api_get_open_vpn_certs_answer node =
     answered (get_open_vpn_certs (fld node ''hostname''))
       (\<lambda>_ s. displaySnackBar (JStr (''Downloading VPN Config for '' @ str (fld node ''hostname''))) None
                (emit (SaveFile (str (fld node ''hostname'') @ ''.conf'')) s))
       (report_error_or_message ''downloading open vpn certs'')"

definition nm_api_deploy_kit_answer :: "reply \<Rightarrow> nm_state \<Rightarrow> nm_state" where
  "nm_api_deploy_kit_answer =
     answered deploy_kit (\<lambda>response. nm_open_job_server_std_out_console (js_get response ''job_id''))
       (report_error_or_message ''downloading open vpn certs'')"

definition nm_api_refresh_kit_answer :: "reply \<Rightarrow> nm_state \<Rightarrow> nm_state" where
  "nm_api_refresh_kit_answer =
     answered refresh_kit (\<lambda>_. generate_return_success_snackbar_message '' started refresh kit job'' None)
       (\<lambda>_. report_error ''starting refresh kit'')"

definition nm_api_setup_control_plane_answer :: "reply \<Rightarrow> nm_state \<Rightarrow> nm_state" where
  "nm_api_setup_control_plane_answer =
     answered setup_control_plane (\<lambda>_. generate_return_success_snackbar_message '' started setup control plane job'' None)
       (\<lambda>_. report_error ''starting setup control plane'')"

text \<open>\<open>node.isRemoving = true\<close> on the captured object: every row that is this object changes.\<close>

definition nm_mark_removing :: "jsobj \<Rightarrow> nm_state \<Rightarrow> nm_state" where
  "nm_mark_removing node s =
     (let mark = map (\<lambda>ob. if obj_ref ob = obj_ref node then ob\<lparr>obj_val := js_set (obj_val ob) ''isRemoving'' (JBool True)\<rparr> else ob)
      in s\<lparr>nodes := mark (nodes s), setup_nodes := mark (setup_nodes s)\<rparr>)"

definition nm_api_delete_node_answer :: "jsobj \<Rightarrow> reply \<Rightarrow> nm_state \<Rightarrow> nm_state" where
  "nm_api_delete_node_answer node =
     answered (delete_node (fld node ''hostname''))
       (\<lambda>_ s. generate_return_success_snackbar_message '' started delete node job'' None (nm_mark_removing node s))
       (report_error_or_message ''deleting node'')"

definition nm_api_get_catalog_apps_answer :: "jsobj \<Rightarrow> reply \<Rightarrow> nm_state \<Rightarrow> nm_state" where
  "nm_api_get_catalog_apps_answer node =
     answered (get_installed_apps (fld node ''hostname''))
       (\<lambda>response s.
          let installed_apps = (if response \<noteq> [] then map (\<lambda>app. js_get app ''application'') response else [])
          in settle s (nm_open_delete_node_dialog_window node installed_apps s))
       (\<lambda>_. report_error ''retrieving catalog applications'')"

section \<open>The component as a machine\<close>

datatype nm_act =
    NM_ngOnInit
  | NM_InfoClick jsobj | NM_AddNodeClick | NM_DownloadIsoClick
  | NM_VpnClick nat | NM_FactsClick nat | NM_DeleteClick nat
  | NM_DeployClick | NM_ControlPlaneClick | NM_RefreshClick
  | NM_NodeStateChange js | NM_KitStatusChange js

definition on_row :: "nat \<Rightarrow> (jsobj \<Rightarrow> nm_state \<Rightarrow> nm_state) \<Rightarrow> nm_state \<Rightarrow> nm_state" where
  "on_row i f s = (if i < length (nodes s) then f (nodes s ! i) s else s)"

definition nm_node_state_change :: "js \<Rightarrow> nm_state \<Rightarrow> nm_state" where
  "nm_node_state_change response s =
     (case js_iterate response of None \<Rightarrow> s | Some vs \<Rightarrow> settle s (nm_update_nodes_data vs s))"

definition nm_kit_status_change :: "js \<Rightarrow> nm_state \<Rightarrow> nm_state" where
  "nm_kit_status_change response s = s\<lparr>kit_status := response\<rparr>"

fun nm_handle :: "nm_act \<Rightarrow> nm_state \<Rightarrow> nm_state" where
  "nm_handle NM_ngOnInit = nm_ngOnInit"
| "nm_handle (NM_InfoClick node) = nm_open_node_info_dialog_window node"
| "nm_handle NM_AddNodeClick = nm_open_add_node_dialog_window"
| "nm_handle NM_DownloadIsoClick = nm_download_iso"
| "nm_handle (NM_VpnClick i) = on_row i nm_download_open_vpn_certs"
| "nm_handle (NM_FactsClick i) = on_row i nm_refresh_device_facts"
| "nm_handle (NM_DeleteClick i) = on_row i nm_delete_node"
| "nm_handle NM_DeployClick = nm_deploy_kit"
| "nm_handle NM_ControlPlaneClick = nm_setup_control_plane"
| "nm_handle NM_RefreshClick = nm_refresh_kit"
| "nm_handle (NM_NodeStateChange v) = nm_node_state_change v"
| "nm_handle (NM_KitStatusChange v) = nm_kit_status_change v"

fun nm_answer :: "nm_request \<Rightarrow> reply \<Rightarrow> nm_state \<Rightarrow> nm_state" where
  "nm_answer NM_Nodes = nm_api_get_nodes_answer"
| "nm_answer NM_KitStatus = nm_api_get_kit_status_answer"
| "nm_answer NM_KitSettings = nm_api_get_kit_settings_answer"
| "nm_answer (NM_DeviceFacts node) = nm_api_update_device_facts_answer node"
| "nm_answer (NM_VpnCerts node) = nm_api_get_open_vpn_certs_answer node"
| "nm_answer NM_Deploy = nm_api_deploy_kit_answer"
| "nm_answer NM_Refresh = nm_api_refresh_kit_answer"
| "nm_answer NM_ControlPlane = nm_api_setup_control_plane_answer"
| "nm_answer (NM_Delete node) = nm_api_delete_node_answer node"
| "nm_answer (NM_Apps node) = nm_api_get_catalog_apps_answer node"

fun nm_closed :: "nm_dialog \<Rightarrow> js \<Rightarrow> nm_state \<Rightarrow> nm_state" where
  "nm_closed NM_ConfirmRefresh = nm_refresh_kit_closed"
| "nm_closed NM_ConfirmRedeploy = nm_redeploy_kit_closed"
| "nm_closed (NM_ConfirmDelete node) = nm_open_delete_node_dialog_closed node"

definition nm_step :: "nm_act event \<Rightarrow> nm_state \<Rightarrow> nm_state" where
  "nm_step = async_step nm_handle nm_answer nm_closed"

section \<open>Invariant\<close>

definition nm_tables :: "nm_state \<Rightarrow> bool" where
  "nm_tables s \<longleftrightarrow>
     (\<forall>ob \<in> set (nodes s). fld ob ''node_type'' \<noteq> MIP \<and> fld ob ''node_type'' \<noteq> CONTROL_PLANE) \<and>
     (\<forall>ob \<in> set (setup_nodes s). fld ob ''node_type'' = CONTROL_PLANE) \<and>
     distinct (map obj_ref (nodes s @ setup_nodes s)) \<and>
     (\<forall>ob \<in> set (nodes s @ setup_nodes s). obj_ref ob < next_ref s) \<and>
     ((\<exists>ob \<in> set (nodes s @ setup_nodes s). fld ob ''deployment_type'' = ISO) \<longrightarrow> iso_sensor_detected s)"

definition nm_inv :: "nm_state \<Rightarrow> bool" where
  "nm_inv s \<longleftrightarrow> snack_ok s \<and> nm_tables s"

text \<open>The tables depend on the component fields only.\<close>

lemma nm_more:
  "async.more s = async.more s' \<Longrightarrow> nodes s = nodes s' \<and> setup_nodes s = setup_nodes s' \<and>
     iso_sensor_detected s = iso_sensor_detected s' \<and> kit_status s = kit_status s' \<and> kit_settings s = kit_settings s' \<and>
     next_ref s = next_ref s'"
  for s s' :: nm_state
  by (cases s; cases s') simp

lemma nm_inv_frame: "nm_inv s \<Longrightarrow> async.more s' = async.more s \<Longrightarrow> snack_ok s' \<Longrightarrow> nm_inv s'"
  using nm_more [of s' s] by (simp add: nm_inv_def nm_tables_def)

lemma nm_inv_more: "nm_inv s \<Longrightarrow> world.more s' = world.more s \<Longrightarrow> (snack_ok s \<Longrightarrow> snack_ok s') \<Longrightarrow> sent s' = sent s \<Longrightarrow> nm_inv s'"
  using nm_inv_frame [of s s'] world_more_async [of s' s] by (simp add: nm_inv_def)

lemmas nm_inv_answered = answered_inv [where P = nm_inv, OF _ _ nm_inv_more]

lemma new_objs_simps:
  "map obj_ref (new_objs n vs) = [n..<n + length vs]" "map obj_val (new_objs n vs) = vs"
  by (simp_all add: new_objs_def o_def case_prod_unfold enumerate_eq_zip)

lemma new_objs_ref: "ob \<in> set (new_objs n vs) \<Longrightarrow> obj_ref ob < n + length vs"
  using new_objs_simps(1) [of n vs] by (metis atLeastLessThan_iff in_set_conv_nth length_map nth_map nth_mem set_upt)

lemma nm_update_eq:
  "nm_update_nodes_data vs s =
     smap (\<lambda>rows. let obs = new_objs (next_ref s) rows in
       s\<lparr>next_ref := next_ref s + length rows,
         nodes := filter (\<lambda>ob. fld ob ''node_type'' \<noteq> CONTROL_PLANE \<and> fld ob ''node_type'' \<noteq> MIP) obs,
         setup_nodes := filter (\<lambda>ob. fld ob ''node_type'' = CONTROL_PLANE) obs,
         iso_sensor_detected := list_ex (\<lambda>ob. fld ob ''deployment_type'' = ISO) obs\<rparr>) (mapS nm_read_node vs)"
proof -
  have absorb: "(a \<and> b \<and> a) = (a \<and> b)" for a b by auto
  show ?thesis
    by (simp add: nm_update_nodes_data_def nm_set_nodes_def nm_set_setup_nodes_def
        nm_set_iso_sensor_detected_def Let_def absorb)
qed

lemma distinct_refs_split:
  assumes "distinct (map obj_ref obs)" "\<And>ob. \<not> (P ob \<and> Q ob)"
  shows "distinct (map obj_ref (filter P obs @ filter Q obs))"
  using assms by (auto simp: distinct_map inj_on_def)

lemma nm_update_inv:
  assumes "nm_inv s" "nm_update_nodes_data vs s = Inr s'"
  shows "nm_inv s'"
proof -
  obtain rows where rows: "mapS nm_read_node vs = Inr rows"
    using assms(2) by (auto simp: nm_update_nodes_data_def smap_Inr_iff)
  let ?obs = "new_objs (next_ref s) rows"
  have "distinct (map obj_ref ?obs)" by (simp add: new_objs_simps)
  then have "distinct (map obj_ref (nodes s' @ setup_nodes s'))"
    using assms(2) rows by (auto simp: nm_update_eq Let_def simp del: map_append intro!: distinct_refs_split)
  then show ?thesis
    using assms rows new_objs_ref [of _ "next_ref s" rows]
    by (auto simp: nm_inv_def nm_tables_def snack_ok_def nm_update_eq Let_def list_ex_iff simp del: map_append)
qed

lemma nm_settle_update: "nm_inv s \<Longrightarrow> nm_inv (settle s (nm_update_nodes_data vs s))"
  by (simp add: settle_def nm_update_inv split: sum.splits)

lemma nm_inv_basic [simp, intro]:
  assumes "nm_inv s"
  shows "nm_inv (call ep k s)" "nm_inv (open_dialog n v d s)" "nm_inv (displaySnackBar m c s)"
    "nm_inv (report_error msg s)" "nm_inv (report_error_or_message msg e s)"
    "nm_inv (generate_return_success_snackbar_message msg c s)"
    "nm_inv (emit (DialogOpen n v) s)" "nm_inv (emit (ClickLink a b) s)" "nm_inv (emit (SaveFile f) s)"
proof -
  have "snack_ok s" using assms by (simp add: nm_inv_def)
  then show "nm_inv (call ep k s)" "nm_inv (open_dialog n v d s)" "nm_inv (displaySnackBar m c s)"
    "nm_inv (report_error msg s)" "nm_inv (report_error_or_message msg e s)"
    "nm_inv (generate_return_success_snackbar_message msg c s)"
    "nm_inv (emit (DialogOpen n v) s)" "nm_inv (emit (ClickLink a b) s)" "nm_inv (emit (SaveFile f) s)"
    by (simp_all add: nm_inv_frame [OF assms] snack_ok_emit)
qed

lemma nm_inv_updates [simp]:
  "nm_inv (s\<lparr>kit_status := v\<rparr>) = nm_inv s" "nm_inv (s\<lparr>kit_settings := v\<rparr>) = nm_inv s"
  "nm_inv (s\<lparr>requests := ks\<rparr>) = nm_inv s" "nm_inv (s\<lparr>dialogs := ds\<rparr>) = nm_inv s"
  by (simp_all add: nm_inv_def nm_tables_def snack_ok_def)

lemma js_get_set_unrelated [simp]:
  "js_get (js_set v ''isRemoving'' w) ''node_type'' = js_get v ''node_type''"
  "js_get (js_set v ''isRemoving'' w) ''deployment_type'' = js_get v ''deployment_type''"
  "js_get (js_set v ''isRemoving'' w) ''hostname'' = js_get v ''hostname''"
  by (simp_all add: js_get_set_other)

text \<open>What the tables say of a row is a function of its identity, type and deployment.\<close>

definition nm_key :: "jsobj \<Rightarrow> nat \<times> js \<times> js" where
  "nm_key ob = (obj_ref ob, fld ob ''node_type'', fld ob ''deployment_type'')"

lemma nm_tables_key:
  "nm_tables s \<longleftrightarrow>
     (\<forall>k \<in> set (map nm_key (nodes s)). fst (snd k) \<noteq> MIP \<and> fst (snd k) \<noteq> CONTROL_PLANE) \<and>
     (\<forall>k \<in> set (map nm_key (setup_nodes s)). fst (snd k) = CONTROL_PLANE) \<and>
     distinct (map fst (map nm_key (nodes s) @ map nm_key (setup_nodes s))) \<and>
     (\<forall>k \<in> set (map nm_key (nodes s) @ map nm_key (setup_nodes s)). fst k < next_ref s) \<and>
     ((\<exists>k \<in> set (map nm_key (nodes s) @ map nm_key (setup_nodes s)). snd (snd k) = ISO) \<longrightarrow> iso_sensor_detected s)"
proof -
  have "map fst (map nm_key (nodes s) @ map nm_key (setup_nodes s)) = map obj_ref (nodes s @ setup_nodes s)"
    by (simp add: nm_key_def o_def)
  then show ?thesis
    by (simp only: nm_tables_def) (simp add: nm_key_def ball_Un bex_Un o_def)
qed

lemma nm_mark_key:
  "map nm_key (nodes (nm_mark_removing node s)) = map nm_key (nodes s)"
  "map nm_key (setup_nodes (nm_mark_removing node s)) = map nm_key (setup_nodes s)"
  by (simp_all add: nm_mark_removing_def Let_def nm_key_def)

lemma nm_mark_inv [simp]: "nm_inv s \<Longrightarrow> nm_inv (nm_mark_removing node s)"
proof -
  have "next_ref (nm_mark_removing node s) = next_ref s"
    "iso_sensor_detected (nm_mark_removing node s) = iso_sensor_detected s"
    "snack_ok (nm_mark_removing node s) = snack_ok s"
    by (simp_all add: nm_mark_removing_def Let_def snack_ok_def)
  then have "nm_inv (nm_mark_removing node s) = nm_inv s"
    by (simp only: nm_inv_def nm_tables_key nm_mark_key)
  then show "nm_inv s \<Longrightarrow> nm_inv (nm_mark_removing node s)"
    by simp
qed

lemmas nm_act_defs =
  nm_ngOnInit_def nm_api_get_kit_settings_def nm_api_get_kit_status_def nm_api_get_nodes_def
  nm_open_node_info_dialog_window_def nm_open_add_node_dialog_window_def nm_download_iso_def
  nm_download_open_vpn_certs_def nm_api_get_open_vpn_certs_def nm_refresh_device_facts_def
  nm_api_update_device_facts_def nm_delete_node_def nm_api_get_catalog_apps_def
  nm_setup_control_plane_def nm_api_setup_control_plane_def nm_refresh_kit_def nm_redeploy_kit_def
  nm_api_deploy_kit_def nm_api_refresh_kit_def nm_api_delete_node_def nm_open_job_server_std_out_console_def

lemma nm_deploy_inv: "nm_inv s \<Longrightarrow> nm_inv (nm_deploy_kit s)"
  by (cases "nm_flag ''base_kit_deployed'' s") (simp_all add: nm_deploy_kit_def settle_def nm_act_defs)

lemma nm_handle_inv: "nm_inv s \<Longrightarrow> nm_inv (nm_handle a s)"
  by (cases a) (auto simp: nm_act_defs on_row_def nm_node_state_change_def nm_kit_status_change_def
      nm_deploy_inv nm_settle_update split: option.splits)

lemma nm_apps_inv: "nm_inv s \<Longrightarrow> nm_inv (settle s (nm_open_delete_node_dialog_window node apps s))"
  by (cases "nm_delete_message node apps") (simp_all add: settle_def nm_open_delete_node_dialog_window_def)

lemmas nm_answer_defs =
  nm_api_get_nodes_answer_def nm_api_get_kit_status_answer_def nm_api_get_kit_settings_answer_def
  nm_api_update_device_facts_answer_def nm_api_get_open_vpn_certs_answer_def nm_api_deploy_kit_answer_def
  nm_api_refresh_kit_answer_def nm_api_setup_control_plane_answer_def nm_api_delete_node_answer_def
  nm_api_get_catalog_apps_answer_def

lemma nm_answer_inv: "nm_inv s \<Longrightarrow> nm_inv (nm_answer k r s)"
  by (cases k)
    (auto simp: nm_answer_defs nm_open_job_server_std_out_console_def Let_def nm_settle_update nm_apps_inv
      intro!: nm_inv_answered)

lemma nm_closed_inv: "nm_inv s \<Longrightarrow> nm_inv (nm_closed d v s)"
  by (cases d) (auto simp: nm_refresh_kit_closed_def nm_redeploy_kit_closed_def
      nm_open_delete_node_dialog_closed_def nm_act_defs)

interpretation nm: async_component nm_handle nm_answer nm_closed nm_inv
  by unfold_locales (simp_all add: nm_handle_inv nm_answer_inv nm_closed_inv)

lemma nm_constructor_inv: "nm_inv nm_constructor"
  by (simp add: nm_constructor_def nm_inv_def nm_tables_def snack_ok_def)

section \<open>Which requests the page sends\<close>

lemma nm_sent_updates [simp]:
  "sent (s\<lparr>kit_status := v\<rparr>) = sent s" "sent (s\<lparr>kit_settings := v\<rparr>) = sent s"
  "sent (nm_mark_removing node s) = sent s"
  by (simp_all add: sent_def nm_mark_removing_def Let_def)

lemma nm_sent_settle [simp]: "sent (settle s (nm_update_nodes_data vs s)) = sent s"
  by (simp add: settle_def nm_update_eq smap_def sent_def Let_def split: sum.splits)

lemma nm_sent_apps [simp]: "sent (settle s (nm_open_delete_node_dialog_window node apps s)) = sent s"
  by (simp add: settle_def nm_open_delete_node_dialog_window_def smap_def split: sum.splits)

lemma nm_sent_answer [simp]: "sent (nm_answer k r s) = sent s"
  by (cases k) (simp_all add: nm_answer_defs nm_open_job_server_std_out_console_def Let_def sent_answered)

text \<open>The requests that destroy something: deleting a node and rebuilding the kit.\<close>

fun destructive :: "effect \<Rightarrow> bool" where
  "destructive (Http DELETE _ _) = True"
| "destructive (Http POST url _) = (url = ''/api/kit/rebuild'')"
| "destructive _ = False"

definition confirmed_request :: "nm_act event \<Rightarrow> nm_state \<Rightarrow> effect list" where
  "confirmed_request ev s =
     (case ev of
        Closed i v \<Rightarrow>
          if i < length (dialogs s) \<and> v = JStr CONFIRM_DIALOG_OPTION
          then (case dialogs s ! i of
                  NM_ConfirmDelete node \<Rightarrow> [Http DELETE (''/api/kit/node/'' @ str (fld node ''hostname'')) JUndef]
                | NM_ConfirmRefresh \<Rightarrow> [Http POST ''/api/kit/rebuild'' JNull]
                | NM_ConfirmRedeploy \<Rightarrow> [])
          else []
      | _ \<Rightarrow> [])"

lemma nm_handle_not_destructive:
  "filter destructive (sent (nm_handle a s)) = filter destructive (sent s)"
proof (cases a)
  case NM_DeployClick
  then show ?thesis
    by (simp add: nm_deploy_kit_def settle_def smap_def nm_act_defs deploy_kit_def split: sum.splits)
qed (auto simp: nm_act_defs on_row_def nm_node_state_change_def nm_kit_status_change_def get_nodes_def
    get_kit_status_def get_kit_settings_def update_device_facts_def get_open_vpn_certs_def get_installed_apps_def
    setup_control_plane_def split: option.splits)

lemma nm_closed_destructive:
  "filter destructive (sent (nm_closed d v s)) = filter destructive (sent s) @
     (if v = JStr CONFIRM_DIALOG_OPTION then
        (case d of
           NM_ConfirmDelete node \<Rightarrow> [Http DELETE (''/api/kit/node/'' @ str (fld node ''hostname'')) JUndef]
         | NM_ConfirmRefresh \<Rightarrow> [Http POST ''/api/kit/rebuild'' JNull]
         | NM_ConfirmRedeploy \<Rightarrow> []) else [])"
  by (cases d) (simp_all add: nm_refresh_kit_closed_def nm_redeploy_kit_closed_def nm_act_defs
      nm_open_delete_node_dialog_closed_def delete_node_def refresh_kit_def deploy_kit_def)

section \<open>What the page makes of a node\<close>

lemma js_index_present: "notUndefNull v \<Longrightarrow> js_index v k = Inr (js_get v k)"
  by (cases v) (simp_all add: notUndefNull_def)

definition last_deploy :: "js list \<Rightarrow> js \<Rightarrow> js" where
  "last_deploy jobs old =
     (case rev (filter (\<lambda>j. js_get j ''name'' = JStr ''deploy'') jobs) of
        [] \<Rightarrow> old | j # _ \<Rightarrow> js_get j ''complete'')"

lemma last_deploy_Cons:
  "last_deploy (j # jobs) old =
     last_deploy jobs (if js_get j ''name'' = JStr ''deploy'' then js_get j ''complete'' else old)"
  by (cases "rev (filter (\<lambda>j. js_get j ''name'' = JStr ''deploy'') jobs)") (simp_all add: last_deploy_def)

lemma nm_apply_jobs_spec:
  "list_all notUndefNull jobs \<Longrightarrow>
   \<exists>node. nm_apply_jobs jobs (JObj kvs) = Inr node \<and>
     js_get node ''isDeployed'' = last_deploy jobs (js_get (JObj kvs) ''isDeployed'') \<and>
     js_get node ''isRemoving'' =
       (if list_ex (\<lambda>j. js_get j ''name'' = JStr ''remove'') jobs then JBool True else js_get (JObj kvs) ''isRemoving'') \<and>
     (\<forall>k. k \<noteq> ''isDeployed'' \<and> k \<noteq> ''isRemoving'' \<longrightarrow> js_get node k = js_get (JObj kvs) k)"
proof (induction jobs arbitrary: kvs)
  case Nil
  then show ?case by (simp add: last_deploy_def)
next
  case (Cons j jobs)
  let ?kvs1 = "if js_get j ''name'' = JStr ''deploy'' then AList.update ''isDeployed'' (js_get j ''complete'') kvs else kvs"
  let ?kvs2 = "if js_get j ''name'' = JStr ''remove'' then AList.update ''isRemoving'' (JBool True) ?kvs1 else ?kvs1"
  have "nm_apply_jobs (j # jobs) (JObj kvs) = nm_apply_jobs jobs (JObj ?kvs2)"
    using Cons.prems by (simp add: js_index_present Let_def)
  then show ?case
    using Cons.IH [of ?kvs2] Cons.prems
    by (auto simp: last_deploy_Cons update_conv' split: if_splits)
qed

section \<open>What the page guarantees\<close>

text \<open>C4: whatever the order of clicks, answers, closed dialogs and web socket messages, the node
  table holds no MIP and no control plane node, the setup table holds control plane nodes only, no
  row is shown twice, a node deployed from an ISO is never shown without the download button
  (\<open>iso_sensor_detected\<close>), and no snack bar is dismissed twice.\<close>

theorem nm_tables_always:
  "nm_tables (fold nm_step es nm_constructor) \<and> snack_ok (fold nm_step es nm_constructor)"
  using nm.machine.run_inv [OF nm_constructor_inv, of es] by (simp add: nm_step_def nm_inv_def)

text \<open>a node object with a list of jobs is read without an error, whatever the jobs are; the row
  counts as deployed as the last deploy job says, is marked as being removed exactly when there is
  a remove job or it was marked before, and keeps every other property.\<close>

theorem nm_read_node_jobs:
  assumes "js_get (JObj kvs) ''jobs'' = JArr jobs" "list_all notUndefNull jobs"
  shows "\<exists>node. nm_read_node (JObj kvs) = Inr node \<and>
     js_get node ''isDeployed'' = last_deploy jobs (js_get (JObj kvs) ''isDeployed'') \<and>
     js_get node ''isRemoving'' =
       (if list_ex (\<lambda>j. js_get j ''name'' = JStr ''remove'') jobs then JBool True else js_get (JObj kvs) ''isRemoving'') \<and>
     (\<forall>k. k \<noteq> ''isDeployed'' \<and> k \<noteq> ''isRemoving'' \<longrightarrow> js_get node k = js_get (JObj kvs) k)"
  using nm_apply_jobs_spec [OF assms(2), of kvs] assms(1)
  by (simp add: nm_read_node_def notUndefNull_def)

theorem nm_read_node_jobs_witness:
  "\<exists>node. nm_read_node (JObj [(''jobs'', JArr [JObj [(''name'', JStr ''deploy''), (''complete'', JBool True)]])]) = Inr node \<and>
     js_get node ''isDeployed'' = JBool True"
  using nm_read_node_jobs [of "[(''jobs'', JArr [JObj [(''name'', JStr ''deploy''), (''complete'', JBool True)]])]"
      "[JObj [(''name'', JStr ''deploy''), (''complete'', JBool True)]]"]
  by (auto simp: notUndefNull_def last_deploy_def)

text \<open>the refresh button is enabled as soon as the kit is deployed, also while jobs are running;
  the deploy and the control plane button are disabled while jobs run.\<close>

theorem nm_buttons:
  assumes "kit_status s = JObj kvs"
  shows "nm_disable_refresh_kit_button s = Inr (\<not> truthy (js_get (JObj kvs) ''base_kit_deployed'')) \<and>
    nm_disable_deploy_kit_button s =
      Inr (truthy (js_get (JObj kvs) ''jobs_running'') \<or> \<not> truthy (js_get (JObj kvs) ''ready_to_deploy'')) \<and>
    nm_disable_setup_control_plane_button s =
      Inr (truthy (js_get (JObj kvs) ''jobs_running'') \<or> truthy (js_get (JObj kvs) ''control_plane_deployed'') \<or>
           \<not> truthy (js_get (JObj kvs) ''esxi_settings_configured'') \<or>
           \<not> truthy (js_get (JObj kvs) ''kit_settings_configured''))"
  using assms by (auto simp: nm_disable_refresh_kit_button_def nm_disable_deploy_kit_button_def
      nm_disable_setup_control_plane_button_def nm_flag_def simp del: js_get.simps)

theorem nm_buttons_witness:
  "nm_disable_refresh_kit_button (nm_constructor\<lparr>kit_status :=
     JObj [(''base_kit_deployed'', JBool True), (''jobs_running'', JBool True)]\<rparr>) = Inr False"
  using nm_buttons [of "nm_constructor\<lparr>kit_status :=
     JObj [(''base_kit_deployed'', JBool True), (''jobs_running'', JBool True)]\<rparr>"] by simp

text \<open>the dialog that asks before a node is deleted lists the applications that will be
  uninstalled, but the names are lost: the answer is mapped to the names twice, so that for
  applications with names the list in the message is the separators alone.\<close>

theorem nm_delete_dialog_loses_names:
  assumes "names \<noteq> []"
  shows "\<exists>data. trace (nm_answer (NM_Apps node)
        (Reply (JArr (map (\<lambda>n. JObj [(''application'', JStr n), (''deployment_name'', JStr n)]) names))) s) =
      trace s @ [DialogOpen ''ConfirmDialogComponent'' data] \<and>
    js_get data ''message'' =
      JStr (''Are you sure you want delete '' @ str (fld node ''hostname'') @ ''?'' @ nl @ nl @
        ''       The following applications will be uninstalled: '' @ nl @ '' '' @
        js_join '', '' (replicate (length names) []))"
proof -
  have apps: "mapS new_AppClass (map (\<lambda>n. JObj [(''application'', JStr n), (''deployment_name'', JStr n)]) names) =
      Inr (map (\<lambda>n. JObj [(''application'', JStr n), (''deployment_name'', JStr n)]) names)"
    by (induction names) (simp_all add: new_AppClass_def construct_def copy_def notUndefNull_def)
  have "mapS (\<lambda>app. js_index app ''application'') (map JStr names) = Inr (replicate (length names) JUndef)"
  proof (induction names)
    case (Cons n ns)
    have "js_get (JStr n) ''application'' = JUndef"
      by (rule js_get_str_name [OF refl]) (code_simp, simp)
    then show ?case using Cons by (simp del: js_get.simps)
  qed simp
  then show ?thesis
    using assms apps
    by (simp add: nm_api_get_catalog_apps_answer_def answered_def subscribe_def get_installed_apps_def
        js_map_list_def nm_open_delete_node_dialog_window_def nm_delete_message_def settle_def o_def Let_def)
qed

theorem nm_delete_dialog_loses_names_witness:
  "\<exists>data. trace (nm_answer (NM_Apps \<lparr>obj_ref = 0, obj_val = JObj [(''hostname'', JStr ''h'')]\<rparr>)
        (Reply (JArr (map (\<lambda>n. JObj [(''application'', JStr n), (''deployment_name'', JStr n)]) [''arkime'', ''zeek'']))) nm_constructor) =
      trace nm_constructor @ [DialogOpen ''ConfirmDialogComponent'' data]"
  using nm_delete_dialog_loses_names [of "[''arkime'', ''zeek'']" "\<lparr>obj_ref = 0, obj_val = JObj [(''hostname'', JStr ''h'')]\<rparr>"
      nm_constructor] by blast

text \<open>C1: a request that deletes a node or rebuilds the kit is sent exactly when the user closes the
  dialog that asks for it with Confirm, and then for the node the dialog named; no other event, in
  any state, sends one.\<close>

theorem nm_destructive_confirmed:
  "filter destructive (sent (nm_step ev s)) = filter destructive (sent s) @ confirmed_request ev s"
proof (cases ev)
  case (Act a)
  then show ?thesis
    by (simp add: nm_step_def async_step_def confirmed_request_def nm_handle_not_destructive)
next
  case (Answer i r)
  then show ?thesis
    by (simp add: nm_step_def async_step_def confirmed_request_def)
next
  case (Closed i v)
  then show ?thesis
    by (simp add: nm_step_def async_step_def confirmed_request_def nm_closed_destructive)
qed

text \<open>when the answer to a delete request arrives, the row that is the captured node object is
  marked as being removed and no other row changes; when the table was refreshed meanwhile, the
  object is no row any more and nothing is marked.\<close>

theorem nm_delete_marks_the_row:
  assumes "nm_inv s" "new_GenericJobAndKeyClass v = Inr job"
  shows "nodes (nm_answer (NM_Delete node) (Reply v) s) =
      (case find_index (\<lambda>ob. obj_ref ob = obj_ref node) (nodes s) of
         None \<Rightarrow> nodes s
       | Some i \<Rightarrow> (nodes s)[i := (nodes s ! i)\<lparr>obj_val := js_set (obj_val (nodes s ! i)) ''isRemoving'' (JBool True)\<rparr>])"
proof -
  let ?m = "\<lambda>ob. if obj_ref ob = obj_ref node then ob\<lparr>obj_val := js_set (obj_val ob) ''isRemoving'' (JBool True)\<rparr> else ob"
  have "nodes (nm_answer (NM_Delete node) (Reply v) s) = map ?m (nodes s)"
    using assms(2) nm_more [of "generate_return_success_snackbar_message '' started delete node job'' None (nm_mark_removing node s)" "nm_mark_removing node s"]
    by (simp add: nm_api_delete_node_answer_def answered_def subscribe_def delete_node_def nm_mark_removing_def Let_def)
  moreover have d: "distinct (map obj_ref (nodes s))"
    using assms(1) by (simp add: nm_inv_def nm_tables_def)
  moreover have "map ?m xs = (case find_index (\<lambda>ob. obj_ref ob = obj_ref node) xs of None \<Rightarrow> xs
       | Some i \<Rightarrow> xs[i := (xs ! i)\<lparr>obj_val := js_set (obj_val (xs ! i)) ''isRemoving'' (JBool True)\<rparr>])"
    if "distinct (map obj_ref xs)" for xs
    using that
  proof (induction xs)
    case (Cons x xs)
    show ?case
    proof (cases "obj_ref x = obj_ref node")
      case True
      then have "\<forall>ob \<in> set xs. obj_ref ob \<noteq> obj_ref node" using Cons.prems by force
      then have "map ?m xs = xs" by (intro map_idI) auto
      with True show ?thesis by simp
    next
      case False
      then show ?thesis using Cons by (auto split: option.splits)
    qed
  qed simp
  ultimately show ?thesis by simp
qed

theorem nm_delete_marks_the_row_witness:
  "nodes (nm_answer (NM_Delete \<lparr>obj_ref = 3, obj_val = JObj []\<rparr>) (Reply (JObj []))
     (nm_constructor\<lparr>next_ref := 4, nodes := [\<lparr>obj_ref = 3, obj_val = JObj []\<rparr>]\<rparr>)) =
   [\<lparr>obj_ref = 3, obj_val = JObj [(''isRemoving'', JBool True)]\<rparr>]"
proof -
  let ?s = "nm_constructor\<lparr>next_ref := 4, nodes := [\<lparr>obj_ref = 3, obj_val = JObj []\<rparr>]\<rparr>"
  have "nm_inv ?s"
    by (simp add: nm_constructor_def nm_inv_def nm_tables_def snack_ok_def)
  moreover have "new_GenericJobAndKeyClass (JObj []) = Inr (JObj [(''job_id'', JUndef), (''redis_key'', JUndef)])"
    by (simp add: new_GenericJobAndKeyClass_def construct_def copy_def notUndefNull_def)
  ultimately show ?thesis
    using nm_delete_marks_the_row [of ?s "JObj []" _ "\<lparr>obj_ref = 3, obj_val = JObj []\<rparr>"]
    by simp
qed

end
