(* ===== verification/Sorting_Service.thy ===== *)
theory Sorting_Service
  imports Data_Classes "HOL-Library.Sorting_Algorithms"
begin

text \<open>
  \<open>services/sorting.service.ts\<close>: the comparison functions the pages hand to \<open>Array.sort\<close>.
  \<open>localeCompare\<close> depends on the locale of the browser; its order is the parameter
  \<open>lc :: string comparator\<close>, whose type carries what the language guarantees of it (a consistent
  total order with ties). \<open>Array.sort\<close> is stable. A property that is no string has no
  \<open>localeCompare\<close>, so a comparison called on it throws; with fewer than two elements nothing is
  compared. On which of two elements it is called is up to the engine, and the model takes the case
  that throws; every property about the order is stated for lists whose properties are strings.
\<close>

fun is_JStr :: "js \<Rightarrow> bool" where
  "is_JStr (JStr _) = True"
| "is_JStr _ = False"

fun the_str :: "js \<Rightarrow> string" where
  "the_str (JStr s) = s"
| "the_str _ = []"

text \<open>\<open>xs.sort((a, b) => a[k].localeCompare(b[k], ..))\<close>; the method is only found on strings.\<close>

definition sort_by_field :: "string comparator \<Rightarrow> string \<Rightarrow> js list \<Rightarrow> js_error + js list" where
  "sort_by_field lc k xs =
     (if length xs < 2 then Inr xs
      else if list_all (\<lambda>x. is_JStr (js_get x k)) xs
      then Inr (Sorting_Algorithms.sort (key (\<lambda>x. the_str (js_get x k)) lc) xs)
      else Inl TypeError)"

definition alphanum :: "string comparator \<Rightarrow> string list \<Rightarrow> string list" where
  "alphanum lc xs = Sorting_Algorithms.sort lc xs"

definition node_alphanum :: "string comparator \<Rightarrow> js list \<Rightarrow> js_error + js list" where
  "node_alphanum lc = sort_by_field lc ''hostname''"

definition rule_alphanum :: "string comparator \<Rightarrow> js list \<Rightarrow> js_error + js list" where
  "rule_alphanum lc = sort_by_field lc ''ruleName''"

definition rule_set_alphanum :: "string comparator \<Rightarrow> js list \<Rightarrow> js_error + js list" where
  "rule_set_alphanum lc = sort_by_field lc ''name''"

definition chart_application_alphanum :: "string comparator \<Rightarrow> js list \<Rightarrow> js_error + js list" where
  "chart_application_alphanum lc = sort_by_field lc ''application''"

lemma sort_by_field_mset: "sort_by_field lc k xs = Inr ys \<Longrightarrow> mset ys = mset xs"
  by (auto simp: sort_by_field_def split: if_splits)

lemma sort_by_field_length: "sort_by_field lc k xs = Inr ys \<Longrightarrow> length ys = length xs"
  by (auto dest!: sort_by_field_mset dest: mset_eq_length)

lemma sort_by_field_set: "sort_by_field lc k xs = Inr ys \<Longrightarrow> set ys = set xs"
  by (auto dest!: sort_by_field_mset dest: mset_eq_setD)

lemma sort_by_field_sorted:
  assumes "sort_by_field lc k xs = Inr ys"
  shows "Sorting_Algorithms.sorted (key (\<lambda>x. the_str (js_get x k)) lc) ys"
proof (cases "length xs < 2")
  case True
  with assms have "ys = xs" by (simp add: sort_by_field_def)
  moreover from True have "Sorting_Algorithms.sorted (key (\<lambda>x. the_str (js_get x k)) lc) xs"
    by (induction "key (\<lambda>x. the_str (js_get x k)) lc" xs rule: Sorting_Algorithms.sorted.induct) simp_all
  ultimately show ?thesis by simp
next
  case False
  with assms show ?thesis by (auto simp: sort_by_field_def split: if_splits)
qed

text \<open>Stability: elements that compare equal keep their order.\<close>

lemma sort_by_field_stable:
  assumes "sort_by_field lc k xs = Inr ys"
  shows "filter (\<lambda>y. compare lc (the_str (js_get x k)) (the_str (js_get y k)) = Equiv) ys =
     filter (\<lambda>y. compare lc (the_str (js_get x k)) (the_str (js_get y k)) = Equiv) xs"
  using assms stable_sort [of "key (\<lambda>x. the_str (js_get x k)) lc" x xs]
  by (auto simp: sort_by_field_def split: if_splits)

end
