(* ===== verification/Policy_Management.thy ===== *)
theory Policy_Management
  imports Backend Sorting_Service Validators
begin

text \<open>
  \<open>modules/policy-management/policy-management.component.ts\<close> with its service
  \<open>services/policy-management.service.ts\<close> and data classes: the page of the rule sets.

  The page depends on aliasing, so the state has a heap. A rule set is an object with an address
  in \<open>rule_set_heap\<close>; its property \<open>rules\<close> is the address of an array in \<open>rule_arrays\<close>, or
  \<open>null\<close>. The table source \<open>rules_data_source.data\<close> is the address of an array too: after
  \<open>get_rules\<close> it is the same array as the \<open>rules\<close> of the rule set, and after a deletion it is a
  copy. Paginators and sort headers are parts of the view and are not modelled.
\<close>

section \<open>Data classes and service\<close>

definition new_PolicyJobClass :: "js \<Rightarrow> js_error + js" where
  "new_PolicyJobClass = construct (map copy
     [''job_id'', ''redis_key'', ''created_at'', ''enqueued_at'', ''started_at'', ''ended_at'', ''origin'',
      ''description'', ''timeout'', ''status'', ''ttl'', ''result_ttl'', ''queued_position''])"

definition new_CatalogStatusClass :: "js \<Rightarrow> js_error + js" where
  "new_CatalogStatusClass = construct (map copy
     [''application'', ''appVersion'', ''status'', ''deployment_name'', ''hostname'', ''node_type''])"

definition check_catalog_status :: "string \<Rightarrow> js list endpoint" where
  "check_catalog_status application =
     endpoint GET (''/api/catalog/chart/'' @ application @ ''/status'') JUndef ''check catalog status''
       (js_map_list new_CatalogStatusClass)"

definition get_jobs :: "js list endpoint" where
  "get_jobs = endpoint GET ''/api/jobs'' JUndef ''get jobs'' (js_map_list new_PolicyJobClass)"

section \<open>State\<close>

record rule_set =
  rs_fields :: js
  rs_rules :: "nat option"

datatype pm_request =
    PM_Sync | PM_GetRuleSets
  | PM_GetRules nat "nat option"
  | PM_CreateRuleSet
  | PM_UpdateRuleSet js "nat option"
  | PM_UploadRuleFile
  | PM_ToggleRule js nat
  | PM_DeleteRule "nat option"
  | PM_DeleteRuleSet nat
  | PM_Suricata | PM_Zeek | PM_Jobs

datatype pm_dialog =
    PM_EditRule js
  | PM_ConfirmDeleteRule js nat
  | PM_ConfirmDeleteRuleSet nat
  | PM_EditRuleSet | PM_AddRule | PM_AddRuleSet | PM_UploadRules

record pm_state = "(pm_request, pm_dialog) async" +
  rule_set_heap :: "rule_set list"
  rule_arrays :: "js list list"
  rule_sets :: "nat list"
  rules_data :: nat
  rule_sets_filter :: string
  job_status :: bool
  rulesetchange :: bool
  pm_rules_visible :: "bool list"
  visible_at_minus_1 :: bool

definition pm_constructor :: pm_state where
  "pm_constructor =
     \<lparr>trace = [], matSnackBarRef = None, requests = [], dialogs = [],
      rule_set_heap = [], rule_arrays = [[]], rule_sets = [], rules_data = 0, rule_sets_filter = [],
      job_status = False, rulesetchange = False, pm_rules_visible = [], visible_at_minus_1 = False\<rparr>"

definition rs_at :: "pm_state \<Rightarrow> nat \<Rightarrow> rule_set" where
  "rs_at s r = rule_set_heap s ! r"

definition rs_id :: "pm_state \<Rightarrow> nat \<Rightarrow> js" where
  "rs_id s r = js_get (rs_fields (rs_at s r)) ''_id''"

text \<open>The object as a value, for a request body or the data of a dialog.\<close>

definition rs_js :: "pm_state \<Rightarrow> nat \<Rightarrow> js" where
  "rs_js s r =
     js_set (rs_fields (rs_at s r)) ''rules''
       (case rs_rules (rs_at s r) of None \<Rightarrow> JNull | Some a \<Rightarrow> JArr (rule_arrays s ! a))"

definition set_rs :: "nat \<Rightarrow> rule_set \<Rightarrow> pm_state \<Rightarrow> pm_state" where
  "set_rs r v s = s\<lparr>rule_set_heap := (rule_set_heap s)[r := v]\<rparr>"

definition rs_field_update :: "nat \<Rightarrow> string \<Rightarrow> js \<Rightarrow> pm_state \<Rightarrow> pm_state" where
  "rs_field_update r k v s = set_rs r ((rs_at s r)\<lparr>rs_fields := js_set (rs_fields (rs_at s r)) k v\<rparr>) s"

definition shown_rules :: "pm_state \<Rightarrow> js list" where
  "shown_rules s = rule_arrays s ! rules_data s"

definition set_shown_rules :: "js list \<Rightarrow> pm_state \<Rightarrow> pm_state" where
  "set_shown_rules xs s = s\<lparr>rule_arrays := (rule_arrays s)[rules_data s := xs]\<rparr>"

text \<open>A new array as \<open>rules_data_source.data\<close>.\<close>

definition new_shown_rules :: "js list \<Rightarrow> pm_state \<Rightarrow> pm_state" where
  "new_shown_rules xs s = s\<lparr>rule_arrays := rule_arrays s @ [xs], rules_data := length (rule_arrays s)\<rparr>"

text \<open>A decoded rule set becomes an object of the heap with an array for its rules.\<close>

definition alloc_rule_set :: "js \<Rightarrow> pm_state \<Rightarrow> pm_state \<times> nat" where
  "alloc_rule_set v s =
     (s\<lparr>rule_arrays := rule_arrays s @ [arr_elems (js_get v ''rules'')],
        rule_set_heap := rule_set_heap s @ [\<lparr>rs_fields = v, rs_rules = Some (length (rule_arrays s))\<rparr>]\<rparr>,
      length (rule_set_heap s))"

fun alloc_rule_sets :: "js list \<Rightarrow> pm_state \<Rightarrow> pm_state \<times> nat list" where
  "alloc_rule_sets [] s = (s, [])"
| "alloc_rule_sets (v # vs) s =
     (let (s1, r) = alloc_rule_set v s; (s2, rs) = alloc_rule_sets vs s1 in (s2, r # rs))"

definition pm_get_rule_set_index :: "js \<Rightarrow> pm_state \<Rightarrow> nat option" where
  "pm_get_rule_set_index i s = find_index (\<lambda>r. strict_eq (rs_id s r) i) (rule_sets s)"

definition rule_index_in :: "js list \<Rightarrow> js \<Rightarrow> nat option" where
  "rule_index_in xs rule = find_index (\<lambda>r. strict_eq (js_get r ''_id'') (js_get rule ''_id'')) xs"

definition pm_get_rule_index :: "js \<Rightarrow> pm_state \<Rightarrow> nat option" where
  "pm_get_rule_index rule s = rule_index_in (shown_rules s) rule"

definition pm_visible_reset :: "nat \<Rightarrow> pm_state \<Rightarrow> pm_state" where
  "pm_visible_reset n s = s\<lparr>pm_rules_visible := replicate n False, visible_at_minus_1 := False\<rparr>"

section \<open>The filter of the table\<close>

text \<open>The text of a value as \<open>nested_filter_check_\<close> appends it: a primitive as a string, an object
  or array as the texts of its properties that are neither \<open>undefined\<close> nor \<open>null\<close>.\<close>

fun pm_nested_text :: "js \<Rightarrow> string" where
  "pm_nested_text (JObj kvs) = concat (map (\<lambda>kv. if notUndefNull (snd kv) then pm_nested_text (snd kv) else []) kvs)"
| "pm_nested_text (JArr vs) = concat (map (\<lambda>v. if notUndefNull v then pm_nested_text v else []) vs)"
| "pm_nested_text JNull = []"
| "pm_nested_text v = js_to_string v"

definition pm_nested_filter_check :: "string \<Rightarrow> js \<Rightarrow> string \<Rightarrow> string" where
  "pm_nested_filter_check search obj k = search @ pm_nested_text (js_get obj k)"

definition pm_filter_predicate :: "js \<Rightarrow> string \<Rightarrow> bool" where
  "pm_filter_predicate data filt =
     (let data_str = toLowerCase (foldl (\<lambda>currentTerm k. pm_nested_filter_check currentTerm data k) [] (js_keys data));
          transformed_filter = toLowerCase (trim filt)
      in index_of transformed_filter data_str \<noteq> None)"

definition pm_apply_filter :: "string \<Rightarrow> pm_state \<Rightarrow> pm_state" where
  "pm_apply_filter filt s = s\<lparr>rule_sets_filter := toLowerCase (trim filt)\<rparr>"

section \<open>Requests\<close>

definition pm_api_sync_rule_sets :: "pm_state \<Rightarrow> pm_state" where
  "pm_api_sync_rule_sets = call sync_rule_sets PM_Sync"

definition pm_api_get_rule_sets :: "pm_state \<Rightarrow> pm_state" where
  "pm_api_get_rule_sets = call get_rule_sets PM_GetRuleSets"

definition pm_api_get_rules :: "nat \<Rightarrow> nat option \<Rightarrow> pm_state \<Rightarrow> pm_state" where
  "pm_api_get_rules r index s = call (get_rules (rs_id s r)) (PM_GetRules r index) s"

definition pm_api_create_rule_set :: "js \<Rightarrow> pm_state \<Rightarrow> pm_state" where
  "pm_api_create_rule_set rule_set = call (create_rule_set rule_set) PM_CreateRuleSet"

text \<open>The second argument is the object passed when a rule set is enabled (\<open>enabling_rule_set\<close> is true),
  and \<open>None\<close> when the value comes from the edit dialog.\<close>

definition pm_api_update_rule_set :: "js \<Rightarrow> nat option \<Rightarrow> pm_state \<Rightarrow> pm_state" where
  "pm_api_update_rule_set rule_set enabling =
     call (update_rule_set rule_set) (PM_UpdateRuleSet rule_set enabling)"

definition pm_api_upload_rule_file :: "js \<Rightarrow> pm_state \<Rightarrow> pm_state" where
  "pm_api_upload_rule_file form_data = call (upload_rule_file form_data) PM_UploadRuleFile"

definition pm_api_toggle_rule :: "js \<Rightarrow> nat \<Rightarrow> pm_state \<Rightarrow> pm_state" where
  "pm_api_toggle_rule rule r = call (toggle_rule (js_get rule ''_id'')) (PM_ToggleRule rule r)"

definition pm_api_delete_rule :: "js \<Rightarrow> nat option \<Rightarrow> pm_state \<Rightarrow> pm_state" where
  "pm_api_delete_rule rule index = call (delete_rule (js_get rule ''_id'')) (PM_DeleteRule index)"

definition pm_api_delete_rule_set :: "nat \<Rightarrow> pm_state \<Rightarrow> pm_state" where
  "pm_api_delete_rule_set r s = call (delete_rule_set (rs_id s r)) (PM_DeleteRuleSet r) s"

definition pm_api_check_catalog_status_suricata :: "pm_state \<Rightarrow> pm_state" where
  "pm_api_check_catalog_status_suricata = call (check_catalog_status ''suricata'') PM_Suricata"

definition pm_api_check_catalog_status_zeek :: "pm_state \<Rightarrow> pm_state" where
  "pm_api_check_catalog_status_zeek = call (check_catalog_status ''zeek'') PM_Zeek"

definition pm_api_get_jobs :: "pm_state \<Rightarrow> pm_state" where
  "pm_api_get_jobs = call get_jobs PM_Jobs"

section \<open>User actions\<close>

definition pm_check_rule_sync_status :: "pm_state \<Rightarrow> pm_state" where
  "pm_check_rule_sync_status s = pm_api_get_jobs (s\<lparr>job_status := True\<rparr>)"

definition pm_ngOnInit :: "pm_state \<Rightarrow> pm_state" where
  "pm_ngOnInit s =
     pm_api_check_catalog_status_suricata (pm_api_get_rule_sets
       (pm_check_rule_sync_status (emit (SetTitle ''Rule Sets'') s)))"

definition null_rules :: "rule_set \<Rightarrow> rule_set" where
  "null_rules rs = rs\<lparr>rs_rules := None\<rparr>"

definition pm_visible_at :: "nat option \<Rightarrow> pm_state \<Rightarrow> bool" where
  "pm_visible_at index s =
     (case index of
        None \<Rightarrow> visible_at_minus_1 s
      | Some i \<Rightarrow> if i < length (pm_rules_visible s) then pm_rules_visible s ! i else False)"

text \<open>The \<open>rules\<close> of every rule set of the table become \<open>null\<close>; when the row was closed it is the only
  one open; the rules are requested in either case.\<close>

definition pm_get_rules :: "nat \<Rightarrow> pm_state \<Rightarrow> pm_state" where
  "pm_get_rules r s =
     (let index = pm_get_rule_set_index (rs_id s r) s;
          visible = pm_visible_at index s;
          s1 = pm_visible_reset (length (rule_sets s)) s;
          s2 = fold (\<lambda>q t. set_rs q (null_rules (rs_at t q)) t) (rule_sets s1) s1;
          s3 = (if \<not> visible then
                  (case index of
                     None \<Rightarrow> s2\<lparr>visible_at_minus_1 := True\<rparr>
                   | Some i \<Rightarrow> s2\<lparr>pm_rules_visible := (pm_rules_visible s2)[i := True]\<rparr>)
                else s2)
      in pm_api_get_rules r index s3)"

definition pm_rules_visible_of :: "nat \<Rightarrow> pm_state \<Rightarrow> bool" where
  "pm_rules_visible_of r s = pm_visible_at (pm_get_rule_set_index (rs_id s r) s) s"

definition dialog_data :: "js \<Rightarrow> js \<Rightarrow> string \<Rightarrow> js" where
  "dialog_data rs rule action = JObj [(''rule_set'', rs), (''rule'', rule), (''action'', JStr action)]"

definition confirm_data :: "string \<Rightarrow> string \<Rightarrow> js" where
  "confirm_data title message =
     JObj [(''title'', JStr title), (''message'', JStr message), (''option1'', JStr ''Cancel''), (''option2'', JStr ''Confirm'')]"

definition pm_edit_rule :: "nat \<Rightarrow> js \<Rightarrow> pm_state \<Rightarrow> pm_state" where
  "pm_edit_rule r rule s = open_dialog ''RuleAddEditComponent'' (dialog_data (rs_js s r) rule ''edit'') (PM_EditRule rule) s"

definition pm_edit_rule_closed :: "js \<Rightarrow> js \<Rightarrow> pm_state \<Rightarrow> pm_state" where
  "pm_edit_rule_closed rule response s =
     (if notUndefNull response
      then pm_api_get_rule_sets (set_shown_rules (write_at (shown_rules s) (pm_get_rule_index rule s) response) s)
      else s)"

definition pm_enable_rule_set :: "nat \<Rightarrow> pm_state \<Rightarrow> pm_state" where
  "pm_enable_rule_set r s =
     (let s1 = rs_field_update r ''isEnabled'' (JBool (\<not> truthy (js_get (rs_fields (rs_at s r)) ''isEnabled''))) s
      in pm_api_update_rule_set (rs_js s1 r) (Some r) s1)"

definition pm_is_rule_enabled :: "js \<Rightarrow> js" where
  "pm_is_rule_enabled rule = js_get rule ''isEnabled''"

definition pm_enable_rule :: "js \<Rightarrow> nat \<Rightarrow> pm_state \<Rightarrow> pm_state" where
  "pm_enable_rule rule r = pm_api_toggle_rule rule r"

definition pm_delete_rule_confirm_dialog :: "js \<Rightarrow> nat \<Rightarrow> pm_state \<Rightarrow> pm_state" where
  "pm_delete_rule_confirm_dialog rule r =
     open_dialog ''ConfirmDialogComponent''
       (confirm_data ''Remove Rule''
          (''Are you sure you want to permanently remove rule: '' @ str (js_get rule ''ruleName'') @ ''?''))
       (PM_ConfirmDeleteRule rule r)"

text \<open>The index is looked up in the \<open>rules\<close> of the rule set, not in the array shown.\<close>

definition pm_delete_rule_closed :: "js \<Rightarrow> nat \<Rightarrow> js \<Rightarrow> pm_state \<Rightarrow> pm_state" where
  "pm_delete_rule_closed rule r response s =
     (if response = JStr ''Confirm'' then
        (case rs_rules (rs_at s r) of
           None \<Rightarrow> s
         | Some a \<Rightarrow> pm_api_delete_rule rule (rule_index_in (rule_arrays s ! a) rule) s)
      else s)"

definition pm_delete_rule_set_confirm_dialog :: "nat \<Rightarrow> pm_state \<Rightarrow> pm_state" where
  "pm_delete_rule_set_confirm_dialog r s =
     open_dialog ''ConfirmDialogComponent''
       (confirm_data ''Remove Rule Set''
          (''Are you sure you want to permanently remove rule set: '' @ str (js_get (rs_fields (rs_at s r)) ''name'') @ ''?''))
       (PM_ConfirmDeleteRuleSet r) s"

definition pm_delete_rule_set_closed :: "nat \<Rightarrow> js \<Rightarrow> pm_state \<Rightarrow> pm_state" where
  "pm_delete_rule_set_closed r response s =
     (if response = JStr ''Confirm'' then pm_api_delete_rule_set r s else s)"

definition pm_edit_rule_set :: "nat \<Rightarrow> pm_state \<Rightarrow> pm_state" where
  "pm_edit_rule_set r s =
     open_dialog ''RuleSetAddEditComponent'' (dialog_data (rs_js s r) JUndef ''edit'') PM_EditRuleSet s"

definition pm_edit_rule_set_closed :: "js \<Rightarrow> pm_state \<Rightarrow> pm_state" where
  "pm_edit_rule_set_closed response s =
     (if notUndefNull response \<and> truthy (js_get response ''valid'')
      then pm_api_update_rule_set (js_get response ''value'') None s else s)"

definition pm_add_rule :: "nat \<Rightarrow> pm_state \<Rightarrow> pm_state" where
  "pm_add_rule r s = open_dialog ''RuleAddEditComponent'' (dialog_data (rs_js s r) JUndef ''add'') PM_AddRule s"

text \<open>\<open>push\<close> and \<open>sort\<close> change the shown array in place.\<close>

definition pm_add_rule_closed :: "string comparator \<Rightarrow> js \<Rightarrow> pm_state \<Rightarrow> pm_state" where
  "pm_add_rule_closed lc response s =
     (if notUndefNull response then
        let s1 = set_shown_rules (shown_rules s @ [response]) s in
        (case rule_alphanum lc (shown_rules s1) of Inl _ \<Rightarrow> s1 | Inr rules \<Rightarrow> set_shown_rules rules s1)
      else s)"

definition pm_does_rule_set_contain_rules :: "pm_state \<Rightarrow> bool" where
  "pm_does_rule_set_contain_rules s \<longleftrightarrow> length (shown_rules s) > 0"

definition pm_is_array :: "js \<Rightarrow> bool" where
  "pm_is_array v = (case v of JArr _ \<Rightarrow> True | _ \<Rightarrow> False)"

definition pm_rule_sync :: "pm_state \<Rightarrow> pm_state" where
  "pm_rule_sync s = pm_api_sync_rule_sets (s\<lparr>job_status := True, rulesetchange := True\<rparr>)"

definition pm_add_rule_set :: "pm_state \<Rightarrow> pm_state" where
  "pm_add_rule_set = open_dialog ''RuleSetAddEditComponent'' (dialog_data JUndef JUndef ''add'') PM_AddRuleSet"

definition pm_add_rule_set_closed :: "js \<Rightarrow> pm_state \<Rightarrow> pm_state" where
  "pm_add_rule_set_closed response s =
     (if notUndefNull response \<and> truthy (js_get response ''valid'')
      then pm_api_create_rule_set (js_get response ''value'') s else s)"

definition pm_upload_rules_file :: "nat \<Rightarrow> pm_state \<Rightarrow> pm_state" where
  "pm_upload_rules_file r s =
     open_dialog ''RulesUploadComponent'' (dialog_data (rs_js s r) JUndef ''add'') PM_UploadRules s"

definition pm_upload_rules_file_closed :: "js \<Rightarrow> pm_state \<Rightarrow> pm_state" where
  "pm_upload_rules_file_closed response s =
     (if notUndefNull response \<and> notUndefNull (js_get response ''form_group'') \<and>
         truthy (js_get (js_get response ''form_group'') ''valid'') then
        let s1 = displaySnackBar (JStr ''Uploading rules file. Please wait for a confirmation message.'')
                   (Some MAT_SNACKBAR_CONFIGURATION_60000_DUR) s
        in (case js_index (js_get response ''file_to_upload'') ''name'' of
              Inl _ \<Rightarrow> s1
            | Inr name \<Rightarrow>
                pm_api_upload_rule_file
                  (JObj [(''upload_file'', JArr [js_get response ''file_to_upload'', name]),
                         (''ruleSetForm'', (case JSON_stringify (js_get (js_get response ''form_group'') ''value'') of
                            None \<Rightarrow> JUndef | Some t \<Rightarrow> JStr t))]) s1)
      else s)"

text \<open>The handler of the \<open>broadcast\<close> message of the web socket.\<close>

definition pm_socket_refresh_broadcast :: "js \<Rightarrow> pm_state \<Rightarrow> pm_state" where
  "pm_socket_refresh_broadcast notification s =
     (if js_get notification ''role'' = JStr ''rulesync'' then
        let status = js_get notification ''status'';
            s1 = (if status = JStr ''STARTED'' then s\<lparr>job_status := True\<rparr> else s);
            s2 = (if status = JStr ''COMPLETED'' then s1\<lparr>job_status := False\<rparr> else s1)
        in (if status = JStr ''ERROR'' then
              (report_error ''performing rule sync. Try operation again, and if problem persists notify servicenow.'' s2)
                \<lparr>job_status := False, rulesetchange := False\<rparr>
            else s2)
      else s)"

definition pm_socket_refresh_rule_set_change :: "pm_state \<Rightarrow> pm_state" where
  "pm_socket_refresh_rule_set_change = pm_api_get_rule_sets"

section \<open>Answers\<close>

definition pm_success :: "string \<Rightarrow> pm_state \<Rightarrow> pm_state" where
  "pm_success m = generate_return_success_snackbar_message m (Some MAT_SNACKBAR_CONFIGURATION_60000_DUR)"

definition pm_api_sync_rule_sets_answer :: "reply \<Rightarrow> pm_state \<Rightarrow> pm_state" where
  "pm_api_sync_rule_sets_answer =
     answered sync_rule_sets
       (\<lambda>_. displaySnackBar (JStr ''Started Rule Sync. Open the notification dialog on the left to see its progress.'')
              (Some MAT_SNACKBAR_CONFIGURATION_60000_DUR))
       (\<lambda>_. report_error ''syncing rule sets. Check logs in /var/log/tfplenum/ for more details.'')"

definition pm_load_rule_sets :: "string comparator \<Rightarrow> js list \<Rightarrow> pm_state \<Rightarrow> pm_state" where
  "pm_load_rule_sets lc response s =
     (let s1 = pm_visible_reset (length response) s in
      case rule_set_alphanum lc response of
        Inl _ \<Rightarrow> s1
      | Inr sorted_sets \<Rightarrow>
          let (s2, refs) = alloc_rule_sets sorted_sets s1
          in s2\<lparr>rule_sets := refs, rulesetchange := False\<rparr>)"

definition pm_api_get_rule_sets_answer :: "string comparator \<Rightarrow> reply \<Rightarrow> pm_state \<Rightarrow> pm_state" where
  "pm_api_get_rule_sets_answer lc =
     answered get_rule_sets (pm_load_rule_sets lc) (\<lambda>_. report_error ''getting rule sets'')"

text \<open>\<open>rule_set.rules = response\<close> and \<open>rules_data_source.data = response.sort(..)\<close> are one array.\<close>

definition pm_load_rules :: "string comparator \<Rightarrow> nat \<Rightarrow> js list \<Rightarrow> pm_state \<Rightarrow> pm_state" where
  "pm_load_rules lc r response s =
     (let a = length (rule_arrays s);
          s1 = s\<lparr>rule_arrays := rule_arrays s @ [response]\<rparr>;
          s2 = set_rs r ((rs_at s1 r)\<lparr>rs_rules := Some a\<rparr>) s1
      in (case rule_alphanum lc response of
            Inl _ \<Rightarrow> s2
          | Inr sorted_rules \<Rightarrow> s2\<lparr>rule_arrays := (rule_arrays s2)[a := sorted_rules], rules_data := a\<rparr>))"

definition pm_api_get_rules_answer :: "string comparator \<Rightarrow> nat \<Rightarrow> reply \<Rightarrow> pm_state \<Rightarrow> pm_state" where
  "pm_api_get_rules_answer lc r rep s =
     answered (get_rules (rs_id s r)) (pm_load_rules lc r) (\<lambda>_. report_error ''getting rule set rules'') rep s"

definition pm_api_create_rule_set_answer :: "reply \<Rightarrow> pm_state \<Rightarrow> pm_state" where
  "pm_api_create_rule_set_answer =
     answered (create_rule_set JUndef)
       (\<lambda>response s.
          let (s1, r) = alloc_rule_set response s in
          pm_success ''added rule set file'' (pm_api_get_rule_sets (s1\<lparr>rule_sets := rule_sets s1 @ [r]\<rparr>)))
       (report_error_or_message ''adding rule set file'')"

definition enabled_disabled :: "js \<Rightarrow> string" where
  "enabled_disabled rs = (if truthy (js_get rs ''isEnabled'') then ''enabled'' else ''disabled'')"

definition enabling_disabling :: "js \<Rightarrow> string" where
  "enabling_disabling rs = (if truthy (js_get rs ''isEnabled'') then ''enabling'' else ''disabling'')"

text \<open>The decoder of \<open>update_rule_set\<close> builds a \<open>RuleSetClass\<close>, so the test \<open>instanceof\<close> holds; the same
  is true of the other answers tested with \<open>instanceof\<close> below.\<close>

definition pm_api_update_rule_set_answer :: "js \<Rightarrow> nat option \<Rightarrow> reply \<Rightarrow> pm_state \<Rightarrow> pm_state" where
  "pm_api_update_rule_set_answer value enabling rep s =
     (let enabling_rule_set = (enabling \<noteq> None);
          rule_set = (\<lambda>t. case enabling of None \<Rightarrow> value | Some r \<Rightarrow> rs_js t r)
      in answered (update_rule_set value)
       (\<lambda>response s.
          let s1 = (if enabling_rule_set then
                      let (t, r) = alloc_rule_set response s
                      in t\<lparr>rule_sets := write_at (rule_sets t) (pm_get_rule_set_index (js_get (rule_set s) ''_id'') s) r\<rparr>
                    else pm_api_get_rule_sets s)
          in pm_success ((if enabling_rule_set then enabled_disabled value else ''updated'') @ '' rule set'') s1)
       (\<lambda>e t. report_error_or_message
          ((if enabling_rule_set then enabling_disabling value else ''updating'') @ '' rule set'') e t)
       rep s)"

definition pm_api_upload_rule_file_answer :: "reply \<Rightarrow> pm_state \<Rightarrow> pm_state" where
  "pm_api_upload_rule_file_answer =
     answered (upload_rule_file JUndef)
       (\<lambda>response s.
          let rules = shown_rules s @ (case response of JArr vs \<Rightarrow> vs | v \<Rightarrow> [v])
          in displaySnackBar (JStr ''uploaded ruleset file'') (Some MAT_SNACKBAR_CONFIGURATION_60000_DUR)
               (new_shown_rules rules s))
       (report_error_or_message ''uploading rule set file'')"

definition pm_api_toggle_rule_answer :: "js \<Rightarrow> nat \<Rightarrow> reply \<Rightarrow> pm_state \<Rightarrow> pm_state" where
  "pm_api_toggle_rule_answer rule r =
     answered (toggle_rule (js_get rule ''_id''))
       (\<lambda>response s.
          let s1 = set_shown_rules (write_at (shown_rules s) (pm_get_rule_index rule s) response) s;
              s2 = rs_field_update r ''state'' (JStr ''Dirty'') s1;
              s3 = s2\<lparr>rule_sets := write_at (rule_sets s2) (pm_get_rule_set_index (rs_id s2 r) s2) r\<rparr>
          in pm_success ((if \<not> truthy (js_get rule ''isEnabled'') then ''enabled'' else ''disabled'') @ '' rule'') s3)
       (report_error_or_message
          ((if \<not> truthy (js_get rule ''isEnabled'') then ''enabling'' else ''disabling'') @ '' rule''))"

definition pm_api_delete_rule_answer :: "nat option \<Rightarrow> reply \<Rightarrow> pm_state \<Rightarrow> pm_state" where
  "pm_api_delete_rule_answer index =
     answered (delete_rule JUndef)
       (\<lambda>response s.
          displaySnackBar (js_get response ''success_message'') (Some MAT_SNACKBAR_CONFIGURATION_60000_DUR)
            (new_shown_rules (splice1 (shown_rules s) index) s))
       (report_error_or_message ''deleting rule'')"

definition pm_api_delete_rule_set_answer :: "nat \<Rightarrow> reply \<Rightarrow> pm_state \<Rightarrow> pm_state" where
  "pm_api_delete_rule_set_answer r rep s =
     answered (delete_rule_set (rs_id s r))
       (\<lambda>response s.
          displaySnackBar (js_get response ''success_message'') (Some MAT_SNACKBAR_CONFIGURATION_60000_DUR)
            (s\<lparr>rule_sets := filter (\<lambda>q. \<not> strict_eq (rs_id s q) (rs_id s r)) (rule_sets s)\<rparr>))
       (report_error_or_message ''deleting rule set'') rep s"

definition pm_api_check_catalog_status_suricata_answer :: "reply \<Rightarrow> pm_state \<Rightarrow> pm_state" where
  "pm_api_check_catalog_status_suricata_answer =
     answered (check_catalog_status ''suricata'')
       (\<lambda>response s. if length response = 0 then pm_api_check_catalog_status_zeek s else s)
       (\<lambda>_. report_error ''getting catalog status for suricata'')"

definition NO_SENSOR_MESSAGE :: string where
  "NO_SENSOR_MESSAGE =
     ''Before using this page, you need to have at least one sensor that has either                                      Zeek or Suricata installed. Go to the catalog page and install one or both of those applications.''"

definition pm_api_check_catalog_status_zeek_answer :: "reply \<Rightarrow> pm_state \<Rightarrow> pm_state" where
  "pm_api_check_catalog_status_zeek_answer =
     answered (check_catalog_status ''zeek'')
       (\<lambda>response s. if length response = 0
          then displaySnackBar (JStr NO_SENSOR_MESSAGE) (Some MAT_SNACKBAR_CONFIGURATION_60000_DUR) s else s)
       (\<lambda>_. report_error ''getting catalog status for zeek'')"

text \<open>The maps after \<open>get_jobs\<close>: the first job whose description mentions \<open>perform_rulesync\<close> decides. A
  description that is no string has no \<open>includes\<close> (an array has, and compares elements).\<close>

definition pm_job_status_of :: "js list \<Rightarrow> js_error + bool" where
  "pm_job_status_of jobs =
     smap (\<lambda>flags.
        let syncs = map fst (filter snd (zip jobs flags));
            status = (case syncs of [] \<Rightarrow> JUndef | j # _ \<Rightarrow> js_get j ''status'')
        in \<not> (status = JUndef \<or> status = JStr ''finished''))
     (mapS (\<lambda>job. case js_get job ''description'' of
              JStr d \<Rightarrow> Inr (str_includes d ''perform_rulesync'')
            | JArr vs \<Rightarrow> Inr (JStr ''perform_rulesync'' \<in> set vs)
            | _ \<Rightarrow> Inl TypeError) jobs)"

text \<open>These maps are outside the \<open>catchError\<close> of the service: what they throw reaches the error
  callback directly.\<close>

definition pm_api_get_jobs_answer :: "reply \<Rightarrow> pm_state \<Rightarrow> pm_state" where
  "pm_api_get_jobs_answer =
     answered get_jobs
       (\<lambda>jobs s. case pm_job_status_of jobs of
                   Inl _ \<Rightarrow> report_error ''getting jobs'' s
                 | Inr b \<Rightarrow> s\<lparr>job_status := b\<rparr>)
       (\<lambda>_. report_error ''getting jobs'')"

section \<open>The component as a machine\<close>

text \<open>A row action names the position of the rule set in the table and of the rule among the rules
  shown.\<close>

datatype pm_action =
    PM_OnInit
  | PM_ApplyFilter string
  | PM_GetRulesClick nat | PM_EnableRuleSetClick nat | PM_DeleteRuleSetClick nat | PM_EditRuleSetClick nat
  | PM_AddRuleClick nat | PM_UploadClick nat
  | PM_EditRuleClick nat nat | PM_EnableRuleClick nat nat | PM_DeleteRuleClick nat nat
  | PM_SyncClick | PM_AddRuleSetClick
  | PM_Broadcast js | PM_RuleSetChange

definition on_rule_set :: "nat \<Rightarrow> (nat \<Rightarrow> pm_state \<Rightarrow> pm_state) \<Rightarrow> pm_state \<Rightarrow> pm_state" where
  "on_rule_set i f s = (if i < length (rule_sets s) then f (rule_sets s ! i) s else s)"

definition on_rule :: "nat \<Rightarrow> nat \<Rightarrow> (js \<Rightarrow> nat \<Rightarrow> pm_state \<Rightarrow> pm_state) \<Rightarrow> pm_state \<Rightarrow> pm_state" where
  "on_rule i j f s =
     (if i < length (rule_sets s) \<and> j < length (shown_rules s)
      then f (shown_rules s ! j) (rule_sets s ! i) s else s)"

fun pm_handle :: "pm_action \<Rightarrow> pm_state \<Rightarrow> pm_state" where
  "pm_handle PM_OnInit = pm_ngOnInit"
| "pm_handle (PM_ApplyFilter f) = pm_apply_filter f"
| "pm_handle (PM_GetRulesClick i) = on_rule_set i pm_get_rules"
| "pm_handle (PM_EnableRuleSetClick i) = on_rule_set i pm_enable_rule_set"
| "pm_handle (PM_DeleteRuleSetClick i) = on_rule_set i pm_delete_rule_set_confirm_dialog"
| "pm_handle (PM_EditRuleSetClick i) = on_rule_set i pm_edit_rule_set"
| "pm_handle (PM_AddRuleClick i) = on_rule_set i pm_add_rule"
| "pm_handle (PM_UploadClick i) = on_rule_set i pm_upload_rules_file"
| "pm_handle (PM_EditRuleClick i j) = on_rule i j (\<lambda>rule r. pm_edit_rule r rule)"
| "pm_handle (PM_EnableRuleClick i j) = on_rule i j pm_enable_rule"
| "pm_handle (PM_DeleteRuleClick i j) = on_rule i j pm_delete_rule_confirm_dialog"
| "pm_handle PM_SyncClick = pm_rule_sync"
| "pm_handle PM_AddRuleSetClick = pm_add_rule_set"
| "pm_handle (PM_Broadcast v) = pm_socket_refresh_broadcast v"
| "pm_handle PM_RuleSetChange = pm_socket_refresh_rule_set_change"

fun pm_answer :: "string comparator \<Rightarrow> pm_request \<Rightarrow> reply \<Rightarrow> pm_state \<Rightarrow> pm_state" where
  "pm_answer lc PM_Sync = pm_api_sync_rule_sets_answer"
| "pm_answer lc PM_GetRuleSets = pm_api_get_rule_sets_answer lc"
| "pm_answer lc (PM_GetRules r index) = pm_api_get_rules_answer lc r"
| "pm_answer lc PM_CreateRuleSet = pm_api_create_rule_set_answer"
| "pm_answer lc (PM_UpdateRuleSet rs b) = pm_api_update_rule_set_answer rs b"
| "pm_answer lc PM_UploadRuleFile = pm_api_upload_rule_file_answer"
| "pm_answer lc (PM_ToggleRule rule r) = pm_api_toggle_rule_answer rule r"
| "pm_answer lc (PM_DeleteRule index) = pm_api_delete_rule_answer index"
| "pm_answer lc (PM_DeleteRuleSet r) = pm_api_delete_rule_set_answer r"
| "pm_answer lc PM_Suricata = pm_api_check_catalog_status_suricata_answer"
| "pm_answer lc PM_Zeek = pm_api_check_catalog_status_zeek_answer"
| "pm_answer lc PM_Jobs = pm_api_get_jobs_answer"

fun pm_closed :: "string comparator \<Rightarrow> pm_dialog \<Rightarrow> js \<Rightarrow> pm_state \<Rightarrow> pm_state" where
  "pm_closed lc (PM_EditRule rule) = pm_edit_rule_closed rule"
| "pm_closed lc (PM_ConfirmDeleteRule rule r) = pm_delete_rule_closed rule r"
| "pm_closed lc (PM_ConfirmDeleteRuleSet r) = pm_delete_rule_set_closed r"
| "pm_closed lc PM_EditRuleSet = pm_edit_rule_set_closed"
| "pm_closed lc PM_AddRule = pm_add_rule_closed lc"
| "pm_closed lc PM_AddRuleSet = pm_add_rule_set_closed"
| "pm_closed lc PM_UploadRules = pm_upload_rules_file_closed"

definition pm_step :: "string comparator \<Rightarrow> pm_action event \<Rightarrow> pm_state \<Rightarrow> pm_state" where
  "pm_step lc = async_step pm_handle (pm_answer lc) (pm_closed lc)"

section \<open>Invariant\<close>

text \<open>The heap is well formed, the objects that waiting callbacks captured are in it, and at most one
  rule set is expanded.\<close>

fun pm_ref_ok :: "nat \<Rightarrow> pm_request \<Rightarrow> bool" where
  "pm_ref_ok n (PM_ToggleRule rule r) = (r < n)"
| "pm_ref_ok n _ = True"

lemma pm_ref_ok_Suc: "pm_ref_ok n k \<Longrightarrow> pm_ref_ok (Suc n) k"
  by (cases k) simp_all

definition pm_heap_ok :: "pm_state \<Rightarrow> bool" where
  "pm_heap_ok s \<longleftrightarrow>
     (\<forall>r \<in> set (rule_sets s). r < length (rule_set_heap s)) \<and>
     rules_data s < length (rule_arrays s) \<and>
     (\<forall>rs \<in> set (rule_set_heap s). \<forall>a. rs_rules rs = Some a \<longrightarrow> a < length (rule_arrays s)) \<and>
     (\<forall>k \<in> set (requests s). pm_ref_ok (length (rule_set_heap s)) k)"

definition expanded :: "pm_state \<Rightarrow> nat" where
  "expanded s = length (filter id (pm_rules_visible s)) + (if visible_at_minus_1 s then 1 else 0)"

definition pm_inv :: "pm_state \<Rightarrow> bool" where
  "pm_inv s \<longleftrightarrow> snack_ok s \<and> pm_heap_ok s \<and> expanded s \<le> 1"

definition pm_core :: "pm_state \<Rightarrow> bool" where
  "pm_core s \<longleftrightarrow> pm_heap_ok s \<and> expanded s \<le> 1"

lemma pm_inv_core: "pm_inv s \<longleftrightarrow> snack_ok s \<and> pm_core s"
  by (auto simp: pm_inv_def pm_core_def)

lemma pm_core_more: "async.more s' = async.more s \<Longrightarrow> requests s' = requests s \<Longrightarrow> pm_core s' = pm_core s"
  by (cases s; cases s') (simp add: pm_core_def pm_heap_ok_def expanded_def)

lemma pm_inv_more: "pm_inv s \<Longrightarrow> world.more s' = world.more s \<Longrightarrow> (snack_ok s \<Longrightarrow> snack_ok s') \<Longrightarrow> sent s' = sent s \<Longrightarrow> pm_inv s'"
  using pm_core_more [of s' s] world_more_async [of s' s] world_more_requests [of s' s] by (simp add: pm_inv_core)

lemmas pm_inv_answered = answered_inv [where P = pm_inv, OF _ _ pm_inv_more]

lemma pm_inv_basic [simp, intro]:
  assumes "pm_inv s"
  shows "pm_inv (open_dialog n v d s)" "pm_inv (displaySnackBar m c s)"
    "pm_inv (report_error msg s)" "pm_inv (report_error_or_message msg e s)"
    "pm_inv (generate_return_success_snackbar_message msg c s)" "pm_inv (emit (SetTitle msg) s)"
proof -
  have ok: "snack_ok s" "pm_core s" using assms by (simp_all add: pm_inv_core)
  show "pm_inv (open_dialog n v d s)" "pm_inv (displaySnackBar m c s)"
    "pm_inv (report_error msg s)" "pm_inv (report_error_or_message msg e s)"
    "pm_inv (generate_return_success_snackbar_message msg c s)" "pm_inv (emit (SetTitle msg) s)"
    by (simp_all add: pm_inv_core ok snack_ok_emit pm_core_more [of _ s])
qed

lemma pm_inv_call [simp, intro]:
  assumes "pm_inv s" "pm_ref_ok (length (rule_set_heap s)) k"
  shows "pm_inv (call ep k s)"
proof -
  have "rule_set_heap (call ep k s) = rule_set_heap s" "rule_sets (call ep k s) = rule_sets s"
    "rule_arrays (call ep k s) = rule_arrays s" "rules_data (call ep k s) = rules_data s"
    "pm_rules_visible (call ep k s) = pm_rules_visible s" "visible_at_minus_1 (call ep k s) = visible_at_minus_1 s"
    by (simp_all add: call_def request_def http_def emit_def)
  with assms show ?thesis
    by (auto simp: pm_inv_def pm_heap_ok_def expanded_def)
qed

lemma pm_inv_requests: "pm_inv s \<Longrightarrow> set ks \<subseteq> set (requests s) \<Longrightarrow> pm_inv (s\<lparr>requests := ks\<rparr>)"
  by (auto simp: pm_inv_def pm_heap_ok_def expanded_def snack_ok_def)

lemma pm_inv_updates [simp]:
  "pm_inv (s\<lparr>job_status := b\<rparr>) = pm_inv s" "pm_inv (s\<lparr>rulesetchange := b\<rparr>) = pm_inv s"
  "pm_inv (s\<lparr>rule_sets_filter := f\<rparr>) = pm_inv s"
  "pm_inv (s\<lparr>dialogs := ds\<rparr>) = pm_inv s"
  by (simp_all add: pm_inv_def pm_heap_ok_def expanded_def snack_ok_def)

lemma pm_inv_visible_reset [simp, intro]: "pm_inv s \<Longrightarrow> pm_inv (pm_visible_reset n s)"
  by (simp add: pm_inv_def pm_heap_ok_def expanded_def snack_ok_def pm_visible_reset_def filter_replicate)

lemma pm_inv_set_rs [simp, intro]:
  assumes "pm_inv s" "\<forall>a. rs_rules v = Some a \<longrightarrow> a < length (rule_arrays s)"
  shows "pm_inv (set_rs r v s)"
  using assms set_update_subset_insert [of "rule_set_heap s" r v]
  by (auto simp: pm_inv_def pm_heap_ok_def expanded_def snack_ok_def set_rs_def)

lemma rs_at_rules: "pm_inv s \<Longrightarrow> r < length (rule_set_heap s) \<Longrightarrow> rs_rules (rs_at s r) = Some a \<Longrightarrow> a < length (rule_arrays s)"
  by (auto simp: pm_inv_def pm_heap_ok_def rs_at_def)

lemma set_rs_out: "\<not> r < length (rule_set_heap s) \<Longrightarrow> set_rs r v s = s"
  by (cases s) (simp add: set_rs_def list_update_beyond)

lemma pm_inv_field_update [simp, intro]: "pm_inv s \<Longrightarrow> pm_inv (rs_field_update r k v s)"
  by (cases "r < length (rule_set_heap s)")
    (auto simp: rs_field_update_def set_rs_out intro!: pm_inv_set_rs dest: rs_at_rules)

lemma pm_inv_set_shown [simp, intro]: "pm_inv s \<Longrightarrow> pm_inv (set_shown_rules xs s)"
  by (simp add: pm_inv_def pm_heap_ok_def expanded_def snack_ok_def set_shown_rules_def)

lemma pm_inv_new_shown [simp, intro]: "pm_inv s \<Longrightarrow> pm_inv (new_shown_rules xs s)"
  by (auto simp: pm_inv_def pm_heap_ok_def expanded_def snack_ok_def new_shown_rules_def less_SucI)

lemma alloc_rule_set_inv: "pm_inv s \<Longrightarrow> pm_inv (fst (alloc_rule_set v s))"
  by (auto simp: alloc_rule_set_def pm_inv_def pm_heap_ok_def expanded_def snack_ok_def less_SucI pm_ref_ok_Suc)

lemma alloc_rule_set_heap:
  "length (rule_set_heap (fst (alloc_rule_set v s))) = Suc (length (rule_set_heap s))"
  "snd (alloc_rule_set v s) = length (rule_set_heap s)"
  "rule_sets (fst (alloc_rule_set v s)) = rule_sets s"
  by (simp_all add: alloc_rule_set_def)

lemma alloc_rule_sets_inv:
  "pm_inv s \<Longrightarrow> pm_inv (fst (alloc_rule_sets vs s)) \<and>
     snd (alloc_rule_sets vs s) = [length (rule_set_heap s)..<length (rule_set_heap s) + length vs] \<and>
     length (rule_set_heap (fst (alloc_rule_sets vs s))) = length (rule_set_heap s) + length vs"
proof (induction vs arbitrary: s)
  case (Cons v vs)
  then show ?case
    using Cons.IH [of "fst (alloc_rule_set v s)"] alloc_rule_set_inv [of s v] alloc_rule_set_heap [of v s]
    by (auto simp: case_prod_beta upt_rec Let_def)
qed simp

lemma pm_inv_rule_sets:
  "pm_inv s \<Longrightarrow> \<forall>r \<in> set rs. r < length (rule_set_heap s) \<Longrightarrow> pm_inv (s\<lparr>rule_sets := rs\<rparr>)"
  by (simp add: pm_inv_def pm_heap_ok_def expanded_def snack_ok_def)

lemma pm_inv_refs: "pm_inv s \<Longrightarrow> r \<in> set (rule_sets s) \<Longrightarrow> r < length (rule_set_heap s)"
  by (simp add: pm_inv_def pm_heap_ok_def)

section \<open>Every handler keeps the invariant\<close>

lemma null_rules_inv:
  "pm_inv s \<Longrightarrow> pm_inv (fold (\<lambda>q t. set_rs q (null_rules (rs_at t q)) t) rs s) \<and>
     pm_rules_visible (fold (\<lambda>q t. set_rs q (null_rules (rs_at t q)) t) rs s) = pm_rules_visible s \<and>
     visible_at_minus_1 (fold (\<lambda>q t. set_rs q (null_rules (rs_at t q)) t) rs s) = visible_at_minus_1 s"
proof (induction rs arbitrary: s)
  case (Cons q rs)
  have "pm_inv (set_rs q (null_rules (rs_at s q)) s)"
    using Cons.prems by (intro pm_inv_set_rs) (simp_all add: null_rules_def)
  then show ?case
    using Cons.IH [of "set_rs q (null_rules (rs_at s q)) s"] by (simp add: set_rs_def)
qed simp

lemma one_expanded: "length (filter id ((replicate n False)[i := True])) \<le> 1"
proof (cases "i < n")
  case True
  then show ?thesis by (simp add: upd_conv_take_nth_drop filter_replicate)
qed (simp add: filter_replicate list_update_beyond)

lemma visible_reset_fields:
  "pm_rules_visible (pm_visible_reset n s) = replicate n False" "visible_at_minus_1 (pm_visible_reset n s) = False"
  by (simp_all add: pm_visible_reset_def)

lemma pm_get_rules_inv: "pm_inv s \<Longrightarrow> pm_inv (pm_get_rules r s)"
proof -
  assume inv: "pm_inv s"
  let ?s2 = "fold (\<lambda>q t. set_rs q (null_rules (rs_at t q)) t) (rule_sets s) (pm_visible_reset (length (rule_sets s)) s)"
  have s2: "pm_inv ?s2" "pm_rules_visible ?s2 = replicate (length (rule_sets s)) False" "\<not> visible_at_minus_1 ?s2"
    using null_rules_inv [OF pm_inv_visible_reset [OF inv], of "rule_sets s" "length (rule_sets s)"]
    by (simp_all add: visible_reset_fields)
  have "pm_inv (?s2\<lparr>visible_at_minus_1 := True\<rparr>)" "pm_inv (?s2\<lparr>pm_rules_visible := (pm_rules_visible ?s2)[i := True]\<rparr>)" for i
    using s2 one_expanded [of "length (rule_sets s)" i]
    by (simp_all add: pm_inv_def pm_heap_ok_def expanded_def snack_ok_def filter_replicate)
  moreover have "rule_sets (pm_visible_reset (length (rule_sets s)) s) = rule_sets s"
    by (simp add: pm_visible_reset_def)
  ultimately show "pm_inv (pm_get_rules r s)"
    using s2(1) by (auto simp: pm_get_rules_def Let_def pm_api_get_rules_def split: option.splits)
qed

lemmas pm_request_defs =
  pm_api_sync_rule_sets_def pm_api_get_rule_sets_def pm_api_get_rules_def pm_api_create_rule_set_def
  pm_api_update_rule_set_def pm_api_upload_rule_file_def pm_api_toggle_rule_def pm_api_delete_rule_def
  pm_api_delete_rule_set_def pm_api_check_catalog_status_suricata_def pm_api_check_catalog_status_zeek_def
  pm_api_get_jobs_def

lemmas pm_act_defs =
  pm_request_defs pm_ngOnInit_def pm_check_rule_sync_status_def pm_apply_filter_def pm_enable_rule_set_def
  pm_delete_rule_set_confirm_dialog_def pm_edit_rule_set_def pm_add_rule_def pm_upload_rules_file_def
  pm_edit_rule_def pm_enable_rule_def pm_delete_rule_confirm_dialog_def pm_rule_sync_def pm_add_rule_set_def
  pm_socket_refresh_rule_set_change_def

lemma pm_broadcast_inv: "pm_inv s \<Longrightarrow> pm_inv (pm_socket_refresh_broadcast v s)"
  by (simp add: pm_socket_refresh_broadcast_def Let_def)

lemma pm_inv_nth: "pm_inv s \<Longrightarrow> i < length (rule_sets s) \<Longrightarrow> rule_sets s ! i < length (rule_set_heap s)"
  by (simp add: pm_inv_refs)

lemma pm_handle_inv: "pm_inv s \<Longrightarrow> pm_inv (pm_handle a s)"
  by (cases a) (auto simp: on_rule_set_def on_rule_def pm_act_defs pm_get_rules_inv pm_broadcast_inv pm_inv_nth Let_def)

lemma pm_closed_inv: "pm_inv s \<Longrightarrow> pm_inv (pm_closed lc d v s)"
  by (cases d)
    (auto simp: pm_edit_rule_closed_def pm_delete_rule_closed_def pm_delete_rule_set_closed_def
      pm_edit_rule_set_closed_def pm_add_rule_closed_def pm_add_rule_set_closed_def
      pm_upload_rules_file_closed_def pm_request_defs Let_def split: option.splits sum.splits)

lemma pm_load_rule_sets_inv: "pm_inv s \<Longrightarrow> pm_inv (pm_load_rule_sets lc response s)"
proof -
  assume inv: "pm_inv s"
  let ?s1 = "pm_visible_reset (length response) s"
  show "pm_inv (pm_load_rule_sets lc response s)"
  proof (cases "rule_set_alphanum lc response")
    case (Inr xs)
    have "pm_inv ((fst (alloc_rule_sets xs ?s1))\<lparr>rule_sets := snd (alloc_rule_sets xs ?s1)\<rparr>)"
      using alloc_rule_sets_inv [of ?s1 xs] inv by (intro pm_inv_rule_sets) simp_all
    with Inr show ?thesis by (simp add: pm_load_rule_sets_def Let_def case_prod_beta)
  qed (simp add: pm_load_rule_sets_def inv)
qed

lemma pm_load_rules_inv: "pm_inv s \<Longrightarrow> pm_inv (pm_load_rules lc r response s)"
proof -
  assume inv: "pm_inv s"
  let ?a = "length (rule_arrays s)" and ?s1 = "s\<lparr>rule_arrays := rule_arrays s @ [response]\<rparr>"
  have "pm_inv ?s1"
    using inv by (auto simp: pm_inv_def pm_heap_ok_def expanded_def snack_ok_def less_SucI)
  then have s2: "pm_inv (set_rs r ((rs_at ?s1 r)\<lparr>rs_rules := Some ?a\<rparr>) ?s1)" (is "pm_inv ?s2")
    by (intro pm_inv_set_rs) simp_all
  have "length (rule_arrays ?s2) = Suc ?a" by (simp add: set_rs_def)
  with s2 have "pm_inv (?s2\<lparr>rule_arrays := (rule_arrays ?s2)[?a := xs], rules_data := ?a\<rparr>)" for xs
    by (simp add: pm_inv_def pm_heap_ok_def expanded_def snack_ok_def)
  with s2 show ?thesis by (simp add: pm_load_rules_def Let_def split: sum.splits)
qed

lemma pm_create_inv:
  "pm_inv s \<Longrightarrow> pm_inv ((fst (alloc_rule_set v s))\<lparr>rule_sets := rule_sets (fst (alloc_rule_set v s)) @ [snd (alloc_rule_set v s)]\<rparr>)"
  by (rule pm_inv_rule_sets) (auto simp: alloc_rule_set_heap alloc_rule_set_inv less_SucI dest: pm_inv_refs)

lemma pm_replace_inv:
  "pm_inv s \<Longrightarrow> pm_inv ((fst (alloc_rule_set v s))\<lparr>rule_sets := write_at (rule_sets (fst (alloc_rule_set v s))) i (snd (alloc_rule_set v s))\<rparr>)"
  using set_write_at [of "rule_sets s" i "snd (alloc_rule_set v s)"]
  by (intro pm_inv_rule_sets) (auto simp: alloc_rule_set_heap alloc_rule_set_inv less_SucI dest: pm_inv_refs)

lemma pm_toggle_inv:
  assumes "pm_inv s" "r < length (rule_set_heap s)"
  shows "pm_inv (s\<lparr>rule_sets := write_at (rule_sets s) i r\<rparr>)"
  using assms set_write_at [of "rule_sets s" i r] by (intro pm_inv_rule_sets) (auto dest: pm_inv_refs)

lemma heap_lengths [simp]:
  "length (rule_set_heap (set_shown_rules xs s)) = length (rule_set_heap s)"
  "length (rule_set_heap (rs_field_update r k v s)) = length (rule_set_heap s)"
  "rule_set_heap (s\<lparr>requests := ks\<rparr>) = rule_set_heap s"
  by (simp_all add: set_shown_rules_def rs_field_update_def set_rs_def)

lemma pm_delete_set_inv: "pm_inv s \<Longrightarrow> pm_inv (s\<lparr>rule_sets := filter P (rule_sets s)\<rparr>)"
  by (rule pm_inv_rule_sets) (auto dest: pm_inv_refs)

lemmas pm_answer_defs =
  pm_api_sync_rule_sets_answer_def pm_api_get_rule_sets_answer_def pm_api_get_rules_answer_def
  pm_api_create_rule_set_answer_def pm_api_update_rule_set_answer_def pm_api_upload_rule_file_answer_def
  pm_api_toggle_rule_answer_def pm_api_delete_rule_answer_def pm_api_delete_rule_set_answer_def
  pm_api_check_catalog_status_suricata_answer_def pm_api_check_catalog_status_zeek_answer_def
  pm_api_get_jobs_answer_def

lemma pm_answer_inv:
  assumes "pm_inv s" "pm_ref_ok (length (rule_set_heap s)) k"
  shows "pm_inv (pm_answer lc k r s)"
  using assms
  by (cases k)
    (auto simp: pm_answer_defs pm_success_def pm_request_defs Let_def case_prod_beta pm_load_rule_sets_inv
      pm_load_rules_inv pm_create_inv pm_replace_inv pm_toggle_inv pm_delete_set_inv
      intro!: pm_inv_answered split: sum.splits)

interpretation pm: async_component pm_handle "pm_answer lc" "pm_closed lc" pm_inv for lc
proof
  show "pm_inv (pm_handle a s)" if "pm_inv s" for a s
    using that by (rule pm_handle_inv)
  show "pm_inv (pm_answer lc (requests s ! i) r (s\<lparr>requests := remove_nth i (requests s)\<rparr>))"
    if "pm_inv s" "i < length (requests s)" for s i r
  proof (rule pm_answer_inv)
    show "pm_inv (s\<lparr>requests := remove_nth i (requests s)\<rparr>)"
      by (rule pm_inv_requests [OF _ set_remove_nth]) (use that in simp)
    show "pm_ref_ok (length (rule_set_heap (s\<lparr>requests := remove_nth i (requests s)\<rparr>))) (requests s ! i)"
      using that by (simp add: pm_inv_def pm_heap_ok_def)
  qed
  show "pm_inv (pm_closed lc (dialogs s ! i) v (s\<lparr>dialogs := remove_nth i (dialogs s)\<rparr>))"
    if "pm_inv s" "i < length (dialogs s)" for s i v
    using that by (simp add: pm_closed_inv)
qed

section \<open>Requests that delete\<close>

lemma pm_deletes_updates [simp]:
  "deletes (s\<lparr>job_status := b\<rparr>) = deletes s" "deletes (s\<lparr>rulesetchange := b\<rparr>) = deletes s"
  "deletes (s\<lparr>rule_sets_filter := f\<rparr>) = deletes s" "deletes (s\<lparr>rule_sets := rs\<rparr>) = deletes s"
  "deletes (s\<lparr>pm_rules_visible := vs\<rparr>) = deletes s" "deletes (s\<lparr>visible_at_minus_1 := b\<rparr>) = deletes s"
  "deletes (set_rs r v s) = deletes s" "deletes (set_shown_rules xs s) = deletes s"
  "deletes (new_shown_rules xs s) = deletes s" "deletes (pm_visible_reset n s) = deletes s"
  "deletes (rs_field_update r k w s) = deletes s" "deletes (fst (alloc_rule_set x s)) = deletes s"
  by (simp_all add: deletes_def sent_def set_rs_def set_shown_rules_def new_shown_rules_def pm_visible_reset_def
      rs_field_update_def alloc_rule_set_def)

lemma pm_deletes_alloc [simp]: "deletes (fst (alloc_rule_sets vs s)) = deletes s"
  by (induction vs arbitrary: s) (simp_all add: case_prod_beta Let_def)

lemma pm_deletes_null [simp]: "deletes (fold (\<lambda>q t. set_rs q (null_rules (rs_at t q)) t) rs s) = deletes s"
  by (induction rs arbitrary: s) simp_all

lemma pm_deletes_get_rules [simp]: "deletes (pm_get_rules r s) = deletes s"
  by (simp add: pm_get_rules_def Let_def pm_api_get_rules_def get_rules_def split: option.splits)

lemmas pm_endpoint_defs =
  sync_rule_sets_def get_rule_sets_def create_rule_set_def update_rule_set_def upload_rule_file_def
  toggle_rule_def check_catalog_status_def get_jobs_def delete_rule_def delete_rule_set_def get_rules_def

lemma pm_deletes_handle [simp]: "deletes (pm_handle a s) = deletes s"
proof (cases a)
  case (PM_Broadcast v)
  then show ?thesis by (simp add: pm_socket_refresh_broadcast_def Let_def)
qed (auto simp: on_rule_set_def on_rule_def pm_act_defs pm_endpoint_defs Let_def)

lemma pm_deletes_load [simp]: "deletes (pm_load_rule_sets lc response s) = deletes s"
  by (simp add: pm_load_rule_sets_def Let_def case_prod_beta split: sum.splits)

lemma pm_deletes_load_rules [simp]: "deletes (pm_load_rules lc r response s) = deletes s"
  by (simp add: pm_load_rules_def Let_def deletes_def sent_def set_rs_def split: sum.splits)

lemma pm_deletes_answer [simp]: "deletes (pm_answer lc k r s) = deletes s"
  by (cases k) (auto simp: pm_answer_defs pm_success_def pm_request_defs pm_endpoint_defs Let_def case_prod_beta
      intro!: deletes_answered split: sum.splits)

text \<open>The request a closed dialog may send, read off the dialog and the answer.\<close>

definition pm_confirmed_delete :: "pm_action event \<Rightarrow> pm_state \<Rightarrow> effect list" where
  "pm_confirmed_delete ev s =
     (case ev of
        Closed i v \<Rightarrow>
          if i < length (dialogs s) \<and> v = JStr ''Confirm'' then
            (case dialogs s ! i of
               PM_ConfirmDeleteRule rule r \<Rightarrow>
                 (if rs_rules (rs_at s r) = None then []
                  else [Http DELETE (''/api/policy/rule/'' @ str (js_get rule ''_id'')) JUndef])
             | PM_ConfirmDeleteRuleSet r \<Rightarrow> [Http DELETE (''/api/policy/ruleset/'' @ str (rs_id s r)) JUndef]
             | _ \<Rightarrow> [])
          else []
      | _ \<Rightarrow> [])"

lemma pm_deletes_closed:
  "deletes (pm_closed lc d v s) = deletes s @
     (if v = JStr ''Confirm'' then
        (case d of
           PM_ConfirmDeleteRule rule r \<Rightarrow>
             (if rs_rules (rs_at s r) = None then []
              else [Http DELETE (''/api/policy/rule/'' @ str (js_get rule ''_id'')) JUndef])
         | PM_ConfirmDeleteRuleSet r \<Rightarrow> [Http DELETE (''/api/policy/ruleset/'' @ str (rs_id s r)) JUndef]
         | _ \<Rightarrow> [])
      else [])"
  by (cases d)
    (auto simp: pm_edit_rule_closed_def pm_delete_rule_closed_def pm_delete_rule_set_closed_def
      pm_edit_rule_set_closed_def pm_add_rule_closed_def pm_add_rule_set_closed_def pm_endpoint_defs
      pm_upload_rules_file_closed_def pm_request_defs Let_def split: option.splits sum.splits)

section \<open>Lemmas on the tables\<close>

lemma pm_same_fields:
  "async.more s' = async.more s \<Longrightarrow>
     rule_set_heap s' = rule_set_heap s \<and> rule_arrays s' = rule_arrays s \<and> rule_sets s' = rule_sets s \<and>
     rules_data s' = rules_data s \<and> pm_rules_visible s' = pm_rules_visible s \<and>
     visible_at_minus_1 s' = visible_at_minus_1 s"
  by (cases s; cases s') simp

lemma alloc_rule_sets_heap:
  "rule_set_heap (fst (alloc_rule_sets vs s)) =
     rule_set_heap s @ map (\<lambda>(v, a). \<lparr>rs_fields = v, rs_rules = Some a\<rparr>)
       (zip vs [length (rule_arrays s)..<length (rule_arrays s) + length vs])"
proof (induction vs arbitrary: s)
  case (Cons v vs)
  show ?case
    using Cons.IH [of "fst (alloc_rule_set v s)"]
    by (simp add: case_prod_beta Let_def upt_rec alloc_rule_set_def del: upt_Suc)
qed simp

lemma alloc_rule_sets_refs:
  "snd (alloc_rule_sets vs s) = [length (rule_set_heap s)..<length (rule_set_heap s) + length vs]"
proof (induction vs arbitrary: s)
  case (Cons v vs)
  show ?case
    using Cons.IH [of "fst (alloc_rule_set v s)"]
    by (simp add: case_prod_beta Let_def upt_rec alloc_rule_set_def del: upt_Suc)
qed simp

lemma alloc_rule_sets_visible:
  "pm_rules_visible (fst (alloc_rule_sets vs s)) = pm_rules_visible s \<and>
   visible_at_minus_1 (fst (alloc_rule_sets vs s)) = visible_at_minus_1 s"
  by (induction vs arbitrary: s) (simp_all add: case_prod_beta Let_def alloc_rule_set_def)

lemma alloc_rule_sets_fields:
  "map (\<lambda>r. rs_fields (rule_set_heap (fst (alloc_rule_sets vs s)) ! r)) (snd (alloc_rule_sets vs s)) = vs"
  by (rule nth_equalityI) (simp_all add: alloc_rule_sets_refs alloc_rule_sets_heap nth_append)

lemma rule_index_in_nth:
  assumes "distinct (map (\<lambda>r. js_get r ''_id'') xs)" "\<forall>r \<in> set xs. is_JStr (js_get r ''_id'')" "i < length xs"
  shows "rule_index_in xs (xs ! i) = Some i"
  unfolding rule_index_in_def
proof (rule find_index_unique [OF assms(3)])
  show "strict_eq (js_get (xs ! i) ''_id'') (js_get (xs ! i) ''_id'')"
    using assms(2,3) by (auto elim!: is_JStr.elims dest!: bspec [of _ _ "xs ! i"])
  show "\<not> strict_eq (js_get (xs ! j) ''_id'') (js_get (xs ! i) ''_id'')" if "j < length xs" "j \<noteq> i" for j
    using assms that by (auto simp: distinct_conv_nth dest!: strict_eq_imp_eq)
qed

section \<open>What the page guarantees\<close>

text \<open>C6: in every state the page can reach, under any order of clicks, answers, closed dialogs and
  web socket messages, every row of the table is an object of the heap, the rules shown are an
  existing array, at most one rule set is expanded, and no snack bar is dismissed twice.\<close>

theorem pm_always:
  "pm_heap_ok (fold (pm_step lc) es pm_constructor) \<and> expanded (fold (pm_step lc) es pm_constructor) \<le> 1 \<and>
   snack_ok (fold (pm_step lc) es pm_constructor)"
proof -
  have "pm_inv pm_constructor"
    by (simp add: pm_constructor_def pm_inv_def pm_heap_ok_def expanded_def snack_ok_def)
  from pm.machine.run_inv [OF this, of lc es] show ?thesis
    by (simp add: pm_step_def pm_inv_def)
qed

text \<open>C3: a delete request is sent only when the dialog that names a rule or a rule set is closed with
  Confirm, and then exactly one, for that rule or rule set. It is always sent for a rule set; for a rule it
  is sent when the rule set still has its list of rules. When the rule set has none (an answer gave
  \<open>null\<close>), \<open>rule_set.rules.findIndex\<close> throws before the request and nothing is deleted.\<close>

theorem pm_deletes_confirmed:
  "deletes (pm_step lc ev s) = deletes s @ pm_confirmed_delete ev s"
proof (cases ev)
  case (Closed i v)
  have "rs_at (s\<lparr>dialogs := ds\<rparr>) r = rs_at s r" "rs_id (s\<lparr>dialogs := ds\<rparr>) r = rs_id s r" for ds r
    by (simp_all add: rs_at_def rs_id_def)
  with Closed show ?thesis
    by (simp add: pm_step_def async_step_def pm_confirmed_delete_def pm_deletes_closed split: pm_dialog.split)
qed (simp_all add: pm_step_def async_step_def pm_confirmed_delete_def)

text \<open>C26: when the rule sets arrive and each has a name, the table shows exactly the rule sets of the
  answer, sorted by name, rule sets of equal name in the order of the answer; every row has a list
  of rules, all rows are closed and the note about changed rule sets is gone.\<close>

theorem pm_table_sorted:
  assumes "js_map_list new_RuleSetClass v = Inr vs" "list_all (\<lambda>x. is_JStr (js_get x ''name'')) vs"
  shows "let s' = pm_answer lc PM_GetRuleSets (Reply v) s;
             shown = map (\<lambda>r. rs_fields (rs_at s' r)) (rule_sets s');
             name = (\<lambda>x. the_str (js_get x ''name''))
         in mset shown = mset vs \<and> Sorting_Algorithms.sorted (key name lc) shown \<and>
            (\<forall>x. filter (\<lambda>y. compare lc (name x) (name y) = Equiv) shown =
                 filter (\<lambda>y. compare lc (name x) (name y) = Equiv) vs) \<and>
            (\<forall>r \<in> set (rule_sets s'). rs_rules (rs_at s' r) \<noteq> None) \<and>
            expanded s' = 0 \<and> \<not> rulesetchange s'"
proof -
  obtain ys where ys: "rule_set_alphanum lc vs = Inr ys"
    using assms(2) by (cases "length vs < 2") (simp_all add: rule_set_alphanum_def sort_by_field_def)
  let ?s1 = "pm_visible_reset (length vs) s"
  let ?s2 = "fst (alloc_rule_sets ys ?s1)" and ?refs = "snd (alloc_rule_sets ys ?s1)"
  have s': "pm_answer lc PM_GetRuleSets (Reply v) s = ?s2\<lparr>rule_sets := ?refs, rulesetchange := False\<rparr>" (is "_ = ?s'")
    using assms(1) ys
    by (simp add: pm_api_get_rule_sets_answer_def answered_def subscribe_def get_rule_sets_def pm_load_rule_sets_def
        case_prod_beta Let_def)
  have "map (\<lambda>r. rs_fields (rs_at ?s' r)) (rule_sets ?s') = ys"
    using alloc_rule_sets_fields [of ys ?s1] by (simp add: rs_at_def)
  moreover have "\<forall>r \<in> set (rule_sets ?s'). rs_rules (rs_at ?s' r) \<noteq> None"
    by (auto simp: rs_at_def alloc_rule_sets_refs alloc_rule_sets_heap nth_append)
  moreover have "expanded ?s' = 0"
    using alloc_rule_sets_visible [of ys ?s1]
    by (simp add: expanded_def visible_reset_fields filter_replicate)
  ultimately show ?thesis
    unfolding s' Let_def
    using sort_by_field_mset [of lc "''name''" vs ys] sort_by_field_sorted [of lc "''name''" vs ys]
      sort_by_field_stable [of lc "''name''" vs ys] ys
    by (simp add: rule_set_alphanum_def)
qed

text \<open>the filter of the table finds a rule set by the text of any of its fields, whatever the case
  of the letters and the white space around the text typed.\<close>

theorem pm_filter_finds:
  assumes "k \<in> set (js_keys data)" "js_get data k = JStr (a @ b @ c)" "toLowerCase (trim filt) = toLowerCase b"
  shows "pm_filter_predicate data filt"
proof -
  have all: "foldl (\<lambda>currentTerm k. pm_nested_filter_check currentTerm data k) acc ks =
      acc @ concat (map (\<lambda>k. pm_nested_text (js_get data k)) ks)" for acc ks
    by (induction ks arbitrary: acc) (simp_all add: pm_nested_filter_check_def)
  obtain ks1 ks2 where ks: "js_keys data = ks1 @ k # ks2"
    using assms(1) by (auto simp: in_set_conv_decomp)
  have "str_includes (toLowerCase (concat (map (\<lambda>k. pm_nested_text (js_get data k)) (js_keys data)))) (toLowerCase b)"
    unfolding str_includes_iff ks using assms(2)
    by (intro exI [of _ "toLowerCase (concat (map (\<lambda>k. pm_nested_text (js_get data k)) ks1) @ a)"]
        exI [of _ "toLowerCase (c @ concat (map (\<lambda>k. pm_nested_text (js_get data k)) ks2))"])
      (simp add: toLowerCase_def)
  then show ?thesis
    by (simp add: pm_filter_predicate_def all assms(3) str_includes_def Let_def)
qed

theorem pm_filter_finds_witness:
  "pm_filter_predicate (JObj [(''name'', JStr ''Emerging Threats''), (''state'', JStr ''Dirty'')]) '' THREAT ''"
  by (rule pm_filter_finds [of "''name''" _ "''Emerging ''" "''Threat''" "''s''"]) (code_simp | simp)+

text \<open>when enabling or disabling a rule set fails in the backend, the row keeps the value the click
  gave it: the table shows the opposite of what the backend holds.\<close>

theorem pm_failed_enable_stays:
  assumes "requests s = []" "i < length (rule_sets s)" "rule_sets s ! i < length (rule_set_heap s)"
    "rs_fields (rs_at s (rule_sets s ! i)) = JObj kvs"
  shows "let r = rule_sets s ! i; flag = JBool (\<not> truthy (js_get (JObj kvs) ''isEnabled''));
             s' = fold (pm_step lc) [Act (PM_EnableRuleSetClick i), Answer 0 (Failure f)] s
         in rule_sets s' = rule_sets s \<and> js_get (rs_fields (rs_at s' r)) ''isEnabled'' = flag \<and>
            (\<exists>body. sent s' = sent s @ [Http PUT ''/api/policy/ruleset'' body] \<and> js_get body ''isEnabled'' = flag)"
proof -
  obtain r flag where r: "rule_sets s ! i = r" and flag: "JBool (\<not> truthy (js_get (JObj kvs) ''isEnabled'')) = flag"
    by simp
  obtain t where t: "rs_field_update r ''isEnabled'' flag s = t" by simp
  obtain v where v: "rs_js t r = v" by simp
  obtain a where a: "(call (update_rule_set v) (PM_UpdateRuleSet v (Some r)) t)\<lparr>requests := []\<rparr> = a" by simp
  let ?s2 = "pm_answer lc (PM_UpdateRuleSet v (Some r)) (Failure f) a"
  have field: "rs_fields (rs_at t r) = JObj (AList.update ''isEnabled'' flag kvs)" "rule_sets t = rule_sets s"
      "requests t = requests s" "sent t = sent s"
    using assms(3,4) by (auto simp: r t [symmetric] rs_field_update_def set_rs_def rs_at_def sent_def)
  then have body: "js_get v ''isEnabled'' = flag"
    by (simp add: v [symmetric] rs_js_def js_get_set_other update_conv')
  have act: "pm_handle (PM_EnableRuleSetClick i) s = call (update_rule_set v) (PM_UpdateRuleSet v (Some r)) t"
    using assms(2,4)
    by (simp add: on_rule_set_def pm_enable_rule_set_def pm_api_update_rule_set_def Let_def r flag t v del: js_get.simps)
  have s2: "fold (pm_step lc) [Act (PM_EnableRuleSetClick i), Answer 0 (Failure f)] s = ?s2"
    using assms(1) field(3) act by (simp add: pm_step_def async_step_def remove_nth_def a)
  have more: "world.more ?s2 = world.more a" and "sent ?s2 = sent a"
    by (simp_all add: pm_api_update_rule_set_answer_def answered_failure)
  moreover have "rule_set_heap a = rule_set_heap t" "rule_sets a = rule_sets t" "sent a = sent s @ [Http PUT ''/api/policy/ruleset'' v]"
    using field(4) pm_same_fields [of "call (update_rule_set v) (PM_UpdateRuleSet v (Some r)) t" t]
    by (simp_all add: a [symmetric] update_rule_set_def)
  ultimately show ?thesis
    using pm_same_fields [OF world_more_async [OF more]] field body
    unfolding s2 r flag Let_def by (simp add: rs_at_def)
qed

text \<open>A deletion from click to answer.\<close>

lemma pm_delete_round:
  assumes "requests s = []" "dialogs s = []" "k < length (rule_sets s)" "i < length (shown_rules s)"
    "rs_rules (rs_at s (rule_sets s ! k)) = Some a" "new_SuccessMessageClass w = Inr msg"
    "s' = fold (pm_step lc) [Act (PM_DeleteRuleClick k i), Closed 0 (JStr ''Confirm''), Answer 0 (Reply w)] s"
  shows "rule_set_heap s' = rule_set_heap s" "rule_sets s' = rule_sets s" "requests s' = []" "dialogs s' = []"
    "rule_arrays s' = rule_arrays s @ [splice1 (shown_rules s) (rule_index_in (rule_arrays s ! a) (shown_rules s ! i))]"
    "rules_data s' = length (rule_arrays s)"
    "deletes s' = deletes s @ [Http DELETE (''/api/policy/rule/'' @ str (js_get (shown_rules s ! i) ''_id'')) JUndef]"
proof -
  obtain rule r where rule: "shown_rules s ! i = rule" and r: "rule_sets s ! k = r" by simp
  obtain x where x: "rule_index_in (rule_arrays s ! a) rule = x" by simp
  let ?d = "pm_delete_rule_confirm_dialog rule r s"
  let ?c = "pm_delete_rule_closed rule r (JStr ''Confirm'') (?d\<lparr>dialogs := []\<rparr>)"
  let ?f = "pm_answer lc (PM_DeleteRule x) (Reply w) (?c\<lparr>requests := []\<rparr>)"
  have same: "rule_set_heap ?d = rule_set_heap s" "rule_arrays ?d = rule_arrays s" "rule_sets ?d = rule_sets s"
      "rules_data ?d = rules_data s" "requests ?d = []"
    using pm_same_fields [of ?d s] assms(1) by (simp_all add: pm_delete_rule_confirm_dialog_def)
  have c: "?c = call (delete_rule (js_get rule ''_id'')) (PM_DeleteRule x) (?d\<lparr>dialogs := []\<rparr>)"
    using assms(5) same r x by (simp add: pm_delete_rule_closed_def pm_api_delete_rule_def rs_at_def)
  have samec: "rule_set_heap ?c = rule_set_heap s" "rule_arrays ?c = rule_arrays s" "rule_sets ?c = rule_sets s"
      "rules_data ?c = rules_data s" "requests ?c = [PM_DeleteRule x]" "dialogs ?c = []"
    using pm_same_fields [of ?c "?d\<lparr>dialogs := []\<rparr>"] same by (simp_all add: c)
  have dels: "deletes ?c = deletes s @ [Http DELETE (''/api/policy/rule/'' @ str (js_get rule ''_id'')) JUndef]"
  proof -
    have "deletes ?d = deletes s" by (simp add: pm_delete_rule_confirm_dialog_def)
    then show ?thesis unfolding c by (simp add: delete_rule_def)
  qed
  let ?g = "new_shown_rules (splice1 (shown_rules ?c) x) (?c\<lparr>requests := []\<rparr>)"
  have f: "?f = displaySnackBar (js_get msg ''success_message'') (Some MAT_SNACKBAR_CONFIGURATION_60000_DUR) ?g"
    using assms(6) by (simp add: pm_api_delete_rule_answer_def answered_def subscribe_def delete_rule_def shown_rules_def)
  have s': "s' = ?f"
    using assms(2,3,4) samec same by (simp add: assms(7) pm_step_def async_step_def on_rule_def rule r remove_nth_def
        pm_delete_rule_confirm_dialog_def)
  have "deletes s' = deletes ?c" unfolding s' f by simp
  moreover have "shown_rules ?c = shown_rules s" using samec by (simp add: shown_rules_def)
  moreover have "rule_set_heap ?g = rule_set_heap ?c" "rule_sets ?g = rule_sets ?c" "dialogs ?g = dialogs ?c"
    "requests ?g = []" "rules_data ?g = length (rule_arrays ?c)" "rule_arrays ?g = rule_arrays ?c @ [splice1 (shown_rules ?c) x]"
    by (simp_all add: new_shown_rules_def)
  ultimately show "rule_set_heap s' = rule_set_heap s" "rule_sets s' = rule_sets s" "requests s' = []" "dialogs s' = []"
    "rule_arrays s' = rule_arrays s @ [splice1 (shown_rules s) (rule_index_in (rule_arrays s ! a) (shown_rules s ! i))]"
    "rules_data s' = length (rule_arrays s)"
    "deletes s' = deletes s @ [Http DELETE (''/api/policy/rule/'' @ str (js_get (shown_rules s ! i) ''_id'')) JUndef]"
    using pm_same_fields [of ?f ?g] samec dels unfolding s' f
    by (simp_all add: x rule)
qed

text \<open>C11: after a rule was deleted, the next deletion takes the wrong row out of the table. Rule \<open>i\<close> and
  then rule \<open>j\<close> below it are deleted and confirmed; the backend is asked to delete these two, but the
  table still shows rule \<open>j\<close> and no longer shows the rule after it (or loses none when there is none):
  the position is looked up in the array of the rule set, which still holds rule \<open>i\<close>, and applied to the
  copy the table shows.\<close>

theorem pm_second_delete_wrong_row:
  assumes "requests s = []" "dialogs s = []" "k < length (rule_sets s)"
    "rules_data s < length (rule_arrays s)" "rs_rules (rs_at s (rule_sets s ! k)) = Some (rules_data s)"
    "distinct (map (\<lambda>r. js_get r ''_id'') (shown_rules s))" "\<forall>r \<in> set (shown_rules s). is_JStr (js_get r ''_id'')"
    "i < j" "j < length (shown_rules s)" "new_SuccessMessageClass v = Inr msg"
    "s' = fold (pm_step lc)
       [Act (PM_DeleteRuleClick k i), Closed 0 (JStr ''Confirm''), Answer 0 (Reply v),
        Act (PM_DeleteRuleClick k (j - 1)), Closed 0 (JStr ''Confirm''), Answer 0 (Reply v)] s"
  shows "deletes s' = deletes s @
      map (\<lambda>n. Http DELETE (''/api/policy/rule/'' @ str (js_get (shown_rules s ! n) ''_id'')) JUndef) [i, j] \<and>
    shown_rules s' = (let rest = take i (shown_rules s) @ drop (Suc i) (shown_rules s)
                      in take j rest @ drop (Suc j) rest) \<and>
    shown_rules s ! j \<in> set (shown_rules s')"
proof -
  obtain xs where xs: "shown_rules s = xs" by simp
  obtain rest where rest: "take i xs @ drop (Suc i) xs = rest" by simp
  obtain t where t: "t = fold (pm_step lc) [Act (PM_DeleteRuleClick k i), Closed 0 (JStr ''Confirm''), Answer 0 (Reply v)] s"
    by simp
  have xsi: "rule_index_in (rule_arrays s ! rules_data s) (xs ! n) = Some n" if "n < length xs" for n
    using rule_index_in_nth [of xs n] assms(6,7) that by (simp add: xs [symmetric] shown_rules_def [symmetric])
  note t1 = pm_delete_round [OF assms(1-3) _ assms(5,10) t, unfolded xs]
  have t2: "rule_set_heap t = rule_set_heap s" "rule_sets t = rule_sets s" "requests t = []" "dialogs t = []"
    "rule_arrays t = rule_arrays s @ [rest]" "rules_data t = length (rule_arrays s)"
    "deletes t = deletes s @ [Http DELETE (''/api/policy/rule/'' @ str (js_get (xs ! i) ''_id'')) JUndef]"
    using t1 assms(8,9) xsi [of i] rest by (simp_all add: xs splice1_def)
  have shown: "shown_rules t = rest" using t2 by (simp add: shown_rules_def)
  have row: "rest ! (j - 1) = xs ! j" "j - 1 < length rest"
    using assms(8,9) by (auto simp: rest [symmetric] xs nth_append min_def)
  have "s' = fold (pm_step lc) [Act (PM_DeleteRuleClick k (j - 1)), Closed 0 (JStr ''Confirm''), Answer 0 (Reply v)] t"
    using assms(11) t by simp
  note u1 = pm_delete_round [OF t2(3,4) _ _ _ assms(10) this, of "rules_data s", unfolded shown row(1)]
  have u2: "rule_arrays s' = rule_arrays t @ [take j rest @ drop (Suc j) rest]" "rules_data s' = length (rule_arrays t)"
    "deletes s' = deletes t @ [Http DELETE (''/api/policy/rule/'' @ str (js_get (xs ! j) ''_id'')) JUndef]"
    using u1 assms(3,4,5,9) row t2 xsi [of j] by (simp_all add: xs rs_at_def nth_append splice1_def)
  have "shown_rules s' = take j rest @ drop (Suc j) rest" using u2 by (simp add: shown_rules_def)
  moreover have "xs ! j \<in> set (take j rest)"
    using row assms(8) nth_mem [of "j - 1" "take j rest"] by simp
  ultimately show ?thesis
    using u2(3) t2(7) unfolding xs rest by simp
qed

theorem pm_second_delete_wrong_row_witness:
  "\<forall>lc. let xs = map (\<lambda>n. JObj [(''_id'', JStr n)]) [''a'', ''b'', ''c''];
       s = pm_constructor\<lparr>rule_set_heap := [\<lparr>rs_fields = JObj [], rs_rules = Some 0\<rparr>], rule_arrays := [xs], rule_sets := [0]\<rparr>
   in JObj [(''_id'', JStr ''b'')] \<in> set (shown_rules (fold (pm_step lc)
       [Act (PM_DeleteRuleClick 0 0), Closed 0 (JStr ''Confirm''), Answer 0 (Reply (JObj [])),
        Act (PM_DeleteRuleClick 0 (1 - 1)), Closed 0 (JStr ''Confirm''), Answer 0 (Reply (JObj []))] s))"
proof (intro allI)
  fix lc
  let ?xs = "map (\<lambda>n. JObj [(''_id'', JStr n)]) [''a'', ''b'', ''c'']"
  let ?s = "pm_constructor\<lparr>rule_set_heap := [\<lparr>rs_fields = JObj [], rs_rules = Some 0\<rparr>], rule_arrays := [?xs], rule_sets := [0]\<rparr>"
  have "new_SuccessMessageClass (JObj []) = Inr (JObj [(''success_message'', JUndef)])"
    by (simp add: new_SuccessMessageClass_def construct_def copy_def notUndefNull_def)
  moreover have "shown_rules ?s = ?xs" by (simp add: shown_rules_def pm_constructor_def)
  ultimately show "let xs = map (\<lambda>n. JObj [(''_id'', JStr n)]) [''a'', ''b'', ''c''];
       s = pm_constructor\<lparr>rule_set_heap := [\<lparr>rs_fields = JObj [], rs_rules = Some 0\<rparr>], rule_arrays := [xs], rule_sets := [0]\<rparr>
   in JObj [(''_id'', JStr ''b'')] \<in> set (shown_rules (fold (pm_step lc)
       [Act (PM_DeleteRuleClick 0 0), Closed 0 (JStr ''Confirm''), Answer 0 (Reply (JObj [])),
        Act (PM_DeleteRuleClick 0 (1 - 1)), Closed 0 (JStr ''Confirm''), Answer 0 (Reply (JObj []))] s))"
    using pm_second_delete_wrong_row [of ?s 0 0 1 "JObj []" _ _ lc, OF _ _ _ _ _ _ _ _ _ _ refl]
    by (simp add: pm_constructor_def rs_at_def Let_def)
qed

theorem pm_table_sorted_witness:
  "\<forall>lc. expanded (pm_answer lc PM_GetRuleSets (Reply (JArr [JObj [(''name'', JStr ''b'')], JObj [(''name'', JStr ''a'')]])) pm_constructor) = 0"
proof (intro allI)
  fix lc
  obtain vs where "js_map_list new_RuleSetClass (JArr [JObj [(''name'', JStr ''b'')], JObj [(''name'', JStr ''a'')]]) = Inr vs"
    "list_all (\<lambda>x. is_JStr (js_get x ''name'')) vs"
    by (simp add: js_map_list_def new_RuleSetClass_def construct_def copy_def map_or_def notUndefNull_def)
  then show "expanded (pm_answer lc PM_GetRuleSets (Reply (JArr [JObj [(''name'', JStr ''b'')], JObj [(''name'', JStr ''a'')]])) pm_constructor) = 0"
    using pm_table_sorted [of _ vs lc pm_constructor] by (simp add: Let_def)
qed

theorem pm_failed_enable_stays_witness:
  "\<forall>lc f. let s = pm_constructor\<lparr>rule_set_heap := [\<lparr>rs_fields = JObj [(''isEnabled'', JBool True)], rs_rules = None\<rparr>], rule_sets := [0]\<rparr>
   in js_get (rs_fields (rs_at (fold (pm_step lc) [Act (PM_EnableRuleSetClick 0), Answer 0 (Failure f)] s) 0)) ''isEnabled'' = JBool False"
proof (intro allI)
  fix lc f
  let ?s = "pm_constructor\<lparr>rule_set_heap := [\<lparr>rs_fields = JObj [(''isEnabled'', JBool True)], rs_rules = None\<rparr>], rule_sets := [0]\<rparr>"
  have "requests ?s = []" "0 < length (rule_sets ?s)" "rule_sets ?s ! 0 < length (rule_set_heap ?s)"
    "rs_fields (rs_at ?s (rule_sets ?s ! 0)) = JObj [(''isEnabled'', JBool True)]"
    by (simp_all add: pm_constructor_def rs_at_def)
  from pm_failed_enable_stays [OF this, of lc f] show "let s = pm_constructor\<lparr>rule_set_heap := [\<lparr>rs_fields = JObj [(''isEnabled'', JBool True)], rs_rules = None\<rparr>], rule_sets := [0]\<rparr>
   in js_get (rs_fields (rs_at (fold (pm_step lc) [Act (PM_EnableRuleSetClick 0), Answer 0 (Failure f)] s) 0)) ''isEnabled'' = JBool False"
    by (simp add: Let_def pm_constructor_def)
qed

text \<open>deleting a rule set above the open one leaves the list of open rows as it is, so the row that
  was open is closed and the rule set after it is open without a click, and its rules were never
  requested.\<close>

theorem pm_delete_shifts_expansion:
  assumes "distinct (map (rs_id s) (rule_sets s))" "\<forall>r \<in> set (rule_sets s). is_JStr (rs_id s r)"
    "d < i" "Suc i < length (rule_sets s)" "pm_rules_visible s = (replicate (length (rule_sets s)) False)[i := True]"
    "new_SuccessMessageClass v = Inr msg"
    "s' = pm_answer lc (PM_DeleteRuleSet (rule_sets s ! d)) (Reply v) s"
  shows "rule_sets s' = take d (rule_sets s) @ drop (Suc d) (rule_sets s) \<and>
    pm_rules_visible_of (rule_sets s ! i) s \<and> \<not> pm_rules_visible_of (rule_sets s ! Suc i) s \<and>
    \<not> pm_rules_visible_of (rule_sets s ! i) s' \<and> pm_rules_visible_of (rule_sets s ! Suc i) s' \<and>
    sent s' = sent s"
proof -
  let ?rest = "take d (rule_sets s) @ drop (Suc d) (rule_sets s)"
  let ?t = "s\<lparr>rule_sets := filter (\<lambda>q. \<not> strict_eq (rs_id s q) (rs_id s (rule_sets s ! d))) (rule_sets s)\<rparr>"
  have s': "s' = displaySnackBar (js_get msg ''success_message'') (Some MAT_SNACKBAR_CONFIGURATION_60000_DUR) ?t"
    using assms(6,7) by (simp add: pm_api_delete_rule_set_answer_def answered_def subscribe_def delete_rule_set_def)
  have same: "rule_set_heap s' = rule_set_heap s" "rule_sets s' = rule_sets ?t" "pm_rules_visible s' = pm_rules_visible s"
    using pm_same_fields [of s' ?t] s' by simp_all
  then have ids: "rs_id s' = rs_id s" by (simp add: fun_eq_iff rs_id_def rs_at_def)
  have eq: "strict_eq (rs_id s q) w = (rs_id s q = w)" if "q \<in> set (rule_sets s)" for q w
    using assms(2) that by (cases "rs_id s q") auto
  then have "rule_sets ?t = filter (\<lambda>q. rs_id s q \<noteq> rs_id s (rule_sets s ! d)) (rule_sets s)"
    by (auto intro: filter_cong)
  then have sets: "rule_sets s' = filter (\<lambda>q. rs_id s q \<noteq> rs_id s (rule_sets s ! d)) (rule_sets s)" "rule_sets s' = ?rest"
    using same filter_key [OF assms(1), of d] assms(3,4) by simp_all
  have row: "?rest ! (i - 1) = rule_sets s ! i" "?rest ! i = rule_sets s ! Suc i" "i < length ?rest"
    using assms(3,4) by (auto simp: nth_append min_def)
  have idx: "pm_get_rule_set_index (rs_id s (rule_sets u ! n)) u = Some n"
    if "distinct (map (rs_id s) (rule_sets u))" "set (rule_sets u) \<subseteq> set (rule_sets s)" "rs_id u = rs_id s"
      "n < length (rule_sets u)" for n u
    unfolding pm_get_rule_set_index_def
    using that eq by (intro find_index_unique) (auto simp: distinct_conv_nth subset_iff)
  have "distinct (map (rs_id s) (rule_sets s'))" "set (rule_sets s') \<subseteq> set (rule_sets s)"
    using assms(1) by (auto simp: sets(1) distinct_map_filter)
  note new = idx [OF this ids]
  note old = idx [OF assms(1) subset_refl refl]
  have "sent s' = sent ?t" "sent ?t = sent s" unfolding s' by simp (simp add: sent_def)
  then show ?thesis
    using old [of i] old [of "Suc i"] new [of i] new [of "i - 1"] row assms(3,4,5) same(3) ids
    by (auto simp: sets(2) pm_rules_visible_of_def pm_visible_at_def)
qed

theorem pm_delete_shifts_expansion_witness:
  "\<forall>lc. let s = pm_constructor\<lparr>
        rule_set_heap := map (\<lambda>n. \<lparr>rs_fields = JObj [(''_id'', JStr n)], rs_rules = None\<rparr>) [''a'', ''b'', ''c''],
        rule_sets := [0, 1, 2], pm_rules_visible := [False, True, False]\<rparr>
   in pm_rules_visible_of 2 (pm_answer lc (PM_DeleteRuleSet 0) (Reply (JObj [])) s)"
proof (intro allI)
  fix lc
  let ?s = "pm_constructor\<lparr>
        rule_set_heap := map (\<lambda>n. \<lparr>rs_fields = JObj [(''_id'', JStr n)], rs_rules = None\<rparr>) [''a'', ''b'', ''c''],
        rule_sets := [0, 1, 2], pm_rules_visible := [False, True, False]\<rparr>"
  have "new_SuccessMessageClass (JObj []) = Inr (JObj [(''success_message'', JUndef)])"
    by (simp add: new_SuccessMessageClass_def construct_def copy_def notUndefNull_def)
  then show "let s = pm_constructor\<lparr>
        rule_set_heap := map (\<lambda>n. \<lparr>rs_fields = JObj [(''_id'', JStr n)], rs_rules = None\<rparr>) [''a'', ''b'', ''c''],
        rule_sets := [0, 1, 2], pm_rules_visible := [False, True, False]\<rparr>
   in pm_rules_visible_of 2 (pm_answer lc (PM_DeleteRuleSet 0) (Reply (JObj [])) s)"
    using pm_delete_shifts_expansion [of ?s 0 1 "JObj []" _ _ lc, OF _ _ _ _ _ _ refl]
    by (simp add: rs_id_def rs_at_def numeral_2_eq_2 numeral_3_eq_3 Let_def)
qed

end
