(* ===== verification/Mip_Management.thy ===== *)
theory Mip_Management
  imports Node_Management
begin

text \<open>
  \<open>modules/mip-mng/mip-mng.component.ts\<close>: the MIP management page. Rows are objects with an identity
  (\<open>jsobj\<close>), because the row is marked as being removed when the dialog is confirmed, through the object
  the dialog was opened for. A form handed back by a dialog is an object with the properties
  \<open>valid\<close>, \<open>value\<close> and \<open>rawValue\<close>, the last for what \<open>getRawValue()\<close> returns.
\<close>

section \<open>State\<close>

datatype mip_request = MIP_Nodes | MIP_Settings | MIP_Add | MIP_Delete

datatype mip_dialog = MIP_ConfirmDelete jsobj | MIP_AddMip

record mip_state = "(mip_request, mip_dialog) async" +
  mip_columns :: "string list"
  mips :: "jsobj list"
  mip_settings :: js
  mip_next_ref :: nat

definition mip_constructor :: mip_state where
  "mip_constructor =
     \<lparr>trace = [], matSnackBarRef = None, requests = [], dialogs = [],
      mip_columns = [''hostname'', ''ip_address'', ''deployment_type'', ''state'', ''actions''],
      mips = [], mip_settings = JObj [], mip_next_ref = 0\<rparr>"

section \<open>The table\<close>

fun mip_apply_jobs :: "js list \<Rightarrow> js \<Rightarrow> js_error + js" where
  "mip_apply_jobs [] node = Inr node"
| "mip_apply_jobs (job # jobs) node =
     sbind (js_index job ''name'') (\<lambda>name.
       mip_apply_jobs jobs
         (if name = JStr ''deploy'' then js_set node ''isDeployed'' (js_get job ''complete'') else node))"

definition mip_read_node :: "js \<Rightarrow> js_error + js" where
  "mip_read_node node =
     sbind (js_index node ''jobs'') (\<lambda>jobs.
       if notUndefNull jobs
       then (case js_iterate jobs of None \<Rightarrow> Inl TypeError | Some js \<Rightarrow> mip_apply_jobs js node)
       else Inr node)"

definition mip_set_mips :: "jsobj list \<Rightarrow> mip_state \<Rightarrow> mip_state" where
  "mip_set_mips ms s = s\<lparr>mips := ms\<rparr>"

definition mip_update_mips_data :: "js list \<Rightarrow> mip_state \<Rightarrow> js_error + mip_state" where
  "mip_update_mips_data vs s =
     smap (\<lambda>rows.
        let obs = new_objs (mip_next_ref s) rows
        in mip_set_mips (filter (\<lambda>ob. fld ob ''node_type'' = MIP) obs)
             (s\<lparr>mip_next_ref := mip_next_ref s + length rows\<rparr>))
      (mapS mip_read_node vs)"

section \<open>Buttons\<close>

text \<open>The first job named \<open>create\<close> decides.\<close>

fun mip_create_done :: "js list \<Rightarrow> js_error + js" where
  "mip_create_done [] = Inr (JBool True)"
| "mip_create_done (job # jobs) =
     sbind (js_index job ''name'') (\<lambda>name.
       if name = JStr ''create''
       then Inr (if truthy (js_get job ''complete'') then js_get job ''complete'' else js_get job ''error'')
       else mip_create_done jobs)"

definition mip_can_delete_node :: "jsobj \<Rightarrow> js_error + js" where
  "mip_can_delete_node node =
     (case js_iterate (fld node ''jobs'') of None \<Rightarrow> Inl TypeError | Some jobs \<Rightarrow> mip_create_done jobs)"

definition mip_disable_add_mip_button :: "mip_state \<Rightarrow> bool" where
  "mip_disable_add_mip_button s \<longleftrightarrow>
     (if notUndefNull (mip_settings s) then length (js_keys (mip_settings s)) = 0 else True)"

section \<open>Requests and user actions\<close>

definition mip_api_get_nodes :: "mip_state \<Rightarrow> mip_state" where
  "mip_api_get_nodes = call get_nodes MIP_Nodes"

definition mip_api_get_mip_settings :: "mip_state \<Rightarrow> mip_state" where
  "mip_api_get_mip_settings = call get_mip_settings MIP_Settings"

definition mip_api_add_mip :: "js \<Rightarrow> mip_state \<Rightarrow> mip_state" where
  "mip_api_add_mip node_form_group = call (addMip (js_get node_form_group ''rawValue'')) MIP_Add"

definition mip_api_delete_node :: "jsobj \<Rightarrow> mip_state \<Rightarrow> mip_state" where
  "mip_api_delete_node node = call (delete_node (fld node ''hostname'')) MIP_Delete"

definition mip_ngOnInit :: "mip_state \<Rightarrow> mip_state" where
  "mip_ngOnInit s = mip_api_get_mip_settings (mip_api_get_nodes (emit (SetTitle ''MIP Management'') s))"

definition mip_open_mip_info_dialog_window :: "jsobj \<Rightarrow> mip_state \<Rightarrow> mip_state" where
  "mip_open_mip_info_dialog_window mip = emit (DialogOpen ''NodeInfoDialogComponent'' (obj_val mip))"

definition mip_open_delete_node_confirm_dialog_window :: "jsobj \<Rightarrow> mip_state \<Rightarrow> mip_state" where
  "mip_open_delete_node_confirm_dialog_window mip =
     open_dialog ''ConfirmDialogComponent''
       (JObj [(''title'', JStr (''Delete '' @ str (fld mip ''hostname'') @ ''?'')),
              (''message'', JStr (''Are you sure you want delete '' @ str (fld mip ''hostname'') @ ''?'')),
              (''option1'', JStr CANCEL_DIALOG_OPTION), (''option2'', JStr CONFIRM_DIALOG_OPTION)])
       (MIP_ConfirmDelete mip)"

text \<open>\<open>mip.isRemoving = true\<close>, seen in the table when the object is one of its rows.\<close>

definition mip_mark_removing :: "jsobj \<Rightarrow> mip_state \<Rightarrow> mip_state" where
  "mip_mark_removing mip s =
     s\<lparr>mips := map (\<lambda>ob. if obj_ref ob = obj_ref mip
        then ob\<lparr>obj_val := js_set (obj_val ob) ''isRemoving'' (JBool True)\<rparr> else ob) (mips s)\<rparr>"

definition mip_open_delete_node_confirm_dialog_window_closed :: "jsobj \<Rightarrow> js \<Rightarrow> mip_state \<Rightarrow> mip_state" where
  "mip_open_delete_node_confirm_dialog_window_closed mip response s =
     (if response = JStr CONFIRM_DIALOG_OPTION then mip_api_delete_node mip (mip_mark_removing mip s) else s)"

definition mip_open_add_mip_dialog_window :: "mip_state \<Rightarrow> mip_state" where
  "mip_open_add_mip_dialog_window = open_dialog ''AddMipDialogComponent'' JUndef MIP_AddMip"

definition mip_open_add_mip_dialog_window_closed :: "js \<Rightarrow> mip_state \<Rightarrow> mip_state" where
  "mip_open_add_mip_dialog_window_closed response s =
     (if notUndefNull response \<and> truthy (js_get response ''valid'') then mip_api_add_mip response s else s)"

definition mip_node_state_change :: "js \<Rightarrow> mip_state \<Rightarrow> mip_state" where
  "mip_node_state_change data s =
     (case js_iterate data of None \<Rightarrow> s | Some vs \<Rightarrow> settle s (mip_update_mips_data vs s))"

section \<open>Error messages\<close>

text \<open>\<open>construct_post_validation_error_message_\<close>, also used by the dialog that adds a node. A property
  that is no array has no \<open>forEach\<close>.\<close>

definition post_validation_block :: "js \<Rightarrow> string \<Rightarrow> js_error + string" where
  "post_validation_block post_validation key =
     (case js_get post_validation key of
        JArr errors \<Rightarrow> Inr (js_join nl (map (\<lambda>e. key @ '':     '' @ str e) errors))
      | _ \<Rightarrow> Inl TypeError)"

definition construct_post_validation_error_message :: "js \<Rightarrow> string list \<Rightarrow> js_error + string" where
  "construct_post_validation_error_message post_validation post_validation_keys =
     smap (js_join (nl @ nl)) (mapS (post_validation_block post_validation) post_validation_keys)"

text \<open>The accumulator of the branch for arrays is declared without a value, so the message starts with
  the text of \<open>undefined\<close>; without elements it is \<open>undefined\<close>.\<close>

definition post_validation_list_message :: "js list \<Rightarrow> js" where
  "post_validation_list_message messages =
     (if messages = [] then JUndef else JStr (''undefined'' @ js_join nl (map str messages)))"

definition show_post_validation :: "js \<Rightarrow> 'a world_scheme \<Rightarrow> 'a world_scheme" where
  "show_post_validation post_validation s =
     (let show_message = (\<lambda>m. displaySnackBar m (Some MAT_SNACKBAR_CONFIGURATION_60000_DUR) s)
      in case post_validation of
           JArr messages \<Rightarrow> show_message (post_validation_list_message messages)
         | JObj kvs \<Rightarrow>
             (case construct_post_validation_error_message post_validation (js_keys post_validation) of
                Inl _ \<Rightarrow> s
              | Inr m \<Rightarrow> show_message (JStr m))
         | JNull \<Rightarrow> s
         | _ \<Rightarrow> show_message (JStr ''Post validation message was not returned in correct format''))"

text \<open>The snack bar is opened inside the loop over the keys; a property that is no array ends the
  callback.\<close>

definition field_messages :: "string \<Rightarrow> bool \<Rightarrow> js list \<Rightarrow> string" where
  "field_messages key more_keys ms =
     concat (map (\<lambda>(i, m). key @ '': '' @ str m @ (if Suc i < length ms \<or> more_keys then nl else [])) (enumerate 0 ms))"

fun show_validation_errors :: "js \<Rightarrow> string list \<Rightarrow> string \<Rightarrow> 'a world_scheme \<Rightarrow> 'a world_scheme" where
  "show_validation_errors messages [] error_message s = s"
| "show_validation_errors messages (key # field_keys) error_message s =
     (case js_get messages key of
        JArr ms \<Rightarrow>
          let error_message' = error_message @ field_messages key (field_keys \<noteq> []) ms
          in show_validation_errors messages field_keys error_message'
               (displaySnackBar (JStr error_message') (Some MAT_SNACKBAR_CONFIGURATION_60000_DUR) s)
      | _ \<Rightarrow> s)"

section \<open>Answers\<close>

definition mip_api_get_nodes_answer :: "reply \<Rightarrow> mip_state \<Rightarrow> mip_state" where
  "mip_api_get_nodes_answer =
     answered get_nodes (\<lambda>response s. settle s (mip_update_mips_data response s))
       (report_error_or_message ''retrieving nodes'')"

definition mip_api_get_mip_settings_answer :: "reply \<Rightarrow> mip_state \<Rightarrow> mip_state" where
  "mip_api_get_mip_settings_answer =
     answered get_mip_settings (\<lambda>response s. s\<lparr>mip_settings := response\<rparr>)
       (report_error_or_message ''retrieving mip settings'')"

definition mip_api_add_mip_error :: "api_error \<Rightarrow> 'a world_scheme \<Rightarrow> 'a world_scheme" where
  "mip_api_add_mip_error error s =
     (case error of
        ErrorMessageClass m \<Rightarrow> displaySnackBar m (Some MAT_SNACKBAR_CONFIGURATION_60000_DUR) s
      | ValidationErrorClass _ messages \<Rightarrow> show_validation_errors messages (js_keys messages) [] s
      | PostValidationClass post_validation \<Rightarrow> show_post_validation post_validation s
      | HttpErrorResponse _ \<Rightarrow> report_error ''adding mip'' s)"

definition mip_api_add_mip_answer :: "reply \<Rightarrow> mip_state \<Rightarrow> mip_state" where
  "mip_api_add_mip_answer =
     answered (addMip JUndef)
       (\<lambda>_. generate_return_success_snackbar_message ''requested add mip'' (Some MAT_SNACKBAR_CONFIGURATION_60000_DUR))
       mip_api_add_mip_error"

definition mip_api_delete_node_answer :: "reply \<Rightarrow> mip_state \<Rightarrow> mip_state" where
  "mip_api_delete_node_answer =
     answered (delete_node JUndef)
       (\<lambda>_. generate_return_success_snackbar_message ''requested delete node'' (Some MAT_SNACKBAR_CONFIGURATION_60000_DUR))
       (report_error_or_message ''deleting nodes'')"

section \<open>The component as a machine\<close>

text \<open>A button that the template hides or disables does nothing.\<close>

datatype mip_action =
    MIP_OnInit | MIP_InfoClick nat | MIP_DeleteClick nat | MIP_AddClick | MIP_NodeStateChange js

definition mip_can_click_delete :: "jsobj \<Rightarrow> bool" where
  "mip_can_click_delete mip \<longleftrightarrow>
     (case mip_can_delete_node mip of Inl _ \<Rightarrow> False | Inr v \<Rightarrow> truthy v) \<and> \<not> truthy (fld mip ''isRemoving'')"

fun mip_handle :: "mip_action \<Rightarrow> mip_state \<Rightarrow> mip_state" where
  "mip_handle MIP_OnInit s = mip_ngOnInit s"
| "mip_handle (MIP_InfoClick i) s =
     (if i < length (mips s) then mip_open_mip_info_dialog_window (mips s ! i) s else s)"
| "mip_handle (MIP_DeleteClick i) s =
     (if i < length (mips s) \<and> mip_can_click_delete (mips s ! i)
      then mip_open_delete_node_confirm_dialog_window (mips s ! i) s else s)"
| "mip_handle MIP_AddClick s = (if mip_disable_add_mip_button s then s else mip_open_add_mip_dialog_window s)"
| "mip_handle (MIP_NodeStateChange data) s = mip_node_state_change data s"

fun mip_answer :: "mip_request \<Rightarrow> reply \<Rightarrow> mip_state \<Rightarrow> mip_state" where
  "mip_answer MIP_Nodes = mip_api_get_nodes_answer"
| "mip_answer MIP_Settings = mip_api_get_mip_settings_answer"
| "mip_answer MIP_Add = mip_api_add_mip_answer"
| "mip_answer MIP_Delete = mip_api_delete_node_answer"

fun mip_closed :: "mip_dialog \<Rightarrow> js \<Rightarrow> mip_state \<Rightarrow> mip_state" where
  "mip_closed (MIP_ConfirmDelete mip) = mip_open_delete_node_confirm_dialog_window_closed mip"
| "mip_closed MIP_AddMip = mip_open_add_mip_dialog_window_closed"

definition mip_step :: "mip_action event \<Rightarrow> mip_state \<Rightarrow> mip_state" where
  "mip_step = async_step mip_handle mip_answer mip_closed"

section \<open>Invariant\<close>

definition mip_table :: "mip_state \<Rightarrow> bool" where
  "mip_table s \<longleftrightarrow>
     (\<forall>ob \<in> set (mips s). fld ob ''node_type'' = MIP \<and> obj_ref ob < mip_next_ref s) \<and> distinct (map obj_ref (mips s))"

definition mip_inv :: "mip_state \<Rightarrow> bool" where
  "mip_inv s \<longleftrightarrow> snack_ok s \<and> mip_table s"

lemma mip_more:
  "async.more s' = async.more s \<Longrightarrow> mips s' = mips s \<and> mip_next_ref s' = mip_next_ref s \<and> mip_settings s' = mip_settings s"
  for s s' :: mip_state
  by (cases s; cases s') simp

lemma mip_inv_frame: "mip_inv s \<Longrightarrow> async.more s' = async.more s \<Longrightarrow> snack_ok s' \<Longrightarrow> mip_inv s'"
  using mip_more [of s' s] by (simp add: mip_inv_def mip_table_def)

lemma mip_inv_more:
  "mip_inv s \<Longrightarrow> world.more s' = world.more s \<Longrightarrow> (snack_ok s \<Longrightarrow> snack_ok s') \<Longrightarrow> sent s' = sent s \<Longrightarrow> mip_inv s'"
  using mip_inv_frame [of s s'] world_more_async [of s' s] by (simp add: mip_inv_def)

lemmas mip_inv_answered = answered_inv [where P = mip_inv, OF _ _ mip_inv_more]

lemma mip_inv_basic [simp, intro]:
  assumes "mip_inv s"
  shows "mip_inv (call ep k s)" "mip_inv (open_dialog n v d s)" "mip_inv (displaySnackBar m c s)"
    "mip_inv (report_error msg s)" "mip_inv (report_error_or_message msg e s)"
    "mip_inv (generate_return_success_snackbar_message msg c s)"
    "mip_inv (emit (SetTitle msg) s)" "mip_inv (emit (DialogOpen msg v) s)"
proof -
  have "snack_ok s" using assms by (simp add: mip_inv_def)
  then show "mip_inv (call ep k s)" "mip_inv (open_dialog n v d s)" "mip_inv (displaySnackBar m c s)"
    "mip_inv (report_error msg s)" "mip_inv (report_error_or_message msg e s)"
    "mip_inv (generate_return_success_snackbar_message msg c s)"
    "mip_inv (emit (SetTitle msg) s)" "mip_inv (emit (DialogOpen msg v) s)"
    by (simp_all add: mip_inv_frame [OF assms] snack_ok_emit)
qed

lemma mip_inv_updates [simp]:
  "mip_inv (s\<lparr>requests := ks\<rparr>) = mip_inv s" "mip_inv (s\<lparr>dialogs := ds\<rparr>) = mip_inv s"
  "mip_inv (s\<lparr>mip_settings := v\<rparr>) = mip_inv s"
  by (simp_all add: mip_inv_def mip_table_def snack_ok_def)

lemma mip_inv_mark [simp, intro]: "mip_inv s \<Longrightarrow> mip_inv (mip_mark_removing mip s)"
  by (auto simp: mip_inv_def mip_table_def snack_ok_def mip_mark_removing_def o_def js_get_set_other if_distrib
      cong: if_cong)

lemma mip_settle_update [simp, intro]: "mip_inv s \<Longrightarrow> mip_inv (settle s (mip_update_mips_data vs s))"
  using new_objs_simps(1) [of "mip_next_ref s"] new_objs_ref [of _ "mip_next_ref s"]
  by (cases "mapS mip_read_node vs")
    (auto simp: mip_update_mips_data_def settle_def mip_set_mips_def mip_inv_def mip_table_def snack_ok_def Let_def
      distinct_map_filter)

lemma show_validation_frame [simp]:
  "world.more (show_validation_errors messages ks acc s) = world.more s"
  "sent (show_validation_errors messages ks acc s) = sent s"
  "snack_ok s \<Longrightarrow> snack_ok (show_validation_errors messages ks acc s)"
  by (induction ks arbitrary: acc s) (auto simp: Let_def split: js.splits)

lemma show_post_validation_frame [simp]:
  "world.more (show_post_validation v s) = world.more s"
  "sent (show_post_validation v s) = sent s"
  "snack_ok s \<Longrightarrow> snack_ok (show_post_validation v s)"
  by (auto simp: show_post_validation_def Let_def split: js.splits sum.splits)

lemma mip_add_error_frame [simp]:
  "world.more (mip_api_add_mip_error e s) = world.more s"
  "sent (mip_api_add_mip_error e s) = sent s"
  "snack_ok s \<Longrightarrow> snack_ok (mip_api_add_mip_error e s)"
  by (auto simp: mip_api_add_mip_error_def split: api_error.splits)

lemma mip_inv_add_error [simp, intro]: "mip_inv s \<Longrightarrow> mip_inv (mip_api_add_mip_error e s)"
  by (rule mip_inv_more) simp_all

lemmas mip_act_defs =
  mip_ngOnInit_def mip_api_get_nodes_def mip_api_get_mip_settings_def mip_open_mip_info_dialog_window_def
  mip_open_delete_node_confirm_dialog_window_def mip_open_add_mip_dialog_window_def mip_node_state_change_def
  mip_open_delete_node_confirm_dialog_window_closed_def mip_open_add_mip_dialog_window_closed_def
  mip_api_add_mip_def mip_api_delete_node_def

lemmas mip_answer_defs =
  mip_api_get_nodes_answer_def mip_api_get_mip_settings_answer_def mip_api_add_mip_answer_def
  mip_api_delete_node_answer_def

lemma mip_handle_inv: "mip_inv s \<Longrightarrow> mip_inv (mip_handle a s)"
  by (cases a) (auto simp: mip_act_defs split: option.splits)

lemma mip_answer_inv: "mip_inv s \<Longrightarrow> mip_inv (mip_answer k r s)"
  by (cases k) (auto simp: mip_answer_defs intro!: mip_inv_answered)

lemma mip_closed_inv: "mip_inv s \<Longrightarrow> mip_inv (mip_closed d v s)"
  by (cases d) (auto simp: mip_act_defs)

interpretation mip: async_component mip_handle mip_answer mip_closed mip_inv
  by unfold_locales (simp_all add: mip_handle_inv mip_answer_inv mip_closed_inv)

section \<open>Requests that delete\<close>

lemma mip_deletes_updates [simp]:
  "deletes (s\<lparr>mip_settings := v\<rparr>) = deletes s" "deletes (mip_mark_removing mip s) = deletes s"
  by (simp_all add: deletes_def sent_def mip_mark_removing_def)

lemma mip_deletes_settle [simp]: "deletes (settle s (mip_update_mips_data vs s)) = deletes s"
  by (cases "mapS mip_read_node vs")
    (simp_all add: mip_update_mips_data_def settle_def mip_set_mips_def deletes_def sent_def Let_def)

lemma mip_deletes_handle [simp]: "deletes (mip_handle a s) = deletes s"
  by (cases a) (auto simp: mip_act_defs get_nodes_def get_mip_settings_def split: option.splits)

lemma mip_deletes_answer [simp]: "deletes (mip_answer k r s) = deletes s"
  by (cases k) (auto simp: mip_answer_defs intro!: deletes_answered, simp add: deletes_def)

definition mip_confirmed_delete :: "mip_action event \<Rightarrow> mip_state \<Rightarrow> effect list" where
  "mip_confirmed_delete ev s =
     (case ev of
        Closed i v \<Rightarrow>
          if i < length (dialogs s) \<and> v = JStr ''Confirm'' then
            (case dialogs s ! i of
               MIP_ConfirmDelete mip \<Rightarrow> [Http DELETE (''/api/kit/node/'' @ str (fld mip ''hostname'')) JUndef]
             | MIP_AddMip \<Rightarrow> [])
          else []
      | _ \<Rightarrow> [])"

lemma mip_deletes_closed:
  "deletes (mip_closed d v s) = deletes s @
     (if v = JStr ''Confirm'' then
        (case d of MIP_ConfirmDelete mip \<Rightarrow> [Http DELETE (''/api/kit/node/'' @ str (fld mip ''hostname'')) JUndef]
         | MIP_AddMip \<Rightarrow> [])
      else [])"
  by (cases d) (auto simp: mip_act_defs delete_node_def addMip_def)

section \<open>What the page guarantees\<close>

lemma mark_row:
  assumes "distinct (map obj_ref obs)" "i < length obs"
  shows "map (\<lambda>q. if obj_ref q = obj_ref (obs ! i) then f q else q) obs = obs[i := f (obs ! i)]"
proof (rule nth_equalityI)
  fix j assume "j < length (map (\<lambda>q. if obj_ref q = obj_ref (obs ! i) then f q else q) obs)"
  with assms show "map (\<lambda>q. if obj_ref q = obj_ref (obs ! i) then f q else q) obs ! j = obs[i := f (obs ! i)] ! j"
    using nth_eq_iff_index_eq [of "map obj_ref obs" j i] by (cases "j = i") simp_all
qed simp

text \<open>in every state the page can reach, the table holds MIP nodes only, no row is shown twice, and no
  snack bar is dismissed twice.\<close>

theorem mip_always:
  "let s = fold mip_step es mip_constructor
   in list_all (\<lambda>ob. fld ob ''node_type'' = MIP) (mips s) \<and> distinct (map obj_ref (mips s)) \<and> snack_ok s"
proof -
  have "mip_inv mip_constructor"
    by (simp add: mip_constructor_def mip_inv_def mip_table_def snack_ok_def)
  from mip.machine.run_inv [OF this, of es] show ?thesis
    by (simp add: mip_step_def mip_inv_def mip_table_def Let_def list_all_iff)
qed

text \<open>a MIP is deleted in the backend exactly when the dialog opened for its row is closed with Confirm.\<close>

theorem mip_deletes_confirmed:
  "deletes (mip_step ev s) = deletes s @ mip_confirmed_delete ev s"
  by (cases ev) (simp_all add: mip_step_def async_step_def mip_confirmed_delete_def mip_deletes_closed)

text \<open>the row of a MIP is marked as being removed when the dialog is confirmed, before the backend has
  answered; when the request fails the mark stays, so the delete button of the row is disabled until the
  table is loaded again.\<close>

theorem mip_failed_delete_stays_marked:
  assumes "mip_inv s" "requests s = []" "dialogs s = []" "i < length (mips s)"
    "mip_can_click_delete (mips s ! i)" "obj_val (mips s ! i) = JObj kvs"
    "s' = fold mip_step [Act (MIP_DeleteClick i), Closed 0 (JStr ''Confirm''), Answer 0 (Failure f)] s"
  shows "mips s' = (mips s)[i := (mips s ! i)\<lparr>obj_val := js_set (JObj kvs) ''isRemoving'' (JBool True)\<rparr>] \<and>
    \<not> mip_can_click_delete (mips s' ! i) \<and>
    mip_step (Act (MIP_DeleteClick i)) s' = s'"
proof -
  obtain ob where ob: "mips s ! i = ob" by simp
  let ?mark = "\<lambda>q. if obj_ref q = obj_ref ob then q\<lparr>obj_val := js_set (obj_val q) ''isRemoving'' (JBool True)\<rparr> else q"
  have "distinct (map obj_ref (mips s))" using assms(1) by (simp add: mip_inv_def mip_table_def)
  then have mark: "map ?mark (mips s) = (mips s)[i := ob\<lparr>obj_val := js_set (JObj kvs) ''isRemoving'' (JBool True)\<rparr>]"
    using assms(4,6) ob mark_row [of "mips s" i "\<lambda>q. q\<lparr>obj_val := js_set (obj_val q) ''isRemoving'' (JBool True)\<rparr>"]
    by simp
  obtain d where d: "mip_open_delete_node_confirm_dialog_window ob s = d" by simp
  obtain t where t: "mip_mark_removing ob (d\<lparr>dialogs := []\<rparr>) = t" by simp
  have "mips d = mips s" "requests d = []" "dialogs d = [MIP_ConfirmDelete ob]"
    using mip_more [of d s] assms(2,3) d by (auto simp: mip_open_delete_node_confirm_dialog_window_def)
  then have t_fields: "mips t = map ?mark (mips s)" "requests t = []" "dialogs d = [MIP_ConfirmDelete ob]"
    by (simp_all add: t [symmetric] mip_mark_removing_def)
  let ?c = "mip_api_delete_node ob t"
  have reqs: "requests ?c = [MIP_Delete]" "mips ?c = map ?mark (mips s)"
    using mip_more [of ?c t] t_fields by (simp_all add: mip_api_delete_node_def)
  have s': "s' = mip_answer MIP_Delete (Failure f) (?c\<lparr>requests := []\<rparr>)"
    using assms(4,5) ob reqs t_fields unfolding assms(7)
    by (simp add: mip_step_def async_step_def d t remove_nth_def mip_open_delete_node_confirm_dialog_window_closed_def)
  have more: "world.more s' = world.more (?c\<lparr>requests := []\<rparr>)"
    unfolding s' by (simp add: mip_api_delete_node_answer_def answered_failure)
  have rows: "mips s' = (mips s)[i := ob\<lparr>obj_val := js_set (JObj kvs) ''isRemoving'' (JBool True)\<rparr>]"
    using mip_more [OF world_more_async [OF more]] reqs(2) mark by simp
  moreover have "\<not> mip_can_click_delete (mips s' ! i)"
    using assms(4) by (simp add: rows mip_can_click_delete_def)
  ultimately show ?thesis
    using assms(4) ob by (simp add: mip_step_def async_step_def)
qed

theorem mip_failed_delete_stays_marked_witness:
  "\<forall>f. let ob = \<lparr>obj_ref = 0, obj_val = JObj [(''node_type'', MIP), (''hostname'', JStr ''m''), (''jobs'', JArr [])]\<rparr>;
          s = mip_constructor\<lparr>mips := [ob], mip_next_ref := 1\<rparr>
      in \<not> mip_can_click_delete (mips (fold mip_step
           [Act (MIP_DeleteClick 0), Closed 0 (JStr ''Confirm''), Answer 0 (Failure f)] s) ! 0)"
proof (intro allI)
  fix f
  let ?ob = "\<lparr>obj_ref = 0, obj_val = JObj [(''node_type'', MIP), (''hostname'', JStr ''m''), (''jobs'', JArr [])]\<rparr>"
  let ?s = "mip_constructor\<lparr>mips := [?ob], mip_next_ref := 1\<rparr>"
  have "mip_inv ?s" "requests ?s = []" "dialogs ?s = []" "0 < length (mips ?s)" "mip_can_click_delete (mips ?s ! 0)"
    "obj_val (mips ?s ! 0) = JObj [(''node_type'', MIP), (''hostname'', JStr ''m''), (''jobs'', JArr [])]"
    by (simp_all add: mip_constructor_def mip_inv_def mip_table_def snack_ok_def mip_can_click_delete_def
        mip_can_delete_node_def)
  from mip_failed_delete_stays_marked [where f = f, OF this refl, THEN conjunct2, THEN conjunct1]
  show "let ob = ?ob; s = mip_constructor\<lparr>mips := [ob], mip_next_ref := 1\<rparr>
      in \<not> mip_can_click_delete (mips (fold mip_step
           [Act (MIP_DeleteClick 0), Closed 0 (JStr ''Confirm''), Answer 0 (Failure f)] s) ! 0)"
    by (simp add: Let_def)
qed

lemma show_validation_snacks:
  assumes "\<forall>k \<in> set keys. \<exists>ms. js_get messages k = JArr ms"
  shows "snack_count (trace (show_validation_errors messages keys acc s)) = snack_count (trace s) + length keys"
  using assms
proof (induction keys arbitrary: acc s)
  case (Cons k keys)
  then obtain ms where "js_get messages k = JArr ms" by auto
  with Cons show ?case by (simp add: Let_def display_opens_one)
qed simp

lemma show_validation_snoc:
  assumes "\<forall>k \<in> set (keys @ [k]). \<exists>ms. js_get messages k = JArr ms"
  shows "\<exists>u. show_validation_errors messages (keys @ [k]) acc s = displaySnackBar
     (JStr (acc @ concat (map (\<lambda>k'. field_messages k' True (arr_elems (js_get messages k'))) keys) @
            field_messages k False (arr_elems (js_get messages k))))
     (Some MAT_SNACKBAR_CONFIGURATION_60000_DUR) u"
  using assms
proof (induction keys arbitrary: acc s)
  case Nil
  then obtain ms where "js_get messages k = JArr ms" by auto
  then show ?case by (auto simp: Let_def)
next
  case (Cons j keys)
  then obtain ms where "js_get messages j = JArr ms" by auto
  with Cons.prems Cons.IH [of "acc @ field_messages j True ms" "displaySnackBar (JStr (acc @ field_messages j True ms))
      (Some MAT_SNACKBAR_CONFIGURATION_60000_DUR) s"]
  show ?case by (simp add: Let_def)
qed

text \<open>when the backend rejects the fields of a new MIP, one snack bar is opened for every rejected
  field, the last of which holds the messages of all fields; so with several fields the user sees the
  earlier ones flash by.\<close>

theorem mip_one_snack_bar_per_field:
  assumes "js_keys messages = keys @ [k]" "\<forall>k \<in> set (js_keys messages). \<exists>ms. js_get messages k = JArr ms"
    "s' = mip_api_add_mip_error (ValidationErrorClass code messages) s"
  shows "snack_count (trace s') = snack_count (trace s) + length (js_keys messages) \<and>
    (\<exists>l d p. last (trace s') = SnackOpen (JStr
       (concat (map (\<lambda>k'. field_messages k' True (arr_elems (js_get messages k'))) keys) @
        field_messages k False (arr_elems (js_get messages k)))) l d p)"
proof -
  have s': "s' = show_validation_errors messages (keys @ [k]) [] s"
    using assms(1,3) by (simp add: mip_api_add_mip_error_def)
  obtain u where u: "s' = displaySnackBar
     (JStr (concat (map (\<lambda>k'. field_messages k' True (arr_elems (js_get messages k'))) keys) @
            field_messages k False (arr_elems (js_get messages k))))
     (Some MAT_SNACKBAR_CONFIGURATION_60000_DUR) u"
    using show_validation_snoc [of keys k messages "[]" s] assms(1,2) s' by auto
  have "snack_count (trace s') = snack_count (trace s) + length (keys @ [k])"
    unfolding s' using assms(1,2) by (intro show_validation_snacks) simp
  then show ?thesis
    using display_last [of _ "Some MAT_SNACKBAR_CONFIGURATION_60000_DUR" u] assms(1) unfolding u by simp
qed

theorem mip_one_snack_bar_per_field_witness:
  "\<forall>s :: mip_state. let m = JObj [(''hostname'', JArr [JStr ''a'', JStr ''b'']), (''ip'', JArr [JStr ''c''])]
   in snack_count (trace (mip_api_add_mip_error (ValidationErrorClass (JNum 400) m) s)) = snack_count (trace s) + 2"
proof
  fix s :: mip_state
  let ?m = "JObj [(''hostname'', JArr [JStr ''a'', JStr ''b'']), (''ip'', JArr [JStr ''c''])]"
  have "js_keys ?m = [''hostname''] @ [''ip'']" by simp
  then show "let m = ?m
   in snack_count (trace (mip_api_add_mip_error (ValidationErrorClass (JNum 400) m) s)) = snack_count (trace s) + 2"
    using mip_one_snack_bar_per_field [of ?m "[''hostname'']" "''ip''" _ "JNum 400" s, OF _ _ refl] by (simp add: Let_def)
qed

end
