(* ===== verification/Notifications.thy ===== *)
theory Notifications
  imports Backend Validators
begin

text \<open>
  \<open>modules/notifications/\<close>: the bell of the header (\<open>notifications.component.ts\<close>), its dialog
  (\<open>components/notifications-dialog.component.ts\<close>), \<open>NotificationStaticMethodsClass\<close>
  and \<open>NotificationService\<close>.

  The bell and the dialog hold lists of the same button objects: \<open>NOTIFICATION_BUTTON_LIST.map(nb => nb)\<close>
  copies the list only. One state therefore holds the buttons once and the fields of both components. The
  requests of the dialog carry the number of the dialog that sent them, because their subscriptions end when
  that dialog is closed. The clock is the field \<open>age\<close>: the milliseconds since the time stamp of a
  notification, \<open>None\<close> for a time stamp that is no date; the event \<open>NT_Tick\<close> changes it in any way.
\<close>

section \<open>NotificationService\<close>

definition get_notifications :: "nat \<Rightarrow> string \<Rightarrow> js list endpoint" where
  "get_notifications offset role =
     endpoint GET (''/api/notifications/'' @ show_nat offset @ ''/'' @ role) JUndef ''get notifications''
       (js_map_list new_NotificationClass)"

definition delete_notification :: "js \<Rightarrow> js endpoint" where
  "delete_notification i = endpoint DELETE (''/api/notifications/'' @ str i) JUndef ''delete notification'' as_is"

definition delete_all_notifications :: "js endpoint" where
  "delete_all_notifications = endpoint DELETE ''/api/notifications'' JUndef ''delete all notifications'' as_is"

section \<open>NotificationStaticMethodsClass\<close>

record button =
  btn_name :: string
  btn_title :: string
  btn_role :: string
  btn_icon :: string
  btn_selected :: bool
  notifications :: "js list"

text \<open>The seconds of the source are milliseconds here, so no fraction is lost.\<close>

definition display_time :: "int option \<Rightarrow> string" where
  "display_time timeDifference =
     (case timeDifference of
        None \<Rightarrow> ''??''
      | Some ms \<Rightarrow>
          if ms < 60000 then ''Now''
          else if ms < 3600000 then show_int (ms div 60000) @ '' minute(s) ago''
          else if ms < 86400000 then show_int (ms div 3600000) @ '' hour(s) ago''
          else if ms < 604800000 then show_int (ms div 86400000) @ '' day(s) ago''
          else show_int (ms div 604800000) @ '' week(s) ago'')"

definition set_notification_display_time :: "(js \<Rightarrow> int option) \<Rightarrow> js \<Rightarrow> js" where
  "set_notification_display_time clock n = js_set n ''displayTime'' (JStr (display_time (clock (js_get n ''timestamp''))))"

definition shown_by :: "button \<Rightarrow> js \<Rightarrow> bool" where
  "shown_by nb n \<longleftrightarrow> JStr (btn_role nb) = js_get n ''role'' \<or> btn_role nb = ''all''"

definition add_notification_to_button_list :: "(js \<Rightarrow> int option) \<Rightarrow> js \<Rightarrow> bool \<Rightarrow> button list \<Rightarrow> button list" where
  "add_notification_to_button_list clock n from_websocket =
     map (\<lambda>nb. let n' = set_notification_display_time clock n in
            if shown_by nb n then
              nb\<lparr>notifications := (if from_websocket then n' # notifications nb else notifications nb @ [n'])\<rparr>
            else nb)"

section \<open>State\<close>

datatype nt_request =
    NT_Get
  | ND_Get nat bool
  | ND_Delete nat js
  | ND_DeleteAll nat

datatype nt_dialog = NT_Dialog | ND_ConfirmAll nat

record nt_state = "(nt_request, nt_dialog) async" +
  new_notifications :: "js list"
  notification_button_list :: "button list"
  mat_dialog_ref :: bool
  age :: "js \<Rightarrow> int option"
  dialog_no :: nat
  selected_role :: string
  controller_maintainer_nd :: bool
  offset :: nat
  end_of_scroll :: bool
  button_select_gate_active :: bool

definition nt_button :: "string \<Rightarrow> bool \<Rightarrow> string \<Rightarrow> string \<Rightarrow> string \<Rightarrow> button" where
  "nt_button name selected title role icon =
     \<lparr>btn_name = name, btn_title = title, btn_role = role, btn_icon = icon, btn_selected = selected, notifications = []\<rparr>"

definition NOTIFICATION_BUTTON_LIST :: "button list" where
  "NOTIFICATION_BUTTON_LIST =
     [nt_button ''All'' True ''All Messages'' ''all'' ''dashboard'',
      nt_button ''Catalog'' False ''Catalog Messages'' ''catalog'' ''apps'',
      nt_button ''Settings'' False ''Settings Messages'' ''settings'' ''layers'',
      nt_button ''Nodes'' False ''Nodes Messages'' ''nodes'' ''storage'',
      nt_button ''RuleSync'' False ''RuleSync Messages'' ''rulesync'' ''swap_horiz'',
      nt_button ''ES-Scale'' False ''ES-Scale Messages'' ''scale'' ''tune'',
      nt_button ''Agent'' False ''Agent Messages'' ''agent'' ''desktop_windows'',
      nt_button ''PCAP'' False ''PCAP Replay'' ''pcap'' ''network_check'',
      nt_button ''Cold Log Ingest'' False ''Cold Log Ingest'' ''process_logs'' ''archive'',
      nt_button ''Tools'' False ''Tools Messages'' ''tools'' ''build'',
      nt_button ''Index Management'' False ''Index Management Messages'' ''curator'' ''timeline'']"

definition NUMBER_OF_NOTIFICATION_ITEMS :: nat where
  "NUMBER_OF_NOTIFICATION_ITEMS = 30"

text \<open>The role of the user is read when the dialog is constructed; it does not change while the page is
  open.\<close>

definition nt_constructor :: "bool \<Rightarrow> nt_state" where
  "nt_constructor maintainer =
     \<lparr>trace = [], matSnackBarRef = None, requests = [], dialogs = [],
      new_notifications = [], notification_button_list = NOTIFICATION_BUTTON_LIST, mat_dialog_ref = False,
      age = (\<lambda>_. None), dialog_no = 0, selected_role = ''all'', controller_maintainer_nd = maintainer,
      offset = 0, end_of_scroll = False, button_select_gate_active = False\<rparr>"

section \<open>The dialog\<close>

definition nd_constructor :: "nt_state \<Rightarrow> nt_state" where
  "nd_constructor s =
     s\<lparr>dialog_no := Suc (dialog_no s), offset := 0, end_of_scroll := False, button_select_gate_active := False\<rparr>"

definition nd_api_get_notifications :: "bool \<Rightarrow> nt_state \<Rightarrow> nt_state" where
  "nd_api_get_notifications scroll_element s =
     call (get_notifications (offset s) (selected_role s)) (ND_Get (dialog_no s) scroll_element) s"

text \<open>A button is given by its position in the list; \<open>nb === notification_button\<close> compares objects.\<close>

definition nd_button_select :: "nat \<Rightarrow> nt_state \<Rightarrow> nt_state" where
  "nd_button_select i s =
     nd_api_get_notifications False
       (s\<lparr>offset := 0, end_of_scroll := False, button_select_gate_active := True,
          notification_button_list :=
            map (\<lambda>(j, nb). nb\<lparr>notifications := [], btn_selected := (j = i)\<rparr>) (enumerate 0 (notification_button_list s)),
          selected_role := (if i < length (notification_button_list s)
                            then btn_role (notification_button_list s ! i) else selected_role s)\<rparr>)"

definition nd_ngOnInit :: "nt_state \<Rightarrow> nt_state" where
  "nd_ngOnInit = nd_button_select 0"

text \<open>What the handler reads of the element that was scrolled; an element that lacks one of the three
  numbers is \<open>None\<close>.\<close>

definition nd_host_listener_on_scroll :: "(int \<times> int \<times> int) option \<Rightarrow> nt_state \<Rightarrow> nt_state" where
  "nd_host_listener_on_scroll target s =
     (if button_select_gate_active s then s\<lparr>button_select_gate_active := False\<rparr>
      else if \<not> end_of_scroll s then
        (case target of
           None \<Rightarrow> s
         | Some (offsetHeight, scrollTop, scrollHeight) \<Rightarrow>
             if offsetHeight + scrollTop \<ge> scrollHeight
             then nd_api_get_notifications True (s\<lparr>offset := offset s + NUMBER_OF_NOTIFICATION_ITEMS\<rparr>)
             else s)
      else s)"

definition nd_api_delete_notification :: "js \<Rightarrow> nt_state \<Rightarrow> nt_state" where
  "nd_api_delete_notification n s =
     call (delete_notification (js_get n ''_id'')) (ND_Delete (dialog_no s) n) s"

definition nd_delete_notification :: "js \<Rightarrow> nt_state \<Rightarrow> nt_state" where
  "nd_delete_notification n = nd_api_delete_notification n"

definition nd_api_delete_all_notifications :: "nt_state \<Rightarrow> nt_state" where
  "nd_api_delete_all_notifications s = call delete_all_notifications (ND_DeleteAll (dialog_no s)) s"

definition nd_open_delete_all_notification_dialog_window :: "nt_state \<Rightarrow> nt_state" where
  "nd_open_delete_all_notification_dialog_window s =
     open_dialog ''ConfirmDialogComponent''
       (JObj [(''title'', JStr ''Delete All Notifications''),
              (''message'', JStr ''Are you sure you want to delete all notifications?''),
              (''option1'', JStr ''Cancel''), (''option2'', JStr ''Confirm'')])
       (ND_ConfirmAll (dialog_no s)) s"

definition nd_open_delete_all_closed :: "js \<Rightarrow> nt_state \<Rightarrow> nt_state" where
  "nd_open_delete_all_closed response s =
     (if response = JStr ''Confirm'' then nd_api_delete_all_notifications s else s)"

definition add_all :: "(js \<Rightarrow> int option) \<Rightarrow> js list \<Rightarrow> button list \<Rightarrow> button list" where
  "add_all clock ns bs = fold (\<lambda>n. add_notification_to_button_list clock n False) ns bs"

definition nd_api_get_notifications_answer :: "bool \<Rightarrow> reply \<Rightarrow> nt_state \<Rightarrow> nt_state" where
  "nd_api_get_notifications_answer scroll_element =
     answered (get_notifications 0 [])
       (\<lambda>response s.
          let s1 = s\<lparr>notification_button_list := add_all (age s) response (notification_button_list s)\<rparr>
          in if scroll_element then s1\<lparr>end_of_scroll := (length response = 0)\<rparr> else s1)
       (\<lambda>_. report_error ''getting all notifications'')"

definition nd_api_delete_notification_answer :: "js \<Rightarrow> reply \<Rightarrow> nt_state \<Rightarrow> nt_state" where
  "nd_api_delete_notification_answer n =
     answered (delete_notification JUndef)
       (\<lambda>_ s. generate_return_success_snackbar_message ''deleted notification'' (Some MAT_SNACKBAR_CONFIGURATION_3000_DUR)
          (s\<lparr>notification_button_list :=
               map (\<lambda>nb. nb\<lparr>notifications :=
                  filter (\<lambda>m. \<not> strict_eq (js_get m ''_id'') (js_get n ''_id'')) (notifications nb)\<rparr>)
                 (notification_button_list s)\<rparr>))
       (\<lambda>_. report_error ''deleting notification'')"

definition nd_api_delete_all_notifications_answer :: "reply \<Rightarrow> nt_state \<Rightarrow> nt_state" where
  "nd_api_delete_all_notifications_answer =
     answered delete_all_notifications
       (\<lambda>_ s. generate_return_success_snackbar_message ''deleted all notifications'' (Some MAT_SNACKBAR_CONFIGURATION_3000_DUR)
          (s\<lparr>notification_button_list := map (\<lambda>nb. nb\<lparr>notifications := []\<rparr>) (notification_button_list s)\<rparr>))
       (\<lambda>_. report_error ''deleting all notifications'')"

section \<open>The bell\<close>

definition nt_api_get_notifications :: "nt_state \<Rightarrow> nt_state" where
  "nt_api_get_notifications = call (get_notifications 0 ''all'') NT_Get"

definition nt_api_get_notifications_answer :: "reply \<Rightarrow> nt_state \<Rightarrow> nt_state" where
  "nt_api_get_notifications_answer =
     answered (get_notifications 0 ''all'')
       (\<lambda>response s. s\<lparr>notification_button_list := add_all (age s) response (notification_button_list s)\<rparr>)
       (\<lambda>_. report_error ''getting all notifications'')"

definition nt_ngOnInit :: "nt_state \<Rightarrow> nt_state" where
  "nt_ngOnInit = nt_api_get_notifications"

text \<open>Opening the dialog constructs and initialises its component.\<close>

definition nt_open_notification_dialog_window :: "nt_state \<Rightarrow> nt_state" where
  "nt_open_notification_dialog_window s =
     nd_ngOnInit (nd_constructor
       (open_dialog ''NotificationsDialogComponent'' (JObj [(''title'', JStr ''Notifications'')]) NT_Dialog
         (s\<lparr>new_notifications := [], mat_dialog_ref := True\<rparr>)))"

definition nt_open_notification_dialog_window_closed :: "nt_state \<Rightarrow> nt_state" where
  "nt_open_notification_dialog_window_closed s = (nt_api_get_notifications s)\<lparr>mat_dialog_ref := False\<rparr>"

text \<open>A broadcast of the web socket reaches the bell and, when it is open, the dialog. The object that
  the bell keeps gets its display time when it is added to the buttons.\<close>

definition nt_setup_websocket_onbroadcast :: "js \<Rightarrow> nt_state \<Rightarrow> nt_state" where
  "nt_setup_websocket_onbroadcast n s =
     (if \<not> mat_dialog_ref s
      then s\<lparr>new_notifications := new_notifications s @ [set_notification_display_time (age s) n],
             notification_button_list := add_notification_to_button_list (age s) n True (notification_button_list s)\<rparr>
      else s)"

definition nd_setup_websocket_onbroadcast :: "js \<Rightarrow> nt_state \<Rightarrow> nt_state" where
  "nd_setup_websocket_onbroadcast n s =
     s\<lparr>notification_button_list := add_notification_to_button_list (age s) n True (notification_button_list s)\<rparr>"

definition onBroadcast :: "js \<Rightarrow> nt_state \<Rightarrow> nt_state" where
  "onBroadcast response s =
     (case new_NotificationClass response of
        Inl _ \<Rightarrow> s
      | Inr n \<Rightarrow>
          let s1 = nt_setup_websocket_onbroadcast n s
          in if mat_dialog_ref s then nd_setup_websocket_onbroadcast n s1 else s1)"

section \<open>The components as one machine\<close>

text \<open>The dialog covers the page, so the bell is not clicked while it is open; its delete buttons are for
  maintainers.\<close>

datatype nt_action =
    NT_OnInit | NT_Tick "js \<Rightarrow> int option" | NT_Broadcast js | NT_OpenClick
  | ND_Scroll "(int \<times> int \<times> int) option" | ND_SelectClick nat | ND_DeleteClick js | ND_DeleteAllClick

fun nt_handle :: "nt_action \<Rightarrow> nt_state \<Rightarrow> nt_state" where
  "nt_handle NT_OnInit s = nt_ngOnInit s"
| "nt_handle (NT_Tick f) s = s\<lparr>age := f\<rparr>"
| "nt_handle (NT_Broadcast v) s = onBroadcast v s"
| "nt_handle NT_OpenClick s = (if mat_dialog_ref s then s else nt_open_notification_dialog_window s)"
| "nt_handle (ND_Scroll target) s = (if mat_dialog_ref s then nd_host_listener_on_scroll target s else s)"
| "nt_handle (ND_SelectClick i) s =
     (if mat_dialog_ref s \<and> i < length (notification_button_list s) then nd_button_select i s else s)"
| "nt_handle (ND_DeleteClick n) s =
     (if mat_dialog_ref s \<and> controller_maintainer_nd s then nd_delete_notification n s else s)"
| "nt_handle ND_DeleteAllClick s =
     (if mat_dialog_ref s \<and> controller_maintainer_nd s then nd_open_delete_all_notification_dialog_window s else s)"

text \<open>A subscription of the dialog is live while the dialog that made it is open.\<close>

definition nd_live :: "nat \<Rightarrow> nt_state \<Rightarrow> bool" where
  "nd_live d s \<longleftrightarrow> mat_dialog_ref s \<and> dialog_no s = d"

fun nt_answer :: "nt_request \<Rightarrow> reply \<Rightarrow> nt_state \<Rightarrow> nt_state" where
  "nt_answer NT_Get r s = nt_api_get_notifications_answer r s"
| "nt_answer (ND_Get d e) r s = (if nd_live d s then nd_api_get_notifications_answer e r s else s)"
| "nt_answer (ND_Delete d n) r s = (if nd_live d s then nd_api_delete_notification_answer n r s else s)"
| "nt_answer (ND_DeleteAll d) r s = (if nd_live d s then nd_api_delete_all_notifications_answer r s else s)"

fun nt_closed :: "nt_dialog \<Rightarrow> js \<Rightarrow> nt_state \<Rightarrow> nt_state" where
  "nt_closed NT_Dialog v s = nt_open_notification_dialog_window_closed s"
| "nt_closed (ND_ConfirmAll d) v s = (if nd_live d s then nd_open_delete_all_closed v s else s)"

definition nt_step :: "nt_action event \<Rightarrow> nt_state \<Rightarrow> nt_state" where
  "nt_step = async_step nt_handle nt_answer nt_closed"

section \<open>The abstract inbox\<close>

text \<open>What the buttons are views of: one list of notifications, changed by putting a notification in front,
  appending a page, removing the notifications with an identifier, or clearing. \<open>inbox_op_of\<close> is the operation
  an event stands for: a broadcast is put in front, the page an answer brings is appended, a deletion that the
  backend confirms removes the notifications with that identifier, and opening the dialog, choosing a button or
  deleting everything clears the inbox. Failures, answers for a dialog that was closed and all other events
  leave it alone.\<close>

datatype inbox_op = Inbox_Keep | Inbox_Put js | Inbox_Append "js list" | Inbox_Remove js | Inbox_Clear

fun inbox_apply :: "inbox_op \<Rightarrow> js list \<Rightarrow> js list" where
  "inbox_apply Inbox_Keep feed = feed"
| "inbox_apply (Inbox_Put n) feed = n # feed"
| "inbox_apply (Inbox_Append ns) feed = feed @ ns"
| "inbox_apply (Inbox_Remove i) feed = filter (\<lambda>m. \<not> strict_eq (js_get m ''_id'') i) feed"
| "inbox_apply Inbox_Clear feed = []"

definition inbox_page :: "js \<Rightarrow> nt_state \<Rightarrow> inbox_op" where
  "inbox_page v s =
     (case js_map_list new_NotificationClass v of
        Inl _ \<Rightarrow> Inbox_Keep | Inr ns \<Rightarrow> Inbox_Append (map (set_notification_display_time (age s)) ns))"

fun inbox_answer_op :: "nt_request \<Rightarrow> js \<Rightarrow> nt_state \<Rightarrow> inbox_op" where
  "inbox_answer_op NT_Get v s = inbox_page v s"
| "inbox_answer_op (ND_Get d e) v s = (if nd_live d s then inbox_page v s else Inbox_Keep)"
| "inbox_answer_op (ND_Delete d n) v s = (if nd_live d s then Inbox_Remove (js_get n ''_id'') else Inbox_Keep)"
| "inbox_answer_op (ND_DeleteAll d) v s = (if nd_live d s then Inbox_Clear else Inbox_Keep)"

fun inbox_op_of :: "nt_action event \<Rightarrow> nt_state \<Rightarrow> inbox_op" where
  "inbox_op_of (Act (NT_Broadcast v)) s =
     (case new_NotificationClass v of Inl _ \<Rightarrow> Inbox_Keep | Inr n \<Rightarrow> Inbox_Put (set_notification_display_time (age s) n))"
| "inbox_op_of (Act NT_OpenClick) s = (if mat_dialog_ref s then Inbox_Keep else Inbox_Clear)"
| "inbox_op_of (Act (ND_SelectClick i)) s =
     (if mat_dialog_ref s \<and> i < length NOTIFICATION_BUTTON_LIST then Inbox_Clear else Inbox_Keep)"
| "inbox_op_of (Answer i (Reply v)) s = (if i < length (requests s) then inbox_answer_op (requests s ! i) v s else Inbox_Keep)"
| "inbox_op_of _ s = Inbox_Keep"

definition inbox_view :: "js list \<Rightarrow> nt_state \<Rightarrow> bool" where
  "inbox_view feed s \<longleftrightarrow>
     (\<forall>nb \<in> set (notification_button_list s). notifications nb = filter (shown_by nb) feed) \<and>
     map btn_role (notification_button_list s) = map btn_role NOTIFICATION_BUTTON_LIST"

lemma shown_by_cong: "btn_role nb = btn_role nb' \<Longrightarrow> js_get n ''role'' = js_get n' ''role'' \<Longrightarrow> shown_by nb n = shown_by nb' n'"
  by (simp add: shown_by_def)

lemma shown_by_simps [simp]:
  "shown_by (nb\<lparr>notifications := ns\<rparr>) = shown_by nb" "shown_by (nb\<lparr>btn_selected := b\<rparr>) = shown_by nb"
  "shown_by nb (set_notification_display_time f n) = shown_by nb n"
  by (auto simp: shown_by_def set_notification_display_time_def js_get_set_other)

lemma inbox_view_cong:
  "notification_button_list s' = notification_button_list s \<Longrightarrow> inbox_view feed s' = inbox_view feed s"
  by (simp add: inbox_view_def)

lemma inbox_view_map:
  assumes "inbox_view feed s" "notification_button_list s' = map f (notification_button_list s)"
    "\<And>nb. nb \<in> set (notification_button_list s) \<Longrightarrow> btn_role (f nb) = btn_role nb \<and> notifications (f nb) = filter (shown_by nb) feed'"
  shows "inbox_view feed' s'"
proof -
  have "shown_by (f nb) = shown_by nb" if "nb \<in> set (notification_button_list s)" for nb
    using assms(3) [OF that] by (simp add: shown_by_def fun_eq_iff)
  then have "\<forall>nb \<in> set (notification_button_list s'). notifications nb = filter (shown_by nb) feed'"
    using assms(2,3) by simp
  moreover have "map btn_role (notification_button_list s') = map btn_role (notification_button_list s)"
    using assms(2,3) by simp
  ultimately show ?thesis
    using assms(1) by (simp add: inbox_view_def)
qed

lemma inbox_view_put:
  assumes "inbox_view feed s" "notification_button_list s' = add_notification_to_button_list f n True (notification_button_list s)"
  shows "inbox_view (set_notification_display_time f n # feed) s'"
  by (rule inbox_view_map [OF assms(1) assms(2) [unfolded add_notification_to_button_list_def]])
    (use assms(1) in \<open>simp_all add: inbox_view_def Let_def\<close>)

lemma inbox_view_snoc:
  assumes "inbox_view feed s"
  shows "inbox_view (feed @ [set_notification_display_time f n])
     (s\<lparr>notification_button_list := add_notification_to_button_list f n False (notification_button_list s)\<rparr>)"
  by (rule inbox_view_map [OF assms(1), where f = "\<lambda>nb. if shown_by nb n
       then nb\<lparr>notifications := notifications nb @ [set_notification_display_time f n]\<rparr> else nb"])
    (use assms in \<open>simp_all add: inbox_view_def add_notification_to_button_list_def Let_def\<close>)

lemma inbox_view_add_all:
  "inbox_view feed s \<Longrightarrow> inbox_view (feed @ map (set_notification_display_time f) ns)
     (s\<lparr>notification_button_list := add_all f ns (notification_button_list s)\<rparr>)"
proof (induction ns arbitrary: feed s)
  case (Cons n ns)
  show ?case
    using Cons.IH [OF inbox_view_snoc [OF Cons.prems, of f n]] by (simp add: add_all_def)
qed (simp add: add_all_def)

section \<open>The components refine the inbox\<close>

lemma nt_more: "async.more s' = async.more s \<Longrightarrow> notification_button_list s' = notification_button_list s"
  for s s' :: nt_state
  by (cases s; cases s') simp

lemma nt_frame [simp]:
  "age (call ep k s) = age s" "mat_dialog_ref (call ep k s) = mat_dialog_ref s" "dialog_no (call ep k s) = dialog_no s"
  "notification_button_list (call ep k s) = notification_button_list s"
  "age (open_dialog n v d s) = age s" "mat_dialog_ref (open_dialog n v d s) = mat_dialog_ref s"
  "dialog_no (open_dialog n v d s) = dialog_no s"
  "notification_button_list (open_dialog n v d s) = notification_button_list s"
  for s :: nt_state
  by (simp_all add: call_def request_def http_def emit_def open_dialog_def)

lemma nt_reports [simp]:
  "notification_button_list (report_error m s) = notification_button_list s"
  "notification_button_list (generate_return_success_snackbar_message m c s) = notification_button_list s"
  for s :: nt_state
  using nt_more [of "report_error m s" s] nt_more [of "generate_return_success_snackbar_message m c s" s] by simp_all

lemma nt_answered_buttons:
  fixes s :: nt_state
  assumes "\<And>e t. notification_button_list (error_cb e t) = notification_button_list t"
  shows "notification_button_list (answered ep next_cb error_cb r s) =
    (case r of
       Reply v \<Rightarrow> (case ep_decode ep v of Inr x \<Rightarrow> notification_button_list (next_cb x s) | Inl _ \<Rightarrow> notification_button_list s)
     | Failure f \<Rightarrow> notification_button_list s)"
  using nt_more [of "fst (handleError (ep_operation ep) x s)" s for x] nt_more [of "fst (request_failed (ep_operation ep) f s)" s for f]
  by (auto simp: answered_def subscribe_def assms case_prod_beta Let_def split: reply.split sum.split)

lemma inbox_view_clear:
  assumes "inbox_view feed s" "\<forall>nb \<in> set (notification_button_list s'). notifications nb = []"
    "map btn_role (notification_button_list s') = map btn_role (notification_button_list s)"
  shows "inbox_view [] s'"
  using assms by (simp add: inbox_view_def)

lemma inbox_view_remove:
  assumes "inbox_view feed s"
    "notification_button_list s' = map (\<lambda>nb. nb\<lparr>notifications := filter (\<lambda>m. \<not> strict_eq (js_get m ''_id'') i) (notifications nb)\<rparr>)
       (notification_button_list s)"
  shows "inbox_view (filter (\<lambda>m. \<not> strict_eq (js_get m ''_id'') i) feed) s'"
  by (rule inbox_view_map [OF assms]) (use assms(1) in \<open>simp_all add: inbox_view_def conj_commute\<close>)

lemma inbox_view_page:
  assumes "inbox_view feed s" "notification_button_list s' = add_all f ns (notification_button_list s)"
  shows "inbox_view (feed @ map (set_notification_display_time f) ns) s'"
  using inbox_view_add_all [OF assms(1), of f ns] assms(2)
    inbox_view_cong [of s' "s\<lparr>notification_button_list := add_all f ns (notification_button_list s)\<rparr>"] by simp

section \<open>Every step is a step of the inbox\<close>

lemma inbox_view_select:
  assumes "inbox_view feed s" "notification_button_list t = notification_button_list s"
  shows "inbox_view [] (nd_button_select i t)"
proof (rule inbox_view_clear [OF assms(1)])
  let ?bs = "map (\<lambda>(j, nb). nb\<lparr>notifications := [], btn_selected := (j = i)\<rparr>) (enumerate 0 (notification_button_list s))"
  have "notification_button_list (nd_button_select i t) = ?bs"
    by (simp add: nd_button_select_def nd_api_get_notifications_def assms(2))
  then show "\<forall>nb \<in> set (notification_button_list (nd_button_select i t)). notifications nb = []"
    "map btn_role (notification_button_list (nd_button_select i t)) = map btn_role (notification_button_list s)"
    by (auto intro: nth_equalityI simp: nth_enumerate_eq)
qed

lemmas nt_act_defs =
  nt_ngOnInit_def nt_api_get_notifications_def onBroadcast_def nt_setup_websocket_onbroadcast_def
  nd_setup_websocket_onbroadcast_def nt_open_notification_dialog_window_def nd_ngOnInit_def nd_constructor_def
  nd_host_listener_on_scroll_def nd_api_get_notifications_def nd_delete_notification_def
  nd_api_delete_notification_def nd_open_delete_all_notification_dialog_window_def
  nt_open_notification_dialog_window_closed_def nd_open_delete_all_closed_def nd_api_delete_all_notifications_def

lemmas nt_answer_defs =
  nt_api_get_notifications_answer_def nd_api_get_notifications_answer_def nd_api_delete_notification_answer_def
  nd_api_delete_all_notifications_answer_def

lemma inbox_view_same: "inbox_view feed s \<Longrightarrow> notification_button_list s' = notification_button_list s \<Longrightarrow> inbox_view feed s'"
  by (rule inbox_view_cong [THEN iffD2])

lemma nt_act_same:
  "notification_button_list (nt_ngOnInit s) = notification_button_list s"
  "notification_button_list (nd_host_listener_on_scroll target s) = notification_button_list s"
  "notification_button_list (nd_delete_notification n s) = notification_button_list s"
  "notification_button_list (nd_open_delete_all_notification_dialog_window s) = notification_button_list s"
  "notification_button_list (nt_open_notification_dialog_window_closed s) = notification_button_list s"
  "notification_button_list (nd_open_delete_all_closed v s) = notification_button_list s"
  by (simp_all add: nt_act_defs split: option.split prod.split)

lemma nt_handle_inbox:
  assumes view: "inbox_view feed s"
  shows "inbox_view (inbox_apply (inbox_op_of (Act a) s) feed) (nt_handle a s)"
proof (cases a)
  case (NT_Broadcast v)
  show ?thesis
  proof (cases "new_NotificationClass v")
    case (Inr n)
    show ?thesis
      by (simp add: NT_Broadcast Inr, rule inbox_view_put [OF view])
        (simp add: onBroadcast_def Inr Let_def nt_setup_websocket_onbroadcast_def nd_setup_websocket_onbroadcast_def)
  qed (simp add: NT_Broadcast onBroadcast_def view)
next
  case NT_OpenClick
  show ?thesis
    by (simp add: NT_OpenClick nt_open_notification_dialog_window_def nd_ngOnInit_def view)
      (intro impI inbox_view_select [OF view], simp add: nd_constructor_def)
next
  case (ND_SelectClick i)
  have "length (notification_button_list s) = length NOTIFICATION_BUTTON_LIST" using view by (metis inbox_view_def length_map)
  then show ?thesis by (simp add: ND_SelectClick view inbox_view_select [OF view])
qed (simp_all add: view inbox_view_same [OF view] nt_act_same)

lemma nt_answer_inbox:
  assumes view: "inbox_view feed s"
  shows "inbox_view (inbox_apply (case r of Reply v \<Rightarrow> inbox_answer_op k v s | Failure f \<Rightarrow> Inbox_Keep) feed) (nt_answer k r s)"
proof (cases r)
  case (Reply v)
  have page: "inbox_view (inbox_apply (inbox_page v s) feed) t"
    if "notification_button_list t = (case js_map_list new_NotificationClass v of Inr ns \<Rightarrow> add_all (age s) ns (notification_button_list s)
        | Inl _ \<Rightarrow> notification_button_list s)" for t
    using that inbox_view_page [OF view] inbox_view_same [OF view] by (auto simp: inbox_page_def split: sum.splits)
  show ?thesis
    by (cases k)
      (auto simp: Reply nt_answer_defs nt_answered_buttons get_notifications_def delete_notification_def delete_all_notifications_def as_is_def Let_def
        view intro!: page inbox_view_remove [OF view] inbox_view_clear [OF view] split: sum.split)
next
  case (Failure f)
  have "notification_button_list (nt_answer k r s) = notification_button_list s"
    by (cases k) (simp_all add: Failure nt_answer_defs nt_answered_buttons)
  then show ?thesis by (simp add: Failure inbox_view_same [OF view])
qed

lemma nt_closed_buttons: "notification_button_list (nt_closed d v s) = notification_button_list s"
  by (cases d) (simp_all add: nt_act_same)

lemma inbox_op_same:
  "inbox_answer_op k v (s\<lparr>requests := ks\<rparr>) = inbox_answer_op k v s"
  by (cases k) (simp_all add: inbox_page_def nd_live_def split: sum.split)

lemma nt_step_inbox:
  assumes view: "inbox_view feed s"
  shows "inbox_view (inbox_apply (inbox_op_of ev s) feed) (nt_step ev s)"
proof (cases ev)
  case (Act a)
  then show ?thesis using nt_handle_inbox [OF view, of a] by (simp add: nt_step_def async_step_def)
next
  case (Answer i r)
  have "inbox_view feed (s\<lparr>requests := remove_nth i (requests s)\<rparr>)" by (rule inbox_view_same [OF view]) simp
  from nt_answer_inbox [OF this, of "requests s ! i" r] view show ?thesis
    by (cases r) (simp_all add: Answer nt_step_def async_step_def inbox_op_same)
next
  case (Closed i v)
  then show ?thesis by (simp add: nt_step_def async_step_def nt_closed_buttons view inbox_view_same [OF view])
qed

interpretation nt: event_machine nt_step "\<lambda>s. \<exists>feed. inbox_view feed s"
  by unfold_locales (blast intro: nt_step_inbox)

text \<open>The button for all roles shows the inbox itself.\<close>

lemma inbox_shown:
  assumes "inbox_view feed s"
  shows "notifications (hd (notification_button_list s)) = feed"
proof -
  obtain b bs where bs: "notification_button_list s = b # bs" "btn_role b = ''all''"
    using assms by (cases "notification_button_list s") (simp_all add: inbox_view_def NOTIFICATION_BUTTON_LIST_def nt_button_def)
  then have "filter (shown_by b) feed = feed" by (simp add: shown_by_def)
  with assms bs(1) show ?thesis by (simp add: inbox_view_def)
qed

section \<open>What the components guarantee\<close>

text \<open>C12: the bell and the dialog, whose lists of buttons share their objects, refine one abstract inbox: in
  every reachable state the button for all roles shows the inbox, every button shows exactly the notifications
  of its role in the order of the inbox, and every event changes the inbox by the operation it stands for and
  by nothing else.\<close>

theorem nt_refines_inbox:
  "let s = fold nt_step es (nt_constructor maintainer); inbox = (\<lambda>t. notifications (hd (notification_button_list t)))
   in list_all (\<lambda>nb. notifications nb = filter (shown_by nb) (inbox s)) (notification_button_list s) \<and>
      inbox (nt_step ev s) = inbox_apply (inbox_op_of ev s) (inbox s)"
proof -
  have "inbox_view [] (nt_constructor maintainer)"
    by (simp add: inbox_view_def nt_constructor_def NOTIFICATION_BUTTON_LIST_def nt_button_def)
  then obtain feed where feed: "inbox_view feed (fold nt_step es (nt_constructor maintainer))"
    using nt.run_inv [of "nt_constructor maintainer" es] by blast
  then show ?thesis
    using inbox_shown [OF feed] inbox_shown [OF nt_step_inbox [OF feed, of ev]] by (simp add: inbox_view_def list_all_iff)
qed

text \<open>C40: the age shown for a notification: below a minute \<open>Now\<close>, and otherwise the number of whole
  minutes, hours, days or weeks, in the largest unit that fits, so that the number of minutes is below 60,
  of hours below 24 and of days below 7.\<close>

theorem display_time_units:
  assumes "60000 \<le> ms"
  shows "list_ex (\<lambda>(unit, most, label).
      \<exists>n. display_time (Some ms) = show_int n @ label \<and> unit * n \<le> ms \<and> ms < unit * (n + 1) \<and> 1 \<le> n \<and>
          (case most of None \<Rightarrow> True | Some m \<Rightarrow> n < m))
    [(60000, Some 60, '' minute(s) ago''), (3600000, Some 24, '' hour(s) ago''), (86400000, Some 7, '' day(s) ago''),
     (604800000, None, '' week(s) ago'')]"
proof -
  have bounds: "unit * (ms div unit) \<le> ms \<and> ms < unit * (ms div unit + 1) \<and> 1 \<le> ms div unit"
    if "0 < unit" "unit \<le> ms" for unit :: int
  proof -
    have "ms = unit * (ms div unit) + ms mod unit" by simp
    moreover have "0 \<le> ms mod unit" "ms mod unit < unit" "0 < ms div unit"
      using that by (simp_all add: pos_imp_zdiv_pos_iff)
    ultimately show ?thesis by (simp only: distrib_left) linarith
  qed
  consider "ms < 3600000" | "3600000 \<le> ms" "ms < 86400000" | "86400000 \<le> ms" "ms < 604800000" | "604800000 \<le> ms"
    by linarith
  then show ?thesis
  proof cases
    case 1
    then have "ms div 60000 < 60" by linarith
    with 1 assms bounds [of 60000] show ?thesis
      by (simp add: display_time_def; intro exI [of _ "ms div 60000"]; simp)
  next
    case 2
    then have "ms div 3600000 < 24" by linarith
    with 2 bounds [of 3600000] show ?thesis
      by (simp add: display_time_def; intro exI [of _ "ms div 3600000"]; simp)
  next
    case 3
    then have "ms div 86400000 < 7" by linarith
    with 3 bounds [of 86400000] show ?thesis
      by (simp add: display_time_def; intro exI [of _ "ms div 86400000"]; simp)
  next
    case 4
    with bounds [of 604800000] show ?thesis
      by (simp add: display_time_def; intro exI [of _ "ms div 604800000"]; simp)
  qed
qed

theorem display_time_units_witness:
  "display_time (Some 7200000) = ''2 hour(s) ago'' \<and>
   list_ex (\<lambda>(unit, most, label).
      \<exists>n. display_time (Some 7200000) = show_int n @ label \<and> unit * n \<le> 7200000 \<and> 7200000 < unit * (n + 1) \<and> 1 \<le> n \<and>
          (case most of None \<Rightarrow> True | Some m \<Rightarrow> n < m))
    [(60000, Some 60, '' minute(s) ago''), (3600000, Some 24, '' hour(s) ago''), (86400000, Some 7, '' day(s) ago''),
     (604800000, None, '' week(s) ago'')]"
  using display_time_units [of 7200000] by (rule conjI [rotated]) (simp, code_simp)

text \<open>when the dialog is opened before the first list has arrived, both requests are answered with the
  same notifications and each of them is shown twice.\<close>

theorem nt_early_open_shows_twice:
  assumes "js_map_list new_NotificationClass v = Inr ns"
  shows "notifications (hd (notification_button_list (fold nt_step
      [Act (NT_Tick f), Act NT_OnInit, Act NT_OpenClick, Answer 0 (Reply v), Answer 0 (Reply v)]
      (nt_constructor maintainer)))) =
    map (set_notification_display_time f) ns @ map (set_notification_display_time f) ns"
proof -
  have add: "notifications (hd (add_all f ns (b # bs))) = notifications b @ map (set_notification_display_time f) ns \<and>
      btn_role (hd (add_all f ns (b # bs))) = ''all'' \<and> add_all f ns (b # bs) \<noteq> []"
    if "btn_role b = ''all''" for b bs
    using that
  proof (induction ns arbitrary: b bs)
    case (Cons n ns)
    then show ?case by (simp add: add_all_def add_notification_to_button_list_def shown_by_def Let_def)
  qed (simp add: add_all_def)
  obtain t where t: "fold nt_step [Act (NT_Tick f), Act NT_OnInit, Act NT_OpenClick] (nt_constructor maintainer) = t"
    by simp
  then have fields: "requests t = [NT_Get, ND_Get 1 False]" "mat_dialog_ref t" "dialog_no t = 1" "age t = f"
    by (auto simp: nt_step_def async_step_def nt_act_defs nd_button_select_def nt_constructor_def)
  obtain b bs where bs: "notification_button_list t = b # bs" "btn_role b = ''all''" "notifications b = []"
    using t by (auto simp: nt_step_def async_step_def nt_act_defs nd_button_select_def nt_constructor_def
        NOTIFICATION_BUTTON_LIST_def nt_button_def)
  have "fold nt_step [Answer 0 (Reply v), Answer 0 (Reply v)] t =
      t\<lparr>requests := [], notification_button_list := add_all f ns (add_all f ns (b # bs))\<rparr>"
    using assms fields bs(1)
    by (simp add: nt_step_def async_step_def remove_nth_def nt_answer_defs answered_def subscribe_def
        get_notifications_def nd_live_def Let_def)
  then show ?thesis
    using t add [OF bs(2), of bs] add [of "hd (add_all f ns (b # bs))" "tl (add_all f ns (b # bs))"] bs(3) by simp
qed

theorem nt_early_open_shows_twice_witness:
  "\<forall>maintainer f. length (notifications (hd (notification_button_list (fold nt_step
      [Act (NT_Tick f), Act NT_OnInit, Act NT_OpenClick,
       Answer 0 (Reply (JArr [JObj [(''role'', JStr ''nodes'')]])), Answer 0 (Reply (JArr [JObj [(''role'', JStr ''nodes'')]]))]
      (nt_constructor maintainer))))) = 2"
proof (intro allI)
  fix maintainer f
  obtain n where n: "js_map_list new_NotificationClass (JArr [JObj [(''role'', JStr ''nodes'')]]) = Inr [n]"
    by (simp add: js_map_list_def new_NotificationClass_def construct_def copy_def notUndefNull_def)
  show "length (notifications (hd (notification_button_list (fold nt_step
      [Act (NT_Tick f), Act NT_OnInit, Act NT_OpenClick,
       Answer 0 (Reply (JArr [JObj [(''role'', JStr ''nodes'')]])), Answer 0 (Reply (JArr [JObj [(''role'', JStr ''nodes'')]]))]
      (nt_constructor maintainer))))) = 2"
    by (simp only: nt_early_open_shows_twice [OF n] list.map append_Cons append_Nil list.size)
qed

end
