(* ===== verification/Elasticsearch_Scale.thy ===== *)
theory Elasticsearch_Scale
  imports Notifications Access_Control
begin

text \<open>
  \<open>modules/elasticsearch-scale/\<close>: the page that scales Elasticsearch, with \<open>ElasticsearchService\<close>
  and the classes of \<open>classes/\<close>. A request that is sent by a timer is counted in \<open>es_timers\<close> until
  the timer fires, which is the event \<open>ES_Timeout\<close>.
\<close>

section \<open>Data classes\<close>

definition new_ElasticsearchCheckClass :: "js \<Rightarrow> js_error + js" where
  "new_ElasticsearchCheckClass = construct [copy ''status'']"

definition new_ElasticsearchConfigurationClass :: "js \<Rightarrow> js_error + js" where
  "new_ElasticsearchConfigurationClass = construct [copy ''elastic'']"

definition new_ElasticsearchNodeReturnClass :: "js \<Rightarrow> js_error + js" where
  "new_ElasticsearchNodeReturnClass = construct (map copy [''data'', ''master'', ''ml'', ''ingest''])"

definition new_ElasticsearchNodeClass :: "js \<Rightarrow> js_error + js" where
  "new_ElasticsearchNodeClass = construct (map copy
     [''data'', ''master'', ''ml'', ''ingest'', ''max_scale_count_data'', ''max_scale_count_master'',
      ''max_scale_count_ml'', ''max_scale_count_ingest'', ''server_node_count''])"

record slider =
  slider_title :: string
  slider_type :: string
  current_count :: js
  slider_min_count :: int
  max_count :: js
  hidden :: bool

definition NodeTitleEnum :: "(string \<times> string) list" where
  "NodeTitleEnum = [(''master'', ''Master''), (''data'', ''Data''), (''ml'', ''Machine Learning''), (''ingest'', ''Ingest'')]"

definition new_SliderControlClass :: "string \<Rightarrow> js \<Rightarrow> slider" where
  "new_SliderControlClass t elasticsearch_node =
     (let field = (\<lambda>k. if notUndefNull elasticsearch_node \<and> notUndefNull (js_get elasticsearch_node k)
                        then js_get elasticsearch_node k else JNum 0);
          count = field t
      in \<lparr>slider_title = (case map_of NodeTitleEnum t of Some title \<Rightarrow> title | None \<Rightarrow> ''Unsupported or programming error''),
          slider_type = t, current_count = count, slider_min_count = 1, max_count = field (''max_scale_count_'' @ t),
          hidden = (count = JNum 0)\<rparr>)"

section \<open>ElasticsearchService\<close>

definition get_elastic_nodes :: "js endpoint" where
  "get_elastic_nodes =
     endpoint GET ''/api/scale/elastic/nodes'' JUndef ''elasticsearch get nodes'' new_ElasticsearchNodeClass"

definition post_elastic_nodes :: "js \<Rightarrow> js endpoint" where
  "post_elastic_nodes elasticsearch_node_return =
     endpoint POST ''/api/scale/elastic'' elasticsearch_node_return ''elasticsearch post nodes'' new_SuccessMessageClass"

definition get_elastic_full_config :: "js endpoint" where
  "get_elastic_full_config =
     endpoint GET ''/api/scale/elastic/advanced'' JUndef ''elasticsearch get full configuration''
       new_ElasticsearchConfigurationClass"

definition post_elastic_full_config :: "js \<Rightarrow> js endpoint" where
  "post_elastic_full_config elasticsearch_configuration =
     endpoint POST ''/api/scale/elastic/advanced'' elasticsearch_configuration ''elasticsearch post full configuration''
       new_SuccessMessageClass"

text \<open>The options are passed in the place of the body.\<close>

definition deploy_elastic :: "js endpoint" where
  "deploy_elastic = endpoint POST ''/api/tools/elastic/deploy'' HTTP_OPTIONS ''elasticsearch deploy'' as_is"

definition check_elastic :: "js endpoint" where
  "check_elastic = endpoint GET ''/api/scale/check'' JUndef ''elasticsearch check'' new_ElasticsearchCheckClass"

section \<open>State\<close>

datatype es_request = ES_Nodes | ES_PostNodes | ES_Config | ES_PostConfig | ES_Deploy | ES_Check

datatype es_dialog = ES_ConfirmRun | ES_Editor

record es_state = "(es_request, es_dialog) async" +
  node_sliders :: "slider list"
  server_node_count :: js
  es_status :: bool
  es_loading :: bool
  es_maintainer :: bool
  es_admin :: bool
  es_timers :: nat

definition es_constructor :: "user_service \<Rightarrow> js_error + es_state" where
  "es_constructor us =
     sbind (isControllerMaintainer us) (\<lambda>maintainer.
     smap (\<lambda>admin.
       \<lparr>trace = [], matSnackBarRef = None, requests = [], dialogs = [],
        node_sliders = [], server_node_count = JNum 0, es_status = False, es_loading = True,
        es_maintainer = maintainer, es_admin = admin, es_timers = 0\<rparr>)
     (isControllerAdmin us))"

section \<open>Dialogs\<close>

definition ELASTICSEARCH_SCALING :: string where
  "ELASTICSEARCH_SCALING = ''Elasticsearch Scaling''"

definition RUN_CONFIRM_MAT_DIALOG :: js where
  "RUN_CONFIRM_MAT_DIALOG =
     JObj [(''title'', JStr ELASTICSEARCH_SCALING),
           (''message'', JStr (''Are you sure that you want to change the '' @ ELASTICSEARCH_SCALING @
              '' configuration. This will take some time for operation to complete.'')),
           (''option1'', JStr ''Cancel''), (''option2'', JStr ''Confirm'')]"

definition CANT_RUN_CONFIRM_MAT_DIALOG :: js where
  "CANT_RUN_CONFIRM_MAT_DIALOG =
     JObj [(''title'', JStr ELASTICSEARCH_SCALING),
           (''message'', JStr (ELASTICSEARCH_SCALING @
              '' is currently in progress so you can not change the configuration at this time'')),
           (''option2'', JStr ''Confirm'')]"

definition ELASTICSEARCH_SCALE_IN_PROGRESS_CONFIRM_MAT_DIALOG :: js where
  "ELASTICSEARCH_SCALE_IN_PROGRESS_CONFIRM_MAT_DIALOG =
     JObj [(''title'', JStr ELASTICSEARCH_SCALING),
           (''message'', JStr (ELASTICSEARCH_SCALING @ '' is currently in progress'')),
           (''option2'', JStr ''Confirm'')]"

text \<open>The two configurations without their empty \<open>actionFunc\<close>.\<close>

definition SAVE_CONFIRM_ACTION_CONFIGURATION :: js where
  "SAVE_CONFIRM_ACTION_CONFIGURATION =
     JObj [(''title'', JStr ''Close and save''),
           (''message'', JStr (''Are you sure you want to save this configuration? '' @
              ''Doing so will update the Elasticsearch configuration '' @
              ''and may cause interuption to services for a few minutes.'')),
           (''confirmButtonText'', JStr ''Save''), (''successText'', JStr ''Saved Elastic Configuration''),
           (''failText'', JStr ''Could not save''), (''useGeneralActionFunc'', JBool True)]"

definition CLOSE_CONFIRM_ACTION_CONFIGURATION :: js where
  "CLOSE_CONFIRM_ACTION_CONFIGURATION =
     JObj [(''title'', JStr ''Close without saving''),
           (''message'', JStr ''Are you sure you want to close this editor? All changes will be discarded.''),
           (''confirmButtonText'', JStr ''Close''), (''successText'', JStr ''Closed without saving''),
           (''failText'', JStr []), (''useGeneralActionFunc'', JBool True)]"

definition es_open_cant_run_dialog :: "es_state \<Rightarrow> es_state" where
  "es_open_cant_run_dialog = emit (DialogOpen ''ConfirmDialogComponent'' CANT_RUN_CONFIRM_MAT_DIALOG)"

definition es_open_elasticsearch_scale_in_progress_dialog :: "es_state \<Rightarrow> es_state" where
  "es_open_elasticsearch_scale_in_progress_dialog =
     emit (DialogOpen ''ConfirmDialogComponent'' ELASTICSEARCH_SCALE_IN_PROGRESS_CONFIRM_MAT_DIALOG)"

definition es_editor_configuration :: "js \<Rightarrow> es_state \<Rightarrow> js" where
  "es_editor_configuration elasticsearch_configuration s =
     JObj [(''show_options'', JBool (es_maintainer s \<or> es_admin s)),
           (''is_read_only'', JBool (\<not> es_maintainer s \<or> \<not> es_admin s)),
           (''title'', JStr ''Elasticsearch Configuration''),
           (''text'', js_get elasticsearch_configuration ''elastic''),
           (''use_language'', JStr ''yaml''),
           (''display_save'', JBool (es_maintainer s \<or> es_admin s)),
           (''disable_save'', JBool (\<not> es_maintainer s \<or> \<not> es_admin s)),
           (''confirm_save'', SAVE_CONFIRM_ACTION_CONFIGURATION),
           (''confirm_close'', CLOSE_CONFIRM_ACTION_CONFIGURATION)]"

definition es_open_text_editor :: "js \<Rightarrow> es_state \<Rightarrow> es_state" where
  "es_open_text_editor elasticsearch_configuration s =
     open_dialog ''NGXMonacoTextEditorComponent'' (es_editor_configuration elasticsearch_configuration s) ES_Editor s"

section \<open>Requests\<close>

definition es_api_get_elastic_nodes :: "es_state \<Rightarrow> es_state" where
  "es_api_get_elastic_nodes = call get_elastic_nodes ES_Nodes"

definition es_api_post_elastic_nodes :: "js \<Rightarrow> es_state \<Rightarrow> es_state" where
  "es_api_post_elastic_nodes elasticsearch_node_return s =
     settle s (smap (\<lambda>body. call (post_elastic_nodes body) ES_PostNodes s)
       (new_ElasticsearchNodeReturnClass elasticsearch_node_return))"

definition es_api_get_elastic_full_config :: "es_state \<Rightarrow> es_state" where
  "es_api_get_elastic_full_config = call get_elastic_full_config ES_Config"

definition es_api_post_elastic_full_config :: "js \<Rightarrow> es_state \<Rightarrow> es_state" where
  "es_api_post_elastic_full_config response s =
     settle s (smap (\<lambda>body. call (post_elastic_full_config body) ES_PostConfig s)
       (new_ElasticsearchConfigurationClass (JObj [(''elastic'', response)])))"

text \<open>\<open>setTimeout\<close> of five seconds, and what it runs.\<close>

definition es_api_deploy_elastic :: "es_state \<Rightarrow> es_state" where
  "es_api_deploy_elastic s = s\<lparr>es_timers := Suc (es_timers s)\<rparr>"

definition es_deploy_timeout :: "es_state \<Rightarrow> es_state" where
  "es_deploy_timeout s =
     (case es_timers s of 0 \<Rightarrow> s | Suc n \<Rightarrow> call deploy_elastic ES_Deploy (s\<lparr>es_timers := n\<rparr>))"

definition es_api_check_elastic :: "es_state \<Rightarrow> es_state" where
  "es_api_check_elastic = call check_elastic ES_Check"

section \<open>User actions\<close>

definition es_ngOnInit :: "es_state \<Rightarrow> es_state" where
  "es_ngOnInit s = es_api_get_elastic_nodes (es_api_check_elastic (emit (SetTitle ''ES Scale'') s))"

definition es_open_run_confirm_dialog :: "es_state \<Rightarrow> es_state" where
  "es_open_run_confirm_dialog = open_dialog ''ConfirmDialogComponent'' RUN_CONFIRM_MAT_DIALOG ES_ConfirmRun"

definition es_node_return :: "slider list \<Rightarrow> js" where
  "es_node_return sliders =
     JObj (fold (\<lambda>c kvs. AList.update (slider_type c) (current_count c) kvs) sliders [])"

definition es_run_elasticsearch_scale :: "es_state \<Rightarrow> es_state" where
  "es_run_elasticsearch_scale s = es_api_post_elastic_nodes (es_node_return (node_sliders s)) (s\<lparr>es_loading := True\<rparr>)"

definition es_open_run_confirm_dialog_closed :: "js \<Rightarrow> es_state \<Rightarrow> es_state" where
  "es_open_run_confirm_dialog_closed response s =
     (if response = JStr ''Confirm'' then
        if es_status s then es_open_cant_run_dialog s else es_run_elasticsearch_scale s
      else s)"

definition es_open_text_editor_closed :: "js \<Rightarrow> es_state \<Rightarrow> es_state" where
  "es_open_text_editor_closed response s =
     (if notUndefNull response then es_api_post_elastic_full_config response s else s)"

definition es_edit_elasticsearch_configuration :: "es_state \<Rightarrow> es_state" where
  "es_edit_elasticsearch_configuration = es_api_get_elastic_full_config"

definition es_setup_websocket_onbroadcast :: "js \<Rightarrow> es_state \<Rightarrow> es_state" where
  "es_setup_websocket_onbroadcast response s =
     (case new_NotificationClass response of
        Inl _ \<Rightarrow> s
      | Inr n \<Rightarrow>
          if js_get n ''status'' = JStr ''COMPLETED'' \<and>
             js_get n ''message'' = JStr ''Elastic scaling completed successfully.''
          then es_api_get_elastic_nodes (s\<lparr>es_status := False, es_loading := False\<rparr>)
          else s)"

section \<open>Answers\<close>

definition es_api_get_elastic_nodes_answer :: "reply \<Rightarrow> es_state \<Rightarrow> es_state" where
  "es_api_get_elastic_nodes_answer =
     answered get_elastic_nodes
       (\<lambda>response s. s\<lparr>server_node_count := js_get response ''server_node_count'',
          node_sliders := map (\<lambda>(t, _). new_SliderControlClass t response) NodeTitleEnum\<rparr>)
       (\<lambda>_. report_error ''getting elasticsearch nodes'')"

definition es_api_post_elastic_nodes_answer :: "reply \<Rightarrow> es_state \<Rightarrow> es_state" where
  "es_api_post_elastic_nodes_answer =
     answered (post_elastic_nodes JUndef) (\<lambda>_ s. (es_api_deploy_elastic s)\<lparr>node_sliders := []\<rparr>)
       (\<lambda>_. report_error ''changing elasticsearch nodes'')"

definition es_api_get_elastic_full_config_answer :: "reply \<Rightarrow> es_state \<Rightarrow> es_state" where
  "es_api_get_elastic_full_config_answer =
     answered get_elastic_full_config es_open_text_editor (\<lambda>_. report_error ''getting elasticsearch'')"

definition es_api_post_elastic_full_config_answer :: "reply \<Rightarrow> es_state \<Rightarrow> es_state" where
  "es_api_post_elastic_full_config_answer =
     answered (post_elastic_full_config JUndef) (\<lambda>_ s. (es_api_deploy_elastic s)\<lparr>node_sliders := []\<rparr>)
       (\<lambda>_. report_error ''changing elasticsearch configuration'')"

definition es_api_deploy_elastic_answer :: "reply \<Rightarrow> es_state \<Rightarrow> es_state" where
  "es_api_deploy_elastic_answer =
     answered deploy_elastic (\<lambda>_ s. s\<lparr>es_status := True\<rparr>) (\<lambda>_. report_error ''deloying elasticsearch'')"

definition ES_KIT_CONFIG :: snack_config where
  "ES_KIT_CONFIG =
     \<lparr>timeInMS = Some 60000, actionLabel = Some ''Kit Config'', snack_action = Some (RouteTo ''/kit_configuration''),
      panelClass = None\<rparr>"

definition es_show_check :: "js \<Rightarrow> es_state \<Rightarrow> es_state" where
  "es_show_check response s =
     (let status = js_get response ''status'' in
      if status \<noteq> JStr ''Ready'' \<and> status \<noteq> JStr ''Unknown'' \<and> status \<noteq> JStr ''None'' then
        (es_open_elasticsearch_scale_in_progress_dialog s)\<lparr>es_status := True\<rparr>
      else if status = JStr ''None'' then
        (generate_return_error_snackbar_message
           ''- You cannot scale Elasticsearch until you have a Kit deployed and Elastic is installed''
           (Some ES_KIT_CONFIG) s)\<lparr>es_loading := False\<rparr>
      else if status = JStr ''Unknown'' then
        (generate_return_error_snackbar_message ''- Unknown Elasticsearch Status''
           (Some MAT_SNACKBAR_CONFIGURATION_60000_DUR_DISMISS) s)\<lparr>es_loading := False\<rparr>
      else s\<lparr>es_loading := False\<rparr>)"

definition es_api_check_elastic_answer :: "reply \<Rightarrow> es_state \<Rightarrow> es_state" where
  "es_api_check_elastic_answer =
     answered check_elastic es_show_check (\<lambda>_. report_error ''checking elasticsearch status'')"

section \<open>The component as a machine\<close>

text \<open>The buttons and sliders are disabled while \<open>status\<close> is true; a slider that is shown moves between
  its bounds.\<close>

datatype es_action =
    ES_OnInit | ES_RunClick | ES_EditClick | ES_Slide nat int | ES_Timeout | ES_Broadcast js

definition es_slide :: "nat \<Rightarrow> int \<Rightarrow> es_state \<Rightarrow> es_state" where
  "es_slide i n s =
     (if i < length (node_sliders s) \<and> \<not> hidden (node_sliders s ! i) \<and> \<not> es_status s \<and>
         slider_min_count (node_sliders s ! i) \<le> n \<and> \<not> num_lt (max_count (node_sliders s ! i)) n
      then s\<lparr>node_sliders := (node_sliders s)[i := (node_sliders s ! i)\<lparr>current_count := JNum n\<rparr>]\<rparr> else s)"

fun es_handle :: "es_action \<Rightarrow> es_state \<Rightarrow> es_state" where
  "es_handle ES_OnInit s = es_ngOnInit s"
| "es_handle ES_RunClick s = (if es_status s then s else es_open_run_confirm_dialog s)"
| "es_handle ES_EditClick s = (if es_status s then s else es_edit_elasticsearch_configuration s)"
| "es_handle (ES_Slide i n) s = es_slide i n s"
| "es_handle ES_Timeout s = es_deploy_timeout s"
| "es_handle (ES_Broadcast v) s = es_setup_websocket_onbroadcast v s"

fun es_answer :: "es_request \<Rightarrow> reply \<Rightarrow> es_state \<Rightarrow> es_state" where
  "es_answer ES_Nodes = es_api_get_elastic_nodes_answer"
| "es_answer ES_PostNodes = es_api_post_elastic_nodes_answer"
| "es_answer ES_Config = es_api_get_elastic_full_config_answer"
| "es_answer ES_PostConfig = es_api_post_elastic_full_config_answer"
| "es_answer ES_Deploy = es_api_deploy_elastic_answer"
| "es_answer ES_Check = es_api_check_elastic_answer"

fun es_closed :: "es_dialog \<Rightarrow> js \<Rightarrow> es_state \<Rightarrow> es_state" where
  "es_closed ES_ConfirmRun = es_open_run_confirm_dialog_closed"
| "es_closed ES_Editor = es_open_text_editor_closed"

definition es_step :: "es_action event \<Rightarrow> es_state \<Rightarrow> es_state" where
  "es_step = async_step es_handle es_answer es_closed"

section \<open>Invariant\<close>

definition es_sliders_ok :: "slider list \<Rightarrow> bool" where
  "es_sliders_ok sliders \<longleftrightarrow>
     (sliders = [] \<or> map slider_type sliders = [''master'', ''data'', ''ml'', ''ingest'']) \<and>
     list_all (\<lambda>c. hidden c \<longrightarrow> current_count c = JNum 0) sliders"

definition es_inv :: "es_state \<Rightarrow> bool" where
  "es_inv s \<longleftrightarrow> snack_ok s \<and> es_sliders_ok (node_sliders s)"

lemma es_more:
  "async.more s' = async.more s \<Longrightarrow> node_sliders s' = node_sliders s \<and> es_status s' = es_status s \<and>
     es_loading s' = es_loading s \<and> es_timers s' = es_timers s \<and> server_node_count s' = server_node_count s"
  for s s' :: es_state
  by (cases s; cases s') simp

lemma es_inv_frame: "es_inv s \<Longrightarrow> async.more s' = async.more s \<Longrightarrow> snack_ok s' \<Longrightarrow> es_inv s'"
  using es_more [of s' s] by (simp add: es_inv_def)

lemma es_inv_more:
  "es_inv s \<Longrightarrow> world.more s' = world.more s \<Longrightarrow> (snack_ok s \<Longrightarrow> snack_ok s') \<Longrightarrow> sent s' = sent s \<Longrightarrow> es_inv s'"
  using es_inv_frame [of s s'] world_more_async [of s' s] by (simp add: es_inv_def)

lemmas es_inv_answered = answered_inv [where P = es_inv, OF _ _ es_inv_more]

lemma es_inv_basic [simp, intro]:
  assumes "es_inv s"
  shows "es_inv (call ep k s)" "es_inv (open_dialog n v d s)" "es_inv (report_error msg s)"
    "es_inv (generate_return_error_snackbar_message msg c s)"
    "es_inv (emit (SetTitle msg) s)" "es_inv (emit (DialogOpen msg v) s)"
proof -
  have "snack_ok s" using assms by (simp add: es_inv_def)
  then show "es_inv (call ep k s)" "es_inv (open_dialog n v d s)" "es_inv (report_error msg s)"
    "es_inv (generate_return_error_snackbar_message msg c s)"
    "es_inv (emit (SetTitle msg) s)" "es_inv (emit (DialogOpen msg v) s)"
    by (simp_all add: es_inv_frame [OF assms] snack_ok_emit)
qed

lemma es_inv_fields [simp]:
  "es_inv (s\<lparr>requests := ks\<rparr>) = es_inv s" "es_inv (s\<lparr>dialogs := ds\<rparr>) = es_inv s"
  "es_inv (s\<lparr>es_status := b\<rparr>) = es_inv s" "es_inv (s\<lparr>es_loading := b\<rparr>) = es_inv s"
  "es_inv (s\<lparr>es_timers := n\<rparr>) = es_inv s" "es_inv (s\<lparr>server_node_count := v\<rparr>) = es_inv s"
  by (simp_all add: es_inv_def snack_ok_def)

lemma es_inv_sliders: "es_inv s \<Longrightarrow> es_sliders_ok cs \<Longrightarrow> es_inv (s\<lparr>node_sliders := cs\<rparr>)"
  by (simp add: es_inv_def snack_ok_def)

lemma es_inv_ok: "es_inv s \<Longrightarrow> es_sliders_ok (node_sliders s)"
  by (simp add: es_inv_def)

lemma es_sliders_ok_Nil [simp]: "es_sliders_ok []"
  by (simp add: es_sliders_ok_def)

lemma es_sliders_ok_new [simp]: "es_sliders_ok (map (\<lambda>(t, _). new_SliderControlClass t v) NodeTitleEnum)"
  by (simp add: es_sliders_ok_def NodeTitleEnum_def new_SliderControlClass_def Let_def)

lemma es_sliders_ok_update:
  assumes "es_sliders_ok cs" "i < length cs" "\<not> hidden (cs ! i)"
  shows "es_sliders_ok (cs[i := (cs ! i)\<lparr>current_count := v\<rparr>])"
proof -
  have "map slider_type (cs[i := (cs ! i)\<lparr>current_count := v\<rparr>]) = map slider_type cs"
    using assms(2) by (simp add: map_update list_update_same_conv)
  moreover have "list_all (\<lambda>c. hidden c \<longrightarrow> current_count c = JNum 0) (cs[i := (cs ! i)\<lparr>current_count := v\<rparr>])"
    using assms by (auto simp: es_sliders_ok_def list_all_length nth_list_update)
  moreover have "cs[i := (cs ! i)\<lparr>current_count := v\<rparr>] = [] \<longleftrightarrow> cs = []" by simp
  ultimately show ?thesis using assms(1) by (simp only: es_sliders_ok_def)
qed

lemma es_slide_inv: "es_inv s \<Longrightarrow> es_inv (es_slide i n s)"
  by (auto simp: es_slide_def intro!: es_inv_sliders es_sliders_ok_update es_inv_ok)

lemma es_show_check_inv: "es_inv s \<Longrightarrow> es_inv (es_show_check v s)"
  by (simp add: es_show_check_def es_open_elasticsearch_scale_in_progress_dialog_def Let_def)

lemma new_ElasticsearchNodeReturnClass_eq:
  "notUndefNull v \<Longrightarrow> new_ElasticsearchNodeReturnClass v =
     Inr (JObj (map (\<lambda>k. (k, js_get v k)) [''data'', ''master'', ''ml'', ''ingest'']))"
  by (simp add: new_ElasticsearchNodeReturnClass_def construct_def copy_def)

lemma notUndefNull_obj [simp]: "notUndefNull (JObj kvs)" "notUndefNull (es_node_return cs)"
  by (simp_all add: notUndefNull_def es_node_return_def)

lemma es_post_nodes_eq:
  "es_api_post_elastic_nodes (es_node_return cs) s =
     call (post_elastic_nodes (JObj (map (\<lambda>k. (k, js_get (es_node_return cs) k)) [''data'', ''master'', ''ml'', ''ingest''])))
       ES_PostNodes s"
  by (simp add: es_api_post_elastic_nodes_def new_ElasticsearchNodeReturnClass_eq settle_def)

lemma es_post_config_eq:
  "es_api_post_elastic_full_config v s = call (post_elastic_full_config (JObj [(''elastic'', v)])) ES_PostConfig s"
  by (simp add: es_api_post_elastic_full_config_def new_ElasticsearchConfigurationClass_def construct_def copy_def
      settle_def)

lemmas es_act_defs =
  es_ngOnInit_def es_api_get_elastic_nodes_def es_api_check_elastic_def es_open_run_confirm_dialog_def
  es_edit_elasticsearch_configuration_def es_api_get_elastic_full_config_def es_deploy_timeout_def
  es_setup_websocket_onbroadcast_def es_open_run_confirm_dialog_closed_def es_run_elasticsearch_scale_def
  es_open_cant_run_dialog_def es_open_text_editor_closed_def es_post_nodes_eq es_post_config_eq

lemmas es_answer_defs =
  es_api_get_elastic_nodes_answer_def es_api_post_elastic_nodes_answer_def es_api_get_elastic_full_config_answer_def
  es_api_post_elastic_full_config_answer_def es_api_deploy_elastic_answer_def es_api_check_elastic_answer_def
  es_open_text_editor_def es_api_deploy_elastic_def

lemma es_handle_inv: "es_inv s \<Longrightarrow> es_inv (es_handle a s)"
  by (cases a) (auto simp: es_act_defs es_slide_inv split: sum.splits nat.splits)

lemma es_answer_inv: "es_inv s \<Longrightarrow> es_inv (es_answer k r s)"
  by (cases k) (auto simp: es_answer_defs es_show_check_inv intro!: es_inv_answered es_inv_sliders)

lemma es_closed_inv: "es_inv s \<Longrightarrow> es_inv (es_closed d v s)"
  by (cases d) (auto simp: es_act_defs)

interpretation es: async_component es_handle es_answer es_closed es_inv
  by unfold_locales (simp_all add: es_handle_inv es_answer_inv es_closed_inv)

section \<open>Requests that scale\<close>

fun scales :: "effect \<Rightarrow> bool" where
  "scales (Http POST url _) = (url = ''/api/scale/elastic'')"
| "scales _ = False"

definition es_counts :: "slider list \<Rightarrow> js" where
  "es_counts cs = JObj (map (\<lambda>k. (k, js_get (es_node_return cs) k)) [''data'', ''master'', ''ml'', ''ingest''])"

definition es_confirmed_run :: "es_action event \<Rightarrow> es_state \<Rightarrow> effect list" where
  "es_confirmed_run ev s =
     (case ev of
        Closed i v \<Rightarrow>
          if i < length (dialogs s) \<and> dialogs s ! i = ES_ConfirmRun \<and> v = JStr ''Confirm'' \<and> \<not> es_status s
          then [Http POST ''/api/scale/elastic'' (es_counts (node_sliders s))] else []
      | _ \<Rightarrow> [])"

lemma es_sent_fields [simp]:
  "sent (s\<lparr>node_sliders := cs\<rparr>) = sent s" "sent (s\<lparr>es_status := b\<rparr>) = sent s" "sent (s\<lparr>es_loading := b\<rparr>) = sent s"
  "sent (s\<lparr>es_timers := n\<rparr>) = sent s" "sent (s\<lparr>server_node_count := v\<rparr>) = sent s"
  by (simp_all add: sent_def)

lemmas es_endpoint_defs =
  get_elastic_nodes_def post_elastic_nodes_def get_elastic_full_config_def post_elastic_full_config_def
  deploy_elastic_def check_elastic_def

lemma es_sent_check [simp]: "sent (es_show_check v s) = sent s"
  by (simp add: es_show_check_def es_open_elasticsearch_scale_in_progress_dialog_def Let_def)

lemma es_sent_answer [simp]: "sent (es_answer k r s) = sent s"
  by (cases k) (auto simp: es_answer_defs intro!: sent_answered)

lemma es_handle_not_scaling: "filter scales (sent (es_handle a s)) = filter scales (sent s)"
  by (cases a) (auto simp: es_act_defs es_endpoint_defs es_slide_def split: sum.splits nat.splits)

lemma es_closed_scaling:
  "filter scales (sent (es_closed d v s)) = filter scales (sent s) @
     (if d = ES_ConfirmRun \<and> v = JStr ''Confirm'' \<and> \<not> es_status s
      then [Http POST ''/api/scale/elastic'' (es_counts (node_sliders s))] else [])"
  by (cases d) (auto simp: es_act_defs es_endpoint_defs es_counts_def)

lemma es_node_return_Nil: "js_get (es_node_return []) k = JUndef"
  by (simp add: es_node_return_def)

section \<open>What the page guarantees\<close>

text \<open>in every state the page can reach, it shows no sliders or the four kinds of Elasticsearch pods in
  their order, a slider that is not shown stands for a count of zero, and no snack bar is dismissed
  twice.\<close>

theorem es_always:
  "case es_constructor us of
     Inl _ \<Rightarrow> current_user us = None
   | Inr s0 \<Rightarrow> (let s = fold es_step es s0 in es_sliders_ok (node_sliders s) \<and> snack_ok s)"
proof (cases "current_user us")
  case None
  then show ?thesis by (simp add: es_constructor_def isControllerMaintainer_def read_role_def)
next
  case (Some u)
  then obtain s0 where s0: "es_constructor us = Inr s0" "es_inv s0"
    by (simp add: es_constructor_def isControllerMaintainer_def isControllerAdmin_def read_role_def es_inv_def snack_ok_def)
  from es.machine.run_inv [OF s0(2), of es] show ?thesis
    by (simp add: s0(1) es_step_def es_inv_def Let_def)
qed

text \<open>C17: a request to scale Elasticsearch is sent exactly when the dialog of the run button is closed with
  Confirm while no scaling is known to be in progress, and its body holds the counts of the sliders.\<close>

theorem es_scales_confirmed:
  "filter scales (sent (es_step ev s)) = filter scales (sent s) @ es_confirmed_run ev s"
  by (cases ev) (simp_all add: es_step_def async_step_def es_confirmed_run_def es_handle_not_scaling es_closed_scaling
      del: es_closed.simps es_answer.simps)

text \<open>between the answer of a scaling request and the start of the deployment the page is not locked,
  but its sliders are gone: a second run that is confirmed in this time sends a scaling request without
  any count.\<close>

theorem es_second_run_is_empty:
  assumes "requests s = []" "dialogs s = []" "\<not> es_status s" "new_SuccessMessageClass v = Inr m"
    "s' = fold es_step
       [Act ES_RunClick, Closed 0 (JStr ''Confirm''), Answer 0 (Reply v), Act ES_RunClick, Closed 0 (JStr ''Confirm'')] s"
  shows "filter scales (sent s') = filter scales (sent s) @
      [Http POST ''/api/scale/elastic'' (es_counts (node_sliders s)),
       Http POST ''/api/scale/elastic''
         (JObj [(''data'', JUndef), (''master'', JUndef), (''ml'', JUndef), (''ingest'', JUndef)])]"
proof -
  obtain a where a: "es_open_run_confirm_dialog s = a" by simp
  have af: "requests a = []" "dialogs a = [ES_ConfirmRun]" "node_sliders a = node_sliders s" "\<not> es_status a" "sent a = sent s"
    using assms(1-3) es_more [of a s] by (simp_all add: a [symmetric] es_open_run_confirm_dialog_def)
  obtain c where c: "es_run_elasticsearch_scale (a\<lparr>dialogs := []\<rparr>) = c" by simp
  have cf: "requests c = [ES_PostNodes]" "dialogs c = []" "\<not> es_status c"
      "sent c = sent s @ [Http POST ''/api/scale/elastic'' (es_counts (node_sliders s))]"
    using af es_more [of c "a\<lparr>dialogs := [], es_loading := True\<rparr>"]
    by (simp_all add: c [symmetric] es_run_elasticsearch_scale_def es_post_nodes_eq es_endpoint_defs es_counts_def)
  let ?d = "c\<lparr>requests := [], es_timers := Suc (es_timers c), node_sliders := []\<rparr>"
  obtain e where e: "es_open_run_confirm_dialog ?d = e" by simp
  have ef: "dialogs e = [ES_ConfirmRun]" "node_sliders e = []" "\<not> es_status e" "sent e = sent c"
    using cf es_more [of e ?d] by (simp_all add: e [symmetric] es_open_run_confirm_dialog_def)
  have "s' = es_run_elasticsearch_scale (e\<lparr>dialogs := []\<rparr>)"
    using assms(2,3,4) af cf ef unfolding assms(5)
    by (simp add: es_step_def async_step_def a c e es_open_run_confirm_dialog_closed_def
        es_api_post_elastic_nodes_answer_def answered_def subscribe_def post_elastic_nodes_def es_api_deploy_elastic_def)
  then show ?thesis
    using ef cf
    by (simp add: es_run_elasticsearch_scale_def es_post_nodes_eq es_endpoint_defs es_node_return_Nil)
qed

text \<open>when a scaling request fails, the progress bar that the run started keeps running: \<open>loading\<close>
  stays true, and the sliders stay as they were.\<close>

theorem es_failed_run_keeps_loading:
  assumes "dialogs s ! i = ES_ConfirmRun" "i < length (dialogs s)" "\<not> es_status s" "requests s = []"
    "s' = fold es_step [Closed i (JStr ''Confirm''), Answer 0 (Failure f)] s"
  shows "es_loading s' \<and> \<not> es_status s' \<and> node_sliders s' = node_sliders s \<and> requests s' = [] \<and> es_timers s' = es_timers s"
proof -
  obtain c where c: "es_run_elasticsearch_scale (s\<lparr>dialogs := remove_nth i (dialogs s)\<rparr>) = c" by simp
  have cf: "requests c = [ES_PostNodes]" "\<not> es_status c" "es_loading c" "node_sliders c = node_sliders s" "es_timers c = es_timers s"
    using assms(3,4) es_more [of c "s\<lparr>dialogs := remove_nth i (dialogs s), es_loading := True\<rparr>"]
    by (simp_all add: c [symmetric] es_run_elasticsearch_scale_def es_post_nodes_eq)
  let ?c = "c\<lparr>requests := []\<rparr>"
  have s': "s' = es_answer ES_PostNodes (Failure f) ?c"
    using assms(1-3) cf unfolding assms(5)
    by (simp add: es_step_def async_step_def c es_open_run_confirm_dialog_closed_def)
  have more: "world.more s' = world.more ?c"
    unfolding s' by (simp add: es_api_post_elastic_nodes_answer_def answered_failure)
  from es_more [OF world_more_async [OF more]] world_more_requests [OF more] cf show ?thesis by simp
qed

text \<open>The page of a user, for the witnesses.\<close>

definition es_page :: es_state where
  "es_page = \<lparr>trace = [], matSnackBarRef = None, requests = [], dialogs = [], node_sliders = [],
     server_node_count = JNum 0, es_status = False, es_loading = False, es_maintainer = True, es_admin = True, es_timers = 0\<rparr>"

theorem es_second_run_is_empty_witness:
  "filter scales (sent (fold es_step
      [Act ES_RunClick, Closed 0 (JStr ''Confirm''), Answer 0 (Reply (JObj [])), Act ES_RunClick, Closed 0 (JStr ''Confirm'')]
      (es_page\<lparr>node_sliders := map (\<lambda>(t, _). new_SliderControlClass t (JObj [(''data'', JNum 3)])) NodeTitleEnum\<rparr>))) =
   [Http POST ''/api/scale/elastic''
      (JObj [(''data'', JNum 3), (''master'', JNum 0), (''ml'', JNum 0), (''ingest'', JNum 0)]),
    Http POST ''/api/scale/elastic''
      (JObj [(''data'', JUndef), (''master'', JUndef), (''ml'', JUndef), (''ingest'', JUndef)])]"
proof -
  let ?cs = "map (\<lambda>(t, _). new_SliderControlClass t (JObj [(''data'', JNum 3)])) NodeTitleEnum"
  have "new_SuccessMessageClass (JObj []) = Inr (JObj [(''success_message'', JUndef)])"
    by (simp add: new_SuccessMessageClass_def construct_def copy_def)
  moreover have "es_counts ?cs = JObj [(''data'', JNum 3), (''master'', JNum 0), (''ml'', JNum 0), (''ingest'', JNum 0)]"
    by (simp add: es_counts_def es_node_return_def NodeTitleEnum_def new_SliderControlClass_def notUndefNull_def Let_def)
  ultimately show ?thesis
    using es_second_run_is_empty [of "es_page\<lparr>node_sliders := ?cs\<rparr>" "JObj []" _, OF _ _ _ _ refl]
    by (simp add: es_page_def sent_def)
qed

theorem es_failed_run_keeps_loading_witness:
  "\<forall>f. es_loading (fold es_step [Closed 0 (JStr ''Confirm''), Answer 0 (Failure f)] (es_page\<lparr>dialogs := [ES_ConfirmRun]\<rparr>))"
proof
  fix f
  show "es_loading (fold es_step [Closed 0 (JStr ''Confirm''), Answer 0 (Failure f)] (es_page\<lparr>dialogs := [ES_ConfirmRun]\<rparr>))"
    using es_failed_run_keeps_loading [of "es_page\<lparr>dialogs := [ES_ConfirmRun]\<rparr>" 0, OF _ _ _ _ refl, of f]
    by (simp add: es_page_def)
qed

text \<open>C35: the broadcast that scaling is complete ends the lock: \<open>status\<close> and \<open>loading\<close> become false, the
  counts are requested again, and the answer brings the four sliders back, from any state of the page.\<close>

theorem es_completed_unlocks:
  assumes "new_NotificationClass v = Inr n" "js_get n ''status'' = JStr ''COMPLETED''"
    "js_get n ''message'' = JStr ''Elastic scaling completed successfully.''"
    "new_ElasticsearchNodeClass w = Inr counts"
    "s' = fold es_step [Act (ES_Broadcast v), Answer (length (requests s)) (Reply w)] s"
  shows "\<not> es_status s' \<and> \<not> es_loading s' \<and> requests s' = requests s \<and> dialogs s' = dialogs s \<and>
    map slider_type (node_sliders s') = [''master'', ''data'', ''ml'', ''ingest''] \<and>
    map (\<lambda>c. (slider_type c, current_count c)) (node_sliders s') =
      map (\<lambda>t. (t, if notUndefNull (js_get counts t) then js_get counts t else JNum 0)) [''master'', ''data'', ''ml'', ''ingest'']"
proof -
  obtain a where a: "call get_elastic_nodes ES_Nodes (s\<lparr>es_status := False, es_loading := False\<rparr>) = a" by simp
  have af: "requests a = requests s @ [ES_Nodes]" "dialogs a = dialogs s" "\<not> es_status a" "\<not> es_loading a"
    using es_more [of a "s\<lparr>es_status := False, es_loading := False\<rparr>"] by (simp_all add: a [symmetric])
  have "s' = a\<lparr>requests := requests s, server_node_count := js_get counts ''server_node_count'',
      node_sliders := map (\<lambda>(t, _). new_SliderControlClass t counts) NodeTitleEnum\<rparr>"
    using assms(1-4) af a [unfolded get_elastic_nodes_def] unfolding assms(5)
    by (simp add: es_step_def async_step_def es_setup_websocket_onbroadcast_def es_api_get_elastic_nodes_def
        remove_nth_def es_api_get_elastic_nodes_answer_def answered_def subscribe_def get_elastic_nodes_def)
  moreover have "notUndefNull counts"
    using assms(4) by (auto simp: new_ElasticsearchNodeClass_def construct_def smap_Inr_iff split: if_splits)
  ultimately show ?thesis
    using af by (simp add: NodeTitleEnum_def new_SliderControlClass_def Let_def)
qed

theorem es_completed_unlocks_witness:
  "let n = JObj [(''status'', JStr ''COMPLETED''), (''message'', JStr ''Elastic scaling completed successfully.'')]
   in \<not> es_status (fold es_step [Act (ES_Broadcast n), Answer 0 (Reply (JObj []))] (es_page\<lparr>es_status := True\<rparr>))"
proof -
  let ?n = "JObj [(''status'', JStr ''COMPLETED''), (''message'', JStr ''Elastic scaling completed successfully.'')]"
  obtain n where n: "new_NotificationClass ?n = Inr n" "js_get n ''status'' = JStr ''COMPLETED''"
    "js_get n ''message'' = JStr ''Elastic scaling completed successfully.''"
    by (simp add: new_NotificationClass_def construct_def copy_def notUndefNull_def)
  obtain c where c: "new_ElasticsearchNodeClass (JObj []) = Inr c"
    by (simp add: new_ElasticsearchNodeClass_def construct_def copy_def)
  have "requests (es_page\<lparr>es_status := True\<rparr>) = []" by (simp add: es_page_def)
  then show ?thesis
    using es_completed_unlocks [OF n c refl, of "es_page\<lparr>es_status := True\<rparr>"] by (simp add: Let_def)
qed

text \<open>when no kit is deployed, the page offers to go to the kit configuration, but the snack bar leads
  to a path that no route has.\<close>

theorem es_kit_config_leads_nowhere:
  assumes "new_ElasticsearchCheckClass v = Inr c" "js_get c ''status'' = JStr ''None''"
  shows "\<exists>pre. trace (es_answer ES_Check (Reply v) s) = trace s @ pre @
      [SnackOpen (JStr ''Error - You cannot scale Elasticsearch until you have a Kit deployed and Elastic is installed'')
         ''Kit Config'' (Some 60000) []] \<and>
    snack_action ES_KIT_CONFIG = Some (RouteTo ''/kit_configuration'') \<and>
    navigate us ''/kit_configuration'' w = None"
proof -
  have "navigate us ''/kit_configuration'' w = None"
    by (simp add: navigate_def path_of_url_def routes_def page_def find_None_iff)
  moreover have "es_answer ES_Check (Reply v) s = es_show_check c s"
    using assms(1) by (simp add: es_api_check_elastic_answer_def answered_def subscribe_def check_elastic_def)
  ultimately show ?thesis
    using assms(2)
    by (simp add: es_show_check_def Let_def generate_return_error_snackbar_message_def displaySnackBar_def
        destroySnackBar_def ES_KIT_CONFIG_def split: option.splits)
qed

theorem es_kit_config_leads_nowhere_witness:
  "\<forall>us (w :: es_state). navigate us ''/kit_configuration'' w = None"
proof (intro allI)
  fix us and w :: es_state
  have "new_ElasticsearchCheckClass (JObj [(''status'', JStr ''None'')]) = Inr (JObj [(''status'', JStr ''None'')])"
    by (simp add: new_ElasticsearchCheckClass_def construct_def copy_def notUndefNull_def)
  from es_kit_config_leads_nowhere [OF this, of es_page us w]
  show "navigate us ''/kit_configuration'' w = None" by simp
qed

end
