(* ===== verification/Json.thy ===== *)
theory Json
  imports Data_Classes
begin

text \<open>
  \<open>JSON.parse\<close>, as a recursive descent parser that returns the value and the rest of the text, and its
  round trip with \<open>JSON_stringify\<close>. Pages keep settings in cookies as JSON texts. Two kinds of texts have
  no value in the model and are refused: numbers with a fraction or an exponent, and escapes above
  \<open>\u00ff\<close>. The fuel bounds the depth of calls: a call that consumes a character may use one more, and
  \<open>JSON_parse\<close> starts with twice the length of the text.
\<close>

section \<open>Tokens\<close>

definition json_space :: "char \<Rightarrow> bool" where
  "json_space c \<longleftrightarrow> (of_char c :: nat) \<in> {9, 10, 13, 32}"

definition json_skip :: "string \<Rightarrow> string" where
  "json_skip = dropWhile json_space"

definition hex_val :: "char \<Rightarrow> nat option" where
  "hex_val c =
     (let n = (of_char c :: nat) in
      if 48 \<le> n \<and> n \<le> 57 then Some (n - 48)
      else if 97 \<le> n \<and> n \<le> 102 then Some (n - 87)
      else if 65 \<le> n \<and> n \<le> 70 then Some (n - 55) else None)"

definition json_unicode :: "char \<Rightarrow> char \<Rightarrow> char \<Rightarrow> char \<Rightarrow> char option" where
  "json_unicode a b c d =
     (case (hex_val a, hex_val b, hex_val c, hex_val d) of
        (Some 0, Some 0, Some m, Some n) \<Rightarrow> Some (char_of (16 * m + n))
      | _ \<Rightarrow> None)"

definition json_unescape :: "char \<Rightarrow> char option" where
  "json_unescape c =
     (let n = (of_char c :: nat) in
      if n = 34 \<or> n = 92 \<or> n = 47 then Some c
      else if c = CHR ''b'' then Some (char_of (8 :: nat))
      else if c = CHR ''t'' then Some (char_of (9 :: nat))
      else if c = CHR ''n'' then Some (char_of (10 :: nat))
      else if c = CHR ''f'' then Some (char_of (12 :: nat))
      else if c = CHR ''r'' then Some (char_of (13 :: nat))
      else None)"

text \<open>The text after an opening quote.\<close>

fun json_string :: "string \<Rightarrow> (string \<times> string) option" where
  "json_string [] = None"
| "json_string (c # cs) =
     (if c = CHR 0x22 then Some ([], cs)
      else if c = CHR 0x5C then
        (case cs of
           [] \<Rightarrow> None
         | e # r \<Rightarrow>
             if e = CHR ''u'' then
               (case r of
                  h1 # h2 # h3 # h4 # r' \<Rightarrow>
                    (case json_unicode h1 h2 h3 h4 of
                       None \<Rightarrow> None
                     | Some x \<Rightarrow> map_option (\<lambda>(s, q). (x # s, q)) (json_string r'))
                | _ \<Rightarrow> None)
             else
               (case json_unescape e of
                  None \<Rightarrow> None
                | Some x \<Rightarrow> map_option (\<lambda>(s, q). (x # s, q)) (json_string r)))
      else if (of_char c :: nat) < 32 then None
      else map_option (\<lambda>(s, q). (c # s, q)) (json_string cs))"

definition json_num_end :: "string \<Rightarrow> bool" where
  "json_num_end s \<longleftrightarrow> (s = [] \<or> \<not> is_digit (hd s) \<and> hd s \<notin> set ''.eE'')"

definition json_nat :: "string \<Rightarrow> (nat \<times> string) option" where
  "json_nat s =
     (let ds = takeWhile is_digit s; r = dropWhile is_digit s in
      if ds = [] \<or> (hd ds = CHR ''0'' \<and> tl ds \<noteq> []) \<or> \<not> json_num_end r then None
      else Some (dec_value ds, r))"

definition json_number :: "string \<Rightarrow> (js \<times> string) option" where
  "json_number s =
     (if starts_with ''-'' s then map_option (\<lambda>(n, r). (JNum (- int n), r)) (json_nat (tl s))
      else map_option (\<lambda>(n, r). (JNum (int n), r)) (json_nat s))"

section \<open>Values\<close>

fun json_value :: "nat \<Rightarrow> string \<Rightarrow> (js \<times> string) option"
  and json_elements :: "nat \<Rightarrow> string \<Rightarrow> (js list \<times> string) option"
  and json_members :: "nat \<Rightarrow> (string \<times> js) list \<Rightarrow> string \<Rightarrow> ((string \<times> js) list \<times> string) option" where
  "json_value 0 s = None"
| "json_value (Suc n) s =
     (let t = json_skip s in
      if starts_with [CHR 0x22] t then map_option (\<lambda>(x, r). (JStr x, r)) (json_string (tl t))
      else if starts_with ''['' t then
        (if starts_with '']'' (json_skip (tl t)) then Some (JArr [], tl (json_skip (tl t)))
         else map_option (\<lambda>(vs, r). (JArr vs, r)) (json_elements n (tl t)))
      else if starts_with ''{'' t then
        (if starts_with ''}'' (json_skip (tl t)) then Some (JObj [], tl (json_skip (tl t)))
         else map_option (\<lambda>(kvs, r). (JObj kvs, r)) (json_members n [] (tl t)))
      else if starts_with ''true'' t then Some (JBool True, drop 4 t)
      else if starts_with ''false'' t then Some (JBool False, drop 5 t)
      else if starts_with ''null'' t then Some (JNull, drop 4 t)
      else json_number t)"
| "json_elements 0 s = None"
| "json_elements (Suc n) s =
     (case json_value n s of
        None \<Rightarrow> None
      | Some (v, r) \<Rightarrow>
          let t = json_skip r in
          if starts_with '']'' t then Some ([v], tl t)
          else if starts_with '','' t then map_option (\<lambda>(vs, q). (v # vs, q)) (json_elements n (tl t))
          else None)"
| "json_members 0 acc s = None"
| "json_members (Suc n) acc s =
     (if starts_with [CHR 0x22] (json_skip s) then
        (case json_string (tl (json_skip s)) of
           None \<Rightarrow> None
         | Some (k, r) \<Rightarrow>
             if starts_with '':'' (json_skip r) then
               (case json_value n (tl (json_skip r)) of
                  None \<Rightarrow> None
                | Some (v, q) \<Rightarrow>
                    let t = json_skip q in
                    if starts_with ''}'' t then Some (AList.update k v acc, tl t)
                    else if starts_with '','' t then json_members n (AList.update k v acc) (tl t)
                    else None)
             else None)
      else None)"

definition JSON_parse :: "string \<Rightarrow> js_error + js" where
  "JSON_parse s =
     (case json_value (2 * length s + 1) s of
        Some (v, r) \<Rightarrow> if json_skip r = [] then Inr v else Inl SyntaxError
      | None \<Rightarrow> Inl SyntaxError)"

section \<open>Round trip\<close>

text \<open>What \<open>JSON.stringify\<close> keeps of a value.\<close>

fun json_clean :: "js \<Rightarrow> js" where
  "json_clean JUndef = JNull"
| "json_clean (JArr vs) = JArr (map json_clean vs)"
| "json_clean (JObj kvs) =
     JObj (map (\<lambda>kv. (fst kv, json_clean (snd kv))) (filter (\<lambda>kv. snd kv \<noteq> JUndef) kvs))"
| "json_clean v = v"

fun js_wf :: "js \<Rightarrow> bool" where
  "js_wf (JArr vs) = list_all js_wf vs"
| "js_wf (JObj kvs) \<longleftrightarrow> distinct (map fst kvs) \<and> list_all (\<lambda>kv. js_wf (snd kv)) kvs"
| "js_wf _ = True"

lemma hex_digit_val:
  assumes "n < 16"
  shows "hex_val (hex_digit n) = Some n"
  using assms by (cases "n < 10") (simp_all add: hex_digit_def digit_char_def hex_val_def Let_def)

lemma json_unicode_escape:
  assumes "(of_char c :: nat) < 32"
  shows "json_unicode (CHR ''0'') (CHR ''0'') (hex_digit (of_char c div 16)) (hex_digit (of_char c mod 16)) = Some c"
proof -
  have "hex_val (CHR ''0'') = Some 0" by (simp add: hex_val_def)
  moreover have "hex_val (hex_digit (of_char c div 16)) = Some (of_char c div 16)"
    "hex_val (hex_digit (of_char c mod 16)) = Some (of_char c mod 16)"
    using assms by (simp_all add: hex_digit_val)
  moreover have "16 * ((of_char c :: nat) div 16) + of_char c mod 16 = of_char c" by simp
  ultimately show ?thesis by (simp add: json_unicode_def)
qed

lemma json_string_escape: "json_string (json_escape c @ r) = map_option (\<lambda>(s, q). (c # s, q)) (json_string r)"
proof -
  let ?n = "of_char c :: nat"
  have c: "c = char_of ?n" by simp
  have [simp]: "char_of (34 :: nat) = CHR 0x22" "char_of (92 :: nat) = CHR 0x5C"
    using char_of_char [of "CHR 0x22", where ?'a = nat] char_of_char [of "CHR 0x5C", where ?'a = nat] by simp_all
  consider "?n \<in> {34, 92, 8, 9, 10, 12, 13}" | "?n < 32" "?n \<notin> {8, 9, 10, 12, 13}" | "?n \<ge> 32" "?n \<notin> {34, 92}"
    by fastforce
  then show ?thesis
  proof cases
    case 1
    then show ?thesis
      by (elim insertE emptyE; subst (1 2) c) (simp_all add: json_escape_def json_unescape_def Let_def)
  next
    case 2
    then have "json_escape c = CHR 0x5C # ''u00'' @ [hex_digit (?n div 16), hex_digit (?n mod 16)]"
      by (simp add: json_escape_def Let_def)
    then show ?thesis using json_unicode_escape [OF 2(1)] by simp
  next
    case 3
    then have "c \<noteq> CHR 0x22" "c \<noteq> CHR 0x5C" "json_escape c = [c]" by (auto simp: json_escape_def Let_def)
    then show ?thesis using 3 by simp
  qed
qed

lemma json_string_quote: "json_string (concat (map json_escape s) @ CHR 0x22 # r) = Some (s, r)"
  by (induction s) (simp_all add: json_string_escape)

lemma digit_val_char: "n < 10 \<Longrightarrow> digit_val (digit_char n) = n \<and> is_digit (digit_char n)"
  by (simp add: digit_val_def digit_char_def is_digit_def)

lemma show_nat_all_digit: "list_all is_digit (show_nat n)"
proof (induction n rule: show_nat.induct)
  case (1 n)
  then show ?case
    using digit_val_char [of n] digit_val_char [of "n mod 10"] by (subst show_nat.simps) auto
qed

lemma show_nat_value: "dec_value (show_nat n) = n"
proof (induction n rule: show_nat.induct)
  case (1 n)
  have step: "dec_value (s @ [d]) = dec_value s * 10 + digit_val d" for s d
    by (simp add: dec_value_def)
  show ?case
    using 1 digit_val_char [of n] digit_val_char [of "n mod 10"]
    by (subst show_nat.simps) (simp add: step, simp add: dec_value_def)
qed

lemma show_nat_no_zero: "show_nat n \<noteq> [] \<and> (hd (show_nat n) = CHR ''0'' \<longrightarrow> show_nat n = ''0'')"
proof (induction n rule: show_nat.induct)
  case (1 n)
  show ?case
  proof (cases "n < 10")
    case True
    then have "n \<in> {0, 1, 2, 3, 4, 5, 6, 7, 8, 9}" by auto
    then show ?thesis
      by (elim insertE emptyE) (simp_all add: show_nat.simps digit_char_def)
  next
    case False
    have "show_nat (n div 10) \<noteq> ''0''"
    proof
      assume "show_nat (n div 10) = ''0''"
      with show_nat_value [of "n div 10"] have "n div 10 = dec_value ''0''" by simp
      then show False using False by (simp add: dec_value_def digit_val_def)
    qed
    with 1 False show ?thesis by (subst (1 2 3) show_nat.simps) auto
  qed
qed

lemma json_nat_show:
  assumes "json_num_end r"
  shows "json_nat (show_nat n @ r) = Some (n, r)"
proof -
  have take: "takeWhile is_digit (show_nat n @ r) = show_nat n"
    using show_nat_all_digit [of n] assms
    by (subst takeWhile_append2) (auto simp: list_all_iff json_num_end_def takeWhile_eq_Nil_iff)
  have drop: "dropWhile is_digit (show_nat n @ r) = r"
    using show_nat_all_digit [of n] assms
    by (subst dropWhile_append2) (auto simp: list_all_iff json_num_end_def dropWhile_eq_self_iff)
  have "\<not> (hd (show_nat n) = CHR ''0'' \<and> tl (show_nat n) \<noteq> [])" "show_nat n \<noteq> []"
    using show_nat_no_zero [of n] by auto
  then show ?thesis
    using show_nat_value [of n] assms unfolding json_nat_def take drop Let_def by auto
qed

lemma json_skip_Cons [simp]: "\<not> json_space c \<Longrightarrow> json_skip (c # s) = c # s"
  by (simp add: json_skip_def)

lemma json_space_punct [simp]:
  "\<not> json_space (CHR 0x22)" "\<not> json_space (CHR ''['')" "\<not> json_space (CHR '']'')" "\<not> json_space (CHR ''{'')"
  "\<not> json_space (CHR ''}'')" "\<not> json_space (CHR '','')" "\<not> json_space (CHR '':'')" "\<not> json_space (CHR ''t'')"
  "\<not> json_space (CHR ''f'')" "\<not> json_space (CHR ''n'')" "\<not> json_space (CHR ''-'')"
  by (simp_all add: json_space_def)

lemma json_num_end_punct [simp]:
  "json_num_end []" "json_num_end (CHR '']'' # r)" "json_num_end (CHR ''}'' # r)" "json_num_end (CHR '','' # r)"
  by (simp_all add: json_num_end_def is_digit_def)

lemma digit_char_facts:
  assumes "is_digit c"
  shows "\<not> json_space c" "c \<notin> set [CHR 0x22, CHR ''['', CHR ''{'', CHR ''t'', CHR ''f'', CHR ''n'', CHR ''-'', CHR '']'']"
  using assms by (auto simp: is_digit_def json_space_def)

lemma js_join_Cons: "ps \<noteq> [] \<Longrightarrow> js_join sep (p # ps) = p @ sep @ js_join sep ps"
  by (cases ps) simp_all

lemma json_value_digit: "is_digit c \<Longrightarrow> json_value (Suc n) (c # s) = json_number (c # s)"
  using digit_char_facts [of c] by (auto simp: Let_def)

lemma json_value_minus: "json_value (Suc n) (CHR ''-'' # s) = json_number (CHR ''-'' # s)"
  by (simp add: Let_def)

lemma json_value_quote: "json_value (Suc n) (CHR 0x22 # s) = map_option (\<lambda>(x, r). (JStr x, r)) (json_string s)"
  by (simp add: Let_def)

lemma json_value_array:
  "\<not> starts_with '']'' (json_skip s) \<Longrightarrow>
   json_value (Suc n) (CHR ''['' # s) = map_option (\<lambda>(vs, r). (JArr vs, r)) (json_elements n s)"
  by (simp add: Let_def)

lemma json_value_object:
  "\<not> starts_with ''}'' (json_skip s) \<Longrightarrow>
   json_value (Suc n) (CHR ''{'' # s) = map_option (\<lambda>(kvs, r). (JObj kvs, r)) (json_members n [] s)"
  by (simp add: Let_def)

lemma json_number_show:
  assumes "json_num_end r"
  shows "json_value (Suc n) (show_int i @ r) = Some (JNum i, r)"
proof (cases "i < 0")
  case True
  then show ?thesis
    using json_nat_show [OF assms, of "nat (- i)"] by (simp add: show_int_def json_value_minus json_number_def del: json_value.simps)
next
  case False
  obtain c s where cs: "show_nat (nat i) = c # s" "is_digit c"
    using show_nat_no_zero [of "nat i"] show_nat_all_digit [of "nat i"] by (cases "show_nat (nat i)") auto
  then have "json_value (Suc n) (show_int i @ r) = json_number (show_nat (nat i) @ r)"
    using False by (simp add: show_int_def json_value_digit del: json_value.simps)
  also have "\<not> starts_with ''-'' (show_nat (nat i) @ r)" using cs digit_char_facts [of c] by auto
  then have "json_number (show_nat (nat i) @ r) = Some (JNum i, r)"
    using json_nat_show [OF assms, of "nat i"] False by (simp add: json_number_def)
  finally show ?thesis .
qed

lemma json_text_head: "\<exists>c s. json_text v = c # s \<and> \<not> json_space c \<and> c \<noteq> CHR '']''"
proof (cases v)
  case (JNum i)
  obtain c s where "show_nat (nat (abs i)) = c # s" "is_digit c"
    using show_nat_no_zero [of "nat (abs i)"] show_nat_all_digit [of "nat (abs i)"] by (cases "show_nat (nat (abs i))") auto
  then show ?thesis using JNum digit_char_facts [of c] by (auto simp: show_int_def)
qed (simp_all add: json_quote_def)

definition json_reads :: "js \<Rightarrow> bool" where
  "json_reads v \<longleftrightarrow> (\<forall>n r. json_num_end r \<longrightarrow> 2 * length (json_text v) < n \<longrightarrow>
     json_value n (json_text v @ r) = Some (json_clean v, r))"

lemma json_readsI:
  assumes "\<And>n r. json_num_end r \<Longrightarrow> 2 * length (json_text v) \<le> n \<Longrightarrow> json_value (Suc n) (json_text v @ r) = Some (json_clean v, r)"
  shows "json_reads v"
  unfolding json_reads_def
proof (intro allI impI)
  fix n r assume "json_num_end r" "2 * length (json_text v) < n"
  then show "json_value n (json_text v @ r) = Some (json_clean v, r)"
    using assms [of r "n - 1"] by (cases n) (simp_all del: json_value.simps)
qed

lemma json_elements_text:
  assumes "vs \<noteq> []" "\<forall>v \<in> set vs. json_reads v" "2 * length (js_join '','' (map json_text vs)) + 2 \<le> n"
  shows "json_elements n (js_join '','' (map json_text vs) @ CHR '']'' # r) = Some (map json_clean vs, r)"
  using assms
proof (induction vs arbitrary: n rule: list_nonempty_induct)
  case (single v)
  then obtain m where "n = Suc m" by (cases n) auto
  with single show ?case by (simp add: json_reads_def)
next
  case (cons v vs)
  then obtain m where m: "n = Suc m" by (cases n) auto
  let ?rest = "js_join '','' (map json_text vs)"
  have join: "js_join '','' (map json_text (v # vs)) = json_text v @ CHR '','' # ?rest"
    using cons.hyps by (simp add: js_join_Cons)
  have "json_value m (json_text v @ CHR '','' # (?rest @ CHR '']'' # r)) = Some (json_clean v, CHR '','' # (?rest @ CHR '']'' # r))"
    using cons.prems unfolding m join by (simp add: json_reads_def)
  moreover have "json_elements m (?rest @ CHR '']'' # r) = Some (map json_clean vs, r)"
    using cons.prems unfolding m join by (intro cons.IH) simp_all
  ultimately show ?case unfolding m join by simp
qed

lemma update_fresh: "k \<notin> fst ` set kvs \<Longrightarrow> AList.update k v kvs = kvs @ [(k, v)]"
  by (induction kvs) auto

definition json_member :: "string \<times> js \<Rightarrow> string" where
  "json_member kv = json_quote (fst kv) @ '':'' @ json_text (snd kv)"

lemma json_members_text:
  assumes "kvs \<noteq> []" "\<forall>kv \<in> set kvs. json_reads (snd kv)" "2 * length (js_join '','' (map json_member kvs)) + 2 \<le> n"
    "distinct (map fst acc @ map fst kvs)"
  shows "json_members n acc (js_join '','' (map json_member kvs) @ CHR ''}'' # r) =
    Some (acc @ map (\<lambda>kv. (fst kv, json_clean (snd kv))) kvs, r)"
  using assms
proof (induction kvs arbitrary: n acc rule: list_nonempty_induct)
  case (single kv)
  then obtain m where "n = Suc m" by (cases n) auto
  with single show ?case
    using update_fresh [of "fst kv" acc "json_clean (snd kv)"]
    by (cases kv) (simp add: json_reads_def json_member_def json_quote_def json_string_quote)
next
  case (cons kv kvs)
  then obtain m where m: "n = Suc m" by (cases n) auto
  let ?rest = "js_join '','' (map json_member kvs)"
  let ?acc = "AList.update (fst kv) (json_clean (snd kv)) acc"
  have join: "js_join '','' (map json_member (kv # kvs)) = json_member kv @ CHR '','' # ?rest"
    using cons.hyps by (simp add: js_join_Cons)
  have acc: "?acc = acc @ [(fst kv, json_clean (snd kv))]"
    using cons.prems(3) by (intro update_fresh) auto
  have "json_value m (json_text (snd kv) @ CHR '','' # (?rest @ CHR ''}'' # r)) =
      Some (json_clean (snd kv), CHR '','' # (?rest @ CHR ''}'' # r))"
    using cons.prems unfolding m join by (simp add: json_reads_def json_member_def)
  moreover have "json_members m ?acc (?rest @ CHR ''}'' # r) =
      Some (?acc @ map (\<lambda>kv. (fst kv, json_clean (snd kv))) kvs, r)"
    using cons.prems unfolding m join acc by (intro cons.IH) auto
  moreover have "json_string (concat (map json_escape (fst kv)) @ CHR 0x22 # q) = Some (fst kv, q)" for q
    by (rule json_string_quote)
  ultimately show ?case unfolding m join by (simp add: json_member_def [of kv] json_quote_def acc)
qed

lemma json_value_text: "js_wf v \<Longrightarrow> json_reads v"
proof (induction v)
  case (JArr vs)
  have "json_value (Suc n) (json_text (JArr vs) @ r) = Some (json_clean (JArr vs), r)"
    if "2 * length (json_text (JArr vs)) \<le> n" for n r
  proof (cases vs)
    case (Cons w ws)
    obtain c s where "json_text w = c # s" "\<not> json_space c" "c \<noteq> CHR '']''"
      using json_text_head by blast
    then have "\<not> starts_with '']'' (json_skip (js_join '','' (map json_text vs) @ CHR '']'' # r))"
      using Cons by (cases ws) auto
    moreover have "json_elements n (js_join '','' (map json_text vs) @ CHR '']'' # r) = Some (map json_clean vs, r)"
      using that Cons JArr by (intro json_elements_text) (auto simp: list_all_iff)
    ultimately show ?thesis by (simp add: json_value_array del: json_value.simps)
  qed (simp add: Let_def)
  then show ?case by (rule json_readsI)
next
  case (JObj kvs)
  let ?kvs = "filter (\<lambda>kv. snd kv \<noteq> JUndef) kvs"
  have obj_text: "json_text (JObj kvs) = CHR ''{'' # js_join '','' (map json_member ?kvs) @ ''}''"
    by (simp add: json_member_def cong: map_cong)
  have "json_value (Suc n) (json_text (JObj kvs) @ r) = Some (json_clean (JObj kvs), r)"
    if n: "2 * length (json_text (JObj kvs)) \<le> n" for n r
  proof (cases ?kvs)
    case Nil
    then show ?thesis by (simp add: Let_def)
  next
    case (Cons w ws)
    have "\<not> starts_with ''}'' (json_skip (js_join '','' (map json_member ?kvs) @ CHR ''}'' # r))"
      unfolding Cons by (cases ws) (simp_all add: json_member_def json_quote_def)
    moreover have "json_members n [] (js_join '','' (map json_member ?kvs) @ CHR ''}'' # r) =
        Some ([] @ map (\<lambda>kv. (fst kv, json_clean (snd kv))) ?kvs, r)"
    proof (rule json_members_text)
      show "\<forall>kv \<in> set ?kvs. json_reads (snd kv)"
        using JObj by (fastforce simp: list_all_iff snds.simps)
      show "distinct (map fst [] @ map fst ?kvs)" using JObj.prems by (simp add: distinct_map_filter)
    qed (use n Cons in \<open>simp_all add: obj_text del: json_text.simps\<close>)
    ultimately show ?thesis by (simp add: obj_text json_value_object del: json_text.simps json_value.simps)
  qed
  then show ?case by (rule json_readsI)
next
  case (JNum i)
  show ?case by (rule json_readsI) (simp add: json_number_show del: json_value.simps)
next
  case (JStr x)
  show ?case by (rule json_readsI) (simp add: json_quote_def json_value_quote json_string_quote del: json_value.simps)
qed (rule json_readsI, simp add: Let_def)+

text \<open>Parsing the text of a value gives what \<open>JSON.stringify\<close> keeps of it.\<close>

lemma json_round_trip:
  assumes "js_wf v"
  shows "JSON_parse (json_text v) = Inr (json_clean v)"
proof -
  have "json_value (2 * length (json_text v) + 1) (json_text v @ []) = Some (json_clean v, [])"
    using json_value_text [OF assms, unfolded json_reads_def, rule_format, of "[]" "2 * length (json_text v) + 1"]
    by (simp del: json_value.simps)
  then show ?thesis by (simp add: JSON_parse_def json_skip_def del: json_value.simps)
qed

end
