(* ===== verification/Dates.thy ===== *)
theory Dates
  imports Json
begin

text \<open>
  Time values of JavaScript: milliseconds since 1970, without leap seconds; \<open>None\<close> is the invalid date.
  The year of a day is found by a search that starts near it. \<open>toISOString\<close> writes, and \<open>Date_parse\<close>
  reads, the format \<open>YYYY-MM-DDTHH:mm:ss.sssZ\<close> with expanded years outside 0 to 9999; other texts, which
  a browser may or may not read, are invalid dates here.
\<close>

section \<open>Calendar\<close>

definition day_from_year :: "int \<Rightarrow> int" where
  "day_from_year y = 365 * (y - 1970) + (y - 1969) div 4 - (y - 1901) div 100 + (y - 1601) div 400"

definition leap_year :: "int \<Rightarrow> bool" where
  "leap_year y \<longleftrightarrow> y mod 4 = 0 \<and> (y mod 100 \<noteq> 0 \<or> y mod 400 = 0)"

lemma div_step:
  fixes x k :: int
  assumes "0 < k"
  shows "(x + 1) div k = x div k + (if (x + 1) mod k = 0 then 1 else 0)"
proof (cases "x mod k + 1 < k")
  case True
  have "x + 1 = k * (x div k) + (x mod k + 1)" by simp
  then have "(x + 1) div k = x div k" "(x + 1) mod k = x mod k + 1"
    using True assms int_div_pos_eq [of "x + 1" k "x div k" "x mod k + 1"] int_mod_pos_eq [of "x + 1" k "x div k" "x mod k + 1"]
    by simp_all
  then show ?thesis using assms by (simp add: pos_mod_sign add_nonneg_eq_0_iff)
next
  case False
  then have "x mod k = k - 1" using pos_mod_bound [OF assms, of x] by simp
  then have "x + 1 = k * (x div k) + k" using mult_div_mod_eq [of k x] by linarith
  then have "x + 1 = k * (x div k + 1)" by (simp add: distrib_left)
  then show ?thesis using assms by simp
qed

lemma div_bounds:
  fixes x k :: int
  assumes "0 < k"
  shows "k * (x div k) \<le> x" "x < k * (x div k) + k"
  using pos_mod_bound [OF assms, of x] pos_mod_sign [OF assms, of x] mult_div_mod_eq [of k x] by linarith+

lemma leap_sum:
  fixes z a b c :: int
  shows "(q \<longrightarrow> p) \<Longrightarrow> (r \<longrightarrow> q) \<Longrightarrow>
    z + 365 + (a + (if p then 1 else 0)) - (b + (if q then 1 else 0)) + (c + (if r then 1 else 0)) =
    z + a - b + c + (if p \<and> (\<not> q \<or> r) then 366 else 365)"
  by (cases p; cases q; cases r) simp_all

lemma next_year: "day_from_year (y + 1) = day_from_year y + (if leap_year y then 366 else 365)"
proof -
  have e: "y + 1 - 1969 = y - 1969 + 1" "y + 1 - 1901 = y - 1901 + 1" "y + 1 - 1601 = y - 1601 + 1" by simp_all
  have "y - 1969 + 1 = y + (- 492) * 4" "y - 1901 + 1 = y + (- 19) * 100" "y - 1601 + 1 = y + (- 4) * 400" by simp_all
  then have m: "(y - 1969 + 1) mod 4 = y mod 4" "(y - 1901 + 1) mod 100 = y mod 100" "(y - 1601 + 1) mod 400 = y mod 400"
    by (simp_all only: mod_mult_self1)
  have d: "(y - 1969 + 1) div 4 = (y - 1969) div 4 + (if y mod 4 = 0 then 1 else 0)"
    "(y - 1901 + 1) div 100 = (y - 1901) div 100 + (if y mod 100 = 0 then 1 else 0)"
    "(y - 1601 + 1) div 400 = (y - 1601) div 400 + (if y mod 400 = 0 then 1 else 0)"
    using div_step [of 4 "y - 1969"] div_step [of 100 "y - 1901"] div_step [of 400 "y - 1601"] by (simp_all only: m simp_thms zero_less_numeral)
  have l: "y mod 100 = 0 \<longrightarrow> y mod 4 = 0" "y mod 400 = 0 \<longrightarrow> y mod 100 = 0"
    using dvd_trans [of 4 100 y] dvd_trans [of 100 400 y] by (simp_all add: mod_eq_0_iff_dvd)
  have s: "365 * (y + 1 - 1970) = 365 * (y - 1970) + 365" by simp
  show ?thesis unfolding day_from_year_def e d s leap_year_def by (rule leap_sum [OF l])
qed

function year_search :: "int \<Rightarrow> int \<Rightarrow> int" where
  "year_search y d = (if day_from_year (y + 1) \<le> d then year_search (y + 1) d else y)"
  by pat_completeness auto

termination
  by (relation "measure (\<lambda>(y, d). nat (d - day_from_year y))")
    (simp_all add: next_year split: if_splits)

declare year_search.simps [simp del]

definition year_of_day :: "int \<Rightarrow> int" where
  "year_of_day d = year_search (1970 + (if 0 \<le> d then d div 366 else d div 365)) d"

lemma year_search_bounds:
  "day_from_year y \<le> d \<Longrightarrow> day_from_year (year_search y d) \<le> d \<and> d < day_from_year (year_search y d + 1)"
proof (induction y d rule: year_search.induct)
  case (1 y d)
  then show ?case by (subst (1 2) year_search.simps) auto
qed

lemma leap_days_pos:
  fixes a b c k :: int
  assumes "4 * a \<le> k + 1" "400 * b \<le> k + 369" "k + 69 < 100 * c + 100" "0 \<le> k"
  shows "a - c + b \<le> k"
proof (cases "k < 2")
  case True
  with assms have "4 * a < 4" "400 * b < 400" "- 1 < c" by linarith+
  then have "a \<le> 0" "b \<le> 0" "0 \<le> c" by simp_all
  then show ?thesis using assms(4) by linarith
qed (use assms in linarith)

lemma leap_days_neg:
  fixes a b c k :: int
  assumes "4 * a \<le> k + 1" "400 * b \<le> k + 369" "k + 69 < 100 * c + 100" "k < 0"
  shows "a - c + b \<le> 0"
proof (cases "k = - 1")
  case True
  with assms have "4 * a < 4" "400 * b < 400" "- 1 < c" by linarith+
  then have "a \<le> 0" "b \<le> 0" "0 \<le> c" by simp_all
  then show ?thesis by linarith
next
  case False
  then have "k \<le> - 2" using assms(4) by linarith
  moreover have "400 * a \<le> 100 * k + 100" "4 * k - 124 < 400 * c" using assms(1,3) by linarith+
  ultimately have "400 * a - 400 * c + 400 * b < 400" using assms(2) by linarith
  then show ?thesis by linarith
qed

lemma leap_days_big:
  fixes a b c k :: int
  assumes "k + 1 < 4 * a + 4" "k + 369 < 400 * b + 400" "100 * c \<le> k + 69" "900000 < k"
  shows "0 \<le> a - c + b"
proof -
  have "100 * k < 400 * a + 300" "400 * c \<le> 4 * k + 276" using assms(1,3) by linarith+
  then have "400 * c < 400 * a + 400 * b" using assms(2,4) by linarith
  then show ?thesis by linarith
qed

lemma year_start: "day_from_year (1970 + (if 0 \<le> d then d div 366 else d div 365)) \<le> d"
proof -
  have year: "day_from_year (1970 + k) = 365 * k + ((k + 1) div 4 - (k + 69) div 100 + (k + 369) div 400)" for k
  proof -
    have "1970 + k - 1970 = k" "1970 + k - 1969 = k + 1" "1970 + k - 1901 = k + 69" "1970 + k - 1601 = k + 369" by simp_all
    then show ?thesis unfolding day_from_year_def by (simp only: add_diff_eq diff_diff_eq2 diff_add_eq add.assoc)
  qed
  show ?thesis
  proof (cases "0 \<le> d")
    case True
    then have "0 \<le> d div 366" by (simp add: pos_imp_zdiv_nonneg_iff)
    from leap_days_pos [OF div_bounds(1) div_bounds(1) div_bounds(2) this] div_bounds(1) [of 366 d]
    show ?thesis using True by (simp add: year del: div_bounds)
  next
    case False
    then have "d div 365 < 0" by (simp add: neg_imp_zdiv_neg_iff)
    from leap_days_neg [OF div_bounds(1) div_bounds(1) div_bounds(2) this] div_bounds(1) [of 365 d]
    show ?thesis using False by (simp add: year)
  qed
qed

lemma year_of_day_bounds: "day_from_year (year_of_day d) \<le> d \<and> d < day_from_year (year_of_day d + 1)"
  unfolding year_of_day_def by (rule year_search_bounds [OF year_start])

section \<open>Months\<close>

text \<open>The days of the months of a year, and the month and day of the month of a day of the year, both
  counted from 0.\<close>

definition month_lengths :: "int \<Rightarrow> int list" where
  "month_lengths y = [31, if leap_year y then 29 else 28, 31, 30, 31, 30, 31, 31, 30, 31, 30, 31]"

fun month_day :: "int list \<Rightarrow> int \<Rightarrow> nat \<times> int" where
  "month_day [] d = (0, d)"
| "month_day (n # ns) d = (if d < n then (0, d) else (let (m, e) = month_day ns (d - n) in (Suc m, e)))"

lemma month_day_correct:
  assumes "0 \<le> d" "d < sum_list ns" "month_day ns d = (m, e)"
  shows "m < length ns \<and> 0 \<le> e \<and> e < ns ! m \<and> sum_list (take m ns) + e = d"
  using assms
proof (induction ns arbitrary: d m)
  case (Cons n ns)
  show ?case
  proof (cases "d < n")
    case False
    obtain m' e' where md: "month_day ns (d - n) = (m', e')" by fastforce
    with Cons.IH [of "d - n" m'] Cons.prems False show ?thesis by auto
  qed (use Cons in auto)
qed simp

section \<open>The ISO format\<close>

definition pad :: "nat \<Rightarrow> int \<Rightarrow> string" where
  "pad k n = (let s = show_nat (nat n) in replicate (k - length s) (CHR ''0'') @ s)"

definition iso_year :: "int \<Rightarrow> string" where
  "iso_year y = (if 0 \<le> y \<and> y \<le> 9999 then pad 4 y else (if y < 0 then ''-'' else ''+'') @ pad 6 (abs y))"

definition toISOString :: "int \<Rightarrow> string" where
  "toISOString t =
     (let d = t div 86400000; ms = t mod 86400000; y = year_of_day d;
          (m, e) = month_day (month_lengths y) (d - day_from_year y)
      in iso_year y @ ''-'' @ pad 2 (int m + 1) @ ''-'' @ pad 2 (e + 1) @ ''T'' @
         pad 2 (ms div 3600000) @ '':'' @ pad 2 (ms div 60000 mod 60) @ '':'' @ pad 2 (ms div 1000 mod 60) @ ''.'' @
         pad 3 (ms mod 1000) @ ''Z'')"

definition digits :: "nat \<Rightarrow> string \<Rightarrow> (int \<times> string) option" where
  "digits k s =
     (let ds = take k s in
      if length ds = k \<and> list_all is_digit ds then Some (int (dec_value ds), drop k s) else None)"

definition token :: "string \<Rightarrow> string \<Rightarrow> string option" where
  "token p s = (if starts_with p s then Some (drop (length p) s) else None)"

definition iso_year_of :: "string \<Rightarrow> (int \<times> string) option" where
  "iso_year_of s =
     (if starts_with ''-'' s then (case digits 6 (tl s) of Some (n, r) \<Rightarrow> if n = 0 then None else Some (- n, r) | None \<Rightarrow> None)
      else if starts_with ''+'' s then digits 6 (tl s)
      else digits 4 s)"

definition Date_parse :: "string \<Rightarrow> int option" where
  "Date_parse s =
     Option.bind (iso_year_of s) (\<lambda>(y, s).
     Option.bind (token ''-'' s) (\<lambda>s. Option.bind (digits 2 s) (\<lambda>(m, s).
     Option.bind (token ''-'' s) (\<lambda>s. Option.bind (digits 2 s) (\<lambda>(e, s).
     Option.bind (token ''T'' s) (\<lambda>s. Option.bind (digits 2 s) (\<lambda>(hours, s).
     Option.bind (token '':'' s) (\<lambda>s. Option.bind (digits 2 s) (\<lambda>(minutes, s).
     Option.bind (token '':'' s) (\<lambda>s. Option.bind (digits 2 s) (\<lambda>(seconds, s).
     Option.bind (token ''.'' s) (\<lambda>s. Option.bind (digits 3 s) (\<lambda>(ms, s).
       if s = ''Z'' \<and> 1 \<le> m \<and> m \<le> 12 \<and> 1 \<le> e \<and> e \<le> month_lengths y ! nat (m - 1) \<and>
          hours < 24 \<and> minutes < 60 \<and> seconds < 60
       then Some ((day_from_year y + sum_list (take (nat (m - 1)) (month_lengths y)) + (e - 1)) * 86400000 +
                  hours * 3600000 + minutes * 60000 + seconds * 1000 + ms)
       else None)))))))))))))"

section \<open>Round trip\<close>

lemma length_show_nat: "0 < k \<Longrightarrow> n < 10 ^ k \<Longrightarrow> length (show_nat n) \<le> k"
proof (induction n arbitrary: k rule: show_nat.induct)
  case (1 n)
  show ?case
  proof (cases "n < 10")
    case True
    with 1 show ?thesis by (simp add: show_nat.simps)
  next
    case False
    then obtain j where j: "k = Suc j" "0 < j" using "1.prems" by (cases k; cases "k - 1") auto
    have "n div 10 < 10 ^ j" using "1.prems" j by (simp add: less_mult_imp_div_less)
    then show ?thesis using 1 False j by (subst show_nat.simps) simp
  qed
qed

lemma dec_value_zeros: "dec_value (replicate k (CHR ''0'') @ s) = dec_value s"
  by (induction k) (simp_all add: dec_value_def digit_val_def)

lemma pad_digits:
  assumes "0 \<le> n" "n < 10 ^ k" "0 < k"
  shows "digits k (pad k n @ r) = Some (n, r)"
proof -
  have "nat n < 10 ^ k" using assms by (simp add: nat_less_iff)
  then have "length (show_nat (nat n)) \<le> k" using assms(3) by (rule length_show_nat [rotated])
  then have "length (pad k n) = k" by (simp add: pad_def Let_def)
  moreover have "list_all is_digit (pad k n)"
    using show_nat_all_digit [of "nat n"] by (auto simp: pad_def Let_def list_all_iff is_digit_def)
  moreover have "dec_value (pad k n) = nat n"
    by (simp add: pad_def Let_def dec_value_zeros show_nat_value)
  ultimately show ?thesis using assms(1) by (simp add: digits_def)
qed

lemma token_append [simp]: "token p (p @ s) = Some s"
  by (simp add: token_def starts_with_append)

lemma token_Cons [simp]: "token [c] (c # s) = Some s"
  by (simp add: token_def)

lemma pad_head:
  assumes "0 \<le> n" "n < 10 ^ k" "0 < k"
  shows "\<exists>c s. pad k n = c # s \<and> is_digit c"
proof -
  have "list_all is_digit (pad k n)" "pad k n \<noteq> []"
    using show_nat_all_digit [of "nat n"] show_nat_no_zero [of "nat n"] by (auto simp: pad_def Let_def list_all_iff is_digit_def)
  then show ?thesis by (cases "pad k n") auto
qed

lemma iso_year_round:
  assumes "- 999999 \<le> y" "y \<le> 999999"
  shows "iso_year_of (iso_year y @ r) = Some (y, r)"
proof -
  consider "0 \<le> y" "y \<le> 9999" | "y < 0" | "y > 9999" by linarith
  then show ?thesis
  proof cases
    case 1
    obtain c s where "pad 4 y = c # s" "is_digit c" using pad_head [of y 4] 1 by auto
    then show ?thesis
      using pad_digits [of y 4 r] 1 by (auto simp: iso_year_of_def iso_year_def is_digit_def)
  next
    case 2
    then show ?thesis using pad_digits [of "- y" 6 r] assms by (simp add: iso_year_of_def iso_year_def)
  next
    case 3
    then show ?thesis using pad_digits [of y 6 r] assms by (simp add: iso_year_of_def iso_year_def)
  qed
qed

definition valid_time :: "int \<Rightarrow> bool" where
  "valid_time t \<longleftrightarrow> - 8640000000000000 \<le> t \<and> t \<le> 8640000000000000"

lemma year_range:
  assumes "- 100000000 \<le> d" "d \<le> 100000000"
  shows "- 999999 \<le> year_of_day d" "year_of_day d \<le> 999999"
proof -
  have year: "day_from_year (1970 + k) = 365 * k + ((k + 1) div 4 - (k + 69) div 100 + (k + 369) div 400)" for k
  proof -
    have "1970 + k - 1970 = k" "1970 + k - 1969 = k + 1" "1970 + k - 1901 = k + 69" "1970 + k - 1601 = k + 369" by simp_all
    then show ?thesis unfolding day_from_year_def by (simp only: add_diff_eq diff_diff_eq2 diff_add_eq add.assoc)
  qed
  let ?y = "year_of_day d"
  show "- 999999 \<le> ?y"
  proof (rule ccontr)
    assume "\<not> - 999999 \<le> ?y"
    then have neg: "?y + 1 - 1970 < 0" and small: "365 * (?y + 1 - 1970) < - 100000000" by simp_all
    from leap_days_neg [OF div_bounds(1) div_bounds(1) div_bounds(2) neg]
    have "day_from_year (?y + 1) \<le> 365 * (?y + 1 - 1970)" using year [of "?y + 1 - 1970"] by (simp add: add.commute [of 1])
    then show False using year_of_day_bounds [of d] small assms(1) by linarith
  qed
  show "?y \<le> 999999"
  proof (rule ccontr)
    let ?k = "?y - 1970"
    assume "\<not> ?y \<le> 999999"
    then have big: "?k > 900000" "365 * ?k > 100000000" by simp_all
    from leap_days_big [OF div_bounds(2) div_bounds(2) div_bounds(1) big(1)]
    have "0 \<le> (?k + 1) div 4 - (?k + 69) div 100 + (?k + 369) div 400" by (simp only: zero_less_numeral simp_thms)
    then have "365 * ?k \<le> day_from_year ?y" using year [of ?k] by simp
    then show False using year_of_day_bounds [of d] big(2) assms(2) by linarith
  qed
qed

lemma time_of_day:
  fixes ms :: int
  shows "ms div 3600000 * 3600000 + ms div 60000 mod 60 * 60000 + ms div 1000 mod 60 * 1000 + ms mod 1000 = ms"
proof -
  have m: "ms div 60000 = ms div 1000 div 60" and h: "ms div 3600000 = ms div 1000 div 60 div 60"
    by (simp_all add: zdiv_zmult2_eq [symmetric])
  have "ms div 1000 div 60 div 60 * 60 + ms div 1000 div 60 mod 60 = ms div 1000 div 60"
    "ms div 1000 div 60 * 60 + ms div 1000 mod 60 = ms div 1000" "ms div 1000 * 1000 + ms mod 1000 = ms"
    by (rule div_mult_mod_eq)+
  then show ?thesis unfolding m h by linarith
qed

lemma month_lengths_sum: "sum_list (month_lengths y) = (if leap_year y then 366 else 365)"
  by (simp add: month_lengths_def)

lemma pad_round [simp]:
  "0 \<le> n \<Longrightarrow> n < 100 \<Longrightarrow> digits 2 (pad 2 n @ r) = Some (n, r)"
  "0 \<le> n \<Longrightarrow> n < 1000 \<Longrightarrow> digits 3 (pad 3 n @ r) = Some (n, r)"
  by (rule pad_digits; simp)+

lemma Date_parse_text:
  assumes "- 999999 \<le> y" "y \<le> 999999" "1 \<le> mo" "mo \<le> 12" "1 \<le> da" "da \<le> month_lengths y ! nat (mo - 1)" "da < 100"
    "0 \<le> h" "h < 24" "0 \<le> mi" "mi < 60" "0 \<le> sec" "sec < 60" "0 \<le> ms" "ms < 1000"
  shows "Date_parse (iso_year y @ ''-'' @ pad 2 mo @ ''-'' @ pad 2 da @ ''T'' @ pad 2 h @ '':'' @ pad 2 mi @ '':'' @
      pad 2 sec @ ''.'' @ pad 3 ms @ ''Z'') =
    Some ((day_from_year y + sum_list (take (nat (mo - 1)) (month_lengths y)) + (da - 1)) * 86400000 +
      h * 3600000 + mi * 60000 + sec * 1000 + ms)"
proof -
  have "mo < 100" "0 \<le> mo" "0 \<le> da" "h < 100" "mi < 100" "sec < 100" using assms by linarith+
  note reads = iso_year_round [OF assms(1,2)] pad_round(1) [OF this(2,1)] pad_round(1) [OF this(3) assms(7)]
    pad_round(1) [OF assms(8) this(4)] pad_round(1) [OF assms(10) this(5)] pad_round(1) [OF assms(12) this(6)]
    pad_round(2) [OF assms(14,15)]
  show ?thesis
    unfolding Date_parse_def by (simp only: reads token_append bind.simps prod.case assms simp_thms if_True)
qed

text \<open>Reading what \<open>toISOString\<close> writes gives the same time back.\<close>

lemma Date_round_trip:
  assumes "valid_time t"
  shows "Date_parse (toISOString t) = Some t"
proof -
  define d ms where dms: "d = t div 86400000" "ms = t mod 86400000"
  define y where "y = year_of_day d"
  obtain m e where me: "month_day (month_lengths y) (d - day_from_year y) = (m, e)" by fastforce
  have "t < 86400000 * d + 86400000" "86400000 * d \<le> t"
    using div_bounds [of 86400000 t] by (simp_all only: dms zero_less_numeral)
  then have "- 100000000 \<le> d" "d \<le> 100000000" using assms unfolding valid_time_def by linarith+
  then have y: "- 999999 \<le> y" "y \<le> 999999" unfolding y_def by (rule year_range)+
  have "0 \<le> d - day_from_year y" "d - day_from_year y < sum_list (month_lengths y)"
    using year_of_day_bounds [of d] next_year [of y] by (simp_all add: month_lengths_sum y_def)
  from month_day_correct [OF this me]
  have month: "m < 12" "0 \<le> e" "e < month_lengths y ! m" "sum_list (take m (month_lengths y)) + e = d - day_from_year y"
    by (simp_all add: month_lengths_def)
  have "e < 31"
  proof -
    have "month_lengths y ! m \<in> set (month_lengths y)" using month(1) by (intro nth_mem) (simp add: month_lengths_def)
    then show ?thesis using month(3) by (auto simp: month_lengths_def split: if_splits)
  qed
  have ms: "0 \<le> ms" "ms < 86400000" using dms by simp_all
  have parts: "0 \<le> ms div 3600000" "ms div 3600000 < 24" "0 \<le> ms div 60000 mod 60" "ms div 60000 mod 60 < 60"
    "0 \<le> ms div 1000 mod 60" "ms div 1000 mod 60 < 60" "0 \<le> ms mod 1000" "ms mod 1000 < 1000"
    using ms div_bounds [of 3600000 ms] by (simp_all only: pos_mod_bound pos_mod_sign pos_imp_zdiv_nonneg_iff zero_less_numeral)
  have t: "(day_from_year y + sum_list (take m (month_lengths y)) + e) * 86400000 +
      ms div 3600000 * 3600000 + ms div 60000 mod 60 * 60000 + ms div 1000 mod 60 * 1000 + ms mod 1000 = t"
  proof -
    have "day_from_year y + sum_list (take m (month_lengths y)) + e = d" using month(4) by simp
    moreover have "d * 86400000 + ms = t" by (simp add: dms)
    ultimately show ?thesis using time_of_day [of ms] by (simp only: add.assoc)
  qed
  have text_t: "toISOString t = iso_year y @ ''-'' @ pad 2 (int m + 1) @ ''-'' @ pad 2 (e + 1) @ ''T'' @
      pad 2 (ms div 3600000) @ '':'' @ pad 2 (ms div 60000 mod 60) @ '':'' @ pad 2 (ms div 1000 mod 60) @ ''.'' @
      pad 3 (ms mod 1000) @ ''Z''"
    by (simp only: toISOString_def Let_def dms [symmetric] y_def [symmetric] me prod.case)
  have n: "nat (int m + 1 - 1) = m" "e + 1 - 1 = e" by simp_all
  have "1 \<le> int m + 1" "int m + 1 \<le> 12" "1 \<le> e + 1" "e + 1 \<le> month_lengths y ! nat (int m + 1 - 1)" "e + 1 < 100"
    using month(1-3) \<open>e < 31\<close> by (simp_all add: n)
  from Date_parse_text [OF y this parts] show ?thesis unfolding text_t n t .
qed

end
