(* ===== verification/Cookies.thy ===== *)
theory Cookies
  imports Json
begin

text \<open>
  \<open>services/cookies.service.ts\<close> and what it uses of the browser: \<open>document.cookie\<close>, whose assignment
  stores one cookie and whose value lists all, \<open>decodeURIComponent\<close>, and the split at \<open>/;\s*/\<close>. A cookie
  ends at the first semicolon; a text with a control character or with more than 4096 characters of name
  and value is refused. The service encodes nothing, but decodes when it reads.
\<close>

section \<open>The browser\<close>

type_synonym jar = "(string \<times> string) list"

definition control_char :: "char \<Rightarrow> bool" where
  "control_char c \<longleftrightarrow> ((of_char c :: nat) < 32 \<and> (of_char c :: nat) \<noteq> 9) \<or> (of_char c :: nat) = 127"

definition cookie_write :: "string \<Rightarrow> jar \<Rightarrow> jar" where
  "cookie_write s jar =
     (let line = takeWhile (\<lambda>c. c \<noteq> CHR '';'') s;
          name = (if CHR ''='' \<in> set line then trim (takeWhile (\<lambda>c. c \<noteq> CHR ''='') line) else []);
          content = trim (if CHR ''='' \<in> set line then tl (dropWhile (\<lambda>c. c \<noteq> CHR ''='') line) else line)
      in if list_ex control_char s \<or> length name + length content > 4096 \<or> (name = [] \<and> content = []) then jar
         else AList.update name content jar)"

definition cookie_pair :: "string \<times> string \<Rightarrow> string" where
  "cookie_pair nv = (if fst nv = [] then snd nv else fst nv @ ''='' @ snd nv)"

definition cookie_read :: "jar \<Rightarrow> string" where
  "cookie_read jar = js_join ''; '' (map cookie_pair jar)"

text \<open>Sequences of two bytes give the characters from 128 to 255; longer sequences have no character in the
  model and are refused like malformed ones.\<close>

fun decodeURIComponent :: "string \<Rightarrow> js_error + string" where
  "decodeURIComponent [] = Inr []"
| "decodeURIComponent (c # cs) =
     (if c \<noteq> CHR ''%'' then smap ((#) c) (decodeURIComponent cs)
      else
        (case cs of
           a # b # r \<Rightarrow>
             (case (hex_val a, hex_val b) of
                (Some m, Some n) \<Rightarrow>
                  if m < 8 then smap ((#) (char_of (16 * m + n))) (decodeURIComponent r)
                  else if m = 12 \<and> (n = 2 \<or> n = 3) then
                    (case r of
                       p # a' # b' # r' \<Rightarrow>
                         (case (hex_val a', hex_val b') of
                            (Some m', Some n') \<Rightarrow>
                              if p = CHR ''%'' \<and> 8 \<le> m' \<and> m' < 12
                              then smap ((#) (char_of ((n - 2) * 64 + 16 * m' + n'))) (decodeURIComponent r')
                              else Inl URIError
                          | _ \<Rightarrow> Inl URIError)
                     | _ \<Rightarrow> Inl URIError)
                  else Inl URIError
              | _ \<Rightarrow> Inl URIError)
         | _ \<Rightarrow> Inl URIError))"

section \<open>CookieService\<close>

definition cookie_set :: "string \<Rightarrow> string \<Rightarrow> jar \<Rightarrow> jar" where
  "cookie_set key content jar = cookie_write (key @ ''='' @ content) jar"

definition cookie_pairs :: "string \<Rightarrow> string list" where
  "cookie_pairs s =
     (case js_split CHR '';'' s of [] \<Rightarrow> [] | p # ps \<Rightarrow> p # map (dropWhile is_space) ps)"

definition cookie_pick :: "string \<Rightarrow> string list \<Rightarrow> string" where
  "cookie_pick prefix pairs =
     foldl (\<lambda>returnValue pair. if starts_with prefix pair then drop (length prefix) pair else returnValue) [] pairs"

definition cookie_get :: "string \<Rightarrow> jar \<Rightarrow> js_error + string" where
  "cookie_get key jar =
     smap (\<lambda>decodedCookie. cookie_pick (key @ ''='') (cookie_pairs decodedCookie)) (decodeURIComponent (cookie_read jar))"

section \<open>The contract of a store of settings\<close>

text \<open>What a page relies on when it keeps settings: a text that was stored under a key is read back, and the
  texts under other keys stay.\<close>

locale settings_store =
  fixes store :: "string \<Rightarrow> string \<Rightarrow> 'j \<Rightarrow> 'j"
    and fetch :: "string \<Rightarrow> 'j \<Rightarrow> js_error + string"
    and key_ok :: "string \<Rightarrow> bool"
    and text_ok :: "string \<Rightarrow> string \<Rightarrow> bool"
    and store_ok :: "'j \<Rightarrow> bool"
  assumes store_keeps: "store_ok j \<Longrightarrow> key_ok k \<Longrightarrow> text_ok k t \<Longrightarrow> store_ok (store k t j)"
    and fetch_same: "store_ok j \<Longrightarrow> key_ok k \<Longrightarrow> text_ok k t \<Longrightarrow> fetch k (store k t j) = Inr t"
    and fetch_other: "store_ok j \<Longrightarrow> key_ok k \<Longrightarrow> text_ok k t \<Longrightarrow> key_ok k' \<Longrightarrow> k' \<noteq> k \<Longrightarrow>
      fetch k' (store k t j) = fetch k' j"
begin

definition store_all :: "(string \<times> string) list \<Rightarrow> 'j \<Rightarrow> 'j" where
  "store_all kts = fold (\<lambda>kt. store (fst kt) (snd kt)) kts"

lemma store_all_ok:
  "store_ok j \<Longrightarrow> list_all (\<lambda>kt. key_ok (fst kt) \<and> text_ok (fst kt) (snd kt)) kts \<Longrightarrow> store_ok (store_all kts j)"
  by (induction kts arbitrary: j) (simp_all add: store_all_def store_keeps)

lemma fetch_untouched:
  "store_ok j \<Longrightarrow> list_all (\<lambda>kt. key_ok (fst kt) \<and> text_ok (fst kt) (snd kt)) kts \<Longrightarrow> key_ok k \<Longrightarrow> k \<notin> fst ` set kts \<Longrightarrow>
   fetch k (store_all kts j) = fetch k j"
  by (induction kts arbitrary: j) (auto simp: store_all_def store_keeps fetch_other)

text \<open>After several settings with different keys were stored, each of them is read back.\<close>

lemma fetch_stored:
  assumes "store_ok j" "list_all (\<lambda>kt. key_ok (fst kt) \<and> text_ok (fst kt) (snd kt)) kts"
    "distinct (map fst kts)" "(k, t) \<in> set kts"
  shows "fetch k (store_all kts j) = Inr t"
  using assms
proof (induction kts arbitrary: j)
  case (Cons kt kts)
  show ?case
  proof (cases "(k, t) = kt")
    case True
    then have "k \<notin> fst ` set kts" using Cons.prems(3) by (metis distinct.simps(2) fst_conv list.simps(9) set_map)
    then have "fetch k (store_all kts (store k t j)) = fetch k (store k t j)"
      using Cons.prems True by (intro fetch_untouched) (auto simp: store_keeps)
    then show ?thesis using True Cons.prems by (auto simp: store_all_def fetch_same)
  next
    case False
    then have "fetch k (store_all kts (store (fst kt) (snd kt) j)) = Inr t"
      using Cons.prems by (intro Cons.IH) (auto simp: store_keeps)
    then show ?thesis by (simp add: store_all_def)
  qed
qed simp

end

section \<open>The service keeps the contract\<close>

definition plain_text :: "string \<Rightarrow> bool" where
  "plain_text s \<longleftrightarrow> CHR '';'' \<notin> set s \<and> CHR ''%'' \<notin> set s \<and> \<not> list_ex control_char s \<and> trim s = s"

definition cookie_key :: "string \<Rightarrow> bool" where
  "cookie_key k \<longleftrightarrow> k \<noteq> [] \<and> plain_text k \<and> CHR ''='' \<notin> set k"

definition cookie_text :: "string \<Rightarrow> string \<Rightarrow> bool" where
  "cookie_text k t \<longleftrightarrow> plain_text t \<and> length k + length t \<le> 4096"

definition jar_ok :: "jar \<Rightarrow> bool" where
  "jar_ok jar \<longleftrightarrow> distinct (map fst jar) \<and> list_all (\<lambda>nv. cookie_key (fst nv) \<and> plain_text (snd nv)) jar"

lemma takeWhile_all: "list_all P xs \<Longrightarrow> takeWhile P xs = xs"
  by (induction xs) auto

lemma cookie_set_update:
  assumes "cookie_key k" "cookie_text k t"
  shows "cookie_set k t jar = AList.update k t jar"
proof -
  have line: "takeWhile (\<lambda>c. c \<noteq> CHR '';'') (k @ CHR ''='' # t) = k @ CHR ''='' # t"
    using assms by (intro takeWhile_all) (auto simp: list_all_iff cookie_key_def cookie_text_def plain_text_def)
  have "\<forall>x \<in> set k. x \<noteq> CHR ''=''" using assms(1) by (auto simp: cookie_key_def)
  then have "takeWhile (\<lambda>c. c \<noteq> CHR ''='') (k @ CHR ''='' # t) = k"
    "dropWhile (\<lambda>c. c \<noteq> CHR ''='') (k @ CHR ''='' # t) = CHR ''='' # t"
    by (simp_all add: takeWhile_append dropWhile_append)
  moreover have "\<not> control_char (CHR ''='')" by (simp add: control_char_def)
  ultimately show ?thesis
    using assms by (simp add: cookie_set_def cookie_write_def line Let_def cookie_key_def cookie_text_def plain_text_def)
qed

lemma decode_plain: "CHR ''%'' \<notin> set s \<Longrightarrow> decodeURIComponent s = Inr s"
  by (induction s) (auto simp: smap_def)

lemma trim_head:
  assumes "trim s = s" "s \<noteq> []"
  shows "\<not> is_space (hd s)"
proof
  assume "is_space (hd s)"
  then have "length (dropWhile is_space s) < length s"
    using assms(2) by (cases s) (auto simp: le_imp_less_Suc length_dropWhile_le)
  moreover have "length (trim s) \<le> length (dropWhile is_space s)"
    using length_dropWhile_le [of is_space "rev (dropWhile is_space s)"] by (simp add: trim_def)
  ultimately show False using assms(1) by simp
qed

lemma join_space: "js_join ''; '' (p # ps) = js_join '';'' (p # map ((#) CHR '' '') ps)"
proof (induction ps arbitrary: p)
  case (Cons q ps)
  have "js_join '';'' ((CHR '' '' # q) # qs) = CHR '' '' # js_join '';'' (q # qs)" for qs
    by (cases qs) simp_all
  then show ?case using Cons [of q] by simp
qed simp

lemma cookie_pairs_read:
  assumes "jar_ok jar" "jar \<noteq> []"
  shows "cookie_pairs (cookie_read jar) = map (\<lambda>(n, v). n @ ''='' @ v) jar"
proof -
  have pair: "cookie_pair nv = fst nv @ ''='' @ snd nv" "CHR '';'' \<notin> set (cookie_pair nv)"
    "dropWhile is_space (CHR '' '' # cookie_pair nv) = cookie_pair nv" if "nv \<in> set jar" for nv
  proof -
    have nv: "fst nv \<noteq> []" "trim (fst nv) = fst nv" "CHR '';'' \<notin> set (fst nv)" "CHR '';'' \<notin> set (snd nv)"
      using that assms(1) by (auto simp: jar_ok_def list_all_iff cookie_key_def plain_text_def)
    then show "cookie_pair nv = fst nv @ ''='' @ snd nv" "CHR '';'' \<notin> set (cookie_pair nv)"
      by (simp_all add: cookie_pair_def)
    show "dropWhile is_space (CHR '' '' # cookie_pair nv) = cookie_pair nv"
      using nv trim_head [OF nv(2,1)] by (cases "fst nv") (simp_all add: cookie_pair_def is_space_def)
  qed
  obtain nv jar' where jar: "jar = nv # jar'" using assms(2) by (cases jar) auto
  let ?ps = "cookie_pair nv # map ((#) CHR '' '') (map cookie_pair jar')"
  have "js_split CHR '';'' (cookie_read jar) = ?ps"
    unfolding cookie_read_def jar list.map join_space
    by (rule js_split_join) (use pair(2) jar in auto)
  then have "cookie_pairs (cookie_read jar) = map cookie_pair jar"
    using pair(3) by (simp add: cookie_pairs_def jar del: dropWhile.simps)
  also have "\<dots> = map (\<lambda>(n, v). n @ ''='' @ v) jar" using pair(1) by (auto simp: case_prod_beta)
  finally show ?thesis .
qed

lemma key_prefix:
  assumes "CHR ''='' \<notin> set k" "CHR ''='' \<notin> set n"
  shows "starts_with (k @ ''='') (n @ ''='' @ v) \<longleftrightarrow> k = n"
  using assms by (induction k n rule: list_induct2') auto

lemma cookie_pick_found:
  assumes "cookie_key k" "list_all (\<lambda>nv. cookie_key (fst nv)) jar" "distinct (map fst jar)"
  shows "cookie_pick (k @ ''='') (map (\<lambda>(n, v). n @ ''='' @ v) jar) = (case map_of jar k of None \<Rightarrow> [] | Some v \<Rightarrow> v)"
  using assms(2,3)
proof (induction jar rule: rev_induct)
  case (snoc nv jar)
  obtain n v where nv: "nv = (n, v)" by fastforce
  have "starts_with (k @ ''='') (n @ ''='' @ v) \<longleftrightarrow> k = n"
    using assms(1) snoc.prems(1) nv by (intro key_prefix) (auto simp: cookie_key_def)
  moreover have "map_of jar k = None" if "k = n"
    using that snoc.prems nv by (simp add: map_of_eq_None_iff)
  ultimately show ?case
    using snoc nv by (auto simp: cookie_pick_def map_add_def split: option.splits)
qed (simp add: cookie_pick_def)

lemma cookie_get_lookup:
  assumes "jar_ok jar" "cookie_key k"
  shows "cookie_get k jar = Inr (case map_of jar k of None \<Rightarrow> [] | Some v \<Rightarrow> v)"
proof (cases "jar = []")
  case True
  then show ?thesis
    using assms(2) by (simp add: cookie_get_def cookie_read_def cookie_pairs_def cookie_pick_def smap_def cookie_key_def)
next
  case False
  have "CHR ''%'' \<notin> set (js_join ''; '' ps)" if "\<forall>p \<in> set ps. CHR ''%'' \<notin> set p" for ps
    using that by (induction "''; ''" ps rule: js_join.induct) auto
  then have "CHR ''%'' \<notin> set (cookie_read jar)"
    using assms(1) unfolding cookie_read_def
    by (auto simp: jar_ok_def list_all_iff cookie_key_def plain_text_def cookie_pair_def)
  then have "cookie_get k jar = Inr (cookie_pick (k @ ''='') (map (\<lambda>(n, v). n @ ''='' @ v) jar))"
    using cookie_pairs_read [OF assms(1) False] by (simp add: cookie_get_def decode_plain smap_def)
  also have "\<dots> = Inr (case map_of jar k of None \<Rightarrow> [] | Some v \<Rightarrow> v)"
    using assms by (subst cookie_pick_found) (auto simp: jar_ok_def list_all_iff)
  finally show ?thesis .
qed

lemma jar_ok_update:
  assumes "jar_ok jar" "cookie_key k" "plain_text t"
  shows "jar_ok (AList.update k t jar)"
proof -
  have "set (AList.update k t jar) \<subseteq> insert (k, t) (set jar)"
    by (induction jar) auto
  then show ?thesis
    using assms distinct_update [of jar k t] by (auto simp: jar_ok_def list_all_iff)
qed

interpretation cookies: settings_store cookie_set cookie_get cookie_key cookie_text jar_ok
proof unfold_locales
  fix j k t k'
  assume ok: "jar_ok j" "cookie_key k" "cookie_text k t"
  show jar: "jar_ok (cookie_set k t j)"
    using ok by (simp add: cookie_set_update jar_ok_update cookie_text_def)
  show "cookie_get k (cookie_set k t j) = Inr t"
    using ok by (simp add: cookie_get_lookup [OF jar ok(2)]) (simp add: cookie_set_update)
  show "cookie_get k' (cookie_set k t j) = cookie_get k' j" if "cookie_key k'" "k' \<noteq> k"
    using ok that by (simp add: cookie_get_lookup [OF jar that(1)] cookie_get_lookup [OF ok(1) that(1)])
      (simp add: cookie_set_update update_conv')
qed

end
