(* ===== verification/Alert_Service.thy ===== *)
theory Alert_Service
  imports Backend Dates Cookies Validators Sorting_Service
begin

text \<open>
  What the alert pages share: \<open>modules/security-alerts/services/alerts.service.ts\<close>,
  \<open>services/portal.service.ts\<close>, \<open>services/global-hive-settings.service.ts\<close>, the classes of
  \<open>modules/security-alerts/classes/\<close>, the constants, and the functions that build the links to Kibana,
  Arkime and Hive. Functions that throw return \<open>js_error + 'a\<close>.
\<close>

section \<open>Data classes\<close>

definition new_AlertListHitsTotalClass :: "js \<Rightarrow> js_error + js" where
  "new_AlertListHitsTotalClass = construct (map copy [''value'', ''relation''])"

definition new_AlertListHitsClass :: "js \<Rightarrow> js_error + js" where
  "new_AlertListHitsClass = construct (map copy [''total'', ''max_score'', ''hits''])"

definition new_AlertListClass :: "js \<Rightarrow> js_error + js" where
  "new_AlertListClass =
     construct (map copy [''took'', ''timed_out'', ''_shards''] @ [nested ''hits'' new_AlertListHitsClass])"

definition new_ModifyRemoveReturnClass :: "js \<Rightarrow> js_error + js" where
  "new_ModifyRemoveReturnClass = construct (map copy
     [''batches'', ''deleted'', ''failures'', ''noops'', ''requests_per_second'', ''retries'', ''throttled_millis'',
      ''throttled_until_millis'', ''timed_out'', ''took'', ''total'', ''updated'', ''version_conflicts''])"

text \<open>The last field is copied when \<open>source.address\<close> is present, not when \<open>destination.ip\<close> is.\<close>

definition new_UpdateAlertsClass :: "js \<Rightarrow> js_error + js" where
  "new_UpdateAlertsClass =
     construct (map copy [''count'', ''event.module'', ''event.kind'', ''rule.name''] @
       map copy_present [''source.address'', ''source.ip'', ''source.port'', ''destination.port'', ''destination.address''] @
       [\<lambda>v. Inr (if notUndefNull (js_get v ''source.address'') then [(''destination.ip'', js_get v ''destination.ip'')] else [])])"

definition new_HiveSettingsClass :: "js \<Rightarrow> js_error + js" where
  "new_HiveSettingsClass = construct (map copy [''admin_api_key'', ''org_admin_api_key''])"

section \<open>Services\<close>

definition get_fields :: "js endpoint" where
  "get_fields = endpoint GET ''/api/alerts/fields'' JUndef ''get fields'' as_is"

definition yes_no :: "bool \<Rightarrow> string" where
  "yes_no b = (if b then ''yes'' else ''no'')"

definition get_alerts :: "string \<Rightarrow> string \<Rightarrow> string \<Rightarrow> bool \<Rightarrow> bool \<Rightarrow> bool \<Rightarrow> js endpoint" where
  "get_alerts columns start_time end_time acknowledged escalated show_closed =
     endpoint GET (''/api/alerts/'' @ yes_no acknowledged @ ''/'' @ yes_no escalated @ ''/'' @ yes_no show_closed @ ''/'' @
       start_time @ ''/'' @ end_time @ ''/'' @ columns) JUndef ''get alerts'' as_is"

definition get_alert_list :: "js \<Rightarrow> nat \<Rightarrow> js endpoint" where
  "get_alert_list update_alert n =
     endpoint POST (''/api/alerts/list/'' @ show_nat n) update_alert ''get alert list'' new_AlertListClass"

definition modify_alert :: "js \<Rightarrow> js endpoint" where
  "modify_alert update_alert =
     endpoint POST ''/api/alerts/modify'' update_alert ''modify alert'' new_ModifyRemoveReturnClass"

definition remove_alerts :: "js \<Rightarrow> js endpoint" where
  "remove_alerts update_alert =
     endpoint POST ''/api/alerts/remove'' update_alert ''remove alerts'' new_ModifyRemoveReturnClass"

definition get_hive_settings :: "js endpoint" where
  "get_hive_settings = endpoint GET ''/api/alerts/settings'' JUndef ''get hive settings'' new_HiveSettingsClass"

definition get_portal_links :: "js list endpoint" where
  "get_portal_links = endpoint GET ''/api/portal/links'' JUndef ''get portal links'' (js_map_list new_PortalLinkClass)"

definition get_user_links :: "js list endpoint" where
  "get_user_links = endpoint GET ''/api/portal/user/links'' JUndef ''get user portal links'' (js_map_list new_UserPortalLinkClass)"

definition add_user_link :: "js \<Rightarrow> js list endpoint" where
  "add_user_link user_portal_link =
     endpoint POST ''/api/portal/user/links'' user_portal_link ''add user portal link'' (js_map_list new_UserPortalLinkClass)"

definition remove_user_link :: "js \<Rightarrow> js endpoint" where
  "remove_user_link user_portal_link =
     endpoint DELETE (''/api/portal/user/links/'' @ str (js_get user_portal_link ''_id'')) JUndef ''delete user portal link''
       new_SuccessMessageClass"

definition open_in_new_tab :: "string \<Rightarrow> 'a world_scheme \<Rightarrow> 'a world_scheme" where
  "open_in_new_tab url = emit (OpenTab url)"

section \<open>Dates in forms\<close>

text \<open>The value of a date control: \<open>null\<close>, or a \<open>Date\<close>, which may be invalid.\<close>

datatype date = NoDate | Date "int option"

fun date_iso :: "date \<Rightarrow> js_error + string" where
  "date_iso NoDate = Inl TypeError"
| "date_iso (Date None) = Inl RangeError"
| "date_iso (Date (Some t)) = Inr (toISOString t)"

text \<open>What \<open>JSON.stringify\<close> writes.\<close>

fun date_json :: "date \<Rightarrow> js" where
  "date_json (Date (Some t)) = JStr (toISOString t)"
| "date_json _ = JNull"

definition clip_time :: "int \<Rightarrow> int option" where
  "clip_time t = (if valid_time t then Some t else None)"

definition new_Date :: "js \<Rightarrow> date" where
  "new_Date v =
     Date (case v of
        JNum n \<Rightarrow> clip_time n
      | JNull \<Rightarrow> Some 0
      | JBool b \<Rightarrow> Some (if b then 1 else 0)
      | JUndef \<Rightarrow> None
      | _ \<Rightarrow> Date_parse (js_to_string v))"

text \<open>The number that an arithmetic operator makes of a value; fractions are not modelled.\<close>

definition js_number :: "js \<Rightarrow> int option" where
  "js_number v =
     (case v of
        JNum n \<Rightarrow> Some n
      | JNull \<Rightarrow> Some 0
      | JBool b \<Rightarrow> Some (if b then 1 else 0)
      | JUndef \<Rightarrow> None
      | JObj _ \<Rightarrow> None
      | _ \<Rightarrow> Number_int (js_to_string v))"

text \<open>\<open>d1 >= d2\<close> on dates: \<open>null\<close> counts as 0, an invalid date makes every comparison false.\<close>

fun date_value :: "date \<Rightarrow> int option" where
  "date_value NoDate = Some 0"
| "date_value (Date t) = t"

definition date_ge :: "date \<Rightarrow> date \<Rightarrow> bool" where
  "date_ge a b = (case (date_value a, date_value b) of (Some x, Some y) \<Rightarrow> x \<ge> y | _ \<Rightarrow> False)"

section \<open>Links\<close>

definition ARKIME_FIELD_LOOKUP :: "(string \<times> string) list" where
  "ARKIME_FIELD_LOOKUP =
     [(''source.address'', ''ip.src''), (''source.ip'', ''ip.src''), (''source.port'', ''port.src''),
      (''destination.port'', ''port.dst''), (''destination.address'', ''ip.dst''), (''destination.ip'', ''ip.dst'')]"

definition sq :: string where
  "sq = [CHR 0x27]"

definition dq :: string where
  "dq = [CHR 0x22]"

text \<open>The last link whose address contains the text; both strings and arrays have \<open>includes\<close>.\<close>

fun find_link :: "string \<Rightarrow> js list \<Rightarrow> js \<Rightarrow> js_error + js" where
  "find_link search [] link = Inr link"
| "find_link search (portal_link # ps) link =
     sbind (js_index portal_link ''dns'') (\<lambda>dns.
       case dns of
         JStr d \<Rightarrow> find_link search ps (if str_includes d search then dns else link)
       | JArr vs \<Rightarrow> find_link search ps (if JStr search \<in> set vs then dns else link)
       | _ \<Rightarrow> Inl TypeError)"

definition get_link :: "js list \<Rightarrow> string \<Rightarrow> js_error + js" where
  "get_link portal_links search = find_link search portal_links (JStr [])"

definition alert_fields :: "js \<Rightarrow> string list" where
  "alert_fields update_alert = filter (\<lambda>key. key \<notin> {''count'', ''form'', ''links''}) (js_keys update_alert)"

definition kibana_term :: "js \<Rightarrow> string \<Rightarrow> string" where
  "kibana_term update_alert field =
     (if js_get update_alert ''event.kind'' = JStr ''signal'' \<and> field = ''rule.name'' then ''signal.rule.name'' else field) @
     '' : '' @ dq @ str (js_get update_alert field) @ dq @ '' and ''"

definition cut_end :: "nat \<Rightarrow> string \<Rightarrow> string" where
  "cut_end n s = take (length s - n) s"

definition kibana_query :: "bool \<Rightarrow> js \<Rightarrow> string" where
  "kibana_query escalated update_alert =
     cut_end 5 (concat (map (kibana_term update_alert) (alert_fields update_alert))) @
     (if escalated then '' and event.escalated : true'' else [])"

definition url_escape :: "string \<Rightarrow> string" where
  "url_escape s = concat (map (\<lambda>c.
     if c = CHR 0x27 then ''%27'' else if c = CHR '' '' then ''%20'' else if c = CHR ''('' then ''%28''
     else if c = CHR '')'' then ''%29'' else [c]) s)"

text \<open>The page of Kibana for a row: \<open>None\<close> is the Endgame dashboard.\<close>

definition kibana_page :: "js \<Rightarrow> string option" where
  "kibana_page update_alert =
     (let kind = js_get update_alert ''event.kind''; m = js_get update_alert ''event.module'' in
      if kind = JStr ''signal'' then Some ''detections''
      else if kind = JStr ''alert'' \<and> truthy m then
        if m = JStr ''zeek'' \<or> m = JStr ''suricata'' then Some ''network/external-alerts''
        else if m = JStr ''endgame'' then None
        else if m = JStr ''system'' \<or> m = JStr ''sysmon'' then Some ''hosts/alerts''
        else Some ''overview''
      else Some ''overview'')"

definition time_range :: "string \<Rightarrow> string \<Rightarrow> string" where
  "time_range start stop =
     ''timerange:(from:%27'' @ start @ ''%27,kind:absolute,to:%27'' @ stop @ ''%27)''"

definition kibana_url :: "js \<Rightarrow> string \<Rightarrow> string \<Rightarrow> string \<Rightarrow> string option \<Rightarrow> string" where
  "kibana_url prefix query start stop page =
     (case page of
        None \<Rightarrow>
          str prefix @ ''/app/discover#/?_g=(filters:!(),query:(language:kuery,query:'' @ sq @ sq @
          ''),refreshInterval:(pause:!t,value:0),time:(from:%27'' @ start @ ''%27,to:%27'' @ stop @
          ''%27))&_a=(columns:!(),filters:!(),index:endgame-dashboard-index-pattern,interval:auto,query:(language:kuery,query:'' @
          sq @ query @ sq @ ''),sort:!(!('' @ sq @ ''@timestamp'' @ sq @ '',desc)))''
      | Some p \<Rightarrow>
          url_escape (str prefix @ ''/app/security/'' @ p @ ''?query=(language:kuery,query:'' @ sq @ query @ sq @
          '')&timerange=(global:(linkTo:!(timeline),'' @ time_range start stop @
          ''),timeline:(linkTo:!(global),'' @ time_range start stop @ ''))''))"

definition arkime_term :: "js \<Rightarrow> string \<Rightarrow> string" where
  "arkime_term update_alert field =
     (case map_of ARKIME_FIELD_LOOKUP field of
        None \<Rightarrow> []
      | Some arkime_field \<Rightarrow>
          if notUndefNull (js_get update_alert field)
          then arkime_field @ ''%20%3D%3D'' @ str (js_get update_alert field) @ ''%26%26%20'' else [])"

definition build_arkime_expression :: "js \<Rightarrow> string" where
  "build_arkime_expression update_alert =
     cut_end 9 (concat (map (arkime_term update_alert) (alert_fields update_alert)))"

text \<open>\<open>Math.floor(d.getTime() / 1000)\<close> in a text.\<close>

fun date_seconds :: "date \<Rightarrow> js_error + string" where
  "date_seconds NoDate = Inl TypeError"
| "date_seconds (Date None) = Inr ''NaN''"
| "date_seconds (Date (Some t)) = Inr (show_int (t div 1000))"

definition arkime_fields_text :: string where
  "arkime_fields_text = js_join '', '' (map fst ARKIME_FIELD_LOOKUP)"

definition arkime_link :: "js \<Rightarrow> string \<Rightarrow> date \<Rightarrow> date \<Rightarrow> js_error + string" where
  "arkime_link arkime_prefix arkime_expression start stop =
     (if arkime_prefix = JStr [] then Inr ''N/A - Failed to create because Arkime is not installed.''
      else if arkime_expression = [] then
        Inr (''N/A - Failed to create Arkime link because you need one of the following Group By fields: '' @ arkime_fields_text)
      else sbind (date_seconds start) (\<lambda>startTime. smap (\<lambda>stopTime.
        str arkime_prefix @ ''/sessions?graphType=lpHisto&seriesType=bars&expression='' @ arkime_expression @
        ''&startTime='' @ startTime @ ''&stopTime='' @ stopTime) (date_seconds stop)))"

section \<open>Lemmas\<close>

lemma new_Date_json: "valid_time t \<Longrightarrow> new_Date (date_json (Date (Some t))) = Date (Some t)"
  by (simp add: new_Date_def Date_round_trip)

lemma link_keeps: "find_link search ps link = Inr v \<Longrightarrow> v = link \<or> (\<exists>p \<in> set ps. v = js_get p ''dns'')"
proof (induction ps arbitrary: link)
  case (Cons p ps)
  then show ?case
    by (cases p; simp add: sbind_def split: js.splits if_splits) (blast | metis)+
qed simp

end
