(* ===== verification/Security_Alerts.thy ===== *)
theory Security_Alerts
  imports Alert_Service
begin

text \<open>
  \<open>modules/security-alerts/security-alerts.component.ts\<close>: the page of the security alerts.

  The rows of the table are objects of a heap (\<open>alert_heap\<close>), because dialogs and requests keep a row
  while the table is loaded again, and because several operations write to the row. The value of the
  form is an object that Angular replaces when a control changes; the properties that callbacks put on it
  in between are \<open>tf_extra\<close>. A row keeps the value object it was given under \<open>form\<close>; later changes of
  that object are not seen in the row here, and no operation reads them there: each sets \<open>form\<close> again
  before it sends the row. The cookies of the browser are the field \<open>jar\<close>; the clock is \<open>now\<close>, and
  \<open>zone u n t\<close> is the time \<open>n\<close> days, hours or minutes before \<open>t\<close> on the local calendar. The form
  exists from \<open>ngOnInit\<close> on, which runs before every other handler.
\<close>

section \<open>The form\<close>

record time_form =
  tf_acknowledged :: js
  tf_escalated :: js
  tf_show_closed :: js
  tf_time_interval :: js
  tf_time_amount :: js
  tf_start :: date
  tf_end :: date
  tf_absolute :: js
  tf_extra :: "(string \<times> js) list"

definition form_fields :: "time_form \<Rightarrow> (string \<times> js) list" where
  "form_fields f =
     [(''acknowledged'', tf_acknowledged f), (''escalated'', tf_escalated f), (''showClosed'', tf_show_closed f),
      (''timeInterval'', tf_time_interval f), (''timeAmount'', tf_time_amount f), (''startDatetime'', date_json (tf_start f)),
      (''endDatetime'', date_json (tf_end f)), (''absoluteTime'', tf_absolute f)]"

text \<open>\<open>getRawValue()\<close> is a new object; \<open>value\<close> is the one with the extra properties.\<close>

definition form_raw :: "time_form \<Rightarrow> js" where
  "form_raw f = JObj (form_fields f)"

definition form_value :: "time_form \<Rightarrow> js" where
  "form_value f = JObj (form_fields f @ tf_extra f)"

definition put_extra :: "string \<Rightarrow> js \<Rightarrow> time_form \<Rightarrow> time_form" where
  "put_extra k v f = f\<lparr>tf_extra := AList.update k v (tf_extra f)\<rparr>"

text \<open>\<open>new FormControl(v)\<close>: without a value the control is \<open>null\<close>.\<close>

definition control_state :: "js \<Rightarrow> js" where
  "control_state v = (if v = JUndef then JNull else v)"

definition time_form_of :: "js \<Rightarrow> js_error + time_form" where
  "time_form_of v =
     (if \<not> notUndefNull v then Inl TypeError
      else Inr \<lparr>tf_acknowledged = control_state (js_get v ''acknowledged''),
                tf_escalated = control_state (js_get v ''escalated''),
                tf_show_closed = control_state (js_get v ''showClosed''),
                tf_time_interval = control_state (js_get v ''timeInterval''),
                tf_time_amount = control_state (js_get v ''timeAmount''),
                tf_start = new_Date (js_get v ''startDatetime''), tf_end = new_Date (js_get v ''endDatetime''),
                tf_absolute = control_state (js_get v ''absoluteTime''), tf_extra = []\<rparr>)"

definition default_time_form :: time_form where
  "default_time_form =
     \<lparr>tf_acknowledged = JBool False, tf_escalated = JBool False, tf_show_closed = JBool False,
      tf_time_interval = JStr ''hours'', tf_time_amount = JNum 24, tf_start = NoDate, tf_end = NoDate,
      tf_absolute = JBool False, tf_extra = []\<rparr>"

section \<open>State\<close>

datatype sa_request =
    SA_Fields | SA_Alerts bool | SA_HiveTab | SA_Modify | SA_Remove | SA_Links | SA_JoinHive nat | SA_JoinList nat

datatype sa_dialog = SA_Confirm nat string | SA_Escalate nat

text \<open>A \<open>forkJoin\<close> of two requests: what its callback captured, and the answers that have arrived.\<close>

record sa_join =
  sj_row :: nat
  sj_kibana :: string
  sj_arkime :: string
  sj_hive :: "js option"
  sj_list :: "js option"
  sj_open :: bool

record sa_state = "(sa_request, sa_dialog) async" +
  jar :: jar
  now :: int
  zone :: "string \<Rightarrow> int \<Rightarrow> int \<Rightarrow> int"
  auto_refresh :: bool
  dynamic_columns :: "js list"
  all_columns :: "js list"
  time_form :: time_form
  all_chip_options :: js
  filtered_groups :: "js list"
  sa_links :: "js list"
  alert_heap :: "js list"
  alert_rows :: "nat list"
  joins :: "sa_join list"

definition sa_constructor :: "jar \<Rightarrow> int \<Rightarrow> (string \<Rightarrow> int \<Rightarrow> int \<Rightarrow> int) \<Rightarrow> sa_state" where
  "sa_constructor j t z =
     \<lparr>trace = [], matSnackBarRef = None, requests = [], dialogs = [], jar = j, now = t, zone = z,
      auto_refresh = False, dynamic_columns = [], all_columns = [], time_form = default_time_form,
      all_chip_options = JArr [], filtered_groups = [], sa_links = [], alert_heap = [], alert_rows = [], joins = []\<rparr>"

definition new_alert_rows :: "js list \<Rightarrow> sa_state \<Rightarrow> sa_state" where
  "new_alert_rows vs s =
     s\<lparr>alert_heap := alert_heap s @ vs, alert_rows := [length (alert_heap s)..<length (alert_heap s) + length vs]\<rparr>"

definition alert_at :: "nat \<Rightarrow> sa_state \<Rightarrow> js" where
  "alert_at r s = alert_heap s ! r"

definition set_alert :: "nat \<Rightarrow> string \<Rightarrow> js \<Rightarrow> sa_state \<Rightarrow> sa_state" where
  "set_alert r k v s = s\<lparr>alert_heap := (alert_heap s)[r := js_set (alert_at r s) k v]\<rparr>"

section \<open>Cookies\<close>

definition sa_save_cookies :: "sa_state \<Rightarrow> sa_state" where
  "sa_save_cookies s =
     s\<lparr>jar := cookie_set ''auto_refresh'' (if auto_refresh s then ''true'' else ''false'')
              (cookie_set ''time_form_group'' (json_text (form_value (time_form s)))
              (cookie_set ''dynamic_columns'' (json_text (JArr (dynamic_columns s))) (jar s)))\<rparr>"

definition sa_initialize_time_form_group :: "sa_state \<Rightarrow> js_error + sa_state" where
  "sa_initialize_time_form_group s =
     sbind (cookie_get ''time_form_group'' (jar s)) (\<lambda>cookie.
       if cookie = [] then Inr (s\<lparr>time_form := default_time_form\<rparr>)
       else sbind (JSON_parse cookie) (\<lambda>v. smap (\<lambda>f. s\<lparr>time_form := f\<rparr>) (time_form_of v)))"

definition sa_get_auto_refresh :: "sa_state \<Rightarrow> js_error + sa_state" where
  "sa_get_auto_refresh s =
     smap (\<lambda>cookie. s\<lparr>auto_refresh := (if cookie = [] then True else cookie = ''true'')\<rparr>)
       (cookie_get ''auto_refresh'' (jar s))"

text \<open>The page uses this array itself as its columns when there is no cookie, and the chips change it in place; the
  constant of the model is the one of a page that is opened before that has happened.\<close>

definition DYNAMIC_COLUMNS_DEFAULT_VALUES :: "js list" where
  "DYNAMIC_COLUMNS_DEFAULT_VALUES = [JStr ''event.module'', JStr ''event.kind'', JStr ''rule.name'']"

definition ALL_COLUMNS_START_VALUES :: "js list" where
  "ALL_COLUMNS_START_VALUES = [JStr ''actions'', JStr ''count'']"

definition sa_set_columns :: "js list \<Rightarrow> sa_state \<Rightarrow> sa_state" where
  "sa_set_columns cols s = s\<lparr>dynamic_columns := cols, all_columns := ALL_COLUMNS_START_VALUES @ cols\<rparr>"

text \<open>A text that the page has written is an array; other texts count as an empty one.\<close>

definition sa_get_dynamic_columns :: "sa_state \<Rightarrow> js_error + sa_state" where
  "sa_get_dynamic_columns s =
     sbind (cookie_get ''dynamic_columns'' (jar s)) (\<lambda>cookie.
       if cookie = [] then Inr (sa_set_columns DYNAMIC_COLUMNS_DEFAULT_VALUES s)
       else smap (\<lambda>v. sa_set_columns (arr_elems v) s) (JSON_parse cookie))"

section \<open>Loading the table\<close>

definition sa_earlier :: "string \<Rightarrow> sa_state \<Rightarrow> int option" where
  "sa_earlier u s =
     (case js_number (tf_time_amount (time_form s)) of None \<Rightarrow> None | Some n \<Rightarrow> clip_time (zone s u n (now s)))"

definition sa_set_date_times :: "sa_state \<Rightarrow> sa_state" where
  "sa_set_date_times s =
     (let interval = tf_time_interval (time_form s);
          initial = (if interval = JStr ''days'' then sa_earlier ''days'' s
                     else if interval = JStr ''hours'' then sa_earlier ''hours'' s
                     else if interval = JStr ''minutes'' then sa_earlier ''minutes'' s
                     else Some (now s))
      in s\<lparr>time_form := (time_form s)\<lparr>tf_start := Date initial, tf_end := Date (Some (now s)), tf_extra := []\<rparr>\<rparr>)"

definition sa_alerts_endpoint :: "sa_state \<Rightarrow> js_error + js endpoint" where
  "sa_alerts_endpoint s =
     (let f = time_form s in
      sbind (date_iso (tf_start f)) (\<lambda>start. smap (\<lambda>stop.
        get_alerts (js_join '','' (map js_elem_string (dynamic_columns s))) start stop
          (truthy (tf_acknowledged f)) (truthy (tf_escalated f)) (truthy (tf_show_closed f)))
        (date_iso (tf_end f))))"

definition sa_api_get_alerts :: "bool \<Rightarrow> sa_state \<Rightarrow> sa_state attempt" where
  "sa_api_get_alerts display_message s =
     attempt s (smap (\<lambda>ep. call ep (SA_Alerts display_message) s) (sa_alerts_endpoint s))"

definition sa_update_alerts_table :: "bool \<Rightarrow> sa_state \<Rightarrow> sa_state attempt" where
  "sa_update_alerts_table display_message s =
     (if dynamic_columns s \<noteq> [] then
        let s1 = (if truthy (tf_absolute (time_form s)) then s else sa_set_date_times s)
        in and_then (sa_api_get_alerts display_message s1) (\<lambda>s. done_with (sa_save_cookies s))
      else done_with (s\<lparr>alert_rows := []\<rparr>))"

definition sa_reload :: "sa_state \<Rightarrow> sa_state" where
  "sa_reload s = snd (sa_update_alerts_table False s)"

definition sa_api_get_fields :: "sa_state \<Rightarrow> sa_state" where
  "sa_api_get_fields = call get_fields SA_Fields"

definition sa_api_get_portal_links :: "sa_state \<Rightarrow> sa_state" where
  "sa_api_get_portal_links = call get_portal_links SA_Links"

definition sa_ngOnInit :: "sa_state \<Rightarrow> sa_state attempt" where
  "sa_ngOnInit s0 =
     (let s = emit (SetTitle ''Security Alerts'') s0 in
      and_then (attempt s (sa_initialize_time_form_group s)) (\<lambda>s.
      and_then (attempt s (sa_get_auto_refresh s)) (\<lambda>s.
      and_then (attempt s (sa_get_dynamic_columns s)) (\<lambda>s.
      and_then (sa_update_alerts_table False s) (\<lambda>s.
        done_with (sa_api_get_portal_links (sa_api_get_fields s)))))))"

definition sa_ngOnDestroy :: "sa_state \<Rightarrow> sa_state" where
  "sa_ngOnDestroy = sa_save_cookies"

text \<open>The timer of \<open>ngOnInit\<close>.\<close>

definition sa_interval :: "sa_state \<Rightarrow> sa_state" where
  "sa_interval s = (if auto_refresh s then sa_reload s else s)"

section \<open>The filter of the table\<close>

definition sa_toggle_auto_refresh :: "sa_state \<Rightarrow> sa_state" where
  "sa_toggle_auto_refresh s = s\<lparr>auto_refresh := \<not> auto_refresh s\<rparr>"

definition sa_refresh_alerts :: "sa_state \<Rightarrow> sa_state" where
  "sa_refresh_alerts s = snd (sa_update_alerts_table True s)"

text \<open>A control that the user changes, which makes a new value of the form.\<close>

definition sa_change :: "(time_form \<Rightarrow> time_form) \<Rightarrow> sa_state \<Rightarrow> sa_state" where
  "sa_change f s = s\<lparr>time_form := (f (time_form s))\<lparr>tf_extra := []\<rparr>\<rparr>"

definition sa_change_query_time_amount :: "string \<Rightarrow> sa_state \<Rightarrow> sa_state" where
  "sa_change_query_time_amount input s = (if input \<noteq> [] then sa_reload s else s)"

definition sa_time_interval_selection_change :: "sa_state \<Rightarrow> sa_state" where
  "sa_time_interval_selection_change = sa_reload"

definition sa_toggle_absolute_time_controls :: "sa_state \<Rightarrow> sa_state" where
  "sa_toggle_absolute_time_controls s =
     sa_reload (sa_set_date_times (sa_change (\<lambda>f. f\<lparr>tf_absolute := JBool (\<not> truthy (tf_absolute f))\<rparr>) s))"

definition sa_use_absolute_time :: "sa_state \<Rightarrow> js" where
  "sa_use_absolute_time s = tf_absolute (time_form s)"

definition START_DATE_TIME_LARGE :: string where
  "START_DATE_TIME_LARGE = ''Zero results returned because start datetime cannot be larger than end datetime.''"

definition sa_validate_date_times :: "sa_state \<Rightarrow> sa_state" where
  "sa_validate_date_times s =
     (if date_ge (tf_start (time_form s)) (tf_end (time_form s))
      then displaySnackBar (JStr START_DATE_TIME_LARGE) None s else s)"

definition sa_date_time_change :: "sa_state \<Rightarrow> sa_state" where
  "sa_date_time_change s = sa_reload (sa_validate_date_times s)"

definition sa_filter_acknowledged :: "bool \<Rightarrow> sa_state \<Rightarrow> sa_state" where
  "sa_filter_acknowledged checked s =
     sa_reload (sa_change (\<lambda>f. f\<lparr>tf_show_closed := JBool False\<rparr>)
       (if checked then sa_change (\<lambda>f. f\<lparr>tf_escalated := JBool False\<rparr>) s else s))"

definition sa_filter_escalated :: "bool \<Rightarrow> sa_state \<Rightarrow> sa_state" where
  "sa_filter_escalated checked s =
     sa_reload (sa_change (\<lambda>f. f\<lparr>tf_show_closed := JBool False\<rparr>)
       (if checked then sa_change (\<lambda>f. f\<lparr>tf_acknowledged := JBool False\<rparr>) s else s))"

definition sa_filter_closed_alerts :: "sa_state \<Rightarrow> sa_state" where
  "sa_filter_closed_alerts = sa_reload"

section \<open>The columns\<close>

text \<open>The options of the column input follow its text: the value of \<open>group_by_control\<close>.\<close>

definition sa_filter_chip_options :: "string \<Rightarrow> js list \<Rightarrow> js_error + js list" where
  "sa_filter_chip_options input options =
     (if list_all is_JStr options
      then Inr (filter (\<lambda>v. starts_with (toLowerCase input) (toLowerCase (the_str v))) options)
      else Inl TypeError)"

definition sa_group_by :: "string \<Rightarrow> sa_state \<Rightarrow> sa_state" where
  "sa_group_by input s =
     (case all_chip_options s of
        JArr options \<Rightarrow>
          settle s (smap (\<lambda>vs. s\<lparr>filtered_groups := vs\<rparr>)
            (if input \<noteq> [] then sa_filter_chip_options input options else Inr options))
      | _ \<Rightarrow> s)"

definition sa_add_column :: "js \<Rightarrow> sa_state \<Rightarrow> sa_state attempt" where
  "sa_add_column c s =
     sa_update_alerts_table False (s\<lparr>dynamic_columns := dynamic_columns s @ [c], all_columns := all_columns s @ [c]\<rparr>)"

definition sa_add_alert_chip :: "string \<Rightarrow> sa_state \<Rightarrow> sa_state" where
  "sa_add_alert_chip input s =
     (let c = JStr (trim input) in
      snd (and_then
        (if trim input \<noteq> [] \<and> c \<in> set (arr_elems (all_chip_options s)) \<and> c \<notin> set (dynamic_columns s)
         then sa_add_column c s else done_with s)
        (\<lambda>s. done_with (sa_group_by [] s))))"

definition sa_autocomplete_selection_chip :: "string \<Rightarrow> sa_state \<Rightarrow> sa_state" where
  "sa_autocomplete_selection_chip viewValue s =
     snd (and_then
       (if JStr viewValue \<notin> set (dynamic_columns s) then sa_add_column (JStr viewValue) s else done_with s)
       (\<lambda>s. done_with (sa_group_by [] s)))"

definition sa_remove_alert_chip :: "js \<Rightarrow> sa_state \<Rightarrow> sa_state" where
  "sa_remove_alert_chip column_name s =
     (case (find_index (\<lambda>c. c = column_name) (dynamic_columns s), find_index (\<lambda>c. c = column_name) (all_columns s)) of
        (Some i, Some j) \<Rightarrow>
          sa_reload (s\<lparr>dynamic_columns := remove_nth i (dynamic_columns s), all_columns := remove_nth j (all_columns s)\<rparr>)
      | _ \<Rightarrow> s)"

definition sa_is_dynamic_column_name :: "string \<Rightarrow> bool" where
  "sa_is_dynamic_column_name column_name \<longleftrightarrow> \<not> (column_name = ''actions'' \<or> column_name = ''count'')"

definition sa_get_alert_count :: "js \<Rightarrow> js" where
  "sa_get_alert_count update_alert =
     (if notUndefNull update_alert \<and> notUndefNull (js_get update_alert ''count'') then js_get update_alert ''count'' else JNum 0)"

definition sa_get_column_value :: "js \<Rightarrow> string \<Rightarrow> js_error + js" where
  "sa_get_column_value update_alert column_name =
     sbind (js_index update_alert column_name) (\<lambda>v.
       if notUndefNull v then
         if column_name = ''@timestamp'' then smap JStr (date_iso (new_Date v)) else Inr v
       else Inr (JStr []))"

section \<open>Dialogs\<close>

definition spaces :: "nat \<Rightarrow> string" where
  "spaces n = replicate n (CHR '' '')"

definition count_text :: "js \<Rightarrow> string" where
  "count_text update_alert = str (js_get update_alert ''count'')"

definition sa_open_confirm_dialog :: "nat \<Rightarrow> string \<Rightarrow> string \<Rightarrow> string \<Rightarrow> sa_state \<Rightarrow> sa_state" where
  "sa_open_confirm_dialog r title message api_switch =
     open_dialog ''ConfirmDialogComponent''
       (JObj [(''title'', JStr title), (''message'', JStr message), (''option1'', JStr ''Cancel''), (''option2'', JStr ''Confirm'')])
       (SA_Confirm r api_switch)"

definition sa_acknowledge_event :: "nat \<Rightarrow> sa_state \<Rightarrow> sa_state" where
  "sa_acknowledge_event r s =
     sa_open_confirm_dialog r ''Acknowledge Alerts''
       (''Are you sure you want to acknowledge '' @ count_text (alert_at r s) @ '' alerts? '' @ spaces 29 @ nl @ nl @
        ''Doing so will turn these alerts into a false positive '' @ spaces 29 @
        ''which will not appear anymore on your alerts page.'') ''modify'' s"

definition sa_unacknowledged_event :: "nat \<Rightarrow> sa_state \<Rightarrow> sa_state" where
  "sa_unacknowledged_event r s =
     sa_open_confirm_dialog r ''Unacknowledged Alerts''
       (''Are you sure you want to undo '' @ count_text (alert_at r s) @ '' acknowledged alerts? '' @ spaces 29 @ nl @ nl @
        ''Doing so will return the selected events back to their original state.'') ''modify'' s"

definition sa_remove_alerts_confirm_dialog :: "nat \<Rightarrow> sa_state \<Rightarrow> sa_state" where
  "sa_remove_alerts_confirm_dialog r s =
     sa_open_confirm_dialog r ''Remove Alerts''
       (''Are you sure you want to remove '' @ count_text (alert_at r s) @ '' alerts? '' @ spaces 29 @ nl @ nl @
        ''Doing so will turn these alerts into a false positive '' @ spaces 29 @
        ''which will not appear anymore on your alerts page. Also, '' @ spaces 29 @
        ''the hive case for these alerts shall be deleted. '' @ spaces 29 @
        ''It is advised to close out cases in the hive application itself.'') ''remove'' s"

definition sa_api_modify_alert :: "nat \<Rightarrow> sa_state \<Rightarrow> sa_state" where
  "sa_api_modify_alert r s = call (modify_alert (alert_at r s)) SA_Modify s"

definition sa_api_remove_alerts :: "nat \<Rightarrow> sa_state \<Rightarrow> sa_state" where
  "sa_api_remove_alerts r s = call (remove_alerts (alert_at r s)) SA_Remove s"

text \<open>A property written to the value of the form, which is also the \<open>form\<close> of the row.\<close>

definition sa_put_form :: "nat \<Rightarrow> (string \<times> js) list \<Rightarrow> sa_state \<Rightarrow> sa_state" where
  "sa_put_form r kvs s =
     (let f = fold (\<lambda>kv. put_extra (fst kv) (snd kv)) kvs (time_form s)
      in set_alert r ''form'' (form_value f) (s\<lparr>time_form := f\<rparr>))"

definition sa_open_confirm_dialog_closed :: "nat \<Rightarrow> string \<Rightarrow> js \<Rightarrow> sa_state \<Rightarrow> sa_state" where
  "sa_open_confirm_dialog_closed r api_switch response s =
     (if response = JStr CONFIRM_DIALOG_OPTION then
        if api_switch = ''modify'' then sa_api_modify_alert r (sa_put_form r [(''performEscalation'', JBool False)] s)
        else if api_switch = ''remove'' then sa_api_remove_alerts r (sa_put_form r [] s)
        else sa_put_form r [] s
      else s)"

definition sa_open_alert_drilldown_dialog :: "nat \<Rightarrow> sa_state \<Rightarrow> sa_state" where
  "sa_open_alert_drilldown_dialog r s0 =
     (let s = set_alert r ''links'' (JArr (sa_links s0)) (set_alert r ''form'' (form_raw (time_form s0)) s0)
      in emit (DialogOpen ''AlertDrillDownDialogComponent'' (alert_at r s)) s)"

section \<open>Links\<close>

definition sa_get_link :: "string \<Rightarrow> sa_state \<Rightarrow> js_error + js" where
  "sa_get_link search s = get_link (sa_links s) search"

definition sa_get_kibana_query :: "js \<Rightarrow> sa_state \<Rightarrow> string" where
  "sa_get_kibana_query update_alert s = kibana_query (truthy (tf_escalated (time_form s))) update_alert"

definition sa_get_kibana_link :: "js \<Rightarrow> sa_state \<Rightarrow> js_error + string" where
  "sa_get_kibana_link update_alert s =
     sbind (sa_get_link ''kibana'' s) (\<lambda>prefix.
     sbind (date_iso (tf_start (time_form s))) (\<lambda>start.
     smap (\<lambda>stop. kibana_url prefix (sa_get_kibana_query update_alert s) start stop (kibana_page update_alert))
       (date_iso (tf_end (time_form s)))))"

definition sa_get_arkime_link :: "js \<Rightarrow> string \<Rightarrow> sa_state \<Rightarrow> js_error + string" where
  "sa_get_arkime_link arkime_prefix arkime_expression s =
     arkime_link arkime_prefix arkime_expression (tf_start (time_form s)) (tf_end (time_form s))"

definition sa_open_alert_in_kibana_tab :: "nat \<Rightarrow> sa_state \<Rightarrow> sa_state" where
  "sa_open_alert_in_kibana_tab r s =
     settle s (smap (\<lambda>url. open_in_new_tab url s) (sa_get_kibana_link (alert_at r s) s))"

definition ARKIME_NOT_INSTALLED :: string where
  "ARKIME_NOT_INSTALLED =
     ''Arkime is not installed. Please go to the catalog page and install it if you want this capability to work.''"

definition sa_open_alert_in_arkime_tab :: "nat \<Rightarrow> sa_state \<Rightarrow> sa_state" where
  "sa_open_alert_in_arkime_tab r s =
     settle s (sbind (sa_get_link ''arkime'' s) (\<lambda>arkime_prefix.
       let arkime_expression = build_arkime_expression (alert_at r s) in
       if arkime_prefix = JStr [] then Inr (displaySnackBar (JStr ARKIME_NOT_INSTALLED) None s)
       else if arkime_expression = [] then
         Inr (displaySnackBar (JStr (''Failed to pivot to Arkime because you need one of the following Group By fields: '' @
           arkime_fields_text)) None s)
       else smap (\<lambda>url. open_in_new_tab url s) (sa_get_arkime_link arkime_prefix arkime_expression s)))"

definition sa_api_get_alert_list :: "nat \<Rightarrow> sa_state \<Rightarrow> sa_state" where
  "sa_api_get_alert_list r s = call (get_alert_list (alert_at r s) 1) SA_HiveTab s"

definition sa_open_alert_in_hive_tab :: "nat \<Rightarrow> sa_state \<Rightarrow> sa_state" where
  "sa_open_alert_in_hive_tab r s =
     sa_api_get_alert_list r (set_alert r ''links'' (JArr (sa_links s)) (set_alert r ''form'' (form_value (time_form s)) s))"

section \<open>Escalation\<close>

definition sa_api_fork_join :: "nat \<Rightarrow> string \<Rightarrow> string \<Rightarrow> sa_state \<Rightarrow> sa_state" where
  "sa_api_fork_join r kibana_text arkime_text s =
     (let j = length (joins s);
          s1 = s\<lparr>joins := joins s @ [\<lparr>sj_row = r, sj_kibana = kibana_text, sj_arkime = arkime_text,
                                      sj_hive = None, sj_list = None, sj_open = True\<rparr>]\<rparr>
      in call (get_alert_list (alert_at r s) 1) (SA_JoinList j) (call get_hive_settings (SA_JoinHive j) s1))"

definition sa_mark_escalated :: "nat \<Rightarrow> sa_state \<Rightarrow> sa_state" where
  "sa_mark_escalated r s =
     set_alert r ''links'' (JArr (sa_links s))
       (set_alert r ''form'' (form_raw (time_form s)) (set_alert r ''event.escalated'' (JBool True) s))"

definition sa_escalate_alert :: "nat \<Rightarrow> sa_state \<Rightarrow> sa_state" where
  "sa_escalate_alert r s0 =
     (let s = sa_mark_escalated r s0 in
      settle s (sbind (sa_get_kibana_link (alert_at r s) s) (\<lambda>kibana.
        sbind (sa_get_link ''arkime'' s) (\<lambda>arkime_prefix.
        smap (\<lambda>arkime. sa_api_fork_join r kibana arkime s)
          (sa_get_arkime_link arkime_prefix (build_arkime_expression (alert_at r s)) s)))))"

definition sa_open_escalate_alert :: "nat \<Rightarrow> string \<Rightarrow> js \<Rightarrow> sa_state \<Rightarrow> sa_state" where
  "sa_open_escalate_alert r message escalate_event_form_group =
     open_dialog ''ModalDialogMatComponent''
       (JObj [(''title'', JStr ''Escalate Alerts''), (''instructions'', JStr message),
              (''dialogForm'', escalate_event_form_group), (''confirmBtnText'', JStr ''Save'')])
       (SA_Escalate r)"

text \<open>The form that the dialog returns is an object with \<open>valid\<close> and \<open>value\<close>.\<close>

definition sa_open_escalate_alert_closed :: "nat \<Rightarrow> js \<Rightarrow> sa_state \<Rightarrow> sa_state" where
  "sa_open_escalate_alert_closed r response s =
     (if notUndefNull response \<and> truthy (js_get response ''valid'') then
        sa_api_modify_alert r (sa_put_form r [(''performEscalation'', JBool True), (''hiveForm'', js_get response ''value'')] s)
      else s)"

definition event_title :: "js \<Rightarrow> js_error + js" where
  "event_title source =
     (let event = js_get source ''event''; rule = js_get source ''rule'' in
      if notUndefNull (js_get event ''kind'') \<and> js_get event ''kind'' = JStr ''signal'' then
        sbind (js_index (js_get source ''signal'') ''rule'') (\<lambda>r. js_index r ''name'')
      else Inr (if notUndefNull rule \<and> notUndefNull (js_get rule ''name'') then js_get rule ''name'' else JStr []))"

definition event_title_and_severity :: "js \<Rightarrow> js_error + js \<times> js" where
  "event_title_and_severity alert_details =
     sbind (js_index alert_details ''_source'') (\<lambda>source.
       if notUndefNull source \<and> notUndefNull (js_get source ''event'') then
         smap (\<lambda>title. (title,
             let severity = js_get (js_get source ''event'') ''severity''
             in JStr (if notUndefNull severity then str severity else ''2'')))
           (event_title source)
       else Inr (JStr [], JStr ''2''))"

definition escalate_form :: "js \<Rightarrow> js \<Rightarrow> string \<Rightarrow> string \<Rightarrow> js" where
  "escalate_form title severity kibana_text arkime_text =
     JObj [(''event_title'', control_config ''Title'' (JStr ''Title of the case'') title True ''text'' []),
           (''event_tags'', control_config ''Tags'' (JStr ''Case tags'') JUndef False ''chips'' []),
           (''event_severity'', control_config ''Severity'' (JStr ''Severity of the case (1: low; 2: medium; 3: high)'') severity True ''dropdown''
              [''1'', ''2'', ''3'']),
           (''event_description'', control_config ''Description'' (JStr ''Description of the case'')
              (JStr (''[Kibana SIEM Link]('' @ kibana_text @ '')'' @ nl @ nl @ ''[Arkime Link]('' @ arkime_text @ '')'')) True ''textarea'' [])]"

definition HIVE_NOT_CONFIGURED :: string where
  "HIVE_NOT_CONFIGURED =
     ''Hive is not configured. Please navigate to System Settings -> Hive Settings to set your Hive API Keys.''"

definition sa_join_next :: "nat \<Rightarrow> string \<Rightarrow> string \<Rightarrow> js \<Rightarrow> js \<Rightarrow> sa_state \<Rightarrow> sa_state" where
  "sa_join_next r kibana_text arkime_text hive_settings alert_list s =
     (if js_get hive_settings ''admin_api_key'' = JStr [] \<or> js_get hive_settings ''admin_api_key'' = JStr ''org_admin_api_key''
      then displaySnackBar (JStr HIVE_NOT_CONFIGURED) None s
      else if \<not> notUndefNull alert_list
      then displaySnackBar (JStr ''Failed to get event details for the selected Alert group.'') None s
      else settle s
        (sbind (js_index (js_get (js_get alert_list ''hits'') ''hits'') ''0'') (\<lambda>alert_details.
         smap (\<lambda>(title, severity).
           sa_open_escalate_alert r
             (''Are you sure you want to escalate '' @ count_text (alert_at r s) @ '' alerts? '' @ spaces 37 @ nl @ nl @
              ''Doing so will create hive ticket.'')
             (escalate_form title severity kibana_text arkime_text) s)
           (event_title_and_severity alert_details))))"

section \<open>Answers\<close>

definition sa_api_get_fields_answer :: "reply \<Rightarrow> sa_state \<Rightarrow> sa_state" where
  "sa_api_get_fields_answer =
     answered get_fields (\<lambda>response s. s\<lparr>all_chip_options := response\<rparr>)
       (\<lambda>_. report_error ''retrieving fields for chip options'')"

definition sa_api_get_alerts_answer :: "bool \<Rightarrow> reply \<Rightarrow> sa_state \<Rightarrow> sa_state" where
  "sa_api_get_alerts_answer display_message =
     answered (get_alerts [] [] [] False False False)
       (\<lambda>response s.
          let s1 = new_alert_rows (arr_elems response) s
          in if display_message
             then generate_return_success_snackbar_message ''updated Alerts table!'' (Some MAT_SNACKBAR_CONFIGURATION_60000_DUR) s1
             else s1)
       (report_error_or_message ''retrieving alerts check logs for more details'')"

text \<open>\<open>Math.abs\<close> in a text: no number is \<open>NaN\<close>.\<close>

definition abs_text :: "js \<Rightarrow> string" where
  "abs_text v = (case js_number v of None \<Rightarrow> ''NaN'' | Some n \<Rightarrow> show_int (abs n))"

definition sa_hive_url :: "js \<Rightarrow> sa_state \<Rightarrow> js_error + string" where
  "sa_hive_url alert_list s =
     sbind (js_index (js_get (js_get alert_list ''hits'') ''hits'') ''0'') (\<lambda>hit.
     sbind (js_index hit ''_source'') (\<lambda>source.
     sbind (js_index source ''event'') (\<lambda>event.
     sbind (js_index event ''hive_id'') (\<lambda>hive_id.
     smap (\<lambda>prefix. str prefix @ ''/index.html#!/case/~~'' @ abs_text hive_id @ ''/details'') (sa_get_link ''hive'' s)))))"

definition sa_api_get_alert_list_answer :: "reply \<Rightarrow> sa_state \<Rightarrow> sa_state" where
  "sa_api_get_alert_list_answer =
     answered (get_alert_list JUndef 1)
       (\<lambda>response s. settle s (smap (\<lambda>url. open_in_new_tab url s) (sa_hive_url response s)))
       (\<lambda>_. report_error ''retrieving alert list'')"

definition sa_success_modify_remove_alerts :: "js \<Rightarrow> sa_state \<Rightarrow> sa_state" where
  "sa_success_modify_remove_alerts modify_remove_return s =
     sa_reload (generate_return_success_snackbar_message
       (''performed operation on '' @ str (js_get modify_remove_return ''total'') @ '' Alerts.'')
       (Some MAT_SNACKBAR_CONFIGURATION_60000_DUR) s)"

definition sa_api_modify_alert_answer :: "reply \<Rightarrow> sa_state \<Rightarrow> sa_state" where
  "sa_api_modify_alert_answer =
     answered (modify_alert JUndef) sa_success_modify_remove_alerts (report_error_or_message ''modifying alert'')"

definition sa_api_remove_alerts_answer :: "reply \<Rightarrow> sa_state \<Rightarrow> sa_state" where
  "sa_api_remove_alerts_answer =
     answered (remove_alerts JUndef) sa_success_modify_remove_alerts (report_error_or_message ''removing alert'')"

definition sa_api_get_portal_links_answer :: "reply \<Rightarrow> sa_state \<Rightarrow> sa_state" where
  "sa_api_get_portal_links_answer =
     answered get_portal_links (\<lambda>response s. s\<lparr>sa_links := response\<rparr>) (\<lambda>_. report_error ''retrieving portal links'')"

text \<open>\<open>forkJoin\<close>: the first error ends it, an answer that completes it runs the callback.\<close>

definition join_update :: "nat \<Rightarrow> (sa_join \<Rightarrow> sa_join) \<Rightarrow> sa_state \<Rightarrow> sa_state" where
  "join_update j f s = s\<lparr>joins := (joins s)[j := f (joins s ! j)]\<rparr>"

definition join_try :: "nat \<Rightarrow> sa_state \<Rightarrow> sa_state" where
  "join_try j s =
     (let v = joins s ! j in
      case (sj_hive v, sj_list v) of
        (Some hive, Some alert_list) \<Rightarrow>
          sa_join_next (sj_row v) (sj_kibana v) (sj_arkime v) hive alert_list (join_update j (sj_open_update (\<lambda>_. False)) s)
      | _ \<Rightarrow> s)"

definition join_failed :: "nat \<Rightarrow> sa_state \<Rightarrow> sa_state" where
  "join_failed j s = report_error ''retrieving hive settings or alert list'' (join_update j (sj_open_update (\<lambda>_. False)) s)"

definition sa_join_hive_answer :: "nat \<Rightarrow> reply \<Rightarrow> sa_state \<Rightarrow> sa_state" where
  "sa_join_hive_answer j r s =
     (if j < length (joins s) \<and> sj_open (joins s ! j) then
        answered get_hive_settings (\<lambda>v s. join_try j (join_update j (sj_hive_update (\<lambda>_. Some v)) s)) (\<lambda>_. join_failed j) r s
      else s)"

definition sa_join_list_answer :: "nat \<Rightarrow> reply \<Rightarrow> sa_state \<Rightarrow> sa_state" where
  "sa_join_list_answer j r s =
     (if j < length (joins s) \<and> sj_open (joins s ! j) then
        answered (get_alert_list JUndef 1) (\<lambda>v s. join_try j (join_update j (sj_list_update (\<lambda>_. Some v)) s)) (\<lambda>_. join_failed j) r s
      else s)"

section \<open>The component as a machine\<close>

text \<open>The clock moves with \<open>SA_Clock\<close>; a \<open>Date\<close> out of range is invalid. A control of the form changes before its handler runs. The buttons of
  a row are those that the template shows for the filter in force.\<close>

definition clip_date :: "date \<Rightarrow> date" where
  "clip_date d = (case d of Date (Some t) \<Rightarrow> Date (clip_time t) | _ \<Rightarrow> d)"

datatype sa_action =
    SA_Clock int | SA_Timer | SA_ToggleRefresh | SA_Refresh
  | SA_TypeAmount string | SA_SelectInterval string | SA_ToggleAbsolute
  | SA_PickStart date | SA_PickEnd date
  | SA_ToggleAcknowledged bool | SA_ToggleEscalated bool | SA_ToggleClosed bool
  | SA_TypeGroup string | SA_AddChip string | SA_SelectChip string | SA_RemoveChip nat
  | SA_Acknowledge nat | SA_Unacknowledge nat | SA_RemoveAlerts nat | SA_Drilldown nat | SA_EscalateClick nat
  | SA_Kibana nat | SA_Arkime nat | SA_Hive nat

definition sa_on_row :: "bool \<Rightarrow> nat \<Rightarrow> (nat \<Rightarrow> sa_state \<Rightarrow> sa_state) \<Rightarrow> sa_state \<Rightarrow> sa_state" where
  "sa_on_row b i f s = (if b \<and> i < length (alert_rows s) then f (alert_rows s ! i) s else s)"

definition shows_acknowledged :: "sa_state \<Rightarrow> bool" where
  "shows_acknowledged s = truthy (tf_acknowledged (time_form s))"

definition shows_escalated :: "sa_state \<Rightarrow> bool" where
  "shows_escalated s = truthy (tf_escalated (time_form s))"

fun sa_handle :: "sa_action \<Rightarrow> sa_state \<Rightarrow> sa_state" where
  "sa_handle (SA_Clock t) s = (if valid_time t then s\<lparr>now := t\<rparr> else s)"
| "sa_handle SA_Timer s = sa_interval s"
| "sa_handle SA_ToggleRefresh s = sa_toggle_auto_refresh s"
| "sa_handle SA_Refresh s = sa_refresh_alerts s"
| "sa_handle (SA_TypeAmount v) s = sa_change_query_time_amount v (sa_change (\<lambda>f. f\<lparr>tf_time_amount := JStr v\<rparr>) s)"
| "sa_handle (SA_SelectInterval v) s = sa_time_interval_selection_change (sa_change (\<lambda>f. f\<lparr>tf_time_interval := JStr v\<rparr>) s)"
| "sa_handle SA_ToggleAbsolute s = sa_toggle_absolute_time_controls s"
| "sa_handle (SA_PickStart d) s = sa_date_time_change (sa_change (\<lambda>f. f\<lparr>tf_start := clip_date d\<rparr>) s)"
| "sa_handle (SA_PickEnd d) s = sa_date_time_change (sa_change (\<lambda>f. f\<lparr>tf_end := clip_date d\<rparr>) s)"
| "sa_handle (SA_ToggleAcknowledged b) s = sa_filter_acknowledged b (sa_change (\<lambda>f. f\<lparr>tf_acknowledged := JBool b\<rparr>) s)"
| "sa_handle (SA_ToggleEscalated b) s = sa_filter_escalated b (sa_change (\<lambda>f. f\<lparr>tf_escalated := JBool b\<rparr>) s)"
| "sa_handle (SA_ToggleClosed b) s =
     (if shows_escalated s then sa_filter_closed_alerts (sa_change (\<lambda>f. f\<lparr>tf_show_closed := JBool b\<rparr>) s) else s)"
| "sa_handle (SA_TypeGroup v) s = sa_group_by v s"
| "sa_handle (SA_AddChip v) s = sa_add_alert_chip v s"
| "sa_handle (SA_SelectChip v) s = (if JStr v \<in> set (filtered_groups s) then sa_autocomplete_selection_chip v s else s)"
| "sa_handle (SA_RemoveChip i) s =
     (if i < length (dynamic_columns s) then sa_remove_alert_chip (dynamic_columns s ! i) s else s)"
| "sa_handle (SA_Acknowledge i) s = sa_on_row (\<not> shows_acknowledged s \<and> \<not> shows_escalated s) i sa_acknowledge_event s"
| "sa_handle (SA_Unacknowledge i) s = sa_on_row (shows_acknowledged s) i sa_unacknowledged_event s"
| "sa_handle (SA_RemoveAlerts i) s = sa_on_row (shows_escalated s) i sa_remove_alerts_confirm_dialog s"
| "sa_handle (SA_Drilldown i) s = sa_on_row (\<not> shows_acknowledged s \<or> shows_escalated s) i sa_open_alert_drilldown_dialog s"
| "sa_handle (SA_EscalateClick i) s = sa_on_row (\<not> shows_acknowledged s \<and> \<not> shows_escalated s) i sa_escalate_alert s"
| "sa_handle (SA_Kibana i) s = sa_on_row (\<not> shows_acknowledged s \<or> shows_escalated s) i sa_open_alert_in_kibana_tab s"
| "sa_handle (SA_Arkime i) s = sa_on_row (\<not> shows_acknowledged s \<or> shows_escalated s) i sa_open_alert_in_arkime_tab s"
| "sa_handle (SA_Hive i) s = sa_on_row (shows_escalated s) i sa_open_alert_in_hive_tab s"

fun sa_answer :: "sa_request \<Rightarrow> reply \<Rightarrow> sa_state \<Rightarrow> sa_state" where
  "sa_answer SA_Fields = sa_api_get_fields_answer"
| "sa_answer (SA_Alerts m) = sa_api_get_alerts_answer m"
| "sa_answer SA_HiveTab = sa_api_get_alert_list_answer"
| "sa_answer SA_Modify = sa_api_modify_alert_answer"
| "sa_answer SA_Remove = sa_api_remove_alerts_answer"
| "sa_answer SA_Links = sa_api_get_portal_links_answer"
| "sa_answer (SA_JoinHive j) = sa_join_hive_answer j"
| "sa_answer (SA_JoinList j) = sa_join_list_answer j"

fun sa_closed :: "sa_dialog \<Rightarrow> js \<Rightarrow> sa_state \<Rightarrow> sa_state" where
  "sa_closed (SA_Confirm r api_switch) = sa_open_confirm_dialog_closed r api_switch"
| "sa_closed (SA_Escalate r) = sa_open_escalate_alert_closed r"

definition sa_step :: "sa_action event \<Rightarrow> sa_state \<Rightarrow> sa_state" where
  "sa_step = async_step sa_handle sa_answer sa_closed"

end
