(* ===== verification/Security_Alerts_Facts.thy ===== *)
theory Security_Alerts_Facts
  imports Security_Alerts "HOL-Library.Multiset"
begin

text \<open>
  What the page of the security alerts guarantees: the invariant of its state, the types of its filter, the
  round trip of its settings through the cookies, and the requests that change alerts.
\<close>

section \<open>Loading the table changes little\<close>

definition filter_fields :: "time_form \<Rightarrow> js list" where
  "filter_fields f =
     [tf_acknowledged f, tf_escalated f, tf_show_closed f, tf_time_interval f, tf_time_amount f, tf_absolute f]"

text \<open>The fields that loading the table never changes, and the form, of which it may set the dates.\<close>

definition page_core :: "sa_state \<Rightarrow> _" where
  "page_core s = (auto_refresh s, dynamic_columns s, all_columns s, all_chip_options s, filtered_groups s, sa_links s,
     alert_heap s, joins s, now s, zone s, dialogs s)"

definition same_page :: "sa_state \<Rightarrow> sa_state \<Rightarrow> bool" where
  "same_page s' s \<longleftrightarrow> page_core s' = page_core s \<and> filter_fields (time_form s') = filter_fields (time_form s) \<and>
     (truthy (tf_absolute (time_form s)) \<longrightarrow> time_form s' = time_form s)"

lemma sa_more:
  "async.more s' = async.more s \<Longrightarrow>
     jar s' = jar s \<and> now s' = now s \<and> zone s' = zone s \<and> auto_refresh s' = auto_refresh s \<and>
     dynamic_columns s' = dynamic_columns s \<and> all_columns s' = all_columns s \<and> time_form s' = time_form s \<and>
     all_chip_options s' = all_chip_options s \<and> filtered_groups s' = filtered_groups s \<and> sa_links s' = sa_links s \<and>
     alert_heap s' = alert_heap s \<and> alert_rows s' = alert_rows s \<and> joins s' = joins s"
  for s s' :: sa_state
  by (cases s; cases s') simp

lemma set_date_times_frame [simp]:
  "page_core (sa_set_date_times s) = page_core s" "filter_fields (time_form (sa_set_date_times s)) = filter_fields (time_form s)"
  "trace (sa_set_date_times s) = trace s" "matSnackBarRef (sa_set_date_times s) = matSnackBarRef s"
  "requests (sa_set_date_times s) = requests s" "alert_rows (sa_set_date_times s) = alert_rows s" "jar (sa_set_date_times s) = jar s"
  by (simp_all add: sa_set_date_times_def page_core_def filter_fields_def Let_def)

lemma save_cookies_frame [simp]:
  "page_core (sa_save_cookies s) = page_core s" "time_form (sa_save_cookies s) = time_form s"
  "trace (sa_save_cookies s) = trace s" "matSnackBarRef (sa_save_cookies s) = matSnackBarRef s"
  "requests (sa_save_cookies s) = requests s" "alert_rows (sa_save_cookies s) = alert_rows s"
  by (simp_all add: sa_save_cookies_def page_core_def)

lemma call_page [simp]:
  "page_core (call ep k s) = page_core s" "time_form (call ep k s) = time_form s" "alert_rows (call ep k s) = alert_rows s"
  using sa_more [of "call ep k s" s] by (simp_all add: page_core_def)

lemma call_fields: "alert_heap (call ep k s) = alert_heap s" "joins (call ep k s) = joins s" "jar (call ep k s) = jar s"
    "dynamic_columns (call ep k s) = dynamic_columns s" for s :: sa_state
  using sa_more [of "call ep k s" s] by simp_all

text \<open>Loading the table: nothing is sent and the page is as it was, or one request for the filter in force is
  sent.\<close>

lemma update_table_cases:
  obtains (empty) "dynamic_columns s = []" "sa_update_alerts_table m s = (None, s\<lparr>alert_rows := []\<rparr>)"
  | (throws) s1 e where "dynamic_columns s \<noteq> []" "sa_update_alerts_table m s = (Some e, s1)"
      "s1 = (if truthy (tf_absolute (time_form s)) then s else sa_set_date_times s)" "sa_alerts_endpoint s1 = Inl e"
  | (loads) s1 ep where "dynamic_columns s \<noteq> []" "sa_update_alerts_table m s = (None, sa_save_cookies (call ep (SA_Alerts m) s1))"
      "s1 = (if truthy (tf_absolute (time_form s)) then s else sa_set_date_times s)" "sa_alerts_endpoint s1 = Inr ep"
proof (cases "dynamic_columns s = []")
  case True
  then show thesis by (intro empty) (simp_all add: sa_update_alerts_table_def done_with_def)
next
  case False
  let ?s1 = "if truthy (tf_absolute (time_form s)) then s else sa_set_date_times s"
  show thesis
  proof (cases "sa_alerts_endpoint ?s1")
    case (Inl e)
    then show thesis
      using False by (intro throws) (simp_all add: sa_update_alerts_table_def sa_api_get_alerts_def attempt_def smap_def)
  next
    case (Inr ep)
    then show thesis
      using False
      by (intro loads) (simp_all add: sa_update_alerts_table_def sa_api_get_alerts_def attempt_def smap_def done_with_def)
  qed
qed

lemma same_page_refl: "same_page s s"
  by (simp add: same_page_def)

lemma absolute_cong: "filter_fields f = filter_fields g \<Longrightarrow> tf_absolute f = tf_absolute g"
  by (simp add: filter_fields_def)

lemma update_table_page: "same_page (snd (sa_update_alerts_table m s)) s"
  by (rule update_table_cases [of s m]) (simp_all add: same_page_def, simp add: page_core_def)

lemma update_table_rows:
  "alert_rows (snd (sa_update_alerts_table m s)) = alert_rows s \<or> alert_rows (snd (sa_update_alerts_table m s)) = []"
  by (rule update_table_cases [of s m]) simp_all

lemma update_table_snack: "snack_ok s \<Longrightarrow> snack_ok (snd (sa_update_alerts_table m s))"
  by (rule update_table_cases [of s m]) (simp_all add: snack_ok_def)

lemma sa_endpoint_is_get: "sa_alerts_endpoint s = Inr ep \<Longrightarrow> ep_method ep = GET"
  by (auto simp: sa_alerts_endpoint_def Let_def sbind_def smap_def get_alerts_def split: sum.splits)

lemma page_core_fields:
  "page_core s' = page_core s \<Longrightarrow>
     auto_refresh s' = auto_refresh s \<and> dynamic_columns s' = dynamic_columns s \<and> all_columns s' = all_columns s \<and>
     all_chip_options s' = all_chip_options s \<and> filtered_groups s' = filtered_groups s \<and> sa_links s' = sa_links s \<and>
     alert_heap s' = alert_heap s \<and> joins s' = joins s \<and> now s' = now s \<and> zone s' = zone s \<and> dialogs s' = dialogs s"
  by (simp add: page_core_def)

section \<open>Invariant\<close>

fun date_ok :: "date \<Rightarrow> bool" where
  "date_ok (Date (Some t)) = valid_time t"
| "date_ok _ = True"

fun is_JBool :: "js \<Rightarrow> bool" where
  "is_JBool (JBool _) = True"
| "is_JBool _ = False"

fun is_amount :: "js \<Rightarrow> bool" where
  "is_amount (JNum n) = (n = 24)"
| "is_amount (JStr _) = True"
| "is_amount _ = False"

text \<open>The types of \<open>AlertFormInterface\<close>, but for the amount: the interface declares a number, and the control holds
  the number 24 only until the user types into its text box, which makes it a text (line 23 of the template has no
  \<open>type="number"\<close>).\<close>

definition form_ok :: "time_form \<Rightarrow> bool" where
  "form_ok f \<longleftrightarrow> is_JBool (tf_acknowledged f) \<and> is_JBool (tf_escalated f) \<and> is_JBool (tf_show_closed f) \<and>
     is_JStr (tf_time_interval f) \<and> is_amount (tf_time_amount f) \<and> is_JBool (tf_absolute f) \<and>
     date_ok (tf_start f) \<and> date_ok (tf_end f)"

text \<open>The columns besides the two fixed ones.\<close>

definition chip_columns :: "js list \<Rightarrow> js list" where
  "chip_columns cs = filter (\<lambda>c. c \<notin> set ALL_COLUMNS_START_VALUES) cs"

lemma chip_columns_append [simp]:
  "chip_columns (cs @ cs') = chip_columns cs @ chip_columns cs'" "chip_columns ALL_COLUMNS_START_VALUES = []" "chip_columns [] = []"
  by (simp_all add: chip_columns_def)

definition columns_ok :: "sa_state \<Rightarrow> bool" where
  "columns_ok s \<longleftrightarrow> mset (all_columns s) = mset ALL_COLUMNS_START_VALUES + mset (dynamic_columns s) \<and>
     distinct (dynamic_columns s) \<and> list_all is_JStr (dynamic_columns s) \<and> chip_columns (all_columns s) = chip_columns (dynamic_columns s)"

fun dialog_row :: "sa_dialog \<Rightarrow> nat" where
  "dialog_row (SA_Confirm r _) = r"
| "dialog_row (SA_Escalate r) = r"

definition rows_ok :: "sa_state \<Rightarrow> bool" where
  "rows_ok s \<longleftrightarrow> distinct (alert_rows s) \<and> (\<forall>r \<in> set (alert_rows s). r < length (alert_heap s)) \<and>
     (\<forall>d \<in> set (dialogs s). dialog_row d < length (alert_heap s)) \<and> (\<forall>j \<in> set (joins s). sj_row j < length (alert_heap s))"

definition sa_inv :: "sa_state \<Rightarrow> bool" where
  "sa_inv s \<longleftrightarrow> snack_ok s \<and> columns_ok s \<and> rows_ok s \<and> form_ok (time_form s) \<and> valid_time (now s)"

lemma clip_time_ok: "date_ok (Date (clip_time t))"
  by (simp add: clip_time_def)

lemma form_ok_set_date_times: "form_ok (time_form s) \<Longrightarrow> valid_time (now s) \<Longrightarrow> form_ok (time_form (sa_set_date_times s))"
  using clip_time_ok by (auto simp: form_ok_def sa_set_date_times_def sa_earlier_def Let_def split: option.splits)

lemma form_ok_extra [simp]:
  "form_ok (f\<lparr>tf_extra := e\<rparr>) = form_ok f" "form_ok (put_extra k v f) = form_ok f"
  by (simp_all add: form_ok_def put_extra_def)

lemma update_table_form:
  "form_ok (time_form s) \<Longrightarrow> valid_time (now s) \<Longrightarrow> form_ok (time_form (snd (sa_update_alerts_table m s)))"
  by (rule update_table_cases [of s m]) (auto simp: form_ok_set_date_times)

lemma columns_rows_cong:
  assumes "page_core s' = page_core s" "alert_rows s' = alert_rows s \<or> alert_rows s' = []"
  shows "columns_ok s \<Longrightarrow> columns_ok s'" "rows_ok s \<Longrightarrow> rows_ok s'"
  using page_core_fields [OF assms(1)] assms(2) by (auto simp: columns_ok_def rows_ok_def)

lemma sa_inv_update [simp, intro]:
  assumes "sa_inv s"
  shows "sa_inv (snd (sa_update_alerts_table m s))"
proof -
  have core: "page_core (snd (sa_update_alerts_table m s)) = page_core s"
    using update_table_page [of m s] by (simp add: same_page_def)
  have "now (snd (sa_update_alerts_table m s)) = now s" using page_core_fields [OF core] by simp
  then show ?thesis
    using assms columns_rows_cong [OF core update_table_rows] unfolding sa_inv_def
    by (simp add: update_table_snack update_table_form)
qed

lemma sa_inv_reload [simp, intro]: "sa_inv s \<Longrightarrow> sa_inv (sa_reload s)" "sa_inv s \<Longrightarrow> sa_inv (sa_refresh_alerts s)"
  by (simp_all add: sa_reload_def sa_refresh_alerts_def)

lemma sa_inv_frame:
  "sa_inv s \<Longrightarrow> async.more s' = async.more s \<Longrightarrow> snack_ok s' \<Longrightarrow> set (dialogs s') \<subseteq> set (dialogs s) \<Longrightarrow> sa_inv s'"
  using sa_more [of s' s] by (auto simp: sa_inv_def columns_ok_def rows_ok_def)

lemma sa_inv_more:
  "sa_inv s \<Longrightarrow> world.more s' = world.more s \<Longrightarrow> (snack_ok s \<Longrightarrow> snack_ok s') \<Longrightarrow> sent s' = sent s \<Longrightarrow> sa_inv s'"
  using sa_inv_frame [of s s'] world_more_async [of s' s] world_more_requests [of s' s] by (simp add: sa_inv_def)

lemmas sa_inv_answered = answered_inv [where P = sa_inv, OF _ _ sa_inv_more]

lemma sa_inv_basic [simp, intro]:
  assumes "sa_inv s"
  shows "sa_inv (call ep k s)" "sa_inv (displaySnackBar m c s)" "sa_inv (report_error msg s)"
    "sa_inv (report_error_or_message msg e s)" "sa_inv (generate_return_success_snackbar_message msg c s)"
    "sa_inv (open_in_new_tab msg s)" "sa_inv (emit (DialogOpen msg v) s)" "sa_inv (emit (SetTitle msg) s)"
proof -
  have "snack_ok s" using assms by (simp add: sa_inv_def)
  then show "sa_inv (call ep k s)" "sa_inv (displaySnackBar m c s)" "sa_inv (report_error msg s)"
    "sa_inv (report_error_or_message msg e s)" "sa_inv (generate_return_success_snackbar_message msg c s)"
    "sa_inv (open_in_new_tab msg s)" "sa_inv (emit (DialogOpen msg v) s)" "sa_inv (emit (SetTitle msg) s)"
    by (simp_all add: sa_inv_frame [OF assms] snack_ok_emit open_in_new_tab_def)
qed

lemma sa_inv_open_dialog:
  assumes "sa_inv s" "dialog_row d < length (alert_heap s)"
  shows "sa_inv (open_dialog n v d s)"
  using assms sa_more [of "open_dialog n v d s" s] by (auto simp: sa_inv_def columns_ok_def rows_ok_def)

lemma sa_inv_updates [simp]:
  "sa_inv (s\<lparr>requests := ks\<rparr>) = sa_inv s" "sa_inv (s\<lparr>jar := j\<rparr>) = sa_inv s" "sa_inv (s\<lparr>auto_refresh := b\<rparr>) = sa_inv s"
  "sa_inv (s\<lparr>all_chip_options := v\<rparr>) = sa_inv s" "sa_inv (s\<lparr>filtered_groups := vs\<rparr>) = sa_inv s" "sa_inv (s\<lparr>sa_links := vs\<rparr>) = sa_inv s"
  by (simp_all add: sa_inv_def columns_ok_def rows_ok_def snack_ok_def)

lemma sa_inv_save [simp]: "sa_inv (sa_save_cookies s) = sa_inv s"
  by (simp add: sa_save_cookies_def)

lemma sa_inv_close: "sa_inv s \<Longrightarrow> sa_inv (s\<lparr>dialogs := remove_nth i (dialogs s)\<rparr>)"
  by (auto simp: sa_inv_def columns_ok_def rows_ok_def snack_ok_def remove_nth_def dest: in_set_takeD in_set_dropD)

lemma sa_inv_form: "sa_inv s \<Longrightarrow> form_ok f \<Longrightarrow> sa_inv (s\<lparr>time_form := f\<rparr>)"
  by (simp add: sa_inv_def columns_ok_def rows_ok_def snack_ok_def)

lemma sa_inv_change: "sa_inv s \<Longrightarrow> (form_ok (time_form s) \<Longrightarrow> form_ok (f (time_form s))) \<Longrightarrow> sa_inv (sa_change f s)"
  unfolding sa_change_def by (rule sa_inv_form) (simp_all add: sa_inv_def)

lemma sa_inv_set_alert [simp]: "sa_inv (set_alert r k v s) = sa_inv s"
  by (simp add: set_alert_def sa_inv_def columns_ok_def rows_ok_def snack_ok_def)

lemma sa_inv_rows: "sa_inv s \<Longrightarrow> sa_inv (new_alert_rows vs s)"
  by (auto simp: new_alert_rows_def sa_inv_def columns_ok_def rows_ok_def snack_ok_def)

lemma sa_inv_join [simp]:
  assumes "\<And>v. sj_row (f v) = sj_row v" "sa_inv s"
  shows "sa_inv (join_update j f s)"
proof (cases "j < length (joins s)")
  case True
  then show ?thesis
    using assms
    by (auto simp: join_update_def sa_inv_def columns_ok_def rows_ok_def snack_ok_def dest!: subsetD [OF set_update_subset_insert])
next
  case False
  then have "join_update j f s = s" by (simp add: join_update_def list_update_beyond)
  then show ?thesis using assms(2) by simp
qed

lemma sa_inv_put_form [simp]: "sa_inv s \<Longrightarrow> sa_inv (sa_put_form r kvs s)"
proof -
  have "form_ok (fold (\<lambda>kv. put_extra (fst kv) (snd kv)) kvs f) = form_ok f" for f
    by (induction kvs arbitrary: f) simp_all
  then have "form_ok (fold (\<lambda>kv. put_extra (fst kv) (snd kv)) kvs (time_form s))" if "sa_inv s"
    using that by (simp add: sa_inv_def)
  then show "sa_inv s \<Longrightarrow> sa_inv (sa_put_form r kvs s)"
    by (simp add: sa_put_form_def Let_def sa_inv_form)
qed

lemma sa_inv_add_column:
  assumes "sa_inv s" "c \<notin> set (dynamic_columns s)" "is_JStr c"
  shows "sa_inv (snd (sa_add_column c s))"
  unfolding sa_add_column_def
  by (rule sa_inv_update) (use assms in \<open>auto simp: sa_inv_def columns_ok_def rows_ok_def snack_ok_def\<close>)

lemma sa_inv_group_by [simp, intro]: "sa_inv s \<Longrightarrow> sa_inv (sa_group_by v s)"
  by (auto simp: sa_group_by_def settle_def smap_def split: js.splits sum.splits)

lemma mset_remove_nth: "i < length xs \<Longrightarrow> mset xs = add_mset (xs ! i) (mset (remove_nth i xs))"
  by (simp add: remove_nth_def) (metis id_take_nth_drop mset.simps(2) mset_append union_mset_add_mset_right)

lemma remove_found: "find_index (\<lambda>x. x = c) xs = Some i \<Longrightarrow> remove_nth i xs = remove1 c xs"
  by (induction xs arbitrary: i) (auto simp: remove_nth_def find_index.simps split: if_splits option.splits)

lemma chip_columns_remove: "chip_columns (remove1 c cs) = remove1 c (chip_columns cs)"
  by (simp add: chip_columns_def filter_remove1)

lemma sa_inv_remove_chip: "sa_inv s \<Longrightarrow> sa_inv (sa_remove_alert_chip c s)"
proof -
  assume inv: "sa_inv s"
  show ?thesis
  proof (cases "find_index (\<lambda>x. x = c) (dynamic_columns s)"; cases "find_index (\<lambda>x. x = c) (all_columns s)")
    fix i j assume ij: "find_index (\<lambda>x. x = c) (dynamic_columns s) = Some i" "find_index (\<lambda>x. x = c) (all_columns s) = Some j"
    note i = find_index_Some [OF ij(1)] find_index_Some [OF ij(2)]
    have "mset (dynamic_columns s) = add_mset c (mset (remove_nth i (dynamic_columns s)))"
      "mset (all_columns s) = add_mset c (mset (remove_nth j (all_columns s)))"
      using i mset_remove_nth [of i "dynamic_columns s"] mset_remove_nth [of j "all_columns s"] by simp_all
    then have "mset (remove_nth j (all_columns s)) = mset ALL_COLUMNS_START_VALUES + mset (remove_nth i (dynamic_columns s))"
      using inv by (simp add: sa_inv_def columns_ok_def)
    then have "columns_ok (s\<lparr>dynamic_columns := remove_nth i (dynamic_columns s), all_columns := remove_nth j (all_columns s)\<rparr>)"
      using inv set_remove_nth [of i "dynamic_columns s"]
      by (auto simp: sa_inv_def columns_ok_def distinct_remove_nth list_all_iff remove_found [OF ij(1)] remove_found [OF ij(2)] chip_columns_remove)
    then have "sa_inv (s\<lparr>dynamic_columns := remove_nth i (dynamic_columns s), all_columns := remove_nth j (all_columns s)\<rparr>)"
      using inv by (simp add: sa_inv_def rows_ok_def snack_ok_def)
    then show ?thesis by (simp add: sa_remove_alert_chip_def ij sa_inv_reload)
  qed (use inv in \<open>simp_all add: sa_remove_alert_chip_def\<close>)
qed

lemma sa_inv_mark [simp]: "sa_inv (sa_mark_escalated r s) = sa_inv s"
  by (simp add: sa_mark_escalated_def)

lemma set_alert_heap [simp]: "length (alert_heap (set_alert r k v s)) = length (alert_heap s)"
  "dialogs (set_alert r k v s) = dialogs s" "requests (set_alert r k v s) = requests s" "trace (set_alert r k v s) = trace s"
  "alert_rows (set_alert r k v s) = alert_rows s" "time_form (set_alert r k v s) = time_form s" "joins (set_alert r k v s) = joins s"
  "jar (set_alert r k v s) = jar s" "dynamic_columns (set_alert r k v s) = dynamic_columns s" "auto_refresh (set_alert r k v s) = auto_refresh s"
  "sa_links (set_alert r k v s) = sa_links s"
  by (simp_all add: set_alert_def)

lemma sa_inv_escalate:
  assumes "sa_inv s" "r < length (alert_heap s)"
  shows "sa_inv (sa_escalate_alert r s)"
proof -
  have "sa_inv (sa_api_fork_join r a b t)" if "sa_inv t" "r < length (alert_heap t)" for a b t
    unfolding sa_api_fork_join_def Let_def using that
    by (intro sa_inv_basic) (auto simp: sa_inv_def columns_ok_def rows_ok_def snack_ok_def)
  then show ?thesis
    using assms by (auto simp: sa_escalate_alert_def settle_def sbind_def smap_def Let_def sa_mark_escalated_def split: sum.splits)
qed

lemma sa_inv_row: "sa_inv s \<Longrightarrow> i < length (alert_rows s) \<Longrightarrow> alert_rows s ! i < length (alert_heap s)"
  by (simp add: sa_inv_def rows_ok_def)

lemma sa_inv_on_row:
  "sa_inv s \<Longrightarrow> (\<And>r. r < length (alert_heap s) \<Longrightarrow> sa_inv (f r s)) \<Longrightarrow> sa_inv (sa_on_row b i f s)"
  by (simp add: sa_on_row_def sa_inv_row)

lemmas sa_dialog_defs = sa_open_confirm_dialog_def sa_acknowledge_event_def sa_unacknowledged_event_def
  sa_remove_alerts_confirm_dialog_def

lemma sa_inv_dialogs:
  assumes "sa_inv s" "r < length (alert_heap s)"
  shows "sa_inv (sa_acknowledge_event r s)" "sa_inv (sa_unacknowledged_event r s)" "sa_inv (sa_remove_alerts_confirm_dialog r s)"
  by (simp_all add: sa_dialog_defs sa_inv_open_dialog assms)

lemma sa_inv_links:
  assumes "sa_inv s"
  shows "sa_inv (sa_open_alert_in_kibana_tab r s)" "sa_inv (sa_open_alert_in_arkime_tab r s)"
    "sa_inv (sa_open_alert_drilldown_dialog r s)" "sa_inv (sa_open_alert_in_hive_tab r s)"
  using assms
  by (auto simp: sa_open_alert_in_kibana_tab_def sa_open_alert_in_arkime_tab_def sa_open_alert_drilldown_dialog_def
      sa_open_alert_in_hive_tab_def sa_api_get_alert_list_def settle_def sbind_def smap_def Let_def split: sum.splits if_splits)

lemma sa_inv_date_change [simp]: "sa_inv s \<Longrightarrow> sa_inv (sa_date_time_change s)"
  by (simp add: sa_date_time_change_def sa_validate_date_times_def)

lemma sa_inv_set_dates: "sa_inv s \<Longrightarrow> sa_inv (sa_set_date_times s)"
  using sa_inv_form [of s "time_form (sa_set_date_times s)"] form_ok_set_date_times [of s]
  by (simp add: sa_set_date_times_def Let_def sa_inv_def)

lemma sa_inv_then: "sa_inv (snd m) \<Longrightarrow> sa_inv (snd (and_then m (\<lambda>s. done_with (sa_group_by v s))))"
  by (rule snd_and_then [where P = sa_inv]) simp_all

lemma sa_inv_chips:
  assumes "sa_inv s"
  shows "sa_inv (sa_add_alert_chip v s)" "sa_inv (sa_autocomplete_selection_chip v s)"
  unfolding sa_add_alert_chip_def sa_autocomplete_selection_chip_def Let_def
  by (intro sa_inv_then; simp add: assms sa_inv_add_column)+

lemma date_ok_clip: "date_ok (clip_date d)"
  using clip_time_ok by (auto simp: clip_date_def split: date.splits option.splits)

lemma sa_inv_changes:
  assumes "sa_inv s"
  shows "sa_inv (sa_change (\<lambda>f. f\<lparr>tf_time_amount := JStr v\<rparr>) s)" "sa_inv (sa_change (\<lambda>f. f\<lparr>tf_time_interval := JStr v\<rparr>) s)"
    "sa_inv (sa_change (\<lambda>f. f\<lparr>tf_start := clip_date d\<rparr>) s)" "sa_inv (sa_change (\<lambda>f. f\<lparr>tf_end := clip_date d\<rparr>) s)"
    "sa_inv (sa_change (\<lambda>f. f\<lparr>tf_acknowledged := JBool b\<rparr>) s)" "sa_inv (sa_change (\<lambda>f. f\<lparr>tf_escalated := JBool b\<rparr>) s)"
    "sa_inv (sa_change (\<lambda>f. f\<lparr>tf_show_closed := JBool b\<rparr>) s)" "sa_inv (sa_change (\<lambda>f. f\<lparr>tf_absolute := JBool (h f)\<rparr>) s)"
  by (rule sa_inv_change [OF assms]; simp add: form_ok_def date_ok_clip)+

lemmas sa_filter_defs = sa_interval_def sa_toggle_auto_refresh_def sa_change_query_time_amount_def
  sa_time_interval_selection_change_def sa_toggle_absolute_time_controls_def sa_filter_acknowledged_def
  sa_filter_escalated_def sa_filter_closed_alerts_def

lemma sa_inv_clock: "sa_inv s \<Longrightarrow> valid_time t \<Longrightarrow> sa_inv (s\<lparr>now := t\<rparr>)"
  by (simp add: sa_inv_def columns_ok_def rows_ok_def snack_ok_def)

lemma sa_handle_inv: "sa_inv s \<Longrightarrow> sa_inv (sa_handle a s)"
  by (cases a)
    (simp_all add: sa_inv_clock sa_filter_defs sa_inv_changes sa_inv_set_dates sa_inv_chips sa_inv_remove_chip sa_inv_on_row
      sa_inv_dialogs sa_inv_links sa_inv_escalate)

lemma sa_inv_success [simp, intro]: "sa_inv s \<Longrightarrow> sa_inv (sa_success_modify_remove_alerts v s)"
  by (simp add: sa_success_modify_remove_alerts_def)

lemma sa_inv_join_next:
  assumes "sa_inv s" "r < length (alert_heap s)"
  shows "sa_inv (sa_join_next r k a h l s)"
  using assms
  by (auto simp: sa_join_next_def settle_def sbind_def smap_def sa_open_escalate_alert_def sa_inv_open_dialog split: sum.splits)

lemma join_update_fields [simp]:
  "alert_heap (join_update j f s) = alert_heap s" "joins (join_update j f s) = (joins s)[j := f (joins s ! j)]"
  by (simp_all add: join_update_def)

lemma sa_inv_join_try:
  assumes "sa_inv s" "j < length (joins s)"
  shows "sa_inv (join_try j s)"
proof -
  have "sj_row (joins s ! j) < length (alert_heap s)" using assms by (simp add: sa_inv_def rows_ok_def)
  then show ?thesis
    using assms(1) by (auto simp: join_try_def Let_def intro!: sa_inv_join_next split: option.splits)
qed

lemma sa_inv_join_answers:
  assumes "sa_inv s"
  shows "sa_inv (sa_join_hive_answer j r s)" "sa_inv (sa_join_list_answer j r s)"
  using assms
  by (auto simp: sa_join_hive_answer_def sa_join_list_answer_def join_failed_def intro!: sa_inv_answered sa_inv_join_try)

lemmas sa_answer_defs = sa_api_get_fields_answer_def sa_api_get_alerts_answer_def sa_api_get_alert_list_answer_def
  sa_api_modify_alert_answer_def sa_api_remove_alerts_answer_def sa_api_get_portal_links_answer_def

lemma sa_inv_hive_tab: "sa_inv s \<Longrightarrow> sa_inv (settle s (smap (\<lambda>url. open_in_new_tab url s) r))"
  by (cases r) (simp_all add: settle_def smap_def)

lemma sa_answer_inv: "sa_inv s \<Longrightarrow> sa_inv (sa_answer k r s)"
  by (cases k)
    (auto simp: sa_answer_defs sa_inv_join_answers Let_def intro!: sa_inv_answered sa_inv_rows sa_inv_hive_tab)

lemma sa_closed_inv: "sa_inv s \<Longrightarrow> sa_inv (sa_closed d v s)"
  by (cases d)
    (auto simp: sa_open_confirm_dialog_closed_def sa_open_escalate_alert_closed_def sa_api_modify_alert_def sa_api_remove_alerts_def)

interpretation sa: async_component sa_handle sa_answer sa_closed sa_inv
  by unfold_locales (simp_all add: sa_handle_inv sa_answer_inv sa_closed_inv sa_inv_close)

section \<open>The start of the page\<close>

definition sa_open :: "jar \<Rightarrow> int \<Rightarrow> (string \<Rightarrow> int \<Rightarrow> int \<Rightarrow> int) \<Rightarrow> sa_state attempt" where
  "sa_open j t z = sa_ngOnInit (sa_constructor j t z)"

text \<open>The page of a user who has never been there.\<close>

definition sa_first :: "int \<Rightarrow> (string \<Rightarrow> int \<Rightarrow> int \<Rightarrow> int) \<Rightarrow> sa_state" where
  "sa_first t z = snd (sa_open [] t z)"

lemma sa_inv_init_calls: "sa_inv s \<Longrightarrow> sa_inv (sa_api_get_portal_links (sa_api_get_fields s))"
  by (simp add: sa_api_get_portal_links_def sa_api_get_fields_def)

lemma cookie_get_empty: "cookie_get k [] = Inr []" if "k \<noteq> []"
  using that by (cases k) (simp_all add: cookie_get_def cookie_read_def cookie_pairs_def cookie_pick_def smap_def)

lemma sa_first_inv: "valid_time t \<Longrightarrow> sa_inv (sa_first t z)"
proof -
  assume t: "valid_time t"
  let ?s = "sa_set_columns DYNAMIC_COLUMNS_DEFAULT_VALUES ((emit (SetTitle ''Security Alerts'') (sa_constructor [] t z))
      \<lparr>time_form := default_time_form, auto_refresh := True\<rparr>)"
  have "sa_inv ?s"
    using t by (simp add: sa_set_columns_def sa_constructor_def sa_inv_def columns_ok_def rows_ok_def snack_ok_def
        form_ok_def default_time_form_def DYNAMIC_COLUMNS_DEFAULT_VALUES_def emit_def)
  then have "sa_inv (snd (and_then (sa_update_alerts_table False ?s)
      (\<lambda>s. done_with (sa_api_get_portal_links (sa_api_get_fields s)))))"
    by (intro snd_and_then [where P = sa_inv]) (simp_all add: sa_inv_init_calls)
  moreover have "jar (emit (SetTitle ''Security Alerts'') (sa_constructor [] t z)) = []"
    using sa_more [of "emit (SetTitle ''Security Alerts'') (sa_constructor [] t z)" "sa_constructor [] t z"]
    by (simp add: sa_constructor_def)
  ultimately show ?thesis
    by (simp add: sa_first_def sa_open_def sa_ngOnInit_def Let_def attempt_def smap_def sbind_def cookie_get_empty
        sa_initialize_time_form_group_def sa_get_auto_refresh_def sa_get_dynamic_columns_def)
qed

section \<open>The settings in the cookies\<close>

lemma saved_jar:
  "jar (sa_save_cookies s) =
     cookies.store_all [(''dynamic_columns'', json_text (JArr (dynamic_columns s))),
       (''time_form_group'', json_text (form_value (time_form s))),
       (''auto_refresh'', if auto_refresh s then ''true'' else ''false'')] (jar s)"
  by (simp add: sa_save_cookies_def cookies.store_all_def)

definition savable :: "sa_state \<Rightarrow> bool" where
  "savable s \<longleftrightarrow> jar_ok (jar s) \<and> cookie_text ''dynamic_columns'' (json_text (JArr (dynamic_columns s))) \<and>
     cookie_text ''time_form_group'' (json_text (form_value (time_form s))) \<and> js_wf (form_value (time_form s))"

lemma control_char_numbers: "control_char c = ((of_char c :: nat) < 9 \<or> 9 < (of_char c :: nat) \<and> (of_char c :: nat) < 32 \<or> (of_char c :: nat) = 127)"
  by (auto simp: control_char_def)

lemma settings_keys:
  "cookie_key ''dynamic_columns''" "cookie_key ''time_form_group''" "cookie_key ''auto_refresh''"
  "cookie_text ''auto_refresh'' ''true''" "cookie_text ''auto_refresh'' ''false''"
  by (simp_all add: cookie_key_def cookie_text_def plain_text_def control_char_numbers trim_def is_space_def)

lemma settings_read_back:
  assumes "savable s"
  shows "cookie_get ''dynamic_columns'' (jar (sa_save_cookies s)) = Inr (json_text (JArr (dynamic_columns s)))"
    "cookie_get ''time_form_group'' (jar (sa_save_cookies s)) = Inr (json_text (form_value (time_form s)))"
    "cookie_get ''auto_refresh'' (jar (sa_save_cookies s)) = Inr (if auto_refresh s then ''true'' else ''false'')"
  unfolding saved_jar using assms settings_keys
  by (intro cookies.fetch_stored; simp add: savable_def)+

lemma clean_columns: "list_all is_JStr cs \<Longrightarrow> json_clean (JArr cs) = JArr cs \<and> js_wf (JArr cs)"
  by (induction cs) (auto elim!: is_JStr.elims)

lemma clean_fields:
  assumes "form_ok f"
  shows "map (\<lambda>kv. (fst kv, json_clean (snd kv))) (filter (\<lambda>kv. snd kv \<noteq> JUndef) (form_fields f)) = form_fields f"
proof -
  have date: "date_json d \<noteq> JUndef \<and> json_clean (date_json d) = date_json d" for d
    by (cases d rule: date_json.cases) simp_all
  have bool: "is_JBool v \<Longrightarrow> v \<noteq> JUndef \<and> json_clean v = v" for v by (cases v) simp_all
  have str: "is_JStr v \<Longrightarrow> v \<noteq> JUndef \<and> json_clean v = v" for v by (cases v) simp_all
  have amount: "is_amount v \<Longrightarrow> v \<noteq> JUndef \<and> json_clean v = v" for v by (cases v) simp_all
  show ?thesis using assms bool str amount date by (simp add: form_fields_def form_ok_def)
qed

fun restored :: "date \<Rightarrow> date" where
  "restored (Date (Some t)) = Date (Some t)"
| "restored _ = Date (Some 0)"

lemma restored_date: "date_ok d \<Longrightarrow> new_Date (date_json d) = restored d"
  by (cases d rule: date_json.cases) (simp_all add: new_Date_def Date_round_trip)

lemma time_form_of_saved:
  assumes "form_ok f"
  shows "time_form_of (json_clean (form_value f)) =
    Inr (f\<lparr>tf_start := restored (tf_start f), tf_end := restored (tf_end f), tf_extra := []\<rparr>)"
proof -
  have clean: "json_clean (form_value f) = JObj (form_fields f @ map (\<lambda>kv. (fst kv, json_clean (snd kv)))
      (filter (\<lambda>kv. snd kv \<noteq> JUndef) (tf_extra f)))"
    using clean_fields [OF assms] by (simp add: form_value_def)
  have bool: "is_JBool v \<Longrightarrow> control_state v = v" for v by (cases v) (simp_all add: control_state_def)
  have str: "is_JStr v \<Longrightarrow> control_state v = v" for v by (cases v) (simp_all add: control_state_def)
  have amount: "is_amount v \<Longrightarrow> control_state v = v" for v by (cases v) (simp_all add: control_state_def)
  show ?thesis
    unfolding clean using assms bool str amount
    by (simp add: time_form_of_def form_fields_def form_ok_def restored_date notUndefNull_def)
qed

lemma settings_restored:
  assumes "sa_inv s" "savable s" "jar s0 = jar (sa_save_cookies s)"
  shows "sa_initialize_time_form_group s0 =
      Inr (s0\<lparr>time_form := (time_form s)\<lparr>tf_start := restored (tf_start (time_form s)), tf_end := restored (tf_end (time_form s)), tf_extra := []\<rparr>\<rparr>)"
    "sa_get_auto_refresh s0 = Inr (s0\<lparr>auto_refresh := auto_refresh s\<rparr>)"
    "sa_get_dynamic_columns s0 = Inr (sa_set_columns (dynamic_columns s) s0)"
proof -
  have ok: "form_ok (time_form s)" "list_all is_JStr (dynamic_columns s)" "js_wf (form_value (time_form s))"
    using assms(1,2) by (simp_all add: sa_inv_def columns_ok_def savable_def)
  have ne: "json_text (form_value (time_form s)) \<noteq> []" "json_text (JArr (dynamic_columns s)) \<noteq> []"
    by (simp_all add: form_value_def)
  note get = settings_read_back [OF assms(2), folded assms(3)]
  show "sa_initialize_time_form_group s0 =
      Inr (s0\<lparr>time_form := (time_form s)\<lparr>tf_start := restored (tf_start (time_form s)), tf_end := restored (tf_end (time_form s)), tf_extra := []\<rparr>\<rparr>)"
    using get(2) ne(1) json_round_trip [OF ok(3)] time_form_of_saved [OF ok(1)]
    by (simp add: sa_initialize_time_form_group_def sbind_def smap_def)
  show "sa_get_auto_refresh s0 = Inr (s0\<lparr>auto_refresh := auto_refresh s\<rparr>)"
    using get(3) by (simp add: sa_get_auto_refresh_def smap_def)
  show "sa_get_dynamic_columns s0 = Inr (sa_set_columns (dynamic_columns s) s0)"
    using get(1) ne(2) clean_columns [OF ok(2)] json_round_trip [of "JArr (dynamic_columns s)"]
    by (simp add: sa_get_dynamic_columns_def sbind_def smap_def del: json_text.simps)
qed

lemma same_page_fields:
  assumes "same_page s' s"
  shows "dynamic_columns s' = dynamic_columns s" "all_columns s' = all_columns s" "auto_refresh s' = auto_refresh s"
    "filter_fields (time_form s') = filter_fields (time_form s)"
    "truthy (tf_absolute (time_form s)) \<Longrightarrow> time_form s' = time_form s"
  using assms page_core_fields [of s' s] by (simp_all add: same_page_def)

text \<open>C13: the settings of the page survive leaving it, for a state whose settings a cookie can hold
  (\<open>savable\<close>: the texts of the columns and of the filter have no semicolon, percent sign or control character, do not
  begin or end with a space and fit in 4096 bytes, and the other cookies of the jar are well formed): when the page is
  opened again with the cookies that \<open>ngOnDestroy\<close> wrote, the columns, the refresh switch and the fields of the filter
  are those of the page that was left. In absolute time a date that was chosen comes back as it was, and one that was
  empty or invalid comes back as the first of January 1970 (\<open>restored\<close>).\<close>

theorem sa_settings_round_trip:
  assumes "sa_inv s" "savable s" "sa_open (jar (sa_ngOnDestroy s)) t z = (e, s')"
  shows "dynamic_columns s' = dynamic_columns s \<and> all_columns s' = ALL_COLUMNS_START_VALUES @ dynamic_columns s \<and>
    auto_refresh s' = auto_refresh s \<and> filter_fields (time_form s') = filter_fields (time_form s) \<and>
    (truthy (tf_absolute (time_form s)) \<longrightarrow>
       tf_start (time_form s') = restored (tf_start (time_form s)) \<and> tf_end (time_form s') = restored (tf_end (time_form s)))"
proof -
  let ?f = "(time_form s)\<lparr>tf_start := restored (tf_start (time_form s)), tf_end := restored (tf_end (time_form s)), tf_extra := []\<rparr>"
  let ?s0 = "emit (SetTitle ''Security Alerts'') (sa_constructor (jar (sa_save_cookies s)) t z)"
  let ?s3 = "sa_set_columns (dynamic_columns s) (?s0\<lparr>time_form := ?f, auto_refresh := auto_refresh s\<rparr>)"
  have "jar ?s0 = jar (sa_save_cookies s)"
    using sa_more [of ?s0 "sa_constructor (jar (sa_save_cookies s)) t z"] by (simp add: sa_constructor_def)
  then have "(e, s') = and_then (sa_update_alerts_table False ?s3) (\<lambda>s. done_with (sa_api_get_portal_links (sa_api_get_fields s)))"
    using assms(3) settings_restored [OF assms(1,2)]
    by (simp add: sa_open_def sa_ngOnInit_def sa_ngOnDestroy_def Let_def attempt_def)
  then obtain m where m: "m = snd (sa_update_alerts_table False ?s3)" "same_page s' m"
    using sa_more [of "sa_api_get_portal_links (sa_api_get_fields (snd (sa_update_alerts_table False ?s3)))" "snd (sa_update_alerts_table False ?s3)"]
    by (cases "sa_update_alerts_table False ?s3"; cases "fst (sa_update_alerts_table False ?s3)")
      (auto simp: done_with_def same_page_refl same_page_def page_core_def sa_api_get_portal_links_def sa_api_get_fields_def)
  have "same_page m ?s3" unfolding m(1) by (rule update_table_page)
  note eqs = same_page_fields [OF m(2)] same_page_fields [OF this]
  have "filter_fields ?f = filter_fields (time_form s)" by (simp add: filter_fields_def)
  moreover have "tf_absolute (time_form m) = tf_absolute (time_form s)"
    using absolute_cong [OF eqs(9)] by (simp add: sa_set_columns_def)
  ultimately show ?thesis
    using eqs by (simp add: sa_set_columns_def)
qed

theorem sa_settings_round_trip_witness:
  "\<forall>z. let s = sa_set_columns [JStr ''source.ip''] (sa_constructor [] 0 z)
      in dynamic_columns (snd (sa_open (jar (sa_ngOnDestroy s)) 5 z)) = [JStr ''source.ip''] \<and>
         \<not> auto_refresh (snd (sa_open (jar (sa_ngOnDestroy s)) 5 z))"
proof
  fix z
  let ?s = "sa_set_columns [JStr ''source.ip''] (sa_constructor [] 0 z)"
  have "sa_inv ?s"
    by (simp add: sa_set_columns_def sa_constructor_def sa_inv_def columns_ok_def rows_ok_def snack_ok_def form_ok_def
        default_time_form_def valid_time_def)
  moreover have "cookie_text ''dynamic_columns'' (json_text (JArr [JStr ''source.ip'']))"
    "cookie_text ''time_form_group'' (json_text (form_value default_time_form))"
    by code_simp+
  then have "savable ?s"
    by (simp add: savable_def sa_set_columns_def sa_constructor_def jar_ok_def del: json_text.simps)
      (simp add: form_value_def form_fields_def default_time_form_def)
  ultimately show "let s = ?s in dynamic_columns (snd (sa_open (jar (sa_ngOnDestroy s)) 5 z)) = [JStr ''source.ip''] \<and>
         \<not> auto_refresh (snd (sa_open (jar (sa_ngOnDestroy s)) 5 z))"
    using sa_settings_round_trip [of ?s 5 z] by (simp add: Let_def) (simp add: sa_set_columns_def sa_constructor_def prod_eq_iff)
qed

section \<open>The states of the page\<close>

text \<open>The states that the page can reach over any number of visits: the first visit finds no cookies, a later one the
  cookies that the page wrote when it was left, as long as their texts fit (\<open>savable\<close>).\<close>

inductive sa_visited :: "sa_state \<Rightarrow> bool" where
  first: "valid_time t \<Longrightarrow> sa_visited (sa_first t z)"
| event: "sa_visited s \<Longrightarrow> sa_visited (sa_step ev s)"
| again: "sa_visited s \<Longrightarrow> savable s \<Longrightarrow> valid_time t \<Longrightarrow> sa_visited (snd (sa_open (jar (sa_ngOnDestroy s)) t z))"

lemma sa_again_inv:
  assumes "sa_inv s" "savable s" "valid_time t"
  shows "sa_inv (snd (sa_open (jar (sa_ngOnDestroy s)) t z))"
proof -
  let ?f = "(time_form s)\<lparr>tf_start := restored (tf_start (time_form s)), tf_end := restored (tf_end (time_form s)), tf_extra := []\<rparr>"
  let ?s0 = "emit (SetTitle ''Security Alerts'') (sa_constructor (jar (sa_save_cookies s)) t z)"
  let ?s3 = "sa_set_columns (dynamic_columns s) (?s0\<lparr>time_form := ?f, auto_refresh := auto_refresh s\<rparr>)"
  have "jar ?s0 = jar (sa_save_cookies s)"
    using sa_more [of ?s0 "sa_constructor (jar (sa_save_cookies s)) t z"] by (simp add: sa_constructor_def)
  then have opened: "sa_open (jar (sa_ngOnDestroy s)) t z =
      and_then (sa_update_alerts_table False ?s3) (\<lambda>s. done_with (sa_api_get_portal_links (sa_api_get_fields s)))"
    using settings_restored [OF assms(1,2)]
    by (simp add: sa_open_def sa_ngOnInit_def sa_ngOnDestroy_def Let_def attempt_def)
  have "date_ok (restored d)" if "date_ok d" for d
    using that by (cases d rule: restored.cases) (simp_all add: valid_time_def)
  then have "form_ok ?f" using assms(1) by (simp add: sa_inv_def form_ok_def)
  then have "sa_inv ?s3"
    using assms by (simp add: sa_set_columns_def sa_constructor_def sa_inv_def columns_ok_def rows_ok_def snack_ok_def
        emit_def chip_columns_def)
  then show ?thesis
    unfolding opened by (intro snd_and_then [where P = sa_inv]) (simp_all add: sa_inv_init_calls)
qed

lemma sa_visited_inv: "sa_visited s \<Longrightarrow> sa_inv s"
  by (induction rule: sa_visited.induct) (simp_all add: sa_first_inv sa_again_inv sa.step_inv sa_step_def)

section \<open>What the page guarantees\<close>

text \<open>in every state that the page can reach over its visits, the filter has these types: the three switches and
  the kind of time are booleans, the unit is a text, each date is empty, invalid or a time that a date can hold, and the
  amount is the number 24 or, once the user has typed it, a text, although the interface of the form declares a number;
  the columns are texts.\<close>

theorem sa_filter_typed:
  assumes "sa_visited s"
  shows "form_ok (time_form s) \<and> list_all is_JStr (dynamic_columns s)"
  using sa_visited_inv [OF assms] by (simp add: sa_inv_def columns_ok_def)

theorem sa_filter_typed_witness:
  "\<forall>z. form_ok (time_form (sa_step (Act SA_Timer) (sa_step (Act (SA_TypeAmount ''x'')) (sa_first 0 z))))"
proof
  fix z
  have "sa_visited (sa_step (Act SA_Timer) (sa_step (Act (SA_TypeAmount ''x'')) (sa_first 0 z)))"
    by (intro sa_visited.intros) (simp add: valid_time_def)
  then show "form_ok (time_form (sa_step (Act SA_Timer) (sa_step (Act (SA_TypeAmount ''x'')) (sa_first 0 z))))"
    using sa_filter_typed by blast
qed

text \<open>C30: in every state that the page can reach over its visits, the table has exactly the two fixed columns and the
  columns of the chips, each chip once, and lists the columns of the chips in the order of the chips (a chip may be
  named like a fixed column); every row and every waiting dialog or escalation refers to an object that exists, no
  row is shown twice and no snack bar is dismissed twice.\<close>

theorem sa_always:
  assumes "sa_visited s"
  shows "mset (all_columns s) = {#JStr ''actions'', JStr ''count''#} + mset (dynamic_columns s) \<and> distinct (dynamic_columns s) \<and>
    filter (\<lambda>c. c \<notin> {JStr ''actions'', JStr ''count''}) (all_columns s) =
      filter (\<lambda>c. c \<notin> {JStr ''actions'', JStr ''count''}) (dynamic_columns s) \<and>
    rows_ok s \<and> snack_ok s"
  using sa_visited_inv [OF assms] by (simp add: sa_inv_def columns_ok_def chip_columns_def ALL_COLUMNS_START_VALUES_def)

theorem sa_always_witness:
  "\<forall>z. rows_ok (sa_step (Act (SA_Acknowledge 0)) (sa_step (Answer 0 (Reply (JArr [JObj []]))) (sa_first 0 z)))"
proof
  fix z
  have "sa_visited (sa_step (Act (SA_Acknowledge 0)) (sa_step (Answer 0 (Reply (JArr [JObj []]))) (sa_first 0 z)))"
    by (intro sa_visited.intros) (simp add: valid_time_def)
  then show "rows_ok (sa_step (Act (SA_Acknowledge 0)) (sa_step (Answer 0 (Reply (JArr [JObj []]))) (sa_first 0 z)))"
    using sa_always by blast
qed

section \<open>Requests that change alerts\<close>

fun changes_alerts :: "effect \<Rightarrow> bool" where
  "changes_alerts (Http POST url _) = (url = ''/api/alerts/modify'' \<or> url = ''/api/alerts/remove'')"
| "changes_alerts _ = False"

definition changed :: "sa_state \<Rightarrow> effect list" where
  "changed s = filter changes_alerts (sent s)"

lemma changed_trace: "trace s' = trace s \<Longrightarrow> changed s' = changed s"
  by (simp add: changed_def sent_def)

lemma changed_effects [simp]:
  "changed (displaySnackBar m c s) = changed s" "changed (report_error msg s) = changed s"
  "changed (report_error_or_message msg e s) = changed s" "changed (generate_return_success_snackbar_message msg c s) = changed s"
  "changed (open_in_new_tab msg s) = changed s" "changed (emit (DialogOpen msg v) s) = changed s" "changed (open_dialog n v d s) = changed s"
  "changed (call ep k s) = changed s @ (if changes_alerts (Http (ep_method ep) (ep_url ep) (ep_body ep)) then [Http (ep_method ep) (ep_url ep) (ep_body ep)] else [])"
  by (simp_all add: changed_def open_in_new_tab_def)

lemma changed_frames [simp]:
  "changed (set_alert r k v s) = changed s" "changed (sa_change f s) = changed s" "changed (sa_set_date_times s) = changed s"
  "changed (sa_save_cookies s) = changed s" "changed (new_alert_rows vs s) = changed s" "changed (join_update j g s) = changed s"
  "changed (sa_put_form r kvs s) = changed s" "changed (sa_mark_escalated r s) = changed s"
  "changed (s\<lparr>alert_rows := rs\<rparr>) = changed s" "changed (s\<lparr>requests := ks\<rparr>) = changed s" "changed (s\<lparr>dialogs := ds\<rparr>) = changed s"
  "changed (s\<lparr>now := t\<rparr>) = changed s" "changed (s\<lparr>auto_refresh := b\<rparr>) = changed s" "changed (s\<lparr>all_chip_options := v\<rparr>) = changed s"
  "changed (s\<lparr>sa_links := ls\<rparr>) = changed s" "changed (s\<lparr>joins := js\<rparr>) = changed s" "changed (s\<lparr>filtered_groups := ls\<rparr>) = changed s"
  "changed (s\<lparr>dynamic_columns := cs, all_columns := cs'\<rparr>) = changed s"
  by (rule changed_trace; simp add: sa_change_def new_alert_rows_def join_update_def sa_put_form_def sa_mark_escalated_def Let_def)+

lemma changed_update [simp]: "changed (snd (sa_update_alerts_table m s)) = changed s"
  by (rule update_table_cases [of s m]) (simp_all add: sa_endpoint_is_get)

lemma changed_reload [simp]: "changed (sa_reload s) = changed s" "changed (sa_refresh_alerts s) = changed s"
  by (simp_all add: sa_reload_def sa_refresh_alerts_def)

lemma changed_group_by [simp]: "changed (sa_group_by v s) = changed s"
  by (auto simp: sa_group_by_def settle_def smap_def split: js.splits sum.splits)

lemma changed_chips [simp]:
  "changed (sa_add_alert_chip v s) = changed s" "changed (sa_autocomplete_selection_chip v s) = changed s"
  "changed (sa_remove_alert_chip c s) = changed s"
proof -
  have add: "changed (snd (sa_add_column c s)) = changed s" for c by (simp add: sa_add_column_def)
  have step: "changed (snd m) = changed s \<Longrightarrow> changed (snd (and_then m (\<lambda>s. done_with (sa_group_by [] s)))) = changed s" for m
    by (rule snd_and_then [where P = "\<lambda>t. changed t = changed s"]) simp_all
  show "changed (sa_add_alert_chip v s) = changed s" "changed (sa_autocomplete_selection_chip v s) = changed s"
    unfolding sa_add_alert_chip_def sa_autocomplete_selection_chip_def Let_def by (intro step; simp add: add)+
  show "changed (sa_remove_alert_chip c s) = changed s"
    by (simp add: sa_remove_alert_chip_def split: option.splits)
qed

lemma changed_links [simp]:
  "changed (sa_open_alert_in_kibana_tab r s) = changed s" "changed (sa_open_alert_in_arkime_tab r s) = changed s"
  "changed (sa_open_alert_drilldown_dialog r s) = changed s" "changed (sa_open_alert_in_hive_tab r s) = changed s"
  "changed (sa_escalate_alert r s) = changed s"
  by (auto simp: sa_open_alert_in_kibana_tab_def sa_open_alert_in_arkime_tab_def sa_open_alert_drilldown_dialog_def
      sa_open_alert_in_hive_tab_def sa_api_get_alert_list_def sa_escalate_alert_def sa_api_fork_join_def get_alert_list_def
      get_hive_settings_def settle_def sbind_def smap_def Let_def split: sum.splits)

lemma changed_handle [simp]: "changed (sa_handle a s) = changed s"
  by (cases a) (simp_all add: sa_filter_defs sa_on_row_def sa_dialog_defs sa_date_time_change_def sa_validate_date_times_def)

lemma changed_answered:
  assumes "\<And>x. changed (next_cb x s) = changed s" "\<And>e s. changed (error_cb e s) = changed s"
  shows "changed (answered ep next_cb error_cb r s) = changed s"
  by (rule answered_cases [of r ep next_cb error_cb s]) (use assms in \<open>simp_all add: changed_def\<close>)

lemma changed_join_next [simp]: "changed (sa_join_next r k a h l s) = changed s"
  by (auto simp: sa_join_next_def settle_def sbind_def smap_def sa_open_escalate_alert_def split: sum.splits)

lemma changed_answer [simp]: "changed (sa_answer k r s) = changed s"
proof -
  have join: "changed (join_try j s) = changed s" for j s
    by (simp add: join_try_def Let_def split: option.splits)
  show ?thesis
    by (cases k)
      (auto simp: sa_answer_defs sa_join_hive_answer_def sa_join_list_answer_def join_failed_def Let_def join
        sa_success_modify_remove_alerts_def settle_def smap_def intro!: changed_answered split: sum.splits)
qed

text \<open>The row with the value of the form and the properties that a dialog adds to it.\<close>

definition row_with_form :: "nat \<Rightarrow> (string \<times> js) list \<Rightarrow> sa_state \<Rightarrow> js" where
  "row_with_form r kvs s =
     js_set (alert_at r s) ''form'' (form_value (fold (\<lambda>kv. put_extra (fst kv) (snd kv)) kvs (time_form s)))"

definition sa_confirmed :: "sa_action event \<Rightarrow> sa_state \<Rightarrow> effect list" where
  "sa_confirmed ev s =
     (case ev of
        Closed i v \<Rightarrow>
          if i < length (dialogs s) then
            (case dialogs s ! i of
               SA_Confirm r api_switch \<Rightarrow>
                 if v \<noteq> JStr ''Confirm'' then []
                 else if api_switch = ''modify''
                 then [Http POST ''/api/alerts/modify'' (row_with_form r [(''performEscalation'', JBool False)] s)]
                 else if api_switch = ''remove'' then [Http POST ''/api/alerts/remove'' (row_with_form r [] s)] else []
             | SA_Escalate r \<Rightarrow>
                 if notUndefNull v \<and> truthy (js_get v ''valid'')
                 then [Http POST ''/api/alerts/modify''
                   (row_with_form r [(''performEscalation'', JBool True), (''hiveForm'', js_get v ''value'')] s)]
                 else [])
          else []
      | _ \<Rightarrow> [])"

lemma put_form_row: "r < length (alert_heap s) \<Longrightarrow> alert_at r (sa_put_form r kvs s) = row_with_form r kvs s"
  by (simp add: sa_put_form_def Let_def set_alert_def alert_at_def row_with_form_def)

lemma row_with_form_dialogs: "row_with_form r kvs (s\<lparr>dialogs := ds\<rparr>) = row_with_form r kvs s"
  by (simp add: row_with_form_def alert_at_def)

lemma sa_closed_changes:
  assumes "sa_inv s"
  shows "filter changes_alerts (sent (sa_step ev s)) = filter changes_alerts (sent s) @ sa_confirmed ev s"
proof (cases ev)
  case (Closed i v)
  show ?thesis
  proof (cases "i < length (dialogs s)")
    case True
    then have "dialog_row (dialogs s ! i) < length (alert_heap s)"
      using assms by (simp add: sa_inv_def rows_ok_def)
    then show ?thesis
      using True Closed unfolding changed_def [symmetric]
      by (cases "dialogs s ! i")
        (simp_all add: sa_step_def async_step_def sa_confirmed_def sa_open_confirm_dialog_closed_def sa_api_modify_alert_def
          sa_api_remove_alerts_def sa_open_escalate_alert_closed_def modify_alert_def remove_alerts_def put_form_row
          row_with_form_dialogs)
  qed (simp add: Closed sa_step_def async_step_def sa_confirmed_def)
qed (simp_all add: sa_step_def async_step_def sa_confirmed_def changed_def [symmetric])

text \<open>C7: alerts are changed or removed in the backend exactly when the dialog opened for their row is
  closed with its confirming answer; the request is the one of that dialog, and its body is the row with
  the filter in force, which says whether a case is opened.\<close>

theorem sa_changes_confirmed:
  assumes "sa_inv s"
  shows "filter changes_alerts (sent (sa_step ev s)) = filter changes_alerts (sent s) @ sa_confirmed ev s"
  using assms by (rule sa_closed_changes)

theorem sa_changes_confirmed_witness:
  "\<forall>z. let s = (sa_constructor [] 0 z)\<lparr>alert_heap := [JObj []], all_columns := ALL_COLUMNS_START_VALUES, dialogs := [SA_Confirm 0 ''remove'']\<rparr>
      in filter changes_alerts (sent (sa_step (Closed 0 (JStr ''Confirm'')) s)) =
         [Http POST ''/api/alerts/remove'' (JObj [(''form'', form_value default_time_form)])]"
proof
  fix z
  let ?s = "(sa_constructor [] 0 z)\<lparr>alert_heap := [JObj []], all_columns := ALL_COLUMNS_START_VALUES, dialogs := [SA_Confirm 0 ''remove'']\<rparr>"
  have "sa_inv ?s"
    by (simp add: sa_constructor_def sa_inv_def columns_ok_def rows_ok_def snack_ok_def form_ok_def default_time_form_def valid_time_def)
  from sa_changes_confirmed [OF this, of "Closed 0 (JStr ''Confirm'')"]
  show "let s = ?s in filter changes_alerts (sent (sa_step (Closed 0 (JStr ''Confirm'')) s)) =
         [Http POST ''/api/alerts/remove'' (JObj [(''form'', form_value default_time_form)])]"
    by (simp add: Let_def sa_confirmed_def row_with_form_def alert_at_def) (simp add: sa_constructor_def sent_def)
qed

section \<open>What goes wrong\<close>

lemma escalate_frame:
  "alert_heap (sa_escalate_alert r s) = alert_heap (sa_mark_escalated r s)" "alert_rows (sa_escalate_alert r s) = alert_rows s"
  "time_form (sa_escalate_alert r s) = time_form s" "dialogs (sa_escalate_alert r s) = dialogs s"
proof -
  have fork: "alert_heap (sa_api_fork_join r a b t) = alert_heap t \<and> alert_rows (sa_api_fork_join r a b t) = alert_rows t \<and>
      time_form (sa_api_fork_join r a b t) = time_form t \<and> dialogs (sa_api_fork_join r a b t) = dialogs t" for a b t
    by (simp add: sa_api_fork_join_def Let_def call_fields)
  show "alert_heap (sa_escalate_alert r s) = alert_heap (sa_mark_escalated r s)" "alert_rows (sa_escalate_alert r s) = alert_rows s"
    "time_form (sa_escalate_alert r s) = time_form s" "dialogs (sa_escalate_alert r s) = dialogs s"
    by (simp_all add: sa_escalate_alert_def Let_def settle_def sbind_def smap_def fork split: sum.splits)
      (simp_all add: sa_mark_escalated_def)
qed

lemma open_dialog_fields [simp]:
  "alert_heap (open_dialog n v d s) = alert_heap s" "alert_rows (open_dialog n v d s) = alert_rows s"
  "time_form (open_dialog n v d s) = time_form s" for s :: sa_state
  using sa_more [of "open_dialog n v d s" s] by simp_all

text \<open>opening the escalation of a row marks the row as escalated before anything is confirmed; when the
  user acknowledges the row instead, the request carries \<open>event.escalated\<close> although no case is opened.\<close>

theorem sa_unconfirmed_escalation_is_sent:
  assumes "sa_inv s" "dialogs s = []" "i < length (alert_rows s)" "\<not> shows_acknowledged s" "\<not> shows_escalated s"
    "alert_at (alert_rows s ! i) s = JObj kvs"
    "s' = fold sa_step [Act (SA_EscalateClick i), Act (SA_Acknowledge i), Closed 0 (JStr ''Confirm'')] s"
  shows "\<exists>body. filter changes_alerts (sent s') = filter changes_alerts (sent s) @ [Http POST ''/api/alerts/modify'' body] \<and>
    js_get body ''event.escalated'' = JBool True \<and> js_get (js_get body ''form'') ''performEscalation'' = JBool False"
proof -
  let ?r = "alert_rows s ! i"
  obtain s1 where s1: "sa_escalate_alert ?r s = s1" by simp
  have r: "?r < length (alert_heap s)" using assms(1,3) by (rule sa_inv_row)
  note f1 = escalate_frame [of ?r s, unfolded s1]
  have inv1: "sa_inv s1" using sa_inv_escalate [OF assms(1) r] s1 by simp
  have step1: "sa_step (Act (SA_EscalateClick i)) s = s1"
    using assms(3-5) s1 by (simp add: sa_step_def async_step_def sa_on_row_def)
  let ?s2 = "sa_acknowledge_event ?r s1"
  have step2: "sa_step (Act (SA_Acknowledge i)) s1 = ?s2"
    using assms(3-5) f1 by (simp add: sa_step_def async_step_def sa_on_row_def shows_acknowledged_def shows_escalated_def)
  have dlg: "dialogs ?s2 = [SA_Confirm ?r ''modify'']"
    using assms(2) f1 by (simp add: sa_acknowledge_event_def sa_open_confirm_dialog_def)
  have "sa_inv ?s2"
    using sa_handle_inv [OF inv1, of "SA_Acknowledge i"] step2 by (simp add: sa_step_def async_step_def)
  from sa_closed_changes [OF this, of "Closed 0 (JStr ''Confirm'')"]
  have "filter changes_alerts (sent s') = filter changes_alerts (sent s) @
      [Http POST ''/api/alerts/modify'' (row_with_form ?r [(''performEscalation'', JBool False)] ?s2)]"
    unfolding assms(7) using step1 step2 dlg s1 changed_links(5) [of ?r s]
    by (simp add: sa_confirmed_def changed_def [symmetric] sa_acknowledge_event_def sa_open_confirm_dialog_def)
  moreover have "alert_at ?r ?s2 = js_set (js_set (js_set (JObj kvs) ''event.escalated'' (JBool True)) ''form'' (form_raw (time_form s)))
      ''links'' (JArr (sa_links s))"
    using assms(6) r f1(1) by (simp add: sa_acknowledge_event_def sa_open_confirm_dialog_def alert_at_def sa_mark_escalated_def set_alert_def)
  then have "js_get (row_with_form ?r [(''performEscalation'', JBool False)] ?s2) ''event.escalated'' = JBool True"
    "js_get (js_get (row_with_form ?r [(''performEscalation'', JBool False)] ?s2) ''form'') ''performEscalation'' = JBool False"
    by (simp_all add: row_with_form_def put_extra_def form_value_def form_fields_def js_get_set_other del: js_set.simps)
      (simp_all add: update_conv')
  ultimately show ?thesis by blast
qed

text \<open>A page with one row in absolute time.\<close>

definition sa_example :: "(string \<Rightarrow> int \<Rightarrow> int \<Rightarrow> int) \<Rightarrow> sa_state" where
  "sa_example z = (sa_constructor [] 0 z)\<lparr>alert_heap := [JObj [(''count'', JNum 2)]], alert_rows := [0],
     dynamic_columns := [JStr ''source.ip''], all_columns := ALL_COLUMNS_START_VALUES @ [JStr ''source.ip''],
     time_form := default_time_form\<lparr>tf_absolute := JBool True, tf_start := Date (Some 0), tf_end := Date (Some 1000)\<rparr>\<rparr>"

lemma sa_example_inv: "sa_inv (sa_example z)"
  by (simp add: sa_example_def sa_constructor_def sa_inv_def columns_ok_def rows_ok_def snack_ok_def form_ok_def
      default_time_form_def valid_time_def)

theorem sa_unconfirmed_escalation_is_sent_witness:
  "\<forall>z. \<exists>body. filter changes_alerts (sent (fold sa_step
      [Act (SA_EscalateClick 0), Act (SA_Acknowledge 0), Closed 0 (JStr ''Confirm'')] (sa_example z))) =
      [Http POST ''/api/alerts/modify'' body] \<and> js_get body ''event.escalated'' = JBool True"
proof
  fix z
  have "dialogs (sa_example z) = []" "0 < length (alert_rows (sa_example z))" "\<not> shows_acknowledged (sa_example z)"
    "\<not> shows_escalated (sa_example z)" "alert_at (alert_rows (sa_example z) ! 0) (sa_example z) = JObj [(''count'', JNum 2)]"
    "sent (sa_example z) = []"
    by (simp_all add: sa_example_def sa_constructor_def shows_acknowledged_def shows_escalated_def alert_at_def
        default_time_form_def sent_def)
  then show "\<exists>body. filter changes_alerts (sent (fold sa_step
      [Act (SA_EscalateClick 0), Act (SA_Acknowledge 0), Closed 0 (JStr ''Confirm'')] (sa_example z))) =
      [Http POST ''/api/alerts/modify'' body] \<and> js_get body ''event.escalated'' = JBool True"
    using sa_unconfirmed_escalation_is_sent [OF sa_example_inv _ _ _ _ _ refl, of z 0] by fastforce
qed

lemma update_table_absolute:
  assumes "dynamic_columns s \<noteq> []" "truthy (tf_absolute (time_form s))" "tf_start (time_form s) = Date (Some a)" "tf_end (time_form s) = Date (Some b)"
  shows "requests (snd (sa_update_alerts_table m s)) = requests s @ [SA_Alerts m]"
    "time_form (snd (sa_update_alerts_table m s)) = time_form s"
  using assms by (auto simp: sa_update_alerts_table_def sa_api_get_alerts_def sa_alerts_endpoint_def attempt_def Let_def smap_def sbind_def)

lemma new_rows_values: "map (\<lambda>r. alert_at r (new_alert_rows vs s)) (alert_rows (new_alert_rows vs s)) = vs"
  by (rule nth_equalityI) (simp_all add: new_alert_rows_def alert_at_def nth_append)

lemma success_message_rows:
  "alert_rows (generate_return_success_snackbar_message m c s) = alert_rows s"
  "alert_heap (generate_return_success_snackbar_message m c s) = alert_heap s"
  "time_form (generate_return_success_snackbar_message m c s) = time_form s" for s :: sa_state
  using sa_more [of "generate_return_success_snackbar_message m c s" s] by simp_all

text \<open>The table shows what the last answer brought, whichever request it answers.\<close>

lemma alerts_answer_rows:
  assumes "s' = sa_api_get_alerts_answer m (Reply (JArr vs)) s"
  shows "map (\<lambda>r. alert_at r s') (alert_rows s') = vs \<and> time_form s' = time_form s"
proof -
  have rows: "map (\<lambda>r. alert_heap (new_alert_rows vs s) ! r) (alert_rows (new_alert_rows vs s)) = vs"
    using new_rows_values [of vs s] by (simp add: alert_at_def)
  show ?thesis
    unfolding assms
    by (simp add: sa_api_get_alerts_answer_def answered_def subscribe_def get_alerts_def as_is_def Let_def alert_at_def
        success_message_rows rows) (simp add: new_alert_rows_def)
qed

text \<open>requests for the table are not tied to the filter they were sent for: when the filter changes while
  a request waits and the answers arrive in the other order, the page shows the rows of the old filter under
  the new one.\<close>

theorem sa_late_answer_wins:
  assumes "requests s = []" "dynamic_columns s \<noteq> []" "tf_absolute (time_form s) = JBool True"
    "tf_start (time_form s) = Date (Some a)" "tf_end (time_form s) = Date (Some b)"
    "s' = fold sa_step [Act SA_Refresh, Act (SA_ToggleEscalated True), Answer 1 (Reply (JArr new)), Answer 0 (Reply (JArr old))] s"
  shows "map (\<lambda>r. alert_at r s') (alert_rows s') = old \<and> shows_escalated s'"
proof -
  obtain s1 where s1: "sa_refresh_alerts s = s1" by simp
  have "same_page s1 s" using s1 update_table_page [of True s] by (simp add: sa_refresh_alerts_def)
  then have f1: "dynamic_columns s1 = dynamic_columns s" "time_form s1 = time_form s" "requests s1 = [SA_Alerts True]"
    using same_page_fields update_table_absolute [of s a b True] assms s1 by (auto simp: sa_refresh_alerts_def)
  let ?t = "sa_change (\<lambda>f. f\<lparr>tf_show_closed := JBool False\<rparr>) (sa_change (\<lambda>f. f\<lparr>tf_acknowledged := JBool False\<rparr>)
    (sa_change (\<lambda>f. f\<lparr>tf_escalated := JBool True\<rparr>) s1))"
  obtain s2 where s2: "sa_reload ?t = s2" by simp
  have "dynamic_columns ?t \<noteq> []" "truthy (tf_absolute (time_form ?t))" "tf_start (time_form ?t) = Date (Some a)"
    "tf_end (time_form ?t) = Date (Some b)" "requests ?t = [SA_Alerts True]" "tf_escalated (time_form ?t) = JBool True"
    using assms f1 by (simp_all add: sa_change_def)
  then have f2: "requests s2 = [SA_Alerts True, SA_Alerts False]" "tf_escalated (time_form s2) = JBool True"
    using update_table_absolute [of ?t a b False] s2 by (simp_all add: sa_reload_def)
  let ?u = "sa_api_get_alerts_answer False (Reply (JArr new)) (s2\<lparr>requests := [SA_Alerts True]\<rparr>)"
  have u: "requests ?u = [SA_Alerts True]" "tf_escalated (time_form ?u) = JBool True"
    using f2 by (simp_all add: sa_api_get_alerts_answer_def answered_def subscribe_def get_alerts_def as_is_def new_alert_rows_def)
  have "s' = sa_api_get_alerts_answer True (Reply (JArr old)) (?u\<lparr>requests := []\<rparr>)"
    using s1 s2 f2(1) u(1) unfolding assms(6)
    by (simp add: sa_step_def async_step_def sa_filter_escalated_def remove_nth_def)
  from alerts_answer_rows [OF this] u(2) show ?thesis by (simp add: shows_escalated_def)
qed

theorem sa_late_answer_wins_witness:
  "\<forall>z. let s' = fold sa_step [Act SA_Refresh, Act (SA_ToggleEscalated True), Answer 1 (Reply (JArr [])),
        Answer 0 (Reply (JArr [JObj [(''count'', JNum 7)]]))] (sa_example z)
      in map (\<lambda>r. alert_at r s') (alert_rows s') = [JObj [(''count'', JNum 7)]]"
proof
  fix z
  have "requests (sa_example z) = []" "dynamic_columns (sa_example z) \<noteq> []" "tf_absolute (time_form (sa_example z)) = JBool True"
    "tf_start (time_form (sa_example z)) = Date (Some 0)" "tf_end (time_form (sa_example z)) = Date (Some 1000)"
    by (simp_all add: sa_example_def sa_constructor_def)
  from sa_late_answer_wins [OF this refl, of "[]" "[JObj [(''count'', JNum 7)]]"]
  show "let s' = fold sa_step [Act SA_Refresh, Act (SA_ToggleEscalated True), Answer 1 (Reply (JArr [])),
        Answer 0 (Reply (JArr [JObj [(''count'', JNum 7)]]))] (sa_example z)
      in map (\<lambda>r. alert_at r s') (alert_rows s') = [JObj [(''count'', JNum 7)]]" by (simp add: Let_def)
qed

text \<open>in absolute time the text of a case that was escalated stays in the value of the form and is saved
  with it; a semicolon in the text ends the cookie there, and the page cannot be opened any more, because
  \<open>ngOnInit\<close> throws while it parses the cookie.\<close>

theorem sa_case_text_breaks_the_page:
  "let form = JObj [(''valid'', JBool True), (''value'', JObj [(''event_title'', JStr ''a;b'')])];
       s = sa_step (Closed 0 form) ((sa_example z)\<lparr>dialogs := [SA_Escalate 0]\<rparr>)
   in fst (sa_open (jar (sa_ngOnDestroy s)) t z) = Some SyntaxError"
proof -
  let ?v = "JObj [(''event_title'', JStr ''a;b'')]"
  let ?form = "JObj [(''valid'', JBool True), (''value'', ?v)]"
  let ?f = "put_extra ''hiveForm'' ?v (put_extra ''performEscalation'' (JBool True)
    (default_time_form\<lparr>tf_absolute := JBool True, tf_start := Date (Some 0), tf_end := Date (Some 1000)\<rparr>))"
  let ?s = "sa_step (Closed 0 ?form) ((sa_example z)\<lparr>dialogs := [SA_Escalate 0]\<rparr>)"
  have call_auto: "auto_refresh (call ep k u) = auto_refresh u" for ep k and u :: sa_state
    using sa_more [of "call ep k u" u] by simp
  have s: "time_form ?s = ?f" "dynamic_columns ?s = [JStr ''source.ip'']" "auto_refresh ?s = False" "jar ?s = []"
    by (simp_all add: sa_step_def async_step_def sa_open_escalate_alert_closed_def sa_api_modify_alert_def notUndefNull_def
        sa_put_form_def Let_def call_fields call_auto) (simp_all add: sa_example_def sa_constructor_def)
  let ?j = "cookie_set ''auto_refresh'' ''false'' (cookie_set ''time_form_group'' (json_text (form_value ?f))
    (cookie_set ''dynamic_columns'' (json_text (JArr [JStr ''source.ip''])) []))"
  have "jar (sa_ngOnDestroy ?s) = ?j"
    using s by (simp add: sa_ngOnDestroy_def sa_save_cookies_def)
  moreover have "(case cookie_get ''time_form_group'' ?j of Inl e \<Rightarrow> False | Inr c \<Rightarrow> c \<noteq> [] \<and> JSON_parse c = Inl SyntaxError)"
    by code_simp
  moreover have "jar (emit (SetTitle ''Security Alerts'') (sa_constructor ?j t z)) = ?j"
    using sa_more [of "emit (SetTitle ''Security Alerts'') (sa_constructor ?j t z)" "sa_constructor ?j t z"]
    by (simp add: sa_constructor_def)
  ultimately show ?thesis
    by (auto simp: Let_def sa_open_def sa_ngOnInit_def sa_initialize_time_form_group_def sbind_def attempt_def smap_def
        split: sum.splits)
qed

text \<open>the amount of time is a free text; while it is no number, every load of the table throws before it
  sends a request, so neither the timer nor the refresh button loads anything, and the page says nothing.\<close>

theorem sa_bad_amount_loads_nothing:
  assumes "js_number (tf_time_amount (time_form s)) = None" "tf_time_interval (time_form s) = JStr ''hours''"
    "\<not> truthy (tf_absolute (time_form s))"
  shows "trace (fold sa_step (replicate n (Act SA_Timer)) s) = trace s \<and> trace (sa_step (Act SA_Refresh) s) = trace s"
proof -
  have upd: "trace (snd (sa_update_alerts_table m u)) = trace u \<and> same_page (snd (sa_update_alerts_table m u)) u"
    if "js_number (tf_time_amount (time_form u)) = None" "tf_time_interval (time_form u) = JStr ''hours''"
      "\<not> truthy (tf_absolute (time_form u))" for m u
  proof -
    have "sa_alerts_endpoint (sa_set_date_times u) = Inl RangeError"
      using that by (simp add: sa_alerts_endpoint_def sa_set_date_times_def sa_earlier_def Let_def sbind_def)
    then show ?thesis
      using that update_table_page [of m u] by (auto intro: update_table_cases [of u m])
  qed
  have "trace (fold sa_step (replicate n (Act SA_Timer)) u) = trace u"
    if "js_number (tf_time_amount (time_form u)) = None" "tf_time_interval (time_form u) = JStr ''hours''"
      "\<not> truthy (tf_absolute (time_form u))" for u
    using that
  proof (induction n arbitrary: u)
    case (Suc n)
    have step: "trace (sa_step (Act SA_Timer) u) = trace u" "filter_fields (time_form (sa_step (Act SA_Timer) u)) = filter_fields (time_form u)"
      using upd [OF Suc.prems] same_page_fields(4) by (simp_all add: sa_step_def async_step_def sa_interval_def sa_reload_def)
    then show ?case using Suc.prems Suc.IH [of "sa_step (Act SA_Timer) u"] by (simp add: filter_fields_def)
  qed simp
  then show ?thesis
    using assms upd [OF assms] by (simp add: sa_step_def async_step_def sa_refresh_alerts_def)
qed

theorem sa_bad_amount_loads_nothing_witness:
  "\<forall>z. trace (fold sa_step (replicate 5 (Act SA_Timer)) ((sa_constructor [] 0 z)\<lparr>auto_refresh := True,
      dynamic_columns := [JStr ''a''], time_form := default_time_form\<lparr>tf_time_amount := JStr ''x''\<rparr>\<rparr>)) = []"
proof
  fix z
  let ?s = "(sa_constructor [] 0 z)\<lparr>auto_refresh := True, dynamic_columns := [JStr ''a''], time_form := default_time_form\<lparr>tf_time_amount := JStr ''x''\<rparr>\<rparr>"
  have "js_number (JStr ''x'') = None" by code_simp
  then have "js_number (tf_time_amount (time_form ?s)) = None" "tf_time_interval (time_form ?s) = JStr ''hours''"
    "\<not> truthy (tf_absolute (time_form ?s))"
    by (simp_all add: default_time_form_def)
  from sa_bad_amount_loads_nothing [OF this, of 5] show "trace (fold sa_step (replicate 5 (Act SA_Timer)) ?s) = []"
    by (simp add: sa_constructor_def)
qed

end
