(* ===== verification/Agent_Builder.thy ===== *)
theory Agent_Builder
  imports Backend Validators
begin

text \<open>
  \<open>modules/agent-builder-chooser/\<close>: the page that deploys Windows agents, with \<open>AgentBuilderService\<close>,
  \<open>EndgameService\<close> and the classes of \<open>classes/\<close>; its three dialogs are in \<open>Agent_Dialogs\<close>.

  The code mutates target configurations and hosts that the table, the selection and the waiting
  callbacks share. The state therefore has two heaps that only grow: a cell of \<open>ab_lists\<close> is a target
  configuration together with its row of the table (both are made by one call and live together), a
  cell of \<open>ab_hosts\<close> is a host. Installer configurations are never changed and are values.
\<close>

section \<open>Data classes\<close>

definition new_NTLMClass :: "js \<Rightarrow> js_error + js" where
  "new_NTLMClass v =
     (if notUndefNull v then construct (map copy [''is_ssl'', ''port'', ''domain_name'']) v
      else Inr (JObj [(''is_ssl'', JBool False), (''port'', JStr []), (''domain_name'', JStr [])]))"

definition new_SMBClass :: "js \<Rightarrow> js_error + js" where
  "new_SMBClass v =
     (if notUndefNull v then construct (map copy [''port'', ''domain_name'']) v
      else Inr (JObj [(''port'', JStr []), (''domain_name'', JStr [])]))"

definition new_HostClass :: "js \<Rightarrow> js \<Rightarrow> js_error + js" where
  "new_HostClass config_id = construct
     (map copy [''hostname'', ''state'', ''last_state_change''] @ [\<lambda>_. Inr [(''target_config_id'', config_id)]])"

definition new_IPTargetListClass :: "js \<Rightarrow> js_error + js" where
  "new_IPTargetListClass v =
     (if notUndefNull v then
        construct
          (map copy [''_id'', ''name'', ''protocol''] @ [nested ''ntlm'' new_NTLMClass, nested ''smb'' new_SMBClass,
            \<lambda>w. if notUndefNull (js_get w ''targets'') then nested ''targets'' (js_map (new_HostClass (js_get w ''_id''))) w
                else Inr []]) v
      else
        sbind (new_NTLMClass JNull) (\<lambda>ntlm. smap (\<lambda>smb.
          JObj [(''_id'', JStr []), (''name'', JStr []), (''protocol'', JStr []), (''ntlm'', ntlm), (''smb'', smb),
                (''targets'', JArr [])]) (new_SMBClass JNull)))"

text \<open>\<open>CustomPackageClass\<close> and \<open>PackageClass\<close> copy every property.\<close>

definition new_CustomPackageClass :: "js \<Rightarrow> js_error + js" where
  "new_CustomPackageClass v =
     (if notUndefNull v then Inr (JObj (map (\<lambda>k. (k, js_get v k)) (js_keys v))) else Inl TypeError)"

definition new_AgentInstallerConfigurationClass :: "js \<Rightarrow> js_error + js" where
  "new_AgentInstallerConfigurationClass = construct
     (map copy [''_id'', ''config_name'', ''install_endgame'', ''endgame_sensor_id'', ''endgame_sensor_name'',
        ''endgame_server_ip'', ''endgame_port'', ''endgame_user_name'', ''endgame_password'']
      @ [\<lambda>v. if notUndefNull (js_get v ''customPackages'') then nested ''customPackages'' new_CustomPackageClass v else Inr []])"

definition new_ElementSpecClass :: "js \<Rightarrow> js_error + js" where
  "new_ElementSpecClass = construct (map copy
     [''name'', ''type'', ''description'', ''default_value'', ''required'', ''regexp'', ''error_message'', ''label'', ''placeholder''])"

definition new_AppConfigClass :: "js \<Rightarrow> js_error + js" where
  "new_AppConfigClass = construct
     [copy ''name'', copy_present ''hasEditableConfig'', copy_present ''configLocation'',
      map_or ''form'' new_ElementSpecClass (Some (JArr []))]"

definition new_AppConfigContentClass :: "js \<Rightarrow> js_error + js" where
  "new_AppConfigContentClass = construct (map copy [''filename'', ''content''])"

definition new_WindowsCredentialsClass :: "js \<Rightarrow> js_error + js" where
  "new_WindowsCredentialsClass = construct (map copy [''user_name'', ''password''])"

definition new_EndgameSensorProfileClass :: "js \<Rightarrow> js_error + js" where
  "new_EndgameSensorProfileClass = construct (map copy [''id'', ''name''])"

section \<open>Services\<close>

abbreviation "configurations_of \<equiv> js_map_list new_AgentInstallerConfigurationClass"
abbreviation "target_lists_of \<equiv> js_map_list new_IPTargetListClass"

definition agent_generate :: "js \<Rightarrow> js endpoint" where
  "agent_generate agent = endpoint POST ''/api/agent/generate'' agent ''post/get agent generate'' as_is"

definition agent_save_config :: "js \<Rightarrow> js list endpoint" where
  "agent_save_config agent_installer_configuration =
     endpoint POST ''/api/agent/config'' agent_installer_configuration ''agent save config'' configurations_of"

definition agent_delete_config :: "js \<Rightarrow> js list endpoint" where
  "agent_delete_config agent_configuration_id =
     endpoint DELETE (''/api/agent/config/'' @ str agent_configuration_id) JUndef ''agent delete config'' configurations_of"

definition agent_get_configs :: "js list endpoint" where
  "agent_get_configs = endpoint GET ''/api/agent/config'' JUndef ''agent get configs'' configurations_of"

definition agent_get_ip_target_list :: "js list endpoint" where
  "agent_get_ip_target_list = endpoint GET ''/api/agent/targets'' JUndef ''agent get ip target list'' target_lists_of"

definition agent_save_ip_target_list :: "js \<Rightarrow> js list endpoint" where
  "agent_save_ip_target_list ip_target_list =
     endpoint POST ''/api/agent/targets'' ip_target_list ''agent save ip taget list'' target_lists_of"

definition agent_add_host_to_ip_target_list :: "js \<Rightarrow> js \<Rightarrow> js endpoint" where
  "agent_add_host_to_ip_target_list target_config_id host =
     endpoint POST (''/api/agent/host/'' @ str target_config_id) host ''agent add host to ip target list'' new_IPTargetListClass"

definition agent_remove_host_from_ip_target_list :: "js \<Rightarrow> js \<Rightarrow> js endpoint" where
  "agent_remove_host_from_ip_target_list target_config_id host =
     endpoint DELETE (''/api/agent/host/'' @ str (js_get host ''hostname'') @ ''/'' @ str target_config_id) JUndef
       ''agent remove host from ip target list'' new_SuccessMessageClass"

definition agent_delete_ip_target_list :: "js \<Rightarrow> js list endpoint" where
  "agent_delete_ip_target_list ip_target_list_name =
     endpoint DELETE (''/api/agent/targets/'' @ str ip_target_list_name) JUndef ''agent delete ip target list'' target_lists_of"

definition agents_install :: "js \<Rightarrow> js endpoint" where
  "agents_install agent = endpoint POST ''/api/agent/install'' agent ''agents install'' new_SuccessMessageClass"

definition agents_uninstall :: "js \<Rightarrow> js endpoint" where
  "agents_uninstall agent = endpoint POST ''/api/agent/uninstall'' agent ''agents uninstall'' new_SuccessMessageClass"

definition agent_uninstall :: "js \<Rightarrow> js endpoint" where
  "agent_uninstall agent_target = endpoint POST ''/api/agent/uninstall'' agent_target ''agent uninstall'' new_SuccessMessageClass"

definition agent_reinstall :: "js \<Rightarrow> js endpoint" where
  "agent_reinstall agent_target = endpoint POST ''/api/agent/reinstall'' agent_target ''agent reinstall'' new_SuccessMessageClass"

definition get_app_configs :: "js list endpoint" where
  "get_app_configs = endpoint GET ''/api/agent/configs'' JUndef ''get app configs'' (js_map_list new_AppConfigClass)"

definition get_config_content :: "js \<Rightarrow> string \<Rightarrow> js endpoint" where
  "get_config_content config_name config_type =
     endpoint GET (''/api/agent/config_content/'' @ str config_name @ ''/'' @ config_type) JUndef ''get app configs''
       new_AppConfigContentClass"

definition post_config_content :: "js \<Rightarrow> string \<Rightarrow> js \<Rightarrow> js endpoint" where
  "post_config_content config_name config_type config_content =
     endpoint POST (''/api/agent/config_content/'' @ str config_name @ ''/'' @ config_type) config_content ''get app configs''
       new_SuccessMessageClass"

definition endgame_sensor_profiles :: "js \<Rightarrow> js list endpoint" where
  "endgame_sensor_profiles endgame_login =
     endpoint POST ''/api/agent/endgame/profiles'' endgame_login ''post endgame sensor profile''
       (js_map_list new_EndgameSensorProfileClass)"

section \<open>State\<close>

datatype ab_request =
    AB_ChartStatus | AB_Generate | AB_SaveConfig | AB_DeleteConfig | AB_GetConfigs | AB_GetTargets bool | AB_SaveTarget
  | AB_AddHost nat | AB_RemoveHost nat nat | AB_DeleteTarget | AB_Install | AB_Uninstalls | AB_Uninstall | AB_Reinstall
  | AB_AppConfigs | AB_Content js string bool | AB_PostContent

text \<open>The values a dialog's callback has captured: references of target configurations and hosts, and the
  index of the host.\<close>

datatype ab_dialog =
    AB_Credentials string js nat "nat option" | AB_ConfirmDeleteConfig js | AB_Editor js string
  | AB_ConfirmDeleteTarget nat | AB_NewConfig | AB_NewTarget | AB_AddHosts nat | AB_ConfirmRemoveHost nat nat nat

record target_list =
  tl_config :: js
  tl_targets :: "nat list option"
  tl_hosts :: "nat list"
  tl_expanded :: bool

record ab_state = "(ab_request, ab_dialog) async" +
  ab_configs :: "js list"
  ab_config_selection :: "js option"
  ab_rows :: "nat list option"
  ab_target_selection :: "nat option"
  ab_app_configs :: "js list option"
  is_downloading :: bool
  ab_lists :: "target_list list"
  ab_hosts :: "js list"

definition ab_constructor :: ab_state where
  "ab_constructor =
     \<lparr>trace = [], matSnackBarRef = None, requests = [], dialogs = [],
      ab_configs = [], ab_config_selection = None, ab_rows = None, ab_target_selection = None,
      ab_app_configs = None, is_downloading = False, ab_lists = [], ab_hosts = []\<rparr>"

definition ab_host :: "ab_state \<Rightarrow> nat \<Rightarrow> js" where
  "ab_host s h = (if h < length (ab_hosts s) then ab_hosts s ! h else JUndef)"

definition ab_hostname :: "ab_state \<Rightarrow> nat \<Rightarrow> js" where
  "ab_hostname s h = js_get (ab_host s h) ''hostname''"

definition ab_update_list :: "nat \<Rightarrow> (target_list \<Rightarrow> target_list) \<Rightarrow> ab_state \<Rightarrow> ab_state" where
  "ab_update_list r f s = s\<lparr>ab_lists := (ab_lists s)[r := f (ab_lists s ! r)]\<rparr>"

text \<open>The target configuration as an object, with the values its hosts have now.\<close>

definition ab_list_js :: "ab_state \<Rightarrow> nat \<Rightarrow> js" where
  "ab_list_js s r =
     (let c = ab_lists s ! r in
      case tl_targets c of None \<Rightarrow> tl_config c
      | Some hs \<Rightarrow> js_set (tl_config c) ''targets'' (JArr (map (ab_host s) hs)))"

definition ab_field :: "ab_state \<Rightarrow> nat \<Rightarrow> string \<Rightarrow> js" where
  "ab_field s r k = js_get (tl_config (ab_lists s ! r)) k"

section \<open>Tables\<close>

definition ab_set_configs :: "js list \<Rightarrow> ab_state \<Rightarrow> ab_state" where
  "ab_set_configs cs s = s\<lparr>ab_configs := cs, ab_config_selection := None\<rparr>"

definition ab_new_row :: "js \<Rightarrow> ab_state \<Rightarrow> ab_state" where
  "ab_new_row v s =
     (let hs = arr_elems (js_get v ''targets'');
          refs = [length (ab_hosts s) ..< length (ab_hosts s) + length hs]
      in s\<lparr>ab_hosts := ab_hosts s @ hs,
           ab_lists := ab_lists s @
             [\<lparr>tl_config = delete_key ''targets'' v,
               tl_targets = (case js_get v ''targets'' of JArr _ \<Rightarrow> Some refs | _ \<Rightarrow> None),
               tl_hosts = refs, tl_expanded = False\<rparr>]\<rparr>)"

definition ab_set_target_lists :: "js list \<Rightarrow> ab_state \<Rightarrow> ab_state" where
  "ab_set_target_lists vs s =
     (fold ab_new_row vs s)\<lparr>ab_rows := Some [length (ab_lists s) ..< length (ab_lists s) + length vs],
        ab_target_selection := None\<rparr>"

definition ab_update_selected_config :: "js \<Rightarrow> ab_state \<Rightarrow> ab_state" where
  "ab_update_selected_config agent_installer_configuration s = s\<lparr>ab_config_selection := Some agent_installer_configuration\<rparr>"

definition ab_update_selected_ip_target :: "nat \<Rightarrow> ab_state \<Rightarrow> ab_state" where
  "ab_update_selected_ip_target r s = s\<lparr>ab_target_selection := Some r\<rparr>"

definition ab_toggle_host_list_expansion :: "nat \<Rightarrow> ab_state \<Rightarrow> ab_state" where
  "ab_toggle_host_list_expansion r = ab_update_list r (\<lambda>c. c\<lparr>tl_expanded := \<not> tl_expanded c\<rparr>)"

definition ab_is_host_list_expanded :: "nat \<Rightarrow> ab_state \<Rightarrow> bool" where
  "ab_is_host_list_expanded r s = tl_expanded (ab_lists s ! r)"

definition ab_get_port :: "nat \<Rightarrow> ab_state \<Rightarrow> js_error + js" where
  "ab_get_port r s =
     js_index (if ab_field s r ''protocol'' = JStr ''smb'' then ab_field s r ''smb'' else ab_field s r ''ntlm'') ''port''"

definition ab_get_domain_name :: "nat \<Rightarrow> ab_state \<Rightarrow> js_error + js" where
  "ab_get_domain_name r s =
     js_index (if ab_field s r ''protocol'' = JStr ''smb'' then ab_field s r ''smb'' else ab_field s r ''ntlm'') ''domain_name''"

section \<open>Installer configurations\<close>

definition ab_custom_app_configs :: "js \<Rightarrow> ab_state \<Rightarrow> js_error + js list" where
  "ab_custom_app_configs agent_installer_configuration s =
     (let packages = js_get agent_installer_configuration ''customPackages'';
          package_names = js_keys (if notUndefNull packages then packages else JObj [])
      in case ab_app_configs s of
           None \<Rightarrow> Inl TypeError
         | Some cs \<Rightarrow> Inr (filter (\<lambda>ac. js_get ac ''name'' \<in> set (map JStr package_names)) cs))"

definition ab_check_custom_packages :: "js \<Rightarrow> ab_state \<Rightarrow> js_error + bool" where
  "ab_check_custom_packages agent_installer_configuration s =
     smap (\<lambda>cs. cs \<noteq> []) (ab_custom_app_configs agent_installer_configuration s)"

definition ab_show_configuration :: "js \<Rightarrow> ab_state \<Rightarrow> ab_state" where
  "ab_show_configuration agent_installer_configuration s =
     settle s (smap (\<lambda>cs. emit (DialogOpen ''AgentDetailsDialogComponent''
         (JObj [(''app_configs'', JArr cs), (''agent_installer_configuration'', agent_installer_configuration)])) s)
       (ab_custom_app_configs agent_installer_configuration s))"

definition agent_interface :: "js \<Rightarrow> js \<Rightarrow> js \<Rightarrow> js" where
  "agent_interface installer_config target_config windows_domain_creds =
     JObj [(''installer_config'', installer_config), (''target_config'', target_config),
           (''windows_domain_creds'', windows_domain_creds)]"

definition ab_download_agent_installer :: "js \<Rightarrow> ab_state \<Rightarrow> ab_state" where
  "ab_download_agent_installer agent_installer_configuration s =
     call (agent_generate (agent_interface agent_installer_configuration JNull JNull)) AB_Generate
       (displaySnackBar
          (JStr (''Initiated executable download for '' @ str (js_get agent_installer_configuration ''config_name'') @
                 ''. Please wait until it is completed.'')) None
          (s\<lparr>is_downloading := True\<rparr>))"

definition ab_confirm_dialog :: "string \<Rightarrow> string \<Rightarrow> ab_dialog \<Rightarrow> ab_state \<Rightarrow> ab_state" where
  "ab_confirm_dialog dialog_title message d =
     open_dialog ''ConfirmDialogComponent''
       (JObj [(''title'', JStr dialog_title), (''message'', JStr message),
              (''option1'', JStr CANCEL_DIALOG_OPTION), (''option2'', JStr CONFIRM_DIALOG_OPTION)]) d"

definition ab_delete_config_dialog :: "js \<Rightarrow> ab_state \<Rightarrow> ab_state" where
  "ab_delete_config_dialog agent_installer_configuration =
     (let config_name = str (js_get agent_installer_configuration ''config_name'')
      in ab_confirm_dialog (''Remove configuration '' @ config_name @ ''?'')
           (''Are you sure you want to delete '' @ config_name @ ''?'') (AB_ConfirmDeleteConfig agent_installer_configuration))"

definition ab_api_delete_config :: "js \<Rightarrow> ab_state \<Rightarrow> ab_state" where
  "ab_api_delete_config agent_installer_configuration =
     call (agent_delete_config (js_get agent_installer_configuration ''_id'')) AB_DeleteConfig"

definition ab_delete_config_dialog_closed :: "js \<Rightarrow> js \<Rightarrow> ab_state \<Rightarrow> ab_state" where
  "ab_delete_config_dialog_closed agent_installer_configuration response s =
     (if response = JStr CONFIRM_DIALOG_OPTION then ab_api_delete_config agent_installer_configuration s else s)"

definition ab_new_configuration :: "ab_state \<Rightarrow> ab_state" where
  "ab_new_configuration s =
     (case ab_app_configs s of
        None \<Rightarrow> s
      | Some cs \<Rightarrow>
          open_dialog ''AgentInstallerDialogComponent''
            (JObj [(''app_configs'', JArr cs), (''app_names'', JArr (map (\<lambda>ac. js_get ac ''name'') cs)),
                   (''app_name_app_config_pair'',
                    fold (\<lambda>ac pairs. js_set pairs (str (js_get ac ''name'')) ac) cs (JObj []))]) AB_NewConfig s)"

text \<open>The dialogs for a new configuration close with nothing or with an instance of the class, which is
  the only object they hand back.\<close>

fun is_instance :: "js \<Rightarrow> bool" where
  "is_instance (JObj _) = True"
| "is_instance _ = False"

definition ab_api_save_config :: "js \<Rightarrow> ab_state \<Rightarrow> ab_state" where
  "ab_api_save_config agent_installer_configuration = call (agent_save_config agent_installer_configuration) AB_SaveConfig"

definition ab_new_configuration_closed :: "js \<Rightarrow> ab_state \<Rightarrow> ab_state" where
  "ab_new_configuration_closed response s =
     (if notUndefNull response \<and> is_instance response then ab_api_save_config response s else s)"

section \<open>The editor of a configuration file\<close>

text \<open>The two requests of the editor are subscribed without an error callback.\<close>

definition AB_SAVE_CONFIRM :: js where
  "AB_SAVE_CONFIRM =
     JObj [(''title'', JStr ''Close and save''), (''message'', JStr ''Are you sure you want to save this configuration?''),
           (''confirmButtonText'', JStr ''Save''), (''successText'', JStr ''Successfully saved the config.''),
           (''failText'', JStr ''Could not save''), (''useGeneralActionFunc'', JBool True)]"

definition AB_CLOSE_CONFIRM :: js where
  "AB_CLOSE_CONFIRM =
     JObj [(''title'', JStr ''Close without updating''),
           (''message'', JStr ''Are you sure you want to close this editor? All changes will be discarded.''),
           (''confirmButtonText'', JStr ''Close''), (''successText'', JStr ''Closed without updating''),
           (''failText'', JStr []), (''useGeneralActionFunc'', JBool True)]"

definition ab_open_config_text_editor :: "js \<Rightarrow> string \<Rightarrow> js \<Rightarrow> ab_state \<Rightarrow> ab_state" where
  "ab_open_config_text_editor agent_installer_configuration config_type sub_config s =
     (case js_index sub_config ''hasEditableConfig'' of
        Inl _ \<Rightarrow> s
      | Inr is_editable \<Rightarrow>
          call (get_config_content (js_get agent_installer_configuration ''config_name'') config_type)
            (AB_Content agent_installer_configuration config_type (truthy is_editable)) s)"

definition ab_content_answer :: "js \<Rightarrow> string \<Rightarrow> bool \<Rightarrow> reply \<Rightarrow> ab_state \<Rightarrow> ab_state" where
  "ab_content_answer agent_installer_configuration config_type is_editable =
     answered (get_config_content JUndef [])
       (\<lambda>data. open_dialog ''NGXMonacoTextEditorComponent''
          (JObj [(''show_options'', JBool True), (''is_read_only'', JBool (\<not> is_editable)),
                 (''title'', JStr (''Editing '' @ config_type @ ''.yml'')), (''text'', js_get data ''content''),
                 (''use_language'', JStr ''yaml''), (''display_save'', JBool is_editable), (''disable_save'', JBool (\<not> is_editable)),
                 (''confirm_save'', AB_SAVE_CONFIRM), (''confirm_close'', AB_CLOSE_CONFIRM)])
          (AB_Editor agent_installer_configuration config_type))
       (\<lambda>_ s. s)"

definition ab_editor_closed :: "js \<Rightarrow> string \<Rightarrow> js \<Rightarrow> ab_state \<Rightarrow> ab_state" where
  "ab_editor_closed agent_installer_configuration config_type response s =
     (if notUndefNull response
      then call (post_config_content (js_get agent_installer_configuration ''config_name'') config_type response) AB_PostContent s
      else s)"

definition ab_post_content_answer :: "reply \<Rightarrow> ab_state \<Rightarrow> ab_state" where
  "ab_post_content_answer =
     answered (post_config_content JUndef [] JUndef)
       (\<lambda>message. displaySnackBar (js_get message ''success_message'') None) (\<lambda>_ s. s)"

section \<open>Target configurations and their hosts\<close>

definition ab_delete_target_dialog :: "nat \<Rightarrow> ab_state \<Rightarrow> ab_state" where
  "ab_delete_target_dialog r s =
     ab_confirm_dialog (''Remove configuration '' @ str (ab_field s r ''name'') @ ''?'')
       (''Before deleting this target configuration, it is strongly advised to first do a '' @ [CHR 0x22] @ ''Batch Uninstall'' @ [CHR 0x22] @ ''. '' @
        ''Please make sure all agents have been uninstalled successfully. This action cannot be undone.'')
       (AB_ConfirmDeleteTarget r) s"

definition ab_api_delete_target :: "nat \<Rightarrow> ab_state \<Rightarrow> ab_state" where
  "ab_api_delete_target r s = call (agent_delete_ip_target_list (ab_field s r ''name'')) AB_DeleteTarget s"

definition ab_delete_target_dialog_closed :: "nat \<Rightarrow> js \<Rightarrow> ab_state \<Rightarrow> ab_state" where
  "ab_delete_target_dialog_closed r response s =
     (if response = JStr CONFIRM_DIALOG_OPTION then ab_api_delete_target r s else s)"

definition ab_new_ip_target_list :: "ab_state \<Rightarrow> ab_state" where
  "ab_new_ip_target_list = open_dialog ''AgentTargetDialogComponent'' (JObj []) AB_NewTarget"

definition ab_api_save_target :: "js \<Rightarrow> ab_state \<Rightarrow> ab_state" where
  "ab_api_save_target ip_target_list = call (agent_save_ip_target_list ip_target_list) AB_SaveTarget"

definition ab_new_ip_target_list_closed :: "js \<Rightarrow> ab_state \<Rightarrow> ab_state" where
  "ab_new_ip_target_list_closed response s =
     (if notUndefNull response \<and> is_instance response then ab_api_save_target response s else s)"

definition ab_add_hosts_dialog :: "nat \<Rightarrow> ab_state \<Rightarrow> ab_state" where
  "ab_add_hosts_dialog r =
     open_dialog ''ModalDialogMatComponent''
       (JObj [(''title'', JStr ''Add new Windows hosts''),
              (''instructions'', JStr ''Enter a Windows hostname for each line or copy and paste from a text file.''),
              (''dialogForm'', JObj [(''hostnames'', control_config ''Windows Hostname''
                 (JStr ''The application will attempt to install agents to the Windows machines specified.'') (JStr []) True
                 ''textarea'' [])]),
              (''confirmBtnText'', JStr ''Add Windows Hosts'')]) (AB_AddHosts r)"

definition ab_api_add_host :: "nat \<Rightarrow> js \<Rightarrow> ab_state \<Rightarrow> ab_state" where
  "ab_api_add_host r host s = call (agent_add_host_to_ip_target_list (ab_field s r ''_id'') host) (AB_AddHost r) s"

definition ab_add_hosts_dialog_closed :: "nat \<Rightarrow> js \<Rightarrow> ab_state \<Rightarrow> ab_state" where
  "ab_add_hosts_dialog_closed r response s =
     (if notUndefNull response \<and> truthy (js_get response ''valid'')
      then ab_api_add_host r (js_get response ''rawValue'') s else s)"

definition ab_remove_host_dialog :: "nat \<Rightarrow> nat \<Rightarrow> nat \<Rightarrow> ab_state \<Rightarrow> ab_state" where
  "ab_remove_host_dialog r h host_index s =
     ab_confirm_dialog (''Remove configuration '' @ str (ab_hostname s h) @ ''?'')
       (''Before deleting this '' @ str (ab_hostname s h) @
        '', it is strongly advised to uninstall first. This action cannot be undone.'')
       (AB_ConfirmRemoveHost r h host_index) s"

definition ab_api_remove_host :: "nat \<Rightarrow> nat \<Rightarrow> nat \<Rightarrow> ab_state \<Rightarrow> ab_state" where
  "ab_api_remove_host r h host_index s =
     call (agent_remove_host_from_ip_target_list (ab_field s r ''_id'') (ab_host s h)) (AB_RemoveHost r host_index) s"

definition ab_remove_host_dialog_closed :: "nat \<Rightarrow> nat \<Rightarrow> nat \<Rightarrow> js \<Rightarrow> ab_state \<Rightarrow> ab_state" where
  "ab_remove_host_dialog_closed r h host_index response s =
     (if response = JStr CONFIRM_DIALOG_OPTION then ab_api_remove_host r h host_index s else s)"

section \<open>Hosts without duplicates\<close>

text \<open>\<open>is_host_index_zero_\<close>: is the first host with this name, in any case, the one at this index?\<close>

fun lower_name :: "js \<Rightarrow> js_error + string" where
  "lower_name (JStr n) = Inr (toLowerCase n)"
| "lower_name _ = Inl TypeError"

definition same_host :: "js \<Rightarrow> js \<Rightarrow> js_error + bool" where
  "same_host host h =
     sbind (js_index h ''hostname'') (\<lambda>name.
       if notUndefNull name \<and> notUndefNull host \<and> notUndefNull (js_get host ''hostname'')
       then sbind (lower_name name) (\<lambda>a. smap (\<lambda>b. a = b) (lower_name (js_get host ''hostname'')))
       else Inr False)"

fun index_from_hosts :: "js \<Rightarrow> js list \<Rightarrow> js_error + nat option" where
  "index_from_hosts host [] = Inr None"
| "index_from_hosts host (h # hs) =
     sbind (same_host host h) (\<lambda>found.
       if found then Inr (Some 0) else smap (map_option Suc) (index_from_hosts host hs))"

definition is_host_index_zero :: "js \<Rightarrow> nat \<Rightarrow> js list \<Rightarrow> js_error + bool" where
  "is_host_index_zero host host_index hosts = smap (\<lambda>i. i = Some host_index) (index_from_hosts host hosts)"

text \<open>\<open>targets.concat(response_targets).filter(...)\<close>, where the elements stand for the given values.\<close>

definition distinct_hosts :: "('a \<Rightarrow> js) \<Rightarrow> 'a list \<Rightarrow> js_error + 'a list" where
  "distinct_hosts val hs =
     smap (\<lambda>keep. map snd (filter fst (zip keep hs)))
       (mapS (\<lambda>(i, h). is_host_index_zero (val h) i (map val hs)) (enumerate 0 hs))"

section \<open>Actions on agents\<close>

definition dialog_message :: "string \<Rightarrow> js \<Rightarrow> string" where
  "dialog_message software_action host_name =
     ''Executing this form will attempt to '' @ software_action @ '' the selected executable'' @ nl @ ''           '' @
     (if \<not> notUndefNull host_name then '' configuration on all Windows hosts within your target configuration. ''
      else '' on '' @ str host_name) @
     ''. Are you sure you want to do this?''"

definition ab_get_credentials :: "string \<Rightarrow> string \<Rightarrow> string \<Rightarrow> js \<Rightarrow> nat \<Rightarrow> nat option \<Rightarrow> ab_state \<Rightarrow> ab_state" where
  "ab_get_credentials dialog_title instructions action installer_config r h =
     open_dialog ''ModalDialogMatComponent''
       (JObj [(''title'', JStr dialog_title), (''instructions'', JStr instructions),
              (''dialogForm'', JObj
                 [(''user_name'', control_config ''Domain username'' JNull (JStr []) True ''text'' []),
                  (''password'', control_config ''Domain Password'' JUndef (JStr []) True ''password'' [])]),
              (''confirmBtnText'', JStr ''Execute'')])
       (AB_Credentials action installer_config r h)"

definition ab_agents_install :: "js \<Rightarrow> nat \<Rightarrow> ab_state \<Rightarrow> ab_state" where
  "ab_agents_install installer_config r =
     ab_get_credentials ''Install Windows hosts'' (dialog_message ''install'' JUndef) ''install'' installer_config r None"

definition ab_agents_uninstall :: "js \<Rightarrow> nat \<Rightarrow> ab_state \<Rightarrow> ab_state" where
  "ab_agents_uninstall installer_config r =
     ab_get_credentials ''Uninstall Windows hosts'' (dialog_message ''uninstalls'' JUndef) ''uninstalls'' installer_config r None"

text \<open>\<open>ip_target_list_selection.targets = ip_target_list_selection.targets.filter(...)\<close>.\<close>

definition ab_keep_target :: "nat \<Rightarrow> nat \<Rightarrow> ab_state \<Rightarrow> js_error + ab_state" where
  "ab_keep_target r h s =
     (case tl_targets (ab_lists s ! r) of
        None \<Rightarrow> Inl TypeError
      | Some hs \<Rightarrow> Inr (ab_update_list r
          (\<lambda>c. c\<lparr>tl_targets := Some (filter (\<lambda>q. strict_eq (ab_hostname s q) (ab_hostname s h)) hs)\<rparr>) s))"

definition ab_agent_uninstall :: "js \<Rightarrow> nat \<Rightarrow> nat \<Rightarrow> ab_state \<Rightarrow> ab_state" where
  "ab_agent_uninstall installer_config r h s =
     settle s (smap (ab_get_credentials (''Uninstall Windows host '' @ str (ab_hostname s h))
         (dialog_message ''uninstall'' (ab_hostname s h)) ''uninstall'' installer_config r (Some h))
       (ab_keep_target r h s))"

definition ab_agent_reinstall :: "js \<Rightarrow> nat \<Rightarrow> nat \<Rightarrow> ab_state \<Rightarrow> ab_state" where
  "ab_agent_reinstall installer_config r h s =
     settle s (smap (ab_get_credentials (''Reinstall Windows host '' @ str (ab_hostname s h))
         (dialog_message ''reinstall'' (ab_hostname s h)) ''reinstall'' installer_config r (Some h))
       (ab_keep_target r h s))"

text \<open>The body is written when the request is sent, from the objects as they are then.\<close>

definition ab_agent_body :: "js \<Rightarrow> nat \<Rightarrow> nat option \<Rightarrow> js \<Rightarrow> ab_state \<Rightarrow> js" where
  "ab_agent_body installer_config r h credentials s =
     (let interface = agent_interface installer_config (ab_list_js s r) credentials
      in case h of None \<Rightarrow> interface | Some q \<Rightarrow> js_set interface ''target'' (ab_host s q))"

definition ab_perform_agent_action :: "string \<Rightarrow> js \<Rightarrow> ab_state \<Rightarrow> ab_state" where
  "ab_perform_agent_action action body s =
     (if action = ''install'' then call (agents_install body) AB_Install s
      else if action = ''reinstall'' then call (agent_reinstall body) AB_Reinstall s
      else if action = ''uninstall'' then call (agent_uninstall body) AB_Uninstall s
      else if action = ''uninstalls'' then call (agents_uninstall body) AB_Uninstalls s
      else s)"

definition ab_get_credentials_closed :: "string \<Rightarrow> js \<Rightarrow> nat \<Rightarrow> nat option \<Rightarrow> js \<Rightarrow> ab_state \<Rightarrow> ab_state" where
  "ab_get_credentials_closed action installer_config r h response s =
     (if notUndefNull response \<and> truthy (js_get response ''valid'') then
        settle s (smap (\<lambda>credentials. ab_perform_agent_action action (ab_agent_body installer_config r h credentials s) s)
          (new_WindowsCredentialsClass (js_get response ''rawValue'')))
      else s)"

section \<open>Requests of the page\<close>

definition ab_api_get_chart_status :: "ab_state \<Rightarrow> ab_state" where
  "ab_api_get_chart_status = call (get_chart_statuses (JStr ''logstash'')) AB_ChartStatus"

definition ab_api_get_configs :: "ab_state \<Rightarrow> ab_state" where
  "ab_api_get_configs = call agent_get_configs AB_GetConfigs"

definition ab_api_get_ip_target_list :: "bool \<Rightarrow> ab_state \<Rightarrow> ab_state" where
  "ab_api_get_ip_target_list is_refresh = call agent_get_ip_target_list (AB_GetTargets is_refresh)"

definition ab_api_get_app_configs :: "ab_state \<Rightarrow> ab_state" where
  "ab_api_get_app_configs = call get_app_configs AB_AppConfigs"

definition ab_websocket_refresh :: "ab_state \<Rightarrow> ab_state" where
  "ab_websocket_refresh = ab_api_get_ip_target_list True"

definition ab_ngOnInit :: "ab_state \<Rightarrow> ab_state" where
  "ab_ngOnInit s =
     ab_api_get_app_configs (ab_api_get_ip_target_list False (ab_api_get_configs (ab_api_get_chart_status
       (emit (SetTitle ''Windows Agent Deployer'') s))))"

section \<open>Answers\<close>

abbreviation "ab_success msg \<equiv> generate_return_success_snackbar_message msg (Some MAT_SNACKBAR_CONFIGURATION_60000_DUR)"
abbreviation "ab_show v \<equiv> displaySnackBar v (Some MAT_SNACKBAR_CONFIGURATION_60000_DUR)"

definition LOGSTASH_NOT_DEPLOYED_STATE_MESSAGE :: string where
  "LOGSTASH_NOT_DEPLOYED_STATE_MESSAGE =
     ''Logstash is not in a deployed state. Please check the system health page or try to reinstall Logstash on the catalog page.''"

definition LOGSTASH_NO_DATA_MESSAGE :: string where
  "LOGSTASH_NO_DATA_MESSAGE =
     ''Before using this page, it is recommended that you install Logstash on your Kubernetes cluster. '' @
     ''Please go to the Catalog page and install it. Failing to install it will cause Winlogbeats and '' @
     ''Endgame agent data capture to Elasticsearch to fail.''"

definition ab_api_get_chart_status_answer :: "reply \<Rightarrow> ab_state \<Rightarrow> ab_state" where
  "ab_api_get_chart_status_answer =
     answered (get_chart_statuses JUndef)
       (\<lambda>response s.
          case response of
            [] \<Rightarrow> ab_show (JStr LOGSTASH_NO_DATA_MESSAGE) s
          | chart # _ \<Rightarrow>
              if js_get chart ''status'' \<noteq> JStr ''DEPLOYED'' then ab_show (JStr LOGSTASH_NOT_DEPLOYED_STATE_MESSAGE) s else s)
       (\<lambda>_. report_error ''retrieving logstash installation status'')"

definition ab_api_generate_answer :: "reply \<Rightarrow> ab_state \<Rightarrow> ab_state" where
  "ab_api_generate_answer =
     answered (agent_generate JUndef)
       (\<lambda>_ s. (ab_success ''downloaded agent installer configuration. Check your Downloads directory for the file.''
          (emit (SaveFile ''agents.zip'') s))\<lparr>is_downloading := False\<rparr>)
       (\<lambda>_ s. (report_error ''downloading or generating agent installer config'' s)\<lparr>is_downloading := False\<rparr>)"

definition ab_api_save_config_answer :: "reply \<Rightarrow> ab_state \<Rightarrow> ab_state" where
  "ab_api_save_config_answer =
     answered (agent_save_config JUndef)
       (\<lambda>response s. ab_success ''saved agent installer configuration'' (ab_set_configs response s))
       (report_error_or_message ''saving agent installer configuration'')"

definition ab_api_delete_config_answer :: "reply \<Rightarrow> ab_state \<Rightarrow> ab_state" where
  "ab_api_delete_config_answer =
     answered (agent_delete_config JUndef)
       (\<lambda>response s. ab_success ''deleted agent installer configuration'' (ab_set_configs response s))
       (\<lambda>_. report_error ''deleting agent installer configuration'')"

definition ab_api_get_configs_answer :: "reply \<Rightarrow> ab_state \<Rightarrow> ab_state" where
  "ab_api_get_configs_answer =
     answered agent_get_configs ab_set_configs (\<lambda>_. report_error ''retrieving agent installer configurations'')"

text \<open>A refresh copies the state of the hosts into the objects that are shown: of every row the first
  configuration of the answer with its id, of every target the first host with its name. A configuration
  without targets ends the callback there.\<close>

definition ab_update_host :: "js list \<Rightarrow> nat \<Rightarrow> ab_state \<Rightarrow> ab_state" where
  "ab_update_host updated_targets h s =
     (case find (\<lambda>u. strict_eq (ab_hostname s h) (js_get u ''hostname'')) updated_targets of
        None \<Rightarrow> s
      | Some u \<Rightarrow> s\<lparr>ab_hosts := (ab_hosts s)[h :=
          js_set (js_set (ab_host s h) ''state'' (js_get u ''state'')) ''last_state_change'' (js_get u ''last_state_change'')]\<rparr>)"

definition ab_update_targets :: "nat \<Rightarrow> js \<Rightarrow> ab_state \<Rightarrow> ab_state attempt" where
  "ab_update_targets r updated_ip_target_list s =
     (case tl_targets (ab_lists s ! r) of
        None \<Rightarrow> (Some TypeError, s)
      | Some hs \<Rightarrow>
          (case js_get updated_ip_target_list ''targets'' of
             JArr us \<Rightarrow> done_with (fold (ab_update_host us) hs s)
           | _ \<Rightarrow> if hs = [] then done_with s else (Some TypeError, s)))"

definition ab_refresh_row :: "js list \<Rightarrow> nat \<Rightarrow> ab_state \<Rightarrow> ab_state attempt" where
  "ab_refresh_row response r s =
     (case find (\<lambda>u. strict_eq (ab_field s r ''_id'') (js_get u ''_id'')) response of
        None \<Rightarrow> done_with s
      | Some u \<Rightarrow> ab_update_targets r u s)"

fun ab_refresh_rows :: "js list \<Rightarrow> nat list \<Rightarrow> ab_state \<Rightarrow> ab_state attempt" where
  "ab_refresh_rows response [] s = done_with s"
| "ab_refresh_rows response (r # rs) s = and_then (ab_refresh_row response r s) (ab_refresh_rows response rs)"

definition ab_load_targets :: "bool \<Rightarrow> js list \<Rightarrow> ab_state \<Rightarrow> ab_state" where
  "ab_load_targets is_refresh response s =
     (case ab_rows s of
        Some rows \<Rightarrow> if is_refresh then snd (ab_refresh_rows response rows s) else ab_set_target_lists response s
      | None \<Rightarrow> ab_set_target_lists response s)"

definition ab_api_get_ip_target_list_answer :: "bool \<Rightarrow> reply \<Rightarrow> ab_state \<Rightarrow> ab_state" where
  "ab_api_get_ip_target_list_answer is_refresh =
     answered agent_get_ip_target_list (ab_load_targets is_refresh) (\<lambda>_. report_error ''retrieving ip target configurations'')"

definition ab_api_save_target_answer :: "reply \<Rightarrow> ab_state \<Rightarrow> ab_state" where
  "ab_api_save_target_answer =
     answered (agent_save_ip_target_list JUndef)
       (\<lambda>response s. ab_success ''saved ip target configuration'' (ab_set_target_lists response s))
       (\<lambda>_. report_error ''saving ip target configuration'')"

definition ab_api_delete_target_answer :: "reply \<Rightarrow> ab_state \<Rightarrow> ab_state" where
  "ab_api_delete_target_answer =
     answered (agent_delete_ip_target_list JUndef)
       (\<lambda>response s. ab_success ''deleted ip target configuration'' (ab_set_target_lists response s))
       (\<lambda>_. report_error ''deleting ip target configuration'')"

text \<open>The new hosts of the answer come after the known ones; an answer without targets makes the filter
  throw. Without known targets the answer is taken as it is.\<close>

definition ab_new_hosts :: "js list \<Rightarrow> ab_state \<Rightarrow> nat list \<times> ab_state" where
  "ab_new_hosts vs s =
     ([length (ab_hosts s) ..< length (ab_hosts s) + length vs], s\<lparr>ab_hosts := ab_hosts s @ vs\<rparr>)"

definition ab_show_targets :: "nat \<Rightarrow> nat list option \<Rightarrow> ab_state \<Rightarrow> ab_state" where
  "ab_show_targets r hs = ab_update_list r (\<lambda>c. c\<lparr>tl_hosts := (case hs of None \<Rightarrow> [] | Some q \<Rightarrow> q), tl_targets := hs\<rparr>)"

definition ab_add_targets :: "nat \<Rightarrow> js \<Rightarrow> ab_state \<Rightarrow> js_error + ab_state" where
  "ab_add_targets r response s =
     (let (new, s1) = ab_new_hosts (arr_elems (js_get response ''targets'')) s;
          response_targets = (case js_get response ''targets'' of JArr _ \<Rightarrow> Some new | _ \<Rightarrow> None)
      in case tl_targets (ab_lists s ! r) of
           None \<Rightarrow> Inr (ab_show_targets r response_targets s1)
         | Some targets \<Rightarrow>
             (case response_targets of
                None \<Rightarrow> Inl TypeError
              | Some q \<Rightarrow> smap (\<lambda>hs. ab_show_targets r (Some hs) s1) (distinct_hosts (ab_host s1) (targets @ q))))"

definition ab_api_add_host_answer :: "nat \<Rightarrow> reply \<Rightarrow> ab_state \<Rightarrow> ab_state" where
  "ab_api_add_host_answer r =
     answered (agent_add_host_to_ip_target_list JUndef JUndef)
       (\<lambda>response s. settle s (smap (ab_success ''added host to ip target configuration'') (ab_add_targets r response s)))
       (report_error_or_message ''adding host to ip target list'')"

definition ab_drop_host :: "nat \<Rightarrow> nat \<Rightarrow> ab_state \<Rightarrow> ab_state" where
  "ab_drop_host r host_index s = ab_show_targets r (Some (remove_nth host_index (tl_hosts (ab_lists s ! r)))) s"

definition ab_api_remove_host_answer :: "nat \<Rightarrow> nat \<Rightarrow> reply \<Rightarrow> ab_state \<Rightarrow> ab_state" where
  "ab_api_remove_host_answer r host_index =
     answered (agent_remove_host_from_ip_target_list JUndef JUndef)
       (\<lambda>response s. ab_show (js_get response ''success_message'') (ab_drop_host r host_index s))
       (report_error_or_message ''removing host from ip target list'')"

definition ab_api_install_answer :: "reply \<Rightarrow> ab_state \<Rightarrow> ab_state" where
  "ab_api_install_answer =
     answered (agents_install JUndef) (\<lambda>response. ab_show (js_get response ''success_message''))
       (report_error_or_message ''initiating install task for an unknown reason'')"

definition ab_api_agents_uninstall_answer :: "reply \<Rightarrow> ab_state \<Rightarrow> ab_state" where
  "ab_api_agents_uninstall_answer =
     answered (agents_uninstall JUndef) (\<lambda>response. ab_show (js_get response ''success_message''))
       (report_error_or_message ''executing uninstall action as this Agent is already uninstalled on target host'')"

definition ab_api_agent_uninstall_answer :: "reply \<Rightarrow> ab_state \<Rightarrow> ab_state" where
  "ab_api_agent_uninstall_answer =
     answered (agent_uninstall JUndef) (\<lambda>response. ab_show (js_get response ''success_message''))
       (report_error_or_message ''executing uninstall action as this Agent is already uninstalled on target host'')"

definition ab_api_reinstall_answer :: "reply \<Rightarrow> ab_state \<Rightarrow> ab_state" where
  "ab_api_reinstall_answer =
     answered (agent_reinstall JUndef) (\<lambda>response. ab_show (js_get response ''success_message''))
       (\<lambda>_. report_error ''initiating reinstall task for an unknown reason'')"

definition ab_api_get_app_configs_answer :: "reply \<Rightarrow> ab_state \<Rightarrow> ab_state" where
  "ab_api_get_app_configs_answer =
     answered get_app_configs (\<lambda>response s. s\<lparr>ab_app_configs := Some response\<rparr>) (\<lambda>_. report_error ''retrieving app configs'')"

section \<open>The component as a machine\<close>

text \<open>Rows of the tables are named by their index in the data. A click on a host names the row, the index
  of the first host on the page that the paginator of the row shows, and the index on that page, which is
  what the template hands on as \<open>host_index\<close>. Buttons that the template disables do nothing.\<close>

datatype ab_action =
    AB_OnInit | AB_SelectConfig nat | AB_SelectTarget nat | AB_Toggle nat | AB_ShowConfig nat | AB_Download
  | AB_InstallClick | AB_UninstallsClick | AB_UninstallClick nat nat nat | AB_ReinstallClick nat nat nat
  | AB_DeleteConfigClick nat | AB_EditConfig nat string | AB_DeleteTargetClick nat | AB_NewConfigClick | AB_NewTargetClick
  | AB_AddHostsClick nat | AB_RemoveHostClick nat nat nat | AB_SocketRefresh

definition ab_row :: "nat \<Rightarrow> (nat \<Rightarrow> ab_state \<Rightarrow> ab_state) \<Rightarrow> ab_state \<Rightarrow> ab_state" where
  "ab_row i f s =
     (case ab_rows s of None \<Rightarrow> s | Some rows \<Rightarrow> if i < length rows then f (rows ! i) s else s)"

definition ab_on_host :: "nat \<Rightarrow> nat \<Rightarrow> (nat \<Rightarrow> nat \<Rightarrow> ab_state \<Rightarrow> ab_state) \<Rightarrow> ab_state \<Rightarrow> ab_state" where
  "ab_on_host i n f =
     ab_row i (\<lambda>r s. let hs = tl_hosts (ab_lists s ! r) in if n < length hs then f r (hs ! n) s else s)"

definition ab_config :: "nat \<Rightarrow> (js \<Rightarrow> ab_state \<Rightarrow> ab_state) \<Rightarrow> ab_state \<Rightarrow> ab_state" where
  "ab_config i f s = (if i < length (ab_configs s) then f (ab_configs s ! i) s else s)"

definition ab_with_config :: "(js \<Rightarrow> ab_state \<Rightarrow> ab_state) \<Rightarrow> ab_state \<Rightarrow> ab_state" where
  "ab_with_config f s = (case ab_config_selection s of None \<Rightarrow> s | Some c \<Rightarrow> f c s)"

fun ab_handle :: "ab_action \<Rightarrow> ab_state \<Rightarrow> ab_state" where
  "ab_handle AB_OnInit s = ab_ngOnInit s"
| "ab_handle (AB_SelectConfig i) s = ab_config i ab_update_selected_config s"
| "ab_handle (AB_SelectTarget i) s = ab_row i ab_update_selected_ip_target s"
| "ab_handle (AB_Toggle i) s = ab_row i ab_toggle_host_list_expansion s"
| "ab_handle (AB_ShowConfig i) s =
     ab_config i (\<lambda>c s. case ab_check_custom_packages c s of Inr True \<Rightarrow> ab_show_configuration c s | _ \<Rightarrow> s) s"
| "ab_handle AB_Download s = (if is_downloading s then s else ab_with_config ab_download_agent_installer s)"
| "ab_handle AB_InstallClick s =
     ab_with_config (\<lambda>c s. case ab_target_selection s of None \<Rightarrow> s | Some r \<Rightarrow> ab_agents_install c r s) s"
| "ab_handle AB_UninstallsClick s =
     ab_with_config (\<lambda>c s. case ab_target_selection s of None \<Rightarrow> s | Some r \<Rightarrow> ab_agents_uninstall c r s) s"
| "ab_handle (AB_UninstallClick i page_start j) s =
     ab_with_config (\<lambda>c. ab_on_host i (page_start + j) (ab_agent_uninstall c)) s"
| "ab_handle (AB_ReinstallClick i page_start j) s =
     ab_with_config (\<lambda>c. ab_on_host i (page_start + j) (ab_agent_reinstall c)) s"
| "ab_handle (AB_DeleteConfigClick i) s = ab_config i ab_delete_config_dialog s"
| "ab_handle (AB_EditConfig i config_type) s =
     ab_config i (\<lambda>c s.
       let sub_config = js_get (js_get c ''customPackages'') config_type
       in if truthy (js_get sub_config ''configLocation'') then ab_open_config_text_editor c config_type sub_config s else s) s"
| "ab_handle (AB_DeleteTargetClick i) s = ab_row i ab_delete_target_dialog s"
| "ab_handle AB_NewConfigClick s = ab_new_configuration s"
| "ab_handle AB_NewTargetClick s = ab_new_ip_target_list s"
| "ab_handle (AB_AddHostsClick i) s = ab_row i ab_add_hosts_dialog s"
| "ab_handle (AB_RemoveHostClick i page_start j) s =
     ab_on_host i (page_start + j) (\<lambda>r h. ab_remove_host_dialog r h j) s"
| "ab_handle AB_SocketRefresh s = ab_websocket_refresh s"

fun ab_answer :: "ab_request \<Rightarrow> reply \<Rightarrow> ab_state \<Rightarrow> ab_state" where
  "ab_answer AB_ChartStatus = ab_api_get_chart_status_answer"
| "ab_answer AB_Generate = ab_api_generate_answer"
| "ab_answer AB_SaveConfig = ab_api_save_config_answer"
| "ab_answer AB_DeleteConfig = ab_api_delete_config_answer"
| "ab_answer AB_GetConfigs = ab_api_get_configs_answer"
| "ab_answer (AB_GetTargets is_refresh) = ab_api_get_ip_target_list_answer is_refresh"
| "ab_answer AB_SaveTarget = ab_api_save_target_answer"
| "ab_answer (AB_AddHost r) = ab_api_add_host_answer r"
| "ab_answer (AB_RemoveHost r host_index) = ab_api_remove_host_answer r host_index"
| "ab_answer AB_DeleteTarget = ab_api_delete_target_answer"
| "ab_answer AB_Install = ab_api_install_answer"
| "ab_answer AB_Uninstalls = ab_api_agents_uninstall_answer"
| "ab_answer AB_Uninstall = ab_api_agent_uninstall_answer"
| "ab_answer AB_Reinstall = ab_api_reinstall_answer"
| "ab_answer AB_AppConfigs = ab_api_get_app_configs_answer"
| "ab_answer (AB_Content c config_type is_editable) = ab_content_answer c config_type is_editable"
| "ab_answer AB_PostContent = ab_post_content_answer"

fun ab_closed :: "ab_dialog \<Rightarrow> js \<Rightarrow> ab_state \<Rightarrow> ab_state" where
  "ab_closed (AB_Credentials action c r h) = ab_get_credentials_closed action c r h"
| "ab_closed (AB_ConfirmDeleteConfig c) = ab_delete_config_dialog_closed c"
| "ab_closed (AB_Editor c config_type) = ab_editor_closed c config_type"
| "ab_closed (AB_ConfirmDeleteTarget r) = ab_delete_target_dialog_closed r"
| "ab_closed AB_NewConfig = ab_new_configuration_closed"
| "ab_closed AB_NewTarget = ab_new_ip_target_list_closed"
| "ab_closed (AB_AddHosts r) = ab_add_hosts_dialog_closed r"
| "ab_closed (AB_ConfirmRemoveHost r h host_index) = ab_remove_host_dialog_closed r h host_index"

definition ab_step :: "ab_action event \<Rightarrow> ab_state \<Rightarrow> ab_state" where
  "ab_step = async_step ab_handle ab_answer ab_closed"

end
