(* ===== verification/Agent_Builder_Facts.thy ===== *)
theory Agent_Builder_Facts
  imports Agent_Builder
begin

text \<open>
  What the page of the Windows agents guarantees: its heap of target configurations and hosts, the
  requests that act on agents, the list of hosts without duplicates and the refresh, and the places where
  the shared objects make it differ from its intention.
\<close>

section \<open>The heap\<close>

text \<open>A cell shows existing hosts, none twice, and its targets are among them. No host belongs to two
  configurations.\<close>

definition cell_ok :: "nat \<Rightarrow> target_list \<Rightarrow> bool" where
  "cell_ok n c \<longleftrightarrow>
     distinct (tl_hosts c) \<and> (\<forall>h \<in> set (tl_hosts c). h < n) \<and>
     (case tl_targets c of None \<Rightarrow> True | Some hs \<Rightarrow> distinct hs \<and> set hs \<subseteq> set (tl_hosts c))"

definition heap_ok :: "nat \<Rightarrow> target_list list \<Rightarrow> bool" where
  "heap_ok n cs \<longleftrightarrow>
     (\<forall>i < length cs. cell_ok n (cs ! i)) \<and>
     (\<forall>i < length cs. \<forall>j < length cs. i \<noteq> j \<longrightarrow> set (tl_hosts (cs ! i)) \<inter> set (tl_hosts (cs ! j)) = {})"

lemma heap_ok_cell: "heap_ok n cs \<Longrightarrow> r < length cs \<Longrightarrow> cell_ok n (cs ! r)"
  by (simp add: heap_ok_def)

lemma cell_ok_mono: "cell_ok n c \<Longrightarrow> n \<le> n' \<Longrightarrow> cell_ok n' c"
  by (auto simp: cell_ok_def)

lemma heap_ok_mono: "heap_ok n cs \<Longrightarrow> n \<le> n' \<Longrightarrow> heap_ok n' cs"
  by (auto simp: heap_ok_def intro: cell_ok_mono)

lemma heap_ok_update:
  assumes ok: "heap_ok n cs" and n: "n \<le> n'" and c: "r < length cs \<Longrightarrow> cell_ok n' c"
    and sub: "r < length cs \<Longrightarrow> set (tl_hosts c) \<subseteq> set (tl_hosts (cs ! r)) \<union> {n..}"
  shows "heap_ok n' (cs[r := c])"
proof (cases "r < length cs")
  case True
  have old: "set (tl_hosts (cs ! j)) \<inter> {n..} = {}" if "j < length cs" for j
    using heap_ok_cell [OF ok that] by (auto simp: cell_ok_def)
  have new: "set (tl_hosts c) \<inter> set (tl_hosts (cs ! j)) = {}" if "j < length cs" "j \<noteq> r" for j
  proof -
    have "set (tl_hosts (cs ! r)) \<inter> set (tl_hosts (cs ! j)) = {}"
      using ok that True by (simp add: heap_ok_def)
    then show ?thesis using sub [OF True] old [OF that(1)] by blast
  qed
  have "set (tl_hosts (cs[r := c] ! i)) \<inter> set (tl_hosts (cs[r := c] ! j)) = {}"
    if "i < length cs" "j < length cs" "i \<noteq> j" for i j
    using new [of i] new [of j] that ok True by (cases "i = r"; cases "j = r") (simp_all add: heap_ok_def Int_commute)
  moreover have "cell_ok n' (cs[r := c] ! i)" if "i < length cs" for i
    using that heap_ok_mono [OF ok n] c [OF True] by (cases "i = r") (simp_all add: heap_ok_def)
  ultimately show ?thesis by (simp add: heap_ok_def)
next
  case False
  then show ?thesis using heap_ok_mono [OF ok n] by (simp add: list_update_beyond)
qed

lemma heap_ok_append:
  assumes ok: "heap_ok n cs" and n: "n \<le> n'" and c: "cell_ok n' c" and sub: "set (tl_hosts c) \<subseteq> {n..}"
  shows "heap_ok n' (cs @ [c])"
proof -
  have old: "set (tl_hosts (cs ! j)) \<inter> set (tl_hosts c) = {}" if "j < length cs" for j
    using heap_ok_cell [OF ok that] sub unfolding cell_ok_def by fastforce
  then show ?thesis
    using heap_ok_mono [OF ok n] c by (auto simp: heap_ok_def nth_append less_Suc_eq)
qed

section \<open>Invariant\<close>

fun request_ok :: "nat \<Rightarrow> ab_request \<Rightarrow> bool" where
  "request_ok n (AB_AddHost r) = (r < n)"
| "request_ok n (AB_RemoveHost r _) = (r < n)"
| "request_ok n _ = True"

fun dialog_ok :: "nat \<Rightarrow> nat \<Rightarrow> ab_dialog \<Rightarrow> bool" where
  "dialog_ok n m (AB_Credentials _ _ r h) = (r < n \<and> (case h of None \<Rightarrow> True | Some q \<Rightarrow> q < m))"
| "dialog_ok n m (AB_ConfirmDeleteTarget r) = (r < n)"
| "dialog_ok n m (AB_AddHosts r) = (r < n)"
| "dialog_ok n m (AB_ConfirmRemoveHost r h _) = (r < n \<and> h < m)"
| "dialog_ok n m _ = True"

definition waiting_ok :: "ab_state \<Rightarrow> bool" where
  "waiting_ok s \<longleftrightarrow>
     (\<forall>k \<in> set (requests s). request_ok (length (ab_lists s)) k) \<and>
     (\<forall>d \<in> set (dialogs s). dialog_ok (length (ab_lists s)) (length (ab_hosts s)) d)"

text \<open>What is selected is shown, and shown rows exist.\<close>

definition shown_ok :: "nat \<Rightarrow> nat list option \<Rightarrow> nat option \<Rightarrow> bool" where
  "shown_ok n rows selection \<longleftrightarrow>
     (case rows of None \<Rightarrow> selection = None
      | Some rs \<Rightarrow> distinct rs \<and> (\<forall>r \<in> set rs. r < n) \<and> (case selection of None \<Rightarrow> True | Some r \<Rightarrow> r \<in> set rs))"

definition chosen_ok :: "js list \<Rightarrow> js option \<Rightarrow> bool" where
  "chosen_ok cs selection \<longleftrightarrow> (case selection of None \<Rightarrow> True | Some c \<Rightarrow> c \<in> set cs)"

definition ab_inv :: "ab_state \<Rightarrow> bool" where
  "ab_inv s \<longleftrightarrow>
     snack_ok s \<and> waiting_ok s \<and> shown_ok (length (ab_lists s)) (ab_rows s) (ab_target_selection s) \<and>
     chosen_ok (ab_configs s) (ab_config_selection s) \<and> heap_ok (length (ab_hosts s)) (ab_lists s)"

lemmas ab_inv_defs = ab_inv_def waiting_ok_def

lemma shown_ok_mono: "shown_ok n rows selection \<Longrightarrow> n \<le> n' \<Longrightarrow> shown_ok n' rows selection"
  by (auto simp: shown_ok_def split: option.splits)

lemma request_ok_mono: "request_ok n k \<Longrightarrow> n \<le> n' \<Longrightarrow> request_ok n' k"
  by (cases k) auto

lemma dialog_ok_mono: "dialog_ok n m d \<Longrightarrow> n \<le> n' \<Longrightarrow> m \<le> m' \<Longrightarrow> dialog_ok n' m' d"
  by (cases d) (auto split: option.splits)

lemma ab_more:
  "async.more s' = async.more s \<Longrightarrow>
     ab_configs s' = ab_configs s \<and> ab_config_selection s' = ab_config_selection s \<and> ab_rows s' = ab_rows s \<and>
     ab_target_selection s' = ab_target_selection s \<and> ab_app_configs s' = ab_app_configs s \<and>
     is_downloading s' = is_downloading s \<and> ab_lists s' = ab_lists s \<and> ab_hosts s' = ab_hosts s"
  for s s' :: ab_state
  by (cases s; cases s') simp

lemma ab_inv_frame:
  assumes "ab_inv s" "async.more s' = async.more s" "snack_ok s'"
    "\<forall>k \<in> set (requests s'). k \<in> set (requests s) \<or> request_ok (length (ab_lists s)) k"
    "\<forall>d \<in> set (dialogs s'). d \<in> set (dialogs s) \<or> dialog_ok (length (ab_lists s)) (length (ab_hosts s)) d"
  shows "ab_inv s'"
  using assms ab_more [OF assms(2)] by (auto simp: ab_inv_defs)

lemma ab_inv_more:
  "ab_inv s \<Longrightarrow> world.more s' = world.more s \<Longrightarrow> (snack_ok s \<Longrightarrow> snack_ok s') \<Longrightarrow> sent s' = sent s \<Longrightarrow> ab_inv s'"
  using world_more_async [of s' s] world_more_requests [of s' s]
  by (intro ab_inv_frame [of s s']) (simp_all add: ab_inv_def)

lemmas ab_inv_answered = answered_inv [where P = ab_inv, OF _ _ ab_inv_more]

lemma ab_inv_basic [simp, intro]:
  assumes "ab_inv s"
  shows "ab_inv (displaySnackBar m c s)" "ab_inv (report_error msg s)" "ab_inv (report_error_or_message msg e s)"
    "ab_inv (generate_return_success_snackbar_message msg c s)"
    "ab_inv (emit (SetTitle msg) s)" "ab_inv (emit (DialogOpen msg v) s)" "ab_inv (emit (SaveFile msg) s)"
proof -
  have "snack_ok s" using assms by (simp add: ab_inv_def)
  then show "ab_inv (displaySnackBar m c s)" "ab_inv (report_error msg s)" "ab_inv (report_error_or_message msg e s)"
    "ab_inv (generate_return_success_snackbar_message msg c s)"
    "ab_inv (emit (SetTitle msg) s)" "ab_inv (emit (DialogOpen msg v) s)" "ab_inv (emit (SaveFile msg) s)"
    by (simp_all add: ab_inv_frame [OF assms] snack_ok_emit)
qed

lemma ab_inv_call [intro]: "ab_inv s \<Longrightarrow> request_ok (length (ab_lists s)) k \<Longrightarrow> ab_inv (call ep k s)"
  by (rule ab_inv_frame [of s]) (auto simp: ab_inv_def)

lemma ab_inv_open [intro]:
  "ab_inv s \<Longrightarrow> dialog_ok (length (ab_lists s)) (length (ab_hosts s)) d \<Longrightarrow> ab_inv (open_dialog n v d s)"
  by (rule ab_inv_frame [of s]) (auto simp: ab_inv_def)

lemma ab_inv_waiting [simp]:
  "ab_inv s \<Longrightarrow> set ks \<subseteq> set (requests s) \<Longrightarrow> ab_inv (s\<lparr>requests := ks\<rparr>)"
  "ab_inv s \<Longrightarrow> set ds \<subseteq> set (dialogs s) \<Longrightarrow> ab_inv (s\<lparr>dialogs := ds\<rparr>)"
  by (auto simp: ab_inv_defs snack_ok_def)

lemma ab_inv_fields [simp]:
  "ab_inv (s\<lparr>is_downloading := b\<rparr>) = ab_inv s" "ab_inv (s\<lparr>ab_app_configs := cs\<rparr>) = ab_inv s"
  by (simp_all add: ab_inv_defs snack_ok_def)

lemma ab_lists_frame [simp]:
  "ab_lists (call ep k s) = ab_lists s" "ab_hosts (call ep k s) = ab_hosts s"
  "ab_lists (displaySnackBar m c s) = ab_lists s" "ab_hosts (displaySnackBar m c s) = ab_hosts s"
  "ab_lists (emit e s) = ab_lists s" "ab_hosts (emit e s) = ab_hosts s"
  for s :: ab_state
  using ab_more [of "call ep k s" s] ab_more [of "displaySnackBar m c s" s] ab_more [of "emit e s" s] by simp_all

lemma ab_inv_set_configs [simp, intro]: "ab_inv s \<Longrightarrow> ab_inv (ab_set_configs cs s)"
  by (simp add: ab_inv_defs ab_set_configs_def snack_ok_def chosen_ok_def)

text \<open>An operation on the heap keeps the invariant when it keeps the shape of the heap.\<close>

lemma ab_inv_heap:
  assumes inv: "ab_inv s" and ok: "heap_ok (length (ab_hosts s')) (ab_lists s')"
    and grow: "length (ab_lists s) \<le> length (ab_lists s')" "length (ab_hosts s) \<le> length (ab_hosts s')"
    and frame: "snack_ok s'" "requests s' = requests s" "dialogs s' = dialogs s" "ab_rows s' = ab_rows s"
      "ab_target_selection s' = ab_target_selection s" "ab_config_selection s' = ab_config_selection s" "ab_configs s' = ab_configs s"
  shows "ab_inv s'"
  using inv ok grow frame
  by (auto simp: ab_inv_defs intro: request_ok_mono dialog_ok_mono shown_ok_mono)

lemma ab_update_list_fields [simp]:
  "trace (ab_update_list r f s) = trace s" "matSnackBarRef (ab_update_list r f s) = matSnackBarRef s"
  "requests (ab_update_list r f s) = requests s" "dialogs (ab_update_list r f s) = dialogs s"
  "ab_rows (ab_update_list r f s) = ab_rows s" "ab_target_selection (ab_update_list r f s) = ab_target_selection s"
  "ab_config_selection (ab_update_list r f s) = ab_config_selection s" "ab_configs (ab_update_list r f s) = ab_configs s"
  "ab_hosts (ab_update_list r f s) = ab_hosts s" "ab_lists (ab_update_list r f s) = (ab_lists s)[r := f (ab_lists s ! r)]"
  by (simp_all add: ab_update_list_def)

lemma ab_inv_update_list:
  assumes "ab_inv s"
    and "r < length (ab_lists s) \<Longrightarrow> cell_ok (length (ab_hosts s)) (f (ab_lists s ! r))"
    and "r < length (ab_lists s) \<Longrightarrow> set (tl_hosts (f (ab_lists s ! r))) \<subseteq> set (tl_hosts (ab_lists s ! r)) \<union> {length (ab_hosts s)..}"
  shows "ab_inv (ab_update_list r f s)"
proof (rule ab_inv_heap [OF assms(1)])
  show "heap_ok (length (ab_hosts (ab_update_list r f s))) (ab_lists (ab_update_list r f s))"
    using assms by (auto simp: ab_inv_def intro!: heap_ok_update [of "length (ab_hosts s)"])
qed (use assms(1) in \<open>simp_all add: ab_inv_def snack_ok_def\<close>)

section \<open>Every handler keeps the invariant\<close>

lemma ab_inv_shown: "ab_inv s \<Longrightarrow> ab_rows s = Some rows \<Longrightarrow> r \<in> set rows \<Longrightarrow> r < length (ab_lists s)"
  by (simp add: ab_inv_def shown_ok_def)

lemma ab_inv_selected: "ab_inv s \<Longrightarrow> ab_target_selection s = Some r \<Longrightarrow> r < length (ab_lists s)"
  by (auto simp: ab_inv_def shown_ok_def split: option.splits)

lemma ab_row_inv:
  assumes "ab_inv s" "\<And>r. r < length (ab_lists s) \<Longrightarrow> ab_rows s \<noteq> None \<Longrightarrow> r \<in> set (the (ab_rows s)) \<Longrightarrow> ab_inv (f r s)"
  shows "ab_inv (ab_row i f s)"
  using assms(1) by (auto simp: ab_row_def intro!: assms(2) intro: ab_inv_shown split: option.splits)

lemma ab_host_inv:
  assumes inv: "ab_inv s"
    and f: "\<And>r h. r < length (ab_lists s) \<Longrightarrow> h < length (ab_hosts s) \<Longrightarrow> h \<in> set (tl_hosts (ab_lists s ! r)) \<Longrightarrow> ab_inv (f r h s)"
  shows "ab_inv (ab_on_host i n f s)"
  unfolding ab_on_host_def
proof (rule ab_row_inv [OF inv])
  fix r assume r: "r < length (ab_lists s)"
  with inv have "cell_ok (length (ab_hosts s)) (ab_lists s ! r)"
    by (auto simp: ab_inv_def intro: heap_ok_cell)
  then show "ab_inv (let hs = tl_hosts (ab_lists s ! r) in if n < length hs then f r (hs ! n) s else s)"
    using f [OF r] inv by (simp add: cell_ok_def Let_def)
qed

lemma ab_inv_select [intro]:
  "ab_inv s \<Longrightarrow> c \<in> set (ab_configs s) \<Longrightarrow> ab_inv (ab_update_selected_config c s)"
  "ab_inv s \<Longrightarrow> ab_rows s \<noteq> None \<Longrightarrow> r \<in> set (the (ab_rows s)) \<Longrightarrow> ab_inv (ab_update_selected_ip_target r s)"
  by (auto simp: ab_inv_defs ab_update_selected_config_def ab_update_selected_ip_target_def snack_ok_def chosen_ok_def shown_ok_def)

lemma ab_inv_cell: "ab_inv s \<Longrightarrow> r < length (ab_lists s) \<Longrightarrow> cell_ok (length (ab_hosts s)) (ab_lists s ! r)"
  by (auto simp: ab_inv_def intro: heap_ok_cell)

lemma ab_inv_toggle [intro]: "ab_inv s \<Longrightarrow> ab_inv (ab_toggle_host_list_expansion r s)"
  unfolding ab_toggle_host_list_expansion_def
  by (rule ab_inv_update_list) (use ab_inv_cell [of s r] in \<open>auto simp: cell_ok_def split: option.splits\<close>)

lemma ab_inv_keep: "ab_inv s \<Longrightarrow> ab_keep_target r h s = Inr s' \<Longrightarrow> ab_inv s'"
  by (auto simp: ab_keep_target_def split: option.splits intro!: ab_inv_update_list)
    (auto dest!: ab_inv_cell [of s r] simp: cell_ok_def)

lemma ab_keep_frame:
  "ab_keep_target r h s = Inr s' \<Longrightarrow> length (ab_lists s') = length (ab_lists s) \<and> ab_hosts s' = ab_hosts s"
  by (auto simp: ab_keep_target_def split: option.splits)

lemma ab_inv_credentials:
  "ab_inv s \<Longrightarrow> r < length (ab_lists s) \<Longrightarrow> (\<forall>q. h = Some q \<longrightarrow> q < length (ab_hosts s)) \<Longrightarrow> ab_inv (ab_get_credentials t i a c r h s)"
  by (auto simp: ab_get_credentials_def split: option.splits)

lemma ab_inv_keep_then_ask:
  "ab_inv s \<Longrightarrow> r < length (ab_lists s) \<Longrightarrow> h < length (ab_hosts s) \<Longrightarrow>
     ab_inv (settle s (smap (ab_get_credentials t i a c r (Some h)) (ab_keep_target r h s)))"
  using ab_inv_keep [of s r h] ab_keep_frame [of r h s]
  by (cases "ab_keep_target r h s") (auto simp: settle_def intro!: ab_inv_credentials)

lemmas ab_act_defs =
  ab_ngOnInit_def ab_api_get_app_configs_def ab_api_get_ip_target_list_def ab_api_get_configs_def ab_api_get_chart_status_def
  ab_show_configuration_def ab_download_agent_installer_def ab_delete_config_dialog_def ab_confirm_dialog_def
  ab_new_configuration_def ab_open_config_text_editor_def ab_delete_target_dialog_def ab_new_ip_target_list_def
  ab_add_hosts_dialog_def ab_remove_host_dialog_def ab_agents_install_def ab_agents_uninstall_def ab_websocket_refresh_def

lemma ab_inv_requests [simp, intro]:
  assumes "ab_inv s"
  shows "ab_inv (ab_ngOnInit s)" "ab_inv (ab_websocket_refresh s)" "ab_inv (ab_show_configuration c s)"
    "ab_inv (ab_download_agent_installer c s)" "ab_inv (ab_delete_config_dialog c s)" "ab_inv (ab_new_configuration s)"
    "ab_inv (ab_open_config_text_editor c n v s)" "ab_inv (ab_new_ip_target_list s)"
  by (simp_all add: ab_act_defs assms ab_inv_call ab_inv_open Let_def ab_custom_app_configs_def settle_def split: option.split sum.split)

lemma ab_inv_dialogs [simp, intro]:
  assumes "ab_inv s" "r < length (ab_lists s)"
  shows "ab_inv (ab_delete_target_dialog r s)" "ab_inv (ab_add_hosts_dialog r s)" "ab_inv (ab_agents_install c r s)"
    "ab_inv (ab_agents_uninstall c r s)"
    "h < length (ab_hosts s) \<Longrightarrow> ab_inv (ab_remove_host_dialog r h i s)"
    "h < length (ab_hosts s) \<Longrightarrow> ab_inv (ab_agent_uninstall c r h s)"
    "h < length (ab_hosts s) \<Longrightarrow> ab_inv (ab_agent_reinstall c r h s)"
  using assms
  by (simp_all add: ab_delete_target_dialog_def ab_add_hosts_dialog_def ab_agents_install_def ab_agents_uninstall_def
      ab_remove_host_dialog_def ab_confirm_dialog_def ab_agent_uninstall_def ab_agent_reinstall_def
      ab_inv_open ab_inv_credentials ab_inv_keep_then_ask)

lemma ab_config_inv: "ab_inv s \<Longrightarrow> (\<And>c. c \<in> set (ab_configs s) \<Longrightarrow> ab_inv (f c s)) \<Longrightarrow> ab_inv (ab_config i f s)"
  by (simp add: ab_config_def)

lemma ab_with_config_inv: "ab_inv s \<Longrightarrow> (\<And>c. ab_inv (f c s)) \<Longrightarrow> ab_inv (ab_with_config f s)"
  by (simp add: ab_with_config_def split: option.split)

lemma ab_handle_inv: "ab_inv s \<Longrightarrow> ab_inv (ab_handle a s)"
  by (cases a)
    (auto intro!: ab_row_inv ab_host_inv ab_config_inv ab_with_config_inv ab_inv_dialogs(3,4) simp: Let_def ab_inv_selected
      split: option.split sum.split bool.split)

lemma ab_inv_perform: "ab_inv s \<Longrightarrow> ab_inv (ab_perform_agent_action a b s)"
  by (simp add: ab_perform_agent_action_def ab_inv_call)

lemmas ab_closed_defs =
  ab_get_credentials_closed_def ab_delete_config_dialog_closed_def ab_editor_closed_def ab_delete_target_dialog_closed_def
  ab_new_configuration_closed_def ab_new_ip_target_list_closed_def ab_add_hosts_dialog_closed_def ab_remove_host_dialog_closed_def
  ab_api_delete_config_def ab_api_save_config_def ab_api_delete_target_def ab_api_save_target_def ab_api_add_host_def
  ab_api_remove_host_def

lemma ab_closed_inv:
  "ab_inv s \<Longrightarrow> dialog_ok (length (ab_lists s)) (length (ab_hosts s)) d \<Longrightarrow> ab_inv (ab_closed d v s)"
  by (cases d) (auto simp: ab_closed_defs settle_def smap_Inr_iff ab_inv_call intro: ab_inv_perform split: sum.split)

lemma ab_inv_new_row:
  assumes "ab_inv s"
  shows "ab_inv (ab_new_row v s)"
proof (rule ab_inv_heap [OF assms])
  let ?n = "length (ab_hosts s)" let ?k = "length (arr_elems (js_get v ''targets''))"
  have "cell_ok (?n + ?k) \<lparr>tl_config = c, tl_targets = (case js_get v ''targets'' of JArr _ \<Rightarrow> Some [?n ..< ?n + ?k] | _ \<Rightarrow> None),
      tl_hosts = [?n ..< ?n + ?k], tl_expanded = False\<rparr>" for c
    by (auto simp: cell_ok_def split: js.split)
  then show "heap_ok (length (ab_hosts (ab_new_row v s))) (ab_lists (ab_new_row v s))"
    using assms by (auto simp: ab_inv_def ab_new_row_def Let_def intro!: heap_ok_append [of ?n])
qed (use assms in \<open>simp_all add: ab_inv_def ab_new_row_def Let_def snack_ok_def\<close>)

lemma ab_new_row_frame [simp]:
  "length (ab_lists (ab_new_row v s)) = Suc (length (ab_lists s))" "snack_ok (ab_new_row v s) = snack_ok s"
  "sent (ab_new_row v s) = sent s" "trace (ab_new_row v s) = trace s"
  by (simp_all add: ab_new_row_def Let_def snack_ok_def sent_def)

lemma ab_new_rows:
  "ab_inv s \<Longrightarrow> ab_inv (fold ab_new_row vs s)"
  "length (ab_lists (fold ab_new_row vs s)) = length (ab_lists s) + length vs"
  "trace (fold ab_new_row vs s) = trace s"
  by (induction vs arbitrary: s) (simp_all add: ab_inv_new_row)

lemma ab_inv_set_target_lists [simp, intro]:
  assumes "ab_inv s"
  shows "ab_inv (ab_set_target_lists vs s)"
proof -
  have "ab_inv (fold ab_new_row vs s)" by (rule ab_new_rows(1) [OF assms])
  then show ?thesis
    using ab_new_rows(2) [of vs s] by (simp add: ab_set_target_lists_def ab_inv_defs snack_ok_def shown_ok_def)
qed

lemma ab_inv_update_host: "ab_inv s \<Longrightarrow> ab_inv (ab_update_host us h s)"
  by (simp add: ab_update_host_def ab_inv_defs snack_ok_def split: option.split)

lemma ab_inv_update_hosts: "ab_inv s \<Longrightarrow> ab_inv (fold (ab_update_host us) hs s)"
  by (induction hs arbitrary: s) (simp_all add: ab_inv_update_host)

lemma ab_inv_refresh_rows: "ab_inv s \<Longrightarrow> ab_inv (snd (ab_refresh_rows response rs s))"
proof (induction rs arbitrary: s)
  case (Cons r rs)
  have "ab_inv (snd (ab_refresh_row response r s))"
    using Cons.prems
    by (auto simp: ab_refresh_row_def ab_update_targets_def intro: ab_inv_update_hosts split: option.split js.split)
  then show ?case by (simp add: snd_and_then Cons.IH)
qed simp

lemma ab_inv_load [simp, intro]: "ab_inv s \<Longrightarrow> ab_inv (ab_load_targets b response s)"
  by (simp add: ab_load_targets_def ab_inv_refresh_rows split: option.split)

lemma ab_inv_drop [simp, intro]: "ab_inv s \<Longrightarrow> ab_inv (ab_drop_host r i s)"
  unfolding ab_drop_host_def ab_show_targets_def
  by (rule ab_inv_update_list)
    (use ab_inv_cell [of s r] set_remove_nth [of i "tl_hosts (ab_lists s ! r)"] in
      \<open>auto simp: cell_ok_def distinct_remove_nth\<close>)

section \<open>Hosts without duplicates\<close>

lemma distinct_hosts_filter:
  assumes "distinct_hosts val hs = Inr ks"
  shows "\<exists>keep. length keep = length hs \<and> ks = map snd (filter fst (zip keep hs))"
proof -
  obtain keep where "mapS (\<lambda>(i, h). is_host_index_zero (val h) i (map val hs)) (enumerate 0 hs) = Inr keep"
    "ks = map snd (filter fst (zip keep hs))"
    using assms by (auto simp: distinct_hosts_def smap_Inr_iff)
  with mapS_length [OF this(1)] show ?thesis by auto
qed

lemma zip_filter_set: "set (map snd (filter fst (zip keep hs))) \<subseteq> set hs"
  by (auto dest: set_zip_rightD)

lemma zip_filter_distinct: "distinct hs \<Longrightarrow> distinct (map snd (filter fst (zip keep hs)))"
proof (induction keep arbitrary: hs)
  case (Cons b keep)
  then show ?case
    using zip_filter_set [of keep "tl hs"] by (cases hs) auto
qed simp

lemma distinct_hosts_distinct: "distinct_hosts val hs = Inr ks \<Longrightarrow> distinct hs \<Longrightarrow> distinct ks \<and> set ks \<subseteq> set hs"
  by (auto dest!: distinct_hosts_filter simp: zip_filter_distinct del: subsetI intro: zip_filter_set)

lemma ab_inv_show_targets:
  assumes inv: "ab_inv s" and s': "s' = s\<lparr>ab_hosts := ab_hosts s @ vs\<rparr>"
    and hs: "\<And>q. hs = Some q \<Longrightarrow> r < length (ab_lists s) \<Longrightarrow>
      distinct q \<and> set q \<subseteq> set (tl_hosts (ab_lists s ! r)) \<union> {length (ab_hosts s) ..< length (ab_hosts s) + length vs}"
  shows "ab_inv (ab_show_targets r hs s')"
proof (rule ab_inv_heap [OF inv])
  let ?c = "(ab_lists s ! r)\<lparr>tl_hosts := (case hs of None \<Rightarrow> [] | Some q \<Rightarrow> q), tl_targets := hs\<rparr>"
  have "heap_ok (length (ab_hosts s) + length vs) ((ab_lists s)[r := ?c])"
  proof (rule heap_ok_update [of "length (ab_hosts s)"])
    assume r: "r < length (ab_lists s)"
    then have "\<forall>h \<in> set (tl_hosts (ab_lists s ! r)). h < length (ab_hosts s)"
      using ab_inv_cell [OF inv] by (simp add: cell_ok_def)
    then show "cell_ok (length (ab_hosts s) + length vs) ?c"
      using hs [OF _ r] by (cases hs) (auto simp: cell_ok_def dest!: subsetD)
    show "set (tl_hosts ?c) \<subseteq> set (tl_hosts (ab_lists s ! r)) \<union> {length (ab_hosts s)..}"
      using hs [OF _ r] by (cases hs) auto
  qed (use inv in \<open>simp_all add: ab_inv_def\<close>)
  then show "heap_ok (length (ab_hosts (ab_show_targets r hs s'))) (ab_lists (ab_show_targets r hs s'))"
    by (simp add: ab_show_targets_def s')
qed (use inv in \<open>simp_all add: ab_show_targets_def s' ab_inv_def snack_ok_def\<close>)

lemma ab_inv_add_targets:
  assumes inv: "ab_inv s" and add: "ab_add_targets r response s = Inr s'"
  shows "ab_inv s'"
proof -
  let ?vs = "arr_elems (js_get response ''targets'')" let ?n = "length (ab_hosts s)"
  let ?new = "[?n ..< ?n + length ?vs]" let ?s1 = "s\<lparr>ab_hosts := ab_hosts s @ ?vs\<rparr>"
  show ?thesis
  proof (cases "tl_targets (ab_lists s ! r)")
    case None
    with add have "s' = ab_show_targets r (case js_get response ''targets'' of JArr _ \<Rightarrow> Some ?new | _ \<Rightarrow> None) ?s1"
      by (simp add: ab_add_targets_def ab_new_hosts_def)
    moreover have "ab_inv (ab_show_targets r (case js_get response ''targets'' of JArr _ \<Rightarrow> Some ?new | _ \<Rightarrow> None) ?s1)"
      by (rule ab_inv_show_targets [OF inv refl]) (auto split: js.splits)
    ultimately show ?thesis by simp
  next
    case (Some ts)
    with add obtain hs where hs: "distinct_hosts (ab_host ?s1) (ts @ ?new) = Inr hs"
      and s': "s' = ab_show_targets r (Some hs) ?s1"
      by (auto simp: ab_add_targets_def ab_new_hosts_def smap_Inr_iff split: js.splits)
    have "distinct hs \<and> set hs \<subseteq> set (tl_hosts (ab_lists s ! r)) \<union> {?n ..< ?n + length ?vs}" if "r < length (ab_lists s)"
    proof -
      have "distinct ts" and sub: "set ts \<subseteq> set (tl_hosts (ab_lists s ! r))"
        and "\<forall>h \<in> set (tl_hosts (ab_lists s ! r)). h < ?n"
        using ab_inv_cell [OF inv that] Some by (simp_all add: cell_ok_def)
      then have "distinct (ts @ ?new)" by fastforce
      then show ?thesis using distinct_hosts_distinct [OF hs] sub by auto
    qed
    then show ?thesis unfolding s' by (auto intro!: ab_inv_show_targets [OF inv refl])
  qed
qed

lemmas ab_answer_defs =
  ab_api_get_chart_status_answer_def ab_api_generate_answer_def ab_api_save_config_answer_def ab_api_delete_config_answer_def
  ab_api_get_configs_answer_def ab_api_get_ip_target_list_answer_def ab_api_save_target_answer_def ab_api_delete_target_answer_def
  ab_api_add_host_answer_def ab_api_remove_host_answer_def ab_api_install_answer_def ab_api_agents_uninstall_answer_def
  ab_api_agent_uninstall_answer_def ab_api_reinstall_answer_def ab_api_get_app_configs_answer_def ab_content_answer_def
  ab_post_content_answer_def

lemma ab_inv_add_answer: "ab_inv s \<Longrightarrow> ab_inv (settle s (smap (ab_success m) (ab_add_targets r response s)))"
  by (cases "ab_add_targets r response s") (auto simp: settle_def intro: ab_inv_add_targets)

lemma ab_answer_inv: "ab_inv s \<Longrightarrow> ab_inv (ab_answer k r s)"
  by (cases k) (auto simp: ab_answer_defs ab_inv_open intro!: ab_inv_answered ab_inv_add_answer split: list.split)

interpretation ab: async_component ab_handle ab_answer ab_closed ab_inv
proof
  fix s e i r v
  show "ab_inv s \<Longrightarrow> ab_inv (ab_handle e s)" by (rule ab_handle_inv)
  show "ab_inv (ab_answer (requests s ! i) r (s\<lparr>requests := remove_nth i (requests s)\<rparr>))"
    if "ab_inv s" "i < length (requests s)"
    by (rule ab_answer_inv) (simp add: that set_remove_nth)
  show "ab_inv (ab_closed (dialogs s ! i) v (s\<lparr>dialogs := remove_nth i (dialogs s)\<rparr>))"
    if "ab_inv s" "i < length (dialogs s)"
  proof (rule ab_closed_inv)
    show "ab_inv (s\<lparr>dialogs := remove_nth i (dialogs s)\<rparr>)" by (simp add: that set_remove_nth)
    show "dialog_ok (length (ab_lists (s\<lparr>dialogs := remove_nth i (dialogs s)\<rparr>)))
        (length (ab_hosts (s\<lparr>dialogs := remove_nth i (dialogs s)\<rparr>))) (dialogs s ! i)"
      using that by (simp add: ab_inv_defs)
  qed
qed

section \<open>What the page guarantees\<close>

text \<open>C18: in every state the page can reach, the selected target configuration and the selected installer
  configuration are rows of the tables, the rows, waiting requests and open dialogs refer to existing
  objects, no host object stands twice in the list of a configuration or in the lists of two configurations, the
  targets of a configuration are among the host objects it shows, and no snack bar is dismissed twice. Two host
  objects may still have the same name: an answer is compared with the hosts already listed
  (\<open>distinct_hosts\<close>), and the lists of the first load are taken as they are.\<close>

theorem ab_always:
  "let s = fold ab_step es ab_constructor
   in shown_ok (length (ab_lists s)) (ab_rows s) (ab_target_selection s) \<and> chosen_ok (ab_configs s) (ab_config_selection s) \<and>
      waiting_ok s \<and> heap_ok (length (ab_hosts s)) (ab_lists s) \<and> snack_ok s"
proof -
  have "ab_inv ab_constructor"
    by (simp add: ab_constructor_def ab_inv_defs snack_ok_def shown_ok_def chosen_ok_def heap_ok_def)
  from ab.machine.run_inv [OF this, of es] show ?thesis
    by (simp add: ab_step_def ab_inv_def Let_def)
qed

section \<open>Requests that act on agents or delete\<close>

fun acts_on_agents :: "effect \<Rightarrow> bool" where
  "acts_on_agents (Http POST url _) = (url \<in> {''/api/agent/install'', ''/api/agent/uninstall'', ''/api/agent/reinstall''})"
| "acts_on_agents (Http DELETE _ _) = True"
| "acts_on_agents _ = False"

definition agent_requests :: "'a world_scheme \<Rightarrow> effect list" where
  "agent_requests s = filter acts_on_agents (sent s)"

definition action_url :: "string \<Rightarrow> string option" where
  "action_url = map_of
     [(''install'', ''/api/agent/install''), (''reinstall'', ''/api/agent/reinstall''),
      (''uninstall'', ''/api/agent/uninstall''), (''uninstalls'', ''/api/agent/uninstall'')]"

text \<open>What the closing of a dialog sends: nothing unless it is confirmed.\<close>

fun confirmed_by :: "ab_dialog \<Rightarrow> js \<Rightarrow> ab_state \<Rightarrow> effect list" where
  "confirmed_by (AB_Credentials action c r h) v s =
     (if notUndefNull v \<and> truthy (js_get v ''valid'') then
        case (new_WindowsCredentialsClass (js_get v ''rawValue''), action_url action) of
          (Inr credentials, Some url) \<Rightarrow> [Http POST url (ab_agent_body c r h credentials s)]
        | _ \<Rightarrow> []
      else [])"
| "confirmed_by (AB_ConfirmDeleteConfig c) v s =
     (if v = JStr ''Confirm'' then [Http DELETE (''/api/agent/config/'' @ str (js_get c ''_id'')) JUndef] else [])"
| "confirmed_by (AB_ConfirmDeleteTarget r) v s =
     (if v = JStr ''Confirm'' then [Http DELETE (''/api/agent/targets/'' @ str (ab_field s r ''name'')) JUndef] else [])"
| "confirmed_by (AB_ConfirmRemoveHost r h i) v s =
     (if v = JStr ''Confirm''
      then [Http DELETE (''/api/agent/host/'' @ str (ab_hostname s h) @ ''/'' @ str (ab_field s r ''_id'')) JUndef] else [])"
| "confirmed_by _ v s = []"

definition ab_confirmed :: "ab_action event \<Rightarrow> ab_state \<Rightarrow> effect list" where
  "ab_confirmed ev s =
     (case ev of Closed i v \<Rightarrow> if i < length (dialogs s) then confirmed_by (dialogs s ! i) v s else [] | _ \<Rightarrow> [])"

lemma agent_requests_frame [simp]:
  "agent_requests (displaySnackBar m c s) = agent_requests s" "agent_requests (report_error msg s) = agent_requests s"
  "agent_requests (report_error_or_message msg e s) = agent_requests s"
  "agent_requests (generate_return_success_snackbar_message msg c s) = agent_requests s"
  "\<not> is_http ef \<Longrightarrow> agent_requests (emit ef s) = agent_requests s"
  by (simp_all add: agent_requests_def)

lemma agent_requests_async [simp]:
  "agent_requests (call ep k t) = agent_requests t @ filter acts_on_agents [Http (ep_method ep) (ep_url ep) (ep_body ep)]"
  "agent_requests (open_dialog n v d t) = agent_requests t"
  "agent_requests (t\<lparr>requests := ks\<rparr>) = agent_requests t" "agent_requests (t\<lparr>dialogs := ds\<rparr>) = agent_requests t"
  "agent_requests (t\<lparr>async.more := m\<rparr>) = agent_requests t"
  for t :: "('k, 'd, 'a) async_scheme"
  by (simp_all add: agent_requests_def)

lemma agent_requests_trace: "trace s' = trace s \<Longrightarrow> agent_requests s' = agent_requests s"
  by (simp add: agent_requests_def sent_def)

lemma agent_requests_answered:
  assumes "\<And>x. agent_requests (next_cb x s) = agent_requests s" "\<And>e s. agent_requests (error_cb e s) = agent_requests s"
  shows "agent_requests (answered ep next_cb error_cb r s) = agent_requests s"
  by (rule answered_cases [of r ep next_cb error_cb s]) (use assms in \<open>simp_all add: agent_requests_def\<close>)

lemma ab_trace_updates [simp]:
  "trace (ab_update_selected_config c s) = trace s" "trace (ab_update_selected_ip_target r s) = trace s"
  "trace (ab_toggle_host_list_expansion r s) = trace s" "trace (ab_set_configs cs s) = trace s"
  "trace (ab_set_target_lists vs s) = trace s" "trace (ab_show_targets r hs s) = trace s" "trace (ab_drop_host r i s) = trace s"
  "trace (ab_update_host us h s) = trace s"
  by (simp_all add: ab_update_selected_config_def ab_update_selected_ip_target_def ab_toggle_host_list_expansion_def
      ab_set_configs_def ab_set_target_lists_def ab_new_rows ab_show_targets_def ab_drop_host_def ab_update_host_def
      split: option.split)

lemma ab_trace_hosts [simp]: "trace (fold (ab_update_host us) hs s) = trace s"
  by (induction hs arbitrary: s) simp_all

lemma ab_trace_refresh [simp]: "trace (snd (ab_refresh_rows response rs s)) = trace s"
proof (induction rs arbitrary: s)
  case (Cons r rs)
  have "trace (snd (ab_refresh_row response r s)) = trace s"
    by (auto simp: ab_refresh_row_def ab_update_targets_def split: option.split js.split)
  then show ?case
    by (auto intro: snd_and_then [where P = "\<lambda>t. trace t = trace s"] simp: Cons.IH)
qed simp

lemma ab_acts_updates [simp]:
  "agent_requests (ab_update_selected_config c s) = agent_requests s"
  "agent_requests (ab_update_selected_ip_target r s) = agent_requests s"
  "agent_requests (ab_toggle_host_list_expansion r s) = agent_requests s"
  "agent_requests (ab_set_configs cs s) = agent_requests s" "agent_requests (ab_set_target_lists vs s) = agent_requests s"
  "agent_requests (ab_drop_host r i s) = agent_requests s" "agent_requests (ab_load_targets b vs s) = agent_requests s"
  "agent_requests (ab_update_list r f s) = agent_requests s" "agent_requests (s\<lparr>is_downloading := d\<rparr>) = agent_requests s" "agent_requests (s\<lparr>ab_app_configs := ac\<rparr>) = agent_requests s"
  by (rule agent_requests_trace, simp add: ab_load_targets_def split: option.split)+

lemma ab_acts_keep [simp]:
  "agent_requests (settle s (smap (ab_get_credentials t i a c r h) (ab_keep_target r' q s))) = agent_requests s"
proof -
  have "agent_requests s' = agent_requests s" if "ab_keep_target r' q s = Inr s'" for s'
    by (rule agent_requests_trace) (use that in \<open>auto simp: ab_keep_target_def split: option.splits\<close>)
  then show ?thesis by (cases "ab_keep_target r' q s") (simp_all add: settle_def ab_get_credentials_def)
qed

lemma ab_acts_add [simp]: "agent_requests (settle s (smap (ab_success m) (ab_add_targets r response s))) = agent_requests s"
proof -
  have "agent_requests s' = agent_requests s" if "ab_add_targets r response s = Inr s'" for s'
    by (rule agent_requests_trace)
      (use that in \<open>auto simp: ab_add_targets_def ab_new_hosts_def smap_Inr_iff Let_def split: option.splits\<close>)
  then show ?thesis by (cases "ab_add_targets r response s") (simp_all add: settle_def)
qed

lemma ab_acts_row:
  "(\<And>r. agent_requests (f r s) = agent_requests s) \<Longrightarrow> agent_requests (ab_row i f s) = agent_requests s"
  "(\<And>r h. agent_requests (g r h s) = agent_requests s) \<Longrightarrow> agent_requests (ab_on_host i n g s) = agent_requests s"
  "(\<And>c. agent_requests (k c s) = agent_requests s) \<Longrightarrow> agent_requests (ab_config i k s) = agent_requests s"
  "(\<And>c. agent_requests (k c s) = agent_requests s) \<Longrightarrow> agent_requests (ab_with_config k s) = agent_requests s"
  by (simp_all add: ab_row_def ab_on_host_def ab_config_def ab_with_config_def Let_def split: option.split)

lemma ab_acts_requests [simp]:
  "agent_requests (ab_ngOnInit s) = agent_requests s" "agent_requests (ab_websocket_refresh s) = agent_requests s"
  "agent_requests (ab_download_agent_installer c s) = agent_requests s"
  "agent_requests (ab_open_config_text_editor c n v s) = agent_requests s"
  by (simp_all add: ab_act_defs get_app_configs_def agent_get_ip_target_list_def agent_get_configs_def get_chart_statuses_def
      agent_generate_def get_config_content_def split: sum.split)

lemma ab_acts_dialogs [simp]:
  "agent_requests (ab_show_configuration c s) = agent_requests s" "agent_requests (ab_delete_config_dialog c s) = agent_requests s"
  "agent_requests (ab_new_configuration s) = agent_requests s" "agent_requests (ab_new_ip_target_list s) = agent_requests s"
  "agent_requests (ab_delete_target_dialog r s) = agent_requests s" "agent_requests (ab_add_hosts_dialog r s) = agent_requests s"
  "agent_requests (ab_remove_host_dialog r h i s) = agent_requests s" "agent_requests (ab_agents_install c r s) = agent_requests s"
  "agent_requests (ab_agents_uninstall c r s) = agent_requests s" "agent_requests (ab_agent_uninstall c r h s) = agent_requests s"
  "agent_requests (ab_agent_reinstall c r h s) = agent_requests s"
  by (simp_all add: ab_act_defs ab_custom_app_configs_def settle_def Let_def ab_get_credentials_def split: option.split)
    (simp_all add: ab_agent_uninstall_def ab_agent_reinstall_def)

lemma ab_acts_handle [simp]: "agent_requests (ab_handle a s) = agent_requests s"
  by (cases a) (simp_all add: ab_acts_row Let_def split: option.split sum.split bool.split)

lemma ab_acts_answer [simp]: "agent_requests (ab_answer k r s) = agent_requests s"
  by (cases k) (auto simp: ab_answer_defs intro!: agent_requests_answered split: list.split)

lemma ab_acts_closed: "agent_requests (ab_closed d v s) = agent_requests s @ confirmed_by d v s"
proof (cases d)
  case (AB_Credentials action c r h)
  then show ?thesis
    by (auto simp: ab_get_credentials_closed_def settle_def ab_perform_agent_action_def action_url_def agents_install_def
        agent_reinstall_def agent_uninstall_def agents_uninstall_def split: sum.split)
qed (auto simp: ab_closed_defs agent_delete_config_def agent_delete_ip_target_list_def agent_remove_host_from_ip_target_list_def
    post_config_content_def agent_save_config_def agent_save_ip_target_list_def agent_add_host_to_ip_target_list_def ab_hostname_def)

lemma ab_host_dialogs [simp]: "ab_host (s\<lparr>dialogs := ds\<rparr>) = ab_host s"
  by (simp add: ab_host_def fun_eq_iff)

lemma ab_agent_body_dialogs [simp]: "ab_agent_body c r h w (s\<lparr>dialogs := ds\<rparr>) = ab_agent_body c r h w s"
  by (simp add: ab_agent_body_def ab_list_js_def cong: option.case_cong)

lemma confirmed_by_dialogs [simp]: "confirmed_by d v (s\<lparr>dialogs := ds\<rparr>) = confirmed_by d v s"
  by (cases d) (simp_all add: ab_hostname_def ab_field_def split: sum.split option.split)

text \<open>C8: agents are installed, reinstalled or uninstalled, and configurations and hosts deleted, exactly
  when the dialog opened for them is confirmed: by the form with the credentials or with Confirm. The
  request names the captured objects with the values they have when the dialog is closed.\<close>

theorem ab_actions_confirmed: "agent_requests (ab_step ev s) = agent_requests s @ ab_confirmed ev s"
  by (simp add: ab_step_def async_step_def ab_confirmed_def ab_acts_closed split: event.split)

section \<open>Shared objects\<close>

lemma ab_keep_lookup:
  assumes "tl_targets (ab_lists s ! r) = Some ts"
  shows "ab_keep_target r h s = Inr (ab_update_list r
    (\<lambda>c. c\<lparr>tl_targets := Some (filter (\<lambda>q. strict_eq (ab_hostname s q) (ab_hostname s h)) ts)\<rparr>) s)"
  using assms by (simp add: ab_keep_target_def)

lemma ab_open_fields [simp]:
  "ab_lists (open_dialog n v d s) = ab_lists s" "ab_hosts (open_dialog n v d s) = ab_hosts s"
  "ab_rows (open_dialog n v d s) = ab_rows s" "ab_target_selection (open_dialog n v d s) = ab_target_selection s"
  "ab_config_selection (open_dialog n v d s) = ab_config_selection s"
  for s :: ab_state
  using ab_more [of "open_dialog n v d s" s] by simp_all

lemma ab_host_frame [simp]:
  "ab_host (open_dialog n v d s) = ab_host s" "ab_host (ab_update_list r f s) = ab_host s"
  for s :: ab_state
  by (simp_all add: ab_host_def fun_eq_iff)

lemma remove_nth_last [simp]: "remove_nth (length xs) (xs @ [x]) = xs"
  by (simp add: remove_nth_def)

lemma ab_cancel:
  assumes "u = ab_step (Closed (length (dialogs t)) JUndef) (ab_get_credentials ti m a c r h t)"
  shows "agent_requests u = agent_requests t" "dialogs u = dialogs t" "ab_target_selection u = ab_target_selection t"
    "ab_config_selection u = ab_config_selection t" "ab_host u = ab_host t" "ab_lists u = ab_lists t"
  unfolding assms
  by (simp_all add: ab_step_def async_step_def ab_get_credentials_def ab_get_credentials_closed_def)

text \<open>opening the dialog that uninstalls one host drops every other host from the targets of the
  selected configuration, and cancelling the dialog does not bring them back. The table still shows all hosts,
  but a deployment confirmed afterwards installs the one host only.\<close>

theorem ab_cancelled_uninstall_narrows:
  fixes s :: ab_state
  assumes rows: "ab_rows s = Some rows" "i < length rows" "ab_target_selection s = Some (rows ! i)" "rows ! i < length (ab_lists s)"
    and config: "ab_config_selection s = Some c"
    and host: "tl_targets (ab_lists s ! (rows ! i)) = Some ts" "hs = tl_hosts (ab_lists s ! (rows ! i))" "p + j < length hs"
    and form: "notUndefNull v" "truthy (js_get v ''valid'')" "new_WindowsCredentialsClass (js_get v ''rawValue'') = Inr w"
    and s': "s' = fold ab_step
      [Act (AB_UninstallClick i p j), Closed (length (dialogs s)) JUndef, Act AB_InstallClick, Closed (length (dialogs s)) v] s"
  shows "tl_hosts (ab_lists s' ! (rows ! i)) = hs \<and>
    agent_requests s' = agent_requests s @
      [Http POST ''/api/agent/install'' (agent_interface c (js_set (tl_config (ab_lists s ! (rows ! i))) ''targets''
        (JArr (map (ab_host s) (filter (\<lambda>q. strict_eq (ab_hostname s q) (ab_hostname s (hs ! (p + j)))) ts)))) w)]"
proof -
  let ?r = "rows ! i" let ?kept = "filter (\<lambda>q. strict_eq (ab_hostname s q) (ab_hostname s (hs ! (p + j)))) ts"
  define t where "t = ab_update_list ?r (\<lambda>c. c\<lparr>tl_targets := Some ?kept\<rparr>) s"
  have t: "agent_requests t = agent_requests s" "dialogs t = dialogs s" "ab_target_selection t = Some ?r"
    "ab_config_selection t = Some c" "ab_host t = ab_host s" "tl_hosts (ab_lists t ! ?r) = hs"
    "tl_config (ab_lists t ! ?r) = tl_config (ab_lists s ! ?r)" "tl_targets (ab_lists t ! ?r) = Some ?kept"
    using rows config host by (simp_all add: t_def)
  have click: "ab_step (Act (AB_UninstallClick i p j)) s =
      ab_get_credentials (''Uninstall Windows host '' @ str (ab_hostname s (hs ! (p + j))))
        (dialog_message ''uninstall'' (ab_hostname s (hs ! (p + j)))) ''uninstall'' c ?r (Some (hs ! (p + j))) t"
    using rows config host
    by (simp add: ab_step_def async_step_def ab_with_config_def ab_on_host_def ab_row_def ab_agent_uninstall_def Let_def
        ab_keep_lookup settle_def t_def)
  define u where "u = ab_step (Closed (length (dialogs s)) JUndef) (ab_step (Act (AB_UninstallClick i p j)) s)"
  have u: "u = ab_step (Closed (length (dialogs t)) JUndef)
      (ab_get_credentials (''Uninstall Windows host '' @ str (ab_hostname s (hs ! (p + j))))
        (dialog_message ''uninstall'' (ab_hostname s (hs ! (p + j)))) ''uninstall'' c ?r (Some (hs ! (p + j))) t)"
    by (simp add: u_def click t)
  note u = ab_cancel [OF u, unfolded t]
  have "s' = ab_step (Closed (length (dialogs s)) v) (ab_step (Act AB_InstallClick) u)"
    by (simp add: s' u_def)
  also have "ab_step (Act AB_InstallClick) u = ab_agents_install c ?r u"
    by (simp add: ab_step_def async_step_def ab_with_config_def u)
  finally have "s' = ab_step (Closed (length (dialogs s)) v) (ab_agents_install c ?r u)" .
  then show ?thesis
    using form t u
    by (simp add: ab_step_def async_step_def ab_get_credentials_def ab_get_credentials_closed_def ab_agents_install_def
        settle_def ab_perform_agent_action_def agents_install_def ab_agent_body_def ab_list_js_def)
qed

lemma ab_remove_host_steps:
  assumes "r < length (ab_lists s)" "ab_rows s = Some rows" "i < length rows" "rows ! i = r" "n = p + j" "n < length (tl_hosts (ab_lists s ! r))"
    "h = tl_hosts (ab_lists s ! r) ! n"
  shows "ab_step (Act (AB_RemoveHostClick i p j)) s = ab_remove_host_dialog r h j s"
    "ab_step (Closed (length (dialogs s)) (JStr ''Confirm'')) (ab_remove_host_dialog r h j s) =
      ab_api_remove_host r h j ((ab_remove_host_dialog r h j s)\<lparr>dialogs := dialogs s\<rparr>)"
    "ab_step (Answer (length (requests t)) (Reply (JObj [(''success_message'', m)]))) (ab_api_remove_host r h j t) =
      ab_show m (ab_drop_host r j ((ab_api_remove_host r h j t)\<lparr>requests := requests t\<rparr>))"
  using assms
  by (simp_all add: ab_step_def async_step_def ab_on_host_def ab_row_def Let_def ab_remove_host_dialog_def
      ab_confirm_dialog_def ab_remove_host_dialog_closed_def ab_api_remove_host_def ab_api_remove_host_answer_def answered_def
      subscribe_def agent_remove_host_from_ip_target_list_def new_SuccessMessageClass_def construct_def copy_def notUndefNull_def)

text \<open>on every page of the host table but the first, confirming the removal of a host deletes that host
  in the backend, while the table loses the host at the same place of the first page and keeps the deleted one:
  the template hands on the index on the page, the callback takes it for an index of the data.\<close>

theorem ab_remove_on_later_page:
  fixes s :: ab_state
  assumes inv: "ab_inv s" and row: "ab_rows s = Some rows" "i < length rows"
    and host: "hs = tl_hosts (ab_lists s ! (rows ! i))" "0 < p" "p + j < length hs"
    and s': "s' = fold ab_step
      [Act (AB_RemoveHostClick i p j), Closed (length (dialogs s)) (JStr ''Confirm''),
       Answer (length (requests s)) (Reply (JObj [(''success_message'', m)]))] s"
  shows "agent_requests s' = agent_requests s @
      [Http DELETE (''/api/agent/host/'' @ str (ab_hostname s (hs ! (p + j))) @ ''/'' @ str (ab_field s (rows ! i) ''_id'')) JUndef] \<and>
    hs ! (p + j) \<in> set (tl_hosts (ab_lists s' ! (rows ! i))) \<and> hs ! j \<notin> set (tl_hosts (ab_lists s' ! (rows ! i)))"
proof -
  let ?r = "rows ! i"
  have r: "?r < length (ab_lists s)" using inv row by (auto intro: ab_inv_shown)
  then have "distinct hs" using ab_inv_cell [OF inv] host by (simp add: cell_ok_def)
  then have "distinct (take j hs @ hs ! j # drop (Suc j) hs)"
    using host(3) id_take_nth_drop [of j hs] by simp
  moreover have "p - 1 < length (drop (Suc j) hs)" "drop (Suc j) hs ! (p - 1) = hs ! (p + j)"
    using host(2,3) by (simp_all add: add.commute)
  then have "hs ! (p + j) \<in> set (drop (Suc j) hs)" by (metis nth_mem)
  ultimately have lost: "hs ! (p + j) \<in> set (remove_nth j hs)" "hs ! j \<notin> set (remove_nth j hs)"
    by (simp_all add: remove_nth_def)
  define t where "t = (ab_remove_host_dialog ?r (hs ! (p + j)) j s)\<lparr>dialogs := dialogs s\<rparr>"
  have t: "requests t = requests s" "ab_lists t = ab_lists s" "ab_host t = ab_host s" "agent_requests t = agent_requests s"
    by (simp_all add: t_def ab_remove_host_dialog_def ab_confirm_dialog_def)
  note st = ab_remove_host_steps [OF r row(1,2) refl refl host(3)[unfolded host(1)] refl, folded host(1)]
  have "s' = ab_show m (ab_drop_host ?r j ((ab_api_remove_host ?r (hs ! (p + j)) j t)\<lparr>requests := requests s\<rparr>))"
    using st(3) [where t = t and m = m] t(1) by (simp add: s' st(1,2) t_def [symmetric])
  then show ?thesis
    using t r lost host(1)
    by (simp add: ab_api_remove_host_def agent_remove_host_from_ip_target_list_def ab_hostname_def ab_field_def ab_drop_host_def
        ab_show_targets_def)
qed

section \<open>Hosts without duplicates, as a specification\<close>

text \<open>The elements whose key no earlier element has.\<close>

definition first_of_each :: "('a \<Rightarrow> 'k) \<Rightarrow> 'a list \<Rightarrow> 'a list" where
  "first_of_each key xs = map ((!) xs) (filter (\<lambda>i. \<forall>j < i. key (xs ! j) \<noteq> key (xs ! i)) [0..<length xs])"

lemma index_from_hosts_names:
  assumes "\<forall>h \<in> set hs. js_get (val h) ''hostname'' = JStr (name h) \<and> notUndefNull (val h)"
    and "js_get host ''hostname'' = JStr n" "notUndefNull host"
  shows "index_from_hosts host (map val hs) = Inr (find_index (\<lambda>h. toLowerCase (name h) = toLowerCase n) hs)"
  using assms
proof (induction hs)
  case (Cons h hs)
  have "js_index (val h) ''hostname'' = Inr (JStr (name h))"
    using Cons.prems(1) by (cases "val h") (auto simp: notUndefNull_def)
  then have "same_host host (val h) = Inr (toLowerCase (name h) = toLowerCase n)"
    using Cons.prems by (simp add: same_host_def notUndefNull_def)
  then show ?case using Cons by simp
qed simp

lemma find_index_first:
  assumes "i < length xs"
  shows "find_index (\<lambda>h. key h = key (xs ! i)) xs = Some i \<longleftrightarrow> (\<forall>j < i. key (xs ! j) \<noteq> key (xs ! i))"
proof
  show "find_index (\<lambda>h. key h = key (xs ! i)) xs = Some i \<Longrightarrow> \<forall>j < i. key (xs ! j) \<noteq> key (xs ! i)"
    by (auto dest: find_index_Some)
  assume first: "\<forall>j < i. key (xs ! j) \<noteq> key (xs ! i)"
  show "find_index (\<lambda>h. key h = key (xs ! i)) xs = Some i"
  proof (cases "find_index (\<lambda>h. key h = key (xs ! i)) xs")
    case None
    then show ?thesis using nth_mem [OF assms] by (auto simp: find_index_None)
  next
    case (Some k)
    from find_index_Some [OF this] first assms Some show ?thesis by (metis linorder_neqE_nat)
  qed
qed

lemma mapS_total: "(\<And>x. x \<in> set xs \<Longrightarrow> f x = Inr (g x)) \<Longrightarrow> mapS f xs = Inr (map g xs)"
  by (induction xs) simp_all

lemma filter_zip_map:
  "map snd (filter fst (zip (map (\<lambda>i. P i (xs ! i)) [0..<length xs]) xs)) = map ((!) xs) (filter (\<lambda>i. P i (xs ! i)) [0..<length xs])"
proof -
  have "zip (map (\<lambda>i. P i (xs ! i)) [0..<length xs]) xs = map (\<lambda>i. (P i (xs ! i), xs ! i)) [0..<length xs]"
    by (rule nth_equalityI) simp_all
  then show ?thesis by (simp add: filter_map o_def)
qed

text \<open>C27: the hosts shown after an addition are, of the known hosts followed by those of the answer, the first
  of each name, names compared without case: so no name is shown twice, none is lost, and of a known host the
  old object stays.\<close>

theorem distinct_hosts_correct:
  assumes "\<forall>h \<in> set hs. js_get (val h) ''hostname'' = JStr (name h) \<and> notUndefNull (val h)"
  shows "\<exists>ks. distinct_hosts val hs = Inr ks \<and> ks = first_of_each (\<lambda>h. toLowerCase (name h)) hs \<and>
    distinct (map (\<lambda>h. toLowerCase (name h)) ks) \<and> (\<lambda>h. toLowerCase (name h)) ` set ks = (\<lambda>h. toLowerCase (name h)) ` set hs"
proof -
  let ?key = "\<lambda>h. toLowerCase (name h)"
  let ?first = "\<lambda>i h. \<forall>j < i. ?key (hs ! j) \<noteq> ?key h"
  have "is_host_index_zero (val h) i (map val hs) = Inr (?first i h)" if "(i, h) \<in> set (enumerate 0 hs)" for i h
  proof -
    have ih: "i < length hs" "hs ! i = h" using that by (auto simp: in_set_enumerate_eq)
    then have "js_get (val h) ''hostname'' = JStr (name h)" "notUndefNull (val h)" using assms by auto
    then show ?thesis
      using index_from_hosts_names [OF assms] find_index_first [OF ih(1), of ?key] ih by (simp add: is_host_index_zero_def)
  qed
  then have "mapS (\<lambda>(i, h). is_host_index_zero (val h) i (map val hs)) (enumerate 0 hs) =
      Inr (map (\<lambda>(i, h). ?first i h) (enumerate 0 hs))"
    by (intro mapS_total) auto
  also have "map (\<lambda>(i, h). ?first i h) (enumerate 0 hs) = map (\<lambda>i. ?first i (hs ! i)) [0..<length hs]"
    by (rule nth_equalityI) (simp_all add: nth_enumerate_eq)
  finally have run: "distinct_hosts val hs = Inr (first_of_each ?key hs)"
    using filter_zip_map [of ?first hs] by (simp add: distinct_hosts_def first_of_each_def)
  have "inj_on (\<lambda>i. ?key (hs ! i)) {i \<in> {0..<length hs}. ?first i (hs ! i)}"
    by (rule inj_onI) (metis (mono_tags, lifting) linorder_neqE_nat mem_Collect_eq)
  then have uniq: "distinct (map ?key (first_of_each ?key hs))"
    by (simp add: first_of_each_def distinct_map o_def)
  have "?key (hs ! i) \<in> ?key ` set (first_of_each ?key hs)" if "i < length hs" for i
    using that
  proof (induction i rule: less_induct)
    case (less i)
    show ?case
    proof (cases "?first i (hs ! i)")
      case True
      then show ?thesis using less.prems by (auto simp: first_of_each_def)
    next
      case False
      then obtain j where "j < i" "?key (hs ! j) = ?key (hs ! i)" by auto
      then show ?thesis using less by (metis order_less_trans)
    qed
  qed
  then have "?key ` set hs \<subseteq> ?key ` set (first_of_each ?key hs)" by (auto simp: in_set_conv_nth)
  moreover have "set (first_of_each ?key hs) \<subseteq> set hs" by (auto simp: first_of_each_def)
  ultimately show ?thesis using run uniq by blast
qed

section \<open>The refresh\<close>

definition with_state_of :: "js list \<Rightarrow> js \<Rightarrow> js" where
  "with_state_of updated_targets v =
     (case find (\<lambda>u. strict_eq (js_get v ''hostname'') (js_get u ''hostname'')) updated_targets of
        None \<Rightarrow> v
      | Some u \<Rightarrow> js_set (js_set v ''state'' (js_get u ''state'')) ''last_state_change'' (js_get u ''last_state_change''))"

definition refreshed :: "js list \<Rightarrow> ab_state \<Rightarrow> nat \<Rightarrow> nat \<Rightarrow> js" where
  "refreshed response s r h =
     (case find (\<lambda>u. strict_eq (ab_field s r ''_id'') (js_get u ''_id'')) response of
        None \<Rightarrow> ab_host s h
      | Some u \<Rightarrow> with_state_of (arr_elems (js_get u ''targets'')) (ab_host s h))"

definition targets_of :: "ab_state \<Rightarrow> nat \<Rightarrow> nat set" where
  "targets_of s r = (case tl_targets (ab_lists s ! r) of None \<Rightarrow> {} | Some hs \<Rightarrow> set hs)"

lemma ab_update_host_effect:
  assumes "h < length (ab_hosts s)"
  shows "ab_host (ab_update_host us h s) q = (if q = h then with_state_of us (ab_host s h) else ab_host s q)"
    "ab_lists (ab_update_host us h s) = ab_lists s" "length (ab_hosts (ab_update_host us h s)) = length (ab_hosts s)"
    "ab_rows (ab_update_host us h s) = ab_rows s"
  using assms by (auto simp: ab_update_host_def with_state_of_def ab_hostname_def ab_host_def split: option.split)

lemma ab_update_hosts_effect:
  assumes "distinct hs" "\<forall>h \<in> set hs. h < length (ab_hosts s)"
  shows "ab_host (fold (ab_update_host us) hs s) q = (if q \<in> set hs then with_state_of us (ab_host s q) else ab_host s q) \<and>
    ab_lists (fold (ab_update_host us) hs s) = ab_lists s \<and>
    length (ab_hosts (fold (ab_update_host us) hs s)) = length (ab_hosts s) \<and> ab_rows (fold (ab_update_host us) hs s) = ab_rows s"
  using assms
proof (induction hs arbitrary: s)
  case (Cons h hs)
  then have hs: "distinct hs" "h \<notin> set hs" and h: "h < length (ab_hosts s)"
    and len: "\<forall>q \<in> set hs. q < length (ab_hosts (ab_update_host us h s))"
    using ab_update_host_effect(3) [of h s us] by auto
  show ?case
    using Cons.IH [OF hs(1) len] hs(2) by (cases "q = h") (simp_all add: ab_update_host_effect [OF h])
qed simp

lemma ab_refresh_row_effect:
  assumes targets: "tl_targets (ab_lists s ! r) = Some hs" "distinct hs" "\<forall>h \<in> set hs. h < length (ab_hosts s)"
    and arrays: "\<forall>u \<in> set response. \<exists>us. js_get u ''targets'' = JArr us"
  obtains t where "ab_refresh_row response r s = done_with t" "ab_lists t = ab_lists s" "length (ab_hosts t) = length (ab_hosts s)"
    "ab_rows t = ab_rows s" "\<And>h. ab_host t h = (if h \<in> set hs then refreshed response s r h else ab_host s h)"
proof (cases "find (\<lambda>u. strict_eq (ab_field s r ''_id'') (js_get u ''_id'')) response")
  case None
  then show ?thesis using that [of s] by (simp add: ab_refresh_row_def refreshed_def)
next
  case (Some u)
  then have "u \<in> set response" by (auto simp: find_Some_iff)
  then obtain us where "js_get u ''targets'' = JArr us" using arrays by blast
  with Some targets ab_update_hosts_effect [OF targets(2,3), of us] show ?thesis
    using that [of "fold (ab_update_host us) hs s"] by (simp add: ab_refresh_row_def ab_update_targets_def refreshed_def)
qed

lemma ab_refresh_rows_effect:
  assumes "distinct rs" "\<forall>r \<in> set rs. \<exists>hs. tl_targets (ab_lists s ! r) = Some hs \<and> distinct hs \<and> (\<forall>h \<in> set hs. h < length (ab_hosts s))"
    and "\<forall>r \<in> set rs. \<forall>q \<in> set rs. r \<noteq> q \<longrightarrow> targets_of s r \<inter> targets_of s q = {}"
    and arrays: "\<forall>u \<in> set response. \<exists>us. js_get u ''targets'' = JArr us"
  shows "\<exists>t. ab_refresh_rows response rs s = done_with t \<and> ab_lists t = ab_lists s \<and> ab_rows t = ab_rows s \<and>
    (\<forall>r \<in> set rs. \<forall>h \<in> targets_of s r. ab_host t h = refreshed response s r h) \<and>
    (\<forall>h. (\<forall>r \<in> set rs. h \<notin> targets_of s r) \<longrightarrow> ab_host t h = ab_host s h)"
  using assms(1-3)
proof (induction rs arbitrary: s)
  case (Cons r rs)
  obtain hs where hs: "tl_targets (ab_lists s ! r) = Some hs" "distinct hs" "\<forall>h \<in> set hs. h < length (ab_hosts s)"
    using Cons.prems(2) by auto
  obtain u where u: "ab_refresh_row response r s = done_with u" "ab_lists u = ab_lists s" "length (ab_hosts u) = length (ab_hosts s)"
    "ab_rows u = ab_rows s" "\<And>h. ab_host u h = (if h \<in> set hs then refreshed response s r h else ab_host s h)"
    using ab_refresh_row_effect [OF hs arrays] by blast
  have tu: "targets_of u = targets_of s" by (simp add: targets_of_def fun_eq_iff u(2))
  have "\<exists>t. ab_refresh_rows response rs u = done_with t \<and> ab_lists t = ab_lists u \<and> ab_rows t = ab_rows u \<and>
      (\<forall>r \<in> set rs. \<forall>h \<in> targets_of u r. ab_host t h = refreshed response u r h) \<and>
      (\<forall>h. (\<forall>r \<in> set rs. h \<notin> targets_of u r) \<longrightarrow> ab_host t h = ab_host u h)"
    using Cons.prems by (intro Cons.IH) (auto simp: u tu)
  then obtain t where t: "ab_refresh_rows response rs u = done_with t" "ab_lists t = ab_lists s" "ab_rows t = ab_rows s"
    "\<And>q h. q \<in> set rs \<Longrightarrow> h \<in> targets_of s q \<Longrightarrow> ab_host t h = refreshed response u q h"
    "\<And>h. (\<forall>q \<in> set rs. h \<notin> targets_of s q) \<Longrightarrow> ab_host t h = ab_host u h"
    by (auto simp: u tu)
  have own: "targets_of s r = set hs" by (simp add: targets_of_def hs(1))
  have apart: "targets_of s q \<inter> targets_of s r = {}" if "q \<in> set rs" for q
    using Cons.prems(1,3) that by (metis distinct.simps(2) list.set_intros)
  have "refreshed response u q h = refreshed response s q h" if "q \<in> set rs" "h \<in> targets_of s q" for q h
    using apart [OF that(1)] that(2) by (simp add: refreshed_def ab_field_def u(2,5) own disjoint_iff cong: option.case_cong)
  moreover have "ab_host t h = refreshed response s r h" if "h \<in> targets_of s r" for h
    using t(5) [of h] apart that by (auto simp: u(5) own)
  ultimately show ?case
    using t u(1,5) own by (intro exI [of _ t]) auto
qed (simp add: done_with_def)

text \<open>a refresh after a message of the web socket leaves the tables as they are and gives every target of
  every shown configuration the state that the answer has for it, under the configuration with the same id and
  the host with the same name; all other hosts keep theirs, also those that are shown without being targets.\<close>

theorem ab_refresh_copies_states:
  assumes inv: "ab_inv s" and rows: "ab_rows s = Some rows" "\<forall>r \<in> set rows. tl_targets (ab_lists s ! r) \<noteq> None"
    and arrays: "\<forall>u \<in> set response. \<exists>us. js_get u ''targets'' = JArr us"
    and s': "s' = ab_load_targets True response s"
  shows "ab_lists s' = ab_lists s \<and> ab_rows s' = Some rows \<and>
    (\<forall>r \<in> set rows. \<forall>h \<in> targets_of s r. ab_host s' h = refreshed response s r h) \<and>
    (\<forall>h. (\<forall>r \<in> set rows. h \<notin> targets_of s r) \<longrightarrow> ab_host s' h = ab_host s h)"
proof -
  have cell: "cell_ok (length (ab_hosts s)) (ab_lists s ! r)" if "r \<in> set rows" for r
    using ab_inv_cell [OF inv] ab_inv_shown [OF inv rows(1) that] by blast
  have ok: "\<exists>hs. tl_targets (ab_lists s ! r) = Some hs \<and> distinct hs \<and> (\<forall>h \<in> set hs. h < length (ab_hosts s))" if r: "r \<in> set rows" for r
  proof -
    obtain hs where "tl_targets (ab_lists s ! r) = Some hs" using rows(2) r by auto
    then show ?thesis using cell [OF r] by (auto simp: cell_ok_def)
  qed
  have "targets_of s r \<subseteq> set (tl_hosts (ab_lists s ! r))" if "r \<in> set rows" for r
    using cell [OF that] by (auto simp: cell_ok_def targets_of_def split: option.splits)
  then have "targets_of s r \<inter> targets_of s q = {}" if "r \<in> set rows" "q \<in> set rows" "r \<noteq> q" for r q
    using inv that ab_inv_shown [OF inv rows(1)] unfolding ab_inv_def heap_ok_def by blast
  moreover have "distinct rows" using inv rows(1) by (simp add: ab_inv_def shown_ok_def)
  ultimately obtain t where "ab_refresh_rows response rows s = done_with t" "ab_lists t = ab_lists s" "ab_rows t = ab_rows s"
    "\<forall>r \<in> set rows. \<forall>h \<in> targets_of s r. ab_host t h = refreshed response s r h"
    "\<forall>h. (\<forall>r \<in> set rows. h \<notin> targets_of s r) \<longrightarrow> ab_host t h = ab_host s h"
    using ab_refresh_rows_effect [of rows s response] ok arrays by blast
  then show ?thesis by (simp add: s' ab_load_targets_def rows(1))
qed

section \<open>Witnesses\<close>

text \<open>One configuration with two hosts, both tables with their row selected.\<close>

definition ab_example :: ab_state where
  "ab_example =
     ab_constructor\<lparr>ab_configs := [JObj [(''_id'', JStr ''1'')]], ab_config_selection := Some (JObj [(''_id'', JStr ''1'')]),
       ab_rows := Some [0], ab_target_selection := Some 0,
       ab_lists := [\<lparr>tl_config = JObj [(''_id'', JStr ''7'')], tl_targets = Some [0, 1], tl_hosts = [0, 1], tl_expanded = True\<rparr>],
       ab_hosts := [JObj [(''hostname'', JStr ''a'')], JObj [(''hostname'', JStr ''b'')]]\<rparr>"

lemma ab_example_inv: "ab_inv ab_example"
  by (simp add: ab_example_def ab_constructor_def ab_inv_defs snack_ok_def shown_ok_def chosen_ok_def heap_ok_def cell_ok_def)

lemma ab_example_fields [simp]:
  "ab_rows ab_example = Some [0]" "ab_target_selection ab_example = Some 0" "dialogs ab_example = []" "requests ab_example = []"
  "ab_config_selection ab_example = Some (JObj [(''_id'', JStr ''1'')])"
  "ab_lists ab_example = [\<lparr>tl_config = JObj [(''_id'', JStr ''7'')], tl_targets = Some [0, 1], tl_hosts = [0, 1], tl_expanded = True\<rparr>]"
  "ab_host ab_example 0 = JObj [(''hostname'', JStr ''a'')]" "ab_host ab_example (Suc 0) = JObj [(''hostname'', JStr ''b'')]"
  "ab_hostname ab_example 0 = JStr ''a''" "ab_hostname ab_example (Suc 0) = JStr ''b''"
  "ab_field ab_example 0 ''_id'' = JStr ''7''" "agent_requests ab_example = []"
  by (simp_all add: ab_example_def ab_constructor_def ab_host_def ab_hostname_def ab_field_def agent_requests_def sent_def)

theorem ab_cancelled_uninstall_narrows_witness:
  "let v = JObj [(''valid'', JBool True), (''rawValue'', JObj [(''user_name'', JStr ''u''), (''password'', JStr ''p'')])];
       s' = fold ab_step [Act (AB_UninstallClick 0 0 1), Closed 0 JUndef, Act AB_InstallClick, Closed 0 v] ab_example
   in tl_hosts (ab_lists s' ! 0) = [0, 1] \<and> agent_requests s' =
     [Http POST ''/api/agent/install'' (agent_interface (JObj [(''_id'', JStr ''1'')])
       (JObj [(''_id'', JStr ''7''), (''targets'', JArr [JObj [(''hostname'', JStr ''b'')]])])
       (JObj [(''user_name'', JStr ''u''), (''password'', JStr ''p'')]))]"
proof -
  let ?w = "JObj [(''user_name'', JStr ''u''), (''password'', JStr ''p'')]"
  let ?v = "JObj [(''valid'', JBool True), (''rawValue'', ?w)]"
  have "new_WindowsCredentialsClass ?w = Inr ?w"
    by (simp add: new_WindowsCredentialsClass_def construct_def copy_def notUndefNull_def)
  then show ?thesis
    using ab_cancelled_uninstall_narrows [of ab_example "[0]" 0 "JObj [(''_id'', JStr ''1'')]" "[0, 1]" "[0, 1]" 0 1 ?v ?w,
        OF _ _ _ _ _ _ _ _ _ _ _ refl]
    by (simp add: notUndefNull_def Let_def)
qed

theorem ab_remove_on_later_page_witness:
  "let s' = fold ab_step
       [Act (AB_RemoveHostClick 0 1 0), Closed 0 (JStr ''Confirm''), Answer 0 (Reply (JObj [(''success_message'', JStr ''ok'')]))] ab_example
   in agent_requests s' = [Http DELETE ''/api/agent/host/b/7'' JUndef] \<and>
      1 \<in> set (tl_hosts (ab_lists s' ! 0)) \<and> 0 \<notin> set (tl_hosts (ab_lists s' ! 0))"
  using ab_remove_on_later_page [OF ab_example_inv, of "[0]" 0 "[0, 1]" 1 0 _ "JStr ''ok''", OF _ _ _ _ _ refl]
  by (simp add: Let_def)

theorem distinct_hosts_correct_witness:
  "\<exists>ks. distinct_hosts (\<lambda>n. JObj [(''hostname'', JStr n)]) [''WEB'', ''db'', ''web''] = Inr ks \<and>
     ks = first_of_each toLowerCase [''WEB'', ''db'', ''web'']"
  using distinct_hosts_correct [of "[''WEB'', ''db'', ''web'']" "\<lambda>n. JObj [(''hostname'', JStr n)]" "\<lambda>n. n"]
  by (auto simp: notUndefNull_def)

theorem ab_refresh_copies_states_witness:
  "let s' = ab_load_targets True
       [JObj [(''_id'', JStr ''7''), (''targets'', JArr [JObj [(''hostname'', JStr ''b''), (''state'', JStr ''up'')]])]] ab_example
   in ab_host s' 1 = JObj [(''hostname'', JStr ''b''), (''state'', JStr ''up''), (''last_state_change'', JUndef)] \<and>
      ab_host s' 0 = JObj [(''hostname'', JStr ''a'')]"
  using ab_refresh_copies_states [OF ab_example_inv, of "[0]"
      "[JObj [(''_id'', JStr ''7''), (''targets'', JArr [JObj [(''hostname'', JStr ''b''), (''state'', JStr ''up'')]])]]", OF _ _ _ refl]
  by (simp add: Let_def targets_of_def refreshed_def with_state_of_def)

end
