(* ===== verification/Form_Fields.thy ===== *)
theory Form_Fields
  imports Backend Validators
begin

text \<open>
  What the dialogs with a form share. Of a form control the model has what the dialogs and the validators
  read: the value, whether it was touched or edited, the validators it has now, and its status, which is the
  one of the last validation. A validator may throw; then the status stays. A dialog ends with the effect
  \<open>DialogClose\<close>, whose value the page receives; \<open>closings\<close> are those effects.
\<close>

section \<open>Form fields\<close>

record field =
  fd_value :: js
  fd_touched :: bool
  fd_dirty :: bool
  fd_rules :: "validator_object list option"
  fd_valid :: bool

text \<open>\<open>Validators.required\<close> of Angular refuses \<open>undefined\<close>, \<open>null\<close> and what is empty.\<close>

fun empty_input :: "js \<Rightarrow> bool" where
  "empty_input JUndef = True"
| "empty_input JNull = True"
| "empty_input (JStr t) = (t = [])"
| "empty_input (JArr vs) = (vs = [])"
| "empty_input _ = False"

definition fd_control :: "field \<Rightarrow> control" where
  "fd_control f = FormControl \<lparr>ctl_value = fd_value f, ctl_touched = fd_touched f, ctl_stat = VALID, ctl_errors = None\<rparr>"

text \<open>\<open>VALIDATORS_REQUIRED_FROM_ARRAY\<close> and \<open>VALIDATORS_IS_VALID_IP_FROM_ARRAY\<close> are \<open>validateFromArray\<close> of a
  table; \<open>updateValueAndValidity\<close> runs the validators.\<close>

definition fd_validate :: "field \<Rightarrow> js_error + field" where
  "fd_validate f =
     (case fd_rules f of
        None \<Rightarrow> Inr (f\<lparr>fd_valid := True\<rparr>)
      | Some vs \<Rightarrow> smap (\<lambda>error. f\<lparr>fd_valid := (error = None)\<rparr>) (validateFromArray vs None (fd_control f)))"

definition fd_set :: "js \<Rightarrow> field \<Rightarrow> field" where
  "fd_set v f = settle (f\<lparr>fd_value := v\<rparr>) (fd_validate (f\<lparr>fd_value := v\<rparr>))"

text \<open>Typing sets the value and marks the control as edited.\<close>

definition fd_type :: "string \<Rightarrow> field \<Rightarrow> field" where
  "fd_type t f = fd_set (JStr t) (f\<lparr>fd_dirty := True\<rparr>)"

text \<open>\<open>new FormControl(v)\<close>: a control created without a value holds \<open>null\<close>.\<close>

definition new_control :: "js \<Rightarrow> js" where
  "new_control v = (if v = JUndef then JNull else v)"

lemma new_control_given [simp]: "v \<noteq> JUndef \<Longrightarrow> new_control v = v" "new_control JUndef = JNull"
  by (simp_all add: new_control_def)

definition new_field :: "js \<Rightarrow> validator_object list option \<Rightarrow> field" where
  "new_field v rules =
     (let f = \<lparr>fd_value = new_control v, fd_touched = False, fd_dirty = False, fd_rules = rules, fd_valid = True\<rparr>
      in settle f (fd_validate f))"

text \<open>A method of strings called on a value that is none throws.\<close>

fun as_string :: "js \<Rightarrow> js_error + string" where
  "as_string (JStr t) = Inr t"
| "as_string _ = Inl TypeError"

section \<open>Controls the backend describes\<close>

text \<open>The value, the regular expression and whether the control is required. The expressions come from the
  backend, so what they accept is a parameter \<open>matches\<close>.\<close>

record option_control =
  oc_value :: js
  oc_pattern :: js
  oc_required :: bool

definition oc_valid :: "(string \<Rightarrow> string \<Rightarrow> bool) \<Rightarrow> 'a option_control_scheme \<Rightarrow> bool" where
  "oc_valid matches c \<longleftrightarrow>
     \<not> (oc_required c \<and> empty_input (oc_value c)) \<and>
     (\<not> truthy (oc_pattern c) \<or> empty_input (oc_value c) \<or> matches (str (oc_pattern c)) (str (oc_value c)))"

text \<open>\<open>addControl\<close> keeps a control that is there.\<close>

definition add_control :: "string \<Rightarrow> 'c \<Rightarrow> (string \<times> 'c) list \<Rightarrow> (string \<times> 'c) list" where
  "add_control n c cs = (if n \<in> set (map fst cs) then cs else cs @ [(n, c)])"

section \<open>Lemmas on fields\<close>

lemma fd_validate_Inr: "fd_validate f = Inr g \<Longrightarrow> fd_value g = fd_value f \<and> fd_rules g = fd_rules f \<and> fd_touched g = fd_touched f \<and> fd_dirty g = fd_dirty f"
  by (cases "fd_rules f") (auto simp: fd_validate_def smap_Inr_iff)

lemma new_field_fields:
  "fd_value (new_field v r) = new_control v" "fd_rules (new_field v r) = r" "fd_touched (new_field v r) = False" "fd_dirty (new_field v r) = False"
  using fd_validate_Inr [of "\<lparr>fd_value = new_control v, fd_touched = False, fd_dirty = False, fd_rules = r, fd_valid = True\<rparr>"]
  by (auto simp: new_field_def settle_def Let_def split: sum.split)

lemma fd_set_fields [simp]:
  "fd_value (fd_set v f) = v" "fd_rules (fd_set v f) = fd_rules f" "fd_touched (fd_set v f) = fd_touched f" "fd_dirty (fd_set v f) = fd_dirty f"
  using fd_validate_Inr [of "f\<lparr>fd_value := v\<rparr>"] by (auto simp: fd_set_def settle_def split: sum.split)

lemma fd_type_fields [simp]:
  "fd_value (fd_type t f) = JStr t" "fd_rules (fd_type t f) = fd_rules f" "fd_touched (fd_type t f) = fd_touched f" "fd_dirty (fd_type t f) = True"
  by (simp_all add: fd_type_def)

text \<open>A required text field is valid exactly when it is not empty.\<close>

lemma required_text:
  "fd_rules f = Some COMMON_VALIDATORS_required \<Longrightarrow> fd_value f = JStr t \<Longrightarrow> fd_validate f = Inr (f\<lparr>fd_valid := (t \<noteq> [])\<rparr>)"
  by (simp add: fd_validate_def COMMON_VALIDATORS_required_def validateFromArray_def fd_control_def requiredField_def num_gt_def
      notUndefNull_def Let_def)

lemma fd_set_required:
  "fd_rules f = Some COMMON_VALIDATORS_required \<Longrightarrow> fd_valid (fd_set (JStr t) f) = (t \<noteq> [])"
  "fd_rules f = Some COMMON_VALIDATORS_required \<Longrightarrow> fd_valid (fd_type t f) = (t \<noteq> [])"
  using required_text [of "f\<lparr>fd_value := JStr t\<rparr>" t] required_text [of "f\<lparr>fd_dirty := True, fd_value := JStr t\<rparr>" t]
  by (simp_all add: fd_set_def fd_type_def settle_def)

definition port_ok :: "field \<Rightarrow> bool" where
  "port_ok f \<longleftrightarrow> fd_rules f = Some COMMON_VALIDATORS_required \<and> (\<exists>t. fd_value f = JStr t \<and> fd_valid f = (t \<noteq> []))"

lemma port_ok_set [simp]: "port_ok f \<Longrightarrow> port_ok (fd_set (JStr t) f)" "port_ok f \<Longrightarrow> port_ok (fd_type t f)"
  by (simp_all add: port_ok_def fd_set_required)

section \<open>How a dialog closes\<close>

fun is_close :: "effect \<Rightarrow> bool" where
  "is_close (DialogClose _) = True"
| "is_close _ = False"

definition closings :: "'a world_scheme \<Rightarrow> effect list" where
  "closings s = filter is_close (trace s)"

text \<open>A dialog closes with nothing or with a value that satisfies \<open>P\<close>.\<close>

fun closes_with :: "(js \<Rightarrow> bool) \<Rightarrow> effect \<Rightarrow> bool" where
  "closes_with P (DialogClose v) = (v = JUndef \<or> P v)"
| "closes_with P _ = True"

lemma closings_emit [simp]: "closings (emit e s) = closings s @ (if is_close e then [e] else [])"
  by (simp add: closings_def)

lemma closings_cong: "trace s = trace s' \<Longrightarrow> closings s = closings s'"
  by (simp add: closings_def)

lemma closings_display [simp]: "closings (displaySnackBar m c s) = closings s"
  using display_trace [of m c s] by (auto simp: closings_def split: option.splits)

lemma closings_messages [simp]:
  "closings (generate_return_success_snackbar_message m c s) = closings s"
  "closings (generate_return_fail_snackbar_message m c s) = closings s"
  "closings (generate_return_error_snackbar_message m c s) = closings s"
  "closings (report_error m s) = closings s"
  "closings (report_error_or_message m e s) = closings s"
  by (simp_all add: snackbar_defs report_error_or_message_def split: api_error.splits)

lemma closings_handleError [simp]: "closings (fst (handleError op r s)) = closings s"
  by (simp add: handleError_def handleErrorConsole_def console_error_def Let_def split: option.splits err_body.splits)

lemma closings_request_failed [simp]: "closings (fst (request_failed op r s)) = closings s"
  by (simp add: request_failed_def intercept_error_def)

lemma closings_async [simp]:
  "closings (call ep k t) = closings t" "closings (open_dialog n v d t) = closings t"
  "closings (t\<lparr>requests := ks\<rparr>) = closings t" "closings (t\<lparr>dialogs := ds\<rparr>) = closings t"
  for t :: "('k, 'd, 'a) async_scheme"
  by (simp_all add: closings_def)

text \<open>An invariant of the component fields and of the ways the dialog has closed is kept by an answer.\<close>

lemma answered_closings:
  assumes "P s" "\<And>x. P (next_cb x s)"
    "\<And>s'. world.more s' = world.more s \<Longrightarrow> closings s' = closings s \<Longrightarrow> P s'"
    "\<And>e s'. P s' \<Longrightarrow> P (error_cb e s')"
  shows "P (answered ep next_cb error_cb r s)"
proof (cases r)
  case (Reply v)
  show ?thesis
  proof (cases "ep_decode ep v")
    case (Inl e)
    then show ?thesis
      using Reply by (auto simp: answered_def subscribe_def Let_def split: prod.split intro!: assms(4) assms(3) dest!: arg_cong [where f = fst])
  qed (simp add: Reply answered_def subscribe_def assms(2))
next
  case (Failure f)
  then show ?thesis
    by (auto simp: answered_def subscribe_def request_failed_def intercept_error_def Let_def split: prod.split intro!: assms(4) assms(3)
        dest!: arg_cong [where f = fst])
qed

end
