(* ===== verification/Agent_Dialogs.thy ===== *)
theory Agent_Dialogs
  imports Agent_Builder Form_Fields
begin

text \<open>
  The dialogs of \<open>modules/agent-builder-chooser/components/\<close>: the details of an installer configuration,
  the form for a target configuration and the form for an installer configuration. A dialog ends with the
  effect \<open>DialogClose\<close>, whose value the page receives.
\<close>

section \<open>The details dialog\<close>

definition get_element_config :: "js \<Rightarrow> js \<Rightarrow> js \<Rightarrow> js_error + js" where
  "get_element_config mat_dialog_data app_config element_spec =
     sbind (js_index mat_dialog_data ''agent_installer_configuration'') (\<lambda>c.
     sbind (js_index c ''customPackages'') (\<lambda>packages.
     sbind (js_index packages (str (js_get app_config ''name''))) (\<lambda>p.
       js_index p (str (js_get element_spec ''name'')))))"

definition ad_close :: "'a world_scheme \<Rightarrow> 'a world_scheme" where
  "ad_close = emit (DialogClose JUndef)"

section \<open>The dialog of a target configuration\<close>

record at_state = world +
  at_config_name :: js
  at_protocol :: js
  ntlm_port :: field
  ntlm_domain_name :: js
  ntlm_is_ssl :: bool
  smb_port :: field
  smb_domain_name :: js
  is_ntlm :: bool
  is_smb :: bool

definition at_ngOnInit :: at_state where
  "at_ngOnInit =
     \<lparr>trace = [], matSnackBarRef = None, at_config_name = JStr [], at_protocol = JNull,
      ntlm_port = new_field (JStr []) (Some COMMON_VALIDATORS_required), ntlm_domain_name = JStr [], ntlm_is_ssl = False,
      smb_port = new_field (JStr []) (Some COMMON_VALIDATORS_required), smb_domain_name = JStr [],
      is_ntlm = False, is_smb = False\<rparr>"

abbreviation WINRM_PORT :: js where "WINRM_PORT \<equiv> JStr ''5985''"
abbreviation WINRM_PORT_SSL :: js where "WINRM_PORT_SSL \<equiv> JStr ''5986''"
abbreviation SMB_PORT :: js where "SMB_PORT \<equiv> JStr ''445''"

definition at_protocol_change_step :: "string \<Rightarrow> at_state \<Rightarrow> at_state" where
  "at_protocol_change_step v s =
     (let s1 = s\<lparr>is_ntlm := False, is_smb := False\<rparr>
      in if v = ''ntlm'' then s1\<lparr>is_ntlm := True, ntlm_port := fd_set WINRM_PORT (ntlm_port s1)\<rparr>
         else s1\<lparr>is_smb := True, smb_port := fd_set SMB_PORT (smb_port s1)\<rparr>)"

definition at_change_non_dirty_port_value :: "bool \<Rightarrow> at_state \<Rightarrow> at_state" where
  "at_change_non_dirty_port_value checked s =
     (if \<not> fd_dirty (ntlm_port s) then
        if checked then s\<lparr>ntlm_port := fd_set WINRM_PORT_SSL (ntlm_port s)\<rparr>
        else s\<lparr>ntlm_port := fd_set WINRM_PORT (ntlm_port s)\<rparr>
      else s)"

definition at_ip_target_list_valid :: "at_state \<Rightarrow> bool" where
  "at_ip_target_list_valid s \<longleftrightarrow> \<not> empty_input (at_config_name s) \<and> \<not> empty_input (at_protocol s)"

definition at_form_groups_valid :: "at_state \<Rightarrow> bool" where
  "at_form_groups_valid s \<longleftrightarrow>
     (if is_ntlm s then fd_valid (ntlm_port s) \<and> at_ip_target_list_valid s
      else if is_smb s then fd_valid (smb_port s) \<and> at_ip_target_list_valid s
      else False)"

definition at_ip_target_list :: "at_state \<Rightarrow> js" where
  "at_ip_target_list s =
     JObj [(''name'', at_config_name s), (''protocol'', at_protocol s),
           (''ntlm'', JObj [(''port'', fd_value (ntlm_port s)), (''domain_name'', ntlm_domain_name s),
                            (''is_ssl'', JBool (ntlm_is_ssl s))]),
           (''smb'', JObj [(''port'', fd_value (smb_port s)), (''domain_name'', smb_domain_name s)])]"

definition at_submit :: "at_state \<Rightarrow> at_state" where
  "at_submit s = settle s (smap (\<lambda>v. emit (DialogClose v) s) (new_IPTargetListClass (at_ip_target_list s)))"

text \<open>Typing sets the value and marks the control as edited; the radio buttons and the check box set their
  control before the handler runs. The fields of a protocol are shown while it is chosen. The button is
  disabled while the forms are not valid.\<close>

datatype at_action =
    AT_Name string | AT_Protocol string | AT_NtlmPort string | AT_NtlmDomain string | AT_Ssl bool
  | AT_SmbPort string | AT_SmbDomain string | AT_Submit | AT_Close

fun at_step :: "at_action \<Rightarrow> at_state \<Rightarrow> at_state" where
  "at_step (AT_Name t) s = s\<lparr>at_config_name := JStr t\<rparr>"
| "at_step (AT_Protocol v) s =
     (if v \<in> {''ntlm'', ''smb''} then at_protocol_change_step v (s\<lparr>at_protocol := JStr v\<rparr>) else s)"
| "at_step (AT_NtlmPort t) s = (if is_ntlm s then s\<lparr>ntlm_port := fd_type t (ntlm_port s)\<rparr> else s)"
| "at_step (AT_NtlmDomain t) s = (if is_ntlm s then s\<lparr>ntlm_domain_name := JStr t\<rparr> else s)"
| "at_step (AT_Ssl b) s = (if is_ntlm s then at_change_non_dirty_port_value b (s\<lparr>ntlm_is_ssl := b\<rparr>) else s)"
| "at_step (AT_SmbPort t) s = (if is_smb s then s\<lparr>smb_port := fd_type t (smb_port s)\<rparr> else s)"
| "at_step (AT_SmbDomain t) s = (if is_smb s then s\<lparr>smb_domain_name := JStr t\<rparr> else s)"
| "at_step AT_Submit s = (if at_form_groups_valid s then at_submit s else s)"
| "at_step AT_Close s = ad_close s"

section \<open>The dialog of an installer configuration\<close>

type_synonym option_group = "(string \<times> option_control) list"

datatype ai_request = AI_Profiles

record ai_state = "(ai_request, unit) async" +
  ai_app_configs :: "js list"
  ai_app_pairs :: js
  ai_install_endgame :: bool
  ai_field :: "string \<Rightarrow> field"
  ai_sensor_name :: js
  ai_options :: "(string \<times> option_group) list option"
  ai_custom_packages :: "(string \<times> bool) list"
  ai_profiles :: "(js \<times> js) list"
  ai_app_configs_from_options :: "js list"

definition ai_constructor :: "js \<Rightarrow> ai_state" where
  "ai_constructor mat_dialog_data =
     \<lparr>trace = [], matSnackBarRef = None, requests = [], dialogs = [],
      ai_app_configs = arr_elems (js_get mat_dialog_data ''app_configs''),
      ai_app_pairs = js_get mat_dialog_data ''app_name_app_config_pair'',
      ai_install_endgame = False, ai_field = (\<lambda>_. new_field JNull None), ai_sensor_name = JNull, ai_options = None,
      ai_custom_packages = [], ai_profiles = [], ai_app_configs_from_options = []\<rparr>"

definition ai_initialize_form :: "ai_state \<Rightarrow> ai_state" where
  "ai_initialize_form s =
     s\<lparr>ai_install_endgame := False, ai_sensor_name := JNull,
       ai_field := (\<lambda>_. new_field JNull None)
         (''config_name'' := new_field (JStr []) (Some COMMON_VALIDATORS_required),
          ''endgame_port'' := new_field (JStr ''443'') (Some COMMON_VALIDATORS_required))\<rparr>"

definition ai_initialize_custom_packages :: "js list \<Rightarrow> ai_state \<Rightarrow> ai_state" where
  "ai_initialize_custom_packages app_names s =
     s\<lparr>ai_custom_packages := fold (\<lambda>n cs. if n \<in> set (map fst cs) then cs else cs @ [(n, False)]) (map str app_names) []\<rparr>"

definition ai_ngOnInit :: "js \<Rightarrow> ai_state \<Rightarrow> ai_state" where
  "ai_ngOnInit mat_dialog_data s =
     ai_initialize_custom_packages (arr_elems (js_get mat_dialog_data ''app_names'')) (ai_initialize_form s)"

subsection \<open>Endgame\<close>

definition endgame_rules :: "(string \<times> validator_object list) list" where
  "endgame_rules =
     [(''endgame_sensor_id'', COMMON_VALIDATORS_required), (''endgame_server_ip'', COMMON_VALIDATORS_isValidIP),
      (''endgame_port'', COMMON_VALIDATORS_required), (''endgame_user_name'', COMMON_VALIDATORS_required),
      (''endgame_password'', COMMON_VALIDATORS_required)]"

definition ai_set_rules :: "bool \<Rightarrow> string \<times> validator_object list \<Rightarrow> ai_state \<Rightarrow> ai_state" where
  "ai_set_rules checked r s =
     s\<lparr>ai_field := (ai_field s)(fst r := (ai_field s (fst r))\<lparr>fd_rules := (if checked then Some (snd r) else None)\<rparr>)\<rparr>"

definition ai_update_validity :: "string \<Rightarrow> ai_state \<Rightarrow> ai_state attempt" where
  "ai_update_validity n s =
     attempt s (smap (\<lambda>f. s\<lparr>ai_field := (ai_field s)(n := f)\<rparr>) (fd_validate (ai_field s n)))"

text \<open>All validators are set before the first control is validated; a validator that throws ends the
  handler there.\<close>

definition ai_toggle_endgame_validators :: "bool \<Rightarrow> ai_state \<Rightarrow> ai_state" where
  "ai_toggle_endgame_validators checked s =
     snd (each ai_update_validity (map fst endgame_rules) (fold (ai_set_rules checked) endgame_rules s))"

definition ai_connect_endgame :: "ai_state \<Rightarrow> ai_state" where
  "ai_connect_endgame s =
     (let f = ai_field s; names = [''endgame_server_ip'', ''endgame_port'', ''endgame_user_name'', ''endgame_password''] in
      if list_all (\<lambda>n. fd_valid (f n)) names
      then call (endgame_sensor_profiles (JObj (map (\<lambda>n. (n, fd_value (f n))) names))) AI_Profiles s
      else s)"

definition ai_api_profiles_answer :: "reply \<Rightarrow> ai_state \<Rightarrow> ai_state" where
  "ai_api_profiles_answer =
     answered (endgame_sensor_profiles JUndef)
       (\<lambda>response s. generate_return_success_snackbar_message ''connected to Endgame'' (Some MAT_SNACKBAR_CONFIGURATION_60000_DUR)
          (s\<lparr>ai_profiles := map (\<lambda>sp. (js_get sp ''name'', js_get sp ''id'')) response\<rparr>))
       (report_error_or_message ''connecting to endgame'')"

text \<open>The last profile with the chosen id.\<close>

definition ai_get_sensor_profile_name :: "ai_state \<Rightarrow> js" where
  "ai_get_sensor_profile_name s =
     fold (\<lambda>(name, v) found. if strict_eq v (fd_value (ai_field s ''endgame_sensor_id'')) then name else found)
       (ai_profiles s) JNull"

subsection \<open>Applications\<close>

definition create_element_spec_textinput_form_control :: "js \<Rightarrow> option_control" where
  "create_element_spec_textinput_form_control element_spec =
     \<lparr>oc_value = (if notUndefNull (js_get element_spec ''default_value'') then js_get element_spec ''default_value'' else JNull),
      oc_pattern = js_get element_spec ''regexp'',
      oc_required = notUndefNull (js_get element_spec ''required'')\<rparr>"

definition create_element_spec_checkbox_form_control :: "js \<Rightarrow> option_control" where
  "create_element_spec_checkbox_form_control element_spec =
     \<lparr>oc_value = (if notUndefNull (js_get element_spec ''default_value'') then js_get element_spec ''default_value'' else JNull),
      oc_pattern = JUndef, oc_required = False\<rparr>"

definition get_element_spec_form_control :: "js \<Rightarrow> option_control option" where
  "get_element_spec_form_control element_spec =
     (if js_get element_spec ''type'' = JStr ''textinput'' then Some (create_element_spec_textinput_form_control element_spec)
      else if js_get element_spec ''type'' = JStr ''checkbox'' then Some (create_element_spec_checkbox_form_control element_spec)
      else None)"

definition plain_control :: "js \<Rightarrow> option_control" where
  "plain_control v = \<lparr>oc_value = v, oc_pattern = JUndef, oc_required = False\<rparr>"

text \<open>Element specifications of other types are filtered out before.\<close>

definition initialize_element_spec_form_group :: "js \<Rightarrow> option_group" where
  "initialize_element_spec_form_group app_config =
     fold (\<lambda>es g. case get_element_spec_form_control es of None \<Rightarrow> g | Some c \<Rightarrow> add_control (str (js_get es ''name'')) c g)
       (arr_elems (js_get app_config ''form'')) []"

definition ai_app_group :: "js \<Rightarrow> option_group" where
  "ai_app_group app_config =
     (let g = initialize_element_spec_form_group app_config;
          location = js_get app_config ''configLocation''; editable = js_get app_config ''hasEditableConfig'';
          g1 = (if truthy location then add_control ''configLocation'' (plain_control location) g else g)
      in add_control ''hasEditableConfig'' (plain_control (if truthy editable then editable else JBool False)) g1)"

definition ai_app_config_change :: "bool \<Rightarrow> js \<Rightarrow> ai_state \<Rightarrow> ai_state" where
  "ai_app_config_change checked app_config s =
     (let name = str (js_get app_config ''name'');
          options =
            (if checked then
               (case ai_options s of
                  Some os \<Rightarrow> Some (add_control name (ai_app_group app_config) os)
                | None \<Rightarrow> Some [(name, ai_app_group app_config)])
             else
               (case ai_options s of
                  Some os \<Rightarrow> (let left = AList.delete name os in if left = [] then None else Some left)
                | None \<Rightarrow> None))
      in s\<lparr>ai_options := options,
           ai_app_configs_from_options := map (\<lambda>k. js_get (ai_app_pairs s) k) (case options of None \<Rightarrow> [] | Some os \<Rightarrow> map fst os)\<rparr>)"

subsection \<open>Validity and submission\<close>

definition ai_form_level_error :: "ai_state \<Rightarrow> bool" where
  "ai_form_level_error s \<longleftrightarrow> \<not> (ai_install_endgame s \<or> ai_options s \<noteq> None)"

definition ai_field_names :: "string list" where
  "ai_field_names = ''config_name'' # map fst endgame_rules"

definition ai_form_valid :: "(string \<Rightarrow> string \<Rightarrow> bool) \<Rightarrow> ai_state \<Rightarrow> bool" where
  "ai_form_valid matches s \<longleftrightarrow>
     list_all (\<lambda>n. fd_valid (ai_field s n)) ai_field_names \<and>
     (case ai_options s of None \<Rightarrow> True | Some os \<Rightarrow> list_all (\<lambda>(_, g). list_all (\<lambda>(_, c). oc_valid matches c) g) os) \<and>
     \<not> ai_form_level_error s"

text \<open>\<open>getRawValue()\<close> with the group of the Endgame options flattened.\<close>

definition ai_form_data :: "ai_state \<Rightarrow> js" where
  "ai_form_data s =
     (let value = (\<lambda>n. (n, fd_value (ai_field s n)))
      in JObj ([value ''config_name'', (''install_endgame'', JBool (ai_install_endgame s)), value ''endgame_sensor_id'',
           (''endgame_sensor_name'', ai_sensor_name s)] @
         (case ai_options s of None \<Rightarrow> []
          | Some os \<Rightarrow> [(''customPackages'', JObj (map (\<lambda>(n, g). (n, JObj (map (\<lambda>(k, c). (k, oc_value c)) g))) os))]) @
         map value [''endgame_server_ip'', ''endgame_user_name'', ''endgame_password'', ''endgame_port'']))"

definition ai_submit :: "(string \<Rightarrow> string \<Rightarrow> bool) \<Rightarrow> ai_state \<Rightarrow> ai_state" where
  "ai_submit matches s =
     (if ai_form_valid matches s then
        let s1 = s\<lparr>ai_sensor_name := ai_get_sensor_profile_name s\<rparr>
        in settle s1 (smap (\<lambda>v. emit (DialogClose v) s1) (new_AgentInstallerConfigurationClass (ai_form_data s1)))
      else displaySnackBar (JStr ''The form contains invalid entries. Please double check values and try again.'')
             (Some MAT_SNACKBAR_CONFIGURATION_60000_DUR) s)"

subsection \<open>The dialog as a machine\<close>

text \<open>A field is typed into or left; the sensor is chosen from the profiles; the check boxes set their control
  before the handler runs.\<close>

datatype ai_action =
    AI_Type string string | AI_Leave string | AI_Sensor nat | AI_InstallEndgame bool | AI_App nat bool
  | AI_OptionValue string string js | AI_Connect | AI_Submit | AI_Close

definition text_fields :: "string list" where
  "text_fields = [''config_name'', ''endgame_server_ip'', ''endgame_port'', ''endgame_user_name'', ''endgame_password'']"

definition ai_put_field :: "string \<Rightarrow> (field \<Rightarrow> field) \<Rightarrow> ai_state \<Rightarrow> ai_state" where
  "ai_put_field n f s = s\<lparr>ai_field := (ai_field s)(n := f (ai_field s n))\<rparr>"

definition ai_put_option :: "string \<Rightarrow> string \<Rightarrow> js \<Rightarrow> ai_state \<Rightarrow> ai_state" where
  "ai_put_option app n v s =
     s\<lparr>ai_options := map_option (map (\<lambda>(a, g). (a, if a = app
        then map (\<lambda>(k, c). (k, if k = n then c\<lparr>oc_value := v\<rparr> else c)) g else g))) (ai_options s)\<rparr>"

fun ai_handle :: "(string \<Rightarrow> string \<Rightarrow> bool) \<Rightarrow> ai_action \<Rightarrow> ai_state \<Rightarrow> ai_state" where
  "ai_handle matches (AI_Type n t) s = (if n \<in> set text_fields then ai_put_field n (fd_type t) s else s)"
| "ai_handle matches (AI_Leave n) s = (if n \<in> set ai_field_names then ai_put_field n (\<lambda>f. f\<lparr>fd_touched := True\<rparr>) s else s)"
| "ai_handle matches (AI_Sensor i) s =
     (if i < length (ai_profiles s) then ai_put_field ''endgame_sensor_id'' (fd_set (snd (ai_profiles s ! i))) s else s)"
| "ai_handle matches (AI_InstallEndgame b) s = ai_toggle_endgame_validators b (s\<lparr>ai_install_endgame := b\<rparr>)"
| "ai_handle matches (AI_App i b) s =
     (if i < length (ai_app_configs s) then
        let ac = ai_app_configs s ! i
        in ai_app_config_change b ac (s\<lparr>ai_custom_packages := AList.update (str (js_get ac ''name'')) b (ai_custom_packages s)\<rparr>)
      else s)"
| "ai_handle matches (AI_OptionValue app n v) s = ai_put_option app n v s"
| "ai_handle matches AI_Connect s = ai_connect_endgame s"
| "ai_handle matches AI_Submit s = (if ai_form_valid matches s then ai_submit matches s else s)"
| "ai_handle matches AI_Close s = ad_close s"

fun ai_answer :: "ai_request \<Rightarrow> reply \<Rightarrow> ai_state \<Rightarrow> ai_state" where
  "ai_answer AI_Profiles = ai_api_profiles_answer"

fun ai_closed :: "unit \<Rightarrow> js \<Rightarrow> ai_state \<Rightarrow> ai_state" where
  "ai_closed _ _ s = s"

definition ai_step :: "(string \<Rightarrow> string \<Rightarrow> bool) \<Rightarrow> ai_action event \<Rightarrow> ai_state \<Rightarrow> ai_state" where
  "ai_step matches = async_step (ai_handle matches) ai_answer ai_closed"

section \<open>Target configurations that are submitted\<close>

definition complete_target :: "js \<Rightarrow> bool" where
  "complete_target v \<longleftrightarrow>
     (\<exists>n p t. js_get v ''name'' = JStr n \<and> n \<noteq> [] \<and> js_get v ''protocol'' = JStr p \<and> p \<in> {''ntlm'', ''smb''} \<and>
        js_get (js_get v p) ''port'' = JStr t \<and> t \<noteq> [])"

text \<open>The radio buttons, the flags and the protocol agree, and a valid port is not empty.\<close>

definition at_inv :: "at_state \<Rightarrow> bool" where
  "at_inv s \<longleftrightarrow>
     (\<exists>n. at_config_name s = JStr n) \<and> port_ok (ntlm_port s) \<and> port_ok (smb_port s) \<and>
     is_ntlm s = (at_protocol s = JStr ''ntlm'') \<and> is_smb s = (at_protocol s = JStr ''smb'') \<and>
     list_all (closes_with complete_target) (closings s)"

lemma at_submit_complete:
  assumes "at_inv s" "at_form_groups_valid s"
  shows "\<exists>v. at_submit s = emit (DialogClose v) s \<and> complete_target v"
proof -
  obtain n where n: "at_config_name s = JStr n" using assms(1) by (auto simp: at_inv_def)
  have "new_IPTargetListClass (at_ip_target_list s) = Inr (JObj
      [(''_id'', JUndef), (''name'', JStr n), (''protocol'', at_protocol s),
       (''ntlm'', JObj [(''is_ssl'', JBool (ntlm_is_ssl s)), (''port'', fd_value (ntlm_port s)), (''domain_name'', ntlm_domain_name s)]),
       (''smb'', JObj [(''port'', fd_value (smb_port s)), (''domain_name'', smb_domain_name s)])])"
    by (simp add: new_IPTargetListClass_def at_ip_target_list_def n construct_def copy_def nested_def new_NTLMClass_def new_SMBClass_def
        notUndefNull_def)
  then show ?thesis
    using assms n
    by (cases "is_ntlm s")
      (auto simp: at_submit_def settle_def complete_target_def at_form_groups_valid_def at_ip_target_list_valid_def at_inv_def port_ok_def)
qed

lemma at_step_inv: "at_inv s \<Longrightarrow> at_inv (at_step a s)"
proof (cases a)
  case AT_Submit
  assume inv: "at_inv s"
  then show ?thesis
    using AT_Submit at_submit_complete [OF inv] by (auto simp: at_inv_def emit_def closings_def)
qed (auto simp: at_inv_def at_protocol_change_step_def at_change_non_dirty_port_value_def ad_close_def emit_def Let_def closings_def)

interpretation target_dialog: event_machine at_step at_inv
  by unfold_locales (rule at_step_inv)

lemma at_first_inv: "at_inv at_ngOnInit"
  by (simp add: at_inv_def at_ngOnInit_def port_ok_def new_field_def Let_def required_text settle_def closings_def)

text \<open>whatever the user does in the dialog of a target configuration, it closes with nothing or with a
  configuration that has a name, one of the two protocols and a port for that protocol.\<close>

theorem at_closes_with_complete: "list_all (closes_with complete_target) (closings (fold at_step es at_ngOnInit))"
  using target_dialog.run_inv [OF at_first_inv, of es] by (simp add: at_inv_def)

text \<open>after the protocol was changed and changed back, a target configuration with SSL is submitted with
  the port of WinRM without SSL, although the user has not edited the port.\<close>

theorem at_ssl_without_its_port:
  "let s = fold at_step
       [AT_Name (c # cs), AT_Protocol ''ntlm'', AT_Ssl True, AT_Protocol ''smb'', AT_Protocol ''ntlm'', AT_Submit] at_ngOnInit
   in \<not> fd_dirty (ntlm_port s) \<and>
      (\<exists>v. trace s = [DialogClose v] \<and> js_get (js_get v ''ntlm'') ''is_ssl'' = JBool True \<and>
           js_get (js_get v ''ntlm'') ''port'' = JStr ''5985'')"
proof -
  have new: "\<not> fd_dirty (new_field v r)" "fd_rules (new_field v r) = r" for v r
    by (simp_all add: new_field_fields)
  show ?thesis
    by (simp add: at_ngOnInit_def at_protocol_change_step_def at_change_non_dirty_port_value_def Let_def at_form_groups_valid_def
        at_ip_target_list_valid_def at_submit_def at_ip_target_list_def new_IPTargetListClass_def construct_def copy_def
        nested_def new_NTLMClass_def new_SMBClass_def notUndefNull_def settle_def fd_set_required new emit_def)
qed

section \<open>Installer configurations that are submitted\<close>

definition ai_open :: "js \<Rightarrow> ai_state" where
  "ai_open mat_dialog_data = ai_ngOnInit mat_dialog_data (ai_constructor mat_dialog_data)"

definition complete_configuration :: "js \<Rightarrow> bool" where
  "complete_configuration v \<longleftrightarrow>
     (\<exists>n. js_get v ''config_name'' = JStr n \<and> n \<noteq> []) \<and>
     (js_get v ''install_endgame'' = JBool True \<or> js_keys (js_get v ''customPackages'') \<noteq> [])"

text \<open>The name is checked, there is no empty group of packages, and the packages are those whose check box is
  checked.\<close>

definition option_names :: "ai_state \<Rightarrow> string list" where
  "option_names s = (case ai_options s of None \<Rightarrow> [] | Some os \<Rightarrow> map fst os)"

definition ai_inv :: "ai_state \<Rightarrow> bool" where
  "ai_inv s \<longleftrightarrow>
     port_ok (ai_field s ''config_name'') \<and> ai_options s \<noteq> Some [] \<and>
     (\<forall>n. n \<in> set (option_names s) \<longleftrightarrow> map_of (ai_custom_packages s) n = Some True) \<and>
     list_all (closes_with complete_configuration) (closings s)"

lemma ai_more:
  "async.more s' = async.more s \<Longrightarrow>
     ai_field s' = ai_field s \<and> ai_options s' = ai_options s \<and> ai_custom_packages s' = ai_custom_packages s"
  for s s' :: ai_state
  by (cases s; cases s') simp

text \<open>\<open>customPackages\<close> of the configuration that is handed back.\<close>

definition packages_value :: "ai_state \<Rightarrow> js" where
  "packages_value s =
     (case ai_options s of None \<Rightarrow> JUndef
      | Some os \<Rightarrow> JObj (map (\<lambda>(n, g). (n, JObj (map (\<lambda>(k, c). (k, oc_value c)) g))) os))"

lemma new_configuration:
  obtains v where "new_AgentInstallerConfigurationClass (ai_form_data s) = Inr v"
    "js_get v ''config_name'' = fd_value (ai_field s ''config_name'')" "js_get v ''install_endgame'' = JBool (ai_install_endgame s)"
    "js_get v ''endgame_sensor_id'' = fd_value (ai_field s ''endgame_sensor_id'')"
    "js_keys (js_get v ''customPackages'') = option_names s" "notUndefNull (js_get v ''customPackages'') = (ai_options s \<noteq> None)"
proof -
  let ?d = "ai_form_data s"
  have d: "js_get ?d ''config_name'' = fd_value (ai_field s ''config_name'')" "js_get ?d ''install_endgame'' = JBool (ai_install_endgame s)"
    "js_get ?d ''endgame_sensor_id'' = fd_value (ai_field s ''endgame_sensor_id'')" "js_get ?d ''customPackages'' = packages_value s"
    by (cases "ai_options s"; simp add: ai_form_data_def packages_value_def notUndefNull_def Let_def)+
  have obj: "?d \<noteq> JUndef \<and> ?d \<noteq> JNull"
    by (simp add: ai_form_data_def Let_def)
  let ?base = "map (\<lambda>k. (k, js_get ?d k)) [''_id'', ''config_name'', ''install_endgame'', ''endgame_sensor_id'', ''endgame_sensor_name'',
    ''endgame_server_ip'', ''endgame_port'', ''endgame_user_name'', ''endgame_password'']"
  let ?packages = "case ai_options s of None \<Rightarrow> [] | Some os \<Rightarrow>
    [(''customPackages'', JObj (map (\<lambda>k. (k, js_get (packages_value s) k)) (map fst os)))]"
  have "new_AgentInstallerConfigurationClass ?d = Inr (JObj (?base @ ?packages))"
    by (cases "ai_options s")
      (simp_all add: new_AgentInstallerConfigurationClass_def construct_def copy_def d obj packages_value_def notUndefNull_def nested_def
        new_CustomPackageClass_def o_def case_prod_beta)
  then show thesis
    using that [of "JObj (?base @ ?packages)"] d
    by (cases "ai_options s") (simp_all add: option_names_def notUndefNull_def o_def)
qed

lemma ai_submit_complete:
  assumes "ai_inv s" "ai_form_valid matches s"
  obtains v s' where "ai_submit matches s = emit (DialogClose v) s'" "complete_configuration v"
    "s' = s\<lparr>ai_sensor_name := ai_get_sensor_profile_name s\<rparr>"
proof -
  let ?s = "s\<lparr>ai_sensor_name := ai_get_sensor_profile_name s\<rparr>"
  obtain v where v: "new_AgentInstallerConfigurationClass (ai_form_data ?s) = Inr v"
    and name: "js_get v ''config_name'' = fd_value (ai_field ?s ''config_name'')"
    and endgame: "js_get v ''install_endgame'' = JBool (ai_install_endgame ?s)"
    and packages: "js_keys (js_get v ''customPackages'') = option_names ?s"
    by (rule new_configuration [of ?s])
  have "complete_configuration v"
    using assms by (auto simp: complete_configuration_def name endgame packages ai_inv_def port_ok_def ai_form_valid_def
        ai_field_names_def ai_form_level_error_def option_names_def)
  moreover have "ai_submit matches s = emit (DialogClose v) ?s"
    by (simp add: ai_submit_def assms(2) v settle_def)
  ultimately show thesis using that by blast
qed

lemma ai_inv_emit_close: "ai_inv s \<Longrightarrow> v = JUndef \<or> complete_configuration v \<Longrightarrow> ai_inv (emit (DialogClose v) s)"
  by (auto simp: ai_inv_def option_names_def emit_def closings_def)

lemma ai_inv_frame:
  "ai_inv s \<Longrightarrow> async.more s' = async.more s \<Longrightarrow> closings s' = closings s \<Longrightarrow> ai_inv s'"
  using ai_more [of s' s] by (simp add: ai_inv_def option_names_def)

lemma ai_inv_updates [simp]:
  "ai_inv (s\<lparr>requests := ks\<rparr>) = ai_inv s" "ai_inv (s\<lparr>dialogs := ds\<rparr>) = ai_inv s" "ai_inv (s\<lparr>ai_profiles := ps\<rparr>) = ai_inv s"
  "ai_inv (s\<lparr>ai_install_endgame := b\<rparr>) = ai_inv s" "ai_inv (s\<lparr>ai_sensor_name := v\<rparr>) = ai_inv s"
  by (simp_all add: ai_inv_def option_names_def closings_def)

lemma ai_inv_field:
  "ai_inv s \<Longrightarrow> (n = ''config_name'' \<Longrightarrow> port_ok f) \<Longrightarrow> ai_inv (s\<lparr>ai_field := (ai_field s)(n := f)\<rparr>)"
  by (simp add: ai_inv_def option_names_def closings_def)

lemma ai_inv_update_validity: "ai_inv s \<Longrightarrow> n \<noteq> ''config_name'' \<Longrightarrow> ai_inv (snd (ai_update_validity n s))"
  by (cases "fd_validate (ai_field s n)") (auto simp: ai_update_validity_def attempt_def smap_def intro: ai_inv_field)

lemma ai_inv_update_all: "ai_inv s \<Longrightarrow> ''config_name'' \<notin> set ns \<Longrightarrow> ai_inv (snd (each ai_update_validity ns s))"
  by (rule snd_each) (auto intro: ai_inv_update_validity)

lemma ai_inv_set_rules: "ai_inv s \<Longrightarrow> fst r \<noteq> ''config_name'' \<Longrightarrow> ai_inv (ai_set_rules b r s)"
  by (auto simp: ai_set_rules_def intro!: ai_inv_field)

lemma ai_inv_toggle: "ai_inv s \<Longrightarrow> ai_inv (ai_toggle_endgame_validators b s)"
  unfolding ai_toggle_endgame_validators_def
  by (rule ai_inv_update_all) (simp_all add: endgame_rules_def ai_inv_set_rules)

lemma map_of_update_Some: "map_of (AList.update k v al) n = Some w \<longleftrightarrow> (if n = k then v = w else map_of al n = Some w)"
  by (simp add: update_conv)

lemma keys_delete: "fst ` set (AList.delete k al) = fst ` set al - {k}"
  using arg_cong [OF delete_keys [of k al], of set] by auto

lemma option_names_app:
  "set (option_names (ai_app_config_change b ac s)) =
     (if b then insert (str (js_get ac ''name'')) (set (option_names s)) else set (option_names s) - {str (js_get ac ''name'')})"
proof (cases "ai_options s")
  case (Some os)
  then show ?thesis
    using keys_delete [of "str (js_get ac ''name'')" os]
    by (auto simp: ai_app_config_change_def option_names_def add_control_def Let_def)
qed (simp add: ai_app_config_change_def option_names_def Let_def)

lemma ai_app_frame [simp]:
  "ai_field (ai_app_config_change b ac s) = ai_field s" "closings (ai_app_config_change b ac s) = closings s"
  "ai_custom_packages (ai_app_config_change b ac s) = ai_custom_packages s"
  by (simp_all add: ai_app_config_change_def Let_def closings_def)

lemma ai_app_options: "ai_options s \<noteq> Some [] \<Longrightarrow> ai_options (ai_app_config_change b ac s) \<noteq> Some []"
  by (cases "ai_options s") (auto simp: ai_app_config_change_def add_control_def Let_def)

lemma packages_app:
  assumes "\<forall>n. n \<in> set (option_names s) \<longleftrightarrow> map_of (ai_custom_packages s) n = Some True"
  shows "n \<in> set (option_names (ai_app_config_change b ac s)) \<longleftrightarrow>
    map_of (AList.update (str (js_get ac ''name'')) b (ai_custom_packages s)) n = Some True"
  using assms [rule_format, of n] unfolding option_names_app map_of_update_Some by (cases b) auto

lemma ai_inv_app:
  assumes "ai_inv s"
  shows "ai_inv (ai_app_config_change b ac (s\<lparr>ai_custom_packages := AList.update (str (js_get ac ''name'')) b (ai_custom_packages s)\<rparr>))"
proof -
  let ?cp = "AList.update (str (js_get ac ''name'')) b (ai_custom_packages s)"
  let ?t = "ai_app_config_change b ac s"
  have "ai_app_config_change b ac (s\<lparr>ai_custom_packages := ?cp\<rparr>) = ?t\<lparr>ai_custom_packages := ?cp\<rparr>"
    by (simp only: ai_app_config_change_def Let_def) simp
  moreover have "ai_options ?t \<noteq> Some []" and "\<forall>n. n \<in> set (option_names ?t) \<longleftrightarrow> map_of ?cp n = Some True"
    using assms by (simp_all add: ai_inv_def ai_app_options packages_app)
  ultimately show ?thesis
    using assms by (simp add: ai_inv_def option_names_def closings_def [of "?t\<lparr>ai_custom_packages := ?cp\<rparr>"] closings_def [of ?t, symmetric])
qed

lemma ai_inv_put_option: "ai_inv s \<Longrightarrow> ai_inv (ai_put_option app n v s)"
  by (cases "ai_options s") (auto simp: ai_inv_def ai_put_option_def option_names_def closings_def o_def case_prod_beta)

lemma ai_submit_inv:
  assumes "ai_inv s" shows "ai_inv (ai_submit matches s)"
proof (cases "ai_form_valid matches s")
  case True
  obtain v s' where "ai_submit matches s = emit (DialogClose v) s'" "complete_configuration v"
    "s' = s\<lparr>ai_sensor_name := ai_get_sensor_profile_name s\<rparr>"
    by (rule ai_submit_complete [OF assms True])
  then show ?thesis using assms by (simp add: ai_inv_emit_close)
next
  case False
  then show ?thesis by (simp add: ai_submit_def ai_inv_frame [OF assms])
qed

lemma ai_inv_put_field:
  "ai_inv s \<Longrightarrow> (n = ''config_name'' \<Longrightarrow> port_ok (ai_field s n) \<Longrightarrow> port_ok (f (ai_field s n))) \<Longrightarrow> ai_inv (ai_put_field n f s)"
  unfolding ai_put_field_def by (rule ai_inv_field) (simp_all add: ai_inv_def)

lemma ai_inv_connect: "ai_inv s \<Longrightarrow> ai_inv (ai_connect_endgame s)"
  by (simp add: ai_connect_endgame_def Let_def) (auto elim: ai_inv_frame)

lemma ai_handle_inv:
  assumes "ai_inv s" shows "ai_inv (ai_handle matches a s)"
proof (cases a)
  case (AI_Leave n)
  then show ?thesis using assms by (auto simp: port_ok_def intro: ai_inv_put_field)
qed (use assms in \<open>auto simp: Let_def ad_close_def intro: ai_inv_put_field ai_inv_toggle ai_inv_app ai_inv_put_option ai_inv_connect
    ai_submit_inv ai_inv_emit_close\<close>)

lemma ai_answer_inv: "ai_inv s \<Longrightarrow> ai_inv (ai_answer k r s)"
proof (cases k)
  case AI_Profiles
  assume inv: "ai_inv s"
  show ?thesis
    unfolding AI_Profiles ai_answer.simps ai_api_profiles_answer_def
  proof (rule answered_closings [where P = ai_inv, OF inv])
    fix x
    show "ai_inv (generate_return_success_snackbar_message ''connected to Endgame'' (Some MAT_SNACKBAR_CONFIGURATION_60000_DUR)
        (s\<lparr>ai_profiles := map (\<lambda>sp. (js_get sp ''name'', js_get sp ''id'')) x\<rparr>))"
      by (rule ai_inv_frame [of "s\<lparr>ai_profiles := map (\<lambda>sp. (js_get sp ''name'', js_get sp ''id'')) x\<rparr>"])
        (simp_all add: inv)
  next
    fix s' :: ai_state
    assume "world.more s' = world.more s" "closings s' = closings s"
    then show "ai_inv s'" using inv by (auto intro: ai_inv_frame [OF inv] world_more_async)
  next
    fix e s' assume "ai_inv s'"
    then show "ai_inv (report_error_or_message ''connecting to endgame'' e s')"
      by (rule ai_inv_frame) simp_all
  qed
qed

interpretation installer_dialog: async_component "ai_handle matches" ai_answer ai_closed ai_inv
  for matches :: "string \<Rightarrow> string \<Rightarrow> bool"
  by unfold_locales (simp_all add: ai_handle_inv ai_answer_inv)

lemma ai_open_inv: "ai_inv (ai_open mat_dialog_data)"
proof -
  have "map_of (fold (\<lambda>n cs. if n \<in> set (map fst cs) then cs else cs @ [(n, False)]) ns al) k \<noteq> Some True"
    if "\<And>k. map_of al k \<noteq> Some True" for ns al and k :: string
    using that
  proof (induction ns arbitrary: al)
    case (Cons n ns)
    have "map_of (al @ [(n, False)]) k \<noteq> Some True" for k
      using Cons.prems [of k] by (cases "map_of al k") (auto simp: map_add_def)
    then show ?case using Cons by simp
  qed simp
  then show ?thesis
    by (simp add: ai_open_def ai_ngOnInit_def ai_constructor_def ai_initialize_form_def ai_initialize_custom_packages_def ai_inv_def
        option_names_def port_ok_def new_field_def Let_def required_text settle_def closings_def)
qed

text \<open>C22: whatever the user does and the backend answers, the dialog of an installer configuration closes with
  nothing or with a configuration that has a name and installs Endgame or at least one application.\<close>

theorem ai_closes_with_app:
  "list_all (closes_with complete_configuration) (closings (fold (ai_step matches) es (ai_open mat_dialog_data)))"
  using installer_dialog.machine.run_inv [OF ai_open_inv, of matches es mat_dialog_data] by (simp add: ai_step_def ai_inv_def)

section \<open>Fields that were touched\<close>

text \<open>\<open>requiredField\<close> reads the length of the value of a touched field, which is null for a field that has
  no value yet, so checking Endgame again sets no status.\<close>

definition same_fields :: "ai_state \<Rightarrow> ai_state \<Rightarrow> bool" where
  "same_fields s s' \<longleftrightarrow>
     s' = s\<lparr>ai_field := ai_field s'\<rparr> \<and> ai_field s' ''config_name'' = ai_field s ''config_name'' \<and>
     (\<forall>n. fd_value (ai_field s' n) = fd_value (ai_field s n) \<and> fd_touched (ai_field s' n) = fd_touched (ai_field s n))"

lemma same_fields_refl: "same_fields s s"
  by (simp add: same_fields_def)

lemma same_fields_trans: "same_fields s t \<Longrightarrow> same_fields t u \<Longrightarrow> same_fields s u"
  unfolding same_fields_def by (metis (no_types, lifting) ai_state.update_convs(4) ai_state.surjective)

lemma same_fields_put:
  "n \<noteq> ''config_name'' \<Longrightarrow> fd_value f = fd_value (ai_field s n) \<Longrightarrow> fd_touched f = fd_touched (ai_field s n) \<Longrightarrow>
     same_fields s (s\<lparr>ai_field := (ai_field s)(n := f)\<rparr>)"
  by (simp add: same_fields_def)

lemma same_fields_update_all: "''config_name'' \<notin> set ns \<Longrightarrow> same_fields s (snd (each ai_update_validity ns s))"
proof (induction ns arbitrary: s)
  case (Cons n ns)
  show ?case
  proof (cases "fd_validate (ai_field s n)")
    case (Inl e)
    then show ?thesis by (simp add: ai_update_validity_def attempt_def same_fields_refl)
  next
    case (Inr f)
    let ?t = "s\<lparr>ai_field := (ai_field s)(n := f)\<rparr>"
    have "same_fields s ?t" using Cons.prems fd_validate_Inr [OF Inr] by (intro same_fields_put) auto
    moreover have "same_fields ?t (snd (each ai_update_validity ns ?t))" using Cons by simp
    moreover have "ai_update_validity n s = (None, ?t)" using Inr by (simp add: ai_update_validity_def attempt_def)
    ultimately show ?thesis by (simp add: same_fields_trans)
  qed
qed (simp add: same_fields_refl)

lemma same_fields_set_rules: "fst r \<noteq> ''config_name'' \<Longrightarrow> same_fields s t \<Longrightarrow> same_fields s (ai_set_rules b r t)"
  by (rule same_fields_trans) (auto simp: ai_set_rules_def intro!: same_fields_put)

lemma same_fields_toggle: "same_fields s (ai_toggle_endgame_validators b s)"
  unfolding ai_toggle_endgame_validators_def
  by (rule same_fields_trans [OF _ same_fields_update_all]) (simp_all add: endgame_rules_def same_fields_set_rules same_fields_refl)

lemma toggle_off:
  "ai_toggle_endgame_validators False s =
     s\<lparr>ai_field := (\<lambda>n. if n \<in> set (map fst endgame_rules) then (ai_field s n)\<lparr>fd_rules := None, fd_valid := True\<rparr> else ai_field s n)\<rparr>"
proof -
  have "each ai_update_validity ns t = done_with (t\<lparr>ai_field := (\<lambda>n. if n \<in> set ns then (ai_field t n)\<lparr>fd_valid := True\<rparr> else ai_field t n)\<rparr>)"
    if "\<forall>n \<in> set ns. fd_rules (ai_field t n) = None" for ns t
    using that
  proof (induction ns arbitrary: t)
    case (Cons n ns)
    then show ?case
      by (simp add: ai_update_validity_def fd_validate_def attempt_def)
        (rule arg_cong [where f = "\<lambda>g. done_with (t\<lparr>ai_field := g\<rparr>)"]; auto simp: fun_eq_iff)
  qed simp
  note all = this
  show ?thesis
    unfolding ai_toggle_endgame_validators_def
    by (subst all, simp add: endgame_rules_def ai_set_rules_def)
      (simp add: endgame_rules_def ai_set_rules_def,
        rule arg_cong [where f = "\<lambda>g. s\<lparr>ai_field := g\<rparr>"], auto simp: fun_eq_iff endgame_rules_def ai_set_rules_def)
qed

lemma toggle_on_touched_null:
  assumes "fd_touched (ai_field s ''endgame_sensor_id'')" "fd_value (ai_field s ''endgame_sensor_id'') = JNull"
  shows "ai_toggle_endgame_validators True s = fold (ai_set_rules True) endgame_rules s"
  using assms
  by (simp add: ai_toggle_endgame_validators_def endgame_rules_def ai_set_rules_def ai_update_validity_def fd_validate_def fd_control_def
      attempt_def validateFromArray_def COMMON_VALIDATORS_required_def requiredField_def Let_def)

text \<open>once the empty choice of a sensor profile was touched, unchecking and checking the installation of
  Endgame leaves its fields without a check: the dialog closes with a configuration that installs Endgame
  and has no sensor profile.\<close>

theorem ai_touched_field_skips_checks:
  "\<exists>v. closings (fold (ai_step matches) (map Act
       [AI_Type ''config_name'' (c # cs), AI_InstallEndgame True, AI_Leave ''endgame_sensor_id'', AI_InstallEndgame False,
        AI_InstallEndgame True, AI_Submit]) (ai_open mat_dialog_data)) = [DialogClose v] \<and>
     js_get v ''install_endgame'' = JBool True \<and> js_get v ''endgame_sensor_id'' = JNull"
proof -
  define s1 where "s1 = ai_put_field ''config_name'' (fd_type (c # cs)) (ai_open mat_dialog_data)"
  define s2 where "s2 = ai_toggle_endgame_validators True (s1\<lparr>ai_install_endgame := True\<rparr>)"
  define s3 where "s3 = ai_put_field ''endgame_sensor_id'' (\<lambda>f. f\<lparr>fd_touched := True\<rparr>) s2"
  define s4 where "s4 = ai_toggle_endgame_validators False (s3\<lparr>ai_install_endgame := False\<rparr>)"
  define s5 where "s5 = fold (ai_set_rules True) endgame_rules (s4\<lparr>ai_install_endgame := True\<rparr>)"
  have "fd_rules (new_field v r) = r" "fd_value (new_field v r) = new_control v" for v r
    by (simp_all add: new_field_fields)
  then have s1: "fd_valid (ai_field s1 ''config_name'')" "fd_value (ai_field s1 ''endgame_sensor_id'') = JNull" "ai_options s1 = None"
    "closings s1 = []" "ai_install_endgame s1 = False"
    by (simp_all add: s1_def ai_put_field_def ai_open_def ai_ngOnInit_def ai_constructor_def ai_initialize_form_def
      ai_initialize_custom_packages_def fd_set_required closings_def)
  obtain g where s2: "s2 = s1\<lparr>ai_install_endgame := True, ai_field := g\<rparr>"
    and g: "g ''config_name'' = ai_field s1 ''config_name''" "fd_value (g ''endgame_sensor_id'') = JNull"
    using same_fields_toggle [of "s1\<lparr>ai_install_endgame := True\<rparr>" True] s1 unfolding s2_def same_fields_def by auto
  have s5: "ai_toggle_endgame_validators True (s4\<lparr>ai_install_endgame := True\<rparr>) = s5"
    unfolding s5_def
    by (rule toggle_on_touched_null) (simp_all add: s4_def toggle_off s3_def s2 g ai_put_field_def endgame_rules_def)
  have fields: "ai_options s5 = None" "ai_install_endgame s5" "closings s5 = []" "fd_value (ai_field s5 ''endgame_sensor_id'') = JNull"
    "list_all (\<lambda>n. fd_valid (ai_field s5 n)) ai_field_names"
    by (simp_all add: s5_def s4_def toggle_off s3_def s2 g s1 ai_put_field_def endgame_rules_def ai_set_rules_def ai_field_names_def
      closings_def [of "_\<lparr>ai_field := _\<rparr>"] closings_def [of "_\<lparr>ai_install_endgame := _\<rparr>"] closings_def [of s1, symmetric])
  then have valid: "ai_form_valid matches s5" by (simp add: ai_form_valid_def ai_form_level_error_def)
  obtain v where "new_AgentInstallerConfigurationClass (ai_form_data (s5\<lparr>ai_sensor_name := ai_get_sensor_profile_name s5\<rparr>)) = Inr v"
    "js_get v ''install_endgame'' = JBool True" "js_get v ''endgame_sensor_id'' = JNull"
    by (rule new_configuration [of "s5\<lparr>ai_sensor_name := ai_get_sensor_profile_name s5\<rparr>"]) (use fields in auto)
  moreover have "fold (ai_step matches) (map Act
       [AI_Type ''config_name'' (c # cs), AI_InstallEndgame True, AI_Leave ''endgame_sensor_id'', AI_InstallEndgame False,
        AI_InstallEndgame True, AI_Submit]) (ai_open mat_dialog_data) = ai_submit matches s5"
    using valid by (simp add: ai_step_def async_step_def text_fields_def ai_field_names_def endgame_rules_def s5 [symmetric]
        s4_def [symmetric] s3_def [symmetric] s2_def [symmetric] s1_def [symmetric])
  ultimately show ?thesis
    using fields by (simp add: ai_submit_def valid settle_def closings_def)
qed

end
