(* ===== verification/Json_Pretty.thy ===== *)
theory Json_Pretty
  imports Json
begin

text \<open>
  \<open>JSON.stringify(v, undefined, 2)\<close>, which pages show in an editor, and its round trip with
  \<open>JSON.parse\<close>. The number is the depth of the value.
\<close>

definition line_at :: "nat \<Rightarrow> string" where
  "line_at d = CHR 0x0A # replicate (2 * d) (CHR '' '')"

fun json_pretty :: "nat \<Rightarrow> js \<Rightarrow> string" where
  "json_pretty d (JArr vs) =
     (if vs = [] then ''[]''
      else ''['' @ js_join '','' (map (\<lambda>v. line_at (Suc d) @ json_pretty (Suc d) v) vs) @ line_at d @ '']'')"
| "json_pretty d (JObj kvs) =
     (let ps = filter (\<lambda>kv. snd kv \<noteq> JUndef) kvs in
      if ps = [] then ''{}''
      else ''{'' @ js_join '','' (map (\<lambda>kv. line_at (Suc d) @ json_quote (fst kv) @ '': '' @ json_pretty (Suc d) (snd kv)) ps) @
        line_at d @ ''}'')"
| "json_pretty d v = json_text v"

text \<open>A text that the parser reads as a value, whatever follows.\<close>

definition reads_as :: "string \<Rightarrow> js \<Rightarrow> bool" where
  "reads_as t v \<longleftrightarrow> (\<forall>n r. json_num_end r \<longrightarrow> 2 * length t < n \<longrightarrow> json_value n (t @ r) = Some (v, r))"

lemma json_skip_line [simp]: "json_skip (line_at d @ s) = json_skip s"
proof -
  have "json_skip (replicate k (CHR '' '') @ s) = json_skip s" for k
    by (induction k) (simp_all add: json_skip_def json_space_def)
  then show ?thesis by (simp add: line_at_def json_skip_def json_space_def)
qed

lemma json_value_line [simp]: "json_value n (line_at d @ s) = json_value n s"
  by (cases n) simp_all

lemma json_members_line [simp]: "json_members n acc (line_at d @ s) = json_members n acc s"
  by (cases n) simp_all

lemma json_num_end_line [simp]: "json_num_end (line_at d @ s)"
  by (simp add: json_num_end_def line_at_def is_digit_def)

lemma json_elements_lines:
  assumes "tvs \<noteq> []" "\<forall>(t, v) \<in> set tvs. reads_as t v"
    "2 * length (js_join '','' (map (\<lambda>(t, v). line_at e @ t) tvs)) + 2 \<le> n"
  shows "json_elements n (js_join '','' (map (\<lambda>(t, v). line_at e @ t) tvs) @ line_at d @ CHR '']'' # r) = Some (map snd tvs, r)"
  using assms
proof (induction tvs arbitrary: n rule: list_nonempty_induct)
  case (single tv)
  then obtain m where "n = Suc m" by (cases n) auto
  with single show ?case by (cases tv) (simp add: reads_as_def)
next
  case (cons tv tvs)
  then obtain m where m: "n = Suc m" by (cases n) auto
  obtain t v where tv: "tv = (t, v)" by (cases tv)
  let ?rest = "js_join '','' (map (\<lambda>(t, v). line_at e @ t) tvs)"
  have join: "js_join '','' (map (\<lambda>(t, v). line_at e @ t) (tv # tvs)) = line_at e @ t @ CHR '','' # ?rest"
    using cons.hyps by (simp add: js_join_Cons tv)
  have "json_value m (t @ CHR '','' # (?rest @ line_at d @ CHR '']'' # r)) = Some (v, CHR '','' # (?rest @ line_at d @ CHR '']'' # r))"
    using cons.prems unfolding m join by (simp add: reads_as_def tv)
  moreover have "json_elements m (?rest @ line_at d @ CHR '']'' # r) = Some (map snd tvs, r)"
    using cons.prems unfolding m join by (intro cons.IH) simp_all
  ultimately show ?case unfolding m join by (simp add: tv)
qed

lemma json_members_lines:
  assumes "ktvs \<noteq> []" "\<forall>(k, t, v) \<in> set ktvs. reads_as t v"
    "2 * length (js_join '','' (map (\<lambda>(k, t, v). line_at e @ json_quote k @ '': '' @ t) ktvs)) + 2 \<le> n"
    "distinct (map fst acc @ map fst ktvs)"
  shows "json_members n acc (js_join '','' (map (\<lambda>(k, t, v). line_at e @ json_quote k @ '': '' @ t) ktvs) @ line_at d @ CHR ''}'' # r) =
    Some (acc @ map (\<lambda>(k, t, v). (k, v)) ktvs, r)"
  using assms
proof (induction ktvs arbitrary: n acc rule: list_nonempty_induct)
  case (single ktv)
  obtain k t v where ktv: "ktv = (k, t, v)" by (cases ktv)
  from single obtain m where m: "n = Suc m" by (cases n) auto
  have "json_value m (CHR '' '' # t @ line_at d @ CHR ''}'' # r) = json_value m (t @ line_at d @ CHR ''}'' # r)"
    by (cases m) (simp_all add: json_skip_def json_space_def)
  with single show ?case
    using update_fresh [of k acc v]
    by (simp add: m ktv reads_as_def json_quote_def json_string_quote)
next
  case (cons ktv ktvs)
  obtain k t v where ktv: "ktv = (k, t, v)" by (cases ktv)
  from cons obtain m where m: "n = Suc m" by (cases n) auto
  let ?rest = "js_join '','' (map (\<lambda>(k, t, v). line_at e @ json_quote k @ '': '' @ t) ktvs)"
  let ?r = "?rest @ line_at d @ CHR ''}'' # r" and ?acc = "AList.update k v acc"
  have join: "js_join '','' (map (\<lambda>(k, t, v). line_at e @ json_quote k @ '': '' @ t) (ktv # ktvs)) =
      line_at e @ json_quote k @ '': '' @ t @ CHR '','' # ?rest"
    using cons.hyps by (simp add: js_join_Cons ktv)
  have acc: "?acc = acc @ [(k, v)]"
    using cons.prems(3) by (intro update_fresh) (auto simp: ktv)
  have "json_value m (CHR '' '' # t @ CHR '','' # ?r) = json_value m (t @ CHR '','' # ?r)"
    by (cases m) (simp_all add: json_skip_def json_space_def)
  moreover have "json_value m (t @ CHR '','' # ?r) = Some (v, CHR '','' # ?r)"
    using cons.prems unfolding m join by (simp add: reads_as_def ktv)
  moreover have "json_members m ?acc ?r = Some (?acc @ map (\<lambda>(k, t, v). (k, v)) ktvs, r)"
    using cons.prems unfolding m join acc by (intro cons.IH) (auto simp: ktv)
  moreover have "json_string (concat (map json_escape k) @ CHR 0x22 # q) = Some (k, q)" for q
    by (rule json_string_quote)
  ultimately show ?case unfolding m join by (simp add: json_quote_def acc ktv)
qed

lemma reads_asI:
  assumes "\<And>n r. json_num_end r \<Longrightarrow> 2 * length t \<le> n \<Longrightarrow> json_value (Suc n) (t @ r) = Some (v, r)"
  shows "reads_as t v"
  unfolding reads_as_def
proof (intro allI impI)
  fix n r assume "json_num_end r" "2 * length t < n"
  then show "json_value n (t @ r) = Some (v, r)"
    using assms [of r "n - 1"] by (cases n) (simp_all del: json_value.simps)
qed

lemma json_pretty_head: "\<exists>c s. json_pretty d v = c # s \<and> \<not> json_space c \<and> c \<noteq> CHR '']''"
  using json_text_head [of v] by (cases v) (auto simp: Let_def)

lemma reads_as_text: "js_wf v \<Longrightarrow> reads_as (json_text v) (json_clean v)"
  using json_value_text [of v] by (simp add: reads_as_def json_reads_def)

lemma reads_as_pretty: "js_wf v \<Longrightarrow> reads_as (json_pretty d v) (json_clean v)"
proof (induction v arbitrary: d)
  case (JArr vs)
  show ?case
  proof (cases "vs = []")
    case True
    show ?thesis using reads_as_text [of "JArr []"] True by simp
  next
    case False
    let ?tvs = "map (\<lambda>v. (json_pretty (Suc d) v, json_clean v)) vs"
    have layout: "json_pretty d (JArr vs) = CHR ''['' # js_join '','' (map (\<lambda>(t, v). line_at (Suc d) @ t) ?tvs) @ line_at d @ '']''"
      using False by (simp add: o_def)
    show ?thesis
    proof (rule reads_asI)
      fix n and r :: string assume n: "2 * length (json_pretty d (JArr vs)) \<le> n"
      obtain w ws where vs: "vs = w # ws" using False by (cases vs) auto
      obtain c s where "json_pretty (Suc d) w = c # s" "\<not> json_space c" "c \<noteq> CHR '']''"
        using json_pretty_head by blast
      then have "\<not> starts_with '']'' (json_skip (js_join '','' (map (\<lambda>(t, v). line_at (Suc d) @ t) ?tvs) @ line_at d @ CHR '']'' # r))"
        by (cases ws) (simp_all add: vs)
      moreover have "json_elements n (js_join '','' (map (\<lambda>(t, v). line_at (Suc d) @ t) ?tvs) @ line_at d @ CHR '']'' # r) =
          Some (map snd ?tvs, r)"
      proof (rule json_elements_lines)
        show "\<forall>(t, v) \<in> set ?tvs. reads_as t v" using JArr by (auto simp: list_all_iff)
        show "2 * length (js_join '','' (map (\<lambda>(t, v). line_at (Suc d) @ t) ?tvs)) + 2 \<le> n"
          using n unfolding layout by simp
      qed (use False in simp)
      ultimately show "json_value (Suc n) (json_pretty d (JArr vs) @ r) = Some (json_clean (JArr vs), r)"
        unfolding layout by (simp add: json_value_array o_def del: json_value.simps)
    qed
  qed
next
  case (JObj kvs)
  let ?ps = "filter (\<lambda>kv. snd kv \<noteq> JUndef) kvs"
  show ?case
  proof (cases "?ps = []")
    case True
    show ?thesis using reads_as_text [of "JObj []"] True by (simp add: Let_def)
  next
    case False
    let ?ktvs = "map (\<lambda>kv. (fst kv, json_pretty (Suc d) (snd kv), json_clean (snd kv))) ?ps"
    let ?members = "js_join '','' (map (\<lambda>(k, t, v). line_at (Suc d) @ json_quote k @ '': '' @ t) ?ktvs)"
    have layout: "json_pretty d (JObj kvs) = CHR ''{'' # ?members @ line_at d @ ''}''"
      using False by (simp add: Let_def o_def)
    show ?thesis
    proof (rule reads_asI)
      fix n and r :: string assume n: "2 * length (json_pretty d (JObj kvs)) \<le> n"
      obtain w ws where ps: "?ps = w # ws" using False by (cases ?ps) auto
      have "\<not> starts_with ''}'' (json_skip (?members @ line_at d @ CHR ''}'' # r))"
        unfolding ps by (cases ws) (simp_all add: json_quote_def)
      moreover have "json_members n [] (?members @ line_at d @ CHR ''}'' # r) = Some ([] @ map (\<lambda>(k, t, v). (k, v)) ?ktvs, r)"
      proof (rule json_members_lines)
        show "\<forall>(k, t, v) \<in> set ?ktvs. reads_as t v" using JObj by (fastforce simp: list_all_iff snds.simps)
        show "2 * length ?members + 2 \<le> n" using n unfolding layout by simp
        show "distinct (map fst [] @ map fst ?ktvs)" using JObj.prems by (simp add: o_def distinct_map_filter)
      qed (use False in simp)
      ultimately show "json_value (Suc n) (json_pretty d (JObj kvs) @ r) = Some (json_clean (JObj kvs), r)"
        unfolding layout by (simp add: json_value_object o_def del: json_value.simps)
    qed
  qed
qed (simp_all only: json_pretty.simps reads_as_text js_wf.simps)

lemma json_pretty_round_trip:
  assumes "js_wf v"
  shows "JSON_parse (json_pretty d v) = Inr (json_clean v)"
proof -
  have "json_value (2 * length (json_pretty d v) + 1) (json_pretty d v @ []) = Some (json_clean v, [])"
    using reads_as_pretty [OF assms, of d, unfolded reads_as_def, rule_format, of "[]" "2 * length (json_pretty d v) + 1"] by simp
  then show ?thesis by (simp add: JSON_parse_def json_skip_def del: json_value.simps)
qed

end
