(* ===== verification/Catalog_Page.thy ===== *)
theory Catalog_Page
  imports Form_Fields Sorting_Service Json_Pretty
begin

text \<open>
  \<open>modules/catalog/components/catalog-page/\<close>: the page that installs, reinstalls and uninstalls an
  application of the catalog, and \<open>GlobalToolsService\<close>.

  The code mutates nodes that the lists of the page and its form share: \<open>cp_store\<close> holds them, and a node
  is a reference to it. The controls of a host are kept by requests that are waiting when the form is built
  again, so the groups of controls have references too, to \<open>cp_groups\<close>. Both stores only grow.
\<close>

section \<open>Services\<close>

definition get_spaces :: "js endpoint" where
  "get_spaces = endpoint GET ''/api/tools/spaces'' JUndef ''get spaces'' as_is"

definition get_iface_states :: "js \<Rightarrow> js list endpoint" where
  "get_iface_states hostname =
     endpoint GET (''/api/tools/ifaces/'' @ str hostname) JUndef ''get iface states'' (js_map_list new_IFACEStateClass)"

section \<open>Texts\<close>

text \<open>\<open>Object.assign({}, ...)\<close>.\<close>

definition object_assign :: "js list \<Rightarrow> js" where
  "object_assign sources = fold (\<lambda>src. fold (\<lambda>k w. js_set w k (js_get src k)) (js_keys src)) sources (JObj [])"

text \<open>\<open>control_name.replace(/([a-z](?=[A-Z]))/g, '$1_')\<close>.\<close>

fun camel_words :: "string \<Rightarrow> string" where
  "camel_words (c # d # cs) = (if is_lower c \<and> is_upper d then c # CHR ''_'' # camel_words (d # cs) else c # camel_words (d # cs))"
| "camel_words cs = cs"

definition capitalize :: "string \<Rightarrow> string" where
  "capitalize word = toUpperCase (take 1 word) @ drop 1 word"

definition get_label_or_placeholder :: "string \<Rightarrow> string" where
  "get_label_or_placeholder ctl =
     js_join '' '' (map capitalize (js_split (CHR ''_'') (toLowerCase (camel_words ctl))))"

section \<open>State\<close>

abbreviation INSTALL :: string where "INSTALL \<equiv> ''install''"
abbreviation REINSTALL :: string where "REINSTALL \<equiv> ''reinstall''"
abbreviation UNINSTALL :: string where "UNINSTALL \<equiv> ''uninstall''"

definition SERVER_ANY_VALUE :: js where
  "SERVER_ANY_VALUE = JStr ''Server - Any''"

record process =
  pr_process :: string
  pr_children :: "nat list"

record process_form =
  pf_process :: js
  pf_process_on :: bool
  pf_nodes :: "nat list"
  pf_nodes_on :: bool
  pf_nodes_required :: bool
  pf_affinity :: js

record config_control = option_control +
  oc_on :: bool

record value_control =
  vc_value :: js
  vc_on :: bool

datatype cp_request =
    CP_ChartInfo | CP_Statuses bool | CP_CatalogNodes | CP_Saved | CP_AllStatuses string js nat
  | CP_Generate | CP_Installed | CP_Reinstalled | CP_Uninstalled | CP_Iface nat

datatype cp_dialog = CP_Dependent | CP_Editor nat

text \<open>The array of the last \<open>filter_nodes_by_process\<close> is the one of a process until a node is pushed there,
  which also replaces the array of the process: \<open>cp_node_list_of\<close> is that process.\<close>

record cp_state = "(cp_request, cp_dialog) async" +
  cp_store :: "js list"
  cp_groups :: "(string \<times> config_control) list list"
  cp_form :: "process_form option"
  cp_config :: "(string \<times> nat) list option"
  cp_values :: "(string \<times> value_control) list"
  cp_node_list :: "nat list"
  cp_node_list_of :: "string option"
  cp_processes :: "process list"
  cp_chart_info :: js
  cp_nodes :: "nat list option"
  set_children_called :: bool
  cp_saved_values :: "js list option"
  cp_statuses :: "js list option"
  cp_config_array :: "js list"
  service_node_available :: bool
  cp_iface_states :: "(string \<times> js) list"

definition PROCESS_LIST :: "process list" where
  "PROCESS_LIST = map (\<lambda>p. \<lparr>pr_process = p, pr_children = []\<rparr>) [INSTALL, REINSTALL, UNINSTALL]"

definition cp_constructor :: cp_state where
  "cp_constructor =
     \<lparr>trace = [], matSnackBarRef = None, requests = [], dialogs = [], cp_store = [], cp_groups = [], cp_form = None,
      cp_config = None, cp_values = [], cp_node_list = [], cp_node_list_of = None, cp_processes = PROCESS_LIST,
      cp_chart_info = JUndef, cp_nodes = None, set_children_called = False, cp_saved_values = None, cp_statuses = None,
      cp_config_array = [], service_node_available = False, cp_iface_states = []\<rparr>"

definition cp_node :: "cp_state \<Rightarrow> nat \<Rightarrow> js" where
  "cp_node s n = (if n < length (cp_store s) then cp_store s ! n else JUndef)"

abbreviation cp_field :: "cp_state \<Rightarrow> nat \<Rightarrow> string \<Rightarrow> js" where
  "cp_field s n k \<equiv> js_get (cp_node s n) k"

definition cp_set_field :: "nat \<Rightarrow> string \<Rightarrow> js \<Rightarrow> cp_state \<Rightarrow> cp_state" where
  "cp_set_field n k v s = s\<lparr>cp_store := (cp_store s)[n := js_set (cp_node s n) k v]\<rparr>"

definition cp_info :: "cp_state \<Rightarrow> string \<Rightarrow> js" where
  "cp_info s k = js_get (cp_chart_info s) k"

definition server_any :: "cp_state \<Rightarrow> bool" where
  "server_any s \<longleftrightarrow> strict_eq (cp_info s ''node_affinity'') SERVER_ANY_VALUE"

text \<open>\<open>getRawValue()\<close> of the process form.\<close>

definition process_value :: "cp_state \<Rightarrow> process_form \<Rightarrow> js" where
  "process_value s f =
     JObj [(''selectedProcess'', pf_process f), (''selectedNodes'', JArr (map (cp_node s) (pf_nodes f))),
           (''node_affinity'', pf_affinity f)]"

text \<open>Every use of the process form throws before there is one.\<close>

definition with_form :: "(process_form \<Rightarrow> cp_state \<Rightarrow> cp_state attempt) \<Rightarrow> cp_state \<Rightarrow> cp_state attempt" where
  "with_form f s = (case cp_form s of None \<Rightarrow> (Some TypeError, s) | Some pf \<Rightarrow> f pf s)"

definition fails :: "js_error \<Rightarrow> 's \<Rightarrow> 's attempt" where
  "fails e s = (Some e, s)"

section \<open>Requests\<close>

definition navigate_to_catalog :: "cp_state \<Rightarrow> cp_state" where
  "navigate_to_catalog = emit (Navigate ''/catalog'' JUndef)"

definition cp_api_get_chart_info :: "string \<Rightarrow> cp_state \<Rightarrow> cp_state" where
  "cp_api_get_chart_info application = call (get_chart_info (JStr application)) CP_ChartInfo"

definition cp_ngOnInit :: "string \<Rightarrow> cp_state \<Rightarrow> cp_state" where
  "cp_ngOnInit url s =
     (let application = last (js_split (CHR ''/'') url)
      in if application = [] then navigate_to_catalog s else cp_api_get_chart_info application s)"

definition cp_api_get_chart_statuses :: "bool \<Rightarrow> cp_state \<Rightarrow> cp_state" where
  "cp_api_get_chart_statuses chart_info_dev_dependent s =
     call (get_chart_statuses (cp_info s (if chart_info_dev_dependent then ''devDependent'' else ''id'')))
       (CP_Statuses chart_info_dev_dependent) s"

definition cp_api_get_catalog_nodes :: "cp_state \<Rightarrow> cp_state" where
  "cp_api_get_catalog_nodes = call get_catalog_nodes CP_CatalogNodes"

definition cp_api_get_saved_values :: "cp_state \<Rightarrow> cp_state" where
  "cp_api_get_saved_values s = call (get_saved_values (cp_info s ''id'')) CP_Saved s"

definition cp_api_generate_values_file :: "cp_state \<Rightarrow> cp_state attempt" where
  "cp_api_generate_values_file = with_form (\<lambda>f s. done_with
     (call (generate_values_file (JObj [(''role'', cp_info s ''id''), (''process'', process_value s f),
        (''configs'', JArr (cp_config_array s))])) CP_Generate s))"

definition cp_api_get_iface_states :: "nat \<Rightarrow> cp_state \<Rightarrow> cp_state" where
  "cp_api_get_iface_states n s = call (get_iface_states (cp_field s n ''hostname'')) (CP_Iface n) s"

definition cp_get_iface_states :: "cp_state \<Rightarrow> cp_state attempt" where
  "cp_get_iface_states = with_form (\<lambda>f.
     each (\<lambda>n s. done_with (if cp_field s n ''node_type'' = JStr ''Sensor'' then cp_api_get_iface_states n s else s)) (pf_nodes f))"

definition check_chart_dependencies :: "string \<Rightarrow> js \<Rightarrow> nat \<Rightarrow> cp_state \<Rightarrow> cp_state" where
  "check_chart_dependencies k checkbox_dependent_app g =
     call get_all_application_statuses (CP_AllStatuses k checkbox_dependent_app g)"

section \<open>The choice of a process\<close>

definition cp_initialize_process_form_group :: "cp_state \<Rightarrow> cp_state" where
  "cp_initialize_process_form_group s =
     s\<lparr>cp_form := Some \<lparr>pf_process = JStr [], pf_process_on = set_children_called s, pf_nodes = [], pf_nodes_on = False,
       pf_nodes_required = False, pf_affinity = cp_info s ''node_affinity''\<rparr>\<rparr>"

definition cp_selection_change_process :: "cp_state \<Rightarrow> cp_state attempt" where
  "cp_selection_change_process = with_form (\<lambda>f s. done_with
     (if pf_process_on f \<and> \<not> empty_input (pf_process f)
      then s\<lparr>cp_form := Some (f\<lparr>pf_nodes_on := True,
        pf_nodes_required := pf_nodes_required f \<or> \<not> strict_eq (pf_affinity f) SERVER_ANY_VALUE\<rparr>)\<rparr>
      else s))"

definition filter_nodes_by_process :: "js \<Rightarrow> cp_state \<Rightarrow> nat list \<times> cp_state" where
  "filter_nodes_by_process selected_process s =
     (let s' = fold (\<lambda>p t. if JStr (pr_process p) = selected_process
                then t\<lparr>cp_node_list := pr_children p, cp_node_list_of := Some (pr_process p)\<rparr> else t) (cp_processes s) s
      in (cp_node_list s', s'))"

definition cp_is_config_ready :: "cp_state \<Rightarrow> bool" where
  "cp_is_config_ready s \<longleftrightarrow>
     (case cp_form s of None \<Rightarrow> False
      | Some f \<Rightarrow> pf_process f \<in> {JStr INSTALL, JStr REINSTALL} \<and> (pf_nodes f \<noteq> [] \<or> server_any s))"

text \<open>\<open>new Map(children.map(item => [item._id, item])).values()\<close>: a key keeps its first place and gets its
  last value.\<close>

definition unique_by_id :: "(nat \<Rightarrow> js) \<Rightarrow> nat list \<Rightarrow> nat list" where
  "unique_by_id k ns = map snd (fold (\<lambda>n. AList.update (k n) n) ns [])"

definition push_child :: "nat \<Rightarrow> process \<Rightarrow> cp_state \<Rightarrow> process" where
  "push_child n p s = p\<lparr>pr_children := unique_by_id (\<lambda>m. cp_field s m ''_id'') (pr_children p @ [n])\<rparr>"

definition offered_for :: "js \<Rightarrow> string \<Rightarrow> bool" where
  "offered_for child_status p \<longleftrightarrow>
     (if child_status = JStr ''DEPLOYED'' then p \<noteq> INSTALL
      else if child_status = JStr ''UNKNOWN'' then p \<noteq> REINSTALL \<and> p \<noteq> UNINSTALL
      else True)"

definition set_children :: "js \<Rightarrow> nat \<Rightarrow> cp_state \<Rightarrow> cp_state attempt" where
  "set_children child_status n s =
     (let s1 = s\<lparr>cp_processes := map (\<lambda>p. if offered_for child_status (pr_process p) then push_child n p s else p) (cp_processes s)\<rparr>;
          s2 = (case cp_node_list_of s of
                  Some q \<Rightarrow> if offered_for child_status q \<and> q \<in> set (map pr_process (cp_processes s))
                    then s1\<lparr>cp_node_list := cp_node_list s @ [n], cp_node_list_of := None\<rparr> else s1
                | None \<Rightarrow> s1)
      in with_form (\<lambda>f t. done_with (t\<lparr>cp_form := Some (f\<lparr>pf_process_on := True\<rparr>), set_children_called := True\<rparr>)) s2)"

definition node_status :: "js list \<Rightarrow> js \<Rightarrow> string \<Rightarrow> string \<Rightarrow> js" where
  "node_status statuses hostname node_type name =
     (case filter (\<lambda>st. strict_eq hostname (js_get st ''hostname'') \<or>
          toLowerCase node_type \<noteq> ''sensor'' \<and> str_includes name (str (js_get st ''hostname''))) statuses of
        [] \<Rightarrow> JUndef | st # _ \<Rightarrow> st)"

definition place_node :: "nat \<Rightarrow> cp_state \<Rightarrow> cp_state attempt" where
  "place_node n s =
     (case (as_string (cp_field s n ''node_type''), cp_statuses s) of
        (Inr node_type, Some statuses) \<Rightarrow>
          let hostname = cp_field s n ''hostname'';
              s1 = cp_set_field n ''status'' (node_status statuses hostname node_type (the_str hostname)) s
          in if toLowerCase node_type \<noteq> ''sensor'' \<and> \<not> is_JStr hostname \<and>
               list_ex (\<lambda>st. \<not> strict_eq hostname (js_get st ''hostname'')) statuses then fails TypeError s
             else (case as_string (cp_info s ''node_affinity'') of
               Inl e \<Rightarrow> fails e s1
             | Inr affinity \<Rightarrow>
                 let st = cp_field s1 n ''status'';
                     child_status = (if notUndefNull st then js_get st ''status'' else JStr ''UNKNOWN'')
                 in and_then
                      (if str_includes affinity node_type \<or> server_any s \<and> node_type = ''Server''
                       then set_children child_status n s1 else done_with s1)
                      (\<lambda>t. done_with (if node_type = ''Service'' then t\<lparr>service_node_available := True\<rparr> else t)))
      | (Inl e, _) \<Rightarrow> fails e s
      | _ \<Rightarrow> fails TypeError s)"

text \<open>The sorted answer becomes the nodes of the page. Every node is placed before empty processes are
  dropped.\<close>

definition set_process_list_children :: "string comparator \<Rightarrow> js list \<Rightarrow> cp_state \<Rightarrow> cp_state attempt" where
  "set_process_list_children lc nodes s =
     (case node_alphanum lc nodes of
        Inl e \<Rightarrow> fails e s
      | Inr sorted_nodes \<Rightarrow>
          let refs = [length (cp_store s) ..< length (cp_store s) + length sorted_nodes];
              s1 = s\<lparr>cp_store := cp_store s @ sorted_nodes, cp_nodes := Some refs\<rparr>
          in and_then (each place_node refs s1)
               (\<lambda>t. done_with (t\<lparr>cp_processes := filter (\<lambda>p. pr_children p \<noteq> []) (cp_processes t)\<rparr>)))"

text \<open>An application for any server is installed on the control planes, which the page calls \<open>server\<close>.\<close>

fun push_control_planes :: "nat list \<Rightarrow> nat list \<Rightarrow> cp_state \<Rightarrow> cp_state attempt" where
  "push_control_planes selected_nodes [] s = done_with s"
| "push_control_planes selected_nodes (n # ns) s =
     (if cp_field s n ''node_type'' = JStr ''Control-Plane''
      then and_then
        (with_form (\<lambda>f t. done_with (t\<lparr>cp_form := Some (f\<lparr>pf_nodes := selected_nodes @ [n]\<rparr>)\<rparr>))
          (cp_set_field n ''hostname'' (JStr ''server'') s))
        (push_control_planes (selected_nodes @ [n]) ns)
      else push_control_planes selected_nodes ns s)"

definition server_any_value_check :: "cp_state \<Rightarrow> cp_state attempt" where
  "server_any_value_check s =
     (if server_any s
      then (case cp_nodes s of None \<Rightarrow> fails TypeError s | Some ns \<Rightarrow> push_control_planes [] ns s)
      else done_with s)"

definition set_deployment_name :: "cp_state \<Rightarrow> cp_state attempt" where
  "set_deployment_name = with_form (\<lambda>f.
     each (\<lambda>n s. case cp_statuses s of None \<Rightarrow> fails TypeError s
       | Some statuses \<Rightarrow> done_with (fold (\<lambda>st t.
           if strict_eq (js_get st ''hostname'') (cp_field t n ''hostname'') \<or> js_get st ''hostname'' = JNull
           then cp_set_field n ''deployment_name'' (js_get st ''deployment_name'') t else t) statuses s)) (pf_nodes f))"

section \<open>The configuration form\<close>

definition get_deployment_name :: "js \<Rightarrow> js \<Rightarrow> js option \<Rightarrow> cp_state \<Rightarrow> js_error + js" where
  "get_deployment_name application node_hostname v s =
     smap (\<lambda>hostname.
       let new_hostname = hd (js_split (CHR ''.'') hostname);
           deployment_name = (if server_any s then application else JStr (new_hostname @ ''-'' @ str application));
           saved = (case v of None \<Rightarrow> JUndef | Some w \<Rightarrow> js_get w ''deployment_name'')
       in if notUndefNull saved \<and> \<not> strict_eq saved deployment_name then saved else deployment_name)
     (as_string node_hostname)"

definition cp_control :: "js \<Rightarrow> js \<Rightarrow> bool \<Rightarrow> config_control" where
  "cp_control fc v has_validators =
     \<lparr>oc_value = new_control v, oc_pattern = (if has_validators then js_get fc ''regexp'' else JUndef),
      oc_required = (has_validators \<and> truthy (js_get fc ''required'')), oc_on = True\<rparr>"

text \<open>The controls of the types \<open>textinput\<close>, \<open>textbox\<close>, \<open>suricata-list\<close> and \<open>zeek-list\<close> are made alike.\<close>

definition get_form_control :: "js \<Rightarrow> js \<Rightarrow> js option \<Rightarrow> cp_state \<Rightarrow> config_control" where
  "get_form_control fc hostname v s =
     (let saved = (case v of None \<Rightarrow> JUndef | Some w \<Rightarrow> js_get w (str (js_get fc ''name'')));
          pick = (\<lambda>w default. if notUndefNull saved then w else default);
          t = js_get fc ''type''; default = js_get fc ''default_value''
      in if t \<in> {JStr ''textinput'', JStr ''textbox'', JStr ''suricata-list'', JStr ''zeek-list''} then cp_control fc (pick saved default) True
         else if t = JStr ''textinputlist'' then
           cp_control fc (pick (if is_JStr saved then saved else JStr (json_text saved)) default) True
         else if t = JStr ''invisible'' then cp_control fc (pick saved hostname) False
         else if t = JStr ''checkbox'' then cp_control fc (pick saved default) False
         else if t = JStr ''interface'' then cp_control fc (pick saved (JArr [])) True
         else if t = JStr ''service-node-checkbox'' then
           (cp_control fc (pick saved (JBool (service_node_available s))) True)\<lparr>oc_on := service_node_available s\<rparr>
         else cp_control fc (JArr []) False)"

definition dependent_checkboxes :: "js list \<Rightarrow> (string \<times> js) list" where
  "dependent_checkboxes fcs =
     fold (\<lambda>fc. if js_get fc ''type'' = JStr ''checkbox'' \<and> notUndefNull (js_get fc ''dependent_app'')
       then AList.update (str (js_get fc ''name'')) (js_get fc ''dependent_app'') else id) fcs []"

text \<open>The controls of a host and the checkboxes that depend on other applications.\<close>

definition initialize_config_form_control ::
  "js \<Rightarrow> js option \<Rightarrow> cp_state \<Rightarrow> js_error + (string \<times> config_control) list \<times> (string \<times> js) list" where
  "initialize_config_form_control hostname v s =
     (let fcs = arr_elems (cp_info s ''formControls'');
          group = fold (\<lambda>fc. add_control (str (js_get fc ''name'')) (get_form_control fc hostname v s)) fcs []
      in smap (\<lambda>deployment_name.
           (add_control ''deployment_name''
              \<lparr>oc_value = deployment_name, oc_pattern = JUndef, oc_required = False, oc_on = False\<rparr> group,
            dependent_checkboxes fcs))
         (get_deployment_name (cp_info s ''id'') hostname v s))"

text \<open>The last saved values of a host are used.\<close>

definition config_controls_of :: "nat \<Rightarrow> cp_state \<Rightarrow> js_error + (string \<times> config_control) list \<times> (string \<times> js) list" where
  "config_controls_of n s =
     (let hostname = cp_field s n ''hostname'' in
      fold (\<lambda>saved_value r. sbind r (\<lambda>controls. sbind (js_index (js_get saved_value ''values'') ''node_hostname'') (\<lambda>h.
          if strict_eq h hostname then initialize_config_form_control hostname (Some (js_get saved_value ''values'')) s
          else Inr controls)))
        (case cp_saved_values s of None \<Rightarrow> [] | Some vs \<Rightarrow> vs)
        (initialize_config_form_control hostname None s))"

definition handle_checkbox_dependent_apps :: "nat \<Rightarrow> (string \<times> js) list \<Rightarrow> cp_state \<Rightarrow> cp_state" where
  "handle_checkbox_dependent_apps g = fold (\<lambda>(k, app). check_chart_dependencies k app g)"

definition config_node :: "nat \<Rightarrow> cp_state \<Rightarrow> cp_state attempt" where
  "config_node n s =
     and_then (set_deployment_name s) (\<lambda>t.
       case config_controls_of n t of
         Inl e \<Rightarrow> fails e t
       | Inr (controls, checkboxes) \<Rightarrow>
           let k = str (cp_field t n ''hostname'');
               config = add_control k (length (cp_groups t)) (case cp_config t of None \<Rightarrow> [] | Some c \<Rightarrow> c)
           in done_with (handle_checkbox_dependent_apps (the (map_of config k)) checkboxes
                (t\<lparr>cp_groups := cp_groups t @ [controls], cp_config := Some config\<rparr>)))"

definition cp_initialize_config_form_group :: "cp_state \<Rightarrow> cp_state attempt" where
  "cp_initialize_config_form_group s =
     with_form (\<lambda>f. each config_node (pf_nodes f)) (s\<lparr>cp_config := Some []\<rparr>)"

text \<open>A control of a host.\<close>

definition cp_group :: "js \<Rightarrow> cp_state \<Rightarrow> nat option" where
  "cp_group hostname s = (case cp_config s of None \<Rightarrow> None | Some c \<Rightarrow> map_of c (str hostname))"

definition cp_get_control :: "nat \<Rightarrow> js \<Rightarrow> cp_state \<Rightarrow> config_control option" where
  "cp_get_control n fc s =
     (case cp_group (cp_field s n ''hostname'') s of None \<Rightarrow> None
      | Some g \<Rightarrow> if g < length (cp_groups s) then map_of (cp_groups s ! g) (str (js_get fc ''name'')) else None)"

definition cp_update_control :: "nat \<Rightarrow> string \<Rightarrow> (config_control \<Rightarrow> config_control) \<Rightarrow> cp_state \<Rightarrow> cp_state" where
  "cp_update_control g k f s =
     s\<lparr>cp_groups := (cp_groups s)[g := map (\<lambda>(j, c). (j, if j = k then f c else c)) (cp_groups s ! g)]\<rparr>"

definition checkbox_value :: "nat \<Rightarrow> js \<Rightarrow> cp_state \<Rightarrow> js_error + bool" where
  "checkbox_value n fc s =
     (case cp_get_control n fc s of None \<Rightarrow> Inl TypeError | Some c \<Rightarrow> Inr (strict_eq (oc_value c) (js_get fc ''trueValue'')))"

definition checkbox_set_value :: "nat \<Rightarrow> js \<Rightarrow> cp_state \<Rightarrow> cp_state attempt" where
  "checkbox_set_value n fc s =
     (case (cp_group (cp_field s n ''hostname'') s, cp_get_control n fc s) of
        (Some g, Some c) \<Rightarrow>
          done_with (cp_update_control g (str (js_get fc ''name''))
            (\<lambda>c. c\<lparr>oc_value := js_get fc (if truthy (oc_value c) then ''trueValue'' else ''falseValue'')\<rparr>) s)
      | _ \<Rightarrow> fails TypeError s)"

definition is_form_control_invalid :: "(string \<Rightarrow> string \<Rightarrow> bool) \<Rightarrow> nat \<Rightarrow> js \<Rightarrow> cp_state \<Rightarrow> js_error + bool" where
  "is_form_control_invalid matches n fc s =
     (case cp_get_control n fc s of None \<Rightarrow> Inl TypeError | Some c \<Rightarrow> Inr (oc_on c \<and> \<not> oc_valid matches c))"

definition check_interface :: "string \<Rightarrow> string \<Rightarrow> cp_state \<Rightarrow> js_error + bool" where
  "check_interface hostname iface s =
     (case map_of (cp_iface_states s) hostname of None \<Rightarrow> Inr False
      | Some ifaces \<Rightarrow> smap (\<lambda>up. \<not> truthy up) (js_index (js_get ifaces iface) ''link_up''))"

section \<open>The values file\<close>

definition set_value_form_group :: "js \<Rightarrow> nat \<Rightarrow> cp_state \<Rightarrow> cp_state attempt" where
  "set_value_form_group hostname_object n s =
     (case js_index hostname_object ''deployment_name'' of
        Inl e \<Rightarrow> fails e s
      | Inr deployment_name \<Rightarrow>
          let k = str deployment_name; text = JStr (json_pretty 0 hostname_object)
          in done_with (cp_set_field n ''deployment_name'' deployment_name
               (s\<lparr>cp_values := (case map_of (cp_values s) k of
                   None \<Rightarrow> cp_values s @ [(k, \<lparr>vc_value = text, vc_on = False\<rparr>)]
                 | Some c \<Rightarrow> AList.update k (c\<lparr>vc_value := text\<rparr>) (cp_values s))\<rparr>)))"

definition compare_value :: "nat \<Rightarrow> js \<Rightarrow> js \<Rightarrow> cp_state \<Rightarrow> cp_state attempt" where
  "compare_value n saved_value config s =
     (let hostname = cp_field s n ''hostname'';
          config_object = js_get config (str hostname);
          saved = js_get saved_value ''values'';
          same = (if config_object = JUndef then Inr False
            else sbind (js_index config_object ''node_hostname'') (\<lambda>h. smap (\<lambda>w.
              strict_eq h w \<and> strict_eq w hostname \<and> strict_eq hostname h) (js_index saved ''node_hostname'')))
      in case same of Inl e \<Rightarrow> fails e s
         | Inr b \<Rightarrow> if b \<or> server_any s then set_value_form_group (object_assign [saved, config_object]) n s else done_with s)"

definition compare_values :: "cp_state \<Rightarrow> cp_state attempt" where
  "compare_values = with_form (\<lambda>f. each (\<lambda>n s.
     each (\<lambda>saved_value t. each (\<lambda>config. compare_value n saved_value config) (cp_config_array t) t)
       (case cp_saved_values s of None \<Rightarrow> [] | Some vs \<Rightarrow> vs) s) (pf_nodes f))"

text \<open>The values of a host, with the texts of its networks parsed.\<close>

definition parse_net :: "string \<Rightarrow> js \<Rightarrow> js_error + js" where
  "parse_net k obj =
     (if notUndefNull (js_get obj k) \<and> js_get obj k \<noteq> JStr []
      then smap (js_set obj k) (JSON_parse (str (js_get obj k))) else Inr obj)"

definition group_value :: "nat \<Rightarrow> cp_state \<Rightarrow> js" where
  "group_value g s = JObj (map (\<lambda>(k, c). (k, oc_value c)) (if g < length (cp_groups s) then cp_groups s ! g else []))"

definition config_values :: "cp_state \<Rightarrow> js_error + js list" where
  "config_values s =
     (case cp_config s of None \<Rightarrow> Inl TypeError
      | Some config \<Rightarrow> mapS (\<lambda>(k, g). smap (\<lambda>v. JObj [(k, v)])
          (sbind (parse_net ''home_net'' (group_value g s)) (parse_net ''external_net''))) config)"

definition cp_get_values_file :: "cp_state \<Rightarrow> cp_state attempt" where
  "cp_get_values_file s =
     (case config_values s of
        Inl e \<Rightarrow> fails e s
      | Inr config_array \<Rightarrow>
          let s1 = s\<lparr>cp_config_array := config_array\<rparr> in
          case cp_saved_values s of
            None \<Rightarrow> cp_api_generate_values_file s1
          | Some saved_values \<Rightarrow>
              each (\<lambda>saved_value. with_form (\<lambda>f. each (\<lambda>n t.
                case js_index (js_get saved_value ''values'') ''node_hostname'' of
                  Inl e \<Rightarrow> fails e t
                | Inr h \<Rightarrow> if strict_eq h (cp_field t n ''hostname'') \<or> server_any t
                    then compare_values t else cp_api_generate_values_file t) (pf_nodes f))) saved_values s1)"

definition cp_selection_change_stepper :: "nat \<Rightarrow> cp_state \<Rightarrow> cp_state attempt" where
  "cp_selection_change_stepper selected_index s =
     (if selected_index = 1 then
        and_then (server_any_value_check s)
          (\<lambda>t. if cp_is_config_ready t then cp_initialize_config_form_group t else done_with t)
      else if selected_index = 2 then cp_get_values_file s
      else done_with (cp_initialize_process_form_group s))"

definition get_value_form_group_json_object :: "nat \<Rightarrow> cp_state \<Rightarrow> js_error + js" where
  "get_value_form_group_json_object n s =
     (case map_of (cp_values s) (str (cp_field s n ''deployment_name'')) of None \<Rightarrow> Inl TypeError | Some c \<Rightarrow> Inr (vc_value c))"

definition CP_UPDATE_CONFIRM :: js where
  "CP_UPDATE_CONFIRM =
     JObj [(''title'', JStr ''Close and update''),
           (''message'', JStr (''Are you sure you want to update this configuration? '' @
              ''Doing so will update the application configuration.'')),
           (''confirmButtonText'', JStr ''Update''), (''successText'', JStr ''Updated Applcation Configuration''),
           (''failText'', JStr ''Could not update''), (''useGeneralActionFunc'', JBool True)]"

definition CP_CLOSE_CONFIRM :: js where
  "CP_CLOSE_CONFIRM =
     JObj [(''title'', JStr ''Close without updating''),
           (''message'', JStr ''Are you sure you want to close this editor? All changes will be discarded.''),
           (''confirmButtonText'', JStr ''Close''), (''successText'', JStr ''Closed without updating''),
           (''failText'', JStr []), (''useGeneralActionFunc'', JBool True)]"

definition cp_open_text_editor :: "nat \<Rightarrow> cp_state \<Rightarrow> cp_state attempt" where
  "cp_open_text_editor n s =
     attempt s (sbind (as_string (cp_info s ''id'')) (\<lambda>chart. smap (\<lambda>text.
       open_dialog ''NGXMonacoTextEditorComponent''
         (JObj [(''show_options'', JBool True), (''is_read_only'', JBool False),
                (''title'', JStr (''Advanced Configuration: '' @ capitalize chart)), (''text'', text), (''use_language'', JStr ''json''),
                (''display_save'', JBool True), (''disable_save'', JBool False),
                (''confirm_save'', CP_UPDATE_CONFIRM), (''confirm_close'', CP_CLOSE_CONFIRM)]) (CP_Editor n) s)
       (get_value_form_group_json_object n s)))"

definition cp_open_text_editor_closed :: "nat \<Rightarrow> js \<Rightarrow> cp_state \<Rightarrow> cp_state attempt" where
  "cp_open_text_editor_closed n response s =
     (if notUndefNull response then
        let k = str (cp_field s n ''deployment_name'') in
        (case map_of (cp_values s) k of
           None \<Rightarrow> fails TypeError s
         | Some c \<Rightarrow> done_with (s\<lparr>cp_values := AList.update k (c\<lparr>vc_value := response\<rparr>) (cp_values s)\<rparr>))
      else done_with s)"

section \<open>The action\<close>

definition parse_value :: "nat \<Rightarrow> cp_state \<Rightarrow> cp_state attempt" where
  "parse_value n s =
     (let k = str (cp_field s n ''deployment_name'');
          put = (\<lambda>c. s\<lparr>cp_values := AList.update k c (cp_values s)\<rparr>) in
      case map_of (cp_values s) k of
        None \<Rightarrow> fails TypeError s
      | Some c \<Rightarrow>
          if \<not> notUndefNull (vc_value c) then fails TypeError (put (c\<lparr>vc_on := False\<rparr>))
          else attempt (put (c\<lparr>vc_on := False\<rparr>))
            (smap (\<lambda>v. put (c\<lparr>vc_on := False, vc_value := v\<rparr>)) (JSON_parse (str (vc_value c)))))"

definition make_values_array :: "cp_state \<Rightarrow> js" where
  "make_values_array s = JArr (map (\<lambda>(k, c). JObj [(k, vc_value c)]) (cp_values s))"

definition parse_values :: "cp_state \<Rightarrow> cp_state attempt" where
  "parse_values = with_form (\<lambda>f. each parse_value (pf_nodes f))"

definition cp_api_catalog_install :: "js \<Rightarrow> cp_state \<Rightarrow> cp_state" where
  "cp_api_catalog_install catalog_helm_action = call (catalog_install catalog_helm_action) CP_Installed"

definition cp_api_catalog_reinstall :: "js \<Rightarrow> cp_state \<Rightarrow> cp_state" where
  "cp_api_catalog_reinstall catalog_helm_action = call (catalog_reinstall catalog_helm_action) CP_Reinstalled"

definition cp_api_catalog_uninstall :: "js \<Rightarrow> cp_state \<Rightarrow> cp_state" where
  "cp_api_catalog_uninstall catalog_helm_action = call (catalog_uninstall catalog_helm_action) CP_Uninstalled"

definition run_with_values :: "(js \<Rightarrow> cp_state \<Rightarrow> cp_state) \<Rightarrow> cp_state \<Rightarrow> cp_state attempt" where
  "run_with_values send =
     with_form (\<lambda>f s. and_then (parse_values s) (\<lambda>t. done_with (send
       (JObj [(''role'', cp_info s ''id''), (''process'', process_value t f), (''values'', make_values_array t)]) t)))"

definition cp_run_chart_action :: "cp_state \<Rightarrow> cp_state attempt" where
  "cp_run_chart_action = with_form (\<lambda>f s.
     if pf_process f = JStr INSTALL then run_with_values cp_api_catalog_install s
     else if pf_process f = JStr REINSTALL then run_with_values cp_api_catalog_reinstall s
     else if pf_process f = JStr UNINSTALL then
       and_then (server_any_value_check s) (\<lambda>t. and_then (set_deployment_name t) (with_form (\<lambda>g u. done_with
         (cp_api_catalog_uninstall (JObj [(''role'', cp_info s ''id''), (''process'', process_value u g)]) u))))
     else done_with (navigate_to_catalog s))"

section \<open>Answers\<close>

definition cp_open_confirm_mat_dialog :: "cp_state \<Rightarrow> cp_state" where
  "cp_open_confirm_mat_dialog s =
     (let i = str (cp_info s ''id''); d = str (cp_info s ''devDependent'')
      in open_dialog ''ConfirmDialogComponent''
           (JObj [(''title'', JStr (i @ '' is dependent on '' @ d)),
                  (''message'', JStr (''This chart is dependent on '' @ d @ '' and it is not installed, are you sure you want to continue.'')),
                  (''option1'', JStr ''Take Me Back''), (''option2'', JStr ''Continue'')]) CP_Dependent s)"

definition cp_open_confirm_mat_dialog_closed :: "js \<Rightarrow> cp_state \<Rightarrow> cp_state" where
  "cp_open_confirm_mat_dialog_closed response s =
     (if response = JStr ''Take Me Back'' then navigate_to_catalog s else cp_api_get_chart_statuses False s)"

abbreviation "cp_failed \<equiv> \<lambda>m (_ :: api_error). generate_return_error_snackbar_message m (Some MAT_SNACKBAR_CONFIGURATION_60000_DUR)"

definition cp_api_get_catalog_nodes_answer :: "string comparator \<Rightarrow> reply \<Rightarrow> cp_state \<Rightarrow> cp_state" where
  "cp_api_get_catalog_nodes_answer lc =
     answered get_catalog_nodes (\<lambda>response s. snd (set_process_list_children lc response s)) (cp_failed ''getting kit nodes'')"

definition cp_api_get_chart_info_answer :: "reply \<Rightarrow> cp_state \<Rightarrow> cp_state" where
  "cp_api_get_chart_info_answer =
     answered (get_chart_info JUndef)
       (\<lambda>response s.
          let s1 = s\<lparr>cp_chart_info := response\<rparr>;
              s2 = (if notUndefNull (cp_info s1 ''devDependent'') then cp_api_get_chart_statuses True s1 else s1)
          in cp_initialize_process_form_group (cp_api_get_chart_statuses False s2))
       (cp_failed ''getting chart info'')"

definition cp_api_get_chart_statuses_answer :: "bool \<Rightarrow> reply \<Rightarrow> cp_state \<Rightarrow> cp_state" where
  "cp_api_get_chart_statuses_answer chart_info_dev_dependent =
     answered (get_chart_statuses JUndef)
       (\<lambda>response s.
          if chart_info_dev_dependent then (if response = [] then cp_open_confirm_mat_dialog s else s)
          else cp_api_get_saved_values (cp_api_get_catalog_nodes (s\<lparr>cp_statuses := Some response\<rparr>)))
       (cp_failed ''getting chart statuses'')"

text \<open>An answer for a group of controls that the form has dropped changes that group only.\<close>

definition app_deployed :: "js \<Rightarrow> js list \<Rightarrow> js_error + bool" where
  "app_deployed checkbox_dependent_app values =
     (case filter (\<lambda>v. strict_eq (js_get v ''application'') checkbox_dependent_app) values of
        [] \<Rightarrow> Inr False
      | v # _ \<Rightarrow>
          (case js_get v ''nodes'' of
             JArr (st # _) \<Rightarrow> smap (\<lambda>w. w = JStr ''DEPLOYED'') (js_index st ''status'')
           | _ \<Rightarrow> Inr False))"

definition check_chart_dependencies_answer :: "string \<Rightarrow> js \<Rightarrow> nat \<Rightarrow> reply \<Rightarrow> cp_state \<Rightarrow> cp_state" where
  "check_chart_dependencies_answer k checkbox_dependent_app g =
     answered get_all_application_statuses
       (\<lambda>values s. settle s (smap (\<lambda>deployed. cp_update_control g k
          (\<lambda>c. if deployed then c\<lparr>oc_on := True\<rparr> else c\<lparr>oc_value := JBool False, oc_on := False\<rparr>) s)
          (app_deployed checkbox_dependent_app values)))
       (\<lambda>_ s. s)"

definition cp_api_get_saved_values_answer :: "reply \<Rightarrow> cp_state \<Rightarrow> cp_state" where
  "cp_api_get_saved_values_answer =
     answered (get_saved_values JUndef) (\<lambda>response s. s\<lparr>cp_saved_values := (if response \<noteq> [] then Some response else None)\<rparr>)
       (cp_failed ''getting saved values'')"

definition show_generated :: "js \<Rightarrow> cp_state \<Rightarrow> cp_state attempt" where
  "show_generated response = with_form (\<lambda>f. each (\<lambda>n s.
     case response of
       JArr objs \<Rightarrow> each (\<lambda>obj t.
         if \<not> notUndefNull obj then fails TypeError t
         else let hostname_object = return_object_key_value obj (str (cp_field t n ''hostname''))
              in if hostname_object \<noteq> JNull then set_value_form_group hostname_object n t else done_with t) objs s
     | _ \<Rightarrow> fails TypeError s) (pf_nodes f))"

definition cp_api_generate_values_file_answer :: "reply \<Rightarrow> cp_state \<Rightarrow> cp_state" where
  "cp_api_generate_values_file_answer =
     answered (generate_values_file JUndef) (\<lambda>response s. snd (show_generated response s)) (cp_failed ''generating values file'')"

definition cp_queued :: "string \<Rightarrow> cp_state \<Rightarrow> cp_state" where
  "cp_queued what s =
     navigate_to_catalog (displaySnackBar (JStr (str (cp_info s ''id'') @ '' '' @ what @ '' Queued''))
       (Some MAT_SNACKBAR_CONFIGURATION_60000_DUR_OK) s)"

definition cp_api_catalog_install_answer :: "reply \<Rightarrow> cp_state \<Rightarrow> cp_state" where
  "cp_api_catalog_install_answer =
     answered (catalog_install JUndef) (\<lambda>_. cp_queued ''Installation'')
       (\<lambda>e s. report_error_or_message (''catalog application '' @ str (cp_info s ''id'') @ '' install'') e s)"

definition cp_api_catalog_reinstall_answer :: "reply \<Rightarrow> cp_state \<Rightarrow> cp_state" where
  "cp_api_catalog_reinstall_answer =
     answered (catalog_reinstall JUndef) (\<lambda>_. cp_queued ''Reinstallation'')
       (\<lambda>e s. report_error_or_message (''catalog application '' @ str (cp_info s ''id'') @ '' reinstall'') e s)"

definition cp_api_catalog_uninstall_answer :: "reply \<Rightarrow> cp_state \<Rightarrow> cp_state" where
  "cp_api_catalog_uninstall_answer =
     answered (catalog_uninstall JUndef) (\<lambda>_. cp_queued ''Uninstall'')
       (\<lambda>e s. report_error_or_message (''catalog application '' @ str (cp_info s ''id'') @ '' uninstall'') e s)"

definition cp_api_get_iface_states_answer :: "nat \<Rightarrow> reply \<Rightarrow> cp_state \<Rightarrow> cp_state" where
  "cp_api_get_iface_states_answer n =
     answered (get_iface_states JUndef)
       (\<lambda>response s. s\<lparr>cp_iface_states := AList.update (str (cp_field s n ''hostname''))
          (JObj (fold (\<lambda>st. AList.update (str (js_get st ''name'')) st) response [])) (cp_iface_states s)\<rparr>)
       (cp_failed ''getting interface states'')"

section \<open>The page as a machine\<close>

text \<open>The user chooses a process that is offered and nodes that are listed, moves between the steps, edits the
  controls of a host and runs the action. The list of nodes is shown while the form is.\<close>

datatype cp_action =
    CP_Init string | CP_Process string | CP_List | CP_Nodes "nat list" | CP_Step nat | CP_Edit nat js js | CP_Check nat js bool
  | CP_Interfaces | CP_OpenEditor nat | CP_Run | CP_Cancel

definition cp_choose :: "(process_form \<Rightarrow> bool) \<Rightarrow> (process_form \<Rightarrow> process_form) \<Rightarrow> cp_state \<Rightarrow> cp_state" where
  "cp_choose p f s = (case cp_form s of Some pf \<Rightarrow> if p pf then s\<lparr>cp_form := Some (f pf)\<rparr> else s | None \<Rightarrow> s)"

definition cp_edit :: "nat \<Rightarrow> js \<Rightarrow> js \<Rightarrow> cp_state \<Rightarrow> cp_state" where
  "cp_edit n fc v s =
     (case cp_group (cp_field s n ''hostname'') s of None \<Rightarrow> s
      | Some g \<Rightarrow> cp_update_control g (str (js_get fc ''name'')) (\<lambda>c. if oc_on c then c\<lparr>oc_value := v\<rparr> else c) s)"

fun cp_handle :: "cp_action \<Rightarrow> cp_state \<Rightarrow> cp_state" where
  "cp_handle (CP_Init url) s = cp_ngOnInit url s"
| "cp_handle (CP_Process p) s =
     (if p \<in> set (map pr_process (cp_processes s))
      then snd (cp_selection_change_process (cp_choose pf_process_on (\<lambda>f. f\<lparr>pf_process := JStr p\<rparr>) s)) else s)"
| "cp_handle CP_List s =
     (case cp_form s of None \<Rightarrow> s | Some f \<Rightarrow> snd (filter_nodes_by_process (if pf_process_on f then pf_process f else JUndef) s))"
| "cp_handle (CP_Nodes ns) s =
     (if set ns \<subseteq> set (cp_node_list s) then cp_choose pf_nodes_on (\<lambda>f. f\<lparr>pf_nodes := ns\<rparr>) s else s)"
| "cp_handle (CP_Step i) s = snd (cp_selection_change_stepper i s)"
| "cp_handle (CP_Edit n fc v) s = cp_edit n fc v s"
| "cp_handle (CP_Check n fc b) s = snd (checkbox_set_value n fc (cp_edit n fc (JBool b) s))"
| "cp_handle CP_Interfaces s = snd (cp_get_iface_states s)"
| "cp_handle (CP_OpenEditor n) s = snd (cp_open_text_editor n s)"
| "cp_handle CP_Run s = snd (cp_run_chart_action s)"
| "cp_handle CP_Cancel s = navigate_to_catalog s"

fun cp_answer :: "string comparator \<Rightarrow> cp_request \<Rightarrow> reply \<Rightarrow> cp_state \<Rightarrow> cp_state" where
  "cp_answer lc CP_ChartInfo = cp_api_get_chart_info_answer"
| "cp_answer lc (CP_Statuses d) = cp_api_get_chart_statuses_answer d"
| "cp_answer lc CP_CatalogNodes = cp_api_get_catalog_nodes_answer lc"
| "cp_answer lc CP_Saved = cp_api_get_saved_values_answer"
| "cp_answer lc (CP_AllStatuses k app g) = check_chart_dependencies_answer k app g"
| "cp_answer lc CP_Generate = cp_api_generate_values_file_answer"
| "cp_answer lc CP_Installed = cp_api_catalog_install_answer"
| "cp_answer lc CP_Reinstalled = cp_api_catalog_reinstall_answer"
| "cp_answer lc CP_Uninstalled = cp_api_catalog_uninstall_answer"
| "cp_answer lc (CP_Iface n) = cp_api_get_iface_states_answer n"

fun cp_closed :: "cp_dialog \<Rightarrow> js \<Rightarrow> cp_state \<Rightarrow> cp_state" where
  "cp_closed CP_Dependent v s = cp_open_confirm_mat_dialog_closed v s"
| "cp_closed (CP_Editor n) v s = snd (cp_open_text_editor_closed n v s)"

definition cp_step :: "string comparator \<Rightarrow> cp_action event \<Rightarrow> cp_state \<Rightarrow> cp_state" where
  "cp_step lc = async_step cp_handle (cp_answer lc) cp_closed"

end
