(* ===== verification/Catalog_Facts.thy ===== *)
theory Catalog_Facts
  imports Catalog_Page
begin

text \<open>
  What the catalog page guarantees: which requests change the catalog and when, which nodes a process offers,
  that the values shown are the values sent, and two places where the page does not do what it means to.
\<close>

declare json_pretty.simps [simp del]

section \<open>Requests that change the catalog\<close>

fun is_change :: "effect \<Rightarrow> bool" where
  "is_change (Http POST url _) = (url \<in> {''/api/catalog/install'', ''/api/catalog/reinstall'', ''/api/catalog/uninstall''})"
| "is_change _ = False"

definition catalog_changes :: "'a world_scheme \<Rightarrow> effect list" where
  "catalog_changes s = filter is_change (sent s)"

lemma changes_cong: "trace s = trace t \<Longrightarrow> catalog_changes s = catalog_changes t"
  by (simp add: catalog_changes_def sent_def)

lemma changes_sent: "sent s = sent t \<Longrightarrow> catalog_changes s = catalog_changes t"
  by (simp add: catalog_changes_def)

lemma changes_call [simp]:
  "catalog_changes (call ep k s) = catalog_changes s @ filter is_change [Http (ep_method ep) (ep_url ep) (ep_body ep)]"
  for s :: "('k, 'd, 'a) async_scheme"
  by (simp add: catalog_changes_def)

lemma changes_fields [simp]:
  "catalog_changes (s\<lparr>cp_store := x1\<rparr>) = catalog_changes s" "catalog_changes (s\<lparr>cp_groups := x2\<rparr>) = catalog_changes s"
  "catalog_changes (s\<lparr>cp_form := x3\<rparr>) = catalog_changes s" "catalog_changes (s\<lparr>cp_config := x4\<rparr>) = catalog_changes s"
  "catalog_changes (s\<lparr>cp_values := x5\<rparr>) = catalog_changes s" "catalog_changes (s\<lparr>cp_node_list := x6\<rparr>) = catalog_changes s"
  "catalog_changes (s\<lparr>cp_node_list_of := x7\<rparr>) = catalog_changes s" "catalog_changes (s\<lparr>cp_processes := x8\<rparr>) = catalog_changes s"
  "catalog_changes (s\<lparr>cp_chart_info := x9\<rparr>) = catalog_changes s" "catalog_changes (s\<lparr>cp_nodes := x10\<rparr>) = catalog_changes s"
  "catalog_changes (s\<lparr>set_children_called := x11\<rparr>) = catalog_changes s" "catalog_changes (s\<lparr>cp_saved_values := x12\<rparr>) = catalog_changes s"
  "catalog_changes (s\<lparr>cp_statuses := x13\<rparr>) = catalog_changes s" "catalog_changes (s\<lparr>cp_config_array := x14\<rparr>) = catalog_changes s"
  "catalog_changes (s\<lparr>service_node_available := x15\<rparr>) = catalog_changes s" "catalog_changes (s\<lparr>cp_iface_states := x16\<rparr>) = catalog_changes s"
  "catalog_changes (s\<lparr>requests := x17\<rparr>) = catalog_changes s" "catalog_changes (s\<lparr>dialogs := x18\<rparr>) = catalog_changes s"
  by (rule changes_cong, simp)+

lemma changes_effects [simp]:
  "catalog_changes (open_dialog n v d s) = catalog_changes s"
  "catalog_changes (displaySnackBar m c s) = catalog_changes s"
  "catalog_changes (generate_return_error_snackbar_message msg c s) = catalog_changes s"
  "catalog_changes (report_error_or_message msg e s) = catalog_changes s"
  for s :: "('k, 'd, 'a) async_scheme"
  by (rule changes_sent, simp)+

lemma changes_navigate [simp]: "catalog_changes (navigate_to_catalog s) = catalog_changes s"
  by (rule changes_sent) (simp add: navigate_to_catalog_def)

lemma changes_set_field [simp]: "catalog_changes (cp_set_field i k w s) = catalog_changes s"
  by (simp add: cp_set_field_def)

lemma snd_with_form:
  assumes "P s" "\<And>f. cp_form s = Some f \<Longrightarrow> P (snd (g f s))"
  shows "P (snd (with_form g s))"
  using assms by (simp add: with_form_def split: option.split)

lemma snd_fails [simp]: "snd (fails e s) = s"
  by (simp add: fails_def)

lemma snd_attempt: "P s \<Longrightarrow> (\<And>t. r = Inr t \<Longrightarrow> P t) \<Longrightarrow> P (snd (attempt s r))"
  by (simp add: attempt_def split: sum.split)

text \<open>The parts of a handler keep a property of the state when each of them does.\<close>

lemmas keeps = snd_with_form snd_each snd_and_then snd_attempt

section \<open>Handlers that change nothing in the catalog\<close>

text \<open>All handlers but the action, and all answers, keep \<open>catalog_changes\<close>.\<close>

definition quiet :: "(cp_state \<Rightarrow> cp_state attempt) \<Rightarrow> bool" where
  "quiet f \<longleftrightarrow> (\<forall>s. catalog_changes (snd (f s)) = catalog_changes s)"

lemma quietD: "quiet f \<Longrightarrow> catalog_changes (snd (f s)) = catalog_changes s"
  by (simp add: quiet_def)

lemma quiet_each: "(\<And>x. x \<in> set xs \<Longrightarrow> quiet (f x)) \<Longrightarrow> quiet (each f xs)"
  unfolding quiet_def by (intro allI, rule snd_each) auto

lemma quiet_with_form: "(\<And>f. quiet (g f)) \<Longrightarrow> quiet (with_form g)"
  by (simp add: quiet_def with_form_def split: option.split)

lemma changes_and_then: "catalog_changes (snd m) = c \<Longrightarrow> (\<And>t. catalog_changes t = c \<Longrightarrow> catalog_changes (snd (f t)) = c) \<Longrightarrow>
    catalog_changes (snd (and_then m f)) = c"
  by (rule snd_and_then)

lemma quiet_generate: "quiet cp_api_generate_values_file"
  unfolding cp_api_generate_values_file_def by (rule quiet_with_form) (simp add: quiet_def generate_values_file_def)

lemma quiet_get_iface_states: "quiet cp_get_iface_states"
  unfolding cp_get_iface_states_def
  by (intro quiet_with_form quiet_each) (simp add: quiet_def cp_api_get_iface_states_def get_iface_states_def)

lemma quiet_selection_change_process: "quiet cp_selection_change_process"
  unfolding cp_selection_change_process_def by (rule quiet_with_form) (simp add: quiet_def)

lemma quiet_push_control_planes: "quiet (push_control_planes sel ns)"
  by (induction ns arbitrary: sel) (auto simp: quiet_def with_form_def and_then_def done_with_def split: option.split)

lemma quiet_server_any_value_check: "quiet server_any_value_check"
  using quiet_push_control_planes by (simp add: quiet_def server_any_value_check_def split: option.split)

lemma changes_fold: "(\<And>x t. catalog_changes (f x t) = catalog_changes t) \<Longrightarrow> catalog_changes (fold f xs s) = catalog_changes s"
  by (induction xs arbitrary: s) simp_all

lemma quiet_set_deployment_name: "quiet set_deployment_name"
  unfolding set_deployment_name_def
  by (intro quiet_with_form quiet_each) (simp add: quiet_def changes_fold split: option.split)

lemma changes_checkboxes [simp]: "catalog_changes (handle_checkbox_dependent_apps g apps s) = catalog_changes s"
  unfolding handle_checkbox_dependent_apps_def
  by (rule changes_fold) (simp add: check_chart_dependencies_def get_all_application_statuses_def split: prod.split)

lemma quiet_config_node: "quiet (config_node n)"
  unfolding quiet_def config_node_def
  by (intro allI changes_and_then) (simp_all add: quietD [OF quiet_set_deployment_name] Let_def split: sum.split prod.split)

lemma quiet_initialize_config: "quiet cp_initialize_config_form_group"
proof -
  have "quiet (with_form (\<lambda>f. each config_node (pf_nodes f)))" by (intro quiet_with_form quiet_each quiet_config_node)
  then show ?thesis by (simp add: quiet_def cp_initialize_config_form_group_def)
qed

lemma quiet_set_value: "quiet (set_value_form_group v n)"
  by (simp add: quiet_def set_value_form_group_def Let_def split: sum.split)

lemma quiet_compare_values: "quiet compare_values"
  unfolding compare_values_def
proof (intro quiet_with_form quiet_each)
  fix n
  have "quiet (compare_value n v c)" for v c
    using quietD [OF quiet_set_value] by (simp add: quiet_def compare_value_def Let_def split: sum.split)
  then have "quiet (each (compare_value n v) xs)" for v xs by (intro quiet_each)
  then have "quiet (\<lambda>t. each (compare_value n v) (cp_config_array t) t)" for v by (simp add: quiet_def)
  then have "quiet (each (\<lambda>v t. each (compare_value n v) (cp_config_array t) t) xs)" for xs by (intro quiet_each)
  then show "quiet (\<lambda>s. each (\<lambda>saved_value t. each (\<lambda>config. compare_value n saved_value config) (cp_config_array t) t)
      (case cp_saved_values s of None \<Rightarrow> [] | Some vs \<Rightarrow> vs) s)"
    by (simp add: quiet_def)
qed

lemma quiet_get_values_file: "quiet cp_get_values_file"
  unfolding quiet_def
proof
  fix s
  have "quiet (\<lambda>t. case js_index (js_get v ''values'') ''node_hostname'' of Inl e \<Rightarrow> fails e t
      | Inr h \<Rightarrow> if strict_eq h (cp_field t n ''hostname'') \<or> server_any t then compare_values t else cp_api_generate_values_file t)" for v n
    using quietD [OF quiet_compare_values] quietD [OF quiet_generate] by (simp add: quiet_def split: sum.split)
  note q = quietD [OF quiet_each [OF quiet_with_form [OF quiet_each [OF this]]]]
  show "catalog_changes (snd (cp_get_values_file s)) = catalog_changes s"
    by (simp add: cp_get_values_file_def Let_def quietD [OF quiet_generate] q split: sum.split option.split)
qed

lemma quiet_stepper: "quiet (cp_selection_change_stepper i)"
  unfolding quiet_def
proof
  fix s
  have "catalog_changes (snd (and_then (server_any_value_check s)
      (\<lambda>t. if cp_is_config_ready t then cp_initialize_config_form_group t else done_with t))) = catalog_changes s"
    by (rule changes_and_then) (simp_all add: quietD [OF quiet_server_any_value_check] quietD [OF quiet_initialize_config])
  then show "catalog_changes (snd (cp_selection_change_stepper i s)) = catalog_changes s"
    by (simp add: cp_selection_change_stepper_def quietD [OF quiet_get_values_file] cp_initialize_process_form_group_def)
qed

lemma quiet_parse_values: "quiet parse_values"
  unfolding parse_values_def
  by (intro quiet_with_form quiet_each)
    (simp add: quiet_def parse_value_def attempt_def smap_def Let_def split: option.split sum.split)

lemma quiet_place_node: "quiet (place_node n)"
proof -
  have "quiet (set_children st n)" for st
    using quietD [OF quiet_with_form] by (simp add: quiet_def set_children_def Let_def with_form_def split: option.split)
  then show ?thesis
    by (auto simp: quiet_def place_node_def Let_def split: sum.split option.split intro!: changes_and_then)
qed

lemma quiet_set_process_list_children: "quiet (set_process_list_children lc nodes)"
  using quietD [OF quiet_each [of _ place_node, OF quiet_place_node]]
  by (auto simp: quiet_def set_process_list_children_def Let_def split: sum.split intro!: changes_and_then)

lemma quiet_show_generated: "quiet (show_generated response)"
proof -
  have "quiet (\<lambda>t. if \<not> notUndefNull obj then fails TypeError t
      else let v = return_object_key_value obj (str (cp_field t n ''hostname''))
           in if v \<noteq> JNull then set_value_form_group v n t else done_with t)" for obj n
    using quietD [OF quiet_set_value] by (simp add: quiet_def Let_def)
  note q = quietD [OF quiet_each [OF this]]
  show ?thesis
    unfolding show_generated_def by (intro quiet_with_form quiet_each) (simp add: quiet_def q split: js.split)
qed

lemma changes_answered:
  assumes "\<And>x. catalog_changes (next_cb x s) = catalog_changes s" "\<And>e t. catalog_changes (error_cb e t) = catalog_changes t"
  shows "catalog_changes (answered ep next_cb error_cb r s) = catalog_changes s"
  by (rule answered_cases [of r ep next_cb error_cb s]) (use assms in \<open>simp_all add: catalog_changes_def\<close>)

lemmas cp_answer_defs =
  cp_api_get_catalog_nodes_answer_def cp_api_get_chart_info_answer_def cp_api_get_chart_statuses_answer_def
  check_chart_dependencies_answer_def cp_api_get_saved_values_answer_def cp_api_generate_values_file_answer_def
  cp_api_catalog_install_answer_def cp_api_catalog_reinstall_answer_def cp_api_catalog_uninstall_answer_def
  cp_api_get_iface_states_answer_def

lemmas cp_request_defs =
  cp_api_get_chart_info_def cp_api_get_chart_statuses_def cp_api_get_catalog_nodes_def cp_api_get_saved_values_def
  cp_initialize_process_form_group_def cp_open_confirm_mat_dialog_def cp_queued_def cp_update_control_def
  get_chart_info_def get_chart_statuses_def get_catalog_nodes_def get_saved_values_def

lemma changes_answer: "catalog_changes (cp_answer lc k r s) = catalog_changes s"
  by (cases k; simp only: cp_answer.simps cp_answer_defs; rule changes_answered)
    (simp_all add: cp_request_defs Let_def settle_def smap_def quietD [OF quiet_set_process_list_children]
      quietD [OF quiet_show_generated] split: sum.split)

lemma changes_closed: "catalog_changes (cp_closed d v s) = catalog_changes s"
  by (cases d) (simp_all add: cp_open_confirm_mat_dialog_closed_def cp_open_text_editor_closed_def cp_request_defs Let_def
    split: option.split)

lemma changes_choose [simp]: "catalog_changes (cp_choose p f s) = catalog_changes s"
  by (simp add: cp_choose_def split: option.split)

lemma changes_edit [simp]: "catalog_changes (cp_edit n fc v s) = catalog_changes s"
  by (simp add: cp_edit_def cp_update_control_def split: option.split)

lemma changes_list: "catalog_changes (snd (filter_nodes_by_process p s)) = catalog_changes s"
  by (simp add: filter_nodes_by_process_def Let_def changes_fold)

lemma changes_handle:
  assumes "a \<noteq> CP_Run"
  shows "catalog_changes (cp_handle a s) = catalog_changes s"
proof (cases a)
  case (CP_Check n fc b)
  have "quiet (checkbox_set_value n fc)"
    by (simp add: quiet_def checkbox_set_value_def cp_update_control_def split: option.split)
  then show ?thesis by (simp add: CP_Check quietD)
next
  case (CP_OpenEditor n)
  have "catalog_changes (snd (cp_open_text_editor n s)) = catalog_changes s"
    unfolding cp_open_text_editor_def by (rule snd_attempt) (auto simp: sbind_def smap_def split: sum.splits)
  then show ?thesis by (simp add: CP_OpenEditor)
qed (use assms in \<open>simp_all add: cp_ngOnInit_def Let_def cp_request_defs quietD [OF quiet_selection_change_process] changes_list
    quietD [OF quiet_stepper] quietD [OF quiet_get_iface_states] split: option.split\<close>)

text \<open>The request that the action sends.\<close>

definition requested_change :: "string \<Rightarrow> cp_state \<Rightarrow> effect \<Rightarrow> bool" where
  "requested_change p s e \<longleftrightarrow>
     (\<exists>body. e = Http POST (''/api/catalog/'' @ p) body \<and> js_get body ''role'' = cp_info s ''id'' \<and>
        js_get (js_get body ''process'') ''selectedProcess'' = JStr p)"

text \<open>Code that keeps the chosen process.\<close>

definition chosen :: "cp_state \<Rightarrow> js option" where
  "chosen s = map_option pf_process (cp_form s)"

lemma chosen_set_field [simp]: "chosen (cp_set_field n k v s) = chosen s"
  by (simp add: chosen_def cp_set_field_def)

lemma chosen_push_control_planes: "chosen (snd (push_control_planes sel ns s)) = chosen s"
proof (induction ns arbitrary: sel s)
  case (Cons n ns)
  have "chosen (snd (and_then (with_form (\<lambda>f t. done_with (t\<lparr>cp_form := Some (f\<lparr>pf_nodes := sel @ [n]\<rparr>)\<rparr>))
      (cp_set_field n ''hostname'' (JStr ''server'') s)) (push_control_planes (sel @ [n]) ns))) = chosen s"
    by (rule snd_and_then [where P = "\<lambda>t. chosen t = chosen s"])
      (simp_all add: Cons, simp add: with_form_def chosen_def cp_set_field_def split: option.split)
  then show ?case using Cons by simp
qed simp

lemma chosen_server_any_value_check: "chosen (snd (server_any_value_check s)) = chosen s"
  by (simp add: server_any_value_check_def chosen_push_control_planes split: option.split)

lemma chosen_fold: "(\<And>x t. chosen (f x t) = chosen t) \<Longrightarrow> chosen (fold f xs s) = chosen s"
  by (induction xs arbitrary: s) simp_all

lemma chosen_set_deployment_name: "chosen (snd (set_deployment_name s)) = chosen s"
  unfolding set_deployment_name_def
  by (rule snd_with_form, simp, rule snd_each) (auto simp: chosen_fold split: option.split)

text \<open>What must not throw before the action sends its request: for an installation the parsing of the values that
  the editors hold, for an uninstallation the check of the server node and the naming of the deployments.\<close>

definition run_ready :: "cp_state \<Rightarrow> bool" where
  "run_ready s \<longleftrightarrow>
     (if chosen s = Some (JStr UNINSTALL)
      then fst (server_any_value_check s) = None \<and> fst (set_deployment_name (snd (server_any_value_check s))) = None
      else fst (parse_values s) = None)"

text \<open>The requests that an event adds.\<close>

definition run_requests :: "cp_state \<Rightarrow> effect list \<Rightarrow> bool" where
  "run_requests s es \<longleftrightarrow>
     (\<exists>p. chosen s = Some (JStr p) \<and> p \<in> {INSTALL, REINSTALL, UNINSTALL} \<and> run_ready s \<and> (\<exists>e. es = [e] \<and> requested_change p s e)) \<or>
     es = [] \<and> \<not> (chosen s \<in> {Some (JStr INSTALL), Some (JStr REINSTALL), Some (JStr UNINSTALL)} \<and> run_ready s)"

lemma run_installs:
  assumes "cp_form s = Some f" "pf_process f = JStr p" "p = INSTALL \<or> p = REINSTALL"
  shows "\<exists>es. catalog_changes (snd (cp_run_chart_action s)) = catalog_changes s @ es \<and> run_requests s es"
proof (cases "parse_values s")
  case (Pair e t)
  have chosen: "chosen s = Some (JStr p)" and not_un: "p \<noteq> UNINSTALL" using assms by (auto simp: chosen_def)
  have quiet: "catalog_changes t = catalog_changes s" using quietD [OF quiet_parse_values, of s] Pair by simp
  show ?thesis
  proof (cases e)
    case None
    then show ?thesis
      using assms Pair quiet chosen not_un
      by (auto simp: cp_run_chart_action_def with_form_def run_with_values_def cp_api_catalog_install_def catalog_install_def
          cp_api_catalog_reinstall_def catalog_reinstall_def requested_change_def process_value_def run_requests_def run_ready_def)
  next
    case (Some x)
    then show ?thesis
      using assms Pair quiet chosen not_un
      by (auto simp: cp_run_chart_action_def with_form_def run_with_values_def run_requests_def run_ready_def)
  qed
qed

lemma run_uninstalls:
  assumes "cp_form s = Some f" "pf_process f = JStr UNINSTALL"
  shows "\<exists>es. catalog_changes (snd (cp_run_chart_action s)) = catalog_changes s @ es \<and> run_requests s es"
proof -
  let ?run = "snd (cp_run_chart_action s)"
  define t where "t = snd (server_any_value_check s)"
  define u where "u = snd (set_deployment_name t)"
  have quiet: "catalog_changes t = catalog_changes s" "catalog_changes u = catalog_changes s"
    by (simp_all add: t_def u_def quietD [OF quiet_server_any_value_check] quietD [OF quiet_set_deployment_name])
  have chosen: "chosen s = Some (JStr UNINSTALL)" using assms by (simp add: chosen_def)
  then have "chosen u = Some (JStr UNINSTALL)"
    by (simp add: t_def u_def chosen_server_any_value_check chosen_set_deployment_name)
  then obtain g where g: "cp_form u = Some g" "pf_process g = JStr UNINSTALL" by (auto simp: chosen_def)
  let ?send = "\<lambda>g u. done_with (cp_api_catalog_uninstall (JObj [(''role'', cp_info s ''id''), (''process'', process_value u g)]) u)"
  have run: "cp_run_chart_action s = and_then (server_any_value_check s) (\<lambda>t. and_then (set_deployment_name t) (with_form ?send))"
    using assms by (simp add: cp_run_chart_action_def with_form_def)
  have ready: "run_ready s \<longleftrightarrow> fst (server_any_value_check s) = None \<and> fst (set_deployment_name t) = None"
    by (simp add: run_ready_def chosen t_def)
  show ?thesis
  proof (cases "run_ready s")
    case True
    then have "server_any_value_check s = (None, t)" "set_deployment_name t = (None, u)"
      by (simp_all add: ready t_def u_def prod_eq_iff)
    then have "?run = snd (?send g u)" unfolding run by (simp add: with_form_def g)
    then show ?thesis
      using g chosen True
      by (auto simp: quiet cp_api_catalog_uninstall_def catalog_uninstall_def requested_change_def process_value_def run_requests_def)
  next
    case False
    then have "?run = t \<or> ?run = u"
      unfolding run ready by (auto simp: t_def u_def and_then_def split: prod.split option.split)
    then show ?thesis using quiet chosen False by (auto simp: run_requests_def)
  qed
qed

text \<open>C14: applications are installed, reinstalled and uninstalled when the action is run and at no other time. Running
  it with the process install, reinstall or uninstall sends exactly one request, to the endpoint of that process and
  for the chart of the page, unless its preparation throws (the values that an editor shows do not parse, which is
  so after a first run, or the naming of the deployments fails), and then none.\<close>

theorem cp_changes_on_run:
  "\<exists>es. catalog_changes (cp_step lc ev s) = catalog_changes s @ es \<and>
        (if ev = Act CP_Run then run_requests s es else es = [])"
proof (cases "ev = Act CP_Run")
  case False
  then show ?thesis
    by (cases ev) (auto simp: cp_step_def async_step_def changes_answer changes_closed changes_handle)
next
  case True
  have other: "\<exists>es. catalog_changes (snd (cp_run_chart_action s)) = catalog_changes s @ es \<and> run_requests s es"
    if "chosen s \<notin> {Some (JStr INSTALL), Some (JStr REINSTALL), Some (JStr UNINSTALL)}"
    using that by (cases "cp_form s") (auto simp: cp_run_chart_action_def with_form_def chosen_def run_requests_def)
  have "\<exists>es. catalog_changes (snd (cp_run_chart_action s)) = catalog_changes s @ es \<and> run_requests s es"
  proof (cases "cp_form s")
    case None
    then show ?thesis by (intro other) (simp add: chosen_def)
  next
    case (Some f)
    then show ?thesis
      using other run_installs [OF Some] run_uninstalls [OF Some] by (fastforce simp: chosen_def)
  qed
  then show ?thesis by (simp add: True cp_step_def async_step_def)
qed

section \<open>The values that are sent\<close>

lemma update_present:
  "k \<in> fst ` set xs \<Longrightarrow> distinct (map fst xs) \<Longrightarrow> AList.update k c xs = map (\<lambda>(j, x). (j, if j = k then c else x)) xs"
proof (induction xs)
  case (Cons y ys)
  obtain j x where y: "y = (j, x)" by (cases y)
  show ?case
  proof (cases "j = k")
    case True
    then have "map (\<lambda>(i, x). (i, if i = k then c else x)) ys = ys"
      using Cons.prems by (intro map_idI) (force simp: y)
    then show ?thesis using True by (simp add: y)
  next
    case False
    then show ?thesis using Cons by (simp add: y)
  qed
qed simp

definition shown_values :: "string set \<Rightarrow> (string \<times> js) list \<Rightarrow> (string \<times> value_control) list" where
  "shown_values parsed kvs =
     map (\<lambda>(k, v). (k, \<lparr>vc_value = (if k \<in> parsed then json_clean v else JStr (json_pretty 0 v)), vc_on = False\<rparr>)) kvs"

lemma shown_values_keys [simp]: "map fst (shown_values parsed kvs) = map fst kvs" "fst ` set (shown_values parsed kvs) = fst ` set kvs"
proof -
  show "map fst (shown_values parsed kvs) = map fst kvs" by (simp add: shown_values_def o_def case_prod_beta)
  from arg_cong [OF this, of set] show "fst ` set (shown_values parsed kvs) = fst ` set kvs" by simp
qed

lemma parse_shown_value:
  assumes "distinct (map fst kvs)" "\<forall>(k, v) \<in> set kvs. js_wf v" "str (cp_field s n ''deployment_name'') = k" "k \<in> fst ` set kvs" "k \<notin> parsed"
    "cp_values s = shown_values parsed kvs"
  shows "parse_value n s = (None, s\<lparr>cp_values := shown_values (insert k parsed) kvs\<rparr>)"
proof -
  obtain v where v: "(k, v) \<in> set kvs" using assms(4) by auto
  let ?c = "\<lparr>vc_value = JStr (json_pretty 0 v), vc_on = False\<rparr>"
  have "(k, ?c) \<in> set (shown_values parsed kvs)" using v assms(5) by (force simp: shown_values_def)
  then have c: "map_of (cp_values s) k = Some ?c" using assms(1,6) by (simp add: map_of_is_SomeI)
  have "AList.update k \<lparr>vc_value = json_clean v, vc_on = False\<rparr> (shown_values parsed kvs) = shown_values (insert k parsed) kvs"
  proof (subst update_present)
    show "map (\<lambda>(j, x). (j, if j = k then \<lparr>vc_value = json_clean v, vc_on = False\<rparr> else x)) (shown_values parsed kvs) =
        shown_values (insert k parsed) kvs"
      using v assms(1,5) by (auto simp: shown_values_def dest: eq_key_imp_eq_value)
  qed (use assms in simp_all)
  moreover have "JSON_parse (json_pretty 0 v) = Inr (json_clean v)"
    using assms(2) v by (intro json_pretty_round_trip) auto
  ultimately show ?thesis
    using c assms(3,6) by (simp add: parse_value_def attempt_def smap_def notUndefNull_def)
qed

lemma parse_shown_values:
  assumes "distinct (map fst kvs)" "\<forall>(k, v) \<in> set kvs. js_wf v" "distinct (map (\<lambda>n. str (cp_field s n ''deployment_name'')) ns)"
    "set (map (\<lambda>n. str (cp_field s n ''deployment_name'')) ns) \<subseteq> fst ` set kvs - parsed" "cp_values s = shown_values parsed kvs"
  shows "each parse_value ns s =
    (None, s\<lparr>cp_values := shown_values (parsed \<union> set (map (\<lambda>n. str (cp_field s n ''deployment_name'')) ns)) kvs\<rparr>)"
  using assms(3-5)
proof (induction ns arbitrary: s parsed)
  case (Cons n ns)
  let ?k = "str (cp_field s n ''deployment_name'')"
  let ?t = "s\<lparr>cp_values := shown_values (insert ?k parsed) kvs\<rparr>"
  have field: "cp_field ?t m j = cp_field s m j" for m j by (simp add: cp_node_def)
  have "parse_value n s = (None, ?t)"
    using Cons.prems by (intro parse_shown_value [OF assms(1,2)]) auto
  moreover have "each parse_value ns ?t =
      (None, ?t\<lparr>cp_values := shown_values (insert ?k parsed \<union> set (map (\<lambda>n. str (cp_field ?t n ''deployment_name'')) ns)) kvs\<rparr>)"
    using Cons.prems by (intro Cons.IH) (auto simp: field, metis (no_types, lifting) image_eqI)
  ultimately show ?case by (simp add: field)
qed (simp add: done_with_def)

lemma values_array_shown:
  "cp_values s = shown_values parsed kvs \<Longrightarrow>
   make_values_array s = JArr (map (\<lambda>(k, v). JObj [(k, if k \<in> parsed then json_clean v else JStr (json_pretty 0 v))]) kvs)"
  by (simp add: make_values_array_def shown_values_def case_prod_beta)

text \<open>C23: installing and reinstalling send, for every selected node, the object whose text the page shows for
  its deployment; the texts of deployments that were shown for an earlier selection are sent along as they
  are.\<close>

theorem cp_run_sends_shown_values:
  assumes "cp_form s = Some f" "pf_process f = JStr p" "p \<in> {INSTALL, REINSTALL}"
    and "cp_values s = shown_values {} kvs" "distinct (map fst kvs)" "\<forall>(k, v) \<in> set kvs. js_wf v"
    and "names = map (\<lambda>n. str (cp_field s n ''deployment_name'')) (pf_nodes f)" "distinct names" "set names \<subseteq> fst ` set kvs"
  shows "catalog_changes (cp_step lc (Act CP_Run) s) = catalog_changes s @
    [Http POST (''/api/catalog/'' @ p) (JObj [(''role'', cp_info s ''id''), (''process'', process_value s f),
       (''values'', JArr (map (\<lambda>(k, v). JObj [(k, if k \<in> set names then json_clean v else JStr (json_pretty 0 v))]) kvs))])]"
proof -
  let ?t = "s\<lparr>cp_values := shown_values (set names) kvs\<rparr>"
  have parse: "parse_values s = (None, ?t)"
    using parse_shown_values [OF assms(5,6), of s "pf_nodes f" "{}"] assms by (simp add: parse_values_def with_form_def)
  have "process_value ?t f = process_value s f" by (simp add: process_value_def cp_node_def)
  moreover have "make_values_array ?t = JArr (map (\<lambda>(k, v). JObj [(k, if k \<in> set names then json_clean v else JStr (json_pretty 0 v))]) kvs)"
    by (rule values_array_shown) simp
  ultimately show ?thesis
    using assms(1-3)
    by (auto simp: cp_step_def async_step_def cp_run_chart_action_def with_form_def run_with_values_def parse
        cp_api_catalog_install_def catalog_install_def cp_api_catalog_reinstall_def catalog_reinstall_def)
qed

section \<open>A second run\<close>

text \<open>The parsed values replace their texts.\<close>

definition parsed_at :: "string \<Rightarrow> process_form \<Rightarrow> js list \<Rightarrow> cp_state \<Rightarrow> bool" where
  "parsed_at k f store s \<longleftrightarrow>
     cp_form s = Some f \<and> cp_store s = store \<and> (\<exists>c kvs. map_of (cp_values s) k = Some c \<and> vc_value c = JObj kvs)"

lemma JSON_parse_object_text: "JSON_parse ''[object Object]'' = Inl SyntaxError"
  by code_simp

lemma parsed_at_parse_value: "parsed_at k f store s \<Longrightarrow> parsed_at k f store (snd (parse_value n s))"
  by (auto simp: parsed_at_def parse_value_def Let_def attempt_def smap_def update_conv JSON_parse_object_text fails_def
      split: option.split sum.split)

lemma parse_value_fails:
  assumes "parsed_at (str (js_get (if n < length store then store ! n else JUndef) ''deployment_name'')) f store s"
  shows "fst (parse_value n s) = Some SyntaxError"
  using assms
  by (auto simp: parsed_at_def parse_value_def cp_node_def Let_def attempt_def smap_def JSON_parse_object_text notUndefNull_def)

lemma cp_more:
  "async.more s' = async.more s \<Longrightarrow>
     cp_form s' = cp_form s \<and> cp_store s' = cp_store s \<and> cp_values s' = cp_values s"
  for s s' :: cp_state
  by (cases s; cases s') simp

lemma parsed_at_more: "parsed_at k f store s \<Longrightarrow> async.more s' = async.more s \<Longrightarrow> parsed_at k f store s'"
  using cp_more [of s' s] by (simp add: parsed_at_def)

lemma failure_keeps_more:
  assumes "k \<in> {CP_Installed, CP_Reinstalled}"
  shows "async.more (cp_answer lc k (Failure e) s) = async.more s"
  using assms
  by (auto simp: cp_api_catalog_install_answer_def cp_api_catalog_reinstall_answer_def
      intro!: world_more_async answered_failure(1))

text \<open>after a run that the backend refused, running again sends nothing: the first run has replaced the
  texts by objects, and the text of an object is no JSON.\<close>

theorem cp_second_run_sends_nothing:
  assumes "cp_form s = Some f" "pf_process f \<in> {JStr INSTALL, JStr REINSTALL}" "pf_nodes f = n # ns"
    and "map_of (cp_values s) (str (cp_field s n ''deployment_name'')) = Some c" "vc_value c = JStr shown"
    and "JSON_parse shown = Inr (JObj kvs)"
  shows "catalog_changes (fold (cp_step lc) [Act CP_Run, Answer (length (requests s)) (Failure e), Act CP_Run] s) =
    catalog_changes (cp_step lc (Act CP_Run) s)"
proof -
  let ?k = "str (cp_field s n ''deployment_name'')"
  let ?P = "parsed_at ?k f (cp_store s)"
  define t where "t = snd (parse_values s)"
  have "parse_value n s = (None, s\<lparr>cp_values := AList.update ?k (c\<lparr>vc_on := False, vc_value := JObj kvs\<rparr>) (cp_values s)\<rparr>)"
    using assms(4-6) by (simp add: parse_value_def attempt_def smap_def notUndefNull_def)
  moreover have "?P (snd (each parse_value ns u))" if "?P u" for u
    by (rule snd_each) (use that parsed_at_parse_value in auto)
  ultimately have t: "?P t"
    using assms(1,3) by (simp add: t_def parse_values_def with_form_def) (simp add: parsed_at_def update_conv)
  define u where "u = cp_step lc (Act CP_Run) s"
  have u: "?P u \<and> (requests u = requests s \<or> (\<exists>k \<in> {CP_Installed, CP_Reinstalled}. requests u = requests s @ [k]))"
  proof (cases "parse_values s")
    case (Pair e t')
    then have t': "?P t'" using t by (simp add: t_def)
    have keep: "requests (snd (each parse_value ns v)) = requests v" for ns v
      by (rule snd_each) (auto simp: parse_value_def attempt_def smap_def Let_def split: option.split sum.split)
    have "requests t' = requests s"
      using Pair assms(1) keep [of "pf_nodes f" s] by (simp add: parse_values_def with_form_def)
    then show ?thesis
      using assms(1,2) Pair t'
      by (cases e) (auto simp: u_def cp_step_def async_step_def cp_run_chart_action_def with_form_def run_with_values_def
          cp_api_catalog_install_def cp_api_catalog_reinstall_def intro: parsed_at_more)
  qed
  define v where "v = cp_step lc (Answer (length (requests s)) (Failure e)) u"
  have v: "?P v"
    using u by (auto simp: v_def cp_step_def async_step_def failure_keeps_more nth_append
        simp del: cp_answer.simps intro!: parsed_at_more [of _ _ _ u])
  have "fst (parse_value n v) = Some SyntaxError"
    by (rule parse_value_fails [of n "cp_store s" f]) (use v in \<open>simp add: cp_node_def\<close>)
  then have "fst (parse_values v) = Some SyntaxError"
    using v assms(3) by (cases "parse_value n v") (simp add: parse_values_def with_form_def parsed_at_def)
  then have "catalog_changes (cp_step lc (Act CP_Run) v) = catalog_changes v"
    using v assms(2) quietD [OF quiet_parse_values, of v]
    by (cases "parse_values v") (auto simp: cp_step_def async_step_def cp_run_chart_action_def with_form_def run_with_values_def parsed_at_def)
  moreover have "catalog_changes v = catalog_changes u"
    by (simp add: v_def cp_step_def async_step_def changes_answer)
  ultimately show ?thesis by (simp add: u_def v_def)
qed

section \<open>Saved values\<close>

lemma and_then_done [simp]: "and_then m done_with = m" "and_then m (each f []) = m"
proof -
  have "and_then m done_with = m" by (cases m; cases "fst m") (simp_all add: done_with_def)
  moreover have "each f [] = done_with" by (simp add: fun_eq_iff)
  ultimately show "and_then m done_with = m" "and_then m (each f []) = m" by simp_all
qed

text \<open>The text shown for a deployment.\<close>

definition shown_text :: "cp_state \<Rightarrow> string \<Rightarrow> js" where
  "shown_text s k = (case map_of (cp_values s) k of None \<Rightarrow> JUndef | Some c \<Rightarrow> vc_value c)"

lemma set_value_shown:
  assumes "js_get v ''deployment_name'' = JStr d" "v = JObj kvs"
  shows "fst (set_value_form_group v n s) = None \<and> shown_text (snd (set_value_form_group v n s)) d = JStr (json_pretty 0 v)"
  using assms
  by (auto simp: set_value_form_group_def shown_text_def cp_set_field_def done_with_def map_add_def update_conv Let_def
      split: option.split)

lemma set_value_frame [simp]:
  "cp_form (snd (set_value_form_group v n s)) = cp_form s" "cp_chart_info (snd (set_value_form_group v n s)) = cp_chart_info s"
  "requests (snd (set_value_form_group v n s)) = requests s" "cp_saved_values (snd (set_value_form_group v n s)) = cp_saved_values s"
  "cp_config_array (snd (set_value_form_group v n s)) = cp_config_array s"
  by (simp_all add: set_value_form_group_def cp_set_field_def Let_def split: sum.split)

lemma set_value_hostname [simp]:
  "cp_field (snd (set_value_form_group v n s)) m ''hostname'' = cp_field s m ''hostname''"
proof -
  have "js_get (js_set w ''deployment_name'' x) ''hostname'' = js_get w ''hostname''" for w x
    by (cases w) (simp_all add: update_conv)
  then show ?thesis
    by (simp add: set_value_form_group_def cp_set_field_def cp_node_def nth_list_update Let_def split: sum.split)
qed

lemma show_generated_one:
  "cp_form s = Some f \<Longrightarrow> pf_nodes f = [n] \<Longrightarrow> cp_field s n ''hostname'' = JStr h \<Longrightarrow>
     show_generated (JArr [JObj [(h, JObj gen)]]) s = set_value_form_group (JObj gen) n s"
  by (simp add: show_generated_def with_form_def notUndefNull_def return_object_key_value_def)

text \<open>when values are saved for two hosts and one of them is selected, the page shows its saved values, but
  also asks the backend for new ones because of the other host, and the answer replaces the saved values.\<close>

theorem cp_saved_values_replaced:
  assumes "cp_form s = Some f" "pf_nodes f = [n]" "cp_field s n ''hostname'' = JStr h" "\<not> server_any s"
    and "config_values s = Inr [JObj [(h, obj)]]" "js_get obj ''node_hostname'' = JStr h" "js_get obj ''deployment_name'' = JStr d"
    and "cp_saved_values s = Some [v, w]" "js_get (js_get v ''values'') ''node_hostname'' = JStr h"
    and "js_get (js_get w ''values'') ''node_hostname'' = JStr h'" "h' \<noteq> h"
    and "object_assign [js_get v ''values'', obj] = JObj kvs" "js_get (JObj kvs) ''deployment_name'' = JStr d"
    and "js_get (JObj gen) ''deployment_name'' = JStr d"
  shows "let t = cp_step lc (Act (CP_Step 2)) s;
      u = cp_step lc (Answer (length (requests s)) (Reply (JArr [JObj [(h, JObj gen)]]))) t
    in shown_text t d = JStr (json_pretty 0 (JObj kvs)) \<and> requests t = requests s @ [CP_Generate] \<and>
       shown_text u d = JStr (json_pretty 0 (JObj gen))"
proof -
  let ?s = "s\<lparr>cp_config_array := [JObj [(h, obj)]]\<rparr>"
  define t1 where "t1 = snd (set_value_form_group (JObj kvs) n ?s)"
  have index: "js_index x ''node_hostname'' = Inr (JStr k)" if "js_get x ''node_hostname'' = JStr k" for x k
    using that by (cases x) auto
  have obj: "obj \<noteq> JUndef" using assms(6) by auto
  have "server_any ?s = False" "cp_node ?s m = cp_node s m" for m
    using assms(4) by (simp_all add: server_any_def cp_info_def cp_node_def)
  then have "compare_value n v (JObj [(h, obj)]) ?s = set_value_form_group (JObj kvs) n ?s"
    using assms obj by (simp add: compare_value_def Let_def index sbind_def smap_def)
  moreover have t1: "set_value_form_group (JObj kvs) n ?s = (None, t1)" "shown_text t1 d = JStr (json_pretty 0 (JObj kvs))"
    using set_value_shown [OF assms(13) refl, of n ?s] by (simp_all add: t1_def prod_eq_iff)
  moreover have t1_frame: "cp_form t1 = Some f" "requests t1 = requests s" "cp_saved_values t1 = Some [v, w]"
    "cp_config_array t1 = [JObj [(h, obj)]]" "cp_field t1 n ''hostname'' = JStr h" "server_any t1 = False"
    using assms by (simp_all add: t1_def server_any_def cp_info_def) (use assms(3) in \<open>simp add: cp_node_def split: if_splits\<close>)
  moreover have "compare_value n w (JObj [(h, obj)]) t1 = (None, t1)"
    using assms obj t1_frame by (simp add: compare_value_def Let_def index sbind_def smap_def done_with_def)
  ultimately have "compare_values ?s = (None, t1)"
    using assms by (simp add: compare_values_def with_form_def done_with_def)
  then have t: "cp_get_values_file s = cp_api_generate_values_file t1"
    using assms t1_frame \<open>server_any ?s = False\<close> \<open>\<And>m. cp_node ?s m = cp_node s m\<close>
    by (simp add: cp_get_values_file_def with_form_def index done_with_def [symmetric])
  let ?t = "cp_step lc (Act (CP_Step 2)) s"
  have step: "?t = snd (cp_api_generate_values_file t1)"
    by (simp add: cp_step_def async_step_def cp_selection_change_stepper_def t)
  have "async.more ?t = async.more t1" "requests ?t = requests s @ [CP_Generate]"
    unfolding step using t1_frame by (simp_all add: cp_api_generate_values_file_def with_form_def)
  moreover from this(1) have "cp_form ?t = Some f" "shown_text ?t d = shown_text t1 d" "cp_field ?t n ''hostname'' = JStr h"
    using cp_more [of ?t t1] t1_frame by (simp_all add: shown_text_def cp_node_def split: if_splits)
  moreover have "shown_text (snd (show_generated (JArr [JObj [(h, JObj gen)]]) (?t\<lparr>requests := requests s\<rparr>))) d = JStr (json_pretty 0 (JObj gen))"
  proof -
    have "cp_field (?t\<lparr>requests := requests s\<rparr>) n ''hostname'' = JStr h"
      using \<open>cp_field ?t n ''hostname'' = JStr h\<close> by (simp add: cp_node_def split: if_splits)
    then have "show_generated (JArr [JObj [(h, JObj gen)]]) (?t\<lparr>requests := requests s\<rparr>) =
        set_value_form_group (JObj gen) n (?t\<lparr>requests := requests s\<rparr>)"
      using \<open>cp_form ?t = Some f\<close> assms(2) by (intro show_generated_one) simp_all
    then show ?thesis
      using set_value_shown [OF assms(14) refl, of n "?t\<lparr>requests := requests s\<rparr>"] by (simp only:)
  qed
  ultimately show ?thesis
    using t1(2)
    by (simp add: cp_step_def async_step_def cp_api_generate_values_file_answer_def answered_def subscribe_def generate_values_file_def
        as_is_def remove_nth_def Let_def)
qed

section \<open>The nodes a process offers\<close>

text \<open>What the page is meant to offer: an installation where the chart is not deployed, a reinstallation or a
  removal where it is known.\<close>

definition meant_for :: "js \<Rightarrow> string \<Rightarrow> bool" where
  "meant_for child_status p \<longleftrightarrow>
     (p = INSTALL \<longrightarrow> child_status \<noteq> JStr ''DEPLOYED'') \<and>
     (p = REINSTALL \<or> p = UNINSTALL \<longrightarrow> child_status \<noteq> JStr ''UNKNOWN'')"

lemma offered_for_meant: "offered_for child_status p = meant_for child_status p"
  by (auto simp: offered_for_def meant_for_def)

definition offers :: "string \<Rightarrow> js list \<Rightarrow> string \<Rightarrow> js \<Rightarrow> bool" where
  "offers affinity statuses p v \<longleftrightarrow>
     (let node_type = the_str (js_get v ''node_type'');
          st = node_status statuses (js_get v ''hostname'') node_type (the_str (js_get v ''hostname''))
      in str_includes affinity node_type \<and> meant_for (if notUndefNull st then js_get st ''status'' else JStr ''UNKNOWN'') p)"

definition named_node :: "js \<Rightarrow> bool" where
  "named_node v \<longleftrightarrow> (\<exists>kvs h t. v = JObj kvs \<and> js_get v ''hostname'' = JStr h \<and> js_get v ''node_type'' = JStr t)"

lemma unique_by_id_snoc:
  assumes "distinct (map k ns)"
  shows "unique_by_id k ns = ns"
proof -
  have "fold (\<lambda>n. AList.update (k n) n) ns al = al @ map (\<lambda>n. (k n, n)) ns" if "distinct (map fst al @ map k ns)" for al
    using that
  proof (induction ns arbitrary: al)
    case (Cons n ns)
    have "AList.update (k n) n al = al @ [(k n, n)]" using Cons.prems by (intro update_fresh) auto
    moreover have "fold (\<lambda>n. AList.update (k n) n) ns (al @ [(k n, n)]) = (al @ [(k n, n)]) @ map (\<lambda>n. (k n, n)) ns"
      using Cons.prems by (intro Cons.IH) auto
    ultimately show ?case by simp
  qed simp
  from this [of "[]"] show ?thesis using assms by (simp add: unique_by_id_def o_def)
qed

lemma place_named_node:
  assumes "cp_form s \<noteq> None" "cp_statuses s = Some statuses" "cp_info s ''node_affinity'' = JStr affinity"
    and "n < length (cp_store s)" "named_node (cp_node s n)"
  obtains t where "place_node n s = (None, t)" "cp_form t \<noteq> None" "cp_statuses t = Some statuses"
    "cp_info t ''node_affinity'' = JStr affinity" "length (cp_store t) = length (cp_store s)"
    "\<And>m. m \<noteq> n \<Longrightarrow> cp_node t m = cp_node s m" "\<And>m. cp_field t m ''_id'' = cp_field s m ''_id''"
    "cp_processes t = map (\<lambda>p. if offers affinity statuses (pr_process p) (cp_node s n)
       then p\<lparr>pr_children := unique_by_id (\<lambda>m. cp_field s m ''_id'') (pr_children p @ [n])\<rparr> else p) (cp_processes s)"
proof -
  let ?v = "cp_node s n"
  obtain kvs h ty where v: "?v = JObj kvs" "js_get ?v ''hostname'' = JStr h" "js_get ?v ''node_type'' = JStr ty"
    using assms(5) by (auto simp: named_node_def)
  let ?st = "node_status statuses (JStr h) ty h"
  let ?child = "if notUndefNull ?st then js_get ?st ''status'' else JStr ''UNKNOWN''"
  let ?s1 = "cp_set_field n ''status'' ?st s"
  have fields: "cp_node ?s1 m = (if m = n then js_set ?v ''status'' ?st else cp_node s m)" for m
    using assms(4) by (simp add: cp_set_field_def cp_node_def nth_list_update)
  have "js_get (js_set ?v ''status'' ?st) k = (if k = ''status'' then ?st else js_get ?v k)" for k
    by (simp add: v update_conv)
  then have id: "cp_field ?s1 m ''_id'' = cp_field s m ''_id''" "cp_field ?s1 n ''status'' = ?st" for m
    by (simp_all add: fields)
  have s1: "cp_form ?s1 = cp_form s" "cp_statuses ?s1 = Some statuses" "cp_info ?s1 k = cp_info s k" "cp_processes ?s1 = cp_processes s"
    "length (cp_store ?s1) = length (cp_store s)" "cp_chart_info ?s1 = cp_chart_info s" for k
    using assms(2) by (simp_all add: cp_set_field_def cp_info_def)
  have any: "server_any s \<Longrightarrow> ty = ''Server'' \<Longrightarrow> str_includes affinity ''Server''" "server_any ?s1 = server_any s"
    using assms(3) by (auto simp: server_any_def s1 SERVER_ANY_VALUE_def str_includes_def)
  have off: "offers affinity statuses p ?v = (str_includes affinity ty \<and> offered_for ?child p)" for p
    by (simp only: offers_def v(2,3) Let_def the_str.simps offered_for_meant)
  define u where "u = (if str_includes affinity ty then snd (set_children ?child n ?s1) else ?s1)"
  define t where "t = (if ty = ''Service'' then u\<lparr>service_node_available := True\<rparr> else u)"
  obtain f where f: "cp_form s = Some f" using assms(1) by auto
  have set_children: "set_children ?child n ?s1 = (None, snd (set_children ?child n ?s1))"
    by (simp add: set_children_def Let_def with_form_def s1 f done_with_def split: option.split)
  have "place_node n s = and_then (if str_includes affinity ty then set_children ?child n ?s1 else done_with ?s1)
      (\<lambda>t. done_with (if ty = ''Service'' then t\<lparr>service_node_available := True\<rparr> else t))"
    using any by (auto simp: place_node_def v(2,3) assms s1 id Let_def)
  also have "\<dots> = (None, t)"
    unfolding t_def u_def
    by (cases "str_includes affinity ty"; subst set_children | simp only: if_True if_False)
      (simp_all only: if_True if_False and_then_simps done_with_def)
  finally have place: "place_node n s = (None, t)" .
  have u: "cp_form u \<noteq> None" "cp_statuses u = Some statuses" "cp_info u k = cp_info s k" "cp_store u = cp_store ?s1"
    "cp_processes u = map (\<lambda>p. if offers affinity statuses (pr_process p) ?v
       then p\<lparr>pr_children := unique_by_id (\<lambda>m. cp_field s m ''_id'') (pr_children p @ [n])\<rparr> else p) (cp_processes s)" for k
    by (auto simp: u_def set_children_def Let_def with_form_def s1 f off push_child_def id cp_info_def
        simp del: js_get.simps split: option.split)
  have t: "cp_form t = cp_form u" "cp_statuses t = cp_statuses u" "cp_store t = cp_store u" "cp_processes t = cp_processes u"
    "cp_info t k = cp_info u k" for k
    by (simp_all add: t_def cp_info_def)
  then have "cp_node t m = cp_node ?s1 m" for m by (simp add: cp_node_def u)
  then show thesis using that [OF place] t u s1 fields id assms(3) by (simp del: js_get.simps)
qed

definition children_at :: "(string \<Rightarrow> nat list) \<Rightarrow> string list \<Rightarrow> process list" where
  "children_at ch = map (\<lambda>p. \<lparr>pr_process = p, pr_children = ch p\<rparr>)"

lemma place_nodes:
  assumes "cp_form s \<noteq> None" "cp_statuses s = Some statuses" "cp_info s ''node_affinity'' = JStr affinity"
    and "\<forall>r \<in> set rs. r < length (cp_store s) \<and> named_node (cp_node s r)" "distinct rs"
    and "cp_processes s = children_at ch ps" "\<forall>p. distinct (map (\<lambda>m. cp_field s m ''_id'') (ch p @ rs))"
  shows "\<exists>t. each place_node rs s = (None, t) \<and> (\<forall>m. cp_field t m ''_id'' = cp_field s m ''_id'') \<and>
    cp_processes t = children_at (\<lambda>p. ch p @ filter (\<lambda>r. offers affinity statuses p (cp_node s r)) rs) ps"
  using assms
proof (induction rs arbitrary: s ch)
  case Nil
  then show ?case by (auto simp: done_with_def)
next
  case (Cons r rs)
  have r: "r < length (cp_store s)" "named_node (cp_node s r)" using Cons.prems(4) by simp_all
  obtain t where place: "place_node r s = (None, t)"
    and t: "cp_form t \<noteq> None" "cp_statuses t = Some statuses" "cp_info t ''node_affinity'' = JStr affinity"
      "length (cp_store t) = length (cp_store s)"
    and node: "\<And>m. m \<noteq> r \<Longrightarrow> cp_node t m = cp_node s m" and id: "\<And>m. cp_field t m ''_id'' = cp_field s m ''_id''"
    and processes: "cp_processes t = map (\<lambda>p. if offers affinity statuses (pr_process p) (cp_node s r)
       then p\<lparr>pr_children := unique_by_id (\<lambda>m. cp_field s m ''_id'') (pr_children p @ [r])\<rparr> else p) (cp_processes s)"
    by (rule place_named_node [OF Cons.prems(1-3) r]) (rule that)
  let ?ch = "\<lambda>p. ch p @ (if offers affinity statuses p (cp_node s r) then [r] else [])"
  have "unique_by_id (\<lambda>m. cp_field s m ''_id'') (ch p @ [r]) = ch p @ [r]" for p
    using Cons.prems(7) by (intro unique_by_id_snoc) auto
  then have processes': "cp_processes t = children_at ?ch ps"
    unfolding processes Cons.prems(6) by (simp add: children_at_def)
  have rs: "m \<in> set rs \<Longrightarrow> cp_node t m = cp_node s m" for m using Cons.prems(5) by (intro node) auto
  have "\<exists>u. each place_node rs t = (None, u) \<and> (\<forall>m. cp_field u m ''_id'' = cp_field t m ''_id'') \<and>
      cp_processes u = children_at (\<lambda>p. ?ch p @ filter (\<lambda>r. offers affinity statuses p (cp_node t r)) rs) ps"
  proof (rule Cons.IH [OF t(1-3) _ _ processes'])
    show "\<forall>r \<in> set rs. r < length (cp_store t) \<and> named_node (cp_node t r)" using Cons.prems(4) rs t(4) by simp
    show "\<forall>p. distinct (map (\<lambda>m. cp_field t m ''_id'') (?ch p @ rs))" using Cons.prems(7) by (auto simp: id)
  qed (use Cons.prems(5) in simp)
  then obtain u where "each place_node rs t = (None, u)" "\<forall>m. cp_field u m ''_id'' = cp_field s m ''_id''"
    and u: "cp_processes u = children_at (\<lambda>p. ?ch p @ filter (\<lambda>r. offers affinity statuses p (cp_node t r)) rs) ps"
    by (auto simp: id)
  moreover have "filter (\<lambda>r. offers affinity statuses p (cp_node t r)) rs = filter (\<lambda>r. offers affinity statuses p (cp_node s r)) rs" for p
    using rs by (intro filter_cong) simp_all
  ultimately show ?case by (auto simp: place children_at_def)
qed

text \<open>The ids of the nodes that the processes offer, without the processes that offer none.\<close>

definition offered_ids :: "cp_state \<Rightarrow> (string \<times> js list) list" where
  "offered_ids s = map (\<lambda>p. (pr_process p, map (\<lambda>n. cp_field s n ''_id'') (pr_children p))) (cp_processes s)"

text \<open>C31: after the first answer with the nodes of the kit, a process offers, in the order of their names, the
  nodes of a type the chart can run on, for an installation those where it is not deployed and for a
  reinstallation or removal those where it is not unknown; processes without nodes are gone.\<close>

theorem cp_offers_nodes:
  assumes "cp_form s \<noteq> None" "cp_statuses s = Some statuses" "cp_info s ''node_affinity'' = JStr affinity"
    and "cp_processes s = PROCESS_LIST" "\<forall>v \<in> set nodes. named_node v" "distinct (map (\<lambda>v. js_get v ''_id'') nodes)"
    and "node_alphanum lc nodes = Inr sorted_nodes"
  shows "offered_ids (snd (set_process_list_children lc nodes s)) =
    filter (\<lambda>(p, ids). ids \<noteq> []) (map (\<lambda>p. (p, map (\<lambda>v. js_get v ''_id'') (filter (offers affinity statuses p) sorted_nodes)))
      [INSTALL, REINSTALL, UNINSTALL])"
proof -
  let ?k = "length (cp_store s)" let ?refs = "[?k ..< ?k + length sorted_nodes]"
  let ?s = "s\<lparr>cp_store := cp_store s @ sorted_nodes, cp_nodes := Some ?refs\<rparr>"
  have mset: "mset sorted_nodes = mset nodes"
    using assms(7) by (auto simp: node_alphanum_def dest: sort_by_field_mset)
  have node: "cp_node ?s (?k + i) = sorted_nodes ! i" if "i < length sorted_nodes" for i
    using that by (simp add: cp_node_def)
  have mapped: "map (\<lambda>m. g (cp_node ?s m)) ?refs = map g sorted_nodes" for g :: "js \<Rightarrow> 'b"
    by (rule nth_equalityI) (simp_all add: node)
  have filtered: "map (\<lambda>m. g (cp_node ?s m)) (filter (\<lambda>m. h (cp_node ?s m)) ?refs) = map g (filter h sorted_nodes)" for g :: "js \<Rightarrow> js" and h
  proof -
    have "map (\<lambda>m. g (cp_node ?s m)) (filter (\<lambda>m. h (cp_node ?s m)) ?refs) = map g (filter h (map (cp_node ?s) ?refs))"
      by (simp add: filter_map o_def)
    also have "map (cp_node ?s) ?refs = sorted_nodes" using mapped [of id] by simp
    finally show ?thesis .
  qed
  have "\<exists>t. each place_node ?refs ?s = (None, t) \<and> (\<forall>m. cp_field t m ''_id'' = cp_field ?s m ''_id'') \<and>
      cp_processes t = children_at (\<lambda>p. [] @ filter (\<lambda>r. offers affinity statuses p (cp_node ?s r)) ?refs) [INSTALL, REINSTALL, UNINSTALL]"
  proof (rule place_nodes)
    have "named_node (sorted_nodes ! i)" if "i < length sorted_nodes" for i
      using assms(5) mset_eq_setD [OF mset] nth_mem [OF that] by blast
    then show "\<forall>r \<in> set ?refs. r < length (cp_store ?s) \<and> named_node (cp_node ?s r)"
      using node by (auto simp: le_iff_add)
    have "distinct (map (\<lambda>v. js_get v ''_id'') sorted_nodes)"
      using assms(6) mset by (metis mset_eq_imp_distinct_iff mset_map)
    then show "\<forall>p :: string. distinct (map (\<lambda>m. cp_field ?s m ''_id'') ([] @ ?refs))"
      using mapped [of "\<lambda>v. js_get v ''_id''"] by simp
  qed (use assms in \<open>simp_all add: cp_info_def PROCESS_LIST_def children_at_def\<close>)
  then obtain t where t: "each place_node ?refs ?s = (None, t)" "\<forall>m. cp_field t m ''_id'' = cp_field ?s m ''_id''"
    "cp_processes t = children_at (\<lambda>p. filter (\<lambda>r. offers affinity statuses p (cp_node ?s r)) ?refs) [INSTALL, REINSTALL, UNINSTALL]"
    by auto
  let ?u = "t\<lparr>cp_processes := filter (\<lambda>p. pr_children p \<noteq> []) (cp_processes t)\<rparr>"
  have "set_process_list_children lc nodes s = (None, ?u)"
    by (simp add: set_process_list_children_def assms(7) Let_def t(1) done_with_def)
  moreover have "cp_field ?u m ''_id'' = cp_field ?s m ''_id''" for m
  proof -
    have "cp_node ?u m = cp_node t m" by (simp add: cp_node_def)
    then show ?thesis using t(2) by metis
  qed
  moreover have empty: "filter (\<lambda>r. offers affinity statuses p (cp_node ?s r)) ?refs = [] \<longleftrightarrow> filter (offers affinity statuses p) sorted_nodes = []" for p
    using filtered [of id "offers affinity statuses p"] by (metis Nil_is_map_conv)
  ultimately show ?thesis
    using filtered [of "\<lambda>v. js_get v ''_id''"]
    by (simp add: offered_ids_def t(3) children_at_def del: filter_empty_conv)
qed

section \<open>The properties at an example\<close>

definition cp_example :: cp_state where
  "cp_example =
     cp_constructor\<lparr>
       cp_chart_info := JObj [(''id'', JStr ''zeek''), (''node_affinity'', JStr ''Sensor'')],
       cp_form := Some \<lparr>pf_process = JStr INSTALL, pf_process_on = True, pf_nodes = [0], pf_nodes_on = True,
         pf_nodes_required = True, pf_affinity = JStr ''Sensor''\<rparr>,
       cp_store := [JObj [(''_id'', JStr ''1''), (''hostname'', JStr ''a''), (''node_type'', JStr ''Sensor''),
         (''deployment_name'', JStr ''a-zeek'')]],
       cp_groups := [map (\<lambda>(k, v). (k, \<lparr>oc_value = JStr v, oc_pattern = JUndef, oc_required = False, oc_on = True\<rparr>))
         [(''node_hostname'', ''a''), (''deployment_name'', ''a-zeek'')]],
       cp_config := Some [(''a'', 0)],
       cp_statuses := Some [],
       cp_saved_values := Some (map (\<lambda>h. JObj [(''values'', JObj [(''node_hostname'', JStr h), (''home_net'', JStr [])])]) [''a'', ''b'']),
       cp_values := shown_values {} [(''a-zeek'', JObj [(''workers'', JNum 2)])]\<rparr>"

abbreviation example_form :: process_form where
  "example_form \<equiv> \<lparr>pf_process = JStr INSTALL, pf_process_on = True, pf_nodes = [0], pf_nodes_on = True,
     pf_nodes_required = True, pf_affinity = JStr ''Sensor''\<rparr>"

lemma cp_example_fields [simp]:
  "cp_form cp_example = Some example_form" "requests cp_example = []" "catalog_changes cp_example = []"
  "cp_node cp_example 0 = JObj [(''_id'', JStr ''1''), (''hostname'', JStr ''a''), (''node_type'', JStr ''Sensor''),
     (''deployment_name'', JStr ''a-zeek'')]"
  "cp_values cp_example = shown_values {} [(''a-zeek'', JObj [(''workers'', JNum 2)])]"
  "cp_statuses cp_example = Some []" "cp_info cp_example ''id'' = JStr ''zeek''" "cp_info cp_example ''node_affinity'' = JStr ''Sensor''"
  "cp_processes cp_example = PROCESS_LIST" "\<not> server_any cp_example"
  "cp_saved_values cp_example = Some (map (\<lambda>h. JObj [(''values'', JObj [(''node_hostname'', JStr h), (''home_net'', JStr [])])]) [''a'', ''b''])"
  "config_values cp_example = Inr [JObj [(''a'', JObj [(''node_hostname'', JStr ''a''), (''deployment_name'', JStr ''a-zeek'')])]]"
  by (simp_all add: cp_example_def cp_constructor_def cp_node_def cp_info_def server_any_def SERVER_ANY_VALUE_def catalog_changes_def
      sent_def config_values_def group_value_def parse_net_def notUndefNull_def sbind_def smap_def)

theorem cp_run_sends_shown_values_witness:
  "\<forall>lc. catalog_changes (cp_step lc (Act CP_Run) cp_example) =
    [Http POST ''/api/catalog/install'' (JObj [(''role'', JStr ''zeek''), (''process'', process_value cp_example example_form),
       (''values'', JArr [JObj [(''a-zeek'', JObj [(''workers'', JNum 2)])]])])]"
proof (intro allI)
  fix lc
  let ?kvs = "[(''a-zeek'', JObj [(''workers'', JNum 2)])]"
  have "catalog_changes (cp_step lc (Act CP_Run) cp_example) = catalog_changes cp_example @
    [Http POST (''/api/catalog/'' @ INSTALL) (JObj [(''role'', cp_info cp_example ''id''), (''process'', process_value cp_example example_form),
       (''values'', JArr (map (\<lambda>(k, v). JObj [(k, if k \<in> set [''a-zeek''] then json_clean v else JStr (json_pretty 0 v))]) ?kvs))])]"
    by (rule cp_run_sends_shown_values) simp_all
  then show "catalog_changes (cp_step lc (Act CP_Run) cp_example) =
    [Http POST ''/api/catalog/install'' (JObj [(''role'', JStr ''zeek''), (''process'', process_value cp_example example_form),
       (''values'', JArr [JObj [(''a-zeek'', JObj [(''workers'', JNum 2)])]])])]"
    by (simp only: cp_example_fields append.simps list.map prod.case list.set insert_iff simp_thms if_True json_clean.simps
      filter.simps snd_conv fst_conv js.distinct)
qed

theorem cp_second_run_sends_nothing_witness:
  "\<forall>lc e. catalog_changes (fold (cp_step lc) [Act CP_Run, Answer 0 (Failure e), Act CP_Run] cp_example) =
    catalog_changes (cp_step lc (Act CP_Run) cp_example)"
proof (intro allI)
  fix lc e
  let ?v = "JObj [(''workers'', JNum 2)]"
  have "JSON_parse (json_pretty 0 ?v) = Inr ?v" using json_pretty_round_trip [of ?v 0] by simp
  then have "catalog_changes (fold (cp_step lc) [Act CP_Run, Answer (length (requests cp_example)) (Failure e), Act CP_Run] cp_example) =
      catalog_changes (cp_step lc (Act CP_Run) cp_example)"
    by (intro cp_second_run_sends_nothing [of _ example_form 0 "[]" "\<lparr>vc_value = JStr (json_pretty 0 ?v), vc_on = False\<rparr>"])
      (simp_all add: shown_values_def)
  then show "catalog_changes (fold (cp_step lc) [Act CP_Run, Answer 0 (Failure e), Act CP_Run] cp_example) =
      catalog_changes (cp_step lc (Act CP_Run) cp_example)"
    by (simp only: cp_example_fields list.size)
qed

theorem cp_saved_values_replaced_witness:
  "\<forall>lc. let gen = [(''deployment_name'', JStr ''a-zeek''), (''home_net'', JStr ''10.0.0.0/8'')];
      t = cp_step lc (Act (CP_Step 2)) cp_example;
      u = cp_step lc (Answer 0 (Reply (JArr [JObj [(''a'', JObj gen)]]))) t
    in shown_text t ''a-zeek'' = JStr (json_pretty 0 (JObj [(''node_hostname'', JStr ''a''), (''home_net'', JStr []), (''deployment_name'', JStr ''a-zeek'')])) \<and>
       requests t = [CP_Generate] \<and> shown_text u ''a-zeek'' = JStr (json_pretty 0 (JObj gen))"
  using cp_saved_values_replaced [of cp_example example_form 0 "''a''"
      "JObj [(''node_hostname'', JStr ''a''), (''deployment_name'', JStr ''a-zeek'')]" "''a-zeek''"
      "JObj [(''values'', JObj [(''node_hostname'', JStr ''a''), (''home_net'', JStr [])])]"
      "JObj [(''values'', JObj [(''node_hostname'', JStr ''b''), (''home_net'', JStr [])])]" "''b''"
      "[(''node_hostname'', JStr ''a''), (''home_net'', JStr []), (''deployment_name'', JStr ''a-zeek'')]"
      "[(''deployment_name'', JStr ''a-zeek''), (''home_net'', JStr ''10.0.0.0/8'')]"]
  by (simp add: object_assign_def Let_def)

theorem cp_offers_nodes_witness:
  "\<forall>lc. offered_ids (snd (set_process_list_children lc [cp_node cp_example 0] cp_example)) = [(''install'', [JStr ''1''])]"
  using cp_offers_nodes [of cp_example "[]" "''Sensor''" "[cp_node cp_example 0]" _ "[cp_node cp_example 0]"]
  by (simp add: named_node_def offers_def meant_for_def node_status_def str_includes_def node_alphanum_def sort_by_field_def Let_def notUndefNull_def)

end
