(* ===== verification/More_Services.thy ===== *)
theory More_Services
  imports Alert_Service
begin

text \<open>
  The services of the health dashboard, the tools, the settings of kit tokens, the jobs, the captures and
  the pages of configurations and indices, with the data classes they return. Every method is an endpoint.
\<close>

section \<open>Classes\<close>

definition new_MemoryClass :: "js \<Rightarrow> js_error + js" where
  "new_MemoryClass = construct (map copy
     [''available'', ''percent''])"

definition new_StorageClass :: "js \<Rightarrow> js_error + js" where
  "new_StorageClass = construct (map copy
     [''name'', ''free'', ''percent''])"

definition new_PodLogClass :: "js \<Rightarrow> js_error + js" where
  "new_PodLogClass = construct (map copy
     [''logs'', ''name''])"

definition new_DatastoreClass :: "js \<Rightarrow> js_error + js" where
  "new_DatastoreClass = construct (map copy
     [''datastore'', ''name'', ''type'', ''free_space'', ''capacity''])"

definition new_ElasticsearchObjectClass :: "js \<Rightarrow> js_error + js" where
  "new_ElasticsearchObjectClass = construct (map copy
     [''node_name'', ''name'', ''active'', ''queue'', ''rejected''])"

definition new_CapacityAllocatableRemainingClass :: "js \<Rightarrow> js_error + js" where
  "new_CapacityAllocatableRemainingClass = construct (map copy
     [''cpu'', ''memory'', ''pods''])"

definition new_StatusPodIPSClass :: "js \<Rightarrow> js_error + js" where
  "new_StatusPodIPSClass = construct (map copy
     [''ip''])"

definition new_StatusConditionClass :: "js \<Rightarrow> js_error + js" where
  "new_StatusConditionClass = construct (map copy
     [''last_transition_time'', ''status'', ''type''])"

definition new_PacketStatsClass :: "js \<Rightarrow> js_error + js" where
  "new_PacketStatsClass = construct (map copy
     [''app'', ''node_name'', ''packets_received'', ''packets_dropped''])"

definition new_StatusContainerStatusClass :: "js \<Rightarrow> js_error + js" where
  "new_StatusContainerStatusClass = construct (map copy
     [''container_id'', ''image'', ''image_id'', ''last_state'', ''name'', ''ready'',
      ''restart_count'', ''started'', ''state''])"

definition new_DescribePodNodeClass :: "js \<Rightarrow> js_error + js" where
  "new_DescribePodNodeClass = construct (map copy
     [''stderr'', ''stdout''])"

definition new_PodStatusResourceClass :: "js \<Rightarrow> js_error + js" where
  "new_PodStatusResourceClass = construct (map copy
     [''name'', ''resources''])"

definition new_AssociatedPodClass :: "js \<Rightarrow> js_error + js" where
  "new_AssociatedPodClass = construct (map copy
     [''podName'', ''namespace''])"

definition new_KubernetesConfigMetadataClass :: "js \<Rightarrow> js_error + js" where
  "new_KubernetesConfigMetadataClass = construct (map copy
     [''resource_version'', ''self_link'', ''_continue''])"

definition new_ConfigMapEditClass :: "js \<Rightarrow> js_error + js" where
  "new_ConfigMapEditClass = construct (map copy
     [''name''])"

definition new_DockerRegistryMetadataClass :: "js \<Rightarrow> js_error + js" where
  "new_DockerRegistryMetadataClass = construct (map copy
     [''tag'', ''image_id'', ''image_size''])"

definition new_SystemVersionClass :: "js \<Rightarrow> js_error + js" where
  "new_SystemVersionClass = construct (map copy
     [''version'', ''commit_hash'', ''build_date''])"

definition new_FileSetClass :: "js \<Rightarrow> js_error + js" where
  "new_FileSetClass = construct (map copy
     [''value'', ''name'', ''tooltip''])"

definition new_WinlogbeatConfigurationClass :: "js \<Rightarrow> js_error + js" where
  "new_WinlogbeatConfigurationClass = construct (map copy
     [''username'', ''password'', ''windows_host'', ''winrm_port'', ''winrm_scheme'',
      ''winrm_transport''])"

definition new_ElasticLicenseDataClass :: "js \<Rightarrow> js_error + js" where
  "new_ElasticLicenseDataClass = construct (map copy
     [''status'', ''uid'', ''type'', ''issue_date'', ''issue_date_in_millis'',
      ''expiry_date'', ''expiry_date_in_millis'', ''max_nodes'', ''issued_to'',
      ''issuer'', ''start_date_in_millis''])"

definition new_NetworkDeviceStateClass :: "js \<Rightarrow> js_error + js" where
  "new_NetworkDeviceStateClass = construct (map copy
     [''node'', ''device'', ''state'', ''link_up''])"

definition new_JobLogClass :: "js \<Rightarrow> js_error + js" where
  "new_JobLogClass = construct (map copy
     [''color'', ''jobName'', ''jobid'', ''log''])"

definition new_DIPTimeClass :: "js \<Rightarrow> js_error + js" where
  "new_DIPTimeClass = construct (map copy
     [''datetime'', ''timezone''])"

definition new_PodStatusStatusClass :: "js \<Rightarrow> js_error + js" where
  "new_PodStatusStatusClass = construct
     (map copy [''host_ip'', ''phase'', ''pod_ip'', ''qos_class'', ''start_time''] @
      [map_or ''conditions'' new_StatusConditionClass None, map_or ''pod_i_ps'' new_StatusPodIPSClass None,
       map_or ''container_statuses'' new_StatusContainerStatusClass None])"

definition new_PodStatusClass :: "js \<Rightarrow> js_error + js" where
  "new_PodStatusClass = construct
     (map copy [''namespace'', ''name'', ''node_name'', ''status_brief'', ''restart_count'', ''states''] @
      [nested ''resources'' (js_map new_PodStatusResourceClass), nested ''status'' new_PodStatusStatusClass, copy ''warnings''])"

definition present_or_null :: "string \<Rightarrow> (js \<Rightarrow> js_error + js) \<Rightarrow> builder" where
  "present_or_null k f v = (if notUndefNull (js_get v k) then nested k f v else Inr [(k, JNull)])"

definition new_NodeStatusClass :: "js \<Rightarrow> js_error + js" where
  "new_NodeStatusClass = construct
     (map copy [''name'', ''address'', ''ready'', ''type''] @
      map (\<lambda>k. nested k new_CapacityAllocatableRemainingClass) [''capacity'', ''allocatable'', ''remaining''] @
      [copy ''node_info'', map_or ''storage'' new_StorageClass (Some JNull), present_or_null ''memory'' new_MemoryClass,
       present_or_null ''cpu'' Inr])"

definition new_KubernetesConfigClass :: "js \<Rightarrow> js_error + js" where
  "new_KubernetesConfigClass = construct
     [copy ''api_version'', copy ''kind'', nested ''items'' (js_map new_ConfigMapClass),
      nested ''metadata'' new_KubernetesConfigMetadataClass]"

definition new_DockerRegistryClass :: "js \<Rightarrow> js_error + js" where
  "new_DockerRegistryClass = construct
     [copy ''name'', map_or ''metadata'' new_DockerRegistryMetadataClass (Some (JArr []))]"

definition new_FilebeatModuleClass :: "js \<Rightarrow> js_error + js" where
  "new_FilebeatModuleClass = construct [copy ''value'', copy ''name'', nested ''filesets'' (js_map new_FileSetClass)]"

definition new_InitialDeviceStateClass :: "js \<Rightarrow> js_error + js" where
  "new_InitialDeviceStateClass = construct [copy ''node'', nested ''interfaces'' (js_map new_IFACEStateClass)]"

definition new_ElasticLicenseClass :: "js \<Rightarrow> js_error + js" where
  "new_ElasticLicenseClass = construct [nested ''license'' new_ElasticLicenseDataClass]"

definition new_HostInfoRedacClass :: "js \<Rightarrow> js_error + js" where
  "new_HostInfoRedacClass = construct [copy ''hostname'', copy ''management_ip'', \<lambda>v. Inr [(''mac'', JUndef)]]"

section \<open>HealthService\<close>

definition get_datastores :: "js list endpoint" where
  "get_datastores =
     endpoint GET ''/api/health/datastores'' JUndef ''get datastores'' (js_map_list new_DatastoreClass)"

definition write_rejects :: "js \<Rightarrow> js list endpoint" where
  "write_rejects kit_token =
     endpoint GET (if notUndefNull kit_token then ''/api/app/elasticsearch/rejects/remote/'' @ str (js_get kit_token ''ipaddress'') else ''/api/app/elasticsearch/rejects'') JUndef
       ''elasticsearch write rejects'' (js_map_list new_ElasticsearchObjectClass)"

definition zeek_pckt_stats :: "js \<Rightarrow> js list endpoint" where
  "zeek_pckt_stats kit_token =
     endpoint GET (if notUndefNull kit_token then ''/api/app/zeek/packets/remote/'' @ str (js_get kit_token ''ipaddress'') else ''/api/app/zeek/packets'') JUndef
       ''zeek pckt stats'' (js_map_list new_PacketStatsClass)"

definition suricata_pckt_stats :: "js \<Rightarrow> js list endpoint" where
  "suricata_pckt_stats kit_token =
     endpoint GET (if notUndefNull kit_token then ''/api/app/suricata/packets/remote/'' @ str (js_get kit_token ''ipaddress'') else ''/api/app/suricata/packets'') JUndef
       ''suricata pckt stats'' (js_map_list new_PacketStatsClass)"

definition get_nodes_status :: "js \<Rightarrow> js list endpoint" where
  "get_nodes_status kit_token =
     endpoint GET (if notUndefNull kit_token then ''/api/kubernetes/remote/'' @ str (js_get kit_token ''kit_token_id'') @ ''/nodes/status'' else ''/api/kubernetes/nodes/status'') JUndef
       ''get nodes status'' (js_map_list new_NodeStatusClass)"

definition get_pods_status :: "js \<Rightarrow> js list endpoint" where
  "get_pods_status kit_token =
     endpoint GET (if notUndefNull kit_token then ''/api/kubernetes/remote/'' @ str (js_get kit_token ''kit_token_id'') @ ''/pods/status'' else ''/api/kubernetes/pods/status'') JUndef
       ''get pods status'' (js_map_list new_PodStatusClass)"

definition describe_node :: "js \<Rightarrow> js endpoint" where
  "describe_node node_name =
     endpoint GET (''/api/kubernetes/node/describe/'' @ str node_name) JUndef
       ''describe node'' new_DescribePodNodeClass"

definition describe_pod :: "js \<Rightarrow> js \<Rightarrow> js endpoint" where
  "describe_pod pod_name namespace =
     endpoint GET (''/api/kubernetes/pod/describe/'' @ str pod_name @ ''/'' @ str namespace) JUndef
       ''describe pod'' new_DescribePodNodeClass"

definition pod_logs :: "js \<Rightarrow> js \<Rightarrow> js list endpoint" where
  "pod_logs pod_name namespace =
     endpoint GET (''/api/kubernetes/pod/logs/'' @ str pod_name @ ''/'' @ str namespace) JUndef
       ''pod logs'' (js_map_list new_PodLogClass)"

section \<open>HealthDashboardStatusService\<close>

definition get_health_dashboard_status :: "js list endpoint" where
  "get_health_dashboard_status =
     endpoint GET ''/api/health/dashboard/status'' JUndef
       ''get health dashboard status'' (js_map_list new_KitTokenClass)"

definition get_remote_health_dashboard_status :: "js list endpoint" where
  "get_remote_health_dashboard_status =
     endpoint GET ''/api/health/remote/dashboard/status'' JUndef
       ''get remote health dashboard status'' (js_map_list new_KitTokenClass)"

definition get_kibana_info_remote :: "js \<Rightarrow> js list endpoint" where
  "get_kibana_info_remote ip_address =
     endpoint GET (''/api/app/kibana/info/remote/'' @ str ip_address) JUndef
       ''get health dashboard status kibana info remote'' (js_map_list new_KeyValueClass)"

section \<open>ToolsService\<close>

definition change_kit_password :: "js \<Rightarrow> js endpoint" where
  "change_kit_password kit_password =
     endpoint POST ''/api/tools/change-kit-password'' kit_password ''change kit passowrd'' new_SuccessMessageClass"

definition change_remote_network_device_state :: "js \<Rightarrow> js \<Rightarrow> js \<Rightarrow> js endpoint" where
  "change_remote_network_device_state hostname device state =
     endpoint PUT (''/api/tools/'' @ str hostname @ ''/set-interface-state/'' @ str device @ ''/'' @ str state) (JObj [])
       ''change remote network device state'' new_NetworkDeviceStateClass"

definition get_initial_device_states :: "js list endpoint" where
  "get_initial_device_states =
     endpoint GET ''/api/tools/monitoring-interfaces'' JUndef
       ''get initial device states'' (js_map_list new_InitialDeviceStateClass)"

definition upload_documentation :: "js \<Rightarrow> js endpoint" where
  "upload_documentation form_data =
     endpoint POST ''/api/tools/documentation/upload'' form_data ''upload documentation'' new_SuccessMessageClass"

definition get_elastic_license :: "js endpoint" where
  "get_elastic_license =
     endpoint GET ''/api/tools/es_license'' JUndef ''get elastic license'' new_ElasticLicenseClass"

definition upload_elastic_license :: "js \<Rightarrow> js endpoint" where
  "upload_elastic_license license_data =
     endpoint PUT ''/api/tools/es_license'' license_data ''upload elastic license'' new_SuccessMessageClass"

section \<open>ColdLogIngestService\<close>

text \<open>A \<open>FormData\<close> is the object of its entries; a file of the browser is an object with its name.\<close>

definition post_cold_log_file :: "js \<Rightarrow> js \<Rightarrow> js endpoint" where
  "post_cold_log_file cold_log_file cold_log_form =
     endpoint POST ''/api/coldlog/upload''
       (JObj [(''upload_file'', cold_log_file), (''cold_log_form'', JStr (json_text cold_log_form))])
       ''post file'' new_GenericJobAndKeyClass"

definition get_winlogbeat_configuration :: "js endpoint" where
  "get_winlogbeat_configuration =
     endpoint GET ''/api/coldlog/winlogbeat/configure'' JUndef
       ''get winlogbeat configuration'' new_WinlogbeatConfigurationClass"

definition post_winlogbeat :: "js \<Rightarrow> js endpoint" where
  "post_winlogbeat winlogbeat_setup_form =
     endpoint POST ''/api/coldlog/winlogbeat/install'' winlogbeat_setup_form ''post file'' new_GenericJobAndKeyClass"

definition get_module_info :: "js list endpoint" where
  "get_module_info =
     endpoint GET ''/api/coldlog/module/info'' JUndef ''get module info'' (js_map_list new_FilebeatModuleClass)"

section \<open>IndexManagementService\<close>

definition index_management :: "js \<Rightarrow> js endpoint" where
  "index_management index_management_option =
     endpoint POST ''/api/curator/process'' index_management_option ''index management'' new_SuccessMessageClass"

definition get_closed_indices :: "js endpoint" where
  "get_closed_indices = endpoint GET ''/api/curator/indices/close'' JUndef ''get closed indices'' as_is"

definition minio_check :: "js endpoint" where
  "minio_check = endpoint GET ''/api/curator/minio_check'' JUndef ''minio check'' new_SuccessMessageClass"

definition get_all_indices :: "js endpoint" where
  "get_all_indices = endpoint GET ''/api/curator/indices/open'' JUndef ''get indices'' as_is"

section \<open>ConfigMapService\<close>

definition get_config_maps :: "js endpoint" where
  "get_config_maps =
     endpoint GET ''/api/kubernetes/configmaps'' JUndef ''get config maps'' new_KubernetesConfigClass"

definition edit_config_map :: "js \<Rightarrow> js endpoint" where
  "edit_config_map config_map_save =
     endpoint PUT ''/api/kubernetes/configmap'' config_map_save ''edit config map'' new_ConfigMapEditClass"

definition get_associated_pods :: "js \<Rightarrow> js list endpoint" where
  "get_associated_pods config_map_name =
     endpoint GET (''/api/kubernetes/associated/pods/'' @ str config_map_name) JUndef
       ''get associated pods'' (js_map_list new_AssociatedPodClass)"

section \<open>PCAPService and GlobalPCAPService\<close>

definition upload_pcap :: "js \<Rightarrow> js endpoint" where
  "upload_pcap pcap_form_data =
     endpoint POST ''/api/policy/pcap/upload'' pcap_form_data ''upload pcap'' new_SuccessMessageClass"

definition replay_pcap :: "js \<Rightarrow> js endpoint" where
  "replay_pcap replay = endpoint POST ''/api/policy/pcap/replay'' replay ''replay pcap'' new_GenericJobAndKeyClass"

definition delete_pcap :: "js \<Rightarrow> js endpoint" where
  "delete_pcap pcap_name =
     endpoint DELETE (''/api/policy/pcap/'' @ str pcap_name) JUndef ''delete pcap'' new_SuccessMessageClass"

definition get_pcaps :: "js list endpoint" where
  "get_pcaps = endpoint GET ''/api/policy/pcaps'' JUndef ''get pcaps'' (js_map_list new_PCAPClass)"

section \<open>KitTokenSettingsService\<close>

definition get_kit_tokens :: "js list endpoint" where
  "get_kit_tokens = endpoint GET ''/api/kit-token'' JUndef ''get kit tokens'' (js_map_list new_KitTokenClass)"

definition create_kit_token :: "js \<Rightarrow> js endpoint" where
  "create_kit_token kit_token = endpoint POST ''/api/kit-token'' kit_token ''create kit_token'' new_KitTokenClass"

definition delete_kit_token :: "js \<Rightarrow> js endpoint" where
  "delete_kit_token kit_token_id =
     endpoint DELETE (''/api/kit-token/'' @ str kit_token_id) JUndef ''delete kit_token'' new_SuccessMessageClass"

section \<open>Jobs, diagnostics, versions, the registry and the clock\<close>

definition job_logs :: "js \<Rightarrow> js list endpoint" where
  "job_logs job_id =
     endpoint GET (''/api/jobs/log/'' @ str job_id) JUndef ''job logs'' (js_map_list new_JobLogClass)"

definition job_delete :: "js \<Rightarrow> js endpoint" where
  "job_delete job_id =
     endpoint DELETE (''/api/jobs/'' @ str job_id) JUndef ''job delete'' new_GenericJobAndKeyClass"

definition job_get :: "js \<Rightarrow> js endpoint" where
  "job_get job_id =
     endpoint GET (''/api/jobs/'' @ str job_id) JUndef ''job get''
       (\<lambda>response. sbind (key_count response) (\<lambda>n. if n > 0 then new_BackgroundJobClass response else Inr response))"

definition job_retry :: "js \<Rightarrow> js endpoint" where
  "job_retry job_id =
     endpoint PUT (''/api/jobs/'' @ str job_id @ ''/retry'') JNull ''job retry'' new_GenericJobAndKeyClass"

definition diagnostics :: "js endpoint" where
  "diagnostics = endpoint POST ''/api/diagnostics'' JNull ''post diagnostics'' new_GenericJobAndKeyClass"

definition download_diagnostics :: "js \<Rightarrow> js endpoint" where
  "download_diagnostics job_id =
     endpoint GET (''/api/diagnostics/download/'' @ str job_id) JUndef ''get diagnostics'' as_is"

definition get_system_version :: "js endpoint" where
  "get_system_version = endpoint GET ''/api/version/information'' JUndef ''version'' new_SystemVersionClass"

definition get_docker_registry :: "js list endpoint" where
  "get_docker_registry =
     endpoint GET ''/api/kubernetes/docker/registry'' JUndef
       ''get docker registry'' (js_map_list new_DockerRegistryClass)"

definition getCurrentDIPTime :: "js endpoint" where
  "getCurrentDIPTime =
     endpoint GET ''/api/tools/controller/datetime'' JUndef ''get_current_dip_time'' new_DIPTimeClass"

end
