(* ===== verification/Text_Editor.thy ===== *)
theory Text_Editor
  imports Form_Fields Backend
begin

text \<open>
  The dialogs every page shares: the popup that confirms an action (\<open>classes/ConfirmActionPopup.ts\<close>),
  the confirmation dialog itself (\<open>modules/global-components/components/confirm-dialog/\<close>) and the text
  editor (\<open>modules/ngx-monaco-text-editor/\<close>), which is a dialog around the component of the Monaco
  editor. Monaco is outside the repository: what the user types in it reaches the component through
  \<open>ngModel\<close>, except in the inline comparison, which is bound to no field of the component.
\<close>

section \<open>ConfirmActionPopup\<close>

definition popup_displaySnackBar :: "string \<Rightarrow> int \<Rightarrow> 'a world_scheme \<Rightarrow> 'a world_scheme" where
  "popup_displaySnackBar message duration_seconds =
     emit (SnackOpen (JStr message) ''Close'' (Some (duration_seconds * 1000)) [])"

text \<open>The dialog keeps what the callback captures, as \<open>d\<close>.\<close>

definition confirmAction :: "js \<Rightarrow> js \<Rightarrow> js \<Rightarrow> 'd \<Rightarrow> ('k, 'd, 'a) async_scheme \<Rightarrow> ('k, 'd, 'a) async_scheme" where
  "confirmAction title message confirmButtonText d =
     open_dialog ''ConfirmDialogComponent''
       (JObj [(''message'', message), (''title'', title), (''option1'', JStr ''Cancel''), (''option2'', confirmButtonText)]) d"

text \<open>The callback of \<open>afterClosed\<close>. The success text is shown when the action has been called, not
  when it has succeeded.\<close>

definition confirmAction_closed ::
  "js \<Rightarrow> js \<Rightarrow> ('a world_scheme \<Rightarrow> 'a world_scheme) \<Rightarrow> js \<Rightarrow> 'a world_scheme \<Rightarrow> 'a world_scheme" where
  "confirmAction_closed confirmButtonText successText actionFunc response s =
     (if response = confirmButtonText then popup_displaySnackBar (js_to_string successText) 60 (actionFunc s) else s)"

section \<open>The confirmation dialog\<close>

text \<open>The data of the dialog and the text typed in the field of a double confirmation.\<close>

record confirm_state = world +
  double_confirm_value :: string
  mat_dialog_data :: js

definition confirm_constructor :: "js \<Rightarrow> confirm_state" where
  "confirm_constructor data =
     \<lparr>trace = [], matSnackBarRef = None, double_confirm_value = [], mat_dialog_data = data\<rparr>"

definition is_double_confirm_message_typed :: "confirm_state \<Rightarrow> js_error + bool" where
  "is_double_confirm_message_typed s =
     (case js_get (mat_dialog_data s) ''message_double_confirm'' of
        JStr message \<Rightarrow> Inr (toLowerCase (double_confirm_value s) = toLowerCase message)
      | _ \<Rightarrow> Inl TypeError)"

definition confirm_close :: "js \<Rightarrow> confirm_state \<Rightarrow> confirm_state" where
  "confirm_close selected_option s =
     (if selected_option = js_get (mat_dialog_data s) ''option1''
      then emit (DialogClose (js_get (mat_dialog_data s) ''option1'')) s
      else emit (DialogClose (js_get (mat_dialog_data s) ''option2'')) s)"

text \<open>The template shows a button for each option that is defined. The second option asks for the typed
  message when there is one.\<close>

datatype confirm_action = CD_Type string | CD_Option1 | CD_Option2

fun confirm_handle :: "confirm_action \<Rightarrow> confirm_state \<Rightarrow> confirm_state" where
  "confirm_handle (CD_Type v) s =
     (if notUndefNull (js_get (mat_dialog_data s) ''message_double_confirm'') then s\<lparr>double_confirm_value := v\<rparr> else s)"
| "confirm_handle CD_Option1 s =
     (if notUndefNull (js_get (mat_dialog_data s) ''option1'')
      then confirm_close (js_get (mat_dialog_data s) ''option1'') s else s)"
| "confirm_handle CD_Option2 s =
     (if notUndefNull (js_get (mat_dialog_data s) ''option2'') \<and>
         (notUndefNull (js_get (mat_dialog_data s) ''message_double_confirm'') \<longrightarrow>
          is_double_confirm_message_typed s = Inr True)
      then confirm_close (js_get (mat_dialog_data s) ''option2'') s else s)"

section \<open>The component of the Monaco editor\<close>

text \<open>The options are objects; \<open>Object.assign({}, options, {k: v})\<close> is a copy with the property set.\<close>

record monaco =
  show_options :: js
  is_read_only :: js
  text1 :: js
  text2 :: js
  compare_mode :: bool
  inline_diff :: bool
  selected_lang :: js
  selected_theme :: js
  modified_options :: js
  original_options :: js
  diff_options :: js
  original_model :: js
  modified_model :: js

text \<open>Constructor and \<open>ngOnInit\<close> with the inputs bound: the text of the inputs reaches both fields.\<close>

definition monaco_init :: "js \<Rightarrow> js \<Rightarrow> js \<Rightarrow> js \<Rightarrow> monaco" where
  "monaco_init show read_only txt use_language =
     (let options = JObj [(''fontFamily'', JStr ''Consolas, Monaco, 'Courier New', monospace''),
            (''theme'', JStr ''vs-dark''), (''language'', use_language),
            (''minimap'', JObj [(''enabled'', JBool False)]), (''wordWrap'', JStr ''off''), (''readOnly'', read_only),
            (''scrollBeyondLastLine'', JBool False), (''automaticLayout'', JBool True), (''links'', JBool False),
            (''trimAutoWhitespace'', JBool False), (''insertSpaces'', JBool False)];
          original = js_set options ''readOnly'' (JBool True);
          model = JObj [(''code'', JStr []), (''language'', use_language)]
      in \<lparr>show_options = show, is_read_only = read_only, text1 = txt, text2 = txt,
          compare_mode = False, inline_diff = False, selected_lang = use_language, selected_theme = JStr ''vs-dark'',
          modified_options = options, original_options = original,
          diff_options = js_set original ''renderSideBySide'' (JBool True),
          original_model = model, modified_model = model\<rparr>)"

text \<open>\<open>ngOnChanges\<close> with the changes of the inputs, as pairs of previous and current value.\<close>

definition monaco_ngOnChanges :: "(js \<times> js) option \<Rightarrow> (js \<times> js) option \<Rightarrow> monaco \<Rightarrow> monaco" where
  "monaco_ngOnChanges text_change is_read_only_change m =
     (case text_change of
        Some (previous, JStr t) \<Rightarrow>
          if JStr t \<noteq> previous then m\<lparr>text1 := JStr t, text2 := JStr t\<rparr>
          else (case is_read_only_change of
              Some (p, c) \<Rightarrow>
                if c \<noteq> p then m\<lparr>is_read_only := c, modified_options := js_set (modified_options m) ''readOnly'' c\<rparr> else m
            | None \<Rightarrow> m)
      | _ \<Rightarrow>
          (case is_read_only_change of
              Some (p, c) \<Rightarrow>
                if c \<noteq> p then m\<lparr>is_read_only := c, modified_options := js_set (modified_options m) ''readOnly'' c\<rparr> else m
            | None \<Rightarrow> m))"

definition get_edit_option_class :: "monaco \<Rightarrow> js" where
  "get_edit_option_class m =
     JObj [(''option-button'', JBool True), (''option-button-light'', JBool (selected_theme m = JStr ''vs'')),
           (''option-button-dark'', JBool (selected_theme m = JStr ''vs-dark''))]"

definition selection_change_language :: "js \<Rightarrow> monaco \<Rightarrow> monaco" where
  "selection_change_language v m =
     (let modified = js_set (modified_options m) ''language'' v
      in m\<lparr>selected_lang := v, modified_options := modified,
           original_options := js_set (original_options m) ''language'' v,
           diff_options := js_set modified ''language'' v,
           original_model := js_set (original_model m) ''language'' v,
           modified_model := js_set (modified_model m) ''language'' v\<rparr>)"

definition set_option :: "string \<Rightarrow> js \<Rightarrow> monaco \<Rightarrow> monaco" where
  "set_option k v m =
     m\<lparr>modified_options := js_set (modified_options m) k v,
       original_options := js_set (original_options m) k v,
       diff_options := js_set (diff_options m) k v\<rparr>"

definition selection_change_theme :: "js \<Rightarrow> monaco \<Rightarrow> monaco" where
  "selection_change_theme v m = (set_option ''theme'' v m)\<lparr>selected_theme := v\<rparr>"

definition selection_change_word_wrap :: "js \<Rightarrow> monaco \<Rightarrow> monaco" where
  "selection_change_word_wrap v = set_option ''wordWrap'' v"

definition change_minimap :: "bool \<Rightarrow> monaco \<Rightarrow> monaco" where
  "change_minimap is_checked = set_option ''minimap'' (JObj [(''enabled'', JBool is_checked)])"

definition change_compare_mode :: "bool \<Rightarrow> monaco \<Rightarrow> monaco" where
  "change_compare_mode is_checked m = m\<lparr>compare_mode := is_checked, inline_diff := False\<rparr>"

text \<open>The model called original gets the edited text, the one called modified the text as it was.\<close>

definition change_inline_diff :: "bool \<Rightarrow> monaco \<Rightarrow> monaco" where
  "change_inline_diff is_checked m =
     (let original = js_set (original_model m) ''code'' (JStr (js_to_string (text1 m)))
      in m\<lparr>inline_diff := is_checked, original_model := original,
           modified_model := js_set original ''code'' (JStr (js_to_string (text2 m))),
           diff_options := js_set (diff_options m) ''renderSideBySide'' (JBool (\<not> is_checked))\<rparr>)"

section \<open>The dialog of the editor\<close>

datatype te_dialog = TE_ConfirmSave | TE_ConfirmClose

record te_state = "(unit, te_dialog) async" +
  te_data :: js
  monaco_editor :: monaco
  text_changed :: bool

definition te_constructor :: "js \<Rightarrow> te_state" where
  "te_constructor data =
     \<lparr>trace = [], matSnackBarRef = None, requests = [], dialogs = [], te_data = data,
      monaco_editor = monaco_init (js_get data ''show_options'') (js_get data ''is_read_only'') (js_get data ''text'')
        (js_get data ''use_language''),
      text_changed = False\<rparr>"

definition te_display_save :: "te_state \<Rightarrow> js" where
  "te_display_save s =
     (if notUndefNull (js_get (te_data s) ''display_save'') then js_get (te_data s) ''display_save'' else JBool False)"

definition has_title :: "te_state \<Rightarrow> bool" where
  "has_title s \<longleftrightarrow> notUndefNull (js_get (te_data s) ''title'')"

definition configured :: "js \<Rightarrow> string \<Rightarrow> js \<Rightarrow> js" where
  "configured configuration k fallback =
     (if notUndefNull configuration \<and> notUndefNull (js_get configuration k) then js_get configuration k else fallback)"

definition get_action_button_text :: "te_state \<Rightarrow> js" where
  "get_action_button_text s = configured (js_get (te_data s) ''confirm_save'') ''confirmButtonText'' (JStr ''Save'')"

definition get_non_action_button_text :: "te_state \<Rightarrow> js" where
  "get_non_action_button_text s = configured (js_get (te_data s) ''confirm_close'') ''confirmButtonText'' (JStr ''Close'')"

definition get_action_tooltip :: "te_state \<Rightarrow> js" where
  "get_action_tooltip s = configured (js_get (te_data s) ''confirm_save'') ''title'' (JStr ''Save and close text editor window'')"

definition get_non_action_tooltip :: "te_state \<Rightarrow> js" where
  "get_non_action_tooltip s = configured (js_get (te_data s) ''confirm_close'') ''title'' (JStr ''Close text editor window without saving'')"

definition get_disabled_save :: "te_state \<Rightarrow> js" where
  "get_disabled_save s =
     (if notUndefNull (js_get (te_data s) ''disable_save'') then js_get (te_data s) ''disable_save''
      else JBool (\<not> text_changed s))"

definition set_text_changed :: "js \<Rightarrow> te_state \<Rightarrow> te_state" where
  "set_text_changed event s = s\<lparr>text_changed := event \<noteq> js_get (te_data s) ''text''\<rparr>"

definition te_save :: "js \<Rightarrow> te_state \<Rightarrow> te_state" where
  "te_save event = emit (DialogClose event)"

text \<open>\<open>get_return_text_\<close> asks the inner component, which emits its first text.\<close>

definition get_return_text :: "te_state \<Rightarrow> te_state" where
  "get_return_text s = te_save (text1 (monaco_editor s)) s"

definition te_close :: "te_state \<Rightarrow> te_state" where
  "te_close = emit (DialogClose JUndef)"

definition confirm_with :: "js \<Rightarrow> 'd \<Rightarrow> ('k, 'd, 'a) async_scheme \<Rightarrow> ('k, 'd, 'a) async_scheme" where
  "confirm_with configuration d =
     confirmAction (js_get configuration ''title'') (js_get configuration ''message'')
       (js_get configuration ''confirmButtonText'') d"

definition action_click :: "te_state \<Rightarrow> te_state" where
  "action_click s =
     (if notUndefNull (js_get (te_data s) ''confirm_save'')
      then confirm_with (js_get (te_data s) ''confirm_save'') TE_ConfirmSave s else get_return_text s)"

definition non_action_click :: "te_state \<Rightarrow> te_state" where
  "non_action_click s =
     (if notUndefNull (js_get (te_data s) ''display_save'') \<and> truthy (js_get (te_data s) ''display_save'') \<and>
         notUndefNull (js_get (te_data s) ''confirm_close'')
      then confirm_with (js_get (te_data s) ''confirm_close'') TE_ConfirmClose s else te_close s)"

text \<open>Every configuration of the program passes \<open>() => {}\<close> as \<open>actionFunc\<close>, so a configuration without
  \<open>useGeneralActionFunc\<close> does nothing; both clicks fall back to the one of \<open>confirm_save\<close>.\<close>

definition general_action :: "js \<Rightarrow> (te_state \<Rightarrow> te_state) \<Rightarrow> te_state \<Rightarrow> te_state" where
  "general_action configuration f s =
     (if notUndefNull (js_get configuration ''useGeneralActionFunc'') \<and>
         truthy (js_get configuration ''useGeneralActionFunc'') then f s else s)"

definition te_closed_with :: "js \<Rightarrow> (te_state \<Rightarrow> te_state) \<Rightarrow> js \<Rightarrow> te_state \<Rightarrow> te_state" where
  "te_closed_with configuration f =
     confirmAction_closed (js_get configuration ''confirmButtonText'') (js_get configuration ''successText'')
       (general_action configuration f)"

fun te_closed :: "te_dialog \<Rightarrow> js \<Rightarrow> te_state \<Rightarrow> te_state" where
  "te_closed TE_ConfirmSave response s = te_closed_with (js_get (te_data s) ''confirm_save'') get_return_text response s"
| "te_closed TE_ConfirmClose response s = te_closed_with (js_get (te_data s) ''confirm_close'') te_close response s"

text \<open>Typing. Monaco ignores keys when the option \<open>readOnly\<close> of the editor shown is set. The editor bound to
  \<open>text1\<close> has the modified options. The inline comparison has the options of the comparison; typing
  there changes the model of Monaco and no field, and the key events still emit \<open>text1\<close>. The template
  offers the options when the editor is not read only.\<close>

datatype te_action =
    TE_Type string | TE_Language js | TE_Theme js | TE_WordWrap js | TE_Minimap bool | TE_Compare bool | TE_InlineDiff bool
  | TE_Action | TE_NonAction

definition shown_options :: "monaco \<Rightarrow> js" where
  "shown_options m = (if compare_mode m \<and> inline_diff m then diff_options m else modified_options m)"

definition typed :: "string \<Rightarrow> te_state \<Rightarrow> te_state" where
  "typed t s =
     (let m = monaco_editor s;
          m' = (if compare_mode m \<and> inline_diff m then m else m\<lparr>text1 := JStr t\<rparr>)
      in set_text_changed (text1 m') (s\<lparr>monaco_editor := m'\<rparr>))"

definition on_monaco :: "(monaco \<Rightarrow> monaco) \<Rightarrow> te_state \<Rightarrow> te_state" where
  "on_monaco f s =
     (if truthy (show_options (monaco_editor s)) \<and> \<not> truthy (is_read_only (monaco_editor s))
      then s\<lparr>monaco_editor := f (monaco_editor s)\<rparr> else s)"

fun te_handle :: "te_action \<Rightarrow> te_state \<Rightarrow> te_state" where
  "te_handle (TE_Type t) s =
     (if truthy (js_get (shown_options (monaco_editor s)) ''readOnly'') then s else typed t s)"
| "te_handle (TE_Language v) s = on_monaco (selection_change_language v) s"
| "te_handle (TE_Theme v) s = on_monaco (selection_change_theme v) s"
| "te_handle (TE_WordWrap v) s = on_monaco (selection_change_word_wrap v) s"
| "te_handle (TE_Minimap b) s = on_monaco (\<lambda>m. if inline_diff m then m else change_minimap b m) s"
| "te_handle (TE_Compare b) s = on_monaco (change_compare_mode b) s"
| "te_handle (TE_InlineDiff b) s = on_monaco (\<lambda>m. if compare_mode m then change_inline_diff b m else m) s"
| "te_handle TE_Action s =
     (if truthy (te_display_save s) \<and> \<not> truthy (get_disabled_save s) then action_click s else s)"
| "te_handle TE_NonAction s = non_action_click s"

definition te_step :: "te_action event \<Rightarrow> te_state \<Rightarrow> te_state" where
  "te_step = async_step te_handle (\<lambda>_ _ s. s) te_closed"

end
