(* ===== verification/Config_Maps.thy ===== *)
theory Config_Maps
  imports Text_Editor More_Services "HOL-Library.List_Lexorder" "HOL-Library.Char_ord"
begin

text \<open>
  \<open>modules/config-map/config-map.component.ts\<close>: the page that edits the files of the Kubernetes config
  maps. The config maps are objects with an identity: the page passes them to its dialogs and requests
  and changes them in place, so the state has a heap of them and the table is a list of references.
  The keys of an object are kept in the order of their insertion; a key that is the decimal of an array
  index would come first in JavaScript, and file names are not such keys.
\<close>

section \<open>State\<close>

datatype cm_request =
    CM_Get
  | CM_Edit nat string string string
  | CM_Pods js string nat

datatype cm_dialog =
    CM_Create nat
  | CM_ConfirmDelete string nat
  | CM_Editor string nat "js list"

record cm_state = "(cm_request, cm_dialog) async" +
  cm_heap :: "js list"
  cm_config_maps :: "nat list"
  config_map_visible :: "bool list"
  cm_loading :: bool
  cm_maintainer :: bool
  cm_admin :: bool

definition cm_constructor :: "bool \<Rightarrow> bool \<Rightarrow> cm_state" where
  "cm_constructor maintainer admin =
     \<lparr>trace = [], matSnackBarRef = None, requests = [], dialogs = [], cm_heap = [], cm_config_maps = [],
      config_map_visible = [], cm_loading = False, cm_maintainer = maintainer, cm_admin = admin\<rparr>"

definition cm_obj :: "nat \<Rightarrow> cm_state \<Rightarrow> js" where
  "cm_obj r s = cm_heap s ! r"

definition cm_put :: "nat \<Rightarrow> js \<Rightarrow> cm_state \<Rightarrow> cm_state" where
  "cm_put r v s = s\<lparr>cm_heap := (cm_heap s)[r := v]\<rparr>"

definition cm_name :: "nat \<Rightarrow> cm_state \<Rightarrow> js_error + js" where
  "cm_name r s = js_index (js_get (cm_obj r s) ''metadata'') ''name''"

section \<open>The table\<close>

definition cm_index :: "nat \<Rightarrow> cm_state \<Rightarrow> nat option" where
  "cm_index r s = find_index (\<lambda>r'. r' = r) (cm_config_maps s)"

definition config_map_data_keys :: "js \<Rightarrow> string list" where
  "config_map_data_keys config_map_data = js_keys config_map_data"

definition is_config_map_data_defined :: "js \<Rightarrow> bool" where
  "is_config_map_data_defined config = notUndefNull (js_get config ''data'')"

text \<open>At index -1 the array gets or has a property that is none of its elements.\<close>

definition cm_toggle_table_row_expansion :: "nat \<Rightarrow> cm_state \<Rightarrow> cm_state" where
  "cm_toggle_table_row_expansion r s =
     (case cm_index r s of None \<Rightarrow> s
      | Some i \<Rightarrow> s\<lparr>config_map_visible := (config_map_visible s)[i := \<not> config_map_visible s ! i]\<rparr>)"

definition is_config_map_expansion_row_visible :: "nat \<Rightarrow> cm_state \<Rightarrow> bool" where
  "is_config_map_expansion_row_visible r s =
     (case cm_index r s of None \<Rightarrow> False | Some i \<Rightarrow> config_map_visible s ! i)"

section \<open>Requests\<close>

definition cm_api_get_config_maps :: "cm_state \<Rightarrow> cm_state" where
  "cm_api_get_config_maps = call get_config_maps CM_Get"

definition cm_ngOnInit :: "cm_state \<Rightarrow> cm_state" where
  "cm_ngOnInit s = cm_api_get_config_maps ((emit (SetTitle ''Config Maps'') s)\<lparr>cm_loading := True\<rparr>)"

definition cm_api_get_associated_pods :: "js \<Rightarrow> string \<Rightarrow> nat \<Rightarrow> cm_state \<Rightarrow> cm_state" where
  "cm_api_get_associated_pods config_map_data config_map_data_name r s =
     (case cm_name r s of Inl _ \<Rightarrow> s
      | Inr name \<Rightarrow> call (get_associated_pods name) (CM_Pods config_map_data config_map_data_name r) s)"

text \<open>\<open>api_edit_config_map_\<close>. The first line maps the array with the config map to itself, so the object that
  is changed is the one in the table. The words for the messages are captured by the callbacks.\<close>

definition cm_edit_words :: "js \<Rightarrow> js \<Rightarrow> string \<Rightarrow> string \<times> string" where
  "cm_edit_words config_map_data edit config_map_data_name =
     (if \<not> notUndefNull config_map_data then (''deleted'', ''deleting'')
      else if notUndefNull (js_get edit ''data'') \<and> notUndefNull (js_get (js_get edit ''data'') config_map_data_name)
      then (''edited'', ''editing'') else (''created'', ''creating''))"

definition cm_edited :: "js \<Rightarrow> js \<Rightarrow> string \<Rightarrow> js_error + js" where
  "cm_edited config_map_data edit config_map_data_name =
     (if notUndefNull config_map_data
      then let old = (if notUndefNull (js_get edit ''data'') then js_get edit ''data'' else JObj [])
           in Inr (js_set edit ''data'' (js_set old config_map_data_name config_map_data))
      else if notUndefNull (js_get edit ''data'')
      then let rest = delete_key config_map_data_name (js_get edit ''data'')
           in Inr (js_set edit ''data'' (if js_keys rest = [] then JNull else rest))
      else Inl TypeError)"

definition cm_api_edit_config_map :: "js \<Rightarrow> string \<Rightarrow> nat \<Rightarrow> js list \<Rightarrow> cm_state \<Rightarrow> cm_state" where
  "cm_api_edit_config_map config_map_data config_map_data_name r associated_pods s =
     (case cm_edited config_map_data (cm_obj r s) config_map_data_name of Inl _ \<Rightarrow> s
      | Inr edit \<Rightarrow>
          let (ced_success_value, ced_error_value) = cm_edit_words config_map_data (cm_obj r s) config_map_data_name
          in call (edit_config_map (JObj [(''configMap'', edit), (''associatedPods'', JArr associated_pods)]))
               (CM_Edit r config_map_data_name ced_success_value ced_error_value) (cm_put r edit s))"

section \<open>The dialogs\<close>

definition cm_save_action :: "string \<Rightarrow> string \<Rightarrow> js" where
  "cm_save_action config_map_data_name save_message =
     JObj [(''title'', JStr ''Close and save''), (''message'', JStr save_message), (''confirmButtonText'', JStr ''Save''),
           (''successText'', JStr (''Saved config map data: '' @ config_map_data_name)),
           (''failText'', JStr ''Could not save''), (''useGeneralActionFunc'', JBool True)]"

definition cm_close_action :: js where
  "cm_close_action =
     JObj [(''title'', JStr ''Close without saving''),
           (''message'', JStr ''Are you sure you want to close this editor? All changes will be discarded.''),
           (''confirmButtonText'', JStr ''Close''), (''successText'', JStr ''Closed without saving''),
           (''failText'', JStr []), (''useGeneralActionFunc'', JBool True)]"

definition ends_with :: "string \<Rightarrow> string \<Rightarrow> bool" where
  "ends_with suffix t \<longleftrightarrow> starts_with (rev suffix) (rev t)"

definition cm_editor_configuration :: "string \<Rightarrow> js \<Rightarrow> string \<Rightarrow> cm_state \<Rightarrow> js" where
  "cm_editor_configuration config_map_data_name config_map save_message s =
     (let either_role = cm_maintainer s \<or> cm_admin s;
          not_both = \<not> cm_maintainer s \<or> \<not> cm_admin s;
          data = js_get config_map ''data''
      in JObj [(''show_options'', JBool either_role), (''is_read_only'', JBool not_both),
               (''title'', JStr ((if \<not> cm_maintainer s then ''Viewing'' else ''Editing'') @ '' config map data: '' @ config_map_data_name)),
               (''text'', if notUndefNull data \<and> notUndefNull (js_get data config_map_data_name)
                  then js_get data config_map_data_name else JStr []),
               (''use_language'', JStr (if ends_with ''.yml'' config_map_data_name \<or> ends_with ''.yaml'' config_map_data_name
                  then ''yaml'' else ''txt'')),
               (''display_save'', JBool either_role), (''disable_save'', JBool not_both),
               (''confirm_save'', cm_save_action config_map_data_name save_message),
               (''confirm_close'', cm_close_action)])"

definition cm_open_text_editor :: "string \<Rightarrow> nat \<Rightarrow> string \<Rightarrow> js list \<Rightarrow> cm_state \<Rightarrow> cm_state" where
  "cm_open_text_editor config_map_data_name r save_message associated_pods s =
     open_dialog ''NGXMonacoTextEditorComponent''
       (cm_editor_configuration config_map_data_name (cm_obj r s) save_message s)
       (CM_Editor config_map_data_name r associated_pods) s"

definition cm_open_text_editor_closed :: "string \<Rightarrow> nat \<Rightarrow> js list \<Rightarrow> js \<Rightarrow> cm_state \<Rightarrow> cm_state" where
  "cm_open_text_editor_closed config_map_data_name r associated_pods response s =
     (if notUndefNull response then cm_api_edit_config_map response config_map_data_name r associated_pods s else s)"

definition cm_edit_config_map_data :: "string \<Rightarrow> nat \<Rightarrow> cm_state \<Rightarrow> cm_state" where
  "cm_edit_config_map_data config_map_data_name r s =
     (case js_index (js_get (cm_obj r s) ''data'') config_map_data_name of Inl _ \<Rightarrow> s
      | Inr config_map_data \<Rightarrow> cm_api_get_associated_pods config_map_data config_map_data_name r s)"

definition cm_view_config_map_data :: "string \<Rightarrow> nat \<Rightarrow> cm_state \<Rightarrow> cm_state" where
  "cm_view_config_map_data config_map_data_name r = cm_open_text_editor config_map_data_name r [] []"

text \<open>The name of a new file: at least three characters, none of them reserved. The dialog hands back its
  form, valid or not; the form is an object with \<open>valid\<close> and the value of the control \<open>name\<close>.\<close>

definition cm_valid_name :: "string \<Rightarrow> bool" where
  "cm_valid_name v \<longleftrightarrow> length v \<ge> 3 \<and> (\<forall>c \<in> set v. c \<notin> set ''<>:;,?\"*|/'')"

definition cm_create_config_map_data :: "nat \<Rightarrow> cm_state \<Rightarrow> cm_state" where
  "cm_create_config_map_data r =
     open_dialog ''ModalDialogMatComponent''
       (JObj [(''title'', JStr ''Add Config Map Data''),
              (''instructions'', JStr ''Please add filename for the config map data.''),
              (''confirmBtnText'', JStr ''Continue'')]) (CM_Create r)"

definition cm_create_config_map_data_closed :: "nat \<Rightarrow> js \<Rightarrow> cm_state \<Rightarrow> cm_state" where
  "cm_create_config_map_data_closed r response s =
     (case js_get response ''name'' of
        JStr name \<Rightarrow> if cm_valid_name name then cm_api_get_associated_pods (JStr []) name r s else s
      | _ \<Rightarrow> s)"

definition cm_delete_config_map_data :: "string \<Rightarrow> nat \<Rightarrow> cm_state \<Rightarrow> cm_state" where
  "cm_delete_config_map_data config_map_data_name r =
     confirmAction (JStr (''Delete config map data: '' @ config_map_data_name))
       (JStr ''Are you sure you want to remove this data entry from the config map?'') (JStr ''Delete'')
       (CM_ConfirmDelete config_map_data_name r)"

definition cm_delete_config_map_data_closed :: "string \<Rightarrow> nat \<Rightarrow> js \<Rightarrow> cm_state \<Rightarrow> cm_state" where
  "cm_delete_config_map_data_closed config_map_data_name r =
     confirmAction_closed (JStr ''Delete'') (JStr (''Deleting config map data: '' @ config_map_data_name))
       (cm_api_get_associated_pods JUndef config_map_data_name r)"

section \<open>Answers\<close>

text \<open>New objects for the elements of the answer.\<close>

definition cm_show :: "js \<Rightarrow> cm_state \<Rightarrow> cm_state" where
  "cm_show response s =
     (case js_get response ''items'' of
        JArr items \<Rightarrow>
          s\<lparr>cm_heap := cm_heap s @ items,
            cm_config_maps := [length (cm_heap s)..<length (cm_heap s) + length items],
            config_map_visible := replicate (length items) False, cm_loading := False\<rparr>
      | _ \<Rightarrow> s)"

definition cm_api_get_config_maps_answer :: "reply \<Rightarrow> cm_state \<Rightarrow> cm_state" where
  "cm_api_get_config_maps_answer = answered get_config_maps cm_show (\<lambda>_. report_error ''getting config maps'')"

text \<open>\<open>Object.entries(data).sort()\<close> compares the entries as texts: the key, a comma and the value.\<close>

definition entry_text :: "string \<times> js \<Rightarrow> string" where
  "entry_text e = js_to_string (JArr [JStr (fst e), snd e])"

definition cm_sorted :: "js \<Rightarrow> js" where
  "cm_sorted config_map =
     (case js_get config_map ''data'' of
        JObj kvs \<Rightarrow> if length kvs > 1 then js_set config_map ''data'' (JObj (sort_key entry_text kvs)) else config_map
      | _ \<Rightarrow> config_map)"

definition cm_api_edit_config_map_answer :: "nat \<Rightarrow> string \<Rightarrow> string \<Rightarrow> string \<Rightarrow> reply \<Rightarrow> cm_state \<Rightarrow> cm_state" where
  "cm_api_edit_config_map_answer r config_map_data_name ced_success_value ced_error_value =
     answered (edit_config_map JUndef)
       (\<lambda>_ s.
          let s' = cm_put r (cm_sorted (cm_obj r s)) s;
              s'' = s'\<lparr>config_map_visible := write_at (config_map_visible s') (cm_index r s') True\<rparr>
          in generate_return_success_snackbar_message (ced_success_value @ '' config map data: '' @ config_map_data_name) None s'')
       (\<lambda>_. report_error (ced_error_value @ '' config map data: '' @ config_map_data_name))"

definition cm_save_message :: "js list \<Rightarrow> string" where
  "cm_save_message pods =
     ''Are you sure you want to save this configuration? Doing so will cause '' @
     js_join '', '' (map (\<lambda>ap. str (js_get ap ''podName'')) pods) @
     '' to bounce on your Kubernetes cluster which will bring certain services down for a couple of minutes.''"

definition cm_api_get_associated_pods_answer :: "js \<Rightarrow> string \<Rightarrow> nat \<Rightarrow> reply \<Rightarrow> cm_state \<Rightarrow> cm_state" where
  "cm_api_get_associated_pods_answer config_map_data config_map_data_name r =
     answered (get_associated_pods JUndef)
       (\<lambda>pods s.
          if notUndefNull config_map_data
          then cm_open_text_editor config_map_data_name r (cm_save_message pods) pods s
          else cm_api_edit_config_map JUndef config_map_data_name r pods s)
       (\<lambda>_ s. case cm_name r s of Inl _ \<Rightarrow> s
          | Inr name \<Rightarrow> report_error (''getting associated pods: '' @ str name) s)"

section \<open>The component as a machine\<close>

text \<open>Row \<open>i\<close> of the table, and the file a button of the inner table belongs to. The buttons to edit and
  delete are there for a maintainer, the one to view for the others.\<close>

datatype cm_action =
    CM_OnInit | CM_Toggle nat | CM_EditClick string nat | CM_ViewClick string nat | CM_CreateClick nat | CM_DeleteClick string nat

definition cm_file_shown :: "string \<Rightarrow> nat \<Rightarrow> cm_state \<Rightarrow> bool" where
  "cm_file_shown f i s \<longleftrightarrow>
     i < length (cm_config_maps s) \<and> is_config_map_data_defined (cm_obj (cm_config_maps s ! i) s) \<and>
     f \<in> set (config_map_data_keys (js_get (cm_obj (cm_config_maps s ! i) s) ''data''))"

fun cm_handle :: "cm_action \<Rightarrow> cm_state \<Rightarrow> cm_state" where
  "cm_handle CM_OnInit s = cm_ngOnInit s"
| "cm_handle (CM_Toggle i) s =
     (if i < length (cm_config_maps s) then cm_toggle_table_row_expansion (cm_config_maps s ! i) s else s)"
| "cm_handle (CM_EditClick f i) s =
     (if cm_maintainer s \<and> cm_file_shown f i s then cm_edit_config_map_data f (cm_config_maps s ! i) s else s)"
| "cm_handle (CM_ViewClick f i) s =
     (if \<not> cm_maintainer s \<and> cm_file_shown f i s then cm_view_config_map_data f (cm_config_maps s ! i) s else s)"
| "cm_handle (CM_CreateClick i) s =
     (if cm_maintainer s \<and> i < length (cm_config_maps s)
      then cm_create_config_map_data (cm_config_maps s ! i) s else s)"
| "cm_handle (CM_DeleteClick f i) s =
     (if cm_maintainer s \<and> cm_file_shown f i s then cm_delete_config_map_data f (cm_config_maps s ! i) s else s)"

fun cm_answer :: "cm_request \<Rightarrow> reply \<Rightarrow> cm_state \<Rightarrow> cm_state" where
  "cm_answer CM_Get = cm_api_get_config_maps_answer"
| "cm_answer (CM_Edit r f ced_success_value ced_error_value) = cm_api_edit_config_map_answer r f ced_success_value ced_error_value"
| "cm_answer (CM_Pods data f r) = cm_api_get_associated_pods_answer data f r"

fun cm_closed :: "cm_dialog \<Rightarrow> js \<Rightarrow> cm_state \<Rightarrow> cm_state" where
  "cm_closed (CM_Create r) = cm_create_config_map_data_closed r"
| "cm_closed (CM_ConfirmDelete f r) = cm_delete_config_map_data_closed f r"
| "cm_closed (CM_Editor f r pods) = cm_open_text_editor_closed f r pods"

definition cm_step :: "cm_action event \<Rightarrow> cm_state \<Rightarrow> cm_state" where
  "cm_step = async_step cm_handle cm_answer cm_closed"

end
