(* ===== verification/Effects.thy ===== *)
theory Effects
  imports Backend
begin

text \<open>
  The effects a property looks at. Reporting to the user, in a snack bar or on the console, changes the
  trace of effects of a component; \<open>seen f\<close> is the trace restricted to the effects \<open>f\<close> selects, and a
  selection that leaves reports out does not change when an error is handled and reported.
\<close>

definition seen :: "(effect \<Rightarrow> bool) \<Rightarrow> 'a world_scheme \<Rightarrow> effect list" where
  "seen f s = filter f (trace s)"

definition no_reports :: "(effect \<Rightarrow> bool) \<Rightarrow> bool" where
  "no_reports f \<longleftrightarrow> (\<forall>m l d p. \<not> f (SnackOpen m l d p)) \<and> (\<forall>n. \<not> f (SnackDismiss n)) \<and> (\<forall>t. \<not> f (Console t))"

lemma no_reportsD [simp]:
  "no_reports f \<Longrightarrow> \<not> f (SnackOpen m l d p)" "no_reports f \<Longrightarrow> \<not> f (SnackDismiss n)" "no_reports f \<Longrightarrow> \<not> f (Console t)"
  by (simp_all add: no_reports_def)

lemma seen_emit [simp]: "seen f (emit e s) = seen f s @ (if f e then [e] else [])"
  by (simp add: seen_def)

lemma seen_cong: "trace s = trace s' \<Longrightarrow> seen f s = seen f s'"
  by (simp add: seen_def)

lemma seen_async [simp]:
  "seen f (t\<lparr>requests := ks\<rparr>) = seen f t" "seen f (t\<lparr>dialogs := ds\<rparr>) = seen f t"
  "seen f (call ep k t) = seen f t @ (if f (Http (ep_method ep) (ep_url ep) (ep_body ep)) then [Http (ep_method ep) (ep_url ep) (ep_body ep)] else [])"
  "seen f (open_dialog n v d t) = seen f t @ (if f (DialogOpen n v) then [DialogOpen n v] else [])"
  for t :: "('k, 'd, 'a) async_scheme"
  by (simp_all add: seen_def call_trace)

lemma seen_display [simp]: "no_reports f \<Longrightarrow> seen f (displaySnackBar m c s) = seen f s"
  using display_trace [of m c s] by (auto simp: seen_def split: option.splits)

lemma seen_messages [simp]:
  assumes "no_reports f"
  shows "seen f (generate_return_success_snackbar_message m c s) = seen f s"
    "seen f (generate_return_fail_snackbar_message m c s) = seen f s"
    "seen f (generate_return_error_snackbar_message m c s) = seen f s"
    "seen f (report_error m s) = seen f s"
    "seen f (report_error_or_message m e s) = seen f s"
  using assms by (simp_all add: snackbar_defs report_error_or_message_def split: api_error.splits)

lemma seen_handleError [simp]: "no_reports f \<Longrightarrow> seen f (fst (handleError op r s)) = seen f s"
  by (simp add: handleError_def handleErrorConsole_def console_error_def Let_def split: option.splits err_body.splits)

lemma seen_request_failed [simp]: "no_reports f \<Longrightarrow> seen f (fst (request_failed op r s)) = seen f s"
  by (simp add: request_failed_def intercept_error_def)

text \<open>The outcomes of an answer, with what its error handling leaves alone.\<close>

lemma answered_outcomes:
  obtains (success) x v where "r = Reply v" "ep_decode ep v = Inr x" "answered ep next_cb error_cb r s = next_cb x s"
  | (failure) s' err where "answered ep next_cb error_cb r s = error_cb err s'"
      "world.more s' = world.more s" "snack_ok s \<Longrightarrow> snack_ok s'" "\<And>f. no_reports f \<Longrightarrow> seen f s' = seen f s"
proof (cases r)
  case (Reply v)
  show thesis
  proof (cases "ep_decode ep v")
    case (Inl e)
    obtain s' err where *: "handleError (ep_operation ep) (Some (thrown_error e)) s = (s', err)" by fastforce
    then have s': "s' = fst (handleError (ep_operation ep) (Some (thrown_error e)) s)" by simp
    have "answered ep next_cb error_cb r s = error_cb err s'"
      by (simp add: Reply answered_def subscribe_def Inl *)
    then show thesis by (rule failure) (simp_all add: s' handleError_frame snack_ok_handleError)
  qed (use success [OF Reply] in \<open>simp add: Reply answered_def subscribe_def\<close>)
next
  case (Failure f)
  obtain s' err where *: "request_failed (ep_operation ep) f s = (s', err)" by fastforce
  then have s': "s' = fst (request_failed (ep_operation ep) f s)" by simp
  have "answered ep next_cb error_cb r s = error_cb err s'" by (simp add: Failure answered_def subscribe_def *)
  then show thesis
    by (rule failure) (simp_all add: s' snack_ok_request_failed, simp add: request_failed_def intercept_error_def)
qed

lemma answered_keeps:
  assumes "P s" "\<And>x. P (next_cb x s)"
    "\<And>s'. world.more s' = world.more s \<Longrightarrow> (snack_ok s \<Longrightarrow> snack_ok s') \<Longrightarrow> (\<And>f. no_reports f \<Longrightarrow> seen f s' = seen f s) \<Longrightarrow> P s'"
    "\<And>e s'. P s' \<Longrightarrow> P (error_cb e s')"
  shows "P (answered ep next_cb error_cb r s)"
  by (rule answered_outcomes [of r ep next_cb error_cb s]) (use assms in auto)

text \<open>An answer whose callbacks have none of the effects has none of them.\<close>

lemma answered_quiet:
  assumes "no_reports f" "\<And>x t. seen f (next_cb x t) = seen f t" "\<And>e t. seen f (error_cb e t) = seen f t"
  shows "seen f (answered ep next_cb error_cb r s) = seen f s"
  by (rule answered_outcomes [of r ep next_cb error_cb s]) (simp_all add: assms)

text \<open>The dialogs of one kind that were opened, and the ways a dialog was closed, are such selections.\<close>

fun opens :: "string \<Rightarrow> effect \<Rightarrow> bool" where
  "opens n (DialogOpen m _) = (m = n)"
| "opens _ _ = False"

lemma no_reports_opens [simp]: "no_reports (opens n)" "no_reports is_http"
  by (simp_all add: no_reports_def)

lemma seen_http: "seen is_http s = sent s"
  by (simp add: seen_def sent_def)

end
