(* ===== verification/Text_Editor_Facts.thy ===== *)
theory Text_Editor_Facts
  imports Config_Maps Effects
begin

text \<open>
  What the text editor guarantees to the pages that open it, and what the page of the config maps does
  with it.
\<close>

section \<open>The editor\<close>

definition te_saves :: "te_state \<Rightarrow> bool" where
  "te_saves s \<longleftrightarrow> (\<forall>v. DialogClose v \<in> set (trace s) \<longrightarrow> v = JUndef)"

text \<open>The data of an editor that may not save.\<close>

definition viewer :: "js \<Rightarrow> bool" where
  "viewer data \<longleftrightarrow> truthy (js_get data ''disable_save'') \<and> notUndefNull (js_get data ''confirm_save'')"

definition te_view_inv :: "js \<Rightarrow> te_state \<Rightarrow> bool" where
  "te_view_inv data s \<longleftrightarrow> te_data s = data \<and> TE_ConfirmSave \<notin> set (dialogs s) \<and> te_saves s"

lemma te_frames [simp]:
  "te_data (emit e s) = te_data s" "te_data (open_dialog n v d s) = te_data s"
  "te_data (popup_displaySnackBar m secs s) = te_data s"
  for s :: te_state
  by (simp_all add: emit_def open_dialog_def popup_displaySnackBar_def)

lemma te_view_emit [simp]:
  "te_view_inv data s \<Longrightarrow> (is_close e \<Longrightarrow> e = DialogClose JUndef) \<Longrightarrow> te_view_inv data (emit e s)"
  by (cases e) (auto simp: te_view_inv_def te_saves_def)

lemma te_view_updates [simp]:
  "te_view_inv data (s\<lparr>monaco_editor := m\<rparr>) = te_view_inv data s"
  "te_view_inv data (s\<lparr>text_changed := b\<rparr>) = te_view_inv data s"
  "te_view_inv data s \<Longrightarrow> te_view_inv data (s\<lparr>dialogs := remove_nth i (dialogs s)\<rparr>)"
  "te_view_inv data s \<Longrightarrow> te_view_inv data (s\<lparr>requests := ks\<rparr>)"
  using set_remove_nth [of i "dialogs s"] by (auto simp: te_view_inv_def te_saves_def)

lemma te_view_handle: "viewer data \<Longrightarrow> te_view_inv data s \<Longrightarrow> te_view_inv data (te_handle a s)"
  by (cases a) (auto simp: typed_def set_text_changed_def Let_def on_monaco_def te_close_def non_action_click_def confirm_with_def
      confirmAction_def te_view_inv_def te_saves_def viewer_def get_disabled_save_def notUndefNull_def)

lemma te_view_closed:
  assumes "te_view_inv data s" "i < length (dialogs s)"
  shows "te_view_inv data (te_closed (dialogs s ! i) v (s\<lparr>dialogs := remove_nth i (dialogs s)\<rparr>))"
proof -
  have "dialogs s ! i = TE_ConfirmClose"
    using assms nth_mem [OF assms(2)] by (cases "dialogs s ! i") (auto simp: te_view_inv_def)
  then show ?thesis
    using te_view_updates(3) [OF assms(1), of i]
    by (auto simp: te_closed_with_def confirmAction_closed_def general_action_def te_close_def popup_displaySnackBar_def
        intro!: te_view_emit)
qed

interpretation te_viewer: async_component te_handle "\<lambda>_ _ s. s" te_closed "\<lambda>s. viewer data \<longrightarrow> te_view_inv data s" for data
  by unfold_locales (auto simp: te_view_handle te_view_closed)

lemma te_view_start: "te_view_inv data (te_constructor data)"
  by (simp add: te_view_inv_def te_saves_def te_constructor_def)

lemma te_viewer_closes_with_nothing:
  assumes "viewer data" "DialogClose v \<in> set (trace (fold te_step es (te_constructor data)))"
  shows "v = JUndef"
  using te_viewer.machine.run_inv [of data "te_constructor data" es] te_view_start [of data] assms
  by (auto simp: te_step_def te_view_inv_def te_saves_def)

section \<open>The page of the config maps\<close>

fun cm_request_ref :: "cm_request \<Rightarrow> nat option" where
  "cm_request_ref CM_Get = None"
| "cm_request_ref (CM_Edit r _ _ _) = Some r"
| "cm_request_ref (CM_Pods _ _ r) = Some r"

fun cm_dialog_ref :: "cm_dialog \<Rightarrow> nat" where
  "cm_dialog_ref (CM_Create r) = r"
| "cm_dialog_ref (CM_ConfirmDelete _ r) = r"
| "cm_dialog_ref (CM_Editor _ r _) = r"

abbreviation opens_editor :: "effect \<Rightarrow> bool" where
  "opens_editor \<equiv> opens ''NGXMonacoTextEditorComponent''"

text \<open>An editor for a user without both roles.\<close>

fun opens_viewer :: "effect \<Rightarrow> bool" where
  "opens_viewer (DialogOpen _ c) = viewer c"
| "opens_viewer _ = True"

definition cm_table :: "cm_state \<Rightarrow> bool" where
  "cm_table s \<longleftrightarrow> distinct (cm_config_maps s) \<and> length (config_map_visible s) = length (cm_config_maps s) \<and>
     (\<forall>r \<in> set (cm_config_maps s). r < length (cm_heap s))"

definition cm_refs :: "cm_state \<Rightarrow> bool" where
  "cm_refs s \<longleftrightarrow> (\<forall>k \<in> set (requests s). \<forall>r. cm_request_ref k = Some r \<longrightarrow> r < length (cm_heap s)) \<and>
     (\<forall>d \<in> set (dialogs s). cm_dialog_ref d < length (cm_heap s))"

definition cm_inv :: "bool \<Rightarrow> bool \<Rightarrow> cm_state \<Rightarrow> bool" where
  "cm_inv m a s \<longleftrightarrow> snack_ok s \<and> cm_maintainer s = m \<and> cm_admin s = a \<and> cm_table s \<and> cm_refs s \<and>
     (m \<and> a \<or> list_all opens_viewer (seen opens_editor s))"

lemma cm_more:
  "async.more s' = async.more s \<Longrightarrow> cm_heap s' = cm_heap s \<and> cm_config_maps s' = cm_config_maps s \<and>
     config_map_visible s' = config_map_visible s \<and> cm_maintainer s' = cm_maintainer s \<and> cm_admin s' = cm_admin s"
  for s s' :: cm_state
  by (cases s; cases s') simp

lemma cm_inv_frame:
  assumes "cm_inv m a s" "async.more s' = async.more s" "snack_ok s'" "cm_refs s'"
    "seen opens_editor s' = seen opens_editor s"
  shows "cm_inv m a s'"
  using assms cm_more [OF assms(2)] by (simp add: cm_inv_def cm_table_def)

lemma cm_inv_world:
  assumes "cm_inv m a s" "world.more s' = world.more s" "snack_ok s \<Longrightarrow> snack_ok s'"
    "seen opens_editor s' = seen opens_editor s"
  shows "cm_inv m a s'"
proof -
  have "requests s' = requests s" "dialogs s' = dialogs s" "async.more s' = async.more s"
    using world_more_async [OF assms(2)] world_more_requests [OF assms(2)] by simp_all
  then show ?thesis
    using assms cm_more [of s' s] by (intro cm_inv_frame [OF assms(1)]) (auto simp: cm_inv_def cm_refs_def)
qed

lemma cm_inv_basic [simp, intro]:
  assumes "cm_inv m a s"
  shows "cm_inv m a (displaySnackBar msg c s)" "cm_inv m a (report_error t s)"
    "cm_inv m a (generate_return_success_snackbar_message t c s)"
    "cm_inv m a (emit (SetTitle t) s)" "cm_inv m a (emit (SnackOpen v t d ps) s)"
  by (rule cm_inv_world [OF assms]; simp add: snack_ok_emit)+

lemma cm_answered:
  assumes "cm_inv m a s" "\<And>x. cm_inv m a (next_cb x s)" "\<And>e s'. cm_inv m a s' \<Longrightarrow> cm_inv m a (error_cb e s')"
  shows "cm_inv m a (answered ep next_cb error_cb r s)"
  using assms by (intro answered_keeps [where P = "cm_inv m a"]) (simp_all add: cm_inv_world [OF assms(1)])

lemma cm_inv_fields [simp, intro]:
  assumes "cm_inv m a s"
  shows "cm_inv m a (s\<lparr>cm_loading := b\<rparr>)" "cm_inv m a (cm_put r v s)"
    "cm_inv m a (s\<lparr>config_map_visible := (config_map_visible s)[i := w]\<rparr>)"
    "cm_inv m a (s\<lparr>config_map_visible := write_at (config_map_visible s) j w\<rparr>)"
    "cm_inv m a (cm_show x s)"
  using assms by (auto simp: cm_inv_def cm_table_def cm_refs_def cm_put_def snack_ok_def seen_def write_at_def cm_show_def
      split: option.split js.split)

lemma cm_frames [simp]:
  "cm_heap (call ep k s) = cm_heap s" "cm_heap (open_dialog n v d s) = cm_heap s"
  "cm_heap (emit e s) = cm_heap s"
  for s :: cm_state
  using cm_more [of "call ep k s" s] cm_more [of "open_dialog n v d s" s] cm_more [of "emit e s" s] by simp_all

lemma cm_inv_call [intro]:
  assumes "cm_inv m a s" "\<And>r. cm_request_ref k = Some r \<Longrightarrow> r < length (cm_heap s)"
  shows "cm_inv m a (call ep k s)"
  using assms by (intro cm_inv_frame [OF assms(1)]) (auto simp: cm_inv_def cm_refs_def)

lemma cm_inv_dialog [intro]:
  assumes "cm_inv m a s" "cm_dialog_ref d < length (cm_heap s)"
    "n = ''NGXMonacoTextEditorComponent'' \<Longrightarrow> m \<and> a \<or> viewer v"
  shows "cm_inv m a (open_dialog n v d s)"
  using assms cm_more [of "open_dialog n v d s" s] by (auto simp: cm_inv_def cm_refs_def cm_table_def)

lemma cm_inv_removed [intro]:
  "cm_inv m a s \<Longrightarrow> cm_inv m a (s\<lparr>requests := remove_nth i (requests s)\<rparr>)"
  "cm_inv m a s \<Longrightarrow> cm_inv m a (s\<lparr>dialogs := remove_nth i (dialogs s)\<rparr>)"
  using set_remove_nth [of i "requests s"] set_remove_nth [of i "dialogs s"]
  by (auto simp: cm_inv_def cm_refs_def cm_table_def snack_ok_def seen_def)

lemma cm_inv_pods [intro]:
  "cm_inv m a s \<Longrightarrow> r < length (cm_heap s) \<Longrightarrow> cm_inv m a (cm_api_get_associated_pods data f r s)"
  by (auto simp: cm_api_get_associated_pods_def split: sum.split)

lemma cm_inv_edit [intro]:
  "cm_inv m a s \<Longrightarrow> r < length (cm_heap s) \<Longrightarrow> cm_inv m a (cm_api_edit_config_map data f r pods s)"
  by (auto simp: cm_api_edit_config_map_def cm_put_def [of r _ s, symmetric] split: sum.split prod.split intro!: cm_inv_call)
    (simp add: cm_put_def)

lemma cm_inv_editor [intro]:
  assumes "cm_inv m a s" "r < length (cm_heap s)"
  shows "cm_inv m a (cm_open_text_editor f r msg pods s)"
  using assms unfolding cm_open_text_editor_def
  by (intro cm_inv_dialog) (auto simp: cm_inv_def viewer_def cm_editor_configuration_def cm_save_action_def notUndefNull_def Let_def)

lemma cm_inv_ref: "cm_inv m a s \<Longrightarrow> i < length (cm_config_maps s) \<Longrightarrow> cm_config_maps s ! i < length (cm_heap s)"
  by (auto simp: cm_inv_def cm_table_def)

lemma cm_handle_inv: "cm_inv m a s \<Longrightarrow> cm_inv m a (cm_handle e s)"
  using cm_inv_ref [of m a s]
  by (cases e)
    (auto simp: cm_ngOnInit_def cm_api_get_config_maps_def cm_toggle_table_row_expansion_def cm_edit_config_map_data_def
      cm_view_config_map_data_def cm_create_config_map_data_def cm_delete_config_map_data_def confirmAction_def cm_file_shown_def
      split: option.split sum.split)

lemma cm_answer_inv:
  assumes "cm_inv m a s" "\<And>r. cm_request_ref k = Some r \<Longrightarrow> r < length (cm_heap s)"
  shows "cm_inv m a (cm_answer k reply s)"
proof (cases k)
  case CM_Get
  then show ?thesis using assms by (auto simp: cm_api_get_config_maps_answer_def intro!: cm_answered)
next
  case (CM_Edit r f sv ev)
  then show ?thesis using assms by (auto simp: cm_api_edit_config_map_answer_def Let_def intro!: cm_answered)
next
  case (CM_Pods data f r)
  then show ?thesis
    using assms by (auto simp: cm_api_get_associated_pods_answer_def intro!: cm_answered split: sum.split)
qed

lemma cm_closed_inv:
  assumes "cm_inv m a s" "cm_dialog_ref d < length (cm_heap s)"
  shows "cm_inv m a (cm_closed d v s)"
  using assms by (cases d)
    (auto simp: cm_create_config_map_data_closed_def cm_delete_config_map_data_closed_def confirmAction_closed_def
      popup_displaySnackBar_def cm_open_text_editor_closed_def split: js.split)

interpretation config_maps: async_component cm_handle cm_answer cm_closed "cm_inv m a" for m a
proof unfold_locales
  fix s :: cm_state and i r v e
  show "cm_inv m a s \<Longrightarrow> cm_inv m a (cm_handle e s)" by (rule cm_handle_inv)
  assume inv: "cm_inv m a s"
  then have refs: "cm_refs s" by (simp add: cm_inv_def)
  show "i < length (requests s) \<Longrightarrow> cm_inv m a (cm_answer (requests s ! i) r (s\<lparr>requests := remove_nth i (requests s)\<rparr>))"
    using refs cm_inv_removed(1) [OF inv] by (intro cm_answer_inv) (auto simp: cm_refs_def)
  show "i < length (dialogs s) \<Longrightarrow> cm_inv m a (cm_closed (dialogs s ! i) v (s\<lparr>dialogs := remove_nth i (dialogs s)\<rparr>))"
    using refs cm_inv_removed(2) [OF inv] by (intro cm_closed_inv) (auto simp: cm_refs_def)
qed

lemma cm_always: "cm_inv m a (fold cm_step es (cm_constructor m a))"
  unfolding cm_step_def
  by (rule config_maps.machine.run_inv)
    (simp add: cm_inv_def cm_constructor_def cm_table_def cm_refs_def snack_ok_def seen_def)

section \<open>Properties\<close>

lemma cm_opened_viewers:
  assumes "DialogOpen ''NGXMonacoTextEditorComponent'' c \<in> set (trace (fold cm_step es (cm_constructor m a)))" "\<not> (m \<and> a)"
  shows "viewer c"
  using assms cm_always [of m a es] by (auto simp: cm_inv_def seen_def list_all_iff)

text \<open>C36: a user who is not both maintainer and administrator of the controller cannot change a file of a config
  map in the editor: whatever happens on the page and in the editor it has opened, the editor closes without a
  text, and the page then sends nothing. (The title of the editor says that a maintainer is editing.)\<close>

theorem cm_viewer_saves_nothing:
  assumes "DialogOpen ''NGXMonacoTextEditorComponent'' c \<in> set (trace (fold cm_step es (cm_constructor m a)))"
    and "\<not> (m \<and> a)" "DialogClose v \<in> set (trace (fold te_step ts (te_constructor c)))"
    and "i < length (dialogs s)" "dialogs s ! i = CM_Editor f r pods"
  shows "v = JUndef \<and> sent (cm_step (Closed i v) s) = sent s"
  using te_viewer_closes_with_nothing [OF cm_opened_viewers [OF assms(1,2)] assms(3)] assms(4,5)
  by (simp add: cm_step_def async_step_def cm_open_text_editor_closed_def notUndefNull_def sent_def)

text \<open>a text that the server rejected stays in the table: the object that the table shows is changed before the
  request is sent, and the handler of the failure does not change it back.\<close>

theorem cm_failed_edit_stays_shown:
  assumes "i < length (dialogs s)" "dialogs s ! i = CM_Editor f r pods" "r < length (cm_heap s)"
    and "cm_obj r s = JObj kvs" "js_get (cm_obj r s) ''data'' = JObj files"
  shows "let s' = cm_step (Answer (length (requests s)) (Failure e)) (cm_step (Closed i (JStr t)) s)
    in js_get (js_get (cm_obj r s') ''data'') f = JStr t \<and>
       (\<exists>body. sent s' = sent s @ [Http PUT ''/api/kubernetes/configmap'' body])"
proof -
  let ?new = "js_set (JObj kvs) ''data'' (js_set (JObj files) f (JStr t))"
  have edited: "cm_edited (JStr t) (JObj kvs) f = Inr ?new"
    using assms(4,5) by (simp add: cm_edited_def notUndefNull_def Let_def)
  have new: "js_get (js_get ?new ''data'') f = JStr t" by (simp add: update_conv)
  obtain sv ev where words: "cm_edit_words (JStr t) (JObj kvs) f = (sv, ev)" by fastforce
  define body where "body = JObj [(''configMap'', ?new), (''associatedPods'', JArr pods)]"
  define s1 where "s1 = cm_step (Closed i (JStr t)) s"
  have s1: "s1 = call (edit_config_map body) (CM_Edit r f sv ev) (cm_put r ?new (s\<lparr>dialogs := remove_nth i (dialogs s)\<rparr>))"
    using assms(1,2,4) unfolding s1_def body_def
    by (simp only: cm_step_def async_step_def event.simps cm_closed.simps if_True cm_open_text_editor_closed_def notUndefNull_def
        cm_api_edit_config_map_def js.simps edited sum.simps words prod.simps Let_def) (simp add: edited words cm_obj_def)
  have requests: "requests s1 = requests s @ [CM_Edit r f sv ev]" and obj: "cm_obj r s1 = ?new"
    and sent: "sent s1 = sent s @ [Http PUT ''/api/kubernetes/configmap'' body]"
    using assms(3) unfolding s1 by (simp_all add: cm_obj_def cm_put_def edit_config_map_def endpoint_def sent_def call_trace del: js_set.simps)
  have "cm_heap (cm_step (Answer (length (requests s)) (Failure e)) s1) = cm_heap s1 \<and>
      sent (cm_step (Answer (length (requests s)) (Failure e)) s1) = sent s1"
  proof -
    let ?t = "s1\<lparr>requests := remove_nth (length (requests s)) (requests s1)\<rparr>"
    have "cm_step (Answer (length (requests s)) (Failure e)) s1 = cm_answer (CM_Edit r f sv ev) (Failure e) ?t"
      by (simp add: cm_step_def async_step_def requests)
    moreover have "world.more (cm_answer (CM_Edit r f sv ev) (Failure e) ?t) = world.more ?t"
        "sent (cm_answer (CM_Edit r f sv ev) (Failure e) ?t) = sent ?t"
      unfolding cm_answer.simps cm_api_edit_config_map_answer_def by (rule answered_failure; simp)+
    moreover from this(1) have "cm_heap (cm_answer (CM_Edit r f sv ev) (Failure e) ?t) = cm_heap ?t"
      using cm_more [OF world_more_async] by blast
    ultimately show ?thesis by (simp add: sent_def)
  qed
  then show ?thesis using obj new sent by (simp add: Let_def s1_def [symmetric] cm_obj_def)
qed

text \<open>after a file was saved, the table shows the files of its config map sorted, none lost and none added, in a
  row that is expanded.\<close>

theorem cm_saved_entries_sorted:
  assumes "i < length (requests s)" "requests s ! i = CM_Edit r f sv ev" "new_ConfigMapEditClass v = Inr x"
    and "cm_obj r s = JObj kvs" "js_get (cm_obj r s) ''data'' = JObj files" "r < length (cm_heap s)"
    and "cm_config_maps s ! j = r" "j < length (cm_config_maps s)" "distinct (cm_config_maps s)"
    and "length (config_map_visible s) = length (cm_config_maps s)"
  shows "let s' = cm_step (Answer i (Reply v)) s
    in (\<exists>files'. js_get (cm_obj r s') ''data'' = JObj files' \<and> mset files' = mset files \<and> sorted_wrt (\<le>) (map entry_text files')) \<and>
       is_config_map_expansion_row_visible r s'"
proof -
  let ?t = "s\<lparr>requests := remove_nth i (requests s)\<rparr>"
  let ?u = "cm_put r (cm_sorted (cm_obj r s)) ?t"
  let ?w = "?u\<lparr>config_map_visible := write_at (config_map_visible s) (cm_index r ?u) True\<rparr>"
  have "cm_step (Answer i (Reply v)) s =
      generate_return_success_snackbar_message (sv @ '' config map data: '' @ f) None ?w"
    using assms(1-3)
    by (simp add: cm_step_def async_step_def cm_api_edit_config_map_answer_def answered_def subscribe_def edit_config_map_def
        endpoint_def Let_def cm_obj_def cm_put_def)
  moreover have "cm_heap (generate_return_success_snackbar_message z None ?w) = cm_heap ?w \<and>
      cm_config_maps (generate_return_success_snackbar_message z None ?w) = cm_config_maps ?w \<and>
      config_map_visible (generate_return_success_snackbar_message z None ?w) = config_map_visible ?w" for z
    using cm_more [OF world_more_async, of "generate_return_success_snackbar_message z None ?w" ?w] by simp
  moreover have index: "find_index (\<lambda>r'. r' = r) (cm_config_maps s) = Some j"
    using assms(7-9) by (auto intro: find_index_unique simp: nth_eq_iff_index_eq)
  moreover have "\<exists>files'. js_get (cm_sorted (JObj kvs)) ''data'' = JObj files' \<and> mset files' = mset files \<and> sorted_wrt (\<le>) (map entry_text files')"
  proof (cases "length files > 1")
    case True
    then show ?thesis using assms(4,5) by (auto simp: cm_sorted_def update_conv)
  next
    case False
    then have "sorted_wrt (\<le>) (map entry_text files)" by (cases files rule: remdups_adj.cases) auto
    then show ?thesis using False assms(4,5) by (auto simp: cm_sorted_def)
  qed
  ultimately show ?thesis
    using assms(4-10)
    by (simp add: Let_def cm_obj_def cm_put_def cm_index_def is_config_map_expansion_row_visible_def write_at_def)
qed

section \<open>The properties at concrete runs\<close>

definition cm_example_item :: js where
  "cm_example_item = JObj [(''data'', JObj [(''b.yml'', JStr ''x''), (''a.yml'', JStr ''y'')]), (''metadata'', JObj [(''name'', JStr ''zeek'')])]"

definition cm_example_run :: "cm_action event list" where
  "cm_example_run =
     [Act CM_OnInit,
      Answer 0 (Reply (JObj [(''items'', JArr [cm_example_item]), (''metadata'', JObj [])])),
      Act (CM_EditClick ''b.yml'' 0),
      Answer 0 (Reply (JArr [JObj [(''podName'', JStr ''zeek-1'')]]))]"

definition cm_example_editor :: js where
  "cm_example_editor =
     cm_editor_configuration ''b.yml'' (JObj [(''data'', JObj [(''b.yml'', JStr ''x'')])])
       (cm_save_message [JObj [(''podName'', JStr ''zeek-1'')]]) (cm_constructor True False)"

definition te_example_run :: "te_action event list" where
  "te_example_run = [Act (TE_Type ''z''), Act TE_Action, Act TE_NonAction, Closed 0 (JStr ''Close'')]"

lemma cm_example_opens:
  "DialogOpen ''NGXMonacoTextEditorComponent'' cm_example_editor \<in> set (trace (fold cm_step cm_example_run (cm_constructor True False)))"
  by code_simp

lemma te_example_closes: "DialogClose JUndef \<in> set (trace (fold te_step te_example_run (te_constructor cm_example_editor)))"
  by code_simp

theorem cm_viewer_saves_nothing_witness:
  "sent (cm_step (Closed 0 JUndef) ((cm_constructor True False)\<lparr>dialogs := [CM_Editor ''b.yml'' 0 []]\<rparr>)) = []"
  using cm_viewer_saves_nothing [OF cm_example_opens _ te_example_closes, of 0 "(cm_constructor True False)\<lparr>dialogs := [CM_Editor ''b.yml'' 0 []]\<rparr>" "''b.yml''" 0 "[]"]
  by (simp add: cm_constructor_def sent_def)

definition cm_example :: cm_state where
  "cm_example = (cm_constructor True True)\<lparr>cm_heap := [cm_example_item], cm_config_maps := [0], config_map_visible := [False],
     dialogs := [CM_Editor ''b.yml'' 0 []], requests := [CM_Edit 0 ''b.yml'' ''edited'' ''editing'']\<rparr>"

lemma cm_example_fields:
  "dialogs cm_example = [CM_Editor ''b.yml'' 0 []]" "requests cm_example = [CM_Edit 0 ''b.yml'' ''edited'' ''editing'']"
  "cm_obj 0 cm_example = cm_example_item" "length (cm_heap cm_example) = 1" "cm_config_maps cm_example = [0]"
  "config_map_visible cm_example = [False]"
  by (simp_all add: cm_example_def cm_obj_def)

theorem cm_failed_edit_stays_shown_witness:
  "\<forall>e. js_get (js_get (cm_obj 0 (cm_step (Answer 1 (Failure e)) (cm_step (Closed 0 (JStr ''z'')) cm_example))) ''data'') ''b.yml'' = JStr ''z''"
proof
  fix e
  show "js_get (js_get (cm_obj 0 (cm_step (Answer 1 (Failure e)) (cm_step (Closed 0 (JStr ''z'')) cm_example))) ''data'') ''b.yml'' = JStr ''z''"
    using cm_failed_edit_stays_shown [of 0 cm_example "''b.yml''" 0 "[]" _ _ e "''z''", unfolded cm_example_fields]
    by (simp add: cm_example_item_def Let_def cm_example_fields)
qed

theorem cm_saved_entries_sorted_witness:
  "\<exists>files. js_get (cm_obj 0 (cm_step (Answer 0 (Reply (JObj []))) cm_example)) ''data'' = JObj files \<and>
     sorted_wrt (\<le>) (map entry_text files)"
proof -
  obtain x where "new_ConfigMapEditClass (JObj []) = Inr x"
    by (simp add: new_ConfigMapEditClass_def construct_def copy_def notUndefNull_def)
  from cm_saved_entries_sorted [of 0 cm_example 0 "''b.yml''" "''edited''" "''editing''" "JObj []" x
      "[(''data'', JObj [(''b.yml'', JStr ''x''), (''a.yml'', JStr ''y'')]), (''metadata'', JObj [(''name'', JStr ''zeek'')])]"
      "[(''b.yml'', JStr ''x''), (''a.yml'', JStr ''y'')]" 0, unfolded cm_example_fields, OF _ _ this]
  show ?thesis by (auto simp: cm_example_item_def Let_def cm_example_fields)
qed

end
