(* ===== verification/Rule_Dialogs.thy ===== *)
theory Rule_Dialogs
  imports Policy_Management Text_Editor More_Services Form_Fields
begin

text \<open>
  The dialogs of the policy page (\<open>modules/policy-management/components/\<close>): the editor of a rule, the form
  of a rule set and the upload of a file with rules, and \<open>services/sensor-host-info.service.ts\<close>. The controls
  of the forms have no validators but \<open>Validators.required\<close>, so a form is a record of values. The editor of
  a rule contains the component around Monaco of \<open>Text_Editor\<close>.
\<close>

definition get_sensor_host_info :: "js list endpoint" where
  "get_sensor_host_info =
     endpoint GET ''/api/policy/sensor/info'' JUndef ''sensor host info'' (js_map_list new_HostInfoClass)"

section \<open>The editor of a rule\<close>

datatype ra_request = RA_Pcaps | RA_Content | RA_Update | RA_Create | RA_Test | RA_Validate

datatype ra_dialog = RA_Save | RA_Close

record rule_form =
  rf_name :: js
  rf_rule :: js
  rf_enabled :: js
  rf_id :: js
  rf_bypass :: js
  rf_rule_set_id :: js

record ra_state = "(ra_request, ra_dialog) async" +
  ra_data :: js
  ra_text :: js
  rule_form_group :: "rule_form option"
  ra_pcaps :: "js list"
  ra_selected_pcap :: js
  ra_editor :: monaco

text \<open>The component with the one around Monaco, whose inputs are fixed but for the text.\<close>

definition ra_constructor :: "js \<Rightarrow> ra_state" where
  "ra_constructor data =
     \<lparr>trace = [], matSnackBarRef = None, requests = [], dialogs = [], ra_data = data, ra_text = JStr [],
      rule_form_group = None, ra_pcaps = [], ra_selected_pcap = JStr [],
      ra_editor = monaco_init (JBool True) (JBool False) (JStr []) (JStr ''txt'')\<rparr>"

definition ra_action :: "ra_state \<Rightarrow> js" where
  "ra_action s = js_get (ra_data s) ''action''"

definition ra_valid :: "rule_form \<Rightarrow> bool" where
  "ra_valid f \<longleftrightarrow> \<not> empty_input (rf_name f) \<and> \<not> empty_input (rf_rule f)"

definition rf_value :: "rule_form \<Rightarrow> js" where
  "rf_value f = JObj [(''ruleName'', rf_name f), (''rule'', rf_rule f), (''isEnabled'', rf_enabled f), (''_id'', rf_id f),
     (''byPassValidation'', rf_bypass f), (''rule_set_id'', rf_rule_set_id f)]"

definition is_rule_enabled :: "ra_state \<Rightarrow> js_error + js" where
  "is_rule_enabled s = (case rule_form_group s of None \<Rightarrow> Inl TypeError | Some f \<Rightarrow> Inr (rf_enabled f))"

definition is_pcap_selected :: "ra_state \<Rightarrow> bool" where
  "is_pcap_selected s \<longleftrightarrow> notUndefNull (ra_selected_pcap s) \<and> ra_selected_pcap s \<noteq> JStr []"

definition ra_close_editor :: "ra_state \<Rightarrow> ra_state" where
  "ra_close_editor = emit (DialogClose JUndef)"

definition ra_save_close_editor :: "js \<Rightarrow> ra_state \<Rightarrow> ra_state" where
  "ra_save_close_editor rule = emit (DialogClose rule)"

definition ra_missing :: "string \<Rightarrow> ra_state \<Rightarrow> ra_state" where
  "ra_missing message s =
     generate_return_error_snackbar_message message (Some MAT_SNACKBAR_CONFIGURATION_60000_DUR) (ra_close_editor s)"

text \<open>The text is an input of the inner component, which sees its change.\<close>

definition ra_set_text :: "js \<Rightarrow> ra_state \<Rightarrow> ra_state" where
  "ra_set_text rule_content s =
     (if notUndefNull (ra_action s)
      then let t = (if ra_action s = JStr ''edit'' then rule_content else JStr [])
           in s\<lparr>ra_text := t, ra_editor := monaco_ngOnChanges (Some (ra_text s, t)) None (ra_editor s)\<rparr>
      else ra_missing ''rule action not passed to rule dialog window'' s)"

definition ra_set_rule_data :: "js \<Rightarrow> ra_state \<Rightarrow> ra_state" where
  "ra_set_rule_data t s = s\<lparr>rule_form_group := map_option (\<lambda>f. f\<lparr>rf_rule := t\<rparr>) (rule_form_group s)\<rparr>"

definition ra_api_get_rule_content :: "js \<Rightarrow> ra_state \<Rightarrow> ra_state" where
  "ra_api_get_rule_content rule = call (get_rule_content (js_get rule ''_id'')) RA_Content"

definition ra_initialize_form :: "js \<Rightarrow> ra_state \<Rightarrow> ra_state" where
  "ra_initialize_form rule s =
     (let is_rule = notUndefNull rule;
          s' = s\<lparr>rule_form_group := Some
            \<lparr>rf_name = (if is_rule then new_control (js_get rule ''ruleName'') else JStr []),
             rf_rule = (if is_rule then new_control (js_get rule ''rule'') else JStr []),
             rf_enabled = (if is_rule then new_control (js_get rule ''isEnabled'') else JBool True),
             rf_id = (if is_rule then new_control (js_get rule ''_id'') else JStr []),
             rf_bypass = JBool False, rf_rule_set_id = JNull\<rparr>\<rparr>
      in if is_rule then ra_api_get_rule_content rule s' else s')"

definition ra_get_is_user_adding :: "ra_state \<Rightarrow> ra_state" where
  "ra_get_is_user_adding s =
     (if notUndefNull (ra_action s) then
        if ra_action s = JStr ''edit'' then
          if notUndefNull (js_get (ra_data s) ''rule'') then ra_initialize_form (js_get (ra_data s) ''rule'') s
          else ra_missing ''rule not passed to dialog window'' s
        else ra_initialize_form (case rule_form_group s of None \<Rightarrow> JNull | Some f \<Rightarrow> rf_value f) s
      else ra_missing ''rule not passed to dialog window'' s)"

definition ra_api_get_pcaps :: "ra_state \<Rightarrow> ra_state" where
  "ra_api_get_pcaps = call get_pcaps RA_Pcaps"

definition ra_ngOnInit :: "ra_state \<Rightarrow> ra_state" where
  "ra_ngOnInit s = ra_api_get_pcaps (ra_get_is_user_adding (ra_set_text JUndef s))"

text \<open>\<open>get_rule_data_\<close> returns nothing without a rule set; the callers go on.\<close>

definition ra_get_rule_data :: "ra_state \<Rightarrow> js_error + js \<times> ra_state" where
  "ra_get_rule_data s =
     (if notUndefNull (js_get (ra_data s) ''rule_set'') then
        (case rule_form_group s of None \<Rightarrow> Inl TypeError
         | Some f \<Rightarrow> Inr (rf_value (f\<lparr>rf_rule_set_id := js_get (js_get (ra_data s) ''rule_set'') ''_id''\<rparr>), s))
      else Inr (JUndef, ra_missing ''rule set not passed to dialog window'' s))"

definition ra_api_update_rule :: "js \<Rightarrow> ra_state \<Rightarrow> ra_state" where
  "ra_api_update_rule rule = call (update_rule rule) RA_Update"

definition ra_api_create_rule :: "js \<Rightarrow> ra_state \<Rightarrow> ra_state" where
  "ra_api_create_rule rule = call (create_rule rule) RA_Create"

definition ra_close_and_save :: "ra_state \<Rightarrow> ra_state" where
  "ra_close_and_save s =
     (if notUndefNull (ra_action s) then
        (case ra_get_rule_data s of Inl _ \<Rightarrow> s
         | Inr (rule, s') \<Rightarrow>
             if ra_action s = JStr ''edit'' then ra_api_update_rule rule s' else ra_api_create_rule rule s')
      else ra_missing ''rule action not passed to dialog window'' s)"

definition editor_text_save :: "js \<Rightarrow> ra_state \<Rightarrow> ra_state" where
  "editor_text_save t s = ra_close_and_save (ra_set_rule_data t s)"

definition ra_get_return_text :: "ra_state \<Rightarrow> ra_state" where
  "ra_get_return_text s = editor_text_save (text1 (ra_editor s)) s"

definition ra_save :: "ra_state \<Rightarrow> ra_state" where
  "ra_save =
     open_dialog ''ModalDialogMatComponent''
       (JObj [(''title'', JStr ''Confirm Rule Submission''),
              (''instructions'', JStr (js_join (nl @ replicate 21 (CHR '' ''))
                 [''Only check the box below if the suricata rules or zeek scripts in question have validation issues.'',
                  ''As an example, this can occur if you are using variables in suricata that are unknown'',
                  ''to the validation container performing the syntax check.''])),
              (''confirmBtnText'', JStr CONFIRM_DIALOG_OPTION)]) RA_Save"

definition ra_save_closed :: "js \<Rightarrow> ra_state \<Rightarrow> ra_state" where
  "ra_save_closed response s =
     (if notUndefNull response \<and> truthy (js_get response ''valid'') then
        (case rule_form_group s of None \<Rightarrow> s
         | Some f \<Rightarrow> ra_get_return_text
             (s\<lparr>rule_form_group := Some (f\<lparr>rf_bypass := js_get (js_get response ''value'') ''byPassValidation''\<rparr>)\<rparr>))
      else s)"

definition ra_close :: "ra_state \<Rightarrow> ra_state" where
  "ra_close =
     open_dialog ''ConfirmDialogComponent''
       (JObj [(''title'', JStr ''Close without saving''),
              (''message'', JStr ''Are you sure you want to close this editor? All changes will be discarded.''),
              (''option1'', JStr CANCEL_DIALOG_OPTION), (''option2'', JStr CONFIRM_DIALOG_OPTION)]) RA_Close"

definition ra_close_closed :: "js \<Rightarrow> ra_state \<Rightarrow> ra_state" where
  "ra_close_closed response s = (if response = JStr CONFIRM_DIALOG_OPTION then ra_close_editor s else s)"

definition update_form_control_rule_text :: "js \<Rightarrow> ra_state \<Rightarrow> ra_state" where
  "update_form_control_rule_text t = ra_set_rule_data t"

definition ra_test_rule :: "ra_state \<Rightarrow> ra_state" where
  "ra_test_rule s =
     (if notUndefNull (js_get (ra_data s) ''rule_set'') then
        (case rule_form_group s of None \<Rightarrow> s
         | Some f \<Rightarrow> call (test_rule_against_pcap (JObj [(''pcap_name'', ra_selected_pcap s), (''rule_content'', rf_rule f),
             (''ruleType'', js_get (js_get (ra_data s) ''rule_set'') ''appType'')])) RA_Test s)
      else generate_return_error_snackbar_message ''rule set not passed to dialog window'' (Some MAT_SNACKBAR_CONFIGURATION_60000_DUR) s)"

definition ra_validate :: "ra_state \<Rightarrow> ra_state" where
  "ra_validate s =
     (case ra_get_rule_data s of Inl _ \<Rightarrow> s | Inr (rule, s') \<Rightarrow> call (validate_rule rule) RA_Validate s')"

subsection \<open>Answers\<close>

definition ra_api_get_pcaps_answer :: "reply \<Rightarrow> ra_state \<Rightarrow> ra_state" where
  "ra_api_get_pcaps_answer = answered get_pcaps (\<lambda>response s. s\<lparr>ra_pcaps := response\<rparr>) (\<lambda>_. report_error ''getting pcaps'')"

definition ra_api_get_rule_content_answer :: "reply \<Rightarrow> ra_state \<Rightarrow> ra_state" where
  "ra_api_get_rule_content_answer =
     answered (get_rule_content JUndef)
       (\<lambda>response s. ra_set_text (js_get response ''rule'') (ra_set_rule_data (js_get response ''rule'') s))
       (report_error_or_message ''getting rule content'')"

definition ra_saved :: "string \<Rightarrow> js \<Rightarrow> ra_state \<Rightarrow> ra_state" where
  "ra_saved message response s =
     ra_save_close_editor response
       (generate_return_success_snackbar_message (message @ str (js_get response ''ruleName''))
         (Some MAT_SNACKBAR_CONFIGURATION_60000_DUR) s)"

definition ra_api_update_rule_answer :: "reply \<Rightarrow> ra_state \<Rightarrow> ra_state" where
  "ra_api_update_rule_answer =
     answered (update_rule JUndef) (ra_saved ''updated rule '') (report_error_or_message ''updating rule'')"

definition ra_api_create_rule_answer :: "reply \<Rightarrow> ra_state \<Rightarrow> ra_state" where
  "ra_api_create_rule_answer =
     answered (create_rule JUndef) (ra_saved ''created rule '') (report_error_or_message ''creating rule'')"

definition ra_api_validate_rule_answer :: "reply \<Rightarrow> ra_state \<Rightarrow> ra_state" where
  "ra_api_validate_rule_answer =
     answered (validate_rule JUndef)
       (\<lambda>response. displaySnackBar (js_get response ''success_message'') (Some MAT_SNACKBAR_CONFIGURATION_60000_DUR))
       (report_error_or_message ''validating rule'')"

text \<open>The answer of a test is a file, or an object with a message.\<close>

definition ra_tested :: "js \<Rightarrow> ra_state \<Rightarrow> ra_state" where
  "ra_tested response s =
     (case js_index response ''message'' of Inl _ \<Rightarrow> s
      | Inr message \<Rightarrow>
          if truthy message then displaySnackBar message (Some MAT_SNACKBAR_CONFIGURATION_60000_DUR) s
          else if js_get response ''type'' = JStr ''application/tar+gzip'' then emit (SaveFile ''pcap_test_results.tar.gz'') s
          else if js_get response ''type'' = JStr ''application/zip'' then emit (SaveFile ''pcap_test_results.zip'') s
          else emit (SaveFile ''pcap_test_results.json'') s)"

fun nonempty_text :: "js \<Rightarrow> bool" where
  "nonempty_text (JStr t) = (t \<noteq> [])"
| "nonempty_text _ = False"

definition ra_test_failed :: "js \<Rightarrow> err_body \<Rightarrow> ra_state \<Rightarrow> ra_state" where
  "ra_test_failed error_status error_error s =
     (let show_message = (\<lambda>m. displaySnackBar m (Some MAT_SNACKBAR_CONFIGURATION_60000_DUR) s)
      in if error_status = JNum 501 then
           show_message (JStr (''Validation failed for testing against PCAP. '' @ replicate 37 (CHR '' '') @
             ''Please make sure you have selected a PCAP and your rules validate.''))
         else if error_status = JNum 403 then report_error ''exec module prohibited'' s
         else if (case error_error of Body b \<Rightarrow> nonempty_text b | _ \<Rightarrow> False) then show_message (body_value error_error)
         else if nonempty_text (body_get error_error ''error_message'') then show_message (body_get error_error ''error_message'')
         else report_error ''testing rule against PCAP'' s)"

definition ra_api_test_rule_answer :: "reply \<Rightarrow> ra_state \<Rightarrow> ra_state" where
  "ra_api_test_rule_answer =
     answered (test_rule_against_pcap JUndef) ra_tested
       (\<lambda>error. case error of
          HttpErrorResponse None \<Rightarrow> (\<lambda>s. s)
        | HttpErrorResponse (Some e) \<Rightarrow> ra_test_failed (status e) (error_body e)
        | ValidationErrorClass st _ \<Rightarrow> ra_test_failed st (Body JUndef)
        | _ \<Rightarrow> ra_test_failed JUndef (Body JUndef))"

subsection \<open>The dialog as a machine\<close>

text \<open>Typing in the editor emits \<open>keyup_text\<close>. The buttons that save, test and validate need a valid form.\<close>

datatype ra_event =
    RA_OnInit | RA_TypeName string | RA_Enable bool | RA_SelectPcap js | RA_TypeRule string | RA_PasteRule string
  | RA_SaveClick | RA_CloseClick | RA_TestClick | RA_ValidateClick

definition ra_form_valid :: "ra_state \<Rightarrow> bool" where
  "ra_form_valid s \<longleftrightarrow> (case rule_form_group s of None \<Rightarrow> False | Some f \<Rightarrow> ra_valid f)"

text \<open>A change of the text with the mouse reaches the inner component and emits nothing.\<close>

fun ra_handle :: "ra_event \<Rightarrow> ra_state \<Rightarrow> ra_state" where
  "ra_handle RA_OnInit s = ra_ngOnInit s"
| "ra_handle (RA_TypeName t) s = s\<lparr>rule_form_group := map_option (\<lambda>f. f\<lparr>rf_name := JStr t\<rparr>) (rule_form_group s)\<rparr>"
| "ra_handle (RA_Enable b) s = s\<lparr>rule_form_group := map_option (\<lambda>f. f\<lparr>rf_enabled := JBool b\<rparr>) (rule_form_group s)\<rparr>"
| "ra_handle (RA_SelectPcap v) s = s\<lparr>ra_selected_pcap := v\<rparr>"
| "ra_handle (RA_TypeRule t) s = update_form_control_rule_text (JStr t) (s\<lparr>ra_editor := (ra_editor s)\<lparr>text1 := JStr t\<rparr>\<rparr>)"
| "ra_handle (RA_PasteRule t) s = s\<lparr>ra_editor := (ra_editor s)\<lparr>text1 := JStr t\<rparr>\<rparr>"
| "ra_handle RA_SaveClick s = (if ra_form_valid s then ra_save s else s)"
| "ra_handle RA_CloseClick s = ra_close s"
| "ra_handle RA_TestClick s = (if ra_form_valid s \<and> is_pcap_selected s then ra_test_rule s else s)"
| "ra_handle RA_ValidateClick s = (if ra_form_valid s then ra_validate s else s)"

fun ra_answer :: "ra_request \<Rightarrow> reply \<Rightarrow> ra_state \<Rightarrow> ra_state" where
  "ra_answer RA_Pcaps = ra_api_get_pcaps_answer"
| "ra_answer RA_Content = ra_api_get_rule_content_answer"
| "ra_answer RA_Update = ra_api_update_rule_answer"
| "ra_answer RA_Create = ra_api_create_rule_answer"
| "ra_answer RA_Test = ra_api_test_rule_answer"
| "ra_answer RA_Validate = ra_api_validate_rule_answer"

fun ra_closed :: "ra_dialog \<Rightarrow> js \<Rightarrow> ra_state \<Rightarrow> ra_state" where
  "ra_closed RA_Save = ra_save_closed"
| "ra_closed RA_Close = ra_close_closed"

definition ra_step :: "ra_event event \<Rightarrow> ra_state \<Rightarrow> ra_state" where
  "ra_step = async_step ra_handle ra_answer ra_closed"

section \<open>The form of a rule set\<close>

datatype rse_request = RSE_Sensors string | RSE_Status string "js list"

record rule_set_form =
  sf_id :: js
  sf_name :: js
  sf_clearance :: js
  sf_sensors :: js
  sf_app_type :: js
  sf_enabled :: js
  sf_app_type_disabled :: bool

record rse_state = "(rse_request, unit) async" +
  rse_data :: js
  rse_title :: string
  sensor_list_selection :: "js list"
  rule_set_form_group :: "rule_set_form option"
  sensor_list :: "js list option"

definition rse_constructor :: "js \<Rightarrow> rse_state" where
  "rse_constructor data =
     \<lparr>trace = [], matSnackBarRef = None, requests = [], dialogs = [], rse_data = data, rse_title = [],
      sensor_list_selection = [], rule_set_form_group = None, sensor_list = None\<rparr>"

definition rse_cancel :: "rse_state \<Rightarrow> rse_state" where
  "rse_cancel = emit (DialogClose JUndef)"

definition get_sensor_type :: "js \<Rightarrow> string" where
  "get_sensor_type app_type =
     (if app_type = JStr ''Suricata'' then ''suricata''
      else if app_type = JStr ''Zeek'' then ''zeek''
      else if app_type \<in> {JStr ''Zeek Scripts'', JStr ''Zeek Intel'', JStr ''Zeek Signatures''} then ''zeek''
      else [])"

definition rse_hostnames :: "js \<Rightarrow> js_error + js list" where
  "rse_hostnames sensors =
     (case sensors of JArr vs \<Rightarrow> mapS (\<lambda>v. js_index v ''hostname'') vs | _ \<Rightarrow> Inl TypeError)"

definition rse_initialize_form :: "js \<Rightarrow> bool \<Rightarrow> rse_state \<Rightarrow> js_error + rse_state" where
  "rse_initialize_form rule_set is_edit s =
     (let field = (\<lambda>k d. if truthy rule_set then new_control (js_get rule_set k) else d);
          form = \<lparr>sf_id = field ''_id'' (JStr ''0''), sf_name = field ''name'' (JStr []),
             sf_clearance = field ''clearance'' (JStr []), sf_sensors = JArr [], sf_app_type = field ''appType'' (JStr []),
             sf_enabled = field ''isEnabled'' (JBool True), sf_app_type_disabled = is_edit\<rparr>
      in if is_edit
         then smap (\<lambda>names. s\<lparr>rule_set_form_group := Some (form\<lparr>sf_sensors := JArr names\<rparr>)\<rparr>)
           (rse_hostnames (js_get rule_set ''sensors''))
         else Inr (s\<lparr>rule_set_form_group := Some form\<rparr>))"

definition rse_api_change_sensor_selection :: "string \<Rightarrow> rse_state \<Rightarrow> rse_state" where
  "rse_api_change_sensor_selection application = call get_sensor_host_info (RSE_Sensors application)"

definition rse_missing :: "string \<Rightarrow> rse_state \<Rightarrow> rse_state" where
  "rse_missing message s =
     generate_return_error_snackbar_message message (Some MAT_SNACKBAR_CONFIGURATION_60000_DUR) (rse_cancel s)"

definition rse_ngOnInit :: "rse_state \<Rightarrow> rse_state" where
  "rse_ngOnInit s =
     (let action = js_get (rse_data s) ''action''; rule_set = js_get (rse_data s) ''rule_set''
      in if notUndefNull action then
           let s1 = s\<lparr>rse_title := (if action = JStr ''add'' then ''Add Rule Set'' else ''Edit Rule Set'')\<rparr>
           in if action = JStr ''edit'' then
                if notUndefNull rule_set then
                  (case rse_initialize_form rule_set True s1 of Inl _ \<Rightarrow> s1
                   | Inr s2 \<Rightarrow> rse_api_change_sensor_selection (get_sensor_type (js_get rule_set ''appType'')) s2)
                else rse_api_change_sensor_selection ''suricata'' (rse_missing ''rule set not passed to edit dialog window'' s1)
              else rse_api_change_sensor_selection ''suricata'' (settle s1 (rse_initialize_form JNull False s1))
         else rse_missing ''rule set action not passed to edit dialog window'' s)"

definition change_sensor_list :: "js \<Rightarrow> rse_state \<Rightarrow> rse_state" where
  "change_sensor_list v = rse_api_change_sensor_selection (get_sensor_type v)"

definition is_rule_set_enabled :: "rse_state \<Rightarrow> js_error + js" where
  "is_rule_set_enabled s = (case rule_set_form_group s of None \<Rightarrow> Inl TypeError | Some f \<Rightarrow> Inr (sf_enabled f))"

text \<open>A disabled control is left out of the value of its group and of its validity.\<close>

definition sf_valid :: "rule_set_form \<Rightarrow> bool" where
  "sf_valid f \<longleftrightarrow> \<not> empty_input (sf_name f) \<and> \<not> empty_input (sf_clearance f) \<and>
     (sf_app_type_disabled f \<or> \<not> empty_input (sf_app_type f))"

definition sf_value :: "rule_set_form \<Rightarrow> js" where
  "sf_value f =
     JObj ([(''_id'', sf_id f), (''name'', sf_name f), (''clearance'', sf_clearance f), (''sensors'', sf_sensors f)] @
       (if sf_app_type_disabled f then [] else [(''appType'', sf_app_type f)]) @ [(''isEnabled'', sf_enabled f)])"

definition first_host :: "js list \<Rightarrow> js \<Rightarrow> js list" where
  "first_host hosts hostname = take 1 (filter (\<lambda>h. strict_eq hostname (js_get h ''hostname'')) hosts)"

text \<open>The hosts of the chosen names; a name without a host is left out.\<close>

definition values_to_send_back :: "js list option \<Rightarrow> js \<Rightarrow> js_error + js list" where
  "values_to_send_back hosts sensors =
     (case (js_iterate sensors, hosts) of
        (None, _) \<Rightarrow> Inl TypeError
      | (Some [], _) \<Rightarrow> Inr []
      | (Some names, None) \<Rightarrow> Inl TypeError
      | (Some names, Some hs) \<Rightarrow> Inr (concat (map (first_host hs) names)))"

definition rse_submit :: "rse_state \<Rightarrow> rse_state" where
  "rse_submit s =
     (case rule_set_form_group s of None \<Rightarrow> s
      | Some f \<Rightarrow>
          (case values_to_send_back (sensor_list s) (sf_sensors f) of Inl _ \<Rightarrow> s
           | Inr hosts \<Rightarrow>
               let f' = f\<lparr>sf_sensors := JArr hosts\<rparr>
               in emit (DialogClose (JObj [(''valid'', JBool (sf_valid f')), (''value'', sf_value f')]))
                    (s\<lparr>rule_set_form_group := Some f'\<rparr>)))"

definition rse_api_catalog_status :: "string \<Rightarrow> js list \<Rightarrow> rse_state \<Rightarrow> rse_state" where
  "rse_api_catalog_status application selection = call (check_catalog_status application) (RSE_Status application selection)"

definition rse_api_change_sensor_selection_answer :: "string \<Rightarrow> reply \<Rightarrow> rse_state \<Rightarrow> rse_state" where
  "rse_api_change_sensor_selection_answer application =
     answered get_sensor_host_info
       (\<lambda>response s. let s' = s\<lparr>sensor_list := Some response, sensor_list_selection := []\<rparr>
          in rse_api_catalog_status application (sensor_list_selection s') s')
       (\<lambda>_. generate_return_error_snackbar_message ''retrieving sensor host info'' (Some MAT_SNACKBAR_CONFIGURATION_3000_DUR))"

definition sort_names :: "string comparator \<Rightarrow> js list \<Rightarrow> js_error + js list" where
  "sort_names lc vs =
     (if length vs < 2 then Inr vs
      else if list_all is_JStr vs then Inr (map JStr (alphanum lc (map the_str vs)))
      else Inl TypeError)"

definition rse_api_catalog_status_answer :: "string comparator \<Rightarrow> string \<Rightarrow> js list \<Rightarrow> reply \<Rightarrow> rse_state \<Rightarrow> rse_state" where
  "rse_api_catalog_status_answer lc application selection =
     answered (check_catalog_status application)
       (\<lambda>response s.
          let names = selection @
                map (\<lambda>c. js_get c ''hostname'') (filter (\<lambda>c. js_get c ''status'' = JStr ''DEPLOYED'') response)
          in if names = []
             then (displaySnackBar (JStr (''No sensors have '' @ application @
                 '' installed. To fix this go to the catalog page and install the desired application.''))
                 (Some MAT_SNACKBAR_CONFIGURATION_60000_DUR) s)\<lparr>sensor_list_selection := names\<rparr>
             else (case sort_names lc names of Inl _ \<Rightarrow> s
                   | Inr sorted_names \<Rightarrow> s\<lparr>sensor_list_selection := sorted_names\<rparr>))
       (\<lambda>_. generate_return_error_snackbar_message ''retrieving catalog status'' (Some MAT_SNACKBAR_CONFIGURATION_3000_DUR))"

text \<open>What the user does in the form. The button to submit also closes the dialog with its data
  (\<open>mat-dialog-close\<close>) before its handler does; the last of these is the result of the dialog. The
  sensors are chosen among the names that are offered.\<close>

datatype rse_event =
    RSE_OnInit | RSE_Name string | RSE_Clearance js | RSE_AppType js | RSE_Choose "js list" | RSE_Enable bool
  | RSE_Submit | RSE_Cancel

definition on_sf :: "(rule_set_form \<Rightarrow> rule_set_form) \<Rightarrow> rse_state \<Rightarrow> rse_state" where
  "on_sf g s = s\<lparr>rule_set_form_group := map_option g (rule_set_form_group s)\<rparr>"

fun rse_handle :: "rse_event \<Rightarrow> rse_state \<Rightarrow> rse_state" where
  "rse_handle RSE_OnInit s = rse_ngOnInit s"
| "rse_handle (RSE_Name t) s = on_sf (\<lambda>f. f\<lparr>sf_name := JStr t\<rparr>) s"
| "rse_handle (RSE_Clearance v) s = on_sf (\<lambda>f. f\<lparr>sf_clearance := v\<rparr>) s"
| "rse_handle (RSE_AppType v) s =
     (case rule_set_form_group s of
        Some f \<Rightarrow> if sf_app_type_disabled f then s else change_sensor_list v (on_sf (\<lambda>f. f\<lparr>sf_app_type := v\<rparr>) s)
      | None \<Rightarrow> s)"
| "rse_handle (RSE_Choose names) s =
     (if set names \<subseteq> set (sensor_list_selection s) then on_sf (\<lambda>f. f\<lparr>sf_sensors := JArr names\<rparr>) s else s)"
| "rse_handle (RSE_Enable b) s = on_sf (\<lambda>f. f\<lparr>sf_enabled := JBool b\<rparr>) s"
| "rse_handle RSE_Submit s =
     (case rule_set_form_group s of
        Some f \<Rightarrow> if sf_valid f then rse_submit (emit (DialogClose (rse_data s)) s) else s
      | None \<Rightarrow> s)"
| "rse_handle RSE_Cancel s = rse_cancel s"

fun rse_answer :: "string comparator \<Rightarrow> rse_request \<Rightarrow> reply \<Rightarrow> rse_state \<Rightarrow> rse_state" where
  "rse_answer lc (RSE_Sensors application) = rse_api_change_sensor_selection_answer application"
| "rse_answer lc (RSE_Status application selection) = rse_api_catalog_status_answer lc application selection"

definition rse_step :: "string comparator \<Rightarrow> rse_event event \<Rightarrow> rse_state \<Rightarrow> rse_state" where
  "rse_step lc = async_step rse_handle (rse_answer lc) (\<lambda>_ _ s. s)"

section \<open>The upload of a file with rules\<close>

record ru_state = world +
  ru_data :: js
  ru_form :: "(js \<times> js) option"
  ru_file_name :: "js option"
  ru_file :: js

definition ru_constructor :: "js \<Rightarrow> ru_state" where
  "ru_constructor data =
     \<lparr>trace = [], matSnackBarRef = None, ru_data = data, ru_form = None, ru_file_name = None, ru_file = JNull\<rparr>"

definition ru_cancel :: "ru_state \<Rightarrow> ru_state" where
  "ru_cancel = emit (DialogClose JUndef)"

text \<open>The control of the name is disabled, so the value of the form is the id and the form is valid.\<close>

definition ru_initialize_form :: "js \<Rightarrow> ru_state \<Rightarrow> ru_state" where
  "ru_initialize_form rule_set s =
     s\<lparr>ru_form := Some (if truthy rule_set then (new_control (js_get rule_set ''_id''), new_control (js_get rule_set ''name''))
       else (JStr ''0'', JStr []))\<rparr>"

definition ru_set_file_name_control :: "js \<Rightarrow> ru_state \<Rightarrow> ru_state" where
  "ru_set_file_name_control file s =
     (if notUndefNull file
      then s\<lparr>ru_file_name := map_option (\<lambda>_. js_get file ''name'') (ru_file_name s)\<rparr>
      else s\<lparr>ru_file_name := Some (JStr [])\<rparr>)"

definition ru_ngOnInit :: "ru_state \<Rightarrow> ru_state" where
  "ru_ngOnInit s =
     (if notUndefNull (js_get (ru_data s) ''rule_set'')
      then ru_set_file_name_control JNull (ru_initialize_form (js_get (ru_data s) ''rule_set'') s) else ru_cancel s)"

definition ru_get_file_name_place_holder :: "ru_state \<Rightarrow> string" where
  "ru_get_file_name_place_holder s = (if notUndefNull (ru_file s) then ''File Name'' else ''Select File For Upload'')"

definition ru_set_rules_file_to_upload :: "js \<Rightarrow> ru_state \<Rightarrow> ru_state" where
  "ru_set_rules_file_to_upload file s = ru_set_file_name_control file (s\<lparr>ru_file := file\<rparr>)"

text \<open>\<open>files.item(0)\<close> is \<open>null\<close> without a file.\<close>

definition ru_handle_file_input :: "js list \<Rightarrow> ru_state \<Rightarrow> ru_state" where
  "ru_handle_file_input files = ru_set_rules_file_to_upload (case files of [] \<Rightarrow> JNull | f # _ \<Rightarrow> f)"

definition ru_upload :: "ru_state \<Rightarrow> ru_state" where
  "ru_upload s =
     emit (DialogClose (JObj
       [(''form_group'', (case ru_form s of None \<Rightarrow> JUndef
           | Some (i, _) \<Rightarrow> JObj [(''valid'', JBool True), (''value'', JObj [(''_id'', i)])])),
        (''file_to_upload'', ru_file s)])) s"

datatype ru_event = RU_OnInit | RU_File "js list" | RU_Upload | RU_Cancel

fun ru_step :: "ru_event \<Rightarrow> ru_state \<Rightarrow> ru_state" where
  "ru_step RU_OnInit s = ru_ngOnInit s"
| "ru_step (RU_File files) s = ru_handle_file_input files s"
| "ru_step RU_Upload s = (if truthy (ru_file s) then ru_upload (emit (DialogClose (ru_data s)) s) else s)"
| "ru_step RU_Cancel s = ru_cancel s"

end
