(* ===== verification/Rule_Dialogs_Facts.thy ===== *)
theory Rule_Dialogs_Facts
  imports Rule_Dialogs Effects Json
begin

text \<open>
  What the dialogs of the policy page hand back to it and send themselves.
\<close>

lemma no_reports_close [simp]: "no_reports is_close"
  by (simp add: no_reports_def)

lemma closed_seen: "DialogClose v \<in> set (trace s) \<longleftrightarrow> DialogClose v \<in> set (seen is_close s)"
  by (simp add: seen_def)

section \<open>The form of a rule set\<close>

definition checked_rule_set :: "js \<Rightarrow> bool" where
  "checked_rule_set b \<longleftrightarrow> \<not> empty_input (js_get b ''name'') \<and> \<not> empty_input (js_get b ''clearance'') \<and>
     (\<exists>hosts. js_get b ''sensors'' = JArr hosts)"

text \<open>A result of the dialog: nothing, the data of the dialog, or the form of a checked rule set, with its type when
  the rule set is new.\<close>

definition rse_result :: "js \<Rightarrow> js \<Rightarrow> bool" where
  "rse_result data v \<longleftrightarrow> v = JUndef \<or> v = data \<or>
     (\<exists>b. v = JObj [(''valid'', JBool True), (''value'', b)] \<and> checked_rule_set b \<and>
       (js_get data ''action'' = JStr ''edit'' \<longrightarrow> js_get b ''appType'' = JUndef) \<and>
       (js_get data ''action'' \<noteq> JStr ''edit'' \<longrightarrow> \<not> empty_input (js_get b ''appType'')))"

text \<open>The form: its type is disabled for a rule set that exists, and its sensors are a list.\<close>

definition rse_form_ok :: "js \<Rightarrow> rule_set_form \<Rightarrow> bool" where
  "rse_form_ok data f \<longleftrightarrow> sf_app_type_disabled f = (js_get data ''action'' = JStr ''edit'') \<and> (\<exists>names. sf_sensors f = JArr names)"

definition rse_inv :: "js \<Rightarrow> rse_state \<Rightarrow> bool" where
  "rse_inv data s \<longleftrightarrow> rse_data s = data \<and> (\<forall>v. DialogClose v \<in> set (seen is_close s) \<longrightarrow> rse_result data v) \<and>
     (\<forall>f. rule_set_form_group s = Some f \<longrightarrow> rse_form_ok data f)"

lemma rse_more:
  "async.more s' = async.more s \<Longrightarrow> rse_data s' = rse_data s \<and> rule_set_form_group s' = rule_set_form_group s \<and> sensor_list s' = sensor_list s"
  for s s' :: rse_state
  by (cases s; cases s') simp

lemma rse_frames [simp]:
  "sensor_list (emit e s) = sensor_list s" "rse_data (emit e s) = rse_data s" "rule_set_form_group (emit e s) = rule_set_form_group s"
  "rse_data (call ep k s) = rse_data s" "rule_set_form_group (call ep k s) = rule_set_form_group s"
  "rse_data (displaySnackBar m c s) = rse_data s" "rule_set_form_group (displaySnackBar m c s) = rule_set_form_group s"
  "rse_data (generate_return_error_snackbar_message t c s) = rse_data s"
  "rule_set_form_group (generate_return_error_snackbar_message t c s) = rule_set_form_group s"
  for s :: rse_state
  using rse_more [of "emit e s" s] rse_more [of "call ep k s" s] rse_more [of "displaySnackBar m c s" s]
    rse_more [of "generate_return_error_snackbar_message t c s" s] by simp_all

lemma rse_seen [simp]:
  "seen f (s\<lparr>rse_title := t\<rparr>) = seen f s" "seen f (s\<lparr>sensor_list := hs\<rparr>) = seen f s"
  "seen f (s\<lparr>sensor_list_selection := vs\<rparr>) = seen f s" "seen f (s\<lparr>rule_set_form_group := g\<rparr>) = seen f s"
  for s :: rse_state
  by (simp_all add: seen_def)

lemma rse_inv_basic [simp, intro]:
  assumes "rse_inv data s"
  shows "rse_inv data (call ep k s)" "rse_inv data (displaySnackBar m c s)"
    "rse_inv data (generate_return_error_snackbar_message t c s)"
    "rse_inv data (emit (DialogClose JUndef) s)" "rse_inv data (emit (DialogClose (rse_data s)) s)"
    "rse_inv data (s\<lparr>requests := ks\<rparr>)" "rse_inv data (s\<lparr>dialogs := ds\<rparr>)" "rse_inv data (s\<lparr>rse_title := t\<rparr>)"
    "rse_inv data (s\<lparr>sensor_list := hs\<rparr>)" "rse_inv data (s\<lparr>sensor_list_selection := vs\<rparr>)"
  using assms by (auto simp: rse_inv_def rse_result_def)

lemma rse_inv_form [intro]:
  "rse_inv data s \<Longrightarrow> (\<And>f. rse_form_ok data f \<Longrightarrow> rse_form_ok data (g f)) \<Longrightarrow> rse_inv data (on_sf g s)"
  by (auto simp: rse_inv_def on_sf_def)

lemma rse_inv_initialize [intro]:
  "rse_inv data s \<Longrightarrow> is_edit = (js_get data ''action'' = JStr ''edit'') \<Longrightarrow> rse_initialize_form rs is_edit s = Inr s' \<Longrightarrow>
     rse_inv data s'"
  by (auto simp: rse_initialize_form_def rse_inv_def rse_form_ok_def Let_def smap_Inr_iff split: if_splits)

lemma rse_inv_init:
  assumes "rse_inv data s"
  shows "rse_inv data (rse_ngOnInit s)"
proof -
  have data: "rse_data s = data" using assms by (simp add: rse_inv_def)
  have "rse_inv data (rse_missing t s')" if "rse_inv data s'" for t s'
    using that by (simp add: rse_missing_def rse_cancel_def)
  then show ?thesis
    using assms by (auto simp: rse_ngOnInit_def Let_def data rse_api_change_sensor_selection_def settle_def
        split: sum.split intro!: rse_inv_basic(1) dest!: rse_inv_initialize [rotated 2])
qed

lemma sf_value_get:
  "js_get (sf_value f) ''name'' = sf_name f" "js_get (sf_value f) ''clearance'' = sf_clearance f"
  "js_get (sf_value f) ''sensors'' = sf_sensors f"
  "js_get (sf_value f) ''appType'' = (if sf_app_type_disabled f then JUndef else sf_app_type f)"
  by (simp_all add: sf_value_def)

lemma rse_inv_submit:
  assumes "rse_inv data s" "rule_set_form_group s = Some f" "sf_valid f"
  shows "rse_inv data (rse_submit s)"
  using assms
  by (auto simp: rse_submit_def rse_inv_def rse_form_ok_def rse_result_def checked_rule_set_def sf_valid_def sf_value_get Let_def
      split: sum.split)

lemma rse_handle_inv:
  assumes "rse_inv data s"
  shows "rse_inv data (rse_handle e s)"
proof (cases e)
  case RSE_OnInit
  then show ?thesis using assms by (simp add: rse_inv_init)
next
  case RSE_Submit
  have "rse_inv data (rse_submit (emit (DialogClose (rse_data s)) s))" if "rule_set_form_group s = Some f" "sf_valid f" for f
    using assms that by (intro rse_inv_submit) simp_all
  then show ?thesis using RSE_Submit assms by (simp split: option.split)
next
  case (RSE_AppType v)
  have "rse_inv data (on_sf (\<lambda>f. f\<lparr>sf_app_type := v\<rparr>) s)" by (rule rse_inv_form [OF assms]) (simp add: rse_form_ok_def)
  then show ?thesis
    using RSE_AppType assms by (simp add: change_sensor_list_def rse_api_change_sensor_selection_def split: option.split)
qed (use assms in \<open>auto simp: rse_cancel_def intro!: rse_inv_form intro: rse_inv_basic simp: rse_form_ok_def\<close>)

lemma rse_answer_inv:
  assumes "rse_inv data s"
  shows "rse_inv data (rse_answer lc k r s)"
proof -
  have frame: "rse_inv data s'" if "world.more s' = world.more s" "\<And>f. no_reports f \<Longrightarrow> seen f s' = seen f s" for s'
    using assms that rse_more [OF world_more_async, of s' s] by (simp add: rse_inv_def)
  show ?thesis
    by (cases k; simp add: rse_api_change_sensor_selection_answer_def rse_api_catalog_status_answer_def;
        rule answered_keeps [where P = "rse_inv data", OF assms])
      (auto simp: assms rse_api_catalog_status_def Let_def intro: frame split: sum.split)
qed

interpretation rule_set_dialog: async_component rse_handle "rse_answer lc" "\<lambda>_ _ s. s" "rse_inv data" for lc data
  by unfold_locales (simp_all add: rse_handle_inv rse_answer_inv)

lemma rse_run_inv: "rse_inv data (fold (rse_step lc) es (rse_constructor data))"
proof -
  have "rse_inv data (rse_constructor data)" by (simp add: rse_inv_def rse_constructor_def seen_def)
  from rule_set_dialog.machine.run_inv [OF this, of lc es] show ?thesis by (simp add: rse_step_def)
qed

lemma rse_results:
  assumes "DialogClose v \<in> set (trace (fold (rse_step lc) es (rse_constructor data)))"
  shows "rse_result data v"
  using assms rse_run_inv [of data lc es] by (simp add: rse_inv_def closed_seen)

text \<open>The values with which an event closes the dialog.\<close>

definition dialog_closed_with :: "'a world_scheme \<Rightarrow> 'b world_scheme \<Rightarrow> js \<Rightarrow> bool" where
  "dialog_closed_with s s' v \<longleftrightarrow> DialogClose v \<in> set (drop (length (seen is_close s)) (seen is_close s'))"

lemma dialog_closed_with_closed: "dialog_closed_with s s' v \<Longrightarrow> DialogClose v \<in> set (trace s')"
  by (auto simp: dialog_closed_with_def closed_seen dest: in_set_dropD)

text \<open>The hosts that stand for chosen names: for each name that a known host has, in the order of the names, a known host
  of that name.\<close>

definition hosts_named :: "js list \<Rightarrow> js list \<Rightarrow> js list \<Rightarrow> bool" where
  "hosts_named known names hosts \<longleftrightarrow>
     list_all2 (\<lambda>n h. h \<in> set known \<and> strict_eq n (js_get h ''hostname''))
       (filter (\<lambda>n. list_ex (\<lambda>h. strict_eq n (js_get h ''hostname'')) known) names) hosts"

definition known_sensors :: "rse_state \<Rightarrow> js list" where
  "known_sensors s = (case sensor_list s of None \<Rightarrow> [] | Some hosts \<Rightarrow> hosts)"

lemma first_host_cases:
  obtains h where "h \<in> set known" "strict_eq n (js_get h ''hostname'')" "first_host known n = [h]"
  | "\<not> list_ex (\<lambda>h. strict_eq n (js_get h ''hostname'')) known" "first_host known n = []"
proof (cases "filter (\<lambda>h. strict_eq n (js_get h ''hostname'')) known")
  case Nil
  then show thesis using that(2) by (simp add: first_host_def filter_empty_conv list_ex_iff)
next
  case (Cons h hs)
  then have "h \<in> set (filter (\<lambda>h. strict_eq n (js_get h ''hostname'')) known)" by simp
  then have "h \<in> set known" "strict_eq n (js_get h ''hostname'')" by (simp_all only: set_filter mem_Collect_eq)
  with Cons show thesis using that(1) [of h] by (simp add: first_host_def)
qed

lemma first_hosts_named: "hosts_named known names (concat (map (first_host known) names))"
proof (induction names)
  case (Cons n names)
  show ?case
    by (rule first_host_cases [of known n]) (use Cons in \<open>auto simp: hosts_named_def list_ex_iff\<close>)
qed (simp add: hosts_named_def)

lemma values_named: "values_to_send_back (sensor_list s) (JArr names) = Inr hosts \<Longrightarrow> hosts_named (known_sensors s) names hosts"
  using first_hosts_named [of "known_sensors s" names]
  by (cases names; cases "sensor_list s") (auto simp: values_to_send_back_def known_sensors_def)

text \<open>Only the button to submit closes the dialog with a value.\<close>

lemma rse_closes_otherwise:
  assumes "ev \<noteq> Act RSE_Submit"
  shows "dialog_closed_with s (rse_step lc ev s) v \<Longrightarrow> v = JUndef"
proof -
  have "seen is_close (rse_answer lc k r t) = seen is_close t" for k r t
    by (cases k; simp add: rse_api_change_sensor_selection_answer_def rse_api_catalog_status_answer_def; rule answered_quiet)
      (auto simp: rse_api_catalog_status_def Let_def split: sum.split)
  moreover have "seen is_close (settle t (rse_initialize_form rs e t)) = seen is_close t" for rs e t
    by (auto simp: settle_def rse_initialize_form_def Let_def smap_def split: sum.split)
  moreover have "rse_initialize_form rs e t = Inr t' \<Longrightarrow> seen is_close t' = seen is_close t" for rs e t t'
    by (auto simp: rse_initialize_form_def Let_def smap_Inr_iff split: if_splits)
  ultimately show "dialog_closed_with s (rse_step lc ev s) v \<Longrightarrow> v = JUndef"
    using assms
    by (cases ev; cases "case ev of Act a \<Rightarrow> a | _ \<Rightarrow> RSE_Cancel")
      (auto simp: dialog_closed_with_def rse_step_def async_step_def rse_ngOnInit_def Let_def rse_missing_def rse_cancel_def
        rse_api_change_sensor_selection_def on_sf_def change_sensor_list_def split: sum.splits if_splits option.splits)
qed

lemma rse_closes_submitted:
  assumes "dialog_closed_with s (rse_step lc (Act RSE_Submit) s) v" "rule_set_form_group s = Some f" "sf_sensors f = JArr names"
  shows "v = rse_data s \<or>
    (\<exists>hosts. hosts_named (known_sensors s) names hosts \<and> js_get (js_get v ''value'') ''sensors'' = JArr hosts)"
  using assms values_named [of "emit (DialogClose (rse_data s)) s" names]
  by (auto simp: dialog_closed_with_def rse_step_def async_step_def rse_submit_def Let_def sf_value_get known_sensors_def
      split: sum.splits if_splits)

text \<open>C28: the page of the policies and its form of a rule set together: whatever events the form has seen, the value
  with which an event closes it makes the page update nothing, or, when it is submitted, a rule set with a name and
  a clearance, without a type because the control of the type is disabled, and with the sensors the user chose:
  for each chosen name that a known host has, in their order, a known host of that name (none when no name is
  chosen, which the form allows).\<close>

theorem rule_set_updates_checked:
  assumes "dialog_closed_with s1 (rse_step lc ev s1) v" "s1 = fold (rse_step lc) es (rse_constructor (dialog_data rs rule ''edit''))"
  shows "sent (pm_edit_rule_set_closed v s) = sent s \<or>
    (\<exists>f names hosts b. ev = Act RSE_Submit \<and> rule_set_form_group s1 = Some f \<and> sf_sensors f = JArr names \<and>
       hosts_named (known_sensors s1) names hosts \<and> js_get b ''sensors'' = JArr hosts \<and>
       checked_rule_set b \<and> js_get b ''appType'' = JUndef \<and>
       sent (pm_edit_rule_set_closed v s) = sent s @ [Http PUT ''/api/policy/ruleset'' b])"
proof -
  let ?data = "dialog_data rs rule ''edit''"
  have inv: "rse_inv ?data s1"
    using rse_run_inv [of ?data lc es] assms(2) by simp
  have "DialogClose v \<in> set (trace (fold (rse_step lc) (es @ [ev]) (rse_constructor ?data)))"
    using dialog_closed_with_closed [OF assms(1)] assms(2) by simp
  then have "rse_result ?data v" by (rule rse_results)
  then consider (quiet) "v = JUndef \<or> v = ?data"
    | (form) b where "v = JObj [(''valid'', JBool True), (''value'', b)]" "checked_rule_set b" "js_get b ''appType'' = JUndef"
    by (auto simp: rse_result_def dialog_data_def)
  then show ?thesis
  proof cases
    case quiet
    then show ?thesis by (auto simp: pm_edit_rule_set_closed_def dialog_data_def notUndefNull_def)
  next
    case form
    then have ev: "ev = Act RSE_Submit" using rse_closes_otherwise [OF _ assms(1)] by auto
    have "rule_set_form_group s1 \<noteq> None" using assms(1) by (cases "rule_set_form_group s1") (simp_all add: ev dialog_closed_with_def rse_step_def async_step_def)
    then obtain f names where f: "rule_set_form_group s1 = Some f" "sf_sensors f = JArr names"
      using inv by (auto simp: rse_inv_def rse_form_ok_def)
    moreover have "v \<noteq> rse_data s1" using inv form(1) by (simp add: rse_inv_def dialog_data_def)
    ultimately obtain hosts where "hosts_named (known_sensors s1) names hosts" "js_get b ''sensors'' = JArr hosts"
      using rse_closes_submitted [OF assms(1) [unfolded ev] f] form(1) by auto
    with ev f form show ?thesis
      by (auto simp: pm_edit_rule_set_closed_def pm_api_update_rule_set_def update_rule_set_def endpoint_def notUndefNull_def sent_call)
  qed
qed

lemma rule_set_creations_checked:
  assumes "DialogClose v \<in> set (trace (fold (rse_step lc) es (rse_constructor (dialog_data rs rule ''add''))))"
  shows "sent (pm_add_rule_set_closed v s) = sent s \<or>
    (\<exists>b. checked_rule_set b \<and> \<not> empty_input (js_get b ''appType'') \<and>
       sent (pm_add_rule_set_closed v s) = sent s @ [Http POST ''/api/policy/ruleset'' b])"
  using rse_results [OF assms]
  by (auto simp: rse_result_def pm_add_rule_set_closed_def dialog_data_def pm_api_create_rule_set_def create_rule_set_def
      endpoint_def notUndefNull_def sent_call)

section \<open>The editor of a rule\<close>

text \<open>The requests that change a rule.\<close>

fun changes_rule :: "effect \<Rightarrow> bool" where
  "changes_rule (Http m url _) = (m \<in> {PUT, POST} \<and> url = ''/api/policy/rule'')"
| "changes_rule _ = False"

lemma no_reports_changes_rule [simp]: "no_reports changes_rule"
  by (simp add: no_reports_def)

text \<open>What the dialog is meant to send: the rule of the form, with the text of the editor and the id of the rule set,
  when the dialog that asks for the confirmation comes back with its form.\<close>

definition ra_payload :: "js \<Rightarrow> rule_form \<Rightarrow> ra_state \<Rightarrow> js" where
  "ra_payload response f s =
     (if notUndefNull (js_get (ra_data s) ''rule_set'')
      then JObj [(''ruleName'', rf_name f), (''rule'', text1 (ra_editor s)), (''isEnabled'', rf_enabled f), (''_id'', rf_id f),
             (''byPassValidation'', js_get (js_get response ''value'') ''byPassValidation''),
             (''rule_set_id'', js_get (js_get (ra_data s) ''rule_set'') ''_id'')]
      else JUndef)"

definition ra_expected :: "ra_event event \<Rightarrow> ra_state \<Rightarrow> effect list" where
  "ra_expected ev s =
     (case ev of
        Closed i v \<Rightarrow>
          if i < length (dialogs s) \<and> dialogs s ! i = RA_Save \<and> truthy (js_get v ''valid'') \<and> notUndefNull (ra_action s)
          then (case rule_form_group s of None \<Rightarrow> []
                | Some f \<Rightarrow> [Http (if ra_action s = JStr ''edit'' then PUT else POST) ''/api/policy/rule'' (ra_payload v f s)])
          else []
      | _ \<Rightarrow> [])"

lemma ra_more:
  "async.more s' = async.more s \<Longrightarrow> ra_data s' = ra_data s \<and> rule_form_group s' = rule_form_group s \<and> ra_editor s' = ra_editor s"
  for s s' :: ra_state
  by (cases s; cases s') simp

lemma ra_seen_fields [simp]:
  "seen f (s\<lparr>rule_form_group := g\<rparr>) = seen f s" "seen f (s\<lparr>ra_editor := m\<rparr>) = seen f s" "seen f (s\<lparr>ra_text := t\<rparr>) = seen f s"
  "seen f (s\<lparr>ra_pcaps := vs\<rparr>) = seen f s" "seen f (s\<lparr>ra_selected_pcap := v\<rparr>) = seen f s"
  for s :: ra_state
  by (simp_all add: seen_def)

lemma ra_missing_frame [simp]:
  "seen changes_rule (ra_missing t s) = seen changes_rule s"
  by (simp add: ra_missing_def ra_close_editor_def)

lemma ra_set_frame [simp]:
  "seen changes_rule (ra_set_text v s) = seen changes_rule s" "seen changes_rule (ra_set_rule_data v s) = seen changes_rule s"
  by (simp_all add: ra_set_text_def ra_set_rule_data_def Let_def)

lemma ra_rule_data_frame: "ra_get_rule_data s = Inr (rule, s') \<Longrightarrow> seen changes_rule s' = seen changes_rule s"
  by (auto simp: ra_get_rule_data_def split: if_splits option.splits)

lemma ra_init_frame: "seen changes_rule (ra_ngOnInit s) = seen changes_rule s"
  by (simp add: ra_ngOnInit_def ra_api_get_pcaps_def get_pcaps_def endpoint_def ra_get_is_user_adding_def ra_initialize_form_def
      ra_api_get_rule_content_def get_rule_content_def Let_def)

lemma ra_handle_frame: "seen changes_rule (ra_handle e s) = seen changes_rule s"
  by (cases e) (auto simp: ra_init_frame update_form_control_rule_text_def ra_save_def ra_close_def ra_test_rule_def
      test_rule_against_pcap_def endpoint_def ra_validate_def validate_rule_def dest: ra_rule_data_frame
      split: option.split sum.split)

lemma ra_answer_frame: "seen changes_rule (ra_answer k r s) = seen changes_rule s"
proof -
  let ?P = "\<lambda>s'. seen changes_rule s' = seen changes_rule s"
  have tested: "seen changes_rule (ra_tested v s') = seen changes_rule s'"
    "seen changes_rule (ra_test_failed st b s') = seen changes_rule s'" for v st b s'
    by (auto simp: ra_tested_def ra_test_failed_def Let_def split: sum.split)
  show ?thesis
    by (cases k; simp add: ra_api_get_pcaps_answer_def ra_api_get_rule_content_answer_def ra_api_update_rule_answer_def
          ra_api_create_rule_answer_def ra_api_test_rule_answer_def ra_api_validate_rule_answer_def;
        rule answered_keeps [where P = ?P])
      (auto simp: tested ra_saved_def ra_save_close_editor_def split: api_error.split option.split)
qed

text \<open>C20: a rule is created or updated exactly when the dialog that asks for the confirmation of its submission comes
  back with its form: one request, with the text that the editor shows, even when the form was not told of it.\<close>

theorem ra_changes_confirmed: "seen changes_rule (ra_step ev s) = seen changes_rule s @ ra_expected ev s"
proof (cases ev)
  case (Act e)
  then show ?thesis by (simp add: ra_step_def async_step_def ra_expected_def ra_handle_frame)
next
  case (Answer i r)
  then show ?thesis by (simp add: ra_step_def async_step_def ra_expected_def ra_answer_frame)
next
  case (Closed i v)
  let ?s = "s\<lparr>dialogs := remove_nth i (dialogs s)\<rparr>"
  have "seen changes_rule (ra_close_closed v ?s) = seen changes_rule s"
    by (simp add: ra_close_closed_def ra_close_editor_def)
  moreover have "seen changes_rule (ra_save_closed v ?s) = seen changes_rule s @
      (if truthy (js_get v ''valid'') \<and> notUndefNull (ra_action s)
       then (case rule_form_group s of None \<Rightarrow> []
             | Some f \<Rightarrow> [Http (if ra_action s = JStr ''edit'' then PUT else POST) ''/api/policy/rule'' (ra_payload v f s)])
       else [])"
  proof (cases "rule_form_group s")
    case (Some f)
    have "v \<noteq> JUndef \<and> v \<noteq> JNull" if "truthy (js_get v ''valid'')" using that by auto
    then show ?thesis
      using Some
      by (auto simp: ra_save_closed_def ra_get_return_text_def editor_text_save_def ra_close_and_save_def ra_set_rule_data_def
          ra_get_rule_data_def ra_action_def ra_payload_def rf_value_def ra_api_update_rule_def update_rule_def ra_api_create_rule_def
          create_rule_def endpoint_def notUndefNull_def)
  qed (simp add: ra_save_closed_def)
  ultimately show ?thesis
    using Closed by (cases "dialogs s ! i") (simp_all add: ra_step_def async_step_def ra_expected_def)
qed

section \<open>The upload\<close>

definition ru_result :: "js \<Rightarrow> js \<Rightarrow> bool" where
  "ru_result data v \<longleftrightarrow> v = JUndef \<or> v = data \<or> js_get v ''form_group'' = JUndef \<or>
     js_get (js_get v ''form_group'') ''value'' = JObj [(''_id'', new_control (js_get (js_get data ''rule_set'') ''_id''))]"

definition ru_inv :: "js \<Rightarrow> ru_state \<Rightarrow> bool" where
  "ru_inv data s \<longleftrightarrow> ru_data s = data \<and> (\<forall>v. DialogClose v \<in> set (trace s) \<longrightarrow> ru_result data v) \<and>
     (\<forall>i n. ru_form s = Some (i, n) \<longrightarrow> i = new_control (js_get (js_get data ''rule_set'') ''_id''))"

lemma ru_step_inv:
  assumes "truthy (js_get data ''rule_set'')" "ru_inv data s"
  shows "ru_inv data (ru_step e s)"
  using assms
  by (cases e) (auto simp: ru_inv_def ru_result_def ru_ngOnInit_def ru_cancel_def ru_initialize_form_def ru_set_file_name_control_def
      ru_handle_file_input_def ru_set_rules_file_to_upload_def ru_upload_def emit_def split: option.splits)

interpretation upload_dialog: event_machine ru_step "\<lambda>s. truthy (js_get data ''rule_set'') \<longrightarrow> ru_inv data s" for data
  by unfold_locales (simp add: ru_step_inv)

lemma ru_results:
  assumes "truthy (js_get data ''rule_set'')" "DialogClose v \<in> set (trace (fold ru_step es (ru_constructor data)))"
  shows "ru_result data v"
proof -
  have "ru_inv data (ru_constructor data)" by (simp add: ru_inv_def ru_constructor_def)
  then have "ru_inv data (fold ru_step es (ru_constructor data))"
    using upload_dialog.run_inv [of data "ru_constructor data" es] assms(1) by blast
  with assms(2) show ?thesis unfolding ru_inv_def by blast
qed

lemma upload_sends:
  "sent (pm_upload_rules_file_closed v s) = sent s \<or>
   (notUndefNull v \<and> notUndefNull (js_get v ''form_group'') \<and> (\<exists>file. sent (pm_upload_rules_file_closed v s) = sent s @
     [Http POST ''/api/policy/rule/upload'' (JObj [(''upload_file'', file), (''ruleSetForm'',
        case JSON_stringify (js_get (js_get v ''form_group'') ''value'') of None \<Rightarrow> JUndef | Some t \<Rightarrow> JStr t)])]))"
  by (simp add: pm_upload_rules_file_closed_def Let_def pm_api_upload_rule_file_def upload_rule_file_def endpoint_def sent_call
      split: sum.split)

text \<open>the page of the policies and its dialog for a file with rules together: what the page uploads is for the
  rule set whose button was pressed, and the text of the form that is sent along reads back as the object with
  its id.\<close>

theorem upload_for_its_rule_set:
  assumes "DialogClose v \<in> set (trace (fold ru_step es (ru_constructor (dialog_data (JObj kvs) rule ''add''))))"
    and "map_of kvs ''_id'' = Some (JStr i)" "sent (pm_upload_rules_file_closed v s) \<noteq> sent s"
  shows "\<exists>file t. sent (pm_upload_rules_file_closed v s) =
      sent s @ [Http POST ''/api/policy/rule/upload'' (JObj [(''upload_file'', file), (''ruleSetForm'', JStr t)])] \<and>
    JSON_parse t = Inr (JObj [(''_id'', JStr i)])"
proof -
  let ?data = "dialog_data (JObj kvs) rule ''add''"
  have sent: "notUndefNull v" "notUndefNull (js_get v ''form_group'')"
    using upload_sends [of v s] assms(3) by blast+
  have "js_get ?data ''form_group'' = JUndef" by (simp add: dialog_data_def)
  moreover have "ru_result ?data v" by (rule ru_results [OF _ assms(1)]) (simp add: dialog_data_def)
  ultimately have "js_get (js_get v ''form_group'') ''value'' = JObj [(''_id'', JStr i)]"
    using sent assms(2) by (auto simp: ru_result_def notUndefNull_def dialog_data_def new_control_def)
  then show ?thesis
    using upload_sends [of v s] assms(3) json_round_trip [of "JObj [(''_id'', JStr i)]"] by (auto simp: JSON_stringify_def)
qed

section \<open>The properties at concrete runs\<close>

definition rse_example_events :: "rse_event event list" where
  "rse_example_events =
     [Act RSE_OnInit, Answer 0 (Reply (JArr [JObj [(''hostname'', JStr ''sensor1'')]])), Act (RSE_Name ''web'')]"

definition rse_example_data :: js where
  "rse_example_data = JObj [(''_id'', JStr ''7''), (''name'', JStr ''old''), (''clearance'', JStr ''Unclassified''),
     (''appType'', JStr ''Suricata''), (''isEnabled'', JBool True), (''sensors'', JArr [JObj [(''hostname'', JStr ''sensor1'')]])]"

definition rse_example_result :: js where
  "rse_example_result = JObj [(''valid'', JBool True), (''value'', JObj [(''_id'', JStr ''7''), (''name'', JStr ''web''),
     (''clearance'', JStr ''Unclassified''),
     (''sensors'', JArr [JObj [(''hostname'', JStr ''sensor1''), (''mac'', JUndef), (''management_ip'', JUndef)]]),
     (''isEnabled'', JBool True)])]"

definition rse_example :: rse_state where
  "rse_example = fold (rse_step flat) rse_example_events (rse_constructor (dialog_data rse_example_data JUndef ''edit''))"

lemma rse_example_closes: "dialog_closed_with rse_example (rse_step flat (Act RSE_Submit) rse_example) rse_example_result"
  by code_simp

theorem rule_set_updates_checked_witness:
  "\<forall>s. \<exists>b hosts. checked_rule_set b \<and> js_get b ''sensors'' = JArr hosts \<and>
     hosts_named (known_sensors rse_example) [JStr ''sensor1''] hosts \<and>
     sent (pm_edit_rule_set_closed rse_example_result s) = sent s @ [Http PUT ''/api/policy/ruleset'' b]"
proof
  fix s
  have "sent (pm_edit_rule_set_closed rse_example_result s) \<noteq> sent s"
    by (simp add: pm_edit_rule_set_closed_def rse_example_result_def notUndefNull_def pm_api_update_rule_set_def sent_call)
  moreover have "map_option sf_sensors (rule_set_form_group rse_example) = Some (JArr [JStr ''sensor1''])"
    by code_simp
  ultimately show "\<exists>b hosts. checked_rule_set b \<and> js_get b ''sensors'' = JArr hosts \<and>
      hosts_named (known_sensors rse_example) [JStr ''sensor1''] hosts \<and>
      sent (pm_edit_rule_set_closed rse_example_result s) = sent s @ [Http PUT ''/api/policy/ruleset'' b]"
    using rule_set_updates_checked [OF rse_example_closes rse_example_def, of s] by auto
qed

definition ru_example_file :: js where
  "ru_example_file = JObj [(''name'', JStr ''web.rules'')]"

definition ru_example_result :: js where
  "ru_example_result = JObj [(''form_group'', JObj [(''valid'', JBool True), (''value'', JObj [(''_id'', JStr ''7'')])]),
     (''file_to_upload'', ru_example_file)]"

lemma ru_example_closes:
  "DialogClose ru_example_result \<in> set (trace (fold ru_step [RU_OnInit, RU_File [ru_example_file], RU_Upload]
     (ru_constructor (dialog_data (JObj [(''_id'', JStr ''7'')]) JUndef ''add''))))"
  by code_simp

theorem upload_for_its_rule_set_witness:
  "\<forall>s. \<exists>file t. sent (pm_upload_rules_file_closed ru_example_result s) =
      sent s @ [Http POST ''/api/policy/rule/upload'' (JObj [(''upload_file'', file), (''ruleSetForm'', JStr t)])] \<and>
    JSON_parse t = Inr (JObj [(''_id'', JStr ''7'')])"
proof
  fix s
  have "sent (pm_upload_rules_file_closed ru_example_result s) \<noteq> sent s"
    by (simp add: pm_upload_rules_file_closed_def ru_example_result_def ru_example_file_def notUndefNull_def Let_def
        pm_api_upload_rule_file_def sent_call)
  then show "\<exists>file t. sent (pm_upload_rules_file_closed ru_example_result s) =
      sent s @ [Http POST ''/api/policy/rule/upload'' (JObj [(''upload_file'', file), (''ruleSetForm'', JStr t)])] \<and>
    JSON_parse t = Inr (JObj [(''_id'', JStr ''7'')])"
    by (intro upload_for_its_rule_set [OF ru_example_closes]) simp_all
qed

end
