(* ===== verification/Health_Dashboard.thy ===== *)
theory Health_Dashboard
  imports Node_Management Sorting_Service More_Services
begin

text \<open>
  \<open>modules/health-dashboard/\<close>: the page of the health of the kits with its tables of nodes, pods and
  datastores. The page and its three children are one machine: a change of the selected kit is an input of
  two of the children, and the third exists only while the page shows it. Kits are objects with an identity
  (\<open>jsobj\<close>), because a change of input is a change of identity.
\<close>

section \<open>Sizes of datastores\<close>

text \<open>
  A size is an integer number of bytes, a space is in hundredths of its unit. \<open>Math.round\<close> takes the half
  up, so \<open>Math.round(((bytes / f) + Number.EPSILON) * 100)\<close> is the floor below; doubles agree with it for all
  powers \<open>f\<close> of 1024 that occur while \<open>bytes / f\<close> is below 2 to the power 15 (the quotients are multiples of a
  power of two that is larger than the rounding errors, \<open>EPSILON\<close> included).
\<close>

definition hundredths :: "int \<Rightarrow> int \<Rightarrow> int" where
  "hundredths bytes f = (200 * bytes + f) div (2 * f)"

definition SUFFIX_SELECTIONS :: "string list" where
  "SUFFIX_SELECTIONS = ['''', ''KiB'', ''MiB'', ''GiB'', ''TiB'']"

text \<open>The loop as it is written, with \<open>None\<close> for a run that does not end.\<close>

partial_function (option) space_loop :: "int \<Rightarrow> int \<Rightarrow> nat \<Rightarrow> (int \<times> nat) option" where
  "space_loop bytes factor n =
     (if factor < 1099511627776
      then if hundredths bytes (factor * 1024) \<le> 100 then Some (factor, n)
           else space_loop bytes (factor * 1024) (Suc n)
      else Some (factor, n))"

definition show_hundredths :: "int \<Rightarrow> string" where
  "show_hundredths h =
     (if h < 0 then ''-'' else []) @ show_nat (nat (\<bar>h\<bar> div 100)) @
     (let r = nat (\<bar>h\<bar> mod 100)
      in if r = 0 then [] else if r mod 10 = 0 then ''.'' @ show_nat (r div 10)
         else if r < 10 then ''.0'' @ show_nat r else ''.'' @ show_nat r)"

definition calculate_space :: "int \<Rightarrow> (int \<times> string) option" where
  "calculate_space bytes =
     map_option (\<lambda>(factor, n).
       let space = hundredths bytes factor
       in (space, show_hundredths space @ '' '' @ SUFFIX_SELECTIONS ! n)) (space_loop bytes 1 0)"

definition to_si :: "int \<Rightarrow> string option" where
  "to_si bytes = map_option snd (calculate_space bytes)"

definition chart_data :: "int \<Rightarrow> int \<Rightarrow> (int \<times> int) option" where
  "chart_data free_space capacity =
     (case (calculate_space free_space, calculate_space capacity) of
        (Some (free, _), Some (cap, _)) \<Rightarrow> Some (cap - free, cap)
      | _ \<Rightarrow> None)"

section \<open>Groups of pods\<close>

definition POD_STATUS_VALUES :: "string list" where
  "POD_STATUS_VALUES = [''check_circle'', ''circle'', ''warning'', ''error'', ''sync_problem'']"

definition is_pod_error_state :: "js \<Rightarrow> js \<Rightarrow> bool" where
  "is_pod_error_state sb warnings \<longleftrightarrow>
     sb \<in> {JStr ''Failed'', JStr ''Error''} \<or>
     num_gt warnings 0 \<and>
     sb \<notin> {JStr ''Pending'', JStr ''NotReady'', JStr ''Terminating'', JStr ''Unknown'', JStr ''ContainerCreating''}"

definition get_pod_icon_status :: "js \<Rightarrow> js \<Rightarrow> string" where
  "get_pod_icon_status sb warnings =
     POD_STATUS_VALUES !
       (if sb \<in> {JStr ''Running'', JStr ''Succeeded'', JStr ''Completed''} then 0
        else if sb \<in> {JStr ''Pending'', JStr ''ContainerCreating''} then 2
        else if sb = JStr ''Terminating'' then 1
        else if is_pod_error_state sb warnings then 3
        else 4)"

definition pod_icon :: "js \<Rightarrow> string" where
  "pod_icon pod = get_pod_icon_status (js_get pod ''status_brief'') (js_get pod ''warnings'')"

text \<open>\<open>POD_STATUS_VALUES.indexOf\<close>; what is no icon, as a pod, has the index -1.\<close>

definition icon_index :: "js \<Rightarrow> int" where
  "icon_index v =
     (case v of JStr t \<Rightarrow> (case find_index (\<lambda>u. u = t) POD_STATUS_VALUES of None \<Rightarrow> -1 | Some i \<Rightarrow> int i) | _ \<Rightarrow> -1)"

text \<open>\<open>reduce\<close> without an initial value: it starts with the first pod itself. The index of the group is given by its
  pods.\<close>

definition generate_group_status :: "js list \<Rightarrow> js_error + js" where
  "generate_group_status pods =
     (case pods of
        [] \<Rightarrow> Inl TypeError
      | [pod] \<Rightarrow> Inr (JStr (pod_icon pod))
      | pod # rest \<Rightarrow>
          Inr (fold (\<lambda>p status. if icon_index (JStr (pod_icon p)) > icon_index status then JStr (pod_icon p) else status) rest pod))"

definition pod_group :: "js \<Rightarrow> string" where
  "pod_group pod = (if notUndefNull (js_get pod ''node_name'') then str (js_get pod ''node_name'') else ''Unassigned'')"

text \<open>The accumulator is an object with an array for each name; names of nodes are no properties of the prototype of
  objects.\<close>

fun add_pod :: "string \<Rightarrow> js \<Rightarrow> (string \<times> js list) list \<Rightarrow> (string \<times> js list) list" where
  "add_pod k p [] = [(k, [p])]"
| "add_pod k p ((k', ps) # gs) = (if k = k' then (k', ps @ [p]) # gs else (k', ps) # add_pod k p gs)"

definition pod_groups :: "js list \<Rightarrow> (string \<times> js list) list" where
  "pod_groups pods = fold (\<lambda>p. add_pod (pod_group p) p) pods []"

definition get_container_status :: "js \<Rightarrow> js_error + string" where
  "get_container_status container_status =
     (let with_reason = (\<lambda>k st. if truthy (js_get (js_get st k) ''reason'')
            then k @ '': '' @ str (js_get (js_get st k) ''reason'') else k)
      in sbind (js_index (js_get container_status ''state'') ''running'') (\<lambda>running.
           let st = js_get container_status ''state''
           in Inr (if notUndefNull running then ''running''
              else if notUndefNull (js_get st ''terminated'') then with_reason ''terminated'' st
              else if notUndefNull (js_get st ''waiting'') then with_reason ''waiting'' st
              else [])))"

section \<open>State\<close>

datatype hd_request =
    HD_Status | HD_Remote | HD_Kibana | HD_Settings
  | HD_Nodes | HD_Rejects | HD_Suricata | HD_Zeek | HD_DescribeNode js
  | HD_Pods | HD_DescribePod js | HD_Logs js
  | HD_Datastores

record hd_state = "(hd_request, unit) async" +
  dashboard_status :: "js list"
  remote_dashboard_status :: "jsobj list"
  hd_token :: "jsobj option"
  hd_is_gip :: js
  kit_selected :: js
  hd_interval :: bool
  hd_next_ref :: nat
  is_nodes_visible :: bool
  hd_nodes :: "js list option"
  expanded_element :: js
  hd_write_rejects :: "js list"
  suricata_data :: "js list"
  zeek_data :: "js list"
  is_pods_visible :: bool
  expanded_group :: js
  group_data :: "(string \<times> js) list"
  filtered_group_data :: "js list list"
  datastores_shown :: bool
  datastores :: "js list"
  is_card_visible :: bool

definition LOCALHOST :: js where
  "LOCALHOST = JStr ''localhost''"

definition hd_constructor :: hd_state where
  "hd_constructor =
     \<lparr>trace = [], matSnackBarRef = None, requests = [], dialogs = [], dashboard_status = [], remote_dashboard_status = [],
      hd_token = None, hd_is_gip = JBool False, kit_selected = LOCALHOST, hd_interval = False, hd_next_ref = 0,
      is_nodes_visible = True, hd_nodes = None, expanded_element = JArr [], hd_write_rejects = [], suricata_data = [],
      zeek_data = [], is_pods_visible = True, expanded_group = JNull, group_data = [], filtered_group_data = [],
      datastores_shown = False, datastores = [], is_card_visible = True\<rparr>"

text \<open>The selected kit as the services get it.\<close>

definition token_js :: "hd_state \<Rightarrow> js" where
  "token_js s = (case hd_token s of None \<Rightarrow> JNull | Some t \<Rightarrow> obj_val t)"

text \<open>\<open>this.token && this.token.token == null\<close>\<close>

definition token_missing :: "hd_state \<Rightarrow> bool" where
  "token_missing s \<longleftrightarrow> (case hd_token s of None \<Rightarrow> False | Some t \<Rightarrow> \<not> notUndefNull (fld t ''token''))"

definition displayed_cols :: "(string \<times> bool) list \<Rightarrow> hd_state \<Rightarrow> string list" where
  "displayed_cols definitions s = map fst (filter (\<lambda>d. hd_token s = None \<or> snd d) definitions)"

definition node_displayed_cols :: "hd_state \<Rightarrow> string list" where
  "node_displayed_cols =
     displayed_cols [(''name'', True), (''address'', True), (''ready'', True), (''type'', True), (''storage'', True),
       (''memory'', True), (''cpu'', True), (''actions'', False), (''expand_col'', True)]"

definition pod_displayed_cols :: "hd_state \<Rightarrow> string list" where
  "pod_displayed_cols =
     displayed_cols [(''namespace'', True), (''name'', True), (''container_states'', True), (''restart_count'', True),
       (''actions'', False)]"

definition get_column_definitions :: "bool \<Rightarrow> string list" where
  "get_column_definitions remote =
     map fst (filter (\<lambda>d. remote \<or> snd d)
       [(''hostname'', False), (''ipaddress'', True), (''elasticsearch_status'', True), (''kibana_status'', True),
        (''actions'', False)])"

section \<open>The table of pods\<close>

definition generate_groups :: "string comparator \<Rightarrow> js list \<Rightarrow> hd_state \<Rightarrow> hd_state" where
  "generate_groups lc pods s =
     (let groups = pod_groups pods;
          group_names = alphanum lc (map fst groups);
          filtered = map (\<lambda>k. the (map_of groups k)) group_names
      in s\<lparr>filtered_group_data := filtered,
           group_data := concat (map (\<lambda>(k, ps). case generate_group_status ps of Inl _ \<Rightarrow> [] | Inr v \<Rightarrow> [(k, v)])
             (zip group_names filtered))\<rparr>)"

definition get_group :: "string \<Rightarrow> hd_state \<Rightarrow> (string \<times> js) option" where
  "get_group pod_name s = List.find (\<lambda>g. pod_name = fst g) (group_data s)"

definition api_get_pod_status :: "hd_state \<Rightarrow> hd_state" where
  "api_get_pod_status s = call (get_pods_status (token_js s)) HD_Pods s"

definition pods_reload :: "string comparator \<Rightarrow> hd_state \<Rightarrow> hd_state" where
  "pods_reload lc s = (if token_missing s then generate_groups lc [] s else api_get_pod_status s)"

definition api_get_pod_status_answer :: "string comparator \<Rightarrow> reply \<Rightarrow> hd_state \<Rightarrow> hd_state" where
  "api_get_pod_status_answer lc =
     answered (get_pods_status JNull) (generate_groups lc)
       (\<lambda>error s. report_error_or_message ''retrieving pods status'' error (generate_groups lc [] s))"

definition set_expanded_group :: "string \<Rightarrow> hd_state \<Rightarrow> hd_state" where
  "set_expanded_group pod_name s =
     s\<lparr>expanded_group := (if expanded_group s = JStr pod_name then JNull else JStr pod_name)\<rparr>"

definition toggle_pods_card :: "hd_state \<Rightarrow> hd_state" where
  "toggle_pods_card s = s\<lparr>is_pods_visible := \<not> is_pods_visible s\<rparr>"

text \<open>\<open>open_dialog_window_\<close> of both tables: the editor as a viewer of a text.\<close>

definition hd_open_dialog_window :: "js \<Rightarrow> js \<Rightarrow> hd_state \<Rightarrow> hd_state" where
  "hd_open_dialog_window title txt =
     emit (DialogOpen ''NGXMonacoTextEditorComponent''
       (JObj [(''show_options'', JBool False), (''is_read_only'', JBool True), (''title'', title), (''text'', txt),
              (''use_language'', JStr ''plaintext''), (''display_save'', JBool False), (''disable_save'', JBool True),
              (''confirm_save'', JUndef),
              (''confirm_close'', JObj [(''title'', JStr ''Close''), (''message'', JStr []), (''confirmButtonText'', JStr ''Close''),
                 (''successText'', JStr []), (''failText'', JStr []), (''useGeneralActionFunc'', JBool True)])]))"

definition api_describe_pod :: "js \<Rightarrow> js \<Rightarrow> hd_state \<Rightarrow> hd_state" where
  "api_describe_pod pod_name namespace = call (describe_pod pod_name namespace) (HD_DescribePod pod_name)"

definition api_describe_pod_answer :: "js \<Rightarrow> reply \<Rightarrow> hd_state \<Rightarrow> hd_state" where
  "api_describe_pod_answer pod_name =
     answered (describe_pod JUndef JUndef) (\<lambda>response. hd_open_dialog_window pod_name (js_get response ''stdout''))
       (\<lambda>_. report_error ''retrieving describe pod'')"

definition api_pod_logs :: "js \<Rightarrow> js \<Rightarrow> hd_state \<Rightarrow> hd_state" where
  "api_pod_logs pod_name namespace = call (pod_logs pod_name namespace) (HD_Logs pod_name)"

definition api_pod_logs_answer :: "js \<Rightarrow> reply \<Rightarrow> hd_state \<Rightarrow> hd_state" where
  "api_pod_logs_answer pod_name =
     answered (pod_logs JUndef JUndef)
       (\<lambda>logs. emit (DialogOpen ''PodLogDialogComponent'' (JObj [(''title'', pod_name), (''info'', JArr logs)])))
       (\<lambda>_. report_error ''retrieving pod logs'')"

section \<open>The table of nodes\<close>

definition api_get_node_status :: "hd_state \<Rightarrow> hd_state" where
  "api_get_node_status s = call (get_nodes_status (token_js s)) HD_Nodes s"

text \<open>\<open>expanded_element\<close> is an empty array or the node of a row; a node has no \<open>length\<close>.\<close>

definition nodes_reload :: "hd_state \<Rightarrow> hd_state" where
  "nodes_reload s =
     (if js_get (expanded_element s) ''length'' = JNum 0
      then if token_missing s then s\<lparr>hd_nodes := Some []\<rparr> else api_get_node_status s
      else s)"

definition packets_of :: "js \<Rightarrow> hd_state \<Rightarrow> js list" where
  "packets_of node s =
     filter (\<lambda>d. strict_eq (js_get d ''node_name'') (js_get node ''name'')) (suricata_data s) @
     filter (\<lambda>d. strict_eq (js_get d ''node_name'') (js_get node ''name'')) (zeek_data s)"

definition update_node_statuses :: "hd_state \<Rightarrow> hd_state" where
  "update_node_statuses s =
     s\<lparr>hd_nodes := map_option (map (\<lambda>node.
         let node' = js_set node ''app_data'' (JArr (packets_of node s))
         in if js_get node' ''type'' = JStr ''server'' then js_set node' ''write_rejects'' (JArr (hd_write_rejects s)) else node'))
       (hd_nodes s)\<rparr>"

definition api_write_rejects :: "hd_state \<Rightarrow> hd_state" where
  "api_write_rejects s = call (write_rejects (token_js s)) HD_Rejects s"

definition api_suricata_pckt_stats :: "hd_state \<Rightarrow> hd_state" where
  "api_suricata_pckt_stats s = call (suricata_pckt_stats (token_js s)) HD_Suricata s"

definition api_zeek_pckt_stats :: "hd_state \<Rightarrow> hd_state" where
  "api_zeek_pckt_stats s = call (zeek_pckt_stats (token_js s)) HD_Zeek s"

definition api_get_node_status_answer :: "reply \<Rightarrow> hd_state \<Rightarrow> hd_state" where
  "api_get_node_status_answer =
     answered (get_nodes_status JNull) (\<lambda>response s. api_write_rejects (s\<lparr>hd_nodes := Some response\<rparr>))
       (\<lambda>error s. report_error_or_message ''retrieving node status'' error (s\<lparr>hd_nodes := Some []\<rparr>))"

definition api_write_rejects_answer :: "reply \<Rightarrow> hd_state \<Rightarrow> hd_state" where
  "api_write_rejects_answer =
     answered (write_rejects JNull) (\<lambda>response s. api_suricata_pckt_stats (s\<lparr>hd_write_rejects := response\<rparr>))
       (report_error_or_message ''retrieving write rejects'')"

definition api_suricata_pckt_stats_answer :: "reply \<Rightarrow> hd_state \<Rightarrow> hd_state" where
  "api_suricata_pckt_stats_answer =
     answered (suricata_pckt_stats JNull) (\<lambda>response s. api_zeek_pckt_stats (s\<lparr>suricata_data := response\<rparr>))
       (report_error_or_message ''retrieving suricata pckt stats'')"

definition api_zeek_pckt_stats_answer :: "reply \<Rightarrow> hd_state \<Rightarrow> hd_state" where
  "api_zeek_pckt_stats_answer =
     answered (zeek_pckt_stats JNull) (\<lambda>response s. update_node_statuses (s\<lparr>zeek_data := response\<rparr>))
       (report_error_or_message ''retrieving zeek pckt stats'')"

definition api_describe_node :: "js \<Rightarrow> hd_state \<Rightarrow> hd_state" where
  "api_describe_node node_name = call (describe_node node_name) (HD_DescribeNode node_name)"

definition api_describe_node_answer :: "js \<Rightarrow> reply \<Rightarrow> hd_state \<Rightarrow> hd_state" where
  "api_describe_node_answer node_name =
     answered (describe_node JUndef) (\<lambda>response. hd_open_dialog_window node_name (js_get response ''stdout''))
       (\<lambda>_. report_error ''retrieving describe node'')"

definition toggle_nodes_card :: "hd_state \<Rightarrow> hd_state" where
  "toggle_nodes_card s = s\<lparr>is_nodes_visible := \<not> is_nodes_visible s\<rparr>"

text \<open>A click on a row, as the template has it.\<close>

definition expand_node :: "js \<Rightarrow> hd_state \<Rightarrow> hd_state" where
  "expand_node row s =
     s\<lparr>expanded_element := (if strict_eq (js_get (expanded_element s) ''name'') (js_get row ''name'') then JArr [] else row)\<rparr>"

section \<open>The datastores\<close>

definition api_get_datastores :: "hd_state \<Rightarrow> hd_state" where
  "api_get_datastores = call get_datastores HD_Datastores"

definition datastores_ngOnInit :: "hd_state \<Rightarrow> hd_state" where
  "datastores_ngOnInit s = api_get_datastores (s\<lparr>datastores := [], is_card_visible := True\<rparr>)"

definition toggle_card :: "hd_state \<Rightarrow> hd_state" where
  "toggle_card s = s\<lparr>is_card_visible := \<not> is_card_visible s\<rparr>"

definition datastores_reload :: "hd_state \<Rightarrow> hd_state" where
  "datastores_reload = api_get_datastores"

text \<open>A child that is gone has unsubscribed.\<close>

definition api_get_datastores_answer :: "reply \<Rightarrow> hd_state \<Rightarrow> hd_state" where
  "api_get_datastores_answer r s =
     (if datastores_shown s
      then answered get_datastores (\<lambda>response s. s\<lparr>datastores := response\<rparr>)
        (\<lambda>_ s. report_error ''retrieving datastore'' (s\<lparr>datastores := []\<rparr>)) r s
      else s)"

section \<open>The page\<close>

text \<open>Change detection after a handler: the children whose input has changed reload (the condition of their
  \<open>ngOnChanges\<close> names the method \<open>isFirstChange\<close> without calling it, so it always holds), and the datastores
  appear or go.\<close>

definition render_datastores :: "hd_state \<Rightarrow> hd_state" where
  "render_datastores s =
     (let shown = truthy (hd_is_gip s) \<and> hd_token s = None
      in if shown \<and> \<not> datastores_shown s then datastores_ngOnInit (s\<lparr>datastores_shown := True\<rparr>)
         else s\<lparr>datastores_shown := shown\<rparr>)"

definition ngOnChanges_token :: "string comparator \<Rightarrow> hd_state \<Rightarrow> hd_state" where
  "ngOnChanges_token lc s = pods_reload lc (nodes_reload s)"

definition render :: "string comparator \<Rightarrow> jsobj option \<Rightarrow> hd_state \<Rightarrow> hd_state" where
  "render lc previous s =
     render_datastores (if map_option obj_ref (hd_token s) \<noteq> map_option obj_ref previous then ngOnChanges_token lc s else s)"

definition api_get_health_dashboard_status :: "hd_state \<Rightarrow> hd_state" where
  "api_get_health_dashboard_status = call get_health_dashboard_status HD_Status"

definition api_get_remote_health_dashboard_status :: "hd_state \<Rightarrow> hd_state" where
  "api_get_remote_health_dashboard_status = call get_remote_health_dashboard_status HD_Remote"

definition api_get_kit_settings :: "hd_state \<Rightarrow> hd_state" where
  "api_get_kit_settings = call get_kit_settings HD_Settings"

definition api_get_kibana_info :: "js \<Rightarrow> hd_state \<Rightarrow> hd_state" where
  "api_get_kibana_info ip_address = call (get_kibana_info_remote ip_address) HD_Kibana"

text \<open>The children get their first input when the page is first rendered.\<close>

definition hd_ngOnInit :: "string comparator \<Rightarrow> hd_state \<Rightarrow> hd_state" where
  "hd_ngOnInit lc s =
     ngOnChanges_token lc (api_get_kit_settings (api_get_remote_health_dashboard_status
       (api_get_health_dashboard_status (emit (SetTitle ''Health'') s))))"

text \<open>Without the answer with the kit settings there is no subscription to end, and the snack bar stays.\<close>

definition hd_ngOnDestroy :: "hd_state \<Rightarrow> hd_state" where
  "hd_ngOnDestroy s = (if hd_interval s then destroySnackBar (s\<lparr>hd_interval := False\<rparr>) else s)"

definition select_token :: "jsobj option \<Rightarrow> hd_state \<Rightarrow> hd_state" where
  "select_token kit_token s =
     s\<lparr>hd_token := kit_token, kit_selected := (case kit_token of None \<Rightarrow> LOCALHOST | Some t \<Rightarrow> fld t ''ipaddress'')\<rparr>"

definition selected_tab_change :: "nat option \<Rightarrow> hd_state \<Rightarrow> hd_state" where
  "selected_tab_change event s =
     (case (event, remote_dashboard_status s) of
        (Some (Suc _), initial_token # _) \<Rightarrow> select_token (Some initial_token) s
      | _ \<Rightarrow> select_token None s)"

definition KIT_UNAVAILABLE :: string where
  "KIT_UNAVAILABLE = ''No data present or data is too old. Check that the remote health agent is running on the selected kit.''"

definition status_mat_tooltip :: "string \<Rightarrow> js \<Rightarrow> js" where
  "status_mat_tooltip k kit_token = (if notUndefNull kit_token then js_get kit_token k else JStr KIT_UNAVAILABLE)"

definition kit_select :: "jsobj option \<Rightarrow> hd_state \<Rightarrow> hd_state" where
  "kit_select kit_token s =
     (let s' = select_token kit_token (destroySnackBar s)
      in case kit_token of None \<Rightarrow> s'
         | Some t \<Rightarrow> if truthy (fld t ''token'') then s'
             else displaySnackBar (JStr KIT_UNAVAILABLE) (Some MAT_SNACKBAR_CONFIGURATION_60000_DUR_DISMISS) s')"

definition reload_tick :: "string comparator \<Rightarrow> hd_state \<Rightarrow> hd_state" where
  "reload_tick lc s =
     (let s1 = (if truthy (hd_is_gip s) \<and> hd_token s = None then datastores_reload s else s)
      in api_get_remote_health_dashboard_status (api_get_health_dashboard_status (pods_reload lc (nodes_reload s1))))"

definition hd_open_kibana :: "js list \<Rightarrow> hd_state \<Rightarrow> hd_state" where
  "hd_open_kibana key_values =
     emit (DialogOpen ''HealthDashboardDialogComponent'' (JObj [(''title'', JStr ''Kibana Login''), (''info'', JArr key_values)]))"

definition api_get_health_dashboard_status_answer :: "reply \<Rightarrow> hd_state \<Rightarrow> hd_state" where
  "api_get_health_dashboard_status_answer =
     answered get_health_dashboard_status (\<lambda>response s. s\<lparr>dashboard_status := response\<rparr>)
       (\<lambda>_. report_error ''retrieving health dashboard status'')"

definition api_get_remote_health_dashboard_status_answer :: "reply \<Rightarrow> hd_state \<Rightarrow> hd_state" where
  "api_get_remote_health_dashboard_status_answer =
     answered get_remote_health_dashboard_status
       (\<lambda>response s. s\<lparr>remote_dashboard_status := new_objs (hd_next_ref s) response, hd_next_ref := hd_next_ref s + length response\<rparr>)
       (\<lambda>_. report_error ''retrieving remote health dashboard status'')"

definition api_get_kibana_info_answer :: "reply \<Rightarrow> hd_state \<Rightarrow> hd_state" where
  "api_get_kibana_info_answer =
     answered (get_kibana_info_remote JUndef) hd_open_kibana
       (\<lambda>_. report_error ''retrieving health dashboard status kibana info remote'')"

definition api_get_kit_settings_answer :: "reply \<Rightarrow> hd_state \<Rightarrow> hd_state" where
  "api_get_kit_settings_answer =
     answered get_kit_settings
       (\<lambda>response s. case js_index response ''is_gip'' of Inl _ \<Rightarrow> s
          | Inr is_gip \<Rightarrow> render_datastores (s\<lparr>hd_is_gip := is_gip, hd_interval := True\<rparr>))
       (report_error_or_message ''retrieving kit settings'')"

section \<open>The page as a machine\<close>

datatype hd_action =
    HD_OnInit | HD_OnDestroy | HD_Tick | HD_Tab "nat option" | HD_SelectLocal | HD_SelectRemote nat | HD_KibanaClick js
  | HD_ToggleNodes | HD_ExpandNode nat | HD_DescribeNodeClick js
  | HD_TogglePods | HD_ExpandGroup string | HD_DescribePodClick js js | HD_LogsClick js js | HD_ToggleCard

fun hd_handle :: "string comparator \<Rightarrow> hd_action \<Rightarrow> hd_state \<Rightarrow> hd_state" where
  "hd_handle lc HD_OnInit s = hd_ngOnInit lc s"
| "hd_handle lc HD_OnDestroy s = hd_ngOnDestroy s"
| "hd_handle lc HD_Tick s = (if hd_interval s then reload_tick lc s else s)"
| "hd_handle lc (HD_Tab event) s = render lc (hd_token s) (selected_tab_change event s)"
| "hd_handle lc HD_SelectLocal s = render lc (hd_token s) (kit_select None s)"
| "hd_handle lc (HD_SelectRemote i) s =
     (if i < length (remote_dashboard_status s)
      then render lc (hd_token s) (kit_select (Some (remote_dashboard_status s ! i)) s) else s)"
| "hd_handle lc (HD_KibanaClick ip_address) s = api_get_kibana_info ip_address s"
| "hd_handle lc HD_ToggleNodes s = toggle_nodes_card s"
| "hd_handle lc (HD_ExpandNode i) s =
     (case hd_nodes s of None \<Rightarrow> s | Some ns \<Rightarrow> if i < length ns then expand_node (ns ! i) s else s)"
| "hd_handle lc (HD_DescribeNodeClick name) s = api_describe_node name s"
| "hd_handle lc HD_TogglePods s = toggle_pods_card s"
| "hd_handle lc (HD_ExpandGroup g) s = set_expanded_group g s"
| "hd_handle lc (HD_DescribePodClick pod namespace) s = api_describe_pod pod namespace s"
| "hd_handle lc (HD_LogsClick pod namespace) s = api_pod_logs pod namespace s"
| "hd_handle lc HD_ToggleCard s = toggle_card s"

fun hd_answer :: "string comparator \<Rightarrow> hd_request \<Rightarrow> reply \<Rightarrow> hd_state \<Rightarrow> hd_state" where
  "hd_answer lc HD_Status = api_get_health_dashboard_status_answer"
| "hd_answer lc HD_Remote = api_get_remote_health_dashboard_status_answer"
| "hd_answer lc HD_Kibana = api_get_kibana_info_answer"
| "hd_answer lc HD_Settings = api_get_kit_settings_answer"
| "hd_answer lc HD_Nodes = api_get_node_status_answer"
| "hd_answer lc HD_Rejects = api_write_rejects_answer"
| "hd_answer lc HD_Suricata = api_suricata_pckt_stats_answer"
| "hd_answer lc HD_Zeek = api_zeek_pckt_stats_answer"
| "hd_answer lc (HD_DescribeNode name) = api_describe_node_answer name"
| "hd_answer lc HD_Pods = api_get_pod_status_answer lc"
| "hd_answer lc (HD_DescribePod name) = api_describe_pod_answer name"
| "hd_answer lc (HD_Logs name) = api_pod_logs_answer name"
| "hd_answer lc HD_Datastores = api_get_datastores_answer"

definition hd_step :: "string comparator \<Rightarrow> hd_action event \<Rightarrow> hd_state \<Rightarrow> hd_state" where
  "hd_step lc = async_step (hd_handle lc) (hd_answer lc) (\<lambda>_ _ s. s)"

end
