(* ===== verification/Health_Facts.thy ===== *)
theory Health_Facts
  imports Health_Dashboard Effects
begin

text \<open>
  What the health dashboard shows: the loop that chooses the unit of a size ends, the groups of pods are those
  of the nodes, and the tables can belong to a kit other than the selected one.
\<close>

section \<open>Sizes\<close>

lemma space_loop_last: "space_loop bytes 1099511627776 4 = Some (1099511627776, 4)"
  by (subst space_loop.simps) simp

lemma space_loop_step:
  "factor < 1099511627776 \<Longrightarrow> space_loop bytes factor n =
     (if hundredths bytes (factor * 1024) \<le> 100 then Some (factor, n) else space_loop bytes (factor * 1024) (Suc n))"
  by (subst space_loop.simps) simp

text \<open>The unit of a size: the first power of 1024 whose successor is not exceeded by the size, four at most.\<close>

definition unit_exponent :: "int \<Rightarrow> nat" where
  "unit_exponent bytes = length (takeWhile (\<lambda>k. hundredths bytes (1024 ^ Suc k) > 100) [0 ..< 4])"

lemma space_loop_unit: "space_loop bytes 1 0 = Some (1024 ^ unit_exponent bytes, unit_exponent bytes)"
proof -
  have powers: "(1024::int) ^ Suc 0 = 1024" "(1024::int) ^ Suc 1 = 1048576" "(1024::int) ^ Suc 2 = 1073741824"
    "(1024::int) ^ Suc 3 = 1099511627776"
    by (simp_all add: eval_nat_numeral)
  have list: "[0 ..< 4] = [0, 1, 2, 3::nat]" by (simp add: upt_rec)
  show ?thesis
    using space_loop_step [of 1 bytes 0] space_loop_step [of 1024 bytes 1] space_loop_step [of 1048576 bytes 2]
      space_loop_step [of 1073741824 bytes 3] space_loop_last [of bytes]
    by (simp add: unit_exponent_def list powers eval_nat_numeral not_le)
qed

text \<open>C25: the loop that chooses the unit of a size ends for every number of bytes, after four rounds at most, so every
  size has one of the five units: the first that brings it to one or less of the next, in hundredths.\<close>

theorem space_loop_ends:
  "\<exists>k \<le> 4. space_loop bytes 1 0 = Some (1024 ^ k, k) \<and> (\<forall>j < k. hundredths bytes (1024 ^ Suc j) > 100) \<and>
     (k = 4 \<or> hundredths bytes (1024 ^ Suc k) \<le> 100) \<and> k < length SUFFIX_SELECTIONS"
proof (intro exI conjI)
  let ?P = "\<lambda>k. hundredths bytes (1024 ^ Suc k) > 100"
  show le: "unit_exponent bytes \<le> 4"
    using length_takeWhile_le [of ?P "[0 ..< 4]"] by (simp add: unit_exponent_def)
  show "space_loop bytes 1 0 = Some (1024 ^ unit_exponent bytes, unit_exponent bytes)" by (rule space_loop_unit)
  show "\<forall>j < unit_exponent bytes. hundredths bytes (1024 ^ Suc j) > 100"
  proof (intro allI impI)
    fix j assume j: "j < unit_exponent bytes"
    then have "takeWhile ?P [0 ..< 4] ! j \<in> set (takeWhile ?P [0 ..< 4])" by (simp add: unit_exponent_def)
    moreover have "takeWhile ?P [0 ..< 4] ! j = j" using j le by (simp add: unit_exponent_def takeWhile_nth)
    ultimately show "?P j" by (metis set_takeWhileD)
  qed
  show "unit_exponent bytes = 4 \<or> hundredths bytes (1024 ^ Suc (unit_exponent bytes)) \<le> 100"
    using nth_length_takeWhile [of ?P "[0 ..< 4]"] le by (force simp: unit_exponent_def not_less)
  show "unit_exponent bytes < length SUFFIX_SELECTIONS" using le by (simp add: SUFFIX_SELECTIONS_def)
qed

lemma hundredths_exact:
  assumes "f > 0" "bytes = q * f"
  shows "hundredths bytes f = 100 * q"
proof -
  have "200 * bytes + f = f * (200 * q + 1)" using assms(2) by (simp add: algebra_simps)
  then have "(200 * bytes + f) div (2 * f) = (200 * q + 1) div 2" using assms(1) by simp
  then show ?thesis by (simp add: hundredths_def)
qed

text \<open>the chart of a datastore subtracts numbers of different units: with \<open>g\<close> GiB free of \<open>t\<close> TiB the space in use
  is drawn as \<open>t - g\<close>.\<close>

theorem chart_mixes_units:
  assumes "2 \<le> g" "g \<le> 1024" "2 \<le> t"
  shows "chart_data (g * 1024 ^ 3) (t * 1024 ^ 4) = Some (100 * (t - g), 100 * t)"
proof -
  have h: "hundredths (g * 1073741824) 1024 = 100 * (g * 1048576)" "hundredths (g * 1073741824) 1048576 = 100 * (g * 1024)"
    "hundredths (g * 1073741824) 1073741824 = 100 * g" "hundredths (t * 1099511627776) 1024 = 100 * (t * 1073741824)"
    "hundredths (t * 1099511627776) 1048576 = 100 * (t * 1048576)" "hundredths (t * 1099511627776) 1073741824 = 100 * (t * 1024)"
    "hundredths (t * 1099511627776) 1099511627776 = 100 * t"
    by (rule hundredths_exact; simp)+
  have top: "hundredths (g * 1073741824) 1099511627776 \<le> 100"
    using assms(2) by (simp add: hundredths_def)
  have "space_loop (g * 1073741824) 1 0 = Some (1073741824, 3)"
    using assms(1) top by (simp add: space_loop_step h eval_nat_numeral)
  moreover have "space_loop (t * 1099511627776) 1 0 = Some (1099511627776, 4)"
    using assms(3) space_loop_last [of "t * 1099511627776"] by (simp add: space_loop_step h eval_nat_numeral)
  ultimately show ?thesis
    by (simp add: chart_data_def calculate_space_def Let_def h)
qed

section \<open>Groups of pods\<close>

lemma keys_add_pod: "fst ` set (add_pod k p gs) = insert k (fst ` set gs)"
  by (induction k p gs rule: add_pod.induct) auto

lemma distinct_add_pod: "distinct (map fst gs) \<Longrightarrow> distinct (map fst (add_pod k p gs))"
  by (induction k p gs rule: add_pod.induct) (auto simp: keys_add_pod)

lemma map_of_add_pod:
  "map_of (add_pod k p gs) k' = (if k' = k then Some ((case map_of gs k of None \<Rightarrow> [] | Some ps \<Rightarrow> ps) @ [p]) else map_of gs k')"
  by (induction gs) auto

lemma pod_groups_snoc: "pod_groups (pods @ [p]) = add_pod (pod_group p) p (pod_groups pods)"
  by (simp add: pod_groups_def)

lemma pod_groups_keys: "set (map fst (pod_groups pods)) = pod_group ` set pods"
  by (induction pods rule: rev_induct) (simp_all add: pod_groups_snoc keys_add_pod, simp add: pod_groups_def)

lemma pod_groups_distinct: "distinct (map fst (pod_groups pods))"
  by (induction pods rule: rev_induct) (simp_all add: pod_groups_snoc distinct_add_pod, simp add: pod_groups_def)

lemma map_of_pod_groups:
  "k \<in> pod_group ` set pods \<Longrightarrow> map_of (pod_groups pods) k = Some (filter (\<lambda>p. pod_group p = k) pods)"
proof (induction pods arbitrary: k rule: rev_induct)
  case (snoc p pods)
  have "map_of (pod_groups pods) (pod_group p) = None \<and> filter (\<lambda>q. pod_group q = pod_group p) pods = []"
    if "pod_group p \<notin> pod_group ` set pods"
    using that pod_groups_keys [of pods] by (auto simp: map_of_eq_None_iff filter_empty_conv image_iff)
  then have "(case map_of (pod_groups pods) (pod_group p) of None \<Rightarrow> [] | Some ps \<Rightarrow> ps) = filter (\<lambda>q. pod_group q = pod_group p) pods"
    using snoc.IH [of "pod_group p"] by (cases "pod_group p \<in> pod_group ` set pods") auto
  then show ?case using snoc by (auto simp: pod_groups_snoc map_of_add_pod)
qed simp

text \<open>The status the code gives to the pods of a group.\<close>

lemma group_status_exists: "ps \<noteq> [] \<Longrightarrow> \<exists>v. generate_group_status ps = Inr v"
  by (auto simp: generate_group_status_def split: list.split)

lemma generate_groups_data:
  "map fst (group_data (generate_groups lc pods s)) = alphanum lc (map fst (pod_groups pods))"
  "filtered_group_data (generate_groups lc pods s) =
     map (\<lambda>k. filter (\<lambda>p. pod_group p = k) pods) (alphanum lc (map fst (pod_groups pods)))"
proof -
  let ?names = "alphanum lc (map fst (pod_groups pods))"
  have names: "set ?names = pod_group ` set pods"
    using pod_groups_keys [of pods] by (simp add: alphanum_def)
  have the: "map (\<lambda>k. the (map_of (pod_groups pods) k)) ?names = map (\<lambda>k. filter (\<lambda>p. pod_group p = k) pods) ?names"
    using names by (intro map_cong) (simp_all add: map_of_pod_groups)
  then show "filtered_group_data (generate_groups lc pods s) = map (\<lambda>k. filter (\<lambda>p. pod_group p = k) pods) ?names"
    by (simp add: generate_groups_def Let_def)
  have "map fst (concat (map (\<lambda>(k, ps). case generate_group_status ps of Inl _ \<Rightarrow> [] | Inr v \<Rightarrow> [(k, v)])
      (zip ks (map (\<lambda>k. filter (\<lambda>p. pod_group p = k) pods) ks)))) = ks" if "set ks \<subseteq> pod_group ` set pods" for ks
    using that
  proof (induction ks)
    case (Cons k ks)
    then have "filter (\<lambda>p. pod_group p = k) pods \<noteq> []" by (auto simp: filter_empty_conv)
    with group_status_exists Cons show ?case by fastforce
  qed simp
  from this [of ?names] names show "map fst (group_data (generate_groups lc pods s)) = ?names"
    unfolding generate_groups_def Let_def the by simp
qed

text \<open>C33: after an answer with the pods, every pod is in exactly one group, the one of its node, in the order of the
  answer, and the groups are in the order of their names.\<close>

theorem pod_table_groups:
  assumes "i < length (requests s)" "requests s ! i = HD_Pods" "js_map_list new_PodStatusClass v = Inr pods"
  shows "let s' = hd_step lc (Answer i (Reply v)) s; names = map fst (group_data s')
    in filtered_group_data s' = map (\<lambda>k. filter (\<lambda>p. pod_group p = k) pods) names \<and>
       distinct names \<and> set names = pod_group ` set pods \<and> Sorting_Algorithms.sorted lc names"
proof -
  have "hd_step lc (Answer i (Reply v)) s = generate_groups lc pods (s\<lparr>requests := remove_nth i (requests s)\<rparr>)"
    using assms by (simp add: hd_step_def async_step_def api_get_pod_status_answer_def answered_def subscribe_def get_pods_status_def
        endpoint_def)
  moreover have "mset (alphanum lc (map fst (pod_groups pods))) = mset (map fst (pod_groups pods))"
    by (simp add: alphanum_def)
  moreover from this have "distinct (alphanum lc (map fst (pod_groups pods)))"
    using pod_groups_distinct [of pods] mset_eq_imp_distinct_iff by blast
  moreover have "set (alphanum lc (map fst (pod_groups pods))) = pod_group ` set pods"
    using pod_groups_keys [of pods] by (simp add: alphanum_def)
  moreover have "Sorting_Algorithms.sorted lc (alphanum lc (map fst (pod_groups pods)))" by (simp add: alphanum_def)
  ultimately show ?thesis by (simp only: Let_def generate_groups_data simp_thms)
qed

text \<open>the status of a group of two or more pods is the worst of its pods without the first: the reduction starts
  with the first pod in the place of a status. A kit whose first pod has failed is shown as healthy.\<close>

theorem group_status_skips_first:
  "generate_group_status (JObj kvs # p # pods) =
     Inr (JStr (POD_STATUS_VALUES ! nat (Max ((\<lambda>q. icon_index (JStr (pod_icon q))) ` set (p # pods)))))"
proof -
  have icon: "\<exists>n < 5. pod_icon q = POD_STATUS_VALUES ! n \<and> icon_index (JStr (pod_icon q)) = int n" for q
    by (auto simp: pod_icon_def get_pod_icon_status_def icon_index_def POD_STATUS_VALUES_def intro: exI [of _ "0::nat"])
  let ?i = "\<lambda>q. icon_index (JStr (pod_icon q))"
  have worst: "fold (\<lambda>p status. if ?i p > icon_index status then JStr (pod_icon p) else status) qs (JStr (pod_icon q)) =
      JStr (POD_STATUS_VALUES ! nat (Max (?i ` set (q # qs))))" for qs q
  proof (induction qs arbitrary: q)
    case Nil
    show ?case using icon [of q] by auto
  next
    case (Cons r qs)
    have "Max (?i ` set ((if ?i r > ?i q then r else q) # qs)) = Max (?i ` set (q # r # qs))"
      by (cases "qs = []") (auto simp: max_def)
    then show ?case using Cons [of "if ?i r > ?i q then r else q"] by (cases "?i r > ?i q") simp_all
  qed
  have "icon_index (JObj kvs) = -1" by (simp add: icon_index_def)
  moreover have "?i p > -1" using icon [of p] by auto
  ultimately show ?thesis using worst [of pods p] by (simp add: generate_group_status_def)
qed

section \<open>The tables and the selected kit\<close>

lemma hd_more:
  "async.more s' = async.more s \<Longrightarrow> expanded_element s' = expanded_element s \<and> hd_nodes s' = hd_nodes s \<and>
     hd_token s' = hd_token s \<and> remote_dashboard_status s' = remote_dashboard_status s \<and> hd_is_gip s' = hd_is_gip s \<and>
     filtered_group_data s' = filtered_group_data s \<and> datastores_shown s' = datastores_shown s"
  for s s' :: hd_state
  by (cases s; cases s') simp

lemma hd_frames [simp]:
  fixes s :: hd_state
  shows "expanded_element (emit e s) = expanded_element s" "hd_nodes (emit e s) = hd_nodes s" "hd_token (emit e s) = hd_token s"
    "expanded_element (call ep k s) = expanded_element s" "hd_nodes (call ep k s) = hd_nodes s" "hd_token (call ep k s) = hd_token s"
    "expanded_element (destroySnackBar s) = expanded_element s" "hd_nodes (destroySnackBar s) = hd_nodes s"
    "expanded_element (displaySnackBar m c s) = expanded_element s" "hd_nodes (displaySnackBar m c s) = hd_nodes s"
    "hd_token (displaySnackBar m c s) = hd_token s" "hd_token (destroySnackBar s) = hd_token s"
    "remote_dashboard_status (call ep k s) = remote_dashboard_status s"
    "remote_dashboard_status (displaySnackBar m c s) = remote_dashboard_status s"
    "remote_dashboard_status (destroySnackBar s) = remote_dashboard_status s"
    "filtered_group_data (call ep k s) = filtered_group_data s"
  using hd_more [OF world_more_async, of "emit e s" s] hd_more [of "call ep k s" s]
    hd_more [OF world_more_async, of "destroySnackBar s" s] hd_more [OF world_more_async, of "displaySnackBar m c s" s]
  by simp_all

definition node_requests :: "hd_state \<Rightarrow> hd_request list" where
  "node_requests s = filter (\<lambda>k. k = HD_Nodes) (requests s)"

lemma world_requests [simp]:
  "requests (emit e s) = requests s" "requests (destroySnackBar s) = requests s" "requests (displaySnackBar m c s) = requests s"
  for s :: hd_state
  using world_more_requests [of "emit e s" s] world_more_requests [of "destroySnackBar s" s]
    world_more_requests [of "displaySnackBar m c s" s] by simp_all

definition keeps_nodes :: "hd_state \<Rightarrow> hd_state \<Rightarrow> bool" where
  "keeps_nodes s s' \<longleftrightarrow> hd_nodes s' = hd_nodes s \<and> node_requests s' = node_requests s \<and> expanded_element s' = expanded_element s"

lemma keeps_nodes_trans: "keeps_nodes s t \<Longrightarrow> keeps_nodes t u \<Longrightarrow> keeps_nodes s u"
  by (simp add: keeps_nodes_def)

lemma keeps_nodes_refl [simp]: "keeps_nodes s s"
  by (simp add: keeps_nodes_def)

lemma handle_keeps_nodes:
  assumes "js_get (expanded_element s) ''length'' \<noteq> JNum 0" "\<And>i. a \<noteq> HD_ExpandNode i"
  shows "keeps_nodes s (hd_handle lc a s)"
proof -
  have reload: "nodes_reload t = t" if "expanded_element t = expanded_element s" for t
    using assms(1) that by (simp add: nodes_reload_def)
  have pods: "keeps_nodes t (pods_reload lc t)" for t
    by (simp add: keeps_nodes_def node_requests_def pods_reload_def generate_groups_def api_get_pod_status_def Let_def)
  have stores: "keeps_nodes t (render_datastores t)" for t
    by (simp add: keeps_nodes_def node_requests_def render_datastores_def datastores_ngOnInit_def api_get_datastores_def Let_def)
  have tokens: "keeps_nodes t (ngOnChanges_token lc t)" if "expanded_element t = expanded_element s" for t
    using pods [of t] that by (simp add: ngOnChanges_token_def reload)
  have render: "keeps_nodes t (render lc previous t)" if "expanded_element t = expanded_element s" for previous t
    using stores [of t] keeps_nodes_trans [OF tokens [OF that] stores] by (simp add: render_def)
  have select: "keeps_nodes s (select_token kt (destroySnackBar s))" "keeps_nodes s (select_token kt s)" for kt
    by (simp_all add: keeps_nodes_def node_requests_def select_token_def)
  have changes: "keeps_nodes s (render lc previous t)" if "keeps_nodes s t" for previous t
    using that render [of t] keeps_nodes_trans [OF that] by (simp add: keeps_nodes_def)
  have kit: "keeps_nodes s (kit_select kt s)" for kt
    using select(1) [of kt] by (auto simp: kit_select_def Let_def keeps_nodes_def node_requests_def split: option.split)
  have tab: "keeps_nodes s (selected_tab_change ev s)" for ev
    using select(2) by (auto simp: selected_tab_change_def split: option.split nat.split list.split)
  show ?thesis
  proof (cases a)
    case HD_Tick
    then show ?thesis
      using pods [of "if truthy (hd_is_gip s) \<and> hd_token s = None then datastores_reload s else s"]
      by (auto simp: reload_tick_def Let_def reload keeps_nodes_def node_requests_def datastores_reload_def api_get_datastores_def
          api_get_remote_health_dashboard_status_def api_get_health_dashboard_status_def)
  next
    case HD_OnInit
    then show ?thesis
      using pods by (auto simp: hd_ngOnInit_def ngOnChanges_token_def reload keeps_nodes_def node_requests_def
          api_get_kit_settings_def api_get_remote_health_dashboard_status_def api_get_health_dashboard_status_def)
  qed (use assms(2) changes kit tab in \<open>auto simp: hd_ngOnDestroy_def keeps_nodes_def node_requests_def api_get_kibana_info_def
      toggle_nodes_card_def api_describe_node_def toggle_pods_card_def set_expanded_group_def api_describe_pod_def
      api_pod_logs_def toggle_card_def\<close>)
qed

text \<open>while a row of the table of nodes is open, whatever the user selects and however often the page refreshes,
  the table keeps its nodes and does not ask for others, so under another kit it shows the nodes of the one
  before.\<close>

theorem open_row_keeps_nodes:
  assumes "js_get (expanded_element s) ''length'' \<noteq> JNum 0" "\<forall>a \<in> set actions. \<forall>i. a \<noteq> HD_ExpandNode i"
  shows "hd_nodes (fold (hd_step lc) (map Act actions) s) = hd_nodes s \<and>
    node_requests (fold (hd_step lc) (map Act actions) s) = node_requests s"
proof -
  have "keeps_nodes s (fold (hd_step lc) (map Act actions) s)"
    using assms
  proof (induction actions arbitrary: s)
    case (Cons a actions)
    then have "keeps_nodes s (hd_step lc (Act a) s)" by (simp add: hd_step_def async_step_def handle_keeps_nodes)
    moreover from this Cons have "keeps_nodes (hd_step lc (Act a) s) (fold (hd_step lc) (map Act actions) (hd_step lc (Act a) s))"
      by (simp add: keeps_nodes_def)
    ultimately show ?case using keeps_nodes_trans by simp
  qed simp
  then show ?thesis by (simp add: keeps_nodes_def)
qed

lemma select_remote:
  assumes "i < length (remote_dashboard_status s)" "remote_dashboard_status s ! i = kit" "truthy (fld kit ''token'')"
    and "map_option obj_ref (hd_token s) \<noteq> Some (obj_ref kit)" "js_get (expanded_element s) ''length'' = JNum 0"
  shows "requests (hd_step lc (Act (HD_SelectRemote i)) s) = requests s @ [HD_Nodes, HD_Pods]"
    "hd_token (hd_step lc (Act (HD_SelectRemote i)) s) = Some kit"
    "remote_dashboard_status (hd_step lc (Act (HD_SelectRemote i)) s) = remote_dashboard_status s"
    "expanded_element (hd_step lc (Act (HD_SelectRemote i)) s) = expanded_element s"
proof -
  have "notUndefNull (fld kit ''token'')" using assms(3) by (cases "fld kit ''token''") (simp_all add: notUndefNull_def)
  then show "requests (hd_step lc (Act (HD_SelectRemote i)) s) = requests s @ [HD_Nodes, HD_Pods]"
    "hd_token (hd_step lc (Act (HD_SelectRemote i)) s) = Some kit"
    "remote_dashboard_status (hd_step lc (Act (HD_SelectRemote i)) s) = remote_dashboard_status s"
    "expanded_element (hd_step lc (Act (HD_SelectRemote i)) s) = expanded_element s"
    using assms by (cases "hd_token s"; auto simp: hd_step_def async_step_def kit_select_def select_token_def Let_def render_def render_datastores_def
        ngOnChanges_token_def nodes_reload_def pods_reload_def token_missing_def api_get_node_status_def api_get_pod_status_def)+
qed

lemma pods_answer:
  assumes "i < length (requests s)" "requests s ! i = HD_Pods" "js_map_list new_PodStatusClass v = Inr pods"
  shows "hd_step lc (Answer i (Reply v)) s = generate_groups lc pods (s\<lparr>requests := remove_nth i (requests s)\<rparr>)"
  using assms by (simp add: hd_step_def async_step_def api_get_pod_status_answer_def answered_def subscribe_def get_pods_status_def
      endpoint_def)

text \<open>the answer for a kit that is no longer selected replaces the pods of the selected one: after one kit and then
  another were chosen, and the second answered first, the page names the second and shows the pods of the first.\<close>

theorem late_answer_shows_other_kit:
  assumes "i < length (remote_dashboard_status s)" "j < length (remote_dashboard_status s)"
    and "remote_dashboard_status s ! i = first" "remote_dashboard_status s ! j = second" "obj_ref first \<noteq> obj_ref second"
    and "truthy (fld first ''token'')" "truthy (fld second ''token'')"
    and "hd_token s = None" "js_get (expanded_element s) ''length'' = JNum 0"
    and "js_map_list new_PodStatusClass v = Inr pods" "js_map_list new_PodStatusClass w = Inr pods'"
  shows "let n = length (requests s);
      s' = fold (hd_step lc) [Act (HD_SelectRemote i), Act (HD_SelectRemote j), Answer (n + 3) (Reply w), Answer (n + 1) (Reply v)] s
    in hd_token s' = Some second \<and>
       filtered_group_data s' = map (\<lambda>k. filter (\<lambda>p. pod_group p = k) pods) (alphanum lc (map fst (pod_groups pods)))"
proof -
  let ?n = "length (requests s)"
  define s1 where "s1 = hd_step lc (Act (HD_SelectRemote i)) s"
  define s2 where "s2 = hd_step lc (Act (HD_SelectRemote j)) s1"
  have 1: "requests s1 = requests s @ [HD_Nodes, HD_Pods]" "hd_token s1 = Some first"
      "remote_dashboard_status s1 = remote_dashboard_status s" "expanded_element s1 = expanded_element s"
    using select_remote [OF assms(1,3,6)] assms(8,9) by (simp_all add: s1_def)
  have 2: "requests s2 = requests s @ [HD_Nodes, HD_Pods, HD_Nodes, HD_Pods]" "hd_token s2 = Some second"
    using select_remote [of j s1 second lc] assms 1 by (simp_all add: s2_def)
  define s3 where "s3 = hd_step lc (Answer (?n + 3) (Reply w)) s2"
  have "s3 = generate_groups lc pods' (s2\<lparr>requests := remove_nth (?n + 3) (requests s2)\<rparr>)"
    unfolding s3_def by (rule pods_answer) (simp_all add: 2 nth_append assms(11))
  then have 3: "requests s3 = requests s @ [HD_Nodes, HD_Pods, HD_Nodes]" "hd_token s3 = Some second"
    by (simp_all add: generate_groups_def Let_def 2 remove_nth_def)
  have "hd_step lc (Answer (?n + 1) (Reply v)) s3 = generate_groups lc pods (s3\<lparr>requests := remove_nth (?n + 1) (requests s3)\<rparr>)"
    by (rule pods_answer) (simp_all add: 3 nth_append assms(10))
  then show ?thesis
    by (simp add: s1_def [symmetric] s2_def [symmetric] s3_def [symmetric] Let_def generate_groups_data(2))
      (simp add: generate_groups_def Let_def 3)
qed

section \<open>The properties at concrete runs\<close>

theorem space_loop_ends_witness: "\<exists>k. space_loop 5368709120 1 0 = Some (1024 ^ k, k) \<and> k < 5"
proof -
  obtain k where "space_loop 5368709120 1 0 = Some (1024 ^ k, k)" "k < length SUFFIX_SELECTIONS"
    using space_loop_ends [of 5368709120] by blast
  then show ?thesis by (auto simp: SUFFIX_SELECTIONS_def)
qed

theorem chart_mixes_units_witness: "chart_data (512 * 1024 ^ 3) (2 * 1024 ^ 4) = Some (- 51000, 200)"
  using chart_mixes_units [of 512 2] by simp

definition hd_example :: hd_state where
  "hd_example = hd_constructor\<lparr>remote_dashboard_status :=
     new_objs 0 [JObj [(''ipaddress'', JStr ''10.0.0.1''), (''token'', JStr ''a'')],
                 JObj [(''ipaddress'', JStr ''10.0.0.2''), (''token'', JStr ''b'')]], requests := [HD_Pods],
     hd_nodes := Some [JObj [(''name'', JStr ''sensor1'')]]\<rparr>"

lemma hd_example_fields:
  "requests hd_example = [HD_Pods]" "hd_token hd_example = None" "expanded_element hd_example = JArr []"
  "remote_dashboard_status hd_example =
     [\<lparr>obj_ref = 0, obj_val = JObj [(''ipaddress'', JStr ''10.0.0.1''), (''token'', JStr ''a'')]\<rparr>,
      \<lparr>obj_ref = 1, obj_val = JObj [(''ipaddress'', JStr ''10.0.0.2''), (''token'', JStr ''b'')]\<rparr>]"
  "hd_nodes hd_example = Some [JObj [(''name'', JStr ''sensor1'')]]"
  by (simp_all add: hd_example_def hd_constructor_def new_objs_def)

theorem pod_table_groups_witness: "filtered_group_data (hd_step flat (Answer 0 (Reply (JArr []))) hd_example) = []"
  using pod_table_groups [of 0 hd_example "JArr []" "[]" flat] by (simp add: hd_example_fields Let_def js_map_list_def)

theorem open_row_keeps_nodes_witness:
  "let s = hd_step flat (Act (HD_ExpandNode 0)) hd_example
   in hd_nodes (fold (hd_step flat) (map Act [HD_SelectRemote 0, HD_Tick]) s) = Some [JObj [(''name'', JStr ''sensor1'')]] \<and>
      node_requests (fold (hd_step flat) (map Act [HD_SelectRemote 0, HD_Tick]) s) = []"
proof -
  let ?s = "hd_step flat (Act (HD_ExpandNode 0)) hd_example"
  have s: "expanded_element ?s = JObj [(''name'', JStr ''sensor1'')]" "hd_nodes ?s = hd_nodes hd_example" "requests ?s = requests hd_example"
    by (simp_all add: hd_step_def async_step_def expand_node_def hd_example_fields strict_eq_def element_index_def)
  then show ?thesis
    using open_row_keeps_nodes [of ?s "[HD_SelectRemote 0, HD_Tick]" flat]
    by (simp add: Let_def hd_example_fields node_requests_def)
qed

theorem late_answer_shows_other_kit_witness:
  "hd_token (fold (hd_step flat) [Act (HD_SelectRemote 0), Act (HD_SelectRemote 1), Answer 4 (Reply (JArr [])), Answer 2 (Reply (JArr []))]
     hd_example) = Some \<lparr>obj_ref = 1, obj_val = JObj [(''ipaddress'', JStr ''10.0.0.2''), (''token'', JStr ''b'')]\<rparr>"
  using late_answer_shows_other_kit [of 0 hd_example 1 _ _ "JArr []" "[]" "JArr []" "[]" flat, OF _ _ refl refl]
  by (simp add: hd_example_fields Let_def js_map_list_def numeral_2_eq_2)

end
