(* ===== verification/Settings_Forms.thy ===== *)
theory Settings_Forms
  imports Form_Fields Mip_Management More_Services
begin

text \<open>
  The forms of the settings page: form groups with controls that are disabled and enabled, and with a control
  that must repeat another one; the tables of \<open>modules/system-settings/validators/\<close> and the patterns of
  \<open>modules/system-settings/constants/system-settings.constant.ts\<close>.

  A disabled control is neither valid nor invalid and its validators do not run. A group is valid when one of
  its controls is enabled and no enabled control is invalid. Validation of a control first sets its status to
  valid, so it is valid when a validator throws.
\<close>

section \<open>Controls\<close>

record setting = field +
  st_disabled :: bool
  st_parent :: "string option"

record settings_form =
  sf_controls :: "(string \<times> setting) list"
  sf_dirty :: bool
  sf_touched :: bool

definition setting_stat :: "setting \<Rightarrow> ctl_status" where
  "setting_stat f = (if st_disabled f then DISABLED else if fd_valid f then VALID else INVALID)"

definition setting_control :: "setting \<Rightarrow> control" where
  "setting_control f =
     FormControl \<lparr>ctl_value = fd_value f, ctl_touched = fd_touched f, ctl_stat = setting_stat f, ctl_errors = None\<rparr>"

definition parent_ops :: "control \<Rightarrow> validator_ops" where
  "parent_ops c = \<lparr>uniqueArray = NoArray, formControlName = None, ops_index = None, parentControl = Some c,
     parentFormGroup = None, minRequiredArray = NoArray, minRequireControl = [], minRequiredValue = JUndef, minRequired = 0,
     error_message_subject = None\<rparr>"

definition setting_ops :: "(string \<times> setting) list \<Rightarrow> setting \<Rightarrow> validator_ops option" where
  "setting_ops cs f = map_option (\<lambda>p. parent_ops (setting_control p)) (Option.bind (st_parent f) (map_of cs))"

definition setting_validate :: "(string \<times> setting) list \<Rightarrow> setting \<Rightarrow> setting attempt" where
  "setting_validate cs f =
     (if st_disabled f then done_with f
      else case fd_rules f of
        None \<Rightarrow> done_with (f\<lparr>fd_valid := True\<rparr>)
      | Some vs \<Rightarrow>
          (case validateFromArray vs (setting_ops cs f) (setting_control f) of
             Inl e \<Rightarrow> (Some e, f\<lparr>fd_valid := True\<rparr>)
           | Inr error \<Rightarrow> done_with (f\<lparr>fd_valid := (error = None)\<rparr>)))"

text \<open>\<open>new FormControl(v, validators)\<close>, where the validators may have captured the control of the group with
  the name \<open>parent\<close>.\<close>

definition new_setting :: "(string \<times> setting) list \<Rightarrow> js \<Rightarrow> validator_object list option \<Rightarrow> string option \<Rightarrow> setting attempt" where
  "new_setting cs v rules parent =
     setting_validate cs \<lparr>fd_value = v, fd_touched = False, fd_dirty = False, fd_rules = rules, fd_valid = True,
       st_disabled = False, st_parent = parent\<rparr>"

text \<open>The controls of a group in the order they are made. A constructor that throws leaves no group.\<close>

fun make_settings :: "(string \<times> js \<times> validator_object list option \<times> string option) list \<Rightarrow> (string \<times> setting) list \<Rightarrow>
    js_error + (string \<times> setting) list" where
  "make_settings [] cs = Inr cs"
| "make_settings ((name, v, rules, parent) # rest) cs =
     (case new_setting cs v rules parent of
        (Some e, _) \<Rightarrow> Inl e
      | (None, f) \<Rightarrow> make_settings rest (cs @ [(name, f)]))"

definition new_form :: "(string \<times> js \<times> validator_object list option \<times> string option) list \<Rightarrow> js_error + settings_form" where
  "new_form specs = smap (\<lambda>cs. \<lparr>sf_controls = cs, sf_dirty = False, sf_touched = False\<rparr>) (make_settings specs [])"

section \<open>Operations of Angular on a group\<close>

definition on_setting :: "string \<Rightarrow> (setting \<Rightarrow> setting attempt) \<Rightarrow> settings_form \<Rightarrow> settings_form attempt" where
  "on_setting name h g =
     (case map_of (sf_controls g) name of
        None \<Rightarrow> (Some TypeError, g)
      | Some f \<Rightarrow> (let (e, f') = h f in (e, g\<lparr>sf_controls := AList.update name f' (sf_controls g)\<rparr>)))"

definition updateValueAndValidity :: "string \<Rightarrow> settings_form \<Rightarrow> settings_form attempt" where
  "updateValueAndValidity name g = on_setting name (setting_validate (sf_controls g)) g"

definition set_setting :: "js \<Rightarrow> string \<Rightarrow> settings_form \<Rightarrow> settings_form attempt" where
  "set_setting v name g = on_setting name (\<lambda>f. setting_validate (sf_controls g) (f\<lparr>fd_value := v\<rparr>)) g"

text \<open>Disabling and enabling one control looks at the enabled controls anew to tell whether the group was
  touched and edited, but a group that is marked as edited without an edited control stays so; disabling and
  enabling the group itself does not.\<close>

definition any_enabled :: "(setting \<Rightarrow> bool) \<Rightarrow> settings_form \<Rightarrow> bool" where
  "any_enabled p g \<longleftrightarrow> list_ex (\<lambda>(n, f). \<not> st_disabled f \<and> p f) (sf_controls g)"

definition marked_dirty :: "settings_form \<Rightarrow> bool" where
  "marked_dirty g \<longleftrightarrow> sf_dirty g \<and> \<not> any_enabled fd_dirty g"

definition update_ancestors :: "bool \<Rightarrow> settings_form \<Rightarrow> settings_form" where
  "update_ancestors skip g = g\<lparr>sf_dirty := (if skip then sf_dirty g else any_enabled fd_dirty g), sf_touched := any_enabled fd_touched g\<rparr>"

definition only_self :: "bool \<Rightarrow> string \<Rightarrow> settings_form \<Rightarrow> settings_form attempt" where
  "only_self disable name g =
     on_setting name (\<lambda>f. if disable then done_with (f\<lparr>st_disabled := True\<rparr>)
                          else setting_validate (sf_controls g) (f\<lparr>st_disabled := False\<rparr>)) g"

definition disable_setting :: "string \<Rightarrow> settings_form \<Rightarrow> settings_form attempt" where
  "disable_setting name g = and_then (only_self True name g) (\<lambda>g'. done_with (update_ancestors (marked_dirty g) g'))"

definition enable_setting :: "string \<Rightarrow> settings_form \<Rightarrow> settings_form attempt" where
  "enable_setting name g = and_then (only_self False name g) (\<lambda>g'. done_with (update_ancestors (marked_dirty g) g'))"

definition disable_form :: "settings_form \<Rightarrow> settings_form attempt" where
  "disable_form g = each (only_self True) (map fst (sf_controls g)) g"

definition enable_form :: "settings_form \<Rightarrow> settings_form attempt" where
  "enable_form g = each (only_self False) (map fst (sf_controls g)) g"

definition form_valid :: "settings_form \<Rightarrow> bool" where
  "form_valid g \<longleftrightarrow> any_enabled (\<lambda>_. True) g \<and> \<not> any_enabled (\<lambda>f. \<not> fd_valid f) g"

definition form_invalid :: "settings_form \<Rightarrow> bool" where
  "form_invalid g \<longleftrightarrow> any_enabled (\<lambda>f. \<not> fd_valid f) g"

definition form_raw :: "settings_form \<Rightarrow> (string \<times> js) list" where
  "form_raw g = map (\<lambda>(n, f). (n, fd_value f)) (sf_controls g)"

text \<open>What the user does: an input of an enabled control sets the value, and leaving a control touches it.\<close>

definition type_setting :: "js \<Rightarrow> string \<Rightarrow> settings_form \<Rightarrow> settings_form attempt" where
  "type_setting v name g =
     (case map_of (sf_controls g) name of
        None \<Rightarrow> done_with g
      | Some f \<Rightarrow>
          if st_disabled f then done_with g
          else and_then (on_setting name (\<lambda>f. done_with (f\<lparr>fd_dirty := True\<rparr>)) (g\<lparr>sf_dirty := True\<rparr>)) (set_setting v name))"

definition leave_setting :: "string \<Rightarrow> settings_form \<Rightarrow> settings_form attempt" where
  "leave_setting name g = on_setting name (\<lambda>f. done_with (f\<lparr>fd_touched := True\<rparr>)) (g\<lparr>sf_touched := True\<rparr>)"

section \<open>Validator tables\<close>

text \<open>\<open>/^[a-z]([a-z0-9-]){2,39}$/\<close>.\<close>

definition domain_char :: "char \<Rightarrow> bool" where
  "domain_char c \<longleftrightarrow> is_lower c \<or> is_digit c \<or> c = CHR ''-''"

definition DOMAIN_PATTERN :: regex where
  "DOMAIN_PATTERN = RSeq (RCh is_lower) (RSeq (rtimes 2 (RCh domain_char)) (rupto 37 (RCh domain_char)))"

text \<open>\<open>IP_ADDRESS_PATTERN\<close>: four times \<open>0|[1-9][0-9]?|1[0-9]{2}|2[0-5][0-5]\<close>, with dots between them.\<close>

definition token_octet :: regex where
  "token_octet =
     RAlt (rchar CHR ''0'')
      (RAlt (RSeq (rrange 49 57) (ropt rdigit))
        (RAlt (RSeq (rchar CHR ''1'') (rtimes 2 rdigit)) (RSeq (rchar CHR ''2'') (RSeq (rrange 48 53) (rrange 48 53)))))"

definition IP_ADDRESS_PATTERN :: regex where
  "IP_ADDRESS_PATTERN = RSeq token_octet (rtimes 3 (RSeq (rchar CHR ''.'') token_octet))"

text \<open>The pattern of a netmask, \<open>/^((128|...)\.0\.0\.0)|(255\.(...))$/\<close>: the first anchor belongs to the first
  alternative only and the last one to the second.\<close>

definition mask_octet :: "string list \<Rightarrow> regex" where
  "mask_octet ts = foldr (\<lambda>t r. RAlt (foldr (\<lambda>c. RSeq (rchar c)) t REps) r) ts RNone"

definition rtext :: "string \<Rightarrow> regex" where
  "rtext t = foldr (\<lambda>c. RSeq (rchar c)) t REps"

definition mask_high :: "string list" where
  "mask_high = [''128'', ''192'', ''224'', ''240'', ''248'', ''252'', ''254'']"

definition NETMASK_PATTERN :: regex where
  "NETMASK_PATTERN =
     RAlt (RSeq (RSeq (mask_octet mask_high) (rtext ''.0.0.0'')) rany)
      (RSeq rany
        (RSeq (rtext ''255.'')
          (RAlt (RSeq (mask_octet (''0'' # mask_high)) (rtext ''.0.0''))
            (RSeq (rtext ''255.'')
              (RAlt (RSeq (mask_octet (''0'' # mask_high)) (rtext ''.0''))
                (RSeq (rtext ''255.'') (mask_octet (''0'' # mask_high))))))))"

definition kitSettingsValidators_root_password :: "validator_object list" where
  "kitSettingsValidators_root_password =
     [vo_simple ''required'' ''Required field'',
      vo_simple ''password'' ''Root password did not meet the password requirements.'']"

definition kitSettingsValidators_re_password :: "validator_object list" where
  "kitSettingsValidators_re_password =
     [vo_simple ''required'' ''Required field'',
      vo_simple ''fieldMatch'' ''The passwords you entered do not match.  Please retype them carefully.'']"

definition kitSettingsValidators_netmask :: "validator_object list" where
  "kitSettingsValidators_netmask =
     [vo_regex (test_full NETMASK_PATTERN) ''Must be a valid subnet mask such as 255.255.255.0'',
      vo_simple ''required'' ''Netmask is required'']"

definition kitSettingsValidators_upstream :: "validator_object list" where
  "kitSettingsValidators_upstream = [vo_regex (test_full IP_CONSTRAINT) ''You must enter a valid IP address.'']"

definition kitSettingsValidators_domain :: "validator_object list" where
  "kitSettingsValidators_domain =
     [vo_regex (test_full DOMAIN_PATTERN)
        ''The Domain must be alphanumeric between 3 and 40 characters. Special characters are not allowed except for the minus sign (-) and the period (.). The Domain may not begin or end with either special character.'',
      vo_simple ''required'' ''Domain is required'']"

definition kitSettingsValidators_kubernetes_services_cidr :: "validator_object list" where
  "kitSettingsValidators_kubernetes_services_cidr = [vo_simple ''required'' ''Kubernetetes Service IP is required'']"

definition addToken_ip_address :: "validator_object list" where
  "addToken_ip_address =
     [vo_simple ''required'' ''IP Address is required.'',
      vo_regex (test_full IP_ADDRESS_PATTERN) ''You must enter a valid IP address.'']"

definition VMWARE_SETTINGS_ip_address :: "validator_object list" where
  "VMWARE_SETTINGS_ip_address =
     [vo_simple ''required'' ''IP Address is required.'',
      vo_regex (test_full IP_CONSTRAINT) ''You must enter a valid IP address.'']"

definition VMWARE_SETTINGS_username :: "validator_object list" where
  "VMWARE_SETTINGS_username = [vo_simple ''required'' ''Username is required.'']"

definition VMWARE_SETTINGS_password :: "validator_object list" where
  "VMWARE_SETTINGS_password = [vo_simple ''required'' ''Password is a required.'']"

end
