(* ===== verification/Settings_State.thy ===== *)
theory Settings_State
  imports Settings_Forms
begin

text \<open>
  The state of the settings page, \<open>modules/system-settings/\<close>. The page \<open>SystemSettingsComponent\<close> loads the
  settings and passes them to the children \<open>GeneralSettingsComponent\<close>, \<open>KitSettingsComponent\<close> and
  \<open>MIPSettingsComponent\<close>, which give it their changed settings back. The objects of settings are shared between
  page and children and changed in place, so they live in the list \<open>ss_objects\<close> and fields hold their index;
  \<open>None\<close> is \<open>undefined\<close>.

  Angular compares the reference a page binds to an input with the one it has bound before and calls
  \<open>ngOnChanges\<close> of the child when they differ; \<open>bound\<close> fields keep the references bound last. This change
  detection runs after every event, child after child in the order of the template.
\<close>

section \<open>State\<close>

type_synonym ref = "nat option"

record general_child =
  gs_bound :: "(ref \<times> ref \<times> ref) option"
  gs_settings :: ref
  gs_status :: ref
  gs_info :: ref
  gs_form :: "settings_form option"
  gs_job :: js
  gs_running :: bool
  gs_tooltip :: string

record kit_child =
  ks_bound :: "(ref \<times> ref \<times> ref \<times> ref) option"
  ks_general :: ref
  ks_status :: ref
  ks_info :: ref
  ks_kit :: ref
  ks_form :: "settings_form option"
  ks_job :: js
  ks_used_ips :: string
  ks_tooltip :: string
  ks_running :: bool
  ks_options :: js
  ks_unused :: js
  ks_ranges :: js

record mip_child =
  ms_bound :: "ref option"
  ms_status :: ref
  ms_form :: "settings_form option"

datatype ss_request =
    SP_General | SP_Status | SP_Info | SP_Kit | GS_Update | GS_Job | KS_Used | KS_Update | KS_Job | MS_Get | MS_Update js

datatype ss_dialog = GS_Console | KS_Console | Password_Help

record ss_state = "(ss_request, ss_dialog) async" +
  ss_objects :: "js list"
  sp_general :: ref
  sp_kit :: ref
  sp_status :: ref
  sp_info :: ref
  sp_disable_add :: bool
  gs :: general_child
  ks :: kit_child
  ms :: mip_child

section \<open>Objects\<close>

definition ss_value :: "ss_state \<Rightarrow> ref \<Rightarrow> js" where
  "ss_value s r = (case r of None \<Rightarrow> JUndef | Some i \<Rightarrow> if i < length (ss_objects s) then ss_objects s ! i else JUndef)"

definition ss_alloc :: "js \<Rightarrow> ss_state \<Rightarrow> ref \<times> ss_state" where
  "ss_alloc v s =
     (if notUndefNull v then (Some (length (ss_objects s)), s\<lparr>ss_objects := ss_objects s @ [v]\<rparr>) else (None, s))"

definition ss_put_job :: "ref \<Rightarrow> js \<Rightarrow> ss_state \<Rightarrow> ss_state" where
  "ss_put_job r job s =
     (case r of None \<Rightarrow> s | Some i \<Rightarrow> s\<lparr>ss_objects := (ss_objects s)[i := js_set (ss_value s r) ''job_id'' job]\<rparr>)"

text \<open>\<open>notUndefNull(v) ? v : d\<close>.\<close>

definition or_else :: "js \<Rightarrow> js \<Rightarrow> js" where
  "or_else v d = (if notUndefNull v then v else d)"

section \<open>Inputs\<close>

text \<open>A \<open>SimpleChange\<close>: the reference bound before and the one bound now; \<open>None\<close> when the input is the same.\<close>

type_synonym change = "(ref \<times> ref) option"

definition input_change :: "ref option \<Rightarrow> ref \<Rightarrow> change" where
  "input_change bound r =
     (case bound of None \<Rightarrow> Some (None, r) | Some p \<Rightarrow> if p = r then None else Some (p, r))"

definition differs :: "change \<Rightarrow> bool" where
  "differs c = (case c of None \<Rightarrow> False | Some (p, r) \<Rightarrow> r \<noteq> p)"

definition differs_or_missing :: "change \<Rightarrow> bool" where
  "differs_or_missing c = (case c of None \<Rightarrow> False | Some (p, r) \<Rightarrow> r \<noteq> p \<or> r = None)"

definition new_input :: "change \<Rightarrow> ref \<Rightarrow> ref" where
  "new_input c old = (case c of None \<Rightarrow> old | Some (p, r) \<Rightarrow> r)"

section \<open>SystemSettingsComponent\<close>

text \<open>The constructors. The page starts with three empty objects and no settings of the kit.\<close>

definition gs_constructor :: general_child where
  "gs_constructor = \<lparr>gs_bound = None, gs_settings = None, gs_status = None, gs_info = None, gs_form = None, gs_job = JNull,
     gs_running = False, gs_tooltip = []\<rparr>"

definition ks_constructor :: kit_child where
  "ks_constructor = \<lparr>ks_bound = None, ks_general = None, ks_status = None, ks_info = None, ks_kit = None, ks_form = None,
     ks_job = JNull, ks_used_ips = [], ks_tooltip = [], ks_running = False, ks_options = JArr [], ks_unused = JArr [],
     ks_ranges = JObj []\<rparr>"

definition ms_constructor :: mip_child where
  "ms_constructor = \<lparr>ms_bound = None, ms_status = None, ms_form = None\<rparr>"

definition sp_constructor :: ss_state where
  "sp_constructor = \<lparr>trace = [], matSnackBarRef = None, requests = [], dialogs = [], ss_objects = [JObj [], JObj [], JObj []],
     sp_general = Some 0, sp_kit = None, sp_status = Some 1, sp_info = Some 2, sp_disable_add = True,
     gs = gs_constructor, ks = ks_constructor, ms = ms_constructor\<rparr>"

definition sp_api_get_general_settings :: "ss_state \<Rightarrow> ss_state" where
  "sp_api_get_general_settings = call get_general_settings SP_General"

definition sp_api_get_kit_status :: "ss_state \<Rightarrow> ss_state" where
  "sp_api_get_kit_status = call get_kit_status SP_Status"

definition sp_api_get_controller_info :: "ss_state \<Rightarrow> ss_state" where
  "sp_api_get_controller_info = call get_controller_info SP_Info"

definition sp_api_get_kit_settings :: "ss_state \<Rightarrow> ss_state" where
  "sp_api_get_kit_settings = call get_kit_settings SP_Kit"

definition sp_ngOnInit :: "ss_state \<Rightarrow> ss_state" where
  "sp_ngOnInit s =
     sp_api_get_kit_settings (sp_api_get_controller_info (sp_api_get_kit_status (sp_api_get_general_settings
       (emit (SetTitle ''System Settings'') s))))"

definition sp_update_general_settings :: "ref \<Rightarrow> ss_state \<Rightarrow> ss_state" where
  "sp_update_general_settings r s = s\<lparr>sp_general := r\<rparr>"

definition sp_update_kit_settings :: "ref \<Rightarrow> ss_state \<Rightarrow> ss_state" where
  "sp_update_kit_settings r s = s\<lparr>sp_kit := r\<rparr>"

definition sp_update_add_kit_button :: "bool \<Rightarrow> ss_state \<Rightarrow> ss_state" where
  "sp_update_add_kit_button b s = s\<lparr>sp_disable_add := b\<rparr>"

definition check_is_gip :: "ss_state \<Rightarrow> js" where
  "check_is_gip s = js_get (ss_value s (sp_kit s)) ''is_gip''"

definition sp_loaded :: "(ref \<Rightarrow> ss_state \<Rightarrow> ss_state) \<Rightarrow> js \<Rightarrow> ss_state \<Rightarrow> ss_state" where
  "sp_loaded assign response s = (let (r, s') = ss_alloc response s in assign r s')"

definition sp_api_get_general_settings_answer :: "reply \<Rightarrow> ss_state \<Rightarrow> ss_state" where
  "sp_api_get_general_settings_answer =
     answered get_general_settings (sp_loaded (\<lambda>r s. s\<lparr>sp_general := r\<rparr>))
       (report_error_or_message ''retrieving general settings'')"

definition sp_api_get_kit_status_answer :: "reply \<Rightarrow> ss_state \<Rightarrow> ss_state" where
  "sp_api_get_kit_status_answer =
     answered get_kit_status (sp_loaded (\<lambda>r s. s\<lparr>sp_status := r\<rparr>)) (report_error_or_message ''retrieving kit status'')"

definition sp_api_get_controller_info_answer :: "reply \<Rightarrow> ss_state \<Rightarrow> ss_state" where
  "sp_api_get_controller_info_answer =
     answered get_controller_info (sp_loaded (\<lambda>r s. s\<lparr>sp_info := r\<rparr>)) (\<lambda>_. report_error ''retrieving controller info'')"

definition sp_api_get_kit_settings_answer :: "reply \<Rightarrow> ss_state \<Rightarrow> ss_state" where
  "sp_api_get_kit_settings_answer =
     answered get_kit_settings (sp_loaded (\<lambda>r s. s\<lparr>sp_kit := r, sp_disable_add := False\<rparr>))
       (report_error_or_message ''retrieving kit settings'')"

end
