(* ===== verification/General_Settings.thy ===== *)
theory General_Settings
  imports Settings_State
begin

text \<open>
  \<open>modules/system-settings/components/general-settings/general-settings.component.ts\<close> and
  \<open>modules/system-settings/components/mip-settings/mip-settings.component.ts\<close>, two of the children of the
  settings page.
\<close>

section \<open>GeneralSettingsComponent\<close>

definition gs_set_form :: "settings_form option \<Rightarrow> ss_state \<Rightarrow> ss_state" where
  "gs_set_form g s = s\<lparr>gs := (gs s)\<lparr>gs_form := g\<rparr>\<rparr>"

text \<open>\<open>this.general_settings_form_group.method()\<close>, which throws as long as there is no form.\<close>

definition gs_on_form :: "(settings_form \<Rightarrow> settings_form attempt) \<Rightarrow> ss_state \<Rightarrow> ss_state attempt" where
  "gs_on_form f s =
     (case gs_form (gs s) of
        None \<Rightarrow> (Some TypeError, s)
      | Some g \<Rightarrow> (let (e, g') = f g in (e, gs_set_form (Some g') s)))"

definition gs_data :: "ss_state \<Rightarrow> js" where
  "gs_data s = ss_value s (gs_settings (gs s))"

definition gs_new_form :: "js \<Rightarrow> js_error + settings_form" where
  "gs_new_form v =
     new_form
       [(''domain'', or_else (js_get v ''domain'') (JStr []), Some kitSettingsValidators_domain, None),
        (''controller_interface'', or_else (js_get v ''controller_interface'') (JStr []), None, None),
        (''netmask'', or_else (js_get v ''netmask'') (JStr ''255.255.255.0''), None, None),
        (''gateway'', or_else (js_get v ''gateway'') (JStr []), None, None)]"

definition gs_initialize_form :: "ss_state \<Rightarrow> ss_state attempt" where
  "gs_initialize_form s =
     (case gs_new_form (gs_data s) of
        Inl e \<Rightarrow> (Some e, s)
      | Inr g \<Rightarrow>
          (case each disable_setting [''controller_interface'', ''gateway'', ''netmask''] g of
             (Some e, _) \<Rightarrow> (Some e, s)
           | (None, g') \<Rightarrow> done_with (gs_set_form (Some g') s)))"

definition gs_api_job_get :: "ss_state \<Rightarrow> ss_state" where
  "gs_api_job_get s = call (job_get (gs_job (gs s))) GS_Job s"

definition gs_check_job :: "ss_state \<Rightarrow> ss_state" where
  "gs_check_job s = (if notUndefNull (gs_job (gs s)) then gs_api_job_get s else s)"

definition gs_gather_controller_facts :: "ss_state \<Rightarrow> ss_state attempt" where
  "gs_gather_controller_facts s =
     (if gs_info (gs s) \<noteq> None \<and> gs_form (gs s) \<noteq> None then
        (let info = ss_value s (gs_info (gs s)) in
         gs_on_form (each (\<lambda>(name, key) g. and_then (set_setting (js_get info key) name g) (disable_setting name))
           [(''controller_interface'', ''ip_address''), (''gateway'', ''gateway''), (''netmask'', ''netmask'')]) s)
      else done_with s)"

definition gs_on_settings :: "ss_state \<Rightarrow> ss_state attempt" where
  "gs_on_settings s =
     (let job = js_get (gs_data s) ''job_id'';
          s' = (if notUndefNull job then gs_check_job (s\<lparr>gs := (gs s)\<lparr>gs_job := job\<rparr>\<rparr>) else s)
      in case key_count (gs_data s') of
           Inl e \<Rightarrow> (Some e, s')
         | Inr n \<Rightarrow> if n > 0 then gs_initialize_form s' else done_with s')"

definition gs_on_status :: "ss_state \<Rightarrow> ss_state attempt" where
  "gs_on_status s =
     (case js_index (ss_value s (gs_status (gs s))) ''control_plane_deployed'' of
        Inl e \<Rightarrow> (Some e, s)
      | Inr v \<Rightarrow> if truthy v then gs_on_form (disable_setting ''domain'') s else done_with s)"

definition gs_ngOnChanges :: "change \<Rightarrow> change \<Rightarrow> change \<Rightarrow> ss_state \<Rightarrow> ss_state attempt" where
  "gs_ngOnChanges general_settings_changes kit_status_changes controller_info_changes s =
     and_then (if differs_or_missing general_settings_changes then gs_on_settings s else done_with s) (\<lambda>s.
     and_then (if kit_status_changes \<noteq> None then gs_on_status s else done_with s) (\<lambda>s.
     if differs controller_info_changes then gs_gather_controller_facts s else done_with s))"

definition gs_ngOnInit :: "ss_state \<Rightarrow> ss_state attempt" where
  "gs_ngOnInit = gs_initialize_form"

text \<open>The part of change detection for this child.\<close>

definition gs_detect :: "ss_state \<Rightarrow> ss_state attempt" where
  "gs_detect s =
     (let bound = gs_bound (gs s);
          c1 = input_change (map_option (\<lambda>b. fst b) bound) (sp_general s);
          c2 = input_change (map_option (\<lambda>b. fst (snd b)) bound) (sp_status s);
          c3 = input_change (map_option (\<lambda>b. snd (snd b)) bound) (sp_info s);
          s' = s\<lparr>gs := (gs s)\<lparr>gs_bound := Some (sp_general s, sp_status s, sp_info s),
                 gs_settings := new_input c1 (gs_settings (gs s)), gs_status := new_input c2 (gs_status (gs s)),
                 gs_info := new_input c3 (gs_info (gs s))\<rparr>\<rparr>
      in if c1 = None \<and> c2 = None \<and> c3 = None then done_with s
         else and_then (gs_ngOnChanges c1 c2 c3 s') (\<lambda>s. if bound = None then gs_ngOnInit s else done_with s))"

definition gs_api_update_general_settings :: "ss_state \<Rightarrow> ss_state" where
  "gs_api_update_general_settings s = call (update_general_settings (gs_data s)) GS_Update s"

definition gs_click_button_save :: "ss_state \<Rightarrow> ss_state attempt" where
  "gs_click_button_save s =
     (case gs_form (gs s) of
        None \<Rightarrow> (Some TypeError, s)
      | Some g \<Rightarrow>
          (case new_GeneralSettingsClass (JObj (form_raw g)) of
             Inl e \<Rightarrow> (Some e, s)
           | Inr v \<Rightarrow>
               (let (r, s') = ss_alloc v s
                in done_with (gs_api_update_general_settings (s'\<lparr>gs := (gs s')\<lparr>gs_settings := r\<rparr>\<rparr>)))))"

definition gs_click_button_open_console :: "ss_state \<Rightarrow> ss_state" where
  "gs_click_button_open_console s = open_dialog ''ServerStdoutComponent'' (JObj [(''job_id'', gs_job (gs s))]) GS_Console s"

text \<open>The console tells that the user deleted the job: it is closed and the domain may be edited again.\<close>

definition gs_job_deleted :: "nat \<Rightarrow> ss_state \<Rightarrow> ss_state attempt" where
  "gs_job_deleted i s = gs_on_form (enable_setting ''domain'') (gs_api_job_get (s\<lparr>dialogs := remove_nth i (dialogs s)\<rparr>))"

definition gs_on_kit_status_change :: "js \<Rightarrow> ss_state \<Rightarrow> ss_state attempt" where
  "gs_on_kit_status_change data s =
     (case new_KitStatusClass data of
        Inl e \<Rightarrow> (Some e, s)
      | Inr v \<Rightarrow> (let (r, s') = ss_alloc v s in done_with (gs_check_job (s'\<lparr>gs := (gs s')\<lparr>gs_status := r\<rparr>\<rparr>))))"

definition gs_updated :: "js \<Rightarrow> ss_state \<Rightarrow> ss_state attempt" where
  "gs_updated response s =
     (let job = js_get response ''job_id'';
          s1 = s\<lparr>gs := (gs s)\<lparr>gs_job := job\<rparr>\<rparr>;
          s2 = (if gs_settings (gs s1) \<noteq> None then ss_put_job (gs_settings (gs s1)) job s1 else s1)
      in and_then (gs_on_form disable_form s2) (\<lambda>s.
         let s' = gs_check_job s in done_with (sp_update_general_settings (gs_settings (gs s')) s')))"

definition gs_api_update_general_settings_answer :: "reply \<Rightarrow> ss_state \<Rightarrow> ss_state" where
  "gs_api_update_general_settings_answer =
     answered (update_general_settings JUndef) (\<lambda>response s. snd (gs_updated response s))
       (\<lambda>_. report_error ''updating general settings'')"

definition gs_job_known :: "js \<Rightarrow> ss_state \<Rightarrow> ss_state attempt" where
  "gs_job_known response s =
     (if js_get response ''status'' = JStr ''started'' then
        (let s' = s\<lparr>gs := (gs s)\<lparr>gs_running := True, gs_tooltip := ''Job is running...''\<rparr>\<rparr>
         in if gs_form (gs s') \<noteq> None then gs_on_form disable_form s' else done_with s')
      else
        (let s' = s\<lparr>gs := (gs s)\<lparr>gs_job := JUndef, gs_running := False, gs_tooltip := []\<rparr>\<rparr>
         in case js_index (ss_value s' (gs_status (gs s'))) ''control_plane_deployed'' of
              Inl e \<Rightarrow> (Some e, s')
            | Inr v \<Rightarrow> if truthy v \<and> gs_form (gs s') \<noteq> None then gs_on_form (disable_setting ''domain'') s' else done_with s'))"

definition gs_api_job_get_answer :: "reply \<Rightarrow> ss_state \<Rightarrow> ss_state" where
  "gs_api_job_get_answer =
     answered (job_get JUndef) (\<lambda>response s. snd (gs_job_known response s)) (report_error_or_message ''retrieving job get'')"

section \<open>MIPSettingsComponent\<close>

definition ms_set_form :: "settings_form option \<Rightarrow> ss_state \<Rightarrow> ss_state" where
  "ms_set_form g s = s\<lparr>ms := (ms s)\<lparr>ms_form := g\<rparr>\<rparr>"

definition ms_on_form :: "(settings_form \<Rightarrow> settings_form attempt) \<Rightarrow> ss_state \<Rightarrow> ss_state attempt" where
  "ms_on_form f s =
     (case ms_form (ms s) of
        None \<Rightarrow> (Some TypeError, s)
      | Some g \<Rightarrow> (let (e, g') = f g in (e, ms_set_form (Some g') s)))"

definition ms_passwords :: "string list" where
  "ms_passwords = [''password'', ''user_password'', ''luks_password'']"

definition ms_repeated :: "(string \<times> string) list" where
  "ms_repeated = [(''re_password'', ''password''), (''user_re_password'', ''user_password''), (''luks_re_password'', ''luks_password'')]"

definition ms_new_form :: "js \<Rightarrow> js_error + settings_form" where
  "ms_new_form v =
     new_form
       (map (\<lambda>n. (n, or_else (js_get v n) (JStr []), Some kitSettingsValidators_root_password, None)) ms_passwords @
        map (\<lambda>(n, p). (n, or_else (js_get v p) (JStr []), Some kitSettingsValidators_re_password, Some p)) ms_repeated)"

definition ms_initialize_form :: "js \<Rightarrow> ss_state \<Rightarrow> ss_state attempt" where
  "ms_initialize_form settings s = attempt s (smap (\<lambda>g. ms_set_form (Some g) s) (ms_new_form settings))"

definition ms_check_job :: "ss_state \<Rightarrow> ss_state attempt" where
  "ms_check_job s =
     (case js_index (ss_value s (ms_status (ms s))) ''general_settings_configured'' of
        Inl e \<Rightarrow> (Some e, s)
      | Inr v \<Rightarrow> ms_on_form (if truthy v then enable_form else disable_form) s)"

definition ms_ngOnChanges :: "ss_state \<Rightarrow> ss_state attempt" where
  "ms_ngOnChanges s = (if ms_form (ms s) \<noteq> None then ms_check_job s else done_with s)"

definition ms_api_get_mip_settings :: "ss_state \<Rightarrow> ss_state" where
  "ms_api_get_mip_settings = call get_mip_settings MS_Get"

definition ms_ngOnInit :: "ss_state \<Rightarrow> ss_state attempt" where
  "ms_ngOnInit s = and_then (ms_initialize_form JUndef s) (\<lambda>s. done_with (ms_api_get_mip_settings s))"

definition ms_detect :: "ss_state \<Rightarrow> ss_state attempt" where
  "ms_detect s =
     (let bound = ms_bound (ms s);
          c = input_change bound (sp_status s);
          s' = s\<lparr>ms := (ms s)\<lparr>ms_bound := Some (sp_status s), ms_status := new_input c (ms_status (ms s))\<rparr>\<rparr>
      in if c = None then done_with s
         else and_then (ms_ngOnChanges s') (\<lambda>s. if bound = None then ms_ngOnInit s else done_with s))"

definition ms_re_evaluate :: "ss_state \<Rightarrow> ss_state attempt" where
  "ms_re_evaluate s =
     (if ms_form (ms s) = None then done_with s
      else ms_on_form (each updateValueAndValidity
        [''password'', ''re_password'', ''user_password'', ''user_re_password'', ''luks_password'', ''luks_re_password'']) s)"

definition ms_saved_value :: "settings_form \<Rightarrow> js" where
  "ms_saved_value g = fold delete_key [''re_password'', ''user_re_password'', ''luks_re_password''] (JObj (form_raw g))"

definition ms_click_button_save :: "ss_state \<Rightarrow> ss_state attempt" where
  "ms_click_button_save s =
     (case ms_form (ms s) of
        None \<Rightarrow> (Some TypeError, s)
      | Some g \<Rightarrow> done_with (call (update_mip_settings (ms_saved_value g)) (MS_Update (ms_saved_value g)) s))"

definition open_password_dialog_window :: "ss_state \<Rightarrow> ss_state" where
  "open_password_dialog_window = open_dialog ''PasswordMessageComponent'' JUndef Password_Help"

definition ms_on_kit_status_change :: "js \<Rightarrow> ss_state \<Rightarrow> ss_state attempt" where
  "ms_on_kit_status_change data s =
     (case new_KitStatusClass data of
        Inl e \<Rightarrow> (Some e, s)
      | Inr v \<Rightarrow> (let (r, s') = ss_alloc v s in ms_check_job (s'\<lparr>ms := (ms s')\<lparr>ms_status := r\<rparr>\<rparr>)))"

definition ms_api_get_mip_settings_answer :: "reply \<Rightarrow> ss_state \<Rightarrow> ss_state" where
  "ms_api_get_mip_settings_answer =
     answered get_mip_settings (\<lambda>response s. snd (ms_initialize_form response s))
       (report_error_or_message ''retrieving mip settings'')"

text \<open>The messages for a refused form, which the settings of VMware and the page of MIPs report in the same way.\<close>

definition report_refused :: "string \<Rightarrow> api_error \<Rightarrow> 'a world_scheme \<Rightarrow> 'a world_scheme" where
  "report_refused message error s =
     (case error of
        ErrorMessageClass m \<Rightarrow> displaySnackBar m (Some MAT_SNACKBAR_CONFIGURATION_60000_DUR) s
      | ValidationErrorClass _ messages \<Rightarrow> show_validation_errors messages (js_keys messages) [] s
      | PostValidationClass post_validation \<Rightarrow> show_post_validation post_validation s
      | HttpErrorResponse _ \<Rightarrow> report_error message s)"

definition ms_api_update_mip_settings_answer :: "js \<Rightarrow> reply \<Rightarrow> ss_state \<Rightarrow> ss_state" where
  "ms_api_update_mip_settings_answer settings =
     answered (update_mip_settings JUndef)
       (\<lambda>_ s. snd (and_then (ms_initialize_form settings s) (\<lambda>s. done_with
         (generate_return_success_snackbar_message ''saved Mip settings'' (Some MAT_SNACKBAR_CONFIGURATION_60000_DUR) s))))
       (report_refused ''adding mip'')"

end
