(* ===== verification/Kit_Settings.thy ===== *)
theory Kit_Settings
  imports General_Settings Json
begin

text \<open>
  \<open>modules/system-settings/components/kit-settings/kit-settings.component.ts\<close>, and the settings page as a whole:
  its events, the answers of the backend, and the change detection that hands the objects of the page to the
  children.
\<close>

section \<open>Ranges of addresses\<close>

definition js_endsWith :: "string \<Rightarrow> string \<Rightarrow> bool" where
  "js_endsWith s p = starts_with (rev p) (rev s)"

definition json_copy :: "js \<Rightarrow> js_error + js" where
  "json_copy v = (case JSON_stringify v of None \<Rightarrow> Inl SyntaxError | Some t \<Rightarrow> JSON_parse t)"

text \<open>The loop removes an element inside a loop over the index, so the element after a removed one is not looked
  at. Only strings have \<open>endsWith\<close>.\<close>

fun drop_dot_32 :: "js list \<Rightarrow> js_error + js list" where
  "drop_dot_32 [] = Inr []"
| "drop_dot_32 (v # vs) =
     (case v of
        JStr t \<Rightarrow>
          if js_endsWith t ''.32'' then (case vs of [] \<Rightarrow> Inr [] | w # ws \<Rightarrow> smap (\<lambda>rest. w # rest) (drop_dot_32 ws))
          else smap (\<lambda>rest. v # rest) (drop_dot_32 vs)
      | _ \<Rightarrow> Inl TypeError)"

definition kubernetes_options :: "js \<Rightarrow> js \<Rightarrow> js_error + js" where
  "kubernetes_options unused dhcp_range =
     sbind (json_copy unused) (\<lambda>copied. smap (\<lambda>options.
       JArr (case find_index (\<lambda>v. strict_eq v dhcp_range) options of None \<Rightarrow> options | Some i \<Rightarrow> splice1 options (Some i)))
       (drop_dot_32 (arr_elems copied)))"

section \<open>KitSettingsComponent\<close>

definition SUBNET :: js where
  "SUBNET = JStr ''255.255.255.224''"

definition ks_set_form :: "settings_form option \<Rightarrow> ss_state \<Rightarrow> ss_state" where
  "ks_set_form g s = s\<lparr>ks := (ks s)\<lparr>ks_form := g\<rparr>\<rparr>"

definition ks_on_form :: "(settings_form \<Rightarrow> settings_form attempt) \<Rightarrow> ss_state \<Rightarrow> ss_state attempt" where
  "ks_on_form f s =
     (case ks_form (ks s) of
        None \<Rightarrow> (Some TypeError, s)
      | Some g \<Rightarrow> (let (e, g') = f g in (e, ks_set_form (Some g') s)))"

definition ks_data :: "ss_state \<Rightarrow> js" where
  "ks_data s = ss_value s (ks_kit (ks s))"

definition ks_new_form :: "js \<Rightarrow> js_error + settings_form" where
  "ks_new_form v =
     new_form
       [(''password'', or_else (js_get v ''password'') (JStr []), Some kitSettingsValidators_root_password, None),
        (''upstream_ntp'', or_else (js_get v ''upstream_ntp'') JNull, Some kitSettingsValidators_upstream, None),
        (''upstream_dns'', or_else (js_get v ''upstream_dns'') JNull, Some kitSettingsValidators_upstream, None),
        (''kubernetes_services_cidr'', or_else (js_get v ''kubernetes_services_cidr'') (JStr []),
           Some kitSettingsValidators_kubernetes_services_cidr, None),
        (''is_gip'', JStr (if js_get v ''is_gip'' = JBool True then ''GIP'' else ''DIP''), None, None),
        (''re_password'', or_else (js_get v ''password'') (JStr []), Some kitSettingsValidators_re_password, Some ''password'')]"

definition ks_initialize_form :: "ss_state \<Rightarrow> ss_state attempt" where
  "ks_initialize_form s = attempt s (smap (\<lambda>g. ks_set_form (Some g) s) (ks_new_form (ks_data s)))"

definition ks_api_job_get :: "ss_state \<Rightarrow> ss_state" where
  "ks_api_job_get s = call (job_get (ks_job (ks s))) KS_Job s"

definition ks_check_job :: "ss_state \<Rightarrow> ss_state attempt" where
  "ks_check_job s =
     (let job = (if ks_kit (ks s) \<noteq> None then js_get (ks_data s) ''job_id'' else JNull);
          s = s\<lparr>ks := (ks s)\<lparr>ks_job := job\<rparr>\<rparr>
      in if ks_form (ks s) = None then done_with s
         else case js_index (ss_value s (ks_status (ks s))) ''general_settings_configured'' of
           Inl e \<Rightarrow> (Some e, s)
         | Inr v \<Rightarrow>
             if truthy v then
               and_then (ks_on_form enable_form s) (\<lambda>s.
                 let s' = sp_update_add_kit_button False s
                 in done_with (if truthy job then ks_api_job_get s' else s'))
             else and_then (ks_on_form disable_form s) (\<lambda>s. done_with (sp_update_add_kit_button True s)))"

definition ks_set_kubernetes_dhcp_range :: "js \<Rightarrow> ss_state \<Rightarrow> ss_state attempt" where
  "ks_set_kubernetes_dhcp_range dhcp_range s =
     attempt s (smap (\<lambda>options. s\<lparr>ks := (ks s)\<lparr>ks_options := options\<rparr>\<rparr>)
       (kubernetes_options (ks_unused (ks s)) dhcp_range))"

definition ks_gather_controller_facts :: "ss_state \<Rightarrow> ss_state attempt" where
  "ks_gather_controller_facts s =
     (let info = ss_value s (ks_info (ks s)); cidrs = js_get info ''cidrs'';
          s' = (if notUndefNull info \<and> notUndefNull cidrs
                then s\<lparr>ks := (ks s)\<lparr>ks_options := cidrs, ks_unused := cidrs, ks_ranges := js_get info ''cidr_ranges''\<rparr>\<rparr> else s);
          general = ss_value s' (ks_general (ks s'))
      in if notUndefNull general \<and> notUndefNull (ks_unused (ks s'))
         then ks_set_kubernetes_dhcp_range (js_get general ''dhcp_range'') s' else done_with s')"

definition ks_ngOnChanges :: "change \<Rightarrow> change \<Rightarrow> change \<Rightarrow> ss_state \<Rightarrow> ss_state attempt" where
  "ks_ngOnChanges kit_settings_changes kit_status_changes controller_info_changes s =
     and_then (if differs_or_missing kit_settings_changes then and_then (ks_initialize_form s) ks_check_job else done_with s) (\<lambda>s.
     and_then (if differs kit_status_changes then ks_check_job s else done_with s) (\<lambda>s.
     if differs controller_info_changes then ks_gather_controller_facts s else done_with s))"

definition ks_detect :: "ss_state \<Rightarrow> ss_state attempt" where
  "ks_detect s =
     (let bound = ks_bound (ks s);
          c1 = input_change (map_option (\<lambda>b. fst b) bound) (sp_general s);
          c2 = input_change (map_option (\<lambda>b. fst (snd b)) bound) (sp_status s);
          c3 = input_change (map_option (\<lambda>b. fst (snd (snd b))) bound) (sp_info s);
          c4 = input_change (map_option (\<lambda>b. snd (snd (snd b))) bound) (sp_kit s);
          s' = s\<lparr>ks := (ks s)\<lparr>ks_bound := Some (sp_general s, sp_status s, sp_info s, sp_kit s),
                 ks_general := new_input c1 (ks_general (ks s)), ks_status := new_input c2 (ks_status (ks s)),
                 ks_info := new_input c3 (ks_info (ks s)), ks_kit := new_input c4 (ks_kit (ks s))\<rparr>\<rparr>
      in if c1 = None \<and> c2 = None \<and> c3 = None \<and> c4 = None then done_with s else ks_ngOnChanges c4 c2 c3 s')"

definition ks_re_evaluate :: "ss_state \<Rightarrow> ss_state attempt" where
  "ks_re_evaluate s =
     (if ks_form (ks s) = None then done_with s
      else ks_on_form (each updateValueAndValidity [''password'', ''re_password'']) s)"

definition ks_form_value :: "string \<Rightarrow> ss_state \<Rightarrow> js_error + js" where
  "ks_form_value name s =
     (case Option.bind (ks_form (ks s)) (\<lambda>g. map_of (sf_controls g) name) of None \<Rightarrow> Inl TypeError | Some f \<Rightarrow> Inr (fd_value f))"

definition get_kubernetes_service_range :: "ss_state \<Rightarrow> js_error + string" where
  "get_kubernetes_service_range s =
     smap (\<lambda>v.
       let range = js_get (ks_ranges (ks s)) (str v) in
       if v \<noteq> JStr [] \<and> notUndefNull range
       then ''Kubernetes services range will be: '' @ str (js_get range ''first'') @ '' - '' @ str (js_get range ''last'') else [])
     (ks_form_value ''kubernetes_services_cidr'' s)"

definition ks_api_get_used_ip_addresses :: "js \<Rightarrow> ss_state \<Rightarrow> ss_state" where
  "ks_api_get_used_ip_addresses cidr = call (get_used_ip_addresses cidr SUBNET) KS_Used"

definition check_kubernetes_service_range :: "ss_state \<Rightarrow> ss_state" where
  "check_kubernetes_service_range s =
     (case Option.bind (ks_form (ks s)) (\<lambda>g. map_of (sf_controls g) ''kubernetes_services_cidr'') of
        None \<Rightarrow> s
      | Some f \<Rightarrow> if setting_stat f = VALID then ks_api_get_used_ip_addresses (fd_value f) s else s)"

definition ks_api_update_kit_settings :: "ss_state \<Rightarrow> ss_state" where
  "ks_api_update_kit_settings s = call (update_kit_settings (ks_data s)) KS_Update s"

definition ks_saved_value :: "settings_form \<Rightarrow> js" where
  "ks_saved_value g =
     (let raw = JObj (form_raw g)
      in delete_key ''vcenter'' (delete_key ''re_password''
           (js_set raw ''is_gip'' (JBool (js_get raw ''is_gip'' = JStr ''GIP'')))))"

definition ks_click_button_save :: "ss_state \<Rightarrow> ss_state attempt" where
  "ks_click_button_save s =
     (case ks_form (ks s) of
        None \<Rightarrow> (Some TypeError, s)
      | Some g \<Rightarrow>
          (case new_KitSettingsClass (ks_saved_value g) of
             Inl e \<Rightarrow> (Some e, s)
           | Inr v \<Rightarrow>
               (let (r, s') = ss_alloc v s
                in done_with (ks_api_update_kit_settings (s'\<lparr>ks := (ks s')\<lparr>ks_kit := r\<rparr>\<rparr>)))))"

definition ks_click_button_open_console :: "ss_state \<Rightarrow> ss_state" where
  "ks_click_button_open_console s = open_dialog ''ServerStdoutComponent'' (JObj [(''job_id'', ks_job (ks s))]) KS_Console s"

definition ks_on_kit_status_change :: "js \<Rightarrow> ss_state \<Rightarrow> ss_state attempt" where
  "ks_on_kit_status_change data s =
     (case new_KitStatusClass data of
        Inl e \<Rightarrow> (Some e, s)
      | Inr v \<Rightarrow> (let (r, s') = ss_alloc v s in ks_check_job (s'\<lparr>ks := (ks s')\<lparr>ks_status := r\<rparr>\<rparr>)))"

definition ks_api_get_used_ip_addresses_answer :: "reply \<Rightarrow> ss_state \<Rightarrow> ss_state" where
  "ks_api_get_used_ip_addresses_answer =
     answered (get_used_ip_addresses JUndef JUndef)
       (\<lambda>response s. if notUndefNull response
          then s\<lparr>ks := (ks s)\<lparr>ks_used_ips := js_join nl (js_split CHR '','' (str response))\<rparr>\<rparr> else s)
       (report_error_or_message ''retrieving used ip addresses'')"

definition ks_updated :: "js \<Rightarrow> ss_state \<Rightarrow> ss_state attempt" where
  "ks_updated response s =
     (let job = js_get response ''job_id''; s1 = s\<lparr>ks := (ks s)\<lparr>ks_job := job\<rparr>\<rparr>
      in if ks_kit (ks s1) = None then (Some TypeError, s1)
         else and_then (ks_on_form disable_form (ss_put_job (ks_kit (ks s1)) job s1)) ks_check_job)"

definition ks_api_update_kit_settings_answer :: "reply \<Rightarrow> ss_state \<Rightarrow> ss_state" where
  "ks_api_update_kit_settings_answer =
     answered (update_kit_settings JUndef) (\<lambda>response s. snd (ks_updated response s)) (\<lambda>_. report_error ''updating kit settings'')"

definition ks_job_known :: "js \<Rightarrow> ss_state \<Rightarrow> ss_state attempt" where
  "ks_job_known response s =
     (if js_get response ''status'' = JStr ''started'' then
        and_then (ks_on_form disable_form (s\<lparr>ks := (ks s)\<lparr>ks_running := True, ks_tooltip := ''Job is running...''\<rparr>\<rparr>))
          (\<lambda>s. done_with (sp_update_add_kit_button True s))
      else
        and_then (ks_on_form enable_form (s\<lparr>ks := (ks s)\<lparr>ks_job := JNull, ks_running := False, ks_tooltip := []\<rparr>\<rparr>)) (\<lambda>s.
          let s' = sp_update_kit_settings (ks_kit (ks s)) (sp_update_add_kit_button False s)
          in case js_index (ss_value s' (ks_status (ks s'))) ''control_plane_deployed'' of
               Inl e \<Rightarrow> (Some e, s')
             | Inr v \<Rightarrow>
                 if truthy v
                 then ks_on_form (each disable_setting [''kubernetes_services_cidr'', ''password'', ''re_password'']) s'
                 else done_with s'))"

definition ks_api_job_get_answer :: "reply \<Rightarrow> ss_state \<Rightarrow> ss_state" where
  "ks_api_job_get_answer =
     answered (job_get JUndef) (\<lambda>response s. snd (ks_job_known response s)) (report_error_or_message ''retrieving job get'')"

section \<open>The page\<close>

text \<open>Actions of the user and messages of the socket. A text field sends \<open>keyup\<close> when a key was used, not when a text
  was pasted with the mouse. The fields and buttons of the templates that are enabled only under a condition are
  guarded by it.\<close>

datatype ss_action =
    GS_Type js | GS_Leave string | GS_Save | GS_Open_Console | GS_Job_Deleted nat
  | KS_Type string js bool | KS_Range js | KS_Leave string | KS_Save | KS_Open_Console
  | MS_Type string js bool | MS_Leave string | MS_Save
  | SS_Password_Help
  | SS_Kit_Status_Change js

definition gs_save_enabled :: "ss_state \<Rightarrow> bool" where
  "gs_save_enabled s =
     (case gs_form (gs s) of None \<Rightarrow> False | Some g \<Rightarrow> \<not> form_invalid g \<and> sf_dirty g \<and> \<not> gs_running (gs s))"

definition ks_save_enabled :: "ss_state \<Rightarrow> bool" where
  "ks_save_enabled s =
     (case ks_form (ks s) of None \<Rightarrow> False
      | Some g \<Rightarrow> form_valid g \<and> sf_touched g \<and>
          truthy (js_get (ss_value s (ks_status (ks s))) ''general_settings_configured'') \<and> \<not> ks_running (ks s))"

definition ms_save_enabled :: "ss_state \<Rightarrow> bool" where
  "ms_save_enabled s =
     (case ms_form (ms s) of None \<Rightarrow> False
      | Some g \<Rightarrow> form_valid g \<and> sf_dirty g \<and>
          truthy (js_get (ss_value s (ms_status (ms s))) ''general_settings_configured''))"

fun ss_try :: "ss_action \<Rightarrow> ss_state \<Rightarrow> ss_state attempt" where
  "ss_try (GS_Type v) s = gs_on_form (type_setting v ''domain'') s"
| "ss_try (GS_Leave name) s = gs_on_form (leave_setting name) s"
| "ss_try GS_Save s = (if gs_save_enabled s then gs_click_button_save s else done_with s)"
| "ss_try GS_Open_Console s = done_with (if truthy (gs_job (gs s)) then gs_click_button_open_console s else s)"
| "ss_try (GS_Job_Deleted i) s =
     (if i < length (dialogs s) \<and> dialogs s ! i = GS_Console then gs_job_deleted i s else done_with s)"
| "ss_try (KS_Type name v keyup) s =
     and_then (ks_on_form (type_setting v name) s) (\<lambda>s.
       if keyup \<and> name \<in> {''password'', ''re_password''} then ks_re_evaluate s else done_with s)"
| "ss_try (KS_Range v) s =
     (if v \<in> set (arr_elems (ks_options (ks s)))
      then and_then (ks_on_form (type_setting v ''kubernetes_services_cidr'') s) (\<lambda>s. done_with (check_kubernetes_service_range s))
      else done_with s)"
| "ss_try (KS_Leave name) s = ks_on_form (leave_setting name) s"
| "ss_try KS_Save s = (if ks_save_enabled s then ks_click_button_save s else done_with s)"
| "ss_try KS_Open_Console s = done_with (if truthy (ks_job (ks s)) then ks_click_button_open_console s else s)"
| "ss_try (MS_Type name v keyup) s =
     and_then (ms_on_form (type_setting v name) s) (\<lambda>s. if keyup then ms_re_evaluate s else done_with s)"
| "ss_try (MS_Leave name) s = ms_on_form (leave_setting name) s"
| "ss_try MS_Save s = (if ms_save_enabled s then ms_click_button_save s else done_with s)"
| "ss_try SS_Password_Help s = done_with (open_password_dialog_window s)"
| "ss_try (SS_Kit_Status_Change data) s =
     and_then (gs_on_kit_status_change data s) (\<lambda>s. and_then (ks_on_kit_status_change data s) (ms_on_kit_status_change data))"

fun ss_answer :: "ss_request \<Rightarrow> reply \<Rightarrow> ss_state \<Rightarrow> ss_state" where
  "ss_answer SP_General = sp_api_get_general_settings_answer"
| "ss_answer SP_Status = sp_api_get_kit_status_answer"
| "ss_answer SP_Info = sp_api_get_controller_info_answer"
| "ss_answer SP_Kit = sp_api_get_kit_settings_answer"
| "ss_answer GS_Update = gs_api_update_general_settings_answer"
| "ss_answer GS_Job = gs_api_job_get_answer"
| "ss_answer KS_Used = ks_api_get_used_ip_addresses_answer"
| "ss_answer KS_Update = ks_api_update_kit_settings_answer"
| "ss_answer KS_Job = ks_api_job_get_answer"
| "ss_answer MS_Get = ms_api_get_mip_settings_answer"
| "ss_answer (MS_Update v) = ms_api_update_mip_settings_answer v"

definition ss_detect :: "ss_state \<Rightarrow> ss_state" where
  "ss_detect s = snd (and_then (gs_detect s) (\<lambda>s. and_then (ks_detect s) ms_detect))"

definition ss_step :: "ss_action event \<Rightarrow> ss_state \<Rightarrow> ss_state" where
  "ss_step ev s = ss_detect (async_step (\<lambda>a s. snd (ss_try a s)) ss_answer (\<lambda>_ _ s. s) ev s)"

definition ss_open :: ss_state where
  "ss_open = ss_detect (sp_ngOnInit sp_constructor)"

end
