(* ===== verification/Settings_Form_Facts.thy ===== *)
theory Settings_Form_Facts
  imports Settings_Forms
begin

text \<open>
  What validation finds in the forms of the settings page: a password control is valid exactly when its text
  keeps the password policy, and the control that repeats it when it is the same text and the first is valid.
  \<open>password_pair\<close> says that the status of two such controls is up to date, both disabled or both enabled.
\<close>

section \<open>Validators on texts\<close>

definition strong_password :: "string \<Rightarrow> bool" where
  "strong_password t \<longleftrightarrow>
     15 \<le> length t \<and> (\<exists>c \<in> set t. is_digit c) \<and> (\<exists>c \<in> set t. is_lower c) \<and> (\<exists>c \<in> set t. is_upper c) \<and>
     (\<exists>c \<in> set t. \<not> is_digit c \<and> \<not> is_lower c \<and> \<not> is_upper c) \<and> 8 \<le> card (set t) \<and> \<not> has_triple t"

lemma password_str:
  assumes "ctl_value (ctl_of c) = JStr t"
  obtains e where "passwordValidator vo c ops = Inr e" "t \<noteq> [] \<Longrightarrow> e = None \<longleftrightarrow> strong_password t"
proof -
  have same: "passwordValidator vo c ops = passwordValidator vo (text_control t b) ops" for b
    by (simp add: passwordValidator_def assms)
  obtain e where e: "passwordValidator vo c ops = Inr e"
    using passwordValidator_text_defined [of vo t False ops] same [of False] by auto
  moreover have "e = None \<longleftrightarrow> strong_password t" if "t \<noteq> []"
    using passwordValidator_text [OF that, of vo False ops] e same [of False] by (simp add: strong_password_def)
  ultimately show thesis by (rule that)
qed

lemma setting_control_simps [simp]:
  "ctl_value (ctl_of (setting_control f)) = fd_value f" "ctl_touched (ctl_of (setting_control f)) = fd_touched f"
  "ctl_stat (ctl_of (setting_control f)) = setting_stat f"
  by (simp_all add: setting_control_def)

lemma strong_nonempty: "strong_password t \<Longrightarrow> t \<noteq> []"
  by (auto simp: strong_password_def)

lemma validate_password:
  assumes "fd_rules f = Some kitSettingsValidators_root_password" "fd_value f = JStr t" "\<not> st_disabled f"
  shows "setting_validate cs f = done_with (f\<lparr>fd_valid := strong_password t\<rparr>)"
proof -
  let ?vo = "vo_simple ''password'' ''Root password did not meet the password requirements.''"
  obtain e where e: "passwordValidator ?vo (setting_control f) (setting_ops cs f) = Inr e" "t \<noteq> [] \<Longrightarrow> e = None \<longleftrightarrow> strong_password t"
    by (rule password_str [of "setting_control f" t ?vo "setting_ops cs f"]) (simp_all add: assms(2))
  have required: "requiredField vo (setting_control f) = Inr (if t = [] then Some (new_errorObject (setting_control f) (vo_error_message vo)) else None)" for vo
    by (rule required_str) (simp add: assms(2))
  obtain x where "validateFromArray kitSettingsValidators_root_password (setting_ops cs f) (setting_control f) = Inr x"
    and "x = None \<longleftrightarrow> strong_password t"
  proof (cases "t = []")
    case True
    then show thesis
      using e(1) that strong_password_def [of "[]"] by (simp add: kitSettingsValidators_root_password_def validateFromArray_def required)
  next
    case False
    then show thesis
      using e that by (cases e) (simp_all add: kitSettingsValidators_root_password_def validateFromArray_def required)
  qed
  then show ?thesis by (simp add: setting_validate_def assms(1,3))
qed

lemma validate_repeated:
  assumes "fd_rules f = Some kitSettingsValidators_re_password" "fd_value f = JStr u" "\<not> st_disabled f"
    and "st_parent f = Some n" "map_of cs n = Some p"
  shows "setting_validate cs f = done_with (f\<lparr>fd_valid := (u \<noteq> [] \<and> setting_stat p = VALID \<and> fd_value p = JStr u)\<rparr>)"
  using assms
  by (auto simp: setting_validate_def kitSettingsValidators_re_password_def validateFromArray_def setting_ops_def
      required_str [of "setting_control f" u] inputFieldMatch_def parent_ops_def split: option.split)

lemma validate_disabled [simp]: "st_disabled f \<Longrightarrow> setting_validate cs f = done_with f"
  by (simp add: setting_validate_def)

lemma validate_unruled [simp]: "fd_rules f = None \<Longrightarrow> \<not> st_disabled f \<Longrightarrow> setting_validate cs f = done_with (f\<lparr>fd_valid := True\<rparr>)"
  by (simp add: setting_validate_def)

section \<open>Pairs of passwords\<close>

definition text_pair :: "bool \<Rightarrow> string \<Rightarrow> setting \<Rightarrow> setting \<Rightarrow> bool" where
  "text_pair b n p r \<longleftrightarrow> st_disabled p = b \<and> st_disabled r = b \<and>
     fd_rules p = Some kitSettingsValidators_root_password \<and> (\<exists>t. fd_value p = JStr t) \<and>
     fd_rules r = Some kitSettingsValidators_re_password \<and> (\<exists>u. fd_value r = JStr u) \<and> st_parent r = Some n"

definition password_ok :: "setting \<Rightarrow> bool" where
  "password_ok p \<longleftrightarrow> st_disabled p \<or> (\<forall>t. fd_value p = JStr t \<longrightarrow> fd_valid p = strong_password t)"

definition repeated_ok :: "setting \<Rightarrow> setting \<Rightarrow> bool" where
  "repeated_ok p r \<longleftrightarrow>
     st_disabled r \<or> (\<forall>u. fd_value r = JStr u \<longrightarrow> fd_valid r = (u \<noteq> [] \<and> setting_stat p = VALID \<and> fd_value p = JStr u))"

definition password_pair :: "bool \<Rightarrow> string \<Rightarrow> setting \<Rightarrow> setting \<Rightarrow> bool" where
  "password_pair b n p r \<longleftrightarrow> text_pair b n p r \<and> password_ok p \<and> repeated_ok p r"

text \<open>Validating the two, in this order, brings the pair up to date, whatever the other controls are.\<close>

lemma pair_validated:
  assumes "text_pair b n p r"
  shows "\<exists>p' r'. (\<forall>cs. setting_validate cs p = (None, p')) \<and> (\<forall>cs. map_of cs n = Some p' \<longrightarrow> setting_validate cs r = (None, r')) \<and>
    password_pair b n p' r'"
proof -
  obtain t u where t: "fd_value p = JStr t" "fd_value r = JStr u" using assms by (auto simp: text_pair_def)
  have off: "st_disabled p = b" "st_disabled r = b" using assms by (auto simp: text_pair_def)
  have rules: "fd_rules p = Some kitSettingsValidators_root_password" "fd_rules r = Some kitSettingsValidators_re_password"
    "st_parent r = Some n" using assms by (auto simp: text_pair_def)
  define p' where "p' = (if st_disabled p then p else p\<lparr>fd_valid := strong_password t\<rparr>)"
  define r' where "r' = (if st_disabled r then r else r\<lparr>fd_valid := (u \<noteq> [] \<and> setting_stat p' = VALID \<and> fd_value p' = JStr u)\<rparr>)"
  have "setting_validate cs p = (None, p')" for cs
    using validate_password [OF rules(1) t(1), of cs] by (cases "st_disabled p") (simp_all add: p'_def done_with_def)
  moreover have "setting_validate cs r = (None, r')" if "map_of cs n = Some p'" for cs
    using validate_repeated [OF rules(2) t(2) _ rules(3) that] by (cases "st_disabled r") (simp_all add: r'_def done_with_def)
  moreover have "password_pair b n p' r'"
    using rules t off by (simp add: password_pair_def text_pair_def password_ok_def repeated_ok_def p'_def r'_def)
  ultimately show ?thesis by blast
qed

text \<open>A valid form with an enabled pair: both controls hold the same strong password.\<close>

lemma pair_valid:
  assumes "password_pair False n p r" "fd_valid p" "fd_valid r"
  obtains t where "fd_value p = JStr t" "fd_value r = JStr t" "strong_password t"
  using assms by (auto simp: password_pair_def text_pair_def password_ok_def repeated_ok_def)

end
