(* ===== verification/Mip_Settings_Facts.thy ===== *)
theory Mip_Settings_Facts
  imports Kit_Settings Settings_Form_Facts Effects
begin

text \<open>
  The passwords of the MIPs: while they are typed, the form can be saved only when each of the three passwords
  keeps the policy and was repeated, whatever happens on the rest of the page; what is sent are such passwords.
\<close>

section \<open>The form\<close>

definition ms_controls :: "setting \<times> setting \<Rightarrow> setting \<times> setting \<Rightarrow> setting \<times> setting \<Rightarrow> (string \<times> setting) list" where
  "ms_controls x y z =
     [(''password'', fst x), (''user_password'', fst y), (''luks_password'', fst z),
      (''re_password'', snd x), (''user_re_password'', snd y), (''luks_re_password'', snd z)]"

definition ms_pairs :: "(string \<Rightarrow> setting \<Rightarrow> setting \<Rightarrow> bool) \<Rightarrow> settings_form \<Rightarrow> bool" where
  "ms_pairs P g \<longleftrightarrow>
     (\<exists>x y z. sf_controls g = ms_controls x y z \<and> P ''password'' (fst x) (snd x) \<and> P ''user_password'' (fst y) (snd y) \<and>
        P ''luks_password'' (fst z) (snd z))"

lemma ms_pairs_mono: "ms_pairs P g \<Longrightarrow> (\<And>n p r. P n p r \<Longrightarrow> Q n p r) \<Longrightarrow> ms_pairs Q g"
  unfolding ms_pairs_def by blast

lemma ms_pairs_flags [simp]:
  "ms_pairs P (g\<lparr>sf_dirty := b\<rparr>) = ms_pairs P g" "ms_pairs P (g\<lparr>sf_touched := b\<rparr>) = ms_pairs P g"
  by (simp_all add: ms_pairs_def)

lemma text_pair_update [simp]:
  "text_pair b n p r \<Longrightarrow> text_pair c n (p\<lparr>st_disabled := c\<rparr>) (r\<lparr>st_disabled := c\<rparr>)"
  by (simp_all add: text_pair_def)

text \<open>A pass over the controls that validates each, in the order of the form or of \<open>re_evaluate\<close>.\<close>

lemma ms_pass:
  assumes g: "ms_pairs (text_pair b) g"
    and op: "\<And>n g. op n g = on_setting n (\<lambda>f. setting_validate (sf_controls g) (prep f)) g"
    and prep: "\<And>n p r. text_pair b n p r \<Longrightarrow> text_pair c n (prep p) (prep r)"
    and ns: "ns = map fst (sf_controls g) \<or>
      ns = [''password'', ''re_password'', ''user_password'', ''user_re_password'', ''luks_password'', ''luks_re_password'']"
  obtains g' where "each op ns g = (None, g')" "ms_pairs (password_pair c) g'"
proof -
  obtain x y z where cs: "sf_controls g = ms_controls x y z" and t: "text_pair b ''password'' (fst x) (snd x)"
    "text_pair b ''user_password'' (fst y) (snd y)" "text_pair b ''luks_password'' (fst z) (snd z)"
    using g unfolding ms_pairs_def by blast
  obtain p1 r1 where 1: "\<forall>cs. setting_validate cs (prep (fst x)) = (None, p1)"
    "\<forall>cs. map_of cs ''password'' = Some p1 \<longrightarrow> setting_validate cs (prep (snd x)) = (None, r1)" "password_pair c ''password'' p1 r1"
    using pair_validated [OF prep [OF t(1)]] by blast
  obtain p2 r2 where 2: "\<forall>cs. setting_validate cs (prep (fst y)) = (None, p2)"
    "\<forall>cs. map_of cs ''user_password'' = Some p2 \<longrightarrow> setting_validate cs (prep (snd y)) = (None, r2)" "password_pair c ''user_password'' p2 r2"
    using pair_validated [OF prep [OF t(2)]] by blast
  obtain p3 r3 where 3: "\<forall>cs. setting_validate cs (prep (fst z)) = (None, p3)"
    "\<forall>cs. map_of cs ''luks_password'' = Some p3 \<longrightarrow> setting_validate cs (prep (snd z)) = (None, r3)" "password_pair c ''luks_password'' p3 r3"
    using pair_validated [OF prep [OF t(3)]] by blast
  have "each op ns g = (None, g\<lparr>sf_controls := ms_controls (p1, r1) (p2, r2) (p3, r3)\<rparr>)"
    using ns unfolding cs by (elim disjE) (simp_all add: op on_setting_def cs ms_controls_def 1 2 3 done_with_def)
  moreover have "ms_pairs (password_pair c) (g\<lparr>sf_controls := ms_controls (p1, r1) (p2, r2) (p3, r3)\<rparr>)"
    unfolding ms_pairs_def using 1(3) 2(3) 3(3)
    by (intro exI [of _ "(p1, r1)"] exI [of _ "(p2, r2)"] exI [of _ "(p3, r3)"]) simp
  ultimately show thesis by (rule that)
qed

lemma ms_revalidated:
  assumes "ms_pairs (text_pair b) g"
  obtains g' where "each updateValueAndValidity
      [''password'', ''re_password'', ''user_password'', ''user_re_password'', ''luks_password'', ''luks_re_password''] g = (None, g')"
    "ms_pairs (password_pair b) g'"
  by (rule ms_pass [where prep = "\<lambda>f. f" and op = updateValueAndValidity, OF assms updateValueAndValidity_def _ disjI2 [OF refl]]) (assumption, erule (1) that)

lemma ms_enabled: "ms_pairs (text_pair b) g \<Longrightarrow> ms_pairs (password_pair False) (snd (enable_form g))"
  by (rule ms_pass [where b = b and c = False and op = "only_self False" and prep = "\<lambda>f. f\<lparr>st_disabled := False\<rparr>" and ns = "map fst (sf_controls g)" and g = g])
    (simp_all add: only_self_def enable_form_def)

lemma ms_disabled: "ms_pairs (text_pair b) g \<Longrightarrow> ms_pairs (password_pair True) (snd (disable_form g))"
proof -
  assume "ms_pairs (text_pair b) g"
  then obtain x y z where c: "sf_controls g = ms_controls x y z" and t: "text_pair b ''password'' (fst x) (snd x)"
    "text_pair b ''user_password'' (fst y) (snd y)" "text_pair b ''luks_password'' (fst z) (snd z)"
    unfolding ms_pairs_def by blast
  let ?off = "\<lambda>x. (fst x\<lparr>st_disabled := True\<rparr>, snd x\<lparr>st_disabled := True\<rparr>)"
  have "snd (disable_form g) = g\<lparr>sf_controls := ms_controls (?off x) (?off y) (?off z)\<rparr>"
    by (simp add: disable_form_def only_self_def on_setting_def c ms_controls_def done_with_def)
  then show ?thesis
    using t unfolding ms_pairs_def
    by (intro exI [of _ "?off x"] exI [of _ "?off y"] exI [of _ "?off z"]) (simp add: password_pair_def password_ok_def repeated_ok_def text_pair_def)
qed

text \<open>A control that is replaced by one with the same rules.\<close>

definition same_rules :: "setting \<Rightarrow> setting \<Rightarrow> bool" where
  "same_rules f f' \<longleftrightarrow> st_disabled f' = st_disabled f \<and> fd_rules f' = fd_rules f \<and> st_parent f' = st_parent f \<and> (\<exists>t. fd_value f' = JStr t)"

lemma ms_update_text:
  assumes "ms_pairs (text_pair b) g" "map_of (sf_controls g) name = Some f" "same_rules f f'"
  shows "ms_pairs (text_pair b) (g\<lparr>sf_controls := AList.update name f' (sf_controls g)\<rparr>)"
proof -
  obtain x y z where c: "sf_controls g = ms_controls x y z" and t: "text_pair b ''password'' (fst x) (snd x)"
    "text_pair b ''user_password'' (fst y) (snd y)" "text_pair b ''luks_password'' (fst z) (snd z)"
    using assms(1) unfolding ms_pairs_def by blast
  consider "name = ''password''" "f = fst x" | "name = ''user_password''" "f = fst y" | "name = ''luks_password''" "f = fst z"
    | "name = ''re_password''" "f = snd x" | "name = ''user_re_password''" "f = snd y" | "name = ''luks_re_password''" "f = snd z"
    using assms(2) unfolding c ms_controls_def by (auto split: if_splits)
  then show ?thesis
    using t assms(3) unfolding ms_pairs_def c by cases (simp_all add: ms_controls_def split_paired_Ex text_pair_def same_rules_def)
qed

lemma ms_type:
  assumes "ms_pairs (text_pair b) g"
  obtains g' where "type_setting (JStr t) name g = (None, g')" "ms_pairs (text_pair b) g'"
proof (cases "map_of (sf_controls g) name")
  case None
  then show thesis using that assms by (simp add: type_setting_def done_with_def)
next
  case (Some f)
  show thesis
  proof (cases "st_disabled f")
    case True
    then show thesis using that assms Some by (simp add: type_setting_def done_with_def)
  next
    case False
    let ?f = "f\<lparr>fd_dirty := True\<rparr>"
    define g1 where "g1 = g\<lparr>sf_dirty := True, sf_controls := AList.update name ?f (sf_controls g)\<rparr>"
    have f: "fd_rules f = Some kitSettingsValidators_root_password \<or>
        fd_rules f = Some kitSettingsValidators_re_password \<and>
          (case st_parent f of None \<Rightarrow> False | Some n \<Rightarrow> map_of (sf_controls g) n \<noteq> None)"
      "\<exists>t. fd_value f = JStr t"
      using assms Some unfolding ms_pairs_def ms_controls_def by (auto simp: text_pair_def split: if_splits)
    have g1: "ms_pairs (text_pair b) g1"
      using ms_update_text [OF assms Some, of ?f] f(2) unfolding g1_def by (simp add: same_rules_def ms_pairs_def)
    obtain f' where f': "setting_validate (sf_controls g1) (?f\<lparr>fd_value := JStr t\<rparr>) = (None, f')" "same_rules ?f f'"
    proof (cases "fd_rules f = Some kitSettingsValidators_root_password")
      case True
      then show thesis
        using that validate_password [of "?f\<lparr>fd_value := JStr t\<rparr>" t "sf_controls g1"] False by (simp add: done_with_def same_rules_def)
    next
      case other: False
      with f(1) obtain n p where "fd_rules f = Some kitSettingsValidators_re_password" "st_parent f = Some n"
        "map_of (sf_controls g) n = Some p" by (auto split: option.splits)
      then show thesis
        using that validate_repeated [of "?f\<lparr>fd_value := JStr t\<rparr>" t n "sf_controls g1"] False
        by (cases "n = name") (auto simp: done_with_def same_rules_def g1_def update_conv)
    qed
    have "map_of (sf_controls g1) name = Some ?f" by (simp add: g1_def update_conv)
    with f'(1) have "type_setting (JStr t) name g = (None, g1\<lparr>sf_controls := AList.update name f' (sf_controls g1)\<rparr>)"
      using Some False unfolding type_setting_def set_setting_def
      by (simp add: on_setting_def done_with_def and_then_def g1_def [symmetric])
    moreover have "ms_pairs (text_pair b) (g1\<lparr>sf_controls := AList.update name f' (sf_controls g1)\<rparr>)"
      using g1 \<open>map_of (sf_controls g1) name = Some ?f\<close> f'(2) by (rule ms_update_text)
    ultimately show thesis by (rule that)
  qed
qed

lemma ms_leave:
  assumes "ms_pairs (password_pair b) g"
  shows "ms_pairs (password_pair b) (snd (leave_setting name g))"
proof (cases "map_of (sf_controls g) name")
  case (Some f)
  have touched: "password_pair b n (p\<lparr>fd_touched := c\<rparr>) r = password_pair b n p r" "password_pair b n p (r\<lparr>fd_touched := c\<rparr>) = password_pair b n p r"
    for n p r c
    by (simp_all add: password_pair_def text_pair_def password_ok_def repeated_ok_def setting_stat_def)
  obtain x y z where c: "sf_controls g = ms_controls x y z" and t: "password_pair b ''password'' (fst x) (snd x)"
    "password_pair b ''user_password'' (fst y) (snd y)" "password_pair b ''luks_password'' (fst z) (snd z)"
    using assms unfolding ms_pairs_def by blast
  consider "name = ''password''" "f = fst x" | "name = ''user_password''" "f = fst y" | "name = ''luks_password''" "f = fst z"
    | "name = ''re_password''" "f = snd x" | "name = ''user_re_password''" "f = snd y" | "name = ''luks_re_password''" "f = snd z"
    using Some unfolding c ms_controls_def by (auto split: if_splits)
  then show ?thesis
    using t unfolding ms_pairs_def
    by cases (simp_all add: leave_setting_def on_setting_def c done_with_def ms_controls_def split_paired_Ex touched)
qed (use assms in \<open>simp add: leave_setting_def on_setting_def ms_pairs_def\<close>)

definition mip_texts :: "js \<Rightarrow> bool" where
  "mip_texts v \<longleftrightarrow> (\<forall>n \<in> set ms_passwords. \<not> notUndefNull (js_get v n) \<or> (\<exists>t. js_get v n = JStr t))"

lemma or_else_text: "\<not> notUndefNull v \<or> (\<exists>t. v = JStr t) \<Longrightarrow> \<exists>t. or_else v (JStr []) = JStr t"
  by (cases "notUndefNull v") (auto simp: or_else_def)

lemma ms_new_form_pairs:
  assumes "mip_texts v"
  obtains g where "ms_new_form v = Inr g" "ms_pairs (password_pair False) g"
proof -
  obtain t1 t2 t3 where t: "or_else (js_get v ''password'') (JStr []) = JStr t1" "or_else (js_get v ''user_password'') (JStr []) = JStr t2"
    "or_else (js_get v ''luks_password'') (JStr []) = JStr t3"
    using assms or_else_text [of "js_get v ''password''"] or_else_text [of "js_get v ''user_password''"] or_else_text [of "js_get v ''luks_password''"]
    unfolding mip_texts_def ms_passwords_def by (simp only: list.set ball_simps) blast
  define f where "f = (\<lambda>t rules parent. \<lparr>fd_value = JStr t, fd_touched = False, fd_dirty = False, fd_rules = Some rules, fd_valid = True,
       st_disabled = False, st_parent = parent\<rparr>)"
  let ?p = "\<lambda>t. f t kitSettingsValidators_root_password None" and ?r = "\<lambda>t n. f t kitSettingsValidators_re_password (Some n)"
  have pair: "text_pair False n (?p t) (?r t n)" for n t by (simp add: f_def text_pair_def)
  obtain p1 r1 where 1: "\<forall>cs. setting_validate cs (?p t1) = (None, p1)"
    "\<forall>cs. map_of cs ''password'' = Some p1 \<longrightarrow> setting_validate cs (?r t1 ''password'') = (None, r1)" "password_pair False ''password'' p1 r1"
    using pair_validated [OF pair] by blast
  obtain p2 r2 where 2: "\<forall>cs. setting_validate cs (?p t2) = (None, p2)"
    "\<forall>cs. map_of cs ''user_password'' = Some p2 \<longrightarrow> setting_validate cs (?r t2 ''user_password'') = (None, r2)"
    "password_pair False ''user_password'' p2 r2"
    using pair_validated [OF pair] by blast
  obtain p3 r3 where 3: "\<forall>cs. setting_validate cs (?p t3) = (None, p3)"
    "\<forall>cs. map_of cs ''luks_password'' = Some p3 \<longrightarrow> setting_validate cs (?r t3 ''luks_password'') = (None, r3)"
    "password_pair False ''luks_password'' p3 r3"
    using pair_validated [OF pair] by blast
  have "ms_new_form v = Inr \<lparr>sf_controls = ms_controls (p1, r1) (p2, r2) (p3, r3), sf_dirty = False, sf_touched = False\<rparr>"
    using 1 2 3 by (simp add: ms_new_form_def new_form_def ms_passwords_def ms_repeated_def new_setting_def t f_def ms_controls_def)
  moreover have "ms_pairs (password_pair False) \<lparr>sf_controls = ms_controls (p1, r1) (p2, r2) (p3, r3), sf_dirty = False, sf_touched = False\<rparr>"
    using 1(3) 2(3) 3(3) by (simp add: ms_pairs_def ms_controls_def split_paired_Ex)
  ultimately show thesis by (rule that)
qed

section \<open>The page\<close>

fun is_mip_save :: "effect \<Rightarrow> bool" where
  "is_mip_save (Http m u _) = (m = POST \<and> u = ''/api/settings/mip'')"
| "is_mip_save _ = False"

fun is_mip_update :: "ss_request \<Rightarrow> bool" where
  "is_mip_update (MS_Update _) = True"
| "is_mip_update _ = False"

definition strong_passwords :: "js \<Rightarrow> bool" where
  "strong_passwords v \<longleftrightarrow> (\<forall>n \<in> set ms_passwords. \<exists>t. js_get v n = JStr t \<and> strong_password t)"

definition ms_inv :: "ss_state \<Rightarrow> bool" where
  "ms_inv s \<longleftrightarrow>
     (\<forall>g. ms_form (ms s) = Some g \<longrightarrow> (\<exists>b. ms_pairs (password_pair b) g)) \<and>
     (\<forall>v. MS_Update v \<in> set (requests s) \<longrightarrow> mip_texts v) \<and>
     (\<forall>m u v. Http m u v \<in> set (seen is_mip_save s) \<longrightarrow> strong_passwords v)"

lemma no_reports_mip_save [simp]: "no_reports is_mip_save"
  by (simp add: no_reports_def)

lemma ms_inv_fields [simp]:
  "ms_inv (s\<lparr>gs := x1\<rparr>) = ms_inv s" "ms_inv (s\<lparr>ks := x2\<rparr>) = ms_inv s" "ms_inv (s\<lparr>ss_objects := x3\<rparr>) = ms_inv s"
  "ms_inv (s\<lparr>sp_general := r\<rparr>) = ms_inv s" "ms_inv (s\<lparr>sp_kit := r\<rparr>) = ms_inv s" "ms_inv (s\<lparr>sp_status := r\<rparr>) = ms_inv s"
  "ms_inv (s\<lparr>sp_info := r\<rparr>) = ms_inv s" "ms_inv (s\<lparr>sp_disable_add := b\<rparr>) = ms_inv s"
  "ms_inv (s\<lparr>sp_kit := r, sp_disable_add := b\<rparr>) = ms_inv s"
  "ms_inv (s\<lparr>dialogs := ds\<rparr>) = ms_inv s" "ms_inv (gs_set_form fo s) = ms_inv s" "ms_inv (ks_set_form fo s) = ms_inv s"
  "ms_inv (ss_put_job r' job s) = ms_inv s"
  "ms_inv (sp_update_general_settings r s) = ms_inv s" "ms_inv (sp_update_kit_settings r s) = ms_inv s"
  "ms_inv (sp_update_add_kit_button b s) = ms_inv s"
  by (simp_all add: ms_inv_def gs_set_form_def ks_set_form_def ss_put_job_def sp_update_general_settings_def sp_update_kit_settings_def
      sp_update_add_kit_button_def seen_def split: option.split)

lemma ms_inv_alloc [simp]: "ms_inv (snd (ss_alloc v s)) = ms_inv s"
  by (simp add: ss_alloc_def)

lemma ms_inv_allocated: "ss_alloc v s = (r, s') \<Longrightarrow> ms_inv s' = ms_inv s"
  using ms_inv_alloc [of v s] by simp

lemma ms_inv_on_form [simp]: "ms_inv (snd (gs_on_form f s)) = ms_inv s" "ms_inv (snd (ks_on_form f s)) = ms_inv s"
  by (simp_all add: gs_on_form_def ks_on_form_def split: option.split prod.split)

lemma ms_inv_call [simp]:
  "\<not> is_mip_save (Http (ep_method ep) (ep_url ep) (ep_body ep)) \<Longrightarrow> \<not> is_mip_update k \<Longrightarrow> ms_inv (call ep k s) = ms_inv s"
  by (cases k) (auto simp: ms_inv_def call_def request_def http_def emit_def seen_def)

lemma ms_inv_open [simp]: "ms_inv (open_dialog n v d s) = ms_inv s"
  by (simp add: ms_inv_def open_dialog_def emit_def seen_def)

lemma ms_inv_then: "ms_inv (snd m) \<Longrightarrow> (\<And>s. ms_inv s \<Longrightarrow> ms_inv (snd (f s))) \<Longrightarrow> ms_inv (snd (and_then m f))"
  by (rule snd_and_then [where P = ms_inv])

lemma ms_inv_removed: "ms_inv s \<Longrightarrow> ms_inv (s\<lparr>requests := remove_nth i (requests s)\<rparr>)"
  using set_remove_nth [of i "requests s"] by (auto simp: ms_inv_def seen_def)

lemma ms_inv_attempt: "ms_inv s \<Longrightarrow> (\<And>t. r = Inr t \<Longrightarrow> ms_inv t) \<Longrightarrow> ms_inv (snd (attempt s r))"
  by (cases r) (simp_all add: attempt_def)

lemma ss_more: "world.more s = world.more s' \<Longrightarrow> ms s = ms s' \<and> requests s = requests s'" for s s' :: ss_state
  by (cases s; cases s') simp

lemma ms_inv_frame: "ms_inv s \<Longrightarrow> world.more s' = world.more s \<Longrightarrow> seen is_mip_save s' = seen is_mip_save s \<Longrightarrow> ms_inv s'"
  using ss_more [of s' s] by (simp add: ms_inv_def)

lemma ms_inv_reports [simp]:
  "ms_inv s \<Longrightarrow> ms_inv (report_error m s)" "ms_inv s \<Longrightarrow> ms_inv (report_error_or_message m e s)"
  "ms_inv s \<Longrightarrow> ms_inv (generate_return_success_snackbar_message m c s)" "ms_inv s \<Longrightarrow> ms_inv (displaySnackBar v c s)"
  by (erule ms_inv_frame; simp)+

lemma ms_inv_answered:
  assumes "ms_inv s" "\<And>v x. r = Reply v \<Longrightarrow> ep_decode ep v = Inr x \<Longrightarrow> ms_inv (next_cb x s)" "\<And>e s. ms_inv s \<Longrightarrow> ms_inv (error_cb e s)"
  shows "ms_inv (answered ep next_cb error_cb r s)"
proof (rule answered_outcomes [of r ep next_cb error_cb s])
  fix s' err
  assume "answered ep next_cb error_cb r s = error_cb err s'" "world.more s' = world.more s"
    "\<And>f. no_reports f \<Longrightarrow> seen f s' = seen f s"
  then show ?thesis using assms(1,3) ms_inv_frame [of s s'] by simp
qed (use assms(2) in simp)

text \<open>The other children leave it alone.\<close>

lemma ms_inv_gs_parts [simp]:
  "ms_inv (gs_api_job_get s) = ms_inv s" "ms_inv (gs_check_job s) = ms_inv s" "ms_inv (snd (gs_gather_controller_facts s)) = ms_inv s"
  "ms_inv (snd (gs_initialize_form s)) = ms_inv s" "ms_inv (snd (gs_on_status s)) = ms_inv s"
  "ms_inv (gs_click_button_open_console s) = ms_inv s" "ms_inv (gs_api_update_general_settings s) = ms_inv s"
  by (simp_all add: gs_api_job_get_def job_get_def gs_check_job_def gs_gather_controller_facts_def gs_initialize_form_def gs_on_status_def
      gs_click_button_open_console_def gs_api_update_general_settings_def update_general_settings_def Let_def
      split: sum.split prod.split option.split)

lemma ms_inv_gs_settings [simp]: "ms_inv (snd (gs_on_settings s)) = ms_inv s"
  by (simp add: gs_on_settings_def Let_def split: sum.split)

lemma ms_inv_gs_detect: "ms_inv s \<Longrightarrow> ms_inv (snd (gs_detect s))"
  unfolding gs_detect_def gs_ngOnChanges_def gs_ngOnInit_def Let_def by (auto intro!: ms_inv_then)

lemma ms_inv_gs_save: "ms_inv s \<Longrightarrow> ms_inv (snd (gs_click_button_save s))"
  by (auto simp: gs_click_button_save_def done_with_def ms_inv_allocated split: option.split sum.split prod.split)

lemma ms_inv_ks_parts [simp]:
  "ms_inv (ks_api_job_get s) = ms_inv s" "ms_inv (snd (ks_initialize_form s)) = ms_inv s"
  "ms_inv (snd (ks_set_kubernetes_dhcp_range v s)) = ms_inv s" "ms_inv (snd (ks_re_evaluate s)) = ms_inv s"
  "ms_inv (ks_api_get_used_ip_addresses v s) = ms_inv s" "ms_inv (check_kubernetes_service_range s) = ms_inv s"
  "ms_inv (ks_api_update_kit_settings s) = ms_inv s" "ms_inv (ks_click_button_open_console s) = ms_inv s"
  by (simp_all add: ks_api_job_get_def job_get_def ks_initialize_form_def ks_set_kubernetes_dhcp_range_def ks_re_evaluate_def attempt_def smap_def
      ks_api_get_used_ip_addresses_def get_used_ip_addresses_def check_kubernetes_service_range_def ks_api_update_kit_settings_def
      update_kit_settings_def ks_click_button_open_console_def split: sum.split option.split)

lemma ms_inv_ks_gather [simp]: "ms_inv (snd (ks_gather_controller_facts s)) = ms_inv s"
  by (simp add: ks_gather_controller_facts_def Let_def)

lemma ms_inv_ks_check: "ms_inv s \<Longrightarrow> ms_inv (snd (ks_check_job s))"
  unfolding ks_check_job_def Let_def by (auto intro!: ms_inv_then split: sum.split)

lemma ms_inv_ks_detect: "ms_inv s \<Longrightarrow> ms_inv (snd (ks_detect s))"
  unfolding ks_detect_def ks_ngOnChanges_def Let_def by (auto intro!: ms_inv_then ms_inv_ks_check)

lemma ms_inv_ks_save: "ms_inv s \<Longrightarrow> ms_inv (snd (ks_click_button_save s))"
  by (auto simp: ks_click_button_save_def done_with_def ms_inv_allocated split: option.split sum.split prod.split)

lemma ms_inv_sockets:
  "ms_inv s \<Longrightarrow> ms_inv (snd (gs_on_kit_status_change data s))" "ms_inv s \<Longrightarrow> ms_inv (snd (ks_on_kit_status_change data s))"
  by (auto simp: gs_on_kit_status_change_def ks_on_kit_status_change_def done_with_def ms_inv_allocated
      intro!: ms_inv_ks_check split: sum.split prod.split)

lemma ms_inv_updated: "ms_inv s \<Longrightarrow> ms_inv (snd (gs_updated response s))" "ms_inv s \<Longrightarrow> ms_inv (snd (ks_updated response s))"
  by (auto simp: gs_updated_def ks_updated_def Let_def intro!: ms_inv_then ms_inv_ks_check)

lemma ms_inv_gs_known: "ms_inv s \<Longrightarrow> ms_inv (snd (gs_job_known response s))"
  by (auto simp: gs_job_known_def Let_def split: sum.split)

lemma ms_inv_ks_known: "ms_inv s \<Longrightarrow> ms_inv (snd (ks_job_known response s))"
  unfolding ks_job_known_def Let_def by (auto intro!: ms_inv_then split: sum.split)

lemma ms_inv_loaded: "ms_inv s \<Longrightarrow> (\<And>r s. ms_inv (assign r s) = ms_inv s) \<Longrightarrow> ms_inv (sp_loaded assign v s)"
  by (auto simp: sp_loaded_def ms_inv_allocated split: prod.split)

section \<open>The child itself\<close>

lemma text_pair_of: "password_pair b n p r \<Longrightarrow> text_pair b n p r"
  by (simp add: password_pair_def)

lemma ms_pairs_text: "ms_pairs (password_pair b) g \<Longrightarrow> ms_pairs (text_pair b) g"
  by (erule ms_pairs_mono) (rule text_pair_of)

lemma ms_inv_form:
  assumes "ms_inv s" "\<And>g b. ms_pairs (password_pair b) g \<Longrightarrow> \<exists>c. ms_pairs (password_pair c) (snd (f g))"
  shows "ms_inv (snd (ms_on_form f s))"
proof (cases "ms_form (ms s)")
  case (Some g)
  then obtain b where "ms_pairs (password_pair b) g" using assms(1) by (auto simp: ms_inv_def)
  then obtain c where "ms_pairs (password_pair c) (snd (f g))" using assms(2) by blast
  then show ?thesis
    using assms(1) by (auto simp: ms_on_form_def Some ms_inv_def ms_set_form_def seen_def split: prod.split)
qed (use assms(1) in \<open>simp add: ms_on_form_def\<close>)

lemma ms_inv_set_form: "ms_inv s \<Longrightarrow> ms_pairs (password_pair b) g \<Longrightarrow> ms_inv (ms_set_form (Some g) s)"
  by (auto simp: ms_inv_def ms_set_form_def seen_def)

lemma ms_inv_initialize: "ms_inv s \<Longrightarrow> mip_texts v \<Longrightarrow> ms_inv (snd (ms_initialize_form v s))"
  unfolding ms_initialize_form_def
  by (rule ms_inv_attempt, assumption, erule ms_new_form_pairs) (auto simp: smap_Inr_iff intro: ms_inv_set_form)

lemma ms_inv_check: "ms_inv s \<Longrightarrow> ms_inv (snd (ms_check_job s))"
  unfolding ms_check_job_def
  by (auto split: sum.split intro!: ms_inv_form dest!: ms_pairs_text intro: ms_enabled ms_disabled)

lemma ms_inv_status [simp]:
  "ms_inv (s\<lparr>ms := (ms s)\<lparr>ms_status := r\<rparr>\<rparr>) = ms_inv s" "ms_inv (s\<lparr>ms := (ms s)\<lparr>ms_bound := b, ms_status := r\<rparr>\<rparr>) = ms_inv s"
  by (simp_all add: ms_inv_def seen_def)

lemma ms_inv_detect: "ms_inv s \<Longrightarrow> ms_inv (snd (ms_detect s))"
  unfolding ms_detect_def ms_ngOnChanges_def ms_ngOnInit_def ms_api_get_mip_settings_def Let_def
  by (auto intro!: ms_inv_then ms_inv_check ms_inv_initialize simp: get_mip_settings_def mip_texts_def notUndefNull_def)

lemma ms_inv_ss_detect: "ms_inv s \<Longrightarrow> ms_inv (ss_detect s)"
  unfolding ss_detect_def by (intro ms_inv_then ms_inv_gs_detect ms_inv_ks_detect ms_inv_detect)

lemma ms_inv_type: "ms_inv s \<Longrightarrow> ms_inv (snd (and_then (ms_on_form (type_setting (JStr t) name) s) ms_re_evaluate))"
proof (cases "ms_form (ms s)")
  case (Some g)
  assume *: "ms_inv s"
  then obtain b where "ms_pairs (text_pair b) g" using Some by (auto simp: ms_inv_def dest: ms_pairs_text)
  then obtain g1 where g1: "type_setting (JStr t) name g = (None, g1)" "ms_pairs (text_pair b) g1" by (rule ms_type)
  from g1(2) obtain g2 where g2: "each updateValueAndValidity
      [''password'', ''re_password'', ''user_password'', ''user_re_password'', ''luks_password'', ''luks_re_password''] g1 = (None, g2)"
    "ms_pairs (password_pair b) g2" by (rule ms_revalidated)
  have "snd (and_then (ms_on_form (type_setting (JStr t) name) s) ms_re_evaluate) = ms_set_form (Some g2) (ms_set_form (Some g1) s)"
    by (simp add: ms_on_form_def Some g1(1) ms_re_evaluate_def ms_set_form_def g2(1) del: each.simps)
  moreover have "ms_set_form (Some g2) (ms_set_form (Some g1) s) = ms_set_form (Some g2) s" by (simp add: ms_set_form_def)
  ultimately show ?thesis using ms_inv_set_form [OF * g2(2)] by simp
qed (simp add: ms_on_form_def)

text \<open>A form that can be saved has its three pairs enabled and valid.\<close>

lemma ms_valid_form:
  assumes "ms_pairs (password_pair b) g" "form_valid g"
  obtains x y z u1 u2 u3 where "sf_controls g = ms_controls x y z"
    "fd_value (fst x) = JStr u1" "fd_value (snd x) = JStr u1" "strong_password u1"
    "fd_value (fst y) = JStr u2" "fd_value (snd y) = JStr u2" "strong_password u2"
    "fd_value (fst z) = JStr u3" "fd_value (snd z) = JStr u3" "strong_password u3"
proof -
  obtain x y z where c: "sf_controls g = ms_controls x y z" and t: "password_pair b ''password'' (fst x) (snd x)"
    "password_pair b ''user_password'' (fst y) (snd y)" "password_pair b ''luks_password'' (fst z) (snd z)"
    using assms(1) unfolding ms_pairs_def by blast
  have off: "st_disabled f = b" if "(n, f) \<in> set (sf_controls g)" for n f
    using that t by (auto simp: c ms_controls_def password_pair_def text_pair_def)
  with assms(2) have "\<not> b" by (auto simp: form_valid_def any_enabled_def list_ex_iff)
  with assms(2) off have ok: "fd_valid f" if "(n, f) \<in> set (sf_controls g)" for n f
    using that by (fastforce simp: form_valid_def any_enabled_def list_ex_iff)
  have ok: "fd_valid (fst x)" "fd_valid (snd x)" "fd_valid (fst y)" "fd_valid (snd y)" "fd_valid (fst z)" "fd_valid (snd z)"
    using ok [of "''password''" "fst x"] ok [of "''re_password''" "snd x"] ok [of "''user_password''" "fst y"]
      ok [of "''user_re_password''" "snd y"] ok [of "''luks_password''" "fst z"] ok [of "''luks_re_password''" "snd z"]
    by (simp_all add: c ms_controls_def)
  have t: "password_pair False ''password'' (fst x) (snd x)" "password_pair False ''user_password'' (fst y) (snd y)"
    "password_pair False ''luks_password'' (fst z) (snd z)"
    using t \<open>\<not> b\<close> by simp_all
  show thesis
    by (rule pair_valid [OF t(1) ok(1,2)], rule pair_valid [OF t(2) ok(3,4)], rule pair_valid [OF t(3) ok(5,6)]) (rule that [OF c])
qed

lemma ms_saved_strong:
  assumes "ms_pairs (password_pair b) g" "form_valid g"
  shows "strong_passwords (ms_saved_value g)" "mip_texts (ms_saved_value g)"
  by (rule ms_valid_form [OF assms];
      simp add: strong_passwords_def mip_texts_def ms_passwords_def ms_saved_value_def form_raw_def ms_controls_def delete_key_def)+

lemma ms_inv_save:
  assumes "ms_inv s" "ms_save_enabled s"
  shows "ms_inv (snd (ms_click_button_save s))"
proof -
  obtain g where g: "ms_form (ms s) = Some g" "form_valid g" using assms(2) by (auto simp: ms_save_enabled_def split: option.splits)
  then obtain b where "ms_pairs (password_pair b) g" using assms(1) by (auto simp: ms_inv_def)
  from ms_saved_strong [OF this g(2)] show ?thesis
    using assms(1) g(1) by (auto simp: ms_click_button_save_def ms_inv_def done_with_def update_mip_settings_def call_def request_def http_def emit_def seen_def)
qed

text \<open>Texts of the form and of the backend.\<close>

fun reply_texts :: "reply \<Rightarrow> bool" where
  "reply_texts (Reply v) = mip_texts v"
| "reply_texts (Failure _) = True"

fun typed_event :: "ss_action event \<Rightarrow> bool" where
  "typed_event (Act (MS_Type name v keyup)) = (keyup \<and> (\<exists>t. v = JStr t))"
| "typed_event (Answer i r) = reply_texts r"
| "typed_event _ = True"

lemma ms_inv_try: "ms_inv s \<Longrightarrow> typed_event (Act a) \<Longrightarrow> ms_inv (snd (ss_try a s))"
proof (cases a)
  case (MS_Type name v keyup)
  assume "ms_inv s" "typed_event (Act a)"
  then show ?thesis using ms_inv_type [of s] unfolding MS_Type by auto
next
  case (MS_Leave name)
  assume "ms_inv s"
  then show ?thesis unfolding MS_Leave ss_try.simps by (rule ms_inv_form) (blast intro: ms_leave)
next
  case (SS_Kit_Status_Change data)
  assume "ms_inv s"
  then show ?thesis unfolding SS_Kit_Status_Change ss_try.simps
    by (intro ms_inv_then ms_inv_sockets)
      (auto simp: ms_on_kit_status_change_def ms_inv_allocated intro!: ms_inv_check split: sum.split prod.split)
qed (auto simp: gs_job_deleted_def open_password_dialog_window_def intro!: ms_inv_gs_save ms_inv_ks_save ms_inv_save ms_inv_then)

lemma seen_refused [simp]:
  assumes "no_reports f"
  shows "seen f (show_validation_errors m keys t s) = seen f s" "seen f (show_post_validation v s) = seen f s"
  using assms
  by (induction m keys t s rule: show_validation_errors.induct)
    (simp_all add: Let_def show_post_validation_def split: js.split sum.split)

lemma ms_inv_refused [simp]: "ms_inv s \<Longrightarrow> ms_inv (report_refused m e s)"
  by (erule ms_inv_frame) (simp_all add: report_refused_def split: api_error.split)

lemma ms_inv_answer: "ms_inv s \<Longrightarrow> reply_texts r \<Longrightarrow> (\<And>v. k = MS_Update v \<Longrightarrow> mip_texts v) \<Longrightarrow> ms_inv (ss_answer k r s)"
proof (cases k)
  case MS_Get
  assume inv: "ms_inv s" and r: "reply_texts r"
  show ?thesis unfolding MS_Get ss_answer.simps ms_api_get_mip_settings_answer_def
  proof (rule ms_inv_answered [OF inv])
    fix v x assume "r = Reply v" "ep_decode get_mip_settings v = Inr x"
    then have "mip_texts x" using r
      by (auto simp: get_mip_settings_def decode_settings_def new_MipSettingsClass_def construct_def copy_def mip_texts_def ms_passwords_def
          notUndefNull_def split: if_splits)
    then show "ms_inv (snd (ms_initialize_form x s))" by (rule ms_inv_initialize [OF inv])
  qed simp
next
  case (MS_Update v)
  assume inv: "ms_inv s" and "\<And>v. k = MS_Update v \<Longrightarrow> mip_texts v"
  then have "mip_texts v" using MS_Update by blast
  then show ?thesis unfolding MS_Update ss_answer.simps ms_api_update_mip_settings_answer_def
    by (intro ms_inv_answered [OF inv]) (auto intro!: ms_inv_then ms_inv_initialize [OF inv])
qed (auto simp: sp_api_get_general_settings_answer_def sp_api_get_kit_status_answer_def sp_api_get_controller_info_answer_def
    sp_api_get_kit_settings_answer_def gs_api_update_general_settings_answer_def gs_api_job_get_answer_def
    ks_api_get_used_ip_addresses_answer_def ks_api_update_kit_settings_answer_def ks_api_job_get_answer_def
    intro!: ms_inv_answered ms_inv_loaded ms_inv_updated ms_inv_gs_known ms_inv_ks_known)

lemma ms_inv_step: "ms_inv s \<Longrightarrow> typed_event ev \<Longrightarrow> ms_inv (ss_step ev s)"
proof (cases ev)
  case (Act a)
  assume "ms_inv s" "typed_event ev"
  then show ?thesis unfolding Act ss_step_def async_step_def by (auto intro!: ms_inv_ss_detect ms_inv_try)
next
  case (Answer i r)
  assume inv: "ms_inv s" and "typed_event ev"
  then have r: "reply_texts r" using Answer by simp
  have "ms_inv (ss_answer (requests s ! i) r (s\<lparr>requests := remove_nth i (requests s)\<rparr>))" if "i < length (requests s)"
  proof (rule ms_inv_answer [OF ms_inv_removed [OF inv] r])
    fix v assume "requests s ! i = MS_Update v"
    then have "MS_Update v \<in> set (requests s)" using nth_mem [OF that] by simp
    then show "mip_texts v" using inv by (simp add: ms_inv_def)
  qed
  then show ?thesis unfolding Answer ss_step_def async_step_def using inv by (auto intro!: ms_inv_ss_detect)
next
  case (Closed i v)
  assume "ms_inv s"
  then show ?thesis unfolding Closed ss_step_def async_step_def by (auto intro!: ms_inv_ss_detect)
qed

lemma ms_inv_open': "ms_inv ss_open"
proof -
  have "ms_inv sp_constructor" by (simp add: ms_inv_def sp_constructor_def ms_constructor_def seen_def)
  then have "ms_inv (sp_ngOnInit sp_constructor)"
    by (simp add: sp_ngOnInit_def sp_api_get_kit_settings_def sp_api_get_controller_info_def sp_api_get_kit_status_def
        sp_api_get_general_settings_def get_kit_settings_def get_controller_info_def get_kit_status_def get_general_settings_def)
      (simp add: ms_inv_def seen_def emit_def)
  then show ?thesis unfolding ss_open_def by (rule ms_inv_ss_detect)
qed

lemma ms_inv_reached: "\<forall>ev \<in> set evs. typed_event ev \<Longrightarrow> ms_inv (fold ss_step evs ss_open)"
proof (induction evs rule: rev_induct)
  case (snoc ev evs)
  then show ?case using ms_inv_step [of "fold ss_step evs ss_open" ev] by simp
qed (simp add: ms_inv_open')

end
