(* ===== verification/Settings_Refs.thy ===== *)
theory Settings_Refs
  imports Mip_Settings_Facts
begin

text \<open>
  References of the settings page: every reference that the page or a child holds is one of an object, and after each
  event the children are bound to the references of the page.
\<close>

section \<open>References\<close>

fun ref_in :: "nat \<Rightarrow> ref \<Rightarrow> bool" where
  "ref_in n None = True"
| "ref_in n (Some i) = (i < n)"

definition refs_ok :: "ss_state \<Rightarrow> bool" where
  "refs_ok s \<longleftrightarrow>
     (\<forall>r \<in> {sp_general s, sp_kit s, sp_status s, sp_info s, gs_settings (gs s), ks_kit (ks s)}. ref_in (length (ss_objects s)) r)"

lemma ref_in_mono: "ref_in n r \<Longrightarrow> n \<le> m \<Longrightarrow> ref_in m r"
  by (cases r) simp_all

lemma ref_in_input: "ref_in n r \<Longrightarrow> ref_in n old \<Longrightarrow> ref_in n (new_input (input_change b r) old)"
  by (auto simp: new_input_def input_change_def split: option.splits)

lemma refs_ok_fields [simp]:
  "refs_ok (s\<lparr>ms := x\<rparr>) = refs_ok s" "refs_ok (s\<lparr>dialogs := ds\<rparr>) = refs_ok s" "refs_ok (s\<lparr>requests := rs\<rparr>) = refs_ok s"
  "refs_ok (s\<lparr>sp_disable_add := b\<rparr>) = refs_ok s" "refs_ok (gs_set_form fo s) = refs_ok s" "refs_ok (ks_set_form fo s) = refs_ok s"
  "refs_ok (ms_set_form fo s) = refs_ok s" "refs_ok (sp_update_add_kit_button b s) = refs_ok s"
  "refs_ok (s\<lparr>gs := (gs s)\<lparr>gs_job := j\<rparr>\<rparr>) = refs_ok s" "refs_ok (s\<lparr>ks := (ks s)\<lparr>ks_job := j\<rparr>\<rparr>) = refs_ok s"
  "refs_ok (s\<lparr>gs := (gs s)\<lparr>gs_status := r\<rparr>\<rparr>) = refs_ok s" "refs_ok (s\<lparr>ks := (ks s)\<lparr>ks_status := r\<rparr>\<rparr>) = refs_ok s"
  "refs_ok (s\<lparr>gs := (gs s)\<lparr>gs_running := b, gs_tooltip := t\<rparr>\<rparr>) = refs_ok s"
  "refs_ok (s\<lparr>gs := (gs s)\<lparr>gs_job := j, gs_running := b, gs_tooltip := t\<rparr>\<rparr>) = refs_ok s"
  "refs_ok (s\<lparr>ks := (ks s)\<lparr>ks_running := b, ks_tooltip := t\<rparr>\<rparr>) = refs_ok s"
  "refs_ok (s\<lparr>ks := (ks s)\<lparr>ks_job := j, ks_running := b, ks_tooltip := t\<rparr>\<rparr>) = refs_ok s"
  "refs_ok (s\<lparr>ks := (ks s)\<lparr>ks_options := o1\<rparr>\<rparr>) = refs_ok s" "refs_ok (s\<lparr>ks := (ks s)\<lparr>ks_used_ips := t\<rparr>\<rparr>) = refs_ok s"
  "refs_ok (s\<lparr>ks := (ks s)\<lparr>ks_options := o1, ks_unused := o2, ks_ranges := o3\<rparr>\<rparr>) = refs_ok s"
  "refs_ok (ss_put_job r' job s) = refs_ok s"
  by (simp_all add: refs_ok_def gs_set_form_def ks_set_form_def ms_set_form_def sp_update_add_kit_button_def ss_put_job_def
      split: option.split)

lemma refs_ok_emit [simp]: "refs_ok (emit e s) = refs_ok s" "refs_ok (call ep k s) = refs_ok s" "refs_ok (open_dialog n v d s) = refs_ok s"
  by (simp_all add: refs_ok_def emit_def call_def request_def http_def open_dialog_def)

lemma ss_same: "world.more s = world.more s' \<Longrightarrow> refs_ok s = refs_ok s'" for s s' :: ss_state
  by (cases s; cases s') (simp add: refs_ok_def)

lemma refs_ok_on_form [simp]:
  "refs_ok (snd (gs_on_form f s)) = refs_ok s" "refs_ok (snd (ks_on_form f s)) = refs_ok s" "refs_ok (snd (ms_on_form f s)) = refs_ok s"
  by (simp_all add: gs_on_form_def ks_on_form_def ms_on_form_def split: option.split prod.split)

lemma refs_ok_alloc:
  assumes "refs_ok s" "ss_alloc v s = (r, s')"
  shows "refs_ok s'" "refs_ok (s'\<lparr>sp_general := r\<rparr>)" "refs_ok (s'\<lparr>sp_status := r\<rparr>)" "refs_ok (s'\<lparr>sp_info := r\<rparr>)"
    "refs_ok (s'\<lparr>sp_kit := r, sp_disable_add := b\<rparr>)"
    "refs_ok (s'\<lparr>gs := (gs s')\<lparr>gs_settings := r\<rparr>\<rparr>)" "refs_ok (s'\<lparr>ks := (ks s')\<lparr>ks_kit := r\<rparr>\<rparr>)"
  using assms by (auto simp: ss_alloc_def refs_ok_def split: if_splits intro: ref_in_mono)

lemma refs_ok_then: "refs_ok (snd m) \<Longrightarrow> (\<And>s. refs_ok s \<Longrightarrow> refs_ok (snd (f s))) \<Longrightarrow> refs_ok (snd (and_then m f))"
  by (rule snd_and_then [where P = refs_ok])

lemma refs_ok_given [simp]:
  "refs_ok s \<Longrightarrow> refs_ok (sp_update_general_settings (gs_settings (gs s)) s)"
  "refs_ok s \<Longrightarrow> refs_ok (sp_update_kit_settings (ks_kit (ks s)) (sp_update_add_kit_button b s))"
  by (simp_all add: refs_ok_def sp_update_general_settings_def sp_update_kit_settings_def sp_update_add_kit_button_def)

section \<open>The children\<close>

lemma refs_ok_gs_parts [simp]:
  "refs_ok (gs_api_job_get s) = refs_ok s" "refs_ok (gs_check_job s) = refs_ok s" "refs_ok (snd (gs_gather_controller_facts s)) = refs_ok s"
  "refs_ok (snd (gs_initialize_form s)) = refs_ok s" "refs_ok (snd (gs_on_status s)) = refs_ok s"
  "refs_ok (gs_click_button_open_console s) = refs_ok s" "refs_ok (gs_api_update_general_settings s) = refs_ok s"
  by (simp_all add: gs_api_job_get_def gs_check_job_def gs_gather_controller_facts_def gs_initialize_form_def gs_on_status_def
      gs_click_button_open_console_def gs_api_update_general_settings_def Let_def split: sum.split prod.split option.split)

lemma refs_ok_gs_settings [simp]: "refs_ok (snd (gs_on_settings s)) = refs_ok s"
  by (simp add: gs_on_settings_def Let_def split: sum.split)

lemma refs_ok_if: "refs_ok (snd m) \<Longrightarrow> refs_ok (snd m') \<Longrightarrow> refs_ok (snd (if b then m else m'))"
  by simp

lemma refs_ok_bound:
  "refs_ok s \<Longrightarrow> refs_ok (s\<lparr>gs := (gs s)\<lparr>gs_bound := b, gs_settings := new_input (input_change b1 (sp_general s)) (gs_settings (gs s)),
      gs_status := r2, gs_info := r3\<rparr>\<rparr>)"
  "refs_ok s \<Longrightarrow> refs_ok (s\<lparr>ks := (ks s)\<lparr>ks_bound := b', ks_general := r1, ks_status := r2, ks_info := r3,
      ks_kit := new_input (input_change b4 (sp_kit s)) (ks_kit (ks s))\<rparr>\<rparr>)"
  by (auto simp: refs_ok_def intro: ref_in_input)

lemma refs_ok_gs_changes: "refs_ok s \<Longrightarrow> refs_ok (snd (gs_ngOnChanges c1 c2 c3 s))"
  unfolding gs_ngOnChanges_def by (intro refs_ok_then refs_ok_if) simp_all

lemma refs_ok_gs_detect: "refs_ok s \<Longrightarrow> refs_ok (snd (gs_detect s))"
  unfolding gs_detect_def gs_ngOnInit_def Let_def
  by (intro refs_ok_if refs_ok_then refs_ok_gs_changes refs_ok_bound) simp_all

lemma refs_ok_ks_parts [simp]:
  "refs_ok (ks_api_job_get s) = refs_ok s" "refs_ok (snd (ks_initialize_form s)) = refs_ok s"
  "refs_ok (snd (ks_set_kubernetes_dhcp_range v s)) = refs_ok s" "refs_ok (snd (ks_re_evaluate s)) = refs_ok s"
  "refs_ok (ks_api_get_used_ip_addresses v s) = refs_ok s" "refs_ok (check_kubernetes_service_range s) = refs_ok s"
  "refs_ok (ks_api_update_kit_settings s) = refs_ok s" "refs_ok (ks_click_button_open_console s) = refs_ok s"
  by (simp_all add: ks_api_job_get_def ks_initialize_form_def ks_set_kubernetes_dhcp_range_def ks_re_evaluate_def attempt_def smap_def
      ks_api_get_used_ip_addresses_def check_kubernetes_service_range_def ks_api_update_kit_settings_def
      ks_click_button_open_console_def split: sum.split option.split)

lemma refs_ok_ks_gather [simp]: "refs_ok (snd (ks_gather_controller_facts s)) = refs_ok s"
  by (simp add: ks_gather_controller_facts_def Let_def)

lemma refs_ok_ks_check: "refs_ok s \<Longrightarrow> refs_ok (snd (ks_check_job s))"
  unfolding ks_check_job_def Let_def by (auto intro!: refs_ok_then split: sum.split)

lemma refs_ok_ks_changes: "refs_ok s \<Longrightarrow> refs_ok (snd (ks_ngOnChanges c1 c2 c3 s))"
  unfolding ks_ngOnChanges_def by (intro refs_ok_then refs_ok_if refs_ok_ks_check) simp_all

lemma refs_ok_ks_detect: "refs_ok s \<Longrightarrow> refs_ok (snd (ks_detect s))"
  unfolding ks_detect_def Let_def by (intro refs_ok_if refs_ok_then refs_ok_ks_changes refs_ok_bound) simp_all

lemma refs_ok_ms_parts [simp]: "refs_ok (snd (ms_initialize_form v s)) = refs_ok s" "refs_ok (snd (ms_check_job s)) = refs_ok s"
  by (simp_all add: ms_initialize_form_def attempt_def smap_def ms_check_job_def split: sum.split)

lemma refs_ok_ms_detect: "refs_ok s \<Longrightarrow> refs_ok (snd (ms_detect s))"
  unfolding ms_detect_def ms_ngOnChanges_def ms_ngOnInit_def ms_api_get_mip_settings_def Let_def by (auto intro!: refs_ok_then)

lemma refs_ok_detect: "refs_ok s \<Longrightarrow> refs_ok (ss_detect s)"
  unfolding ss_detect_def by (intro refs_ok_then refs_ok_gs_detect refs_ok_ks_detect refs_ok_ms_detect)

section \<open>Every event\<close>

lemma refs_ok_sockets:
  "refs_ok s \<Longrightarrow> refs_ok (snd (gs_on_kit_status_change data s))" "refs_ok s \<Longrightarrow> refs_ok (snd (ks_on_kit_status_change data s))"
  "refs_ok s \<Longrightarrow> refs_ok (snd (ms_on_kit_status_change data s))"
  by (auto simp: gs_on_kit_status_change_def ks_on_kit_status_change_def ms_on_kit_status_change_def done_with_def
      intro!: refs_ok_ks_check dest: refs_ok_alloc(1) split: sum.split prod.split)

lemma refs_ok_saves:
  "refs_ok s \<Longrightarrow> refs_ok (snd (gs_click_button_save s))" "refs_ok s \<Longrightarrow> refs_ok (snd (ks_click_button_save s))"
  "refs_ok s \<Longrightarrow> refs_ok (snd (ms_click_button_save s))"
  by (auto simp: gs_click_button_save_def ks_click_button_save_def ms_click_button_save_def done_with_def
      dest: refs_ok_alloc(6,7) split: option.split sum.split prod.split)

lemma refs_ok_try: "refs_ok s \<Longrightarrow> refs_ok (snd (ss_try a s))"
proof (cases a)
  case (SS_Kit_Status_Change data)
  assume "refs_ok s"
  then show ?thesis unfolding SS_Kit_Status_Change ss_try.simps by (intro refs_ok_then refs_ok_sockets)
qed (auto simp: gs_job_deleted_def open_password_dialog_window_def ms_re_evaluate_def intro!: refs_ok_saves refs_ok_then)

lemma refs_ok_updated: "refs_ok s \<Longrightarrow> refs_ok (snd (gs_updated response s))" "refs_ok s \<Longrightarrow> refs_ok (snd (ks_updated response s))"
  by (auto simp: gs_updated_def ks_updated_def Let_def intro!: refs_ok_then refs_ok_ks_check refs_ok_given)

lemma refs_ok_known: "refs_ok s \<Longrightarrow> refs_ok (snd (gs_job_known response s))" "refs_ok s \<Longrightarrow> refs_ok (snd (ks_job_known response s))"
  unfolding gs_job_known_def ks_job_known_def Let_def by (auto intro!: refs_ok_then refs_ok_given split: sum.split)

lemma refs_ok_answered:
  assumes "refs_ok s" "\<And>x. refs_ok (next_cb x s)" "\<And>e s. refs_ok s \<Longrightarrow> refs_ok (error_cb e s)"
  shows "refs_ok (answered ep next_cb error_cb r s)"
proof (rule answered_outcomes [of r ep next_cb error_cb s])
  fix s' err
  assume "answered ep next_cb error_cb r s = error_cb err s'" "world.more s' = world.more s"
  then show ?thesis using assms(1,3) ss_same [of s s'] by simp
qed (use assms(2) in simp)

lemma refs_ok_reports [simp]:
  "refs_ok (report_error m s) = refs_ok s" "refs_ok (report_error_or_message m e s) = refs_ok s"
  "refs_ok (generate_return_success_snackbar_message m c s) = refs_ok s" "refs_ok (report_refused m e s) = refs_ok s"
proof -
  have "world.more (report_refused m e s) = world.more s"
    by (simp add: report_refused_def split: api_error.split)
  then show "refs_ok (report_refused m e s) = refs_ok s" by (rule ss_same)
qed (rule ss_same; simp)+

lemma refs_ok_loaded:
  "refs_ok s \<Longrightarrow> (\<And>r s'. refs_ok s' \<Longrightarrow> ss_alloc v s = (r, s') \<Longrightarrow> refs_ok (assign r s')) \<Longrightarrow> refs_ok (sp_loaded assign v s)"
  by (auto simp: sp_loaded_def dest: refs_ok_alloc(1) split: prod.split)

lemma refs_ok_answer: "refs_ok s \<Longrightarrow> refs_ok (ss_answer k r s)"
  by (cases k)
    (auto simp: sp_api_get_general_settings_answer_def sp_api_get_kit_status_answer_def sp_api_get_controller_info_answer_def
      sp_api_get_kit_settings_answer_def gs_api_update_general_settings_answer_def gs_api_job_get_answer_def
      ks_api_get_used_ip_addresses_answer_def ks_api_update_kit_settings_answer_def ks_api_job_get_answer_def
      ms_api_get_mip_settings_answer_def ms_api_update_mip_settings_answer_def
      intro!: refs_ok_answered refs_ok_loaded refs_ok_updated refs_ok_known refs_ok_then dest: refs_ok_alloc(2-5))

lemma refs_ok_step: "refs_ok s \<Longrightarrow> refs_ok (ss_step ev s)"
  unfolding ss_step_def async_step_def
  by (cases ev) (auto intro!: refs_ok_detect refs_ok_try refs_ok_answer)

lemma refs_ok_open_page: "refs_ok ss_open"
proof -
  have "refs_ok sp_constructor" by (simp add: refs_ok_def sp_constructor_def gs_constructor_def ks_constructor_def)
  then have "refs_ok (sp_ngOnInit sp_constructor)"
    by (simp add: sp_ngOnInit_def sp_api_get_kit_settings_def sp_api_get_controller_info_def sp_api_get_kit_status_def
        sp_api_get_general_settings_def)
  then show ?thesis unfolding ss_open_def by (rule refs_ok_detect)
qed

end
