(* ===== verification/Settings_Facts.thy ===== *)
theory Settings_Facts
  imports Settings_Refs
begin

text \<open>
  Properties of the settings page: the passwords that are saved, the ranges of addresses that are offered, and what
  depends on the order in which the backend answers.
\<close>

section \<open>Passwords of the MIPs\<close>

definition control_value :: "string \<Rightarrow> settings_form \<Rightarrow> js option" where
  "control_value name g = map_option fd_value (map_of (sf_controls g) name)"

definition repeated_passwords :: "settings_form \<Rightarrow> bool" where
  "repeated_passwords g \<longleftrightarrow> (\<forall>(r, p) \<in> set ms_repeated. control_value r g \<noteq> None \<and> control_value r g = control_value p g)"

lemma valid_form_repeats:
  assumes "ms_pairs (password_pair b) g" "form_valid g"
  shows "repeated_passwords g"
  by (rule ms_valid_form [OF assms]) (simp add: repeated_passwords_def ms_repeated_def control_value_def ms_controls_def)

text \<open>C9: while the passwords of the MIPs are typed with the keyboard and the backend answers with texts, every request
  that saves them carries three passwords that keep the policy, and whenever the button is enabled each of the three
  was repeated correctly, whatever else happens on the page and in whatever order.\<close>

theorem mip_passwords_strong:
  assumes "\<forall>ev \<in> set evs. typed_event ev"
  shows "let s = fold ss_step evs ss_open
    in (\<forall>v. Http POST ''/api/settings/mip'' v \<in> set (trace s) \<longrightarrow> strong_passwords v) \<and>
       (\<forall>g. ms_form (ms s) = Some g \<longrightarrow> ms_save_enabled s \<longrightarrow> repeated_passwords g)"
proof -
  let ?s = "fold ss_step evs ss_open"
  have inv: "ms_inv ?s" by (rule ms_inv_reached [OF assms])
  have "strong_passwords v" if "Http POST ''/api/settings/mip'' v \<in> set (trace ?s)" for v
    using inv that by (auto simp: ms_inv_def seen_def)
  moreover have "repeated_passwords g" if saved: "ms_form (ms ?s) = Some g" "ms_save_enabled ?s" for g
  proof -
    obtain b where "ms_pairs (password_pair b) g" using inv saved(1) unfolding ms_inv_def by blast
    moreover have "form_valid g" using saved by (simp add: ms_save_enabled_def)
    ultimately show ?thesis by (rule valid_form_repeats)
  qed
  ultimately show ?thesis by (simp add: Let_def)
qed

section \<open>Ranges of addresses\<close>

definition dot_32 :: "string \<Rightarrow> bool" where
  "dot_32 t \<longleftrightarrow> (\<exists>u. t = u @ ''.32'')"

lemma starts_with_iff: "starts_with p s \<longleftrightarrow> (\<exists>t. s = p @ t)"
  by (induction p s rule: starts_with.induct) auto

lemma endsWith_dot_32 [simp]: "js_endsWith t ''.32'' \<longleftrightarrow> dot_32 t"
proof -
  have "js_endsWith t ''.32'' \<longleftrightarrow> (\<exists>u. rev t = rev ''.32'' @ u)" unfolding js_endsWith_def starts_with_iff by blast
  also have "\<dots> \<longleftrightarrow> (\<exists>u. t = rev u @ ''.32'')" by (metis rev_append rev_rev_ident)
  finally show ?thesis unfolding dot_32_def by (metis rev_rev_ident)
qed

fun no_neighbours :: "string list \<Rightarrow> bool" where
  "no_neighbours (t # u # ts) = (\<not> (dot_32 t \<and> dot_32 u) \<and> no_neighbours (u # ts))"
| "no_neighbours _ = True"

lemma no_neighbours_Cons: "no_neighbours (t # ts) \<Longrightarrow> no_neighbours ts"
  by (cases ts) auto

lemma drop_dot_32_filter:
  "no_neighbours ts \<Longrightarrow> drop_dot_32 (map JStr ts) = Inr (map JStr (filter (\<lambda>t. \<not> dot_32 t) ts))"
proof (induction ts rule: no_neighbours.induct)
  case (1 t u ts)
  show ?case
  proof (cases "dot_32 t")
    case True
    then have "\<not> dot_32 u" using 1(2) by simp
    with True 1 show ?thesis by simp
  qed (use 1 in simp)
qed simp_all

lemma find_index_str: "find_index (\<lambda>v. strict_eq v (JStr d)) (map JStr ts) = find_index (\<lambda>t. t = d) ts"
  by (induction ts) (auto simp: strict_eq_def)

lemma splice_found:
  "distinct ts \<Longrightarrow> (case find_index (\<lambda>t. t = d) ts of None \<Rightarrow> ts | Some i \<Rightarrow> splice1 ts (Some i)) = filter (\<lambda>t. t \<noteq> d) ts"
proof (induction ts)
  case (Cons t ts)
  show ?case
  proof (cases "t = d")
    case True
    then show ?thesis using Cons.prems by (auto simp: splice1_def intro!: filter_True [symmetric])
  next
    case False
    then show ?thesis using Cons by (cases "find_index (\<lambda>t. t = d) ts") (simp_all add: splice1_def)
  qed
qed simp

text \<open>C37: the ranges offered for the services of Kubernetes are those of the controller without the ones that end in
  \<open>.32\<close> and without the range of DHCP, provided that no two that end in \<open>.32\<close> stand next to each other: the loop
  that removes them skips the element after a removed one.\<close>

theorem kubernetes_options_filtered:
  assumes "no_neighbours ts" "distinct ts"
  shows "kubernetes_options (JArr (map JStr ts)) (JStr d) =
    Inr (JArr (map JStr (filter (\<lambda>t. \<not> dot_32 t \<and> t \<noteq> d) ts)))"
proof -
  have clean: "map (json_clean \<circ> JStr) ts = map JStr ts" by simp
  have "js_wf (JArr (map JStr ts))" by (simp add: list_all_iff)
  then have "json_copy (JArr (map JStr ts)) = Inr (JArr (map JStr ts))"
    using json_round_trip [of "JArr (map JStr ts)"] by (simp add: json_copy_def JSON_stringify_def clean del: json_text.simps)
  moreover have "(case find_index (\<lambda>v. strict_eq v (JStr d)) (map JStr us) of None \<Rightarrow> map JStr us
      | Some i \<Rightarrow> splice1 (map JStr us) (Some i)) = map JStr (filter (\<lambda>t. t \<noteq> d) us)" if "distinct us" for us
    unfolding splice_found [OF that, symmetric] find_index_str by (simp add: splice1_def take_map drop_map split: option.split)
  ultimately show ?thesis
    using assms by (simp add: kubernetes_options_def drop_dot_32_filter filter_filter conj_commute)
qed

text \<open>Of two neighbours the second one stays.\<close>

lemma second_neighbour_stays:
  "dot_32 t \<Longrightarrow> dot_32 u \<Longrightarrow> drop_dot_32 (map JStr [t, u]) = Inr [JStr u]"
  by simp

section \<open>The order of the answers\<close>

lemma gs_frames [simp]:
  "gs (snd (ks_on_form f s)) = gs s" "gs (snd (ms_on_form f s)) = gs s" "gs (call ep k s) = gs s"
  "gs (sp_update_add_kit_button b s) = gs s" "gs (ms_set_form g s) = gs s" "gs (ks_set_form g s) = gs s"
  for s :: ss_state
  by (simp_all add: ks_on_form_def ms_on_form_def ks_set_form_def ms_set_form_def call_def request_def http_def emit_def
      sp_update_add_kit_button_def split: option.split prod.split)

lemma gs_then: "gs (snd m) = x \<Longrightarrow> (\<And>s. gs s = x \<Longrightarrow> gs (snd (f s)) = x) \<Longrightarrow> gs (snd (and_then m f)) = x" for m :: "ss_state attempt"
  by (rule snd_and_then [where P = "\<lambda>s. gs s = x"])

lemma gs_ks_parts [simp]:
  "gs (ks_api_job_get s) = gs s" "gs (snd (ks_initialize_form s)) = gs s" "gs (snd (ks_set_kubernetes_dhcp_range v s)) = gs s"
  "gs (snd (ms_initialize_form v s)) = gs s" "gs (ms_api_get_mip_settings s) = gs s" "gs (snd (ms_check_job s)) = gs s"
  by (simp_all add: ks_api_job_get_def ks_initialize_form_def ks_set_kubernetes_dhcp_range_def ms_initialize_form_def attempt_def smap_def
      ms_api_get_mip_settings_def ms_check_job_def split: sum.split)

lemma gs_ks_check [simp]: "gs (snd (ks_check_job s)) = gs s"
  unfolding ks_check_job_def Let_def by (auto intro!: gs_then split: sum.split)

lemma gs_ks_gather [simp]: "gs (snd (ks_gather_controller_facts s)) = gs s"
  by (simp add: ks_gather_controller_facts_def Let_def)

lemma gs_ks_detect [simp]: "gs (snd (ks_detect s)) = gs s" "gs (snd (ms_detect s)) = gs s"
  unfolding ks_detect_def ks_ngOnChanges_def ms_detect_def ms_ngOnChanges_def ms_ngOnInit_def Let_def by (auto intro!: gs_then)

lemma gs_ss_detect [simp]: "gs (ss_detect s) = gs (snd (gs_detect s))"
  unfolding ss_detect_def by (rule gs_then) (auto intro: gs_then)

text \<open>After every event the children are bound to what the page holds.\<close>

definition sp_view :: "ss_state \<Rightarrow> ref \<times> ref \<times> ref" where
  "sp_view s = (sp_general s, sp_status s, sp_info s)"

definition gs_frame :: "ss_state \<Rightarrow> ss_state \<Rightarrow> bool" where
  "gs_frame s t \<longleftrightarrow> sp_view t = sp_view s \<and> gs_bound (gs t) = gs_bound (gs s) \<and> ss_objects t = ss_objects s"

lemma gs_frame_refl [simp]: "gs_frame s s"
  by (simp add: gs_frame_def)

lemma gs_frame_then: "gs_frame s (snd m) \<Longrightarrow> (\<And>t. gs_frame s t \<Longrightarrow> gs_frame s (snd (f t))) \<Longrightarrow> gs_frame s (snd (and_then m f))"
  by (rule snd_and_then [where P = "gs_frame s"])

lemma gs_frame_form: "gs_frame s t \<Longrightarrow> gs_frame s (snd (gs_on_form f t))" "gs_frame s t \<Longrightarrow> gs_frame s (gs_set_form fo t)"
  "gs_frame s t \<Longrightarrow> gs_frame s (call ep k t)" "gs_frame s t \<Longrightarrow> gs_frame s (t\<lparr>gs := (gs t)\<lparr>gs_job := j\<rparr>\<rparr>)"
  by (auto simp: gs_frame_def sp_view_def gs_on_form_def gs_set_form_def call_def request_def http_def emit_def split: option.split prod.split)

lemma gs_frame_init: "gs_frame s t \<Longrightarrow> gs_frame s (snd (gs_initialize_form t))"
  by (simp add: gs_initialize_form_def done_with_def gs_frame_form split: sum.split prod.split option.split)

lemma gs_frame_parts:
  "gs_frame s t \<Longrightarrow> gs_frame s (snd (gs_on_status t))" "gs_frame s t \<Longrightarrow> gs_frame s (snd (gs_gather_controller_facts t))"
  "gs_frame s t \<Longrightarrow> gs_frame s (gs_check_job t)"
  by (simp_all add: gs_on_status_def gs_gather_controller_facts_def Let_def gs_frame_form gs_check_job_def gs_api_job_get_def split: sum.split)

lemma gs_frame_settings: "gs_frame s t \<Longrightarrow> gs_frame s (snd (gs_on_settings t))"
  by (simp add: gs_on_settings_def Let_def gs_frame_init gs_frame_parts gs_frame_form split: sum.split)

lemma gs_frame_if: "gs_frame s (snd m) \<Longrightarrow> gs_frame s (snd m') \<Longrightarrow> gs_frame s (snd (if b then m else m'))"
  by simp

lemma gs_frame_changes: "gs_frame s t \<Longrightarrow> gs_frame s (snd (gs_ngOnChanges c1 c2 c3 t))"
  unfolding gs_ngOnChanges_def by (intro gs_frame_then gs_frame_if gs_frame_settings gs_frame_parts) simp_all

lemma gs_frame_bound:
  "gs_bound (gs (snd (gs_detect s))) = Some (sp_view s) \<and> sp_view (snd (gs_detect s)) = sp_view s"
proof (cases "gs_bound (gs s) = Some (sp_view s)")
  case True
  then show ?thesis by (simp add: gs_detect_def input_change_def sp_view_def Let_def done_with_def)
next
  case False
  let ?s = "\<lambda>r1 r2 r3. s\<lparr>gs := (gs s)\<lparr>gs_bound := Some (sp_general s, sp_status s, sp_info s), gs_settings := r1, gs_status := r2, gs_info := r3\<rparr>\<rparr>"
  have *: "gs_frame (?s r1 r2 r3) t \<Longrightarrow> gs_bound (gs t) = Some (sp_view s) \<and> sp_view t = sp_view s" for r1 r2 r3 t
    by (simp add: gs_frame_def sp_view_def)
  have changed: "\<not> (input_change (map_option (\<lambda>b. fst b) (gs_bound (gs s))) (sp_general s) = None \<and>
      input_change (map_option (\<lambda>b. fst (snd b)) (gs_bound (gs s))) (sp_status s) = None \<and>
      input_change (map_option (\<lambda>b. snd (snd b)) (gs_bound (gs s))) (sp_info s) = None)"
    using False by (auto simp: input_change_def sp_view_def split: option.splits if_splits)
  show ?thesis
    unfolding gs_detect_def Let_def if_not_P [OF changed]
    by (rule *, rule gs_frame_then, rule gs_frame_changes, rule gs_frame_refl, rule gs_frame_if) (simp_all only: gs_ngOnInit_def gs_frame_init snd_done)
qed

lemma sp_view_frames [simp]:
  "sp_view (snd (ks_on_form f s)) = sp_view s" "sp_view (snd (ms_on_form f s)) = sp_view s" "sp_view (call ep k s) = sp_view s"
  "sp_view (sp_update_add_kit_button b s) = sp_view s" "sp_view (ms_set_form g s) = sp_view s" "sp_view (ks_set_form g s) = sp_view s"
  "sp_view (s\<lparr>ks := x\<rparr>) = sp_view s" "sp_view (s\<lparr>ms := y\<rparr>) = sp_view s"
  by (simp_all add: ks_on_form_def ms_on_form_def ks_set_form_def ms_set_form_def call_def request_def http_def emit_def
      sp_update_add_kit_button_def sp_view_def split: option.split prod.split)

lemma sp_view_then: "sp_view (snd m) = x \<Longrightarrow> (\<And>s. sp_view s = x \<Longrightarrow> sp_view (snd (f s)) = x) \<Longrightarrow> sp_view (snd (and_then m f)) = x"
  by (rule snd_and_then [where P = "\<lambda>s. sp_view s = x"])

lemma sp_view_parts [simp]:
  "sp_view (ks_api_job_get s) = sp_view s" "sp_view (snd (ks_initialize_form s)) = sp_view s"
  "sp_view (snd (ks_set_kubernetes_dhcp_range v s)) = sp_view s" "sp_view (snd (ms_initialize_form v s)) = sp_view s"
  "sp_view (ms_api_get_mip_settings s) = sp_view s" "sp_view (snd (ms_check_job s)) = sp_view s"
  by (simp_all add: ks_api_job_get_def ks_initialize_form_def ks_set_kubernetes_dhcp_range_def ms_initialize_form_def attempt_def smap_def
      ms_api_get_mip_settings_def ms_check_job_def split: sum.split)

lemma sp_view_ks_check [simp]: "sp_view (snd (ks_check_job s)) = sp_view s"
  unfolding ks_check_job_def Let_def by (auto intro!: sp_view_then split: sum.split)

lemma sp_view_ks_gather [simp]: "sp_view (snd (ks_gather_controller_facts s)) = sp_view s"
  by (simp add: ks_gather_controller_facts_def Let_def)

lemma sp_view_detect [simp]: "sp_view (snd (ks_detect s)) = sp_view s" "sp_view (snd (ms_detect s)) = sp_view s"
  unfolding ks_detect_def ks_ngOnChanges_def ms_detect_def ms_ngOnChanges_def ms_ngOnInit_def Let_def by (auto intro!: sp_view_then)

lemma bound_after_detect: "gs_bound (gs (ss_detect s)) = Some (sp_view (ss_detect s))"
proof -
  have "sp_view (ss_detect s) = sp_view (snd (gs_detect s))"
    unfolding ss_detect_def by (rule sp_view_then) (auto intro: sp_view_then)
  then show ?thesis using gs_frame_bound [of s] by simp
qed

lemma bound_reached: "gs_bound (gs (fold ss_step evs ss_open)) = Some (sp_view (fold ss_step evs ss_open))"
proof (cases evs rule: rev_cases)
  case Nil
  then show ?thesis unfolding ss_open_def by (simp only: fold_Nil id_apply bound_after_detect)
next
  case (snoc ys y)
  then show ?thesis unfolding ss_step_def by (simp only: fold_append fold_Cons fold_Nil o_apply id_apply bound_after_detect)
qed

interpretation ss_page: event_machine ss_step refs_ok
  by unfold_locales (rule refs_ok_step)

lemma refs_reached: "refs_ok (fold ss_step evs ss_open)"
  by (rule ss_page.run_inv [OF refs_ok_open_page])

text \<open>Whether the domain is locked, and what the form shows.\<close>

definition domain_locked :: "ss_state \<Rightarrow> bool option" where
  "domain_locked s = map_option st_disabled (Option.bind (gs_form (gs s)) (\<lambda>g. map_of (sf_controls g) ''domain''))"

definition gs_shown :: "string \<Rightarrow> ss_state \<Rightarrow> js option" where
  "gs_shown name s = Option.bind (gs_form (gs s)) (control_value name)"

definition plain_setting :: "js \<Rightarrow> bool \<Rightarrow> setting" where
  "plain_setting v off = \<lparr>fd_value = v, fd_touched = False, fd_dirty = False, fd_rules = None, fd_valid = True, st_disabled = off, st_parent = None\<rparr>"

lemma js_length_present: "notUndefNull v \<Longrightarrow> \<exists>n. js_length v = Inr n"
  by (cases v) (auto simp: notUndefNull_def)

lemma run_all_total: "\<forall>vo \<in> set vos. \<exists>r. run_validator ops c vo = Inr r \<Longrightarrow> \<exists>es. run_all ops c vos = Inr es"
  by (induction vos) auto

lemma domain_never_throws:
  assumes "notUndefNull (fd_value f)" "fd_rules f = Some kitSettingsValidators_domain" "\<not> fd_touched f" "\<not> st_disabled f"
  obtains b where "setting_validate cs f = (None, f\<lparr>fd_valid := b\<rparr>)"
proof -
  obtain n where n: "js_length (fd_value f) = Inr n" using js_length_present [OF assms(1)] by blast
  have "\<exists>x. patternValidator (vo_regex p m) (setting_control f) = Inr x" for p m
    by (simp add: patternValidator_def n Let_def vo_defs)
  moreover have "\<exists>x. requiredField vo (setting_control f) = Inr x" for vo
    using assms(1,3) by (simp add: requiredField_def n Let_def)
  ultimately have "\<exists>es. run_all (setting_ops cs f) (setting_control f) kitSettingsValidators_domain = Inr es"
    by (intro run_all_total) (simp add: kitSettingsValidators_domain_def)
  then obtain x where "validateFromArray kitSettingsValidators_domain (setting_ops cs f) (setting_control f) = Inr x"
    by (auto simp: validateFromArray_def)
  then show thesis using assms(2,4) by (intro that) (simp add: setting_validate_def done_with_def)
qed

lemma gs_form_made:
  obtains g g' f where "gs_new_form v = Inr g" "each disable_setting [''controller_interface'', ''gateway'', ''netmask''] g = (None, g')"
    "sf_controls g' = [(''domain'', f), (''controller_interface'', plain_setting (or_else (js_get v ''controller_interface'') (JStr [])) True),
       (''netmask'', plain_setting (or_else (js_get v ''netmask'') (JStr ''255.255.255.0'')) True),
       (''gateway'', plain_setting (or_else (js_get v ''gateway'') (JStr [])) True)]" "\<not> st_disabled f"
proof -
  let ?f = "\<lparr>fd_value = or_else (js_get v ''domain'') (JStr []), fd_touched = False, fd_dirty = False,
    fd_rules = Some kitSettingsValidators_domain, fd_valid = True, st_disabled = False, st_parent = None\<rparr>"
  have "notUndefNull (fd_value ?f)" by (simp add: or_else_def notUndefNull_def)
  then obtain b where b: "setting_validate [] ?f = (None, ?f\<lparr>fd_valid := b\<rparr>)" by (rule domain_never_throws) simp_all
  define g where "g = \<lparr>sf_controls = [(''domain'', ?f\<lparr>fd_valid := b\<rparr>),
      (''controller_interface'', plain_setting (or_else (js_get v ''controller_interface'') (JStr [])) False),
      (''netmask'', plain_setting (or_else (js_get v ''netmask'') (JStr ''255.255.255.0'')) False),
      (''gateway'', plain_setting (or_else (js_get v ''gateway'') (JStr [])) False)], sf_dirty = False, sf_touched = False\<rparr>"
  have new: "new_setting cs w None None = (None, plain_setting w False)" for cs w
    by (simp add: new_setting_def setting_validate_def done_with_def plain_setting_def)
  have "gs_new_form v = Inr g"
    using b by (simp add: gs_new_form_def new_form_def new [unfolded new_setting_def] new_setting_def g_def)
  moreover have "\<exists>g'. each disable_setting [''controller_interface'', ''gateway'', ''netmask''] g = (None, g') \<and>
      sf_controls g' = [(''domain'', ?f\<lparr>fd_valid := b\<rparr>), (''controller_interface'', plain_setting (or_else (js_get v ''controller_interface'') (JStr [])) True),
       (''netmask'', plain_setting (or_else (js_get v ''netmask'') (JStr ''255.255.255.0'')) True),
       (''gateway'', plain_setting (or_else (js_get v ''gateway'') (JStr [])) True)]"
    by (simp add: disable_setting_def only_self_def on_setting_def done_with_def update_ancestors_def marked_dirty_def g_def)
      (simp add: plain_setting_def)
  ultimately show thesis using that by fastforce
qed

text \<open>C38: general settings that arrive for the page replace the form of the general settings: the domain can be edited,
  also when the control plane is deployed already, and the interface and the gateway that the controller had filled in
  are lost. So what the page shows depends on which answer comes last.\<close>

theorem late_general_settings:
  assumes "i < length (requests (fold ss_step evs ss_open))" "requests (fold ss_step evs ss_open) ! i = SP_General"
    and "notUndefNull v" "\<not> notUndefNull (js_get v ''job_id'')"
  shows "let s = ss_step (Answer i (Reply v)) (fold ss_step evs ss_open)
    in domain_locked s = Some False \<and>
       gs_shown ''controller_interface'' s = Some (or_else (js_get v ''controller_interface'') (JStr [])) \<and>
       gs_shown ''gateway'' s = Some (or_else (js_get v ''gateway'') (JStr []))"
proof -
  define s where "s = fold ss_step evs ss_open"
  define t where "t = s\<lparr>requests := remove_nth i (requests s)\<rparr>"
  obtain w where w: "new_GeneralSettingsClass v = Inr w" "notUndefNull w" "js_keys w \<noteq> []"
    "\<forall>k \<in> {''controller_interface'', ''gateway'', ''job_id''}. js_get w k = js_get v k"
    using assms(3) by (auto simp: new_GeneralSettingsClass_def construct_def copy_def notUndefNull_def)
  define u where "u = t\<lparr>ss_objects := ss_objects s @ [w], sp_general := Some (length (ss_objects s))\<rparr>"
  have "ss_answer SP_General (Reply v) t = u"
    using w assms(3) by (simp add: sp_api_get_general_settings_answer_def answered_def subscribe_def get_general_settings_def
        decode_settings_def sp_loaded_def ss_alloc_def u_def t_def)
  then have step: "ss_step (Answer i (Reply v)) s = ss_detect u"
    using assms(1,2) by (simp add: ss_step_def async_step_def s_def t_def)
  have bound: "gs_bound (gs u) = Some (sp_general s, sp_status u, sp_info u)"
    using bound_reached [of evs] by (simp add: u_def t_def s_def sp_view_def)
  have fresh: "sp_general s \<noteq> Some (length (ss_objects s))"
    using refs_reached [of evs] by (auto simp: refs_ok_def s_def [symmetric])
  define u' where "u' = u\<lparr>gs := (gs u)\<lparr>gs_bound := Some (sp_general u, sp_status u, sp_info u), gs_settings := sp_general u\<rparr>\<rparr>"
  have data: "gs_data u' = w" by (simp add: gs_data_def u'_def u_def ss_value_def)
  obtain g g' f where g: "gs_new_form w = Inr g" "each disable_setting [''controller_interface'', ''gateway'', ''netmask''] g = (None, g')"
    "sf_controls g' = [(''domain'', f), (''controller_interface'', plain_setting (or_else (js_get w ''controller_interface'') (JStr [])) True),
       (''netmask'', plain_setting (or_else (js_get w ''netmask'') (JStr ''255.255.255.0'')) True),
       (''gateway'', plain_setting (or_else (js_get w ''gateway'') (JStr [])) True)]" "\<not> st_disabled f"
    by (rule gs_form_made)
  have "gs_on_settings u' = (None, gs_set_form (Some g') u')"
    using w assms(4) by (simp add: gs_on_settings_def data Let_def key_count_def gs_initialize_form_def g done_with_def del: each.simps)
  moreover have "gs_detect u = gs_ngOnChanges (Some (sp_general s, sp_general u)) None None u'"
  proof -
    have "sp_general u \<noteq> sp_general s" using fresh by (simp add: u_def)
    then show ?thesis
      unfolding gs_detect_def bound by (simp add: input_change_def new_input_def Let_def u'_def and_then_def done_with_def split: prod.split option.split)
  qed
  moreover have "sp_general u \<noteq> sp_general s" using fresh by (simp add: u_def)
  ultimately have "gs (snd (gs_detect u)) = (gs u')\<lparr>gs_form := Some g'\<rparr>"
    by (simp add: gs_ngOnChanges_def differs_or_missing_def differs_def done_with_def gs_set_form_def)
  then show ?thesis
    unfolding s_def [symmetric] step using g(3,4) w(4)
    by (simp add: Let_def domain_locked_def gs_shown_def control_value_def plain_setting_def)
qed

section \<open>Asking for the job of the kit settings\<close>

definition job_polls :: "ss_state \<Rightarrow> nat" where
  "job_polls s = length (filter (\<lambda>k. k = KS_Job) (requests s))"

text \<open>The child of the kit settings is bound to the inputs of the page. It is not after an empty answer with the general
  settings, which makes the detection of changes throw before it reaches this child.\<close>

definition kit_bound :: "ss_state \<Rightarrow> bool" where
  "kit_bound s \<longleftrightarrow> ks_bound (ks s) = Some (sp_general s, sp_status s, sp_info s, sp_kit s)"

text \<open>What is left to ask: the requests that wait, one more while the page has not got the settings of the child, and
  three more while the child is not bound to the inputs of the page.\<close>

definition polling :: "ss_state \<Rightarrow> nat" where
  "polling s = job_polls s + (if sp_kit s = ks_kit (ks s) then 0 else 1) + (if kit_bound s then 0 else 3)"

definition polls_view :: "ss_state \<Rightarrow> nat \<times> ref \<times> ref" where
  "polls_view s = (job_polls s, sp_kit s, ks_kit (ks s))"

lemma polls_view_simps [simp]:
  "polls_view (sp_update_add_kit_button b s) = polls_view s" "polls_view (snd (ks_on_form f s)) = polls_view s"
  "polls_view (snd (ms_on_form f s)) = polls_view s" "polls_view (snd (ks_initialize_form s)) = polls_view s"
  "polls_view (snd (ms_initialize_form v s)) = polls_view s" "polls_view (ms_api_get_mip_settings s) = polls_view s"
  "polls_view (s\<lparr>ks := (ks s)\<lparr>ks_job := j\<rparr>\<rparr>) = polls_view s" "polls_view (s\<lparr>ms := y\<rparr>) = polls_view s"
  "polls_view (s\<lparr>ks := (ks s)\<lparr>ks_running := b, ks_tooltip := tip\<rparr>\<rparr>) = polls_view s"
  "polls_view (s\<lparr>ks := (ks s)\<lparr>ks_job := j, ks_running := b, ks_tooltip := tip\<rparr>\<rparr>) = polls_view s"
  by (simp_all add: polls_view_def job_polls_def sp_update_add_kit_button_def ks_on_form_def ms_on_form_def ks_set_form_def ms_set_form_def
      ks_initialize_form_def ms_initialize_form_def attempt_def smap_def ms_api_get_mip_settings_def call_def request_def http_def emit_def
      split: option.split prod.split sum.split)

lemma ss_call_fields [simp]: "sp_kit (call ep k s) = sp_kit s" "ks (call ep k s) = ks s" for s :: ss_state
  by (simp_all add: call_def request_def http_def emit_def)

lemma polls_view_then:
  "polls_view (snd m) = x \<Longrightarrow> (\<And>s. polls_view s = x \<Longrightarrow> polls_view (snd (f s)) = x) \<Longrightarrow> polls_view (snd (and_then m f)) = x"
  by (rule snd_and_then [where P = "\<lambda>s. polls_view s = x"])

lemma polls_ms_detect [simp]: "polls_view (snd (ms_detect s)) = polls_view s"
  unfolding ms_detect_def ms_ngOnChanges_def ms_ngOnInit_def ms_check_job_def Let_def by (auto intro!: polls_view_then split: sum.split)

definition polls_at_most :: "nat \<Rightarrow> ref \<Rightarrow> ref \<Rightarrow> ss_state \<Rightarrow> bool" where
  "polls_at_most n r q s \<longleftrightarrow> job_polls s \<le> n \<and> sp_kit s = r \<and> ks_kit (ks s) = q"

lemma polls_at_most_view: "polls_at_most n r q s = (case polls_view s of (m, r', q') \<Rightarrow> m \<le> n \<and> r' = r \<and> q' = q)"
  by (simp add: polls_at_most_def polls_view_def)

lemma polls_check_job:
  assumes "polls_at_most n r q s"
  shows "polls_at_most (Suc n) r q (snd (ks_check_job s))"
proof -
  have more: "polls_at_most (Suc n) r q (ks_api_job_get t)" if "polls_view t = polls_view s" for t
    using that assms by (auto simp: polls_at_most_def polls_view_def ks_api_job_get_def job_polls_def)
  have same: "polls_at_most (Suc n) r q t" if "polls_view t = polls_view s" for t
    using that assms by (auto simp: polls_at_most_def polls_view_def)
  have seq: "polls_at_most (Suc n) r q (snd (and_then m f))"
    if "polls_view (snd m) = polls_view s" "\<And>t. polls_view t = polls_view s \<Longrightarrow> polls_at_most (Suc n) r q (snd (f t))" for m f
    using that same by (cases m; cases "fst m") auto
  show ?thesis unfolding ks_check_job_def Let_def by (auto intro!: seq simp: more same split: sum.split)
qed

lemma polls_kit_changes:
  assumes "polls_at_most n r q s"
  shows "polls_at_most (Suc n) r q (snd (ks_ngOnChanges (Some c) None None s))"
proof -
  have init: "polls_at_most n r q (snd (ks_initialize_form s))" using assms by (simp add: polls_at_most_view)
  obtain e t where t: "ks_initialize_form s = (e, t)" by fastforce
  have "polls_at_most (Suc n) r q (snd (and_then (ks_initialize_form s) ks_check_job))"
    using init polls_check_job [of n r q t] by (cases e) (auto simp: t polls_at_most_def)
  moreover have "polls_at_most (Suc n) r q s" using assms by (simp add: polls_at_most_def)
  ultimately show ?thesis
    unfolding ks_ngOnChanges_def differs_def option.case
    by (intro snd_and_then [where P = "polls_at_most (Suc n) r q"]) simp_all
qed

text \<open>What the callbacks of the job do to the view: it stays, or the page gets the settings of the child.\<close>

lemma polls_job_known:
  "polls_view (snd (ks_job_known x s)) = polls_view s \<or> polls_view (snd (ks_job_known x s)) = (job_polls s, ks_kit (ks s), ks_kit (ks s))"
proof -
  have given: "polls_view (sp_update_kit_settings (ks_kit (ks t)) (sp_update_add_kit_button b t)) = (job_polls s, ks_kit (ks s), ks_kit (ks s))"
    if "polls_view t = polls_view s" for t b
    using that by (simp add: polls_view_def job_polls_def sp_update_kit_settings_def sp_update_add_kit_button_def)
  have cont: "polls_view (snd (and_then m f)) = polls_view s \<or> polls_view (snd (and_then m f)) = (job_polls s, ks_kit (ks s), ks_kit (ks s))"
    if "polls_view (snd m) = polls_view s"
      "\<And>t. polls_view t = polls_view s \<Longrightarrow> polls_view (snd (f t)) = (job_polls s, ks_kit (ks s), ks_kit (ks s))"
    for m :: "ss_state attempt" and f
    using that by (cases m; cases "fst m") auto
  show ?thesis
  proof (cases "js_get x ''status'' = JStr ''started''")
    case True
    then show ?thesis unfolding ks_job_known_def by (intro disjI1) (auto intro!: polls_view_then)
  next
    case False
    have disabled: "polls_view (snd (ks_on_form f t)) = (job_polls s, ks_kit (ks s), ks_kit (ks s))"
      if "polls_view t = (job_polls s, ks_kit (ks s), ks_kit (ks s))" for f t
      using that by simp
    show ?thesis unfolding ks_job_known_def if_not_P [OF False] Let_def
      by (rule cont) (simp_all add: given disabled split: sum.split)
  qed
qed

text \<open>Any change of the inputs makes the child ask at most twice, and leaves it bound.\<close>

lemma snd_then_mono:
  "P (snd m) \<Longrightarrow> (\<And>t. P t \<Longrightarrow> Q (snd (f t))) \<Longrightarrow> (\<And>t. P t \<Longrightarrow> Q t) \<Longrightarrow> Q (snd (and_then m f))"
  by (cases m; cases "fst m") auto

lemma polls_gather [simp]: "polls_view (snd (ks_gather_controller_facts s)) = polls_view s"
  by (simp add: ks_gather_controller_facts_def Let_def ks_set_kubernetes_dhcp_range_def attempt_def smap_def done_with_def
      polls_view_def job_polls_def split: sum.split)

lemma polls_changes:
  assumes "polls_at_most n r q s"
  shows "polls_at_most (Suc (Suc n)) r q (snd (ks_ngOnChanges c1 c2 c3 s))"
proof -
  have more: "polls_at_most n r q t \<Longrightarrow> polls_at_most (Suc n) r q t" for n t by (simp add: polls_at_most_def)
  have check: "polls_at_most (Suc n) r q (snd (if b then ks_check_job t else done_with t))" if "polls_at_most n r q t" for b n t
    using that polls_check_job more by (simp add: done_with_def)
  have init: "polls_at_most n r q (snd (ks_initialize_form t))" if "polls_at_most n r q t" for t
    using that by (simp add: polls_at_most_view)
  have first: "polls_at_most (Suc n) r q (snd (if b then and_then (ks_initialize_form s) ks_check_job else done_with s))" for b
    using assms more snd_then_mono [of "polls_at_most n r q" "ks_initialize_form s" "polls_at_most (Suc n) r q" ks_check_job]
    by (auto simp: init polls_check_job done_with_def)
  have facts: "polls_at_most (Suc (Suc n)) r q (snd (if b then ks_gather_controller_facts t else done_with t))"
    if "polls_at_most (Suc (Suc n)) r q t" for b t
    using that by (simp add: polls_at_most_view done_with_def)
  show ?thesis
    unfolding ks_ngOnChanges_def
    by (rule snd_then_mono [where P = "polls_at_most (Suc n) r q"], rule first,
        rule snd_then_mono [where P = "polls_at_most (Suc (Suc n)) r q"], erule check, erule facts, assumption, erule more)
qed

definition bind_view :: "ss_state \<Rightarrow> (ref \<times> ref \<times> ref) \<times> ref \<times> (ref \<times> ref \<times> ref \<times> ref) option" where
  "bind_view s = (sp_view s, sp_kit s, ks_bound (ks s))"

lemma bind_view_simps [simp]:
  "bind_view (sp_update_add_kit_button b s) = bind_view s" "bind_view (snd (ks_on_form f s)) = bind_view s"
  "bind_view (snd (ms_on_form f' s)) = bind_view s" "bind_view (snd (ks_initialize_form s)) = bind_view s"
  "bind_view (snd (ms_initialize_form v s)) = bind_view s" "bind_view (ms_api_get_mip_settings s) = bind_view s"
  "bind_view (s\<lparr>ks := (ks s)\<lparr>ks_job := j\<rparr>\<rparr>) = bind_view s" "bind_view (s\<lparr>ms := y\<rparr>) = bind_view s" "bind_view (ks_api_job_get s) = bind_view s"
  "bind_view (snd (ks_gather_controller_facts s)) = bind_view s"
  by (simp_all add: bind_view_def sp_view_def sp_update_add_kit_button_def ks_on_form_def ms_on_form_def ks_set_form_def ms_set_form_def
      ks_initialize_form_def ms_initialize_form_def attempt_def smap_def ms_api_get_mip_settings_def ks_api_job_get_def call_def request_def
      http_def emit_def ks_gather_controller_facts_def Let_def ks_set_kubernetes_dhcp_range_def done_with_def
      split: option.split prod.split sum.split)

lemma bind_view_then:
  "bind_view (snd m) = x \<Longrightarrow> (\<And>t. bind_view t = x \<Longrightarrow> bind_view (snd (f t)) = x) \<Longrightarrow> bind_view (snd (and_then m f)) = x"
  by (rule snd_and_then [where P = "\<lambda>t. bind_view t = x"])

lemma bind_view_check [simp]: "bind_view (snd (ks_check_job s)) = bind_view s"
  unfolding ks_check_job_def Let_def by (auto intro!: bind_view_then split: sum.split)

lemma bind_view_changes [simp]: "bind_view (snd (ks_ngOnChanges c1 c2 c3 s)) = bind_view s"
  unfolding ks_ngOnChanges_def by (auto intro!: bind_view_then)

lemma bind_view_ms [simp]: "bind_view (snd (ms_detect s)) = bind_view s"
  unfolding ms_detect_def ms_ngOnChanges_def ms_ngOnInit_def ms_check_job_def Let_def by (auto intro!: bind_view_then split: sum.split)

lemma kit_bound_view: "kit_bound s \<longleftrightarrow> (case bind_view s of ((g, st, i), k, b) \<Rightarrow> b = Some (g, st, i, k))"
  by (simp add: kit_bound_def bind_view_def sp_view_def)

lemma snd_if: "P (snd m) \<Longrightarrow> P (snd m') \<Longrightarrow> P (snd (if b then m else m'))"
  by simp

lemma detect_binds:
  assumes "gs_bound (gs s) = Some (sp_view s)"
  shows "kit_bound (ss_detect s)" "polls_at_most (Suc (Suc (job_polls s))) (sp_kit s) (ks_kit (ks (ss_detect s))) (ss_detect s)"
proof -
  have "gs_detect s = done_with s" using assms by (simp add: gs_detect_def input_change_def sp_view_def Let_def)
  then have detect: "ss_detect s = snd (and_then (ks_detect s) ms_detect)" by (simp add: ss_detect_def)
  have bound: "kit_bound (snd (ks_detect s))"
    by (auto simp: ks_detect_def Let_def kit_bound_view) (auto simp: bind_view_def sp_view_def input_change_def done_with_def split: option.splits if_splits)
  then show "kit_bound (ss_detect s)"
    unfolding detect by (intro snd_and_then [where P = kit_bound]) (simp_all add: kit_bound_view)
  have changes: "job_polls (snd (ks_ngOnChanges c1 c2 c3 t)) \<le> Suc (Suc (job_polls t)) \<and> sp_kit (snd (ks_ngOnChanges c1 c2 c3 t)) = sp_kit t"
    for c1 c2 c3 t
    using polls_changes [of "job_polls t" "sp_kit t" "ks_kit (ks t)" t c1 c2 c3] by (simp add: polls_at_most_def)
  have same: "job_polls (s\<lparr>ks := k\<rparr>) = job_polls s" "sp_kit (s\<lparr>ks := k\<rparr>) = sp_kit s" for k by (simp_all add: job_polls_def)
  have "job_polls (snd (ks_detect s)) \<le> Suc (Suc (job_polls s)) \<and> sp_kit (snd (ks_detect s)) = sp_kit s"
    unfolding ks_detect_def Let_def
    by (rule snd_if [where P = "\<lambda>t. job_polls t \<le> Suc (Suc (job_polls s)) \<and> sp_kit t = sp_kit s"])
      (simp add: done_with_def, rule changes [of _ _ _ "s\<lparr>ks := _\<rparr>", unfolded same])
  then have "job_polls (ss_detect s) \<le> Suc (Suc (job_polls s)) \<and> sp_kit (ss_detect s) = sp_kit s"
    unfolding detect
  proof (intro snd_and_then [where P = "\<lambda>t. job_polls t \<le> Suc (Suc (job_polls s)) \<and> sp_kit t = sp_kit s"])
    fix t assume "job_polls t \<le> Suc (Suc (job_polls s)) \<and> sp_kit t = sp_kit s"
    then show "job_polls (snd (ms_detect t)) \<le> Suc (Suc (job_polls s)) \<and> sp_kit (snd (ms_detect t)) = sp_kit s"
      using polls_ms_detect [of t] by (simp add: polls_view_def)
  qed
  then show "polls_at_most (Suc (Suc (job_polls s))) (sp_kit s) (ks_kit (ks (ss_detect s))) (ss_detect s)"
    by (simp add: polls_at_most_def)
qed

text \<open>The callbacks change no other reference of the page and no binding.\<close>

definition bound_view :: "ss_state \<Rightarrow> (ref \<times> ref \<times> ref) \<times> (ref \<times> ref \<times> ref) option \<times> (ref \<times> ref \<times> ref \<times> ref) option" where
  "bound_view s = (sp_view s, gs_bound (gs s), ks_bound (ks s))"

lemma bound_view_known [simp]: "bound_view (snd (ks_job_known x s)) = bound_view s"
proof -
  have seq: "bound_view (snd m) = v \<Longrightarrow> (\<And>t. bound_view t = v \<Longrightarrow> bound_view (snd (f t)) = v) \<Longrightarrow> bound_view (snd (and_then m f)) = v" for m f v
    by (rule snd_and_then [where P = "\<lambda>t. bound_view t = v"])
  have [simp]: "bound_view (snd (ks_on_form f t)) = bound_view t" "bound_view (sp_update_add_kit_button b t) = bound_view t"
    "bound_view (sp_update_kit_settings r t) = bound_view t" "bound_view (t\<lparr>ks := (ks t)\<lparr>ks_running := b, ks_tooltip := tip\<rparr>\<rparr>) = bound_view t"
    "bound_view (t\<lparr>ks := (ks t)\<lparr>ks_job := j, ks_running := b, ks_tooltip := tip\<rparr>\<rparr>) = bound_view t" for f t b r j tip
    by (simp_all add: bound_view_def sp_view_def ks_on_form_def ks_set_form_def sp_update_add_kit_button_def sp_update_kit_settings_def
        split: option.split prod.split)
  show ?thesis unfolding ks_job_known_def Let_def by (auto intro!: seq split: sum.split)
qed

lemma detect_same:
  assumes "gs_bound (gs s) = Some (sp_view s)" "ks_bound (ks s) = Some (sp_general s, sp_status s, sp_info s, r)"
  shows "polls_view (ss_detect s) = polls_view s \<and> sp_kit s = r \<or>
    (\<exists>n. polls_view (ss_detect s) = (n, sp_kit s, sp_kit s) \<and> n \<le> Suc (job_polls s)) \<and> sp_kit s \<noteq> r"
proof -
  have gs: "gs_detect s = done_with s" using assms(1) by (simp add: gs_detect_def input_change_def sp_view_def Let_def)
  have rest: "polls_view (ss_detect s) = polls_view (snd (ks_detect s))"
    unfolding ss_detect_def gs by (simp, rule polls_view_then) simp_all
  show ?thesis
  proof (cases "sp_kit s = r")
    case True
    then have "ks_detect s = done_with s" using assms(2) by (simp add: ks_detect_def input_change_def Let_def)
    then show ?thesis using rest True by simp
  next
    case False
    define t where "t = s\<lparr>ks := (ks s)\<lparr>ks_bound := Some (sp_general s, sp_status s, sp_info s, sp_kit s), ks_kit := sp_kit s\<rparr>\<rparr>"
    have "ks_detect s = ks_ngOnChanges (Some (r, sp_kit s)) None None t"
      using assms(2) False by (simp add: ks_detect_def input_change_def new_input_def Let_def t_def)
    moreover have "polls_at_most (job_polls s) (sp_kit s) (sp_kit s) t" by (simp add: polls_at_most_def job_polls_def t_def)
    ultimately have "polls_at_most (Suc (job_polls s)) (sp_kit s) (sp_kit s) (snd (ks_detect s))" using polls_kit_changes by simp
    then show ?thesis using False rest by (auto simp: polls_at_most_def polls_view_def)
  qed
qed

lemma polls_removed:
  assumes "i < length (requests s)" "requests s ! i = KS_Job"
  shows "Suc (job_polls (s\<lparr>requests := remove_nth i (requests s)\<rparr>)) = job_polls s"
proof -
  have "requests s = take i (requests s) @ KS_Job # drop (Suc i) (requests s)" using assms by (metis id_take_nth_drop)
  then have "filter (\<lambda>k. k = KS_Job) (requests s) =
      filter (\<lambda>k. k = KS_Job) (take i (requests s)) @ KS_Job # filter (\<lambda>k. k = KS_Job) (drop (Suc i) (requests s))"
    by (metis (mono_tags) filter.simps(2) filter_append)
  then show ?thesis by (simp add: job_polls_def remove_nth_def)
qed

text \<open>C29: in every state that the page can reach, an answer to a request about the job of the kit settings, whatever it
  holds and even if it is a failure, decreases the number \<open>polling\<close>: the requests about the job that wait, one more as
  long as the page has not got the settings of the child back, and three more as long as the child is not bound to
  the inputs of the page. So, without other events, the page stops asking after finitely many answers.\<close>

theorem kit_job_polling_ends:
  assumes "i < length (requests (fold ss_step evs ss_open))" "requests (fold ss_step evs ss_open) ! i = KS_Job"
  shows "polling (ss_step (Answer i r) (fold ss_step evs ss_open)) < polling (fold ss_step evs ss_open)"
proof -
  define s where "s = fold ss_step evs ss_open"
  define t where "t = s\<lparr>requests := remove_nth i (requests s)\<rparr>"
  define u where "u = ss_answer KS_Job r t"
  have step: "ss_step (Answer i r) s = ss_detect u"
    using assms(1,2) by (simp add: ss_step_def async_step_def s_def t_def u_def)
  have t: "Suc (job_polls t) = job_polls s" "sp_kit t = sp_kit s" "ks t = ks s" "bound_view t = bound_view s"
    using polls_removed [of i s] assms(1,2) by (simp_all add: t_def s_def bound_view_def sp_view_def)
  have u: "(polls_view u = polls_view t \<or> polls_view u = (job_polls t, ks_kit (ks t), ks_kit (ks t))) \<and> bound_view u = bound_view t"
  proof -
    have same: "polls_view t' = polls_view t \<and> bound_view t' = bound_view t" if "world.more t' = world.more t" for t'
      using that by (cases t; cases t') (simp add: polls_view_def job_polls_def bound_view_def sp_view_def)
    have u: "u = answered (job_get JUndef) (\<lambda>response s. snd (ks_job_known response s)) (report_error_or_message ''retrieving job get'') r t"
      by (simp add: u_def ks_api_job_get_answer_def)
    show ?thesis
    proof (rule answered_outcomes [of r "job_get JUndef" "\<lambda>response s. snd (ks_job_known response s)" "report_error_or_message ''retrieving job get''" t])
      fix t' err
      assume "answered (job_get JUndef) (\<lambda>response s. snd (ks_job_known response s)) (report_error_or_message ''retrieving job get'') r t =
          report_error_or_message ''retrieving job get'' err t'" "world.more t' = world.more t"
      then show ?thesis using same [of "report_error_or_message ''retrieving job get'' err t'"] by (simp add: u)
    qed (use polls_job_known [of _ t] in \<open>simp add: u\<close>)
  qed
  have gs: "gs_bound (gs u) = Some (sp_view u)"
    using u t(4) bound_reached [of evs] by (simp add: bound_view_def s_def)
  note detected = detect_binds [OF gs]
  have "polling (ss_detect u) < polling s"
  proof (cases "kit_bound s")
    case True
    then have "ks_bound (ks u) = Some (sp_general u, sp_status u, sp_info u, sp_kit s)"
      using u t(4) by (simp add: bound_view_def sp_view_def kit_bound_def)
    then show ?thesis
      using detect_same [OF gs] u t True detected(1) by (auto simp: polls_view_def polling_def)
  next
    case False
    then show ?thesis using detected u t(1) by (auto simp: polls_view_def polling_def polls_at_most_def)
  qed
  then show ?thesis unfolding s_def [symmetric] step .
qed

section \<open>The properties at concrete runs\<close>

definition ss_deployed :: js where
  "ss_deployed = JObj [(''general_settings_configured'', JBool True), (''control_plane_deployed'', JBool True)]"

definition ss_password :: js where
  "ss_password = JStr ''Abcdefg-1234567''"

definition ss_saved_mip :: js where
  "ss_saved_mip = JObj [(''password'', ss_password), (''user_password'', ss_password), (''luks_password'', ss_password)]"

definition ss_typed_run :: "ss_action event list" where
  "ss_typed_run =
     [Answer 4 (Reply ss_saved_mip), Act (SS_Kit_Status_Change ss_deployed), Act (MS_Type ''password'' ss_password True), Act MS_Save]"

lemma ss_typed_run_sends: "Http POST ''/api/settings/mip'' ss_saved_mip \<in> set (trace (fold ss_step ss_typed_run ss_open))"
  by code_simp

theorem mip_passwords_strong_witness: "strong_passwords ss_saved_mip"
proof -
  have "\<forall>ev \<in> set ss_typed_run. typed_event ev"
    by (simp add: ss_typed_run_def mip_texts_def ss_saved_mip_def ss_password_def ms_passwords_def)
  from mip_passwords_strong [OF this] show ?thesis using ss_typed_run_sends by (simp add: Let_def)
qed

theorem kubernetes_options_filtered_witness:
  "kubernetes_options (JArr [JStr ''10.0.0.32'', JStr ''10.0.0.64'', JStr ''10.0.0.96'']) (JStr ''10.0.0.64'') = Inr (JArr [JStr ''10.0.0.96''])"
  using kubernetes_options_filtered [of "[''10.0.0.32'', ''10.0.0.64'', ''10.0.0.96'']" "''10.0.0.64''"]
  by (simp add: endsWith_dot_32 [symmetric] js_endsWith_def del: endsWith_dot_32)

definition ss_summary :: "ss_state \<Rightarrow> ss_request list \<times> bool option \<times> bool" where
  "ss_summary s = (requests s, domain_locked s, kit_bound s)"

lemma ss_deployed_run:
  "ss_summary (fold ss_step [Answer 1 (Reply ss_deployed)] ss_open) = ([SP_General, SP_Info, SP_Kit, MS_Get], Some True, True)"
  by code_simp

lemma ss_job_run:
  "ss_summary (fold ss_step [Answer 1 (Reply ss_deployed), Answer 2 (Reply (JObj [(''job_id'', JStr ''7'')]))] ss_open) =
     ([SP_General, SP_Info, MS_Get, KS_Job], Some True, True)"
  by code_simp

theorem late_general_settings_witness:
  "domain_locked (fold ss_step [Answer 1 (Reply ss_deployed)] ss_open) = Some True \<and>
   domain_locked (ss_step (Answer 0 (Reply (JObj []))) (fold ss_step [Answer 1 (Reply ss_deployed)] ss_open)) = Some False"
  using ss_deployed_run late_general_settings [of 0 "[Answer 1 (Reply ss_deployed)]" "JObj []"]
  unfolding ss_summary_def prod.inject by (simp add: notUndefNull_def Let_def)

theorem kit_job_polling_ends_witness:
  "let s = fold ss_step [Answer 1 (Reply ss_deployed), Answer 2 (Reply (JObj [(''job_id'', JStr ''7'')]))] ss_open
   in polling (ss_step (Answer 3 (Reply (JObj []))) s) < polling s"
  using ss_job_run kit_job_polling_ends [of 3 "[Answer 1 (Reply ss_deployed), Answer 2 (Reply (JObj [(''job_id'', JStr ''7'')]))]" "Reply (JObj [])"]
  unfolding ss_summary_def prod.inject by (simp add: Let_def)

end
