(* ===== verification/Vmware_Settings.thy ===== *)
theory Vmware_Settings
  imports General_Settings
begin

text \<open>
  \<open>modules/system-settings/components/vmware-settings/vmware-settings.component.ts\<close>. The form has a validator of
  its own, \<open>ConfirmPasswordValidator.match\<close>, which also sets the error on the control \<open>password_confirm\<close>; so the
  form is a group of controls with a flag that says whether the group has the error. A control that is enabled or
  disabled, set, or reset updates the group, and so does every change of one of the passwords.

  The passwords of the backend are texts: two controls never share an object.
\<close>

section \<open>State\<close>

datatype vw_request = VW_Get | VW_Save js | VW_Test bool js

record vw_form =
  vf_group :: settings_form
  vf_matching :: bool

record vw_state = "(vw_request, unit) async" +
  vw_form :: "vw_form option"
  vw_test_enabled :: bool
  vw_save_enabled :: bool
  vmware_data :: js

definition vw_constructor :: vw_state where
  "vw_constructor = \<lparr>trace = [], matSnackBarRef = None, requests = [], dialogs = [], vw_form = None,
     vw_test_enabled = True, vw_save_enabled = True, vmware_data = JObj []\<rparr>"

section \<open>The form\<close>

definition vw_selects :: "string list" where
  "vw_selects = [''folder'', ''datacenter'', ''cluster'', ''portgroup'', ''datastore'']"

definition settings_group :: "settings_form \<Rightarrow> control" where
  "settings_group g =
     FormGroup \<lparr>ctl_value = JUndef, ctl_touched = sf_touched g, ctl_stat = VALID, ctl_errors = None\<rparr>
       (map (\<lambda>(n, f). (n, setting_control f)) (sf_controls g))"

text \<open>The validator of the group, with the error it sets.\<close>

definition vw_update_group :: "settings_form \<Rightarrow> vw_form" where
  "vw_update_group g =
     (case confirm_password_match ''password'' ''password_confirm'' (settings_group g) of
        (None, _) \<Rightarrow> \<lparr>vf_group = g, vf_matching = False\<rparr>
      | (Some _, _) \<Rightarrow>
          \<lparr>vf_group = snd (on_setting ''password_confirm'' (\<lambda>f. done_with (f\<lparr>fd_valid := False\<rparr>)) g), vf_matching = True\<rparr>)"

definition vw_form_valid :: "vw_form \<Rightarrow> bool" where
  "vw_form_valid w \<longleftrightarrow> form_valid (vf_group w) \<and> \<not> vf_matching w"

text \<open>An operation on the controls, after which the group is updated.\<close>

definition vw_on_group :: "(settings_form \<Rightarrow> settings_form attempt) \<Rightarrow> vw_form \<Rightarrow> vw_form attempt" where
  "vw_on_group f w =
     (case f (vf_group w) of
        (Some e, g) \<Rightarrow> (Some e, w\<lparr>vf_group := g\<rparr>)
      | (None, g) \<Rightarrow> done_with (vw_update_group g))"

definition vw_on_form :: "(vw_form \<Rightarrow> vw_form attempt) \<Rightarrow> vw_state \<Rightarrow> vw_state attempt" where
  "vw_on_form f s =
     (case vw_form s of
        None \<Rightarrow> (Some TypeError, s)
      | Some w \<Rightarrow> (let (e, w') = f w in (e, s\<lparr>vw_form := Some w'\<rparr>)))"

definition vw_new_form :: "js \<Rightarrow> js_error + vw_form" where
  "vw_new_form settings =
     smap vw_update_group (new_form
       ([(''ip_address'', or_else (js_get settings ''ip_address'') (JStr []), Some VMWARE_SETTINGS_ip_address, None),
         (''username'', or_else (js_get settings ''username'') (JStr []), Some VMWARE_SETTINGS_username, None),
         (''password'', or_else (js_get settings ''password'') (JStr []), Some VMWARE_SETTINGS_password, None),
         (''password_confirm'', or_else (js_get settings ''password'') (JStr []), None, None),
         (''vcenter'', or_else (js_get settings ''vcenter'') (JBool False), None, None)] @
        map (\<lambda>n. (n, or_else (js_get settings n) JNull, None, None)) vw_selects))"

definition vw_initialize_form :: "js \<Rightarrow> vw_state \<Rightarrow> vw_state attempt" where
  "vw_initialize_form settings s = attempt s (smap (\<lambda>w. s\<lparr>vw_form := Some w\<rparr>) (vw_new_form settings))"

definition vw_input_control :: "bool \<Rightarrow> vw_state \<Rightarrow> vw_state attempt" where
  "vw_input_control disable =
     vw_on_form (each (\<lambda>n. vw_on_group (if disable then disable_setting n else enable_setting n)) vw_selects)"

text \<open>\<open>reset\<close> of a control: its value is \<open>null\<close>, and it is neither edited nor touched any more.\<close>

definition reset_setting :: "string \<Rightarrow> settings_form \<Rightarrow> settings_form attempt" where
  "reset_setting name g =
     and_then (on_setting name (\<lambda>f. setting_validate (sf_controls g) (f\<lparr>fd_value := JNull, fd_dirty := False, fd_touched := False\<rparr>)) g)
       (\<lambda>g. done_with (update_ancestors False g))"

definition vw_reset_missing :: "string \<Rightarrow> vw_form \<Rightarrow> vw_form attempt" where
  "vw_reset_missing name w =
     (case map_of (sf_controls (vf_group w)) name of
        None \<Rightarrow> (Some TypeError, w)
      | Some f \<Rightarrow> if notUndefNull (fd_value f) then done_with w else vw_on_group (reset_setting name) w)"

definition vw_input_control_reset :: "vw_state \<Rightarrow> vw_state attempt" where
  "vw_input_control_reset = vw_on_form (each vw_reset_missing vw_selects)"

definition vw_value :: "string \<Rightarrow> vw_state \<Rightarrow> js" where
  "vw_value name s =
     (case Option.bind (vw_form s) (\<lambda>w. map_of (sf_controls (vf_group w)) name) of None \<Rightarrow> JUndef | Some f \<Rightarrow> fd_value f)"

definition is_wmware_checked :: "vw_state \<Rightarrow> js" where
  "is_wmware_checked s = (if notUndefNull (vw_value ''vcenter'' s) then vw_value ''vcenter'' s else JBool False)"

section \<open>Requests\<close>

definition vw_api_get_vmware_settings :: "vw_state \<Rightarrow> vw_state" where
  "vw_api_get_vmware_settings = call get_vmware_settings VW_Get"

definition vw_ngOnInit :: "vw_state \<Rightarrow> vw_state" where
  "vw_ngOnInit = vw_api_get_vmware_settings"

definition vw_api_save_vmware_settings :: "vw_state \<Rightarrow> vw_state attempt" where
  "vw_api_save_vmware_settings s =
     (case vw_form s of
        None \<Rightarrow> (Some TypeError, s)
      | Some w \<Rightarrow>
          (let settings = JObj (form_raw (vf_group w))
           in done_with (call (save_vmware_settings settings) (VW_Save settings) s)))"

definition vw_api_test_vmware_settings :: "bool \<Rightarrow> js \<Rightarrow> vw_state \<Rightarrow> vw_state attempt" where
  "vw_api_test_vmware_settings display_message settings s =
     (case vw_form s of
        None \<Rightarrow> (Some TypeError, s)
      | Some w \<Rightarrow> done_with (call (test_vmware_settings (JObj (form_raw (vf_group w)))) (VW_Test display_message settings) s))"

definition vw_click_button_test_connection :: "vw_state \<Rightarrow> vw_state attempt" where
  "vw_click_button_test_connection s =
     vw_api_test_vmware_settings True JUndef
       (displaySnackBar (JStr ''Testing VMWare settings please wait.'') None (s\<lparr>vw_test_enabled := False\<rparr>))"

definition vw_click_button_save :: "vw_state \<Rightarrow> vw_state attempt" where
  "vw_click_button_save s =
     vw_api_save_vmware_settings
       (displaySnackBar (JStr ''Saving VMWare settings please wait.'') None (s\<lparr>vw_save_enabled := False\<rparr>))"

section \<open>Answers\<close>

definition vw_loaded :: "js \<Rightarrow> vw_state \<Rightarrow> vw_state attempt" where
  "vw_loaded response s =
     and_then (vw_initialize_form response s) (\<lambda>s.
     and_then (vw_input_control True s) (\<lambda>s.
       if notUndefNull (js_get response ''ip_address'') \<and> notUndefNull (js_get response ''username'') \<and>
          notUndefNull (js_get response ''password'')
       then vw_api_test_vmware_settings False response s else done_with s))"

definition vw_api_get_vmware_settings_answer :: "reply \<Rightarrow> vw_state \<Rightarrow> vw_state" where
  "vw_api_get_vmware_settings_answer =
     answered get_vmware_settings (\<lambda>response s. snd (vw_loaded response s)) (report_error_or_message ''retrieving vmware settings'')"

definition vw_saved :: "js \<Rightarrow> vw_state \<Rightarrow> vw_state attempt" where
  "vw_saved settings s =
     and_then (vw_initialize_form settings s) (\<lambda>s. done_with
       (displaySnackBar (JStr ''VMWare settings saved successfully.'') None (s\<lparr>vw_save_enabled := True\<rparr>)))"

text \<open>An error with a message of the backend counts as any other error here.\<close>

definition vw_save_error :: "api_error \<Rightarrow> vw_state \<Rightarrow> vw_state" where
  "vw_save_error error s =
     (let s = s\<lparr>vw_save_enabled := True\<rparr>
      in case error of
           ValidationErrorClass _ messages \<Rightarrow> show_validation_errors messages (js_keys messages) [] s
         | PostValidationClass post_validation \<Rightarrow> show_post_validation post_validation s
         | _ \<Rightarrow> report_error ''saving esxi settings'' s)"

definition vw_api_save_vmware_settings_answer :: "js \<Rightarrow> reply \<Rightarrow> vw_state \<Rightarrow> vw_state" where
  "vw_api_save_vmware_settings_answer settings =
     answered (save_vmware_settings JUndef) (\<lambda>_ s. snd (vw_saved settings s)) vw_save_error"

definition vw_tested :: "bool \<Rightarrow> js \<Rightarrow> js \<Rightarrow> vw_state \<Rightarrow> vw_state attempt" where
  "vw_tested display_message settings response s =
     (let s1 = s\<lparr>vw_test_enabled := True, vmware_data := response\<rparr>;
          s2 = (if display_message then displaySnackBar (JStr ''VMWare settings tested successfully.'') None s1 else s1)
      in and_then (if notUndefNull settings then vw_initialize_form settings s2 else vw_input_control_reset s2)
           (vw_input_control False))"

definition vw_api_test_vmware_settings_answer :: "bool \<Rightarrow> js \<Rightarrow> reply \<Rightarrow> vw_state \<Rightarrow> vw_state" where
  "vw_api_test_vmware_settings_answer display_message settings =
     answered (test_vmware_settings JUndef) (\<lambda>response s. snd (vw_tested display_message settings response s))
       (\<lambda>error s. report_refused ''testing esxi settings'' error (s\<lparr>vw_test_enabled := True\<rparr>))"

section \<open>The component as a machine\<close>

text \<open>Changes of a text field, of a list of the tested connection, or of the checkbox. The lists of cluster, data
  center and folder are shown when the checkbox is set.\<close>

datatype vw_action = VW_Text string string | VW_Choose string js | VW_VCenter bool | VW_Leave string | VW_TestClick | VW_SaveClick

definition vw_options :: "(string \<times> string) list" where
  "vw_options = [(''datastore'', ''datastores''), (''portgroup'', ''portgroups''), (''cluster'', ''clusters''),
     (''datacenter'', ''datacenters''), (''folder'', ''folders'')]"

definition vw_offered :: "string \<Rightarrow> js \<Rightarrow> vw_state \<Rightarrow> bool" where
  "vw_offered name v s \<longleftrightarrow>
     (case map_of vw_options name of
        None \<Rightarrow> False
      | Some k \<Rightarrow> v \<in> set (arr_elems (js_get (vmware_data s) k)) \<and>
          (name \<in> {''datastore'', ''portgroup''} \<or> truthy (is_wmware_checked s)))"

text \<open>A change of the password also updates the repeated one.\<close>

definition vw_type :: "js \<Rightarrow> string \<Rightarrow> vw_form \<Rightarrow> vw_form attempt" where
  "vw_type v name =
     vw_on_group (\<lambda>g. and_then (type_setting v name g) (\<lambda>g.
       if name \<in> {''password'', ''password_confirm''} then updateValueAndValidity ''password_confirm'' g else done_with g))"

definition vw_test_offered :: "vw_state \<Rightarrow> bool" where
  "vw_test_offered s = (case vw_form s of None \<Rightarrow> False | Some w \<Rightarrow> vw_form_valid w \<and> vw_test_enabled s)"

definition vw_save_offered :: "vw_state \<Rightarrow> bool" where
  "vw_save_offered s = (case vw_form s of None \<Rightarrow> False | Some w \<Rightarrow> vw_form_valid w \<and> sf_dirty (vf_group w) \<and> vw_save_enabled s)"

fun vw_try :: "vw_action \<Rightarrow> vw_state \<Rightarrow> vw_state attempt" where
  "vw_try (VW_Text name t) s =
     (if name \<in> {''ip_address'', ''username'', ''password'', ''password_confirm''} then vw_on_form (vw_type (JStr t) name) s else done_with s)"
| "vw_try (VW_Choose name v) s = (if vw_offered name v s then vw_on_form (vw_type v name) s else done_with s)"
| "vw_try (VW_VCenter b) s = vw_on_form (vw_type (JBool b) ''vcenter'') s"
| "vw_try (VW_Leave name) s =
     vw_on_form (\<lambda>w. let (e, g) = leave_setting name (vf_group w) in (e, w\<lparr>vf_group := g\<rparr>)) s"
| "vw_try VW_TestClick s = (if vw_test_offered s then vw_click_button_test_connection s else done_with s)"
| "vw_try VW_SaveClick s = (if vw_save_offered s then vw_click_button_save s else done_with s)"

fun vw_answer :: "vw_request \<Rightarrow> reply \<Rightarrow> vw_state \<Rightarrow> vw_state" where
  "vw_answer VW_Get = vw_api_get_vmware_settings_answer"
| "vw_answer (VW_Save settings) = vw_api_save_vmware_settings_answer settings"
| "vw_answer (VW_Test display settings) = vw_api_test_vmware_settings_answer display settings"

definition vw_step :: "vw_action event \<Rightarrow> vw_state \<Rightarrow> vw_state" where
  "vw_step = async_step (\<lambda>a s. snd (vw_try a s)) vw_answer (\<lambda>_ _ s. s)"

definition vw_open :: vw_state where
  "vw_open = vw_ngOnInit vw_constructor"

end
