(* ===== verification/Vmware_Facts.thy ===== *)
theory Vmware_Facts
  imports Vmware_Settings Mip_Settings_Facts
begin

text \<open>
  Properties of the VMware settings: what is saved was checked, and what the answer of the test does to a form that
  the user has edited meanwhile.
\<close>

section \<open>The form\<close>

text \<open>The checked fields: the table of validators and the texts that it accepts.\<close>

definition vw_checked :: "string \<Rightarrow> (validator_object list \<times> (string \<Rightarrow> bool)) option" where
  "vw_checked name = map_of
     [(''ip_address'', VMWARE_SETTINGS_ip_address, \<lambda>t. t \<noteq> [] \<and> test_full IP_CONSTRAINT t),
      (''username'', VMWARE_SETTINGS_username, \<lambda>t. t \<noteq> []),
      (''password'', VMWARE_SETTINGS_password, \<lambda>t. t \<noteq> [])] name"

lemma vw_checked_cases:
  assumes "vw_checked n = Some (rules, P)"
  obtains "n = ''ip_address''" "rules = VMWARE_SETTINGS_ip_address" "P = (\<lambda>t. t \<noteq> [] \<and> test_full IP_CONSTRAINT t)"
  | "n = ''username''" "rules = VMWARE_SETTINGS_username" "P = (\<lambda>t. t \<noteq> [])"
  | "n = ''password''" "rules = VMWARE_SETTINGS_password" "P = (\<lambda>t. t \<noteq> [])"
  using assms by (auto simp: vw_checked_def split: if_splits)

lemma validate_checked:
  assumes "vw_checked n = Some (rules, P)" "fd_rules f = Some rules" "fd_value f = JStr t" "\<not> st_disabled f"
  shows "setting_validate cs f = done_with (f\<lparr>fd_valid := P t\<rparr>)"
  using assms(1)
  by (cases rule: vw_checked_cases)
    (auto simp: setting_validate_def assms(2-4) validateFromArray_def VMWARE_SETTINGS_ip_address_def VMWARE_SETTINGS_username_def
      VMWARE_SETTINGS_password_def required_str [of _ t] pattern_str [of _ t])

definition vw_names :: "string set" where
  "vw_names = {''ip_address'', ''username'', ''password'', ''password_confirm''}"

definition text_ok :: "string \<Rightarrow> setting \<Rightarrow> bool" where
  "text_ok n f \<longleftrightarrow> \<not> st_disabled f \<and>
     (\<exists>t. fd_value f = JStr t \<and>
       (case vw_checked n of None \<Rightarrow> fd_rules f = None | Some (rules, P) \<Rightarrow> fd_rules f = Some rules \<and> fd_valid f = P t))"

definition vw_group_ok :: "settings_form \<Rightarrow> bool" where
  "vw_group_ok g \<longleftrightarrow> (\<forall>n \<in> vw_names. \<exists>f. map_of (sf_controls g) n = Some f \<and> text_ok n f)"

definition differ :: "settings_form \<Rightarrow> bool" where
  "differ g \<longleftrightarrow>
     map_option fd_value (map_of (sf_controls g) ''password'') \<noteq> map_option fd_value (map_of (sf_controls g) ''password_confirm'')"

definition vw_ok :: "vw_form \<Rightarrow> bool" where
  "vw_ok w \<longleftrightarrow> vw_group_ok (vf_group w) \<and> vf_matching w = differ (vf_group w)"

lemma text_ok_confirm: "text_ok ''password_confirm'' (f\<lparr>fd_valid := b\<rparr>) = text_ok ''password_confirm'' f"
  by (simp add: text_ok_def vw_checked_def)

lemma map_of_group: "map_of (map (\<lambda>(n, f). (n, h f)) xs) k = map_option h (map_of xs k)"
  by (induction xs) auto

lemma update_group_ok:
  assumes "vw_group_ok g"
  shows "vw_ok (vw_update_group g)"
proof -
  obtain p c where p: "map_of (sf_controls g) ''password'' = Some p" and c: "map_of (sf_controls g) ''password_confirm'' = Some c"
    "text_ok ''password_confirm'' c" and t: "\<exists>t. fd_value p = JStr t"
    using assms unfolding vw_group_ok_def vw_names_def by (auto simp: text_ok_def)
  from t have eq: "strict_eq (fd_value p) w = (fd_value p = w)" for w by auto
  have "vw_group_ok (g\<lparr>sf_controls := AList.update ''password_confirm'' (c\<lparr>fd_valid := False\<rparr>) (sf_controls g)\<rparr>)"
    using assms c(2) by (auto simp: vw_group_ok_def update_conv text_ok_confirm)
  then show ?thesis
    using assms p c
    by (auto simp: vw_update_group_def confirm_password_match_def settings_group_def map_of_group optional_value_def eq
        vw_ok_def differ_def on_setting_def done_with_def update_conv Let_def)
qed

text \<open>What leaves the four texts alone, and what writes them.\<close>

definition agree :: "settings_form \<Rightarrow> settings_form \<Rightarrow> bool" where
  "agree g h \<longleftrightarrow> (\<forall>n \<in> vw_names. map_of (sf_controls h) n = map_of (sf_controls g) n)"

lemma agree_refl [simp]: "agree g g"
  by (simp add: agree_def)

lemma agree_ok: "agree g h \<Longrightarrow> vw_group_ok h = vw_group_ok g" "agree g h \<Longrightarrow> differ h = differ g"
  by (simp_all add: agree_def vw_group_ok_def differ_def vw_names_def)

lemma agree_flags [simp]:
  "agree g (h\<lparr>sf_dirty := b\<rparr>) = agree g h" "agree g (update_ancestors b h) = agree g h" "agree (g\<lparr>sf_dirty := b\<rparr>) h = agree g h"
  by (simp_all add: agree_def update_ancestors_def)

lemma agree_trans: "agree g h \<Longrightarrow> agree h i \<Longrightarrow> agree g i"
  by (simp add: agree_def)

lemma agree_on_setting: "n \<notin> vw_names \<Longrightarrow> agree g (snd (on_setting n f g))"
  by (auto simp: on_setting_def agree_def update_conv split: option.split prod.split)

lemma agree_then: "agree g (snd m) \<Longrightarrow> (\<And>h. agree g h \<Longrightarrow> agree g (snd (f h))) \<Longrightarrow> agree g (snd (and_then m f))"
  by (rule snd_and_then [where P = "agree g"])

lemma agree_others:
  assumes "n \<notin> vw_names"
  shows "agree g (snd (disable_setting n g))" "agree g (snd (enable_setting n g))" "agree g (snd (reset_setting n g))"
    "agree g (snd (type_setting v n g))"
proof -
  have on: "agree g (snd (on_setting n f h))" if "agree g h" for f h
    using that agree_on_setting [OF assms] by (rule agree_trans)
  show "agree g (snd (disable_setting n g))" "agree g (snd (enable_setting n g))" "agree g (snd (reset_setting n g))"
    unfolding disable_setting_def enable_setting_def only_self_def reset_setting_def by (rule agree_then, rule on, simp, simp)+
  show "agree g (snd (type_setting v n g))"
    by (auto simp: type_setting_def set_setting_def intro!: agree_then on split: option.split)
qed

lemma type_text:
  assumes "vw_group_ok g" "n \<in> vw_names"
  obtains h where "type_setting (JStr t) n g = (None, h)" "vw_group_ok h"
proof -
  obtain f where f: "map_of (sf_controls g) n = Some f" "text_ok n f" using assms unfolding vw_group_ok_def by blast
  define g1 where "g1 = g\<lparr>sf_dirty := True, sf_controls := AList.update n (f\<lparr>fd_dirty := True\<rparr>) (sf_controls g)\<rparr>"
  obtain f' where f': "setting_validate (sf_controls g1) (f\<lparr>fd_dirty := True, fd_value := JStr t\<rparr>) = (None, f')" "text_ok n f'"
  proof (cases "vw_checked n")
    case None
    then show thesis using that f(2) by (simp add: text_ok_def setting_validate_def done_with_def)
  next
    case (Some x)
    then obtain rules P where x: "vw_checked n = Some (rules, P)" by (cases x) simp
    with f(2) have rules: "fd_rules f = Some rules" "\<not> st_disabled f" by (auto simp: text_ok_def)
    show thesis
      by (rule that [of "f\<lparr>fd_dirty := True, fd_value := JStr t, fd_valid := P t\<rparr>"])
        (use validate_checked [OF x, of "f\<lparr>fd_dirty := True, fd_value := JStr t\<rparr>" t] rules x in \<open>simp_all add: text_ok_def done_with_def\<close>)
  qed
  have "type_setting (JStr t) n g = (None, g1\<lparr>sf_controls := AList.update n f' (sf_controls g1)\<rparr>)"
    using f f'(1) by (simp add: type_setting_def set_setting_def on_setting_def done_with_def text_ok_def update_conv g1_def)
  moreover have "vw_group_ok (g1\<lparr>sf_controls := AList.update n f' (sf_controls g1)\<rparr>)"
    using assms(1) f'(2) by (auto simp: vw_group_ok_def g1_def update_conv)
  ultimately show thesis by (rule that)
qed

lemma update_confirm:
  assumes "vw_group_ok g"
  obtains h where "updateValueAndValidity ''password_confirm'' g = (None, h)" "vw_group_ok h"
proof -
  obtain f where f: "map_of (sf_controls g) ''password_confirm'' = Some f" "text_ok ''password_confirm'' f"
    using assms unfolding vw_group_ok_def vw_names_def by blast
  let ?h = "g\<lparr>sf_controls := AList.update ''password_confirm'' (f\<lparr>fd_valid := True\<rparr>) (sf_controls g)\<rparr>"
  have "updateValueAndValidity ''password_confirm'' g = (None, ?h)"
    using f by (simp add: updateValueAndValidity_def on_setting_def setting_validate_def done_with_def text_ok_def vw_checked_def)
  moreover have "vw_group_ok ?h"
    using assms f by (auto simp: vw_group_ok_def update_conv text_ok_confirm)
  ultimately show thesis by (rule that)
qed

section \<open>Operations on the form\<close>

lemma on_group_ok:
  assumes "vw_ok w" "\<And>g. vw_group_ok g \<Longrightarrow> vw_group_ok (snd (f g)) \<and> (fst (f g) \<noteq> None \<longrightarrow> differ (snd (f g)) = differ g)"
  shows "vw_ok (snd (vw_on_group f w))"
proof -
  obtain e g where g: "f (vf_group w) = (e, g)" by fastforce
  then show ?thesis using assms(1) assms(2) [of "vf_group w"] by (cases e) (auto simp: vw_on_group_def vw_ok_def update_group_ok [unfolded vw_ok_def])
qed

lemma on_group_others: "vw_ok w \<Longrightarrow> (\<And>g. agree g (snd (f g))) \<Longrightarrow> vw_ok (snd (vw_on_group f w))"
  by (rule on_group_ok) (auto simp: agree_ok(1) [of g "snd (f g)" for g] agree_ok(2) [of g "snd (f g)" for g])

lemma selects_not_names [simp]: "n \<in> set vw_selects \<Longrightarrow> n \<notin> vw_names"
  by (auto simp: vw_selects_def vw_names_def)

lemma input_control_ok:
  "vw_ok w \<Longrightarrow> vw_ok (snd (each (\<lambda>n. vw_on_group (if b then disable_setting n else enable_setting n)) vw_selects w))"
  by (rule snd_each) (auto intro!: on_group_others agree_others)

lemma reset_missing_ok: "vw_ok w \<Longrightarrow> vw_ok (snd (each vw_reset_missing vw_selects w))"
  by (rule snd_each) (auto simp: vw_reset_missing_def intro!: on_group_others agree_others split: option.split)

lemma type_ok:
  assumes "vw_ok w" "n \<in> vw_names \<Longrightarrow> \<exists>t. v = JStr t"
  shows "vw_ok (snd (vw_type v n w))"
  unfolding vw_type_def
proof (rule on_group_ok [OF assms(1)])
  fix g
  assume g: "vw_group_ok g"
  let ?f = "and_then (type_setting v n g)
    (\<lambda>g. if n \<in> {''password'', ''password_confirm''} then updateValueAndValidity ''password_confirm'' g else done_with g)"
  show "vw_group_ok (snd ?f) \<and> (fst ?f \<noteq> None \<longrightarrow> differ (snd ?f) = differ g)"
  proof (cases "n \<in> vw_names")
    case True
    then obtain t where "v = JStr t" using assms(2) by blast
    with type_text [OF g True, of t] obtain h where h: "type_setting v n g = (None, h)" "vw_group_ok h" by metis
    moreover obtain i where "updateValueAndValidity ''password_confirm'' h = (None, i)" "vw_group_ok i" using update_confirm [OF h(2)] .
    ultimately show ?thesis by (simp add: done_with_def)
  next
    case False
    then have "?f = and_then (type_setting v n g) done_with" by (auto simp: vw_names_def)
    then have "snd ?f = snd (type_setting v n g)" by (cases "type_setting v n g"; cases "fst (type_setting v n g)") (auto simp: done_with_def)
    then show ?thesis using agree_others(4) [OF False, of g v] g by (simp add: agree_ok)
  qed
qed

lemma leave_ok:
  assumes "vw_ok w"
  shows "vw_ok (snd (case leave_setting n (vf_group w) of (e, g) \<Rightarrow> (e, w\<lparr>vf_group := g\<rparr>)))"
proof -
  have "text_ok m (f\<lparr>fd_touched := True\<rparr>) = text_ok m f" for m f
    by (cases "vw_checked m") (auto simp: text_ok_def)
  then have "vw_group_ok (snd (leave_setting n (vf_group w))) \<and> differ (snd (leave_setting n (vf_group w))) = differ (vf_group w)"
    using assms by (auto simp: vw_ok_def vw_group_ok_def differ_def leave_setting_def on_setting_def done_with_def update_conv split: option.split)
  then show ?thesis using assms by (auto simp: vw_ok_def split: prod.split)
qed

section \<open>A new form\<close>

definition vw_texts :: "js \<Rightarrow> bool" where
  "vw_texts v \<longleftrightarrow> (\<forall>n \<in> {''ip_address'', ''username'', ''password''}. \<not> notUndefNull (js_get v n) \<or> (\<exists>t. js_get v n = JStr t))"

definition clean_setting :: "js \<Rightarrow> validator_object list option \<Rightarrow> bool \<Rightarrow> setting" where
  "clean_setting v rules ok = \<lparr>fd_value = v, fd_touched = False, fd_dirty = False, fd_rules = rules, fd_valid = ok, st_disabled = False, st_parent = None\<rparr>"

lemma new_unruled: "new_setting cs v None None = (None, clean_setting v None True)"
  by (simp add: new_setting_def setting_validate_def done_with_def clean_setting_def)

lemma new_checked:
  assumes "vw_checked n = Some (rules, P)"
  shows "new_setting cs (JStr t) (Some rules) None = (None, clean_setting (JStr t) (Some rules) (P t))"
  using validate_checked [OF assms, of "clean_setting (JStr t) (Some rules) True" t cs]
  by (simp add: new_setting_def done_with_def clean_setting_def)

lemma vw_checked_simps [simp]:
  "vw_checked ''ip_address'' = Some (VMWARE_SETTINGS_ip_address, \<lambda>t. t \<noteq> [] \<and> test_full IP_CONSTRAINT t)"
  "vw_checked ''username'' = Some (VMWARE_SETTINGS_username, \<lambda>t. t \<noteq> [])"
  "vw_checked ''password'' = Some (VMWARE_SETTINGS_password, \<lambda>t. t \<noteq> [])"
  "vw_checked ''password_confirm'' = None"
  by (simp_all add: vw_checked_def)

definition settings_shown :: "js \<Rightarrow> settings_form \<Rightarrow> bool" where
  "settings_shown v g \<longleftrightarrow> \<not> sf_dirty g \<and> (\<forall>(n, f) \<in> set (sf_controls g). \<not> fd_dirty f) \<and>
     (\<forall>n \<in> {''ip_address'', ''username'', ''password''}. map_option fd_value (map_of (sf_controls g) n) = Some (or_else (js_get v n) (JStr [])))"

lemma new_form_ok:
  assumes "vw_texts v"
  obtains w where "vw_new_form v = Inr w" "vw_ok w" "settings_shown v (vf_group w)"
proof -
  obtain t1 t2 t3 where t: "or_else (js_get v ''ip_address'') (JStr []) = JStr t1" "or_else (js_get v ''username'') (JStr []) = JStr t2"
    "or_else (js_get v ''password'') (JStr []) = JStr t3"
    using assms or_else_text [of "js_get v ''ip_address''"] or_else_text [of "js_get v ''username''"] or_else_text [of "js_get v ''password''"]
    unfolding vw_texts_def by (simp only: ball_simps) blast
  let ?c = "\<lambda>n. (n, clean_setting (or_else (js_get v n) JNull) None True)"
  define g where "g = \<lparr>sf_controls =
     [(''ip_address'', clean_setting (JStr t1) (Some VMWARE_SETTINGS_ip_address) (t1 \<noteq> [] \<and> test_full IP_CONSTRAINT t1)),
      (''username'', clean_setting (JStr t2) (Some VMWARE_SETTINGS_username) (t2 \<noteq> [])),
      (''password'', clean_setting (JStr t3) (Some VMWARE_SETTINGS_password) (t3 \<noteq> [])),
      (''password_confirm'', clean_setting (JStr t3) None True),
      (''vcenter'', clean_setting (or_else (js_get v ''vcenter'') (JBool False)) None True),
      ?c ''folder'', ?c ''datacenter'', ?c ''cluster'', ?c ''portgroup'', ?c ''datastore''], sf_dirty = False, sf_touched = False\<rparr>"
  have new: "vw_new_form v = Inr (vw_update_group g)"
    by (simp add: vw_new_form_def new_form_def t new_unruled vw_selects_def g_def
        new_checked [OF vw_checked_simps(1)] new_checked [OF vw_checked_simps(2)] new_checked [OF vw_checked_simps(3)])
  have "vw_group_ok g"
    by (simp add: vw_group_ok_def vw_names_def g_def text_ok_def clean_setting_def)
  then have "vw_ok (vw_update_group g)" by (rule update_group_ok)
  moreover have "settings_shown v (vf_group (vw_update_group g))"
    by (auto simp: settings_shown_def vw_update_group_def confirm_password_match_def settings_group_def optional_value_def
        on_setting_def done_with_def update_conv g_def clean_setting_def t Let_def)
  ultimately show thesis using that new by blast
qed

section \<open>The component\<close>

fun is_vw_save :: "effect \<Rightarrow> bool" where
  "is_vw_save (Http m u _) = (m = POST \<and> u = ''/api/settings/esxi'')"
| "is_vw_save _ = False"

lemma no_reports_vw_save [simp]: "no_reports is_vw_save"
  by (simp add: no_reports_def)

definition vw_sent :: "js \<Rightarrow> bool" where
  "vw_sent v \<longleftrightarrow>
     (\<exists>ip user pw. js_get v ''ip_address'' = JStr ip \<and> test_full IP_CONSTRAINT ip \<and> js_get v ''username'' = JStr user \<and> user \<noteq> [] \<and>
        js_get v ''password'' = JStr pw \<and> pw \<noteq> [])"

fun waits_ok :: "vw_request \<Rightarrow> bool" where
  "waits_ok VW_Get = True"
| "waits_ok (VW_Save v) = vw_texts v"
| "waits_ok (VW_Test d v) = (notUndefNull v \<longrightarrow> vw_texts v)"

definition vw_inv :: "vw_state \<Rightarrow> bool" where
  "vw_inv s \<longleftrightarrow>
     (\<forall>w. vw_form s = Some w \<longrightarrow> vw_ok w) \<and> (\<forall>k \<in> set (requests s). waits_ok k) \<and>
     (\<forall>m u v. Http m u v \<in> set (seen is_vw_save s) \<longrightarrow> vw_sent v)"

lemma vw_more: "world.more s = world.more s' \<Longrightarrow> vw_form s = vw_form s' \<and> requests s = requests s'" for s s' :: vw_state
  by (cases s; cases s') simp

lemma vw_inv_frame: "vw_inv s \<Longrightarrow> world.more s' = world.more s \<Longrightarrow> seen is_vw_save s' = seen is_vw_save s \<Longrightarrow> vw_inv s'"
  using vw_more [of s' s] by (simp add: vw_inv_def)

lemma vw_inv_reports [simp]:
  "vw_inv s \<Longrightarrow> vw_inv (report_error m s)" "vw_inv s \<Longrightarrow> vw_inv (report_error_or_message m e s)"
  "vw_inv s \<Longrightarrow> vw_inv (displaySnackBar v c s)" "vw_inv s \<Longrightarrow> vw_inv (show_validation_errors x keys y s)"
  "vw_inv s \<Longrightarrow> vw_inv (show_post_validation v s)"
  by (erule vw_inv_frame; simp)+

lemma vw_inv_fields [simp]:
  "vw_inv (s\<lparr>vw_test_enabled := b\<rparr>) = vw_inv s" "vw_inv (s\<lparr>vw_save_enabled := b\<rparr>) = vw_inv s" "vw_inv (s\<lparr>vmware_data := v\<rparr>) = vw_inv s"
  "vw_inv (s\<lparr>vw_test_enabled := b, vmware_data := v\<rparr>) = vw_inv s"
  by (simp_all add: vw_inv_def seen_def)

lemma vw_inv_set: "vw_inv s \<Longrightarrow> vw_ok w \<Longrightarrow> vw_inv (s\<lparr>vw_form := Some w\<rparr>)"
  by (simp add: vw_inv_def seen_def)

lemma vw_inv_on_form: "vw_inv s \<Longrightarrow> (\<And>w. vw_ok w \<Longrightarrow> vw_ok (snd (f w))) \<Longrightarrow> vw_inv (snd (vw_on_form f s))"
proof (cases "vw_form s")
  case (Some w)
  assume *: "vw_inv s" "\<And>w. vw_ok w \<Longrightarrow> vw_ok (snd (f w))"
  with Some have "vw_ok (snd (f w))" by (simp add: vw_inv_def)
  then show ?thesis using vw_inv_set [OF *(1), of "snd (f w)"] by (cases "f w") (simp add: vw_on_form_def Some)
qed (simp add: vw_on_form_def)

lemma vw_inv_then: "vw_inv (snd m) \<Longrightarrow> (\<And>s. vw_inv s \<Longrightarrow> vw_inv (snd (f s))) \<Longrightarrow> vw_inv (snd (and_then m f))"
  by (rule snd_and_then [where P = vw_inv])

lemma vw_inv_initialize: "vw_inv s \<Longrightarrow> vw_texts v \<Longrightarrow> vw_inv (snd (vw_initialize_form v s))"
  by (erule new_form_ok) (simp add: vw_initialize_form_def attempt_def vw_inv_set)

lemma vw_inv_controls: "vw_inv s \<Longrightarrow> vw_inv (snd (vw_input_control b s))" "vw_inv s \<Longrightarrow> vw_inv (snd (vw_input_control_reset s))"
  unfolding vw_input_control_def vw_input_control_reset_def by (auto intro!: vw_inv_on_form input_control_ok reset_missing_ok)

lemma vw_inv_call:
  "vw_inv s \<Longrightarrow> waits_ok k \<Longrightarrow> (is_vw_save (Http (ep_method ep) (ep_url ep) (ep_body ep)) \<Longrightarrow> vw_sent (ep_body ep)) \<Longrightarrow> vw_inv (call ep k s)"
  by (auto simp: vw_inv_def) (auto simp: call_def request_def http_def emit_def)

lemma vw_inv_test: "vw_inv s \<Longrightarrow> waits_ok (VW_Test d v) \<Longrightarrow> vw_inv (snd (vw_api_test_vmware_settings d v s))"
  by (auto simp: vw_api_test_vmware_settings_def test_vmware_settings_def done_with_def intro!: vw_inv_call split: option.split)

lemma js_get_raw: "js_get (JObj (form_raw g)) n = (case map_of (sf_controls g) n of None \<Rightarrow> JUndef | Some f \<Rightarrow> fd_value f)"
  by (simp add: form_raw_def map_of_group split: option.split)

lemma raw_text:
  assumes "vw_ok w" "vw_checked n = Some (rules, P)"
  obtains f t where "map_of (sf_controls (vf_group w)) n = Some f" "fd_value f = JStr t" "fd_valid f = P t" "\<not> st_disabled f"
  using assms by (auto simp: vw_ok_def vw_group_ok_def vw_names_def text_ok_def elim!: vw_checked_cases)

lemma vw_inv_save:
  assumes "vw_inv s" "vw_save_offered s"
  shows "vw_inv (snd (vw_click_button_save s))"
proof -
  obtain w where w: "vw_form s = Some w" "vw_ok w" "vw_form_valid w"
    using assms by (auto simp: vw_save_offered_def vw_inv_def split: option.splits)
  let ?v = "JObj (form_raw (vf_group w))"
  have sent: "\<exists>t. js_get ?v n = JStr t \<and> P t" if checked: "vw_checked n = Some (rules, P)" for n rules P
  proof -
    obtain f t where f: "map_of (sf_controls (vf_group w)) n = Some f" "fd_value f = JStr t" "fd_valid f = P t" "\<not> st_disabled f"
      by (rule raw_text [OF w(2) checked])
    then have "fd_valid f"
      using w(3) map_of_SomeD [OF f(1)] by (fastforce simp: vw_form_valid_def form_valid_def any_enabled_def list_ex_iff)
    with f show ?thesis unfolding js_get_raw by simp
  qed
  have del: "js_get (delete_key ''password_confirm'' ?v) n = js_get ?v n" if "n \<noteq> ''password_confirm''" for n
    using that by (simp add: delete_key_def AList.delete_conv)
  have "vw_texts ?v" "vw_sent (delete_key ''password_confirm'' ?v)"
    using sent [OF vw_checked_simps(1)] sent [OF vw_checked_simps(2)] sent [OF vw_checked_simps(3)]
    by (auto simp: vw_texts_def vw_sent_def del simp del: js_get.simps)
  moreover have "vw_form (displaySnackBar m c (s\<lparr>vw_save_enabled := False\<rparr>)) = Some w" for m c
    using vw_more [of "displaySnackBar m c (s\<lparr>vw_save_enabled := False\<rparr>)" "s\<lparr>vw_save_enabled := False\<rparr>"] w(1) by simp
  ultimately show ?thesis
    using assms(1) by (auto simp: vw_click_button_save_def vw_api_save_vmware_settings_def save_vmware_settings_def done_with_def Let_def
        intro!: vw_inv_call)
qed

lemma vw_inv_answered:
  assumes "vw_inv s" "\<And>v x. r = Reply v \<Longrightarrow> ep_decode ep v = Inr x \<Longrightarrow> vw_inv (next_cb x s)" "\<And>e s. vw_inv s \<Longrightarrow> vw_inv (error_cb e s)"
  shows "vw_inv (answered ep next_cb error_cb r s)"
proof (rule answered_outcomes [of r ep next_cb error_cb s])
  fix s' err
  assume "answered ep next_cb error_cb r s = error_cb err s'" "world.more s' = world.more s"
    "\<And>f. no_reports f \<Longrightarrow> seen f s' = seen f s"
  then show ?thesis using assms(1,3) vw_inv_frame [of s s'] by simp
qed (use assms(2) in simp)

lemma vw_inv_refused: "vw_inv s \<Longrightarrow> vw_inv (report_refused m e s)" "vw_inv s \<Longrightarrow> vw_inv (vw_save_error e s)"
  by (simp_all add: report_refused_def vw_save_error_def Let_def split: api_error.split)

lemma vw_texts_decoded:
  assumes "vw_texts v" "ep_decode get_vmware_settings v = Inr x"
  shows "vw_texts x"
proof (cases "key_count v")
  case (Inr n)
  then show ?thesis
    using assms by (auto simp: get_vmware_settings_def endpoint_def vw_texts_def new_VMWareSettingsClass_def construct_def copy_def split: if_splits)
qed (use assms in \<open>simp add: get_vmware_settings_def endpoint_def\<close>)

lemma vw_inv_loaded: "vw_inv s \<Longrightarrow> vw_texts v \<Longrightarrow> vw_inv (snd (vw_loaded v s))"
  unfolding vw_loaded_def by (auto intro!: vw_inv_then vw_inv_initialize vw_inv_controls vw_inv_test)

lemma vw_inv_saved: "vw_inv s \<Longrightarrow> vw_texts v \<Longrightarrow> vw_inv (snd (vw_saved v s))"
  unfolding vw_saved_def by (auto intro!: vw_inv_then vw_inv_initialize)

lemma vw_inv_tested: "vw_inv s \<Longrightarrow> waits_ok (VW_Test d v) \<Longrightarrow> vw_inv (snd (vw_tested d v response s))"
  unfolding vw_tested_def Let_def by (auto intro!: vw_inv_then vw_inv_initialize vw_inv_controls)

lemma vw_inv_removed: "vw_inv s \<Longrightarrow> vw_inv (s\<lparr>requests := remove_nth i (requests s)\<rparr>)"
  using set_remove_nth [of i "requests s"] by (auto simp: vw_inv_def seen_def)

lemma vw_inv_dialogs: "vw_inv s \<Longrightarrow> vw_inv (s\<lparr>dialogs := ds\<rparr>)"
  by (simp add: vw_inv_def seen_def)

lemma vw_inv_answer:
  assumes "vw_inv s" "waits_ok k" "\<And>v. r = Reply v \<Longrightarrow> vw_texts v"
  shows "vw_inv (vw_answer k r s)"
proof (cases k)
  case VW_Get
  then show ?thesis using assms
    by (auto simp: vw_api_get_vmware_settings_answer_def intro!: vw_inv_answered vw_inv_loaded dest: vw_texts_decoded)
qed (use assms in \<open>auto simp: vw_api_save_vmware_settings_answer_def vw_api_test_vmware_settings_answer_def
    intro!: vw_inv_answered vw_inv_saved vw_inv_tested vw_inv_refused\<close>)

lemma vw_inv_try: "vw_inv s \<Longrightarrow> vw_inv (snd (vw_try a s))"
proof (cases a)
  case (VW_Choose n v)
  assume *: "vw_inv s"
  have "n \<notin> vw_names" if "vw_offered n v s"
    using that by (auto simp: vw_offered_def vw_options_def vw_names_def)
  then show ?thesis using * VW_Choose by (auto intro!: vw_inv_on_form type_ok)
qed (auto simp: vw_names_def vw_click_button_test_connection_def notUndefNull_def intro!: vw_inv_on_form type_ok leave_ok vw_inv_save vw_inv_test)

text \<open>Answers whose settings are texts.\<close>

fun vw_typed :: "vw_action event \<Rightarrow> bool" where
  "vw_typed (Answer _ (Reply v)) = vw_texts v"
| "vw_typed _ = True"

lemma vw_inv_step: "vw_inv s \<Longrightarrow> vw_typed ev \<Longrightarrow> vw_inv (vw_step ev s)"
proof (cases ev)
  case (Answer i r)
  assume *: "vw_inv s" "vw_typed ev"
  have "vw_texts v" if "r = Reply v" for v using * that by (simp add: Answer)
  moreover have "waits_ok (requests s ! i)" if "i < length (requests s)" using * that by (simp add: vw_inv_def)
  ultimately show ?thesis
    using * vw_inv_answer [of "s\<lparr>requests := remove_nth i (requests s)\<rparr>" "requests s ! i" r]
    by (simp add: Answer vw_step_def async_step_def vw_inv_removed)
qed (simp_all add: vw_step_def async_step_def vw_inv_try vw_inv_dialogs)

lemma vw_inv_reached: "\<forall>ev \<in> set evs. vw_typed ev \<Longrightarrow> vw_inv (fold vw_step evs vw_open)"
proof (induction evs rule: rev_induct)
  case Nil
  show ?case
    by (simp add: vw_open_def vw_ngOnInit_def vw_api_get_vmware_settings_def get_vmware_settings_def vw_inv_call)
      (rule vw_inv_call; simp add: vw_inv_def vw_constructor_def seen_def)
qed (simp add: vw_inv_step)

section \<open>Settings that are shown unchanged\<close>

lemma validate_keeps [simp]:
  "fd_value (snd (setting_validate cs f)) = fd_value f" "fd_dirty (snd (setting_validate cs f)) = fd_dirty f"
  by (simp_all add: setting_validate_def done_with_def split: option.split sum.split)

lemma set_update: "x \<in> set (AList.update k v xs) \<Longrightarrow> x = (k, v) \<or> x \<in> set xs"
  by (induction xs) (auto split: if_splits)

lemma shown_on_setting:
  assumes "settings_shown v g" "\<And>f. fd_value (snd (h f)) = fd_value f \<and> fd_dirty (snd (h f)) = fd_dirty f"
  shows "settings_shown v (snd (on_setting n h g))"
proof (cases "map_of (sf_controls g) n")
  case (Some f)
  obtain e f' where h: "h f = (e, f')" by fastforce
  then have f': "fd_value f' = fd_value f" "fd_dirty f' = fd_dirty f" using assms(2) [of f] by simp_all
  moreover have "\<not> fd_dirty f" using assms(1) map_of_SomeD [OF Some] unfolding settings_shown_def by blast
  ultimately have clean: "\<not> fd_dirty x" if "(m, x) \<in> set (AList.update n f' (sf_controls g))" for m x
    using set_update [OF that] assms(1) unfolding settings_shown_def by auto
  have same: "map_option fd_value (map_of (AList.update n f' (sf_controls g)) m) = map_option fd_value (map_of (sf_controls g) m)" for m
    using Some f'(1) by (simp add: update_conv)
  have "snd (on_setting n h g) = g\<lparr>sf_controls := AList.update n f' (sf_controls g)\<rparr>" by (simp add: on_setting_def Some h)
  then show ?thesis using assms(1) clean unfolding settings_shown_def by (simp add: same) blast
qed (use assms(1) in \<open>simp add: on_setting_def\<close>)

lemma shown_ancestors: "settings_shown v g \<Longrightarrow> settings_shown v (update_ancestors b g)"
  by (auto simp: settings_shown_def update_ancestors_def any_enabled_def list_ex_iff)

lemma shown_enable: "settings_shown v g \<Longrightarrow> settings_shown v (snd (enable_setting n g))"
  unfolding enable_setting_def only_self_def
  by (rule snd_and_then [where P = "settings_shown v"]) (simp_all add: shown_ancestors shown_on_setting)

lemma shown_on_group:
  assumes "settings_shown v (vf_group w)" "\<And>g. settings_shown v g \<Longrightarrow> settings_shown v (snd (f g))"
  shows "settings_shown v (vf_group (snd (vw_on_group f w)))"
proof -
  obtain e g where g: "f (vf_group w) = (e, g)" by fastforce
  then have "settings_shown v g" using assms(2) [OF assms(1)] by simp
  then show ?thesis
    using g by (cases e) (auto simp: vw_on_group_def vw_update_group_def done_with_def intro!: shown_on_setting split: option.split prod.split)
qed

definition shown_by :: "js \<Rightarrow> vw_state \<Rightarrow> bool" where
  "shown_by v s \<longleftrightarrow> (\<exists>w. vw_form s = Some w \<and> settings_shown v (vf_group w))"

lemma shown_controls:
  assumes "settings_shown v (vf_group w)"
  shows "shown_by v (snd (vw_input_control False (s\<lparr>vw_form := Some w\<rparr>)))"
proof -
  have "settings_shown v (vf_group (snd (each (\<lambda>n. vw_on_group (if False then disable_setting n else enable_setting n)) vw_selects w)))"
    by (rule snd_each [where P = "\<lambda>w. settings_shown v (vf_group w)", OF assms]) (simp add: shown_on_group shown_enable)
  moreover obtain e x where "each (\<lambda>n. vw_on_group (if False then disable_setting n else enable_setting n)) vw_selects w = (e, x)" by fastforce
  ultimately show ?thesis by (simp add: vw_input_control_def vw_on_form_def shown_by_def)
qed

lemma shown_by_facts:
  "shown_by v s \<Longrightarrow>
    (\<forall>n \<in> {''ip_address'', ''username'', ''password''}. vw_value n s = or_else (js_get v n) (JStr [])) \<and> \<not> vw_save_offered s"
  by (auto simp: shown_by_def settings_shown_def vw_value_def vw_save_offered_def split: option.split)

section \<open>Properties\<close>

text \<open>C21: whatever the user enters and in whatever order the backend answers, the VMware settings that are saved have an
  address of the required form, a user and a password; and the button that saves them is offered only when the password
  was repeated.\<close>

theorem vw_saves_checked:
  assumes "\<forall>ev \<in> set evs. vw_typed ev"
  shows "let s = fold vw_step evs vw_open
    in (\<forall>v. Http POST ''/api/settings/esxi'' v \<in> set (trace s) \<longrightarrow> vw_sent v) \<and>
       (vw_save_offered s \<longrightarrow> vw_value ''password_confirm'' s = vw_value ''password'' s)"
proof -
  let ?s = "fold vw_step evs vw_open"
  have inv: "vw_inv ?s" by (rule vw_inv_reached [OF assms])
  have "vw_value ''password_confirm'' ?s = vw_value ''password'' ?s" if offered: "vw_save_offered ?s"
  proof -
    obtain w where "vw_form ?s = Some w" "vw_ok w" "\<not> vf_matching w"
      using inv offered unfolding vw_inv_def by (cases "vw_form ?s") (auto simp: vw_save_offered_def vw_form_valid_def)
    then show ?thesis by (auto simp: vw_value_def vw_ok_def differ_def split: option.splits)
  qed
  moreover have "vw_sent v" if "Http POST ''/api/settings/esxi'' v \<in> set (trace ?s)" for v
    using inv that by (auto simp: vw_inv_def seen_def)
  ultimately show ?thesis by (simp add: Let_def)
qed

text \<open>the settings that were loaded are tested at once, and the answer of this test makes the form anew: what the
  user has typed meanwhile is replaced by the loaded settings, and the form counts as not edited.\<close>

theorem vw_late_test_discards:
  assumes "\<forall>ev \<in> set evs. vw_typed ev"
    and "i < length (requests (fold vw_step evs vw_open))" "requests (fold vw_step evs vw_open) ! i = VW_Test d v"
    and "notUndefNull v" "notUndefNull r"
  shows "let s = vw_step (Answer i (Reply r)) (fold vw_step evs vw_open)
    in (\<forall>n \<in> {''ip_address'', ''username'', ''password''}. vw_value n s = or_else (js_get v n) (JStr [])) \<and> \<not> vw_save_offered s"
proof -
  define s where "s = fold vw_step evs vw_open"
  define t where "t = s\<lparr>requests := remove_nth i (requests s)\<rparr>"
  have req: "i < length (requests s)" "requests s ! i = VW_Test d v" using assms(2,3) by (simp_all add: s_def)
  have "vw_inv s" unfolding s_def by (rule vw_inv_reached [OF assms(1)])
  then have "vw_texts v" using req assms(4) unfolding vw_inv_def by (metis nth_mem waits_ok.simps(3))
  then obtain w where w: "vw_new_form v = Inr w" "settings_shown v (vf_group w)" by (rule new_form_ok)
  obtain x where x: "new_VMWareDataClass r = Inr x"
    using assms(5) by (cases r) (simp_all add: new_VMWareDataClass_def construct_def copy_def notUndefNull_def)
  have "vw_step (Answer i (Reply r)) s = snd (vw_tested d v x t)"
    using req x by (simp add: vw_step_def async_step_def t_def vw_api_test_vmware_settings_answer_def
        answered_def subscribe_def test_vmware_settings_def endpoint_def)
  moreover obtain u where "snd (vw_tested d v x t) = snd (vw_input_control False (u\<lparr>vw_form := Some w\<rparr>))"
    using assms(4) w(1) by (simp add: vw_tested_def vw_initialize_form_def attempt_def Let_def)
  ultimately have "shown_by v (vw_step (Answer i (Reply r)) s)" using shown_controls [OF w(2)] by simp
  then show ?thesis unfolding s_def [symmetric] Let_def by (rule shown_by_facts)
qed

section \<open>The properties at concrete runs\<close>

definition vw_example :: js where
  "vw_example = JObj [(''ip_address'', JStr ''10.1.1.1''), (''username'', JStr ''admin''), (''password'', JStr ''secret'')]"

definition vw_example_run :: "vw_action event list" where
  "vw_example_run = [Answer 0 (Reply vw_example), Act (VW_Text ''username'' ''root'')]"

definition vw_example_settings :: js where
  "vw_example_settings = JObj [(''_id'', JUndef), (''ip_address'', JStr ''10.1.1.1''), (''username'', JStr ''admin''),
     (''password'', JStr ''secret''), (''datastore'', JUndef), (''vcenter'', JUndef), (''folder'', JUndef), (''datacenter'', JUndef),
     (''portgroup'', JUndef), (''cluster'', JUndef)]"

definition vw_summary :: "vw_state \<Rightarrow> js \<times> vw_request list \<times> (string \<times> js) list" where
  "vw_summary s = (vw_value ''username'' s, requests s,
     concat (map (\<lambda>e. case e of Http m u v \<Rightarrow> if m = POST \<and> u = ''/api/settings/esxi'' then [(u, v)] else [] | _ \<Rightarrow> []) (trace s)))"

definition vw_example_sent :: js where
  "vw_example_sent = JObj [(''ip_address'', JStr ''10.1.1.1''), (''username'', JStr ''root''), (''password'', JStr ''secret''),
     (''vcenter'', JBool False), (''folder'', JNull), (''datacenter'', JNull), (''cluster'', JNull), (''portgroup'', JNull), (''datastore'', JNull)]"

lemma vw_example_runs:
  "vw_summary (fold vw_step vw_example_run vw_open) = (JStr ''root'', [VW_Test False vw_example_settings], [])"
  "snd (snd (vw_summary (fold vw_step (vw_example_run @ [Act VW_SaveClick]) vw_open))) = [(''/api/settings/esxi'', vw_example_sent)]"
  by code_simp+

lemma vw_example_typed: "\<forall>ev \<in> set (vw_example_run @ [Act VW_SaveClick]). vw_typed ev"
  by (simp add: vw_example_run_def vw_texts_def vw_example_def)

theorem vw_saves_checked_witness: "vw_sent vw_example_sent"
proof -
  have "Http POST ''/api/settings/esxi'' vw_example_sent \<in> set (trace (fold vw_step (vw_example_run @ [Act VW_SaveClick]) vw_open))"
  proof -
    have "(''/api/settings/esxi'', vw_example_sent) \<in> set (snd (snd (vw_summary (fold vw_step (vw_example_run @ [Act VW_SaveClick]) vw_open))))"
      unfolding vw_example_runs(2) by simp
    then show ?thesis unfolding vw_summary_def by (auto split: effect.splits if_splits)
  qed
  then show ?thesis using vw_saves_checked [OF vw_example_typed] by (simp only: Let_def)
qed

theorem vw_late_test_discards_witness:
  "vw_value ''username'' (fold vw_step vw_example_run vw_open) = JStr ''root'' \<and>
   vw_value ''username'' (vw_step (Answer 0 (Reply (JObj []))) (fold vw_step vw_example_run vw_open)) = JStr ''admin''"
proof -
  have typed: "\<forall>ev \<in> set vw_example_run. vw_typed ev" using vw_example_typed by simp
  have start: "vw_value ''username'' (fold vw_step vw_example_run vw_open) = JStr ''root''"
    "requests (fold vw_step vw_example_run vw_open) = [VW_Test False vw_example_settings]"
    using vw_example_runs(1) unfolding vw_summary_def by simp_all
  have "vw_value ''username'' (vw_step (Answer 0 (Reply (JObj []))) (fold vw_step vw_example_run vw_open)) =
      or_else (js_get vw_example_settings ''username'') (JStr [])"
    using vw_late_test_discards [OF typed, of 0 False vw_example_settings "JObj []"]
    by (simp add: start(2) Let_def notUndefNull_def vw_example_settings_def)
  then show ?thesis using start(1) by (simp add: vw_example_settings_def or_else_def notUndefNull_def)
qed

end
