(* ===== verification/Kit_Tokens.thy ===== *)
theory Kit_Tokens
  imports Vmware_Facts Alert_Service
begin

text \<open>
  The two settings of the page that do not share anything with the others:
  \<open>modules/system-settings/components/kit-token-settings/\<close>, the tokens of the remote kits with the dialogs that add
  and show one, and \<open>modules/system-settings/components/hive-settings/hive-settings.component.ts\<close>.

  The tokens are not changed in place, so the table is a list of values. Copying to the clipboard is a function of
  the browser; whether it worked is an argument.
\<close>

section \<open>Tokens of the kits\<close>

datatype kt_request = KT_Get | KT_Create js | KT_Delete js
datatype kt_dialog = KT_Add | KT_Copy

record kt_state = "(kt_request, kt_dialog) async" +
  gip_build :: js
  disable_add_kit_button :: bool
  kit_tokens :: "js list"

definition KIT_TOKEN_TABLE_COLUMNS :: "string list" where
  "KIT_TOKEN_TABLE_COLUMNS = [''ipaddress'', ''actions'']"

definition kt_constructor :: "js \<Rightarrow> bool \<Rightarrow> kt_state" where
  "kt_constructor gip disable = \<lparr>trace = [], matSnackBarRef = None, requests = [], dialogs = [], gip_build = gip,
     disable_add_kit_button = disable, kit_tokens = []\<rparr>"

definition api_get_kit_tokens :: "kt_state \<Rightarrow> kt_state" where
  "api_get_kit_tokens = call get_kit_tokens KT_Get"

definition kt_ngOnInit :: "kt_state \<Rightarrow> kt_state" where
  "kt_ngOnInit = api_get_kit_tokens"

definition disabled_button_add_kit :: "kt_state \<Rightarrow> bool" where
  "disabled_button_add_kit s \<longleftrightarrow> \<not> truthy (gip_build s) \<or> disable_add_kit_button s"

definition api_create_kit_token :: "js \<Rightarrow> kt_state \<Rightarrow> kt_state" where
  "api_create_kit_token kit_token = call (create_kit_token kit_token) (KT_Create kit_token)"

definition api_delete_kit_token :: "js \<Rightarrow> kt_state \<Rightarrow> kt_state" where
  "api_delete_kit_token kit_token = call (delete_kit_token (js_get kit_token ''kit_token_id'')) (KT_Delete kit_token)"

definition kt_click_button_delete :: "js \<Rightarrow> kt_state \<Rightarrow> kt_state" where
  "kt_click_button_delete = api_delete_kit_token"

definition open_copy_token_dialog :: "js \<Rightarrow> kt_state \<Rightarrow> kt_state" where
  "open_copy_token_dialog kit_token =
     open_dialog ''CopyTokenDialogComponent''
       (JObj [(''title'', JStr (''Kit Token: '' @ str (js_get kit_token ''ipaddress''))), (''token'', js_get kit_token ''token'')]) KT_Copy"

definition open_add_kit_token_dialog :: "kt_state \<Rightarrow> kt_state" where
  "open_add_kit_token_dialog = open_dialog ''AddKitTokenDialogComponent'' JUndef KT_Add"

definition open_add_kit_token_dialog_closed :: "js \<Rightarrow> kt_state \<Rightarrow> kt_state" where
  "open_add_kit_token_dialog_closed response s = (if notUndefNull response then api_create_kit_token response s else s)"

definition api_get_kit_tokens_answer :: "reply \<Rightarrow> kt_state \<Rightarrow> kt_state" where
  "api_get_kit_tokens_answer =
     answered get_kit_tokens (\<lambda>response s. s\<lparr>kit_tokens := response\<rparr>) (report_error_or_message ''retrieving kit tokens'')"

definition api_create_kit_token_answer :: "js \<Rightarrow> reply \<Rightarrow> kt_state \<Rightarrow> kt_state" where
  "api_create_kit_token_answer kit_token =
     answered (create_kit_token JUndef)
       (\<lambda>response s. displaySnackBar (JStr (''Token Generated for Kit '' @ str (js_get kit_token ''ipaddress'')))
          (Some MAT_SNACKBAR_CONFIGURATION_60000_DUR_OK) (s\<lparr>kit_tokens := kit_tokens s @ [response]\<rparr>))
       (report_error_or_message ''creating kit token'')"

definition api_delete_kit_token_answer :: "js \<Rightarrow> reply \<Rightarrow> kt_state \<Rightarrow> kt_state" where
  "api_delete_kit_token_answer kit_token =
     answered (delete_kit_token JUndef)
       (\<lambda>response s.
          let s' = generate_return_success_snackbar_message (str (js_get response ''success_message''))
                     (Some MAT_SNACKBAR_CONFIGURATION_60000_DUR_OK) s
          in s'\<lparr>kit_tokens := filter (\<lambda>kt. \<not> strict_eq (js_get kt ''kit_token_id'') (js_get kit_token ''kit_token_id'')) (kit_tokens s')\<rparr>)
       (report_error_or_message ''deleting kit token'')"

text \<open>The buttons of a row of the table, the button below it, and the inputs, which the page may bind anew.\<close>

datatype kt_action = KT_DeleteClick nat | KT_ShowClick nat | KT_AddClick | KT_Inputs js bool

fun kt_handle :: "kt_action \<Rightarrow> kt_state \<Rightarrow> kt_state" where
  "kt_handle (KT_DeleteClick i) s = (if i < length (kit_tokens s) then kt_click_button_delete (kit_tokens s ! i) s else s)"
| "kt_handle (KT_ShowClick i) s =
     (if i < length (kit_tokens s) \<and> truthy (js_get (kit_tokens s ! i) ''token'') then open_copy_token_dialog (kit_tokens s ! i) s else s)"
| "kt_handle KT_AddClick s = (if disabled_button_add_kit s then s else open_add_kit_token_dialog s)"
| "kt_handle (KT_Inputs gip disable) s = s\<lparr>gip_build := gip, disable_add_kit_button := disable\<rparr>"

fun kt_answer :: "kt_request \<Rightarrow> reply \<Rightarrow> kt_state \<Rightarrow> kt_state" where
  "kt_answer KT_Get = api_get_kit_tokens_answer"
| "kt_answer (KT_Create kit_token) = api_create_kit_token_answer kit_token"
| "kt_answer (KT_Delete kit_token) = api_delete_kit_token_answer kit_token"

fun kt_closed :: "kt_dialog \<Rightarrow> js \<Rightarrow> kt_state \<Rightarrow> kt_state" where
  "kt_closed KT_Add = open_add_kit_token_dialog_closed"
| "kt_closed KT_Copy = (\<lambda>_ s. s)"

definition kt_step :: "kt_action event \<Rightarrow> kt_state \<Rightarrow> kt_state" where
  "kt_step = async_step kt_handle kt_answer kt_closed"

definition kt_open :: "js \<Rightarrow> bool \<Rightarrow> kt_state" where
  "kt_open gip disable = kt_ngOnInit (kt_constructor gip disable)"

section \<open>The dialog that adds a token\<close>

record akt_state = world +
  akt_ipaddress :: field

definition initialize_kit_token_settings_form_group :: field where
  "initialize_kit_token_settings_form_group = new_field JNull (Some addToken_ip_address)"

definition akt_open :: akt_state where
  "akt_open = \<lparr>trace = [], matSnackBarRef = None, akt_ipaddress = initialize_kit_token_settings_form_group\<rparr>"

definition akt_submit :: "akt_state \<Rightarrow> akt_state" where
  "akt_submit s = emit (DialogClose (JObj [(''ipaddress'', fd_value (akt_ipaddress s))])) s"

definition akt_click_button_close :: "akt_state \<Rightarrow> akt_state" where
  "akt_click_button_close = emit (DialogClose JUndef)"

text \<open>The form has one control; it can be submitted when it is valid and edited.\<close>

datatype akt_event = AKT_Type string | AKT_Submit | AKT_Cancel

fun akt_step :: "akt_event \<Rightarrow> akt_state \<Rightarrow> akt_state" where
  "akt_step (AKT_Type t) s = s\<lparr>akt_ipaddress := fd_type t (akt_ipaddress s)\<rparr>"
| "akt_step AKT_Submit s = (if fd_valid (akt_ipaddress s) \<and> fd_dirty (akt_ipaddress s) then akt_submit s else s)"
| "akt_step AKT_Cancel s = akt_click_button_close s"

section \<open>The dialog that shows a token\<close>

record ct_state = world +
  ct_title :: js
  ct_token :: js

definition ct_constructor :: "js \<Rightarrow> ct_state" where
  "ct_constructor mat_dialog_data =
     \<lparr>trace = [], matSnackBarRef = None, ct_title = js_get mat_dialog_data ''title'', ct_token = js_get mat_dialog_data ''token''\<rparr>"

definition click_button_copy_token :: "bool \<Rightarrow> ct_state \<Rightarrow> ct_state" where
  "click_button_copy_token clipboard_copy s =
     (if clipboard_copy
      then displaySnackBar (JStr ''Token copied to clipboard!'') (Some MAT_SNACKBAR_CONFIGURATION_60000_DUR_OK) s else s)"

definition ct_click_button_close :: "ct_state \<Rightarrow> ct_state" where
  "ct_click_button_close = emit (DialogClose JUndef)"

section \<open>Hive settings\<close>

definition save_hive_settings :: "js \<Rightarrow> js endpoint" where
  "save_hive_settings hive_settings =
     endpoint POST ''/api/alerts/settings'' hive_settings ''save hive settings'' new_HiveSettingsClass"

datatype hv_request = HV_Get | HV_Save

record hive_form =
  hv_admin :: js
  hv_org_admin :: js
  hv_dirty :: bool
  hv_touched :: bool

record hv_state = "(hv_request, unit) async" +
  hv_form :: "hive_form option"

text \<open>\<open>Validators.required\<close> with a length of exactly 32; what has no length counts as valid.\<close>

definition key_valid :: "js \<Rightarrow> bool" where
  "key_valid v = (case js_length v of Inl _ \<Rightarrow> False | Inr (JNum n) \<Rightarrow> n = 32 | _ \<Rightarrow> True)"

definition hv_api_get_hive_settings :: "hv_state \<Rightarrow> hv_state" where
  "hv_api_get_hive_settings = call get_hive_settings HV_Get"

definition hv_ngOnInit :: "hv_state \<Rightarrow> hv_state" where
  "hv_ngOnInit = hv_api_get_hive_settings"

definition hv_new_form :: "js \<Rightarrow> hive_form" where
  "hv_new_form response =
     \<lparr>hv_admin = or_else (js_get response ''admin_api_key'') (JStr []), hv_org_admin = or_else (js_get response ''org_admin_api_key'') (JStr []),
      hv_dirty = False, hv_touched = False\<rparr>"

definition hv_api_get_hive_settings_answer :: "reply \<Rightarrow> hv_state \<Rightarrow> hv_state" where
  "hv_api_get_hive_settings_answer =
     answered get_hive_settings (\<lambda>response s. s\<lparr>hv_form := Some (hv_new_form response)\<rparr>)
       (\<lambda>_. report_error ''retrieving hive settings'')"

definition hv_api_save_hive_settings :: "js \<Rightarrow> hv_state \<Rightarrow> hv_state" where
  "hv_api_save_hive_settings hive_settings = call (save_hive_settings hive_settings) HV_Save"

definition hv_click_button_save :: "hive_form \<Rightarrow> hv_state \<Rightarrow> hv_state" where
  "hv_click_button_save f = hv_api_save_hive_settings (JObj [(''admin_api_key'', hv_admin f), (''org_admin_api_key'', hv_org_admin f)])"

definition hv_api_save_hive_settings_answer :: "reply \<Rightarrow> hv_state \<Rightarrow> hv_state" where
  "hv_api_save_hive_settings_answer =
     answered (save_hive_settings JUndef)
       (\<lambda>_. generate_return_success_snackbar_message '' saved Hive API Key.'' (Some MAT_SNACKBAR_CONFIGURATION_60000_DUR))
       (report_error_or_message ''saving Hive API key for an unknown reason. Please check the /var/log/tfplenum logs for more information'')"

datatype hv_action = HV_Admin string | HV_Org_Admin string | HV_Leave | HV_SaveClick

definition hv_save_offered :: "hive_form \<Rightarrow> bool" where
  "hv_save_offered f \<longleftrightarrow> key_valid (hv_admin f) \<and> key_valid (hv_org_admin f) \<and> hv_dirty f \<and> hv_touched f"

fun hv_handle :: "hv_action \<Rightarrow> hv_state \<Rightarrow> hv_state" where
  "hv_handle (HV_Admin t) s = s\<lparr>hv_form := map_option (\<lambda>f. f\<lparr>hv_admin := JStr t, hv_dirty := True\<rparr>) (hv_form s)\<rparr>"
| "hv_handle (HV_Org_Admin t) s = s\<lparr>hv_form := map_option (\<lambda>f. f\<lparr>hv_org_admin := JStr t, hv_dirty := True\<rparr>) (hv_form s)\<rparr>"
| "hv_handle HV_Leave s = s\<lparr>hv_form := map_option (\<lambda>f. f\<lparr>hv_touched := True\<rparr>) (hv_form s)\<rparr>"
| "hv_handle HV_SaveClick s =
     (case hv_form s of None \<Rightarrow> s | Some f \<Rightarrow> if hv_save_offered f then hv_click_button_save f s else s)"

fun hv_answer :: "hv_request \<Rightarrow> reply \<Rightarrow> hv_state \<Rightarrow> hv_state" where
  "hv_answer HV_Get = hv_api_get_hive_settings_answer"
| "hv_answer HV_Save = hv_api_save_hive_settings_answer"

definition hv_step :: "hv_action event \<Rightarrow> hv_state \<Rightarrow> hv_state" where
  "hv_step = async_step hv_handle hv_answer (\<lambda>_ _ s. s)"

definition hv_open :: hv_state where
  "hv_open = hv_ngOnInit \<lparr>trace = [], matSnackBarRef = None, requests = [], dialogs = [], hv_form = None\<rparr>"

end
