(* ===== verification/Kit_Tokens_Facts.thy ===== *)
theory Kit_Tokens_Facts
  imports Kit_Tokens
begin

text \<open>
  Properties of the kit tokens and the Hive settings: what the page asks the backend to create was accepted by the
  dialog, a deletion removes exactly the rows with the same id, and what is saved for Hive are two keys of 32 characters.
\<close>

section \<open>The dialog\<close>

definition akt_accepts :: "js \<Rightarrow> bool" where
  "akt_accepts v \<longleftrightarrow> (\<exists>t. js_get v ''ipaddress'' = JStr t \<and> test_full IP_ADDRESS_PATTERN t)"

definition akt_inv :: "akt_state \<Rightarrow> bool" where
  "akt_inv s \<longleftrightarrow>
     fd_rules (akt_ipaddress s) = Some addToken_ip_address \<and>
     (fd_dirty (akt_ipaddress s) \<longrightarrow>
        (\<exists>t. fd_value (akt_ipaddress s) = JStr t \<and> (fd_valid (akt_ipaddress s) \<longrightarrow> test_full IP_ADDRESS_PATTERN t))) \<and>
     (\<forall>e \<in> set (closings s). closes_with akt_accepts e)"

lemma token_address_checked:
  assumes "fd_rules f = Some addToken_ip_address" "fd_value f = JStr t"
  shows "fd_validate f = Inr (f\<lparr>fd_valid := (t \<noteq> [] \<and> test_full IP_ADDRESS_PATTERN t)\<rparr>)"
  by (simp add: fd_validate_def assms addToken_ip_address_def validateFromArray_def fd_control_def
      required_str [of _ t] pattern_str [of _ t])

lemma token_address_typed:
  "fd_rules f = Some addToken_ip_address \<Longrightarrow> fd_valid (fd_type t f) = (t \<noteq> [] \<and> test_full IP_ADDRESS_PATTERN t)"
  by (simp add: fd_type_def fd_set_def settle_def token_address_checked [of _ t])

lemma akt_inv_step: "akt_inv s \<Longrightarrow> akt_inv (akt_step e s)"
  by (cases e)
    (auto simp: akt_inv_def token_address_typed akt_submit_def akt_click_button_close_def akt_accepts_def closings_def emit_def)

interpretation akt_dialog: event_machine akt_step akt_inv
  by unfold_locales (rule akt_inv_step)

lemma akt_inv_open: "akt_inv akt_open"
proof -
  let ?f = "\<lparr>fd_value = JNull, fd_touched = False, fd_dirty = False, fd_rules = Some addToken_ip_address, fd_valid = True\<rparr>"
  have "fd_rules (settle ?f (fd_validate ?f)) = Some addToken_ip_address \<and> \<not> fd_dirty (settle ?f (fd_validate ?f))"
    using fd_validate_Inr [of ?f] by (cases "fd_validate ?f") (simp_all add: settle_def)
  then show ?thesis
    by (simp add: akt_inv_def akt_open_def initialize_kit_token_settings_form_group_def new_field_def Let_def closings_def)
qed

lemma akt_closes: "DialogClose v \<in> set (trace (fold akt_step das akt_open)) \<Longrightarrow> v = JUndef \<or> akt_accepts v"
  using akt_dialog.run_inv [OF akt_inv_open, of das] by (fastforce simp: akt_inv_def closings_def)

section \<open>The page\<close>

fun is_token_create :: "effect \<Rightarrow> bool" where
  "is_token_create (Http m u _) = (m = POST \<and> u = ''/api/kit-token'')"
| "is_token_create _ = False"

lemma no_reports_token [simp]: "no_reports is_token_create"
  by (simp add: no_reports_def)

definition kt_inv :: "kt_state \<Rightarrow> bool" where
  "kt_inv s \<longleftrightarrow> (\<forall>m u v. Http m u v \<in> set (seen is_token_create s) \<longrightarrow> akt_accepts v)"

lemma kt_inv_cong: "seen is_token_create s = seen is_token_create s' \<Longrightarrow> kt_inv s = kt_inv s'"
  by (simp add: kt_inv_def)

lemma kt_inv_fields [simp]:
  "kt_inv (s\<lparr>gip_build := v\<rparr>) = kt_inv s" "kt_inv (s\<lparr>disable_add_kit_button := b\<rparr>) = kt_inv s"
  "kt_inv (s\<lparr>kit_tokens := vs\<rparr>) = kt_inv s" "kt_inv (s\<lparr>gip_build := v, disable_add_kit_button := b\<rparr>) = kt_inv s"
  "kt_inv (s\<lparr>requests := ps\<rparr>) = kt_inv s" "kt_inv (s\<lparr>dialogs := ds\<rparr>) = kt_inv s"
  "kt_inv (open_dialog n v d s) = kt_inv s" "kt_inv (report_error_or_message m e s) = kt_inv s"
  "kt_inv (displaySnackBar w c s) = kt_inv s" "kt_inv (generate_return_success_snackbar_message t c s) = kt_inv s"
  by (simp_all add: kt_inv_def) (simp_all add: seen_def)

lemma kt_inv_call: "(is_token_create (Http (ep_method ep) (ep_url ep) (ep_body ep)) \<Longrightarrow> akt_accepts (ep_body ep)) \<Longrightarrow> kt_inv s \<Longrightarrow> kt_inv (call ep k s)"
  by (auto simp: kt_inv_def)

lemma kt_inv_handle: "kt_inv s \<Longrightarrow> kt_inv (kt_handle a s)"
  by (cases a)
    (auto simp: kt_click_button_delete_def api_delete_kit_token_def delete_kit_token_def open_copy_token_dialog_def
      open_add_kit_token_dialog_def intro!: kt_inv_call)

lemma kt_inv_answered:
  assumes "kt_inv s" "\<And>x. kt_inv (next_cb x s) = kt_inv s" "\<And>e s. kt_inv (error_cb e s) = kt_inv s"
  shows "kt_inv (answered ep next_cb error_cb r s)"
proof (rule answered_outcomes [of r ep next_cb error_cb s])
  fix s' err
  assume "answered ep next_cb error_cb r s = error_cb err s'" "\<And>f. no_reports f \<Longrightarrow> seen f s' = seen f s"
  then show ?thesis using assms(1,3) kt_inv_cong [of s' s] by simp
qed (use assms in simp)

lemma kt_inv_answer: "kt_inv s \<Longrightarrow> kt_inv (kt_answer k r s)"
  by (cases k)
    (auto simp: api_get_kit_tokens_answer_def api_create_kit_token_answer_def api_delete_kit_token_answer_def Let_def intro!: kt_inv_answered)

lemma kt_inv_closed: "kt_inv s \<Longrightarrow> v = JUndef \<or> akt_accepts v \<Longrightarrow> kt_inv (kt_closed d v s)"
  by (cases d)
    (auto simp: open_add_kit_token_dialog_closed_def api_create_kit_token_def create_kit_token_def notUndefNull_def intro!: kt_inv_call)

text \<open>A dialog closes with a value that its own runs can close with.\<close>

definition from_dialog :: "kt_action event \<Rightarrow> bool" where
  "from_dialog ev \<longleftrightarrow> (case ev of Closed i v \<Rightarrow> (\<exists>das. DialogClose v \<in> set (trace (fold akt_step das akt_open))) | _ \<Rightarrow> True)"

lemma kt_inv_step: "kt_inv s \<Longrightarrow> from_dialog ev \<Longrightarrow> kt_inv (kt_step ev s)"
  by (cases ev)
    (auto simp: kt_step_def async_step_def kt_inv_handle from_dialog_def intro!: kt_inv_answer kt_inv_closed dest: akt_closes)

lemma kt_inv_reached: "\<forall>ev \<in> set evs. from_dialog ev \<Longrightarrow> kt_inv (fold kt_step evs (kt_open gip disable))"
proof (induction evs rule: rev_induct)
  case Nil
  show ?case
    by (simp add: kt_open_def kt_ngOnInit_def api_get_kit_tokens_def get_kit_tokens_def)
      (rule kt_inv_call; simp add: kt_inv_def kt_constructor_def seen_def)
qed (simp add: kt_inv_step)

text \<open>A token is created only for an address that the dialog has accepted, whatever the user does on the page and in
  the dialog and however the backend answers.\<close>

theorem kit_tokens_for_checked_addresses:
  assumes "\<forall>ev \<in> set evs. from_dialog ev"
  shows "\<forall>v. Http POST ''/api/kit-token'' v \<in> set (trace (fold kt_step evs (kt_open gip disable))) \<longrightarrow>
    (\<exists>t. js_get v ''ipaddress'' = JStr t \<and> test_full IP_ADDRESS_PATTERN t)"
  using kt_inv_reached [OF assms, of gip disable] by (auto simp: kt_inv_def seen_def akt_accepts_def)

text \<open>The pattern refuses addresses with an octet such as 206.\<close>

lemma address_with_206_refused: "\<not> test_full IP_ADDRESS_PATTERN ''10.0.0.206''" "test_full IP_ADDRESS_PATTERN ''10.0.0.205''"
  by code_simp+

text \<open>The answer of a deletion removes the rows with the id of the token, also when the table was loaded anew.\<close>

lemma deleted_rows:
  assumes "new_SuccessMessageClass v = Inr m"
  shows "kit_tokens (api_delete_kit_token_answer kit_token (Reply v) s) =
    filter (\<lambda>kt. \<not> strict_eq (js_get kt ''kit_token_id'') (js_get kit_token ''kit_token_id'')) (kit_tokens s)"
proof -
  have same: "kit_tokens (generate_return_success_snackbar_message t c s) = kit_tokens s" for t c
  proof -
    have more: "world.more u = world.more s \<Longrightarrow> kit_tokens u = kit_tokens s" for u :: kt_state by (cases s; cases u) simp
    show ?thesis by (rule more) simp
  qed
  show ?thesis
    using assms by (simp add: api_delete_kit_token_answer_def answered_def subscribe_def delete_kit_token_def endpoint_def Let_def same)
qed

section \<open>Hive\<close>

lemma key_valid_text [simp]: "key_valid (JStr t) = (length t = 32)"
  by (auto simp: key_valid_def)

definition keys_ok :: "js \<Rightarrow> bool" where
  "keys_ok v \<longleftrightarrow> key_valid (js_get v ''admin_api_key'') \<and> key_valid (js_get v ''org_admin_api_key'')"

fun is_hive_save :: "effect \<Rightarrow> bool" where
  "is_hive_save (Http m u _) = (m = POST \<and> u = ''/api/alerts/settings'')"
| "is_hive_save _ = False"

lemma no_reports_hive [simp]: "no_reports is_hive_save"
  by (simp add: no_reports_def)

definition hv_inv :: "hv_state \<Rightarrow> bool" where
  "hv_inv s \<longleftrightarrow> (\<forall>m u v. Http m u v \<in> set (seen is_hive_save s) \<longrightarrow> keys_ok v)"

lemma hv_inv_fields [simp]:
  "hv_inv (s\<lparr>hv_form := x\<rparr>) = hv_inv s" "hv_inv (s\<lparr>requests := ps\<rparr>) = hv_inv s" "hv_inv (s\<lparr>dialogs := ds\<rparr>) = hv_inv s"
  "hv_inv (report_error t s) = hv_inv s" "hv_inv (report_error_or_message t e s) = hv_inv s"
  "hv_inv (generate_return_success_snackbar_message t c s) = hv_inv s"
  by (simp_all add: hv_inv_def) (simp_all add: seen_def)

lemma hv_inv_handle: "hv_inv s \<Longrightarrow> hv_inv (hv_handle a s)"
proof (cases a)
  case HV_SaveClick
  assume "hv_inv s"
  moreover have "keys_ok (JObj [(''admin_api_key'', hv_admin f), (''org_admin_api_key'', hv_org_admin f)])" if "hv_save_offered f" for f
    using that by (simp add: keys_ok_def hv_save_offered_def)
  ultimately show ?thesis
    by (simp add: HV_SaveClick hv_click_button_save_def hv_api_save_hive_settings_def save_hive_settings_def hv_inv_def
        split: option.split)
qed auto

lemma hv_inv_answer: "hv_inv s \<Longrightarrow> hv_inv (hv_answer k r s)"
proof -
  assume *: "hv_inv s"
  have "hv_inv (answered ep next_cb error_cb r s)"
    if "\<And>x. hv_inv (next_cb x s) = hv_inv s" "\<And>e s. hv_inv (error_cb e s) = hv_inv s" for ep :: "js endpoint" and next_cb error_cb
  proof (rule answered_outcomes [of r ep next_cb error_cb s])
    fix s' err
    assume "answered ep next_cb error_cb r s = error_cb err s'" "\<And>f. no_reports f \<Longrightarrow> seen f s' = seen f s"
    then show ?thesis using * that(2) by (simp add: hv_inv_def)
  qed (use * that(1) in simp)
  then show ?thesis by (cases k) (simp_all add: hv_api_get_hive_settings_answer_def hv_api_save_hive_settings_answer_def)
qed

text \<open>What is saved for Hive are two keys that were valid, 32 characters long when they are texts.\<close>

theorem hive_saves_valid_keys:
  "\<forall>v. Http POST ''/api/alerts/settings'' v \<in> set (trace (fold hv_step evs hv_open)) \<longrightarrow> keys_ok v"
proof -
  have start: "hv_inv hv_open"
    by (simp add: hv_open_def hv_ngOnInit_def hv_api_get_hive_settings_def get_hive_settings_def hv_inv_def) (simp add: seen_def)
  have "hv_inv (hv_step ev s)" if "hv_inv s" for ev s
    using that by (cases ev) (simp_all add: hv_step_def async_step_def hv_inv_handle hv_inv_answer)
  with start have "hv_inv (fold hv_step evs hv_open)" by (induction evs rule: rev_induct) simp_all
  then show ?thesis by (auto simp: hv_inv_def seen_def)
qed

section \<open>The property at a concrete run\<close>

definition kt_example_events :: "kt_action event list" where
  "kt_example_events = [Act KT_AddClick, Closed 0 (JObj [(''ipaddress'', JStr ''10.0.0.5'')])]"

definition akt_example_events :: "akt_event list" where
  "akt_example_events = [AKT_Type ''10.0.0.5'', AKT_Submit]"

lemma kt_example_run:
  "trace (fold akt_step akt_example_events akt_open) = [DialogClose (JObj [(''ipaddress'', JStr ''10.0.0.5'')])]"
  "map (\<lambda>e. case e of Http m u v \<Rightarrow> (m, u, v) | _ \<Rightarrow> (GET, [], JUndef)) (filter is_token_create (trace (fold kt_step kt_example_events (kt_open (JBool True) False)))) =
    [(POST, ''/api/kit-token'', JObj [(''ipaddress'', JStr ''10.0.0.5'')])]"
  by code_simp+

theorem kit_tokens_for_checked_addresses_witness:
  "\<exists>t. js_get (JObj [(''ipaddress'', JStr ''10.0.0.5'')]) ''ipaddress'' = JStr t \<and> test_full IP_ADDRESS_PATTERN t"
proof -
  let ?s = "fold kt_step kt_example_events (kt_open (JBool True) False)"
  have dialog: "\<forall>ev \<in> set kt_example_events. from_dialog ev"
    using kt_example_run(1) by (auto simp: kt_example_events_def from_dialog_def intro!: exI [of _ akt_example_events])
  have "Http POST ''/api/kit-token'' (JObj [(''ipaddress'', JStr ''10.0.0.5'')]) \<in> set (filter is_token_create (trace ?s))"
    using kt_example_run(2) by (cases "filter is_token_create (trace ?s)") (auto split: effect.splits)
  then have "Http POST ''/api/kit-token'' (JObj [(''ipaddress'', JStr ''10.0.0.5'')]) \<in> set (trace ?s)"
    by (simp only: set_filter mem_Collect_eq)
  with kit_tokens_for_checked_addresses [OF dialog] show ?thesis by blast
qed

end
