(* ===== verification/Index_Management.thy ===== *)
theory Index_Management
  imports Form_Fields More_Services Effects
begin

text \<open>
  \<open>modules/elasticsearch-index-management/\<close>: the page that closes, backs up and deletes indices. It has a
  stepper of Angular Material with two steps that must be done in order and cannot be edited later, so its
  index goes from 0 to 1 when an action is chosen, and back to 0 only when the stepper is reset. The stepper
  calls \<open>stepper_change\<close> before it changes its index. The list of actions is a constant of the module whose
  options are changed in place.
\<close>

section \<open>State\<close>

definition CLOSE_INDICES :: string where "CLOSE_INDICES = ''CloseIndices''"
definition BACKUP_INDICES :: string where "BACKUP_INDICES = ''BackupIndices''"
definition DELETE_INDICES :: string where "DELETE_INDICES = ''DeleteIndices''"

record mat_option =
  mo_value :: string
  mo_name :: string
  mo_disabled :: bool
  mo_tooltip :: js

definition MAT_OPTION_ACTIONS :: "mat_option list" where
  "MAT_OPTION_ACTIONS =
     [\<lparr>mo_value = CLOSE_INDICES, mo_name = ''Close'', mo_disabled = False, mo_tooltip = JStr []\<rparr>,
      \<lparr>mo_value = BACKUP_INDICES, mo_name = ''Backup and close'', mo_disabled = True, mo_tooltip = JStr ''MinIO is not configured.''\<rparr>,
      \<lparr>mo_value = DELETE_INDICES, mo_name = ''Delete'', mo_disabled = False, mo_tooltip = JStr []\<rparr>]"

datatype im_request = IM_Minio | IM_Closed | IM_All | IM_Process

record im_state = "(im_request, unit) async" +
  im_actions :: "mat_option list"
  im_action :: js
  im_index_list :: js
  im_indices :: js
  im_loading :: bool
  im_next_triggered :: bool
  im_instructions :: js
  im_step_index :: nat

text \<open>The component starts with the actions as the module has them by then.\<close>

definition im_constructor :: "mat_option list \<Rightarrow> im_state" where
  "im_constructor actions = \<lparr>trace = [], matSnackBarRef = None, requests = [], dialogs = [], im_actions = actions,
     im_action = JUndef, im_index_list = JUndef, im_indices = JArr [], im_loading = False, im_next_triggered = False,
     im_instructions = JUndef, im_step_index = 0\<rparr>"

section \<open>Forms and the stepper\<close>

definition im_initialize_form_groups :: "im_state \<Rightarrow> im_state" where
  "im_initialize_form_groups s = s\<lparr>im_action := JNull, im_index_list := JArr []\<rparr>"

fun im_set_first :: "(mat_option \<Rightarrow> mat_option) \<Rightarrow> mat_option list \<Rightarrow> mat_option list" where
  "im_set_first f [] = []"
| "im_set_first f (a # actions) = (if mo_value a = BACKUP_INDICES then f a # actions else a # im_set_first f actions)"

definition im_set_backup_option :: "bool \<Rightarrow> js option \<Rightarrow> im_state \<Rightarrow> im_state" where
  "im_set_backup_option is_disabled message s =
     s\<lparr>im_actions := im_set_first (\<lambda>a. a\<lparr>mo_disabled := is_disabled, mo_tooltip := (case message of None \<Rightarrow> JStr [] | Some m \<Rightarrow> m)\<rparr>)
        (im_actions s)\<rparr>"

definition is_index_list_empty :: "im_state \<Rightarrow> bool" where
  "is_index_list_empty s \<longleftrightarrow> arr_elems (im_index_list s) = []"

text \<open>Resetting the stepper calls \<open>stepper_change\<close> with the first step and resets the controls, which are then
  made anew.\<close>

definition im_reset_form :: "im_state \<Rightarrow> im_state" where
  "im_reset_form s =
     im_initialize_form_groups (s\<lparr>im_loading := False, im_indices := JArr [], im_next_triggered := False, im_step_index := 0\<rparr>)"

definition im_back :: "im_state \<Rightarrow> im_state" where
  "im_back = im_reset_form"

definition im_api_get_closed_indices :: "im_state \<Rightarrow> im_state" where
  "im_api_get_closed_indices = call get_closed_indices IM_Closed"

definition im_api_get_all_indices :: "im_state \<Rightarrow> im_state" where
  "im_api_get_all_indices = call get_all_indices IM_All"

definition im_api_minio_check :: "im_state \<Rightarrow> im_state" where
  "im_api_minio_check = call minio_check IM_Minio"

definition im_next :: "im_state \<Rightarrow> im_state" where
  "im_next s =
     (if im_action s = JStr DELETE_INDICES then
        im_api_get_closed_indices (s\<lparr>im_instructions := JStr ''Select one or more Index to delete and click Update.'', im_loading := True\<rparr>)
      else if im_action s = JStr CLOSE_INDICES then
        im_api_get_all_indices (s\<lparr>im_instructions := JStr ''Select one or more Index to close and click Update.'', im_loading := True\<rparr>)
      else if im_action s = JStr BACKUP_INDICES then
        im_api_get_all_indices (s\<lparr>im_instructions := JStr ''Select one or more Index to backup and click Update.'', im_loading := True\<rparr>)
      else im_reset_form s)"

definition im_stepper_change :: "nat \<Rightarrow> im_state \<Rightarrow> im_state" where
  "im_stepper_change selected_index s =
     (if selected_index = 1 \<and> \<not> im_next_triggered s then im_next s else s\<lparr>im_next_triggered := False\<rparr>)"

definition im_stepper_next :: "im_state \<Rightarrow> im_state" where
  "im_stepper_next s =
     (if im_step_index s = 0 \<and> \<not> empty_input (im_action s) then (im_stepper_change 1 s)\<lparr>im_step_index := 1\<rparr> else s)"

definition im_indices_return_actions :: "js \<Rightarrow> im_state \<Rightarrow> im_state" where
  "im_indices_return_actions response s =
     im_stepper_next (s\<lparr>im_indices := response, im_loading := False, im_next_triggered := True\<rparr>)"

definition im_api_index_management :: "js \<Rightarrow> im_state \<Rightarrow> im_state" where
  "im_api_index_management index_management_option = call (index_management index_management_option) IM_Process"

definition im_update :: "im_state \<Rightarrow> im_state" where
  "im_update s = im_api_index_management (JObj [(''action'', im_action s), (''index_list'', im_index_list s)]) s"

definition im_ngOnInit :: "im_state \<Rightarrow> im_state" where
  "im_ngOnInit s =
     im_api_minio_check (im_set_backup_option True None (im_initialize_form_groups (emit (SetTitle ''Index Management'') s)))"

section \<open>Answers\<close>

definition im_api_index_management_answer :: "reply \<Rightarrow> im_state \<Rightarrow> im_state" where
  "im_api_index_management_answer =
     answered (index_management JUndef)
       (\<lambda>response s. im_reset_form
          (displaySnackBar (js_get response ''success_message'') (Some MAT_SNACKBAR_CONFIGURATION_60000_DUR) s))
       (report_error_or_message ''calling elasticsearch index management'')"

definition im_api_get_closed_indices_answer :: "reply \<Rightarrow> im_state \<Rightarrow> im_state" where
  "im_api_get_closed_indices_answer =
     answered get_closed_indices im_indices_return_actions
       (\<lambda>error s. report_error_or_message ''getting closed indices'' error (s\<lparr>im_loading := False\<rparr>))"

definition im_api_get_all_indices_answer :: "reply \<Rightarrow> im_state \<Rightarrow> im_state" where
  "im_api_get_all_indices_answer =
     answered get_all_indices im_indices_return_actions
       (\<lambda>error s. report_error_or_message ''getting indices'' error (s\<lparr>im_loading := False\<rparr>))"

definition im_api_minio_check_answer :: "reply \<Rightarrow> im_state \<Rightarrow> im_state" where
  "im_api_minio_check_answer =
     answered minio_check (\<lambda>_. im_set_backup_option False None)
       (\<lambda>error s.
          case error of
            ErrorMessageClass m \<Rightarrow>
              displaySnackBar m (Some MAT_SNACKBAR_CONFIGURATION_60000_DUR) (im_set_backup_option True (Some m) s)
          | _ \<Rightarrow> report_error ''checking minio'' s)"

section \<open>The component as a machine\<close>

text \<open>The first step offers the enabled actions and Next; the header of the second step moves to it as well. The
  second step offers the indices that are listed, Back and Update.\<close>

datatype im_event = IM_Action string | IM_NextClick | IM_HeaderClick | IM_Choose "js list" | IM_BackClick | IM_UpdateClick

fun im_handle :: "im_event \<Rightarrow> im_state \<Rightarrow> im_state" where
  "im_handle (IM_Action a) s =
     (if im_step_index s = 0 \<and> list_ex (\<lambda>ob. mo_value ob = a \<and> \<not> mo_disabled ob) (im_actions s) then s\<lparr>im_action := JStr a\<rparr> else s)"
| "im_handle IM_NextClick s = (if im_step_index s = 0 \<and> \<not> empty_input (im_action s) then im_next s else s)"
| "im_handle IM_HeaderClick s = im_stepper_next s"
| "im_handle (IM_Choose vs) s =
     (if im_step_index s = 1 \<and> set vs \<subseteq> set (map (\<lambda>i. js_get i ''index'') (arr_elems (im_indices s))) then s\<lparr>im_index_list := JArr vs\<rparr> else s)"
| "im_handle IM_BackClick s = (if im_step_index s = 1 then im_back s else s)"
| "im_handle IM_UpdateClick s = (if im_step_index s = 1 \<and> \<not> is_index_list_empty s then im_update s else s)"

fun im_answer :: "im_request \<Rightarrow> reply \<Rightarrow> im_state \<Rightarrow> im_state" where
  "im_answer IM_Minio = im_api_minio_check_answer"
| "im_answer IM_Closed = im_api_get_closed_indices_answer"
| "im_answer IM_All = im_api_get_all_indices_answer"
| "im_answer IM_Process = im_api_index_management_answer"

definition im_run :: "im_event event \<Rightarrow> im_state \<Rightarrow> im_state" where
  "im_run = async_step im_handle im_answer (\<lambda>_ _ s. s)"

definition im_open :: "mat_option list \<Rightarrow> im_state" where
  "im_open actions = im_ngOnInit (im_constructor actions)"

end
