(* ===== verification/Index_Facts.thy ===== *)
theory Index_Facts
  imports Index_Management
begin

text \<open>
  Properties of the page for indices: what it can request, and that the indices it lists are those of the action
  that was chosen when they were asked for, which need not be the action that is carried out.
\<close>

section \<open>The invariant\<close>

definition im_known :: "string set" where
  "im_known = {CLOSE_INDICES, BACKUP_INDICES, DELETE_INDICES}"

definition im_sent_ok :: "js \<Rightarrow> bool" where
  "im_sent_ok v \<longleftrightarrow> js_get v ''action'' \<in> JStr ` im_known \<and> arr_elems (js_get v ''index_list'') \<noteq> []"

fun is_process :: "effect \<Rightarrow> bool" where
  "is_process (Http m u _) = (m = POST \<and> u = ''/api/curator/process'')"
| "is_process _ = False"

lemma no_reports_process [simp]: "no_reports is_process"
  by (simp add: no_reports_def)

definition im_inv :: "im_state \<Rightarrow> bool" where
  "im_inv s \<longleftrightarrow>
     mo_value ` set (im_actions s) \<subseteq> im_known \<and> (im_action s = JNull \<or> im_action s \<in> JStr ` im_known) \<and>
     (im_step_index s = 0 \<or> im_step_index s = 1 \<and> im_action s \<noteq> JNull) \<and>
     (\<forall>m u v. Http m u v \<in> set (seen is_process s) \<longrightarrow> im_sent_ok v)"

lemma im_more:
  "world.more s = world.more s' \<Longrightarrow> im_actions s = im_actions s' \<and> im_action s = im_action s' \<and> im_step_index s = im_step_index s'" for s s' :: im_state
  by (cases s; cases s') simp

lemma im_inv_frame: "im_inv s \<Longrightarrow> world.more s' = world.more s \<Longrightarrow> seen is_process s' = seen is_process s \<Longrightarrow> im_inv s'"
  using im_more [of s' s] by (simp add: im_inv_def)

lemma im_inv_reports [simp]:
  "im_inv s \<Longrightarrow> im_inv (report_error t s)" "im_inv s \<Longrightarrow> im_inv (report_error_or_message t e s)" "im_inv s \<Longrightarrow> im_inv (displaySnackBar w c s)"
  by (erule im_inv_frame; simp)+

lemma im_inv_fields [simp]:
  "im_inv (s\<lparr>im_loading := b\<rparr>) = im_inv s" "im_inv (s\<lparr>im_next_triggered := b\<rparr>) = im_inv s" "im_inv (s\<lparr>im_index_list := v\<rparr>) = im_inv s"
  "im_inv (s\<lparr>im_indices := v\<rparr>) = im_inv s" "im_inv (s\<lparr>im_instructions := v\<rparr>) = im_inv s"
  "im_inv (s\<lparr>im_indices := v, im_loading := b, im_next_triggered := c\<rparr>) = im_inv s"
  "im_inv (s\<lparr>im_instructions := v, im_loading := b\<rparr>) = im_inv s"
  "im_inv (s\<lparr>requests := ps\<rparr>) = im_inv s" "im_inv (s\<lparr>dialogs := ds\<rparr>) = im_inv s"
  by (simp_all add: im_inv_def seen_def)

lemma im_inv_call:
  "im_inv s \<Longrightarrow> (is_process (Http (ep_method ep) (ep_url ep) (ep_body ep)) \<Longrightarrow> im_sent_ok (ep_body ep)) \<Longrightarrow> im_inv (call ep k s)"
  by (auto simp: im_inv_def) (auto simp: call_def request_def http_def emit_def)

lemma im_inv_reset: "im_inv s \<Longrightarrow> im_inv (im_reset_form s)"
  by (simp add: im_inv_def im_reset_form_def im_initialize_form_groups_def seen_def)

lemma im_inv_next: "im_inv s \<Longrightarrow> im_inv (im_next s)"
  by (auto simp: im_next_def im_api_get_closed_indices_def get_closed_indices_def im_api_get_all_indices_def get_all_indices_def
      intro!: im_inv_call im_inv_reset)

lemma call_im_action [simp]: "im_action (call ep k s) = im_action s" for s :: im_state
  by (simp add: call_def request_def http_def emit_def)

lemma next_action:
  "im_action s \<in> JStr ` im_known \<Longrightarrow> im_action (im_next s) = im_action s"
  by (auto simp: im_next_def im_api_get_closed_indices_def im_api_get_all_indices_def im_known_def)

lemma im_inv_stepper: "im_inv s \<Longrightarrow> im_inv (im_stepper_next s)"
proof (cases "im_step_index s = 0 \<and> \<not> empty_input (im_action s)")
  case True
  assume *: "im_inv s"
  with True have known: "im_action s \<in> JStr ` im_known" by (auto simp: im_inv_def)
  let ?t = "im_stepper_change 1 s"
  have "im_inv ?t" using * by (simp add: im_stepper_change_def im_inv_next)
  moreover have "im_action ?t = im_action s" using next_action [OF known] by (simp add: im_stepper_change_def)
  ultimately show ?thesis using True known by (auto simp: im_stepper_next_def im_inv_def seen_def)
qed (auto simp: im_stepper_next_def)

lemma set_first_values: "(\<And>a. mo_value (f a) = mo_value a) \<Longrightarrow> map mo_value (im_set_first f xs) = map mo_value xs"
  by (induction xs) simp_all

lemma im_inv_backup: "im_inv s \<Longrightarrow> im_inv (im_set_backup_option b m s)"
proof -
  let ?f = "\<lambda>a. a\<lparr>mo_disabled := b, mo_tooltip := (case m of None \<Rightarrow> JStr [] | Some m \<Rightarrow> m)\<rparr>"
  have "mo_value ` set (im_set_first ?f (im_actions s)) = mo_value ` set (im_actions s)"
    using arg_cong [OF set_first_values [of ?f "im_actions s"], of set] by simp
  then show "im_inv s \<Longrightarrow> ?thesis" by (simp add: im_inv_def im_set_backup_option_def seen_def)
qed

lemma im_inv_handle: "im_inv s \<Longrightarrow> im_inv (im_handle ev s)"
proof (cases ev)
  case (IM_Action a)
  assume *: "im_inv s"
  have "a \<in> im_known" if "list_ex (\<lambda>ob. mo_value ob = a \<and> \<not> mo_disabled ob) (im_actions s)"
    using * that by (auto simp: im_inv_def list_ex_iff)
  then show ?thesis using * by (auto simp: IM_Action im_inv_def seen_def)
next
  case IM_UpdateClick
  assume *: "im_inv s"
  then have "im_sent_ok (JObj [(''action'', im_action s), (''index_list'', im_index_list s)])"
    if "im_step_index s = 1" "\<not> is_index_list_empty s"
    using that by (auto simp: im_inv_def im_sent_ok_def is_index_list_empty_def)
  then show ?thesis using *
    by (auto simp: IM_UpdateClick im_update_def im_api_index_management_def index_management_def intro!: im_inv_call)
qed (simp_all add: im_inv_next im_inv_stepper im_inv_reset im_back_def)

lemma im_inv_answered:
  assumes "im_inv s" "\<And>x s. im_inv s \<Longrightarrow> im_inv (next_cb x s)" "\<And>e s. im_inv s \<Longrightarrow> im_inv (error_cb e s)"
  shows "im_inv (answered ep next_cb error_cb r s)"
proof (rule answered_outcomes [of r ep next_cb error_cb s])
  fix s' err
  assume "answered ep next_cb error_cb r s = error_cb err s'" "world.more s' = world.more s"
    "\<And>f. no_reports f \<Longrightarrow> seen f s' = seen f s"
  then show ?thesis using assms(1,3) im_inv_frame [of s s'] by simp
qed (use assms(1,2) in simp)

lemma im_inv_answer: "im_inv s \<Longrightarrow> im_inv (im_answer k r s)"
  by (cases k)
    (auto simp: im_inv_backup im_api_minio_check_answer_def im_api_get_closed_indices_answer_def im_api_get_all_indices_answer_def
      im_api_index_management_answer_def im_indices_return_actions_def intro!: im_inv_answered im_inv_stepper im_inv_reset im_inv_backup
      split: api_error.split)

lemma im_inv_run: "im_inv s \<Longrightarrow> im_inv (im_run ev s)"
  by (cases ev) (simp_all add: im_run_def async_step_def im_inv_handle im_inv_answer)

interpretation im_page: event_machine im_run im_inv
  by unfold_locales (rule im_inv_run)

lemma im_inv_open: "mo_value ` set actions \<subseteq> im_known \<Longrightarrow> im_inv (im_open actions)"
  by (auto simp: im_open_def im_ngOnInit_def im_api_minio_check_def minio_check_def intro!: im_inv_call im_inv_backup)
    (auto simp: im_inv_def im_initialize_form_groups_def im_constructor_def emit_def seen_def)

text \<open>C39: whatever the user does and in whatever order the backend answers, a request to process indices names one of
  the three actions and at least one index, and the list of indices is shown only after an action was chosen.\<close>

theorem im_requests_well_formed:
  "let s = fold im_run evs (im_open MAT_OPTION_ACTIONS)
   in (\<forall>v. Http POST ''/api/curator/process'' v \<in> set (trace s) \<longrightarrow> im_sent_ok v) \<and>
      (im_step_index s = 0 \<or> im_step_index s = 1 \<and> im_action s \<in> JStr ` im_known)"
proof -
  have "im_inv (im_open MAT_OPTION_ACTIONS)" by (rule im_inv_open) (simp add: MAT_OPTION_ACTIONS_def im_known_def)
  then have "im_inv (fold im_run evs (im_open MAT_OPTION_ACTIONS))" by (rule im_page.run_inv)
  then show ?thesis by (auto simp: im_inv_def seen_def Let_def)
qed

section \<open>An action that is changed while the indices are loaded\<close>

definition im_changed_action :: "js \<Rightarrow> js \<Rightarrow> im_event event list" where
  "im_changed_action shown n =
     [Act (IM_Action CLOSE_INDICES), Act IM_NextClick, Act (IM_Action DELETE_INDICES), Answer 1 (Reply shown),
      Act (IM_Choose [n]), Act IM_UpdateClick]"

lemma changed_action_run:
  assumes "n \<in> set (map (\<lambda>i. js_get i ''index'') (arr_elems shown))"
  shows "trace (fold im_run (im_changed_action shown n) (im_open MAT_OPTION_ACTIONS)) =
      [SetTitle ''Index Management'', Http GET ''/api/curator/minio_check'' JUndef, Http GET ''/api/curator/indices/open'' JUndef,
       Http POST ''/api/curator/process'' (JObj [(''action'', JStr DELETE_INDICES), (''index_list'', JArr [n])])]"
    "im_instructions (fold im_run (im_changed_action shown n) (im_open MAT_OPTION_ACTIONS)) =
      JStr ''Select one or more Index to close and click Update.''"
  using assms
  by (simp_all add: im_changed_action_def im_open_def im_ngOnInit_def im_constructor_def im_initialize_form_groups_def im_set_backup_option_def
      im_api_minio_check_def minio_check_def MAT_OPTION_ACTIONS_def CLOSE_INDICES_def BACKUP_INDICES_def DELETE_INDICES_def
      im_run_def async_step_def im_next_def im_api_get_all_indices_def get_all_indices_def call_def request_def http_def emit_def endpoint_def
      remove_nth_def im_api_get_all_indices_answer_def answered_def subscribe_def as_is_def im_indices_return_actions_def im_stepper_next_def
      im_stepper_change_def is_index_list_empty_def im_update_def im_api_index_management_def index_management_def)

text \<open>C15: the action can be changed while the indices for the first choice are loaded, and the list is not loaded again:
  after choosing Close, Next and Delete, every index that the backend lists as open can be chosen, the page asks for its
  deletion, without a confirmation, and the instructions still speak of closing.\<close>

theorem open_indices_deleted:
  assumes "n \<in> set (map (\<lambda>i. js_get i ''index'') (arr_elems shown))"
  shows "let s = fold im_run (im_changed_action shown n) (im_open MAT_OPTION_ACTIONS)
    in last (trace s) = Http POST ''/api/curator/process'' (JObj [(''action'', JStr DELETE_INDICES), (''index_list'', JArr [n])]) \<and>
       im_instructions s = JStr ''Select one or more Index to close and click Update.'' \<and>
       Http GET ''/api/curator/indices/close'' JUndef \<notin> set (trace s)"
  by (simp add: changed_action_run [OF assms] Let_def)

section \<open>The properties at a concrete run\<close>

definition im_example :: js where
  "im_example = JArr [JObj [(''index'', JStr ''logs'')]]"

theorem open_indices_deleted_witness:
  "last (trace (fold im_run (im_changed_action im_example (JStr ''logs'')) (im_open MAT_OPTION_ACTIONS))) =
     Http POST ''/api/curator/process'' (JObj [(''action'', JStr DELETE_INDICES), (''index_list'', JArr [JStr ''logs''])])"
  using open_indices_deleted [of "JStr ''logs''" im_example] by (simp add: Let_def im_example_def)

theorem im_requests_well_formed_witness:
  "im_sent_ok (JObj [(''action'', JStr DELETE_INDICES), (''index_list'', JArr [JStr ''logs''])])"
  using im_requests_well_formed [of "im_changed_action im_example (JStr ''logs'')"] changed_action_run(1) [of "JStr ''logs''" im_example]
  by (simp add: Let_def im_example_def)

end
