(* ===== verification/Job_Console.thy ===== *)
theory Job_Console
  imports Form_Fields More_Services Effects
begin

text \<open>
  \<open>modules/server-stdout/server-stdout.component.ts\<close>, the console of a job: the lines the backend has kept, the
  lines that arrive over the socket, and the buttons that stop the job and run it again. The position of the
  scroll bar is not modelled, only whether the console follows the output.
\<close>

section \<open>State\<close>

datatype so_request = SO_Logs | SO_Get | SO_Delete | SO_Retry
datatype so_dialog = SO_ConfirmStop | SO_ConfirmRetry

text \<open>\<open>so_deleted\<close> counts how often \<open>job_deleted\<close> was emitted; \<open>allow_retry\<close> starts as \<open>undefined\<close>, which counts as
  false.\<close>

record so_state = "(so_request, so_dialog) async" +
  so_job_id :: js
  so_job_logs :: "js list"
  so_job_finished :: bool
  so_scroll_status :: bool
  so_allow_retry :: bool
  so_deleted :: nat

definition so_constructor :: "js \<Rightarrow> so_state" where
  "so_constructor job_id = \<lparr>trace = [], matSnackBarRef = None, requests = [], dialogs = [], so_job_id = job_id, so_job_logs = [],
     so_job_finished = False, so_scroll_status = True, so_allow_retry = False, so_deleted = 0\<rparr>"

definition CONFIRM_DIALOG_MAT_DIALOG_DATA_STOP_JOB :: js where
  "CONFIRM_DIALOG_MAT_DIALOG_DATA_STOP_JOB = JObj [(''title'', JStr ''Stop''), (''message'', JStr ''Are you sure you want to stop this job?''),
     (''option1'', JStr CANCEL_DIALOG_OPTION), (''option2'', JStr CONFIRM_DIALOG_OPTION)]"

definition CONFIRM_DIALOG_MAT_DIALOG_DATA_RETRY_JOB :: js where
  "CONFIRM_DIALOG_MAT_DIALOG_DATA_RETRY_JOB = JObj [(''title'', JStr ''Retry Job''), (''message'', JStr ''Are you sure you want to rerun this job?''),
     (''option1'', JStr CANCEL_DIALOG_OPTION), (''option2'', JStr CONFIRM_DIALOG_OPTION)]"

section \<open>Operations\<close>

definition start_scroll :: "so_state \<Rightarrow> so_state" where
  "start_scroll s = s\<lparr>so_scroll_status := True\<rparr>"

definition stop_scroll :: "so_state \<Rightarrow> so_state" where
  "stop_scroll s = s\<lparr>so_scroll_status := False\<rparr>"

definition so_api_job_logs :: "so_state \<Rightarrow> so_state" where
  "so_api_job_logs s = call (job_logs (so_job_id s)) SO_Logs s"

definition so_api_job_get :: "so_state \<Rightarrow> so_state" where
  "so_api_job_get s = call (job_get (so_job_id s)) SO_Get s"

definition so_api_job_delete :: "so_state \<Rightarrow> so_state" where
  "so_api_job_delete s = call (job_delete (so_job_id s)) SO_Delete s"

definition so_api_job_retry :: "so_state \<Rightarrow> so_state" where
  "so_api_job_retry s = call (job_retry (so_job_id s)) SO_Retry s"

definition so_ngOnInit :: "so_state \<Rightarrow> so_state" where
  "so_ngOnInit s = so_api_job_get (so_api_job_logs s)"

definition stop_job_confirm_dialog :: "so_state \<Rightarrow> so_state" where
  "stop_job_confirm_dialog = open_dialog ''ConfirmDialogComponent'' CONFIRM_DIALOG_MAT_DIALOG_DATA_STOP_JOB SO_ConfirmStop"

definition stop_job_confirm_dialog_closed :: "js \<Rightarrow> so_state \<Rightarrow> so_state" where
  "stop_job_confirm_dialog_closed response s = (if response = JStr CONFIRM_DIALOG_OPTION then so_api_job_delete s else s)"

definition retry_job_confirm_dialog :: "so_state \<Rightarrow> so_state" where
  "retry_job_confirm_dialog = open_dialog ''ConfirmDialogComponent'' CONFIRM_DIALOG_MAT_DIALOG_DATA_RETRY_JOB SO_ConfirmRetry"

definition retry_job_confirm_dialog_closed :: "js \<Rightarrow> so_state \<Rightarrow> so_state" where
  "retry_job_confirm_dialog_closed response s = (if response = JStr CONFIRM_DIALOG_OPTION then so_api_job_retry s else s)"

definition so_on_message :: "js \<Rightarrow> so_state \<Rightarrow> so_state" where
  "so_on_message response s =
     (case js_index response ''jobid'' of
        Inl _ \<Rightarrow> s
      | Inr jobid \<Rightarrow>
          if strict_eq jobid (so_job_id s)
          then settle s (smap (\<lambda>job_log. s\<lparr>so_job_logs := so_job_logs s @ [job_log]\<rparr>) (new_JobLogClass response)) else s)"

definition so_api_job_logs_answer :: "reply \<Rightarrow> so_state \<Rightarrow> so_state" where
  "so_api_job_logs_answer =
     answered (job_logs JUndef) (\<lambda>response s. s\<lparr>so_job_logs := response\<rparr>) (report_error_or_message ''retrieving job logs'')"

text \<open>The answer is an object: \<open>job_get\<close> reads its keys.\<close>

definition so_job_known :: "js \<Rightarrow> so_state \<Rightarrow> so_state" where
  "so_job_known response s =
     (let job_status = js_get response ''status'';
          s1 = (if \<not> notUndefNull job_status \<or> job_status = JStr ''started'' then s\<lparr>so_allow_retry := False\<rparr> else s);
          s2 = (if job_status = JStr ''failed'' then s1\<lparr>so_allow_retry := True\<rparr> else s1)
      in if key_count response = Inr 0
         then displaySnackBar (JStr ''Job has already finished or is no longer available'') (Some MAT_SNACKBAR_CONFIGURATION_60000_DUR)
                (s2\<lparr>so_job_finished := True\<rparr>)
         else s2\<lparr>so_job_finished := False\<rparr>)"

definition so_api_job_get_answer :: "reply \<Rightarrow> so_state \<Rightarrow> so_state" where
  "so_api_job_get_answer = answered (job_get JUndef) so_job_known (report_error_or_message ''retrieving job'')"

definition so_api_job_delete_answer :: "reply \<Rightarrow> so_state \<Rightarrow> so_state" where
  "so_api_job_delete_answer =
     answered (job_delete JUndef)
       (\<lambda>response s. generate_return_success_snackbar_message (''deleted job '' @ str (js_get response ''job_id''))
          (Some MAT_SNACKBAR_CONFIGURATION_60000_DUR) (s\<lparr>so_deleted := Suc (so_deleted s), so_job_logs := []\<rparr>))
       (report_error_or_message ''requesting delete job'')"

definition so_api_job_retry_answer :: "reply \<Rightarrow> so_state \<Rightarrow> so_state" where
  "so_api_job_retry_answer =
     answered (job_retry JUndef)
       (\<lambda>_ s. generate_return_success_snackbar_message ''requested system to retry job.'' (Some MAT_SNACKBAR_CONFIGURATION_60000_DUR)
          (so_api_job_get (s\<lparr>so_job_logs := []\<rparr>)))
       (report_error_or_message ''requesting retry job'')"

section \<open>The component as a machine\<close>

datatype so_event = SO_Start | SO_Pause | SO_StopClick | SO_RetryClick | SO_Message js

fun so_handle :: "so_event \<Rightarrow> so_state \<Rightarrow> so_state" where
  "so_handle SO_Start s = (if so_scroll_status s then s else start_scroll s)"
| "so_handle SO_Pause s = (if so_scroll_status s \<and> \<not> so_job_finished s then stop_scroll s else s)"
| "so_handle SO_StopClick s = (if so_job_finished s then s else stop_job_confirm_dialog s)"
| "so_handle SO_RetryClick s = (if so_allow_retry s then retry_job_confirm_dialog s else s)"
| "so_handle (SO_Message v) s = so_on_message v s"

fun so_answer :: "so_request \<Rightarrow> reply \<Rightarrow> so_state \<Rightarrow> so_state" where
  "so_answer SO_Logs = so_api_job_logs_answer"
| "so_answer SO_Get = so_api_job_get_answer"
| "so_answer SO_Delete = so_api_job_delete_answer"
| "so_answer SO_Retry = so_api_job_retry_answer"

fun so_closed :: "so_dialog \<Rightarrow> js \<Rightarrow> so_state \<Rightarrow> so_state" where
  "so_closed SO_ConfirmStop = stop_job_confirm_dialog_closed"
| "so_closed SO_ConfirmRetry = retry_job_confirm_dialog_closed"

definition so_step :: "so_event event \<Rightarrow> so_state \<Rightarrow> so_state" where
  "so_step = async_step so_handle so_answer so_closed"

definition so_open :: "js \<Rightarrow> so_state" where
  "so_open job_id = so_ngOnInit (so_constructor job_id)"

section \<open>Properties\<close>

text \<open>A job is stopped or run again only when the user has confirmed it.\<close>

fun stops_or_reruns :: "effect \<Rightarrow> bool" where
  "stops_or_reruns (Http m _ _) = (m = DELETE \<or> m = PUT)"
| "stops_or_reruns _ = False"

lemma no_reports_stops [simp]: "no_reports stops_or_reruns"
  by (simp add: no_reports_def)

lemma so_fields_quiet [simp]:
  "seen f (s\<lparr>so_job_logs := v\<rparr>) = seen f s" "seen f (s\<lparr>so_allow_retry := b\<rparr>) = seen f s" "seen f (s\<lparr>so_job_finished := b\<rparr>) = seen f s"
  "seen f (s\<lparr>so_deleted := n, so_job_logs := v\<rparr>) = seen f s" "seen f (s\<lparr>so_scroll_status := b\<rparr>) = seen f s"
  "seen f (s\<lparr>so_deleted := n\<rparr>) = seen f s"
  by (simp_all add: seen_def)

lemma so_answer_quiet: "seen stops_or_reruns (so_answer k r s) = seen stops_or_reruns s"
proof (cases k)
  case SO_Logs
  then show ?thesis by (simp add: so_api_job_logs_answer_def answered_quiet)
next
  case SO_Get
  then show ?thesis by (simp add: so_api_job_get_answer_def answered_quiet so_job_known_def Let_def)
next
  case SO_Delete
  show ?thesis unfolding SO_Delete so_answer.simps so_api_job_delete_answer_def by (rule answered_quiet) simp_all
next
  case SO_Retry
  show ?thesis unfolding SO_Retry so_answer.simps so_api_job_retry_answer_def
    by (rule answered_quiet) (simp_all add: so_api_job_get_def job_get_def)
qed

lemma so_handle_quiet: "seen stops_or_reruns (so_handle a s) = seen stops_or_reruns s"
  by (cases a)
    (simp_all add: start_scroll_def stop_scroll_def stop_job_confirm_dialog_def retry_job_confirm_dialog_def so_on_message_def settle_def smap_def
      split: sum.split)

fun so_confirmed :: "so_event event \<Rightarrow> bool" where
  "so_confirmed (Closed _ v) = (v = JStr CONFIRM_DIALOG_OPTION)"
| "so_confirmed _ = False"

lemma so_step_confirmed:
  "length (seen stops_or_reruns (so_step ev s)) \<le> length (seen stops_or_reruns s) + (if so_confirmed ev then 1 else 0)"
proof (cases ev)
  case (Closed i v)
  have "length (seen stops_or_reruns (so_closed d v t)) \<le> length (seen stops_or_reruns t) + (if v = JStr CONFIRM_DIALOG_OPTION then 1 else 0)" for d t
    by (cases d)
      (simp_all add: stop_job_confirm_dialog_closed_def retry_job_confirm_dialog_closed_def so_api_job_delete_def so_api_job_retry_def
        job_delete_def job_retry_def)
  from this [of "dialogs s ! i" "s\<lparr>dialogs := remove_nth i (dialogs s)\<rparr>"] show ?thesis
    by (simp add: Closed so_step_def async_step_def split: if_splits)
qed (simp_all add: so_step_def async_step_def so_handle_quiet so_answer_quiet)

theorem so_stops_confirmed:
  "length (seen stops_or_reruns (fold so_step evs (so_open job_id))) \<le> length (filter so_confirmed evs)"
proof (induction evs rule: rev_induct)
  case Nil
  show ?case
    by (simp add: so_open_def so_ngOnInit_def so_api_job_get_def so_api_job_logs_def job_get_def job_logs_def) (simp add: so_constructor_def seen_def)
next
  case (snoc ev evs)
  have "length (seen stops_or_reruns (so_step ev (fold so_step evs (so_open job_id)))) \<le>
      length (seen stops_or_reruns (fold so_step evs (so_open job_id))) + (if so_confirmed ev then 1 else 0)"
    by (rule so_step_confirmed)
  with snoc show ?case by (simp split: if_splits)
qed

text \<open>Lines of other jobs are not shown.\<close>

lemma other_jobs_ignored: "js_index v ''jobid'' = Inr j \<Longrightarrow> j \<noteq> so_job_id s \<Longrightarrow> so_on_message v s = s"
  by (auto simp: so_on_message_def dest: strict_eq_imp_eq)

text \<open>The answer with the kept lines replaces the lines that arrived over the socket while it was on its way.\<close>

lemma late_logs_replace_lines:
  assumes "js_index v ''jobid'' = Inr (so_job_id s)" "is_primitive (so_job_id s)" "new_JobLogClass v = Inr line"
    and "js_map_list new_JobLogClass kept = Inr lines"
  shows "so_job_logs (so_on_message v s) = so_job_logs s @ [line] \<and> so_job_logs (so_api_job_logs_answer (Reply kept) (so_on_message v s)) = lines"
  using assms by (simp add: so_on_message_def strict_eq_def settle_def smap_def so_api_job_logs_answer_def answered_def subscribe_def
      job_logs_def endpoint_def)

text \<open>A job that has failed, was run again and has ended meanwhile is still offered to be run again.\<close>

lemma retry_stays_offered:
  assumes "so_allow_retry s" "js_get response ''status'' = JStr ''finished''"
  shows "so_allow_retry (so_job_known response s)"
proof -
  have more: "world.more (t :: so_state) = world.more u \<Longrightarrow> so_allow_retry t = so_allow_retry u" for t u
    by (cases t; cases u) simp
  have "so_allow_retry (displaySnackBar m c (s\<lparr>so_job_finished := True\<rparr>))" for m c
    using more [of "displaySnackBar m c (s\<lparr>so_job_finished := True\<rparr>)" "s\<lparr>so_job_finished := True\<rparr>"] assms(1) by simp
  then show ?thesis using assms by (simp add: so_job_known_def notUndefNull_def Let_def)
qed

end
