(* ===== verification/Modal_Dialog.thy ===== *)
theory Modal_Dialog
  imports Form_Fields Effects
begin

text \<open>
  \<open>modules/global-components/components/modal-dialog-mat/modal-dialog-mat.component.ts\<close>, the dialog the pages open
  with a form group of their own, and the controls it shows (\<open>DialogFormControlClass\<close>). The dialog closes with the
  form group; of it a page reads whether it is valid and what \<open>getRawValue()\<close> returns.
\<close>

section \<open>Controls\<close>

text \<open>The validator of a control is \<open>validateFromArray\<close> of a table, or \<open>Validators.required\<close> of Angular.\<close>

datatype DialogControlTypesEnum =
  DC_text | DC_password | DC_textarea | DC_date | DC_dropdown | DC_timezone | DC_checkbox | DC_chips

record DialogFormControlConfigClass =
  config_label :: string
  config_formState :: js
  config_validatorOrOpts :: "validator_object list option"
  config_required :: bool
  config_tooltip :: js
  config_controlType :: DialogControlTypesEnum
  config_options :: "string list"
  config_isDisabled :: bool

definition new_DialogFormControlConfigClass :: DialogFormControlConfigClass where
  "new_DialogFormControlConfigClass =
     \<lparr>config_label = [], config_formState = JNull, config_validatorOrOpts = None, config_required = False, config_tooltip = JNull, config_controlType = DC_text,
      config_options = [], config_isDisabled = False\<rparr>"

record DialogFormControlClass =
  dc_control :: field
  dc_controlType :: DialogControlTypesEnum
  dc_label :: string
  dc_tooltip :: js
  dc_options :: "string list"
  dc_isDisabled :: bool
  dc_required :: bool

definition dc_valid :: "DialogFormControlClass \<Rightarrow> bool" where
  "dc_valid c \<longleftrightarrow> fd_valid (dc_control c) \<and> \<not> (dc_required c \<and> empty_input (fd_value (dc_control c)))"

definition new_DialogFormControlClass :: "DialogFormControlConfigClass \<Rightarrow> DialogFormControlClass" where
  "new_DialogFormControlClass config =
     \<lparr>dc_control = new_field (config_formState config) (config_validatorOrOpts config), dc_controlType = config_controlType config,
      dc_label = config_label config, dc_tooltip = config_tooltip config, dc_options = config_options config,
      dc_isDisabled = config_isDisabled config, dc_required = config_required config\<rparr>"

type_synonym dialog_group = "(string \<times> DialogFormControlClass) list"

text \<open>A group is valid when an enabled control is there and all of them are valid; a group without controls is valid. A
  disabled control is not validated.\<close>

definition dialog_valid :: "dialog_group \<Rightarrow> bool" where
  "dialog_valid g \<longleftrightarrow>
     (g = [] \<or> list_ex (\<lambda>(n, c). \<not> dc_isDisabled c) g) \<and> list_all (\<lambda>(n, c). dc_isDisabled c \<or> dc_valid c) g"

definition dialog_raw :: "dialog_group \<Rightarrow> js" where
  "dialog_raw g = JObj (map (\<lambda>(n, c). (n, fd_value (dc_control c))) g)"

definition dialog_result :: "dialog_group \<Rightarrow> js" where
  "dialog_result g = JObj [(''valid'', JBool (dialog_valid g)), (''rawValue'', dialog_raw g)]"

definition set_control :: "js \<Rightarrow> DialogFormControlClass \<Rightarrow> DialogFormControlClass" where
  "set_control v c = c\<lparr>dc_control := (if dc_isDisabled c then dc_control c\<lparr>fd_value := v\<rparr> else fd_set v (dc_control c))\<rparr>"

definition edit_control :: "js \<Rightarrow> DialogFormControlClass \<Rightarrow> DialogFormControlClass" where
  "edit_control v c = set_control v (c\<lparr>dc_control := dc_control c\<lparr>fd_dirty := True\<rparr>\<rparr>)"

definition on_control :: "string \<Rightarrow> (DialogFormControlClass \<Rightarrow> DialogFormControlClass) \<Rightarrow> dialog_group \<Rightarrow> dialog_group" where
  "on_control n f = map (\<lambda>(m, c). (m, if m = n then f c else c))"

section \<open>The dialog\<close>

record md_state = world +
  md_title :: js
  md_instructions :: js
  dialog_form_group :: dialog_group
  confirm_button_text :: js
  md_chips :: "string list"

text \<open>The data of the dialog: title, instructions, form group and the text of the button.\<close>

definition md_constructor :: "js \<Rightarrow> js \<Rightarrow> dialog_group \<Rightarrow> js \<Rightarrow> md_state" where
  "md_constructor t i g confirmBtnText =
     \<lparr>trace = [], matSnackBarRef = None, md_title = t, md_instructions = i, dialog_form_group = g,
      confirm_button_text = confirmBtnText, md_chips = []\<rparr>"

definition get_dialog_form_controls :: "dialog_group \<Rightarrow> DialogFormControlClass list" where
  "get_dialog_form_controls = map snd"

definition is_text_input :: "DialogFormControlClass \<Rightarrow> bool" where
  "is_text_input c \<longleftrightarrow> dc_controlType c = DC_text"

definition is_textarea :: "DialogFormControlClass \<Rightarrow> bool" where
  "is_textarea c \<longleftrightarrow> dc_controlType c = DC_textarea"

definition is_password_input :: "DialogFormControlClass \<Rightarrow> bool" where
  "is_password_input c \<longleftrightarrow> dc_controlType c = DC_password"

definition is_dropdown :: "DialogFormControlClass \<Rightarrow> bool" where
  "is_dropdown c \<longleftrightarrow> dc_controlType c = DC_dropdown"

definition is_checkbox :: "DialogFormControlClass \<Rightarrow> bool" where
  "is_checkbox c \<longleftrightarrow> dc_controlType c = DC_checkbox"

definition is_date_input :: "DialogFormControlClass \<Rightarrow> bool" where
  "is_date_input c \<longleftrightarrow> dc_controlType c = DC_date"

definition is_chips :: "DialogFormControlClass \<Rightarrow> bool" where
  "is_chips c \<longleftrightarrow> dc_controlType c = DC_chips"

definition get_timezone_control :: "md_state \<Rightarrow> DialogFormControlClass option" where
  "get_timezone_control s = map_of (dialog_form_group s) ''timezone''"

text \<open>The errors of a control, and the message the dialog shows for them.\<close>

definition get_error_message :: "verr option \<Rightarrow> emsg" where
  "get_error_message errors = (case errors of Some e \<Rightarrow> verr_message e | None \<Rightarrow> Msg [])"

definition add_alert_chip :: "string \<Rightarrow> md_state \<Rightarrow> md_state" where
  "add_alert_chip v s = (let chip = trim v in if chip \<noteq> [] then s\<lparr>md_chips := md_chips s @ [chip]\<rparr> else s)"

definition remove_alert_chip :: "string \<Rightarrow> md_state \<Rightarrow> md_state" where
  "remove_alert_chip chip s = s\<lparr>md_chips := remove1 chip (md_chips s)\<rparr>"

definition md_cancel :: "md_state \<Rightarrow> md_state" where
  "md_cancel = emit (DialogClose JUndef)"

text \<open>The loop of \<open>submit\<close>: every control for chips gets the same list.\<close>

definition set_chips :: "string list \<Rightarrow> dialog_group \<Rightarrow> dialog_group" where
  "set_chips chips = map (\<lambda>(n, c). (n, if is_chips c then set_control (JStr (js_join '','' chips)) c else c))"

definition md_submit :: "md_state \<Rightarrow> md_state" where
  "md_submit s =
     (let g = set_chips (md_chips s) (dialog_form_group s) in emit (DialogClose (dialog_result g)) (s\<lparr>dialog_form_group := g\<rparr>))"

text \<open>What the user can do. The button that submits is disabled while the group is not valid; a disabled control cannot be
  edited.\<close>

datatype md_event = MD_Type string string | MD_Select string string | MD_Check string bool | MD_Chip string | MD_Unchip string | MD_Cancel | MD_Submit

definition md_edit :: "(DialogFormControlClass \<Rightarrow> bool) \<Rightarrow> js \<Rightarrow> string \<Rightarrow> md_state \<Rightarrow> md_state" where
  "md_edit allowed v n s =
     s\<lparr>dialog_form_group := on_control n (\<lambda>c. if allowed c \<and> \<not> dc_isDisabled c then edit_control v c else c) (dialog_form_group s)\<rparr>"

fun md_step :: "md_event \<Rightarrow> md_state \<Rightarrow> md_state" where
  "md_step (MD_Type n t) s = md_edit (\<lambda>c. is_text_input c \<or> is_textarea c \<or> is_password_input c \<or> is_chips c) (JStr t) n s"
| "md_step (MD_Select n t) s = md_edit (\<lambda>c. is_dropdown c \<and> t \<in> set (dc_options c)) (JStr t) n s"
| "md_step (MD_Check n b) s = md_edit is_checkbox (JBool b) n s"
| "md_step (MD_Chip v) s = add_alert_chip v s"
| "md_step (MD_Unchip chip) s = remove_alert_chip chip s"
| "md_step MD_Cancel s = md_cancel s"
| "md_step MD_Submit s = (if dialog_valid (dialog_form_group s) then md_submit s else s)"

section \<open>What the dialog closes with\<close>

text \<open>An invariant of each control: if every event that changes a control keeps it, the dialog closes with nothing or with
  a group whose controls satisfy it.\<close>

locale dialog_contract =
  fixes ok :: "string \<Rightarrow> DialogFormControlClass \<Rightarrow> bool"
  assumes ok_set: "ok n c \<Longrightarrow> ok n (set_control (JStr t) c)"
    and ok_check: "ok n c \<Longrightarrow> is_checkbox c \<Longrightarrow> ok n (set_control (JBool b) c)"
    and ok_dirty: "ok n c \<Longrightarrow> ok n (c\<lparr>dc_control := dc_control c\<lparr>fd_dirty := True\<rparr>\<rparr>)"
begin

definition group_ok :: "dialog_group \<Rightarrow> bool" where
  "group_ok g \<longleftrightarrow> (\<forall>(n, c) \<in> set g. ok n c)"

definition dialog_inv :: "string list \<Rightarrow> md_state \<Rightarrow> bool" where
  "dialog_inv ns s \<longleftrightarrow> group_ok (dialog_form_group s) \<and> map fst (dialog_form_group s) = ns \<and>
     (\<forall>v. DialogClose v \<in> set (trace s) \<longrightarrow> v = JUndef \<or> (\<exists>g. group_ok g \<and> map fst g = ns \<and> v = dialog_result g))"

lemma ok_edit: "ok n c \<Longrightarrow> ok n (edit_control (JStr t) c)" "ok n c \<Longrightarrow> is_checkbox c \<Longrightarrow> ok n (edit_control (JBool b) c)"
  unfolding edit_control_def by (rule ok_set, erule ok_dirty) (rule ok_check, erule ok_dirty, simp add: is_checkbox_def)

lemma group_on_control: "group_ok g \<Longrightarrow> (\<And>c. ok n c \<Longrightarrow> ok n (f c)) \<Longrightarrow> group_ok (on_control n f g)"
  by (fastforce simp: group_ok_def on_control_def)

lemma group_chips: "group_ok g \<Longrightarrow> group_ok (set_chips chips g)"
  by (fastforce simp: group_ok_def set_chips_def ok_set)

lemma names_kept: "map fst (on_control n f g) = map fst g" "map fst (set_chips chips g) = map fst g"
  by (simp_all add: on_control_def set_chips_def case_prod_beta)

lemma dialog_inv_step: "dialog_inv ns s \<Longrightarrow> dialog_inv ns (md_step e s)"
proof (cases e)
  case MD_Submit
  assume "dialog_inv ns s"
  then show ?thesis
    by (auto simp: MD_Submit dialog_inv_def md_submit_def Let_def names_kept group_chips emit_def
        intro: exI [where x = "set_chips (md_chips s) (dialog_form_group s)"])
qed (auto simp: dialog_inv_def md_edit_def names_kept ok_edit add_alert_chip_def remove_alert_chip_def md_cancel_def emit_def Let_def
    intro!: group_on_control)

lemma dialog_inv_run: "dialog_inv ns s \<Longrightarrow> dialog_inv ns (fold md_step es s)"
  by (induction es arbitrary: s) (simp_all add: dialog_inv_step)

lemma closes_ok:
  assumes "group_ok g" "DialogClose v \<in> set (trace (fold md_step es (md_constructor t i g b)))"
  shows "v = JUndef \<or> (\<exists>g'. group_ok g' \<and> map fst g' = map fst g \<and> v = dialog_result g')"
proof -
  have "dialog_inv (map fst g) (md_constructor t i g b)" using assms(1) by (simp add: dialog_inv_def md_constructor_def)
  from dialog_inv_run [OF this, of es] assms(2) show ?thesis by (auto simp: dialog_inv_def)
qed

end

text \<open>What a table of validators accepts of a text; a required control accepts every text but the empty one.\<close>

definition text_rule :: "validator_object list \<Rightarrow> (string \<Rightarrow> bool) \<Rightarrow> bool" where
  "text_rule vs accepts \<longleftrightarrow>
     (\<forall>f t. fd_rules f = Some vs \<longrightarrow> fd_value f = JStr t \<longrightarrow> fd_validate f = Inr (f\<lparr>fd_valid := accepts t\<rparr>))"

lemma text_rule_required: "text_rule COMMON_VALIDATORS_required (\<lambda>t. t \<noteq> [])"
  by (simp add: text_rule_def required_text)

definition text_checked :: "validator_object list \<Rightarrow> (string \<Rightarrow> bool) \<Rightarrow> DialogFormControlClass \<Rightarrow> bool" where
  "text_checked vs accepts c \<longleftrightarrow>
     \<not> dc_isDisabled c \<and> \<not> is_checkbox c \<and> fd_rules (dc_control c) = Some vs \<and>
     (\<exists>t. fd_value (dc_control c) = JStr t \<and> fd_valid (dc_control c) = accepts t)"

lemma text_checked_set: "text_rule vs accepts \<Longrightarrow> text_checked vs accepts c \<Longrightarrow> text_checked vs accepts (set_control (JStr t) c)"
  by (auto simp: text_checked_def set_control_def text_rule_def is_checkbox_def fd_set_def settle_def)

lemma text_checked_dirty: "text_checked vs accepts c \<Longrightarrow> text_checked vs accepts (c\<lparr>dc_control := dc_control c\<lparr>fd_dirty := True\<rparr>\<rparr>)"
  by (simp add: text_checked_def is_checkbox_def)

lemma text_checked_new:
  "text_rule vs accepts \<Longrightarrow> config_formState k = JStr t \<Longrightarrow> config_validatorOrOpts k = Some vs \<Longrightarrow> \<not> config_isDisabled k \<Longrightarrow>
   config_controlType k \<noteq> DC_checkbox \<Longrightarrow> text_checked vs accepts (new_DialogFormControlClass k)"
  by (simp add: text_checked_def new_DialogFormControlClass_def new_field_def settle_def is_checkbox_def text_rule_def Let_def)

text \<open>The controls for chips all get the same text, whatever was typed into them.\<close>

lemma chips_submitted:
  assumes "DialogClose v \<in> set (trace (md_step MD_Submit s))" "DialogClose v \<notin> set (trace s)" "(n, c) \<in> set (dialog_form_group s)" "is_chips c"
    "distinct (map fst (dialog_form_group s))"
  shows "js_get (js_get v ''rawValue'') n = JStr (js_join '','' (md_chips s))"
proof -
  let ?g = "set_chips (md_chips s) (dialog_form_group s)"
  have v: "v = dialog_result ?g" using assms(1,2) by (auto simp: md_submit_def Let_def split: if_splits)
  have "distinct (map fst ?g)" using assms(5) by (simp add: set_chips_def case_prod_beta comp_def)
  moreover have "(n, set_control (JStr (js_join '','' (md_chips s))) c) \<in> set ?g" using assms(3,4) by (force simp: set_chips_def)
  ultimately have "map_of ?g n = Some (set_control (JStr (js_join '','' (md_chips s))) c)" by (rule map_of_is_SomeI)
  moreover have "map_of (map (\<lambda>(m, c). (m, fd_value (dc_control c))) h) n = map_option (\<lambda>c. fd_value (dc_control c)) (map_of h n)" for h :: dialog_group
    by (induction h) auto
  ultimately show ?thesis by (simp add: v dialog_result_def dialog_raw_def set_control_def)
qed

end
