(* ===== verification/Portal_Page.thy ===== *)
theory Portal_Page
  imports Modal_Dialog Alert_Service
begin

text \<open>
  \<open>modules/portal/portal.component.ts\<close>: the links to the applications of the kit, and the links the users keep. The
  links of users are added with the modal dialog and deleted after a confirmation; only operators see the buttons.
\<close>

section \<open>State\<close>

datatype po_request = PO_Links | PO_UserLinks | PO_Add | PO_Remove js
datatype po_dialog = PO_AddLink | PO_ConfirmRemove js

record po_state = "(po_request, po_dialog) async" +
  po_portal_links :: "js list"
  user_portal_links :: "js list"
  po_operator :: bool
  hidden_app_links :: "string list"
  app_links_to_hide :: "string list"

definition po_constructor :: "bool \<Rightarrow> po_state" where
  "po_constructor isOperator =
     \<lparr>trace = [], matSnackBarRef = None, requests = [], dialogs = [], po_portal_links = [], user_portal_links = [],
      po_operator = isOperator, hidden_app_links = [], app_links_to_hide = [''arkime'', ''misp'', ''nifi'']\<rparr>"

section \<open>The dialog that adds a link\<close>

definition TARGET_CONFIG_VALIDATORS_required :: "validator_object list" where
  "TARGET_CONFIG_VALIDATORS_required = [vo_simple ''required'' ''Required field'']"

text \<open>\<open>/^(http:[/][/])|(https:[/][/])/\<close>: the anchor belongs to the first alternative only.\<close>

definition link_pattern :: "string \<Rightarrow> bool" where
  "link_pattern t \<longleftrightarrow> starts_with ''http://'' t \<or> str_includes t ''https://''"

definition TARGET_CONFIG_VALIDATORS_url :: "validator_object list" where
  "TARGET_CONFIG_VALIDATORS_url =
     [vo_simple ''required'' ''Required field'',
      vo_regex link_pattern
        (''Link must start with either '' @ sq @ ''http://'' @ sq @ '' or '' @ sq @ ''https://'' @ sq @ '' without quotation marks.'')]"

definition link_config :: "string \<Rightarrow> validator_object list \<Rightarrow> DialogFormControlConfigClass" where
  "link_config label vs =
     new_DialogFormControlConfigClass\<lparr>config_label := label, config_formState := JStr [], config_validatorOrOpts := Some vs\<rparr>"

definition add_link_group :: dialog_group where
  "add_link_group =
     [(''name'', new_DialogFormControlClass (link_config ''Link Name'' TARGET_CONFIG_VALIDATORS_required)),
      (''url'', new_DialogFormControlClass (link_config ''Link URL'' TARGET_CONFIG_VALIDATORS_url)),
      (''description'', new_DialogFormControlClass (link_config ''Link Description'' TARGET_CONFIG_VALIDATORS_required))]"

definition add_link_dialog :: md_state where
  "add_link_dialog = md_constructor (JStr ''Add Link'') (JStr ''Please enter link data'') add_link_group (JStr ''Submit'')"

section \<open>Requests\<close>

definition po_api_get_portal_links :: "po_state \<Rightarrow> po_state" where
  "po_api_get_portal_links = call get_portal_links PO_Links"

definition po_api_get_user_portal_links :: "po_state \<Rightarrow> po_state" where
  "po_api_get_user_portal_links = call get_user_links PO_UserLinks"

text \<open>The constructor of the class copies the fields of the object.\<close>

definition api_add_user_portal_link :: "js \<Rightarrow> po_state \<Rightarrow> po_state" where
  "api_add_user_portal_link user_portal_link s =
     settle s (smap (\<lambda>l. call (add_user_link l) PO_Add s) (new_UserPortalLinkClass user_portal_link))"

definition api_remove_user_portal_link :: "js \<Rightarrow> po_state \<Rightarrow> po_state" where
  "api_remove_user_portal_link user_portal_link = call (remove_user_link user_portal_link) (PO_Remove user_portal_link)"

section \<open>Operations\<close>

definition po_ngOnInit :: "po_state \<Rightarrow> po_state" where
  "po_ngOnInit s = po_api_get_user_portal_links (po_api_get_portal_links (emit (SetTitle ''Portal'') s))"

definition open_add_user_portal_link :: "po_state \<Rightarrow> po_state" where
  "open_add_user_portal_link =
     open_dialog ''ModalDialogMatComponent''
       (JObj [(''title'', JStr ''Add Link''), (''instructions'', JStr ''Please enter link data''), (''dialogForm'', dialog_result add_link_group),
              (''confirmBtnText'', JStr ''Submit'')])
       PO_AddLink"

definition open_add_user_portal_link_closed :: "js \<Rightarrow> po_state \<Rightarrow> po_state" where
  "open_add_user_portal_link_closed response s =
     (if notUndefNull response \<and> truthy (js_get response ''valid'')
      then api_add_user_portal_link (js_get response ''rawValue'') s else s)"

definition open_confirm_remove_user_portal_link :: "js \<Rightarrow> po_state \<Rightarrow> po_state" where
  "open_confirm_remove_user_portal_link user_portal_link =
     open_dialog ''ConfirmDialogComponent''
       (JObj [(''title'', JStr (''Remove User Link '' @ sq @ str (js_get user_portal_link ''name'') @ sq @ ''?'')),
              (''message'', JStr (''Confirm deletion of link to '' @ str (js_get user_portal_link ''url'') @ ''. This action cannot be undone.'')),
              (''option1'', JStr CANCEL_DIALOG_OPTION), (''option2'', JStr CONFIRM_DIALOG_OPTION)])
       (PO_ConfirmRemove user_portal_link)"

definition open_confirm_remove_user_portal_link_closed :: "js \<Rightarrow> js \<Rightarrow> po_state \<Rightarrow> po_state" where
  "open_confirm_remove_user_portal_link_closed user_portal_link response s =
     (if response = JStr CONFIRM_DIALOG_OPTION then api_remove_user_portal_link user_portal_link s else s)"

definition go_to_url :: "js \<Rightarrow> 'a world_scheme \<Rightarrow> 'a world_scheme" where
  "go_to_url url = emit (OpenTab (str url))"

text \<open>\<open>link.dns.split('/')[2].split('.')[0]\<close>: an address without a host has no third part.\<close>

definition app_name :: "string \<Rightarrow> js_error + string" where
  "app_name dns = (case js_split CHR ''/'' dns of _ # _ # host # _ \<Rightarrow> Inr (hd (js_split CHR ''.'' host)) | _ \<Rightarrow> Inl TypeError)"

definition hide_app_link :: "js \<Rightarrow> po_state \<Rightarrow> po_state attempt" where
  "hide_app_link link s =
     attempt s (sbind (as_string (js_get link ''dns'')) (\<lambda>dns.
       smap (\<lambda>n. if n \<in> set (app_links_to_hide s) then s\<lparr>hidden_app_links := hidden_app_links s @ [dns]\<rparr> else s) (app_name dns)))"

definition get_hidden_app_links :: "js list \<Rightarrow> po_state \<Rightarrow> po_state attempt" where
  "get_hidden_app_links = each hide_app_link"

section \<open>Answers\<close>

text \<open>The two requests for links are made without a callback for errors.\<close>

definition po_api_get_portal_links_answer :: "reply \<Rightarrow> po_state \<Rightarrow> po_state" where
  "po_api_get_portal_links_answer =
     answered get_portal_links (\<lambda>response s. snd (get_hidden_app_links response (s\<lparr>po_portal_links := response\<rparr>))) (\<lambda>_ s. s)"

definition po_api_get_user_portal_links_answer :: "reply \<Rightarrow> po_state \<Rightarrow> po_state" where
  "po_api_get_user_portal_links_answer = answered get_user_links (\<lambda>response s. s\<lparr>user_portal_links := response\<rparr>) (\<lambda>_ s. s)"

definition api_add_user_portal_link_answer :: "reply \<Rightarrow> po_state \<Rightarrow> po_state" where
  "api_add_user_portal_link_answer =
     answered (add_user_link JUndef) (\<lambda>response s. s\<lparr>user_portal_links := response\<rparr>) (\<lambda>_. report_error ''adding user portal link'')"

definition api_remove_user_portal_link_answer :: "js \<Rightarrow> reply \<Rightarrow> po_state \<Rightarrow> po_state" where
  "api_remove_user_portal_link_answer user_portal_link =
     answered (remove_user_link user_portal_link)
       (\<lambda>response s. displaySnackBar (js_get response ''success_message'') (Some MAT_SNACKBAR_CONFIGURATION_60000_DUR)
          (s\<lparr>user_portal_links := filter (\<lambda>inner. \<not> strict_eq (js_get inner ''_id'') (js_get user_portal_link ''_id'')) (user_portal_links s)\<rparr>))
       (\<lambda>_. report_error ''removing user portal link'')"

section \<open>The page as a machine\<close>

text \<open>A click on a link of a user opens its address; the button that deletes it stops the click.\<close>

datatype po_action = PO_AddClick | PO_DeleteClick nat | PO_LinkClick nat

fun po_handle :: "po_action \<Rightarrow> po_state \<Rightarrow> po_state" where
  "po_handle PO_AddClick s = (if po_operator s then open_add_user_portal_link s else s)"
| "po_handle (PO_DeleteClick i) s =
     (if po_operator s \<and> i < length (user_portal_links s) then open_confirm_remove_user_portal_link (user_portal_links s ! i) s else s)"
| "po_handle (PO_LinkClick i) s =
     (if i < length (user_portal_links s) then go_to_url (js_get (user_portal_links s ! i) ''url'') s else s)"

fun po_answer :: "po_request \<Rightarrow> reply \<Rightarrow> po_state \<Rightarrow> po_state" where
  "po_answer PO_Links = po_api_get_portal_links_answer"
| "po_answer PO_UserLinks = po_api_get_user_portal_links_answer"
| "po_answer PO_Add = api_add_user_portal_link_answer"
| "po_answer (PO_Remove l) = api_remove_user_portal_link_answer l"

fun po_closed :: "po_dialog \<Rightarrow> js \<Rightarrow> po_state \<Rightarrow> po_state" where
  "po_closed PO_AddLink = open_add_user_portal_link_closed"
| "po_closed (PO_ConfirmRemove l) = open_confirm_remove_user_portal_link_closed l"

definition po_step :: "po_action event \<Rightarrow> po_state \<Rightarrow> po_state" where
  "po_step = async_step po_handle po_answer po_closed"

definition po_open :: "bool \<Rightarrow> po_state" where
  "po_open isOperator = po_ngOnInit (po_constructor isOperator)"

section \<open>The dialog accepts links\<close>

lemma text_rule_link_required: "text_rule TARGET_CONFIG_VALIDATORS_required (\<lambda>t. t \<noteq> [])"
  by (simp add: text_rule_def fd_validate_def TARGET_CONFIG_VALIDATORS_required_def validateFromArray_def fd_control_def required_str
      run_validator_def vo_simple_def)

lemma text_rule_link_url: "text_rule TARGET_CONFIG_VALIDATORS_url (\<lambda>t. t \<noteq> [] \<and> link_pattern t)"
  by (simp add: text_rule_def fd_validate_def TARGET_CONFIG_VALIDATORS_url_def validateFromArray_def fd_control_def required_str pattern_str)

definition link_rules :: "string \<Rightarrow> validator_object list \<times> (string \<Rightarrow> bool)" where
  "link_rules n =
     (if n = ''url'' then (TARGET_CONFIG_VALIDATORS_url, \<lambda>t. t \<noteq> [] \<and> link_pattern t)
      else (TARGET_CONFIG_VALIDATORS_required, \<lambda>t. t \<noteq> []))"

definition link_control :: "string \<Rightarrow> DialogFormControlClass \<Rightarrow> bool" where
  "link_control n = text_checked (fst (link_rules n)) (snd (link_rules n))"

lemma link_rule: "text_rule (fst (link_rules n)) (snd (link_rules n))"
  by (simp add: link_rules_def text_rule_link_required text_rule_link_url)

interpretation add_link: dialog_contract link_control
  by unfold_locales
    (simp_all add: link_control_def text_checked_set [OF link_rule] text_checked_dirty, simp add: text_checked_def)

lemma add_link_group_ok: "add_link.group_ok add_link_group"
  by (auto simp: add_link.group_ok_def add_link_group_def link_control_def link_config_def new_DialogFormControlConfigClass_def link_rules_def
      intro!: text_checked_new [OF text_rule_link_required] text_checked_new [OF text_rule_link_url])

text \<open>What the page sends was accepted.\<close>

definition checked_link :: "js \<Rightarrow> bool" where
  "checked_link l \<longleftrightarrow>
     (\<exists>n u d. js_get l ''name'' = JStr n \<and> n \<noteq> [] \<and> js_get l ''url'' = JStr u \<and> link_pattern u \<and> js_get l ''description'' = JStr d \<and> d \<noteq> [])"

lemma link_value:
  assumes "add_link.group_ok g" "dialog_valid g" "(n, c) \<in> set g"
  shows "\<exists>t. fd_value (dc_control c) = JStr t \<and> snd (link_rules n) t"
  using assms by (fastforce simp: add_link.group_ok_def dialog_valid_def dc_valid_def link_control_def text_checked_def list_all_iff)

lemma accepted_link:
  assumes "add_link.group_ok g" "map fst g = map fst add_link_group" "dialog_valid g" "new_UserPortalLinkClass (dialog_raw g) = Inr l"
  shows "checked_link l"
proof -
  obtain a b c where g: "g = [(''name'', a), (''url'', b), (''description'', c)]"
    using assms(2) by (auto simp: add_link_group_def map_eq_Cons_conv)
  obtain t u d where "fd_value (dc_control a) = JStr t" "t \<noteq> []" "fd_value (dc_control b) = JStr u" "link_pattern u"
      "fd_value (dc_control c) = JStr d" "d \<noteq> []"
    using link_value [OF assms(1,3), of "''name''" a] link_value [OF assms(1,3), of "''url''" b] link_value [OF assms(1,3), of "''description''" c]
    by (auto simp: g link_rules_def)
  then show ?thesis
    using assms(4) by (auto simp: g dialog_raw_def new_UserPortalLinkClass_def construct_def copy_def notUndefNull_def checked_link_def)
qed

section \<open>The requests of the page\<close>

fun changes_links :: "effect \<Rightarrow> bool" where
  "changes_links (Http m _ _) = (m = POST \<or> m = DELETE)"
| "changes_links _ = False"

lemma no_reports_changes_links [simp]: "no_reports changes_links"
  by (simp add: no_reports_def)

definition po_inv :: "po_state \<Rightarrow> bool" where
  "po_inv s \<longleftrightarrow> (\<forall>m u v. Http m u v \<in> set (seen changes_links s) \<longrightarrow> m = DELETE \<or> checked_link v)"

lemma po_fields_quiet [simp]:
  "seen f (s\<lparr>user_portal_links := vs\<rparr>) = seen f s" "seen f (s\<lparr>po_portal_links := vs\<rparr>) = seen f s" "seen f (s\<lparr>hidden_app_links := ls\<rparr>) = seen f s"
  by (simp_all add: seen_def)

lemma hidden_quiet [simp]: "seen f (snd (get_hidden_app_links links s)) = seen f s"
  unfolding get_hidden_app_links_def
  by (rule snd_each [where P = "\<lambda>t. seen f t = seen f s"])
    (auto simp: hide_app_link_def attempt_def smap_def sbind_def split: sum.splits)

lemma po_answer_quiet: "seen changes_links (po_answer k r s) = seen changes_links s"
  by (cases k)
    (simp_all add: po_api_get_portal_links_answer_def po_api_get_user_portal_links_answer_def api_add_user_portal_link_answer_def
      api_remove_user_portal_link_answer_def answered_quiet)

lemma po_handle_quiet: "seen changes_links (po_handle a s) = seen changes_links s"
  by (cases a) (simp_all add: open_add_user_portal_link_def open_confirm_remove_user_portal_link_def go_to_url_def)

text \<open>A dialog closes with a button of the confirmation or with what a run of the modal dialog closes with.\<close>

definition from_add_link :: "js \<Rightarrow> bool" where
  "from_add_link v \<longleftrightarrow> (\<exists>es. DialogClose v \<in> set (trace (fold md_step es add_link_dialog)))"

definition po_possible :: "po_action event \<Rightarrow> bool" where
  "po_possible ev \<longleftrightarrow>
     (case ev of Closed i v \<Rightarrow> from_add_link v \<or> v \<in> {JUndef, JStr CONFIRM_DIALOG_OPTION, JStr CANCEL_DIALOG_OPTION} | _ \<Rightarrow> True)"

lemma from_add_link_cases:
  assumes "from_add_link v"
  obtains "v = JUndef" | g where "add_link.group_ok g" "map fst g = map fst add_link_group" "v = dialog_result g"
  using assms add_link.closes_ok [OF add_link_group_ok] by (fastforce simp: from_add_link_def add_link_dialog_def)

lemma buttons_have_no_group: "js_get (JStr CONFIRM_DIALOG_OPTION) ''valid'' = JUndef" "js_get (JStr CANCEL_DIALOG_OPTION) ''valid'' = JUndef"
  by code_simp+

lemma closed_add_link:
  assumes "po_inv s" "po_possible (Closed i v)"
  shows "po_inv (open_add_user_portal_link_closed v s)"
proof (cases "notUndefNull v \<and> truthy (js_get v ''valid'')")
  case True
  have "v \<notin> {JUndef, JStr CONFIRM_DIALOG_OPTION, JStr CANCEL_DIALOG_OPTION}" using True buttons_have_no_group by (auto simp: notUndefNull_def simp del: js_get.simps)
  with assms(2) have "from_add_link v" by (auto simp: po_possible_def)
  then obtain g where g: "add_link.group_ok g" "map fst g = map fst add_link_group" "v = dialog_result g"
    using True by (auto simp: notUndefNull_def elim: from_add_link_cases)
  then have "dialog_valid g" using True by (simp add: dialog_result_def)
  from accepted_link [OF g(1,2) this] show ?thesis
    using assms(1) by (auto simp: open_add_user_portal_link_closed_def api_add_user_portal_link_def settle_def smap_def g(3) dialog_result_def po_inv_def
        add_user_link_def split: sum.split)
qed (use assms in \<open>auto simp: open_add_user_portal_link_closed_def\<close>)

lemma closed_remove: "po_inv s \<Longrightarrow> po_inv (open_confirm_remove_user_portal_link_closed l v s)"
  by (auto simp: open_confirm_remove_user_portal_link_closed_def api_remove_user_portal_link_def remove_user_link_def po_inv_def)

lemma po_inv_step:
  assumes "po_inv s" "po_possible ev"
  shows "po_inv (po_step ev s)"
proof (cases ev)
  case (Closed i v)
  have "po_inv (po_closed d v t)" if "po_inv t" for d t
    using closed_add_link [OF that, of i v] closed_remove [OF that] assms(2) by (cases d) (simp_all add: Closed)
  moreover have "po_inv (s\<lparr>dialogs := ds\<rparr>)" for ds using assms(1) by (simp add: po_inv_def)
  ultimately show ?thesis using assms(1) by (simp add: Closed po_step_def async_step_def)
qed (use assms(1) in \<open>simp_all add: po_inv_def po_step_def async_step_def po_handle_quiet po_answer_quiet\<close>)

text \<open>A link is saved only with a name, a description and an address the pattern of the dialog accepts, whatever is done on
  the page and in the dialog and however the backend answers.\<close>

theorem saved_links_checked:
  assumes "\<forall>ev \<in> set evs. po_possible ev" "Http POST u v \<in> set (sent (fold po_step evs (po_open isOperator)))"
  shows "checked_link v"
proof -
  have "po_inv (fold po_step evs (po_open isOperator))"
    using assms(1)
  proof (induction evs rule: rev_induct)
    case Nil
    show ?case
      by (simp add: po_open_def po_ngOnInit_def po_api_get_user_portal_links_def po_api_get_portal_links_def get_user_links_def get_portal_links_def
          po_inv_def) (simp add: po_constructor_def seen_def)
  qed (simp add: po_inv_step)
  then show ?thesis using assms(2) by (auto simp: po_inv_def seen_def sent_def)
qed

definition typed_link :: "md_event list" where
  "typed_link = [MD_Type ''name'' ''Wiki'', MD_Type ''url'' ''javascript:a//https://'', MD_Type ''description'' ''Notes'', MD_Submit]"

definition typed_result :: js where
  "typed_result = (case last (trace (fold md_step typed_link add_link_dialog)) of DialogClose v \<Rightarrow> v | _ \<Rightarrow> JUndef)"

lemma typed_result_closes: "from_add_link typed_result"
proof -
  have "DialogClose typed_result \<in> set (trace (fold md_step typed_link add_link_dialog))" by code_simp
  then show ?thesis unfolding from_add_link_def by blast
qed

definition saved_link :: js where
  "saved_link = JObj [(''_id'', JUndef), (''name'', JStr ''Wiki''), (''url'', JStr ''javascript:a//https://''), (''description'', JStr ''Notes'')]"

lemma saved_links_checked_witness:
  "checked_link saved_link \<and> Http POST ''/api/portal/user/links'' saved_link \<in> set (sent (fold po_step [Act PO_AddClick, Closed 0 typed_result] (po_open True)))"
proof -
  have sent: "Http POST ''/api/portal/user/links'' saved_link \<in> set (sent (fold po_step [Act PO_AddClick, Closed 0 typed_result] (po_open True)))"
    by code_simp
  have "\<forall>ev \<in> set [Act PO_AddClick, Closed 0 typed_result]. po_possible ev" by (simp add: po_possible_def typed_result_closes)
  from saved_links_checked [OF this sent] sent show ?thesis by simp
qed

text \<open>The applications whose address is hidden: with addresses that have a host, exactly those the list names.\<close>

definition app_of :: "js \<Rightarrow> js_error + string \<times> string" where
  "app_of link = sbind (as_string (js_get link ''dns'')) (\<lambda>dns. smap (\<lambda>n. (dns, n)) (app_name dns))"

lemma hidden_links:
  assumes "mapS app_of links = Inr apps"
  shows "get_hidden_app_links links s =
    (None, s\<lparr>hidden_app_links := hidden_app_links s @ map fst (filter (\<lambda>(dns, n). n \<in> set (app_links_to_hide s)) apps)\<rparr>)"
  using assms
proof (induction links arbitrary: s apps)
  case (Cons link links)
  then obtain dns n rest where app: "app_of link = Inr (dns, n)" and rest: "mapS app_of links = Inr rest" "apps = (dns, n) # rest"
    by (auto simp: sbind_def smap_def split: sum.splits)
  have *: "as_string (js_get link ''dns'') = Inr dns" "app_name dns = Inr n"
    using app by (auto simp: app_of_def sbind_def smap_def split: sum.splits)
  show ?case using Cons.IH [OF rest(1)] by (simp add: get_hidden_app_links_def hide_app_link_def attempt_def rest(2) * sbind_def smap_def)
qed (simp add: get_hidden_app_links_def done_with_def)

text \<open>One link without a host ends the loop: the links after it are shown although they should be hidden.\<close>

lemma hiding_stops:
  assumes "app_of link = Inl e"
  shows "get_hidden_app_links (link # links) s = (Some e, s)"
  using assms by (auto simp: get_hidden_app_links_def hide_app_link_def attempt_def app_of_def sbind_def smap_def split: sum.splits)

end
