(* ===== verification/Pcap_Page.thy ===== *)
theory Pcap_Page
  imports Form_Fields More_Services Rule_Dialogs Effects Sorting_Service
begin

text \<open>
  \<open>modules/pcap-form/\<close>: the page with the capture files, and the dialog that replays one of them on a sensor
  (\<open>components/replay-pcap-dialog/replay-pcap-dialog.component.ts\<close>). The page sends the form the dialog closes with.
\<close>

section \<open>The dialog\<close>

datatype rp_request = RP_Sensors | RP_Ifaces

text \<open>The controls of the form: \<open>pcap\<close> is always disabled, \<open>preserve_timestamp\<close> until a sensor is chosen, \<open>ifaces\<close>
  while the box for the timestamps is checked.\<close>

record rp_state = "(rp_request, unit) async" +
  rp_pcap :: js
  rp_sensor_ip :: field
  rp_preserve_timestamp :: bool
  rp_preserve_on :: bool
  rp_ifaces :: field
  rp_ifaces_on :: bool
  rp_sensor_hostname :: "js option"
  selectable_sensors :: "js list"
  selectable_ifaces :: js

definition rp_constructor :: "js \<Rightarrow> rp_state" where
  "rp_constructor pcap_name =
     \<lparr>trace = [], matSnackBarRef = None, requests = [], dialogs = [],
      rp_pcap = pcap_name, rp_sensor_ip = new_field JUndef (Some COMMON_VALIDATORS_required), rp_preserve_timestamp = True,
      rp_preserve_on = False, rp_ifaces = new_field JUndef None, rp_ifaces_on = True, rp_sensor_hostname = None,
      selectable_sensors = [], selectable_ifaces = JArr []\<rparr>"

definition rp_valid :: "rp_state \<Rightarrow> bool" where
  "rp_valid s \<longleftrightarrow> fd_valid (rp_sensor_ip s) \<and> (rp_ifaces_on s \<longrightarrow> fd_valid (rp_ifaces s))"

definition rp_raw :: "rp_state \<Rightarrow> js" where
  "rp_raw s = JObj ([(''pcap'', rp_pcap s), (''sensor_ip'', fd_value (rp_sensor_ip s)),
      (''preserve_timestamp'', JBool (rp_preserve_timestamp s)), (''ifaces'', fd_value (rp_ifaces s))] @
      (case rp_sensor_hostname s of None \<Rightarrow> [] | Some h \<Rightarrow> [(''sensor_hostname'', h)]))"

definition rp_result :: "rp_state \<Rightarrow> js" where
  "rp_result s = JObj [(''valid'', JBool (rp_valid s)), (''rawValue'', rp_raw s)]"

definition rp_api_get_configured_ifaces :: "js \<Rightarrow> rp_state \<Rightarrow> rp_state" where
  "rp_api_get_configured_ifaces hostname = call (get_configured_ifaces hostname) RP_Ifaces"

definition rp_api_get_sensor_host_info :: "rp_state \<Rightarrow> rp_state" where
  "rp_api_get_sensor_host_info = call get_sensor_host_info RP_Sensors"

text \<open>The form is made by the constructor here: nothing reads it before \<open>ngOnInit\<close>.\<close>

definition rp_ngOnInit :: "rp_state \<Rightarrow> rp_state" where
  "rp_ngOnInit s = rp_api_get_sensor_host_info s"

definition should_preserve_timestamp :: "rp_state \<Rightarrow> bool" where
  "should_preserve_timestamp s = rp_preserve_timestamp s"

text \<open>\<open>enable()\<close> runs the validators the control has; \<open>clearValidators\<close> and \<open>setValidators\<close> run none.\<close>

definition change_preserve_timestamp :: "bool \<Rightarrow> rp_state \<Rightarrow> rp_state" where
  "change_preserve_timestamp checked s =
     (if checked then s\<lparr>rp_ifaces_on := False\<rparr>
      else let f = settle (rp_ifaces s) (fd_validate (rp_ifaces s))
           in s\<lparr>rp_ifaces_on := True, rp_ifaces := f\<lparr>fd_rules := Some COMMON_VALIDATORS_required\<rparr>\<rparr>)"

text \<open>The first sensor with the address.\<close>

definition sensor_at :: "js \<Rightarrow> rp_state \<Rightarrow> js option" where
  "sensor_at ip s = List.find (\<lambda>sensor. strict_eq (js_get sensor ''management_ip'') ip) (selectable_sensors s)"

definition rp_set_ifaces :: "js \<Rightarrow> rp_state \<Rightarrow> rp_state" where
  "rp_set_ifaces v s =
     s\<lparr>rp_ifaces := (if rp_ifaces_on s then fd_set v (rp_ifaces s) else (rp_ifaces s)\<lparr>fd_value := v\<rparr>)\<rparr>"

definition selection_change_iface_value :: "js \<Rightarrow> rp_state \<Rightarrow> rp_state" where
  "selection_change_iface_value v s =
     (let s = s\<lparr>rp_preserve_on := True\<rparr>;
          s = (case sensor_at v s of None \<Rightarrow> s | Some sensor \<Rightarrow> rp_api_get_configured_ifaces (js_get sensor ''hostname'') s)
      in rp_set_ifaces (JStr []) s)"

text \<open>\<open>addControl\<close> keeps a control that is there.\<close>

definition rp_execute :: "rp_state \<Rightarrow> rp_state" where
  "rp_execute s =
     (let s = (case sensor_at (fd_value (rp_sensor_ip s)) s of
          None \<Rightarrow> s
        | Some sensor \<Rightarrow>
            (case rp_sensor_hostname s of None \<Rightarrow> s\<lparr>rp_sensor_hostname := Some (new_control (js_get sensor ''hostname''))\<rparr> | Some _ \<Rightarrow> s))
      in emit (DialogClose (rp_result s)) s)"

definition rp_cancel :: "rp_state \<Rightarrow> rp_state" where
  "rp_cancel = emit (DialogClose JUndef)"

definition rp_api_get_configured_ifaces_answer :: "reply \<Rightarrow> rp_state \<Rightarrow> rp_state" where
  "rp_api_get_configured_ifaces_answer =
     answered (get_configured_ifaces JUndef) (\<lambda>response s. s\<lparr>selectable_ifaces := response\<rparr>)
       (report_error_or_message ''retrieving configured ifaces'')"

definition rp_sensors_known :: "string comparator \<Rightarrow> js list \<Rightarrow> rp_state \<Rightarrow> rp_state attempt" where
  "rp_sensors_known lc response s =
     and_then (attempt s (smap (\<lambda>sensors. s\<lparr>selectable_sensors := sensors\<rparr>) (mapS new_HostInfoRedacClass response)))
       (\<lambda>s. attempt s (smap (\<lambda>sensors. s\<lparr>selectable_sensors := sensors\<rparr>) (node_alphanum lc (selectable_sensors s))))"

definition rp_api_get_sensor_host_info_answer :: "string comparator \<Rightarrow> reply \<Rightarrow> rp_state \<Rightarrow> rp_state" where
  "rp_api_get_sensor_host_info_answer lc =
     answered get_sensor_host_info (\<lambda>response s. snd (rp_sensors_known lc response s)) (\<lambda>_. report_error ''retrieving sensor host info'')"

text \<open>Choosing in a list or checking the box sets the value of the control, then calls the handler.\<close>

datatype rp_action = RP_Sensor nat | RP_Preserve bool | RP_Choose "js list" | RP_Execute | RP_Cancel

definition rp_choose_sensor :: "js \<Rightarrow> rp_state \<Rightarrow> rp_state" where
  "rp_choose_sensor sensor s =
     (let ip = js_get sensor ''management_ip''
      in selection_change_iface_value ip (s\<lparr>rp_sensor_ip := fd_set ip ((rp_sensor_ip s)\<lparr>fd_dirty := True\<rparr>)\<rparr>))"

fun rp_handle :: "rp_action \<Rightarrow> rp_state \<Rightarrow> rp_state" where
  "rp_handle (RP_Sensor i) s = (if i < length (selectable_sensors s) then rp_choose_sensor (selectable_sensors s ! i) s else s)"
| "rp_handle (RP_Preserve b) s =
     (if rp_preserve_on s then change_preserve_timestamp b (s\<lparr>rp_preserve_timestamp := b\<rparr>) else s)"
| "rp_handle (RP_Choose vs) s =
     (if \<not> should_preserve_timestamp s \<and> rp_ifaces_on s then rp_set_ifaces (JArr vs) s else s)"
| "rp_handle RP_Execute s = (if rp_valid s then rp_execute s else s)"
| "rp_handle RP_Cancel s = rp_cancel s"

fun rp_answer :: "string comparator \<Rightarrow> rp_request \<Rightarrow> reply \<Rightarrow> rp_state \<Rightarrow> rp_state" where
  "rp_answer lc RP_Sensors = rp_api_get_sensor_host_info_answer lc"
| "rp_answer lc RP_Ifaces = rp_api_get_configured_ifaces_answer"

definition rp_step :: "string comparator \<Rightarrow> rp_action event \<Rightarrow> rp_state \<Rightarrow> rp_state" where
  "rp_step lc = async_step rp_handle (rp_answer lc) (\<lambda>_ _ s. s)"

definition rp_open :: "js \<Rightarrow> rp_state" where
  "rp_open pcap_name = rp_ngOnInit (rp_constructor pcap_name)"

section \<open>The page\<close>

text \<open>A request carries the values its callbacks have captured; a file is an object with its name.\<close>

datatype pc_request = PC_Pcaps | PC_Upload | PC_Replay js | PC_Delete
datatype pc_dialog = PC_ReplayDialog | PC_ConfirmDelete js

record pc_state = "(pc_request, pc_dialog) async" +
  pc_pcaps :: "js list option"
  pcap_for_upload :: js

definition pc_constructor :: pc_state where
  "pc_constructor = \<lparr>trace = [], matSnackBarRef = None, requests = [], dialogs = [], pc_pcaps = None, pcap_for_upload = JNull\<rparr>"

definition PCAP_DISPLAY_COLUMNS :: "string list" where
  "PCAP_DISPLAY_COLUMNS = [''name'', ''first_date'', ''last_date'', ''sha256'', ''size'', ''action'']"

definition pc_api_get_pcaps :: "pc_state \<Rightarrow> pc_state" where
  "pc_api_get_pcaps = call get_pcaps PC_Pcaps"

definition pc_api_upload_pcap :: "js \<Rightarrow> pc_state \<Rightarrow> pc_state" where
  "pc_api_upload_pcap pcap_form_data = call (upload_pcap pcap_form_data) PC_Upload"

definition pc_api_replay_pcap :: "js \<Rightarrow> pc_state \<Rightarrow> pc_state" where
  "pc_api_replay_pcap replay = call (replay_pcap replay) (PC_Replay replay)"

definition pc_api_delete_pcap :: "js \<Rightarrow> pc_state \<Rightarrow> pc_state" where
  "pc_api_delete_pcap pcap = call (delete_pcap (js_get pcap ''name'')) PC_Delete"

definition pc_ngOnInit :: "pc_state \<Rightarrow> pc_state" where
  "pc_ngOnInit s = pc_api_get_pcaps (emit (SetTitle ''PCAP Test Files'') s)"

definition pc_handle_file_input :: "js list \<Rightarrow> pc_state \<Rightarrow> pc_state" where
  "pc_handle_file_input files s = s\<lparr>pcap_for_upload := (case files of [] \<Rightarrow> JNull | f # _ \<Rightarrow> f)\<rparr>"

definition pc_upload_file :: "pc_state \<Rightarrow> pc_state" where
  "pc_upload_file s =
     settle s (smap (\<lambda>name.
         pc_api_upload_pcap (JObj [(''upload_file'', pcap_for_upload s)]) (displaySnackBar (JStr (''Loading '' @ str name @ ''...'')) None s))
       (js_index (pcap_for_upload s) ''name''))"

definition replay_pcap_dialog :: "js \<Rightarrow> pc_state \<Rightarrow> pc_state" where
  "replay_pcap_dialog pcap = open_dialog ''ReplayPcapDialogComponent'' (js_get pcap ''name'') PC_ReplayDialog"

definition replay_pcap_dialog_closed :: "js \<Rightarrow> pc_state \<Rightarrow> pc_state" where
  "replay_pcap_dialog_closed response s =
     (if notUndefNull response \<and> truthy (js_get response ''valid'') then pc_api_replay_pcap (js_get response ''rawValue'') s else s)"

definition delete_pcap_confirm_dialog :: "js \<Rightarrow> pc_state \<Rightarrow> pc_state" where
  "delete_pcap_confirm_dialog pcap =
     open_dialog ''ConfirmDialogComponent''
       (JObj [(''message'', JStr (''Are you sure you want to permanently delete '' @ str (js_get pcap ''name'') @ ''?'')),
              (''option1'', JStr CANCEL_DIALOG_OPTION), (''option2'', JStr CONFIRM_DIALOG_OPTION)])
       (PC_ConfirmDelete pcap)"

definition delete_pcap_confirm_dialog_closed :: "js \<Rightarrow> js \<Rightarrow> pc_state \<Rightarrow> pc_state" where
  "delete_pcap_confirm_dialog_closed pcap response s = (if response = JStr CONFIRM_DIALOG_OPTION then pc_api_delete_pcap pcap s else s)"

definition pc_api_get_pcaps_answer :: "reply \<Rightarrow> pc_state \<Rightarrow> pc_state" where
  "pc_api_get_pcaps_answer = answered get_pcaps (\<lambda>response s. s\<lparr>pc_pcaps := Some response\<rparr>) (\<lambda>_. report_error ''retrieving pcaps'')"

definition pc_api_upload_pcap_answer :: "reply \<Rightarrow> pc_state \<Rightarrow> pc_state" where
  "pc_api_upload_pcap_answer =
     answered (upload_pcap JUndef)
       (\<lambda>response s. pc_api_get_pcaps (displaySnackBar (js_get response ''success_message'') None (s\<lparr>pcap_for_upload := JNull\<rparr>)))
       (report_error_or_message ''uploading pcap file'')"

definition pc_api_replay_pcap_answer :: "js \<Rightarrow> reply \<Rightarrow> pc_state \<Rightarrow> pc_state" where
  "pc_api_replay_pcap_answer replay =
     answered (replay_pcap replay)
       (\<lambda>_. displaySnackBar (JStr (''Replaying '' @ str (js_get replay ''pcap'') @ '' on '' @ str (js_get replay ''sensor_hostname'') @
          ''. Open the notification manager to track its progress.'')) None)
       (\<lambda>_. report_error ''replaying pcap'')"

definition pc_api_delete_pcap_answer :: "reply \<Rightarrow> pc_state \<Rightarrow> pc_state" where
  "pc_api_delete_pcap_answer =
     answered (delete_pcap JUndef) (\<lambda>response s. pc_api_get_pcaps (displaySnackBar (js_get response ''success_message'') None s))
       (report_error_or_message ''deleting pcap'')"

datatype pc_action = PC_File "js list" | PC_UploadClick | PC_ReplayClick nat | PC_DeleteClick nat

definition pc_rows :: "pc_state \<Rightarrow> js list" where
  "pc_rows s = (case pc_pcaps s of None \<Rightarrow> [] | Some rows \<Rightarrow> rows)"

fun pc_handle :: "pc_action \<Rightarrow> pc_state \<Rightarrow> pc_state" where
  "pc_handle (PC_File files) s = pc_handle_file_input files s"
| "pc_handle PC_UploadClick s = (if truthy (pcap_for_upload s) then pc_upload_file s else s)"
| "pc_handle (PC_ReplayClick i) s = (if i < length (pc_rows s) then replay_pcap_dialog (pc_rows s ! i) s else s)"
| "pc_handle (PC_DeleteClick i) s = (if i < length (pc_rows s) then delete_pcap_confirm_dialog (pc_rows s ! i) s else s)"

fun pc_answer :: "pc_request \<Rightarrow> reply \<Rightarrow> pc_state \<Rightarrow> pc_state" where
  "pc_answer PC_Pcaps = pc_api_get_pcaps_answer"
| "pc_answer PC_Upload = pc_api_upload_pcap_answer"
| "pc_answer (PC_Replay r) = pc_api_replay_pcap_answer r"
| "pc_answer PC_Delete = pc_api_delete_pcap_answer"

fun pc_closed :: "pc_dialog \<Rightarrow> js \<Rightarrow> pc_state \<Rightarrow> pc_state" where
  "pc_closed PC_ReplayDialog = replay_pcap_dialog_closed"
| "pc_closed (PC_ConfirmDelete pcap) = delete_pcap_confirm_dialog_closed pcap"

definition pc_step :: "pc_action event \<Rightarrow> pc_state \<Rightarrow> pc_state" where
  "pc_step = async_step pc_handle pc_answer pc_closed"

section \<open>Properties\<close>

text \<open>The form the dialog closes with names the host of the first sensor with the chosen address.\<close>

lemma executed_host:
  assumes "sensor_at (fd_value (rp_sensor_ip s)) s = Some sensor" "rp_sensor_hostname s = None"
  shows "\<exists>v. trace (rp_execute s) = trace s @ [DialogClose v] \<and> js_get (js_get v ''rawValue'') ''sensor_hostname'' = new_control (js_get sensor ''hostname'')"
  using assms by (simp add: rp_execute_def Let_def rp_result_def rp_raw_def)

lemma rp_more:
  assumes "async.more (s :: rp_state) = async.more t"
  shows "rp_pcap s = rp_pcap t" "rp_sensor_ip s = rp_sensor_ip t" "rp_preserve_timestamp s = rp_preserve_timestamp t" "rp_preserve_on s = rp_preserve_on t"
    "rp_ifaces s = rp_ifaces t" "rp_ifaces_on s = rp_ifaces_on t" "rp_sensor_hostname s = rp_sensor_hostname t"
    "selectable_sensors s = selectable_sensors t" "selectable_ifaces s = selectable_ifaces t"
  using assms by (cases s; cases t; simp)+

lemma rp_call_fields [simp]:
  "rp_sensor_ip (call ep k s) = rp_sensor_ip s" "rp_preserve_timestamp (call ep k s) = rp_preserve_timestamp s" "rp_preserve_on (call ep k s) = rp_preserve_on s"
  "rp_ifaces (call ep k s) = rp_ifaces s" "rp_ifaces_on (call ep k s) = rp_ifaces_on s" "selectable_sensors (call ep k s) = selectable_sensors s"
  for s :: rp_state
  by (simp_all add: rp_more [of "call ep k s" s])

text \<open>A dialog whose interfaces have no validators yet, after a sensor was chosen.\<close>

lemma sensor_chosen:
  assumes "rp_ifaces_on s" "fd_rules (rp_ifaces s) = None" "fd_rules (rp_sensor_ip s) = Some COMMON_VALIDATORS_required"
    "js_get sensor ''management_ip'' = JStr ip" "ip \<noteq> []"
  shows "rp_preserve_on (rp_choose_sensor sensor s) \<and> fd_value (rp_sensor_ip (rp_choose_sensor sensor s)) = JStr ip \<and>
    fd_valid (rp_sensor_ip (rp_choose_sensor sensor s)) \<and> fd_rules (rp_ifaces (rp_choose_sensor sensor s)) = None \<and>
    fd_value (rp_ifaces (rp_choose_sensor sensor s)) = JStr []"
  using assms
  by (simp add: rp_choose_sensor_def selection_change_iface_value_def Let_def rp_set_ifaces_def rp_api_get_configured_ifaces_def fd_set_required
      split: option.split)

text \<open>Unchecking the box makes the interfaces valid and required, in this order.\<close>

lemma timestamp_unchecked:
  assumes "fd_rules (rp_ifaces s) = None" "fd_valid (rp_sensor_ip s)"
  shows "rp_valid (change_preserve_timestamp False (s\<lparr>rp_preserve_timestamp := False\<rparr>))"
    "rp_sensor_ip (change_preserve_timestamp False (s\<lparr>rp_preserve_timestamp := False\<rparr>)) = rp_sensor_ip s"
    "fd_value (rp_ifaces (change_preserve_timestamp False (s\<lparr>rp_preserve_timestamp := False\<rparr>))) = fd_value (rp_ifaces s)"
    "\<not> rp_preserve_timestamp (change_preserve_timestamp False (s\<lparr>rp_preserve_timestamp := False\<rparr>))"
  using assms by (simp_all add: change_preserve_timestamp_def rp_valid_def fd_validate_def settle_def Let_def)

lemma executed_form:
  obtains v where "trace (rp_execute s) = trace s @ [DialogClose v]" "js_get v ''valid'' = JBool (rp_valid s)"
    "js_get (js_get v ''rawValue'') ''sensor_ip'' = fd_value (rp_sensor_ip s)"
    "js_get (js_get v ''rawValue'') ''preserve_timestamp'' = JBool (rp_preserve_timestamp s)"
    "js_get (js_get v ''rawValue'') ''ifaces'' = fd_value (rp_ifaces s)" "notUndefNull v"
  by (auto simp: rp_execute_def Let_def rp_result_def rp_raw_def rp_valid_def notUndefNull_def split: option.splits)

lemma replay_sent:
  assumes "dialogs page ! j = PC_ReplayDialog" "j < length (dialogs page)" "js_get v ''valid'' = JBool True" "notUndefNull v"
  shows "sent (pc_step (Closed j v) page) = sent page @ [Http POST ''/api/policy/pcap/replay'' (js_get v ''rawValue'')]"
  using assms by (simp add: pc_step_def async_step_def replay_pcap_dialog_closed_def pc_api_replay_pcap_def replay_pcap_def endpoint_def)

text \<open>The first time the box for the timestamps is unchecked, the validator that requires an interface is set but not run: the
  form can be executed without an interface, and the page sends it.\<close>

theorem replay_without_interface:
  assumes "js_get (sensors ! i) ''management_ip'' = JStr ip" "ip \<noteq> []" "i < length sensors" "dialogs page ! j = PC_ReplayDialog" "j < length (dialogs page)"
  shows "\<exists>v body. DialogClose v \<in> set (trace (fold (rp_step lc) [Act (RP_Sensor i), Act (RP_Preserve False), Act RP_Execute]
          ((rp_open pcap)\<lparr>selectable_sensors := sensors\<rparr>))) \<and>
      sent (pc_step (Closed j v) page) = sent page @ [Http POST ''/api/policy/pcap/replay'' body] \<and>
      js_get body ''preserve_timestamp'' = JBool False \<and> js_get body ''ifaces'' = JStr [] \<and> js_get body ''sensor_ip'' = JStr ip"
proof -
  let ?s = "(rp_open pcap)\<lparr>selectable_sensors := sensors\<rparr>"
  let ?s1 = "rp_choose_sensor (sensors ! i) ?s"
  let ?s2 = "change_preserve_timestamp False (?s1\<lparr>rp_preserve_timestamp := False\<rparr>)"
  have "rp_ifaces_on ?s" "fd_rules (rp_ifaces ?s) = None" "fd_rules (rp_sensor_ip ?s) = Some COMMON_VALIDATORS_required"
    by (simp_all add: rp_open_def rp_ngOnInit_def rp_api_get_sensor_host_info_def rp_constructor_def new_field_fields)
  note chosen = sensor_chosen [OF this assms(1,2)]
  have run: "fold (rp_step lc) [Act (RP_Sensor i), Act (RP_Preserve False), Act RP_Execute] ?s = rp_execute ?s2"
    using chosen assms(3) timestamp_unchecked(1) [of ?s1] by (simp add: rp_step_def async_step_def)
  obtain v where v: "trace (rp_execute ?s2) = trace ?s2 @ [DialogClose v]" "js_get v ''valid'' = JBool (rp_valid ?s2)"
      "js_get (js_get v ''rawValue'') ''sensor_ip'' = fd_value (rp_sensor_ip ?s2)"
      "js_get (js_get v ''rawValue'') ''preserve_timestamp'' = JBool (rp_preserve_timestamp ?s2)"
      "js_get (js_get v ''rawValue'') ''ifaces'' = fd_value (rp_ifaces ?s2)" "notUndefNull v"
    by (rule executed_form)
  have "DialogClose v \<in> set (trace (rp_execute ?s2))" by (simp add: v(1))
  then show ?thesis
    using replay_sent [OF assms(4,5), of v] v(2-6) chosen timestamp_unchecked [of ?s1] unfolding run by auto
qed

lemma replay_without_interface_witness:
  "\<exists>v body. DialogClose v \<in> set (trace (fold (rp_step (Comparator (\<lambda>_ _. Equiv))) [Act (RP_Sensor 0), Act (RP_Preserve False), Act RP_Execute]
          ((rp_open (JStr ''a.pcap''))\<lparr>selectable_sensors := [JObj [(''hostname'', JStr ''sensor1''), (''management_ip'', JStr ''10.0.0.9'')]]\<rparr>))) \<and>
      sent (pc_step (Closed 0 v) (replay_pcap_dialog (JObj [(''name'', JStr ''a.pcap'')]) pc_constructor)) =
        [Http POST ''/api/policy/pcap/replay'' body] \<and>
      js_get body ''preserve_timestamp'' = JBool False \<and> js_get body ''ifaces'' = JStr [] \<and> js_get body ''sensor_ip'' = JStr ''10.0.0.9''"
  using replay_without_interface [of "[JObj [(''hostname'', JStr ''sensor1''), (''management_ip'', JStr ''10.0.0.9'')]]" 0 "''10.0.0.9''"
      "replay_pcap_dialog (JObj [(''name'', JStr ''a.pcap'')]) pc_constructor" 0 "Comparator (\<lambda>_ _. Equiv)" "JStr ''a.pcap''"]
  by (simp add: replay_pcap_dialog_def pc_constructor_def sent_def)

text \<open>Once the validator has run, the form needs an interface.\<close>

lemma required_afterwards:
  assumes "fd_rules (rp_ifaces s) = Some COMMON_VALIDATORS_required" "rp_ifaces_on s"
  shows "\<not> rp_valid (rp_set_ifaces (JStr []) s)"
  using assms by (simp add: rp_set_ifaces_def rp_valid_def fd_set_required)

section \<open>Deletions\<close>

fun deletes_pcap :: "effect \<Rightarrow> bool" where
  "deletes_pcap (Http m _ _) = (m = DELETE)"
| "deletes_pcap _ = False"

text \<open>A file is deleted exactly when the dialog that asks for it is closed with Confirm.\<close>

lemma no_reports_pcap [simp]: "no_reports deletes_pcap"
  by (simp add: no_reports_def)

lemma pc_fields_quiet [simp]: "seen f (s\<lparr>pc_pcaps := v\<rparr>) = seen f s" "seen f (s\<lparr>pcap_for_upload := w\<rparr>) = seen f s"
  by (simp_all add: seen_def)

lemma pc_answer_quiet: "seen deletes_pcap (pc_answer k r s) = seen deletes_pcap s"
  by (cases k)
    (simp_all add: pc_api_get_pcaps_answer_def pc_api_upload_pcap_answer_def pc_api_replay_pcap_answer_def pc_api_delete_pcap_answer_def
      answered_quiet pc_api_get_pcaps_def get_pcaps_def)

lemma pc_handle_quiet: "seen deletes_pcap (pc_handle a s) = seen deletes_pcap s"
  by (cases a)
    (auto simp: pc_handle_file_input_def pc_upload_file_def pc_api_upload_pcap_def upload_pcap_def replay_pcap_dialog_def
      delete_pcap_confirm_dialog_def settle_def smap_def split: sum.splits)

theorem pc_deletes_confirmed:
  "seen deletes_pcap (pc_step ev s) = seen deletes_pcap s @
    (case ev of Closed i v \<Rightarrow>
       (case if i < length (dialogs s) then dialogs s ! i else PC_ReplayDialog of
          PC_ConfirmDelete pcap \<Rightarrow> (if v = JStr CONFIRM_DIALOG_OPTION then [Http DELETE (''/api/policy/pcap/'' @ str (js_get pcap ''name'')) JUndef] else [])
        | PC_ReplayDialog \<Rightarrow> [])
     | _ \<Rightarrow> [])"
  by (cases ev)
    (auto simp: pc_step_def async_step_def pc_handle_quiet pc_answer_quiet replay_pcap_dialog_closed_def delete_pcap_confirm_dialog_closed_def
      pc_api_replay_pcap_def pc_api_delete_pcap_def replay_pcap_def delete_pcap_def split: pc_dialog.split)

end
