(* ===== verification/Tools_Page.thy ===== *)
theory Tools_Page
  imports Form_Fields Settings_Form_Facts More_Services Json Effects
begin

text \<open>
  \<open>modules/tools/\<close>: the forms that change the password of the kit, put the monitoring interfaces of a node up or
  down, upload the documentation of the controller and the Elastic license. Each form is a component of its own.
\<close>

section \<open>Constants\<close>

definition TOOLS_FORM_COMPONENT_TITLE :: string where
  "TOOLS_FORM_COMPONENT_TITLE = ''Tools''"

definition tools_ngOnInit :: "'a world_scheme \<Rightarrow> 'a world_scheme" where
  "tools_ngOnInit = emit (SetTitle TOOLS_FORM_COMPONENT_TITLE)"

definition PASSWORD_CONFIRM_DIALOG :: js where
  "PASSWORD_CONFIRM_DIALOG = JObj [(''title'', JStr ''Kit password change''),
     (''message'', JStr (''Are you sure you want to change the Kits password? '' @ replicate 12 CHR '' '' @
        ''Doing this will change the root password for all servers and sensors in the Kubernetes cluster.'')),
     (''option1'', JStr CANCEL_DIALOG_OPTION), (''option2'', JStr CONFIRM_DIALOG_OPTION)]"

definition UP :: js where "UP = JStr ''up''"
definition DOWN :: js where "DOWN = JStr ''down''"
definition ACTIVE :: string where "ACTIVE = ''Active''"
definition MAINTENANCE :: string where "MAINTENANCE = ''Maintenance''"

section \<open>The password of the kit\<close>

datatype pw_dialog = PW_Rules | PW_Confirm

record pw_state = "(unit, pw_dialog) async" +
  change_kit_password_form_group :: "settings_form option"

text \<open>The first control is given a table of validators as its options, which have none of the properties the validators
  read; the model gives it none.\<close>

definition new_password_form :: "js_error + settings_form" where
  "new_password_form =
     new_form [(''root_password'', JStr [], Some COMMON_VALIDATORS_root_password, None),
               (''re_password'', JStr [], Some COMMON_VALIDATORS_re_password, Some ''root_password'')]"

definition initialize_change_kit_password_form_group :: "pw_state \<Rightarrow> pw_state" where
  "initialize_change_kit_password_form_group s =
     settle s (smap (\<lambda>g. s\<lparr>change_kit_password_form_group := Some g\<rparr>) new_password_form)"

definition pw_open :: pw_state where
  "pw_open = initialize_change_kit_password_form_group
     \<lparr>trace = [], matSnackBarRef = None, requests = [], dialogs = [], change_kit_password_form_group = None\<rparr>"

definition pw_open_password_rules_dialog :: "pw_state \<Rightarrow> pw_state" where
  "pw_open_password_rules_dialog = open_dialog ''PasswordMessageComponent'' JUndef PW_Rules"

definition pw_on_form :: "(settings_form \<Rightarrow> settings_form attempt) \<Rightarrow> pw_state \<Rightarrow> pw_state" where
  "pw_on_form f s =
     (case change_kit_password_form_group s of
        None \<Rightarrow> s
      | Some g \<Rightarrow> s\<lparr>change_kit_password_form_group := Some (snd (f g))\<rparr>)"

definition pw_re_evaluate :: "pw_state \<Rightarrow> pw_state" where
  "pw_re_evaluate = pw_on_form (each updateValueAndValidity [''root_password'', ''re_password''])"

definition update_button_click :: "pw_state \<Rightarrow> pw_state" where
  "update_button_click = open_dialog ''ConfirmDialogComponent'' PASSWORD_CONFIRM_DIALOG PW_Confirm"

definition api_change_kit_password :: "pw_state \<Rightarrow> pw_state" where
  "api_change_kit_password s =
     (case change_kit_password_form_group s of
        None \<Rightarrow> s
      | Some g \<Rightarrow> call (change_kit_password (delete_key ''re_password'' (JObj (form_raw g)))) () s)"

definition update_button_click_closed :: "js \<Rightarrow> pw_state \<Rightarrow> pw_state" where
  "update_button_click_closed response s = (if response = JStr CONFIRM_DIALOG_OPTION then api_change_kit_password s else s)"

definition api_change_kit_password_answer :: "reply \<Rightarrow> pw_state \<Rightarrow> pw_state" where
  "api_change_kit_password_answer =
     answered (change_kit_password JUndef)
       (\<lambda>response. displaySnackBar (js_get response ''success_message'') (Some MAT_SNACKBAR_CONFIGURATION_60000_DUR))
       (report_error_or_message ''changing kit password'')"

text \<open>A key changes the text of a field and then calls \<open>re_evaluate\<close>; the mouse pastes a text without it. While a dialog
  is open the form cannot be used.\<close>

datatype pw_action = PW_Key string string | PW_Paste string string | PW_Leave string | PW_RulesClick | PW_UpdateClick

definition pw_can_update :: "pw_state \<Rightarrow> bool" where
  "pw_can_update s = (case change_kit_password_form_group s of None \<Rightarrow> False | Some g \<Rightarrow> form_valid g \<and> sf_touched g)"

fun pw_act :: "pw_action \<Rightarrow> pw_state \<Rightarrow> pw_state" where
  "pw_act (PW_Key n t) s = pw_re_evaluate (pw_on_form (type_setting (JStr t) n) s)"
| "pw_act (PW_Paste n t) s = pw_on_form (type_setting (JStr t) n) s"
| "pw_act (PW_Leave n) s = pw_on_form (leave_setting n) s"
| "pw_act PW_RulesClick s = pw_open_password_rules_dialog s"
| "pw_act PW_UpdateClick s = (if pw_can_update s then update_button_click s else s)"

definition pw_handle :: "pw_action \<Rightarrow> pw_state \<Rightarrow> pw_state" where
  "pw_handle a s = (if dialogs s = [] then pw_act a s else s)"

fun pw_closed :: "pw_dialog \<Rightarrow> js \<Rightarrow> pw_state \<Rightarrow> pw_state" where
  "pw_closed PW_Rules v s = s"
| "pw_closed PW_Confirm v s = update_button_click_closed v s"

definition pw_step :: "pw_action event \<Rightarrow> pw_state \<Rightarrow> pw_state" where
  "pw_step = async_step pw_handle (\<lambda>_. api_change_kit_password_answer) pw_closed"

section \<open>Node maintenance\<close>

text \<open>The event of the toggle is kept by the callbacks of all its requests: a request names the event, by its index in the
  list of what \<open>event.checked\<close> is now.\<close>

datatype nmf_request = NMF_States | NMF_Change nat

record nmf_state = "(nmf_request, unit) async" +
  nmf_nodes :: "js list option"
  nmf_events :: "bool list"

definition NODE_MAINTENANCE_TABLE_COLUMNS :: "string list" where
  "NODE_MAINTENANCE_TABLE_COLUMNS = [''node'', ''interfaces'', ''actions'']"

definition nmf_constructor :: nmf_state where
  "nmf_constructor = \<lparr>trace = [], matSnackBarRef = None, requests = [], dialogs = [], nmf_nodes = None, nmf_events = []\<rparr>"

definition api_get_initial_device_states :: "nmf_state \<Rightarrow> nmf_state" where
  "api_get_initial_device_states = call get_initial_device_states NMF_States"

definition nmf_ngOnInit :: "nmf_state \<Rightarrow> nmf_state" where
  "nmf_ngOnInit = api_get_initial_device_states"

fun all_up :: "js list \<Rightarrow> js_error + bool" where
  "all_up [] = Inr True"
| "all_up (iface # ifaces) = sbind (js_index iface ''state'') (\<lambda>state. if state = DOWN then Inr False else all_up ifaces)"

definition is_slider_checked :: "js \<Rightarrow> js_error + bool" where
  "is_slider_checked node =
     (if notUndefNull node then
        (case js_iterate (js_get node ''interfaces'') of None \<Rightarrow> Inl TypeError | Some ifaces \<Rightarrow> all_up ifaces)
      else Inr True)"

definition get_slider_label :: "js \<Rightarrow> js_error + string" where
  "get_slider_label node = smap (\<lambda>b. if b then ACTIVE else MAINTENANCE) (is_slider_checked node)"

definition api_change_remote_network_device_state :: "nat \<Rightarrow> js \<Rightarrow> js \<Rightarrow> js \<Rightarrow> nmf_state \<Rightarrow> nmf_state" where
  "api_change_remote_network_device_state event hostname iface_name state =
     call (change_remote_network_device_state hostname iface_name state) (NMF_Change event)"

definition set_interface_states :: "nat \<Rightarrow> bool \<Rightarrow> js \<Rightarrow> nmf_state \<Rightarrow> nmf_state attempt" where
  "set_interface_states event checked node s =
     (case js_iterate (js_get node ''interfaces'') of
        None \<Rightarrow> (Some TypeError, s)
      | Some ifaces \<Rightarrow>
          each (\<lambda>iface s. attempt s (smap (\<lambda>n. api_change_remote_network_device_state event (js_get node ''node'') n (if checked then UP else DOWN) s)
            (js_index iface ''name''))) ifaces s)"

definition api_change_remote_network_device_state_answer :: "nat \<Rightarrow> reply \<Rightarrow> nmf_state \<Rightarrow> nmf_state" where
  "api_change_remote_network_device_state_answer event =
     answered (change_remote_network_device_state JUndef JUndef JUndef) (\<lambda>_. api_get_initial_device_states)
       (\<lambda>e s. report_error_or_message ''changing remote network state'' e (s\<lparr>nmf_events := (nmf_events s)[event := \<not> nmf_events s ! event]\<rparr>))"

definition api_get_initial_device_states_answer :: "reply \<Rightarrow> nmf_state \<Rightarrow> nmf_state" where
  "api_get_initial_device_states_answer =
     answered get_initial_device_states (\<lambda>response s. s\<lparr>nmf_nodes := Some response\<rparr>) (\<lambda>_. report_error ''retrieving initial device states'')"

text \<open>The user toggles the slider of the row \<open>i\<close>.\<close>

datatype nmf_action = NMF_Toggle nat bool

fun nmf_handle :: "nmf_action \<Rightarrow> nmf_state \<Rightarrow> nmf_state" where
  "nmf_handle (NMF_Toggle i b) s =
     (case nmf_nodes s of
        None \<Rightarrow> s
      | Some ns \<Rightarrow> if i < length ns then snd (set_interface_states (length (nmf_events s)) b (ns ! i) (s\<lparr>nmf_events := nmf_events s @ [b]\<rparr>)) else s)"

fun nmf_answer :: "nmf_request \<Rightarrow> reply \<Rightarrow> nmf_state \<Rightarrow> nmf_state" where
  "nmf_answer NMF_States = api_get_initial_device_states_answer"
| "nmf_answer (NMF_Change event) = api_change_remote_network_device_state_answer event"

definition nmf_step :: "nmf_action event \<Rightarrow> nmf_state \<Rightarrow> nmf_state" where
  "nmf_step = async_step nmf_handle nmf_answer (\<lambda>_ _ s. s)"

section \<open>The documentation\<close>

record ud_state = "(unit, unit) async" +
  zip_for_upload :: js
  space_name_form_control :: field
  ud_file_name :: js

definition ud_open :: ud_state where
  "ud_open = \<lparr>trace = [], matSnackBarRef = None, requests = [], dialogs = [], zip_for_upload = JNull,
     space_name_form_control = new_field (JStr []) (Some COMMON_VALIDATORS_is_valid_space_name), ud_file_name = JStr []\<rparr>"

definition open_update_documentation_message_dialog :: "ud_state \<Rightarrow> ud_state" where
  "open_update_documentation_message_dialog = open_dialog ''UpdateDocumentationMessageComponent'' JUndef ()"

definition api_upload_documentation :: "js \<Rightarrow> ud_state \<Rightarrow> ud_state" where
  "api_upload_documentation form_data = call (upload_documentation form_data) ()"

definition ud_upload_button_click :: "ud_state \<Rightarrow> ud_state" where
  "ud_upload_button_click s =
     settle s (smap (\<lambda>name.
         api_upload_documentation (JObj [(''upload_file'', zip_for_upload s), (''space_name'', fd_value (space_name_form_control s))])
           (displaySnackBar (JStr (''Loading '' @ str name @ ''...'')) (Some MAT_SNACKBAR_CONFIGURATION_60000_DUR) s))
       (js_index (zip_for_upload s) ''name''))"

definition handle_zip_file_input :: "js list \<Rightarrow> ud_state \<Rightarrow> ud_state" where
  "handle_zip_file_input files s =
     (let s = s\<lparr>zip_for_upload := (case files of [] \<Rightarrow> JNull | f # _ \<Rightarrow> f)\<rparr>
      in settle s (smap (\<lambda>name. s\<lparr>ud_file_name := name\<rparr>) (js_index (zip_for_upload s) ''name'')))"

text \<open>\<open>reset()\<close> of a control.\<close>

definition fd_reset :: "field \<Rightarrow> field" where
  "fd_reset f = fd_set JNull (f\<lparr>fd_dirty := False, fd_touched := False\<rparr>)"

definition api_upload_documentation_answer :: "reply \<Rightarrow> ud_state \<Rightarrow> ud_state" where
  "api_upload_documentation_answer =
     answered (upload_documentation JUndef)
       (\<lambda>response s. displaySnackBar (js_get response ''success_message'') (Some MAT_SNACKBAR_CONFIGURATION_60000_DUR)
          (s\<lparr>zip_for_upload := JNull, space_name_form_control := fd_reset (space_name_form_control s), ud_file_name := JNull\<rparr>))
       (report_error_or_message ''uploading documentation'')"

datatype ud_action = UD_File "js list" | UD_Type string | UD_Leave | UD_Guide | UD_Upload

fun ud_handle :: "ud_action \<Rightarrow> ud_state \<Rightarrow> ud_state" where
  "ud_handle (UD_File files) s = handle_zip_file_input files s"
| "ud_handle (UD_Type t) s = s\<lparr>space_name_form_control := fd_type t (space_name_form_control s)\<rparr>"
| "ud_handle UD_Leave s = s\<lparr>space_name_form_control := (space_name_form_control s)\<lparr>fd_touched := True\<rparr>\<rparr>"
| "ud_handle UD_Guide s = open_update_documentation_message_dialog s"
| "ud_handle UD_Upload s =
     (if truthy (zip_for_upload s) \<and> fd_valid (space_name_form_control s) \<and> fd_touched (space_name_form_control s)
      then ud_upload_button_click s else s)"

definition ud_step :: "ud_action event \<Rightarrow> ud_state \<Rightarrow> ud_state" where
  "ud_step = async_step ud_handle (\<lambda>_. api_upload_documentation_answer) (\<lambda>_ _ s. s)"

section \<open>The license\<close>

text \<open>\<open>ul_reading\<close> are the files being read; their contents arrive as events.\<close>

datatype ul_request = UL_Get | UL_Put

record ul_state = "(ul_request, unit) async" +
  json_for_upload :: js
  elastic_license :: js
  ul_file_name :: js
  ul_reading :: "js list"

definition ul_constructor :: ul_state where
  "ul_constructor = \<lparr>trace = [], matSnackBarRef = None, requests = [], dialogs = [], json_for_upload = JNull, elastic_license = JUndef,
     ul_file_name = JUndef, ul_reading = []\<rparr>"

definition api_get_elastic_license :: "ul_state \<Rightarrow> ul_state" where
  "api_get_elastic_license = call get_elastic_license UL_Get"

definition api_upload_elastic_license :: "js \<Rightarrow> ul_state \<Rightarrow> ul_state" where
  "api_upload_elastic_license license = call (upload_elastic_license license) UL_Put"

definition ul_ngOnInit :: "ul_state \<Rightarrow> ul_state" where
  "ul_ngOnInit s = api_get_elastic_license (s\<lparr>ul_file_name := JStr []\<rparr>)"

definition ul_upload_button_click :: "ul_state \<Rightarrow> ul_state" where
  "ul_upload_button_click s =
     settle s (smap (\<lambda>name.
         (displaySnackBar (JStr (''Loading '' @ str name @ ''...'')) (Some MAT_SNACKBAR_CONFIGURATION_60000_DUR) s)
           \<lparr>ul_reading := ul_reading s @ [json_for_upload s]\<rparr>)
       (js_index (json_for_upload s) ''name''))"

definition ul_onload :: "string \<Rightarrow> ul_state \<Rightarrow> ul_state" where
  "ul_onload result s = settle s (smap (\<lambda>license. api_upload_elastic_license license s) (JSON_parse result))"

definition handle_json_file_input :: "js list \<Rightarrow> ul_state \<Rightarrow> ul_state" where
  "handle_json_file_input files s =
     (let s = s\<lparr>json_for_upload := (case files of [] \<Rightarrow> JNull | f # _ \<Rightarrow> f)\<rparr>
      in settle s (smap (\<lambda>name. s\<lparr>ul_file_name := name\<rparr>) (js_index (json_for_upload s) ''name'')))"

definition api_get_elastic_license_answer :: "reply \<Rightarrow> ul_state \<Rightarrow> ul_state" where
  "api_get_elastic_license_answer =
     answered get_elastic_license (\<lambda>response s. s\<lparr>elastic_license := response\<rparr>) (report_error_or_message ''retrieving elastic license'')"

definition api_upload_elastic_license_answer :: "reply \<Rightarrow> ul_state \<Rightarrow> ul_state" where
  "api_upload_elastic_license_answer =
     answered (upload_elastic_license JUndef)
       (\<lambda>response s. displaySnackBar (js_get response ''success_message'') (Some MAT_SNACKBAR_CONFIGURATION_60000_DUR)
          (s\<lparr>json_for_upload := JNull, ul_file_name := JNull\<rparr>))
       (report_error_or_message ''uploading new elastic license'')"

datatype ul_action = UL_File "js list" | UL_Upload | UL_Loaded nat string

fun ul_handle :: "ul_action \<Rightarrow> ul_state \<Rightarrow> ul_state" where
  "ul_handle (UL_File files) s = handle_json_file_input files s"
| "ul_handle UL_Upload s = (if truthy (json_for_upload s) then ul_upload_button_click s else s)"
| "ul_handle (UL_Loaded i result) s =
     (if i < length (ul_reading s) then ul_onload result (s\<lparr>ul_reading := remove_nth i (ul_reading s)\<rparr>) else s)"

fun ul_answer :: "ul_request \<Rightarrow> reply \<Rightarrow> ul_state \<Rightarrow> ul_state" where
  "ul_answer UL_Get = api_get_elastic_license_answer"
| "ul_answer UL_Put = api_upload_elastic_license_answer"

definition ul_step :: "ul_action event \<Rightarrow> ul_state \<Rightarrow> ul_state" where
  "ul_step = async_step ul_handle ul_answer (\<lambda>_ _ s. s)"

end
