(* ===== verification/Tools_Facts.thy ===== *)
theory Tools_Facts
  imports Tools_Page Modal_Dialog
begin

text \<open>
  Properties of the tools: the password of the kit is always a strong one, and one that was repeated when it was typed
  with the keyboard; a slider shows whether an interface is down; documentation is uploaded for a well formed space.
\<close>

section \<open>The password of the kit\<close>

lemma common_is_kit:
  "COMMON_VALIDATORS_root_password = kitSettingsValidators_root_password" "COMMON_VALIDATORS_re_password = kitSettingsValidators_re_password"
  by (simp_all add: COMMON_VALIDATORS_root_password_def kitSettingsValidators_root_password_def COMMON_VALIDATORS_re_password_def
      kitSettingsValidators_re_password_def)

definition pw_controls :: "setting \<Rightarrow> setting \<Rightarrow> (string \<times> setting) list" where
  "pw_controls p r = [(''root_password'', p), (''re_password'', r)]"

text \<open>The first password is up to date; with \<open>b\<close> also the second.\<close>

definition pw_form :: "bool \<Rightarrow> settings_form \<Rightarrow> bool" where
  "pw_form b g \<longleftrightarrow>
     (\<exists>p r. sf_controls g = pw_controls p r \<and> text_pair False ''root_password'' p r \<and> password_ok p \<and> (b \<longrightarrow> repeated_ok p r))"

lemma pw_formE:
  assumes "pw_form b g"
  obtains p r where "sf_controls g = pw_controls p r" "text_pair False ''root_password'' p r" "password_ok p" "b \<Longrightarrow> repeated_ok p r"
  using assms by (auto simp: pw_form_def)

lemma pw_formI:
  "sf_controls g = pw_controls p r \<Longrightarrow> text_pair False ''root_password'' p r \<Longrightarrow> password_ok p \<Longrightarrow> (b \<Longrightarrow> repeated_ok p r) \<Longrightarrow> pw_form b g"
  by (auto simp: pw_form_def)

lemma pw_revalidated:
  assumes "pw_form b g"
  shows "pw_form True (snd (each updateValueAndValidity [''root_password'', ''re_password''] g))"
proof -
  obtain p r where g: "sf_controls g = pw_controls p r" "text_pair False ''root_password'' p r" by (rule pw_formE [OF assms])
  obtain p' r' where v: "\<forall>cs. setting_validate cs p = (None, p')" "\<forall>cs. map_of cs ''root_password'' = Some p' \<longrightarrow> setting_validate cs r = (None, r')"
    "password_pair False ''root_password'' p' r'"
    using pair_validated [OF g(2)] by blast
  have "each updateValueAndValidity [''root_password'', ''re_password''] g = (None, g\<lparr>sf_controls := pw_controls p' r'\<rparr>)"
    by (simp add: updateValueAndValidity_def on_setting_def g(1) pw_controls_def v(1,2) done_with_def)
  then show ?thesis using v(3) by (auto simp: password_pair_def intro: pw_formI)
qed

lemma pw_typed:
  assumes "pw_form b g"
  shows "pw_form False (snd (type_setting (JStr t) n g))"
proof -
  obtain p r where g: "sf_controls g = pw_controls p r" "text_pair False ''root_password'' p r" "password_ok p" by (rule pw_formE [OF assms])
  have p: "fd_rules p = Some kitSettingsValidators_root_password" "\<not> st_disabled p" and
    r: "fd_rules r = Some kitSettingsValidators_re_password" "\<not> st_disabled r" "st_parent r = Some ''root_password''"
    using g(2) by (simp_all add: text_pair_def)
  consider "n = ''root_password''" | "n = ''re_password''" | "n \<noteq> ''root_password''" "n \<noteq> ''re_password''" by blast
  then show ?thesis
  proof cases
    case 1
    let ?p = "p\<lparr>fd_dirty := True, fd_value := JStr t\<rparr>"
    have "setting_validate cs ?p = done_with (?p\<lparr>fd_valid := strong_password t\<rparr>)" for cs
      by (rule validate_password) (simp_all add: p)
    then have "snd (type_setting (JStr t) n g) = g\<lparr>sf_dirty := True, sf_controls := pw_controls (?p\<lparr>fd_valid := strong_password t\<rparr>) r\<rparr>"
      by (simp add: 1 type_setting_def set_setting_def on_setting_def g(1) pw_controls_def p done_with_def)
    then show ?thesis using g(2) by (auto simp: text_pair_def password_ok_def intro!: pw_formI)
  next
    case 2
    let ?r = "r\<lparr>fd_dirty := True, fd_value := JStr t\<rparr>"
    obtain v where v: "\<forall>cs. map_of cs ''root_password'' = Some p \<longrightarrow> setting_validate cs ?r = done_with (?r\<lparr>fd_valid := v\<rparr>)"
      using validate_repeated [of ?r t "''root_password''" _ p] r by auto
    then have "snd (type_setting (JStr t) n g) = g\<lparr>sf_dirty := True, sf_controls := pw_controls p (?r\<lparr>fd_valid := v\<rparr>)\<rparr>"
      by (simp add: 2 type_setting_def set_setting_def on_setting_def g(1) pw_controls_def r done_with_def)
    then show ?thesis using g(2,3) by (auto simp: text_pair_def password_ok_def intro!: pw_formI)
  next
    case 3
    then show ?thesis using g by (auto simp: type_setting_def pw_controls_def done_with_def pw_form_def)
  qed
qed

lemma pw_left:
  assumes "pw_form b g"
  shows "pw_form b (snd (leave_setting n g))"
proof -
  obtain p r where g: "sf_controls g = pw_controls p r" "text_pair False ''root_password'' p r" "password_ok p" "b \<Longrightarrow> repeated_ok p r"
    by (rule pw_formE [OF assms]) blast
  let ?touch = "\<lambda>m f. if n = m then f\<lparr>fd_touched := True\<rparr> else f"
  have "sf_controls (snd (leave_setting n g)) = pw_controls (?touch ''root_password'' p) (?touch ''re_password'' r)"
    by (simp add: leave_setting_def on_setting_def g(1) pw_controls_def done_with_def)
  then show ?thesis
    by (rule pw_formI) (use g(2-4) in \<open>auto simp: text_pair_def password_ok_def repeated_ok_def setting_stat_def\<close>)
qed

lemma pw_new: "\<exists>g. new_password_form = Inr g \<and> pw_form True g"
proof -
  define f where "f = (\<lambda>rules parent. \<lparr>fd_value = JStr [], fd_touched = False, fd_dirty = False, fd_rules = Some rules, fd_valid = True,
       st_disabled = False, st_parent = parent\<rparr>)"
  let ?p = "f kitSettingsValidators_root_password None" and ?r = "f kitSettingsValidators_re_password (Some ''root_password'')"
  have "text_pair False ''root_password'' ?p ?r" by (simp add: f_def text_pair_def)
  from pair_validated [OF this] obtain p' r' where v: "\<forall>cs. setting_validate cs ?p = (None, p')"
    "\<forall>cs. map_of cs ''root_password'' = Some p' \<longrightarrow> setting_validate cs ?r = (None, r')" "password_pair False ''root_password'' p' r'"
    by blast
  have "new_password_form = Inr \<lparr>sf_controls = pw_controls p' r', sf_dirty = False, sf_touched = False\<rparr>"
    using v(1,2) by (simp add: new_password_form_def new_form_def new_setting_def common_is_kit f_def pw_controls_def)
  then show ?thesis using v(3) by (auto simp: password_pair_def intro!: pw_formI)
qed

text \<open>While the confirmation is open, the form is valid: it cannot be used then.\<close>

definition pw_inv :: "bool \<Rightarrow> pw_state \<Rightarrow> bool" where
  "pw_inv b s \<longleftrightarrow>
     (\<exists>g. change_kit_password_form_group s = Some g \<and> pw_form b g \<and> (PW_Confirm \<in> set (dialogs s) \<longrightarrow> form_valid g)) \<and> length (dialogs s) \<le> 1"

fun keyboard :: "pw_action event \<Rightarrow> bool" where
  "keyboard (Act (PW_Paste n t)) = False"
| "keyboard _ = True"

lemma pw_inv_frame: "world.more s' = world.more s \<Longrightarrow> pw_inv b s' = pw_inv b s"
  by (cases s; cases s') (simp add: pw_inv_def)

lemma pw_inv_report [simp]:
  "pw_inv b (displaySnackBar m c s) = pw_inv b s" "pw_inv b (report_error_or_message t e s) = pw_inv b s"
  by (rule pw_inv_frame; simp)+

lemma pw_form_weaken: "pw_form True g \<Longrightarrow> pw_form b g"
  by (auto simp: pw_form_def)

lemma pw_inv_quiet [simp]:
  "seen f (s\<lparr>change_kit_password_form_group := w\<rparr>) = seen f s"
  by (simp add: seen_def)

lemma pw_inv_act:
  assumes "pw_inv b s" "dialogs s = []" "b \<longrightarrow> keyboard (Act a)"
  shows "pw_inv b (pw_act a s)"
proof -
  obtain g where g: "change_kit_password_form_group s = Some g" "pw_form b g" using assms(1) by (auto simp: pw_inv_def)
  show ?thesis
  proof (cases a)
    case (PW_Key n t)
    then show ?thesis
      using assms(2) pw_form_weaken [OF pw_revalidated [OF pw_typed [OF g(2), of t n]]] by (simp add: pw_inv_def pw_re_evaluate_def pw_on_form_def g(1))
  next
    case (PW_Paste n t)
    then show ?thesis using assms(2,3) pw_typed [OF g(2), of t n] by (cases b) (simp_all add: pw_inv_def pw_on_form_def g(1))
  next
    case (PW_Leave n)
    then show ?thesis using assms(2) pw_left [OF g(2), of n] by (simp add: pw_inv_def pw_on_form_def g(1))
  next
    case PW_RulesClick
    then show ?thesis using assms(2) g by (simp add: pw_inv_def pw_open_password_rules_dialog_def open_dialog_def emit_def)
  next
    case PW_UpdateClick
    then show ?thesis using assms(1,2) g by (auto simp: pw_inv_def pw_can_update_def update_button_click_def open_dialog_def emit_def)
  qed
qed

lemma pw_inv_async [simp]:
  "pw_inv b (call ep k s) = pw_inv b s" "pw_inv b (s\<lparr>requests := ks\<rparr>) = pw_inv b s"
  by (auto simp: pw_inv_def call_def request_def http_def emit_def)

lemma pw_inv_step:
  assumes "pw_inv b s" "b \<longrightarrow> keyboard ev"
  shows "pw_inv b (pw_step ev s)"
proof (cases ev)
  case (Act a)
  then show ?thesis using assms by (auto simp: pw_step_def async_step_def pw_handle_def intro: pw_inv_act)
next
  case (Answer i r)
  have "pw_inv b (api_change_kit_password_answer r t)" if "pw_inv b t" for t
    unfolding api_change_kit_password_answer_def
  proof (rule answered_keeps [where P = "pw_inv b", OF that])
    show "pw_inv b s'" if "world.more s' = world.more t" for s'
      using pw_inv_frame [OF that] \<open>pw_inv b t\<close> by simp
  qed (simp_all add: that)
  then show ?thesis using assms by (auto simp: Answer pw_step_def async_step_def)
next
  case (Closed i v)
  have "pw_inv b (s\<lparr>dialogs := remove_nth i (dialogs s)\<rparr>)"
    using assms(1) set_remove_nth [of i "dialogs s"] by (auto simp: pw_inv_def remove_nth_def)
  moreover have "pw_inv b (pw_closed d v t) = pw_inv b t" for d t
    by (cases d) (auto simp: update_button_click_closed_def api_change_kit_password_def split: option.split)
  ultimately show ?thesis using assms(1) by (simp add: Closed pw_step_def async_step_def)
qed

lemma pw_inv_reached: "(b \<longrightarrow> (\<forall>ev \<in> set evs. keyboard ev)) \<Longrightarrow> pw_inv b (fold pw_step evs pw_open)"
proof (induction evs rule: rev_induct)
  case Nil
  obtain g where g: "new_password_form = Inr g" "pw_form True g" using pw_new by blast
  show ?case
    using pw_form_weaken [OF g(2), of b] by (simp add: pw_inv_def pw_open_def initialize_change_kit_password_form_group_def settle_def smap_def g(1))
qed (simp add: pw_inv_step)

lemma pw_valid_form:
  assumes "pw_form b g" "form_valid g"
  obtains t u where "form_raw g = [(''root_password'', JStr t), (''re_password'', JStr u)]" "strong_password t" "b \<Longrightarrow> u = t"
proof -
  obtain p r where g: "sf_controls g = pw_controls p r" "text_pair False ''root_password'' p r" "password_ok p" "b \<Longrightarrow> repeated_ok p r"
    by (rule pw_formE [OF assms(1)]) blast
  obtain t u where v: "fd_value p = JStr t" "fd_value r = JStr u" using g(2) by (auto simp: text_pair_def)
  have ok: "fd_valid p" "fd_valid r" "\<not> st_disabled p" "\<not> st_disabled r"
    using g(1,2) assms(2) by (auto simp: form_valid_def any_enabled_def pw_controls_def text_pair_def)
  have "strong_password t" using g(3) ok v by (simp add: password_ok_def)
  moreover have "u = t" if b using g(4) [OF that] ok v by (simp add: repeated_ok_def)
  ultimately show thesis using that v by (simp add: form_raw_def g(1) pw_controls_def)
qed

lemma pw_sends:
  assumes "sent (pw_step ev s) \<noteq> sent s"
  obtains i where "ev = Closed i (JStr CONFIRM_DIALOG_OPTION)" "i < length (dialogs s)" "dialogs s ! i = PW_Confirm"
proof (cases ev)
  case (Act a)
  have "seen is_http (pw_act a s) = seen is_http s"
    by (cases a) (auto simp: pw_re_evaluate_def pw_on_form_def pw_open_password_rules_dialog_def update_button_click_def split: option.split)
  then show thesis using assms by (simp add: Act pw_step_def async_step_def pw_handle_def seen_http split: if_splits)
next
  case (Answer i r)
  have "seen is_http (api_change_kit_password_answer r t) = seen is_http t" for t
    by (simp add: api_change_kit_password_answer_def answered_quiet)
  then show thesis using assms by (simp add: Answer pw_step_def async_step_def seen_http [symmetric] split: if_splits)
next
  case (Closed i v)
  then show thesis
    using assms that by (cases "dialogs s ! i") (auto simp: pw_step_def async_step_def update_button_click_closed_def split: if_splits)
qed

lemma pw_confirm:
  assumes "i < length (dialogs s)" "dialogs s ! i = PW_Confirm" "change_kit_password_form_group s = Some g"
    "form_raw g = [(''root_password'', JStr t), (''re_password'', JStr u)]"
  shows "sent (pw_step (Closed i (JStr CONFIRM_DIALOG_OPTION)) s) =
    sent s @ [Http POST ''/api/tools/change-kit-password'' (JObj [(''root_password'', JStr t)])]"
  using assms
  by (simp add: pw_step_def async_step_def update_button_click_closed_def api_change_kit_password_def change_kit_password_def endpoint_def delete_key_def)

text \<open>C34: A request to change the password of the kit is sent with a password that keeps the policy; when the fields were filled
  with the keyboard only, the form holds the same password twice.\<close>

theorem kit_password_strong:
  assumes "sent (pw_step ev (fold pw_step evs pw_open)) \<noteq> sent (fold pw_step evs pw_open)"
  shows "\<exists>g t u. change_kit_password_form_group (fold pw_step evs pw_open) = Some g \<and>
    form_raw g = [(''root_password'', JStr t), (''re_password'', JStr u)] \<and> strong_password t \<and> ((\<forall>e \<in> set evs. keyboard e) \<longrightarrow> u = t) \<and>
    sent (pw_step ev (fold pw_step evs pw_open)) =
      sent (fold pw_step evs pw_open) @ [Http POST ''/api/tools/change-kit-password'' (JObj [(''root_password'', JStr t)])]"
proof -
  let ?s = "fold pw_step evs pw_open" and ?b = "\<forall>e \<in> set evs. keyboard e"
  have inv: "pw_inv ?b ?s" by (rule pw_inv_reached) simp
  obtain i where ev: "ev = Closed i (JStr CONFIRM_DIALOG_OPTION)" "i < length (dialogs ?s)" "dialogs ?s ! i = PW_Confirm"
    by (rule pw_sends [OF assms])
  then have "PW_Confirm \<in> set (dialogs ?s)" by (metis nth_mem)
  then obtain g where g: "change_kit_password_form_group ?s = Some g" "pw_form ?b g" "form_valid g" using inv by (auto simp: pw_inv_def)
  obtain t u where v: "form_raw g = [(''root_password'', JStr t), (''re_password'', JStr u)]" "strong_password t" "?b \<Longrightarrow> u = t"
    by (rule pw_valid_form [OF g(2,3)]) blast
  have "sent (pw_step ev ?s) = sent ?s @ [Http POST ''/api/tools/change-kit-password'' (JObj [(''root_password'', JStr t)])]"
    unfolding ev(1) using ev(2,3) g(1) v(1) by (rule pw_confirm)
  with g(1) v show ?thesis by blast
qed

text \<open>Three interactions: the password is typed, repeated, and another one is pasted over the first, without a key.\<close>

definition pw_typing :: "pw_action event list" where
  "pw_typing = map Act [PW_Key ''root_password'' ''Abcdefgh-123456'', PW_Key ''re_password'' ''Abcdefgh-123456'', PW_Leave ''re_password'']"

definition pw_update :: "pw_action event list" where
  "pw_update = [Act PW_UpdateClick, Closed 0 (JStr CONFIRM_DIALOG_OPTION)]"

lemma kit_password_strong_witness:
  "\<exists>g t u. change_kit_password_form_group (fold pw_step (pw_typing @ [Act PW_UpdateClick]) pw_open) = Some g \<and>
    form_raw g = [(''root_password'', JStr t), (''re_password'', JStr u)] \<and> strong_password t \<and> u = t \<and>
    sent (pw_step (Closed 0 (JStr CONFIRM_DIALOG_OPTION)) (fold pw_step (pw_typing @ [Act PW_UpdateClick]) pw_open)) =
      [Http POST ''/api/tools/change-kit-password'' (JObj [(''root_password'', JStr t)])]"
proof -
  let ?s = "fold pw_step (pw_typing @ [Act PW_UpdateClick]) pw_open"
  have "sent ?s = []" by code_simp
  moreover have "sent (pw_step (Closed 0 (JStr CONFIRM_DIALOG_OPTION)) ?s) \<noteq> sent ?s" by code_simp
  moreover have "\<forall>e \<in> set (pw_typing @ [Act PW_UpdateClick]). keyboard e" by (simp add: pw_typing_def)
  ultimately show ?thesis
    using kit_password_strong [of "Closed 0 (JStr CONFIRM_DIALOG_OPTION)" "pw_typing @ [Act PW_UpdateClick]"] by auto
qed

lemma pasted_password_not_repeated:
  "sent (fold pw_step (pw_typing @ [Act (PW_Paste ''root_password'' ''Zyxwvuts-987654'')] @ pw_update) pw_open) =
    [Http POST ''/api/tools/change-kit-password'' (JObj [(''root_password'', JStr ''Zyxwvuts-987654'')])]"
  by code_simp

section \<open>The slider of a node\<close>

lemma all_up_iff:
  assumes "mapS (\<lambda>iface. js_index iface ''state'') ifaces = Inr states"
  shows "all_up ifaces = Inr (DOWN \<notin> set states)"
  using assms by (induction ifaces arbitrary: states) (auto simp: sbind_Inr_iff smap_Inr_iff sbind_def smap_def split: sum.splits)

text \<open>The toggle of a node asks for the same state of each of its interfaces, in their order.\<close>

lemma toggle_requests:
  assumes "js_iterate (js_get node ''interfaces'') = Some ifaces" "mapS (\<lambda>iface. js_index iface ''name'') ifaces = Inr names"
  shows "sent (snd (set_interface_states event b node s)) = sent s @
    map (\<lambda>n. Http PUT (''/api/tools/'' @ str (js_get node ''node'') @ ''/set-interface-state/'' @ str n @ ''/'' @ str (if b then UP else DOWN)) (JObj [])) names"
proof -
  have "sent (snd (each (\<lambda>iface s. attempt s (smap (\<lambda>n. api_change_remote_network_device_state event (js_get node ''node'') n (if b then UP else DOWN) s)
      (js_index iface ''name''))) ifaces s)) = sent s @
    map (\<lambda>n. Http PUT (''/api/tools/'' @ str (js_get node ''node'') @ ''/set-interface-state/'' @ str n @ ''/'' @ str (if b then UP else DOWN)) (JObj [])) names"
    using assms(2)
  proof (induction ifaces arbitrary: names s)
    case (Cons iface ifaces)
    then obtain n rest where "js_index iface ''name'' = Inr n" "mapS (\<lambda>iface. js_index iface ''name'') ifaces = Inr rest" "names = n # rest"
      by (auto simp: sbind_def smap_def split: sum.splits)
    then show ?case
      using Cons.IH [of rest] by (simp add: attempt_def api_change_remote_network_device_state_def change_remote_network_device_state_def endpoint_def)
  qed simp
  then show ?thesis by (simp add: set_interface_states_def assms(1))
qed

text \<open>Each failure turns \<open>event.checked\<close> around, so that after an even number of failures it is what the user has asked for.\<close>

lemma failures_turn_around:
  assumes "event < length (nmf_events s)"
  shows "nmf_events (api_change_remote_network_device_state_answer event (Failure f) s) = (nmf_events s)[event := \<not> nmf_events s ! event]"
proof -
  have more: "nmf_events (t :: nmf_state) = nmf_events u" if "async.more t = async.more u" for t u
    using that by (cases t; cases u) simp
  show ?thesis
    by (simp add: api_change_remote_network_device_state_answer_def answered_def subscribe_def case_prod_beta Let_def
        more [of "report_error_or_message _ _ _", OF messages_async(10)] more [of "fst (request_failed _ _ _)", OF request_failed_async(1)])
qed

section \<open>The documentation\<close>

lemma text_rule_space: "text_rule COMMON_VALIDATORS_is_valid_space_name (\<lambda>t. t \<noteq> [] \<and> test_full SPACE_NAME_CONSTRAINT t)"
  by (simp add: text_rule_def fd_validate_def COMMON_VALIDATORS_is_valid_space_name_def validateFromArray_def fd_control_def required_str pattern_str)

definition space_ok :: "field \<Rightarrow> bool" where
  "space_ok f \<longleftrightarrow> fd_rules f = Some COMMON_VALIDATORS_is_valid_space_name \<and>
     (fd_valid f \<longrightarrow> (\<exists>t. fd_value f = JStr t \<and> test_full SPACE_NAME_CONSTRAINT t))"

lemma space_ok_typed: "space_ok f \<Longrightarrow> space_ok (fd_type t f)"
  using text_rule_space by (simp add: space_ok_def text_rule_def fd_type_def fd_set_def settle_def)

lemma space_ok_reset: "space_ok f \<Longrightarrow> space_ok (fd_reset f)"
  by (simp add: space_ok_def fd_reset_def fd_set_def settle_def fd_validate_def COMMON_VALIDATORS_is_valid_space_name_def validateFromArray_def
      fd_control_def requiredField_def notUndefNull_def patternValidator_def vo_regex_def vo_simple_def run_validator_def Let_def)

definition ud_inv :: "ud_state \<Rightarrow> bool" where
  "ud_inv s \<longleftrightarrow> space_ok (space_name_form_control s) \<and>
     (\<forall>m u v. Http m u v \<in> set (seen is_http s) \<longrightarrow> (\<exists>t. js_get v ''space_name'' = JStr t \<and> test_full SPACE_NAME_CONSTRAINT t))"

lemma ud_inv_fields [simp]:
  "space_ok (space_name_form_control s) \<Longrightarrow> ud_inv (s\<lparr>space_name_form_control := f\<rparr>) = (space_ok f \<and> ud_inv s)"
  "ud_inv (s\<lparr>zip_for_upload := v\<rparr>) = ud_inv s" "ud_inv (s\<lparr>ud_file_name := v\<rparr>) = ud_inv s"
  "ud_inv (s\<lparr>requests := ks\<rparr>) = ud_inv s" "ud_inv (s\<lparr>dialogs := ds\<rparr>) = ud_inv s"
  by (auto simp: ud_inv_def seen_def)

lemma ud_inv_frame: "world.more s' = world.more s \<Longrightarrow> seen is_http s' = seen is_http s \<Longrightarrow> ud_inv s' = ud_inv s"
  by (cases s; cases s') (simp add: ud_inv_def)

lemma ud_inv_display [simp]: "ud_inv (displaySnackBar m c s) = ud_inv s" "ud_inv (report_error_or_message t e s) = ud_inv s"
  "ud_inv (open_dialog n v d s) = ud_inv s"
proof -
  show "ud_inv (displaySnackBar m c s) = ud_inv s" "ud_inv (report_error_or_message t e s) = ud_inv s"
    by (rule ud_inv_frame; simp)+
  show "ud_inv (open_dialog n v d s) = ud_inv s" by (simp add: ud_inv_def open_dialog_def emit_def seen_def)
qed

lemma ud_inv_upload:
  assumes "ud_inv s" "fd_valid (space_name_form_control s)"
  shows "ud_inv (ud_upload_button_click s)"
proof (cases "js_index (zip_for_upload s) ''name''")
  case (Inr name)
  let ?body = "JObj [(''upload_file'', zip_for_upload s), (''space_name'', fd_value (space_name_form_control s))]"
  have "ud_inv (call (upload_documentation ?body) () t)" if "ud_inv t" for t
    using that assms by (auto simp: ud_inv_def space_ok_def call_def request_def http_def emit_def seen_def upload_documentation_def endpoint_def)
  then show ?thesis using assms(1) by (simp add: ud_upload_button_click_def settle_def smap_def Inr api_upload_documentation_def)
qed (simp add: ud_upload_button_click_def settle_def smap_def assms(1))

lemma ud_inv_step: "ud_inv s \<Longrightarrow> ud_inv (ud_step ev s)"
proof (cases ev)
  case (Act a)
  assume s: "ud_inv s"
  then have space: "space_ok (space_name_form_control s)" by (simp add: ud_inv_def)
  have "space_ok (f\<lparr>fd_touched := True\<rparr>) = space_ok f" for f by (simp add: space_ok_def)
  then have "ud_inv (ud_handle a s)"
    using s space by (cases a)
      (auto simp: handle_zip_file_input_def settle_def smap_def Let_def open_update_documentation_message_dialog_def space_ok_typed ud_inv_upload
        split: sum.split)
  then show ?thesis by (simp add: Act ud_step_def async_step_def)
next
  case (Answer i r)
  assume s: "ud_inv s"
  have "ud_inv (api_upload_documentation_answer r t)" if t: "ud_inv t" and space: "space_ok (space_name_form_control t)" for t
    unfolding api_upload_documentation_answer_def
  proof (rule answered_keeps [where P = ud_inv, OF t])
    show "ud_inv (displaySnackBar (js_get x ''success_message'') (Some MAT_SNACKBAR_CONFIGURATION_60000_DUR)
          (t\<lparr>zip_for_upload := JNull, space_name_form_control := fd_reset (space_name_form_control t), ud_file_name := JNull\<rparr>))" for x
      using t space space_ok_reset [OF space] by simp
    show "ud_inv u" if "world.more u = world.more t" "\<And>f. no_reports f \<Longrightarrow> seen f u = seen f t" for u
      using ud_inv_frame [OF that(1)] that(2) t by simp
  qed simp
  moreover have "space_ok (space_name_form_control s)" using s by (simp add: ud_inv_def)
  ultimately show ?thesis using s by (simp add: Answer ud_step_def async_step_def)
qed (simp add: ud_step_def async_step_def)

interpretation ud_machine: event_machine ud_step ud_inv
  by unfold_locales (rule ud_inv_step)

text \<open>Documentation is uploaded only for a space whose name is one to fifty letters.\<close>

theorem uploads_named_spaces:
  assumes "Http m u v \<in> set (sent (fold ud_step evs ud_open))"
  shows "\<exists>t. js_get v ''space_name'' = JStr t \<and> test_full SPACE_NAME_CONSTRAINT t"
proof -
  have "space_ok (space_name_form_control ud_open)"
    using text_rule_space by (simp add: ud_open_def new_field_def settle_def space_ok_def text_rule_def Let_def)
  then have "ud_inv ud_open" by (simp add: ud_inv_def seen_def) (simp add: ud_open_def)
  from ud_machine.run_inv [OF this, of evs] show ?thesis using assms by (auto simp: ud_inv_def seen_http)
qed

section \<open>The license\<close>

text \<open>A file that is no JSON is not sent, and nobody is told: the message that it is loading stays.\<close>

lemma invalid_license_silent: "JSON_parse content = Inl e \<Longrightarrow> ul_onload content s = s"
  by (simp add: ul_onload_def settle_def smap_def)

lemma valid_license_sent:
  "JSON_parse content = Inr license \<Longrightarrow> sent (ul_onload content s) = sent s @ [Http PUT ''/api/tools/es_license'' license]"
  by (simp add: ul_onload_def settle_def smap_def api_upload_elastic_license_def upload_elastic_license_def endpoint_def)

end
