(* ===== verification/Support_Page.thy ===== *)
theory Support_Page
  imports More_Services Effects
begin

text \<open>
  \<open>modules/pmo-support/pmo-support.component.ts\<close>: the version of the system, and the diagnostics that the backend
  collects and the page then downloads. The backend announces over the socket that its script has ended; the message
  carries the exit code but not the job.
\<close>

section \<open>State\<close>

datatype ps_request = PS_Version | PS_Diagnostics | PS_Download

text \<open>The progress is the two numbers of which the page shows the percentage.\<close>

record ps_state = "(ps_request, unit) async" +
  system_version :: js
  diagnostics_job_id :: js
  diagnostics_download_progress :: "(js \<times> js) option"
  running_diagnostics_script :: js

definition ps_constructor :: ps_state where
  "ps_constructor = \<lparr>trace = [], matSnackBarRef = None, requests = [], dialogs = [], system_version = JUndef, diagnostics_job_id = JUndef,
     diagnostics_download_progress = None, running_diagnostics_script = JUndef\<rparr>"

definition is_system_version_defined :: "ps_state \<Rightarrow> bool" where
  "is_system_version_defined s = notUndefNull (system_version s)"

definition is_running_diagnostics_script_defined :: "ps_state \<Rightarrow> bool" where
  "is_running_diagnostics_script_defined s = notUndefNull (running_diagnostics_script s)"

definition is_diagnostics_download_progress_defined :: "ps_state \<Rightarrow> bool" where
  "is_diagnostics_download_progress_defined s \<longleftrightarrow> diagnostics_download_progress s \<noteq> None"

definition is_diagnostics_job_id_defined :: "ps_state \<Rightarrow> bool" where
  "is_diagnostics_job_id_defined s = notUndefNull (diagnostics_job_id s)"

section \<open>Operations\<close>

definition api_get_system_version :: "ps_state \<Rightarrow> ps_state" where
  "api_get_system_version = call get_system_version PS_Version"

definition api_diagnostics :: "ps_state \<Rightarrow> ps_state" where
  "api_diagnostics = call diagnostics PS_Diagnostics"

definition api_download_diagnostics :: "ps_state \<Rightarrow> ps_state" where
  "api_download_diagnostics s = call (download_diagnostics (diagnostics_job_id s)) PS_Download s"

definition ps_ngOnInit :: "ps_state \<Rightarrow> ps_state" where
  "ps_ngOnInit s =
     api_get_system_version (emit (SetTitle ''Support'')
       (displaySnackBar (JStr ''Be cognizant downloading log files and then uploading them to service now if they are from a classified network.'')
          (Some MAT_SNACKBAR_CONFIGURATION_60000_DUR) s))"

definition ps_diagnostics :: "ps_state \<Rightarrow> ps_state" where
  "ps_diagnostics = api_diagnostics"

text \<open>The message \<open>diagnostics_finished_running\<close>.\<close>

definition diagnostics_finished :: "js \<Rightarrow> ps_state \<Rightarrow> ps_state" where
  "diagnostics_finished rc s =
     (let s = s\<lparr>running_diagnostics_script := JNull\<rparr>
      in if rc = JNum 0 then api_download_diagnostics s
         else generate_return_error_snackbar_message ''Diagnostics script failed.'' (Some MAT_SNACKBAR_CONFIGURATION_60000_DUR)
                (s\<lparr>diagnostics_job_id := JNull\<rparr>))"

definition api_get_system_version_answer :: "reply \<Rightarrow> ps_state \<Rightarrow> ps_state" where
  "api_get_system_version_answer =
     answered get_system_version (\<lambda>response s. s\<lparr>system_version := response\<rparr>) (\<lambda>_. report_error ''retrieving system version'')"

definition api_diagnostics_answer :: "reply \<Rightarrow> ps_state \<Rightarrow> ps_state" where
  "api_diagnostics_answer =
     answered diagnostics
       (\<lambda>response s. s\<lparr>diagnostics_job_id := js_get response ''job_id'', running_diagnostics_script := JBool True\<rparr>)
       (\<lambda>_. report_error ''starting diagnostics download'')"

text \<open>The stream of a download: events of progress come before the answer; the events of other types are ignored.\<close>

definition download_progress :: "js \<Rightarrow> js \<Rightarrow> ps_state \<Rightarrow> ps_state" where
  "download_progress loaded whole s = s\<lparr>diagnostics_download_progress := Some (loaded, whole)\<rparr>"

definition api_download_diagnostics_answer :: "reply \<Rightarrow> ps_state \<Rightarrow> ps_state" where
  "api_download_diagnostics_answer =
     answered (download_diagnostics JUndef)
       (\<lambda>_ s. (emit (SaveFile ''diagnostics.tar.gz'') s)\<lparr>diagnostics_job_id := JNull, diagnostics_download_progress := None\<rparr>)
       (\<lambda>_. report_error ''downloading diagnostics'')"

datatype ps_action = PS_Click | PS_Finished js | PS_Progress nat js js

fun ps_handle :: "ps_action \<Rightarrow> ps_state \<Rightarrow> ps_state" where
  "ps_handle PS_Click s = (if is_diagnostics_job_id_defined s then s else ps_diagnostics s)"
| "ps_handle (PS_Finished rc) s = diagnostics_finished rc s"
| "ps_handle (PS_Progress i loaded whole) s =
     (if i < length (requests s) \<and> requests s ! i = PS_Download then download_progress loaded whole s else s)"

fun ps_answer :: "ps_request \<Rightarrow> reply \<Rightarrow> ps_state \<Rightarrow> ps_state" where
  "ps_answer PS_Version = api_get_system_version_answer"
| "ps_answer PS_Diagnostics = api_diagnostics_answer"
| "ps_answer PS_Download = api_download_diagnostics_answer"

definition ps_step :: "ps_action event \<Rightarrow> ps_state \<Rightarrow> ps_state" where
  "ps_step = async_step ps_handle ps_answer (\<lambda>_ _ s. s)"

definition ps_open :: ps_state where
  "ps_open = ps_ngOnInit ps_constructor"

section \<open>Properties\<close>

text \<open>From the click to the file: the answer names the job, the message starts its download, the download saves the file and
  the button can be used again.\<close>

lemma ps_more:
  assumes "async.more (s :: ps_state) = async.more t"
  shows "diagnostics_job_id s = diagnostics_job_id t" "running_diagnostics_script s = running_diagnostics_script t"
    "diagnostics_download_progress s = diagnostics_download_progress t"
  using assms by (cases s; cases t; simp)+

lemma diagnostics_started:
  assumes "new_GenericJobAndKeyClass v = Inr response"
  shows "diagnostics_job_id (api_diagnostics_answer (Reply v) s) = js_get response ''job_id'' \<and>
    is_running_diagnostics_script_defined (api_diagnostics_answer (Reply v) s)"
  using assms by (simp add: api_diagnostics_answer_def answered_def subscribe_def diagnostics_def endpoint_def is_running_diagnostics_script_defined_def
      notUndefNull_def)

lemma diagnostics_downloaded:
  "sent (diagnostics_finished (JNum 0) s) = sent s @ [Http GET (''/api/diagnostics/download/'' @ str (diagnostics_job_id s)) JUndef] \<and>
   \<not> is_running_diagnostics_script_defined (diagnostics_finished (JNum 0) s)"
  by (simp add: diagnostics_finished_def Let_def api_download_diagnostics_def download_diagnostics_def endpoint_def is_running_diagnostics_script_defined_def
      notUndefNull_def ps_more [of "call _ _ _", OF call_frame(4)]) (simp add: sent_def)

lemma diagnostics_saved:
  "SaveFile ''diagnostics.tar.gz'' \<in> set (trace (api_download_diagnostics_answer (Reply v) s)) \<and>
   \<not> is_diagnostics_job_id_defined (api_download_diagnostics_answer (Reply v) s)"
  by (simp add: api_download_diagnostics_answer_def answered_def subscribe_def download_diagnostics_def endpoint_def as_is_def
      is_diagnostics_job_id_defined_def notUndefNull_def)

text \<open>The message of a script that another user has started makes the page download a job it does not have.\<close>

lemma other_diagnostics_downloaded:
  "sent (ps_step (Act (PS_Finished (JNum 0))) ps_open) = sent ps_open @ [Http GET ''/api/diagnostics/download/undefined'' JUndef]"
  by code_simp

text \<open>After a download that has failed the button stays disabled, whatever happens but another message.\<close>

lemma failed_download_disables:
  assumes "is_diagnostics_job_id_defined s"
  shows "is_diagnostics_job_id_defined (api_download_diagnostics_answer (Failure f) s)"
  using assms
  by (simp add: api_download_diagnostics_answer_def answered_def subscribe_def case_prod_beta Let_def is_diagnostics_job_id_defined_def
      ps_more [of "report_error _ _", OF messages_async(7)] ps_more [of "fst (request_failed _ _ _)", OF request_failed_async(1)])

end
