(* ===== verification/Node_Forms.thy ===== *)
theory Node_Forms
  imports Form_Fields Mip_Management
begin

text \<open>
  What the dialogs that add a node and a MIP share: a form group of fields whose validators capture arrays,
  \<open>modules/global-components/components/virtual-node-form/\<close>, and the control that completes addresses in
  \<open>modules/global-components/components/unused-ipaddress-autocomplete-ctrl/\<close>.

  A validator made with \<open>{ uniqueArray: xs }\<close> keeps the array itself: it sees what is pushed later, but not
  another array that the dialog assigns to its field. Arrays therefore live in a list of arrays and a field
  holds the index of its array.
\<close>

section \<open>Form groups\<close>

record node_field = field +
  nf_unique :: "nat option"

type_synonym node_group = "(string \<times> node_field) list"

definition unique_ops :: "js list \<Rightarrow> validator_ops" where
  "unique_ops vs = \<lparr>uniqueArray = PlainArray vs, formControlName = None, ops_index = None, parentControl = None,
     parentFormGroup = None, minRequiredArray = NoArray, minRequireControl = [], minRequiredValue = JUndef, minRequired = 0,
     error_message_subject = None\<rparr>"

definition nf_check :: "js list list \<Rightarrow> node_field \<Rightarrow> js_error + node_field" where
  "nf_check arrays f =
     (case fd_rules f of
        None \<Rightarrow> Inr (f\<lparr>fd_valid := True\<rparr>)
      | Some vs \<Rightarrow> smap (\<lambda>error. f\<lparr>fd_valid := (error = None)\<rparr>)
          (validateFromArray vs (map_option (\<lambda>i. unique_ops (arrays ! i)) (nf_unique f)) (fd_control (field.truncate f))))"

text \<open>\<open>new FormControl(v, validators)\<close> validates at once.\<close>

definition new_node_field :: "js list list \<Rightarrow> js \<Rightarrow> (validator_object list \<times> nat option) option \<Rightarrow> node_field" where
  "new_node_field arrays v rules =
     (let f = field.extend (new_field v None) \<lparr>nf_unique = Option.bind rules snd\<rparr>;
          g = f\<lparr>fd_rules := map_option fst rules\<rparr>
      in settle g (nf_check arrays g))"

text \<open>\<open>group.get(name).method()\<close> throws when there is no such control.\<close>

definition on_field :: "string \<Rightarrow> (node_field \<Rightarrow> js_error + node_field) \<Rightarrow> node_group \<Rightarrow> node_group attempt" where
  "on_field name f g =
     (case map_of g name of
        None \<Rightarrow> (Some TypeError, g)
      | Some c \<Rightarrow> attempt g (smap (\<lambda>c'. AList.update name c' g) (f c)))"

definition read_field :: "string \<Rightarrow> node_group \<Rightarrow> js_error + js" where
  "read_field name g = (case map_of g name of None \<Rightarrow> Inl TypeError | Some c \<Rightarrow> Inr (fd_value c))"

definition put_value :: "js list list \<Rightarrow> js \<Rightarrow> string \<Rightarrow> node_group \<Rightarrow> node_group attempt" where
  "put_value arrays v name g =
     and_then (on_field name (\<lambda>c. Inr (c\<lparr>fd_value := v\<rparr>)) g) (on_field name (nf_check arrays))"

definition set_rules :: "(validator_object list \<times> nat option) option \<Rightarrow> string \<Rightarrow> node_group \<Rightarrow> node_group attempt" where
  "set_rules rules name = on_field name (\<lambda>c. Inr (c\<lparr>fd_rules := map_option fst rules, nf_unique := Option.bind rules snd\<rparr>))"

definition fresh_mark :: "string \<Rightarrow> node_group \<Rightarrow> node_group attempt" where
  "fresh_mark name = on_field name (\<lambda>c. Inr (c\<lparr>fd_dirty := False, fd_touched := False\<rparr>))"

text \<open>\<open>reset_form_control_\<close>, and \<open>reset()\<close> of a control, which sets its value to \<open>null\<close>.\<close>

definition reset_form_control :: "js list list \<Rightarrow> string \<Rightarrow> node_group \<Rightarrow> node_group attempt" where
  "reset_form_control arrays name g = and_then (fresh_mark name g) (on_field name (nf_check arrays))"

definition reset_to_null :: "js list list \<Rightarrow> string \<Rightarrow> node_group \<Rightarrow> node_group attempt" where
  "reset_to_null arrays name g = and_then (fresh_mark name g) (put_value arrays JNull name)"

definition group_valid :: "node_group \<Rightarrow> bool" where
  "group_valid g \<longleftrightarrow> (\<forall>(n, c) \<in> set g. fd_valid c)"

definition getRawValue :: "node_group \<Rightarrow> js" where
  "getRawValue g = JObj (map (\<lambda>(n, c). (n, fd_value c)) g)"

text \<open>When a form is bound to its template all its controls are validated once more.\<close>

definition bind_group :: "js list list \<Rightarrow> node_group \<Rightarrow> node_group" where
  "bind_group arrays g = map (\<lambda>(n, c). (n, settle c (nf_check arrays c))) g"

text \<open>\<open>setControl\<close> puts the new control in the place of the old one, or removes it.\<close>

definition setControl :: "string \<Rightarrow> node_field option \<Rightarrow> node_group \<Rightarrow> node_group" where
  "setControl name c g = AList.delete name g @ (case c of None \<Rightarrow> [] | Some c \<Rightarrow> [(name, c)])"

section \<open>The form of a virtual machine\<close>

definition set_virtual_group_values :: "js list list \<Rightarrow> int \<Rightarrow> int \<Rightarrow> int \<Rightarrow> int option \<Rightarrow> node_group \<Rightarrow> node_group attempt" where
  "set_virtual_group_values arrays cpu_cores memory_size os_drive_size data_drive_size g =
     and_then (put_value arrays (JNum cpu_cores) ''virtual_cpu'' g) (\<lambda>g.
     and_then (put_value arrays (JNum memory_size) ''virtual_mem'' g) (\<lambda>g.
     and_then (put_value arrays (JNum os_drive_size) ''virtual_os'' g) (\<lambda>g.
     done_with (setControl ''virtual_data'' (map_option (\<lambda>n. new_node_field arrays (JNum n) None) data_drive_size) g))))"

definition set_default_values :: "js list list \<Rightarrow> js \<Rightarrow> node_group \<Rightarrow> node_group attempt" where
  "set_default_values arrays node_type =
     (if node_type = SERVER \<or> node_type = SENSOR then set_virtual_group_values arrays 16 32 100 (Some 500)
      else if node_type = SERVICE then set_virtual_group_values arrays 16 24 100 (Some 500)
      else if node_type = MIP then set_virtual_group_values arrays 8 8 500 None
      else if node_type = MINIO then set_virtual_group_values arrays 8 8 100 (Some 10000)
      else if node_type = CONTROL_PLANE then set_virtual_group_values arrays 8 8 50 None
      else done_with)"

definition has_data_drive :: "node_group \<Rightarrow> bool" where
  "has_data_drive g \<longleftrightarrow> map_of g ''virtual_data'' \<noteq> None"

definition virtual_rules :: "node_group \<Rightarrow> (string \<times> validator_object list) list" where
  "virtual_rules g =
     [(''virtual_cpu'', addNodeValidators_virtual_cpu), (''virtual_mem'', addNodeValidators_virtual_mem),
      (''virtual_os'', addNodeValidators_virtual_os_drive)] @
     (if has_data_drive g then [(''virtual_data'', addNodeValidators_virtual_data_drive)] else [])"

definition set_virtual_form_validation :: "js list list \<Rightarrow> js \<Rightarrow> node_group \<Rightarrow> node_group attempt" where
  "set_virtual_form_validation arrays chosen_value g =
     and_then (each (\<lambda>(n, vs). set_rules (if chosen_value = VIRTUAL then Some (vs, None) else None) n) (virtual_rules g) g)
       (each (reset_form_control arrays) (map fst (virtual_rules g)))"

section \<open>Completing addresses\<close>

text \<open>The options shown for the typed value; a value that is no string has no \<open>toLowerCase\<close>.\<close>

definition filter_addresses :: "string list \<Rightarrow> js \<Rightarrow> js_error + string list" where
  "filter_addresses options v =
     (if notUndefNull v
      then smap (\<lambda>t. filter (\<lambda>option_text. str_includes (toLowerCase option_text) (toLowerCase t)) options) (as_string v)
      else Inr options)"

definition autocomplete_changed :: "js list list \<Rightarrow> bool \<Rightarrow> string \<Rightarrow> node_group \<Rightarrow> node_group attempt" where
  "autocomplete_changed arrays emptied name g =
     (if emptied then and_then (fresh_mark name g) (put_value arrays (JStr []) name) else done_with g)"

section \<open>What the user does in a form\<close>

definition type_field :: "js list list \<Rightarrow> string \<Rightarrow> js \<Rightarrow> node_group \<Rightarrow> node_group attempt" where
  "type_field arrays name v g =
     and_then (put_value arrays v name g) (on_field name (\<lambda>c. Inr (c\<lparr>fd_dirty := True\<rparr>)))"

definition leave_field :: "string \<Rightarrow> node_group \<Rightarrow> node_group attempt" where
  "leave_field name = on_field name (\<lambda>c. Inr (c\<lparr>fd_touched := True\<rparr>))"

end
