(* ===== verification/Add_Node_Dialog.thy ===== *)
theory Add_Node_Dialog
  imports Node_Forms
begin

text \<open>
  \<open>modules/node-mng/components/add-node-dialog/add-node-dialog.component.ts\<close>: the dialog that adds a node.
  It loads the status and the settings of the kit and the addresses in use, builds the form, adjusts its
  validators and the addresses it offers when the type of the node or of its deployment changes, and adds
  the node. With \<open>Duplicate Node\<close> it stays open with a form for the next node.
\<close>

section \<open>State\<close>

datatype an_request = AN_KitStatus | AN_General | AN_Unused bool | AN_Used bool | AN_Add

record an_state = "(an_request, unit) async" +
  an_form :: "node_group option"
  an_control_plane_detected :: bool
  an_minio_detected :: bool
  an_available_ips :: js
  an_used_ips :: js
  an_node_type :: js
  an_options :: "(js \<times> bool) list"
  an_duplicate :: bool
  an_settings :: js
  an_kit_status :: js
  an_kit_settings :: js
  an_nodes :: "js list"
  an_setup_nodes :: "js list"
  an_arrays :: "js list list"
  an_hostnames :: nat
  an_ips :: nat
  an_k8_ips :: "js list"
  an_macs :: nat
  an_wait :: bool

definition an_constructor :: "js \<Rightarrow> js list \<Rightarrow> js list \<Rightarrow> an_state" where
  "an_constructor kit_settings_data nodes_data setup_nodes_data =
     \<lparr>trace = [], matSnackBarRef = None, requests = [], dialogs = [], an_form = None, an_control_plane_detected = False,
      an_minio_detected = False, an_available_ips = JUndef, an_used_ips = JUndef, an_node_type = JUndef, an_options = [],
      an_duplicate = False, an_settings = JObj [], an_kit_status = JObj [], an_kit_settings = kit_settings_data,
      an_nodes = nodes_data, an_setup_nodes = setup_nodes_data, an_arrays = [[], [], []], an_hostnames = 0, an_ips = 1,
      an_k8_ips = [], an_macs = 2, an_wait = True\<rparr>"

definition on_form :: "(js list list \<Rightarrow> node_group \<Rightarrow> node_group attempt) \<Rightarrow> an_state \<Rightarrow> an_state attempt" where
  "on_form f s =
     (case an_form s of
        None \<Rightarrow> (Some TypeError, s)
      | Some g \<Rightarrow> (let (e, g') = f (an_arrays s) g in (e, s\<lparr>an_form := Some g'\<rparr>)))"

text \<open>\<open>[ ... ]\<close> makes a new array; \<open>push\<close> changes the one there is.\<close>

definition new_array :: "js list \<Rightarrow> (nat \<Rightarrow> an_state \<Rightarrow> an_state) \<Rightarrow> an_state \<Rightarrow> an_state" where
  "new_array vs assign s = assign (length (an_arrays s)) (s\<lparr>an_arrays := an_arrays s @ [vs]\<rparr>)"

definition push_to :: "nat \<Rightarrow> js \<Rightarrow> an_state \<Rightarrow> an_state" where
  "push_to i v s = s\<lparr>an_arrays := (an_arrays s)[i := an_arrays s ! i @ [v]]\<rparr>"

abbreviation "set_hostnames \<equiv> an_hostnames_update \<circ> (\<lambda>n _. n)"
abbreviation "set_ips \<equiv> an_ips_update \<circ> (\<lambda>n _. n)"
abbreviation "set_macs \<equiv> an_macs_update \<circ> (\<lambda>n _. n)"

section \<open>Opening the dialog\<close>

definition update_node_type_radio_options :: "an_state \<Rightarrow> an_state" where
  "update_node_type_radio_options s =
     s\<lparr>an_minio_detected := an_minio_detected s \<or> (\<exists>node \<in> set (an_nodes s). js_get node ''node_type'' = MINIO),
       an_control_plane_detected := an_control_plane_detected s \<or>
         (\<exists>node \<in> set (an_setup_nodes s). js_get node ''node_type'' = CONTROL_PLANE)\<rparr>"

text \<open>The addresses of the Kubernetes services. A network without a fourth part has no start: \<open>NaN\<close> ends the
  loop before it begins.\<close>

definition k8_addresses :: "string \<Rightarrow> string list" where
  "k8_addresses cidr =
     (let p = js_split (CHR ''.'') cidr in
      case (if length p > 3 then parseInt10 (p ! 3) else None) of
        None \<Rightarrow> []
      | Some start_ip \<Rightarrow> map (\<lambda>i. p ! 0 @ ''.'' @ p ! 1 @ ''.'' @ p ! 2 @ ''.'' @ show_int (start_ip + int i)) [0..<32])"

definition save_k8_ips :: "an_state \<Rightarrow> an_state attempt" where
  "save_k8_ips s =
     (let s = s\<lparr>an_k8_ips := []\<rparr> in
      attempt s (smap (\<lambda>cidr. s\<lparr>an_k8_ips := map JStr (k8_addresses cidr)\<rparr>)
        (as_string (js_get (an_kit_settings s) ''kubernetes_services_cidr''))))"

definition an_api_get_kit_status :: "an_state \<Rightarrow> an_state" where
  "an_api_get_kit_status = call get_kit_status AN_KitStatus"

definition an_ngOnInit :: "an_state \<Rightarrow> an_state attempt" where
  "an_ngOnInit s = and_then (save_k8_ips (update_node_type_radio_options s)) (\<lambda>s. done_with (an_api_get_kit_status s))"

definition an_open :: "js \<Rightarrow> js list \<Rightarrow> js list \<Rightarrow> an_state" where
  "an_open kit_settings_data nodes_data setup_nodes_data = snd (an_ngOnInit (an_constructor kit_settings_data nodes_data setup_nodes_data))"

section \<open>Requests\<close>

definition an_api_get_general_settings :: "an_state \<Rightarrow> an_state" where
  "an_api_get_general_settings = call get_general_settings AN_General"

definition on_settings :: "(js \<Rightarrow> js \<Rightarrow> js endpoint) \<Rightarrow> an_request \<Rightarrow> an_state \<Rightarrow> an_state attempt" where
  "on_settings ep k s =
     attempt s (sbind (js_index (an_settings s) ''controller_interface'') (\<lambda>c.
       smap (\<lambda>n. call (ep c n) k s) (js_index (an_settings s) ''netmask'')))"

definition an_api_get_unused_ip_addresses :: "bool \<Rightarrow> an_state \<Rightarrow> an_state attempt" where
  "an_api_get_unused_ip_addresses after_call = on_settings getUnusedIPAddresses (AN_Unused after_call)"

definition an_api_get_used_ip_addresses :: "bool \<Rightarrow> an_state \<Rightarrow> an_state attempt" where
  "an_api_get_used_ip_addresses after_call = on_settings get_used_ip_addresses (AN_Used after_call)"

definition an_api_add_node :: "an_state \<Rightarrow> an_state" where
  "an_api_add_node s = (case an_form s of None \<Rightarrow> s | Some g \<Rightarrow> call (add_node (getRawValue g)) AN_Add s)"

section \<open>The form\<close>

text \<open>The value of the previous form, if there is one.\<close>

definition previous_value :: "node_group option \<Rightarrow> string \<Rightarrow> js \<Rightarrow> js_error + js" where
  "previous_value previous name d = (case previous of None \<Rightarrow> Inr d | Some g \<Rightarrow> read_field name g)"

definition new_node_group :: "node_group option \<Rightarrow> an_state \<Rightarrow> js_error + node_group" where
  "new_node_group previous s =
     (let ctl = (\<lambda>name d rules. smap (\<lambda>v. (name, new_node_field (an_arrays s) v rules)) (previous_value previous name d));
          required = Some (COMMON_VALIDATORS_required, None)
      in mapS id
        [ctl ''hostname'' (JStr []) (Some (addNodeValidators_hostname, Some (an_hostnames s))),
         Inr (''ip_address'', new_node_field (an_arrays s) (JStr []) (Some (addNodeValidators_ip_address, Some (an_ips s)))),
         ctl ''node_type'' JUndef required, ctl ''deployment_type'' JUndef required, ctl ''mac_address'' JUndef None,
         ctl ''raid0_override'' (JBool False) None, ctl ''virtual_cpu'' JUndef None, ctl ''virtual_mem'' JUndef None,
         ctl ''virtual_os'' JUndef None, ctl ''virtual_data'' JUndef None])"

definition mac_rules :: "an_state \<Rightarrow> (validator_object list \<times> nat option) option" where
  "mac_rules s = Some (addNodeValidators_mac_address, Some (an_macs s))"

definition an_initialize_node_form_group :: "node_group option \<Rightarrow> an_state \<Rightarrow> an_state attempt" where
  "an_initialize_node_form_group previous s =
     attempt s (smap (\<lambda>g.
       let g1 = (if previous = None then g
             else map (\<lambda>(n, c). (n, c\<lparr>fd_touched := True, fd_dirty := fd_dirty c \<or> n = ''deployment_type''\<rparr>)) g);
           g2 = (if read_field ''deployment_type'' g1 = Inr BAREMETAL then snd (set_rules (mac_rules s) ''mac_address'' g1) else g1)
       in s\<lparr>an_form := Some (bind_group (an_arrays s) g2)\<rparr>) (new_node_group previous s))"

definition set_baremetal_validation :: "js \<Rightarrow> an_state \<Rightarrow> an_state attempt" where
  "set_baremetal_validation chosen_value s =
     on_form (\<lambda>arrays g. and_then (set_rules (if chosen_value = BAREMETAL then mac_rules s else None) ''mac_address'' g)
       (reset_form_control arrays ''mac_address'')) s"

definition is_deployment :: "js \<Rightarrow> an_state \<Rightarrow> bool" where
  "is_deployment v s =
     (case an_form s of None \<Rightarrow> False | Some g \<Rightarrow>
        (case map_of g ''deployment_type'' of None \<Rightarrow> False | Some c \<Rightarrow> fd_value c = v))"

definition is_baremetal_deployment :: "an_state \<Rightarrow> bool" where
  "is_baremetal_deployment = is_deployment BAREMETAL"

definition is_virtual_machine_deployment :: "an_state \<Rightarrow> bool" where
  "is_virtual_machine_deployment = is_deployment VIRTUAL"

definition is_iso_sensor_deployment :: "an_state \<Rightarrow> bool" where
  "is_iso_sensor_deployment = is_deployment ISO"

text \<open>The text up to and with the last dot.\<close>

definition subnet_of :: "string \<Rightarrow> string" where
  "subnet_of address = rev (dropWhile (\<lambda>c. c \<noteq> CHR ''.'') (rev address))"

definition address_offset :: "js \<Rightarrow> nat" where
  "address_offset node_type = (if node_type = SENSOR \<or> node_type = MINIO then 50 else 40)"

definition number_of_addrs :: "js \<Rightarrow> nat" where
  "number_of_addrs node_type = (if node_type = SENSOR \<or> node_type = MINIO then 46 else 10)"

definition offered_addresses :: "string \<Rightarrow> js \<Rightarrow> js list \<Rightarrow> js list" where
  "offered_addresses address node_type taken =
     filter (\<lambda>ip. ip \<notin> set taken)
       (map (\<lambda>i. JStr (subnet_of address @ show_nat (i + address_offset node_type))) [0..<number_of_addrs node_type])"

definition update_hostname_rules :: "an_state \<Rightarrow> an_state attempt" where
  "update_hostname_rules s = on_form (\<lambda>_. set_rules (Some (addNodeValidators_hostname, Some (an_hostnames s))) ''hostname'') s"

definition update_rules_from_null :: "(validator_object list \<times> nat option) option \<Rightarrow> string \<Rightarrow> an_state \<Rightarrow> an_state attempt" where
  "update_rules_from_null rules name =
     on_form (\<lambda>arrays g. and_then (reset_to_null arrays name g) (\<lambda>g. and_then (set_rules rules name g) (reset_form_control arrays name)))"

definition update_available_addresses :: "an_state \<Rightarrow> an_state attempt" where
  "update_available_addresses s =
     (if \<not> truthy (an_settings s) \<or> \<not> truthy (js_get (an_settings s) ''controller_interface'') \<or> \<not> truthy (an_node_type s)
      then done_with s
      else
        and_then (update_hostname_rules s) (\<lambda>s.
        and_then (update_rules_from_null (Some (addNodeValidators_ip_address, Some (an_ips s))) ''ip_address'' s) (\<lambda>s.
        and_then (if is_baremetal_deployment s then update_rules_from_null (mac_rules s) ''mac_address'' s else done_with s) (\<lambda>s.
        attempt s (smap (\<lambda>address. s\<lparr>an_available_ips := JArr (offered_addresses address (an_node_type s) (an_arrays s ! an_ips s)),
            an_wait := False\<rparr>)
          (as_string (js_get (an_settings s) ''controller_interface'')))))))"

definition push_node :: "js \<Rightarrow> an_state \<Rightarrow> an_state attempt" where
  "push_node node s =
     attempt s (smap (\<lambda>hostname.
         push_to (an_macs s) (js_get node ''mac_address'') (push_to (an_ips s) (js_get node ''ip_address'')
           (push_to (an_hostnames s) (JStr (hd (js_split (CHR ''.'') hostname))) s)))
       (as_string (js_get node ''hostname'')))"

definition reserve_addresses :: "an_state \<Rightarrow> an_state attempt" where
  "reserve_addresses s =
     (let s1 = new_array (an_arrays s ! an_ips s @ an_k8_ips s) set_ips s in
      case js_iterate (an_used_ips s1) of
        None \<Rightarrow> (Some TypeError, s1)
      | Some used \<Rightarrow>
          let s2 = new_array (an_arrays s1 ! an_ips s1 @ used) set_ips s1 in
          done_with (new_array (remove_duplicate_entries (an_arrays s2 ! an_ips s2)) set_ips s2))"

definition update_validation_refs :: "bool \<Rightarrow> an_state \<Rightarrow> an_state attempt" where
  "update_validation_refs call_initialize s =
     and_then (each push_node (an_nodes s) (new_array [] set_macs (new_array [] set_ips (new_array [] set_hostnames s)))) (\<lambda>s.
     and_then (reserve_addresses s)
       (if call_initialize then an_initialize_node_form_group None else update_available_addresses))"

section \<open>Choices\<close>

definition deployment_options_for :: "js \<Rightarrow> js \<Rightarrow> (js \<times> bool) list" where
  "deployment_options_for node_type status_of_kit =
     [(BAREMETAL, True), (VIRTUAL, truthy (js_get status_of_kit ''esxi_settings_configured''))] @
     (if node_type = SENSOR then [(ISO, True)] else [])"

definition virtual_defaults :: "js \<Rightarrow> an_state \<Rightarrow> an_state attempt" where
  "virtual_defaults chosen_value s =
     and_then (on_form (\<lambda>arrays. set_default_values arrays (an_node_type s)) s)
       (on_form (\<lambda>arrays. set_virtual_form_validation arrays chosen_value))"

definition an_change_node_type :: "js \<Rightarrow> an_state \<Rightarrow> an_state attempt" where
  "an_change_node_type v s =
     (let s = s\<lparr>an_node_type := v\<rparr> in
      and_then (on_form (\<lambda>_. leave_field ''node_type'') s) (\<lambda>s.
      let s = s\<lparr>an_options := deployment_options_for v (an_kit_status s),
            an_duplicate := an_duplicate s \<and> v \<noteq> CONTROL_PLANE \<and> v \<noteq> MINIO\<rparr>
      in and_then (if is_virtual_machine_deployment s then virtual_defaults v s else done_with s) update_available_addresses))"

definition an_change_deployment_type :: "js \<Rightarrow> an_state \<Rightarrow> an_state attempt" where
  "an_change_deployment_type v s =
     and_then (an_api_get_unused_ip_addresses False (s\<lparr>an_wait := True\<rparr>)) (\<lambda>s.
     and_then (set_baremetal_validation v s) (if v = VIRTUAL then virtual_defaults v else done_with))"

definition check_not_node_type :: "an_state \<Rightarrow> bool" where
  "check_not_node_type s \<longleftrightarrow> an_node_type s \<noteq> CONTROL_PLANE \<and> an_node_type s \<noteq> MINIO"

definition an_change_duplicate_node :: "bool \<Rightarrow> an_state \<Rightarrow> an_state" where
  "an_change_duplicate_node b s = s\<lparr>an_duplicate := b\<rparr>"

definition an_cancel :: "an_state \<Rightarrow> an_state" where
  "an_cancel = emit (DialogClose JUndef)"

definition can_display_ips :: "an_state \<Rightarrow> bool" where
  "can_display_ips = an_wait"

section \<open>Answers\<close>

definition an_api_get_kit_status_answer :: "reply \<Rightarrow> an_state \<Rightarrow> an_state" where
  "an_api_get_kit_status_answer =
     answered get_kit_status (\<lambda>response s. an_api_get_general_settings (s\<lparr>an_kit_status := response\<rparr>))
       (report_error_or_message ''retrieving kit status'')"

definition an_api_get_general_settings_answer :: "reply \<Rightarrow> an_state \<Rightarrow> an_state" where
  "an_api_get_general_settings_answer =
     answered get_general_settings
       (\<lambda>response s. snd (an_api_get_unused_ip_addresses True (s\<lparr>an_settings := response, an_wait := True\<rparr>)))
       (report_error_or_message ''retrieving general settings'')"

definition an_api_get_unused_ip_addresses_answer :: "bool \<Rightarrow> reply \<Rightarrow> an_state \<Rightarrow> an_state" where
  "an_api_get_unused_ip_addresses_answer after_call =
     answered (getUnusedIPAddresses JUndef JUndef)
       (\<lambda>response s. snd (an_api_get_used_ip_addresses after_call (s\<lparr>an_available_ips := response\<rparr>)))
       (report_error_or_message ''retrieving unused ip addresses'')"

definition an_api_get_used_ip_addresses_answer :: "bool \<Rightarrow> reply \<Rightarrow> an_state \<Rightarrow> an_state" where
  "an_api_get_used_ip_addresses_answer after_call =
     answered (get_used_ip_addresses JUndef JUndef)
       (\<lambda>response s. snd (update_validation_refs after_call (s\<lparr>an_used_ips := response\<rparr>)))
       (report_error_or_message ''retrieving unused ip addresses'')"

definition push_used :: "js \<Rightarrow> an_state \<Rightarrow> an_state attempt" where
  "push_used ip s =
     (case an_used_ips s of JArr vs \<Rightarrow> done_with (s\<lparr>an_used_ips := JArr (vs @ [ip])\<rparr>) | _ \<Rightarrow> (Some TypeError, s))"

definition drop_available :: "js \<Rightarrow> an_state \<Rightarrow> an_state attempt" where
  "drop_available ip s =
     (case an_available_ips s of
        JArr vs \<Rightarrow> done_with (s\<lparr>an_available_ips := JArr (filter (\<lambda>v. \<not> strict_eq v ip) vs)\<rparr>)
      | _ \<Rightarrow> (Some TypeError, s))"

definition with_value :: "string \<Rightarrow> (js \<Rightarrow> an_state \<Rightarrow> an_state attempt) \<Rightarrow> an_state \<Rightarrow> an_state attempt" where
  "with_value name f s =
     (case Option.bind (an_form s) (\<lambda>g. map_of g name) of None \<Rightarrow> (Some TypeError, s) | Some c \<Rightarrow> f (fd_value c) s)"

definition an_next_node :: "an_state \<Rightarrow> an_state attempt" where
  "an_next_node s =
     and_then (with_value ''ip_address'' drop_available s) (\<lambda>s.
     and_then (with_value ''ip_address'' push_used s) (\<lambda>s.
     and_then (with_value ''ip_address'' (\<lambda>ip s. done_with (push_to (an_ips s) ip s)) s) (\<lambda>s.
     and_then (with_value ''hostname'' (\<lambda>h s. done_with (push_to (an_hostnames s) h s)) s) (\<lambda>s.
     and_then (with_value ''mac_address'' (\<lambda>m s. done_with (if notUndefNull m then push_to (an_macs s) m s else s)) s)
       (\<lambda>s. an_initialize_node_form_group (an_form s) s)))))"

definition an_added :: "an_state \<Rightarrow> an_state attempt" where
  "an_added s =
     and_then (if an_duplicate s then an_next_node s else done_with (an_cancel s))
       (with_value ''hostname'' (\<lambda>h s. done_with (generate_return_success_snackbar_message
          (''started node creation job for '' @ str h @ ''.'') (Some MAT_SNACKBAR_CONFIGURATION_60000_DUR_DISMISS) s)))"

definition an_add_error :: "api_error \<Rightarrow> 'a world_scheme \<Rightarrow> 'a world_scheme" where
  "an_add_error error s =
     (case error of
        ErrorMessageClass m \<Rightarrow> displaySnackBar m (Some MAT_SNACKBAR_CONFIGURATION_60000_DUR) s
      | PostValidationClass post_validation \<Rightarrow> show_post_validation post_validation s
      | _ \<Rightarrow> report_error ''adding node'' s)"

definition an_api_add_node_answer :: "reply \<Rightarrow> an_state \<Rightarrow> an_state" where
  "an_api_add_node_answer = answered (add_node JUndef) (\<lambda>_ s. snd (an_added s)) an_add_error"

section \<open>Events\<close>

text \<open>The template offers a node type that is not taken, a deployment type of the options that is not
  disabled, an address of the list, and the button \<open>Add\<close> while the form is valid. Choosing sets the control
  before the handler runs.\<close>

datatype an_action =
    AN_Type string string | AN_Raid bool | AN_Leave string | AN_Open_Addresses | AN_Address string
  | AN_Node_Type js | AN_Deployment js | AN_Duplicate bool | AN_Click_Add | AN_Click_Cancel

definition an_text_fields :: "string list" where
  "an_text_fields = [''hostname'', ''mac_address'', ''virtual_cpu'', ''virtual_mem'', ''virtual_os'', ''virtual_data'']"

definition an_node_type_offered :: "js \<Rightarrow> an_state \<Rightarrow> bool" where
  "an_node_type_offered v s \<longleftrightarrow>
     v \<in> {SERVER, SENSOR, SERVICE} \<or> v = CONTROL_PLANE \<and> \<not> an_control_plane_detected s \<or> v = MINIO \<and> \<not> an_minio_detected s"

definition an_choose :: "string \<Rightarrow> js \<Rightarrow> an_state \<Rightarrow> an_state attempt" where
  "an_choose name v = on_form (\<lambda>arrays. type_field arrays name v)"

fun an_try :: "an_action \<Rightarrow> an_state \<Rightarrow> an_state attempt" where
  "an_try (AN_Type name t) s = (if name \<in> set an_text_fields then an_choose name (JStr t) s else done_with s)"
| "an_try (AN_Raid b) s = an_choose ''raid0_override'' (JBool b) s"
| "an_try (AN_Leave name) s = on_form (\<lambda>_. leave_field name) s"
| "an_try AN_Open_Addresses s = on_form (\<lambda>arrays. autocomplete_changed arrays True ''ip_address'') s"
| "an_try (AN_Address t) s =
     (case an_available_ips s of
        JArr vs \<Rightarrow> if JStr t \<in> set vs \<and> \<not> can_display_ips s then an_choose ''ip_address'' (JStr t) s else done_with s
      | _ \<Rightarrow> done_with s)"
| "an_try (AN_Node_Type v) s =
     (if an_node_type_offered v s then and_then (an_choose ''node_type'' v s) (an_change_node_type v) else done_with s)"
| "an_try (AN_Deployment v) s =
     (if (v, True) \<in> set (an_options s) then and_then (an_choose ''deployment_type'' v s) (an_change_deployment_type v)
      else done_with s)"
| "an_try (AN_Duplicate b) s = done_with (if check_not_node_type s then an_change_duplicate_node b s else s)"
| "an_try AN_Click_Add s =
     (case an_form s of None \<Rightarrow> done_with s | Some g \<Rightarrow> done_with (if group_valid g then an_api_add_node s else s))"
| "an_try AN_Click_Cancel s = done_with (an_cancel s)"

fun an_answer :: "an_request \<Rightarrow> reply \<Rightarrow> an_state \<Rightarrow> an_state" where
  "an_answer AN_KitStatus = an_api_get_kit_status_answer"
| "an_answer AN_General = an_api_get_general_settings_answer"
| "an_answer (AN_Unused b) = an_api_get_unused_ip_addresses_answer b"
| "an_answer (AN_Used b) = an_api_get_used_ip_addresses_answer b"
| "an_answer AN_Add = an_api_add_node_answer"

definition an_step :: "an_action event \<Rightarrow> an_state \<Rightarrow> an_state" where
  "an_step = async_step (\<lambda>a s. snd (an_try a s)) an_answer (\<lambda>_ _ s. s)"

end
