(* ===== verification/Node_Form_Facts.thy ===== *)
theory Node_Form_Facts
  imports Node_Forms
begin

text \<open>
  The contract of a validator table (the locale \<open>field_rules\<close>) and of a form whose fields are checked by such
  tables (the locale \<open>checked_form\<close>): whatever the dialogs do with the other fields, a checked field that is
  valid holds a text its table accepts.
\<close>

section \<open>Answers\<close>

text \<open>An invariant of the fields, of what was sent and of how the dialog has closed is kept by an answer.\<close>

lemma answered_effects:
  assumes "P s" "\<And>x. P (next_cb x s)"
    "\<And>s'. world.more s' = world.more s \<Longrightarrow> sent s' = sent s \<Longrightarrow> closings s' = closings s \<Longrightarrow> P s'"
    "\<And>e s'. P s' \<Longrightarrow> P (error_cb e s')"
  shows "P (answered ep next_cb error_cb r s)"
proof (cases r)
  case (Reply v)
  have "P (fst (handleError (ep_operation ep) (Some (thrown_error e)) s))" for e by (rule assms(3)) simp_all
  then have "P (error_cb err s')" if "handleError (ep_operation ep) (Some (thrown_error e)) s = (s', err)" for e s' err
    using that by (intro assms(4)) (metis fst_conv)
  then show ?thesis
    using Reply assms(2) by (auto simp: answered_def subscribe_def split: sum.split prod.split)
next
  case (Failure f)
  have "P (fst (request_failed (ep_operation ep) f s))"
    by (rule assms(3)) (simp_all add: request_failed_def intercept_error_def)
  then have "P (error_cb err s')" if "request_failed (ep_operation ep) f s = (s', err)" for s' err
    using that by (intro assms(4)) (metis fst_conv)
  then show ?thesis
    using Failure by (auto simp: answered_def subscribe_def split: prod.split)
qed

lemma closings_validation [simp]: "closings (show_validation_errors messages ks acc s) = closings s"
  by (induction messages ks acc s rule: show_validation_errors.induct) (auto simp: Let_def split: js.splits)

lemma closings_post_validation [simp]: "closings (show_post_validation v s) = closings s"
  by (auto simp: show_post_validation_def Let_def split: js.splits sum.splits)

section \<open>Fields that are checked\<close>

text \<open>The contract of a validator table: it decides every text, and refuses a value that is missing.\<close>

locale field_rules =
  fixes rules :: "validator_object list"
    and unique :: bool
    and accepts :: "string \<Rightarrow> bool"
  assumes text_checked: "(unique \<Longrightarrow> vs \<noteq> None) \<Longrightarrow>
      \<exists>e. validateFromArray rules (map_option unique_ops vs) (text_control t touched) = Inr e \<and> (e = None \<longrightarrow> t \<noteq> [] \<and> accepts t)"
    and missing_refused: "\<not> notUndefNull v \<Longrightarrow> (unique \<Longrightarrow> vs \<noteq> None) \<Longrightarrow>
      \<exists>e. validateFromArray rules (map_option unique_ops vs)
        (FormControl \<lparr>ctl_value = v, ctl_touched = False, ctl_stat = VALID, ctl_errors = None\<rparr>) = Inr (Some e)"
    and missing_not_accepted: "\<not> notUndefNull v \<Longrightarrow> validateFromArray rules (map_option unique_ops vs)
        (FormControl \<lparr>ctl_value = v, ctl_touched = touched, ctl_stat = VALID, ctl_errors = None\<rparr>) \<noteq> Inr None"

definition field_array :: "js list list \<Rightarrow> node_field \<Rightarrow> js list option" where
  "field_array arrays c = map_option (\<lambda>i. arrays ! i) (nf_unique c)"

lemma nf_check_array:
  "fd_rules c = Some vs \<Longrightarrow> nf_check arrays c =
     smap (\<lambda>e. c\<lparr>fd_valid := (e = None)\<rparr>) (validateFromArray vs (map_option unique_ops (field_array arrays c)) (fd_control (field.truncate c)))"
  by (simp add: nf_check_def field_array_def option.map_comp o_def)

definition text_or_missing :: "js \<Rightarrow> bool" where
  "text_or_missing v \<longleftrightarrow> v \<in> range JStr \<or> \<not> notUndefNull v"

definition field_ok :: "validator_object list \<Rightarrow> bool \<Rightarrow> (string \<Rightarrow> bool) \<Rightarrow> node_field \<Rightarrow> bool" where
  "field_ok rules unique accepts c \<longleftrightarrow>
     fd_rules c = Some rules \<and> (unique \<longrightarrow> nf_unique c \<noteq> None) \<and> text_or_missing (fd_value c) \<and>
     (fd_valid c \<longrightarrow> (\<exists>t. fd_value c = JStr t \<and> t \<noteq> [] \<and> accepts t))"

context field_rules
begin

lemma check_text:
  assumes "fd_rules c = Some rules" "unique \<Longrightarrow> nf_unique c \<noteq> None" "fd_value c = JStr t"
  shows "\<exists>c'. nf_check arrays c = Inr c' \<and> field_ok rules unique accepts c'"
proof -
  obtain e where e: "validateFromArray rules (map_option unique_ops (field_array arrays c)) (text_control t (fd_touched c)) = Inr e"
      "e = None \<longrightarrow> t \<noteq> [] \<and> accepts t"
    using text_checked [of "field_array arrays c" t "fd_touched c"] assms(2) by (auto simp: field_array_def)
  have "fd_control (field.truncate c) = text_control t (fd_touched c)"
    by (simp add: fd_control_def text_control_def field.defs assms(3))
  then show ?thesis
    using e assms by (auto simp: nf_check_array field_ok_def text_or_missing_def)
qed

lemma check_missing:
  assumes "fd_rules c = Some rules" "unique \<Longrightarrow> nf_unique c \<noteq> None" "\<not> notUndefNull (fd_value c)" "\<not> fd_touched c"
  shows "\<exists>c'. nf_check arrays c = Inr c' \<and> field_ok rules unique accepts c'"
proof -
  let ?control = "FormControl \<lparr>ctl_value = fd_value c, ctl_touched = False, ctl_stat = VALID, ctl_errors = None\<rparr>"
  obtain e where e: "validateFromArray rules (map_option unique_ops (field_array arrays c)) ?control = Inr (Some e)"
    using missing_refused [of "fd_value c" "field_array arrays c"] assms(2,3) by (auto simp: field_array_def)
  have "fd_control (field.truncate c) = ?control"
    by (simp add: fd_control_def field.defs assms(4))
  then show ?thesis
    using e assms by (auto simp: nf_check_array field_ok_def text_or_missing_def)
qed

lemma check_untouched:
  "fd_rules c = Some rules \<Longrightarrow> (unique \<Longrightarrow> nf_unique c \<noteq> None) \<Longrightarrow> text_or_missing (fd_value c) \<Longrightarrow> \<not> fd_touched c \<Longrightarrow>
   \<exists>c'. nf_check arrays c = Inr c' \<and> field_ok rules unique accepts c'"
  unfolding text_or_missing_def using check_text check_missing by blast

lemma check_again:
  assumes "field_ok rules unique accepts c"
  shows "field_ok rules unique accepts (settle c (nf_check arrays c))"
proof (cases "nf_check arrays c")
  case (Inr c')
  show ?thesis
  proof (cases "notUndefNull (fd_value c)")
    case True
    then obtain t where "fd_value c = JStr t" using assms by (auto simp: field_ok_def text_or_missing_def)
    then show ?thesis using check_text [of c t arrays] assms Inr by (auto simp: field_ok_def settle_def)
  next
    case False
    have "fd_control (field.truncate c) = FormControl \<lparr>ctl_value = fd_value c, ctl_touched = fd_touched c, ctl_stat = VALID, ctl_errors = None\<rparr>"
      by (simp add: fd_control_def field.defs)
    then have "c' = c\<lparr>fd_valid := False\<rparr>"
      using Inr assms missing_not_accepted [OF False, of "field_array arrays c" "fd_touched c"] by (auto simp: field_ok_def nf_check_array smap_Inr_iff)
    then show ?thesis using assms Inr by (simp add: settle_def field_ok_def)
  qed
qed (simp add: settle_def assms)

end

lemma unique_text:
  "uniqueValidator (vo_unique f) (Some (text_control t b)) (Some (unique_ops vs)) =
     (if t \<noteq> [] \<and> JStr t \<in> set vs then Inr (Some (new_errorObject (text_control t b) (Msg (f (JStr t))))) else Inr None)"
proof -
  have find: "find_from (unique_hit (JStr t) None Inr) i vs = Inr (if t \<noteq> [] \<and> JStr t \<in> set vs then JStr t else JUndef)" for i
    by (induction vs arbitrary: i) (auto simp: unique_hit_def num_gt_def strict_eq_def)
  show ?thesis
    by (auto simp: uniqueValidator_def unique_ops_def find vo_unique_def notUndefNull_def Let_def)
qed

lemma required_missing:
  "\<not> notUndefNull v \<Longrightarrow> requiredField vo (FormControl \<lparr>ctl_value = v, ctl_touched = False, ctl_stat = st, ctl_errors = es\<rparr>) =
     Inr (Some (new_errorObject (FormControl \<lparr>ctl_value = v, ctl_touched = False, ctl_stat = st, ctl_errors = es\<rparr>) (vo_error_message vo)))"
  by (simp add: requiredField_def Let_def)

lemma missing_passes:
  "\<not> notUndefNull v \<Longrightarrow> uniqueValidator vo (Some (FormControl \<lparr>ctl_value = v, ctl_touched = b, ctl_stat = st, ctl_errors = es\<rparr>)) ops = Inr None"
  "\<not> notUndefNull v \<Longrightarrow> patternValidator vo (FormControl \<lparr>ctl_value = v, ctl_touched = b, ctl_stat = st, ctl_errors = es\<rparr>) = Inr None"
  by (cases v; simp add: uniqueValidator_def patternValidator_def notUndefNull_def)+

text \<open>What the tables decide about a text.\<close>

lemma unique_name_text:
  "validateFromArray addNodeValidators_hostname (Some (unique_ops vs)) (text_control t b) = Inr e \<Longrightarrow>
   e = None \<longleftrightarrow> t \<noteq> [] \<and> test_full HOSTNAME_PATTERN t \<and> JStr t \<notin> set vs"
  "validateFromArray addNodeValidators_ip_address (Some (unique_ops vs)) (text_control t b) = Inr e \<Longrightarrow>
   e = None \<longleftrightarrow> t \<noteq> [] \<and> test_full IP_CONSTRAINT t \<and> JStr t \<notin> set vs"
  by (auto simp: addNodeValidators_hostname_def addNodeValidators_ip_address_def validateFromArray_def unique_text requiredField_text
      patternValidator_text split: if_splits)

lemma required_touched_missing:
  "\<not> notUndefNull v \<Longrightarrow> requiredField vo (FormControl \<lparr>ctl_value = v, ctl_touched = b, ctl_stat = st, ctl_errors = es\<rparr>) \<noteq> Inr None"
  by (cases v) (auto simp: requiredField_def notUndefNull_def Let_def)

interpretation hostname_rules: field_rules addNodeValidators_hostname True "test_full HOSTNAME_PATTERN"
proof
  fix vs :: "js list option" and t touched
  assume "True \<Longrightarrow> vs \<noteq> None"
  then show "\<exists>e. validateFromArray addNodeValidators_hostname (map_option unique_ops vs) (text_control t touched) = Inr e \<and>
      (e = None \<longrightarrow> t \<noteq> [] \<and> test_full HOSTNAME_PATTERN t)"
    by (auto simp: addNodeValidators_hostname_def validateFromArray_def unique_text requiredField_text patternValidator_text)
next
  fix v and vs :: "js list option"
  assume "\<not> notUndefNull v" "True \<Longrightarrow> vs \<noteq> None"
  then show "\<exists>e. validateFromArray addNodeValidators_hostname (map_option unique_ops vs)
      (FormControl \<lparr>ctl_value = v, ctl_touched = False, ctl_stat = VALID, ctl_errors = None\<rparr>) = Inr (Some e)"
    by (simp add: addNodeValidators_hostname_def validateFromArray_def required_missing missing_passes)
next
  fix v touched and vs :: "js list option"
  assume "\<not> notUndefNull v"
  then show "validateFromArray addNodeValidators_hostname (map_option unique_ops vs)
      (FormControl \<lparr>ctl_value = v, ctl_touched = touched, ctl_stat = VALID, ctl_errors = None\<rparr>) \<noteq> Inr None"
    using required_touched_missing [of v] by (auto simp: addNodeValidators_hostname_def validateFromArray_def missing_passes split: sum.splits option.splits)
qed

interpretation ip_rules: field_rules addNodeValidators_ip_address True "test_full IP_CONSTRAINT"
proof
  fix vs :: "js list option" and t touched
  assume "True \<Longrightarrow> vs \<noteq> None"
  then show "\<exists>e. validateFromArray addNodeValidators_ip_address (map_option unique_ops vs) (text_control t touched) = Inr e \<and>
      (e = None \<longrightarrow> t \<noteq> [] \<and> test_full IP_CONSTRAINT t)"
    by (auto simp: addNodeValidators_ip_address_def validateFromArray_def unique_text requiredField_text patternValidator_text)
next
  fix v and vs :: "js list option"
  assume "\<not> notUndefNull v" "True \<Longrightarrow> vs \<noteq> None"
  then show "\<exists>e. validateFromArray addNodeValidators_ip_address (map_option unique_ops vs)
      (FormControl \<lparr>ctl_value = v, ctl_touched = False, ctl_stat = VALID, ctl_errors = None\<rparr>) = Inr (Some e)"
    by (simp add: addNodeValidators_ip_address_def validateFromArray_def required_missing missing_passes)
next
  fix v touched and vs :: "js list option"
  assume "\<not> notUndefNull v"
  then show "validateFromArray addNodeValidators_ip_address (map_option unique_ops vs)
      (FormControl \<lparr>ctl_value = v, ctl_touched = touched, ctl_stat = VALID, ctl_errors = None\<rparr>) \<noteq> Inr None"
    using required_touched_missing [of v] by (auto simp: addNodeValidators_ip_address_def validateFromArray_def missing_passes split: sum.splits option.splits)
qed

interpretation required_rules: field_rules COMMON_VALIDATORS_required False "\<lambda>_. True"
proof
  fix vs :: "js list option" and t touched
  show "\<exists>e. validateFromArray COMMON_VALIDATORS_required (map_option unique_ops vs) (text_control t touched) = Inr e \<and> (e = None \<longrightarrow> t \<noteq> [] \<and> True)"
    by (simp add: COMMON_VALIDATORS_required_def validateFromArray_def requiredField_text)
next
  fix v and vs :: "js list option"
  assume "\<not> notUndefNull v"
  then show "\<exists>e. validateFromArray COMMON_VALIDATORS_required (map_option unique_ops vs)
      (FormControl \<lparr>ctl_value = v, ctl_touched = False, ctl_stat = VALID, ctl_errors = None\<rparr>) = Inr (Some e)"
    by (simp add: COMMON_VALIDATORS_required_def validateFromArray_def required_missing)
next
  fix v touched and vs :: "js list option"
  assume "\<not> notUndefNull v"
  then show "validateFromArray COMMON_VALIDATORS_required (map_option unique_ops vs)
      (FormControl \<lparr>ctl_value = v, ctl_touched = touched, ctl_stat = VALID, ctl_errors = None\<rparr>) \<noteq> Inr None"
    using required_touched_missing [of v] by (auto simp: COMMON_VALIDATORS_required_def validateFromArray_def missing_passes split: sum.splits option.splits)
qed

section \<open>Forms that keep their checks\<close>

type_synonym checked_fields = "(string \<times> validator_object list \<times> bool \<times> (string \<Rightarrow> bool)) list"

definition group_ok :: "checked_fields \<Rightarrow> node_group \<Rightarrow> bool" where
  "group_ok checked g \<longleftrightarrow> (\<forall>(n, rules, unique, accepts) \<in> set checked. \<exists>c. map_of g n = Some c \<and> field_ok rules unique accepts c)"

definition untouched :: "string \<Rightarrow> node_group \<Rightarrow> bool" where
  "untouched name g \<longleftrightarrow> (\<forall>c. map_of g name = Some c \<longrightarrow> \<not> fd_touched c)"

lemma on_field_Some: "map_of g n = Some c \<Longrightarrow> f c = Inr c' \<Longrightarrow> on_field n f g = (None, AList.update n c' g)"
  by (simp add: on_field_def attempt_def)

lemma missing_values [simp]: "text_or_missing JUndef" "text_or_missing JNull" "text_or_missing (JStr t)"
  by (simp_all add: text_or_missing_def notUndefNull_def)

text \<open>Setting a value and checking it is one step when the check does not throw.\<close>

lemma put_value_once:
  assumes "map_of g name = Some c" "nf_check arrays (c\<lparr>fd_value := v\<rparr>) = Inr c'"
  shows "put_value arrays v name g = (None, AList.update name c' g)"
  using assms by (simp add: put_value_def on_field_def attempt_def map_of_update AList.update_last)

lemma fresh_mark_untouched: "untouched name (snd (fresh_mark name g))"
  by (auto simp: untouched_def fresh_mark_def on_field_def attempt_def update_conv' split: option.split)

lemma read_raw: "js_get (getRawValue g) n = (case map_of g n of None \<Rightarrow> JUndef | Some c \<Rightarrow> fd_value c)"
proof -
  have "map_of (map (\<lambda>(n, c). (n, fd_value c)) g) n = map_option fd_value (map_of g n)"
    by (induction g) auto
  then show ?thesis by (simp add: getRawValue_def split: option.split)
qed

locale checked_form =
  fixes checked :: checked_fields
  assumes checked_field_rules: "(n, rules, unique, accepts) \<in> set checked \<Longrightarrow> field_rules rules unique accepts"
    and checked_distinct: "distinct (map fst checked)"
    and free_fields: "n \<in> {''mac_address'', ''virtual_cpu'', ''virtual_mem'', ''virtual_os'', ''virtual_data''} \<Longrightarrow> n \<notin> fst ` set checked"
begin

lemma free_field:
  "n \<in> {''mac_address'', ''virtual_cpu'', ''virtual_mem'', ''virtual_os'', ''virtual_data''} \<Longrightarrow> (n, x) \<notin> set checked"
  using free_fields [of n] by force

lemma checked_field_unique:
  "(n, x) \<in> set checked \<Longrightarrow> (n, y) \<in> set checked \<Longrightarrow> x = y"
  using checked_distinct by (simp add: eq_key_imp_eq_value)

text \<open>A control is replaced: when it is a checked one the new one must be checked.\<close>

lemma group_ok_update:
  assumes "group_ok checked g" "\<And>rules unique accepts. (name, rules, unique, accepts) \<in> set checked \<Longrightarrow> field_ok rules unique accepts c"
  shows "group_ok checked (AList.update name c g)"
  using assms by (fastforce simp: group_ok_def update_conv')

lemma group_ok_on_field:
  assumes "group_ok checked g"
    "\<And>c c' rules unique accepts. (name, rules, unique, accepts) \<in> set checked \<Longrightarrow> map_of g name = Some c \<Longrightarrow>
       field_ok rules unique accepts c \<Longrightarrow> f c = Inr c' \<Longrightarrow> field_ok rules unique accepts c'"
  shows "group_ok checked (snd (on_field name f g))"
proof (cases "map_of g name")
  case (Some c)
  show ?thesis
  proof (cases "f c")
    case (Inr c')
    have "group_ok checked (AList.update name c' g)"
    proof (rule group_ok_update [OF assms(1)])
      fix rules unique accepts
      assume n: "(name, rules, unique, accepts) \<in> set checked"
      then have "field_ok rules unique accepts c" using assms(1) Some by (auto simp: group_ok_def)
      then show "field_ok rules unique accepts c'" by (rule assms(2) [OF n Some _ Inr])
    qed
    then show ?thesis by (simp add: on_field_def Some Inr attempt_def)
  qed (simp add: on_field_def Some attempt_def assms(1))
qed (simp add: on_field_def assms(1))

lemma group_ok_then:
  "group_ok checked (snd m) \<Longrightarrow> (\<And>g. group_ok checked g \<Longrightarrow> group_ok checked (snd (f g))) \<Longrightarrow> group_ok checked (snd (and_then m f))"
  by (rule snd_and_then [where P = "group_ok checked"])

lemma group_ok_each:
  "group_ok checked g \<Longrightarrow> (\<And>x g. x \<in> set xs \<Longrightarrow> group_ok checked g \<Longrightarrow> group_ok checked (snd (f x g))) \<Longrightarrow> group_ok checked (snd (each f xs g))"
  by (rule snd_each [where P = "group_ok checked"])

lemma group_ok_marks:
  "group_ok checked g \<Longrightarrow> group_ok checked (snd (fresh_mark name g))"
  "group_ok checked g \<Longrightarrow> group_ok checked (snd (leave_field name g))"
  "group_ok checked g \<Longrightarrow> group_ok checked (snd (on_field name (\<lambda>c. Inr (c\<lparr>fd_dirty := b\<rparr>)) g))"
  unfolding fresh_mark_def leave_field_def by (erule group_ok_on_field; force simp: field_ok_def)+

lemma field_of_group: "group_ok checked g \<Longrightarrow> (n, rules, unique, accepts) \<in> set checked \<Longrightarrow> map_of g n = Some c \<Longrightarrow> field_ok rules unique accepts c"
  by (auto simp: group_ok_def)

lemma group_ok_put_text:
  assumes "group_ok checked g"
  shows "group_ok checked (snd (put_value arrays (JStr t) name g))"
proof (cases "map_of g name")
  case None
  then show ?thesis by (simp add: put_value_def on_field_def assms)
next
  case (Some c)
  show ?thesis
  proof (cases "name \<in> fst ` set checked")
    case True
    then obtain rules unique accepts where n: "(name, rules, unique, accepts) \<in> set checked" by auto
    have ok: "field_ok rules unique accepts c" by (rule field_of_group [OF assms n Some])
    obtain c' where c': "nf_check arrays (c\<lparr>fd_value := JStr t\<rparr>) = Inr c'" "field_ok rules unique accepts c'"
      using field_rules.check_text [OF checked_field_rules [OF n], of "c\<lparr>fd_value := JStr t\<rparr>" t arrays] ok by (auto simp: field_ok_def)
    show ?thesis
      unfolding put_value_once [OF Some c'(1)] snd_conv
      by (rule group_ok_update [OF assms]) (use c'(2) checked_field_unique [OF n] in auto)
  next
    case False
    then show ?thesis
      unfolding put_value_def
      by (intro group_ok_then group_ok_on_field) (auto simp: assms image_iff)
  qed
qed

lemma group_ok_type: "group_ok checked g \<Longrightarrow> group_ok checked (snd (type_field arrays name (JStr t) g))"
  unfolding type_field_def by (intro group_ok_then group_ok_marks group_ok_put_text)

lemma group_ok_check:
  assumes "group_ok checked g" "untouched name g"
  shows "group_ok checked (snd (on_field name (nf_check arrays) g))"
  using assms(1)
proof (rule group_ok_on_field)
  fix c c' rules unique accepts
  assume n: "(name, rules, unique, accepts) \<in> set checked" "map_of g name = Some c" "field_ok rules unique accepts c"
    "nf_check arrays c = Inr c'"
  then show "field_ok rules unique accepts c'"
    using field_rules.check_untouched [OF checked_field_rules [OF n(1)], of c arrays] assms(2)
    by (auto simp: field_ok_def untouched_def)
qed

lemma group_ok_reset: "group_ok checked g \<Longrightarrow> group_ok checked (snd (reset_form_control arrays name g))"
proof -
  assume "group_ok checked g"
  then have "group_ok checked (snd (fresh_mark name g)) \<and> untouched name (snd (fresh_mark name g))"
    by (simp add: group_ok_marks fresh_mark_untouched)
  then have "group_ok checked (snd (and_then (fresh_mark name g) (on_field name (nf_check arrays))))"
    by (cases "fresh_mark name g"; cases "fst (fresh_mark name g)") (auto intro: group_ok_check)
  then show ?thesis by (simp add: reset_form_control_def)
qed

lemma group_ok_put_missing:
  assumes "group_ok checked g" "untouched name g" "\<not> notUndefNull v"
  shows "group_ok checked (snd (put_value arrays v name g))"
proof (cases "map_of g name")
  case None
  then show ?thesis by (simp add: put_value_def on_field_def assms)
next
  case (Some c)
  show ?thesis
  proof (cases "name \<in> fst ` set checked")
    case True
    then obtain rules unique accepts where n: "(name, rules, unique, accepts) \<in> set checked" by auto
    have ok: "field_ok rules unique accepts c" by (rule field_of_group [OF assms(1) n Some])
    obtain c' where c': "nf_check arrays (c\<lparr>fd_value := v\<rparr>) = Inr c'" "field_ok rules unique accepts c'"
      using field_rules.check_missing [OF checked_field_rules [OF n], of "c\<lparr>fd_value := v\<rparr>" arrays] ok assms(2,3) Some
      by (auto simp: field_ok_def untouched_def)
    show ?thesis
      unfolding put_value_once [OF Some c'(1)] snd_conv
      by (rule group_ok_update [OF assms(1)]) (use c'(2) checked_field_unique [OF n] in auto)
  next
    case False
    then show ?thesis
      unfolding put_value_def
      by (intro group_ok_then group_ok_on_field) (auto simp: assms image_iff)
  qed
qed

lemma group_ok_reset_to_null: "group_ok checked g \<Longrightarrow> group_ok checked (snd (reset_to_null arrays name g))"
proof -
  assume "group_ok checked g"
  then have "group_ok checked (snd (fresh_mark name g)) \<and> untouched name (snd (fresh_mark name g))"
    by (simp add: group_ok_marks fresh_mark_untouched)
  then have "group_ok checked (snd (and_then (fresh_mark name g) (put_value arrays JNull name)))"
    by (cases "fresh_mark name g"; cases "fst (fresh_mark name g)") (auto intro: group_ok_put_missing simp: notUndefNull_def)
  then show ?thesis by (simp add: reset_to_null_def)
qed

lemma group_ok_set_rules:
  assumes "group_ok checked g" "\<And>r unique accepts. (name, r, unique, accepts) \<in> set checked \<Longrightarrow>
     map_option fst rules = Some r \<and> (unique \<longrightarrow> Option.bind rules snd \<noteq> None)"
  shows "group_ok checked (snd (set_rules rules name g))"
  unfolding set_rules_def using assms(1)
  by (rule group_ok_on_field) (use assms(2) in \<open>fastforce simp: field_ok_def\<close>)

lemma group_ok_other:
  assumes "group_ok checked g" "name \<notin> fst ` set checked"
  shows "group_ok checked (snd (on_field name f g))"
  using assms(1) by (rule group_ok_on_field) (use assms(2) in force)

lemma group_ok_put_other: "group_ok checked g \<Longrightarrow> name \<notin> fst ` set checked \<Longrightarrow> group_ok checked (snd (put_value arrays v name g))"
  unfolding put_value_def by (intro group_ok_then group_ok_other)

lemma group_ok_setControl:
  assumes "group_ok checked g" "name \<notin> fst ` set checked"
  shows "group_ok checked (setControl name c g)"
proof -
  have "map_of (setControl name c g) n = map_of g n" if "n \<in> fst ` set checked" for n
    using assms(2) that by (auto simp: setControl_def map_add_def delete_conv' split: option.split)
  then show ?thesis using assms(1) by (fastforce simp: group_ok_def image_iff)
qed

lemma virtual_names: "(n, vs) \<in> set (virtual_rules g) \<Longrightarrow> (n, x) \<notin> set checked"
  by (rule free_field) (auto simp: virtual_rules_def split: if_splits)

lemma group_ok_virtual_values: "group_ok checked g \<Longrightarrow> group_ok checked (snd (set_virtual_group_values arrays a b c d g))"
  unfolding set_virtual_group_values_def
  by (intro group_ok_then) (auto intro!: group_ok_setControl group_ok_put_other simp: free_field)

lemma group_ok_virtual:
  "group_ok checked g \<Longrightarrow> group_ok checked (snd (set_default_values arrays node_type g))"
  "group_ok checked g \<Longrightarrow> group_ok checked (snd (set_virtual_form_validation arrays v g))"
proof -
  show "group_ok checked g \<Longrightarrow> group_ok checked (snd (set_default_values arrays node_type g))"
    by (auto simp: set_default_values_def group_ok_virtual_values)
  show "group_ok checked g \<Longrightarrow> group_ok checked (snd (set_virtual_form_validation arrays v g))"
    unfolding set_virtual_form_validation_def
    by (intro group_ok_then group_ok_each) (auto intro!: group_ok_reset group_ok_set_rules dest: virtual_names split: prod.splits)
qed

lemma new_field_ok:
  assumes "(n, rules, unique, accepts) \<in> set checked" "text_or_missing v" "unique \<Longrightarrow> arr \<noteq> None"
  shows "field_ok rules unique accepts (new_node_field arrays v (Some (rules, arr)))"
proof -
  let ?c = "field.extend (new_field v None) \<lparr>nf_unique = arr\<rparr>\<lparr>fd_rules := Some rules\<rparr>"
  have f: "fd_rules ?c = Some rules" "nf_unique ?c = arr" "fd_value ?c = new_control v" "\<not> fd_touched ?c"
    by (simp_all add: field.defs new_field_def settle_def fd_validate_def)
  obtain c' where "nf_check arrays ?c = Inr c'" "field_ok rules unique accepts c'"
    using field_rules.check_untouched [OF checked_field_rules [OF assms(1)], of ?c arrays] assms(2,3) f
    by (auto simp: new_control_def text_or_missing_def notUndefNull_def)
  then show ?thesis by (simp add: new_node_field_def Let_def settle_def)
qed

lemma group_ok_touch_all:
  "group_ok checked g \<Longrightarrow> group_ok checked (map (\<lambda>(n, c). (n, c\<lparr>fd_touched := True, fd_dirty := f n c\<rparr>)) g)"
proof -
  have "map_of (map (\<lambda>(n, c). (n, c\<lparr>fd_touched := True, fd_dirty := f n c\<rparr>)) g) n =
      map_option (\<lambda>c. c\<lparr>fd_touched := True, fd_dirty := f n c\<rparr>) (map_of g n)" for n
    by (induction g) auto
  then show "group_ok checked g \<Longrightarrow> ?thesis" by (fastforce simp: group_ok_def field_ok_def)
qed

lemma group_ok_bind:
  assumes "group_ok checked g"
  shows "group_ok checked (bind_group arrays g)"
proof -
  have lookup: "map_of (bind_group arrays g) n = map_option (\<lambda>c. settle c (nf_check arrays c)) (map_of g n)" for n
    unfolding bind_group_def by (induction g) auto
  show ?thesis
    unfolding group_ok_def
  proof safe
    fix n rules unique accepts
    assume n: "(n, rules, unique, accepts) \<in> set checked"
    then obtain c where "map_of g n = Some c" "field_ok rules unique accepts c" using assms by (auto simp: group_ok_def)
    then show "\<exists>c. map_of (bind_group arrays g) n = Some c \<and> field_ok rules unique accepts c"
      using field_rules.check_again [OF checked_field_rules [OF n]] by (simp add: lookup)
  qed
qed

lemma group_ok_mac: "group_ok checked g \<Longrightarrow> group_ok checked (snd (set_rules rules ''mac_address'' g))"
  by (rule group_ok_set_rules) (simp_all add: free_field)

lemma valid_field_text:
  assumes "group_ok checked g" "group_valid g" "(n, rules, unique, accepts) \<in> set checked"
  shows "\<exists>t. js_get (getRawValue g) n = JStr t \<and> t \<noteq> [] \<and> accepts t"
proof -
  obtain c where c: "map_of g n = Some c" "field_ok rules unique accepts c" using assms(1,3) by (auto simp: group_ok_def)
  then have "(n, c) \<in> set g" by (simp add: map_of_SomeD)
  then have "fd_valid c" using assms(2) by (auto simp: group_valid_def)
  then show ?thesis using c by (auto simp: field_ok_def read_raw)
qed

end

end
