(* ===== verification/Add_Node_Facts.thy ===== *)
theory Add_Node_Facts
  imports Add_Node_Dialog Node_Form_Facts
begin

text \<open>
  The dialog that adds a node: what it sends was accepted by the validators, which addresses it offers and
  which names it refuses, and where the validators are lost.
\<close>

section \<open>The fields that are checked\<close>

definition checked_fields :: "(string \<times> validator_object list \<times> bool \<times> (string \<Rightarrow> bool)) list" where
  "checked_fields =
     [(''hostname'', addNodeValidators_hostname, True, test_full HOSTNAME_PATTERN),
      (''ip_address'', addNodeValidators_ip_address, True, test_full IP_CONSTRAINT),
      (''node_type'', COMMON_VALIDATORS_required, False, \<lambda>_. True),
      (''deployment_type'', COMMON_VALIDATORS_required, False, \<lambda>_. True)]"

abbreviation node_ok :: "node_group \<Rightarrow> bool" where
  "node_ok \<equiv> group_ok checked_fields"

interpretation node_form: checked_form checked_fields
  by (rule checked_form.intro)
    (auto simp: checked_fields_def intro: hostname_rules.field_rules_axioms ip_rules.field_rules_axioms required_rules.field_rules_axioms)

lemmas group_ok_simps = group_ok_def checked_fields_def

section \<open>What is sent\<close>

definition checked_node :: "js \<Rightarrow> bool" where
  "checked_node v \<longleftrightarrow>
     (\<exists>h ip nt dt. js_get v ''hostname'' = JStr h \<and> test_full HOSTNAME_PATTERN h \<and>
        js_get v ''ip_address'' = JStr ip \<and> test_full IP_CONSTRAINT ip \<and>
        js_get v ''node_type'' = JStr nt \<and> nt \<noteq> [] \<and> js_get v ''deployment_type'' = JStr dt \<and> dt \<noteq> [])"

definition addition_ok :: "effect \<Rightarrow> bool" where
  "addition_ok e \<longleftrightarrow> (\<forall>v. e = Http POST ''/api/kit/node'' v \<longrightarrow> checked_node v)"

lemma group_sent:
  assumes "node_ok g" "group_valid g"
  shows "checked_node (getRawValue g)"
proof -
  note sent_text = node_form.valid_field_text [OF assms]
  obtain h where "js_get (getRawValue g) ''hostname'' = JStr h" "test_full HOSTNAME_PATTERN h"
    using sent_text [of "''hostname''" addNodeValidators_hostname True "test_full HOSTNAME_PATTERN"] by (auto simp: checked_fields_def)
  moreover obtain ip where "js_get (getRawValue g) ''ip_address'' = JStr ip" "test_full IP_CONSTRAINT ip"
    using sent_text [of "''ip_address''" addNodeValidators_ip_address True "test_full IP_CONSTRAINT"] by (auto simp: checked_fields_def)
  moreover obtain nt dt where "js_get (getRawValue g) ''node_type'' = JStr nt" "nt \<noteq> []" "js_get (getRawValue g) ''deployment_type'' = JStr dt" "dt \<noteq> []"
    using sent_text [of "''node_type''" COMMON_VALIDATORS_required False "\<lambda>_. True"]
      sent_text [of "''deployment_type''" COMMON_VALIDATORS_required False "\<lambda>_. True"] by (auto simp: checked_fields_def)
  ultimately show ?thesis unfolding checked_node_def by blast
qed

definition an_inv :: "an_state \<Rightarrow> bool" where
  "an_inv s \<longleftrightarrow> (\<forall>g. an_form s = Some g \<longrightarrow> node_ok g) \<and> (\<forall>(v, b) \<in> set (an_options s). v \<in> range JStr) \<and>
     (\<forall>e \<in> set (sent s). addition_ok e)"

lemma an_more: "world.more s = world.more s' \<Longrightarrow> an_form s = an_form s' \<and> an_options s = an_options s'" for s s' :: an_state
  by (cases s; cases s') simp

lemma an_inv_frame: "an_inv s \<Longrightarrow> world.more s' = world.more s \<Longrightarrow> sent s' = sent s \<Longrightarrow> an_inv s'"
  using an_more [of s' s] by (simp add: an_inv_def)

lemma an_inv_emit [simp]: "\<not> is_http e \<Longrightarrow> an_inv (emit e s) = an_inv s"
  by (simp add: an_inv_def emit_def sent_def)

lemma an_inv_fields [simp]:
  "an_inv (s\<lparr>an_available_ips := a\<rparr>) = an_inv s" "an_inv (s\<lparr>an_used_ips := a\<rparr>) = an_inv s" "an_inv (s\<lparr>an_node_type := a\<rparr>) = an_inv s"
  "an_inv (s\<lparr>an_duplicate := b\<rparr>) = an_inv s" "an_inv (s\<lparr>an_settings := a\<rparr>) = an_inv s" "an_inv (s\<lparr>an_kit_status := a\<rparr>) = an_inv s"
  "an_inv (s\<lparr>an_arrays := arrays\<rparr>) = an_inv s" "an_inv (s\<lparr>an_hostnames := n\<rparr>) = an_inv s" "an_inv (s\<lparr>an_ips := n\<rparr>) = an_inv s"
  "an_inv (s\<lparr>an_macs := n\<rparr>) = an_inv s" "an_inv (s\<lparr>an_k8_ips := vs\<rparr>) = an_inv s" "an_inv (s\<lparr>an_wait := b\<rparr>) = an_inv s"
  "an_inv (s\<lparr>requests := ks\<rparr>) = an_inv s" "an_inv (s\<lparr>dialogs := ds\<rparr>) = an_inv s"
  "an_inv (s\<lparr>an_minio_detected := b, an_control_plane_detected := b'\<rparr>) = an_inv s"
  by (simp_all add: an_inv_def sent_def)

lemma an_inv_new_form: "an_inv s \<Longrightarrow> node_ok g \<Longrightarrow> an_inv (s\<lparr>an_form := Some g\<rparr>)"
  by (simp add: an_inv_def sent_def)

lemma an_inv_form:
  assumes "an_inv s" "\<And>g. node_ok g \<Longrightarrow> node_ok (snd (f (an_arrays s) g))"
  shows "an_inv (snd (on_form f s))"
proof (cases "an_form s")
  case (Some g)
  obtain e g' where g': "f (an_arrays s) g = (e, g')" by fastforce
  have "node_ok g'" using assms(2) [of g] assms(1) Some g' by (simp add: an_inv_def)
  then show ?thesis by (simp add: on_form_def Some g' an_inv_new_form [OF assms(1)])
qed (simp add: on_form_def assms(1))

lemma an_inv_call: "an_inv s \<Longrightarrow> addition_ok (Http (ep_method ep) (ep_url ep) (ep_body ep)) \<Longrightarrow> an_inv (call ep k s)"
  by (auto simp: an_inv_def call_def request_def http_def emit_def sent_def)

lemma an_inv_then: "an_inv (snd m) \<Longrightarrow> (\<And>s. an_inv s \<Longrightarrow> an_inv (snd (f s))) \<Longrightarrow> an_inv (snd (and_then m f))"
  by (rule snd_and_then [where P = an_inv])

lemma an_inv_attempt: "an_inv s \<Longrightarrow> (\<And>t. r = Inr t \<Longrightarrow> an_inv t) \<Longrightarrow> an_inv (snd (attempt s r))"
  by (cases r) (simp_all add: attempt_def)

lemma an_inv_arrays [simp]:
  "(\<And>n t. an_inv t \<Longrightarrow> an_inv (assign n t)) \<Longrightarrow> an_inv s \<Longrightarrow> an_inv (new_array vs assign s)" "an_inv (push_to i v s) = an_inv s"
  by (simp_all add: new_array_def push_to_def)

lemma an_inv_on_settings:
  "an_inv s \<Longrightarrow> (\<And>c n. addition_ok (Http (ep_method (ep c n)) (ep_url (ep c n)) (ep_body (ep c n)))) \<Longrightarrow> an_inv (snd (on_settings ep k s))"
  unfolding on_settings_def by (rule an_inv_attempt) (auto simp: sbind_Inr_iff smap_Inr_iff intro: an_inv_call)

lemma an_inv_requests:
  "an_inv s \<Longrightarrow> an_inv (an_api_get_kit_status s)" "an_inv s \<Longrightarrow> an_inv (an_api_get_general_settings s)"
  "an_inv s \<Longrightarrow> an_inv (snd (an_api_get_unused_ip_addresses b s))" "an_inv s \<Longrightarrow> an_inv (snd (an_api_get_used_ip_addresses b s))"
  unfolding an_api_get_kit_status_def an_api_get_general_settings_def an_api_get_unused_ip_addresses_def an_api_get_used_ip_addresses_def
  by (auto intro!: an_inv_call an_inv_on_settings
      simp: addition_ok_def get_kit_status_def get_general_settings_def getUnusedIPAddresses_def get_used_ip_addresses_def endpoint_def)

lemma previous_ok:
  assumes "previous_value previous n d = Inr v" "text_or_missing d" "\<And>p. previous = Some p \<Longrightarrow> node_ok p"
    and "(n, rules, unique, accepts) \<in> set checked_fields"
  shows "text_or_missing v"
proof (cases previous)
  case None
  then show ?thesis using assms(1,2) by (simp add: previous_value_def)
next
  case (Some p)
  then obtain c where c: "map_of p n = Some c" "field_ok rules unique accepts c" using assms(3,4) by (fastforce simp: group_ok_def)
  then show ?thesis using assms(1) Some by (simp add: previous_value_def read_field_def field_ok_def)
qed

lemma group_ok_new:
  assumes "new_node_group previous s = Inr g" "\<And>p. previous = Some p \<Longrightarrow> node_ok p"
  shows "node_ok g"
proof -
  have checked: "(''hostname'', addNodeValidators_hostname, True, test_full HOSTNAME_PATTERN) \<in> set checked_fields"
    "(''ip_address'', addNodeValidators_ip_address, True, test_full IP_CONSTRAINT) \<in> set checked_fields"
    "(''node_type'', COMMON_VALIDATORS_required, False, \<lambda>_. True) \<in> set checked_fields"
    "(''deployment_type'', COMMON_VALIDATORS_required, False, \<lambda>_. True) \<in> set checked_fields"
    by (simp_all add: checked_fields_def)
  obtain h nt dt cs where v: "previous_value previous ''hostname'' (JStr []) = Inr h" "previous_value previous ''node_type'' JUndef = Inr nt"
      "previous_value previous ''deployment_type'' JUndef = Inr dt"
    and g: "g = [(''hostname'', new_node_field (an_arrays s) h (Some (addNodeValidators_hostname, Some (an_hostnames s)))),
        (''ip_address'', new_node_field (an_arrays s) (JStr []) (Some (addNodeValidators_ip_address, Some (an_ips s)))),
        (''node_type'', new_node_field (an_arrays s) nt (Some (COMMON_VALIDATORS_required, None))),
        (''deployment_type'', new_node_field (an_arrays s) dt (Some (COMMON_VALIDATORS_required, None)))] @ cs"
    using assms(1) unfolding new_node_group_def Let_def mapS.simps id_apply
    by (elim sbind_Inr_iff [THEN iffD1, elim_format] smap_Inr_iff [THEN iffD1, elim_format] exE conjE) simp
  have "text_or_missing h" by (rule previous_ok [OF v(1) _ assms(2) checked(1)]) simp
  moreover have "text_or_missing nt" by (rule previous_ok [OF v(2) _ assms(2) checked(3)]) simp
  moreover have "text_or_missing dt" by (rule previous_ok [OF v(3) _ assms(2) checked(4)]) simp
  ultimately have fields: "field_ok addNodeValidators_hostname True (test_full HOSTNAME_PATTERN) (the (map_of g ''hostname''))"
      "field_ok addNodeValidators_ip_address True (test_full IP_CONSTRAINT) (the (map_of g ''ip_address''))"
      "field_ok COMMON_VALIDATORS_required False (\<lambda>_. True) (the (map_of g ''node_type''))"
      "field_ok COMMON_VALIDATORS_required False (\<lambda>_. True) (the (map_of g ''deployment_type''))"
    using node_form.new_field_ok [OF checked(1), of h] node_form.new_field_ok [OF checked(2), of "JStr []"] node_form.new_field_ok [OF checked(3), of nt]
      node_form.new_field_ok [OF checked(4), of dt]
    by (simp_all add: g)
  have "map_of g ''hostname'' \<noteq> None" "map_of g ''ip_address'' \<noteq> None" "map_of g ''node_type'' \<noteq> None" "map_of g ''deployment_type'' \<noteq> None"
    by (simp_all add: g)
  with fields show ?thesis unfolding group_ok_def checked_fields_def by auto
qed

lemma an_inv_initialize:
  assumes "an_inv s" "previous = None \<or> previous = an_form s"
  shows "an_inv (snd (an_initialize_node_form_group previous s))"
  unfolding an_initialize_node_form_group_def
proof (rule an_inv_attempt [OF assms(1)], unfold smap_Inr_iff Let_def, elim exE conjE)
  fix t g
  let ?g1 = "(if previous = None then g else map (\<lambda>(n, c). (n, c\<lparr>fd_touched := True, fd_dirty := fd_dirty c \<or> n = ''deployment_type''\<rparr>)) g) :: node_group"
  let ?g2 = "if read_field ''deployment_type'' ?g1 = Inr BAREMETAL then snd (set_rules (mac_rules s) ''mac_address'' ?g1) else ?g1"
  assume g: "new_node_group previous s = Inr g" and t: "t = s\<lparr>an_form := Some (bind_group (an_arrays s) ?g2)\<rparr>"
  have "node_ok g" using g
  proof (rule group_ok_new)
    fix p assume "previous = Some p"
    then show "node_ok p" using assms by (simp add: an_inv_def)
  qed
  then have "node_ok ?g1" by (simp add: node_form.group_ok_touch_all)
  then have "node_ok (bind_group (an_arrays s) ?g2)" by (intro node_form.group_ok_bind) (auto intro: node_form.group_ok_mac)
  then show "an_inv t" unfolding t by (rule an_inv_new_form [OF assms(1)])
qed

lemma an_inv_addresses: "an_inv s \<Longrightarrow> an_inv (snd (update_available_addresses s))"
proof -
  have rules: "an_inv s \<Longrightarrow> an_inv (snd (update_rules_from_null rules name s))"
    if "\<And>r unique accepts. (name, r, unique, accepts) \<in> set checked_fields \<Longrightarrow> map_option fst rules = Some r \<and> (unique \<longrightarrow> Option.bind rules snd \<noteq> None)"
    for rules name and s :: an_state
    unfolding update_rules_from_null_def
    by (intro an_inv_form node_form.group_ok_then node_form.group_ok_reset_to_null node_form.group_ok_set_rules node_form.group_ok_reset that)
  have hostnames: "an_inv s \<Longrightarrow> an_inv (snd (update_hostname_rules s))" for s
    unfolding update_hostname_rules_def
    by (intro an_inv_form node_form.group_ok_set_rules) (auto simp: checked_fields_def)
  have last: "an_inv s \<Longrightarrow> an_inv (snd (attempt s (smap (\<lambda>address. s\<lparr>an_available_ips := f address, an_wait := False\<rparr>) r)))" for s f and r :: "js_error + string"
    by (rule an_inv_attempt) (auto simp: smap_Inr_iff)
  show "an_inv s \<Longrightarrow> an_inv (snd (update_available_addresses s))"
    unfolding update_available_addresses_def
    by (auto intro!: an_inv_then hostnames rules last simp: checked_fields_def)
qed

lemma an_inv_refs: "an_inv s \<Longrightarrow> an_inv (snd (update_validation_refs b s))"
proof -
  have pushes: "an_inv s \<Longrightarrow> an_inv (snd (each push_node ns s))" for ns s
    by (rule snd_each [where P = an_inv], assumption) (auto intro!: an_inv_attempt simp: push_node_def smap_Inr_iff)
  have reserve: "an_inv s \<Longrightarrow> an_inv (snd (reserve_addresses s))" for s
    by (simp add: reserve_addresses_def Let_def split: option.split)
  show "an_inv s \<Longrightarrow> an_inv (snd (update_validation_refs b s))"
    unfolding update_validation_refs_def
    by (intro an_inv_then pushes reserve) (auto intro: an_inv_initialize an_inv_addresses)
qed

lemma an_inv_virtual: "an_inv s \<Longrightarrow> an_inv (snd (virtual_defaults v s))"
  unfolding virtual_defaults_def by (intro an_inv_then an_inv_form node_form.group_ok_virtual)

lemma an_inv_options:
  "an_inv s \<Longrightarrow> an_inv (s\<lparr>an_options := deployment_options_for v w\<rparr>)"
  by (auto simp: an_inv_def sent_def deployment_options_for_def)

lemma an_inv_change_node_type: "an_inv s \<Longrightarrow> an_inv (snd (an_change_node_type v s))"
  unfolding an_change_node_type_def Let_def
  by (intro an_inv_then an_inv_form node_form.group_ok_marks an_inv_addresses) (auto intro!: an_inv_options an_inv_virtual)

lemma an_inv_baremetal: "an_inv s \<Longrightarrow> an_inv (snd (set_baremetal_validation v s))"
  unfolding set_baremetal_validation_def
  by (intro an_inv_form node_form.group_ok_then node_form.group_ok_mac node_form.group_ok_reset)

lemma an_inv_change_deployment_type: "an_inv s \<Longrightarrow> an_inv (snd (an_change_deployment_type v s))"
  unfolding an_change_deployment_type_def
  by (intro an_inv_then an_inv_requests an_inv_baremetal) (auto intro: an_inv_virtual)

lemma an_inv_choose: "an_inv s \<Longrightarrow> v \<in> range JStr \<or> name \<notin> fst ` set checked_fields \<Longrightarrow> an_inv (snd (an_choose name v s))"
  unfolding an_choose_def
proof (rule an_inv_form, assumption)
  fix g assume g: "node_ok g" "v \<in> range JStr \<or> name \<notin> fst ` set checked_fields"
  from g(2) show "node_ok (snd (type_field (an_arrays s) name v g))"
  proof
    assume "name \<notin> fst ` set checked_fields"
    then show ?thesis unfolding type_field_def by (intro node_form.group_ok_then node_form.group_ok_marks node_form.group_ok_put_other g(1))
  qed (auto intro: node_form.group_ok_type g(1))
qed

lemma an_try_inv: "an_inv s \<Longrightarrow> an_inv (snd (an_try e s))"
proof (cases e)
  case (AN_Address t)
  assume "an_inv s"
  then show ?thesis unfolding AN_Address by (auto intro: an_inv_choose split: js.splits)
next
  case (AN_Node_Type v)
  assume "an_inv s"
  then show ?thesis unfolding AN_Node_Type
    by (auto intro!: an_inv_then an_inv_choose an_inv_change_node_type simp: an_node_type_offered_def)
next
  case (AN_Deployment v)
  assume s: "an_inv s"
  then have "(v, True) \<in> set (an_options s) \<Longrightarrow> v \<in> range JStr" by (auto simp: an_inv_def)
  then show ?thesis unfolding AN_Deployment using s
    by (auto intro!: an_inv_then an_inv_choose an_inv_change_deployment_type)
next
  case AN_Click_Add
  assume s: "an_inv s"
  show ?thesis
  proof (cases "an_form s")
    case (Some g)
    have "an_inv (call (add_node (getRawValue g)) AN_Add s)" if "group_valid g"
      using that s Some by (intro an_inv_call) (auto simp: addition_ok_def add_node_def endpoint_def an_inv_def group_sent)
    then show ?thesis by (simp add: AN_Click_Add Some s an_api_add_node_def)
  qed (simp add: AN_Click_Add s)
next
  case AN_Open_Addresses
  assume "an_inv s"
  then show ?thesis unfolding AN_Open_Addresses an_try.simps autocomplete_changed_def if_True
    by (intro an_inv_form node_form.group_ok_then node_form.group_ok_marks node_form.group_ok_put_text)
next
  case (AN_Type name t)
  assume "an_inv s"
  then show ?thesis unfolding AN_Type by (simp add: an_inv_choose)
next
  case (AN_Raid b)
  assume "an_inv s"
  then show ?thesis unfolding AN_Raid by (simp add: an_inv_choose checked_fields_def)
next
  case (AN_Leave name)
  assume "an_inv s"
  then show ?thesis unfolding AN_Leave an_try.simps by (intro an_inv_form node_form.group_ok_marks)
qed (simp_all add: an_cancel_def an_change_duplicate_node_def)

lemma an_inv_with_value: "an_inv s \<Longrightarrow> (\<And>v. an_inv (snd (f v s))) \<Longrightarrow> an_inv (snd (with_value name f s))"
  by (simp add: with_value_def split: option.split)

lemma an_inv_next: "an_inv s \<Longrightarrow> an_inv (snd (an_next_node s))"
  unfolding an_next_node_def
  by (intro an_inv_then an_inv_with_value) (auto simp: drop_available_def push_used_def intro: an_inv_initialize split: js.split)

lemma an_inv_messages:
  "an_inv s \<Longrightarrow> an_inv (generate_return_success_snackbar_message m c s)"
  "an_inv s \<Longrightarrow> an_inv (displaySnackBar v c s)" "an_inv s \<Longrightarrow> an_inv (report_error m s)"
  "an_inv s \<Longrightarrow> an_inv (report_error_or_message m e s)" "an_inv s \<Longrightarrow> an_inv (show_post_validation v s)"
  by (erule an_inv_frame; simp)+

lemma an_inv_added: "an_inv s \<Longrightarrow> an_inv (snd (an_added s))"
  unfolding an_added_def
  by (intro an_inv_then an_inv_with_value) (auto simp: an_cancel_def intro: an_inv_next an_inv_messages)

lemma an_answer_inv: "an_inv s \<Longrightarrow> an_inv (an_answer k r s)"
proof -
  have step: "an_inv (answered ep next_cb error_cb r s)"
    if "an_inv s" "\<And>x. an_inv (next_cb x s)" "\<And>e s'. an_inv s' \<Longrightarrow> an_inv (error_cb e s')"
    for ep :: "'z endpoint" and next_cb error_cb and s
    by (rule answered_inv [where P = an_inv]) (use that an_inv_frame in auto)
  have add_error: "an_inv s' \<Longrightarrow> an_inv (an_add_error e s')" for e s'
    by (auto simp: an_add_error_def intro: an_inv_messages split: api_error.split)
  assume "an_inv s"
  then show ?thesis
    by (cases k)
      (auto simp: an_api_get_kit_status_answer_def an_api_get_general_settings_answer_def an_api_get_unused_ip_addresses_answer_def
        an_api_get_used_ip_addresses_answer_def an_api_add_node_answer_def
        intro!: step an_inv_messages add_error an_inv_requests an_inv_refs an_inv_added)
qed

interpretation add_node_dialog: async_component "\<lambda>a s. snd (an_try a s)" an_answer "\<lambda>_ _ s. s" an_inv
  by unfold_locales (simp_all add: an_try_inv an_answer_inv)

lemma an_open_inv: "an_inv (an_open k ns ss)"
proof -
  have "an_inv (an_constructor k ns ss)" by (simp add: an_inv_def an_constructor_def sent_def)
  then show ?thesis
    unfolding an_open_def an_ngOnInit_def save_k8_ips_def update_node_type_radio_options_def Let_def
    by (intro an_inv_then an_inv_attempt) (auto simp: smap_Inr_iff an_inv_requests)
qed

text \<open>C19: whatever the user does and whatever the backend answers, in any order, a node is only added with a
  host name and an address that match the patterns and with a node type and a deployment type.\<close>

theorem an_adds_checked_nodes:
  "list_all addition_ok (sent (fold an_step evs (an_open k ns ss)))"
proof -
  have "an_inv (fold an_step evs (an_open k ns ss))"
    unfolding an_step_def by (rule add_node_dialog.machine.run_inv [OF an_open_inv])
  then show ?thesis by (simp add: an_inv_def list_all_iff)
qed

section \<open>The names and addresses that are taken\<close>

definition first_label :: "string \<Rightarrow> string" where
  "first_label name = hd (js_split (CHR ''.'') name)"

lemma push_nodes:
  assumes "map (\<lambda>v. js_get v ''hostname'') ns = map JStr names" "an_arrays t = A @ [H, I, M]"
    and "an_hostnames t = length A" "an_ips t = Suc (length A)" "an_macs t = Suc (Suc (length A))"
  shows "each push_node ns t = (None, t\<lparr>an_arrays := A @ [H @ map (\<lambda>n. JStr (first_label n)) names,
    I @ map (\<lambda>v. js_get v ''ip_address'') ns, M @ map (\<lambda>v. js_get v ''mac_address'') ns]\<rparr>)"
  using assms
proof (induction ns arbitrary: names t H I M)
  case (Cons v ns)
  then obtain n names' where n: "names = n # names'" "js_get v ''hostname'' = JStr n" by (cases names) auto
  let ?t = "t\<lparr>an_arrays := A @ [H @ [JStr (first_label n)], I @ [js_get v ''ip_address''], M @ [js_get v ''mac_address'']]\<rparr>"
  have push: "push_node v t = (None, ?t)"
    using Cons.prems by (simp add: push_node_def n attempt_def push_to_def nth_append first_label_def list_update_append)
  have "each push_node ns ?t = (None, ?t\<lparr>an_arrays := A @ [(H @ [JStr (first_label n)]) @ map (\<lambda>n. JStr (first_label n)) names',
      (I @ [js_get v ''ip_address'']) @ map (\<lambda>v. js_get v ''ip_address'') ns,
      (M @ [js_get v ''mac_address'']) @ map (\<lambda>v. js_get v ''mac_address'') ns]\<rparr>)"
    by (rule Cons.IH) (use Cons.prems n in simp_all)
  then show ?case by (simp add: push n)
qed (simp add: done_with_def)

definition taken_addresses :: "js list \<Rightarrow> js list \<Rightarrow> js list \<Rightarrow> js list" where
  "taken_addresses ns k8 used = remove_duplicate_entries (map (\<lambda>v. js_get v ''ip_address'') ns @ k8 @ used)"

lemma set_taken [simp]: "set (taken_addresses ns k8 used) = set (map (\<lambda>v. js_get v ''ip_address'') ns) \<union> set k8 \<union> set used"
  by (auto simp: taken_addresses_def remove_duplicate_entries_first)

text \<open>The arrays after the addresses in use have arrived.\<close>

definition refreshed_refs :: "string list \<Rightarrow> js list \<Rightarrow> an_state \<Rightarrow> an_state \<Rightarrow> bool" where
  "refreshed_refs names used s t \<longleftrightarrow>
     (\<exists>arrays h i m. t = s\<lparr>an_used_ips := JArr used, an_arrays := arrays, an_hostnames := h, an_ips := i, an_macs := m\<rparr> \<and>
        arrays ! h = map (\<lambda>n. JStr (first_label n)) names \<and> arrays ! i = taken_addresses (an_nodes s) (an_k8_ips s) used)"

lemma refs_refreshed:
  assumes "map (\<lambda>v. js_get v ''hostname'') (an_nodes s) = map JStr names"
  shows "\<exists>t. refreshed_refs names used s t \<and> update_validation_refs False (s\<lparr>an_used_ips := JArr used\<rparr>) = update_available_addresses t"
proof -
  let ?A = "an_arrays s" and ?n = "length (an_arrays s)"
  let ?s = "s\<lparr>an_used_ips := JArr used\<rparr>"
  let ?t0 = "new_array [] set_macs (new_array [] set_ips (new_array [] set_hostnames ?s))"
  let ?H = "map (\<lambda>n. JStr (first_label n)) names" and ?I = "map (\<lambda>v. js_get v ''ip_address'') (an_nodes s)"
    and ?M = "map (\<lambda>v. js_get v ''mac_address'') (an_nodes s)"
  have t0: "?t0 = ?s\<lparr>an_arrays := ?A @ [[], [], []], an_hostnames := ?n, an_ips := Suc ?n, an_macs := Suc (Suc ?n)\<rparr>"
    by (simp add: new_array_def)
  have pushed: "each push_node (an_nodes s) ?t0 = (None, ?t0\<lparr>an_arrays := ?A @ [[] @ ?H, [] @ ?I, [] @ ?M]\<rparr>)"
    by (rule push_nodes) (simp_all add: t0 assms)
  have last_of: "(xs @ [a, b, c, d, e, f]) ! (length xs + 5) = f" for xs :: "js list list" and a b c d e f
    by (simp add: nth_append)
  define t where "t = ?s\<lparr>an_arrays := ?A @ [?H, ?I, ?M, ?I @ an_k8_ips s, (?I @ an_k8_ips s) @ used, taken_addresses (an_nodes s) (an_k8_ips s) used],
      an_hostnames := ?n, an_ips := ?n + 5, an_macs := Suc (Suc ?n)\<rparr>"
  have reserved: "reserve_addresses (?t0\<lparr>an_arrays := ?A @ [?H, ?I, ?M]\<rparr>) = (None, t)"
    by (simp add: reserve_addresses_def t0 new_array_def Let_def nth_append done_with_def t_def taken_addresses_def numeral_eq_Suc)
  have "refreshed_refs names used s t"
    unfolding refreshed_refs_def t_def by (intro exI conjI, rule refl) (simp_all add: nth_append last_of)
  moreover have "update_validation_refs False ?s = update_available_addresses t"
    using pushed reserved by (simp add: update_validation_refs_def)
  ultimately show ?thesis by blast
qed

lemma address_from_null:
  assumes "node_ok g" "rules = Some (addNodeValidators_ip_address, Some i)"
  shows "\<exists>c. (and_then (reset_to_null arrays ''ip_address'' g) (\<lambda>g. and_then (set_rules rules ''ip_address'' g)
      (reset_form_control arrays ''ip_address''))) = (None, AList.update ''ip_address'' c g)"
proof -
  have n: "(''ip_address'', addNodeValidators_ip_address, True, test_full IP_CONSTRAINT) \<in> set checked_fields" by (simp add: checked_fields_def)
  obtain c where c: "map_of g ''ip_address'' = Some c" "field_ok addNodeValidators_ip_address True (test_full IP_CONSTRAINT) c"
    using assms(1) n by (fastforce simp: group_ok_def)
  let ?c1 = "c\<lparr>fd_dirty := False, fd_touched := False\<rparr>"
  obtain c2 where c2: "nf_check arrays (?c1\<lparr>fd_value := JNull\<rparr>) = Inr c2" "field_ok addNodeValidators_ip_address True (test_full IP_CONSTRAINT) c2"
    using ip_rules.check_missing [of "?c1\<lparr>fd_value := JNull\<rparr>" arrays] c(2) by (auto simp: field_ok_def notUndefNull_def)
  let ?c3 = "c2\<lparr>fd_rules := Some addNodeValidators_ip_address, nf_unique := Some i\<rparr>"
  let ?c4 = "?c3\<lparr>fd_dirty := False, fd_touched := False\<rparr>"
  obtain c5 where c5: "nf_check arrays ?c4 = Inr c5"
    using ip_rules.check_untouched [of ?c4 arrays] c2(2) by (auto simp: field_ok_def)
  have "fresh_mark ''ip_address'' g = (None, AList.update ''ip_address'' ?c1 g)"
    unfolding fresh_mark_def by (rule on_field_Some [OF c(1)]) simp
  moreover have "put_value arrays JNull ''ip_address'' (AList.update ''ip_address'' ?c1 g) = (None, AList.update ''ip_address'' c2 g)"
    using put_value_once [of "AList.update ''ip_address'' ?c1 g" "''ip_address''" ?c1 arrays JNull c2] c2(1) by (simp add: update_conv')
  ultimately have "reset_to_null arrays ''ip_address'' g = (None, AList.update ''ip_address'' c2 g)"
    by (simp add: reset_to_null_def)
  moreover have "set_rules rules ''ip_address'' (AList.update ''ip_address'' c2 g) = (None, AList.update ''ip_address'' ?c3 g)"
    unfolding set_rules_def by (subst on_field_Some [of _ _ c2 _ ?c3]) (simp_all add: update_conv' assms(2))
  moreover have "reset_form_control arrays ''ip_address'' (AList.update ''ip_address'' ?c3 g) = (None, AList.update ''ip_address'' c5 g)"
    using c5 by (simp add: reset_form_control_def fresh_mark_def on_field_Some [of _ _ ?c3 _ ?c4] on_field_Some [of _ _ ?c4 _ c5] update_conv')
  ultimately show ?thesis by auto
qed

text \<open>What the refresh leaves: the offered addresses, and a host name checked with the new array.\<close>

definition refreshed :: "string list \<Rightarrow> js list \<Rightarrow> string \<Rightarrow> an_state \<Rightarrow> an_state \<Rightarrow> bool" where
  "refreshed names used address s t \<longleftrightarrow>
     an_available_ips t = JArr (offered_addresses address (an_node_type s) (taken_addresses (an_nodes s) (an_k8_ips s) used)) \<and>
     (\<exists>g c h. an_form t = Some g \<and> map_of g ''hostname'' = Some c \<and> fd_rules c = Some addNodeValidators_hostname \<and>
        nf_unique c = Some h \<and> an_arrays t ! h = map (\<lambda>n. JStr (first_label n)) names)"

lemma addresses_refreshed:
  assumes "refreshed_refs names used s t" "an_form s = Some g" "node_ok g" "\<not> is_baremetal_deployment s"
    and "js_get (an_settings s) ''controller_interface'' = JStr address" "address \<noteq> []" "truthy (an_node_type s)"
  shows "refreshed names used address s (snd (update_available_addresses t))"
proof -
  obtain arrays h i m where t: "t = s\<lparr>an_used_ips := JArr used, an_arrays := arrays, an_hostnames := h, an_ips := i, an_macs := m\<rparr>"
      and a: "arrays ! h = map (\<lambda>n. JStr (first_label n)) names" "arrays ! i = taken_addresses (an_nodes s) (an_k8_ips s) used"
    using assms(1) by (auto simp: refreshed_refs_def)
  have n: "(''hostname'', addNodeValidators_hostname, True, test_full HOSTNAME_PATTERN) \<in> set checked_fields" by (simp add: checked_fields_def)
  obtain c where c: "map_of g ''hostname'' = Some c" using assms(3) n by (fastforce simp: group_ok_def)
  let ?c = "c\<lparr>fd_rules := Some addNodeValidators_hostname, nf_unique := Some h\<rparr>"
  let ?g = "AList.update ''hostname'' ?c g"
  have names: "update_hostname_rules t = (None, t\<lparr>an_form := Some ?g\<rparr>)"
    using on_field_Some [OF c, of "\<lambda>c. Inr (c\<lparr>fd_rules := Some addNodeValidators_hostname, nf_unique := Some h\<rparr>)"]
    by (simp add: update_hostname_rules_def on_form_def t assms(2) set_rules_def)
  have ok: "node_ok ?g"
    using node_form.group_ok_set_rules [OF assms(3), of "''hostname''" "Some (addNodeValidators_hostname, Some h)"]
      on_field_Some [OF c, of "\<lambda>c. Inr (c\<lparr>fd_rules := Some addNodeValidators_hostname, nf_unique := Some h\<rparr>)"]
    by (auto simp: set_rules_def checked_fields_def)
  obtain d where d: "(and_then (reset_to_null arrays ''ip_address'' ?g) (\<lambda>g. and_then (set_rules (Some (addNodeValidators_ip_address, Some i)) ''ip_address'' g)
      (reset_form_control arrays ''ip_address''))) = (None, AList.update ''ip_address'' d ?g)"
    using address_from_null [OF ok refl, of arrays i] by blast
  let ?t = "t\<lparr>an_form := Some (AList.update ''ip_address'' d ?g)\<rparr>"
  have ips: "update_rules_from_null (Some (addNodeValidators_ip_address, Some i)) ''ip_address'' (t\<lparr>an_form := Some ?g\<rparr>) = (None, ?t)"
    using d by (simp add: update_rules_from_null_def on_form_def t)
  have not_bare: "\<not> is_baremetal_deployment ?t"
    using assms(2,4) by (simp add: is_baremetal_deployment_def is_deployment_def update_conv' t)
  have truthy_settings: "truthy (an_settings s)" using assms(5) by (cases "an_settings s") (auto simp: element_index_def split: if_splits option.splits)
  have "snd (update_available_addresses t) = ?t\<lparr>an_available_ips :=
      JArr (offered_addresses address (an_node_type s) (taken_addresses (an_nodes s) (an_k8_ips s) used)), an_wait := False\<rparr>"
    using assms(5-7) truthy_settings names ips not_bare
    by (simp add: update_available_addresses_def t attempt_def a)
  then show ?thesis
    by (simp add: refreshed_def update_conv' t a)
qed

lemma refresh_answer:
  assumes "an_form s = Some g" "node_ok g" "\<not> is_baremetal_deployment s" "i < length (requests s)" "requests s ! i = AN_Used False"
    and "map (\<lambda>v. js_get v ''hostname'') (an_nodes s) = map JStr names"
    and "js_get (an_settings s) ''controller_interface'' = JStr address" "address \<noteq> []" "truthy (an_node_type s)"
  shows "refreshed names used address s (an_step (Answer i (Reply (JArr used))) s)"
proof -
  let ?s = "s\<lparr>requests := remove_nth i (requests s)\<rparr>"
  obtain t where t: "refreshed_refs names used ?s t" "update_validation_refs False (?s\<lparr>an_used_ips := JArr used\<rparr>) = update_available_addresses t"
    using refs_refreshed [of ?s names used] assms(6) by auto
  have "refreshed names used address ?s (snd (update_available_addresses t))"
    by (rule addresses_refreshed [OF t(1)]) (use assms in \<open>simp_all add: is_baremetal_deployment_def is_deployment_def\<close>)
  moreover have "an_step (Answer i (Reply (JArr used))) s = snd (update_available_addresses t)"
    by (simp add: an_step_def async_step_def assms(4,5) an_api_get_used_ip_addresses_answer_def answered_def subscribe_def
        get_used_ip_addresses_def endpoint_def as_is_def t(2))
  ultimately show ?thesis by (simp add: refreshed_def)
qed

text \<open>C32: when the deployment type has changed to one other than Bare Metal and the addresses in use have arrived, in
  whichever order the waiting requests are answered, the dialog offers exactly the addresses of the range for the
  node type in the network of the controller, in order, without those of a node of the kit, of the Kubernetes
  services and of the answer. The theorem supposes the form as every run of the dialog keeps it (\<open>node_ok\<close>), nodes
  with a text as host name, an address of the controller in the settings, and a node type that is chosen; it says
  nothing of Bare Metal, where the control of the MAC address is set up again first.\<close>

theorem an_offers_free_addresses:
  assumes "an_form s = Some g" "node_ok g" "\<not> is_baremetal_deployment s" "i < length (requests s)" "requests s ! i = AN_Used False"
    and "map (\<lambda>v. js_get v ''hostname'') (an_nodes s) = map JStr names"
    and "js_get (an_settings s) ''controller_interface'' = JStr address" "address \<noteq> []" "truthy (an_node_type s)"
  shows "an_available_ips (an_step (Answer i (Reply (JArr used))) s) =
    JArr (filter (\<lambda>ip. ip \<notin> set used \<and> ip \<notin> set (an_k8_ips s) \<and> (\<forall>v \<in> set (an_nodes s). js_get v ''ip_address'' \<noteq> ip))
      (map (\<lambda>n. JStr (subnet_of address @ show_nat n))
        (if an_node_type s \<in> {SENSOR, MINIO} then [50..<96] else [40..<50])))"
proof -
  have range: "map (\<lambda>i. JStr (subnet_of address @ show_nat (i + k))) [0..<n] = map (\<lambda>i. JStr (subnet_of address @ show_nat i)) [k..<k + n]" for k n
    by (rule nth_equalityI) (simp_all add: add.commute)
  have "an_available_ips (an_step (Answer i (Reply (JArr used))) s) =
      JArr (offered_addresses address (an_node_type s) (taken_addresses (an_nodes s) (an_k8_ips s) used))"
    using refresh_answer [OF assms, of used] by (simp add: refreshed_def)
  moreover have "(ip \<notin> set (taken_addresses (an_nodes s) (an_k8_ips s) used)) =
      (ip \<notin> set used \<and> ip \<notin> set (an_k8_ips s) \<and> (\<forall>v \<in> set (an_nodes s). js_get v ''ip_address'' \<noteq> ip))" for ip
    by auto
  ultimately show ?thesis
    by (simp add: offered_addresses_def range number_of_addrs_def address_offset_def del: set_taken)
qed

text \<open>from then on a host name is accepted when it matches the pattern and is not the first label of the
  name of a node that was there when the dialog opened; the names of nodes added by the dialog itself are
  forgotten.\<close>

theorem an_checks_given_names:
  assumes "an_form s = Some g" "node_ok g" "\<not> is_baremetal_deployment s" "requests s = [AN_Used False]"
    and "map (\<lambda>v. js_get v ''hostname'') (an_nodes s) = map JStr names"
    and "js_get (an_settings s) ''controller_interface'' = JStr address" "address \<noteq> []" "truthy (an_node_type s)"
  shows "\<exists>g' c. an_form (fold an_step [Answer 0 (Reply (JArr used)), Act (AN_Type ''hostname'' t)] s) = Some g' \<and>
    map_of g' ''hostname'' = Some c \<and> fd_value c = JStr t \<and>
    fd_valid c = (t \<noteq> [] \<and> test_full HOSTNAME_PATTERN t \<and> t \<notin> set (map first_label names))"
proof -
  obtain u where u: "an_step (Answer 0 (Reply (JArr used))) s = u" by simp
  obtain g1 c h where f: "an_form u = Some g1" "map_of g1 ''hostname'' = Some c" "fd_rules c = Some addNodeValidators_hostname"
      "nf_unique c = Some h" "an_arrays u ! h = map (\<lambda>n. JStr (first_label n)) names"
    using refresh_answer [OF assms(1-3) _ _ assms(5-8), of 0 used] assms(4) by (auto simp: refreshed_def u)
  let ?c = "c\<lparr>fd_value := JStr t\<rparr>"
  obtain e where e: "validateFromArray addNodeValidators_hostname (Some (unique_ops (an_arrays u ! h))) (text_control t (fd_touched c)) = Inr e"
    using hostname_rules.text_checked [of "Some (an_arrays u ! h)" t "fd_touched c"] by auto
  have "fd_control (field.truncate ?c) = text_control t (fd_touched c)"
    by (simp add: fd_control_def text_control_def field.defs)
  then have check: "nf_check (an_arrays u) ?c = Inr (?c\<lparr>fd_valid := (e = None)\<rparr>)"
    using f e by (simp add: nf_check_array field_array_def)
  let ?c' = "?c\<lparr>fd_valid := (e = None), fd_dirty := True\<rparr>"
  have "type_field (an_arrays u) ''hostname'' (JStr t) g1 = (None, AList.update ''hostname'' ?c' g1)"
    using put_value_once [OF f(2) check] by (simp add: type_field_def on_field_Some [of _ _ "?c\<lparr>fd_valid := (e = None)\<rparr>"] update_conv')
  then have "an_form (an_step (Act (AN_Type ''hostname'' t)) u) = Some (AList.update ''hostname'' ?c' g1)"
    by (simp add: an_step_def async_step_def an_text_fields_def an_choose_def on_form_def f(1))
  moreover have "(e = None) = (t \<noteq> [] \<and> test_full HOSTNAME_PATTERN t \<and> t \<notin> set (map first_label names))"
    using unique_name_text(1) [OF e] f(5) by auto
  ultimately show ?thesis by (simp add: u update_conv')
qed

section \<open>Where the checks are lost\<close>

definition cpu_unchecked :: "node_group \<Rightarrow> bool" where
  "cpu_unchecked g \<longleftrightarrow> (\<exists>c. map_of g ''virtual_cpu'' = Some c \<and> fd_rules c = None)"

lemma unchecked_on_field:
  assumes "cpu_unchecked g" "\<And>c c'. n = ''virtual_cpu'' \<Longrightarrow> f c = Inr c' \<Longrightarrow> fd_rules c = None \<Longrightarrow> fd_rules c' = None"
  shows "cpu_unchecked (snd (on_field n f g))"
proof (cases "map_of g n")
  case (Some c)
  then show ?thesis
    using assms by (cases "f c") (auto simp: cpu_unchecked_def on_field_def attempt_def update_conv')
qed (simp add: on_field_def assms(1))

lemma nf_check_rules: "nf_check arrays c = Inr c' \<Longrightarrow> fd_rules c' = fd_rules c"
  by (auto simp: nf_check_def smap_Inr_iff split: option.splits)

lemma unchecked_then: "cpu_unchecked (snd m) \<Longrightarrow> (\<And>g. cpu_unchecked g \<Longrightarrow> cpu_unchecked (snd (f g))) \<Longrightarrow> cpu_unchecked (snd (and_then m f))"
  by (rule snd_and_then [where P = cpu_unchecked])

lemma unchecked_resets:
  "cpu_unchecked g \<Longrightarrow> cpu_unchecked (snd (reset_form_control arrays n g))"
  "cpu_unchecked g \<Longrightarrow> cpu_unchecked (snd (reset_to_null arrays n g))"
  "cpu_unchecked g \<Longrightarrow> n \<noteq> ''virtual_cpu'' \<or> rules = None \<Longrightarrow> cpu_unchecked (snd (set_rules rules n g))"
  unfolding reset_form_control_def reset_to_null_def fresh_mark_def put_value_def set_rules_def
  by (intro unchecked_then unchecked_on_field; auto simp: nf_check_rules)+

definition form_unchecked :: "an_state \<Rightarrow> bool" where
  "form_unchecked s \<longleftrightarrow> (\<exists>g. an_form s = Some g \<and> cpu_unchecked g)"

lemma form_unchecked_then: "form_unchecked (snd m) \<Longrightarrow> (\<And>s. form_unchecked s \<Longrightarrow> form_unchecked (snd (f s))) \<Longrightarrow> form_unchecked (snd (and_then m f))"
  by (rule snd_and_then [where P = form_unchecked])

lemma form_unchecked_on_form:
  "form_unchecked s \<Longrightarrow> (\<And>arrays g. cpu_unchecked g \<Longrightarrow> cpu_unchecked (snd (f arrays g))) \<Longrightarrow> form_unchecked (snd (on_form f s))"
  by (auto simp: form_unchecked_def on_form_def split: prod.split) (metis snd_conv)

lemma form_unchecked_addresses: "form_unchecked s \<Longrightarrow> form_unchecked (snd (update_available_addresses s))"
proof -
  have rules: "form_unchecked s \<Longrightarrow> n \<noteq> ''virtual_cpu'' \<Longrightarrow> form_unchecked (snd (update_rules_from_null rules n s))" for s rules n
    unfolding update_rules_from_null_def by (intro form_unchecked_on_form unchecked_then unchecked_resets) simp_all
  have names: "form_unchecked s \<Longrightarrow> form_unchecked (snd (update_hostname_rules s))" for s
    unfolding update_hostname_rules_def by (intro form_unchecked_on_form unchecked_resets) simp_all
  have last: "form_unchecked s \<Longrightarrow> form_unchecked (snd (attempt s (smap (\<lambda>address. s\<lparr>an_available_ips := f address, an_wait := False\<rparr>) r)))"
    for s f and r :: "js_error + string"
    by (cases r) (simp_all add: attempt_def form_unchecked_def)
  show "form_unchecked s \<Longrightarrow> form_unchecked (snd (update_available_addresses s))"
    unfolding update_available_addresses_def by (auto intro!: form_unchecked_then names rules last)
qed

text \<open>Numbers pass every table of the form of a virtual machine or are refused; none of them throws.\<close>

definition virtual_field_ok :: "node_field \<Rightarrow> bool" where
  "virtual_field_ok c \<longleftrightarrow> fd_rules c \<in> {None, Some addNodeValidators_virtual_cpu, Some addNodeValidators_virtual_mem,
     Some addNodeValidators_virtual_os_drive, Some addNodeValidators_virtual_data_drive}"

definition virtual_ok :: "node_group \<Rightarrow> bool" where
  "virtual_ok g \<longleftrightarrow> (\<forall>n \<in> {''virtual_cpu'', ''virtual_mem'', ''virtual_os''}. \<exists>c. map_of g n = Some c \<and> virtual_field_ok c)"

lemma check_number:
  assumes "virtual_field_ok c" "fd_value c = JNum k"
  shows "\<exists>e. nf_check arrays c = Inr (c\<lparr>fd_valid := e\<rparr>)"
proof -
  have "fd_control (field.truncate c) = number_control k (fd_touched c)"
    by (simp add: fd_control_def number_control_def field.defs assms(2))
  then show ?thesis
    using assms(1)
    by (auto simp: virtual_field_ok_def nf_check_def validateFromArray_def requiredField_number patternValidator_number
        addNodeValidators_virtual_cpu_def addNodeValidators_virtual_mem_def addNodeValidators_virtual_os_drive_def
        addNodeValidators_virtual_data_drive_def)
qed

lemma put_number:
  assumes "virtual_ok g" "n \<in> {''virtual_cpu'', ''virtual_mem'', ''virtual_os''}"
  shows "\<exists>g'. put_value arrays (JNum k) n g = (None, g') \<and> virtual_ok g'"
proof -
  obtain c where c: "map_of g n = Some c" "virtual_field_ok c" using assms by (auto simp: virtual_ok_def)
  have ok: "virtual_field_ok (c\<lparr>fd_value := JNum k, fd_valid := e\<rparr>)" "virtual_field_ok (c\<lparr>fd_value := JNum k\<rparr>)" for e
    using c(2) by (simp_all add: virtual_field_ok_def)
  then obtain e where "nf_check arrays (c\<lparr>fd_value := JNum k\<rparr>) = Inr (c\<lparr>fd_value := JNum k, fd_valid := e\<rparr>)"
    using check_number [of "c\<lparr>fd_value := JNum k\<rparr>" k arrays] by auto
  from put_value_once [OF c(1) this] show ?thesis
    using assms ok(1) [of e] by (auto simp: virtual_ok_def update_conv')
qed

lemma set_default_values_total:
  assumes "virtual_ok g"
  shows "\<exists>g'. set_default_values arrays v g = (None, g') \<and> virtual_ok g'"
proof -
  have "\<exists>g'. set_virtual_group_values arrays a b c d g = (None, g') \<and> virtual_ok g'" for a b c d
  proof -
    obtain g1 where g1: "put_value arrays (JNum a) ''virtual_cpu'' g = (None, g1)" "virtual_ok g1" using put_number [OF assms] by blast
    obtain g2 where g2: "put_value arrays (JNum b) ''virtual_mem'' g1 = (None, g2)" "virtual_ok g2" using put_number [OF g1(2)] by blast
    obtain g3 where g3: "put_value arrays (JNum c) ''virtual_os'' g2 = (None, g3)" "virtual_ok g3" using put_number [OF g2(2)] by blast
    have "virtual_ok (setControl ''virtual_data'' d' g3)" for d'
      using g3(2) by (auto simp: virtual_ok_def setControl_def map_add_def delete_conv' split: option.splits)
    then show ?thesis by (simp add: set_virtual_group_values_def g1 g2 g3 done_with_def)
  qed
  then show ?thesis using assms by (simp add: set_default_values_def done_with_def)
qed

lemma validation_cleared:
  assumes "virtual_ok g" "v \<noteq> VIRTUAL"
  shows "cpu_unchecked (snd (set_virtual_form_validation arrays v g))"
proof -
  obtain c where c: "map_of g ''virtual_cpu'' = Some c" using assms(1) by (auto simp: virtual_ok_def)
  let ?g = "AList.update ''virtual_cpu'' (c\<lparr>fd_rules := None, nf_unique := None\<rparr>) g"
  have first: "set_rules None ''virtual_cpu'' g = (None, ?g)"
    unfolding set_rules_def by (rule on_field_Some [OF c]) simp
  have "cpu_unchecked ?g" by (simp add: cpu_unchecked_def update_conv')
  then have "cpu_unchecked (snd (each (\<lambda>(n, vs). set_rules None n) (virtual_rules g) g))"
    unfolding virtual_rules_def append.simps each.simps prod.case first and_then_simps
    by (intro unchecked_then unchecked_resets snd_each [where P = cpu_unchecked]) (auto intro!: unchecked_resets split: prod.split)
  then show ?thesis
    using assms(2) unfolding set_virtual_form_validation_def
    by (auto intro!: unchecked_then snd_each [where P = cpu_unchecked] unchecked_resets split: prod.splits)
qed

lemma node_type_chosen:
  assumes "an_form s = Some g" "node_ok g"
  shows "\<exists>c. and_then (an_choose ''node_type'' (JStr t) s) (\<lambda>s. on_form (\<lambda>_. leave_field ''node_type'') (s\<lparr>an_node_type := JStr t\<rparr>)) =
    (None, s\<lparr>an_node_type := JStr t, an_form := Some (AList.update ''node_type'' c g)\<rparr>)"
proof -
  have n: "(''node_type'', COMMON_VALIDATORS_required, False, \<lambda>_. True) \<in> set checked_fields" by (simp add: checked_fields_def)
  obtain c where c: "map_of g ''node_type'' = Some c" "field_ok COMMON_VALIDATORS_required False (\<lambda>_. True) c"
    using assms(2) n by (fastforce simp: group_ok_def)
  obtain c1 where c1: "nf_check (an_arrays s) (c\<lparr>fd_value := JStr t\<rparr>) = Inr c1"
    using required_rules.check_text [of "c\<lparr>fd_value := JStr t\<rparr>" t "an_arrays s"] c(2) by (auto simp: field_ok_def)
  let ?c2 = "c1\<lparr>fd_dirty := True\<rparr>" let ?c3 = "?c2\<lparr>fd_touched := True\<rparr>"
  have "type_field (an_arrays s) ''node_type'' (JStr t) g = (None, AList.update ''node_type'' ?c2 g)"
    using put_value_once [OF c(1) c1] by (simp add: type_field_def on_field_Some [of _ _ c1 _ ?c2] update_conv')
  moreover have "leave_field ''node_type'' (AList.update ''node_type'' ?c2 g) = (None, AList.update ''node_type'' ?c3 g)"
    by (simp add: leave_field_def on_field_Some [of _ _ ?c2 _ ?c3] update_conv')
  ultimately have "and_then (an_choose ''node_type'' (JStr t) s) (\<lambda>s. on_form (\<lambda>_. leave_field ''node_type'') (s\<lparr>an_node_type := JStr t\<rparr>)) =
      (None, s\<lparr>an_node_type := JStr t, an_form := Some (AList.update ''node_type'' ?c3 g)\<rparr>)"
    by (simp add: an_choose_def on_form_def assms(1))
  then show ?thesis by blast
qed

lemma and_then_assoc: "and_then (and_then m f) h = and_then m (\<lambda>s. and_then (f s) h)"
  by (cases m; cases "fst m") (auto simp: and_then_def split: option.splits)

text \<open>when the type of the node is changed while a virtual machine is configured, the form takes any text,
  also none, for the number of processors: the new node type is given where the deployment type belongs, so
  the validators are removed.\<close>

theorem an_virtual_machine_unchecked:
  assumes "an_form s = Some g" "node_ok g" "virtual_ok g" "is_virtual_machine_deployment s" "an_node_type_offered v s"
  shows "\<exists>g' c. an_form (fold an_step [Act (AN_Node_Type v), Act (AN_Type ''virtual_cpu'' t)] s) = Some g' \<and>
    map_of g' ''virtual_cpu'' = Some c \<and> fd_value c = JStr t \<and> fd_valid c"
proof -
  obtain w where v: "v = JStr w" "v \<noteq> VIRTUAL" using assms(5) by (auto simp: an_node_type_offered_def)
  obtain c where chosen: "and_then (an_choose ''node_type'' v s) (\<lambda>s. on_form (\<lambda>_. leave_field ''node_type'') (s\<lparr>an_node_type := v\<rparr>)) =
      (None, s\<lparr>an_node_type := v, an_form := Some (AList.update ''node_type'' c g)\<rparr>)"
    using node_type_chosen [OF assms(1,2)] v(1) by blast
  let ?g = "AList.update ''node_type'' c g"
  let ?s = "s\<lparr>an_node_type := v, an_form := Some ?g, an_options := deployment_options_for v (an_kit_status s),
      an_duplicate := an_duplicate s \<and> v \<noteq> CONTROL_PLANE \<and> v \<noteq> MINIO\<rparr>"
  have virtual: "is_virtual_machine_deployment ?s"
    using assms(1,4) by (simp add: is_virtual_machine_deployment_def is_deployment_def update_conv')
  have "virtual_ok ?g" using assms(3) by (simp add: virtual_ok_def update_conv')
  then obtain g1 where g1: "set_default_values (an_arrays s) v ?g = (None, g1)" "virtual_ok g1" using set_default_values_total by blast
  have "form_unchecked (snd (virtual_defaults v ?s))"
    using validation_cleared [OF g1(2) v(2), of "an_arrays s"] g1(1)
    by (simp add: virtual_defaults_def on_form_def form_unchecked_def split: prod.split) (metis snd_conv)
  then have "form_unchecked (snd (and_then (virtual_defaults v ?s) update_available_addresses))"
    by (intro form_unchecked_then form_unchecked_addresses)
  moreover have "an_step (Act (AN_Node_Type v)) s = snd (and_then (virtual_defaults v ?s) update_available_addresses)"
  proof -
    have "and_then (an_choose ''node_type'' v s) (an_change_node_type v) =
        and_then (and_then (an_choose ''node_type'' v s) (\<lambda>s. on_form (\<lambda>_. leave_field ''node_type'') (s\<lparr>an_node_type := v\<rparr>)))
          (\<lambda>s. let s = s\<lparr>an_options := deployment_options_for v (an_kit_status s),
              an_duplicate := an_duplicate s \<and> v \<noteq> CONTROL_PLANE \<and> v \<noteq> MINIO\<rparr>
            in and_then (if is_virtual_machine_deployment s then virtual_defaults v s else done_with s) update_available_addresses)"
      unfolding and_then_assoc an_change_node_type_def Let_def ..
    then show ?thesis
      using virtual assms(5) by (simp add: an_step_def async_step_def chosen Let_def)
  qed
  ultimately obtain g' d where d: "an_form (an_step (Act (AN_Node_Type v)) s) = Some g'" "map_of g' ''virtual_cpu'' = Some d" "fd_rules d = None"
    by (auto simp: form_unchecked_def cpu_unchecked_def)
  obtain u where u: "an_step (Act (AN_Node_Type v)) s = u" by simp
  let ?d = "d\<lparr>fd_value := JStr t, fd_valid := True\<rparr>"
  have check: "nf_check (an_arrays u) (d\<lparr>fd_value := JStr t\<rparr>) = Inr ?d" by (simp add: nf_check_def d(3))
  have "type_field (an_arrays u) ''virtual_cpu'' (JStr t) g' = (None, AList.update ''virtual_cpu'' (?d\<lparr>fd_dirty := True\<rparr>) g')"
    using put_value_once [OF d(2) check] by (simp add: type_field_def on_field_Some [of _ _ ?d _ "?d\<lparr>fd_dirty := True\<rparr>"] update_conv')
  then have "an_form (an_step (Act (AN_Type ''virtual_cpu'' t)) u) = Some (AList.update ''virtual_cpu'' (?d\<lparr>fd_dirty := True\<rparr>) g')"
    using d(1) [unfolded u] by (simp add: an_step_def async_step_def an_text_fields_def an_choose_def on_form_def)
  then show ?thesis by (simp add: u update_conv')
qed

lemma read_missing: "\<not> has_data_drive g \<Longrightarrow> \<exists>e. new_node_group (Some g) s = Inl e"
proof -
  assume "\<not> has_data_drive g"
  then have "previous_value (Some g) ''virtual_data'' JUndef = Inl TypeError"
    by (simp add: previous_value_def read_field_def has_data_drive_def)
  then have "new_node_group (Some g) s \<noteq> Inr g'" for g'
    by (auto simp: new_node_group_def Let_def smap_Inr_iff sbind_Inr_iff)
  then show ?thesis by (cases "new_node_group (Some g) s") auto
qed

definition unnoticed :: "an_state \<Rightarrow> an_state \<Rightarrow> bool" where
  "unnoticed s t \<longleftrightarrow> trace t = trace s \<and> an_form t = an_form s"

lemma next_node_stops:
  assumes "an_form s = Some g" "\<not> has_data_drive g"
  shows "\<exists>e t. an_next_node s = (Some e, t) \<and> unnoticed s t"
proof -
  have wv: "unnoticed s (snd (with_value n f t))" if "unnoticed s t" "\<And>v. unnoticed s (snd (f v t))" for n f t
    using that by (simp add: with_value_def split: option.split)
  have stop: "\<exists>e t'. and_then m f = (Some e, t') \<and> unnoticed s t'"
    if "unnoticed s (snd m)" "\<And>t. unnoticed s t \<Longrightarrow> \<exists>e t'. f t = (Some e, t') \<and> unnoticed s t'" for m and f :: "an_state \<Rightarrow> an_state attempt"
    using that by (cases m; cases "fst m") auto
  have last: "\<exists>e t'. an_initialize_node_form_group (an_form t) t = (Some e, t') \<and> unnoticed s t'" if "unnoticed s t" for t
    using that assms read_missing [OF assms(2), of t]
    by (auto simp: an_initialize_node_form_group_def unnoticed_def attempt_def)
  show ?thesis
    unfolding an_next_node_def
    by (intro stop last wv)
      (auto simp: unnoticed_def drop_available_def push_used_def push_to_def intro!: wv split: js.split)
qed

text \<open>when the form has lost its field for a data drive, which a control plane on a virtual machine takes
  away, the answer to an added node is dropped: nothing is reported, the form keeps the node that was added
  and the dialog stays open.\<close>

theorem an_added_without_data_drive:
  assumes "i < length (requests s)" "requests s ! i = AN_Add" "an_duplicate s" "an_form s = Some g" "\<not> has_data_drive g"
    and "new_GenericJobAndKeyClass v = Inr x"
  shows "trace (an_step (Answer i (Reply v)) s) = trace s \<and> an_form (an_step (Answer i (Reply v)) s) = Some g"
proof -
  let ?s = "s\<lparr>requests := remove_nth i (requests s)\<rparr>"
  obtain e t where t: "an_next_node ?s = (Some e, t)" "unnoticed ?s t" using next_node_stops [of ?s g] assms(4,5) by auto
  have "an_step (Answer i (Reply v)) s = snd (an_added ?s)"
    by (simp add: an_step_def async_step_def assms(1,2) an_api_add_node_answer_def answered_def subscribe_def add_node_def endpoint_def assms(6))
  also have "snd (an_added ?s) = t" using assms(3) t(1) by (simp add: an_added_def)
  finally show ?thesis using t(2) assms(4) by (simp add: unnoticed_def)
qed

section \<open>Examples\<close>

text \<open>A dialog for a kit with one node, with the form as it is first shown.\<close>

definition an_example :: an_state where
  "an_example =
     (an_constructor (JObj []) [JObj [(''hostname'', JStr ''server1.lan''), (''ip_address'', JStr ''10.0.0.41'')]] [])
       \<lparr>an_node_type := SERVER, an_settings := JObj [(''controller_interface'', JStr ''10.0.0.1'')]\<rparr>"

lemma first_group: "\<exists>g. new_node_group None s = Inr g \<and> node_ok g \<and> virtual_ok g \<and> (\<exists>c. map_of g ''deployment_type'' = Some c)"
proof -
  obtain g where g: "new_node_group None s = Inr g" by (simp add: new_node_group_def previous_value_def Let_def)
  have rules: "fd_rules (new_node_field arrays v None) = None" for arrays v
    by (simp add: new_node_field_def Let_def nf_check_def settle_def field.defs new_field_def fd_validate_def)
  have "virtual_ok g" "\<exists>c. map_of g ''deployment_type'' = Some c"
    using g by (auto simp: new_node_group_def previous_value_def virtual_ok_def virtual_field_ok_def rules Let_def)
  then show ?thesis using g group_ok_new [OF g] by auto
qed

definition an_first_form :: node_group where
  "an_first_form = projr (new_node_group None an_example)"

lemma an_first_form: "node_ok an_first_form" "virtual_ok an_first_form" "\<exists>c. map_of an_first_form ''deployment_type'' = Some c"
  "map_of an_first_form ''deployment_type'' = Some c \<Longrightarrow> fd_value c = JNull"
proof -
  obtain g where g: "new_node_group None an_example = Inr g" "node_ok g" "virtual_ok g" "\<exists>c. map_of g ''deployment_type'' = Some c"
    using first_group by blast
  then show "node_ok an_first_form" "virtual_ok an_first_form" "\<exists>c. map_of an_first_form ''deployment_type'' = Some c"
    by (simp_all add: an_first_form_def)
  have "fd_value (new_node_field arrays v rules) = new_control v" for arrays v rules
    by (auto simp: new_node_field_def Let_def nf_check_def settle_def field.defs new_field_def fd_validate_def smap_Inr_iff
        split: option.splits sum.splits)
  then show "map_of an_first_form ''deployment_type'' = Some c \<Longrightarrow> fd_value c = JNull"
    by (auto simp: an_first_form_def new_node_group_def previous_value_def Let_def)
qed

lemma an_example_fields:
  "an_nodes an_example = [JObj [(''hostname'', JStr ''server1.lan''), (''ip_address'', JStr ''10.0.0.41'')]]"
  "js_get (an_settings an_example) ''controller_interface'' = JStr ''10.0.0.1''" "an_node_type an_example = SERVER"
  "an_k8_ips an_example = []"
  by (simp_all add: an_example_def an_constructor_def)

theorem an_offers_free_addresses_witness:
  "an_available_ips (an_step (Answer 0 (Reply (JArr [JStr ''10.0.0.43'']))) (an_example\<lparr>an_form := Some an_first_form, requests := [AN_Used False]\<rparr>)) =
    JArr (filter (\<lambda>ip. ip \<notin> {JStr ''10.0.0.43'', JStr ''10.0.0.41''}) (map (\<lambda>n. JStr (subnet_of ''10.0.0.1'' @ show_nat n)) [40..<50]))"
proof -
  let ?s = "an_example\<lparr>an_form := Some an_first_form, requests := [AN_Used False]\<rparr>"
  have "\<not> is_baremetal_deployment ?s"
    using an_first_form(4) by (auto simp: is_baremetal_deployment_def is_deployment_def split: option.split)
  then show ?thesis
    using an_offers_free_addresses [of ?s an_first_form 0 "[''server1.lan'']" "''10.0.0.1''" "[JStr ''10.0.0.43'']"]
    by (simp add: an_example_fields an_first_form conj_commute eq_commute)
qed

theorem an_checks_given_names_witness:
  "\<exists>g' c. an_form (fold an_step [Answer 0 (Reply (JArr [])), Act (AN_Type ''hostname'' ''server1'')]
      (an_example\<lparr>an_form := Some an_first_form, requests := [AN_Used False]\<rparr>)) = Some g' \<and>
    map_of g' ''hostname'' = Some c \<and> fd_value c = JStr ''server1'' \<and> \<not> fd_valid c"
proof -
  let ?s = "an_example\<lparr>an_form := Some an_first_form, requests := [AN_Used False]\<rparr>"
  have "\<not> is_baremetal_deployment ?s"
    using an_first_form(4) by (auto simp: is_baremetal_deployment_def is_deployment_def split: option.split)
  moreover have "first_label ''server1.lan'' = ''server1''" by (simp add: first_label_def)
  ultimately show ?thesis
    using an_checks_given_names [of ?s an_first_form "[''server1.lan'']" "''10.0.0.1''" "[]" "''server1''"]
    by (simp add: an_example_fields an_first_form del: fold.simps)
qed

theorem an_virtual_machine_unchecked_witness:
  "\<exists>g' c. an_form (fold an_step [Act (AN_Node_Type SENSOR), Act (AN_Type ''virtual_cpu'' [])]
      (an_example\<lparr>an_form := Some (AList.update ''deployment_type'' ((the (map_of an_first_form ''deployment_type''))\<lparr>fd_value := VIRTUAL\<rparr>) an_first_form)\<rparr>)) = Some g' \<and>
    map_of g' ''virtual_cpu'' = Some c \<and> fd_value c = JStr [] \<and> fd_valid c"
proof -
  obtain c where c: "map_of an_first_form ''deployment_type'' = Some c" using an_first_form(3) by blast
  have "field_ok COMMON_VALIDATORS_required False (\<lambda>_. True) c"
    using an_first_form(1) by (rule node_form.field_of_group [OF _ _ c]) (simp add: checked_fields_def)
  then have "node_ok (AList.update ''deployment_type'' (c\<lparr>fd_value := VIRTUAL\<rparr>) an_first_form)"
    by (intro node_form.group_ok_update an_first_form(1)) (auto simp: checked_fields_def field_ok_def)
  moreover have "virtual_ok (AList.update ''deployment_type'' (c\<lparr>fd_value := VIRTUAL\<rparr>) an_first_form)"
    using an_first_form(2) by (simp add: virtual_ok_def update_conv')
  ultimately show ?thesis
    using c by (intro an_virtual_machine_unchecked)
      (simp_all add: is_virtual_machine_deployment_def is_deployment_def update_conv' an_node_type_offered_def)
qed

theorem an_added_without_data_drive_witness:
  "trace (an_step (Answer 0 (Reply (JObj [])))
      (an_example\<lparr>an_form := Some (setControl ''virtual_data'' None an_first_form), an_duplicate := True, requests := [AN_Add]\<rparr>)) = [] \<and>
   an_form (an_step (Answer 0 (Reply (JObj [])))
      (an_example\<lparr>an_form := Some (setControl ''virtual_data'' None an_first_form), an_duplicate := True, requests := [AN_Add]\<rparr>)) =
     Some (setControl ''virtual_data'' None an_first_form)"
proof -
  have "\<not> has_data_drive (setControl ''virtual_data'' None an_first_form)"
    by (simp add: has_data_drive_def setControl_def delete_conv')
  moreover obtain x where "new_GenericJobAndKeyClass (JObj []) = Inr x"
    by (simp add: new_GenericJobAndKeyClass_def construct_def copy_def notUndefNull_def)
  ultimately show ?thesis
    using an_added_without_data_drive [of 0 "an_example\<lparr>an_form := Some (setControl ''virtual_data'' None an_first_form), an_duplicate := True, requests := [AN_Add]\<rparr>"
        "setControl ''virtual_data'' None an_first_form" "JObj []" x]
    by (simp add: an_example_def an_constructor_def)
qed

end
