(* ===== verification/Add_Mip_Dialog.thy ===== *)
theory Add_Mip_Dialog
  imports Node_Forms
begin

text \<open>
  \<open>modules/mip-mng/components/add-mip-dialog/add-mip-dialog.component.ts\<close>: the dialog that adds a MIP. It
  closes with its form, which the page then sends, or, with \<open>Duplicate Node\<close>, sends the form itself and stays
  open with a form for the next MIP.
\<close>

section \<open>State\<close>

datatype am_request = AM_General | AM_Unused | AM_Nodes bool | AM_Add js

record am_state = "(am_request, unit) async" +
  am_form :: "node_group option"
  am_available_ips :: js
  am_duplicate :: bool
  am_settings :: js
  am_arrays :: "js list list"
  am_hostnames :: nat
  am_ips :: nat
  am_macs :: nat

definition am_constructor :: am_state where
  "am_constructor =
     \<lparr>trace = [], matSnackBarRef = None, requests = [], dialogs = [], am_form = None, am_available_ips = JArr [],
      am_duplicate = False, am_settings = JObj [], am_arrays = [[], [], []], am_hostnames = 0, am_ips = 1, am_macs = 2\<rparr>"

definition am_on_form :: "(js list list \<Rightarrow> node_group \<Rightarrow> node_group attempt) \<Rightarrow> am_state \<Rightarrow> am_state attempt" where
  "am_on_form f s =
     (case am_form s of
        None \<Rightarrow> (Some TypeError, s)
      | Some g \<Rightarrow> (let (e, g') = f (am_arrays s) g in (e, s\<lparr>am_form := Some g'\<rparr>)))"

definition am_push :: "nat \<Rightarrow> js \<Rightarrow> am_state \<Rightarrow> am_state" where
  "am_push i v s = s\<lparr>am_arrays := (am_arrays s)[i := am_arrays s ! i @ [v]]\<rparr>"

section \<open>Requests\<close>

definition am_api_get_general_settings :: "am_state \<Rightarrow> am_state" where
  "am_api_get_general_settings = call get_general_settings AM_General"

definition am_api_get_unused_ip_addresses :: "am_state \<Rightarrow> am_state attempt" where
  "am_api_get_unused_ip_addresses s =
     attempt s (sbind (js_index (am_settings s) ''controller_interface'') (\<lambda>c.
       smap (\<lambda>n. call (getUnusedIPAddresses c n) AM_Unused s) (js_index (am_settings s) ''netmask'')))"

definition am_api_get_nodes :: "bool \<Rightarrow> am_state \<Rightarrow> am_state" where
  "am_api_get_nodes call_initialize = call get_nodes (AM_Nodes call_initialize)"

definition am_api_add_mip :: "js \<Rightarrow> am_state \<Rightarrow> am_state" where
  "am_api_add_mip hostname s = (case am_form s of None \<Rightarrow> s | Some g \<Rightarrow> call (addMip (getRawValue g)) (AM_Add hostname) s)"

definition am_ngOnInit :: "am_state \<Rightarrow> am_state" where
  "am_ngOnInit s = am_api_get_nodes True (am_api_get_general_settings s)"

section \<open>The form\<close>

definition am_mac_rules :: "am_state \<Rightarrow> (validator_object list \<times> nat option) option" where
  "am_mac_rules s = Some (addNodeValidators_mac_address, Some (am_macs s))"

definition am_previous :: "node_group option \<Rightarrow> string \<Rightarrow> js_error + js" where
  "am_previous previous name = (case previous of None \<Rightarrow> Inr JUndef | Some g \<Rightarrow> read_field name g)"

definition am_new_group :: "node_group option \<Rightarrow> am_state \<Rightarrow> js_error + node_group" where
  "am_new_group previous s =
     (let ctl = (\<lambda>name rules. smap (\<lambda>v. (name, new_node_field (am_arrays s) v rules)) (am_previous previous name))
      in mapS id
        [Inr (''hostname'', new_node_field (am_arrays s) JUndef (Some (addNodeValidators_hostname, Some (am_hostnames s)))),
         Inr (''ip_address'', new_node_field (am_arrays s) JUndef (Some (addNodeValidators_ip_address, Some (am_ips s)))),
         ctl ''deployment_type'' (Some (COMMON_VALIDATORS_required, None)), ctl ''mac_address'' (am_mac_rules s),
         ctl ''virtual_cpu'' None, ctl ''virtual_mem'' None, ctl ''virtual_os'' None])"

text \<open>The second condition tests whether a comparison is defined, which it always is.\<close>

definition am_initialize_node_form_group :: "node_group option \<Rightarrow> am_state \<Rightarrow> am_state attempt" where
  "am_initialize_node_form_group previous s =
     attempt s (smap (\<lambda>g. s\<lparr>am_form := Some (bind_group (am_arrays s)
         (if previous \<noteq> None then snd (set_rules None ''mac_address'' g) else g))\<rparr>)
       (am_new_group previous s))"

definition am_is_deployment :: "js \<Rightarrow> am_state \<Rightarrow> bool" where
  "am_is_deployment v s =
     (case am_form s of None \<Rightarrow> False | Some g \<Rightarrow>
        (case map_of g ''deployment_type'' of None \<Rightarrow> False | Some c \<Rightarrow> fd_value c = v))"

definition am_is_virtual_machine_deployment :: "am_state \<Rightarrow> bool" where
  "am_is_virtual_machine_deployment = am_is_deployment VIRTUAL"

definition am_is_baremetal_deployment :: "am_state \<Rightarrow> bool" where
  "am_is_baremetal_deployment = am_is_deployment BAREMETAL"

definition am_change_deployment_type :: "js \<Rightarrow> am_state \<Rightarrow> am_state attempt" where
  "am_change_deployment_type v s =
     (let s = am_api_get_nodes False s in
      and_then (am_on_form (\<lambda>arrays g.
        and_then (set_rules (if v = BAREMETAL then am_mac_rules s else None) ''mac_address'' g)
          (reset_form_control arrays ''mac_address'')) s) (\<lambda>s.
      if am_is_virtual_machine_deployment s
      then and_then (am_on_form (\<lambda>arrays. set_default_values arrays MIP) s)
             (am_on_form (\<lambda>arrays. set_virtual_form_validation arrays v))
      else done_with s))"

definition am_cancel :: "am_state \<Rightarrow> am_state" where
  "am_cancel = emit (DialogClose JUndef)"

definition am_with_value :: "string \<Rightarrow> (js \<Rightarrow> am_state \<Rightarrow> am_state attempt) \<Rightarrow> am_state \<Rightarrow> am_state attempt" where
  "am_with_value name f s =
     (case Option.bind (am_form s) (\<lambda>g. map_of g name) of None \<Rightarrow> (Some TypeError, s) | Some c \<Rightarrow> f (fd_value c) s)"

text \<open>What the page reads of a form group: whether it is valid and \<open>getRawValue()\<close>.\<close>

definition group_result :: "node_group \<Rightarrow> js" where
  "group_result g = JObj [(''valid'', JBool (group_valid g)), (''rawValue'', getRawValue g)]"

definition am_add :: "am_state \<Rightarrow> am_state attempt" where
  "am_add s =
     (if am_duplicate s then am_with_value ''hostname'' (\<lambda>h s. done_with (am_api_add_mip h s)) s
      else done_with (case am_form s of None \<Rightarrow> emit (DialogClose JUndef) s | Some g \<Rightarrow> emit (DialogClose (group_result g)) s))"

definition am_duplicate_node_change :: "bool \<Rightarrow> am_state \<Rightarrow> am_state" where
  "am_duplicate_node_change b s = s\<lparr>am_duplicate := b\<rparr>"

section \<open>Answers\<close>

definition am_api_get_general_settings_answer :: "reply \<Rightarrow> am_state \<Rightarrow> am_state" where
  "am_api_get_general_settings_answer =
     answered get_general_settings (\<lambda>response s. snd (am_api_get_unused_ip_addresses (s\<lparr>am_settings := response\<rparr>)))
       (report_error_or_message ''retrieving general settings'')"

definition am_api_get_unused_ip_addresses_answer :: "reply \<Rightarrow> am_state \<Rightarrow> am_state" where
  "am_api_get_unused_ip_addresses_answer =
     answered (getUnusedIPAddresses JUndef JUndef) (\<lambda>response s. s\<lparr>am_available_ips := response\<rparr>)
       (report_error_or_message ''retrieving unused ip addresses'')"

definition am_push_node :: "js \<Rightarrow> am_state \<Rightarrow> am_state attempt" where
  "am_push_node node s =
     attempt s (smap (\<lambda>hostname.
         am_push (am_macs s) (js_get node ''mac_address'') (am_push (am_ips s) (js_get node ''ip_address'')
           (am_push (am_hostnames s) (JStr (hd (js_split (CHR ''.'') hostname))) s)))
       (as_string (js_get node ''hostname'')))"

definition am_new_arrays :: "am_state \<Rightarrow> am_state" where
  "am_new_arrays s =
     (let n = length (am_arrays s) in
      s\<lparr>am_arrays := am_arrays s @ [[], [], []], am_hostnames := n, am_ips := n + 1, am_macs := n + 2\<rparr>)"

definition am_nodes_loaded :: "bool \<Rightarrow> js list \<Rightarrow> am_state \<Rightarrow> am_state attempt" where
  "am_nodes_loaded call_initialize response s =
     and_then (each am_push_node response (am_new_arrays s))
       (if call_initialize then am_initialize_node_form_group None else done_with)"

definition am_api_get_nodes_answer :: "bool \<Rightarrow> reply \<Rightarrow> am_state \<Rightarrow> am_state" where
  "am_api_get_nodes_answer call_initialize =
     answered get_nodes (\<lambda>response s. snd (am_nodes_loaded call_initialize response s))
       (report_error_or_message ''retrieving nodes'')"

definition am_drop_available :: "js \<Rightarrow> am_state \<Rightarrow> am_state attempt" where
  "am_drop_available ip s =
     (case am_available_ips s of
        JArr vs \<Rightarrow> done_with (s\<lparr>am_available_ips := JArr (filter (\<lambda>v. \<not> strict_eq v ip) vs)\<rparr>)
      | _ \<Rightarrow> (Some TypeError, s))"

definition am_added :: "js \<Rightarrow> am_state \<Rightarrow> am_state attempt" where
  "am_added hostname s =
     and_then (am_with_value ''ip_address'' am_drop_available s) (\<lambda>s.
     and_then (am_with_value ''ip_address'' (\<lambda>ip s. done_with (am_push (am_ips s) ip s)) s) (\<lambda>s.
     and_then (am_with_value ''hostname'' (\<lambda>h s. done_with (am_push (am_hostnames s) h s)) s) (\<lambda>s.
     and_then (am_with_value ''mac_address'' (\<lambda>m s. done_with (if notUndefNull m then am_push (am_macs s) m s else s)) s) (\<lambda>s.
     and_then (am_initialize_node_form_group (am_form s) s) (\<lambda>s.
     done_with (generate_return_success_snackbar_message (''started node creation job for '' @ str hostname @ ''.'')
       (Some MAT_SNACKBAR_CONFIGURATION_60000_DUR_DISMISS) s))))))"

definition am_api_add_mip_answer :: "js \<Rightarrow> reply \<Rightarrow> am_state \<Rightarrow> am_state" where
  "am_api_add_mip_answer hostname = answered (addMip JUndef) (\<lambda>_ s. snd (am_added hostname s)) mip_api_add_mip_error"

section \<open>Events\<close>

datatype am_action =
    AM_Type string string | AM_Leave string | AM_Open_Addresses | AM_Address string | AM_Deployment js | AM_Duplicate bool
  | AM_Click_Add | AM_Click_Cancel

text \<open>The template shows the field of the MAC address for bare metal only, and enables \<open>Add\<close> while the form is
  valid.\<close>

definition am_shown :: "string \<Rightarrow> am_state \<Rightarrow> bool" where
  "am_shown name s \<longleftrightarrow>
     name = ''hostname'' \<or> name = ''mac_address'' \<and> am_is_baremetal_deployment s \<or>
     name \<in> {''virtual_cpu'', ''virtual_mem'', ''virtual_os''} \<and> am_is_virtual_machine_deployment s"

definition am_choose :: "string \<Rightarrow> js \<Rightarrow> am_state \<Rightarrow> am_state attempt" where
  "am_choose name v = am_on_form (\<lambda>arrays. type_field arrays name v)"

fun am_try :: "am_action \<Rightarrow> am_state \<Rightarrow> am_state attempt" where
  "am_try (AM_Type name t) s = (if am_shown name s then am_choose name (JStr t) s else done_with s)"
| "am_try (AM_Leave name) s = am_on_form (\<lambda>_. leave_field name) s"
| "am_try AM_Open_Addresses s = am_on_form (\<lambda>arrays. autocomplete_changed arrays True ''ip_address'') s"
| "am_try (AM_Address t) s =
     (case am_available_ips s of
        JArr vs \<Rightarrow> if JStr t \<in> set vs then am_choose ''ip_address'' (JStr t) s else done_with s
      | _ \<Rightarrow> done_with s)"
| "am_try (AM_Deployment v) s =
     (if v \<in> {BAREMETAL, VIRTUAL} then and_then (am_choose ''deployment_type'' v s) (am_change_deployment_type v)
      else done_with s)"
| "am_try (AM_Duplicate b) s = done_with (am_duplicate_node_change b s)"
| "am_try AM_Click_Add s =
     (case am_form s of None \<Rightarrow> done_with s | Some g \<Rightarrow> if group_valid g then am_add s else done_with s)"
| "am_try AM_Click_Cancel s = done_with (am_cancel s)"

fun am_answer :: "am_request \<Rightarrow> reply \<Rightarrow> am_state \<Rightarrow> am_state" where
  "am_answer AM_General = am_api_get_general_settings_answer"
| "am_answer AM_Unused = am_api_get_unused_ip_addresses_answer"
| "am_answer (AM_Nodes b) = am_api_get_nodes_answer b"
| "am_answer (AM_Add h) = am_api_add_mip_answer h"

definition am_step :: "am_action event \<Rightarrow> am_state \<Rightarrow> am_state" where
  "am_step = async_step (\<lambda>a s. snd (am_try a s)) am_answer (\<lambda>_ _ s. s)"

end
