(* ===== verification/Add_Mip_Facts.thy ===== *)
theory Add_Mip_Facts
  imports Add_Mip_Dialog Node_Form_Facts
begin

text \<open>
  The dialog that adds a MIP: what it sends and what it hands to the page was accepted by the validators, and
  the page sends just that; after a duplicate the MAC address is not checked any more.
\<close>

section \<open>The fields that are checked\<close>

definition mip_fields :: checked_fields where
  "mip_fields =
     [(''hostname'', addNodeValidators_hostname, True, test_full HOSTNAME_PATTERN),
      (''ip_address'', addNodeValidators_ip_address, True, test_full IP_CONSTRAINT),
      (''deployment_type'', COMMON_VALIDATORS_required, False, \<lambda>_. True)]"

abbreviation mip_group_ok :: "node_group \<Rightarrow> bool" where
  "mip_group_ok \<equiv> group_ok mip_fields"

interpretation mip_form: checked_form mip_fields
  by (rule checked_form.intro)
    (auto simp: mip_fields_def intro: hostname_rules.field_rules_axioms ip_rules.field_rules_axioms required_rules.field_rules_axioms)

definition checked_mip :: "js \<Rightarrow> bool" where
  "checked_mip v \<longleftrightarrow>
     (\<exists>h ip dt. js_get v ''hostname'' = JStr h \<and> test_full HOSTNAME_PATTERN h \<and>
        js_get v ''ip_address'' = JStr ip \<and> test_full IP_CONSTRAINT ip \<and> js_get v ''deployment_type'' = JStr dt \<and> dt \<noteq> [])"

fun mip_effect_ok :: "effect \<Rightarrow> bool" where
  "mip_effect_ok (Http m u v) = (m = POST \<and> u = ''/api/kit/mip'' \<longrightarrow> checked_mip v)"
| "mip_effect_ok (DialogClose v) = (v = JUndef \<or> checked_mip (js_get v ''rawValue''))"
| "mip_effect_ok _ = True"

lemma mip_group_sent:
  assumes "mip_group_ok g" "group_valid g"
  shows "checked_mip (getRawValue g)"
proof -
  note sent_text = mip_form.valid_field_text [OF assms]
  obtain h where "js_get (getRawValue g) ''hostname'' = JStr h" "test_full HOSTNAME_PATTERN h"
    using sent_text [of "''hostname''" addNodeValidators_hostname True "test_full HOSTNAME_PATTERN"] by (auto simp: mip_fields_def)
  moreover obtain ip where "js_get (getRawValue g) ''ip_address'' = JStr ip" "test_full IP_CONSTRAINT ip"
    using sent_text [of "''ip_address''" addNodeValidators_ip_address True "test_full IP_CONSTRAINT"] by (auto simp: mip_fields_def)
  moreover obtain dt where "js_get (getRawValue g) ''deployment_type'' = JStr dt" "dt \<noteq> []"
    using sent_text [of "''deployment_type''" COMMON_VALIDATORS_required False "\<lambda>_. True"] by (auto simp: mip_fields_def)
  ultimately show ?thesis unfolding checked_mip_def by blast
qed

section \<open>The invariant of the dialog\<close>

definition am_inv :: "am_state \<Rightarrow> bool" where
  "am_inv s \<longleftrightarrow> (\<forall>g. am_form s = Some g \<longrightarrow> mip_group_ok g) \<and> (\<forall>e \<in> set (sent s) \<union> set (closings s). mip_effect_ok e)"

lemma am_more: "world.more s = world.more s' \<Longrightarrow> am_form s = am_form s'" for s s' :: am_state
  by (cases s; cases s') simp

lemma am_inv_frame: "am_inv s \<Longrightarrow> world.more s' = world.more s \<Longrightarrow> sent s' = sent s \<Longrightarrow> closings s' = closings s \<Longrightarrow> am_inv s'"
  using am_more [of s' s] by (simp add: am_inv_def)

lemma am_form_effects [simp]: "am_form (emit e s) = am_form s" "am_form (call ep k s) = am_form s"
  by (simp_all add: emit_def call_def request_def http_def)

lemma am_inv_emit [simp]: "mip_effect_ok e \<Longrightarrow> am_inv s \<Longrightarrow> am_inv (emit e s)"
  by (auto simp: am_inv_def sent_def closings_def emit_def)

lemma am_inv_fields [simp]:
  "am_inv (s\<lparr>am_available_ips := a\<rparr>) = am_inv s" "am_inv (s\<lparr>am_duplicate := b\<rparr>) = am_inv s" "am_inv (s\<lparr>am_settings := a\<rparr>) = am_inv s"
  "am_inv (s\<lparr>am_arrays := arrays\<rparr>) = am_inv s" "am_inv (s\<lparr>am_arrays := arrays, am_hostnames := n, am_ips := k, am_macs := m\<rparr>) = am_inv s"
  "am_inv (s\<lparr>requests := ks\<rparr>) = am_inv s" "am_inv (s\<lparr>dialogs := ds\<rparr>) = am_inv s"
  by (simp_all add: am_inv_def sent_def closings_def)

lemma am_inv_new_form: "am_inv s \<Longrightarrow> mip_group_ok g \<Longrightarrow> am_inv (s\<lparr>am_form := Some g\<rparr>)"
  by (simp add: am_inv_def sent_def closings_def)

lemma am_inv_form:
  assumes "am_inv s" "\<And>g. mip_group_ok g \<Longrightarrow> mip_group_ok (snd (f (am_arrays s) g))"
  shows "am_inv (snd (am_on_form f s))"
proof (cases "am_form s")
  case (Some g)
  obtain e g' where g': "f (am_arrays s) g = (e, g')" by fastforce
  have "mip_group_ok g'" using assms(2) [of g] assms(1) Some g' by (simp add: am_inv_def)
  then show ?thesis by (simp add: am_on_form_def Some g' am_inv_new_form [OF assms(1)])
qed (simp add: am_on_form_def assms(1))

lemma am_inv_call: "am_inv s \<Longrightarrow> mip_effect_ok (Http (ep_method ep) (ep_url ep) (ep_body ep)) \<Longrightarrow> am_inv (call ep k s)"
  by (auto simp: am_inv_def)

lemma am_inv_then: "am_inv (snd m) \<Longrightarrow> (\<And>s. am_inv s \<Longrightarrow> am_inv (snd (f s))) \<Longrightarrow> am_inv (snd (and_then m f))"
  by (rule snd_and_then [where P = am_inv])

lemma am_inv_attempt: "am_inv s \<Longrightarrow> (\<And>t. r = Inr t \<Longrightarrow> am_inv t) \<Longrightarrow> am_inv (snd (attempt s r))"
  by (cases r) (simp_all add: attempt_def)

lemma am_inv_requests:
  "am_inv s \<Longrightarrow> am_inv (am_api_get_general_settings s)" "am_inv s \<Longrightarrow> am_inv (am_api_get_nodes b s)"
  "am_inv s \<Longrightarrow> am_inv (snd (am_api_get_unused_ip_addresses s))"
  unfolding am_api_get_general_settings_def am_api_get_nodes_def am_api_get_unused_ip_addresses_def
  by (auto intro!: am_inv_call am_inv_attempt simp: get_general_settings_def getUnusedIPAddresses_def get_nodes_def endpoint_def
      sbind_Inr_iff smap_Inr_iff)

lemma am_group_ok_new:
  assumes "am_new_group previous s = Inr g" "\<And>p. previous = Some p \<Longrightarrow> mip_group_ok p"
  shows "mip_group_ok g"
proof -
  have checked: "(''hostname'', addNodeValidators_hostname, True, test_full HOSTNAME_PATTERN) \<in> set mip_fields"
    "(''ip_address'', addNodeValidators_ip_address, True, test_full IP_CONSTRAINT) \<in> set mip_fields"
    "(''deployment_type'', COMMON_VALIDATORS_required, False, \<lambda>_. True) \<in> set mip_fields"
    by (simp_all add: mip_fields_def)
  obtain dt cs where v: "am_previous previous ''deployment_type'' = Inr dt"
    and g: "g = [(''hostname'', new_node_field (am_arrays s) JUndef (Some (addNodeValidators_hostname, Some (am_hostnames s)))),
        (''ip_address'', new_node_field (am_arrays s) JUndef (Some (addNodeValidators_ip_address, Some (am_ips s)))),
        (''deployment_type'', new_node_field (am_arrays s) dt (Some (COMMON_VALIDATORS_required, None)))] @ cs"
    using assms(1) by (auto simp: am_new_group_def Let_def smap_Inr_iff sbind_Inr_iff)
  have "text_or_missing dt"
  proof (cases previous)
    case (Some p)
    then show ?thesis
      using v assms(2) [of p] by (auto simp: am_previous_def read_field_def group_ok_def mip_fields_def field_ok_def split: option.splits)
  qed (use v in \<open>auto simp: am_previous_def\<close>)
  then have fields: "field_ok addNodeValidators_hostname True (test_full HOSTNAME_PATTERN) (the (map_of g ''hostname''))"
      "field_ok addNodeValidators_ip_address True (test_full IP_CONSTRAINT) (the (map_of g ''ip_address''))"
      "field_ok COMMON_VALIDATORS_required False (\<lambda>_. True) (the (map_of g ''deployment_type''))"
    using mip_form.new_field_ok [OF checked(1), of JUndef] mip_form.new_field_ok [OF checked(2), of JUndef]
      mip_form.new_field_ok [OF checked(3), of dt]
    by (simp_all add: g)
  have "map_of g ''hostname'' \<noteq> None" "map_of g ''ip_address'' \<noteq> None" "map_of g ''deployment_type'' \<noteq> None"
    by (simp_all add: g)
  with fields show ?thesis unfolding group_ok_def mip_fields_def by auto
qed

lemma am_inv_initialize:
  assumes "am_inv s" "previous = None \<or> previous = am_form s"
  shows "am_inv (snd (am_initialize_node_form_group previous s))"
  unfolding am_initialize_node_form_group_def
proof (rule am_inv_attempt [OF assms(1)], unfold smap_Inr_iff, elim exE conjE)
  fix t g
  let ?g = "if previous \<noteq> None then snd (set_rules None ''mac_address'' g) else g"
  assume g: "am_new_group previous s = Inr g" and t: "t = s\<lparr>am_form := Some (bind_group (am_arrays s) ?g)\<rparr>"
  have "mip_group_ok g" using g
  proof (rule am_group_ok_new)
    fix p assume "previous = Some p"
    then show "mip_group_ok p" using assms by (simp add: am_inv_def)
  qed
  then have "mip_group_ok (bind_group (am_arrays s) ?g)" by (intro mip_form.group_ok_bind) (auto intro: mip_form.group_ok_mac)
  then show "am_inv t" unfolding t by (rule am_inv_new_form [OF assms(1)])
qed

lemma am_inv_change_deployment_type: "am_inv s \<Longrightarrow> am_inv (snd (am_change_deployment_type v s))"
  unfolding am_change_deployment_type_def Let_def
  by (intro am_inv_then am_inv_form mip_form.group_ok_then mip_form.group_ok_mac mip_form.group_ok_reset am_inv_requests)
    (auto intro!: am_inv_then am_inv_form mip_form.group_ok_virtual)

lemma am_inv_choose: "am_inv s \<Longrightarrow> am_inv (snd (am_choose name (JStr t) s))"
  unfolding am_choose_def by (intro am_inv_form mip_form.group_ok_type)

lemma am_inv_with_value: "am_inv s \<Longrightarrow> (\<And>v. am_inv (snd (f v s))) \<Longrightarrow> am_inv (snd (am_with_value name f s))"
  by (simp add: am_with_value_def split: option.split)

lemma am_inv_add:
  assumes "am_inv s" "am_form s = Some g" "group_valid g"
  shows "am_inv (snd (am_add s))"
proof -
  have g: "checked_mip (getRawValue g)" using assms by (auto simp: am_inv_def intro: mip_group_sent)
  have sends: "am_inv (am_api_add_mip h s)" for h
    unfolding am_api_add_mip_def assms(2) option.case by (rule am_inv_call [OF assms(1)]) (simp add: addMip_def endpoint_def g)
  have closes: "mip_effect_ok (DialogClose (group_result g))" by (simp add: group_result_def g)
  show ?thesis
    unfolding am_add_def using assms(1,2) sends closes by (auto intro: am_inv_with_value)
qed

lemma am_try_inv: "am_inv s \<Longrightarrow> am_inv (snd (am_try e s))"
proof (cases e)
  case AM_Open_Addresses
  assume "am_inv s"
  then show ?thesis unfolding AM_Open_Addresses am_try.simps autocomplete_changed_def if_True
    by (intro am_inv_form mip_form.group_ok_then mip_form.group_ok_marks mip_form.group_ok_put_text)
next
  case (AM_Leave name)
  assume "am_inv s"
  then show ?thesis unfolding AM_Leave am_try.simps by (intro am_inv_form mip_form.group_ok_marks)
next
  case (AM_Deployment v)
  assume "am_inv s"
  then show ?thesis unfolding AM_Deployment by (auto intro!: am_inv_then am_inv_choose am_inv_change_deployment_type)
next
  case (AM_Address t)
  assume "am_inv s"
  then show ?thesis unfolding AM_Address by (auto intro: am_inv_choose split: js.splits)
next
  case AM_Click_Add
  assume "am_inv s"
  then show ?thesis unfolding AM_Click_Add by (auto intro: am_inv_add split: option.split)
qed (simp_all add: am_inv_choose am_cancel_def am_duplicate_node_change_def)

lemma am_push_inv [simp]: "am_inv (am_push i v s) = am_inv s"
  by (simp add: am_push_def)

lemma am_inv_messages:
  "am_inv s \<Longrightarrow> am_inv (generate_return_success_snackbar_message m c s)" "am_inv s \<Longrightarrow> am_inv (report_error_or_message m e s)"
  "am_inv s \<Longrightarrow> am_inv (mip_api_add_mip_error e s)"
  by (erule am_inv_frame; simp add: mip_api_add_mip_error_def split: api_error.split)+

lemma am_inv_added: "am_inv s \<Longrightarrow> am_inv (snd (am_added h s))"
  unfolding am_added_def
  by (intro am_inv_then am_inv_with_value)
    (auto simp: am_drop_available_def intro: am_inv_initialize am_inv_messages split: js.split)

lemma am_inv_loaded: "am_inv s \<Longrightarrow> am_inv (snd (am_nodes_loaded b vs s))"
proof -
  have "am_inv s \<Longrightarrow> am_inv (snd (each am_push_node vs s))" for s
    by (rule snd_each [where P = am_inv], assumption) (auto intro!: am_inv_attempt simp: am_push_node_def smap_Inr_iff)
  then show "am_inv s \<Longrightarrow> am_inv (snd (am_nodes_loaded b vs s))"
    unfolding am_nodes_loaded_def by (intro am_inv_then) (auto simp: am_new_arrays_def Let_def intro: am_inv_initialize)
qed

lemma am_answer_inv: "am_inv s \<Longrightarrow> am_inv (am_answer k r s)"
proof -
  have step: "am_inv (answered ep next_cb error_cb r s)"
    if "am_inv s" "\<And>x. am_inv (next_cb x s)" "\<And>e s'. am_inv s' \<Longrightarrow> am_inv (error_cb e s')"
    for ep :: "'z endpoint" and next_cb error_cb and s
    by (rule answered_effects [where P = am_inv]) (use that am_inv_frame in auto)
  assume "am_inv s"
  then show ?thesis
    by (cases k)
      (auto simp: am_api_get_general_settings_answer_def am_api_get_unused_ip_addresses_answer_def am_api_get_nodes_answer_def
        am_api_add_mip_answer_def intro!: step am_inv_messages am_inv_requests am_inv_loaded am_inv_added)
qed

interpretation add_mip_dialog: async_component "\<lambda>a s. snd (am_try a s)" am_answer "\<lambda>_ _ s. s" am_inv
  by unfold_locales (simp_all add: am_try_inv am_answer_inv)

definition am_open :: am_state where
  "am_open = am_ngOnInit am_constructor"

lemma am_open_inv: "am_inv am_open"
proof -
  have "am_inv am_constructor" by (simp add: am_inv_def am_constructor_def sent_def closings_def)
  then show ?thesis by (simp add: am_open_def am_ngOnInit_def am_inv_requests)
qed

lemma am_closings:
  assumes "DialogClose v \<in> set (trace (fold am_step evs am_open))"
  shows "v = JUndef \<or> checked_mip (js_get v ''rawValue'')"
proof -
  have "am_inv (fold am_step evs am_open)"
    unfolding am_step_def by (rule add_mip_dialog.machine.run_inv [OF am_open_inv])
  moreover have "DialogClose v \<in> set (closings (fold am_step evs am_open))" using assms by (simp add: closings_def)
  ultimately show ?thesis by (force simp: am_inv_def)
qed

text \<open>C24: the page of MIPs and its dialog together: however the dialog comes to its end, what the page then adds
  is nothing or a MIP whose name and address match the patterns and that has a deployment type.\<close>

theorem mip_page_adds_what_the_dialog_checked:
  assumes "DialogClose v \<in> set (trace (fold am_step evs am_open))" "i < length (dialogs s)" "dialogs s ! i = MIP_AddMip"
  shows "sent (mip_step (Closed i v) s) = sent s \<or>
    (\<exists>b. checked_mip b \<and> sent (mip_step (Closed i v) s) = sent s @ [Http POST ''/api/kit/mip'' b])"
  using am_closings [OF assms(1)] assms(2,3)
  by (auto simp: mip_step_def async_step_def mip_open_add_mip_dialog_window_closed_def mip_api_add_mip_def addMip_def endpoint_def
      notUndefNull_def sent_def)

section \<open>Duplicates\<close>

lemma new_field_value [simp]: "fd_value (new_node_field arrays v rules) = new_control v"
  by (auto simp: new_node_field_def Let_def nf_check_def settle_def field.defs new_field_def fd_validate_def smap_Inr_iff
      split: option.splits sum.splits)

text \<open>after a MIP was added as a duplicate, the next form has the MAC address of the one just added and takes
  it, because the validators of the field are removed whatever the deployment type is.\<close>

theorem am_duplicate_keeps_mac_unchecked:
  assumes "i < length (requests s)" "requests s ! i = AM_Add h" "new_GenericJobAndKeyClass v = Inr x"
    and "am_form s = Some g" "am_available_ips s = JArr ips"
    and "{''hostname'', ''ip_address'', ''deployment_type'', ''mac_address'', ''virtual_cpu'', ''virtual_mem'', ''virtual_os''} \<subseteq> fst ` set g"
  shows "\<exists>g' c. am_form (am_step (Answer i (Reply v)) s) = Some g' \<and> map_of g' ''mac_address'' = Some c \<and>
    Inr (fd_value c) = smap new_control (read_field ''mac_address'' g) \<and> fd_rules c = None \<and> fd_valid c"
proof -
  have "\<exists>c. map_of g n = Some c" if "n \<in> {''hostname'', ''ip_address'', ''deployment_type'', ''mac_address'', ''virtual_cpu'', ''virtual_mem'', ''virtual_os''}" for n
  proof -
    have "n \<in> fst ` set g" using that assms(6) by blast
    then show ?thesis by (cases "map_of g n") (auto simp: map_of_eq_None_iff)
  qed
  then obtain fh fi fd fm fc fe fo where f: "map_of g ''hostname'' = Some fh" "map_of g ''ip_address'' = Some fi"
      "map_of g ''deployment_type'' = Some fd" "map_of g ''mac_address'' = Some fm" "map_of g ''virtual_cpu'' = Some fc"
      "map_of g ''virtual_mem'' = Some fe" "map_of g ''virtual_os'' = Some fo"
    by (meson insertCI)
  let ?s = "s\<lparr>requests := remove_nth i (requests s)\<rparr>"
  define t1 where "t1 = ?s\<lparr>am_available_ips := JArr (filter (\<lambda>v. \<not> strict_eq v (fd_value fi)) ips)\<rparr>"
  define t2 where "t2 = am_push (am_ips t1) (fd_value fi) t1"
  define t3 where "t3 = am_push (am_hostnames t2) (fd_value fh) t2"
  define t where "t = (if notUndefNull (fd_value fm) then am_push (am_macs t3) (fd_value fm) t3 else t3)"
  have forms: "am_form t1 = Some g" "am_form t2 = Some g" "am_form t3 = Some g" "am_form t = Some g"
    by (simp_all add: t_def t3_def t2_def t1_def am_push_def assms(4))
  have "am_with_value ''ip_address'' am_drop_available ?s = (None, t1)"
    by (simp add: am_with_value_def assms(4,5) f am_drop_available_def t1_def done_with_def)
  moreover have "am_with_value ''ip_address'' (\<lambda>ip s. done_with (am_push (am_ips s) ip s)) t1 = (None, t2)"
    by (simp add: am_with_value_def forms f t2_def done_with_def)
  moreover have "am_with_value ''hostname'' (\<lambda>h s. done_with (am_push (am_hostnames s) h s)) t2 = (None, t3)"
    by (simp add: am_with_value_def forms f t3_def done_with_def)
  moreover have "am_with_value ''mac_address'' (\<lambda>m s. done_with (if notUndefNull m then am_push (am_macs s) m s else s)) t3 = (None, t)"
    by (simp add: am_with_value_def forms f t_def done_with_def)
  moreover have total: "fst (am_initialize_node_form_group (Some g) t) = None"
    using f by (simp add: am_initialize_node_form_group_def attempt_def am_new_group_def am_previous_def read_field_def Let_def)
  ultimately have added: "snd (am_added h ?s) = generate_return_success_snackbar_message (''started node creation job for '' @ str h @ ''.'')
      (Some MAT_SNACKBAR_CONFIGURATION_60000_DUR_DISMISS) (snd (am_initialize_node_form_group (Some g) t))"
    by (simp add: am_added_def forms) (cases "am_initialize_node_form_group (Some g) t"; simp)
  let ?c = "new_node_field (am_arrays t) (fd_value fm) (am_mac_rules t)\<lparr>fd_rules := None, nf_unique := None\<rparr>"
  have "\<exists>g'. am_form (snd (am_initialize_node_form_group (Some g) t)) = Some g' \<and> map_of g' ''mac_address'' = Some (?c\<lparr>fd_valid := True\<rparr>)"
    using f by (simp add: am_initialize_node_form_group_def attempt_def am_new_group_def am_previous_def read_field_def Let_def set_rules_def
        on_field_def bind_group_def settle_def nf_check_def)
  moreover have "am_form (am_step (Answer i (Reply v)) s) = am_form (snd (am_initialize_node_form_group (Some g) t))"
    using added am_more [of "snd (am_added h ?s)" "snd (am_initialize_node_form_group (Some g) t)"]
    by (simp add: am_step_def async_step_def assms(1,2) am_api_add_mip_answer_def answered_def subscribe_def addMip_def endpoint_def assms(3))
  ultimately show ?thesis using f(4) by (auto simp: read_field_def)
qed

section \<open>An example\<close>

definition mip_example_events :: "am_action event list" where
  "mip_example_events =
     [Answer 1 (Reply (JArr [])), Answer 0 (Reply (JObj [(''controller_interface'', JStr ''10.0.0.1''), (''netmask'', JStr ''255.255.255.0'')])),
      Answer 0 (Reply (JArr [JStr ''10.0.0.5''])), Act (AM_Type ''hostname'' ''mip10''), Act (AM_Address ''10.0.0.5''),
      Act (AM_Deployment VIRTUAL), Act AM_Click_Add]"

definition mip_example_result :: js where
  "mip_example_result = JObj [(''valid'', JBool True), (''rawValue'', JObj [(''hostname'', JStr ''mip10''), (''ip_address'', JStr ''10.0.0.5''),
     (''deployment_type'', VIRTUAL), (''mac_address'', JNull), (''virtual_cpu'', JNum 8), (''virtual_mem'', JNum 8), (''virtual_os'', JNum 500)])]"

lemma mip_example_closes: "DialogClose mip_example_result \<in> set (trace (fold am_step mip_example_events am_open))"
  by code_simp

theorem mip_page_adds_what_the_dialog_checked_witness:
  "\<forall>s. DialogClose mip_example_result \<in> set (trace (fold am_step mip_example_events am_open)) \<and>
    (\<exists>b. checked_mip b \<and> sent (mip_step (Closed 0 mip_example_result) (s\<lparr>dialogs := [MIP_AddMip]\<rparr>)) = sent s @ [Http POST ''/api/kit/mip'' b])"
proof
  fix s :: mip_state
  have "sent (mip_step (Closed 0 mip_example_result) (s\<lparr>dialogs := [MIP_AddMip]\<rparr>)) \<noteq> sent s"
    by (simp add: mip_step_def async_step_def mip_open_add_mip_dialog_window_closed_def mip_api_add_mip_def mip_example_result_def
        notUndefNull_def sent_def)
  then show "DialogClose mip_example_result \<in> set (trace (fold am_step mip_example_events am_open)) \<and>
      (\<exists>b. checked_mip b \<and> sent (mip_step (Closed 0 mip_example_result) (s\<lparr>dialogs := [MIP_AddMip]\<rparr>)) = sent s @ [Http POST ''/api/kit/mip'' b])"
    using mip_page_adds_what_the_dialog_checked [OF mip_example_closes, of 0 "s\<lparr>dialogs := [MIP_AddMip]\<rparr>"] mip_example_closes
    by (simp add: sent_def)
qed

theorem am_duplicate_keeps_mac_unchecked_witness:
  "\<exists>g' c. am_form (am_step (Answer 0 (Reply (JObj []))) (am_constructor\<lparr>requests := [AM_Add (JStr ''mip10'')],
      am_form := Some (map (\<lambda>n. (n, new_node_field [] (JStr ''00:00:00:00:00:01'') None))
        [''hostname'', ''ip_address'', ''deployment_type'', ''mac_address'', ''virtual_cpu'', ''virtual_mem'', ''virtual_os''])\<rparr>)) = Some g' \<and>
    map_of g' ''mac_address'' = Some c \<and> fd_value c = JStr ''00:00:00:00:00:01'' \<and> fd_rules c = None \<and> fd_valid c"
proof -
  let ?g = "map (\<lambda>n. (n, new_node_field [] (JStr ''00:00:00:00:00:01'') None))
      [''hostname'', ''ip_address'', ''deployment_type'', ''mac_address'', ''virtual_cpu'', ''virtual_mem'', ''virtual_os'']"
  obtain x where "new_GenericJobAndKeyClass (JObj []) = Inr x"
    by (simp add: new_GenericJobAndKeyClass_def construct_def copy_def notUndefNull_def)
  from am_duplicate_keeps_mac_unchecked [of 0 "am_constructor\<lparr>requests := [AM_Add (JStr ''mip10'')], am_form := Some ?g\<rparr>" "JStr ''mip10''" "JObj []" x ?g "[]", OF _ _ this]
  show ?thesis by (simp add: am_constructor_def read_field_def)
qed

end
