(* ===== verification/Spec2Isabelle.thy ===== *)
theory Spec2Isabelle
  imports Access_Control Node_Management Policy_Management Mip_Management Notifications Elasticsearch_Scale Security_Alerts_Facts Agent_Builder_Facts
    Agent_Dialogs Catalog_Facts More_Services Text_Editor_Facts Rule_Dialogs_Facts Health_Facts Settings_Facts Vmware_Facts Kit_Tokens_Facts Index_Facts Job_Console Portal_Page Pcap_Page Tools_Facts Support_Page Add_Node_Facts Add_Mip_Facts
begin

text \<open>
  A verification development for the web frontend of TFPlenum, the Angular application under
  \<open>src/web/frontend/src/app/\<close> (paths below are relative to it).

  \<^bold>\<open>The program.\<close> The frontend configures and operates a kit of nodes. Its pages (\<open>modules/\<close>) are
  Angular components: a page keeps a few fields, its methods send requests through the services
  (\<open>services/\<close>) and open dialogs, and the callbacks given to \<open>subscribe\<close> change the fields when an
  answer or the result of a dialog arrives. Answers become objects of the data classes (\<open>classes/\<close>).
  All pages report through one snack bar service, all requests pass an interceptor, every service
  handles errors with the methods of \<open>ApiService\<close>, route guards and the side navigation decide
  who sees which page, and forms are checked by validators and regular expressions.

  \<^bold>\<open>How it is modelled.\<close> JavaScript values are the datatype \<open>js\<close>; code that may throw returns
  \<open>js_error + 'a\<close>. The state of a component is a record that extends \<open>world\<close> (the trace of effects
  and the reference of the snack bar service) or \<open>async\<close> (also the requests that wait for an answer and
  the open dialogs, with the values their callbacks captured). A method is a function on the state; a
  method with a \<open>subscribe\<close> is two functions, the one that sends and the one with suffix \<open>_answer\<close>
  or \<open>_closed\<close> that is the callback. A component is the step function over events, which are user
  actions, answers and closed dialogs in any order and number; so every theorem about \<open>fold step\<close> holds
  under all interleavings. Where the code depends on the identity of objects, the state has references
  or a heap.

  \<^bold>\<open>The theories.\<close>
  \<^item> \<open>Prelude\<close>: values, strings, arrays and effects of JavaScript and the browser; the locale
    \<open>event_machine\<close> (a step function that keeps an invariant).
  \<^item> \<open>Patterns\<close>: regular expressions with a matcher by derivatives, proved to decide the language; the
    patterns of \<open>constants/cvah.constants.ts\<close> and \<open>validators/add-node.validator.ts\<close> and what they
    really accept.
  \<^item> \<open>Data_Methods\<close>: \<open>classes/data-methods.class.ts\<close>, \<open>classes/object-utilities.class.ts\<close>; the subnet
    test on 32-bit words is proved equal to comparing network prefixes.
  \<^item> \<open>Api_Service\<close>: \<open>services/mat-snackbar.service.ts\<close>, \<open>services/abstract/api.service.ts\<close>,
    \<open>interceptors/unauthorized.interceptor.ts\<close>: the protocol of the snack bar reference and the
    classification of backend errors.
  \<^item> \<open>Validators\<close>: the validators and the validator tables; the password policy as a declarative
    predicate.
  \<^item> \<open>Access_Control\<close>: \<open>services/user.service.ts\<close>, the guards, the route table and the side
    navigation; the locale \<open>role_guard\<close> is interpreted by the three guards.
  \<^item> \<open>Data_Classes\<close>, \<open>Async\<close>, \<open>Backend\<close>: the constructors of the data classes, the machinery of
    asynchronous components with the locale \<open>async_component\<close>, and the service methods as endpoints
    (request, name for the error handler, decoder).
  \<^item> \<open>Sorting_Service\<close>: \<open>services/sorting.service.ts\<close> over an arbitrary locale order.
  \<^item> \<open>Node_Management\<close>: \<open>modules/node-mng/node-mng.component.ts\<close>.
  \<^item> \<open>Policy_Management\<close>: \<open>modules/policy-management/policy-management.component.ts\<close> on a heap of
    rule sets and rule arrays.
  \<^item> \<open>Mip_Management\<close>: \<open>modules/mip-mng/mip-mng.component.ts\<close>.
  \<^item> \<open>Notifications\<close>: the bell and the dialog of \<open>modules/notifications/\<close> over the buttons they
    share, proved to refine one abstract list of notifications.
  \<^item> \<open>Elasticsearch_Scale\<close>: \<open>modules/elasticsearch-scale/\<close>.
  \<^item> \<open>Json\<close>, \<open>Json_Pretty\<close>, \<open>Dates\<close>: \<open>JSON.parse\<close>, \<open>JSON.stringify\<close>, \<open>Date\<close> and \<open>toISOString\<close> of JavaScript as far
    as the frontend uses them, with their round trips.
  \<^item> \<open>Cookies\<close>: \<open>services/cookies.service.ts\<close> over \<open>document.cookie\<close>; the locale \<open>settings_store\<close>
    states what a page needs of it.
  \<^item> \<open>Alert_Service\<close>, \<open>Security_Alerts\<close>, \<open>Security_Alerts_Facts\<close>: \<open>modules/security-alerts/\<close> without
    its drill down dialog: the services, the page and its properties.
  \<^item> \<open>Agent_Builder\<close>, \<open>Agent_Builder_Facts\<close>: \<open>modules/agent-builder-chooser/\<close>, the page that deploys
    Windows agents, on a heap of target configurations and hosts.
  \<^item> \<open>Form_Fields\<close>, \<open>Agent_Dialogs\<close>: form fields with their validators, and the dialogs of that page.
  \<^item> \<open>Catalog_Page\<close>, \<open>Catalog_Facts\<close>: \<open>modules/catalog/components/catalog-page/\<close>, the page that installs,
    reinstalls and uninstalls an application.
  \<^item> \<open>Node_Forms\<close>, \<open>Node_Form_Facts\<close>, \<open>Add_Node_Dialog\<close>, \<open>Add_Node_Facts\<close>, \<open>Add_Mip_Dialog\<close>, \<open>Add_Mip_Facts\<close>: the
    form of a virtual machine and the dialogs that add a node and a MIP, with the arrays their validators capture; the
    locale \<open>field_rules\<close> is the contract of a validator table, \<open>checked_form\<close> that of a form checked by such tables.
  \<^item> \<open>More_Services\<close>: the services of the health dashboard, the tools, the settings, the jobs and the
    captures, with their data classes.
  \<^item> \<open>Effects\<close>: the effects of one kind in a trace, and what the shared error callbacks add to them; the
    frame lemmas of the pages below rest on it.
  \<^item> \<open>Text_Editor\<close>, \<open>Config_Maps\<close>, \<open>Text_Editor_Facts\<close>: the text editor of
    \<open>modules/ngx-monaco-text-editor/\<close> and \<open>modules/config-map/\<close>, the page that edits
    configuration maps with it.
  \<^item> \<open>Rule_Dialogs\<close>, \<open>Rule_Dialogs_Facts\<close>: the dialogs of the policy page (a rule, a rule set, the upload and the
    validation of rules).
  \<^item> \<open>Health_Dashboard\<close>, \<open>Health_Facts\<close>: \<open>modules/health-dashboard/\<close> with its tables of nodes, pods and datastores.
  \<^item> \<open>Settings_Forms\<close>, \<open>Settings_State\<close>, \<open>General_Settings\<close>, \<open>Kit_Settings\<close>: the page \<open>modules/system-settings/\<close> with its
    children for the general, the MIP and the kit settings, their forms and the detection of changes between them;
    \<open>Settings_Form_Facts\<close>, \<open>Mip_Settings_Facts\<close>, \<open>Settings_Refs\<close> and \<open>Settings_Facts\<close> hold its properties.
  \<^item> \<open>Vmware_Settings\<close>, \<open>Vmware_Facts\<close> and \<open>Kit_Tokens\<close>, \<open>Kit_Tokens_Facts\<close>: the children of that page for VMware
    and for the tokens of kits.
  \<^item> \<open>Index_Management\<close>, \<open>Index_Facts\<close>: \<open>modules/elasticsearch-index-management/\<close>.
  \<^item> \<open>Job_Console\<close>: \<open>modules/server-stdout/\<close>, the console of a job.
  \<^item> \<open>Modal_Dialog\<close>: the dialog that shows the controls of a form group of its page; the locale \<open>dialog_contract\<close>
    gives what a page may rely on when every change of a control keeps a condition.
  \<^item> \<open>Portal_Page\<close>, \<open>Pcap_Page\<close>, \<open>Support_Page\<close>: \<open>modules/portal/\<close>, which interprets \<open>dialog_contract\<close>,
    \<open>modules/pcap-form/\<close> and \<open>modules/pmo-support/\<close>.
  \<^item> \<open>Tools_Page\<close>, \<open>Tools_Facts\<close>: \<open>modules/tools/\<close> (the password of the kit, the maintenance of nodes, the
    documentation and the license).

  \<^bold>\<open>What the lemmas show.\<close> Each component theory first proves its frame lemmas, then that every handler
  keeps the invariant of the component, and interprets \<open>async_component\<close> with it; the properties
  about all reachable states rest on that interpretation. The other properties are the functional
  behaviour of single operations, the safety of destructive requests (they are sent only when the
  dialog that names the object is confirmed), and the behaviour of the code where it differs from its
  intention, stated as it is.

  \<^bold>\<open>Bounds.\<close> Strings are lists of 8-bit characters and numbers are integers (the frontend computes
  with no fractions in what is modelled but for the sizes of the health dashboard, which are kept in
  hundredths). The loops of the source run over lists and strings and need no fuel, but for the
  loop that shows a size, \<open>space_loop\<close> of \<open>Health_Dashboard\<close>: it is a \<open>partial_function (option)\<close>, where not
  ending is \<open>None\<close>, and \<open>space_loop_ends\<close> shows when it ends and with which result. The only fuel is that of the JSON parser, twice the length of its text and one more; the round trip
  \<open>json_round_trip\<close> shows that it is enough. The search for the year of a day is a \<open>function\<close> with its
  termination proof.

  \<^bold>\<open>Not modelled.\<close> The HTML templates, styles, paginators and sort headers; Angular, RxJS and the browser
  beyond the behaviour stated above; the locale order of strings, which is a parameter; the end of a
  subscription when a page is left (\<open>untilDestroyed\<close>): a page that was left handles no event. The
  remaining pages and dialogs of \<open>modules/\<close> (the list of applications of the catalog, the ingest of cold logs, the
  drill down of an alert, the top navigation bar, the Docker registry, the clock and the state of a node), and the parts of the repository in other languages (the
  Python backend, the Ansible playbooks), are not modelled.
\<close>

end
